(* ===== verification/Prelude.thy ===== *)
theory Prelude
  imports Main "HOL-Library.AList"
begin

text \<open>
  What every component shares: the errors of \<open>src/src/domain/errors.ts\<close>, results and
  stateful actions that may throw, the pre/postcondition calculus \<open>runs\<close> for them,
  JavaScript \<open>Map\<close> objects as insertion-ordered association lists, and the time values
  the services store.

  An error is its code and HTTP status; the human-readable message and the details object are
  not modelled, except for the approval id and deadline that an approval-required refusal
  carries. \<open>JsError\<close> is a plain JavaScript \<open>Error\<close> (the raw-unit helpers throw those).
\<close>

named_theorems runs_simps "equations that compute the outcome of an action"

section \<open>Errors and results\<close>

datatype error =
    SublyError string nat
  | ApprovalRequiredError string string int
  | JsError string

type_synonym 'a result = "error + 'a"

definition badRequest :: "string \<Rightarrow> error" where
  "badRequest code = SublyError code 400"

definition notFound :: "string \<Rightarrow> error" where
  "notFound code = SublyError code 404"

definition conflict :: "string \<Rightarrow> error" where
  "conflict code = SublyError code 409"

definition forbidden :: "string \<Rightarrow> error" where
  "forbidden code = SublyError code 403"

definition unavailable :: "string \<Rightarrow> error" where
  "unavailable code = SublyError code 501"

definition http_status :: "error \<Rightarrow> nat option" where
  "http_status e = (case e of SublyError _ n \<Rightarrow> Some n
     | ApprovalRequiredError _ _ _ \<Rightarrow> Some 409 | JsError _ \<Rightarrow> None)"

lemmas error_defs =
  badRequest_def notFound_def conflict_def forbidden_def unavailable_def

definition bindR :: "'a result \<Rightarrow> ('a \<Rightarrow> 'b result) \<Rightarrow> 'b result" where
  "bindR r f = (case r of Inl e \<Rightarrow> Inl e | Inr x \<Rightarrow> f x)"

lemma bindR_simps [simp]:
  "bindR (Inl e) f = Inl e"
  "bindR (Inr x) f = f x"
  by (simp_all add: bindR_def)

lemma bindR_Inr: "bindR r f = Inr y \<longleftrightarrow> (\<exists>x. r = Inr x \<and> f x = Inr y)"
  by (cases r) auto

lemma bindR_Inl: "bindR r f = Inl e \<longleftrightarrow> r = Inl e \<or> (\<exists>x. r = Inr x \<and> f x = Inl e)"
  by (cases r) auto

definition checkR :: "bool \<Rightarrow> error \<Rightarrow> unit result" where
  "checkR c e = (if c then Inr () else Inl e)"

lemma checkR_simps [simp]:
  "checkR True e = Inr ()"
  "checkR False e = Inl e"
  "checkR c e = Inr () \<longleftrightarrow> c"
  "checkR c e = Inl e' \<longleftrightarrow> \<not> c \<and> e' = e"
  by (auto simp: checkR_def)

section \<open>Actions: state passing with exceptions\<close>

text \<open>
  A service method is a function of the ledger. It returns a value or throws, and in both
  cases leaves a ledger behind: a throw does not undo the writes made before it. Whether the
  enclosing lock then keeps or rolls back those writes is the business of the ledger
  implementation (theory \<open>Ledger_Store\<close>).
\<close>

type_synonym ('s, 'a) action = "'s \<Rightarrow> 'a result \<times> 's"

definition returnA :: "'a \<Rightarrow> ('s, 'a) action" where
  "returnA x s = (Inr x, s)"

definition throwA :: "error \<Rightarrow> ('s, 'a) action" where
  "throwA e s = (Inl e, s)"

definition bindA :: "('s, 'a) action \<Rightarrow> ('a \<Rightarrow> ('s, 'b) action) \<Rightarrow> ('s, 'b) action" where
  "bindA m f s = (case m s of (Inl e, t) \<Rightarrow> (Inl e, t) | (Inr x, t) \<Rightarrow> f x t)"

definition assertA :: "bool \<Rightarrow> error \<Rightarrow> ('s, unit) action" where
  "assertA c e = (if c then returnA () else throwA e)"

definition liftR :: "'a result \<Rightarrow> ('s, 'a) action" where
  "liftR r s = (r, s)"

definition getsA :: "('s \<Rightarrow> 'a) \<Rightarrow> ('s, 'a) action" where
  "getsA f s = (Inr (f s), s)"

definition modifyA :: "('s \<Rightarrow> 's) \<Rightarrow> ('s, unit) action" where
  "modifyA f s = (Inr (), f s)"

definition readA :: "('s \<Rightarrow> 'a result) \<Rightarrow> ('s, 'a) action" where
  "readA f s = (f s, s)"

text \<open>\<open>try m catch (error) handler\<close>.\<close>

definition catchA :: "('s, 'a) action \<Rightarrow> (error \<Rightarrow> ('s, 'a) action) \<Rightarrow> ('s, 'a) action" where
  "catchA m handler s = (case m s of (Inl e, t) \<Rightarrow> handler e t | (Inr x, t) \<Rightarrow> (Inr x, t))"

fun mapA :: "('a \<Rightarrow> ('s, 'b) action) \<Rightarrow> 'a list \<Rightarrow> ('s, 'b list) action" where
  "mapA f [] = returnA []"
| "mapA f (x # xs) = bindA (f x) (\<lambda>y. bindA (mapA f xs) (\<lambda>ys. returnA (y # ys)))"

fun forA :: "'a list \<Rightarrow> ('a \<Rightarrow> ('s, unit) action) \<Rightarrow> ('s, unit) action" where
  "forA [] f = returnA ()"
| "forA (x # xs) f = bindA (f x) (\<lambda>_. forA xs f)"

lemmas action_defs =
  returnA_def throwA_def bindA_def assertA_def liftR_def getsA_def modifyA_def readA_def

subsection \<open>Outcomes\<close>

text \<open>
  \<open>runs m s Q E\<close>: started in \<open>s\<close>, the action either returns a value and a state
  satisfying \<open>Q\<close> or throws an error in a state satisfying \<open>E\<close>. The equations below
  push \<open>runs\<close> through the combinators, so that a handler is verified by rewriting.
\<close>

definition runs :: "('s, 'a) action \<Rightarrow> 's \<Rightarrow> ('a \<Rightarrow> 's \<Rightarrow> bool) \<Rightarrow> (error \<Rightarrow> 's \<Rightarrow> bool) \<Rightarrow> bool" where
  "runs m s Q E = (case m s of (Inl e, t) \<Rightarrow> E e t | (Inr x, t) \<Rightarrow> Q x t)"

lemma runs_return [simp, runs_simps]: "runs (returnA x) s Q E = Q x s"
  by (simp add: runs_def returnA_def)

lemma runs_throw [simp, runs_simps]: "runs (throwA e) s Q E = E e s"
  by (simp add: runs_def throwA_def)

lemma runs_bind [simp, runs_simps]:
  "runs (bindA m f) s Q E = runs m s (\<lambda>x t. runs (f x) t Q E) E"
  by (auto simp: runs_def bindA_def split: prod.splits sum.splits)

lemma runs_assert [simp, runs_simps]:
  "runs (assertA c e) s Q E = (if c then Q () s else E e s)"
  by (simp add: assertA_def)

lemma runs_lift [simp, runs_simps]:
  "runs (liftR r) s Q E = (case r of Inl e \<Rightarrow> E e s | Inr x \<Rightarrow> Q x s)"
  by (simp add: runs_def liftR_def)

lemma runs_gets [simp, runs_simps]: "runs (getsA f) s Q E = Q (f s) s"
  by (simp add: runs_def getsA_def)

lemma runs_read [simp, runs_simps]:
  "runs (readA f) s Q E = (case f s of Inl e \<Rightarrow> E e s | Inr x \<Rightarrow> Q x s)"
  by (simp add: runs_def readA_def split: sum.splits)

lemma runs_modify [simp, runs_simps]: "runs (modifyA f) s Q E = Q () (f s)"
  by (simp add: runs_def modifyA_def)

lemma runs_catch [simp, runs_simps]: "runs (catchA m h) s Q E = runs m s Q (\<lambda>e t. runs (h e) t Q E)"
  by (auto simp: runs_def catchA_def split: prod.splits sum.splits)

lemma runs_if [simp, runs_simps]:
  "runs (if c then m else n) s Q E = (if c then runs m s Q E else runs n s Q E)"
  by simp

lemma runs_option [simp, runs_simps]:
  "runs (case x of None \<Rightarrow> m | Some y \<Rightarrow> f y) s Q E =
     (case x of None \<Rightarrow> runs m s Q E | Some y \<Rightarrow> runs (f y) s Q E)"
  by (cases x) simp_all

lemma runs_sum [simp, runs_simps]:
  "runs (case x of Inl a \<Rightarrow> m a | Inr b \<Rightarrow> f b) s Q E =
     (case x of Inl a \<Rightarrow> runs (m a) s Q E | Inr b \<Rightarrow> runs (f b) s Q E)"
  by (cases x) simp_all

lemma runs_let [simp, runs_simps]:
  "runs (Let x f) s Q E = (let y = x in runs (f y) s Q E)"
  by (simp add: Let_def)

lemma runs_mono:
  assumes "runs m s Q E"
    and "\<And>x t. Q x t \<Longrightarrow> Q' x t" and "\<And>e t. E e t \<Longrightarrow> E' e t"
  shows "runs m s Q' E'"
  using assms by (auto simp: runs_def split: prod.splits sum.splits)

text \<open>An action known by a specification, followed by another.\<close>

lemma runs_seq:
  assumes "runs m s R R'" "\<And>x t. R x t \<Longrightarrow> runs (f x) t Q E" "\<And>e t. R' e t \<Longrightarrow> E e t"
  shows "runs (bindA m f) s Q E"
  using assms by (auto intro: runs_mono)

lemma runs_conj:
  "runs m s Q E \<Longrightarrow> runs m s Q' E' \<Longrightarrow> runs m s (\<lambda>x t. Q x t \<and> Q' x t) (\<lambda>e t. E e t \<and> E' e t)"
  by (auto simp: runs_def split: prod.splits sum.splits)

lemma runs_InrD: "runs m s Q E \<Longrightarrow> m s = (Inr x, t) \<Longrightarrow> Q x t"
  by (simp add: runs_def)

lemma runs_InlD: "runs m s Q E \<Longrightarrow> m s = (Inl e, t) \<Longrightarrow> E e t"
  by (simp add: runs_def)

lemma runsI:
  "(\<And>x t. m s = (Inr x, t) \<Longrightarrow> Q x t) \<Longrightarrow> (\<And>e t. m s = (Inl e, t) \<Longrightarrow> E e t) \<Longrightarrow> runs m s Q E"
  by (auto simp: runs_def split: prod.splits sum.splits)

lemma runs_snd: "runs m s (\<lambda>_ t. P t) (\<lambda>_ t. P t) \<longleftrightarrow> P (snd (m s))"
  by (auto simp: runs_def split: prod.splits sum.splits)

lemma runs_state: "runs m s (\<lambda>_. P) (\<lambda>_. P) \<longleftrightarrow> P (snd (m s))"
  by (rule runs_snd)

text \<open>A loop keeps what its body keeps.\<close>

lemma runs_for:
  assumes body: "\<And>x t. x \<in> set xs \<Longrightarrow> I t \<Longrightarrow> runs (f x) t (\<lambda>_ u. I u) (\<lambda>_ u. I u)"
    and init: "I s"
  shows "runs (forA xs f) s (\<lambda>_ t. I t) (\<lambda>_ t. I t)"
  using assms
proof (induction xs arbitrary: s)
  case Nil
  then show ?case by simp
next
  case (Cons x xs)
  have "runs (f x) s (\<lambda>_ u. I u) (\<lambda>_ u. I u)" using Cons.prems by simp
  then have "runs (f x) s (\<lambda>_ t. runs (forA xs f) t (\<lambda>_ u. I u) (\<lambda>_ u. I u)) (\<lambda>_ u. I u)"
    by (rule runs_mono) (use Cons in auto)
  then show ?case by simp
qed

lemma runs_map:
  assumes "\<And>x t. x \<in> set xs \<Longrightarrow> I t \<Longrightarrow> runs (f x) t (\<lambda>_ u. I u) (\<lambda>_ u. I u)" and "I s"
  shows "runs (mapA f xs) s (\<lambda>_ t. I t) (\<lambda>_ t. I t)"
  using assms
proof (induction xs arbitrary: s)
  case Nil
  then show ?case by simp
next
  case (Cons x xs)
  have "runs (f x) s (\<lambda>_ u. I u) (\<lambda>_ u. I u)" using Cons.prems by simp
  then have "runs (f x) s (\<lambda>_ t. runs (mapA f xs) t (\<lambda>_ u. I u) (\<lambda>_ u. I u)) (\<lambda>_ u. I u)"
    by (rule runs_mono) (use Cons in auto)
  then show ?case by simp
qed

text \<open>A loop of pure writes is a fold.\<close>

lemma forA_modify: "forA xs (\<lambda>x. modifyA (f x)) s = (Inr (), fold f xs s)"
  by (induction xs arbitrary: s) (simp_all add: action_defs)

lemma runs_for_modify [simp, runs_simps]:
  "runs (forA xs (\<lambda>x. modifyA (f x))) s Q E = Q () (fold f xs s)"
  by (simp add: runs_def forA_modify)

text \<open>A handler whose effect is a sequence of steps of a transition system.\<close>

abbreviation along :: "('s \<Rightarrow> 's \<Rightarrow> bool) \<Rightarrow> ('s, 'a) action \<Rightarrow> 's \<Rightarrow> bool" where
  "along step m s \<equiv> runs m s (\<lambda>_. step\<^sup>*\<^sup>* s) (\<lambda>_. step\<^sup>*\<^sup>* s)"

lemma along_step: "step s (snd (m s)) \<Longrightarrow> along step m s"
  by (subst runs_snd) auto

lemma along_bind_post:
  assumes "along step m s" and "runs m s Q (\<lambda>_ _. True)"
    and "\<And>x t. step\<^sup>*\<^sup>* s t \<Longrightarrow> Q x t \<Longrightarrow> along step (f x) t"
  shows "along step (bindA m f) s"
  unfolding runs_bind
proof (rule runs_mono[OF runs_conj[OF assms(1,2)]])
  fix x t
  assume *: "step\<^sup>*\<^sup>* s t \<and> Q x t"
  then show "runs (f x) t (\<lambda>_. step\<^sup>*\<^sup>* s) (\<lambda>_. step\<^sup>*\<^sup>* s)"
    by (intro runs_mono[OF assms(3)]) auto
qed auto

lemma along_bind:
  assumes "along step m s" and "\<And>x t. step\<^sup>*\<^sup>* s t \<Longrightarrow> along step (f x) t"
  shows "along step (bindA m f) s"
  by (rule along_bind_post[OF assms(1) runs_mono[OF assms(1)], of "\<lambda>_ _. True"]) (simp_all add: assms(2))

lemma along_pure: "along step (returnA x) s" "along step (getsA f) s" "along step (throwA e) s"
  "along step (assertA c e) s"
  by auto

section \<open>JavaScript maps\<close>

text \<open>
  A JavaScript \<open>Map\<close> iterates in insertion order and keeps the place of a key that is set
  again. \<open>AList.update\<close> does exactly this on an association list.
\<close>

type_synonym ('k, 'v) js_map = "('k \<times> 'v) list"

definition map_get :: "('k, 'v) js_map \<Rightarrow> 'k \<Rightarrow> 'v option" where
  "map_get m k = map_of m k"

definition map_set :: "'k \<Rightarrow> 'v \<Rightarrow> ('k, 'v) js_map \<Rightarrow> ('k, 'v) js_map" where
  "map_set k v m = AList.update k v m"

definition map_values :: "('k, 'v) js_map \<Rightarrow> 'v list" where
  "map_values m = map snd m"

definition map_delete :: "'k \<Rightarrow> ('k, 'v) js_map \<Rightarrow> ('k, 'v) js_map" where
  "map_delete k m = AList.delete k m"

definition map_ok :: "('k, 'v) js_map \<Rightarrow> bool" where
  "map_ok m \<longleftrightarrow> distinct (map fst m)"

lemma map_get_set [simp]: "map_get (map_set k v m) k' = (if k' = k then Some v else map_get m k')"
  by (simp add: map_get_def map_set_def update_conv')

lemma map_get_delete [simp]: "map_get (map_delete k m) k' = (if k' = k then None else map_get m k')"
  by (simp add: map_get_def map_delete_def delete_conv')

lemma map_get_Nil [simp]: "map_get [] k = None"
  by (simp add: map_get_def)

lemma map_ok_Nil [simp]: "map_ok []"
  by (simp add: map_ok_def)

lemma map_ok_set [simp, intro]: "map_ok m \<Longrightarrow> map_ok (map_set k v m)"
  by (simp add: map_ok_def map_set_def distinct_update)

lemma map_ok_delete [simp, intro]: "map_ok m \<Longrightarrow> map_ok (map_delete k m)"
  by (simp add: map_ok_def map_delete_def distinct_delete)

lemma map_values_Nil [simp]: "map_values [] = []"
  by (simp add: map_values_def)

lemma map_values_conv:
  "map_ok m \<Longrightarrow> set (map_values m) = {v. \<exists>k. map_get m k = Some v}"
  by (force simp: map_ok_def map_values_def map_get_def)

lemma in_map_values: "map_ok m \<Longrightarrow> v \<in> set (map_values m) \<longleftrightarrow> (\<exists>k. map_get m k = Some v)"
  by (simp add: map_values_conv)

text \<open>Setting a key replaces its old contribution to a sum over the values by the new one.\<close>

definition old_part :: "('v \<Rightarrow> int) \<Rightarrow> 'v option \<Rightarrow> int" where
  "old_part f x = (case x of None \<Rightarrow> 0 | Some v \<Rightarrow> f v)"

lemma old_part_simps [simp]: "old_part f None = 0" "old_part f (Some v) = f v"
  by (simp_all add: old_part_def)

lemma sum_map_set:
  "map_ok m \<Longrightarrow> (\<Sum>v\<leftarrow>map_values (map_set k v m). f v)
     = (\<Sum>v\<leftarrow>map_values m. f v) - old_part f (map_get m k) + f v" for f :: "'v \<Rightarrow> int"
proof (induction m)
  case Nil
  then show ?case by (simp add: map_set_def map_values_def)
next
  case (Cons p m)
  then show ?case
    by (cases p) (auto simp: map_set_def map_values_def map_get_def map_ok_def)
qed

section \<open>Time\<close>

text \<open>
  Timestamps are stored as strings: either the \<open>toISOString\<close> of a moment, read back by
  \<open>new Date(x).getTime()\<close> as the same number of milliseconds, or a string that
  \<open>Date\<close> cannot parse, read back as \<open>NaN\<close>.
\<close>

datatype timestamp = AtMs int | Unparsable string

fun getTime :: "timestamp \<Rightarrow> int option" where
  "getTime (AtMs t) = Some t"
| "getTime (Unparsable _) = None"

definition toISOString :: "int \<Rightarrow> timestamp" where
  "toISOString t = AtMs t"

lemma getTime_toISOString [simp]: "getTime (toISOString t) = Some t"
  by (simp add: toISOString_def)

text \<open>The expiry test of the services: a timestamp that does not parse counts as expired.\<close>

definition expired_at :: "int \<Rightarrow> timestamp \<Rightarrow> bool" where
  "expired_at now t = (case getTime t of None \<Rightarrow> True | Some ms \<Rightarrow> ms \<le> now)"

lemma expired_at_AtMs [simp]: "expired_at now (AtMs t) \<longleftrightarrow> t \<le> now"
  by (simp add: expired_at_def)

lemma expired_at_mono: "expired_at now t \<Longrightarrow> now \<le> now' \<Longrightarrow> expired_at now' t"
  by (auto simp: expired_at_def split: option.splits)

end
