(* ===== verification/Raw_Units.thy ===== *)
theory Raw_Units
  imports Prelude
begin

text \<open>
  \<open>src/src/lib/raw-units.ts\<close>: raw token units as unbounded integers, their decimal
  strings, and the rounded divisions. The regular expressions of the source are written out
  as predicates on the character list; \<open>BigInt\<close> of a digit string is its base-10 value.
  A string is a list of 8-bit characters here and of UTF-16 units there; no function of this
  theory accepts a character outside ASCII. The constants of
  \<open>src/src/domain/withdrawal-rounding.ts\<close> and \<open>src/src/config/constants.ts\<close>
  that the money computations use stand at the end.
\<close>

section \<open>Decimal digits\<close>

definition is_digit :: "char \<Rightarrow> bool" where
  "is_digit c \<longleftrightarrow> 48 \<le> (of_char c :: nat) \<and> (of_char c :: nat) \<le> 57"

definition digit_value :: "char \<Rightarrow> int" where
  "digit_value c = of_char c - 48"

definition digit_char :: "nat \<Rightarrow> char" where
  "digit_char n = char_of (48 + n)"

definition BigInt :: "string \<Rightarrow> int" where
  "BigInt s = foldl (\<lambda>a c. 10 * a + digit_value c) 0 s"

fun nat_toString :: "nat \<Rightarrow> string" where
  "nat_toString n =
     (if n < 10 then [digit_char n] else nat_toString (n div 10) @ [digit_char (n mod 10)])"

declare nat_toString.simps [simp del]

definition toString :: "int \<Rightarrow> string" where
  "toString i = (if i < 0 then CHR ''-'' # nat_toString (nat (- i)) else nat_toString (nat i))"

section \<open>Parsing and printing\<close>

datatype js_unknown = JsStr string | JsOther

text \<open>The language of \<open>/^(0|[1-9][0-9]*)$/\<close>.\<close>

fun raw_integer :: "string \<Rightarrow> bool" where
  "raw_integer [] = False"
| "raw_integer (c # cs) =
     (if c = CHR ''0'' then cs = [] else is_digit c \<and> list_all is_digit cs)"

definition parseRawUnits :: "js_unknown \<Rightarrow> string \<Rightarrow> int result" where
  "parseRawUnits v fieldName = (case v of
       JsStr s \<Rightarrow> if raw_integer s then Inr (BigInt s)
                  else Inl (JsError (fieldName @ '' must be a non-negative raw integer string''))
     | JsOther \<Rightarrow> Inl (JsError (fieldName @ '' must be a non-negative raw integer string'')))"

definition parsePositiveRawUnits :: "js_unknown \<Rightarrow> string \<Rightarrow> int result" where
  "parsePositiveRawUnits v fieldName = bindR (parseRawUnits v fieldName) (\<lambda>parsed.
     if parsed \<le> 0 then Inl (JsError (fieldName @ '' must be greater than zero''))
     else Inr parsed)"

definition rawUnitsToString :: "int \<Rightarrow> string result" where
  "rawUnitsToString v =
     (if v < 0 then Inl (JsError ''raw unit values must not be negative'') else Inr (toString v))"

text \<open>
  The language of \<open>/^(0|[1-9][0-9]*)([.][0-9]+)?$/\<close>, with the two halves that
  \<open>split\<close> on the dot yields.
\<close>

definition whole_part :: "string \<Rightarrow> string" where
  "whole_part s = takeWhile (\<lambda>c. c \<noteq> CHR ''.'') s"

definition fraction_part :: "string \<Rightarrow> string" where
  "fraction_part s = tl (dropWhile (\<lambda>c. c \<noteq> CHR ''.'') s)"

definition decimal_string :: "string \<Rightarrow> bool" where
  "decimal_string s \<longleftrightarrow> raw_integer (whole_part s) \<and>
     (CHR ''.'' \<in> set s \<longrightarrow> fraction_part s \<noteq> [] \<and> list_all is_digit (fraction_part s))"

definition padEnd :: "string \<Rightarrow> nat \<Rightarrow> char \<Rightarrow> string" where
  "padEnd s n c = s @ replicate (n - length s) c"

text \<open>The replacement of \<open>/^0+(?=[0-9])/\<close> by nothing.\<close>

fun strip_leading_zeros :: "string \<Rightarrow> string" where
  "strip_leading_zeros (c # d # cs) =
     (if c = CHR ''0'' \<and> is_digit d then strip_leading_zeros (d # cs) else c # d # cs)"
| "strip_leading_zeros s = s"

definition parseDecimalToRawUnits :: "string \<Rightarrow> int \<Rightarrow> string \<Rightarrow> int result" where
  "parseDecimalToRawUnits v decimals fieldName =
     (if decimals < 0 then Inl (JsError ''decimals must be a non-negative integer'')
      else if \<not> decimal_string v
        then Inl (JsError (fieldName @ '' must be a non-negative decimal string''))
      else
        let padded = padEnd (fraction_part v) (nat decimals) (CHR ''0'');
            extra = drop (nat decimals) padded
        in if filter (\<lambda>c. c \<noteq> CHR ''0'') extra \<noteq> []
             then Inl (JsError (fieldName @ '' has more than '' @ toString decimals @ '' decimal places''))
           else
             let raw = strip_leading_zeros (whole_part v @ take (nat decimals) padded)
             in Inr (BigInt (if raw = [] then ''0'' else raw)))"

section \<open>Arithmetic\<close>

definition maxBigInt :: "int \<Rightarrow> int \<Rightarrow> int" where
  "maxBigInt a b = (if a \<ge> b then a else b)"

definition minBigInt :: "int \<Rightarrow> int \<Rightarrow> int" where
  "minBigInt a b = (if a \<le> b then a else b)"

definition clampToZero :: "int \<Rightarrow> int" where
  "clampToZero v = (if v < 0 then 0 else v)"

text \<open>
  \<open>/\<close> on \<open>bigint\<close> truncates towards zero; every division below has a non-negative
  numerator and a positive denominator, where that is \<open>div\<close>.
\<close>

definition ceilDiv :: "int \<Rightarrow> int \<Rightarrow> int result" where
  "ceilDiv numerator denominator =
     (if denominator \<le> 0 then Inl (JsError ''denominator must be positive'')
      else if numerator < 0 then Inl (JsError ''numerator must be non-negative'')
      else Inr ((numerator + denominator - 1) div denominator))"

definition mulDivFloor :: "int \<Rightarrow> int \<Rightarrow> int \<Rightarrow> int result" where
  "mulDivFloor a b denominator =
     (if a < 0 \<or> b < 0 then Inl (JsError ''multiplicand and multiplier must be non-negative'')
      else if denominator \<le> 0 then Inl (JsError ''denominator must be positive'')
      else Inr ((a * b) div denominator))"

definition mulDivCeil :: "int \<Rightarrow> int \<Rightarrow> int \<Rightarrow> int result" where
  "mulDivCeil a b denominator = ceilDiv (a * b) denominator"

definition RATE_SCALE :: int where "RATE_SCALE = 1000000000000"
definition USDC_DECIMALS :: int where "USDC_DECIMALS = 6"
definition SHARE_DECIMALS :: int where "SHARE_DECIMALS = 6"
definition DEFAULT_PAYMENT_EXPIRY_SECONDS :: int where "DEFAULT_PAYMENT_EXPIRY_SECONDS = 120"
definition DEFAULT_ESTIMATED_FEE_DEBT_RAW_USDC :: int where
  "DEFAULT_ESTIMATED_FEE_DEBT_RAW_USDC = 100"
definition WITHDRAWAL_ROUNDING_RAW_USDC :: int where "WITHDRAWAL_ROUNDING_RAW_USDC = 10"
definition YIELD_REALIZE_ROUNDING_RAW_USDC :: int where
  "YIELD_REALIZE_ROUNDING_RAW_USDC = WITHDRAWAL_ROUNDING_RAW_USDC div 2"

lemma RATE_SCALE_pos [simp]: "0 < RATE_SCALE" "\<not> RATE_SCALE \<le> 0"
  by (simp_all add: RATE_SCALE_def)

section \<open>Digit strings\<close>

lemma digit_char [simp]:
  assumes "n < 10"
  shows "is_digit (digit_char n)" "digit_value (digit_char n) = int n"
    "digit_char n = CHR ''0'' \<longleftrightarrow> n = 0"
proof -
  have "(of_char (digit_char n) :: nat) = 48 + n"
    using assms by (simp add: digit_char_def)
  moreover have "digit_value (digit_char n) = int (of_char (digit_char n)) - 48"
    by (simp add: digit_value_def of_nat_of_char)
  moreover have "digit_char n = CHR ''0'' \<longleftrightarrow>
      (of_char (digit_char n) :: nat) = of_char (CHR ''0'')"
    by (simp only: of_char_eq_iff)
  ultimately show "is_digit (digit_char n)" "digit_value (digit_char n) = int n"
    "digit_char n = CHR ''0'' \<longleftrightarrow> n = 0"
    using assms by (simp_all add: is_digit_def)
qed

lemma digit_char_digit_value:
  assumes "is_digit c"
  shows "digit_char (nat (digit_value c)) = c" "0 \<le> digit_value c" "digit_value c < 10"
proof -
  have n: "48 \<le> (of_char c :: nat)" "(of_char c :: nat) \<le> 57"
    using assms by (simp_all add: is_digit_def)
  have v: "digit_value c = int (of_char c :: nat) - 48"
    by (simp add: digit_value_def of_nat_of_char)
  then have "48 + nat (digit_value c) = (of_char c :: nat)" using n by simp
  then show "digit_char (nat (digit_value c)) = c"
    by (simp add: digit_char_def)
  show "0 \<le> digit_value c" "digit_value c < 10" using n v by simp_all
qed

lemma digit_value_pos: "is_digit c \<Longrightarrow> c \<noteq> CHR ''0'' \<Longrightarrow> 0 < digit_value c"
  using digit_char_digit_value[of c] digit_char(3)[of "nat (digit_value c)"]
  by (metis nat_0 nat_less_iff of_nat_numeral order_le_less)

lemma digit_value_0 [simp]: "digit_value CHR ''0'' = 0"
  by (simp add: digit_value_def)

lemma BigInt_Nil [simp]: "BigInt [] = 0"
  by (simp add: BigInt_def)

lemma BigInt_snoc [simp]: "BigInt (s @ [c]) = 10 * BigInt s + digit_value c"
  by (simp add: BigInt_def)

lemma BigInt_append: "BigInt (s @ t) = BigInt s * 10 ^ length t + BigInt t"
proof (induction t rule: rev_induct)
  case (snoc c t)
  have "BigInt (s @ t @ [c]) = 10 * BigInt (s @ t) + digit_value c"
    using BigInt_snoc[of "s @ t" c] by simp
  with snoc show ?case by (simp add: algebra_simps)
qed simp

lemma BigInt_Cons: "BigInt (c # s) = digit_value c * 10 ^ length s + BigInt s"
  using BigInt_append[of "[c]" s] BigInt_snoc[of "[]" c] by simp

lemma BigInt_nonneg: "list_all is_digit s \<Longrightarrow> 0 \<le> BigInt s"
  by (induction s) (auto simp: BigInt_Cons digit_char_digit_value)

lemma BigInt_zeros: "set s \<subseteq> {CHR ''0''} \<Longrightarrow> BigInt s = 0"
  by (induction s) (auto simp: BigInt_Cons)

lemma BigInt_less: "list_all is_digit s \<Longrightarrow> BigInt s < 10 ^ length s"
proof (induction s)
  case (Cons c s)
  have "digit_value c \<le> 9" using Cons.prems digit_char_digit_value(3)[of c] by simp
  then have "digit_value c * 10 ^ length s \<le> 9 * (10::int) ^ length s"
    by (intro mult_right_mono) simp_all
  moreover have "BigInt s < 10 ^ length s" using Cons by simp
  ultimately have "digit_value c * 10 ^ length s + BigInt s < 10 * 10 ^ length s" by linarith
  then show ?case by (simp add: BigInt_Cons)
qed simp

lemma raw_integer_digits: "raw_integer s \<Longrightarrow> list_all is_digit s"
  by (cases s) (auto simp: is_digit_def split: if_splits)

lemma raw_integer_snoc:
  "is_digit c \<Longrightarrow> s \<noteq> [] \<Longrightarrow> raw_integer (s @ [c]) \<longleftrightarrow> raw_integer s \<and> s \<noteq> ''0''"
  by (cases s) auto

lemma nat_toString: "raw_integer (nat_toString n) \<and> BigInt (nat_toString n) = int n \<and> nat_toString n \<noteq> []
    \<and> (nat_toString n = ''0'' \<longrightarrow> n = 0)"
proof (induction n rule: nat_toString.induct)
  case (1 n)
  show ?case
  proof (cases "n < 10")
    case True
    then show ?thesis
      using BigInt_snoc[of "[]" "digit_char n"] by (simp add: nat_toString.simps[of n])
  next
    case False
    with 1 have IH: "raw_integer (nat_toString (n div 10))"
      "BigInt (nat_toString (n div 10)) = int (n div 10)" "nat_toString (n div 10) \<noteq> []"
      "nat_toString (n div 10) \<noteq> ''0''"
      by auto
    have split: "nat_toString n = nat_toString (n div 10) @ [digit_char (n mod 10)]"
      using False by (simp add: nat_toString.simps[of n])
    have "int n = 10 * int (n div 10) + int (n mod 10)"
      by presburger
    then show ?thesis
      using IH by (auto simp: split raw_integer_snoc)
  qed
qed

lemma raw_integer_pos: "raw_integer s \<Longrightarrow> BigInt s = 0 \<Longrightarrow> s = ''0''"
proof (cases s)
  case (Cons c cs)
  assume "raw_integer s" "BigInt s = 0"
  then have "c = CHR ''0'' \<or> is_digit c \<and> c \<noteq> CHR ''0'' \<and> list_all is_digit cs"
    using Cons by (auto split: if_splits)
  moreover have "0 < digit_value c * 10 ^ length cs + BigInt cs"
    if "is_digit c \<and> c \<noteq> CHR ''0'' \<and> list_all is_digit cs"
    using that digit_value_pos[of c] BigInt_nonneg[of cs] by (simp add: add_pos_nonneg)
  ultimately show ?thesis
    using \<open>raw_integer s\<close> \<open>BigInt s = 0\<close> Cons by (auto simp: BigInt_Cons split: if_splits)
qed simp

lemma raw_integer_unique:
  "raw_integer s \<Longrightarrow> raw_integer t \<Longrightarrow> BigInt s = BigInt t \<Longrightarrow> s = t"
proof (induction s arbitrary: t rule: rev_induct)
  case (snoc c s)
  obtain t' d where t: "t = t' @ [d]" using snoc.prems by (cases t rule: rev_cases) auto
  have dig: "is_digit c" "is_digit d" "list_all is_digit s" "list_all is_digit t'"
    using snoc.prems(1,2)[THEN raw_integer_digits] by (auto simp: t)
  have "10 * BigInt s + digit_value c = 10 * BigInt t' + digit_value d"
    using snoc.prems by (simp add: t)
  then have *: "digit_value c = digit_value d" "BigInt s = BigInt t'"
    using dig(1,2)[THEN digit_char_digit_value(2)] dig(1,2)[THEN digit_char_digit_value(3)]
    by presburger+
  have "c = d" using *(1) dig(1,2)[THEN digit_char_digit_value(1)] by metis
  have "s = [] \<longleftrightarrow> t' = []"
    using snoc.prems dig *(2) raw_integer_snoc raw_integer_pos BigInt_Nil t by metis
  then show ?case
  proof (cases "s = []")
    case False
    then show ?thesis
      using snoc *(2) dig \<open>c = d\<close> \<open>s = [] \<longleftrightarrow> t' = []\<close> by (simp add: t raw_integer_snoc)
  qed (use \<open>c = d\<close> in \<open>simp add: t\<close>)
qed simp

section \<open>Parsing and printing are inverse\<close>

lemma toString_BigInt: "raw_integer s \<Longrightarrow> toString (BigInt s) = s"
  using raw_integer_unique[of "nat_toString (nat (BigInt s))" s] nat_toString[of "nat (BigInt s)"]
    BigInt_nonneg[of s] raw_integer_digits[of s]
  by (simp add: toString_def)

lemma BigInt_toString: "0 \<le> v \<Longrightarrow> raw_integer (toString v) \<and> BigInt (toString v) = v"
  using nat_toString[of "nat v"] by (simp add: toString_def)

lemma parseRawUnits_nonneg: "parseRawUnits v f = Inr r \<Longrightarrow> 0 \<le> r"
  by (auto simp: parseRawUnits_def BigInt_nonneg raw_integer_digits
      split: js_unknown.splits if_splits)

text \<open>
  \<open>rawUnitsToString\<close> and \<open>parseRawUnits\<close> are inverse to each other on exactly the
  non-negative integers: a string is printed for \<open>v\<close> if and only if \<open>v\<close> is not negative
  and the string parses back to \<open>v\<close>. Every accepted string is therefore the canonical one.
\<close>

theorem raw_units_roundtrip:
  "rawUnitsToString v = Inr s \<longleftrightarrow> 0 \<le> v \<and> parseRawUnits (JsStr s) f = Inr v"
  using toString_BigInt[of s] BigInt_toString[of v]
  by (auto simp: rawUnitsToString_def parseRawUnits_def split: if_splits)

section \<open>Decimal amounts\<close>

lemma filter_nonzero_empty:
  "filter (\<lambda>c. c \<noteq> CHR ''0'') s = [] \<longleftrightarrow> set s \<subseteq> {CHR ''0''}"
  by (auto simp: filter_empty_conv)

lemma BigInt_zero_set: "list_all is_digit s \<Longrightarrow> BigInt s = 0 \<Longrightarrow> set s \<subseteq> {CHR ''0''}"
proof (induction s)
  case (Cons c s)
  then have nn: "0 \<le> digit_value c * 10 ^ length s" "0 \<le> BigInt s"
    using digit_char_digit_value(2)[of c] by (simp_all add: BigInt_nonneg)
  then have "BigInt s = 0" "digit_value c * 10 ^ length s = 0"
    using Cons.prems(2) BigInt_Cons[of c s] by linarith+
  then show ?case using Cons digit_value_pos[of c] by auto
qed simp

lemma strip_leading_zeros: "BigInt (strip_leading_zeros s) = BigInt s \<and>
    (strip_leading_zeros s = [] \<longleftrightarrow> s = [])"
  by (induction s rule: strip_leading_zeros.induct) (auto simp: BigInt_Cons)

lemma dropWhile_none: "x \<notin> set s \<Longrightarrow> dropWhile (\<lambda>c. c \<noteq> x) s = []"
  by (induction s) auto

lemma whole_fraction_digits:
  "decimal_string s \<Longrightarrow> list_all is_digit (whole_part s) \<and> list_all is_digit (fraction_part s)"
  by (cases "CHR ''.'' \<in> set s")
    (auto simp: decimal_string_def raw_integer_digits fraction_part_def dropWhile_none)

text \<open>The digits kept and the digits dropped, as one division with remainder.\<close>

lemma padded_value:
  fixes d :: nat
  assumes "list_all is_digit fr"
  defines "padded \<equiv> padEnd fr d (CHR ''0'')"
  shows "BigInt (w @ take d padded) * 10 ^ length fr + BigInt (drop d padded) * 10 ^ d
      = BigInt (w @ fr) * 10 ^ d"
proof (cases "length fr \<le> d")
  case True
  then have "take d padded = fr @ replicate (d - length fr) (CHR ''0'')" "drop d padded = []"
    by (simp_all add: padded_def padEnd_def)
  moreover have "BigInt (replicate (d - length fr) (CHR ''0'')) = 0"
    by (rule BigInt_zeros) auto
  moreover have "(10::int) ^ (d - length fr) * 10 ^ length fr = 10 ^ d"
    using True by (simp flip: power_add)
  ultimately show ?thesis
    by (simp add: BigInt_append[of _ "replicate _ _"] flip: append_assoc)
next
  case False
  then have p: "padded = fr" by (simp add: padded_def padEnd_def)
  have "BigInt (w @ fr) = BigInt (w @ take d fr) * 10 ^ (length fr - d) + BigInt (drop d fr)"
    using BigInt_append[of "w @ take d fr" "drop d fr"] by simp
  moreover have "(10::int) ^ (length fr - d) * 10 ^ d = 10 ^ length fr"
    using False by (simp flip: power_add)
  ultimately show ?thesis by (simp add: p algebra_simps)
qed

lemma dropped_digits:
  fixes d :: nat
  assumes "list_all is_digit fr"
  defines "padded \<equiv> padEnd fr d (CHR ''0'')"
  shows "set (drop d padded) \<subseteq> {CHR ''0''} \<longleftrightarrow>
    (\<exists>r. r * 10 ^ length fr = BigInt (w @ fr) * 10 ^ d)"
proof
  assume "set (drop d padded) \<subseteq> {CHR ''0''}"
  then have "BigInt (drop d padded) = 0" by (rule BigInt_zeros)
  then show "\<exists>r. r * 10 ^ length fr = BigInt (w @ fr) * 10 ^ d"
    using padded_value[OF assms(1), of w d] by (auto simp: padded_def)
next
  let ?x = "BigInt (drop d padded)"
  assume "\<exists>r. r * 10 ^ length fr = BigInt (w @ fr) * 10 ^ d"
  then obtain r where r: "r * 10 ^ length fr = BigInt (w @ fr) * 10 ^ d" ..
  show "set (drop d padded) \<subseteq> {CHR ''0''}"
  proof (cases "length fr \<le> d")
    case False
    have dig: "list_all is_digit (drop d fr)" using assms(1) by (auto simp: list_all_iff dest: in_set_dropD)
    have p: "padded = fr" using False by (simp add: padded_def padEnd_def)
    have x: "0 \<le> ?x" "?x < 10 ^ (length fr - d)"
      using BigInt_nonneg[OF dig] BigInt_less[OF dig] by (simp_all add: p)
    have "?x * 10 ^ d = (r - BigInt (w @ take d padded)) * 10 ^ length fr"
      using padded_value[OF assms(1), of w d] r by (simp add: padded_def algebra_simps)
    also have "(10::int) ^ length fr = 10 ^ (length fr - d) * 10 ^ d"
      using False by (simp flip: power_add)
    finally have "?x = (r - BigInt (w @ take d padded)) * 10 ^ (length fr - d)" by simp
    then have "(10 ^ (length fr - d)) dvd ?x" by simp
    then have "?x = 0" using x zdvd_not_zless[of ?x "10 ^ (length fr - d)"] by linarith
    then show ?thesis using BigInt_zero_set dig by (simp add: p)
  qed (simp add: padded_def padEnd_def)
qed

text \<open>
  \<open>parseDecimalToRawUnits\<close> is exact. It returns \<open>r\<close> if and only if the string is a
  plain decimal and \<open>r / 10 ^ decimals\<close> is the very number the string denotes, so it never
  rounds and it refuses precisely the amounts with too much precision.
\<close>

theorem parseDecimal_exact:
  "parseDecimalToRawUnits s d f = Inr r \<longleftrightarrow>
     0 \<le> d \<and> decimal_string s \<and>
     r * 10 ^ length (fraction_part s) = BigInt (whole_part s @ fraction_part s) * 10 ^ nat d"
proof (cases "0 \<le> d \<and> decimal_string s")
  case True
  let ?w = "whole_part s" and ?fr = "fraction_part s"
  let ?padded = "padEnd ?fr (nat d) (CHR ''0'')"
  have fr: "list_all is_digit ?fr" using True whole_fraction_digits by blast
  note v = padded_value[OF fr, of ?w "nat d"]
  note dr = dropped_digits[OF fr, of "nat d" ?w]
  have kept: "BigInt (if strip_leading_zeros x = [] then ''0'' else strip_leading_zeros x) = BigInt x" for x
    using strip_leading_zeros[of x] by (auto simp: BigInt_Cons)
  show ?thesis
  proof (cases "set (drop (nat d) ?padded) \<subseteq> {CHR ''0''}")
    case zero: True
    then have "BigInt (?w @ take (nat d) ?padded) * 10 ^ length ?fr = BigInt (?w @ ?fr) * 10 ^ nat d"
      using v BigInt_zeros[OF zero] by simp
    moreover have "parseDecimalToRawUnits s d f = Inr (BigInt (?w @ take (nat d) ?padded))"
      using True zero kept by (simp add: parseDecimalToRawUnits_def filter_nonzero_empty Let_def)
    moreover have "r = BigInt (?w @ take (nat d) ?padded) \<longleftrightarrow>
        r * 10 ^ length ?fr = BigInt (?w @ take (nat d) ?padded) * 10 ^ length ?fr" for r
      by simp
    ultimately show ?thesis using True by (metis Inr_inject)
  next
    case False
    then show ?thesis
      using True dr by (auto simp: parseDecimalToRawUnits_def filter_nonzero_empty Let_def)
  qed
qed (auto simp: parseDecimalToRawUnits_def)

section \<open>Rounded division\<close>

lemma int_div_iff: "0 < d \<Longrightarrow> n div d = q \<longleftrightarrow> q * d \<le> n \<and> n < (q + 1) * d" for n d q :: int
proof
  assume "0 < d" "n div d = q"
  then have "0 \<le> n mod d" "n mod d < d" "q * d + n mod d = n"
    using div_mult_mod_eq[of n d] by simp_all
  then show "q * d \<le> n \<and> n < (q + 1) * d"
    unfolding distrib_right by linarith
next
  assume "0 < d" "q * d \<le> n \<and> n < (q + 1) * d"
  then show "n div d = q"
    using int_div_pos_eq[of n d q "n - d * q"] by (simp add: algebra_simps)
qed

lemma le_div_iff: "0 < d \<Longrightarrow> w \<le> n div d \<longleftrightarrow> w * d \<le> n" for n d w :: int
proof
  assume d: "0 < d"
  have q: "n div d * d \<le> n" "n < (n div d + 1) * d" using int_div_iff[OF d, of n "n div d"] by simp_all
  show "w * d \<le> n" if "w \<le> n div d"
    using mult_right_mono[OF that, of d] d q(1) by linarith
  show "w \<le> n div d" if "w * d \<le> n"
  proof -
    have "w * d < (n div d + 1) * d" using that q(2) by linarith
    then show ?thesis using d by simp
  qed
qed

lemma ceilDiv_iff:
  "ceilDiv n d = Inr q \<longleftrightarrow> 0 < d \<and> 0 \<le> n \<and> n \<le> q * d \<and> q * d < n + d"
proof (cases "0 < d \<and> 0 \<le> n")
  case True
  then show ?thesis by (auto simp: ceilDiv_def int_div_iff algebra_simps)
qed (auto simp: ceilDiv_def)

lemma mulDivFloor_iff:
  "mulDivFloor a b d = Inr q \<longleftrightarrow> 0 \<le> a \<and> 0 \<le> b \<and> 0 < d \<and> q * d \<le> a * b \<and> a * b < (q + 1) * d"
  by (auto simp: mulDivFloor_def int_div_iff)

lemma clampToZero_simps [simp]:
  "0 \<le> clampToZero v" "v \<le> clampToZero v" "0 \<le> v \<Longrightarrow> clampToZero v = v" "v \<le> 0 \<Longrightarrow> clampToZero v = 0"
  by (auto simp: clampToZero_def)

section \<open>BigInt of any text\<close>

text \<open>
  \<open>BigInt(text)\<close> of JavaScript: surrounding white space is dropped, the empty text is 0, a
  decimal may carry a sign, and the prefixes \<open>0x\<close>, \<open>0o\<close> and \<open>0b\<close> select another
  base; any other text throws.
\<close>

definition js_space :: "char \<Rightarrow> bool" where
  "js_space c \<longleftrightarrow> (of_char c :: nat) \<in> {9, 10, 11, 12, 13, 32, 160}"

definition js_trim :: "string \<Rightarrow> string" where
  "js_trim s = rev (dropWhile js_space (rev (dropWhile js_space s)))"

definition base_digit :: "char \<Rightarrow> int option" where
  "base_digit c = (let n = of_char c :: int in
     if 48 \<le> n \<and> n \<le> 57 then Some (n - 48)
     else if 97 \<le> n \<and> n \<le> 102 then Some (n - 87)
     else if 65 \<le> n \<and> n \<le> 70 then Some (n - 55)
     else None)"

fun base_digits :: "int \<Rightarrow> string \<Rightarrow> int \<Rightarrow> int option" where
  "base_digits b [] acc = Some acc"
| "base_digits b (c # cs) acc = (case base_digit c of
       None \<Rightarrow> None
     | Some d \<Rightarrow> if d < b then base_digits b cs (acc * b + d) else None)"

definition nonempty_digits :: "int \<Rightarrow> string \<Rightarrow> int option" where
  "nonempty_digits b s = (if s = [] then None else base_digits b s 0)"

definition js_BigInt :: "string \<Rightarrow> int option" where
  "js_BigInt text = (let s = js_trim text in
     if s = [] then Some 0
     else if take 2 s \<in> {''0x'', ''0X''} then nonempty_digits 16 (drop 2 s)
     else if take 2 s \<in> {''0o'', ''0O''} then nonempty_digits 8 (drop 2 s)
     else if take 2 s \<in> {''0b'', ''0B''} then nonempty_digits 2 (drop 2 s)
     else if hd s = CHR ''-'' then map_option uminus (nonempty_digits 10 (tl s))
     else if hd s = CHR ''+'' then nonempty_digits 10 (tl s)
     else nonempty_digits 10 s)"

end
