(* ===== verification/Canonical_Json.thy ===== *)
theory Canonical_Json
  imports Raw_Units "HOL-Library.Char_ord" "HOL-Library.List_Lexorder" "HOL-Library.Multiset"
begin

text \<open>
  \<open>src/src/lib/hash.ts\<close> and \<open>src/src/lib/canonical-json.ts\<close>: JSON values, the
  key-sorted \<open>stableStringify\<close> whose text is what gets hashed and signed, and the binding
  hashes over it. SHA-256 (hex) is a parameter: a function on strings. A number is an integer
  of fewer than 22 digits, which is how every caller uses one; a string character is one byte.
\<close>

section \<open>Values\<close>

text \<open>
  \<open>JsonLike\<close>. An object property may be \<open>undefined\<close>, which is \<open>None\<close>. Objects are
  the list of their own enumerable properties; JavaScript guarantees distinct keys.
\<close>

datatype json =
    JNull
  | JBool bool
  | JNumber int
  | JBigint int
  | JString string
  | JArray "json list"
  | JObject "(string \<times> json option) list"

section \<open>Printing\<close>

definition hex_digit :: "nat \<Rightarrow> char" where
  "hex_digit n = (if n < 10 then char_of (48 + n) else char_of (87 + n))"

text \<open>One character of \<open>JSON.stringify\<close> of a string.\<close>

definition json_escape :: "char \<Rightarrow> string" where
  "json_escape c =
     (let n = (of_char c :: nat) in
      if n = 34 then [CHR 0x5C, c]
      else if n = 92 then [c, c]
      else if n = 8 then [CHR 0x5C, CHR ''b'']
      else if n = 9 then [CHR 0x5C, CHR ''t'']
      else if n = 10 then [CHR 0x5C, CHR ''n'']
      else if n = 12 then [CHR 0x5C, CHR ''f'']
      else if n = 13 then [CHR 0x5C, CHR ''r'']
      else if n < 32 then CHR 0x5C # ''u00'' @ [hex_digit (n div 16), hex_digit (n mod 16)]
      else [c])"

definition quote_char :: char where "quote_char = CHR 0x22"

definition json_string :: "string \<Rightarrow> string" where
  "json_string s = quote_char # concat (map json_escape s) @ [quote_char]"

definition join :: "char \<Rightarrow> string list \<Rightarrow> string" where
  "join sep xs = concat (if xs = [] then [] else hd xs # map (\<lambda>x. sep # x) (tl xs))"

text \<open>
  \<open>keys.filter(defined).sort()\<close>: the defined properties in key order, where strings are
  compared by their code units.
\<close>

definition sorted_defined :: "(string \<times> 'a option) list \<Rightarrow> (string \<times> 'a) list" where
  "sorted_defined ps =
     sort_key fst (map (\<lambda>(k, v). (k, the v)) (filter (\<lambda>(k, v). v \<noteq> None) ps))"

fun stableStringify :: "json \<Rightarrow> string" where
  "stableStringify JNull = ''null''"
| "stableStringify (JBigint i) = json_string (toString i)"
| "stableStringify (JString s) = json_string s"
| "stableStringify (JNumber i) = toString i"
| "stableStringify (JBool b) = (if b then ''true'' else ''false'')"
| "stableStringify (JArray xs) = CHR ''['' # join (CHR '','') (map stableStringify xs) @ '']''"
| "stableStringify (JObject ps) =
     CHR ''{'' # join (CHR '','')
       (map (\<lambda>(k, t). json_string k @ CHR '':'' # t)
         (sorted_defined (map (\<lambda>(k, v). (k, map_option stableStringify v)) ps))) @ ''}''"

definition canonicalJson :: "json \<Rightarrow> string" where
  "canonicalJson v = stableStringify v"

section \<open>Hashes\<close>

text \<open>\<open>sha\<close> stands for the hex SHA-256 digest of Node's crypto module.\<close>

definition sha256TaggedHex :: "(string \<Rightarrow> string) \<Rightarrow> string \<Rightarrow> string" where
  "sha256TaggedHex sha d = ''sha256-'' @ sha d"

definition hashStableJson :: "(string \<Rightarrow> string) \<Rightarrow> json \<Rightarrow> string" where
  "hashStableJson sha v = sha256TaggedHex sha (stableStringify v)"

definition canonicalJsonHash :: "(string \<Rightarrow> string) \<Rightarrow> json \<Rightarrow> string" where
  "canonicalJsonHash sha v = sha (canonicalJson v)"

definition EMPTY_BODY_HASH :: string where
  "EMPTY_BODY_HASH = ''sha256-e3b0c44298fc1c149afbf4c8996fb92427ae41e4649b934ca495991b7852b855''"

section \<open>What a canonical text determines\<close>

text \<open>
  The content of a value: properties in key order without the undefined ones, and a
  \<open>bigint\<close> as the string it is printed as.
\<close>

fun json_content :: "json \<Rightarrow> json" where
  "json_content (JBigint i) = JString (toString i)"
| "json_content (JArray xs) = JArray (map json_content xs)"
| "json_content (JObject ps) = JObject (map (\<lambda>(k, v). (k, Some v))
     (sorted_defined (map (\<lambda>(k, v). (k, map_option json_content v)) ps)))"
| "json_content v = v"

definition delimited :: "string \<Rightarrow> bool" where
  "delimited r \<longleftrightarrow> r = [] \<or> \<not> is_digit (hd r)"

lemma delimited_Cons [simp]: "delimited (c # r) \<longleftrightarrow> \<not> is_digit c"
  by (simp add: delimited_def)

lemma delimiters [simp]: "\<not> is_digit CHR '',''" "\<not> is_digit CHR '']''" "\<not> is_digit CHR ''}''"
  by (simp_all add: is_digit_def)

subsection \<open>Numbers and strings can be read back\<close>

lemma takeWhile_digits:
  "list_all is_digit ds \<Longrightarrow> delimited r \<Longrightarrow> takeWhile is_digit (ds @ r) = ds"
  by (induction ds) (cases r, auto)

lemma digits_prefix_free:
  assumes "list_all is_digit a" "list_all is_digit b" "delimited r" "delimited s" "a @ r = b @ s"
  shows "a = b \<and> r = s"
proof -
  have "a = b"
    using takeWhile_digits[OF assms(1,3)] takeWhile_digits[OF assms(2,4)] assms(5) by metis
  then show ?thesis using assms(5) by simp
qed

lemma nat_toString_digits: "list_all is_digit (nat_toString n)"
  using nat_toString raw_integer_digits by blast

lemma nat_toString_eq [simp]: "nat_toString m = nat_toString n \<longleftrightarrow> m = n"
  using nat_toString[of m] nat_toString[of n] by (metis of_nat_eq_iff)

lemma nat_toString_hd: "\<exists>c cs. nat_toString n = c # cs \<and> is_digit c"
  using nat_toString[of n] nat_toString_digits[of n] by (cases "nat_toString n") auto

lemma minus_not_digit [simp]: "\<not> is_digit CHR ''-''"
  by (simp add: is_digit_def)

lemma toString_prefix_free:
  assumes "toString i @ r = toString j @ s" "delimited r" "delimited s"
  shows "i = j \<and> r = s"
proof -
  obtain c cs d ds where "nat_toString (nat i) = c # cs" "is_digit c"
    "nat_toString (nat j) = d # ds" "is_digit d"
    using nat_toString_hd by meson
  then have sign: "(i < 0) = (j < 0)"
    using assms(1) by (auto simp: toString_def split: if_splits)
  have digits: "m = n \<and> r = s" if "nat_toString m @ r = nat_toString n @ s" for m n
    using digits_prefix_free[OF nat_toString_digits nat_toString_digits assms(2,3) that] by simp
  show ?thesis
  proof (cases "i < 0")
    case True
    then have "nat_toString (nat (- i)) @ r = nat_toString (nat (- j)) @ s"
      using assms(1) sign by (simp add: toString_def)
    from digits[OF this] have "nat (- i) = nat (- j)" "r = s" by simp_all
    then show ?thesis using True sign by (intro conjI; arith)
  next
    case False
    then have "nat_toString (nat i) @ r = nat_toString (nat j) @ s"
      using assms(1) sign by (simp add: toString_def)
    from digits[OF this] have "nat i = nat j" "r = s" by simp_all
    then show ?thesis using False sign by (intro conjI; arith)
  qed
qed

text \<open>Reading one escaped character back.\<close>

definition hex_value :: "char \<Rightarrow> nat" where
  "hex_value c = (let n = of_char c in if n < 58 then n - 48 else n - 87)"

fun unescape :: "string \<Rightarrow> char \<times> string" where
  "unescape (c # d # s) =
     (if (of_char c :: nat) \<noteq> 92 then (c, d # s)
      else let n = (of_char d :: nat) in
        if n = 98 then (char_of (8::nat), s) else if n = 116 then (char_of (9::nat), s)
        else if n = 110 then (char_of (10::nat), s) else if n = 102 then (char_of (12::nat), s)
        else if n = 114 then (char_of (13::nat), s)
        else if n = 117 then (char_of (16 * hex_value (s ! 2) + hex_value (s ! 3)), drop 4 s)
        else (d, s))"
| "unescape [c] = (c, [])"
| "unescape [] = (CHR '' '', [])"

lemma hex_value_digit [simp]: "n < 16 \<Longrightarrow> hex_value (hex_digit n) = n"
  by (simp add: hex_value_def hex_digit_def)

lemma unescape_plain: "(of_char c :: nat) \<noteq> 92 \<Longrightarrow> unescape (c # x) = (c, x)"
  by (cases x) simp_all

lemma unescape_json_escape: "unescape (json_escape c @ x) = (c, x)"
proof (cases "(of_char c :: nat) < 32")
  case False
  then show ?thesis
    by (auto simp: json_escape_def Let_def unescape_plain)
next
  case True
  define n where "n = (of_char c :: nat)"
  have c: "c = char_of n" by (simp add: n_def)
  have n: "n < 32" using True by (simp add: n_def)
  then have d: "16 * (n div 16) + n mod 16 = n" "n div 16 < 16" "n mod 16 < 16" by auto
  have oc: "(of_char c :: nat) = n" by (simp add: n_def)
  show ?thesis
    using n d by (auto simp: json_escape_def Let_def oc c)
qed

lemma json_escape_prefix_free:
  "json_escape c @ x = json_escape d @ y \<Longrightarrow> c = d \<and> x = y"
  by (metis unescape_json_escape prod.inject)

lemma json_escape_quote: "\<exists>e es. json_escape c = e # es \<and> e \<noteq> quote_char"
proof (cases "(of_char c :: nat) = 34")
  case False
  then have "c \<noteq> quote_char" by (auto simp: quote_char_def)
  then show ?thesis
    by (auto simp: json_escape_def Let_def quote_char_def)
qed (auto simp: json_escape_def quote_char_def)

lemma json_body_prefix_free:
  "concat (map json_escape a) @ quote_char # r = concat (map json_escape b) @ quote_char # s \<Longrightarrow>
   a = b \<and> r = s"
proof (induction a arbitrary: b)
  case Nil
  then show ?case using json_escape_quote[of "hd b"] by (cases b) auto
next
  case (Cons c a)
  obtain d b' where b: "b = d # b'"
    using Cons.prems json_escape_quote[of c] by (cases b) auto
  have "json_escape c @ (concat (map json_escape a) @ quote_char # r)
      = json_escape d @ (concat (map json_escape b') @ quote_char # s)"
    using Cons.prems by (simp add: b)
  from json_escape_prefix_free[OF this] show ?case using Cons.IH b by auto
qed

lemma json_string_prefix_free:
  "json_string a @ r = json_string b @ s \<Longrightarrow> a = b \<and> r = s"
  using json_body_prefix_free[of a r b s] by (simp add: json_string_def)

subsection \<open>Lists of members can be read back\<close>

lemma join_simps: "join sep [] = []" "join sep (x # xs) = x @ concat (map (\<lambda>y. sep # y) xs)"
  by (simp_all add: join_def)

text \<open>
  \<open>p\<close> prints a member and \<open>n\<close> is what the text of a member determines. The text of a
  member never starts with the separator's or the closing bracket's character \<open>close\<close>.
\<close>

lemma members_prefix_free:
  assumes inj: "\<And>x y r s. x \<in> set xs \<Longrightarrow> delimited r \<Longrightarrow> delimited s \<Longrightarrow> p x @ r = p y @ s \<Longrightarrow>
      n x = n y \<and> r = s"
    and close: "\<not> is_digit cl" "cl \<noteq> CHR '',''"
    and eq: "concat (map (\<lambda>y. CHR '','' # p y) xs) @ cl # r
      = concat (map (\<lambda>y. CHR '','' # p y) ys) @ cl # s"
  shows "map n xs = map n ys \<and> r = s"
proof -
  have delim: "delimited (concat (map (\<lambda>y. CHR '','' # p y) zs) @ cl # t)" for zs t
    using close by (cases zs) simp_all
  show ?thesis
  using inj eq
proof (induction xs arbitrary: ys)
  case Nil
  then show ?case using close by (cases ys) auto
next
  case (Cons x xs)
  obtain y ys' where ys: "ys = y # ys'" using Cons.prems(2) close by (cases ys) auto
  let ?R = "concat (map (\<lambda>y. CHR '','' # p y) xs) @ cl # r"
  let ?S = "concat (map (\<lambda>y. CHR '','' # p y) ys') @ cl # s"
  have "p x @ ?R = p y @ ?S" using Cons.prems(2) by (simp add: ys)
  moreover have "delimited ?R" "delimited ?S"
    using delim by simp_all
  ultimately have "n x = n y \<and> ?R = ?S" using Cons.prems(1)[of x ?R ?S y] by simp
  moreover from this have "map n xs = map n ys' \<and> r = s"
    using Cons.IH[of ys'] Cons.prems(1) by (meson list.set_intros(2))
  ultimately show ?case by (simp add: ys)
qed
qed

lemma join_prefix_free:
  assumes inj: "\<And>x y r s. x \<in> set xs \<Longrightarrow> delimited r \<Longrightarrow> delimited s \<Longrightarrow> p x @ r = p y @ s \<Longrightarrow>
      n x = n y \<and> r = s"
    and close: "\<not> is_digit cl" "cl \<noteq> CHR '',''"
    and start: "\<And>x. \<exists>c cs. p x = c # cs \<and> c \<noteq> cl"
    and eq: "join (CHR '','') (map p xs) @ cl # r = join (CHR '','') (map p ys) @ cl # s"
  shows "map n xs = map n ys \<and> r = s"
proof (cases xs)
  case Nil
  then show ?thesis using eq start[of "hd ys"] by (cases ys) (auto simp: join_simps)
next
  case (Cons x xs')
  obtain y ys' where ys: "ys = y # ys'"
    using eq start[of x] Cons by (cases ys) (auto simp: join_simps)
  have "concat (map (\<lambda>y. CHR '','' # p y) xs) @ cl # r
      = concat (map (\<lambda>y. CHR '','' # p y) ys) @ cl # s"
    using eq by (simp add: Cons ys join_simps comp_def)
  from members_prefix_free[OF inj close this] show ?thesis .
qed

subsection \<open>Canonical texts\<close>

definition entry_text :: "string \<times> json \<Rightarrow> string" where
  "entry_text kv = json_string (fst kv) @ CHR '':'' # stableStringify (snd kv)"

definition entry_content :: "string \<times> json \<Rightarrow> string \<times> json option" where
  "entry_content kv = (fst kv, Some (json_content (snd kv)))"

lemma sorted_defined_map:
  "sorted_defined (map (\<lambda>(k, v). (k, map_option f v)) ps)
     = map (\<lambda>(k, v). (k, f v)) (sorted_defined ps)"
  for f :: "'b \<Rightarrow> 'a"
proof -
  have flt: "map (\<lambda>(k, v). (k, the v)) (filter (\<lambda>(k, v). v \<noteq> None)
      (map (\<lambda>(k, v). (k, map_option f v)) ps))
    = map (\<lambda>(k, v). (k, f v)) (map (\<lambda>(k, v). (k, the v)) (filter (\<lambda>(k, v). v \<noteq> None) ps))"
    by (induction ps) auto
  have srt: "sort_key fst (map (\<lambda>(k, v). (k, f v)) qs) = map (\<lambda>(k, v). (k, f v)) (sort_key fst qs)"
    for qs :: "(string \<times> 'b) list"
  proof -
    have "insort_key fst (case a of (k, v) \<Rightarrow> (k, f v)) (map (\<lambda>(k, v). (k, f v)) xs)
        = map (\<lambda>(k, v). (k, f v)) (insort_key fst a xs)" for a and xs :: "(string \<times> 'b) list"
      by (induction xs) (auto split: prod.splits)
    then show ?thesis by (induction qs) auto
  qed
  show ?thesis by (simp only: sorted_defined_def flt srt)
qed

lemma in_sorted_defined: "(k, v) \<in> set (sorted_defined ps) \<longleftrightarrow> (k, Some v) \<in> set ps"
  by (force simp: sorted_defined_def)

lemma stableStringify_JObject:
  "stableStringify (JObject ps) =
     CHR ''{'' # join (CHR '','') (map entry_text (sorted_defined ps)) @ ''}''"
  unfolding stableStringify.simps sorted_defined_map
  by (simp add: entry_text_def[abs_def] split_def comp_def)

lemma json_content_JObject:
  "json_content (JObject ps) = JObject (map entry_content (sorted_defined ps))"
  unfolding json_content.simps sorted_defined_map
  by (simp add: entry_content_def[abs_def] split_def comp_def)

text \<open>The first character tells the kind of a value.\<close>

definition kind_of_char :: "char \<Rightarrow> nat" where
  "kind_of_char c = (if is_digit c \<or> c = CHR ''-'' then 0 else of_char c)"

definition kind :: "json \<Rightarrow> nat" where
  "kind v = (case v of JNull \<Rightarrow> 110 | JBool b \<Rightarrow> (if b then 116 else 102) | JNumber _ \<Rightarrow> 0
     | JBigint _ \<Rightarrow> 34 | JString _ \<Rightarrow> 34 | JArray _ \<Rightarrow> 91 | JObject _ \<Rightarrow> 123)"

lemma kind_start: "\<exists>c cs. stableStringify v = c # cs \<and> kind_of_char c = kind v \<and> c \<noteq> CHR '']''"
proof (cases v)
  case (JNumber i)
  obtain c cs where "nat_toString (nat i) = c # cs" "is_digit c"
    using nat_toString_hd by blast
  then show ?thesis
    by (auto simp: JNumber toString_def kind_of_char_def kind_def is_digit_def)
qed (auto simp: kind_def kind_of_char_def is_digit_def json_string_def quote_char_def)

lemma same_kind: "stableStringify u @ r = stableStringify v @ s \<Longrightarrow> kind u = kind v"
  using kind_start[of u] kind_start[of v] by auto

lemma entry_start: "\<exists>c cs. entry_text kv = c # cs \<and> c \<noteq> CHR ''}''"
  by (simp add: entry_text_def json_string_def quote_char_def)

lemma stableStringify_prefix_free:
  "stableStringify u @ r = stableStringify v @ s \<Longrightarrow> delimited r \<Longrightarrow> delimited s \<Longrightarrow>
   json_content u = json_content v \<and> r = s"
proof (induction u arbitrary: v r s rule: stableStringify.induct)
  case 1
  then show ?case using same_kind[OF 1(1)] by (cases v) (auto simp: kind_def split: if_splits)
next
  case (2 i)
  then show ?case
    using same_kind[OF 2(1)] json_string_prefix_free[of "toString i" r]
    by (cases v) (auto simp: kind_def split: if_splits)
next
  case (3 x)
  then show ?case
    using same_kind[OF 3(1)] json_string_prefix_free[of x r]
    by (cases v) (auto simp: kind_def split: if_splits)
next
  case (4 i)
  then show ?case
    using same_kind[OF 4(1)] toString_prefix_free[of i r]
    by (cases v) (auto simp: kind_def split: if_splits)
next
  case (5 b)
  then show ?case
    using same_kind[OF 5(1)] by (cases v) (auto simp: kind_def split: if_splits)
next
  case (6 xs)
  obtain ys where v: "v = JArray ys"
    using same_kind[OF 6(2)] by (cases v) (auto simp: kind_def split: if_splits)
  have eq: "join (CHR '','') (map stableStringify xs) @ CHR '']'' # r
      = join (CHR '','') (map stableStringify ys) @ CHR '']'' # s"
    using 6(2) by (simp add: v)
  have start: "\<exists>c cs. stableStringify x = c # cs \<and> c \<noteq> CHR '']''" for x
    using kind_start by blast
  have member: "json_content x = json_content y \<and> r' = s'"
    if "x \<in> set xs" "delimited r'" "delimited s'"
      "stableStringify x @ r' = stableStringify y @ s'" for x y r' s'
    by (rule 6(1)[OF that(1) that(4) that(2,3)])
  have "map json_content xs = map json_content ys \<and> r = s"
    by (rule join_prefix_free[OF member _ _ start eq]) simp_all
  then show ?case by (simp add: v)
next
  case (7 ps)
  obtain qs where v: "v = JObject qs"
    using same_kind[OF 7(2)] by (cases v) (auto simp: kind_def split: if_splits)
  have eq: "join (CHR '','') (map entry_text (sorted_defined ps)) @ CHR ''}'' # r
      = join (CHR '','') (map entry_text (sorted_defined qs)) @ CHR ''}'' # s"
    using 7(2) unfolding v stableStringify_JObject by simp
  have entry: "entry_content kv = entry_content lw \<and> r' = s'"
    if "kv \<in> set (sorted_defined ps)" "delimited r'" "delimited s'"
      "entry_text kv @ r' = entry_text lw @ s'" for kv lw r' s'
  proof -
    have "json_string (fst kv) @ (CHR '':'' # stableStringify (snd kv) @ r')
        = json_string (fst lw) @ (CHR '':'' # stableStringify (snd lw) @ s')"
      using that(4) by (simp add: entry_text_def)
    from json_string_prefix_free[OF this]
    have key: "fst kv = fst lw"
      and rest: "stableStringify (snd kv) @ r' = stableStringify (snd lw) @ s'"
      by simp_all
    have mem: "(fst kv, Some (snd kv)) \<in> set ps"
      using that(1) in_sorted_defined[of "fst kv" "snd kv" ps] by simp
    have "json_content (snd kv) = json_content (snd lw) \<and> r' = s'"
      by (rule 7(1)[OF mem refl _ rest that(2,3)]) simp
    then show ?thesis using key by (simp add: entry_content_def)
  qed
  have "map entry_content (sorted_defined ps) = map entry_content (sorted_defined qs) \<and> r = s"
    by (rule join_prefix_free[OF entry _ _ entry_start eq]) (simp_all add: is_digit_def)
  then show ?case unfolding v json_content_JObject by simp
qed

lemma sorted_defined_again:
  "sorted_defined (map (\<lambda>(k, v). (k, Some v)) (sorted_defined ps)) = sorted_defined ps"
proof -
  have "map (\<lambda>(k, v). (k, the v)) (filter (\<lambda>(k, v). v \<noteq> None) (map (\<lambda>(k, v). (k, Some v)) qs)) = qs"
    for qs :: "(string \<times> 'a) list"
    by (induction qs) auto
  moreover have "sort_key fst (sorted_defined ps) = sorted_defined ps"
    by (simp add: sorted_defined_def sort_key_id_if_sorted)
  ultimately show ?thesis unfolding sorted_defined_def by (simp only:)
qed

lemma stableStringify_content: "stableStringify (json_content v) = stableStringify v"
proof (induction v rule: stableStringify.induct)
  case (7 ps)
  have "entry_text (k, json_content v) = entry_text (k, v)" if "(k, v) \<in> set (sorted_defined ps)" for k v
    using 7[of "(k, Some v)" k "Some v" v] that
    by (simp add: in_sorted_defined entry_text_def)
  then show ?case
    unfolding json_content.simps stableStringify_JObject sorted_defined_again
    unfolding sorted_defined_map
    by (auto simp: intro!: arg_cong[where f = "join (CHR '','')"])
qed (simp_all add: comp_def cong: map_cong)

lemma stableStringify_eq: "stableStringify a = stableStringify b \<longleftrightarrow> json_content a = json_content b"
proof
  assume "stableStringify a = stableStringify b"
  then show "json_content a = json_content b"
    using stableStringify_prefix_free[of a "[]" b "[]"] by (simp add: delimited_def)
next
  assume "json_content a = json_content b"
  then show "stableStringify a = stableStringify b"
    by (metis stableStringify_content)
qed

text \<open>
  The canonical text is a complete and unambiguous account of a document: two values
  have the same canonical text, the text that gets hashed and signed, if and only if they have
  the same content, that is, the same defined properties in whatever order, recursively.
\<close>

theorem canonical_text_unambiguous:
  "canonicalJson a = canonicalJson b \<longleftrightarrow> json_content a = json_content b"
  unfolding canonicalJson_def by (rule stableStringify_eq)

section \<open>Request binding\<close>

text \<open>\<open>src/src/domain/request-binding.ts\<close>. Methods are ASCII.\<close>

record RequestBindingFields =
  rb_sellerRequestId :: string
  rb_httpMethod :: string
  rb_canonicalResourceUrl :: string
  rb_requestBodyHash :: string
  rb_seller :: string
  rb_asset :: string
  rb_amountRawUsdc :: string
  rb_payTo :: string
  rb_sellerUsdcAta :: string

definition toUpperCase :: "string \<Rightarrow> string" where
  "toUpperCase = map (\<lambda>c. if CHR ''a'' \<le> c \<and> c \<le> CHR ''z'' then char_of (of_char c - 32 :: nat) else c)"

definition requestBindingJson :: "RequestBindingFields \<Rightarrow> json" where
  "requestBindingJson f = JObject
    [(''sellerRequestId'', Some (JString (rb_sellerRequestId f))),
     (''httpMethod'', Some (JString (toUpperCase (rb_httpMethod f)))),
     (''canonicalResourceUrl'', Some (JString (rb_canonicalResourceUrl f))),
     (''requestBodyHash'', Some (JString (rb_requestBodyHash f))),
     (''seller'', Some (JString (rb_seller f))),
     (''asset'', Some (JString (rb_asset f))),
     (''amountRawUsdc'', Some (JString (rb_amountRawUsdc f))),
     (''payTo'', Some (JString (rb_payTo f))),
     (''sellerUsdcAta'', Some (JString (rb_sellerUsdcAta f)))]"

definition computeRequestBindingHash :: "(string \<Rightarrow> string) \<Rightarrow> RequestBindingFields \<Rightarrow> string" where
  "computeRequestBindingHash sha f = hashStableJson sha (requestBindingJson f)"

lemma requestBindingJson_content:
  "json_content (requestBindingJson f) = json_content (requestBindingJson g) \<longleftrightarrow>
     f\<lparr>rb_httpMethod := toUpperCase (rb_httpMethod f)\<rparr>
       = g\<lparr>rb_httpMethod := toUpperCase (rb_httpMethod g)\<rparr>"
  by (cases f, cases g)
    (simp add: requestBindingJson_def sorted_defined_def, auto)

text \<open>
  C27: the request binding hash pins the request. Unless the digest function collides on the
  two canonical texts, equal binding hashes mean that all nine fields agree, the HTTP method
  up to letter case.
\<close>

theorem request_binding_pins_request:
  assumes "sha (stableStringify (requestBindingJson f)) = sha (stableStringify (requestBindingJson g)) \<Longrightarrow>
      stableStringify (requestBindingJson f) = stableStringify (requestBindingJson g)"
  shows "computeRequestBindingHash sha f = computeRequestBindingHash sha g \<longleftrightarrow>
     f\<lparr>rb_httpMethod := toUpperCase (rb_httpMethod f)\<rparr>
       = g\<lparr>rb_httpMethod := toUpperCase (rb_httpMethod g)\<rparr>"
proof -
  have "computeRequestBindingHash sha f = computeRequestBindingHash sha g \<longleftrightarrow>
      stableStringify (requestBindingJson f) = stableStringify (requestBindingJson g)"
    using assms by (auto simp: computeRequestBindingHash_def hashStableJson_def sha256TaggedHex_def)
  also have "\<dots> \<longleftrightarrow> json_content (requestBindingJson f) = json_content (requestBindingJson g)"
    by (rule stableStringify_eq)
  finally show ?thesis unfolding requestBindingJson_content .
qed

theorem request_binding_pins_request_witness:
  "computeRequestBindingHash (\<lambda>x. x)
     \<lparr>rb_sellerRequestId = ''r1'', rb_httpMethod = ''get'', rb_canonicalResourceUrl = ''u'',
      rb_requestBodyHash = ''h'', rb_seller = ''s'', rb_asset = ''a'', rb_amountRawUsdc = ''7'',
      rb_payTo = ''p'', rb_sellerUsdcAta = ''t''\<rparr> =
   computeRequestBindingHash (\<lambda>x. x)
     \<lparr>rb_sellerRequestId = ''r1'', rb_httpMethod = ''GET'', rb_canonicalResourceUrl = ''u'',
      rb_requestBodyHash = ''h'', rb_seller = ''s'', rb_asset = ''a'', rb_amountRawUsdc = ''7'',
      rb_payTo = ''p'', rb_sellerUsdcAta = ''t''\<rparr>"
  by (subst request_binding_pins_request) (simp_all, code_simp)

end
