(* ===== verification/Models.thy ===== *)
theory Models
  imports Canonical_Json
begin

text \<open>
  \<open>src/src/domain/models.ts\<close>: the data the services store. One record per interface, with
  the source's field names behind a short prefix per record, one datatype per string union.
  \<open>bigint\<close> and integer-valued \<open>number\<close> are \<open>int\<close>, \<open>null\<close> and absent
  fields are \<open>None\<close>, \<open>unknown\<close> is a JSON value, and ISO timestamps are the type
  \<open>timestamp\<close> of the prelude.
\<close>

section \<open>String unions\<close>

datatype PrincipalBasisSource =
    basis_empty | kamino_pnl_current | subly_receipts | conservative_activation_reset
  | manual_trusted_seed

datatype WalletPositionStatus = pos_active | needs_baseline_reset | observed_only

datatype SigningMode = non_interactive | mode_observed_only

datatype SignerValidationMode = unverified | structured_intent_transaction

datatype PaymentStatus =
    pay_prepared | submission_prepared | pay_submitted | settled | pay_failed | pay_expired
  | pay_failed_not_submitted

datatype UnitKind =
    raw_usdc | raw_vault_shares | decimal_usdc | decimal_vault_shares | exchange_rate_scaled

datatype VaultFlowStatus =
    flow_prepared | flow_submitted | flow_confirmed | flow_failed | flow_expired
  | flow_failed_not_submitted

datatype WithdrawalPurpose = normal | yield_realize

datatype PaymentVerification = verified_onchain | reported | unreported

datatype SyncEventType =
    wallet_sync | deposit_confirmed | withdrawal_confirmed | payment_settled
  | payment_landed_failed | external_share_movement

datatype SpendingMandateStatus = mandate_active | mandate_revoked | recovery_pending

datatype OwnerAuth = ed25519 | passkey

datatype EnforcementMode = subly | wallet_infra

datatype SpendingMandateEventType =
    ev_registered | ev_replaced | ev_revoked | ev_recovery_scheduled | ev_recovery_cancelled

datatype SpendingApprovalStatus =
    approval_pending | approval_approved | approval_denied | approval_expired | approval_consumed

datatype SetupSessionStatus = setup_pending | setup_completed

datatype OwnerAction = action_update | action_revoke | action_cancel_recovery

datatype LiquidityPolicyStatus = policy_active | policy_disabled

text \<open>
  A JavaScript number that need not be an integer: \<open>JsFin n d\<close> is the rational
  \<open>n / d\<close> with positive \<open>d\<close>.
\<close>

datatype js_number = JsFin int nat | JsNaN | JsInf | JsNegInf

section \<open>Records\<close>

record ProvenancedRawValue =
  pv_sourceEndpoint :: string
  pv_fieldPath :: string
  pv_observedAt :: "timestamp option"
  pv_observedSlot :: "int option"
  pv_rawValue :: string
  pv_unitKind :: UnitKind
  pv_normalizedRawUnits :: int

record WalletPosition =
  pos_wallet :: string
  pos_vault :: string
  pos_signingPolicyId :: "string option"
  pos_signingMode :: SigningMode
  pos_signerValidationMode :: SignerValidationMode
  pos_signerProvider :: string
  pos_stakedSharesRaw :: int
  pos_unstakedSharesRaw :: int
  pos_totalSharesRaw :: int
  pos_exchangeRateScaled :: int
  pos_instantRedeemCapacityRawUsdc :: int
  pos_principalBasisRawUsdc :: int
  pos_principalBasisSource :: PrincipalBasisSource
  pos_reservedRawUsdc :: int
  pos_feeDebtRawUsdc :: int
  pos_safetyBufferRawUsdc :: int
  pos_kaminoPositionSnapshot :: "ProvenancedRawValue list"
  pos_kaminoPnlSnapshot :: "ProvenancedRawValue list"
  pos_lastSyncedSlot :: "int option"
  pos_version :: int
  pos_status :: WalletPositionStatus

record DepositIntent =
  dep_depositId :: string
  dep_wallet :: string
  dep_vault :: string
  dep_amountRawUsdc :: int
  dep_policySource :: "string option"
  dep_mandateHash :: "string option"
  dep_policyDecision :: "string option"
  dep_approvalId :: "string option"
  dep_preparedMessageHash :: string
  dep_recentBlockhash :: "string option"
  dep_lastValidBlockHeight :: "int option"
  dep_serializedTransaction :: string
  dep_txSignature :: "string option"
  dep_submittedSerializedTransaction :: "string option"
  dep_actualDepositRawUsdc :: "int option"
  dep_sharesMintedRaw :: "int option"
  dep_principalBasisBeforeRawUsdc :: int
  dep_principalBasisAfterRawUsdc :: "int option"
  dep_status :: VaultFlowStatus
  dep_expiresAt :: timestamp
  dep_submittedAt :: "timestamp option"
  dep_terminalAt :: "timestamp option"
  dep_errorCode :: "string option"

record PaymentBindingWire =
  pb_payTo :: string
  pb_amountRawUsdc :: string
  pb_resourceUrlHash :: string
  pb_method :: string

record WithdrawalIntent =
  wdr_withdrawalId :: string
  wdr_wallet :: string
  wdr_vault :: string
  wdr_purpose :: WithdrawalPurpose
  wdr_paymentBinding :: "PaymentBindingWire option"
  wdr_policySource :: "string option"
  wdr_mandateHash :: "string option"
  wdr_policyDecision :: "string option"
  wdr_approvalId :: "string option"
  wdr_paymentTxSignature :: "string option"
  wdr_paymentVerification :: "PaymentVerification option"
  wdr_requestedWithdrawRawUsdc :: int
  wdr_requestedSharesRaw :: int
  wdr_maxSharesToRedeemRaw :: int
  wdr_destinationUsdcAta :: string
  wdr_preparedMessageHash :: string
  wdr_recentBlockhash :: "string option"
  wdr_lastValidBlockHeight :: "int option"
  wdr_serializedTransaction :: string
  wdr_txSignature :: "string option"
  wdr_submittedSerializedTransaction :: "string option"
  wdr_actualSharesBurnedRaw :: "int option"
  wdr_actualWithdrawRawUsdc :: "int option"
  wdr_principalBasisBeforeRawUsdc :: int
  wdr_principalBasisAfterRawUsdc :: "int option"
  wdr_status :: VaultFlowStatus
  wdr_expiresAt :: timestamp
  wdr_submittedAt :: "timestamp option"
  wdr_terminalAt :: "timestamp option"
  wdr_errorCode :: "string option"
  wdr_liquidityRejectionReason :: "string option"

record SyncEvent =
  ev_eventId :: string
  ev_wallet :: string
  ev_vault :: string
  ev_eventType :: SyncEventType
  ev_txSignature :: "string option"
  ev_deltaSharesRaw :: int
  ev_deltaPrincipalRawUsdc :: int
  ev_classification :: string
  ev_sourceEndpoint :: string
  ev_rawSnapshot :: json
  ev_slot :: "int option"
  ev_observedAt :: timestamp

record OwnerCredential =
  oc_publicKey :: string
  oc_credentialId :: "string option"
  oc_algorithm :: "int option"

record SpendingMandateRecord =
  md_wallet :: string
  md_vault :: string
  md_documentJson :: json
  md_mandateHash :: string
  md_ownerAuth :: OwnerAuth
  md_ownerCredential :: OwnerCredential
  md_enforcementMode :: EnforcementMode
  md_issuedAtMs :: int
  md_expiresAtMs :: int
  md_status :: SpendingMandateStatus
  md_recoveryAtMs :: "int option"
  md_revokedAtMs :: "int option"
  md_revokeJson :: "json option"

record SpendingMandateEvent =
  mev_eventId :: string
  mev_wallet :: string
  mev_eventType :: SpendingMandateEventType
  mev_mandateHash :: string
  mev_documentJson :: json
  mev_createdAtMs :: int

record SpendingApproval =
  ap_approvalId :: string
  ap_wallet :: string
  ap_bindingHash :: string
  ap_bindingJson :: json
  ap_mandateHash :: string
  ap_status :: SpendingApprovalStatus
  ap_decisionJson :: "json option"
  ap_requestedAtMs :: int
  ap_expiresAtMs :: int
  ap_decidedAtMs :: "int option"
  ap_consumedAtMs :: "int option"
  ap_consumedByWithdrawalId :: "string option"

record OwnerManagement =
  om_mandateHash :: string
  om_status :: SpendingMandateStatus
  om_recoveryAtMs :: "int option"
  om_revokedAtMs :: "int option"

record SetupSession =
  ss_sessionId :: string
  ss_wallet :: string
  ss_vault :: string
  ss_policyWire :: json
  ss_enforcementMode :: EnforcementMode
  ss_mandateExpiresAtMs :: int
  ss_initialDepositRawUsdc :: "string option"
  ss_status :: SetupSessionStatus
  ss_createdAtMs :: int
  ss_expiresAtMs :: int
  ss_completedAtMs :: "int option"
  ss_mandateHash :: "string option"
  ss_initialDepositApprovalId :: "string option"
  ss_agentAuth :: json
  ss_ownerManagement :: "OwnerManagement option"
  ss_ownerAction :: "OwnerAction option"

record SellerLiquidityPolicy =
  lp_sellerClass :: string
  lp_vault :: string
  lp_expectedPaymentSizeRawUsdc :: int
  lp_minInstantLiquidityRawUsdc :: int
  lp_targetBudgetIlliquidRate :: js_number
  lp_status :: LiquidityPolicyStatus

record PaymentIntent =
  pay_paymentId :: string
  pay_wallet :: string
  pay_vault :: string
  pay_seller :: string
  pay_sellerRequestId :: string
  pay_httpMethod :: string
  pay_canonicalResourceUrl :: string
  pay_requestBodyHash :: string
  pay_requestBindingHash :: string
  pay_asset :: string
  pay_amountRawUsdc :: int
  pay_payTo :: string
  pay_sellerUsdcAta :: string
  pay_dustRecipientUsdcAta :: string
  pay_signingPolicyId :: string
  pay_preparedMessageHash :: string
  pay_recentBlockhash :: "string option"
  pay_lastValidBlockHeight :: "int option"
  pay_temporarySettlementTokenAccount :: string
  pay_temporarySettlementSignature :: string
  pay_sharesToRedeemRaw :: int
  pay_requiredWithdrawRawUsdc :: int
  pay_estimatedFeeLamports :: int
  pay_estimatedFeeDebtRawUsdc :: int
  pay_principalBasisBeforeRawUsdc :: int
  pay_grossYieldBeforeRawUsdc :: int
  pay_spendableYieldBeforeRawUsdc :: int
  pay_postPositionValueRawUsdc :: int
  pay_reservationRawUsdc :: int
  pay_status :: PaymentStatus
  pay_expiresAt :: timestamp
  pay_submittedAt :: "timestamp option"
  pay_terminalAt :: "timestamp option"
  pay_txSignature :: "string option"
  pay_submittedSerializedTransaction :: "string option"
  pay_settlementResponse :: "json option"
  pay_intentJson :: json

end
