(* ===== verification/Samples.thy ===== *)
theory Samples
  imports Models
begin

text \<open>
  Concrete records that the witnesses of the properties run on: a registered active position
  holding 2 USDC of shares on a 1 USDC principal, and one payment, deposit, withdrawal and
  approval of that wallet. The addresses are base58 strings of 32 bytes.
\<close>

definition sample_wallet :: string where "sample_wallet = replicate 31 (CHR ''1'') @ ''2''"
definition sample_seller :: string where "sample_seller = replicate 31 (CHR ''1'') @ ''3''"
definition sample_vault :: string where "sample_vault = replicate 31 (CHR ''1'') @ ''4''"

lemmas sample_address_defs = sample_wallet_def sample_seller_def sample_vault_def

definition sample_position :: WalletPosition where
  "sample_position = \<lparr>pos_wallet = sample_wallet,
     pos_vault = sample_vault,
     pos_signingPolicyId = Some ''policy'',
     pos_signingMode = non_interactive,
     pos_signerValidationMode = structured_intent_transaction,
     pos_signerProvider = ''privy'',
     pos_stakedSharesRaw = 0,
     pos_unstakedSharesRaw = 2000000,
     pos_totalSharesRaw = 2000000,
     pos_exchangeRateScaled = 1000000000000,
     pos_instantRedeemCapacityRawUsdc = 5000000,
     pos_principalBasisRawUsdc = 1000000,
     pos_principalBasisSource = subly_receipts,
     pos_reservedRawUsdc = 0,
     pos_feeDebtRawUsdc = 0,
     pos_safetyBufferRawUsdc = 0,
     pos_kaminoPositionSnapshot = [],
     pos_kaminoPnlSnapshot = [],
     pos_lastSyncedSlot = None,
     pos_version = 1,
     pos_status = pos_active\<rparr>"

definition sample_payment :: PaymentIntent where
  "sample_payment = \<lparr>pay_paymentId = ''pay_1'',
     pay_wallet = sample_wallet,
     pay_vault = sample_vault,
     pay_seller = sample_seller,
     pay_sellerRequestId = ''req_1'',
     pay_httpMethod = '''',
     pay_canonicalResourceUrl = '''',
     pay_requestBodyHash = '''',
     pay_requestBindingHash = ''binding'',
     pay_asset = '''',
     pay_amountRawUsdc = 1000,
     pay_payTo = '''',
     pay_sellerUsdcAta = '''',
     pay_dustRecipientUsdcAta = '''',
     pay_signingPolicyId = '''',
     pay_preparedMessageHash = ''hash'',
     pay_recentBlockhash = None,
     pay_lastValidBlockHeight = None,
     pay_temporarySettlementTokenAccount = '''',
     pay_temporarySettlementSignature = '''',
     pay_sharesToRedeemRaw = 1000,
     pay_requiredWithdrawRawUsdc = 1000,
     pay_estimatedFeeLamports = 0,
     pay_estimatedFeeDebtRawUsdc = 100,
     pay_principalBasisBeforeRawUsdc = 0,
     pay_grossYieldBeforeRawUsdc = 0,
     pay_spendableYieldBeforeRawUsdc = 0,
     pay_postPositionValueRawUsdc = 0,
     pay_reservationRawUsdc = 1100,
     pay_status = pay_prepared,
     pay_expiresAt = AtMs 1000000,
     pay_submittedAt = None,
     pay_terminalAt = None,
     pay_txSignature = None,
     pay_submittedSerializedTransaction = None,
     pay_settlementResponse = None,
     pay_intentJson = JNull\<rparr>"

definition sample_deposit :: DepositIntent where
  "sample_deposit = \<lparr>dep_depositId = ''dep_1'',
     dep_wallet = sample_wallet,
     dep_vault = sample_vault,
     dep_amountRawUsdc = 1000,
     dep_policySource = None,
     dep_mandateHash = None,
     dep_policyDecision = None,
     dep_approvalId = None,
     dep_preparedMessageHash = '''',
     dep_recentBlockhash = None,
     dep_lastValidBlockHeight = None,
     dep_serializedTransaction = '''',
     dep_txSignature = None,
     dep_submittedSerializedTransaction = None,
     dep_actualDepositRawUsdc = None,
     dep_sharesMintedRaw = None,
     dep_principalBasisBeforeRawUsdc = 0,
     dep_principalBasisAfterRawUsdc = None,
     dep_status = flow_prepared,
     dep_expiresAt = AtMs 1000000,
     dep_submittedAt = None,
     dep_terminalAt = None,
     dep_errorCode = None\<rparr>"

definition sample_withdrawal :: WithdrawalIntent where
  "sample_withdrawal = \<lparr>wdr_withdrawalId = ''wdr_1'',
     wdr_wallet = sample_wallet,
     wdr_vault = sample_vault,
     wdr_purpose = normal,
     wdr_paymentBinding = None,
     wdr_policySource = None,
     wdr_mandateHash = None,
     wdr_policyDecision = None,
     wdr_approvalId = None,
     wdr_paymentTxSignature = None,
     wdr_paymentVerification = None,
     wdr_requestedWithdrawRawUsdc = 0,
     wdr_requestedSharesRaw = 0,
     wdr_maxSharesToRedeemRaw = 0,
     wdr_destinationUsdcAta = '''',
     wdr_preparedMessageHash = '''',
     wdr_recentBlockhash = None,
     wdr_lastValidBlockHeight = None,
     wdr_serializedTransaction = '''',
     wdr_txSignature = None,
     wdr_submittedSerializedTransaction = None,
     wdr_actualSharesBurnedRaw = None,
     wdr_actualWithdrawRawUsdc = None,
     wdr_principalBasisBeforeRawUsdc = 0,
     wdr_principalBasisAfterRawUsdc = None,
     wdr_status = flow_prepared,
     wdr_expiresAt = AtMs 1000000,
     wdr_submittedAt = None,
     wdr_terminalAt = None,
     wdr_errorCode = None,
     wdr_liquidityRejectionReason = None\<rparr>"

definition sample_approval :: SpendingApproval where
  "sample_approval = \<lparr>ap_approvalId = ''ap_1'',
     ap_wallet = sample_wallet,
     ap_bindingHash = '''',
     ap_bindingJson = JNull,
     ap_mandateHash = '''',
     ap_status = approval_pending,
     ap_decisionJson = None,
     ap_requestedAtMs = 0,
     ap_expiresAtMs = 1000000,
     ap_decidedAtMs = None,
     ap_consumedAtMs = None,
     ap_consumedByWithdrawalId = None\<rparr>"

lemmas sample_defs = sample_position_def sample_payment_def sample_deposit_def sample_withdrawal_def sample_approval_def

end
