(* ===== verification/Budget.thy ===== *)
theory Budget
  imports Samples
begin

text \<open>
  \<open>src/src/domain/budget.ts\<close>: what a position is worth, how much of it is spendable yield,
  and the decision whether a payment may be prepared. The \<open>details\<close> object of a rejection
  is not modelled.
\<close>

section \<open>The computations\<close>

record BudgetSnapshot =
  bs_positionValueRawUsdc :: int
  bs_grossYieldRawUsdc :: int
  bs_spendableYieldRawUsdc :: int

datatype BudgetRejectionCode =
    insufficient_yield | budget_illiquid | invalid_exchange_rate
  | post_state_principal_invariant_failed

record PaymentBudgetEvaluation =
  be_budget :: BudgetSnapshot
  be_requiredBudgetRawUsdc :: int
  be_requiredWithdrawRawUsdc :: int
  be_sharesToRedeemRaw :: int
  be_postPositionValueRawUsdc :: int
  be_reservationRawUsdc :: int

datatype BudgetDecision =
    BudgetOk PaymentBudgetEvaluation
  | BudgetRejected BudgetRejectionCode BudgetSnapshot

definition rejection_code :: "BudgetRejectionCode \<Rightarrow> string" where
  "rejection_code c = (case c of
       insufficient_yield \<Rightarrow> ''insufficient_yield''
     | budget_illiquid \<Rightarrow> ''budget_illiquid''
     | invalid_exchange_rate \<Rightarrow> ''invalid_exchange_rate''
     | post_state_principal_invariant_failed \<Rightarrow> ''post_state_principal_invariant_failed'')"

definition computePositionValueRawUsdc :: "int \<Rightarrow> int \<Rightarrow> int result" where
  "computePositionValueRawUsdc totalSharesRaw exchangeRateScaled =
     (if exchangeRateScaled \<le> 0 then Inl (JsError ''exchangeRateScaled must be positive'')
      else mulDivFloor totalSharesRaw exchangeRateScaled RATE_SCALE)"

definition computeBudgetSnapshot :: "WalletPosition \<Rightarrow> BudgetSnapshot result" where
  "computeBudgetSnapshot p =
     bindR (computePositionValueRawUsdc (pos_totalSharesRaw p) (pos_exchangeRateScaled p))
       (\<lambda>positionValueRawUsdc.
         let grossYieldRawUsdc = clampToZero (positionValueRawUsdc - pos_principalBasisRawUsdc p);
             spendableYieldRawUsdc = clampToZero (grossYieldRawUsdc - pos_reservedRawUsdc p
               - pos_feeDebtRawUsdc p - pos_safetyBufferRawUsdc p)
         in Inr \<lparr>bs_positionValueRawUsdc = positionValueRawUsdc,
              bs_grossYieldRawUsdc = grossYieldRawUsdc,
              bs_spendableYieldRawUsdc = spendableYieldRawUsdc\<rparr>)"

definition sharesToRedeemRaw :: "int \<Rightarrow> int \<Rightarrow> int result" where
  "sharesToRedeemRaw requiredWithdrawRawUsdc exchangeRateScaled =
     (if exchangeRateScaled \<le> 0 then Inl (JsError ''exchangeRateScaled must be positive'')
      else ceilDiv (requiredWithdrawRawUsdc * RATE_SCALE) exchangeRateScaled)"

text \<open>The optional parameters are \<open>option\<close>s with the source's defaults.\<close>

definition evaluatePaymentBudget ::
  "WalletPosition \<Rightarrow> int \<Rightarrow> int \<Rightarrow> int option \<Rightarrow> int option \<Rightarrow> BudgetDecision result" where
  "evaluatePaymentBudget p sellerAmountRawUsdc estimatedFeeDebtRawUsdc withdrawOpt activeOpt =
     (if pos_exchangeRateScaled p \<le> 0 then
        Inr (BudgetRejected invalid_exchange_rate
          \<lparr>bs_positionValueRawUsdc = 0, bs_grossYieldRawUsdc = 0, bs_spendableYieldRawUsdc = 0\<rparr>)
      else bindR (computeBudgetSnapshot p) (\<lambda>budget.
        let requiredWithdrawRawUsdc =
              (case withdrawOpt of None \<Rightarrow> sellerAmountRawUsdc | Some w \<Rightarrow> w);
            requiredBudgetRawUsdc = requiredWithdrawRawUsdc + estimatedFeeDebtRawUsdc;
            activeWithdrawReservedRawUsdc = (case activeOpt of None \<Rightarrow> 0 | Some a \<Rightarrow> a)
        in if bs_spendableYieldRawUsdc budget < requiredBudgetRawUsdc then
             Inr (BudgetRejected insufficient_yield budget)
           else if pos_instantRedeemCapacityRawUsdc p
               < activeWithdrawReservedRawUsdc + requiredWithdrawRawUsdc then
             Inr (BudgetRejected budget_illiquid budget)
           else
             let postPositionValueRawUsdc = bs_positionValueRawUsdc budget - requiredWithdrawRawUsdc;
                 invariantLeft = postPositionValueRawUsdc - pos_reservedRawUsdc p
                   - pos_feeDebtRawUsdc p - estimatedFeeDebtRawUsdc;
                 invariantRight = pos_principalBasisRawUsdc p + pos_safetyBufferRawUsdc p
             in if invariantLeft < invariantRight then
                  Inr (BudgetRejected post_state_principal_invariant_failed budget)
                else bindR (sharesToRedeemRaw requiredWithdrawRawUsdc (pos_exchangeRateScaled p))
                  (\<lambda>shares. Inr (BudgetOk
                    \<lparr>be_budget = budget,
                     be_requiredBudgetRawUsdc = requiredBudgetRawUsdc,
                     be_requiredWithdrawRawUsdc = requiredWithdrawRawUsdc,
                     be_sharesToRedeemRaw = shares,
                     be_postPositionValueRawUsdc = postPositionValueRawUsdc,
                     be_reservationRawUsdc = requiredBudgetRawUsdc\<rparr>))))"

section \<open>What the decision guarantees\<close>

text \<open>
  What protects the principal after a withdrawal of \<open>withdraw\<close> and a fee of \<open>fee\<close>:
  the remaining value covers the principal, the safety buffer, everything already reserved and
  owed, and the new fee.
\<close>

definition principal_covered :: "WalletPosition \<Rightarrow> int \<Rightarrow> int \<Rightarrow> int \<Rightarrow> bool" where
  "principal_covered p v withdraw fee \<longleftrightarrow>
     pos_principalBasisRawUsdc p + pos_safetyBufferRawUsdc p + pos_reservedRawUsdc p
       + pos_feeDebtRawUsdc p + fee \<le> v - withdraw"

lemma snapshot_iff:
  "computeBudgetSnapshot p = Inr b \<longleftrightarrow>
     0 < pos_exchangeRateScaled p \<and> 0 \<le> pos_totalSharesRaw p \<and>
     b = (let v = pos_totalSharesRaw p * pos_exchangeRateScaled p div RATE_SCALE;
              g = clampToZero (v - pos_principalBasisRawUsdc p)
          in \<lparr>bs_positionValueRawUsdc = v, bs_grossYieldRawUsdc = g,
              bs_spendableYieldRawUsdc = clampToZero (g - pos_reservedRawUsdc p
                - pos_feeDebtRawUsdc p - pos_safetyBufferRawUsdc p)\<rparr>)"
  by (auto simp: computeBudgetSnapshot_def bindR_Inr computePositionValueRawUsdc_def mulDivFloor_def
      Let_def not_le)

lemma sharesToRedeemRaw_iff:
  "sharesToRedeemRaw w r = Inr s \<longleftrightarrow>
     0 < r \<and> 0 \<le> w \<and> w * RATE_SCALE \<le> s * r \<and> (s - 1) * r < w * RATE_SCALE"
  by (auto simp: sharesToRedeemRaw_def ceilDiv_iff left_diff_distrib zero_le_mult_iff RATE_SCALE_def)

text \<open>Every way to accept a payment, with what was decided.\<close>

lemma budget_ok_iff:
  "evaluatePaymentBudget p a fee wo ao = Inr (BudgetOk e) \<longleftrightarrow>
     (\<exists>b s. let w = (case wo of None \<Rightarrow> a | Some w \<Rightarrow> w);
           act = (case ao of None \<Rightarrow> 0 | Some a \<Rightarrow> a)
       in computeBudgetSnapshot p = Inr b \<and> w + fee \<le> bs_spendableYieldRawUsdc b \<and>
          act + w \<le> pos_instantRedeemCapacityRawUsdc p \<and>
          principal_covered p (bs_positionValueRawUsdc b) w fee \<and>
          sharesToRedeemRaw w (pos_exchangeRateScaled p) = Inr s \<and>
          e = \<lparr>be_budget = b, be_requiredBudgetRawUsdc = w + fee, be_requiredWithdrawRawUsdc = w,
               be_sharesToRedeemRaw = s,
               be_postPositionValueRawUsdc = bs_positionValueRawUsdc b - w,
               be_reservationRawUsdc = w + fee\<rparr>)"
proof (cases "0 < pos_exchangeRateScaled p")
  case True
  then show ?thesis
    by (cases "computeBudgetSnapshot p")
      (auto simp: evaluatePaymentBudget_def Let_def bindR_Inr principal_covered_def split: if_splits)
next
  case False
  then show ?thesis by (auto simp: evaluatePaymentBudget_def snapshot_iff)
qed

lemma budget_rejected_reason:
  assumes "evaluatePaymentBudget p a fee wo ao = Inr (BudgetRejected c b)" "c \<noteq> invalid_exchange_rate"
  shows "computeBudgetSnapshot p = Inr b \<and>
    (let w = (case wo of None \<Rightarrow> a | Some w \<Rightarrow> w); act = (case ao of None \<Rightarrow> 0 | Some a \<Rightarrow> a)
     in case c of
          insufficient_yield \<Rightarrow> bs_spendableYieldRawUsdc b < w + fee
        | budget_illiquid \<Rightarrow> w + fee \<le> bs_spendableYieldRawUsdc b \<and>
            pos_instantRedeemCapacityRawUsdc p < act + w
        | _ \<Rightarrow> w + fee \<le> bs_spendableYieldRawUsdc b \<and>
            \<not> principal_covered p (bs_positionValueRawUsdc b) w fee)"
  using assms
  by (auto simp: evaluatePaymentBudget_def Let_def bindR_Inr principal_covered_def split: if_splits)

lemma covered_value_shares:
  assumes "w \<le> n * r div RATE_SCALE" "sharesToRedeemRaw w r = Inr s"
  shows "w \<le> s * r div RATE_SCALE \<and> s \<le> n"
proof -
  have s: "0 < r" "w * RATE_SCALE \<le> s * r" "(s - 1) * r < w * RATE_SCALE"
    using assms(2) by (simp_all add: sharesToRedeemRaw_iff)
  have "w * RATE_SCALE \<le> n * r"
    using assms(1) by (simp add: le_div_iff)
  then have "(s - 1) * r < n * r" using s(3) by linarith
  then show ?thesis using s by (simp add: le_div_iff)
qed

text \<open>The yield that is spendable is covered by the value of the shares.\<close>

lemma spendable_covered:
  assumes "computeBudgetSnapshot p = Inr b" "0 < q" "q \<le> bs_spendableYieldRawUsdc b"
    and "0 \<le> pos_reservedRawUsdc p" "0 \<le> pos_feeDebtRawUsdc p" "0 \<le> pos_safetyBufferRawUsdc p"
  shows "principal_covered p (bs_positionValueRawUsdc b) w (q - w)"
  using assms by (auto simp: snapshot_iff Let_def clampToZero_def principal_covered_def split: if_splits)

text \<open>
  An accepted payment is paid out of yield alone. What remains after the gross
  withdrawal and the fee covers the principal, the safety buffer and everything reserved or
  owed; instant liquidity covers it together with the withdrawals already under way; the shares
  to redeem are the fewest that yield the gross withdrawal, and the wallet holds them.
\<close>

theorem budget_ok_protects_principal:
  assumes "evaluatePaymentBudget p amount fee wo ao = Inr (BudgetOk e)"
    and "0 \<le> pos_principalBasisRawUsdc p" "0 \<le> pos_safetyBufferRawUsdc p" "0 \<le> pos_reservedRawUsdc p"
      "0 \<le> pos_feeDebtRawUsdc p" "0 \<le> fee"
  shows "let w = be_requiredWithdrawRawUsdc e; n = be_sharesToRedeemRaw e; r = pos_exchangeRateScaled p
    in w = (case wo of None \<Rightarrow> amount | Some x \<Rightarrow> x) \<and> be_reservationRawUsdc e = w + fee \<and>
       principal_covered p (pos_totalSharesRaw p * r div RATE_SCALE) w fee \<and>
       (case ao of None \<Rightarrow> 0 | Some a \<Rightarrow> a) + w \<le> pos_instantRedeemCapacityRawUsdc p \<and>
       w \<le> n * r div RATE_SCALE \<and> (n - 1) * r < w * RATE_SCALE \<and> n \<le> pos_totalSharesRaw p"
proof -
  from assms(1) obtain b where b: "computeBudgetSnapshot p = Inr b"
      "principal_covered p (bs_positionValueRawUsdc b) (be_requiredWithdrawRawUsdc e) fee"
      "sharesToRedeemRaw (be_requiredWithdrawRawUsdc e) (pos_exchangeRateScaled p) = Inr (be_sharesToRedeemRaw e)"
      "be_requiredWithdrawRawUsdc e = (case wo of None \<Rightarrow> amount | Some x \<Rightarrow> x)"
      "be_reservationRawUsdc e = be_requiredWithdrawRawUsdc e + fee"
      "(case ao of None \<Rightarrow> 0 | Some a \<Rightarrow> a) + be_requiredWithdrawRawUsdc e
        \<le> pos_instantRedeemCapacityRawUsdc p"
    by (auto simp: budget_ok_iff Let_def)
  have v: "bs_positionValueRawUsdc b = pos_totalSharesRaw p * pos_exchangeRateScaled p div RATE_SCALE"
    using b(1) by (simp add: snapshot_iff Let_def)
  have "be_requiredWithdrawRawUsdc e \<le> pos_totalSharesRaw p * pos_exchangeRateScaled p div RATE_SCALE"
    using b(2) assms by (simp add: v principal_covered_def)
  from covered_value_shares[OF this b(3)] b v show ?thesis
    by (simp add: sharesToRedeemRaw_iff Let_def)
qed

theorem budget_ok_protects_principal_witness:
  "\<exists>e. evaluatePaymentBudget sample_position 1000 100 (Some 1010) (Some 0) = Inr (BudgetOk e) \<and>
     be_sharesToRedeemRaw e = 1010 \<and> be_sharesToRedeemRaw e \<le> pos_totalSharesRaw sample_position"
proof -
  let ?e = "\<lparr>be_budget = \<lparr>bs_positionValueRawUsdc = 2000000, bs_grossYieldRawUsdc = 1000000,
        bs_spendableYieldRawUsdc = 1000000\<rparr>, be_requiredBudgetRawUsdc = 1110,
      be_requiredWithdrawRawUsdc = 1010, be_sharesToRedeemRaw = 1010,
      be_postPositionValueRawUsdc = 1998990, be_reservationRawUsdc = 1110\<rparr>"
  have e: "evaluatePaymentBudget sample_position 1000 100 (Some 1010) (Some 0) = Inr (BudgetOk ?e)"
    by (simp add: evaluatePaymentBudget_def computeBudgetSnapshot_def computePositionValueRawUsdc_def
        mulDivFloor_def sharesToRedeemRaw_def ceilDiv_def clampToZero_def RATE_SCALE_def sample_position_def)
  from budget_ok_protects_principal[OF e] show ?thesis
    using e by (simp add: sample_position_def Let_def)
qed

text \<open>
  The post-state principal check of \<open>evaluatePaymentBudget\<close> is implied by the
  spendable-yield check: on a position with non-negative reservations, debts and buffer, a
  payment of a positive amount is never rejected by it, so a rejection is for a bad rate, for
  missing yield or for missing liquidity.
\<close>

theorem post_state_check_is_implied:
  assumes "0 \<le> pos_reservedRawUsdc p" "0 \<le> pos_feeDebtRawUsdc p" "0 \<le> pos_safetyBufferRawUsdc p"
    and "0 < (case wo of None \<Rightarrow> amount | Some w \<Rightarrow> w) + fee"
  shows "evaluatePaymentBudget p amount fee wo ao \<noteq>
    Inr (BudgetRejected post_state_principal_invariant_failed b)"
proof
  let ?w = "case wo of None \<Rightarrow> amount | Some w \<Rightarrow> w"
  assume "evaluatePaymentBudget p amount fee wo ao = Inr (BudgetRejected post_state_principal_invariant_failed b)"
  from budget_rejected_reason[OF this]
  have *: "computeBudgetSnapshot p = Inr b" "?w + fee \<le> bs_spendableYieldRawUsdc b"
    "\<not> principal_covered p (bs_positionValueRawUsdc b) ?w fee"
    by (simp_all add: Let_def)
  show False
    using spendable_covered[OF *(1) assms(4) *(2) assms(1-3), of ?w] *(3) by simp
qed

theorem post_state_check_is_implied_witness:
  "\<forall>b. evaluatePaymentBudget sample_position 1000 100 None None \<noteq>
    Inr (BudgetRejected post_state_principal_invariant_failed b)"
  by (intro allI post_state_check_is_implied) (simp_all add: sample_position_def)

text \<open>
  Reserving an accepted payment takes exactly its reservation off the spendable yield, so the
  next decision is made on what is really left.
\<close>

lemma reserve_reduces_spendable:
  assumes "evaluatePaymentBudget p amount fee wo ao = Inr (BudgetOk e)"
    and "computeBudgetSnapshot p = Inr b" "0 \<le> be_reservationRawUsdc e"
  shows "computeBudgetSnapshot (p\<lparr>pos_reservedRawUsdc := pos_reservedRawUsdc p + be_reservationRawUsdc e\<rparr>)
    = Inr (b\<lparr>bs_spendableYieldRawUsdc := bs_spendableYieldRawUsdc b - be_reservationRawUsdc e\<rparr>)"
  using assms by (auto simp: budget_ok_iff snapshot_iff Let_def clampToZero_def)

end
