(* ===== verification/Views.thy ===== *)
theory Views
  imports Budget
begin

text \<open>
  The JSON the services return: the \<open>serialize*\<close> functions of
  \<open>src/src/domain/payment-service.ts\<close>. A raw amount is printed as a decimal string and a
  negative one is refused (\<open>rawUnitsToString\<close> throws), so a view is a \<open>result\<close>.
\<close>

section \<open>Building JSON\<close>

definition obj :: "(string \<times> json) list \<Rightarrow> json" where
  "obj kvs = JObject (map (\<lambda>(k, v). (k, Some v)) kvs)"

fun fieldsR :: "(string \<times> json result) list \<Rightarrow> (string \<times> json) list result" where
  "fieldsR [] = Inr []"
| "fieldsR ((k, r) # xs) = bindR r (\<lambda>v. bindR (fieldsR xs) (\<lambda>vs. Inr ((k, v) # vs)))"

definition objR :: "(string \<times> json result) list \<Rightarrow> json result" where
  "objR kvs = bindR (fieldsR kvs) (\<lambda>vs. Inr (obj vs))"

definition raw :: "int \<Rightarrow> json result" where
  "raw v = bindR (rawUnitsToString v) (\<lambda>s. Inr (JString s))"

definition opt_string :: "string option \<Rightarrow> json" where
  "opt_string x = (case x of None \<Rightarrow> JNull | Some s \<Rightarrow> JString s)"

definition opt_number :: "int option \<Rightarrow> json" where
  "opt_number x = (case x of None \<Rightarrow> JNull | Some n \<Rightarrow> JNumber n)"

definition opt_json :: "json option \<Rightarrow> json" where
  "opt_json x = (case x of None \<Rightarrow> JNull | Some j \<Rightarrow> j)"

lemma fieldsR_total: "(\<forall>(k, r) \<in> set kvs. \<exists>v. r = Inr v) \<Longrightarrow> \<exists>vs. fieldsR kvs = Inr vs"
  by (induction kvs) auto

lemma objR_total: "(\<forall>(k, r) \<in> set kvs. \<exists>v. r = Inr v) \<Longrightarrow> \<exists>j. objR kvs = Inr j"
  using fieldsR_total[of kvs] by (auto simp: objR_def)

lemma raw_total [simp]: "(\<exists>j. raw v = Inr j) \<longleftrightarrow> 0 \<le> v"
  by (auto simp: raw_def rawUnitsToString_def)

section \<open>ISO timestamps\<close>

text \<open>
  \<open>Date.prototype.toISOString\<close> for the years 0 to 9999: days since 1970 become a date of
  the proleptic Gregorian calendar counted in 400-year eras.
\<close>

definition civil_from_days :: "int \<Rightarrow> int \<times> int \<times> int" where
  "civil_from_days days =
     (let z = days + 719468; era = z div 146097; doe = z mod 146097;
          yoe = (doe - doe div 1460 + doe div 36524 - doe div 146096) div 365;
          doy = doe - (365 * yoe + yoe div 4 - yoe div 100);
          mp = (5 * doy + 2) div 153;
          d = doy - (153 * mp + 2) div 5 + 1;
          m = (if mp < 10 then mp + 3 else mp - 9)
      in (yoe + era * 400 + (if m \<le> 2 then 1 else 0), m, d))"

definition padded :: "nat \<Rightarrow> int \<Rightarrow> string" where
  "padded n i = (let s = toString i in replicate (n - length s) (CHR ''0'') @ s)"

definition iso_text :: "timestamp \<Rightarrow> string" where
  "iso_text ts = (case ts of Unparsable s \<Rightarrow> s
     | AtMs t \<Rightarrow>
       (case civil_from_days (t div 86400000) of (y, m, d) \<Rightarrow>
          let r = t mod 86400000 in
          padded 4 y @ ''-'' @ padded 2 m @ ''-'' @ padded 2 d @ ''T'' @
          padded 2 (r div 3600000) @ '':'' @ padded 2 (r div 60000 mod 60) @ '':'' @
          padded 2 (r div 1000 mod 60) @ ''.'' @ padded 3 (r mod 1000) @ ''Z''))"

lemma iso_text_example: "iso_text (AtMs 951782400123) = ''2000-02-29T00:00:00.123Z''"
  by code_simp

section \<open>String unions\<close>

definition SigningMode_string :: "SigningMode \<Rightarrow> string" where
  "SigningMode_string x = (case x of
       non_interactive \<Rightarrow> ''non_interactive''
     | mode_observed_only \<Rightarrow> ''observed_only'')"

definition SignerValidationMode_string :: "SignerValidationMode \<Rightarrow> string" where
  "SignerValidationMode_string x = (case x of
       unverified \<Rightarrow> ''unverified''
     | structured_intent_transaction \<Rightarrow> ''structured_intent_transaction'')"

definition PrincipalBasisSource_string :: "PrincipalBasisSource \<Rightarrow> string" where
  "PrincipalBasisSource_string x = (case x of
       basis_empty \<Rightarrow> ''empty''
     | kamino_pnl_current \<Rightarrow> ''kamino_pnl_current''
     | subly_receipts \<Rightarrow> ''subly_receipts''
     | conservative_activation_reset \<Rightarrow> ''conservative_activation_reset''
     | manual_trusted_seed \<Rightarrow> ''manual_trusted_seed'')"

definition WalletPositionStatus_string :: "WalletPositionStatus \<Rightarrow> string" where
  "WalletPositionStatus_string x = (case x of
       pos_active \<Rightarrow> ''active''
     | needs_baseline_reset \<Rightarrow> ''needs_baseline_reset''
     | observed_only \<Rightarrow> ''observed_only'')"

definition PaymentStatus_string :: "PaymentStatus \<Rightarrow> string" where
  "PaymentStatus_string x = (case x of
       pay_prepared \<Rightarrow> ''prepared''
     | submission_prepared \<Rightarrow> ''submission_prepared''
     | pay_submitted \<Rightarrow> ''submitted''
     | settled \<Rightarrow> ''settled''
     | pay_failed \<Rightarrow> ''failed''
     | pay_expired \<Rightarrow> ''expired''
     | pay_failed_not_submitted \<Rightarrow> ''failed_not_submitted'')"

definition SyncEventType_string :: "SyncEventType \<Rightarrow> string" where
  "SyncEventType_string x = (case x of
       wallet_sync \<Rightarrow> ''wallet_sync''
     | deposit_confirmed \<Rightarrow> ''deposit_confirmed''
     | withdrawal_confirmed \<Rightarrow> ''withdrawal_confirmed''
     | payment_settled \<Rightarrow> ''payment_settled''
     | payment_landed_failed \<Rightarrow> ''payment_landed_failed''
     | external_share_movement \<Rightarrow> ''external_share_movement'')"

definition LiquidityPolicyStatus_string :: "LiquidityPolicyStatus \<Rightarrow> string" where
  "LiquidityPolicyStatus_string x = (case x of
       policy_active \<Rightarrow> ''active''
     | policy_disabled \<Rightarrow> ''disabled'')"

section \<open>Views\<close>

definition serializeWalletPosition :: "WalletPosition \<Rightarrow> json result" where
  "serializeWalletPosition p = objR
    [(''wallet'', Inr (JString (pos_wallet p))),
     (''vault'', Inr (JString (pos_vault p))),
     (''signingPolicyId'', Inr (opt_string (pos_signingPolicyId p))),
     (''signingMode'', Inr (JString (SigningMode_string (pos_signingMode p)))),
     (''signerValidationMode'', Inr (JString (SignerValidationMode_string (pos_signerValidationMode p)))),
     (''signerProvider'', Inr (JString (pos_signerProvider p))),
     (''stakedSharesRaw'', raw (pos_stakedSharesRaw p)),
     (''unstakedSharesRaw'', raw (pos_unstakedSharesRaw p)),
     (''totalSharesRaw'', raw (pos_totalSharesRaw p)),
     (''exchangeRateScaled'', raw (pos_exchangeRateScaled p)),
     (''instantRedeemCapacityRawUsdc'', raw (pos_instantRedeemCapacityRawUsdc p)),
     (''principalBasisRawUsdc'', raw (pos_principalBasisRawUsdc p)),
     (''principalBasisSource'', Inr (JString (PrincipalBasisSource_string (pos_principalBasisSource p)))),
     (''reservedRawUsdc'', raw (pos_reservedRawUsdc p)),
     (''feeDebtRawUsdc'', raw (pos_feeDebtRawUsdc p)),
     (''safetyBufferRawUsdc'', raw (pos_safetyBufferRawUsdc p)),
     (''lastSyncedSlot'', Inr (opt_number (pos_lastSyncedSlot p))),
     (''version'', Inr (JNumber (pos_version p))),
     (''status'', Inr (JString (WalletPositionStatus_string (pos_status p))))]"

definition serializeBudget :: "WalletPosition \<Rightarrow> json result" where
  "serializeBudget p = bindR (computeBudgetSnapshot p) (\<lambda>b. objR
    [(''position'', serializeWalletPosition p),
     (''budget'', objR
       [(''positionValueRawUsdc'', raw (bs_positionValueRawUsdc b)),
        (''grossYieldRawUsdc'', raw (bs_grossYieldRawUsdc b)),
        (''spendableYieldRawUsdc'', raw (bs_spendableYieldRawUsdc b))])])"

definition serializeSyncEvent :: "SyncEvent \<Rightarrow> json result" where
  "serializeSyncEvent e = objR
    [(''eventId'', Inr (JString (ev_eventId e))),
     (''wallet'', Inr (JString (ev_wallet e))),
     (''vault'', Inr (JString (ev_vault e))),
     (''eventType'', Inr (JString (SyncEventType_string (ev_eventType e)))),
     (''txSignature'', Inr (opt_string (ev_txSignature e))),
     (''deltaSharesRaw'', Inr (JString (toString (ev_deltaSharesRaw e)))),
     (''deltaPrincipalRawUsdc'', Inr (JString (toString (ev_deltaPrincipalRawUsdc e)))),
     (''classification'', Inr (JString (ev_classification e))),
     (''sourceEndpoint'', Inr (JString (ev_sourceEndpoint e))),
     (''rawSnapshot'', Inr (ev_rawSnapshot e)),
     (''slot'', Inr (opt_number (ev_slot e))),
     (''observedAt'', Inr (JString (iso_text (ev_observedAt e))))]"

text \<open>A non-integer number is printed by \<open>JSON.stringify\<close> outside the model: a parameter.\<close>

definition serializeLiquidityPolicy :: "(js_number \<Rightarrow> json) \<Rightarrow> SellerLiquidityPolicy \<Rightarrow> json result" where
  "serializeLiquidityPolicy num p = objR
    [(''sellerClass'', Inr (JString (lp_sellerClass p))),
     (''vault'', Inr (JString (lp_vault p))),
     (''expectedPaymentSizeRawUsdc'', raw (lp_expectedPaymentSizeRawUsdc p)),
     (''minInstantLiquidityRawUsdc'', raw (lp_minInstantLiquidityRawUsdc p)),
     (''targetBudgetIlliquidRate'', Inr (num (lp_targetBudgetIlliquidRate p))),
     (''status'', Inr (JString (LiquidityPolicyStatus_string (lp_status p))))]"

definition serializePaymentIntent :: "PaymentIntent \<Rightarrow> json result" where
  "serializePaymentIntent i = objR
    [(''paymentId'', Inr (JString (pay_paymentId i))),
     (''wallet'', Inr (JString (pay_wallet i))),
     (''vault'', Inr (JString (pay_vault i))),
     (''seller'', Inr (JString (pay_seller i))),
     (''sellerRequestId'', Inr (JString (pay_sellerRequestId i))),
     (''httpMethod'', Inr (JString (pay_httpMethod i))),
     (''canonicalResourceUrl'', Inr (JString (pay_canonicalResourceUrl i))),
     (''requestBodyHash'', Inr (JString (pay_requestBodyHash i))),
     (''requestBindingHash'', Inr (JString (pay_requestBindingHash i))),
     (''asset'', Inr (JString (pay_asset i))),
     (''amountRawUsdc'', raw (pay_amountRawUsdc i)),
     (''payTo'', Inr (JString (pay_payTo i))),
     (''sellerUsdcAta'', Inr (JString (pay_sellerUsdcAta i))),
     (''dustRecipientUsdcAta'', Inr (JString (pay_dustRecipientUsdcAta i))),
     (''signingPolicyId'', Inr (JString (pay_signingPolicyId i))),
     (''preparedMessageHash'', Inr (JString (pay_preparedMessageHash i))),
     (''recentBlockhash'', Inr (opt_string (pay_recentBlockhash i))),
     (''lastValidBlockHeight'', Inr (opt_number (pay_lastValidBlockHeight i))),
     (''temporarySettlementTokenAccount'', Inr (JString (pay_temporarySettlementTokenAccount i))),
     (''temporarySettlementSignature'', Inr (JString (pay_temporarySettlementSignature i))),
     (''sharesToRedeemRaw'', raw (pay_sharesToRedeemRaw i)),
     (''requiredWithdrawRawUsdc'', raw (pay_requiredWithdrawRawUsdc i)),
     (''estimatedFeeLamports'', raw (pay_estimatedFeeLamports i)),
     (''estimatedFeeDebtRawUsdc'', raw (pay_estimatedFeeDebtRawUsdc i)),
     (''principalBasisBeforeRawUsdc'', raw (pay_principalBasisBeforeRawUsdc i)),
     (''grossYieldBeforeRawUsdc'', raw (pay_grossYieldBeforeRawUsdc i)),
     (''spendableYieldBeforeRawUsdc'', raw (pay_spendableYieldBeforeRawUsdc i)),
     (''postPositionValueRawUsdc'', raw (pay_postPositionValueRawUsdc i)),
     (''reservationRawUsdc'', raw (pay_reservationRawUsdc i)),
     (''status'', Inr (JString (PaymentStatus_string (pay_status i)))),
     (''expiresAt'', Inr (JString (iso_text (pay_expiresAt i)))),
     (''submittedAt'', Inr (opt_string (map_option iso_text (pay_submittedAt i)))),
     (''terminalAt'', Inr (opt_string (map_option iso_text (pay_terminalAt i)))),
     (''txSignature'', Inr (opt_string (pay_txSignature i))),
     (''submittedSerializedTransaction'', Inr (opt_string (pay_submittedSerializedTransaction i))),
     (''settlementResponse'', Inr (opt_json (pay_settlementResponse i))),
     (''intentJson'', Inr (pay_intentJson i))]"

end
