(* ===== verification/Solana_Address.thy ===== *)
theory Solana_Address
  imports Raw_Units
begin

text \<open>
  \<open>src/src/lib/solana-address.ts\<close>: base58 decoding and the address check every service
  runs on its inputs. A byte is an \<open>int\<close> between 0 and 255.
\<close>

section \<open>Decoding\<close>

definition BASE58_ALPHABET :: string where
  "BASE58_ALPHABET = ''123456789ABCDEFGHJKLMNPQRSTUVWXYZabcdefghijkmnopqrstuvwxyz''"

definition BASE58_LOOKUP :: "char \<Rightarrow> int option" where
  "BASE58_LOOKUP = map_of (zip BASE58_ALPHABET [0..57])"

text \<open>The loop over the characters; \<open>None\<close> is its early return of no bytes.\<close>

fun base58_value :: "string \<Rightarrow> int \<Rightarrow> int option" where
  "base58_value [] decoded = Some decoded"
| "base58_value (c # cs) decoded =
     (case BASE58_LOOKUP c of None \<Rightarrow> None | Some digit \<Rightarrow> base58_value cs (decoded * 58 + digit))"

text \<open>The \<open>while\<close> loop: little-endian bytes of a number, masking and shifting by eight.\<close>

function bytes_le :: "int \<Rightarrow> int list" where
  "bytes_le n = (if n > 0 then (n mod 256) # bytes_le (n div 256) else [])"
  by pat_completeness auto
termination
  by (relation "measure nat") auto

declare bytes_le.simps [simp del]

definition decodeBase58 :: "string \<Rightarrow> int list" where
  "decodeBase58 v =
     (if v = [] then []
      else case base58_value v 0 of
          None \<Rightarrow> []
        | Some decoded \<Rightarrow>
            rev (bytes_le decoded @ replicate (length (takeWhile (\<lambda>c. c = CHR ''1'') v)) 0))"

definition assertSolanaAddress :: "string \<Rightarrow> string \<Rightarrow> string result" where
  "assertSolanaAddress v fieldName =
     (if length v < 32 \<or> length v > 44
        then Inl (JsError (fieldName @ '' must be a valid Solana public key''))
      else if length (decodeBase58 v) \<noteq> 32
        then Inl (JsError (fieldName @ '' must be a valid Solana public key''))
      else Inr v)"

text \<open>
  \<open>requireSolanaAddress\<close> of the services (\<open>payment-service.ts\<close>,
  \<open>vault-flow-service.ts\<close>): the same check as an HTTP error.
\<close>

definition requireSolanaAddress :: "string \<Rightarrow> string \<Rightarrow> string result" where
  "requireSolanaAddress v fieldName = (case assertSolanaAddress v fieldName of
       Inl _ \<Rightarrow> Inl (badRequest ''invalid_solana_address'')
     | Inr a \<Rightarrow> Inr a)"

definition valid_address :: "string \<Rightarrow> bool" where
  "valid_address v \<longleftrightarrow> 32 \<le> length v \<and> length v \<le> 44 \<and> length (decodeBase58 v) = 32"

lemma requireSolanaAddress_eq [simp]:
  "requireSolanaAddress v f =
     (if valid_address v then Inr v else Inl (badRequest ''invalid_solana_address''))"
  by (auto simp: requireSolanaAddress_def assertSolanaAddress_def valid_address_def)

section \<open>What an accepted address is\<close>

lemma base58_value_alphabet:
  "base58_value v n = Some m \<Longrightarrow> set v \<subseteq> set BASE58_ALPHABET"
proof (induction v arbitrary: n)
  case (Cons c v)
  then obtain d where d: "BASE58_LOOKUP c = Some d" "base58_value v (n * 58 + d) = Some m"
    by (auto split: option.splits)
  then have "c \<in> set BASE58_ALPHABET"
    by (auto simp: BASE58_LOOKUP_def dest!: map_of_SomeD set_zip_leftD)
  then show ?case using Cons.IH[OF d(2)] by simp
qed simp

lemma valid_address_alphabet: "valid_address v \<Longrightarrow> set v \<subseteq> set BASE58_ALPHABET"
  using base58_value_alphabet[of v 0]
  by (auto simp: valid_address_def decodeBase58_def split: if_splits option.splits)

lemma valid_address_no_colon: "valid_address v \<Longrightarrow> CHR '':'' \<notin> set v"
  using valid_address_alphabet[of v] by (auto simp: BASE58_ALPHABET_def)

end
