(* ===== verification/Ledger_Store.thy ===== *)
theory Ledger_Store
  imports Samples Solana_Address
begin

text \<open>
  \<open>src/src/domain/ledger.ts\<close>: the store all services share, as the in-memory ledger keeps
  it (insertion-ordered maps and two event lists), and the lock discipline of the two ledgers.
  Values are immutable here, so the defensive clones of the source are the values themselves.
  The locale \<open>ledger_table\<close> states what the services rely on; it is interpreted on
  every table of the store.
\<close>

section \<open>The store\<close>

record ledger =
  led_positions :: "(string, WalletPosition) js_map"
  led_payments :: "(string, PaymentIntent) js_map"
  led_deposits :: "(string, DepositIntent) js_map"
  led_withdrawals :: "(string, WithdrawalIntent) js_map"
  led_liquidityPolicies :: "(string, SellerLiquidityPolicy) js_map"
  led_syncEvents :: "SyncEvent list"
  led_spendingMandates :: "(string, SpendingMandateRecord) js_map"
  led_spendingMandateEvents :: "SpendingMandateEvent list"
  led_spendingApprovals :: "(string, SpendingApproval) js_map"
  led_setupSessions :: "(string, SetupSession) js_map"

definition empty_ledger :: ledger where
  "empty_ledger = \<lparr>led_positions = [], led_payments = [], led_deposits = [], led_withdrawals = [],
     led_liquidityPolicies = [], led_syncEvents = [], led_spendingMandates = [],
     led_spendingMandateEvents = [], led_spendingApprovals = [], led_setupSessions = []\<rparr>"

definition positionKey :: "string \<Rightarrow> string \<Rightarrow> string" where
  "positionKey wallet vault = wallet @ '':'' @ vault"

subsection \<open>Positions\<close>

definition getPosition :: "ledger \<Rightarrow> string \<Rightarrow> string \<Rightarrow> WalletPosition option" where
  "getPosition L wallet vault = map_get (led_positions L) (positionKey wallet vault)"

definition savePosition :: "WalletPosition \<Rightarrow> ledger \<Rightarrow> ledger" where
  "savePosition p L = L\<lparr>led_positions :=
     map_set (positionKey (pos_wallet p) (pos_vault p)) p (led_positions L)\<rparr>"

subsection \<open>Payments\<close>

definition LIVE_OR_SETTLED_STATUSES :: "PaymentStatus set" where
  "LIVE_OR_SETTLED_STATUSES = {pay_prepared, submission_prepared, pay_submitted, settled}"

definition getPayment :: "ledger \<Rightarrow> string \<Rightarrow> PaymentIntent option" where
  "getPayment L i = map_get (led_payments L) i"

definition listPaymentsForPosition :: "ledger \<Rightarrow> string \<Rightarrow> string \<Rightarrow> PaymentIntent list" where
  "listPaymentsForPosition L wallet vault =
     filter (\<lambda>i. pay_wallet i = wallet \<and> pay_vault i = vault) (map_values (led_payments L))"

definition listPaymentsByStatus ::
  "ledger \<Rightarrow> PaymentStatus list \<Rightarrow> nat \<Rightarrow> string option \<Rightarrow> PaymentIntent list" where
  "listPaymentsByStatus L statuses limit vault =
     take limit (filter (\<lambda>i. pay_status i \<in> set statuses \<and> (vault = None \<or> vault = Some (pay_vault i)))
       (map_values (led_payments L)))"

definition findPaymentBySellerRequest :: "ledger \<Rightarrow> string \<Rightarrow> string \<Rightarrow> PaymentIntent option" where
  "findPaymentBySellerRequest L seller sellerRequestId =
     (let matches = filter (\<lambda>c. pay_seller c = seller \<and> pay_sellerRequestId c = sellerRequestId)
            (map_values (led_payments L))
      in case find (\<lambda>c. pay_status c \<in> LIVE_OR_SETTLED_STATUSES) matches of
           Some live \<Rightarrow> Some live
         | None \<Rightarrow> if matches = [] then None else Some (last matches))"

definition savePayment :: "PaymentIntent \<Rightarrow> ledger \<Rightarrow> ledger" where
  "savePayment i L = L\<lparr>led_payments := map_set (pay_paymentId i) i (led_payments L)\<rparr>"

subsection \<open>Deposits and withdrawals\<close>

definition getDeposit :: "ledger \<Rightarrow> string \<Rightarrow> DepositIntent option" where
  "getDeposit L i = map_get (led_deposits L) i"

definition saveDeposit :: "DepositIntent \<Rightarrow> ledger \<Rightarrow> ledger" where
  "saveDeposit i L = L\<lparr>led_deposits := map_set (dep_depositId i) i (led_deposits L)\<rparr>"

definition listDepositsForPosition :: "ledger \<Rightarrow> string \<Rightarrow> string \<Rightarrow> DepositIntent list" where
  "listDepositsForPosition L wallet vault =
     filter (\<lambda>i. dep_wallet i = wallet \<and> dep_vault i = vault) (map_values (led_deposits L))"

definition getWithdrawal :: "ledger \<Rightarrow> string \<Rightarrow> WithdrawalIntent option" where
  "getWithdrawal L i = map_get (led_withdrawals L) i"

definition saveWithdrawal :: "WithdrawalIntent \<Rightarrow> ledger \<Rightarrow> ledger" where
  "saveWithdrawal i L = L\<lparr>led_withdrawals := map_set (wdr_withdrawalId i) i (led_withdrawals L)\<rparr>"

definition listWithdrawalsForPosition :: "ledger \<Rightarrow> string \<Rightarrow> string \<Rightarrow> WithdrawalIntent list" where
  "listWithdrawalsForPosition L wallet vault =
     filter (\<lambda>i. wdr_wallet i = wallet \<and> wdr_vault i = vault) (map_values (led_withdrawals L))"

subsection \<open>Liquidity policies and sync events\<close>

definition getLiquidityPolicy :: "ledger \<Rightarrow> string \<Rightarrow> string \<Rightarrow> SellerLiquidityPolicy option" where
  "getLiquidityPolicy L sellerClass vault =
     map_get (led_liquidityPolicies L) (sellerClass @ '':'' @ vault)"

definition saveLiquidityPolicy :: "SellerLiquidityPolicy \<Rightarrow> ledger \<Rightarrow> ledger" where
  "saveLiquidityPolicy p L = L\<lparr>led_liquidityPolicies :=
     map_set (lp_sellerClass p @ '':'' @ lp_vault p) p (led_liquidityPolicies L)\<rparr>"

definition listLiquidityPolicies :: "ledger \<Rightarrow> SellerLiquidityPolicy list" where
  "listLiquidityPolicies L = map_values (led_liquidityPolicies L)"

definition saveSyncEvent :: "SyncEvent \<Rightarrow> ledger \<Rightarrow> ledger" where
  "saveSyncEvent e L = L\<lparr>led_syncEvents := led_syncEvents L @ [e]\<rparr>"

text \<open>\<open>slice(-limit)\<close>: the last \<open>limit\<close> entries, and all of them when \<open>limit\<close> is 0.\<close>

definition listSyncEvents :: "ledger \<Rightarrow> string \<Rightarrow> string \<Rightarrow> nat \<Rightarrow> SyncEvent list" where
  "listSyncEvents L wallet vault limit =
     (let es = filter (\<lambda>e. ev_wallet e = wallet \<and> ev_vault e = vault) (led_syncEvents L)
      in rev (if limit = 0 then es else drop (length es - limit) es))"

subsection \<open>Mandates, approvals and setup sessions\<close>

definition getSpendingMandate :: "ledger \<Rightarrow> string \<Rightarrow> string \<Rightarrow> SpendingMandateRecord option" where
  "getSpendingMandate L wallet vault = map_get (led_spendingMandates L) (positionKey wallet vault)"

definition getSpendingMandateByHash :: "ledger \<Rightarrow> string \<Rightarrow> string \<Rightarrow> SpendingMandateRecord option" where
  "getSpendingMandateByHash L wallet h =
     (case find (\<lambda>r. md_wallet r = wallet \<and> md_mandateHash r = h) (map_values (led_spendingMandates L)) of
        None \<Rightarrow> None
      | Some r \<Rightarrow> getSpendingMandate L wallet (md_vault r))"

definition saveSpendingMandate :: "SpendingMandateRecord \<Rightarrow> ledger \<Rightarrow> ledger" where
  "saveSpendingMandate r L = L\<lparr>led_spendingMandates :=
     map_set (positionKey (md_wallet r) (md_vault r)) r (led_spendingMandates L)\<rparr>"

definition saveSpendingMandateEvent :: "SpendingMandateEvent \<Rightarrow> ledger \<Rightarrow> ledger" where
  "saveSpendingMandateEvent e L =
     L\<lparr>led_spendingMandateEvents := led_spendingMandateEvents L @ [e]\<rparr>"

definition getSpendingApproval :: "ledger \<Rightarrow> string \<Rightarrow> SpendingApproval option" where
  "getSpendingApproval L i = map_get (led_spendingApprovals L) i"

definition saveSpendingApproval :: "SpendingApproval \<Rightarrow> ledger \<Rightarrow> ledger" where
  "saveSpendingApproval a L =
     L\<lparr>led_spendingApprovals := map_set (ap_approvalId a) a (led_spendingApprovals L)\<rparr>"

definition listSpendingApprovalsForWallet :: "ledger \<Rightarrow> string \<Rightarrow> SpendingApproval list" where
  "listSpendingApprovalsForWallet L wallet =
     sort_key (\<lambda>a. - ap_requestedAtMs a)
       (filter (\<lambda>a. ap_wallet a = wallet) (map_values (led_spendingApprovals L)))"

definition approval_prunable :: "string \<Rightarrow> int \<Rightarrow> SpendingApproval \<Rightarrow> bool" where
  "approval_prunable wallet beforeMs a \<longleftrightarrow> ap_wallet a = wallet \<and>
     (ap_expiresAtMs a < beforeMs \<or>
      ap_status a = approval_consumed \<or> ap_status a = approval_denied \<or> ap_status a = approval_expired)"

definition pruneSpendingApprovals :: "string \<Rightarrow> int \<Rightarrow> ledger \<Rightarrow> nat \<times> ledger" where
  "pruneSpendingApprovals wallet beforeMs L =
     (length (filter (approval_prunable wallet beforeMs) (map_values (led_spendingApprovals L))),
      L\<lparr>led_spendingApprovals :=
        filter (\<lambda>(k, a). \<not> approval_prunable wallet beforeMs a) (led_spendingApprovals L)\<rparr>)"

definition getSetupSession :: "ledger \<Rightarrow> string \<Rightarrow> SetupSession option" where
  "getSetupSession L i = map_get (led_setupSessions L) i"

definition saveSetupSession :: "SetupSession \<Rightarrow> ledger \<Rightarrow> ledger" where
  "saveSetupSession x L = L\<lparr>led_setupSessions := map_set (ss_sessionId x) x (led_setupSessions L)\<rparr>"

section \<open>The contract of a table\<close>

lemma member_le_sum_list_map:
  "x \<in> set xs \<Longrightarrow> \<forall>y \<in> set xs. 0 \<le> f y \<Longrightarrow> f x \<le> (\<Sum>y\<leftarrow>xs. f y)" for f :: "'a \<Rightarrow> int"
proof (induction xs)
  case (Cons y xs)
  have "0 \<le> (\<Sum>z\<leftarrow>xs. f z)" using Cons.prems(2) by (intro sum_list_nonneg) auto
  then show ?case using Cons by fastforce
qed simp

locale ledger_table =
  fixes get :: "'s \<Rightarrow> 'k \<Rightarrow> 'v option"
    and save :: "'v \<Rightarrow> 's \<Rightarrow> 's"
    and key :: "'v \<Rightarrow> 'k"
    and entries :: "'s \<Rightarrow> 'v list"
    and ok :: "'s \<Rightarrow> bool"
  assumes ok_save: "ok s \<Longrightarrow> ok (save v s)"
    and get_save: "get (save v s) k = (if k = key v then Some v else get s k)"
    and get_key: "ok s \<Longrightarrow> get s k = Some v \<Longrightarrow> key v = k"
    and set_entries: "ok s \<Longrightarrow> v \<in> set (entries s) \<longleftrightarrow> get s (key v) = Some v"
    and sum_save: "\<And>f :: 'v \<Rightarrow> int. ok s \<Longrightarrow> (\<Sum>x\<leftarrow>entries (save v s). f x)
      = (\<Sum>x\<leftarrow>entries s. f x) - old_part f (get s (key v)) + f v"
begin

lemma entry_save: "ok s \<Longrightarrow> x \<in> set (entries (save v s)) \<longleftrightarrow> x = v \<or> key x \<noteq> key v \<and> x \<in> set (entries s)"
  by (auto simp: set_entries ok_save get_save)

lemma all_save: "ok s \<Longrightarrow> (\<forall>x \<in> set (entries s). P x) \<Longrightarrow> P v \<Longrightarrow> \<forall>x \<in> set (entries (save v s)). P x"
  by (auto simp: entry_save)

lemma got_entry: "ok s \<Longrightarrow> get s k = Some v \<Longrightarrow> v \<in> set (entries s)"
  using set_entries[of s v] get_key[of s k v] by simp

text \<open>Overwriting an entry changes a sum over a part of the table by the difference.\<close>

definition total :: "('v \<Rightarrow> bool) \<Rightarrow> ('v \<Rightarrow> int) \<Rightarrow> 's \<Rightarrow> int" where
  "total P f s = (\<Sum>x\<leftarrow>filter P (entries s). f x)"

lemma total_if: "total P f s = (\<Sum>x\<leftarrow>entries s. if P x then f x else 0)"
  by (simp add: total_def sum_list_map_filter')

lemma total_save: "ok s \<Longrightarrow> total P f (save v s)
    = total P f s - old_part (\<lambda>x. if P x then f x else 0) (get s (key v)) + (if P v then f v else 0)"
  unfolding total_if by (rule sum_save)

lemma total_nonneg: "(\<And>x. x \<in> set (entries s) \<Longrightarrow> P x \<Longrightarrow> 0 \<le> f x) \<Longrightarrow> 0 \<le> total P f s"
  unfolding total_def by (rule sum_list_nonneg) auto

lemma total_ge_entry:
  assumes "ok s" "get s k = Some v" "P v" "\<And>x. x \<in> set (entries s) \<Longrightarrow> P x \<Longrightarrow> 0 \<le> f x"
  shows "f v \<le> total P f s"
proof -
  have "v \<in> set (filter P (entries s))" using got_entry[OF assms(1,2)] assms(3) by simp
  moreover have "\<forall>x \<in> set (filter P (entries s)). 0 \<le> f x" using assms(4) by simp
  ultimately show ?thesis
    unfolding total_def by (rule member_le_sum_list_map)
qed

text \<open>Rewriting stored entries in place changes them and nothing else.\<close>

lemma fold_save:
  assumes "ok s" "\<forall>x \<in> set xs. get s (key x) = Some x" "\<forall>x \<in> set xs. key (f x) = key x"
  shows "ok (fold (\<lambda>x. save (f x)) xs s)"
    and "get (fold (\<lambda>x. save (f x)) xs s) k =
      (case get s k of None \<Rightarrow> None | Some x \<Rightarrow> Some (if x \<in> set xs then f x else x))"
proof -
  have "ok (fold (\<lambda>x. save (f x)) xs s) \<and> (\<forall>k. get (fold (\<lambda>x. save (f x)) xs s) k =
      (case get s k of None \<Rightarrow> None | Some x \<Rightarrow> Some (if x \<in> set xs then f x else x)))"
    using assms(2,3)
  proof (induction xs rule: rev_induct)
    case Nil
    then show ?case using assms(1) by (simp split: option.splits)
  next
    case (snoc y xs)
    have "get s k = Some x \<Longrightarrow> x = y \<longleftrightarrow> k = key y" for k x
      using snoc.prems(1) get_key[OF assms(1)] by fastforce
    then show ?case using snoc by (auto simp: ok_save get_save split: option.splits)
  qed
  then show "ok (fold (\<lambda>x. save (f x)) xs s)"
    "get (fold (\<lambda>x. save (f x)) xs s) k =
      (case get s k of None \<Rightarrow> None | Some x \<Rightarrow> Some (if x \<in> set xs then f x else x))"
    by simp_all
qed

end

section \<open>Every table of the store keeps the contract\<close>

definition keyed :: "('v \<Rightarrow> 'k) \<Rightarrow> ('k, 'v) js_map \<Rightarrow> bool" where
  "keyed key m \<longleftrightarrow> map_ok m \<and> (\<forall>(k, v) \<in> set m. key v = k)"

lemma keyed_Nil [simp]: "keyed key []"
  by (simp add: keyed_def)

lemma keyed_get: "keyed key m \<longleftrightarrow> map_ok m \<and> (\<forall>k v. map_get m k = Some v \<longrightarrow> key v = k)"
  by (auto simp: keyed_def map_get_def map_ok_def dest: map_of_SomeD)

lemma keyed_set [simp]: "keyed key m \<Longrightarrow> keyed key (map_set (key v) v m)"
  by (auto simp: keyed_get)

lemma keyed_values: "keyed key m \<Longrightarrow> v \<in> set (map_values m) \<longleftrightarrow> map_get m (key v) = Some v"
  by (auto simp: keyed_get in_map_values)

lemma ledger_tableI:
  assumes "\<And>s k. get s k = map_get (proj s) k" and "\<And>s v. proj (save v s) = map_set (key v) v (proj s)"
  shows "ledger_table get save key (\<lambda>s. map_values (proj s)) (\<lambda>s. keyed key (proj s))"
proof
  fix s v and f :: "'c \<Rightarrow> int"
  assume "keyed key (proj s)"
  then show "(\<Sum>x\<leftarrow>map_values (proj (save v s)). f x)
      = (\<Sum>x\<leftarrow>map_values (proj s). f x) - old_part f (get s (key v)) + f v"
    using sum_map_set[of "proj s"] by (simp add: assms keyed_def)
qed (simp_all add: assms keyed_values, simp add: keyed_get)

definition position_key :: "WalletPosition \<Rightarrow> string" where
  "position_key p = positionKey (pos_wallet p) (pos_vault p)"

definition mandate_key :: "SpendingMandateRecord \<Rightarrow> string" where
  "mandate_key r = positionKey (md_wallet r) (md_vault r)"

lemmas save_defs = savePosition_def savePayment_def saveDeposit_def saveWithdrawal_def
  saveLiquidityPolicy_def saveSyncEvent_def saveSpendingMandate_def saveSpendingMandateEvent_def
  saveSpendingApproval_def saveSetupSession_def position_key_def mandate_key_def

interpretation positions: ledger_table "\<lambda>L. map_get (led_positions L)" savePosition position_key
    "\<lambda>L. map_values (led_positions L)" "\<lambda>L. keyed position_key (led_positions L)"
  by (rule ledger_tableI) (simp_all add: save_defs)

interpretation payments: ledger_table getPayment savePayment pay_paymentId
    "\<lambda>L. map_values (led_payments L)" "\<lambda>L. keyed pay_paymentId (led_payments L)"
  by (rule ledger_tableI) (simp_all add: save_defs getPayment_def)

interpretation deposits: ledger_table getDeposit saveDeposit dep_depositId
    "\<lambda>L. map_values (led_deposits L)" "\<lambda>L. keyed dep_depositId (led_deposits L)"
  by (rule ledger_tableI) (simp_all add: save_defs getDeposit_def)

interpretation withdrawals: ledger_table getWithdrawal saveWithdrawal wdr_withdrawalId
    "\<lambda>L. map_values (led_withdrawals L)" "\<lambda>L. keyed wdr_withdrawalId (led_withdrawals L)"
  by (rule ledger_tableI) (simp_all add: save_defs getWithdrawal_def)

interpretation mandates: ledger_table "\<lambda>L. map_get (led_spendingMandates L)" saveSpendingMandate
    mandate_key "\<lambda>L. map_values (led_spendingMandates L)"
    "\<lambda>L. keyed mandate_key (led_spendingMandates L)"
  by (rule ledger_tableI) (simp_all add: save_defs)

interpretation approvals: ledger_table getSpendingApproval saveSpendingApproval ap_approvalId
    "\<lambda>L. map_values (led_spendingApprovals L)" "\<lambda>L. keyed ap_approvalId (led_spendingApprovals L)"
  by (rule ledger_tableI) (simp_all add: save_defs getSpendingApproval_def)

interpretation sessions: ledger_table getSetupSession saveSetupSession ss_sessionId
    "\<lambda>L. map_values (led_setupSessions L)" "\<lambda>L. keyed ss_sessionId (led_setupSessions L)"
  by (rule ledger_tableI) (simp_all add: save_defs getSetupSession_def)

text \<open>The store is well formed: every table is keyed by the key of its entries.\<close>

definition ledger_ok :: "ledger \<Rightarrow> bool" where
  "ledger_ok L \<longleftrightarrow> keyed position_key (led_positions L) \<and> keyed pay_paymentId (led_payments L) \<and>
     keyed dep_depositId (led_deposits L) \<and> keyed wdr_withdrawalId (led_withdrawals L) \<and>
     keyed mandate_key (led_spendingMandates L) \<and> keyed ap_approvalId (led_spendingApprovals L) \<and>
     keyed ss_sessionId (led_setupSessions L)"

lemma ledger_ok_empty [simp]: "ledger_ok empty_ledger"
  by (simp add: ledger_ok_def empty_ledger_def)

lemma ledger_ok_save [simp]:
  "ledger_ok L \<Longrightarrow> ledger_ok (savePosition p L)" "ledger_ok L \<Longrightarrow> ledger_ok (savePayment i L)"
  "ledger_ok L \<Longrightarrow> ledger_ok (saveDeposit d L)" "ledger_ok L \<Longrightarrow> ledger_ok (saveWithdrawal w L)"
  "ledger_ok L \<Longrightarrow> ledger_ok (saveLiquidityPolicy q L)" "ledger_ok L \<Longrightarrow> ledger_ok (saveSyncEvent e L)"
  "ledger_ok L \<Longrightarrow> ledger_ok (saveSpendingMandate r L)"
  "ledger_ok L \<Longrightarrow> ledger_ok (saveSpendingMandateEvent me L)"
  "ledger_ok L \<Longrightarrow> ledger_ok (saveSpendingApproval a L)"
  "ledger_ok L \<Longrightarrow> ledger_ok (saveSetupSession x L)"
  unfolding ledger_ok_def
  using positions.ok_save payments.ok_save deposits.ok_save withdrawals.ok_save mandates.ok_save
    approvals.ok_save sessions.ok_save
  by (simp_all add: save_defs)

subsection \<open>Reading what was written\<close>

lemma positionKey_inj:
  "CHR '':'' \<notin> set w \<Longrightarrow> CHR '':'' \<notin> set w' \<Longrightarrow>
   positionKey w v = positionKey w' v' \<longleftrightarrow> w = w' \<and> v = v'"
  unfolding positionKey_def
proof (induction w arbitrary: w')
  case Nil
  then show ?case by (cases w') auto
next
  case (Cons c w)
  then show ?case by (cases w') auto
qed

lemma getPosition_save [simp]:
  "getPosition (savePosition p L) w v
     = (if positionKey w v = positionKey (pos_wallet p) (pos_vault p) then Some p else getPosition L w v)"
  by (simp add: getPosition_def savePosition_def)

lemma getPayment_savePayment [simp]:
  "getPayment (savePayment i L) k = (if k = pay_paymentId i then Some i else getPayment L k)"
  by (rule payments.get_save)

lemma getDeposit_saveDeposit [simp]:
  "getDeposit (saveDeposit i L) k = (if k = dep_depositId i then Some i else getDeposit L k)"
  by (rule deposits.get_save)

lemma getWithdrawal_saveWithdrawal [simp]:
  "getWithdrawal (saveWithdrawal i L) k = (if k = wdr_withdrawalId i then Some i else getWithdrawal L k)"
  by (rule withdrawals.get_save)

lemma getSpendingApproval_save [simp]:
  "getSpendingApproval (saveSpendingApproval a L) k
     = (if k = ap_approvalId a then Some a else getSpendingApproval L k)"
  by (rule approvals.get_save)

lemma getSetupSession_save [simp]:
  "getSetupSession (saveSetupSession x L) k = (if k = ss_sessionId x then Some x else getSetupSession L k)"
  by (rule sessions.get_save)

text \<open>Frame: a write to one table is not seen by reads of another.\<close>

lemma frame_getPosition [simp]:
  "getPosition (savePayment i L) = getPosition L" "getPosition (saveDeposit d L) = getPosition L"
  "getPosition (saveWithdrawal w L) = getPosition L"
  "getPosition (saveLiquidityPolicy q L) = getPosition L"
  "getPosition (saveSyncEvent e L) = getPosition L"
  "getPosition (saveSpendingMandate m L) = getPosition L"
  "getPosition (saveSpendingMandateEvent me L) = getPosition L"
  "getPosition (saveSpendingApproval a L) = getPosition L"
  "getPosition (saveSetupSession z L) = getPosition L"
  by (simp_all add: getPosition_def[abs_def] save_defs)

lemma frame_getPayment [simp]:
  "getPayment (savePosition p L) = getPayment L" "getPayment (saveDeposit d L) = getPayment L"
  "getPayment (saveWithdrawal w L) = getPayment L"
  "getPayment (saveLiquidityPolicy q L) = getPayment L"
  "getPayment (saveSyncEvent e L) = getPayment L"
  "getPayment (saveSpendingMandate m L) = getPayment L"
  "getPayment (saveSpendingMandateEvent me L) = getPayment L"
  "getPayment (saveSpendingApproval a L) = getPayment L"
  "getPayment (saveSetupSession z L) = getPayment L"
  by (simp_all add: getPayment_def[abs_def] save_defs)

lemma frame_getDeposit [simp]:
  "getDeposit (savePosition p L) = getDeposit L" "getDeposit (savePayment i L) = getDeposit L"
  "getDeposit (saveWithdrawal w L) = getDeposit L"
  "getDeposit (saveLiquidityPolicy q L) = getDeposit L"
  "getDeposit (saveSyncEvent e L) = getDeposit L"
  "getDeposit (saveSpendingMandate m L) = getDeposit L"
  "getDeposit (saveSpendingMandateEvent me L) = getDeposit L"
  "getDeposit (saveSpendingApproval a L) = getDeposit L"
  "getDeposit (saveSetupSession z L) = getDeposit L"
  by (simp_all add: getDeposit_def[abs_def] save_defs)

lemma frame_getWithdrawal [simp]:
  "getWithdrawal (savePosition p L) = getWithdrawal L"
  "getWithdrawal (savePayment i L) = getWithdrawal L"
  "getWithdrawal (saveDeposit d L) = getWithdrawal L"
  "getWithdrawal (saveLiquidityPolicy q L) = getWithdrawal L"
  "getWithdrawal (saveSyncEvent e L) = getWithdrawal L"
  "getWithdrawal (saveSpendingMandate m L) = getWithdrawal L"
  "getWithdrawal (saveSpendingMandateEvent me L) = getWithdrawal L"
  "getWithdrawal (saveSpendingApproval a L) = getWithdrawal L"
  "getWithdrawal (saveSetupSession z L) = getWithdrawal L"
  by (simp_all add: getWithdrawal_def[abs_def] save_defs)

lemma frame_getSpendingApproval [simp]:
  "getSpendingApproval (savePosition p L) = getSpendingApproval L"
  "getSpendingApproval (savePayment i L) = getSpendingApproval L"
  "getSpendingApproval (saveDeposit d L) = getSpendingApproval L"
  "getSpendingApproval (saveWithdrawal w L) = getSpendingApproval L"
  "getSpendingApproval (saveLiquidityPolicy q L) = getSpendingApproval L"
  "getSpendingApproval (saveSyncEvent e L) = getSpendingApproval L"
  "getSpendingApproval (saveSpendingMandate m L) = getSpendingApproval L"
  "getSpendingApproval (saveSpendingMandateEvent me L) = getSpendingApproval L"
  "getSpendingApproval (saveSetupSession z L) = getSpendingApproval L"
  by (simp_all add: getSpendingApproval_def[abs_def] save_defs)

lemma frame_getSetupSession [simp]:
  "getSetupSession (savePosition p L) = getSetupSession L"
  "getSetupSession (savePayment i L) = getSetupSession L"
  "getSetupSession (saveDeposit d L) = getSetupSession L"
  "getSetupSession (saveWithdrawal w L) = getSetupSession L"
  "getSetupSession (saveLiquidityPolicy q L) = getSetupSession L"
  "getSetupSession (saveSyncEvent e L) = getSetupSession L"
  "getSetupSession (saveSpendingMandate m L) = getSetupSession L"
  "getSetupSession (saveSpendingMandateEvent me L) = getSetupSession L"
  "getSetupSession (saveSpendingApproval a L) = getSetupSession L"
  by (simp_all add: getSetupSession_def[abs_def] save_defs)

lemma frame_getSpendingMandate [simp]:
  "getSpendingMandate (savePosition p L) = getSpendingMandate L"
  "getSpendingMandate (savePayment i L) = getSpendingMandate L"
  "getSpendingMandate (saveDeposit d L) = getSpendingMandate L"
  "getSpendingMandate (saveWithdrawal w L) = getSpendingMandate L"
  "getSpendingMandate (saveLiquidityPolicy q L) = getSpendingMandate L"
  "getSpendingMandate (saveSyncEvent e L) = getSpendingMandate L"
  "getSpendingMandate (saveSpendingMandateEvent me L) = getSpendingMandate L"
  "getSpendingMandate (saveSpendingApproval a L) = getSpendingMandate L"
  "getSpendingMandate (saveSetupSession z L) = getSpendingMandate L"
  by (simp_all add: getSpendingMandate_def[abs_def] save_defs)

lemma frame_listPaymentsForPosition [simp]:
  "listPaymentsForPosition (savePosition p L) = listPaymentsForPosition L"
  "listPaymentsForPosition (saveDeposit d L) = listPaymentsForPosition L"
  "listPaymentsForPosition (saveWithdrawal w L) = listPaymentsForPosition L"
  "listPaymentsForPosition (saveLiquidityPolicy q L) = listPaymentsForPosition L"
  "listPaymentsForPosition (saveSyncEvent e L) = listPaymentsForPosition L"
  "listPaymentsForPosition (saveSpendingMandate m L) = listPaymentsForPosition L"
  "listPaymentsForPosition (saveSpendingMandateEvent me L) = listPaymentsForPosition L"
  "listPaymentsForPosition (saveSpendingApproval a L) = listPaymentsForPosition L"
  "listPaymentsForPosition (saveSetupSession z L) = listPaymentsForPosition L"
  by (simp_all add: listPaymentsForPosition_def[abs_def] save_defs)

lemma frame_listDepositsForPosition [simp]:
  "listDepositsForPosition (savePosition p L) = listDepositsForPosition L"
  "listDepositsForPosition (savePayment i L) = listDepositsForPosition L"
  "listDepositsForPosition (saveWithdrawal w L) = listDepositsForPosition L"
  "listDepositsForPosition (saveLiquidityPolicy q L) = listDepositsForPosition L"
  "listDepositsForPosition (saveSyncEvent e L) = listDepositsForPosition L"
  "listDepositsForPosition (saveSpendingMandate m L) = listDepositsForPosition L"
  "listDepositsForPosition (saveSpendingMandateEvent me L) = listDepositsForPosition L"
  "listDepositsForPosition (saveSpendingApproval a L) = listDepositsForPosition L"
  "listDepositsForPosition (saveSetupSession z L) = listDepositsForPosition L"
  by (simp_all add: listDepositsForPosition_def[abs_def] save_defs)

lemma frame_listWithdrawalsForPosition [simp]:
  "listWithdrawalsForPosition (savePosition p L) = listWithdrawalsForPosition L"
  "listWithdrawalsForPosition (savePayment i L) = listWithdrawalsForPosition L"
  "listWithdrawalsForPosition (saveDeposit d L) = listWithdrawalsForPosition L"
  "listWithdrawalsForPosition (saveLiquidityPolicy q L) = listWithdrawalsForPosition L"
  "listWithdrawalsForPosition (saveSyncEvent e L) = listWithdrawalsForPosition L"
  "listWithdrawalsForPosition (saveSpendingMandate m L) = listWithdrawalsForPosition L"
  "listWithdrawalsForPosition (saveSpendingMandateEvent me L) = listWithdrawalsForPosition L"
  "listWithdrawalsForPosition (saveSpendingApproval a L) = listWithdrawalsForPosition L"
  "listWithdrawalsForPosition (saveSetupSession z L) = listWithdrawalsForPosition L"
  by (simp_all add: listWithdrawalsForPosition_def[abs_def] save_defs)

lemma frame_getLiquidityPolicy [simp]:
  "getLiquidityPolicy (savePosition p L) = getLiquidityPolicy L"
  "getLiquidityPolicy (savePayment i L) = getLiquidityPolicy L"
  "getLiquidityPolicy (saveDeposit d L) = getLiquidityPolicy L"
  "getLiquidityPolicy (saveWithdrawal w L) = getLiquidityPolicy L"
  "getLiquidityPolicy (saveSyncEvent e L) = getLiquidityPolicy L"
  "getLiquidityPolicy (saveSpendingMandate m L) = getLiquidityPolicy L"
  "getLiquidityPolicy (saveSpendingMandateEvent me L) = getLiquidityPolicy L"
  "getLiquidityPolicy (saveSpendingApproval a L) = getLiquidityPolicy L"
  "getLiquidityPolicy (saveSetupSession z L) = getLiquidityPolicy L"
  by (simp_all add: getLiquidityPolicy_def[abs_def] save_defs)

lemma frame_findPaymentBySellerRequest [simp]:
  "findPaymentBySellerRequest (savePosition p L) = findPaymentBySellerRequest L"
  "findPaymentBySellerRequest (saveDeposit d L) = findPaymentBySellerRequest L"
  "findPaymentBySellerRequest (saveWithdrawal w L) = findPaymentBySellerRequest L"
  "findPaymentBySellerRequest (saveLiquidityPolicy q L) = findPaymentBySellerRequest L"
  "findPaymentBySellerRequest (saveSyncEvent e L) = findPaymentBySellerRequest L"
  "findPaymentBySellerRequest (saveSpendingMandate m L) = findPaymentBySellerRequest L"
  "findPaymentBySellerRequest (saveSpendingMandateEvent me L) = findPaymentBySellerRequest L"
  "findPaymentBySellerRequest (saveSpendingApproval a L) = findPaymentBySellerRequest L"
  "findPaymentBySellerRequest (saveSetupSession z L) = findPaymentBySellerRequest L"
  by (simp_all add: findPaymentBySellerRequest_def[abs_def] save_defs)

lemma frame_led_positions [simp]:
  "led_positions (savePayment i L) = led_positions L"
  "led_positions (saveDeposit d L) = led_positions L"
  "led_positions (saveWithdrawal w L) = led_positions L"
  "led_positions (saveLiquidityPolicy q L) = led_positions L"
  "led_positions (saveSyncEvent e L) = led_positions L"
  "led_positions (saveSpendingMandate m L) = led_positions L"
  "led_positions (saveSpendingMandateEvent me L) = led_positions L"
  "led_positions (saveSpendingApproval a L) = led_positions L"
  "led_positions (saveSetupSession z L) = led_positions L"
  by (simp_all add: save_defs)

lemma frame_led_payments [simp]:
  "led_payments (savePosition p L) = led_payments L"
  "led_payments (saveDeposit d L) = led_payments L"
  "led_payments (saveWithdrawal w L) = led_payments L"
  "led_payments (saveLiquidityPolicy q L) = led_payments L"
  "led_payments (saveSyncEvent e L) = led_payments L"
  "led_payments (saveSpendingMandate m L) = led_payments L"
  "led_payments (saveSpendingMandateEvent me L) = led_payments L"
  "led_payments (saveSpendingApproval a L) = led_payments L"
  "led_payments (saveSetupSession z L) = led_payments L"
  by (simp_all add: save_defs)

lemma frame_led_deposits [simp]:
  "led_deposits (savePosition p L) = led_deposits L"
  "led_deposits (savePayment i L) = led_deposits L"
  "led_deposits (saveWithdrawal w L) = led_deposits L"
  "led_deposits (saveLiquidityPolicy q L) = led_deposits L"
  "led_deposits (saveSyncEvent e L) = led_deposits L"
  "led_deposits (saveSpendingMandate m L) = led_deposits L"
  "led_deposits (saveSpendingMandateEvent me L) = led_deposits L"
  "led_deposits (saveSpendingApproval a L) = led_deposits L"
  "led_deposits (saveSetupSession z L) = led_deposits L"
  by (simp_all add: save_defs)

lemma frame_led_withdrawals [simp]:
  "led_withdrawals (savePosition p L) = led_withdrawals L"
  "led_withdrawals (savePayment i L) = led_withdrawals L"
  "led_withdrawals (saveDeposit d L) = led_withdrawals L"
  "led_withdrawals (saveLiquidityPolicy q L) = led_withdrawals L"
  "led_withdrawals (saveSyncEvent e L) = led_withdrawals L"
  "led_withdrawals (saveSpendingMandate m L) = led_withdrawals L"
  "led_withdrawals (saveSpendingMandateEvent me L) = led_withdrawals L"
  "led_withdrawals (saveSpendingApproval a L) = led_withdrawals L"
  "led_withdrawals (saveSetupSession z L) = led_withdrawals L"
  by (simp_all add: save_defs)

lemma frame_led_spendingApprovals [simp]:
  "led_spendingApprovals (savePosition p L) = led_spendingApprovals L"
  "led_spendingApprovals (savePayment i L) = led_spendingApprovals L"
  "led_spendingApprovals (saveDeposit d L) = led_spendingApprovals L"
  "led_spendingApprovals (saveWithdrawal w L) = led_spendingApprovals L"
  "led_spendingApprovals (saveLiquidityPolicy q L) = led_spendingApprovals L"
  "led_spendingApprovals (saveSyncEvent e L) = led_spendingApprovals L"
  "led_spendingApprovals (saveSpendingMandate m L) = led_spendingApprovals L"
  "led_spendingApprovals (saveSpendingMandateEvent me L) = led_spendingApprovals L"
  "led_spendingApprovals (saveSetupSession z L) = led_spendingApprovals L"
  by (simp_all add: save_defs)

lemma frame_led_syncEvents [simp]:
  "led_syncEvents (savePosition p L) = led_syncEvents L"
  "led_syncEvents (savePayment i L) = led_syncEvents L"
  "led_syncEvents (saveDeposit d L) = led_syncEvents L"
  "led_syncEvents (saveWithdrawal w L) = led_syncEvents L"
  "led_syncEvents (saveLiquidityPolicy q L) = led_syncEvents L"
  "led_syncEvents (saveSpendingMandate m L) = led_syncEvents L"
  "led_syncEvents (saveSpendingMandateEvent me L) = led_syncEvents L"
  "led_syncEvents (saveSpendingApproval a L) = led_syncEvents L"
  "led_syncEvents (saveSetupSession z L) = led_syncEvents L"
  by (simp_all add: save_defs)

section \<open>Locks\<close>

text \<open>
  \<open>withWalletVaultLock\<close>, \<open>withSellerRequestLock\<close> and
  \<open>withSpendingMandateLock\<close> run their callback alone on its rows, so a locked section is
  one step. What a throw leaves behind depends on the ledger: the in-memory one keeps the writes
  made so far (\<open>withLock\<close> in \<open>ledger.ts\<close>), the PostgreSQL one rolls the transaction
  back unless the error is an approval-required outcome (\<open>withTransactionLock\<close> in
  \<open>postgres-ledger.ts\<close>). An inner lock joins the transaction of the outer one.
\<close>

datatype ledger_kind = InMemoryLedger | PostgresLedger

definition rolls_back :: "ledger_kind \<Rightarrow> error \<Rightarrow> bool" where
  "rolls_back k e \<longleftrightarrow> k = PostgresLedger \<and>
     (case e of ApprovalRequiredError _ _ _ \<Rightarrow> False | _ \<Rightarrow> True)"

definition withLock :: "ledger_kind \<Rightarrow> ('s, 'a) action \<Rightarrow> ('s, 'a) action" where
  "withLock k m s = (case m s of
       (Inr x, t) \<Rightarrow> (Inr x, t)
     | (Inl e, t) \<Rightarrow> (Inl e, if rolls_back k e then s else t))"

locale lock_discipline =
  fixes lock :: "('s, 'a) action \<Rightarrow> ('s, 'a) action"
  assumes lock_result: "fst (lock m s) = fst (m s)"
    and lock_return: "fst (m s) = Inr x \<Longrightarrow> snd (lock m s) = snd (m s)"
    and lock_throw: "snd (lock m s) = snd (m s) \<or> snd (lock m s) = s"
begin

text \<open>Whatever the discipline, an invariant of the body is an invariant of the locked section.\<close>

lemma runs_lock:
  assumes "runs m s Q (\<lambda>_. I)" and "I s"
  shows "runs (lock m) s Q (\<lambda>_. I)"
proof (rule runsI)
  fix x t
  assume *: "lock m s = (Inr x, t)"
  then have "fst (m s) = Inr x" using lock_result[of m s] by simp
  then have "m s = (Inr x, t)" using lock_return[of m s x] * by (metis prod.collapse snd_conv)
  then show "Q x t" using assms(1) runs_InrD by metis
next
  fix e t
  assume *: "lock m s = (Inl e, t)"
  then have "fst (m s) = Inl e" using lock_result[of m s] by simp
  then have "m s = (Inl e, snd (m s))" by (metis prod.collapse)
  then have "I (snd (m s))" using assms(1) runs_InlD by metis
  then show "I t" using lock_throw[of m s] * assms(2) by auto
qed

lemma runs_lock_inv: "runs m s (\<lambda>_. I) (\<lambda>_. I) \<Longrightarrow> I s \<Longrightarrow> runs (lock m) s (\<lambda>_. I) (\<lambda>_. I)"
  by (rule runs_lock)

end

interpretation lock: lock_discipline "withLock k" for k
  by unfold_locales (auto simp: withLock_def split: prod.splits sum.splits)

lemma withLock_memory [simp]: "withLock InMemoryLedger m = m"
  by (rule ext) (auto simp: withLock_def rolls_back_def split: prod.splits sum.splits)

lemma withLock_return: "m s = (Inr x, t) \<Longrightarrow> withLock k m s = (Inr x, t)"
  by (simp add: withLock_def)

lemma withLock_Inr: "withLock k m s = (Inr x, t) \<longleftrightarrow> m s = (Inr x, t)"
  by (auto simp: withLock_def split: prod.splits sum.splits)

section \<open>Finding the payment of a seller request\<close>

definition seller_request_payments :: "ledger \<Rightarrow> string \<Rightarrow> string \<Rightarrow> PaymentIntent set" where
  "seller_request_payments L seller reqId =
     {p. getPayment L (pay_paymentId p) = Some p \<and> pay_seller p = seller \<and> pay_sellerRequestId p = reqId}"

lemma find_payment_matches:
  assumes "ledger_ok L"
  shows "set (filter (\<lambda>c. pay_seller c = seller \<and> pay_sellerRequestId c = reqId) (map_values (led_payments L)))
    = seller_request_payments L seller reqId"
  using assms payments.set_entries[of L] by (auto simp: seller_request_payments_def ledger_ok_def)

lemma find_payment_cases:
  assumes "ledger_ok L"
  shows "case findPaymentBySellerRequest L seller reqId of
      None \<Rightarrow> seller_request_payments L seller reqId = {}
    | Some p \<Rightarrow> p \<in> seller_request_payments L seller reqId \<and>
        (pay_status p \<in> LIVE_OR_SETTLED_STATUSES \<or>
         (\<forall>q \<in> seller_request_payments L seller reqId. pay_status q \<notin> LIVE_OR_SETTLED_STATUSES))"
proof -
  define ms where "ms = filter (\<lambda>c. pay_seller c = seller \<and> pay_sellerRequestId c = reqId)
      (map_values (led_payments L))"
  have set: "seller_request_payments L seller reqId = set ms"
    using find_payment_matches[OF assms] by (simp add: ms_def)
  show ?thesis
    by (auto simp: set findPaymentBySellerRequest_def Let_def find_None_iff find_Some_iff
        simp flip: ms_def split: option.splits if_splits)
qed

lemma find_payment_none:
  "ledger_ok L \<Longrightarrow> findPaymentBySellerRequest L seller reqId = None \<Longrightarrow>
     seller_request_payments L seller reqId = {}"
  using find_payment_cases[of L seller reqId] by simp

lemma find_payment_some:
  assumes "ledger_ok L" "findPaymentBySellerRequest L seller reqId = Some p"
    and "pay_status p \<notin> LIVE_OR_SETTLED_STATUSES"
    and "q \<in> seller_request_payments L seller reqId"
  shows "pay_status q \<notin> LIVE_OR_SETTLED_STATUSES"
  using find_payment_cases[OF assms(1), of seller reqId] assms(2-) by simp

lemma payments_keyed: "ledger_ok L \<Longrightarrow> getPayment L k = Some i \<Longrightarrow> pay_paymentId i = k"
  by (auto simp: ledger_ok_def keyed_get getPayment_def)

text \<open>
  Looking up the payment of a seller request finds one exactly when one is stored, and
  prefers the live or settled one: a terminally failed payment is returned only when every
  payment of the request failed, so a failed attempt never hides a live one.
\<close>

theorem find_payment_prefers_live:
  assumes "ledger_ok L"
  shows "case findPaymentBySellerRequest L seller reqId of
      None \<Rightarrow> seller_request_payments L seller reqId = {}
    | Some p \<Rightarrow> p \<in> seller_request_payments L seller reqId \<and>
        (pay_status p \<in> LIVE_OR_SETTLED_STATUSES \<or>
         (\<forall>q \<in> seller_request_payments L seller reqId. pay_status q \<notin> LIVE_OR_SETTLED_STATUSES))"
  using find_payment_cases[OF assms] by simp

theorem find_payment_prefers_live_witness:
  "case findPaymentBySellerRequest
      (savePayment (sample_payment\<lparr>pay_paymentId := ''pay_2''\<rparr>)
        (savePayment (sample_payment\<lparr>pay_status := pay_expired\<rparr>) empty_ledger)) sample_seller ''req_1'' of
      None \<Rightarrow> False
    | Some p \<Rightarrow> pay_paymentId p = ''pay_2'' \<and> pay_status p \<in> LIVE_OR_SETTLED_STATUSES"
proof -
  define L where "L = savePayment (sample_payment\<lparr>pay_paymentId := ''pay_2''\<rparr>)
        (savePayment (sample_payment\<lparr>pay_status := pay_expired\<rparr>) empty_ledger)"
  have ok: "ledger_ok L" by (simp add: L_def)
  have "findPaymentBySellerRequest L sample_seller ''req_1''
      = Some (sample_payment\<lparr>pay_paymentId := ''pay_2''\<rparr>)"
    by (simp add: L_def findPaymentBySellerRequest_def save_defs empty_ledger_def map_set_def
        map_values_def sample_defs LIVE_OR_SETTLED_STATUSES_def)
  then show ?thesis
    using find_payment_prefers_live[OF ok, of sample_seller "''req_1''"]
    unfolding L_def[symmetric] by (simp add: sample_payment_def LIVE_OR_SETTLED_STATUSES_def)
qed

section \<open>Pruning approvals\<close>

lemma map_of_filter_snd:
  "distinct (map fst m) \<Longrightarrow> map_of (filter (\<lambda>(k, a). P a) m) k
     = (case map_of m k of None \<Rightarrow> None | Some a \<Rightarrow> if P a then Some a else None)"
proof (induction m)
  case (Cons kv m)
  then show ?case
    by (cases kv) (auto split: option.splits simp: map_of_eq_None_iff[symmetric] dest: map_of_SomeD)
qed simp

text \<open>
  Pruning removes exactly the prunable approvals of the wallet (expired before the
  limit, or consumed, denied or expired by status), reports their number, and touches nothing
  else, in particular no open approval and no approval of another wallet.
\<close>

theorem prune_approvals_exact:
  assumes "ledger_ok L" and "pruneSpendingApprovals wallet beforeMs L = (n, L')"
  shows "getSpendingApproval L' i = (case getSpendingApproval L i of None \<Rightarrow> None
        | Some a \<Rightarrow> if approval_prunable wallet beforeMs a then None else Some a) \<and>
      L'\<lparr>led_spendingApprovals := led_spendingApprovals L\<rparr> = L \<and>
      length (led_spendingApprovals L') + n = length (led_spendingApprovals L)"
proof -
  let ?P = "approval_prunable wallet beforeMs"
  have d: "distinct (map fst (led_spendingApprovals L))"
    using assms(1) by (simp add: ledger_ok_def keyed_def map_ok_def)
  have L': "L' = L\<lparr>led_spendingApprovals := filter (\<lambda>(k, a). \<not> ?P a) (led_spendingApprovals L)\<rparr>"
    and n: "n = length (filter ?P (map_values (led_spendingApprovals L)))"
    using assms(2) by (auto simp: pruneSpendingApprovals_def)
  have "length (filter (\<lambda>(k, a). \<not> ?P a) m) + length (filter ?P (map snd m)) = length m"
    for m :: "(string \<times> SpendingApproval) list"
    by (induction m) auto
  then show ?thesis
    using map_of_filter_snd[OF d, of "\<lambda>a. \<not> ?P a" i]
    by (auto simp: L' n getSpendingApproval_def map_get_def map_values_def split: option.splits)
qed

theorem prune_approvals_exact_witness:
  "let L = saveSpendingApproval (sample_approval\<lparr>ap_approvalId := ''ap_2'', ap_status := approval_consumed\<rparr>)
         (saveSpendingApproval sample_approval empty_ledger);
       L' = snd (pruneSpendingApprovals sample_wallet 500 L)
   in getSpendingApproval L' ''ap_1'' = Some sample_approval \<and> getSpendingApproval L' ''ap_2'' = None"
proof -
  define L where "L = saveSpendingApproval
      (sample_approval\<lparr>ap_approvalId := ''ap_2'', ap_status := approval_consumed\<rparr>)
      (saveSpendingApproval sample_approval empty_ledger)"
  obtain n L' where p: "pruneSpendingApprovals sample_wallet 500 L = (n, L')"
    by (cases "pruneSpendingApprovals sample_wallet 500 L")
  have ok: "ledger_ok L" by (simp add: L_def)
  have "getSpendingApproval L ''ap_1'' = Some sample_approval"
    "getSpendingApproval L ''ap_2'' = Some (sample_approval\<lparr>ap_approvalId := ''ap_2'', ap_status := approval_consumed\<rparr>)"
    by (simp_all add: L_def sample_defs)
  then show ?thesis
    using prune_approvals_exact[OF ok p, of "''ap_1''"] prune_approvals_exact[OF ok p, of "''ap_2''"]
    unfolding Let_def L_def[symmetric] p by (simp add: approval_prunable_def sample_approval_def)
qed

end
