(* ===== verification/Position_Maintenance.thy ===== *)
theory Position_Maintenance
  imports Ledger_Store
begin

text \<open>
  \<open>src/src/domain/position-maintenance.ts\<close>, and the accounting the payment code keeps:
  the reserved amount of a position is the sum of the reservations of its unfinished payments
  (\<open>reservations_balanced\<close>). The lemmas here say how each write moves that balance; the
  services' invariants are proved from them by rewriting.
\<close>

section \<open>The code\<close>

definition paymentIntentExpired :: "int \<Rightarrow> PaymentIntent \<Rightarrow> bool" where
  "paymentIntentExpired now i = expired_at now (pay_expiresAt i)"

definition expiredPaymentResponse :: "string \<Rightarrow> json" where
  "expiredPaymentResponse paymentId = JObject
     [(''isValid'', Some (JBool False)),
      (''invalidReason'', Some (JString ''expired'')),
      (''paymentId'', Some (JString paymentId)),
      (''success'', Some (JBool False)),
      (''error'', Some (JObject [(''code'', Some (JString ''expired'')),
         (''message'', Some (JString ''Payment intent has expired''))]))]"

text \<open>
  Expires the prepared payments whose time has run out and releases their reservations. The
  caller holds the lock of the position; \<open>now\<close> is the clock during the section.
\<close>

definition expiredPreparedPayments :: "int \<Rightarrow> ledger \<Rightarrow> string \<Rightarrow> string \<Rightarrow> PaymentIntent list" where
  "expiredPreparedPayments now L wallet vault =
     filter (\<lambda>p. pay_status p = pay_prepared \<and> paymentIntentExpired now p)
       (listPaymentsForPosition L wallet vault)"

definition markExpired :: "int \<Rightarrow> PaymentIntent \<Rightarrow> PaymentIntent" where
  "markExpired now p = p\<lparr>pay_status := pay_expired, pay_terminalAt := Some (toISOString now),
     pay_settlementResponse := Some (expiredPaymentResponse (pay_paymentId p))\<rparr>"

definition expirePreparedPaymentsForLockedPosition ::
  "int \<Rightarrow> string \<Rightarrow> string \<Rightarrow> (ledger, WalletPosition option) action" where
  "expirePreparedPaymentsForLockedPosition now wallet vault =
     bindA (getsA (\<lambda>L. getPosition L wallet vault)) (\<lambda>found. case found of
       None \<Rightarrow> returnA None
     | Some position \<Rightarrow>
         bindA (getsA (\<lambda>L. expiredPreparedPayments now L wallet vault)) (\<lambda>expired.
           if expired = [] then returnA (Some position)
           else
             bindA (forA expired (\<lambda>p. modifyA (savePayment (markExpired now p)))) (\<lambda>_.
               let released = (\<Sum>p\<leftarrow>expired. pay_reservationRawUsdc p);
                   next = position\<lparr>
                     pos_reservedRawUsdc := clampToZero (pos_reservedRawUsdc position - released),
                     pos_version := pos_version position + 1\<rparr>
               in bindA (modifyA (savePosition next)) (\<lambda>_. returnA (Some next)))))"

definition activeSubmittedPayments :: "PaymentIntent list \<Rightarrow> PaymentIntent list" where
  "activeSubmittedPayments =
     filter (\<lambda>p. pay_status p = submission_prepared \<or> pay_status p = pay_submitted)"

text \<open>\<open>pendingVaultFlows\<close> of \<open>vault-flow-service.ts\<close>, which the payment code asks, too.\<close>

definition flowExpired :: "int \<Rightarrow> timestamp \<Rightarrow> bool" where
  "flowExpired now expiresAt = expired_at now expiresAt"

definition pendingFlow :: "int \<Rightarrow> VaultFlowStatus \<Rightarrow> timestamp \<Rightarrow> bool" where
  "pendingFlow now status expiresAt \<longleftrightarrow>
     status = flow_submitted \<or> (status = flow_prepared \<and> \<not> flowExpired now expiresAt)"

definition pendingVaultFlows :: "int \<Rightarrow> ledger \<Rightarrow> string \<Rightarrow> string \<Rightarrow> nat" where
  "pendingVaultFlows now L wallet vault =
     length (filter (\<lambda>d. pendingFlow now (dep_status d) (dep_expiresAt d)) (listDepositsForPosition L wallet vault))
   + length (filter (\<lambda>w. pendingFlow now (wdr_status w) (wdr_expiresAt w)) (listWithdrawalsForPosition L wallet vault))"

section \<open>The reservation balance\<close>

text \<open>\<open>paymentHoldsSettlementReservation\<close> of the payment service.\<close>

definition paymentHoldsSettlementReservation :: "PaymentIntent \<Rightarrow> bool" where
  "paymentHoldsSettlementReservation i \<longleftrightarrow> pay_status i = pay_prepared \<or>
     pay_status i = submission_prepared \<or> pay_status i = pay_submitted"

abbreviation of_position :: "string \<Rightarrow> string \<Rightarrow> PaymentIntent \<Rightarrow> bool" where
  "of_position w v i \<equiv> pay_wallet i = w \<and> pay_vault i = v"

definition held :: "PaymentIntent \<Rightarrow> int" where
  "held i = (if paymentHoldsSettlementReservation i then pay_reservationRawUsdc i else 0)"

definition held_total :: "ledger \<Rightarrow> string \<Rightarrow> string \<Rightarrow> int" where
  "held_total L w v = payments.total (of_position w v) held L"

definition reserved :: "ledger \<Rightarrow> string \<Rightarrow> string \<Rightarrow> int" where
  "reserved L w v = (case getPosition L w v of None \<Rightarrow> 0 | Some p \<Rightarrow> pos_reservedRawUsdc p)"

definition plain :: "string \<Rightarrow> bool" where
  "plain w \<longleftrightarrow> CHR '':'' \<notin> set w"

definition store_ok :: "ledger \<Rightarrow> bool" where
  "store_ok L \<longleftrightarrow> ledger_ok L \<and>
     (\<forall>p \<in> set (map_values (led_positions L)). plain (pos_wallet p)) \<and>
     (\<forall>i \<in> set (map_values (led_payments L)). plain (pay_wallet i) \<and> 0 \<le> pay_reservationRawUsdc i)"

definition reservations_balanced :: "ledger \<Rightarrow> bool" where
  "reservations_balanced L \<longleftrightarrow> store_ok L \<and> (\<forall>w v. plain w \<longrightarrow> reserved L w v = held_total L w v)"

text \<open>How far a position's reserved amount is from what its payments hold.\<close>

definition surplus :: "ledger \<Rightarrow> string \<Rightarrow> string \<Rightarrow> int" where
  "surplus L w v = reserved L w v - held_total L w v"

lemma balanced_iff:
  "reservations_balanced L \<longleftrightarrow> store_ok L \<and> (\<forall>w v. plain w \<longrightarrow> surplus L w v = 0)"
  by (auto simp: reservations_balanced_def surplus_def)

lemma store_ok_ledger: "store_ok L \<Longrightarrow> ledger_ok L"
  by (simp add: store_ok_def)

lemma store_ok_payments: "store_ok L \<Longrightarrow> keyed pay_paymentId (led_payments L)"
  by (simp add: store_ok_def ledger_ok_def)

lemma store_ok_positions: "store_ok L \<Longrightarrow> keyed position_key (led_positions L)"
  by (simp add: store_ok_def ledger_ok_def)

lemma store_ok_payment:
  assumes "store_ok L" "getPayment L k = Some i"
  shows "pay_paymentId i = k" "plain (pay_wallet i)" "0 \<le> pay_reservationRawUsdc i"
    "i \<in> set (map_values (led_payments L))"
  using assms payments.get_key[OF store_ok_payments[OF assms(1)] assms(2)]
    payments.got_entry[OF store_ok_payments[OF assms(1)] assms(2)]
  by (auto simp: store_ok_def)

lemma store_ok_position:
  assumes "store_ok L" "getPosition L w v = Some p" "plain w"
  shows "pos_wallet p = w" "pos_vault p = v" "plain (pos_wallet p)"
proof -
  have got: "map_get (led_positions L) (positionKey w v) = Some p"
    using assms(2) by (simp add: getPosition_def)
  note ok = store_ok_positions[OF assms(1)]
  show "plain (pos_wallet p)"
    using assms(1) positions.got_entry[OF ok got] by (auto simp: store_ok_def)
  moreover have "positionKey (pos_wallet p) (pos_vault p) = positionKey w v"
    using positions.get_key[OF ok got] by (simp add: position_key_def)
  ultimately show "pos_wallet p = w" "pos_vault p = v"
    using positionKey_inj assms(3) by (auto simp: plain_def)
qed

lemma store_ok_savePosition [simp]: "store_ok L \<Longrightarrow> plain (pos_wallet p) \<Longrightarrow> store_ok (savePosition p L)"
  using positions.entry_save[OF store_ok_positions, of L _ p]
  by (auto simp: store_ok_def)

lemma store_ok_savePayment [simp]:
  "store_ok L \<Longrightarrow> plain (pay_wallet i) \<Longrightarrow> 0 \<le> pay_reservationRawUsdc i \<Longrightarrow> store_ok (savePayment i L)"
  using payments.entry_save[OF store_ok_payments, of L _ i]
  by (auto simp: store_ok_def)

text \<open>Writes to the other tables do not touch the balance.\<close>

lemma store_ok_cong:
  "store_ok L \<Longrightarrow> ledger_ok L' \<Longrightarrow> led_positions L' = led_positions L \<Longrightarrow>
   led_payments L' = led_payments L \<Longrightarrow> store_ok L'"
  by (simp add: store_ok_def)

lemma store_ok_frame [simp]:
  "store_ok L \<Longrightarrow> store_ok (saveDeposit d L)" "store_ok L \<Longrightarrow> store_ok (saveWithdrawal x L)"
  "store_ok L \<Longrightarrow> store_ok (saveSyncEvent e L)" "store_ok L \<Longrightarrow> store_ok (saveLiquidityPolicy q L)"
  "store_ok L \<Longrightarrow> store_ok (saveSpendingApproval a L)" "store_ok L \<Longrightarrow> store_ok (saveSpendingMandate m L)"
  "store_ok L \<Longrightarrow> store_ok (saveSpendingMandateEvent me L)" "store_ok L \<Longrightarrow> store_ok (saveSetupSession z L)"
  by (rule store_ok_cong, assumption, simp_all add: store_ok_ledger)+

lemma held_total_cong: "led_payments L' = led_payments L \<Longrightarrow> held_total L' w v = held_total L w v"
  unfolding held_total_def payments.total_def by (simp only:)

lemma surplus_cong:
  "led_positions L' = led_positions L \<Longrightarrow> led_payments L' = led_payments L \<Longrightarrow> surplus L' w v = surplus L w v"
  using held_total_cong[of L' L w v] by (simp add: surplus_def reserved_def getPosition_def)

lemma surplus_frame [simp]:
  "surplus (saveDeposit d L) w v = surplus L w v" "surplus (saveWithdrawal x L) w v = surplus L w v"
  "surplus (saveSyncEvent e L) w v = surplus L w v" "surplus (saveLiquidityPolicy q L) w v = surplus L w v"
  "surplus (saveSpendingApproval a L) w v = surplus L w v"
  "surplus (saveSpendingMandate m L) w v = surplus L w v"
  "surplus (saveSpendingMandateEvent me L) w v = surplus L w v"
  "surplus (saveSetupSession z L) w v = surplus L w v"
  by (rule surplus_cong; simp)+

text \<open>The two writes that move the balance.\<close>

lemma held_total_savePosition [simp]: "held_total (savePosition p L) w v = held_total L w v"
  by (rule held_total_cong) simp

lemma reserved_savePayment [simp]: "reserved (savePayment i L) w v = reserved L w v"
  by (simp add: reserved_def)

lemma reserved_savePosition:
  "plain w \<Longrightarrow> plain (pos_wallet p) \<Longrightarrow> reserved (savePosition p L) w v
     = (if w = pos_wallet p \<and> v = pos_vault p then pos_reservedRawUsdc p else reserved L w v)"
  by (simp add: reserved_def positionKey_inj plain_def)

lemma surplus_savePosition:
  "plain w \<Longrightarrow> plain (pos_wallet p) \<Longrightarrow> surplus (savePosition p L) w v = surplus L w v
     + (if w = pos_wallet p \<and> v = pos_vault p then pos_reservedRawUsdc p - reserved L w v else 0)"
  by (simp add: surplus_def reserved_savePosition)

definition same_owner :: "ledger \<Rightarrow> PaymentIntent \<Rightarrow> bool" where
  "same_owner L i \<longleftrightarrow> (case getPayment L (pay_paymentId i) of None \<Rightarrow> True
     | Some j \<Rightarrow> pay_wallet j = pay_wallet i \<and> pay_vault j = pay_vault i)"

lemma held_total_savePayment:
  assumes "store_ok L" "same_owner L i"
  shows "held_total (savePayment i L) w v = held_total L w v
    + (if of_position w v i then held i - old_part held (getPayment L (pay_paymentId i)) else 0)"
  using payments.total_save[OF store_ok_payments[OF assms(1)], of "of_position w v" held i] assms(2)
  by (auto simp: held_total_def same_owner_def split: option.splits)

lemma surplus_savePayment:
  "store_ok L \<Longrightarrow> same_owner L i \<Longrightarrow> surplus (savePayment i L) w v = surplus L w v
    - (if of_position w v i then held i - old_part held (getPayment L (pay_paymentId i)) else 0)"
  by (simp add: surplus_def held_total_savePayment)

lemma held_nonneg: "0 \<le> pay_reservationRawUsdc i \<Longrightarrow> 0 \<le> held i"
  by (simp add: held_def)

lemma held_total_nonneg: "store_ok L \<Longrightarrow> 0 \<le> held_total L w v"
  unfolding held_total_def by (rule payments.total_nonneg) (auto simp: store_ok_def held_nonneg)

text \<open>In a balanced ledger a payment's reservation is part of its position's reserved amount.\<close>

lemma balanced_reserved_ge:
  assumes "reservations_balanced L" "getPayment L k = Some i" "paymentHoldsSettlementReservation i"
  shows "pay_reservationRawUsdc i \<le> reserved L (pay_wallet i) (pay_vault i)"
proof -
  have ok: "store_ok L" using assms(1) by (simp add: reservations_balanced_def)
  have "held i \<le> payments.total (of_position (pay_wallet i) (pay_vault i)) held L"
    by (rule payments.total_ge_entry[OF store_ok_payments[OF ok] assms(2)])
      (use ok in \<open>auto simp: store_ok_def held_nonneg\<close>)
  moreover have "plain (pay_wallet i)" using store_ok_payment[OF ok assms(2)] by simp
  ultimately show ?thesis
    using assms by (simp add: reservations_balanced_def held_total_def held_def)
qed

section \<open>Expiring payments\<close>

text \<open>Rewriting a list of stored payments in place.\<close>

definition keeps_account :: "(PaymentIntent \<Rightarrow> PaymentIntent) \<Rightarrow> bool" where
  "keeps_account f \<longleftrightarrow> (\<forall>p. pay_paymentId (f p) = pay_paymentId p \<and> pay_wallet (f p) = pay_wallet p \<and>
     pay_vault (f p) = pay_vault p \<and> pay_reservationRawUsdc (f p) = pay_reservationRawUsdc p)"

definition stored_payments :: "ledger \<Rightarrow> PaymentIntent list \<Rightarrow> bool" where
  "stored_payments L xs \<longleftrightarrow> distinct (map pay_paymentId xs) \<and>
     (\<forall>p \<in> set xs. getPayment L (pay_paymentId p) = Some p)"

lemma stored_filter:
  assumes "store_ok L"
  shows "stored_payments L (filter P (map_values (led_payments L)))"
proof -
  have ok: "keyed pay_paymentId (led_payments L)" by (rule store_ok_payments[OF assms])
  then have "map pay_paymentId (map_values (led_payments L)) = map fst (led_payments L)"
    by (auto simp: keyed_def map_values_def)
  then have "distinct (map pay_paymentId (map_values (led_payments L)))"
    using ok by (simp add: keyed_def map_ok_def)
  moreover have "distinct (map pay_paymentId (filter P xs))"
    if "distinct (map pay_paymentId xs)" for xs :: "PaymentIntent list"
    using that by (induction xs) auto
  ultimately show ?thesis
    using payments.set_entries[OF ok] by (auto simp: stored_payments_def)
qed

lemma fold_savePayment:
  assumes "store_ok L" "stored_payments L xs" "keeps_account f"
  shows "store_ok (fold (\<lambda>p. savePayment (f p)) xs L)"
    and "getPayment (fold (\<lambda>p. savePayment (f p)) xs L) k =
      (case getPayment L k of None \<Rightarrow> None | Some p \<Rightarrow> Some (if p \<in> set xs then f p else p))"
    and "getPosition (fold (\<lambda>p. savePayment (f p)) xs L) = getPosition L"
    and "surplus (fold (\<lambda>p. savePayment (f p)) xs L) w v = surplus L w v
      + (\<Sum>p\<leftarrow>filter (of_position w v) xs. held p - held (f p))"
proof -
  let ?F = "\<lambda>xs L. fold (\<lambda>p. savePayment (f p)) xs L"
  have "store_ok (?F xs L) \<and> (\<forall>k. getPayment (?F xs L) k =
      (case getPayment L k of None \<Rightarrow> None | Some p \<Rightarrow> Some (if p \<in> set xs then f p else p))) \<and>
    getPosition (?F xs L) = getPosition L \<and> surplus (?F xs L) w v = surplus L w v
      + (\<Sum>p\<leftarrow>filter (of_position w v) xs. held p - held (f p))"
    using assms(1,2)
  proof (induction xs arbitrary: L)
    case Nil
    then show ?case by (auto split: option.splits)
  next
    case (Cons p xs)
    let ?L = "savePayment (f p) L"
    have f: "pay_paymentId (f p) = pay_paymentId p" "pay_wallet (f p) = pay_wallet p"
      "pay_vault (f p) = pay_vault p" "pay_reservationRawUsdc (f p) = pay_reservationRawUsdc p"
      using assms(3) by (simp_all add: keeps_account_def)
    have got: "getPayment L (pay_paymentId p) = Some p" and p: "pay_paymentId p \<notin> pay_paymentId ` set xs"
      using Cons.prems(2) by (auto simp: stored_payments_def)
    note ok = store_ok_payment[OF Cons.prems(1) got]
    have ok': "store_ok ?L" using Cons.prems(1) ok by (simp add: f)
    moreover have "stored_payments ?L xs"
      using Cons.prems(2) p by (auto simp: stored_payments_def f image_iff)
    ultimately have IH: "store_ok (?F xs ?L)" "\<And>k. getPayment (?F xs ?L) k =
        (case getPayment ?L k of None \<Rightarrow> None | Some p \<Rightarrow> Some (if p \<in> set xs then f p else p))"
      "getPosition (?F xs ?L) = getPosition ?L" "surplus (?F xs ?L) w v = surplus ?L w v
        + (\<Sum>p\<leftarrow>filter (of_position w v) xs. held p - held (f p))"
      using Cons.IH[of ?L] by simp_all
    have "same_owner L (f p)" by (simp add: same_owner_def f got)
    then have "surplus ?L w v = surplus L w v + (if of_position w v p then held p - held (f p) else 0)"
      using surplus_savePayment[OF Cons.prems(1), of "f p" w v] by (simp add: f got)
    moreover have "f p \<notin> set xs" using p f by (metis image_eqI)
    moreover have "getPayment (?F xs ?L) k =
        (case getPayment L k of None \<Rightarrow> None | Some q \<Rightarrow> Some (if q \<in> set (p # xs) then f q else q))" for k
    proof (cases "k = pay_paymentId p")
      case True
      then show ?thesis using IH(2)[of k] got \<open>f p \<notin> set xs\<close> by (simp add: f)
    next
      case False
      then have "getPayment L k = Some q \<Longrightarrow> q \<noteq> p" for q
        using store_ok_payment(1)[OF Cons.prems(1)] by blast
      then show ?thesis using IH(2)[of k] False by (auto simp: f split: option.splits)
    qed
    ultimately show ?case
      using IH(1,3,4) by (simp add: f)
  qed
  then show "store_ok (?F xs L)" "getPayment (?F xs L) k =
      (case getPayment L k of None \<Rightarrow> None | Some p \<Rightarrow> Some (if p \<in> set xs then f p else p))"
    "getPosition (?F xs L) = getPosition L" "surplus (?F xs L) w v = surplus L w v
      + (\<Sum>p\<leftarrow>filter (of_position w v) xs. held p - held (f p))"
    by simp_all
qed

lemma keeps_account_markExpired: "keeps_account (markExpired now)"
  by (simp add: keeps_account_def markExpired_def)

lemma expired_stored: "store_ok L \<Longrightarrow> stored_payments L (expiredPreparedPayments now L w v)"
  unfolding expiredPreparedPayments_def listPaymentsForPosition_def filter_filter
  by (rule stored_filter)

lemma expired_in:
  "p \<in> set (expiredPreparedPayments now L w v) \<Longrightarrow>
   pay_status p = pay_prepared \<and> paymentIntentExpired now p \<and> of_position w v p"
  by (auto simp: expiredPreparedPayments_def listPaymentsForPosition_def)

lemma in_expired_iff:
  assumes "store_ok L" "getPayment L k = Some p"
  shows "p \<in> set (expiredPreparedPayments now L w v) \<longleftrightarrow>
    pay_status p = pay_prepared \<and> paymentIntentExpired now p \<and> of_position w v p"
  using store_ok_payment(4)[OF assms]
  by (auto simp: expiredPreparedPayments_def listPaymentsForPosition_def)

text \<open>What the section leaves behind.\<close>

definition afterExpiry :: "int \<Rightarrow> string \<Rightarrow> string \<Rightarrow> PaymentIntent \<Rightarrow> PaymentIntent" where
  "afterExpiry now w v p =
     (if pay_status p = pay_prepared \<and> paymentIntentExpired now p \<and> of_position w v p
      then markExpired now p else p)"

lemma held_markExpired: "held (markExpired now p) = 0"
  by (simp add: held_def markExpired_def paymentHoldsSettlementReservation_def)

lemma plain_positionKey: "plain w \<Longrightarrow> plain w' \<Longrightarrow> positionKey w v = positionKey w' v' \<longleftrightarrow> w = w' \<and> v = v'"
  by (simp add: plain_def positionKey_inj)

text \<open>
  The one lemma the services use: the section returns the position it leaves in the store,
  expires exactly the payments whose time has run out, and keeps the balance.
\<close>

lemma expire_outcome:
  assumes bal: "reservations_balanced L" and w: "plain w"
  shows "runs (expirePreparedPaymentsForLockedPosition now w v) L
    (\<lambda>r L'. r = getPosition L' w v \<and> reservations_balanced L' \<and>
       (\<forall>w' v'. plain w' \<and> (w', v') \<noteq> (w, v) \<longrightarrow> getPosition L' w' v' = getPosition L w' v') \<and>
       (case getPosition L w v of None \<Rightarrow> L' = L
        | Some p \<Rightarrow> (\<forall>k. getPayment L' k = map_option (afterExpiry now w v) (getPayment L k)) \<and>
            (let xs = expiredPreparedPayments now L w v
             in getPosition L' w v = (if xs = [] then Some p
                  else Some (p\<lparr>pos_reservedRawUsdc := pos_reservedRawUsdc p - (\<Sum>x\<leftarrow>xs. pay_reservationRawUsdc x),
                               pos_version := pos_version p + 1\<rparr>)))))
    (\<lambda>_ _. False)"
proof (cases "getPosition L w v")
  case None
  then show ?thesis
    using bal by (simp add: expirePreparedPaymentsForLockedPosition_def)
next
  case (Some p)
  define xs where "xs = expiredPreparedPayments now L w v"
  define released where "released = (\<Sum>x\<leftarrow>xs. pay_reservationRawUsdc x)"
  let ?M = "fold (\<lambda>p. savePayment (markExpired now p)) xs L"
  let ?next = "p\<lparr>pos_reservedRawUsdc := clampToZero (pos_reservedRawUsdc p - released),
    pos_version := pos_version p + 1\<rparr>"
  have ok: "store_ok L" using bal by (simp add: reservations_balanced_def)
  note pp = store_ok_position[OF ok Some w]
  note st = expired_stored[OF ok, of now w v, folded xs_def]
  note M = fold_savePayment[OF ok st keeps_account_markExpired[of now]]
  have own: "x \<in> set xs \<Longrightarrow> of_position w v x \<and> held x = pay_reservationRawUsdc x" for x
    using expired_in[of x now L w v] by (simp add: xs_def held_def paymentHoldsSettlementReservation_def)
  have payments: "getPayment ?M k = map_option (afterExpiry now w v) (getPayment L k)" for k
    using M(2)[of k] in_expired_iff[OF ok, of k _ now w v]
    by (auto simp: xs_def afterExpiry_def split: option.splits)
  have sum: "(\<Sum>x\<leftarrow>filter (of_position w' v') xs. held x - held (markExpired now x))
      = (if w' = w \<and> v' = v then released else 0)" for w' v'
  proof (cases "w' = w \<and> v' = v")
    case True
    then have "filter (of_position w' v') xs = xs" using own by (simp add: filter_id_conv)
    moreover have "map (\<lambda>x. held x - held (markExpired now x)) xs = map pay_reservationRawUsdc xs"
      using own by (simp add: held_markExpired)
    ultimately show ?thesis using True by (simp only: released_def simp_thms if_True)
  next
    case False
    then have "filter (of_position w' v') xs = []" using own by (auto simp: filter_empty_conv)
    then show ?thesis using False by auto
  qed
  have surplus0: "plain w' \<Longrightarrow> surplus L w' v' = 0" for w' v'
    using bal by (simp add: balanced_iff)
  have res: "reserved ?M w v = pos_reservedRawUsdc p"
    using M(3) Some by (simp add: reserved_def)
  have "0 \<le> held_total ?M w v" by (rule held_total_nonneg[OF M(1)])
  then have nonneg: "released \<le> pos_reservedRawUsdc p"
    using M(4)[of w v] sum[of w v] surplus0[OF w, of v] res by (simp add: surplus_def)
  show ?thesis
  proof (cases "xs = []")
    case True
    then show ?thesis
      using Some bal payments by (simp add: expirePreparedPaymentsForLockedPosition_def flip: xs_def)
  next
    case False
    have "surplus (savePosition ?next ?M) w' v' = 0" if "plain w'" for w' v'
      using that M(4)[of w' v'] sum[of w' v'] surplus0[OF that, of v'] nonneg pp res
      by (simp add: surplus_savePosition)
    then have "reservations_balanced (savePosition ?next ?M)"
      using M(1) pp by (simp add: balanced_iff)
    then show ?thesis
      using Some False payments pp nonneg w plain_positionKey M(3)
      by (simp add: expirePreparedPaymentsForLockedPosition_def Let_def released_def flip: xs_def)
  qed
qed

text \<open>
  Expiring prepared payments on a balanced ledger always returns, expires exactly the
  prepared payments of the position whose deadline has passed (every other payment is
  untouched), gives back exactly their reservations without ever going below zero, and leaves
  the reserved amount of every position equal to what its unfinished payments hold.
\<close>

theorem expire_releases_exactly:
  assumes "reservations_balanced L" and "plain w" and "getPosition L w v = Some p"
  shows "\<exists>r L'. expirePreparedPaymentsForLockedPosition now w v L = (Inr r, L') \<and>
     r = getPosition L' w v \<and> reservations_balanced L' \<and>
     (\<forall>k. getPayment L' k = map_option (afterExpiry now w v) (getPayment L k)) \<and>
     reserved L' w v = reserved L w v
       - (\<Sum>x\<leftarrow>expiredPreparedPayments now L w v. pay_reservationRawUsdc x) \<and>
     0 \<le> reserved L' w v"
proof (cases "expirePreparedPaymentsForLockedPosition now w v L")
  case (Pair res L')
  note out = expire_outcome[OF assms(1,2), of now v]
  obtain r where r: "res = Inr r"
    using runs_InlD[OF out] Pair by (cases res) auto
  then have eq: "expirePreparedPaymentsForLockedPosition now w v L = (Inr r, L')" using Pair by simp
  have "reservations_balanced L' \<Longrightarrow> 0 \<le> reserved L' w v"
    using held_total_nonneg assms(2) by (auto simp: reservations_balanced_def)
  then show ?thesis
    using runs_InrD[OF out eq] assms(3) eq
    by (auto simp: Let_def reserved_def split: if_splits)
qed

text \<open>A balanced ledger for the witnesses: one position and one payment of it.\<close>

definition ledger_with :: "PaymentIntent \<Rightarrow> ledger" where
  "ledger_with i = savePayment i (savePosition (sample_position\<lparr>pos_reservedRawUsdc := held i\<rparr>) empty_ledger)"

lemma empty_ledger_simps [simp]:
  "getPosition empty_ledger w v = None" "getPayment empty_ledger k = None" "ledger_ok empty_ledger"
  "led_payments empty_ledger = []" "led_positions empty_ledger = []"
  by (simp_all add: getPosition_def getPayment_def empty_ledger_def ledger_ok_def map_get_def)

lemma balanced_empty [simp]: "reservations_balanced empty_ledger"
proof -
  have "held_total empty_ledger w v = 0" "reserved empty_ledger w v = 0" for w v
    by (simp_all add: held_total_def payments.total_def reserved_def)
  then show ?thesis by (simp add: balanced_iff surplus_def store_ok_def)
qed

lemma plain_samples [simp]: "plain sample_wallet" "plain sample_seller"
  by (simp_all add: plain_def sample_address_defs)

lemma balanced_ledger_with [simp]:
  assumes "pay_wallet i = sample_wallet" "pay_vault i = sample_vault" "0 \<le> pay_reservationRawUsdc i"
  shows "reservations_balanced (ledger_with i)"
    and "getPosition (ledger_with i) sample_wallet sample_vault
      = Some (sample_position\<lparr>pos_reservedRawUsdc := held i\<rparr>)"
    and "getPayment (ledger_with i) k = (if k = pay_paymentId i then Some i else None)"
proof -
  let ?p = "sample_position\<lparr>pos_reservedRawUsdc := held i\<rparr>"
  have ok: "store_ok (savePosition ?p empty_ledger)"
    using balanced_empty by (simp add: reservations_balanced_def sample_position_def)
  have "same_owner (savePosition ?p empty_ledger) i" by (simp add: same_owner_def)
  then have "surplus (ledger_with i) w v = 0" if "plain w" for w v
    using that ok assms balanced_empty
    by (auto simp: ledger_with_def surplus_savePayment surplus_savePosition balanced_iff
        sample_position_def reserved_def)
  then show "reservations_balanced (ledger_with i)"
    using ok assms by (simp add: balanced_iff ledger_with_def)
  show "getPosition (ledger_with i) sample_wallet sample_vault = Some ?p"
    by (simp add: ledger_with_def sample_position_def)
  show "getPayment (ledger_with i) k = (if k = pay_paymentId i then Some i else None)"
    by (simp add: ledger_with_def)
qed

theorem expire_releases_exactly_witness:
  "let L' = snd (expirePreparedPaymentsForLockedPosition 2000000 sample_wallet sample_vault (ledger_with sample_payment))
   in reserved L' sample_wallet sample_vault = 0 \<and>
      map_option pay_status (getPayment L' ''pay_1'') = Some pay_expired"
proof -
  let ?L = "ledger_with sample_payment"
  have i: "pay_wallet sample_payment = sample_wallet" "pay_vault sample_payment = sample_vault"
    "0 \<le> pay_reservationRawUsdc sample_payment" "pay_paymentId sample_payment = ''pay_1''"
    by (simp_all add: sample_payment_def)
  have exp: "pay_status sample_payment = pay_prepared" "paymentIntentExpired 2000000 sample_payment"
    by (simp_all add: sample_payment_def paymentIntentExpired_def)
  have held: "held sample_payment = 1100" "pay_reservationRawUsdc sample_payment = 1100"
    by (simp_all add: held_def sample_payment_def paymentHoldsSettlementReservation_def)
  have "led_payments ?L = [(''pay_1'', sample_payment)]"
    by (simp add: ledger_with_def savePayment_def map_set_def i)
  then have xs: "expiredPreparedPayments 2000000 ?L sample_wallet sample_vault = [sample_payment]"
    using i exp by (simp add: expiredPreparedPayments_def listPaymentsForPosition_def map_values_def)
  from expire_releases_exactly[OF balanced_ledger_with(1)[OF i(1-3)] plain_samples(1)
      balanced_ledger_with(2)[OF i(1-3)], of 2000000]
  show ?thesis
    using i exp held
    by (auto simp: xs balanced_ledger_with afterExpiry_def markExpired_def reserved_def Let_def)
qed

end
