(* ===== verification/Payment_Core.thy ===== *)
theory Payment_Core
  imports Views Position_Maintenance
begin

text \<open>
  The data and the pure functions of \<open>src/src/domain/payment-service.ts\<close>: its
  configuration and collaborators, stored-state responses, the validation of settlement results
  and their effect on a position, and the checks on requests and prepared transactions. The
  interfaces come from \<open>settlement-submitter.ts\<close>, \<open>transaction-builder.ts\<close>,
  \<open>fee-estimator.ts\<close> and \<open>config/vault.ts\<close>.
\<close>

section \<open>Collaborators\<close>

record VaultConfig =
  vc_address :: string
  vc_programId :: string
  vc_usdcMint :: string
  vc_shareMint :: string
  vc_farm :: string

record FeeEstimate =
  fe_estimatedFeeLamports :: int
  fe_estimatedFeeDebtRawUsdc :: int

record SettlementQuote =
  sq_requiredWithdrawRawUsdc :: int
  sq_sharesToRedeemRaw :: int
  sq_withdrawalPenaltyRawUsdc :: int
  sq_exchangeRateScaled :: int
  sq_instantRedeemCapacityRawUsdc :: int
  sq_userStakedSharesRaw :: int
  sq_userUnstakedSharesRaw :: int
  sq_userTotalSharesRaw :: int
  sq_observedSlot :: int

record CanonicalPaymentSettlementInput =
  ci_paymentId :: string
  ci_wallet :: string
  ci_vault :: string
  ci_shareMint :: string
  ci_usdcMint :: string
  ci_feePayer :: "string option"
  ci_seller :: string
  ci_sellerRequestId :: string
  ci_requestBindingHash :: string
  ci_httpMethod :: string
  ci_canonicalResourceUrl :: string
  ci_requestBodyHash :: string
  ci_amountRawUsdc :: int
  ci_payTo :: string
  ci_sellerUsdcAta :: string
  ci_dustRecipientUsdcAta :: string
  ci_sharesToRedeemRaw :: int
  ci_requiredWithdrawRawUsdc :: int
  ci_memo :: string
  ci_expiresAt :: timestamp

record PreparedSettlementTransaction =
  pt_preparedMessageHash :: string
  pt_recentBlockhash :: "string option"
  pt_lastValidBlockHeight :: "int option"
  pt_temporarySettlementTokenAccount :: string
  pt_temporarySettlementSignature :: string
  pt_serializedTransaction :: string
  pt_sharesToRedeemRaw :: "int option"

record VerifyPaymentPayloadInput =
  vp_paymentId :: string
  vp_requestBindingHash :: string
  vp_preparedMessageHash :: string
  vp_serializedTransaction :: string
  vp_agentSignature :: string
  vp_temporarySettlementSignature :: string

record PreparedSettlementSubmission =
  sub_txSignature :: string
  sub_serializedSignedTransaction :: string

record SettledResult =
  sr_txSignature :: string
  sr_actualFeeLamports :: "int option"
  sr_actualFeeDebtRawUsdc :: "int option"
  sr_actualSharesRedeemedRaw :: "int option"
  sr_sellerTransferRawUsdc :: "int option"
  sr_withdrawOutputRawUsdc :: "int option"
  sr_dustTransferRawUsdc :: "int option"

record FailedResult =
  fr_txSignature :: string
  fr_errorCode :: string
  fr_errorMessage :: string
  fr_actualFeeLamports :: "int option"
  fr_actualFeeDebtRawUsdc :: "int option"

datatype SettlementSubmissionResult =
    Settled SettledResult
  | Failed FailedResult
  | FailedNotSubmitted string string

datatype SettlementReconciliationResult =
    Reconciled SettlementSubmissionResult
  | StillSubmitted "string option" "json option"

datatype submission_outcome = failed_not_submitted | ambiguous

text \<open>
  What \<open>submitPaymentSettlement\<close> can throw: a \<open>SettlementSubmissionError\<close> with its
  outcome, code, message and signature, or anything else, of which only the message of an
  \<open>Error\<close> is looked at.
\<close>

datatype SubmissionError =
    SettlementSubmissionError submission_outcome string string "string option"
  | OtherError "string option"

text \<open>
  The configuration and collaborators of a \<open>SublyService\<close>. \<open>pe_submit\<close> is one call of
  \<open>submitPaymentSettlement\<close>: whether it invoked \<open>onBeforeSend\<close> before it ended, and
  what it returned or threw. URL parsing is the platform's \<open>new URL\<close>.
\<close>

record payment_env =
  pe_ledger :: ledger_kind
  pe_production :: bool
  pe_vault :: VaultConfig
  pe_paymentExpirySeconds :: int
  pe_sponsorFeePayer :: "string option"
  pe_sha :: "string \<Rightarrow> string"
  pe_parseUrl :: "string \<Rightarrow> (string \<times> string) option"
  pe_deriveAta :: "string \<Rightarrow> string \<Rightarrow> string"
  pe_estimateFee :: "string \<Rightarrow> string \<Rightarrow> int \<Rightarrow> FeeEstimate result"
  pe_quote :: "(string \<Rightarrow> string \<Rightarrow> int \<Rightarrow> SettlementQuote result) option"
  pe_prepareSettlement :: "CanonicalPaymentSettlementInput \<Rightarrow> PreparedSettlementTransaction result"
  pe_messageHash :: "string \<Rightarrow> string option"
  pe_signerSignature :: "string \<Rightarrow> string \<Rightarrow> string option"
  pe_txSignature :: "string \<Rightarrow> string option"
  pe_verify :: "PaymentIntent \<Rightarrow> VerifyPaymentPayloadInput \<Rightarrow> string option"
  pe_ready :: bool
  pe_prepareSubmission ::
    "(PaymentIntent \<Rightarrow> VerifyPaymentPayloadInput \<Rightarrow> PreparedSettlementSubmission result) option"
  pe_submit :: "PaymentIntent \<Rightarrow> string \<Rightarrow> string \<Rightarrow> bool \<times> (SubmissionError + SettlementSubmissionResult)"
  pe_reconcile :: "(PaymentIntent \<Rightarrow> SubmissionError + SettlementReconciliationResult) option"

section \<open>Wallet status\<close>

definition nextWalletStatusAfterSignerUpdate ::
  "WalletPositionStatus \<Rightarrow> SigningMode \<Rightarrow> string \<Rightarrow> bool \<Rightarrow> WalletPositionStatus" where
  "nextWalletStatusAfterSignerUpdate existingStatus nextSigningMode nextSignerProvider activateForPayments =
     (if existingStatus = needs_baseline_reset then needs_baseline_reset
      else if nextSigningMode = mode_observed_only \<or> nextSignerProvider = ''unconfigured''
        then observed_only
      else if existingStatus = observed_only \<and> activateForPayments then pos_active
      else existingStatus)"

definition walletStatusAfterConservativeReset :: "WalletPosition \<Rightarrow> WalletPositionStatus" where
  "walletStatusAfterConservativeReset p =
     (if pos_signingMode p = non_interactive \<and> pos_signerProvider p \<noteq> ''unconfigured''
      then pos_active else observed_only)"

section \<open>Stored-state responses\<close>

definition isTerminalFailedPaymentStatus :: "PaymentStatus \<Rightarrow> bool" where
  "isTerminalFailedPaymentStatus s \<longleftrightarrow> s = pay_expired \<or> s = pay_failed \<or> s = pay_failed_not_submitted"

definition paymentNotFound :: json where
  "paymentNotFound = obj [(''isValid'', JBool False), (''invalidReason'', JString ''payment_not_found'')]"

definition invalidSettlementResponse :: "string \<Rightarrow> string \<Rightarrow> string \<Rightarrow> json" where
  "invalidSettlementResponse paymentId code message = obj
     [(''isValid'', JBool False), (''invalidReason'', JString code), (''paymentId'', JString paymentId),
      (''success'', JBool False),
      (''error'', obj [(''code'', JString code), (''message'', JString message)])]"

definition pendingSettlementResponse :: "string \<Rightarrow> (string \<times> string) option \<Rightarrow> json" where
  "pendingSettlementResponse paymentId latestError = obj
     ([(''success'', JBool False), (''paymentId'', JString paymentId),
       (''error'', obj [(''code'', JString ''settlement_pending''),
         (''message'', JString ''Settlement is already submitted and awaiting terminal confirmation'')])]
      @ (case latestError of None \<Rightarrow> [] | Some (code, message) \<Rightarrow>
           [(''latestError'', obj [(''code'', JString code), (''message'', JString message)])]))"

definition terminalSettlementResponseForStoredState :: "PaymentIntent \<Rightarrow> json option" where
  "terminalSettlementResponseForStoredState i =
     (if paymentHoldsSettlementReservation i then None
      else case pay_settlementResponse i of
          Some r \<Rightarrow> Some r
        | None \<Rightarrow> Some (invalidSettlementResponse (pay_paymentId i) (PaymentStatus_string (pay_status i))
            (''Payment intent is '' @ PaymentStatus_string (pay_status i))))"

definition submittedSettlementResponseForStoredState :: "PaymentIntent \<Rightarrow> json" where
  "submittedSettlementResponseForStoredState i = (case pay_settlementResponse i of
       Some r \<Rightarrow> r | None \<Rightarrow> pendingSettlementResponse (pay_paymentId i) None)"

section \<open>Settlement results\<close>

definition settlementResultTxSignature :: "SettlementSubmissionResult \<Rightarrow> string option" where
  "settlementResultTxSignature r = (case r of
       Settled s \<Rightarrow> Some (sr_txSignature s) | Failed f \<Rightarrow> Some (fr_txSignature f)
     | FailedNotSubmitted _ _ \<Rightarrow> None)"

definition resultStatus :: "SettlementSubmissionResult \<Rightarrow> PaymentStatus" where
  "resultStatus r = (case r of Settled _ \<Rightarrow> settled | Failed _ \<Rightarrow> pay_failed
     | FailedNotSubmitted _ _ \<Rightarrow> pay_failed_not_submitted)"

definition orElse :: "'a option \<Rightarrow> 'a \<Rightarrow> 'a" where
  "orElse x d = (case x of None \<Rightarrow> d | Some y \<Rightarrow> y)"

lemma orElse_simps [simp]: "orElse None d = d" "orElse (Some y) d = y"
  by (simp_all add: orElse_def)

definition successfulSettlementResponse ::
  "string option \<Rightarrow> PaymentIntent \<Rightarrow> SettledResult \<Rightarrow> json result" where
  "successfulSettlementResponse sponsorFeePayer i r =
     (let sharesRedeemedRaw = orElse (sr_actualSharesRedeemedRaw r) (pay_sharesToRedeemRaw i);
          sellerTransferRawUsdc = orElse (sr_sellerTransferRawUsdc r) (pay_amountRawUsdc i);
          withdrawOutputRawUsdc = orElse (sr_withdrawOutputRawUsdc r) (pay_requiredWithdrawRawUsdc i);
          dustTransferRawUsdc = orElse (sr_dustTransferRawUsdc r)
            (clampToZero (withdrawOutputRawUsdc - sellerTransferRawUsdc))
      in objR
       [(''success'', Inr (JBool True)),
        (''transaction'', Inr (JString (sr_txSignature r))),
        (''network'', Inr (JString ''solana:5eykt4UsFv8P8NJdTREpY1vzqKqZKvdp'')),
        (''payer'', Inr (opt_string sponsorFeePayer)),
        (''asset'', Inr (JString (pay_asset i))),
        (''amount'', raw (pay_amountRawUsdc i)),
        (''extensions'', objR [(''subly'', objR
          [(''paymentId'', Inr (JString (pay_paymentId i))),
           (''sellerRequestId'', Inr (JString (pay_sellerRequestId i))),
           (''requestBindingHash'', Inr (JString (pay_requestBindingHash i))),
           (''httpMethod'', Inr (JString (pay_httpMethod i))),
           (''canonicalResourceUrl'', Inr (JString (pay_canonicalResourceUrl i))),
           (''requestBodyHash'', Inr (JString (pay_requestBodyHash i))),
           (''agentWallet'', Inr (JString (pay_wallet i))),
           (''payTo'', Inr (JString (pay_payTo i))),
           (''sellerUsdcAta'', Inr (JString (pay_sellerUsdcAta i))),
           (''vault'', Inr (JString (pay_vault i))),
           (''temporarySettlementTokenAccount'', Inr (JString (pay_temporarySettlementTokenAccount i))),
           (''sharesRedeemedRaw'', raw sharesRedeemedRaw),
           (''withdrawOutputRawUsdc'', raw withdrawOutputRawUsdc),
           (''sellerTransferRawUsdc'', raw sellerTransferRawUsdc),
           (''dustTransferRawUsdc'', raw dustTransferRawUsdc),
           (''principalBasisBeforeRawUsdc'', raw (pay_principalBasisBeforeRawUsdc i)),
           (''grossYieldBeforeRawUsdc'', raw (pay_grossYieldBeforeRawUsdc i)),
           (''spendableYieldBeforeRawUsdc'', raw (pay_spendableYieldBeforeRawUsdc i)),
           (''postPositionValueRawUsdc'', raw (pay_postPositionValueRawUsdc i)),
           (''fundingMode'', Inr (JString ''kamino_jit_yield''))])])])"

definition failedSettlementResponse :: "PaymentIntent \<Rightarrow> string option \<Rightarrow> string \<Rightarrow> string \<Rightarrow> json" where
  "failedSettlementResponse i tx errorCode errorMessage = obj
     [(''success'', JBool False),
      (''transaction'', opt_string tx),
      (''paymentId'', JString (pay_paymentId i)),
      (''error'', obj [(''code'', JString errorCode), (''message'', JString errorMessage)]),
      (''extensions'', obj [(''subly'', obj
        [(''paymentId'', JString (pay_paymentId i)),
         (''sellerRequestId'', JString (pay_sellerRequestId i)),
         (''requestBindingHash'', JString (pay_requestBindingHash i)),
         (''agentWallet'', JString (pay_wallet i)),
         (''payTo'', JString (pay_payTo i)),
         (''sellerUsdcAta'', JString (pay_sellerUsdcAta i)),
         (''vault'', JString (pay_vault i)),
         (''fundingMode'', JString ''kamino_jit_yield'')])])]"

definition settlementResponse :: "string option \<Rightarrow> PaymentIntent \<Rightarrow> SettlementSubmissionResult \<Rightarrow> json result" where
  "settlementResponse sponsorFeePayer i r = (case r of
       Settled s \<Rightarrow> successfulSettlementResponse sponsorFeePayer i s
     | Failed f \<Rightarrow> Inr (failedSettlementResponse i (Some (fr_txSignature f)) (fr_errorCode f) (fr_errorMessage f))
     | FailedNotSubmitted code message \<Rightarrow> Inr (failedSettlementResponse i None code message))"

text \<open>
  The message of a refused result; the error is always the conflict
  \<open>settlement_result_invalid\<close>.
\<close>

definition settledResultError :: "PaymentIntent \<Rightarrow> SettledResult \<Rightarrow> string option" where
  "settledResultError i r =
     (let sharesRedeemedRaw = orElse (sr_actualSharesRedeemedRaw r) (pay_sharesToRedeemRaw i);
          withdrawOutputRawUsdc = orElse (sr_withdrawOutputRawUsdc r) (pay_requiredWithdrawRawUsdc i)
      in if sharesRedeemedRaw > pay_sharesToRedeemRaw i
           then Some ''Settlement redeemed more shares than the prepared maximum''
         else case sr_sellerTransferRawUsdc r of
             None \<Rightarrow> Some ''Settlement result is missing the seller transfer amount''
           | Some sellerTransferRawUsdc \<Rightarrow>
               if sellerTransferRawUsdc \<noteq> pay_amountRawUsdc i
                 then Some ''Settlement seller transfer does not match the payment amount''
               else if withdrawOutputRawUsdc < pay_amountRawUsdc i
                 then Some ''Settlement withdraw output is less than the seller payment amount''
               else case sr_dustTransferRawUsdc r of
                   None \<Rightarrow> None
                 | Some dust \<Rightarrow>
                     if dust \<noteq> withdrawOutputRawUsdc - sellerTransferRawUsdc
                     then Some ''Settlement dust transfer does not match withdraw output minus seller amount''
                     else None)"

definition settlementResultValidationError :: "PaymentIntent \<Rightarrow> SettlementSubmissionResult \<Rightarrow> string option" where
  "settlementResultValidationError i r =
     (if (case (pay_txSignature i, settlementResultTxSignature r) of
            (Some expected, Some actual) \<Rightarrow> actual \<noteq> expected | _ \<Rightarrow> False)
        then Some ''Settlement result transaction signature does not match the prepared submission''
      else case r of Settled s \<Rightarrow> settledResultError i s | _ \<Rightarrow> None)"

definition subtractRedeemedShares :: "WalletPosition \<Rightarrow> int \<Rightarrow> WalletPosition result" where
  "subtractRedeemedShares p sharesRedeemedRaw =
     (if sharesRedeemedRaw > pos_totalSharesRaw p
        then Inl (JsError ''sharesRedeemedRaw exceeds the tracked wallet share balance'')
      else
        let unstakedRedeemedRaw = minBigInt (pos_unstakedSharesRaw p) sharesRedeemedRaw;
            remainingRedeemRaw = sharesRedeemedRaw - unstakedRedeemedRaw;
            stakedRedeemedRaw = minBigInt (pos_stakedSharesRaw p) remainingRedeemRaw;
            stakedSharesRaw = pos_stakedSharesRaw p - stakedRedeemedRaw;
            unstakedSharesRaw = pos_unstakedSharesRaw p - unstakedRedeemedRaw
        in Inr (p\<lparr>pos_stakedSharesRaw := stakedSharesRaw, pos_unstakedSharesRaw := unstakedSharesRaw,
                  pos_totalSharesRaw := stakedSharesRaw + unstakedSharesRaw\<rparr>))"

definition settlementFeeDebt :: "PaymentIntent \<Rightarrow> SettlementSubmissionResult \<Rightarrow> int" where
  "settlementFeeDebt i r = (case r of
       FailedNotSubmitted _ _ \<Rightarrow> 0
     | Settled s \<Rightarrow> orElse (sr_actualFeeDebtRawUsdc s) (pay_estimatedFeeDebtRawUsdc i)
     | Failed f \<Rightarrow> orElse (fr_actualFeeDebtRawUsdc f) (pay_estimatedFeeDebtRawUsdc i))"

text \<open>
  Releases the reservation, books the fee, and on a settled payment removes the burnt shares,
  unstaked ones first. Burning more shares than tracked, or a fee above its estimate, sends the
  position to \<open>needs_baseline_reset\<close>.
\<close>

definition applySettlementResultToPosition ::
  "WalletPosition \<Rightarrow> PaymentIntent \<Rightarrow> SettlementSubmissionResult \<Rightarrow> WalletPosition result" where
  "applySettlementResultToPosition p i r =
     (let feeDebtRawUsdc = settlementFeeDebt i r;
          feeDebtExceededEstimate =
            (case r of FailedNotSubmitted _ _ \<Rightarrow> False | _ \<Rightarrow> feeDebtRawUsdc > pay_estimatedFeeDebtRawUsdc i);
          base = p\<lparr>
            pos_reservedRawUsdc := clampToZero (pos_reservedRawUsdc p - pay_reservationRawUsdc i),
            pos_feeDebtRawUsdc := pos_feeDebtRawUsdc p + feeDebtRawUsdc,
            pos_status := (if feeDebtExceededEstimate then needs_baseline_reset else pos_status p),
            pos_version := pos_version p + 1\<rparr>
      in case r of
          Settled s \<Rightarrow>
            (let sharesRedeemedRaw = orElse (sr_actualSharesRedeemedRaw s) (pay_sharesToRedeemRaw i)
             in if sharesRedeemedRaw > pos_totalSharesRaw p
                then Inr (base\<lparr>pos_status := needs_baseline_reset\<rparr>)
                else bindR (subtractRedeemedShares p sharesRedeemedRaw) (\<lambda>balances.
                  let withdrawOutputRawUsdc =
                        orElse (sr_withdrawOutputRawUsdc s) (pay_requiredWithdrawRawUsdc i)
                  in Inr (base\<lparr>
                    pos_stakedSharesRaw := pos_stakedSharesRaw balances,
                    pos_unstakedSharesRaw := pos_unstakedSharesRaw balances,
                    pos_totalSharesRaw := pos_totalSharesRaw balances,
                    pos_instantRedeemCapacityRawUsdc :=
                      clampToZero (pos_instantRedeemCapacityRawUsdc p - withdrawOutputRawUsdc)\<rparr>)))
        | _ \<Rightarrow> Inr base)"

section \<open>Request checks\<close>

definition PAYMENT_SCHEME :: string where "PAYMENT_SCHEME = ''subly-yield-exact''"
definition SOLANA_MAINNET_NETWORK :: string where
  "SOLANA_MAINNET_NETWORK = ''solana:5eykt4UsFv8P8NJdTREpY1vzqKqZKvdp''"

definition is_lower_hex :: "char \<Rightarrow> bool" where
  "is_lower_hex c \<longleftrightarrow> is_digit c \<or> (97 \<le> (of_char c :: nat) \<and> (of_char c :: nat) \<le> 102)"

text \<open>The language of \<open>/^sha256-[a-f0-9]{64}$/\<close>.\<close>

definition tagged_sha256 :: "string \<Rightarrow> bool" where
  "tagged_sha256 s \<longleftrightarrow> take 7 s = ''sha256-'' \<and> length (drop 7 s) = 64 \<and> list_all is_lower_hex (drop 7 s)"

definition normalizeRequestBodyHash :: "string option \<Rightarrow> string" where
  "normalizeRequestBodyHash v = (case v of None \<Rightarrow> EMPTY_BODY_HASH
     | Some s \<Rightarrow> if s = ''sha256-empty'' then EMPTY_BODY_HASH else s)"

definition assertCanonicalResourceUrl :: "payment_env \<Rightarrow> string \<Rightarrow> unit result" where
  "assertCanonicalResourceUrl E url =
     (case pe_parseUrl E url of
        None \<Rightarrow> Inl (badRequest ''invalid_canonical_resource_url'')
      | Some (protocol, hostname) \<Rightarrow>
          let isLoopbackHttp = (protocol = ''http:'' \<and> \<not> pe_production E \<and>
                hostname \<in> {''localhost'', ''127.0.0.1'', ''[::1]''})
          in checkR (protocol = ''https:'' \<or> isLoopbackHttp) (badRequest ''invalid_canonical_resource_url''))"

definition assertExpectedPaymentRequirement ::
  "payment_env \<Rightarrow> string \<Rightarrow> string \<Rightarrow> string \<Rightarrow> string \<Rightarrow> string \<Rightarrow> string \<Rightarrow> string \<Rightarrow> unit result" where
  "assertExpectedPaymentRequirement E scheme network vault shareMint asset requestBodyHash url =
     (if scheme \<noteq> PAYMENT_SCHEME then Inl (badRequest ''unsupported_scheme'')
      else if network \<noteq> SOLANA_MAINNET_NETWORK then Inl (badRequest ''unsupported_network'')
      else if vault \<noteq> vc_address (pe_vault E) then Inl (badRequest ''unsupported_vault'')
      else if shareMint \<noteq> vc_shareMint (pe_vault E) then Inl (badRequest ''unsupported_share_mint'')
      else if asset \<noteq> vc_usdcMint (pe_vault E) then Inl (badRequest ''unsupported_asset'')
      else if \<not> (tagged_sha256 requestBodyHash \<or> requestBodyHash = ''sha256-empty'')
        then Inl (badRequest ''invalid_request_body_hash'')
      else assertCanonicalResourceUrl E url)"

definition MAX_SAFE_INTEGER :: int where "MAX_SAFE_INTEGER = 9007199254740991"

definition assertPreparedSettlementTransaction ::
  "payment_env \<Rightarrow> PreparedSettlementTransaction \<Rightarrow> unit result" where
  "assertPreparedSettlementTransaction E t =
     checkR
       (tagged_sha256 (pt_preparedMessageHash t) \<and>
        pe_messageHash E (pt_serializedTransaction t) = Some (pt_preparedMessageHash t) \<and>
        valid_address (pt_temporarySettlementTokenAccount t) \<and>
        pt_temporarySettlementSignature t \<noteq> [] \<and>
        pe_signerSignature E (pt_serializedTransaction t) (pt_temporarySettlementTokenAccount t)
          = Some (pt_temporarySettlementSignature t) \<and>
        pt_recentBlockhash t \<noteq> Some [] \<and>
        (case pt_lastValidBlockHeight t of None \<Rightarrow> True | Some h \<Rightarrow> 0 \<le> h \<and> h \<le> MAX_SAFE_INTEGER))
       (unavailable ''transaction_builder_invalid'')"

section \<open>Payload verification\<close>

datatype Verification =
    Verified string PaymentStatus
  | Unverified string string

definition verification_json :: "Verification \<Rightarrow> json" where
  "verification_json v = (case v of
       Verified paymentId status \<Rightarrow> obj [(''isValid'', JBool True), (''paymentId'', JString paymentId),
         (''status'', JString (PaymentStatus_string status))]
     | Unverified paymentId reason \<Rightarrow> obj [(''isValid'', JBool False),
         (''invalidReason'', JString reason), (''paymentId'', JString paymentId)])"

definition verifySettlementPayloadForIntent ::
  "payment_env \<Rightarrow> PaymentIntent \<Rightarrow> VerifyPaymentPayloadInput \<Rightarrow> Verification" where
  "verifySettlementPayloadForIntent E i x =
     (if pay_requestBindingHash i \<noteq> vp_requestBindingHash x
        then Unverified (pay_paymentId i) ''request_binding_mismatch''
      else if pay_preparedMessageHash i \<noteq> vp_preparedMessageHash x
        then Unverified (pay_paymentId i) ''message_hash_mismatch''
      else case pe_verify E i x of
          Some reason \<Rightarrow> Unverified (pay_paymentId i) reason
        | None \<Rightarrow> Verified (pay_paymentId i) (pay_status i))"

definition verifyLoadedPaymentPayload ::
  "payment_env \<Rightarrow> int \<Rightarrow> PaymentIntent \<Rightarrow> VerifyPaymentPayloadInput \<Rightarrow> Verification" where
  "verifyLoadedPaymentPayload E now i x =
     (if pay_requestBindingHash i \<noteq> vp_requestBindingHash x
        then Unverified (pay_paymentId i) ''request_binding_mismatch''
      else if pay_preparedMessageHash i \<noteq> vp_preparedMessageHash x
        then Unverified (pay_paymentId i) ''message_hash_mismatch''
      else if isTerminalFailedPaymentStatus (pay_status i)
        then Unverified (pay_paymentId i) (PaymentStatus_string (pay_status i))
      else if pay_status i = pay_prepared \<and> paymentIntentExpired now i
        then Unverified (pay_paymentId i) ''expired''
      else case pe_verify E i x of
          Some reason \<Rightarrow> Unverified (pay_paymentId i) reason
        | None \<Rightarrow> Verified (pay_paymentId i) (pay_status i))"

definition storedSettlementPayloadForIntent ::
  "payment_env \<Rightarrow> PaymentIntent \<Rightarrow> VerifyPaymentPayloadInput option" where
  "storedSettlementPayloadForIntent E i =
     (case pay_submittedSerializedTransaction i of None \<Rightarrow> None | Some tx \<Rightarrow>
      case pe_signerSignature E tx (pay_wallet i) of None \<Rightarrow> None | Some agentSignature \<Rightarrow>
      case pe_signerSignature E tx (pay_temporarySettlementTokenAccount i) of None \<Rightarrow> None
      | Some temporarySettlementSignature \<Rightarrow> Some
        \<lparr>vp_paymentId = pay_paymentId i,
         vp_requestBindingHash = pay_requestBindingHash i,
         vp_preparedMessageHash = pay_preparedMessageHash i,
         vp_serializedTransaction = tx,
         vp_agentSignature = agentSignature,
         vp_temporarySettlementSignature = temporarySettlementSignature\<rparr>)"

text \<open>The code and message of a bad submission record; the error is \<open>unavailable\<close>.\<close>

definition submissionRecordValidationError :: "payment_env \<Rightarrow> PaymentIntent \<Rightarrow> (string \<times> string) option" where
  "submissionRecordValidationError E i =
     (case (pay_txSignature i, pay_submittedSerializedTransaction i) of
       (Some txSignature, Some tx) \<Rightarrow>
         (case pe_txSignature E tx of
            None \<Rightarrow> Some (''submission_record_invalid'',
              ''Persisted signed transaction is not a valid Solana transaction'')
          | Some actualTxSignature \<Rightarrow>
              if actualTxSignature \<noteq> txSignature then Some (''submission_record_invalid'',
                ''Persisted signed transaction signature does not match the recorded txSignature'')
              else case storedSettlementPayloadForIntent E i of
                  None \<Rightarrow> Some (''submission_record_invalid'',
                    ''Persisted signed transaction is missing valid required signer signatures'')
                | Some payload \<Rightarrow>
                    (case verifySettlementPayloadForIntent E i payload of
                       Verified _ _ \<Rightarrow> None
                     | Unverified _ reason \<Rightarrow> Some (''submission_record_invalid'',
                         ''Persisted signed transaction does not match the prepared intent: '' @ reason)))
     | _ \<Rightarrow> Some (''submission_record_missing'',
         ''Prepared settlement submission is missing persisted transaction data''))"

end
