(* ===== verification/Payment_Service.thy ===== *)
theory Payment_Service
  imports Payment_Core
begin

text \<open>
  The operations of the \<open>SublyService\<close> class of \<open>src/src/domain/payment-service.ts\<close>.
  Each handler is an action on the ledger; what runs under a wallet-and-vault lock is one
  \<open>withLock\<close> section. The clock reading of a section and the random ids are arguments. A
  handler longer than a screen is split at its own comments into named parts, composed in the
  order of the source.
\<close>

section \<open>Registering a wallet\<close>

record RegisterAgentWalletInput =
  ra_wallet :: string
  ra_signingPolicyId :: string
  ra_signingMode :: "SigningMode option"
  ra_signerValidationMode :: "SignerValidationMode option"
  ra_signerProvider :: "string option"
  ra_safetyBufferRawUsdc :: "string option"
  ra_activateForPayments :: bool

definition initialPosition :: "payment_env \<Rightarrow> string \<Rightarrow> RegisterAgentWalletInput \<Rightarrow> int \<Rightarrow> WalletPosition" where
  "initialPosition E wallet x safetyBufferRawUsdc =
     (let initialSignerProvider = orElse (ra_signerProvider x) ''unconfigured'';
          initialSigningMode = orElse (ra_signingMode x)
            (if initialSignerProvider = ''unconfigured'' then mode_observed_only else non_interactive)
      in \<lparr>pos_wallet = wallet, pos_vault = vc_address (pe_vault E),
          pos_signingPolicyId = Some (ra_signingPolicyId x),
          pos_signingMode = initialSigningMode,
          pos_signerValidationMode = orElse (ra_signerValidationMode x) unverified,
          pos_signerProvider = initialSignerProvider,
          pos_stakedSharesRaw = 0, pos_unstakedSharesRaw = 0, pos_totalSharesRaw = 0,
          pos_exchangeRateScaled = RATE_SCALE,
          pos_instantRedeemCapacityRawUsdc = 0,
          pos_principalBasisRawUsdc = 0, pos_principalBasisSource = basis_empty,
          pos_reservedRawUsdc = 0, pos_feeDebtRawUsdc = 0,
          pos_safetyBufferRawUsdc = safetyBufferRawUsdc,
          pos_kaminoPositionSnapshot = [], pos_kaminoPnlSnapshot = [],
          pos_lastSyncedSlot = None, pos_version = 1,
          pos_status = (if initialSigningMode = mode_observed_only \<or> initialSignerProvider = ''unconfigured''
            then observed_only else pos_active)\<rparr>)"

definition updatedSignerPosition :: "WalletPosition \<Rightarrow> RegisterAgentWalletInput \<Rightarrow> int \<Rightarrow> WalletPosition" where
  "updatedSignerPosition existing x safetyBufferRawUsdc =
     (let nextSignerProvider = orElse (ra_signerProvider x) (pos_signerProvider existing);
          nextSigningMode = orElse (ra_signingMode x)
            (if pos_signingMode existing = mode_observed_only \<and> ra_activateForPayments x \<and>
                nextSignerProvider \<noteq> ''unconfigured''
             then non_interactive else pos_signingMode existing)
      in existing\<lparr>pos_signingPolicyId := Some (ra_signingPolicyId x),
          pos_signingMode := nextSigningMode,
          pos_signerValidationMode :=
            orElse (ra_signerValidationMode x) (pos_signerValidationMode existing),
          pos_signerProvider := nextSignerProvider,
          pos_safetyBufferRawUsdc := safetyBufferRawUsdc,
          pos_version := pos_version existing + 1,
          pos_status := nextWalletStatusAfterSignerUpdate (pos_status existing) nextSigningMode
            nextSignerProvider (ra_activateForPayments x)\<rparr>)"

definition registerAgentWallet :: "payment_env \<Rightarrow> RegisterAgentWalletInput \<Rightarrow> (ledger, json) action" where
  "registerAgentWallet E x =
     bindA (liftR (requireSolanaAddress (ra_wallet x) ''wallet'')) (\<lambda>wallet.
     withLock (pe_ledger E)
       (bindA (getsA (\<lambda>L. getPosition L wallet (vc_address (pe_vault E)))) (\<lambda>existing.
        bindA (liftR (case ra_safetyBufferRawUsdc x of
            None \<Rightarrow> Inr (case existing of None \<Rightarrow> 0 | Some p \<Rightarrow> pos_safetyBufferRawUsdc p)
          | Some s \<Rightarrow> parseRawUnits (JsStr s) ''safetyBufferRawUsdc'')) (\<lambda>safetyBufferRawUsdc.
        bindA (assertA (\<not> (case existing of None \<Rightarrow> False | Some p \<Rightarrow>
              pos_status p = observed_only \<and> ra_activateForPayments x \<and>
              orElse (ra_signerProvider x) (pos_signerProvider p) = ''unconfigured''))
            (conflict ''signer_provider_missing'')) (\<lambda>_.
        let position = (case existing of
              None \<Rightarrow> initialPosition E wallet x safetyBufferRawUsdc
            | Some p \<Rightarrow> updatedSignerPosition p x safetyBufferRawUsdc)
        in bindA (modifyA (savePosition position)) (\<lambda>_.
           liftR (serializeWalletPosition position)))))))"

section \<open>Sync events\<close>

record SyncEventInput =
  si_wallet :: string
  si_vault :: string
  si_eventType :: SyncEventType
  si_deltaSharesRaw :: int
  si_deltaPrincipalRawUsdc :: int
  si_classification :: string
  si_sourceEndpoint :: string
  si_rawSnapshot :: "json option"
  si_txSignature :: "string option"
  si_slot :: "int option"

definition recordSyncEvent :: "int \<Rightarrow> string \<Rightarrow> SyncEventInput \<Rightarrow> ledger \<Rightarrow> ledger" where
  "recordSyncEvent now uuid x = saveSyncEvent
     \<lparr>ev_eventId = ''evt_'' @ uuid,
      ev_wallet = si_wallet x, ev_vault = si_vault x, ev_eventType = si_eventType x,
      ev_txSignature = si_txSignature x,
      ev_deltaSharesRaw = si_deltaSharesRaw x,
      ev_deltaPrincipalRawUsdc = si_deltaPrincipalRawUsdc x,
      ev_classification = si_classification x, ev_sourceEndpoint = si_sourceEndpoint x,
      ev_rawSnapshot = opt_json (si_rawSnapshot x), ev_slot = si_slot x,
      ev_observedAt = toISOString now\<rparr>"

definition listSyncEventsView :: "payment_env \<Rightarrow> string \<Rightarrow> string option \<Rightarrow> nat \<Rightarrow> (ledger, json) action" where
  "listSyncEventsView E walletInput vault limit =
     bindA (liftR (requireSolanaAddress walletInput ''wallet'')) (\<lambda>wallet.
     bindA (getsA (\<lambda>L. listSyncEvents L wallet (orElse vault (vc_address (pe_vault E))) limit)) (\<lambda>events.
     liftR (bindR (fieldsR (map (\<lambda>e. ('''', serializeSyncEvent e)) events)) (\<lambda>vs.
       Inr (obj [(''events'', JArray (map snd vs))])))))"

section \<open>Syncing a position\<close>

record SyncWalletPositionInput =
  sy_wallet :: string
  sy_vault :: "string option"
  sy_expectedPositionVersion :: "int option"
  sy_stakedSharesRaw :: "string option"
  sy_unstakedSharesRaw :: "string option"
  sy_totalSharesRaw :: string
  sy_exchangeRateScaled :: string
  sy_instantRedeemCapacityRawUsdc :: string
  sy_principalBasisRawUsdc :: "string option"
  sy_principalBasisSource :: "PrincipalBasisSource option"
  sy_kaminoPnlSnapshot :: "ProvenancedRawValue list option"
  sy_observedSlot :: "int option"
  sy_sourceEndpoint :: "string option"
  sy_forceConservativeReset :: bool

text \<open>The parsed and cross-checked numbers of a snapshot.\<close>

record SyncSnapshot =
  sn_totalSharesRaw :: int
  sn_stakedSharesRaw :: int
  sn_unstakedSharesRaw :: int
  sn_exchangeRateScaled :: int
  sn_instantRedeemCapacityRawUsdc :: int
  sn_currentPositionValueRawUsdc :: int
  sn_providedPrincipal :: "int option"

definition staleSnapshot :: "WalletPosition \<Rightarrow> SyncWalletPositionInput \<Rightarrow> bool" where
  "staleSnapshot existing x \<longleftrightarrow>
     (case sy_expectedPositionVersion x of None \<Rightarrow> False | Some v \<Rightarrow> v \<noteq> pos_version existing) \<or>
     (case (sy_observedSlot x, pos_lastSyncedSlot existing) of
        (Some s, Some l) \<Rightarrow> s < l | _ \<Rightarrow> False)"

definition parseSyncSnapshot :: "WalletPosition \<Rightarrow> SyncWalletPositionInput \<Rightarrow> SyncSnapshot result" where
  "parseSyncSnapshot existing x =
     bindR (parseRawUnits (JsStr (sy_totalSharesRaw x)) ''totalSharesRaw'') (\<lambda>total.
     bindR (case sy_stakedSharesRaw x of None \<Rightarrow> Inr (pos_stakedSharesRaw existing)
        | Some s \<Rightarrow> parseRawUnits (JsStr s) ''stakedSharesRaw'') (\<lambda>staked.
     bindR (checkR (\<not> (sy_unstakedSharesRaw x = None \<and> staked > total))
        (badRequest ''share_total_mismatch'')) (\<lambda>_.
     bindR (case sy_unstakedSharesRaw x of None \<Rightarrow> Inr (total - staked)
        | Some s \<Rightarrow> parseRawUnits (JsStr s) ''unstakedSharesRaw'') (\<lambda>unstaked.
     bindR (checkR (staked + unstaked = total) (badRequest ''share_total_mismatch'')) (\<lambda>_.
     bindR (parsePositiveRawUnits (JsStr (sy_exchangeRateScaled x)) ''exchangeRateScaled'') (\<lambda>rate.
     bindR (parseRawUnits (JsStr (sy_instantRedeemCapacityRawUsdc x)) ''instantRedeemCapacityRawUsdc'')
       (\<lambda>capacity.
     bindR (computePositionValueRawUsdc total rate) (\<lambda>value.
     bindR (case sy_principalBasisRawUsdc x of None \<Rightarrow> Inr None
        | Some s \<Rightarrow> bindR (parseRawUnits (JsStr s) ''principalBasisRawUsdc'') (\<lambda>v. Inr (Some v)))
       (\<lambda>provided.
     Inr \<lparr>sn_totalSharesRaw = total, sn_stakedSharesRaw = staked, sn_unstakedSharesRaw = unstaked,
          sn_exchangeRateScaled = rate, sn_instantRedeemCapacityRawUsdc = capacity,
          sn_currentPositionValueRawUsdc = value, sn_providedPrincipal = provided\<rparr>)))))))))"

definition hasEstablishedBaseline :: "WalletPosition \<Rightarrow> bool" where
  "hasEstablishedBaseline existing \<longleftrightarrow>
     pos_principalBasisSource existing \<noteq> basis_empty \<or> pos_totalSharesRaw existing > 0"

definition runConservativeReset :: "WalletPosition \<Rightarrow> bool \<Rightarrow> SyncSnapshot \<Rightarrow> bool" where
  "runConservativeReset existing forceReset n \<longleftrightarrow>
     forceReset \<or>
     (hasEstablishedBaseline existing \<and> sn_totalSharesRaw n < pos_totalSharesRaw existing) \<or>
     (sn_totalSharesRaw n > pos_totalSharesRaw existing \<and> sn_providedPrincipal n = None)"

definition externalDepositFloorRawUsdc :: "WalletPosition \<Rightarrow> SyncSnapshot \<Rightarrow> int result" where
  "externalDepositFloorRawUsdc existing n =
     (if hasEstablishedBaseline existing \<and> sn_totalSharesRaw n > pos_totalSharesRaw existing \<and>
         sn_providedPrincipal n \<noteq> None
      then bindR (mulDivCeil (sn_totalSharesRaw n - pos_totalSharesRaw existing)
             (sn_exchangeRateScaled n) RATE_SCALE)
             (\<lambda>value. Inr (pos_principalBasisRawUsdc existing + value))
      else Inr (pos_principalBasisRawUsdc existing))"

definition nextPrincipalBasisRawUsdc :: "WalletPosition \<Rightarrow> SyncSnapshot \<Rightarrow> bool \<Rightarrow> int \<Rightarrow> int" where
  "nextPrincipalBasisRawUsdc existing n reset floor =
     (if reset then sn_currentPositionValueRawUsdc n
      else case sn_providedPrincipal n of
          None \<Rightarrow> if pos_principalBasisSource existing = basis_empty
            then sn_currentPositionValueRawUsdc n else pos_principalBasisRawUsdc existing
        | Some provided \<Rightarrow> maxBigInt (maxBigInt (pos_principalBasisRawUsdc existing) provided) floor)"

definition syncedPosition ::
  "WalletPosition \<Rightarrow> SyncWalletPositionInput \<Rightarrow> SyncSnapshot \<Rightarrow> bool \<Rightarrow> int \<Rightarrow> WalletPosition" where
  "syncedPosition existing x n reset basis = existing\<lparr>
     pos_stakedSharesRaw := sn_stakedSharesRaw n,
     pos_unstakedSharesRaw := sn_unstakedSharesRaw n,
     pos_totalSharesRaw := sn_totalSharesRaw n,
     pos_exchangeRateScaled := sn_exchangeRateScaled n,
     pos_instantRedeemCapacityRawUsdc := sn_instantRedeemCapacityRawUsdc n,
     pos_principalBasisRawUsdc := basis,
     pos_principalBasisSource := (if reset then conservative_activation_reset
       else orElse (sy_principalBasisSource x)
         (if pos_principalBasisSource existing = basis_empty then conservative_activation_reset
          else pos_principalBasisSource existing)),
     pos_kaminoPnlSnapshot := orElse (sy_kaminoPnlSnapshot x) (pos_kaminoPnlSnapshot existing),
     pos_reservedRawUsdc := (if reset then 0 else pos_reservedRawUsdc existing),
     pos_status := (if reset then walletStatusAfterConservativeReset existing else pos_status existing),
     pos_lastSyncedSlot := (case sy_observedSlot x of None \<Rightarrow> pos_lastSyncedSlot existing | Some s \<Rightarrow> Some s),
     pos_version := pos_version existing + 1\<rparr>"

definition resetExpired :: "int \<Rightarrow> PaymentIntent \<Rightarrow> PaymentIntent" where
  "resetExpired now p = p\<lparr>pay_status := pay_expired, pay_terminalAt := Some (toISOString now),
     pay_settlementResponse := Some (obj [(''error'', JString ''expired_by_conservative_baseline_reset'')])\<rparr>"

definition syncEventOf ::
  "string \<Rightarrow> string \<Rightarrow> WalletPosition \<Rightarrow> SyncWalletPositionInput \<Rightarrow> SyncSnapshot \<Rightarrow> bool \<Rightarrow> int \<Rightarrow> SyncEventInput" where
  "syncEventOf wallet vault existing x n reset basis =
     \<lparr>si_wallet = wallet, si_vault = vault, si_eventType = wallet_sync,
      si_deltaSharesRaw = sn_totalSharesRaw n - pos_totalSharesRaw existing,
      si_deltaPrincipalRawUsdc = basis - pos_principalBasisRawUsdc existing,
      si_classification = (if reset then ''conservative_baseline_reset''
        else if sn_providedPrincipal n = None then ''snapshot_update'' else ''basis_confirmed''),
      si_sourceEndpoint = orElse (sy_sourceEndpoint x) ''subly_sync_api'',
      si_rawSnapshot = Some (obj
        [(''totalSharesRaw'', JString (toString (sn_totalSharesRaw n))),
         (''exchangeRateScaled'', JString (toString (sn_exchangeRateScaled n))),
         (''instantRedeemCapacityRawUsdc'', JString (toString (sn_instantRedeemCapacityRawUsdc n)))]),
      si_txSignature = None, si_slot = sy_observedSlot x\<rparr>"

definition syncLockedPosition ::
  "int \<Rightarrow> string \<Rightarrow> string \<Rightarrow> string \<Rightarrow> SyncWalletPositionInput \<Rightarrow> (ledger, json) action" where
  "syncLockedPosition now uuid wallet vault x =
     bindA (getsA (\<lambda>L. getPosition L wallet vault)) (\<lambda>found. case found of
       None \<Rightarrow> throwA (notFound ''wallet_not_registered'')
     | Some existing \<Rightarrow>
       bindA (assertA (\<not> staleSnapshot existing x) (conflict ''stale_position_snapshot'')) (\<lambda>_.
       bindA (getsA (\<lambda>L. (filter (\<lambda>d. dep_status d = flow_submitted) (listDepositsForPosition L wallet vault),
           filter (\<lambda>w. wdr_status w = flow_submitted) (listWithdrawalsForPosition L wallet vault))))
         (\<lambda>(submittedDeposits, submittedWithdrawals).
       bindA (assertA (submittedDeposits = [] \<and> submittedWithdrawals = [])
         (conflict ''vault_flow_pending'')) (\<lambda>_.
       bindA (liftR (parseSyncSnapshot existing x)) (\<lambda>n.
       let reset = runConservativeReset existing (sy_forceConservativeReset x) n in
       bindA (getsA (\<lambda>L. listPaymentsForPosition L wallet vault)) (\<lambda>payments.
       bindA (assertA (\<not> (reset \<and> activeSubmittedPayments payments \<noteq> []))
         (conflict ''submitted_payment_active'')) (\<lambda>_.
       bindA (if reset then
           forA (filter (\<lambda>p. pay_status p = pay_prepared) payments)
             (\<lambda>p. modifyA (savePayment (resetExpired now p)))
         else returnA ()) (\<lambda>_.
       bindA (liftR (externalDepositFloorRawUsdc existing n)) (\<lambda>floor.
       let basis = nextPrincipalBasisRawUsdc existing n reset floor;
           next = syncedPosition existing x n reset basis in
       bindA (modifyA (savePosition next)) (\<lambda>_.
       bindA (modifyA (recordSyncEvent now uuid (syncEventOf wallet vault existing x n reset basis))) (\<lambda>_.
       liftR (serializeBudget next))))))))))))"

definition syncWalletPosition ::
  "payment_env \<Rightarrow> int \<Rightarrow> string \<Rightarrow> SyncWalletPositionInput \<Rightarrow> (ledger, json) action" where
  "syncWalletPosition E now uuid x =
     bindA (liftR (requireSolanaAddress (sy_wallet x) ''wallet'')) (\<lambda>wallet.
     let vault = orElse (sy_vault x) (vc_address (pe_vault E)) in
     bindA (assertA (vault = vc_address (pe_vault E)) (badRequest ''unsupported_vault'')) (\<lambda>_.
     withLock (pe_ledger E) (syncLockedPosition now uuid wallet vault x)))"

definition getBudget :: "payment_env \<Rightarrow> int \<Rightarrow> string \<Rightarrow> string option \<Rightarrow> (ledger, json) action" where
  "getBudget E now walletInput vaultInput =
     bindA (liftR (requireSolanaAddress walletInput ''wallet'')) (\<lambda>wallet.
     let vault = orElse vaultInput (vc_address (pe_vault E)) in
     bindA (assertA (vault = vc_address (pe_vault E)) (badRequest ''unsupported_vault'')) (\<lambda>_.
     withLock (pe_ledger E)
       (bindA (getsA (\<lambda>L. getPosition L wallet vault)) (\<lambda>found. case found of
          None \<Rightarrow> throwA (notFound ''wallet_not_registered'')
        | Some position \<Rightarrow>
            bindA (expirePreparedPaymentsForLockedPosition now wallet vault) (\<lambda>refreshed.
            liftR (serializeBudget (orElse refreshed position)))))))"

section \<open>Preparing a payment\<close>

record PreparePaymentInput =
  pi_wallet :: string
  pi_scheme :: "string option"
  pi_network :: "string option"
  pi_vault :: "string option"
  pi_shareMint :: "string option"
  pi_asset :: string
  pi_seller :: string
  pi_sellerRequestId :: string
  pi_httpMethod :: string
  pi_canonicalResourceUrl :: string
  pi_requestBodyHash :: "string option"
  pi_amountRawUsdc :: string
  pi_payTo :: string
  pi_sellerUsdcAta :: string
  pi_dustRecipientUsdcAta :: string

text \<open>The request once its fields have been normalized and checked.\<close>

record PaymentRequest =
  pr_wallet :: string
  pr_vault :: string
  pr_scheme :: string
  pr_network :: string
  pr_requestBodyHash :: string
  pr_amountRawUsdc :: int
  pr_asset :: string
  pr_seller :: string
  pr_sellerRequestId :: string
  pr_payTo :: string
  pr_sellerUsdcAta :: string
  pr_dustRecipientUsdcAta :: string
  pr_httpMethod :: string
  pr_canonicalResourceUrl :: string
  pr_requestBindingHash :: string

definition checkPaymentRequest :: "payment_env \<Rightarrow> PreparePaymentInput \<Rightarrow> PaymentRequest result" where
  "checkPaymentRequest E x =
     bindR (requireSolanaAddress (pi_wallet x) ''wallet'') (\<lambda>wallet.
     let vault = orElse (pi_vault x) (vc_address (pe_vault E));
         scheme = orElse (pi_scheme x) PAYMENT_SCHEME;
         network = orElse (pi_network x) SOLANA_MAINNET_NETWORK;
         shareMint = orElse (pi_shareMint x) (vc_shareMint (pe_vault E));
         requestBodyHash = normalizeRequestBodyHash (pi_requestBodyHash x) in
     bindR (parsePositiveRawUnits (JsStr (pi_amountRawUsdc x)) ''amountRawUsdc'') (\<lambda>amountRawUsdc.
     bindR (assertExpectedPaymentRequirement E scheme network vault shareMint (pi_asset x)
       requestBodyHash (pi_canonicalResourceUrl x)) (\<lambda>_.
     bindR (requireSolanaAddress (pi_seller x) ''seller'') (\<lambda>seller.
     bindR (requireSolanaAddress (pi_payTo x) ''payTo'') (\<lambda>payTo.
     bindR (checkR (payTo \<noteq> wallet) (badRequest ''self_payment_not_supported'')) (\<lambda>_.
     bindR (requireSolanaAddress (pi_sellerUsdcAta x) ''sellerUsdcAta'') (\<lambda>sellerUsdcAta.
     bindR (checkR (sellerUsdcAta = pe_deriveAta E payTo (vc_usdcMint (pe_vault E)))
       (badRequest ''seller_ata_mismatch'')) (\<lambda>_.
     bindR (requireSolanaAddress (pi_dustRecipientUsdcAta x) ''dustRecipientUsdcAta'') (\<lambda>dust.
     bindR (checkR (dust = pe_deriveAta E wallet (vc_usdcMint (pe_vault E)))
       (badRequest ''dust_recipient_ata_mismatch'')) (\<lambda>_.
     let httpMethod = toUpperCase (pi_httpMethod x);
         requestBindingHash = computeRequestBindingHash (pe_sha E)
           \<lparr>rb_sellerRequestId = pi_sellerRequestId x, rb_httpMethod = httpMethod,
            rb_canonicalResourceUrl = pi_canonicalResourceUrl x, rb_requestBodyHash = requestBodyHash,
            rb_seller = seller, rb_asset = pi_asset x, rb_amountRawUsdc = toString amountRawUsdc,
            rb_payTo = payTo, rb_sellerUsdcAta = sellerUsdcAta\<rparr>
     in Inr \<lparr>pr_wallet = wallet, pr_vault = vault, pr_scheme = scheme, pr_network = network,
          pr_requestBodyHash = requestBodyHash, pr_amountRawUsdc = amountRawUsdc,
          pr_asset = pi_asset x, pr_seller = seller, pr_sellerRequestId = pi_sellerRequestId x,
          pr_payTo = payTo, pr_sellerUsdcAta = sellerUsdcAta, pr_dustRecipientUsdcAta = dust,
          pr_httpMethod = httpMethod, pr_canonicalResourceUrl = pi_canonicalResourceUrl x,
          pr_requestBindingHash = requestBindingHash\<rparr>))))))))))"

text \<open>
  A live or settled payment of the same seller request is returned as it is; one bound to
  different content is a conflict; a terminally failed one may be prepared again.
\<close>

definition existingPayment :: "ledger \<Rightarrow> PaymentRequest \<Rightarrow> PaymentIntent option result" where
  "existingPayment L q =
     (case findPaymentBySellerRequest L (pr_seller q) (pr_sellerRequestId q) of
        None \<Rightarrow> Inr None
      | Some p \<Rightarrow>
          if pay_requestBindingHash p \<noteq> pr_requestBindingHash q
            then Inl (conflict ''seller_request_id_reuse'')
          else if \<not> isTerminalFailedPaymentStatus (pay_status p) then Inr (Some p)
          else Inr None)"

definition requirePayablePosition :: "payment_env \<Rightarrow> WalletPosition option \<Rightarrow> (WalletPosition \<times> string) result" where
  "requirePayablePosition E found = (case found of
       None \<Rightarrow> Inl (notFound ''wallet_not_registered'')
     | Some p \<Rightarrow>
         if pos_status p \<noteq> pos_active then Inl (conflict (WalletPositionStatus_string (pos_status p)))
         else case pos_signingPolicyId p of
             None \<Rightarrow> Inl (conflict ''signing_policy_missing'')
           | Some policy \<Rightarrow>
               if pos_signingMode p \<noteq> non_interactive then Inl (conflict ''observed_only'')
               else if pos_signerProvider p = ''unconfigured'' then Inl (conflict ''signer_provider_missing'')
               else if pe_production E \<and> pos_signerValidationMode p \<noteq> structured_intent_transaction
                 then Inl (conflict ''signer_policy_validation_missing'')
               else Inr (p, policy))"

definition checkLiquidityPolicy ::
  "payment_env \<Rightarrow> SellerLiquidityPolicy option \<Rightarrow> int \<Rightarrow> unit result" where
  "checkLiquidityPolicy E policy amountRawUsdc = (case policy of
       None \<Rightarrow> checkR (\<not> pe_production E) (conflict ''liquidity_policy_missing'')
     | Some p \<Rightarrow>
         if lp_status p \<noteq> policy_active then Inl (conflict ''liquidity_policy_disabled'')
         else checkR (\<not> amountRawUsdc > lp_expectedPaymentSizeRawUsdc p) (conflict ''amount_exceeds_policy''))"

text \<open>
  The on-chain quote, when the builder provides one, replaces the synced snapshot; a share
  balance that differs from the ledger's flags the position and blocks the payment.
\<close>

definition quotedPosition :: "WalletPosition \<Rightarrow> SettlementQuote \<Rightarrow> WalletPosition" where
  "quotedPosition p quote = p\<lparr>
     pos_stakedSharesRaw := sq_userStakedSharesRaw quote,
     pos_unstakedSharesRaw := sq_userUnstakedSharesRaw quote,
     pos_exchangeRateScaled := sq_exchangeRateScaled quote,
     pos_instantRedeemCapacityRawUsdc := sq_instantRedeemCapacityRawUsdc quote,
     pos_lastSyncedSlot := Some (sq_observedSlot quote),
     pos_version := pos_version p + 1\<rparr>"

definition flagBaselineReset :: "WalletPosition \<Rightarrow> WalletPosition" where
  "flagBaselineReset p = p\<lparr>pos_status := needs_baseline_reset, pos_version := pos_version p + 1\<rparr>"

definition externalMovementEvent ::
  "string \<Rightarrow> string \<Rightarrow> int \<Rightarrow> int \<Rightarrow> SyncEventInput" where
  "externalMovementEvent wallet vault deltaSharesRaw slot =
     \<lparr>si_wallet = wallet, si_vault = vault, si_eventType = external_share_movement,
      si_deltaSharesRaw = deltaSharesRaw, si_deltaPrincipalRawUsdc = 0,
      si_classification = ''needs_baseline_reset'', si_sourceEndpoint = ''chain_rpc'',
      si_rawSnapshot = None, si_txSignature = None, si_slot = Some slot\<rparr>"

definition quoteWorkingPosition ::
  "payment_env \<Rightarrow> int \<Rightarrow> string \<Rightarrow> PaymentRequest \<Rightarrow> WalletPosition \<Rightarrow>
   (ledger, WalletPosition \<times> SettlementQuote option) action" where
  "quoteWorkingPosition E now uuid q position = (case pe_quote E of
       None \<Rightarrow> returnA (position, None)
     | Some quoteSettlementWithdraw \<Rightarrow>
         bindA (liftR (quoteSettlementWithdraw (pr_wallet q) (pr_vault q) (pr_amountRawUsdc q))) (\<lambda>quote.
         if sq_userTotalSharesRaw quote \<noteq> pos_totalSharesRaw position then
           bindA (modifyA (savePosition (flagBaselineReset position))) (\<lambda>_.
           bindA (modifyA (recordSyncEvent now uuid (externalMovementEvent (pr_wallet q) (pr_vault q)
             (sq_userTotalSharesRaw quote - pos_totalSharesRaw position) (sq_observedSlot quote)))) (\<lambda>_.
           throwA (conflict ''needs_baseline_reset'')))
         else
           let workingPosition = quotedPosition position quote in
           bindA (modifyA (savePosition workingPosition)) (\<lambda>_. returnA (workingPosition, Some quote))))"

definition activeWithdrawReservedRawUsdc :: "ledger \<Rightarrow> string \<Rightarrow> string \<Rightarrow> int" where
  "activeWithdrawReservedRawUsdc L wallet vault =
     (\<Sum>p\<leftarrow>filter paymentHoldsSettlementReservation (listPaymentsForPosition L wallet vault).
        pay_requiredWithdrawRawUsdc p)"

definition settlementInput ::
  "payment_env \<Rightarrow> PaymentRequest \<Rightarrow> string \<Rightarrow> timestamp \<Rightarrow> int \<Rightarrow> int \<Rightarrow> CanonicalPaymentSettlementInput" where
  "settlementInput E q paymentId expiresAt shares withdraw =
     \<lparr>ci_paymentId = paymentId, ci_wallet = pr_wallet q, ci_vault = pr_vault q,
      ci_shareMint = vc_shareMint (pe_vault E), ci_usdcMint = vc_usdcMint (pe_vault E),
      ci_feePayer = pe_sponsorFeePayer E, ci_seller = pr_seller q,
      ci_sellerRequestId = pr_sellerRequestId q, ci_requestBindingHash = pr_requestBindingHash q,
      ci_httpMethod = pr_httpMethod q, ci_canonicalResourceUrl = pr_canonicalResourceUrl q,
      ci_requestBodyHash = pr_requestBodyHash q, ci_amountRawUsdc = pr_amountRawUsdc q,
      ci_payTo = pr_payTo q, ci_sellerUsdcAta = pr_sellerUsdcAta q,
      ci_dustRecipientUsdcAta = pr_dustRecipientUsdcAta q, ci_sharesToRedeemRaw = shares,
      ci_requiredWithdrawRawUsdc = withdraw, ci_memo = paymentId, ci_expiresAt = expiresAt\<rparr>"

definition paymentIntentJson ::
  "payment_env \<Rightarrow> PaymentRequest \<Rightarrow> string \<Rightarrow> timestamp \<Rightarrow> int \<Rightarrow> PreparedSettlementTransaction \<Rightarrow> json result" where
  "paymentIntentJson E q paymentId expiresAt shares prepared = objR
     [(''scheme'', Inr (JString (pr_scheme q))),
      (''network'', Inr (JString (pr_network q))),
      (''requestBindingHash'', Inr (JString (pr_requestBindingHash q))),
      (''serializedTransaction'', Inr (JString (pt_serializedTransaction prepared))),
      (''signingIntent'', objR
        [(''paymentId'', Inr (JString paymentId)),
         (''sellerRequestId'', Inr (JString (pr_sellerRequestId q))),
         (''wallet'', Inr (JString (pr_wallet q))),
         (''network'', Inr (JString (pr_network q))),
         (''scheme'', Inr (JString (pr_scheme q))),
         (''httpMethod'', Inr (JString (pr_httpMethod q))),
         (''canonicalResourceUrl'', Inr (JString (pr_canonicalResourceUrl q))),
         (''requestBodyHash'', Inr (JString (pr_requestBodyHash q))),
         (''requestBindingHash'', Inr (JString (pr_requestBindingHash q))),
         (''seller'', Inr (JString (pr_seller q))),
         (''vault'', Inr (JString (pr_vault q))),
         (''farm'', Inr (JString (vc_farm (pe_vault E)))),
         (''shareMint'', Inr (JString (vc_shareMint (pe_vault E)))),
         (''asset'', Inr (JString (pr_asset q))),
         (''amountRawUsdc'', raw (pr_amountRawUsdc q)),
         (''payTo'', Inr (JString (pr_payTo q))),
         (''sellerUsdcAta'', Inr (JString (pr_sellerUsdcAta q))),
         (''feePayer'', Inr (opt_string (pe_sponsorFeePayer E))),
         (''temporarySettlementTokenAccount'', Inr (JString (pt_temporarySettlementTokenAccount prepared))),
         (''dustRecipientUsdcAta'', Inr (JString (pr_dustRecipientUsdcAta q))),
         (''maxSharesToRedeemRaw'', raw shares),
         (''memo'', Inr (JString paymentId)),
         (''expiresAt'', Inr (JString (iso_text expiresAt))),
         (''preparedMessageHash'', Inr (JString (pt_preparedMessageHash prepared)))])]"

definition newPaymentIntent ::
  "PaymentRequest \<Rightarrow> string \<Rightarrow> WalletPosition \<Rightarrow> string \<Rightarrow> timestamp \<Rightarrow> FeeEstimate \<Rightarrow>
   PaymentBudgetEvaluation \<Rightarrow> int \<Rightarrow> PreparedSettlementTransaction \<Rightarrow> json \<Rightarrow> PaymentIntent" where
  "newPaymentIntent q policy workingPosition paymentId expiresAt fee evaluation shares prepared intentJson =
     \<lparr>pay_paymentId = paymentId, pay_wallet = pr_wallet q, pay_vault = pr_vault q,
      pay_seller = pr_seller q, pay_sellerRequestId = pr_sellerRequestId q,
      pay_httpMethod = pr_httpMethod q, pay_canonicalResourceUrl = pr_canonicalResourceUrl q,
      pay_requestBodyHash = pr_requestBodyHash q, pay_requestBindingHash = pr_requestBindingHash q,
      pay_asset = pr_asset q, pay_amountRawUsdc = pr_amountRawUsdc q, pay_payTo = pr_payTo q,
      pay_sellerUsdcAta = pr_sellerUsdcAta q, pay_dustRecipientUsdcAta = pr_dustRecipientUsdcAta q,
      pay_signingPolicyId = policy,
      pay_preparedMessageHash = pt_preparedMessageHash prepared,
      pay_recentBlockhash = pt_recentBlockhash prepared,
      pay_lastValidBlockHeight = pt_lastValidBlockHeight prepared,
      pay_temporarySettlementTokenAccount = pt_temporarySettlementTokenAccount prepared,
      pay_temporarySettlementSignature = pt_temporarySettlementSignature prepared,
      pay_sharesToRedeemRaw = shares,
      pay_requiredWithdrawRawUsdc = be_requiredWithdrawRawUsdc evaluation,
      pay_estimatedFeeLamports = fe_estimatedFeeLamports fee,
      pay_estimatedFeeDebtRawUsdc = fe_estimatedFeeDebtRawUsdc fee,
      pay_principalBasisBeforeRawUsdc = pos_principalBasisRawUsdc workingPosition,
      pay_grossYieldBeforeRawUsdc = bs_grossYieldRawUsdc (be_budget evaluation),
      pay_spendableYieldBeforeRawUsdc = bs_spendableYieldRawUsdc (be_budget evaluation),
      pay_postPositionValueRawUsdc = be_postPositionValueRawUsdc evaluation,
      pay_reservationRawUsdc = be_reservationRawUsdc evaluation,
      pay_status = pay_prepared, pay_expiresAt = expiresAt, pay_submittedAt = None,
      pay_terminalAt = None, pay_txSignature = None, pay_submittedSerializedTransaction = None,
      pay_settlementResponse = None, pay_intentJson = intentJson\<rparr>"

text \<open>
  The section under the locks. \<open>uuid\<close> names the payment, \<open>evUuid\<close> the sync event of
  a detected share movement.
\<close>

definition commitPreparedPayment ::
  "payment_env \<Rightarrow> int \<Rightarrow> string \<Rightarrow> PaymentRequest \<Rightarrow> string \<Rightarrow> WalletPosition \<Rightarrow> SettlementQuote option \<Rightarrow>
   FeeEstimate \<Rightarrow> PaymentBudgetEvaluation \<Rightarrow> (ledger, json) action" where
  "commitPreparedPayment E now uuid q policy workingPosition quoted fee evaluation =
     (let paymentId = ''pay_'' @ uuid;
          expiresAt = toISOString (now + pe_paymentExpirySeconds E * 1000);
          shares = (case quoted of Some s \<Rightarrow> sq_sharesToRedeemRaw s | None \<Rightarrow> be_sharesToRedeemRaw evaluation)
      in bindA (liftR (pe_prepareSettlement E (settlementInput E q paymentId expiresAt shares
           (be_requiredWithdrawRawUsdc evaluation)))) (\<lambda>prepared.
         bindA (liftR (assertPreparedSettlementTransaction E prepared)) (\<lambda>_.
         let actualShares = orElse (pt_sharesToRedeemRaw prepared) shares in
         bindA (assertA (\<not> actualShares > shares) (unavailable ''transaction_builder_invalid'')) (\<lambda>_.
         bindA (liftR (paymentIntentJson E q paymentId expiresAt shares prepared)) (\<lambda>intentJson.
         let intent = newPaymentIntent q policy workingPosition paymentId expiresAt fee evaluation
               actualShares prepared intentJson;
             updatedPosition = workingPosition\<lparr>
               pos_reservedRawUsdc := pos_reservedRawUsdc workingPosition + be_reservationRawUsdc evaluation,
               pos_version := pos_version workingPosition + 1\<rparr> in
         bindA (modifyA (savePosition updatedPosition)) (\<lambda>_.
         bindA (modifyA (savePayment intent)) (\<lambda>_.
         liftR (serializePaymentIntent intent))))))))"

definition sellerLiquidityPolicy :: "ledger \<Rightarrow> string \<Rightarrow> string \<Rightarrow> SellerLiquidityPolicy option" where
  "sellerLiquidityPolicy L seller vault = (case getLiquidityPolicy L seller vault of
       Some p \<Rightarrow> Some p | None \<Rightarrow> getLiquidityPolicy L ''default'' vault)"

definition belowMinimumLiquidity :: "SellerLiquidityPolicy option \<Rightarrow> WalletPosition \<Rightarrow> bool" where
  "belowMinimumLiquidity policy p = (case policy of None \<Rightarrow> False
     | Some l \<Rightarrow> lp_status l = policy_active \<and>
         pos_instantRedeemCapacityRawUsdc p < lp_minInstantLiquidityRawUsdc l)"

definition evaluateAndCommit ::
  "payment_env \<Rightarrow> int \<Rightarrow> string \<Rightarrow> string \<Rightarrow> PaymentRequest \<Rightarrow> SellerLiquidityPolicy option \<Rightarrow>
   WalletPosition \<times> string \<Rightarrow> (ledger, json) action" where
  "evaluateAndCommit E now uuid evUuid q liquidityPolicy payable =
     (case payable of (position, policy) \<Rightarrow>
       bindA (quoteWorkingPosition E now evUuid q position) (\<lambda>(workingPosition, quoted).
       bindA (assertA (\<not> belowMinimumLiquidity liquidityPolicy workingPosition)
         (conflict ''budget_illiquid'')) (\<lambda>_.
       bindA (liftR (pe_estimateFee E (pr_wallet q) (pr_seller q) (pr_amountRawUsdc q))) (\<lambda>fee.
       bindA (readA (\<lambda>L. evaluatePaymentBudget workingPosition (pr_amountRawUsdc q)
           (fe_estimatedFeeDebtRawUsdc fee) (map_option sq_requiredWithdrawRawUsdc quoted)
           (Some (activeWithdrawReservedRawUsdc L (pr_wallet q) (pr_vault q))))) (\<lambda>decision.
       case decision of
         BudgetRejected code _ \<Rightarrow> throwA (conflict (rejection_code code))
       | BudgetOk evaluation \<Rightarrow>
           commitPreparedPayment E now uuid q policy workingPosition quoted fee evaluation)))))"

definition prepareLockedPayment ::
  "payment_env \<Rightarrow> int \<Rightarrow> string \<Rightarrow> string \<Rightarrow> PaymentRequest \<Rightarrow> (ledger, json) action" where
  "prepareLockedPayment E now uuid evUuid q =
     bindA (expirePreparedPaymentsForLockedPosition now (pr_wallet q) (pr_vault q)) (\<lambda>_.
     bindA (readA (\<lambda>L. existingPayment L q)) (\<lambda>existing. case existing of
       Some p \<Rightarrow> liftR (serializePaymentIntent p)
     | None \<Rightarrow>
         bindA (readA (\<lambda>L. requirePayablePosition E (getPosition L (pr_wallet q) (pr_vault q)))) (\<lambda>payable.
         bindA (readA (\<lambda>L. checkR (pendingVaultFlows now L (pr_wallet q) (pr_vault q) = 0)
           (conflict ''vault_flow_pending''))) (\<lambda>_.
         bindA (getsA (\<lambda>L. sellerLiquidityPolicy L (pr_seller q) (pr_vault q))) (\<lambda>liquidityPolicy.
         bindA (liftR (checkLiquidityPolicy E liquidityPolicy (pr_amountRawUsdc q))) (\<lambda>_.
         evaluateAndCommit E now uuid evUuid q liquidityPolicy payable))))))"

definition preparePayment ::
  "payment_env \<Rightarrow> int \<Rightarrow> string \<Rightarrow> string \<Rightarrow> PreparePaymentInput \<Rightarrow> (ledger, json) action" where
  "preparePayment E now uuid evUuid x =
     bindA (liftR (checkPaymentRequest E x)) (\<lambda>q.
     withLock (pe_ledger E) (withLock (pe_ledger E) (prepareLockedPayment E now uuid evUuid q)))"

section \<open>Verifying a payload\<close>

definition expirePreparedPayment :: "int \<Rightarrow> PaymentIntent \<Rightarrow> (ledger, json) action" where
  "expirePreparedPayment now i =
     (let response = invalidSettlementResponse (pay_paymentId i) ''expired'' ''Payment intent has expired'' in
      bindA (getsA (\<lambda>L. getPosition L (pay_wallet i) (pay_vault i))) (\<lambda>found.
      bindA (case found of None \<Rightarrow> returnA ()
        | Some p \<Rightarrow> modifyA (savePosition (p\<lparr>
            pos_reservedRawUsdc := clampToZero (pos_reservedRawUsdc p - pay_reservationRawUsdc i),
            pos_version := pos_version p + 1\<rparr>))) (\<lambda>_.
      bindA (modifyA (savePayment (i\<lparr>pay_status := pay_expired, pay_terminalAt := Some (toISOString now),
          pay_settlementResponse := Some response\<rparr>))) (\<lambda>_.
      returnA response))))"

definition verifyExpiredSection ::
  "payment_env \<Rightarrow> int \<Rightarrow> string \<Rightarrow> VerifyPaymentPayloadInput \<Rightarrow> (ledger, json) action" where
  "verifyExpiredSection E now paymentId x =
     bindA (getsA (\<lambda>L. getPayment L paymentId)) (\<lambda>found. case found of
       None \<Rightarrow> returnA paymentNotFound
     | Some latest \<Rightarrow>
         if pay_status latest = pay_prepared \<and> paymentIntentExpired now latest
         then expirePreparedPayment now latest
         else returnA (verification_json (verifyLoadedPaymentPayload E now latest x)))"

definition verifyPaymentPayload ::
  "payment_env \<Rightarrow> int \<Rightarrow> int \<Rightarrow> VerifyPaymentPayloadInput \<Rightarrow> (ledger, json) action" where
  "verifyPaymentPayload E now lockedNow x =
     bindA (getsA (\<lambda>L. getPayment L (vp_paymentId x))) (\<lambda>found. case found of
       None \<Rightarrow> returnA paymentNotFound
     | Some i \<Rightarrow>
         if pay_status i = pay_prepared \<and> paymentIntentExpired now i
         then withLock (pe_ledger E) (verifyExpiredSection E lockedNow (pay_paymentId i) x)
         else returnA (verification_json (verifyLoadedPaymentPayload E now i x)))"

section \<open>Finalizing a settlement\<close>

definition settlementEvent :: "PaymentIntent \<Rightarrow> SettlementSubmissionResult \<Rightarrow> SyncEventInput" where
  "settlementEvent i r =
     \<lparr>si_wallet = pay_wallet i, si_vault = pay_vault i,
      si_eventType = (case r of Settled _ \<Rightarrow> payment_settled | _ \<Rightarrow> payment_landed_failed),
      si_deltaSharesRaw = (case r of
          Settled s \<Rightarrow> - orElse (sr_actualSharesRedeemedRaw s) (pay_sharesToRedeemRaw i) | _ \<Rightarrow> 0),
      si_deltaPrincipalRawUsdc = 0,
      si_classification = PaymentStatus_string (resultStatus r),
      si_sourceEndpoint = ''subly_settlement'',
      si_rawSnapshot = Some (obj [(''paymentId'', JString (pay_paymentId i))]),
      si_txSignature = settlementResultTxSignature r, si_slot = None\<rparr>"

definition rejectSettlementResult ::
  "int \<Rightarrow> PaymentIntent \<Rightarrow> SettlementSubmissionResult \<Rightarrow> string \<Rightarrow> (ledger, json) action" where
  "rejectSettlementResult now i r message =
     bindA (getsA (\<lambda>L. getPosition L (pay_wallet i) (pay_vault i))) (\<lambda>found.
     bindA (case found of None \<Rightarrow> returnA () | Some p \<Rightarrow> modifyA (savePosition (flagBaselineReset p))) (\<lambda>_.
     bindA (modifyA (savePayment (i\<lparr>pay_status := pay_submitted,
         pay_submittedAt := Some (orElse (pay_submittedAt i) (toISOString now)),
         pay_txSignature := (case settlementResultTxSignature r of Some t \<Rightarrow> Some t | None \<Rightarrow> pay_txSignature i),
         pay_settlementResponse := Some (pendingSettlementResponse (pay_paymentId i)
           (Some (''settlement_result_invalid'', message)))\<rparr>))) (\<lambda>_.
     throwA (conflict ''settlement_result_invalid''))))"

definition finalizeSubmittedPayment ::
  "payment_env \<Rightarrow> int \<Rightarrow> string \<Rightarrow> PaymentIntent \<Rightarrow> SettlementSubmissionResult \<Rightarrow> (ledger, json) action" where
  "finalizeSubmittedPayment E now uuid i r = (case settlementResultValidationError i r of
       Some message \<Rightarrow> rejectSettlementResult now i r message
     | None \<Rightarrow>
         bindA (liftR (settlementResponse (pe_sponsorFeePayer E) i r)) (\<lambda>response.
         bindA (getsA (\<lambda>L. getPosition L (pay_wallet i) (pay_vault i))) (\<lambda>found.
         bindA (case found of None \<Rightarrow> returnA ()
           | Some p \<Rightarrow> bindA (liftR (applySettlementResultToPosition p i r))
               (\<lambda>p'. modifyA (savePosition p'))) (\<lambda>_.
         bindA (if resultStatus r = pay_failed_not_submitted then returnA ()
           else modifyA (recordSyncEvent now uuid (settlementEvent i r))) (\<lambda>_.
         bindA (modifyA (savePayment (i\<lparr>pay_status := resultStatus r,
             pay_submittedAt := (if resultStatus r = pay_failed_not_submitted then pay_submittedAt i
               else Some (orElse (pay_submittedAt i) (toISOString now))),
             pay_terminalAt := Some (toISOString now),
             pay_txSignature := settlementResultTxSignature r,
             pay_settlementResponse := Some response\<rparr>))) (\<lambda>_.
         returnA response))))))"

section \<open>Submitting and reconciling\<close>

text \<open>The locked sections of \<open>submitPreparedSettlement\<close> and its helpers.\<close>

definition markPaymentSubmittedBeforeSend :: "int \<Rightarrow> string \<Rightarrow> (ledger, unit) action" where
  "markPaymentSubmittedBeforeSend now paymentId =
     bindA (getsA (\<lambda>L. getPayment L paymentId)) (\<lambda>found. case found of
       None \<Rightarrow> returnA ()
     | Some latest \<Rightarrow>
         if pay_status latest \<noteq> submission_prepared then returnA ()
         else modifyA (savePayment (latest\<lparr>pay_status := pay_submitted,
           pay_submittedAt := Some (orElse (pay_submittedAt latest) (toISOString now))\<rparr>)))"

definition finalizeSubmissionSection ::
  "payment_env \<Rightarrow> int \<Rightarrow> string \<Rightarrow> string \<Rightarrow> SettlementSubmissionResult \<Rightarrow> (ledger, json) action" where
  "finalizeSubmissionSection E now uuid paymentId r =
     bindA (getsA (\<lambda>L. getPayment L paymentId)) (\<lambda>found. case found of
       None \<Rightarrow> returnA paymentNotFound
     | Some latest \<Rightarrow> (case terminalSettlementResponseForStoredState latest of
           Some stored \<Rightarrow> returnA stored
         | None \<Rightarrow> finalizeSubmittedPayment E now uuid latest r))"

definition recordPendingSection ::
  "int \<Rightarrow> string \<Rightarrow> string option \<Rightarrow> json option \<Rightarrow> (ledger, json) action" where
  "recordPendingSection now paymentId txSignature response =
     bindA (getsA (\<lambda>L. getPayment L paymentId)) (\<lambda>found. case found of
       None \<Rightarrow> returnA paymentNotFound
     | Some latest \<Rightarrow> (case terminalSettlementResponseForStoredState latest of
           Some stored \<Rightarrow> returnA stored
         | None \<Rightarrow>
             let recorded = orElse response (orElse (pay_settlementResponse latest)
                   (pendingSettlementResponse (pay_paymentId latest) None)) in
             bindA (modifyA (savePayment (latest\<lparr>pay_status := pay_submitted,
               pay_submittedAt := Some (orElse (pay_submittedAt latest) (toISOString now)),
               pay_txSignature := (case pay_txSignature latest of Some t \<Rightarrow> Some t | None \<Rightarrow> txSignature),
               pay_settlementResponse := Some recorded\<rparr>))) (\<lambda>_.
             returnA recorded)))"

definition recordAmbiguousSubmission ::
  "payment_env \<Rightarrow> int \<Rightarrow> string \<Rightarrow> SubmissionError \<Rightarrow> (ledger, json) action" where
  "recordAmbiguousSubmission E now paymentId err =
     (case err of
        SettlementSubmissionError _ errorCode message txSignature \<Rightarrow>
          withLock (pe_ledger E) (recordPendingSection now paymentId txSignature
            (Some (pendingSettlementResponse paymentId (Some (errorCode, message)))))
      | OtherError message \<Rightarrow>
          withLock (pe_ledger E) (recordPendingSection now paymentId None
            (Some (pendingSettlementResponse paymentId (Some (''settlement_submission_ambiguous'',
              orElse message ''Settlement submission outcome is unknown''))))))"

text \<open>The clock readings of the sections of one call, and the id of its sync event.\<close>

record call =
  at_now :: int
  at_send :: int
  at_end :: int
  at_uuid :: string

definition submitPreparedSettlement ::
  "payment_env \<Rightarrow> call \<Rightarrow> PaymentIntent \<Rightarrow> VerifyPaymentPayloadInput \<Rightarrow> (ledger, json) action" where
  "submitPreparedSettlement E c i x =
     (case verifySettlementPayloadForIntent E i x of
        Unverified paymentId reason \<Rightarrow> returnA (verification_json (Unverified paymentId reason))
      | Verified _ _ \<Rightarrow>
        (case (pay_txSignature i, pay_submittedSerializedTransaction i) of
          (Some txSignature, Some tx) \<Rightarrow>
            (case submissionRecordValidationError E i of
               Some (code, message) \<Rightarrow>
                 returnA (invalidSettlementResponse (pay_paymentId i) code message)
             | None \<Rightarrow>
                 (case pe_submit E i txSignature tx of (beforeSend, outcome) \<Rightarrow>
                  bindA (if beforeSend
                    then withLock (pe_ledger E) (markPaymentSubmittedBeforeSend (at_send c) (pay_paymentId i))
                    else returnA ()) (\<lambda>_.
                  case outcome of
                    Inl (SettlementSubmissionError failed_not_submitted code message _) \<Rightarrow>
                      withLock (pe_ledger E) (finalizeSubmissionSection E (at_end c) (at_uuid c)
                        (pay_paymentId i) (FailedNotSubmitted code message))
                  | Inl err \<Rightarrow> recordAmbiguousSubmission E (at_end c) (pay_paymentId i) err
                  | Inr r \<Rightarrow>
                      withLock (pe_ledger E) (finalizeSubmissionSection E (at_end c) (at_uuid c)
                        (pay_paymentId i) r))))
        | _ \<Rightarrow> returnA (invalidSettlementResponse (pay_paymentId i) ''submission_record_missing''
            ''Prepared settlement submission is missing persisted transaction data'')))"

definition reconcileSection ::
  "payment_env \<Rightarrow> int \<Rightarrow> string \<Rightarrow> string \<Rightarrow> SettlementSubmissionResult \<Rightarrow> (ledger, json) action" where
  "reconcileSection E now uuid paymentId r =
     bindA (getsA (\<lambda>L. getPayment L paymentId)) (\<lambda>found. case found of
       None \<Rightarrow> returnA paymentNotFound
     | Some latest \<Rightarrow> (case terminalSettlementResponseForStoredState latest of
           Some stored \<Rightarrow> returnA stored
         | None \<Rightarrow>
             if pay_status latest \<noteq> pay_submitted
             then returnA (invalidSettlementResponse (pay_paymentId latest)
               (PaymentStatus_string (pay_status latest))
               (''Payment intent is '' @ PaymentStatus_string (pay_status latest)))
             else finalizeSubmittedPayment E now uuid latest r))"

definition reconcileSubmittedPayment ::
  "payment_env \<Rightarrow> call \<Rightarrow> PaymentIntent \<Rightarrow> VerifyPaymentPayloadInput \<Rightarrow> (ledger, json) action" where
  "reconcileSubmittedPayment E c i x =
     (case verifySettlementPayloadForIntent E i x of
        Unverified paymentId reason \<Rightarrow> returnA (verification_json (Unverified paymentId reason))
      | Verified _ _ \<Rightarrow>
          if pay_txSignature i = None \<and> pay_settlementResponse i = None \<and>
             (case getTime (pay_expiresAt i) of None \<Rightarrow> False | Some t \<Rightarrow> t > at_now c)
            then returnA (pendingSettlementResponse (pay_paymentId i) None)
          else (case (pe_ready E, pe_reconcile E) of
              (True, Some reconcile) \<Rightarrow>
                (case reconcile i of
                   Inl err \<Rightarrow> recordAmbiguousSubmission E (at_end c) (pay_paymentId i) err
                 | Inr (StillSubmitted txSignature response) \<Rightarrow>
                     withLock (pe_ledger E)
                       (recordPendingSection (at_end c) (pay_paymentId i) txSignature response)
                 | Inr (Reconciled r) \<Rightarrow>
                     withLock (pe_ledger E)
                       (reconcileSection E (at_end c) (at_uuid c) (pay_paymentId i) r))
            | _ \<Rightarrow> returnA (submittedSettlementResponseForStoredState i)))"

section \<open>Settling a payload\<close>

datatype settle_step =
    Respond json
  | Reconcile PaymentIntent
  | SubmitPrepared PaymentIntent

definition prepareSubmissionRecord ::
  "payment_env \<Rightarrow> PaymentIntent \<Rightarrow> VerifyPaymentPayloadInput \<Rightarrow> (ledger, settle_step) action" where
  "prepareSubmissionRecord E i x =
     bindA (assertA (pe_ready E) (unavailable ''settlement_submitter_unavailable'')) (\<lambda>_.
     case pe_prepareSubmission E of
       None \<Rightarrow> throwA (unavailable ''settlement_submission_record_unavailable'')
     | Some prepare \<Rightarrow>
         bindA (liftR (prepare i x)) (\<lambda>submission.
         bindA (assertA (sub_txSignature submission \<noteq> [])
           (unavailable ''settlement_submission_record_invalid'')) (\<lambda>_.
         bindA (assertA (sub_serializedSignedTransaction submission \<noteq> [])
           (unavailable ''settlement_submission_record_invalid'')) (\<lambda>_.
         let recorded = i\<lparr>pay_status := submission_prepared,
               pay_txSignature := Some (sub_txSignature submission),
               pay_submittedSerializedTransaction := Some (sub_serializedSignedTransaction submission)\<rparr> in
         case submissionRecordValidationError E recorded of
           Some (code, _) \<Rightarrow> throwA (unavailable code)
         | None \<Rightarrow>
             let saved = recorded\<lparr>
                   pay_settlementResponse := Some (pendingSettlementResponse (pay_paymentId i) None)\<rparr> in
             bindA (modifyA (savePayment saved)) (\<lambda>_. returnA (SubmitPrepared saved))))))"

definition settleSection ::
  "payment_env \<Rightarrow> int \<Rightarrow> VerifyPaymentPayloadInput \<Rightarrow> (ledger, settle_step) action" where
  "settleSection E now x =
     bindA (getsA (\<lambda>L. getPayment L (vp_paymentId x))) (\<lambda>found. case found of
       None \<Rightarrow> returnA (Respond paymentNotFound)
     | Some i \<Rightarrow>
         if pay_status i = pay_submitted then returnA (Reconcile i)
         else if pay_status i = submission_prepared then returnA (SubmitPrepared i)
         else (case terminalSettlementResponseForStoredState i of
             Some stored \<Rightarrow> returnA (Respond stored)
           | None \<Rightarrow>
               (case verifyLoadedPaymentPayload E now i x of
                  Unverified paymentId reason \<Rightarrow>
                    if reason = ''expired''
                    then bindA (expirePreparedPayment now i) (\<lambda>response. returnA (Respond response))
                    else returnA (Respond (verification_json (Unverified paymentId reason)))
                | Verified _ _ \<Rightarrow> prepareSubmissionRecord E i x)))"

definition settlePaymentPayload ::
  "payment_env \<Rightarrow> call \<Rightarrow> VerifyPaymentPayloadInput \<Rightarrow> (ledger, json) action" where
  "settlePaymentPayload E c x =
     bindA (getsA (\<lambda>L. getPayment L (vp_paymentId x))) (\<lambda>found. case found of
       None \<Rightarrow> returnA paymentNotFound
     | Some firstRead \<Rightarrow>
         if pay_status firstRead = pay_submitted then reconcileSubmittedPayment E c firstRead x
         else if pay_status firstRead = submission_prepared then submitPreparedSettlement E c firstRead x
         else (case terminalSettlementResponseForStoredState firstRead of
             Some stored \<Rightarrow> returnA stored
           | None \<Rightarrow>
               bindA (withLock (pe_ledger E) (settleSection E (at_now c) x)) (\<lambda>step. case step of
                 Respond response \<Rightarrow> returnA response
               | Reconcile i \<Rightarrow> reconcileSubmittedPayment E c i x
               | SubmitPrepared i \<Rightarrow> submitPreparedSettlement E c i x)))"

definition recoverOne :: "payment_env \<Rightarrow> call \<Rightarrow> PaymentIntent \<Rightarrow> (ledger, json) action" where
  "recoverOne E c i = (case storedSettlementPayloadForIntent E i of
       None \<Rightarrow> returnA (obj [(''paymentId'', JString (pay_paymentId i)),
         (''status'', JString (PaymentStatus_string (pay_status i))), (''recovered'', JBool False),
         (''reason'', JString ''submission_record_missing_or_invalid'')])
     | Some payload \<Rightarrow>
         bindA (if pay_status i = submission_prepared
           then submitPreparedSettlement E c i payload
           else reconcileSubmittedPayment E c i payload) (\<lambda>response.
         returnA (obj [(''paymentId'', JString (pay_paymentId i)),
           (''status'', JString (PaymentStatus_string (pay_status i))), (''recovered'', JBool True),
           (''response'', response)])))"

definition recoverPendingSettlements ::
  "payment_env \<Rightarrow> (string \<Rightarrow> call) \<Rightarrow> int \<Rightarrow> (ledger, json) action" where
  "recoverPendingSettlements E calls limit =
     bindA (assertA (0 < limit \<and> limit \<le> MAX_SAFE_INTEGER) (badRequest ''invalid_recovery_limit'')) (\<lambda>_.
     bindA (getsA (\<lambda>L. listPaymentsByStatus L [submission_prepared, pay_submitted] (nat limit)
       (Some (vc_address (pe_vault E))))) (\<lambda>intents.
     bindA (mapA (\<lambda>i. recoverOne E (calls (pay_paymentId i)) i)
       (filter (\<lambda>i. pay_vault i = vc_address (pe_vault E)) intents)) (\<lambda>results.
     returnA (obj [(''processed'', JNumber (int (length results))), (''results'', JArray results)]))))"

section \<open>Views and liquidity policies\<close>

definition getPaymentView :: "string \<Rightarrow> (ledger, json) action" where
  "getPaymentView paymentId = readA (\<lambda>L. case getPayment L paymentId of
       None \<Rightarrow> Inl (notFound ''payment_not_found'') | Some i \<Rightarrow> serializePaymentIntent i)"

record LiquidityPolicyInput =
  li_sellerClass :: string
  li_vault :: "string option"
  li_expectedPaymentSizeRawUsdc :: string
  li_minInstantLiquidityRawUsdc :: string
  li_targetBudgetIlliquidRate :: js_number
  li_status :: "LiquidityPolicyStatus option"

definition unit_interval :: "js_number \<Rightarrow> bool" where
  "unit_interval r = (case r of JsFin n d \<Rightarrow> 0 \<le> n \<and> n \<le> int d | _ \<Rightarrow> False)"

definition upsertLiquidityPolicy ::
  "payment_env \<Rightarrow> (js_number \<Rightarrow> json) \<Rightarrow> LiquidityPolicyInput \<Rightarrow> (ledger, json) action" where
  "upsertLiquidityPolicy E num x =
     (let vault = orElse (li_vault x) (vc_address (pe_vault E)) in
      bindA (assertA (vault = vc_address (pe_vault E)) (badRequest ''unsupported_vault'')) (\<lambda>_.
      bindA (assertA (unit_interval (li_targetBudgetIlliquidRate x))
        (badRequest ''invalid_liquidity_policy'')) (\<lambda>_.
      bindA (liftR (parsePositiveRawUnits (JsStr (li_expectedPaymentSizeRawUsdc x))
        ''expectedPaymentSizeRawUsdc'')) (\<lambda>size.
      bindA (liftR (parseRawUnits (JsStr (li_minInstantLiquidityRawUsdc x)) ''minInstantLiquidityRawUsdc''))
        (\<lambda>minimum.
      let policy = \<lparr>lp_sellerClass = li_sellerClass x, lp_vault = vault,
            lp_expectedPaymentSizeRawUsdc = size, lp_minInstantLiquidityRawUsdc = minimum,
            lp_targetBudgetIlliquidRate = li_targetBudgetIlliquidRate x,
            lp_status = orElse (li_status x) policy_active\<rparr> in
      bindA (modifyA (saveLiquidityPolicy policy)) (\<lambda>_.
      liftR (serializeLiquidityPolicy num policy)))))))"

definition listLiquidityPoliciesView :: "(js_number \<Rightarrow> json) \<Rightarrow> (ledger, json) action" where
  "listLiquidityPoliciesView num = readA (\<lambda>L.
     bindR (fieldsR (map (\<lambda>p. ([], serializeLiquidityPolicy num p)) (listLiquidityPolicies L)))
       (\<lambda>vs. Inr (obj [(''policies'', JArray (map snd vs))])))"

end
