(* ===== verification/Payment_Samples.thy ===== *)
theory Payment_Samples
  imports Payment_Service
begin

text \<open>
  A concrete configuration for the witnesses of the payment properties: every collaborator of the
  service is a concrete function, the ledger is the in-memory one, and the submitter calls
  \<open>onBeforeSend\<close> and settles for exactly what was prepared.
\<close>

definition sample_mint :: string where "sample_mint = replicate 31 (CHR ''1'') @ ''5''"
definition sample_hash :: string where "sample_hash = ''sha256-'' @ replicate 64 (CHR ''0'')"

definition sample_vault_config :: VaultConfig where
  "sample_vault_config = \<lparr>vc_address = sample_vault, vc_programId = ''program'', vc_usdcMint = sample_mint,
     vc_shareMint = ''shares'', vc_farm = ''farm''\<rparr>"

definition sample_prepared :: PreparedSettlementTransaction where
  "sample_prepared = \<lparr>pt_preparedMessageHash = sample_hash, pt_recentBlockhash = Some ''blockhash'',
     pt_lastValidBlockHeight = Some 100, pt_temporarySettlementTokenAccount = sample_seller,
     pt_temporarySettlementSignature = ''sig'', pt_serializedTransaction = ''tx'',
     pt_sharesToRedeemRaw = None\<rparr>"

definition sample_settled :: "PaymentIntent \<Rightarrow> SettledResult" where
  "sample_settled i = \<lparr>sr_txSignature = ''sig'', sr_actualFeeLamports = None,
     sr_actualFeeDebtRawUsdc = Some 50, sr_actualSharesRedeemedRaw = Some (pay_sharesToRedeemRaw i),
     sr_sellerTransferRawUsdc = Some (pay_amountRawUsdc i),
     sr_withdrawOutputRawUsdc = Some (pay_amountRawUsdc i), sr_dustTransferRawUsdc = Some 0\<rparr>"

definition sample_env :: payment_env where
  "sample_env = \<lparr>pe_ledger = InMemoryLedger, pe_production = False, pe_vault = sample_vault_config,
     pe_paymentExpirySeconds = 120, pe_sponsorFeePayer = None, pe_sha = (\<lambda>s. s),
     pe_parseUrl = (\<lambda>_. Some (''https:'', ''seller.example'')), pe_deriveAta = (\<lambda>owner _. owner),
     pe_estimateFee = (\<lambda>_ _ _. Inr \<lparr>fe_estimatedFeeLamports = 5000, fe_estimatedFeeDebtRawUsdc = 100\<rparr>),
     pe_quote = None, pe_prepareSettlement = (\<lambda>_. Inr sample_prepared),
     pe_messageHash = (\<lambda>_. Some sample_hash), pe_signerSignature = (\<lambda>_ _. Some ''sig''),
     pe_txSignature = (\<lambda>_. Some ''sig''), pe_verify = (\<lambda>_ _. None), pe_ready = True,
     pe_prepareSubmission = Some (\<lambda>_ _. Inr \<lparr>sub_txSignature = ''sig'', sub_serializedSignedTransaction = ''tx''\<rparr>),
     pe_submit = (\<lambda>i _ _. (True, Inr (Settled (sample_settled i)))),
     pe_reconcile = None\<rparr>"

definition sample_payload :: "PaymentIntent \<Rightarrow> VerifyPaymentPayloadInput" where
  "sample_payload i = \<lparr>vp_paymentId = pay_paymentId i, vp_requestBindingHash = pay_requestBindingHash i,
     vp_preparedMessageHash = pay_preparedMessageHash i, vp_serializedTransaction = ''tx'',
     vp_agentSignature = ''sig'', vp_temporarySettlementSignature = ''sig''\<rparr>"

lemma sample_env_simps [simp]:
  "pe_ledger sample_env = InMemoryLedger" "pe_vault sample_env = sample_vault_config"
  "pe_sponsorFeePayer sample_env = None" "\<not> pe_production sample_env" "pe_quote sample_env = None"
  "pe_ready sample_env" "pe_reconcile sample_env = None" "pe_verify sample_env = (\<lambda>_ _. None)"
  "pe_estimateFee sample_env = (\<lambda>_ _ _. Inr \<lparr>fe_estimatedFeeLamports = 5000, fe_estimatedFeeDebtRawUsdc = 100\<rparr>)"
  "pe_submit sample_env = (\<lambda>i _ _. (True, Inr (Settled (sample_settled i))))"
  by (simp_all add: sample_env_def)

text \<open>The sample payment recorded for submission.\<close>

definition sample_submission :: PaymentIntent where
  "sample_submission = sample_payment\<lparr>pay_status := submission_prepared, pay_txSignature := Some ''sig'',
     pay_submittedSerializedTransaction := Some ''tx''\<rparr>"

lemma sample_payment_simps [simp]:
  "pay_wallet sample_payment = sample_wallet" "pay_vault sample_payment = sample_vault"
  "pay_paymentId sample_payment = ''pay_1''" "pay_reservationRawUsdc sample_payment = 1100"
  "pay_status sample_payment = pay_prepared" "held sample_payment = 1100"
  "pay_wallet sample_submission = sample_wallet" "pay_vault sample_submission = sample_vault"
  "pay_paymentId sample_submission = ''pay_1''" "pay_reservationRawUsdc sample_submission = 1100"
  "pay_status sample_submission = submission_prepared" "held sample_submission = 1100"
  by (simp_all add: sample_payment_def sample_submission_def held_def paymentHoldsSettlementReservation_def)

end
