(* ===== verification/Payment_Balance.thy ===== *)
theory Payment_Balance
  imports Payment_Samples
begin

text \<open>
  The reservation balance of \<open>Position_Maintenance\<close> is an invariant of the payment
  service: every handler of \<open>payment-service.ts\<close>, whether it returns or throws and under
  either ledger's lock discipline, leaves the reserved amount of every position equal to what
  its unfinished payments hold.
\<close>

section \<open>Moves on a balanced ledger\<close>

lemma balanced_store: "reservations_balanced L \<Longrightarrow> store_ok L"
  by (simp add: reservations_balanced_def)

lemma balanced_surplus: "reservations_balanced L \<Longrightarrow> plain w \<Longrightarrow> surplus L w v = 0"
  by (simp add: balanced_iff)

lemma balanced_frame [simp]:
  "reservations_balanced L \<Longrightarrow> reservations_balanced (saveSyncEvent e L)"
  "reservations_balanced L \<Longrightarrow> reservations_balanced (saveDeposit d L)"
  "reservations_balanced L \<Longrightarrow> reservations_balanced (saveWithdrawal x L)"
  "reservations_balanced L \<Longrightarrow> reservations_balanced (saveLiquidityPolicy q L)"
  "reservations_balanced L \<Longrightarrow> reservations_balanced (saveSpendingApproval a L)"
  "reservations_balanced L \<Longrightarrow> reservations_balanced (saveSpendingMandate m L)"
  "reservations_balanced L \<Longrightarrow> reservations_balanced (saveSpendingMandateEvent me L)"
  "reservations_balanced L \<Longrightarrow> reservations_balanced (saveSetupSession z L)"
  by (simp_all add: balanced_iff)

lemma balanced_event [simp]:
  "reservations_balanced L \<Longrightarrow> reservations_balanced (recordSyncEvent now uuid x L)"
  by (simp add: recordSyncEvent_def)

text \<open>A position rewritten with the same reserved amount.\<close>

lemma balanced_position:
  assumes "reservations_balanced L" "plain (pos_wallet p)"
    and "pos_reservedRawUsdc p = reserved L (pos_wallet p) (pos_vault p)"
  shows "reservations_balanced (savePosition p L)"
  using assms by (simp add: balanced_iff surplus_savePosition)

lemma balanced_same_reserved:
  assumes "reservations_balanced L" "getPosition L w v = Some p" "plain w"
    and "pos_wallet p' = pos_wallet p" "pos_vault p' = pos_vault p"
    and "pos_reservedRawUsdc p' = pos_reservedRawUsdc p"
  shows "reservations_balanced (savePosition p' L)"
  using assms store_ok_position[OF balanced_store[OF assms(1)] assms(2,3)]
  by (intro balanced_position) (simp_all add: reserved_def)

text \<open>A stored payment rewritten without changing its owner, its reservation, or whether it holds it.\<close>

lemma balanced_same_payment:
  assumes "reservations_balanced L" "getPayment L k = Some i"
    and "pay_paymentId i' = pay_paymentId i" "pay_wallet i' = pay_wallet i" "pay_vault i' = pay_vault i"
    and "pay_reservationRawUsdc i' = pay_reservationRawUsdc i" "held i' = held i"
  shows "reservations_balanced (savePayment i' L)"
proof -
  note ok = store_ok_payment[OF balanced_store[OF assms(1)] assms(2)]
  have "same_owner L i'" using assms ok by (simp add: same_owner_def)
  then show ?thesis
    using assms ok by (simp add: balanced_iff surplus_savePayment)
qed

text \<open>A payment leaves the unfinished states and its reservation is released.\<close>

lemma balanced_release:
  assumes bal: "reservations_balanced L" and got: "getPayment L k = Some i"
    and holds: "paymentHoldsSettlementReservation i"
    and i': "pay_paymentId i' = pay_paymentId i" "pay_wallet i' = pay_wallet i"
      "pay_vault i' = pay_vault i" "pay_reservationRawUsdc i' = pay_reservationRawUsdc i" "held i' = 0"
  shows "getPosition L (pay_wallet i) (pay_vault i) = None \<Longrightarrow> reservations_balanced (savePayment i' L)"
    and "getPosition L (pay_wallet i) (pay_vault i) = Some p \<Longrightarrow>
      pos_wallet p' = pos_wallet p \<Longrightarrow> pos_vault p' = pos_vault p \<Longrightarrow>
      pos_reservedRawUsdc p' = clampToZero (pos_reservedRawUsdc p - pay_reservationRawUsdc i) \<Longrightarrow>
      reservations_balanced (savePayment i' (savePosition p' L))"
proof -
  note ok = balanced_store[OF bal]
  note pay = store_ok_payment[OF ok got]
  have owner: "same_owner L i'" "same_owner (savePosition p' L) i'"
    using got pay i' by (simp_all add: same_owner_def)
  have h: "held i = pay_reservationRawUsdc i" using holds by (simp add: held_def)
  note ge = balanced_reserved_ge[OF bal got holds]
  note zero = balanced_surplus[OF bal]
  show "reservations_balanced (savePayment i' L)"
    if "getPosition L (pay_wallet i) (pay_vault i) = None"
  proof -
    have "pay_reservationRawUsdc i = 0" using ge pay that by (simp add: reserved_def)
    then show ?thesis
      using ok owner i' pay got h zero by (simp add: balanced_iff surplus_savePayment)
  qed
  show "reservations_balanced (savePayment i' (savePosition p' L))"
    if p: "getPosition L (pay_wallet i) (pay_vault i) = Some p"
      "pos_wallet p' = pos_wallet p" "pos_vault p' = pos_vault p"
      "pos_reservedRawUsdc p' = clampToZero (pos_reservedRawUsdc p - pay_reservationRawUsdc i)"
  proof -
    note pos = store_ok_position[OF ok p(1) pay(2)]
    have res: "reserved L (pay_wallet i) (pay_vault i) = pos_reservedRawUsdc p"
      using p(1) by (simp add: reserved_def)
    then have "pos_reservedRawUsdc p' = pos_reservedRawUsdc p - pay_reservationRawUsdc i"
      using ge p(4) by simp
    then have "surplus (savePayment i' (savePosition p' L)) w v = 0" if "plain w" for w v
      using that ok owner i' pay got h zero[OF that, of v] p pos res
      by (auto simp: surplus_savePayment surplus_savePosition)
    then show ?thesis using ok i' pay p pos by (simp add: balanced_iff)
  qed
qed

text \<open>A new payment and the reservation made for it.\<close>

lemma balanced_reserve:
  assumes bal: "reservations_balanced L" and p: "getPosition L w v = Some p" "plain w"
    and fresh: "getPayment L (pay_paymentId i) = None"
    and i: "pay_wallet i = w" "pay_vault i = v" "paymentHoldsSettlementReservation i"
      "0 \<le> pay_reservationRawUsdc i"
    and p': "pos_wallet p' = pos_wallet p" "pos_vault p' = pos_vault p"
      "pos_reservedRawUsdc p' = pos_reservedRawUsdc p + pay_reservationRawUsdc i"
  shows "reservations_balanced (savePayment i (savePosition p' L))"
proof -
  note ok = balanced_store[OF bal]
  note pos = store_ok_position[OF ok p]
  have owner: "same_owner (savePosition p' L) i"
    using fresh by (simp add: same_owner_def)
  have "reserved L w v = pos_reservedRawUsdc p" using p by (simp add: reserved_def)
  then have "surplus (savePayment i (savePosition p' L)) w' v' = 0" if "plain w'" for w' v'
    using that ok owner i fresh pos p' balanced_surplus[OF bal that, of v']
    by (auto simp: surplus_savePayment surplus_savePosition held_def)
  then show ?thesis using ok pos i p' by (simp add: balanced_iff)
qed

section \<open>Registering and syncing\<close>

abbreviation keeps :: "(ledger, 'a) action \<Rightarrow> ledger \<Rightarrow> bool" where
  "keeps m L \<equiv> runs m L (\<lambda>_. reservations_balanced) (\<lambda>_. reservations_balanced)"

lemma keeps_lock: "reservations_balanced L \<Longrightarrow> keeps m L \<Longrightarrow> keeps (withLock k m) L"
  by (rule lock.runs_lock_inv)

lemma valid_address_plain: "valid_address w \<Longrightarrow> plain w"
  by (simp add: plain_def valid_address_no_colon)

lemma balanced_register:
  assumes "reservations_balanced L"
  shows "keeps (registerAgentWallet E x) L"
proof (cases "valid_address (ra_wallet x)")
  case False
  then show ?thesis using assms by (simp add: registerAgentWallet_def)
next
  case True
  let ?w = "ra_wallet x" and ?v = "vc_address (pe_vault E)"
  have w: "plain ?w" using True by (rule valid_address_plain)
  have "reservations_balanced (savePosition (initialPosition E ?w x b) L)"
    if "getPosition L ?w ?v = None" for b
    using assms w that
    by (intro balanced_position) (simp_all add: initialPosition_def Let_def reserved_def)
  moreover have "reservations_balanced (savePosition (updatedSignerPosition p x b) L)"
    if "getPosition L ?w ?v = Some p" for p b
    by (rule balanced_same_reserved[OF assms that w]) (simp_all add: updatedSignerPosition_def Let_def)
  ultimately show ?thesis
    using True assms
    by (auto simp: registerAgentWallet_def Let_def intro!: lock.runs_lock_inv split: option.splits sum.splits)
qed

text \<open>
  A conservative reset: with no submitted payment, the prepared ones hold everything that is
  reserved, so expiring them all makes zero the right reserved amount.
\<close>

lemma keeps_account_resetExpired: "keeps_account (resetExpired now)"
  by (simp add: keeps_account_def resetExpired_def)

lemma held_resetExpired [simp]: "held (resetExpired now p) = 0"
  by (simp add: held_def resetExpired_def paymentHoldsSettlementReservation_def)

lemma held_total_list: "held_total L w v = (\<Sum>p\<leftarrow>listPaymentsForPosition L w v. held p)"
  by (simp add: held_total_def payments.total_def listPaymentsForPosition_def)

lemma balanced_reset:
  assumes bal: "reservations_balanced L" and got: "getPosition L w v = Some p" and w: "plain w"
    and none: "activeSubmittedPayments (listPaymentsForPosition L w v) = []"
    and p': "pos_wallet p' = pos_wallet p" "pos_vault p' = pos_vault p" "pos_reservedRawUsdc p' = 0"
  shows "reservations_balanced (savePosition p' (fold (\<lambda>p. savePayment (resetExpired now p))
    (filter (\<lambda>p. pay_status p = pay_prepared) (listPaymentsForPosition L w v)) L))"
proof -
  let ?all = "listPaymentsForPosition L w v"
  let ?xs = "filter (\<lambda>p. pay_status p = pay_prepared) ?all"
  let ?M = "fold (\<lambda>p. savePayment (resetExpired now p)) ?xs L"
  note ok = balanced_store[OF bal]
  have st: "stored_payments L ?xs"
    unfolding listPaymentsForPosition_def filter_filter by (rule stored_filter[OF ok])
  note M = fold_savePayment[OF ok st keeps_account_resetExpired[of now]]
  note pos = store_ok_position[OF ok got w]
  have own: "x \<in> set ?xs \<Longrightarrow> of_position w v x" for x
    by (auto simp: listPaymentsForPosition_def)
  have "\<forall>x \<in> set ?all. pay_status x \<noteq> pay_prepared \<longrightarrow> held x = 0"
    using none by (auto simp: activeSubmittedPayments_def filter_empty_conv held_def
        paymentHoldsSettlementReservation_def)
  then have "(\<Sum>x\<leftarrow>?xs. held x) = (\<Sum>x\<leftarrow>?all. held x)"
    by (intro sum_list_map_filter) auto
  then have sum: "(\<Sum>x\<leftarrow>?xs. held x) = pos_reservedRawUsdc p"
    using balanced_surplus[OF bal w, of v] got by (simp add: surplus_def held_total_list reserved_def)
  have "surplus (savePosition p' ?M) w' v' = 0" if w': "plain w'" for w' v'
  proof (cases "w' = w \<and> v' = v")
    case True
    have "filter (of_position w v) ?xs = ?xs" using own by (simp only: filter_id_conv) blast
    moreover have "reserved ?M w v = pos_reservedRawUsdc p"
      using M(3) got by (simp add: reserved_def)
    ultimately show ?thesis
      using True M(4)[of w v] sum balanced_surplus[OF bal w, of v] w p' pos
      by (simp add: surplus_savePosition)
  next
    case False
    then have "filter (of_position w' v') ?xs = []" using own by (auto simp: filter_empty_conv)
    then have "surplus ?M w' v' = 0"
      using M(4)[of w' v'] balanced_surplus[OF bal w', of v'] by simp
    then show ?thesis
      using False w' p' pos by (auto simp: surplus_savePosition)
  qed
  then show ?thesis using M(1) p' pos by (simp add: balanced_iff)
qed

lemma syncedPosition_simps [simp]:
  "pos_wallet (syncedPosition p x n r b) = pos_wallet p"
  "pos_vault (syncedPosition p x n r b) = pos_vault p"
  "pos_reservedRawUsdc (syncedPosition p x n r b) = (if r then 0 else pos_reservedRawUsdc p)"
  by (simp_all add: syncedPosition_def)

lemma balanced_sync_locked:
  assumes bal: "reservations_balanced L" and w: "plain w"
  shows "keeps (syncLockedPosition now uuid w v x) L"
proof (cases "getPosition L w v")
  case None
  then show ?thesis using bal by (simp add: syncLockedPosition_def)
next
  case (Some p)
  let ?xs = "listPaymentsForPosition L w v"
  have floor: "externalDepositFloorRawUsdc p n = Inl e \<Longrightarrow> parseSyncSnapshot p x = Inr n \<Longrightarrow> False" for n e
    by (auto simp: externalDepositFloorRawUsdc_def mulDivCeil_def ceilDiv_def parseSyncSnapshot_def
        parsePositiveRawUnits_def bindR_Inl bindR_Inr mult_less_0_iff split: if_splits)
  show ?thesis
    using Some bal balanced_reset[OF bal Some w] balanced_same_reserved[OF bal Some w]
    by (auto simp: syncLockedPosition_def Let_def split: sum.splits dest: floor)
qed

lemma balanced_sync: "reservations_balanced L \<Longrightarrow> keeps (syncWalletPosition E now uuid x) L"
  by (auto simp: syncWalletPosition_def Let_def valid_address_plain balanced_sync_locked
      intro!: lock.runs_lock_inv)

lemma expire_keeps:
  "reservations_balanced L \<Longrightarrow> plain w \<Longrightarrow> keeps (expirePreparedPaymentsForLockedPosition now w v) L"
  by (rule runs_mono[OF expire_outcome]) auto

lemma balanced_getBudget:
  assumes "reservations_balanced L"
  shows "keeps (getBudget E now w vi) L"
proof -
  have "valid_address w \<Longrightarrow> runs (expirePreparedPaymentsForLockedPosition now w v) L
      (\<lambda>r. Q r) (\<lambda>_. reservations_balanced)" if "\<And>r t. reservations_balanced t \<Longrightarrow> Q r t" for v Q
    by (rule runs_mono[OF expire_keeps[OF assms valid_address_plain]]) (auto intro: that)
  then show ?thesis
    using assms
    by (auto simp: getBudget_def Let_def intro!: lock.runs_lock_inv split: option.splits sum.splits)
qed

section \<open>Preparing a payment\<close>

text \<open>
  What the fee estimator and the id generator promise: fees are not negative, and a new payment
  id is not in use.
\<close>

definition fees_nonneg :: "payment_env \<Rightarrow> bool" where
  "fees_nonneg E \<longleftrightarrow> (\<forall>w s a f. pe_estimateFee E w s a = Inr f \<longrightarrow> 0 \<le> fe_estimatedFeeDebtRawUsdc f)"

lemma newPaymentIntent_simps [simp]:
  "pay_paymentId (newPaymentIntent q pol p i x f e n t j) = i"
  "pay_wallet (newPaymentIntent q pol p i x f e n t j) = pr_wallet q"
  "pay_vault (newPaymentIntent q pol p i x f e n t j) = pr_vault q"
  "pay_reservationRawUsdc (newPaymentIntent q pol p i x f e n t j) = be_reservationRawUsdc e"
  "pay_status (newPaymentIntent q pol p i x f e n t j) = pay_prepared"
  "paymentHoldsSettlementReservation (newPaymentIntent q pol p i x f e n t j)"
  by (simp_all add: newPaymentIntent_def paymentHoldsSettlementReservation_def)

lemma balanced_commit:
  assumes bal: "reservations_balanced L" and p: "getPosition L (pr_wallet q) (pr_vault q) = Some p"
    and w: "plain (pr_wallet q)" and fresh: "getPayment L (''pay_'' @ uuid) = None"
    and e: "0 \<le> be_reservationRawUsdc e"
  shows "keeps (commitPreparedPayment E now uuid q pol p s f e) L"
proof -
  have "reservations_balanced (savePayment
      (newPaymentIntent q pol p (''pay_'' @ uuid) t f e n pr j)
      (savePosition (p\<lparr>pos_reservedRawUsdc := pos_reservedRawUsdc p + be_reservationRawUsdc e,
         pos_version := pos_version p + 1\<rparr>) L))" for t n pr j
    by (rule balanced_reserve[OF bal p w]) (use fresh e in simp_all)
  then show ?thesis
    using bal by (auto simp: commitPreparedPayment_def Let_def split: sum.splits)
qed

lemma budget_reservation_nonneg:
  assumes "evaluatePaymentBudget p a fee wo ao = Inr (BudgetOk e)" "0 \<le> fee"
  shows "0 \<le> be_reservationRawUsdc e"
  using assms by (auto simp: budget_ok_iff Let_def sharesToRedeemRaw_iff)

lemma quotedPosition_simps [simp]:
  "pos_wallet (quotedPosition p s) = pos_wallet p" "pos_vault (quotedPosition p s) = pos_vault p"
  "pos_reservedRawUsdc (quotedPosition p s) = pos_reservedRawUsdc p"
  by (simp_all add: quotedPosition_def)

lemma flagBaselineReset_simps [simp]:
  "pos_wallet (flagBaselineReset p) = pos_wallet p" "pos_vault (flagBaselineReset p) = pos_vault p"
  "pos_reservedRawUsdc (flagBaselineReset p) = pos_reservedRawUsdc p"
  "pos_status (flagBaselineReset p) = needs_baseline_reset"
  by (simp_all add: flagBaselineReset_def)

lemma getPosition_saved:
  "reservations_balanced L \<Longrightarrow> getPosition L w v = Some p \<Longrightarrow> plain w \<Longrightarrow>
   pos_wallet p' = pos_wallet p \<Longrightarrow> pos_vault p' = pos_vault p \<Longrightarrow>
   getPosition (savePosition p' L) w v = Some p'"
  using store_ok_position[OF balanced_store] by simp

lemma quote_outcome:
  assumes bal: "reservations_balanced L" and p: "getPosition L (pr_wallet q) (pr_vault q) = Some p"
    and w: "plain (pr_wallet q)"
  shows "runs (quoteWorkingPosition E now uuid q p) L
    (\<lambda>(p', s) L'. reservations_balanced L' \<and> getPosition L' (pr_wallet q) (pr_vault q) = Some p' \<and>
       led_payments L' = led_payments L)
    (\<lambda>_. reservations_balanced)"
  using bal p balanced_same_reserved[OF bal p w] getPosition_saved[OF bal p w]
  by (auto simp: quoteWorkingPosition_def Let_def split: option.splits sum.splits)

lemma balanced_evaluate:
  assumes bal: "reservations_balanced L" and p: "getPosition L (pr_wallet q) (pr_vault q) = Some p"
    and w: "plain (pr_wallet q)" and fresh: "getPayment L (''pay_'' @ uuid) = None" and E: "fees_nonneg E"
  shows "keeps (evaluateAndCommit E now uuid evUuid q lp (p, pol)) L"
proof -
  have step: "keeps (commitPreparedPayment E now uuid q pol p' s f e) L'"
    if "reservations_balanced L'" "getPosition L' (pr_wallet q) (pr_vault q) = Some p'"
      "led_payments L' = led_payments L" "pe_estimateFee E (pr_wallet q) (pr_seller q) (pr_amountRawUsdc q) = Inr f"
      "evaluatePaymentBudget p' (pr_amountRawUsdc q) (fe_estimatedFeeDebtRawUsdc f) wo ao = Inr (BudgetOk e)"
    for L' p' f e wo ao s
  proof (rule balanced_commit[OF that(1,2) w])
    show "getPayment L' (''pay_'' @ uuid) = None" using fresh that(3) by (simp add: getPayment_def)
    have "0 \<le> fe_estimatedFeeDebtRawUsdc f" using E that(4) by (auto simp: fees_nonneg_def)
    then show "0 \<le> be_reservationRawUsdc e" by (rule budget_reservation_nonneg[OF that(5)])
  qed
  show ?thesis
    unfolding evaluateAndCommit_def prod.case runs_bind
    by (rule runs_mono[OF quote_outcome[OF bal p w]])
      (auto simp: step split: prod.splits sum.splits BudgetDecision.splits)
qed

lemma requirePayable_iff:
  "requirePayablePosition E found = Inr (p, pol) \<longleftrightarrow>
     found = Some p \<and> pos_status p = pos_active \<and> pos_signingPolicyId p = Some pol \<and>
     pos_signingMode p = non_interactive \<and> pos_signerProvider p \<noteq> ''unconfigured'' \<and>
     (pe_production E \<longrightarrow> pos_signerValidationMode p = structured_intent_transaction)"
  by (auto simp: requirePayablePosition_def split: option.splits)

lemma expire_fresh:
  assumes "reservations_balanced L" "plain w"
  shows "runs (expirePreparedPaymentsForLockedPosition now w v) L
    (\<lambda>_ L'. reservations_balanced L' \<and> (getPayment L k = None \<longrightarrow> getPayment L' k = None)) (\<lambda>_ _. False)"
  by (rule runs_mono[OF expire_outcome[OF assms, of now v]]) (auto split: option.splits)

lemma balanced_prepare_locked:
  assumes bal: "reservations_balanced L" and w: "plain (pr_wallet q)"
    and fresh: "getPayment L (''pay_'' @ uuid) = None" and E: "fees_nonneg E"
  shows "keeps (prepareLockedPayment E now uuid evUuid q) L"
  unfolding prepareLockedPayment_def runs_bind
proof (rule runs_mono[OF expire_fresh[OF bal w, of now "pr_vault q" "''pay_'' @ uuid"]])
  fix r L'
  assume "reservations_balanced L' \<and>
    (getPayment L (''pay_'' @ uuid) = None \<longrightarrow> getPayment L' (''pay_'' @ uuid) = None)"
  then have L': "reservations_balanced L'" "getPayment L' (''pay_'' @ uuid) = None" using fresh by simp_all
  have ev: "keeps (evaluateAndCommit E now uuid evUuid q lp payable) L'"
    if "requirePayablePosition E (getPosition L' (pr_wallet q) (pr_vault q)) = Inr payable" for payable lp
    using that balanced_evaluate[OF L'(1) _ w L'(2) E]
    by (cases payable) (auto simp: requirePayable_iff)
  show "runs (readA (\<lambda>L. existingPayment L q)) L' (\<lambda>x t. runs (case x of
        Some p \<Rightarrow> liftR (serializePaymentIntent p)
      | None \<Rightarrow> bindA (readA (\<lambda>L. requirePayablePosition E (getPosition L (pr_wallet q) (pr_vault q)))) (\<lambda>payable.
         bindA (readA (\<lambda>L. checkR (pendingVaultFlows now L (pr_wallet q) (pr_vault q) = 0)
           (conflict ''vault_flow_pending''))) (\<lambda>_.
         bindA (getsA (\<lambda>L. sellerLiquidityPolicy L (pr_seller q) (pr_vault q))) (\<lambda>liquidityPolicy.
         bindA (liftR (checkLiquidityPolicy E liquidityPolicy (pr_amountRawUsdc q))) (\<lambda>_.
         evaluateAndCommit E now uuid evUuid q liquidityPolicy payable))))) t
       (\<lambda>_. reservations_balanced) (\<lambda>_. reservations_balanced)) (\<lambda>_. reservations_balanced)"
    using L'(1) ev by (auto split: sum.splits option.splits)
qed auto

lemma checkPaymentRequest_wallet:
  "checkPaymentRequest E x = Inr q \<Longrightarrow> valid_address (pr_wallet q) \<and> pr_wallet q = pi_wallet x \<and>
     pr_vault q = vc_address (pe_vault E)"
  by (auto simp: checkPaymentRequest_def bindR_Inr Let_def assertExpectedPaymentRequirement_def
      split: if_splits)

lemma balanced_prepare:
  assumes "reservations_balanced L" "getPayment L (''pay_'' @ uuid) = None" "fees_nonneg E"
  shows "keeps (preparePayment E now uuid evUuid x) L"
  using assms checkPaymentRequest_wallet[of E x] balanced_prepare_locked[OF assms(1) _ assms(2,3)]
  by (auto simp: preparePayment_def valid_address_plain intro!: lock.runs_lock_inv split: sum.splits)

section \<open>Settling a payment\<close>

lemma held_terminal [simp]:
  "held (i\<lparr>pay_status := s, pay_terminalAt := t, pay_settlementResponse := r\<rparr>) =
     (if s = pay_prepared \<or> s = submission_prepared \<or> s = pay_submitted then pay_reservationRawUsdc i else 0)"
  by (simp add: held_def paymentHoldsSettlementReservation_def)

lemma balanced_expirePrepared:
  assumes bal: "reservations_balanced L" and got: "getPayment L k = Some i" and prep: "pay_status i = pay_prepared"
  shows "keeps (expirePreparedPayment now i) L"
proof -
  have holds: "paymentHoldsSettlementReservation i" using prep by (simp add: paymentHoldsSettlementReservation_def)
  note rel = balanced_release[OF bal got holds,
      of "i\<lparr>pay_status := pay_expired, pay_terminalAt := Some (toISOString now),
            pay_settlementResponse := Some (invalidSettlementResponse (pay_paymentId i) ''expired''
              ''Payment intent has expired'')\<rparr>"]
  show ?thesis
    using rel by (auto simp: expirePreparedPayment_def Let_def split: option.splits)
qed

lemma balanced_verify_section:
  "reservations_balanced L \<Longrightarrow> keeps (verifyExpiredSection E now k x) L"
  by (auto simp: verifyExpiredSection_def balanced_expirePrepared split: option.splits)

lemma applySettlement_reserved:
  "applySettlementResultToPosition p i r = Inr p' \<Longrightarrow>
     pos_wallet p' = pos_wallet p \<and> pos_vault p' = pos_vault p \<and>
     pos_reservedRawUsdc p' = clampToZero (pos_reservedRawUsdc p - pay_reservationRawUsdc i)"
  by (auto simp: applySettlementResultToPosition_def Let_def bindR_Inr
      split: SettlementSubmissionResult.splits if_splits)

lemma recordSyncEvent_frame [simp]:
  "getPayment (recordSyncEvent now uuid x L) = getPayment L"
  "getPosition (recordSyncEvent now uuid x L) = getPosition L"
  "led_payments (recordSyncEvent now uuid x L) = led_payments L"
  by (simp_all add: recordSyncEvent_def)

lemma savePayment_event_commute:
  "savePayment i (recordSyncEvent now uuid x L) = recordSyncEvent now uuid x (savePayment i L)"
  by (simp add: recordSyncEvent_def savePayment_def saveSyncEvent_def)

lemma resultStatus_not_held: "resultStatus r \<notin> {pay_prepared, submission_prepared, pay_submitted}"
  by (simp add: resultStatus_def split: SettlementSubmissionResult.splits)

lemma balanced_finalize:
  assumes bal: "reservations_balanced L" and got: "getPayment L k = Some i"
    and holds: "paymentHoldsSettlementReservation i"
  shows "keeps (finalizeSubmittedPayment E now uuid i r) L"
proof (cases "settlementResultValidationError i r")
  case (Some message)
  note ok = balanced_store[OF bal]
  have flagged: "reservations_balanced (savePosition (flagBaselineReset p) L)"
    if "getPosition L (pay_wallet i) (pay_vault i) = Some p" for p
    using balanced_same_reserved[OF bal that store_ok_payment(2)[OF ok got]] by simp
  have "reservations_balanced (savePayment (i\<lparr>pay_status := pay_submitted, pay_submittedAt := s,
      pay_txSignature := t, pay_settlementResponse := m\<rparr>) L')"
    if "reservations_balanced L'" "getPayment L' k = Some i" for L' s t m
    by (rule balanced_same_payment[OF that])
      (use holds in \<open>auto simp: held_def paymentHoldsSettlementReservation_def\<close>)
  then show ?thesis
    using Some bal got flagged
    by (auto simp: finalizeSubmittedPayment_def rejectSettlementResult_def split: option.splits)
next
  case None
  have rel: "reservations_balanced (savePayment (i\<lparr>pay_status := resultStatus r, pay_submittedAt := s,
        pay_terminalAt := t, pay_txSignature := u, pay_settlementResponse := m\<rparr>) L)"
    if "getPosition L (pay_wallet i) (pay_vault i) = None" for s t u m
    by (rule balanced_release(1)[OF bal got holds])
      (use that resultStatus_not_held[of r] in \<open>simp_all add: held_def paymentHoldsSettlementReservation_def\<close>)
  have rel': "reservations_balanced (savePayment (i\<lparr>pay_status := resultStatus r, pay_submittedAt := s,
        pay_terminalAt := t, pay_txSignature := u, pay_settlementResponse := m\<rparr>) (savePosition p' L))"
    if "getPosition L (pay_wallet i) (pay_vault i) = Some p" "applySettlementResultToPosition p i r = Inr p'"
    for p p' s t u m
    by (rule balanced_release(2)[OF bal got holds])
      (use that applySettlement_reserved[OF that(2)] resultStatus_not_held[of r]
       in \<open>simp_all add: held_def paymentHoldsSettlementReservation_def\<close>)
  show ?thesis
    using None bal rel rel' rel[where s = "pay_submittedAt i"] rel'[where s = "pay_submittedAt i"]
    by (auto simp: finalizeSubmittedPayment_def savePayment_event_commute split: option.splits sum.splits)
qed

lemma terminal_iff: "terminalSettlementResponseForStoredState i = None \<longleftrightarrow> paymentHoldsSettlementReservation i"
  by (auto simp: terminalSettlementResponseForStoredState_def split: option.splits)

lemma balanced_finalize_section:
  "reservations_balanced L \<Longrightarrow> keeps (finalizeSubmissionSection E now uuid k r) L"
  by (auto simp: finalizeSubmissionSection_def terminal_iff balanced_finalize split: option.splits)

lemma balanced_reconcile_section:
  "reservations_balanced L \<Longrightarrow> keeps (reconcileSection E now uuid k r) L"
  by (auto simp: reconcileSection_def terminal_iff balanced_finalize split: option.splits)

lemma balanced_pending_section:
  assumes bal: "reservations_balanced L"
  shows "keeps (recordPendingSection now k t m) L"
proof -
  have "reservations_balanced (savePayment (i\<lparr>pay_status := pay_submitted, pay_submittedAt := s,
      pay_txSignature := u, pay_settlementResponse := z\<rparr>) L)"
    if "getPayment L k = Some i" "paymentHoldsSettlementReservation i" for i s u z
    by (rule balanced_same_payment[OF bal that(1)])
      (use that(2) in \<open>auto simp: held_def paymentHoldsSettlementReservation_def\<close>)
  then show ?thesis
    using bal by (auto simp: recordPendingSection_def terminal_iff Let_def split: option.splits)
qed

lemma balanced_mark_section:
  assumes bal: "reservations_balanced L"
  shows "keeps (markPaymentSubmittedBeforeSend now k) L"
proof -
  have "reservations_balanced (savePayment (i\<lparr>pay_status := pay_submitted, pay_submittedAt := s\<rparr>) L)"
    if "getPayment L k = Some i" "pay_status i = submission_prepared" for i s
    by (rule balanced_same_payment[OF bal that(1)])
      (use that(2) in \<open>auto simp: held_def paymentHoldsSettlementReservation_def\<close>)
  then show ?thesis
    using bal by (auto simp: markPaymentSubmittedBeforeSend_def split: option.splits)
qed

lemma balanced_settle_section:
  assumes bal: "reservations_balanced L"
  shows "keeps (settleSection E now x) L"
proof -
  have recorded: "keeps (prepareSubmissionRecord E i x) L"
    if "getPayment L k = Some i" "paymentHoldsSettlementReservation i" for i k
  proof -
    have "reservations_balanced (savePayment (i\<lparr>pay_status := submission_prepared,
        pay_txSignature := s, pay_submittedSerializedTransaction := u, pay_settlementResponse := m\<rparr>) L)" for s u m
      by (rule balanced_same_payment[OF bal that(1)])
        (use that(2) in \<open>auto simp: held_def paymentHoldsSettlementReservation_def\<close>)
    then show ?thesis
      using bal by (auto simp: prepareSubmissionRecord_def Let_def split: option.splits sum.splits)
  qed
  have prep: "pay_status i = pay_prepared"
    if "paymentHoldsSettlementReservation i" "pay_status i \<noteq> pay_submitted"
      "pay_status i \<noteq> submission_prepared" for i
    using that by (auto simp: paymentHoldsSettlementReservation_def)
  show ?thesis
    using bal recorded balanced_expirePrepared[OF bal] prep
    by (auto simp: settleSection_def terminal_iff split: option.splits Verification.splits)
qed

lemma balanced_submit:
  assumes "reservations_balanced L"
  shows "keeps (submitPreparedSettlement E c i x) L"
proof -
  have amb: "keeps (recordAmbiguousSubmission E now k err) L'" if "reservations_balanced L'" for L' now k err
    using that by (auto simp: recordAmbiguousSubmission_def balanced_pending_section
        intro!: lock.runs_lock_inv split: SubmissionError.splits)
  have fin: "keeps (withLock kd (finalizeSubmissionSection E now uuid k r)) L'"
    if "reservations_balanced L'" for L' kd now uuid k r
    using that by (intro keeps_lock balanced_finalize_section)
  have mark: "runs (withLock kd (markPaymentSubmittedBeforeSend now k)) L (\<lambda>_. Q) (\<lambda>_. reservations_balanced)"
    if "\<And>t. reservations_balanced t \<Longrightarrow> Q t" for Q kd now k
    by (rule runs_mono[OF keeps_lock[OF assms balanced_mark_section[OF assms]]]) (auto intro: that)
  show ?thesis
    using assms
    by (auto simp: submitPreparedSettlement_def amb fin
        intro!: mark split: Verification.splits option.splits prod.splits sum.splits
          SubmissionError.splits submission_outcome.splits)
qed

lemma balanced_reconcile:
  assumes "reservations_balanced L"
  shows "keeps (reconcileSubmittedPayment E c i x) L"
proof -
  have amb: "keeps (recordAmbiguousSubmission E now k err) L" for now k err
    using assms by (auto simp: recordAmbiguousSubmission_def balanced_pending_section
        intro!: lock.runs_lock_inv split: SubmissionError.splits)
  show ?thesis
    using assms amb
    by (auto simp: reconcileSubmittedPayment_def balanced_pending_section balanced_reconcile_section
        intro!: keeps_lock split: Verification.splits option.splits sum.splits bool.splits
          SettlementReconciliationResult.splits)
qed

lemma balanced_settle:
  assumes "reservations_balanced L"
  shows "keeps (settlePaymentPayload E c x) L"
proof -
  have "runs (withLock kd (settleSection E now x)) L (\<lambda>s t. Q s t) (\<lambda>_. reservations_balanced)"
    if "\<And>s t. reservations_balanced t \<Longrightarrow> Q s t" for Q kd now
    by (rule runs_mono[OF keeps_lock[OF assms balanced_settle_section[OF assms]]]) (auto intro: that)
  then show ?thesis
    using assms
    by (auto simp: settlePaymentPayload_def balanced_submit balanced_reconcile split: option.splits settle_step.splits)
qed

lemma balanced_recover:
  assumes "reservations_balanced L"
  shows "keeps (recoverPendingSettlements E calls limit) L"
proof -
  have one: "keeps (recoverOne E c i) t" if "reservations_balanced t" for c i t
    using that balanced_submit balanced_reconcile
    by (auto simp: recoverOne_def split: option.splits)
  have "runs (mapA (\<lambda>i. recoverOne E (calls (pay_paymentId i)) i) xs) L
      (\<lambda>_. reservations_balanced) (\<lambda>_. reservations_balanced)" for xs
    by (rule runs_map) (use one assms in auto)
  then show ?thesis using assms by (simp add: recoverPendingSettlements_def)
qed

lemma balanced_verify: "reservations_balanced L \<Longrightarrow> keeps (verifyPaymentPayload E now now' x) L"
  by (auto simp: verifyPaymentPayload_def balanced_verify_section intro!: keeps_lock split: option.splits)

lemma balanced_policy: "reservations_balanced L \<Longrightarrow> keeps (upsertLiquidityPolicy E num x) L"
  by (auto simp: upsertLiquidityPolicy_def Let_def split: sum.splits)

end
