(* ===== verification/Payment_Safety.thy ===== *)
theory Payment_Safety
  imports Payment_Balance
begin

text \<open>
  The payment service as a transition system. A step is one locked section of one call (or an
  unlocked policy write), with arbitrary arguments, so the reachable ledgers are those of any
  interleaving of any number of concurrent calls; the whole handlers are sequences of such
  steps. Proved of every reachable ledger: the reservation balance, the payment life cycle, and
  that a seller request has at most one live or settled payment.
\<close>

section \<open>The life cycle of a payment\<close>

text \<open>
  The content of a payment is everything but its status, its timestamps, its submission record
  and its response.
\<close>

definition content :: "PaymentIntent \<Rightarrow> PaymentIntent" where
  "content i = i\<lparr>pay_status := pay_prepared, pay_submittedAt := None, pay_terminalAt := None,
     pay_txSignature := None, pay_submittedSerializedTransaction := None,
     pay_settlementResponse := None\<rparr>"

definition status_next :: "PaymentStatus \<Rightarrow> PaymentStatus \<Rightarrow> bool" where
  "status_next s s' \<longleftrightarrow> s' = s \<or> (case s of
       pay_prepared \<Rightarrow> s' \<in> {submission_prepared, pay_expired}
     | submission_prepared \<Rightarrow> s' \<in> {pay_submitted, settled, pay_failed, pay_failed_not_submitted}
     | pay_submitted \<Rightarrow> s' \<in> {settled, pay_failed, pay_failed_not_submitted}
     | _ \<Rightarrow> False)"

definition evolves :: "PaymentIntent \<Rightarrow> PaymentIntent \<Rightarrow> bool" where
  "evolves i i' \<longleftrightarrow> content i' = content i \<and> status_next (pay_status i) (pay_status i') \<and>
     (\<not> paymentHoldsSettlementReservation i \<longrightarrow> i' = i)"

text \<open>Between two ledgers: the same payments are stored and each one evolves.\<close>

definition progress :: "ledger \<Rightarrow> ledger \<Rightarrow> bool" where
  "progress L L' \<longleftrightarrow> (\<forall>k. rel_option evolves (getPayment L k) (getPayment L' k))"

lemma evolves_refl [simp]: "evolves i i"
  by (simp add: evolves_def status_next_def)

lemma content_eq:
  assumes "content i' = content i"
  shows "pay_paymentId i' = pay_paymentId i" "pay_seller i' = pay_seller i"
    "pay_sellerRequestId i' = pay_sellerRequestId i" "pay_wallet i' = pay_wallet i"
    "pay_vault i' = pay_vault i" "pay_requestBindingHash i' = pay_requestBindingHash i"
    "pay_amountRawUsdc i' = pay_amountRawUsdc i" "pay_payTo i' = pay_payTo i"
  using arg_cong[OF assms, of pay_paymentId] arg_cong[OF assms, of pay_seller]
    arg_cong[OF assms, of pay_sellerRequestId] arg_cong[OF assms, of pay_wallet]
    arg_cong[OF assms, of pay_vault] arg_cong[OF assms, of pay_requestBindingHash]
    arg_cong[OF assms, of pay_amountRawUsdc] arg_cong[OF assms, of pay_payTo]
  by (simp_all add: content_def)

lemma progress_refl [simp]: "progress L L"
  by (simp add: progress_def option.rel_refl)

lemma progress_same: "getPayment L' = getPayment L \<Longrightarrow> progress L L'"
  by (simp add: progress_def option.rel_refl)

lemma progressI:
  assumes "\<And>k i. getPayment L k = Some i \<Longrightarrow> \<exists>i'. getPayment L' k = Some i' \<and> evolves i i'"
    and "\<And>k. getPayment L k = None \<Longrightarrow> getPayment L' k = None"
  shows "progress L L'"
  unfolding progress_def
proof
  fix k
  show "rel_option evolves (getPayment L k) (getPayment L' k)"
    using assms(1)[of k] assms(2)[of k] by (cases "getPayment L k") auto
qed

lemma progress_get: "progress L L' \<Longrightarrow> getPayment L k = Some i \<Longrightarrow> \<exists>i'. getPayment L' k = Some i' \<and> evolves i i'"
  unfolding progress_def by (drule spec [of _ k]) (auto simp: option_rel_Some1)

lemma progress_none: "progress L L' \<Longrightarrow> getPayment L' k = None \<longleftrightarrow> getPayment L k = None"
  unfolding progress_def by (drule spec [of _ k]) (auto elim: option.rel_cases)

lemma progress_frame [simp]:
  "progress L (savePosition p M) = progress L M"
  "progress L (recordSyncEvent now uuid x M) = progress L M"
  "progress L (saveLiquidityPolicy q M) = progress L M"
  by (simp_all add: progress_def)

lemma progress_save_after:
  assumes "getPayment L k = Some i" "pay_paymentId i = k" "evolves i i'" "getPayment M = getPayment L"
  shows "progress L (savePayment i' M)"
proof -
  have "pay_paymentId i' = k" using assms(2,3) content_eq(1)[of i' i] unfolding evolves_def by simp
  then show ?thesis using assms(1,3,4) unfolding progress_def by (simp add: option.rel_refl)
qed

lemmas progress_save = progress_save_after[OF _ _ _ refl]

abbreviation progresses :: "(ledger, 'a) action \<Rightarrow> ledger \<Rightarrow> bool" where
  "progresses m L \<equiv> runs m L (\<lambda>_. progress L) (\<lambda>_. progress L)"

lemma progresses_lock: "progresses m L \<Longrightarrow> progresses (withLock k m) L"
  by (rule lock.runs_lock_inv) simp_all

subsection \<open>Every section respects the life cycle\<close>

lemma evolves_markExpired: "pay_status i = pay_prepared \<Longrightarrow> evolves i (markExpired now i)"
  "pay_status i = pay_prepared \<Longrightarrow> evolves i (resetExpired now i)"
  by (auto simp: evolves_def status_next_def markExpired_def resetExpired_def content_def
      paymentHoldsSettlementReservation_def)

lemma expire_progress:
  assumes "reservations_balanced L" "plain w"
  shows "runs (expirePreparedPaymentsForLockedPosition now w v) L
    (\<lambda>_ L'. reservations_balanced L' \<and> progress L L') (\<lambda>_ _. False)"
  by (rule runs_mono[OF expire_outcome[OF assms, of now v]])
    (auto intro!: progressI simp: afterExpiry_def evolves_markExpired split: option.splits)

lemma register_progress: "progresses (registerAgentWallet E x) L"
  by (auto simp: registerAgentWallet_def Let_def intro!: progresses_lock progress_same
      split: option.splits sum.splits)

lemma sync_progress:
  assumes bal: "reservations_balanced L"
  shows "progresses (syncWalletPosition E now uuid x) L"
proof -
  have fold: "progress L (fold (\<lambda>p. savePayment (resetExpired now p))
      (filter (\<lambda>p. pay_status p = pay_prepared) (listPaymentsForPosition L w v)) L)" for w v
  proof -
    let ?xs = "filter (\<lambda>p. pay_status p = pay_prepared) (listPaymentsForPosition L w v)"
    have st: "stored_payments L ?xs"
      unfolding listPaymentsForPosition_def filter_filter by (rule stored_filter[OF balanced_store[OF bal]])
    show ?thesis
      using fold_savePayment(2)[OF balanced_store[OF bal] st keeps_account_resetExpired[of now]]
      by (intro progressI) (auto simp: evolves_markExpired)
  qed
  have "progresses (syncLockedPosition now uuid w v x) L" for w v
    using fold by (auto simp: syncLockedPosition_def Let_def intro: progress_same
        split: option.splits sum.splits)
  then show ?thesis
    by (auto simp: syncWalletPosition_def Let_def intro!: progresses_lock)
qed

lemma budget_progress:
  assumes "reservations_balanced L"
  shows "progresses (getBudget E now w vi) L"
proof -
  have "valid_address w \<Longrightarrow> runs (expirePreparedPaymentsForLockedPosition now w v) L Q (\<lambda>_. progress L)"
    if "\<And>r t. progress L t \<Longrightarrow> Q r t" for v Q
    by (rule runs_mono[OF expire_progress[OF assms valid_address_plain]]) (auto intro: that)
  then show ?thesis
    by (auto simp: getBudget_def Let_def intro!: progresses_lock split: option.splits sum.splits)
qed

text \<open>
  Preparing admits at most one payment, after the expiries it triggers: a fresh prepared one
  for a request that no stored payment answers.
\<close>

definition admits :: "ledger \<Rightarrow> ledger \<Rightarrow> bool" where
  "admits L N \<longleftrightarrow> progress L N \<or> (\<exists>M q i. progress L M \<and> ledger_ok M \<and> existingPayment M q = Inr None \<and>
     getPayment M (pay_paymentId i) = None \<and> pay_status i = pay_prepared \<and>
     pay_seller i = pr_seller q \<and> pay_sellerRequestId i = pr_sellerRequestId q \<and>
     pay_requestBindingHash i = pr_requestBindingHash q \<and>
     getPayment N = (getPayment M)(pay_paymentId i \<mapsto> i))"

lemma admits_progress: "progress L N \<Longrightarrow> admits L N"
  by (simp add: admits_def)

lemma evaluate_admits:
  assumes "getPayment M (''pay_'' @ uuid) = None" "progress L M" "ledger_ok M" "existingPayment M q = Inr None"
  shows "runs (evaluateAndCommit E now uuid evUuid q lp payable) M (\<lambda>_. admits L) (\<lambda>_. admits L)"
proof -
  have "admits L (savePayment (newPaymentIntent q pol p (''pay_'' @ uuid) t f e n pr j) (savePosition p' N))"
    if "getPayment N = getPayment M" for N pol p t f e n pr j p'
    using assms that unfolding admits_def
    by (intro disjI2 exI[of _ M] exI[of _ q]
        exI[of _ "newPaymentIntent q pol p (''pay_'' @ uuid) t f e n pr j"])
      (auto simp: newPaymentIntent_def)
  moreover have same: "admits L N" if "getPayment N = getPayment M" for N
    using assms(2) that by (intro admits_progress) (simp add: progress_def)
  ultimately have commit: "runs (commitPreparedPayment E now uuid q pol p s f e) N (\<lambda>_. admits L) (\<lambda>_. admits L)"
    if "getPayment N = getPayment M" for N pol p s f e
    using that same by (auto simp: commitPreparedPayment_def Let_def split: sum.splits)
  show ?thesis
    using commit same
    by (cases payable) (auto simp: evaluateAndCommit_def quoteWorkingPosition_def Let_def
        split: option.splits sum.splits BudgetDecision.splits)
qed

lemma prepare_locked_admits:
  assumes bal: "reservations_balanced L" and fresh: "getPayment L (''pay_'' @ uuid) = None"
    and w: "plain (pr_wallet q)"
  shows "runs (prepareLockedPayment E now uuid evUuid q) L (\<lambda>_. admits L) (\<lambda>_. admits L)"
  unfolding prepareLockedPayment_def runs_bind
proof (rule runs_mono[OF expire_progress[OF bal w, of now "pr_vault q"]])
  fix r L'
  assume *: "reservations_balanced L' \<and> progress L L'"
  then have "runs (evaluateAndCommit E now uuid evUuid q lp payable) L' (\<lambda>_. admits L) (\<lambda>_. admits L)"
    if "existingPayment L' q = Inr None" for lp payable
    using fresh that progress_none[of L L'] balanced_store[of L']
    by (intro runs_mono[OF evaluate_admits]) (auto simp: admits_progress store_ok_def)
  then show "runs (readA (\<lambda>L. existingPayment L q)) L' (\<lambda>x t. runs (case x of
      Some p \<Rightarrow> liftR (serializePaymentIntent p)
    | None \<Rightarrow> bindA (readA (\<lambda>L. requirePayablePosition E (getPosition L (pr_wallet q) (pr_vault q)))) (\<lambda>payable.
       bindA (readA (\<lambda>L. checkR (pendingVaultFlows now L (pr_wallet q) (pr_vault q) = 0)
         (conflict ''vault_flow_pending''))) (\<lambda>_.
       bindA (getsA (\<lambda>L. sellerLiquidityPolicy L (pr_seller q) (pr_vault q))) (\<lambda>liquidityPolicy.
       bindA (liftR (checkLiquidityPolicy E liquidityPolicy (pr_amountRawUsdc q))) (\<lambda>_.
       evaluateAndCommit E now uuid evUuid q liquidityPolicy payable))))) t
     (\<lambda>_. admits L) (\<lambda>_. admits L)) (\<lambda>_. admits L)"
    using * by (auto simp: admits_progress split: sum.splits option.splits)
qed auto

lemma prepare_admits:
  assumes "reservations_balanced L" "getPayment L (''pay_'' @ uuid) = None"
  shows "runs (preparePayment E now uuid evUuid x) L (\<lambda>_. admits L) (\<lambda>_. admits L)"
  using prepare_locked_admits[OF assms] checkPaymentRequest_wallet[of E x]
  by (auto simp: preparePayment_def valid_address_plain admits_progress
      intro!: lock.runs_lock_inv split: sum.splits)

text \<open>A payment with a submission record: it exists and has left the state \<open>prepared\<close>.\<close>

definition recorded :: "ledger \<Rightarrow> string \<Rightarrow> bool" where
  "recorded L k \<longleftrightarrow> (\<exists>i. getPayment L k = Some i \<and> pay_status i \<noteq> pay_prepared)"

lemma recorded_progress:
  assumes "recorded L k" "progress L L'"
  shows "recorded L' k"
proof -
  from assms(1) obtain i where i: "getPayment L k = Some i" "pay_status i \<noteq> pay_prepared"
    by (auto simp: recorded_def)
  with progress_get[OF assms(2) i(1)] obtain i' where "getPayment L' k = Some i'" "status_next (pay_status i) (pay_status i')"
    by (auto simp: evolves_def)
  then show ?thesis
    using i(2) by (cases "pay_status i") (auto simp: recorded_def status_next_def)
qed

lemma recorded_admits: "recorded L k \<Longrightarrow> admits L L' \<Longrightarrow> recorded L' k"
  unfolding admits_def using recorded_progress by (fastforce simp: recorded_def)

lemma evolvesI:
  assumes "paymentHoldsSettlementReservation i" "content i' = content i"
    and "status_next (pay_status i) (pay_status i')"
  shows "evolves i i'"
  using assms by (simp add: evolves_def)

lemma expirePrepared_progress:
  assumes "getPayment L k = Some i" "pay_paymentId i = k" "pay_status i = pay_prepared"
  shows "progresses (expirePreparedPayment now i) L"
proof -
  have "evolves i (i\<lparr>pay_status := pay_expired, pay_terminalAt := t, pay_settlementResponse := r\<rparr>)" for t r
    using assms(3) by (intro evolvesI) (auto simp: content_def status_next_def paymentHoldsSettlementReservation_def)
  then show ?thesis
    using assms(1,2) by (auto simp: expirePreparedPayment_def Let_def intro: progress_save_after split: option.splits)
qed

lemma verify_progress:
  assumes "store_ok L"
  shows "progresses (verifyExpiredSection E now k x) L"
  using expirePrepared_progress store_ok_payment(1)[OF assms]
  by (auto simp: verifyExpiredSection_def split: option.splits)

lemma settle_progress:
  assumes ok: "store_ok L"
  shows "runs (settleSection E now x) L
    (\<lambda>s t. progress L t \<and> (\<forall>i. s = Reconcile i \<or> s = SubmitPrepared i \<longrightarrow> recorded t (pay_paymentId i)))
    (\<lambda>_. progress L)"
proof -
  note key = store_ok_payment(1)[OF ok]
  have rec: "runs (prepareSubmissionRecord E i x) L
      (\<lambda>s t. progress L t \<and> (\<forall>i. s = Reconcile i \<or> s = SubmitPrepared i \<longrightarrow> recorded t (pay_paymentId i)))
      (\<lambda>_. progress L)"
    if "getPayment L k = Some i" "pay_status i = pay_prepared" for i k
  proof -
    have "evolves i (i\<lparr>pay_status := submission_prepared, pay_txSignature := s,
        pay_submittedSerializedTransaction := u, pay_settlementResponse := m\<rparr>)" for s u m
      using that(2) by (intro evolvesI) (auto simp: content_def status_next_def paymentHoldsSettlementReservation_def)
    from progress_save[OF that(1) key[OF that(1)] this] show ?thesis
      by (auto simp: prepareSubmissionRecord_def Let_def recorded_def split: option.splits sum.splits)
  qed
  have prep: "pay_status i = pay_prepared"
    if "paymentHoldsSettlementReservation i" "pay_status i \<noteq> pay_submitted"
      "pay_status i \<noteq> submission_prepared" for i
    using that by (auto simp: paymentHoldsSettlementReservation_def)
  have exp: "runs (expirePreparedPayment now i) L (\<lambda>_. progress L) (\<lambda>_. progress L)"
    if "getPayment L k = Some i" "pay_status i = pay_prepared" for i k
    by (rule expirePrepared_progress[OF that(1) key[OF that(1)] that(2)])
  have recd: "recorded L (pay_paymentId i)" if "getPayment L k = Some i" "pay_status i \<noteq> pay_prepared" for i k
    using that key[OF that(1)] by (auto simp: recorded_def)
  show ?thesis
    using rec prep exp recd
    by (auto simp: settleSection_def terminal_iff split: option.splits Verification.splits)
qed

lemma mark_progress:
  assumes ok: "store_ok L"
  shows "progresses (markPaymentSubmittedBeforeSend now k) L"
proof -
  have "evolves i (i\<lparr>pay_status := pay_submitted, pay_submittedAt := s\<rparr>)"
    if "pay_status i = submission_prepared" for i s
    using that by (intro evolvesI) (auto simp: content_def status_next_def paymentHoldsSettlementReservation_def)
  then show ?thesis
    using store_ok_payment(1)[OF ok]
    by (auto simp: markPaymentSubmittedBeforeSend_def intro: progress_save split: option.splits)
qed

lemma status_next_result:
  "s = submission_prepared \<or> s = pay_submitted \<Longrightarrow> status_next s (resultStatus r)"
  by (auto simp: status_next_def resultStatus_def split: SettlementSubmissionResult.splits)

lemma finalize_progress:
  assumes got: "getPayment L k = Some i" and key: "pay_paymentId i = k"
    and st: "pay_status i = submission_prepared \<or> pay_status i = pay_submitted"
  shows "progresses (finalizeSubmittedPayment E now uuid i r) L"
proof -
  have holds: "paymentHoldsSettlementReservation i"
    using st by (auto simp: paymentHoldsSettlementReservation_def)
  have next_result: "status_next (pay_status i) (resultStatus r)"
    using st by (rule status_next_result)
  have next_submitted: "status_next (pay_status i) pay_submitted"
    using st by (auto simp: status_next_def)
  have save: "progress L (savePayment i' M)"
    if "getPayment M = getPayment L" "content i' = content i" "status_next (pay_status i) (pay_status i')"
    for i' M
    using that by (intro progress_save_after[OF got key evolvesI[OF holds]]) auto
  show ?thesis
    using save next_result next_submitted
    by (auto simp: finalizeSubmittedPayment_def rejectSettlementResult_def content_def
        split: option.splits sum.splits)
qed

lemma recorded_live:
  assumes "getPayment L k = Some i" "recorded L k" "paymentHoldsSettlementReservation i"
  shows "pay_status i = submission_prepared \<or> pay_status i = pay_submitted"
  using assms by (auto simp: recorded_def paymentHoldsSettlementReservation_def)

lemma finalize_section_progress:
  "store_ok L \<Longrightarrow> recorded L k \<Longrightarrow> progresses (finalizeSubmissionSection E now uuid k r) L"
  using finalize_progress recorded_live store_ok_payment(1)
  by (auto simp: finalizeSubmissionSection_def terminal_iff split: option.splits)

lemma reconcile_section_progress:
  "store_ok L \<Longrightarrow> progresses (reconcileSection E now uuid k r) L"
  using finalize_progress store_ok_payment(1)
  by (auto simp: reconcileSection_def terminal_iff split: option.splits)

lemma pending_section_progress:
  assumes ok: "store_ok L" and rec: "recorded L k"
  shows "progresses (recordPendingSection now k t m) L"
proof -
  have "progress L (savePayment (i\<lparr>pay_status := pay_submitted, pay_submittedAt := a, pay_txSignature := b,
      pay_settlementResponse := c\<rparr>) L)"
    if "getPayment L k = Some i" "paymentHoldsSettlementReservation i" for i a b c
    using recorded_live[OF that(1) rec that(2)] that
    by (intro progress_save[OF that(1) store_ok_payment(1)[OF ok that(1)]] evolvesI)
      (auto simp: content_def status_next_def)
  then show ?thesis
    by (auto simp: recordPendingSection_def terminal_iff Let_def split: option.splits)
qed

section \<open>Steps\<close>

text \<open>
  One locked section of one call. The sections that record an outcome run after a section that
  persisted the submission record, which is the premise \<open>recorded\<close> (the handlers below are
  shown to respect it); a new payment id is fresh.
\<close>

inductive payment_step :: "payment_env \<Rightarrow> ledger \<Rightarrow> ledger \<Rightarrow> bool" for E where
  step_register: "payment_step E L (snd (registerAgentWallet E x L))"
| step_sync: "payment_step E L (snd (syncWalletPosition E now uuid x L))"
| step_budget: "payment_step E L (snd (getBudget E now w v L))"
| step_prepare: "getPayment L (''pay_'' @ uuid) = None \<Longrightarrow>
    payment_step E L (snd (preparePayment E now uuid evUuid x L))"
| step_verify: "payment_step E L (snd (withLock (pe_ledger E) (verifyExpiredSection E now k x) L))"
| step_settle: "payment_step E L (snd (withLock (pe_ledger E) (settleSection E now x) L))"
| step_mark: "payment_step E L (snd (withLock (pe_ledger E) (markPaymentSubmittedBeforeSend now k) L))"
| step_finalize: "recorded L k \<Longrightarrow> payment_step E L
    (snd (withLock (pe_ledger E) (finalizeSubmissionSection E now uuid k r) L))"
| step_reconcile: "payment_step E L (snd (withLock (pe_ledger E) (reconcileSection E now uuid k r) L))"
| step_pending: "recorded L k \<Longrightarrow>
    payment_step E L (snd (withLock (pe_ledger E) (recordPendingSection now k t m) L))"
| step_policy: "payment_step E L (snd (upsertLiquidityPolicy E num y L))"

abbreviation payment_steps :: "payment_env \<Rightarrow> ledger \<Rightarrow> ledger \<Rightarrow> bool" where
  "payment_steps E \<equiv> (payment_step E)\<^sup>*\<^sup>*"

lemma step_balanced:
  assumes "payment_step E L L'" "reservations_balanced L" "fees_nonneg E"
  shows "reservations_balanced L'"
  using assms
proof (induction rule: payment_step.induct)
  case (step_prepare L uuid now evUuid x)
  then show ?case using balanced_prepare by (simp flip: runs_snd)
qed (simp_all add: balanced_register balanced_sync balanced_getBudget balanced_verify_section
    balanced_settle_section balanced_mark_section balanced_finalize_section
    balanced_reconcile_section balanced_pending_section balanced_policy keeps_lock flip: runs_snd)

lemma policy_progress: "progresses (upsertLiquidityPolicy E num y) L"
  by (auto simp: upsertLiquidityPolicy_def Let_def split: sum.splits)

lemma settle_section_progress: "store_ok L \<Longrightarrow> progresses (settleSection E now x) L"
  by (rule runs_mono[OF settle_progress]) auto

lemma step_admits:
  assumes "payment_step E L L'" "reservations_balanced L"
  shows "admits L L'"
  using assms
proof (induction rule: payment_step.induct)
  case (step_prepare L uuid now evUuid x)
  then show ?case using prepare_admits by (simp flip: runs_snd)
qed ((rule admits_progress, simp add: register_progress sync_progress budget_progress verify_progress mark_progress
    settle_section_progress finalize_section_progress reconcile_section_progress
    pending_section_progress policy_progress balanced_store progresses_lock flip: runs_snd)+)

lemma steps_balanced:
  "payment_steps E L L' \<Longrightarrow> reservations_balanced L \<Longrightarrow> fees_nonneg E \<Longrightarrow> reservations_balanced L'"
  by (induction rule: rtranclp_induct) (auto intro: step_balanced)

lemma steps_recorded:
  assumes "payment_steps E L L'" "reservations_balanced L" "fees_nonneg E" "recorded L k"
  shows "recorded L' k"
  using assms
proof (induction rule: rtranclp_induct)
  case (step M N)
  then show ?case
    using steps_balanced[OF step.hyps(1)] step_admits recorded_admits by blast
qed

section \<open>Handlers are sequences of steps\<close>

abbreviation follows :: "payment_env \<Rightarrow> (ledger, 'a) action \<Rightarrow> ledger \<Rightarrow> bool" where
  "follows E m L \<equiv> along (payment_step E) m L"

lemmas follows_step = along_step[where step = "payment_step E" for E]
lemmas follows_bind_post = along_bind_post[where step = "payment_step E" for E]
lemmas follows_bind = along_bind[where step = "payment_step E" for E]
lemmas follows_pure = along_pure[where step = "payment_step E" for E]

text \<open>The ledgers a handler can run on: balanced, with the payment it works on recorded.\<close>

lemma follows_ambiguous: "recorded L k \<Longrightarrow> follows E (recordAmbiguousSubmission E now k err) L"
  by (cases err) (auto simp: recordAmbiguousSubmission_def intro: follows_step[OF step_pending])

lemma follows_submit:
  assumes bal: "reservations_balanced L" and E: "fees_nonneg E" and rec: "recorded L (pay_paymentId i)"
  shows "follows E (submitPreparedSettlement E c i x) L"
proof -
  have "follows E (if b then withLock (pe_ledger E) (markPaymentSubmittedBeforeSend now k) else returnA ()) L"
    for b now k by (auto intro: follows_step[OF step_mark])
  moreover have "payment_steps E L L' \<Longrightarrow> recorded L' (pay_paymentId i)" for L'
    using steps_recorded[OF _ bal E rec] .
  ultimately show ?thesis
    by (auto simp: submitPreparedSettlement_def simp del: runs_bind
        intro!: follows_bind follows_ambiguous follows_step[OF step_finalize]
        split: Verification.splits option.splits prod.splits sum.splits SubmissionError.splits
          submission_outcome.splits)
qed

lemma follows_reconcile:
  "recorded L (pay_paymentId i) \<Longrightarrow> follows E (reconcileSubmittedPayment E c i x) L"
  by (auto simp: reconcileSubmittedPayment_def intro!: follows_ambiguous follows_step[OF step_pending] follows_step[OF step_reconcile]
      split: Verification.splits option.splits sum.splits bool.splits SettlementReconciliationResult.splits)

lemma settle_section_records:
  assumes "reservations_balanced L"
  shows "runs (withLock k (settleSection E now x)) L
    (\<lambda>s t. \<forall>i. s = Reconcile i \<or> s = SubmitPrepared i \<longrightarrow> recorded t (pay_paymentId i)) (\<lambda>_ _. True)"
  by (rule lock.runs_lock, rule runs_mono[OF settle_progress[OF balanced_store[OF assms]]]) auto

lemma follows_settle:
  assumes bal: "reservations_balanced L" and E: "fees_nonneg E"
  shows "follows E (settlePaymentPayload E c x) L"
proof -
  have rec: "recorded L (pay_paymentId i)"
    if "getPayment L k = Some i" "pay_status i = pay_submitted \<or> pay_status i = submission_prepared" for i k
    using that store_ok_payment(1)[OF balanced_store[OF bal] that(1)] by (auto simp: recorded_def)
  have "follows E (bindA (withLock (pe_ledger E) (settleSection E (at_now c) x)) (\<lambda>step. case step of
                 Respond response \<Rightarrow> returnA response
               | Reconcile i \<Rightarrow> reconcileSubmittedPayment E c i x
               | SubmitPrepared i \<Rightarrow> submitPreparedSettlement E c i x)) L"
    by (rule follows_bind_post[OF follows_step[OF step_settle] settle_section_records[OF bal]])
      (auto intro: follows_submit follows_reconcile steps_balanced[OF _ bal E] E split: settle_step.splits)
  then show ?thesis
    using rec follows_submit[OF bal E] follows_reconcile
    by (auto simp: settlePaymentPayload_def split: option.splits)
qed

lemma follows_verify: "follows E (verifyPaymentPayload E now now' x) L"
  by (auto simp: verifyPaymentPayload_def simp del: runs_bind
      intro!: follows_bind follows_pure follows_step[OF step_verify] split: option.splits)

lemma follows_map:
  assumes "\<And>x L'. x \<in> set xs \<Longrightarrow> payment_steps E L L' \<Longrightarrow> follows E (f x) L'"
  shows "follows E (mapA f xs) L"
  using assms
proof (induction xs arbitrary: L)
  case (Cons x xs)
  have "follows E (mapA f xs) L'" if "payment_steps E L L'" for L'
    by (rule Cons.IH) (use Cons.prems that rtranclp_trans in fastforce)
  moreover have "follows E (f x) L" using Cons.prems by simp
  ultimately show ?case
    by (auto simp del: runs_bind intro!: follows_bind follows_pure)
qed simp

lemma listPaymentsByStatus_stored:
  assumes "store_ok L" "i \<in> set (listPaymentsByStatus L ss n v)"
  shows "getPayment L (pay_paymentId i) = Some i" "pay_status i \<in> set ss"
  using in_set_takeD[OF assms(2)[unfolded listPaymentsByStatus_def]] stored_filter[OF assms(1)]
  by (auto simp: stored_payments_def)

lemma follows_recover:
  assumes bal: "reservations_balanced L" and E: "fees_nonneg E"
  shows "follows E (recoverPendingSettlements E calls limit) L"
proof -
  have one: "follows E (recoverOne E c i) M" if "reservations_balanced M" "recorded M (pay_paymentId i)" for c i M
    using follows_submit[OF that(1) E that(2)] follows_reconcile[OF that(2)]
    by (auto simp: recoverOne_def simp del: runs_bind
        intro!: follows_bind follows_pure split: option.splits)
  have rec: "recorded L (pay_paymentId i)"
    if "i \<in> set (listPaymentsByStatus L [submission_prepared, pay_submitted] n v)" for i n v
  proof -
    have "getPayment L (pay_paymentId i) = Some i" "pay_status i \<noteq> pay_prepared"
      using listPaymentsByStatus_stored[OF balanced_store[OF bal] that] by auto
    then show ?thesis by (simp add: recorded_def)
  qed
  have "follows E (mapA (\<lambda>i. recoverOne E (calls (pay_paymentId i)) i)
      (filter Q (listPaymentsByStatus L [submission_prepared, pay_submitted] n v))) L" for Q n v
    by (rule follows_map) (auto intro!: one intro: steps_balanced[OF _ bal E] steps_recorded[OF _ bal E rec])
  then show ?thesis
    by (simp add: recoverPendingSettlements_def)
qed

end
