(* ===== verification/Intent_Machine.thy ===== *)
theory Intent_Machine
  imports Main
begin

text \<open>
  The abstract store of intents that payments and vault flows share: a map from identifiers to
  intents in which every stored intent only evolves, and at most one fresh intent is admitted
  per step, when no live rival is stored. That rivals are never live together is proved here
  once, over what evolving and rivalry promise.
\<close>

definition evolve_step :: "('v \<Rightarrow> 'v \<Rightarrow> bool) \<Rightarrow> ('k \<Rightarrow> 'v option) \<Rightarrow> ('k \<Rightarrow> 'v option) \<Rightarrow> bool" where
  "evolve_step ev P P' \<longleftrightarrow> (\<forall>k. rel_option ev (P k) (P' k))"

definition admit_step ::
  "('v \<Rightarrow> bool) \<Rightarrow> ('v \<Rightarrow> 'v \<Rightarrow> bool) \<Rightarrow> ('v \<Rightarrow> bool) \<Rightarrow> ('k \<Rightarrow> 'v option) \<Rightarrow> ('k \<Rightarrow> 'v option) \<Rightarrow> bool" where
  "admit_step fresh rival live P P' \<longleftrightarrow> (\<exists>k i. P k = None \<and> P' = P(k \<mapsto> i) \<and> fresh i \<and>
     (\<forall>j b. P j = Some b \<longrightarrow> rival b i \<longrightarrow> \<not> live b))"

definition store_step ::
  "('v \<Rightarrow> 'v \<Rightarrow> bool) \<Rightarrow> ('v \<Rightarrow> bool) \<Rightarrow> ('v \<Rightarrow> 'v \<Rightarrow> bool) \<Rightarrow> ('v \<Rightarrow> bool) \<Rightarrow>
   ('k \<Rightarrow> 'v option) \<Rightarrow> ('k \<Rightarrow> 'v option) \<Rightarrow> bool" where
  "store_step ev fresh rival live P P' \<longleftrightarrow>
     (\<exists>M. evolve_step ev P M \<and> (P' = M \<or> admit_step fresh rival live M P'))"

definition no_rivals :: "('v \<Rightarrow> 'v \<Rightarrow> bool) \<Rightarrow> ('v \<Rightarrow> bool) \<Rightarrow> ('k \<Rightarrow> 'v option) \<Rightarrow> bool" where
  "no_rivals rival live P \<longleftrightarrow> (\<forall>j k a b. P j = Some a \<longrightarrow> P k = Some b \<longrightarrow> rival a b \<longrightarrow>
     live a \<longrightarrow> live b \<longrightarrow> j = k)"

lemma no_rivals_empty [simp]: "no_rivals rival live (\<lambda>_. None)"
  by (simp add: no_rivals_def)

lemma evolve_step_get:
  "evolve_step ev P P' \<Longrightarrow> P' k = Some i' \<Longrightarrow> \<exists>i. P k = Some i \<and> ev i i'"
  "evolve_step ev P P' \<Longrightarrow> P k = Some i \<Longrightarrow> \<exists>i'. P' k = Some i' \<and> ev i i'"
  unfolding evolve_step_def by (metis option_rel_Some2, metis option_rel_Some1)

lemma evolve_step_none: "evolve_step ev P P' \<Longrightarrow> P' k = None \<longleftrightarrow> P k = None"
  unfolding evolve_step_def by (drule spec [of _ k]) (auto elim: option.rel_cases)

lemma evolve_stepI:
  assumes "\<And>k i. P k = Some i \<Longrightarrow> \<exists>i'. P' k = Some i' \<and> ev i i'"
    and "\<And>k. P k = None \<Longrightarrow> P' k = None"
  shows "evolve_step ev P P'"
  unfolding evolve_step_def
proof
  fix k
  show "rel_option ev (P k) (P' k)" using assms(1)[of k] assms(2)[of k] by (cases "P k") auto
qed

lemma evolve_step_refl [simp]: "(\<And>i. ev i i) \<Longrightarrow> evolve_step ev P P"
  by (auto intro: evolve_stepI)

text \<open>An invariant of intents that evolving keeps holds of every stored intent.\<close>

lemma evolve_step_update:
  assumes "\<And>i. ev i i" "P k = Some i" "ev i i'"
  shows "evolve_step ev P (P(k \<mapsto> i'))"
  using assms by (simp add: evolve_step_def option.rel_refl)

section \<open>Rivals are never live together\<close>

locale intent_rules =
  fixes ev :: "'v \<Rightarrow> 'v \<Rightarrow> bool" and fresh :: "'v \<Rightarrow> bool"
    and rival :: "'v \<Rightarrow> 'v \<Rightarrow> bool" and live :: "'v \<Rightarrow> bool"
  assumes live_backwards: "ev i i' \<Longrightarrow> live i' \<Longrightarrow> live i"
    and rival_stable: "ev i i' \<Longrightarrow> ev j j' \<Longrightarrow> rival i' j' \<longleftrightarrow> rival i j"
    and rival_sym: "rival i j \<Longrightarrow> rival j i"
begin

lemma evolve_no_rivals:
  assumes "evolve_step ev P P'" "no_rivals rival live P"
  shows "no_rivals rival live P'"
  unfolding no_rivals_def
proof (intro allI impI)
  fix j k a' b'
  assume *: "P' j = Some a'" "P' k = Some b'" "rival a' b'" "live a'" "live b'"
  from evolve_step_get(1)[OF assms(1) *(1)] evolve_step_get(1)[OF assms(1) *(2)]
  obtain a b where "P j = Some a" "ev a a'" "P k = Some b" "ev b b'" by blast
  with * assms(2) live_backwards rival_stable show "j = k" unfolding no_rivals_def by blast
qed

lemma admit_no_rivals:
  assumes "admit_step fresh rival live P P'" "no_rivals rival live P"
  shows "no_rivals rival live P'"
proof -
  obtain k i where P': "P k = None" "P' = P(k \<mapsto> i)"
    and none: "\<And>j b. P j = Some b \<Longrightarrow> rival b i \<Longrightarrow> \<not> live b"
    using assms(1) unfolding admit_step_def by blast
  show ?thesis
    using assms(2) none rival_sym unfolding no_rivals_def P'(2) fun_upd_apply by (metis option.inject)
qed

lemma step_no_rivals:
  "store_step ev fresh rival live P P' \<Longrightarrow> no_rivals rival live P \<Longrightarrow> no_rivals rival live P'"
  unfolding store_step_def using evolve_no_rivals admit_no_rivals by metis

lemma step_evolves:
  assumes "store_step ev fresh rival live P P'" "P k = Some i"
  shows "\<exists>i'. P' k = Some i' \<and> ev i i'"
proof -
  obtain M where M: "evolve_step ev P M" "P' = M \<or> admit_step fresh rival live M P'"
    using assms(1) unfolding store_step_def by blast
  with evolve_step_get(2)[OF M(1) assms(2)] show ?thesis by (auto simp: admit_step_def)
qed

end

section \<open>What every implementation guarantees\<close>

locale intent_machine = intent_rules ev fresh rival live
  for ev :: "'v \<Rightarrow> 'v \<Rightarrow> bool" and fresh rival live +
  fixes step :: "'s \<Rightarrow> 's \<Rightarrow> bool" and view :: "'s \<Rightarrow> 'k \<Rightarrow> 'v option" and inv :: "'s \<Rightarrow> bool"
  assumes step_inv: "step s t \<Longrightarrow> inv s \<Longrightarrow> inv t"
    and step_view: "step s t \<Longrightarrow> inv s \<Longrightarrow> store_step ev fresh rival live (view s) (view t)"
begin

lemma steps_inv: "step\<^sup>*\<^sup>* s t \<Longrightarrow> inv s \<Longrightarrow> inv t"
  by (induction rule: rtranclp_induct) (auto intro: step_inv)

lemma steps_no_rivals:
  assumes "step\<^sup>*\<^sup>* s t" "inv s" "no_rivals rival live (view s)"
  shows "no_rivals rival live (view t)"
  using assms
proof (induction rule: rtranclp_induct)
  case (step t u)
  then show ?case
    using step_no_rivals[OF step_view[OF step.hyps(2) steps_inv[OF step.hyps(1)]]] by simp
qed

lemma steps_evolve:
  assumes "step\<^sup>*\<^sup>* s t" "inv s" "view s k = Some i"
  shows "\<exists>i'. view t k = Some i' \<and> ev\<^sup>*\<^sup>* i i'"
  using assms
proof (induction rule: rtranclp_induct)
  case base
  then show ?case by blast
next
  case (step t u)
  then obtain j where j: "view t k = Some j" "ev\<^sup>*\<^sup>* i j" by blast
  with step_evolves[OF step_view[OF step.hyps(2) steps_inv[OF step.hyps(1) step.prems(1)]] j(1)]
  show ?case by (blast intro: rtranclp.rtrancl_into_rtrancl)
qed

end

end
