(* ===== verification/Payment_Machine.thy ===== *)
theory Payment_Machine
  imports Payment_Safety Intent_Machine
begin

text \<open>
  The abstract specification of the payment store, and the refinement of the payment service to
  it. Abstractly a store is a map from payment ids to payments, and a step lets every payment
  evolve along its life cycle and then may admit one fresh prepared payment, provided no
  unfailed payment answers the same seller request. What follows from that alone (terminal
  payments are final, a seller request has one live or settled payment) comes from the locale
  \<open>intent_machine\<close> through its interpretation on the service.
\<close>

section \<open>The specification\<close>

type_synonym payment_store = "string \<Rightarrow> PaymentIntent option"

definition same_request :: "PaymentIntent \<Rightarrow> PaymentIntent \<Rightarrow> bool" where
  "same_request a b \<longleftrightarrow> pay_seller a = pay_seller b \<and> pay_sellerRequestId a = pay_sellerRequestId b"

abbreviation live_payment :: "PaymentIntent \<Rightarrow> bool" where
  "live_payment i \<equiv> pay_status i \<in> LIVE_OR_SETTLED_STATUSES"

abbreviation prepared_payment :: "PaymentIntent \<Rightarrow> bool" where
  "prepared_payment i \<equiv> pay_status i = pay_prepared"

abbreviation machine_step :: "payment_store \<Rightarrow> payment_store \<Rightarrow> bool" where
  "machine_step \<equiv> store_step evolves prepared_payment same_request live_payment"

abbreviation one_live :: "payment_store \<Rightarrow> bool" where
  "one_live \<equiv> no_rivals same_request live_payment"

lemma live_prepared [simp]: "pay_prepared \<in> LIVE_OR_SETTLED_STATUSES"
  by (simp add: LIVE_OR_SETTLED_STATUSES_def)

lemma payment_live_backwards: "evolves i i' \<Longrightarrow> live_payment i' \<Longrightarrow> live_payment i"
  by (cases "pay_status i") (auto simp: evolves_def status_next_def LIVE_OR_SETTLED_STATUSES_def)

lemma evolves_same_request:
  "evolves i i' \<Longrightarrow> evolves j j' \<Longrightarrow> same_request i' j' \<longleftrightarrow> same_request i j"
  using content_eq(2,3) unfolding evolves_def same_request_def by metis

text \<open>Along any number of steps.\<close>

lemma evolves_star:
  assumes "evolves\<^sup>*\<^sup>* i i'"
  shows "content i' = content i \<and>
    (paymentHoldsSettlementReservation i' \<longrightarrow> paymentHoldsSettlementReservation i) \<and>
    (\<not> paymentHoldsSettlementReservation i \<longrightarrow> i' = i)"
  using assms by (induction rule: rtranclp_induct) (auto simp: evolves_def)

section \<open>The service refines the specification\<close>

lemma evolve_progress: "progress L L' \<longleftrightarrow> evolve_step evolves (getPayment L) (getPayment L')"
  by (simp add: progress_def evolve_step_def)

text \<open>A request that \<open>existingPayment\<close> does not answer has no live or settled payment.\<close>

lemma terminal_failed_not_live:
  "isTerminalFailedPaymentStatus s \<longleftrightarrow> s \<notin> LIVE_OR_SETTLED_STATUSES"
  by (cases s) (simp_all add: isTerminalFailedPaymentStatus_def LIVE_OR_SETTLED_STATUSES_def)

lemma existing_none:
  assumes ok: "ledger_ok L" and none: "existingPayment L q = Inr None"
    and b: "getPayment L k = Some b" "pay_paymentId b = k"
      "pay_seller b = pr_seller q" "pay_sellerRequestId b = pr_sellerRequestId q"
  shows "pay_status b \<notin> LIVE_OR_SETTLED_STATUSES"
proof (cases "findPaymentBySellerRequest L (pr_seller q) (pr_sellerRequestId q)")
  case None
  then have "seller_request_payments L (pr_seller q) (pr_sellerRequestId q) = {}"
    using find_payment_none[OF ok] by simp
  then show ?thesis using b by (auto simp: seller_request_payments_def)
next
  case (Some p)
  have "b \<in> seller_request_payments L (pr_seller q) (pr_sellerRequestId q)"
    using b by (simp add: seller_request_payments_def)
  moreover have "pay_status p \<notin> LIVE_OR_SETTLED_STATUSES"
    using none Some by (auto simp: existingPayment_def terminal_failed_not_live split: if_splits)
  ultimately show ?thesis using find_payment_some[OF ok Some] by blast
qed

lemma admits_machine:
  assumes "admits L N"
  shows "machine_step (getPayment L) (getPayment N)"
proof (cases "progress L N")
  case True
  then show ?thesis by (auto simp: store_step_def evolve_progress)
next
  case False
  then obtain M q i where M: "progress L M" "ledger_ok M" "existingPayment M q = Inr None"
    and i: "getPayment M (pay_paymentId i) = None" "pay_status i = pay_prepared"
      "pay_seller i = pr_seller q" "pay_sellerRequestId i = pr_sellerRequestId q"
      "getPayment N = (getPayment M)(pay_paymentId i \<mapsto> i)"
    using assms by (auto simp: admits_def)
  have "pay_status b \<notin> LIVE_OR_SETTLED_STATUSES"
    if "getPayment M j = Some b" "same_request b i" for j b
    using existing_none[OF M(2,3) that(1) payments_keyed[OF M(2) that(1)]] that(2) i(3,4)
    by (simp add: same_request_def)
  then have "admit_step prepared_payment same_request live_payment (getPayment M) (getPayment N)"
    unfolding admit_step_def using i by blast
  then show ?thesis using M(1) by (auto simp: store_step_def evolve_progress)
qed

section \<open>A seller request is bound to one request\<close>

text \<open>Payments of one seller request that were prepared for different requests.\<close>

definition rebound :: "PaymentIntent \<Rightarrow> PaymentIntent \<Rightarrow> bool" where
  "rebound a b \<longleftrightarrow> same_request a b \<and> pay_requestBindingHash a \<noteq> pay_requestBindingHash b"

abbreviation any_payment :: "PaymentIntent \<Rightarrow> bool" where
  "any_payment i \<equiv> True"

abbreviation one_binding :: "payment_store \<Rightarrow> bool" where
  "one_binding \<equiv> no_rivals rebound any_payment"

lemma evolves_rebound:
  assumes "evolves i i'" "evolves j j'"
  shows "rebound i' j' \<longleftrightarrow> rebound i j"
  using evolves_same_request[OF assms] assms content_eq(6) unfolding evolves_def rebound_def by metis

interpretation binding: intent_rules evolves prepared_payment rebound any_payment
proof
  show "rebound i j \<Longrightarrow> rebound j i" for i j by (auto simp: rebound_def same_request_def)
qed (simp_all add: evolves_rebound)

text \<open>A request that \<open>existingPayment\<close> does not answer has only payments of the same binding.\<close>

lemma existing_none_binding:
  assumes ok: "ledger_ok L" and none: "existingPayment L q = Inr None" and one: "one_binding (getPayment L)"
    and b: "getPayment L k = Some b" "pay_seller b = pr_seller q" "pay_sellerRequestId b = pr_sellerRequestId q"
  shows "pay_requestBindingHash b = pr_requestBindingHash q"
proof (cases "findPaymentBySellerRequest L (pr_seller q) (pr_sellerRequestId q)")
  case None
  then have "seller_request_payments L (pr_seller q) (pr_sellerRequestId q) = {}"
    using find_payment_none[OF ok] by simp
  then show ?thesis using b payments_keyed[OF ok b(1)] by (auto simp: seller_request_payments_def)
next
  case (Some p)
  then have p: "pay_requestBindingHash p = pr_requestBindingHash q"
    using none by (auto simp: existingPayment_def split: if_splits)
  have "p \<in> seller_request_payments L (pr_seller q) (pr_sellerRequestId q)"
    using find_payment_cases[OF ok, of "pr_seller q" "pr_sellerRequestId q"] Some by simp
  then have p': "getPayment L (pay_paymentId p) = Some p" "same_request b p"
    using b by (auto simp: seller_request_payments_def same_request_def)
  show ?thesis
  proof (rule ccontr)
    assume "pay_requestBindingHash b \<noteq> pr_requestBindingHash q"
    then have "rebound b p" using p p'(2) by (simp add: rebound_def)
    then have "k = pay_paymentId p" using one b(1) p'(1) unfolding no_rivals_def by blast
    then show False using b(1) p p'(1) \<open>rebound b p\<close> by (simp add: rebound_def)
  qed
qed

lemma admits_binding:
  assumes "admits L N" "one_binding (getPayment L)"
  shows "one_binding (getPayment N)"
proof (cases "progress L N")
  case True
  then show ?thesis using binding.evolve_no_rivals assms(2) by (simp add: evolve_progress)
next
  case False
  then obtain M q i where M: "progress L M" "ledger_ok M" "existingPayment M q = Inr None"
    and i: "getPayment M (pay_paymentId i) = None" "pay_status i = pay_prepared"
      "pay_seller i = pr_seller q" "pay_sellerRequestId i = pr_sellerRequestId q"
      "pay_requestBindingHash i = pr_requestBindingHash q"
      "getPayment N = (getPayment M)(pay_paymentId i \<mapsto> i)"
    using assms by (auto simp: admits_def)
  have one: "one_binding (getPayment M)"
    using binding.evolve_no_rivals M(1) assms(2) by (simp add: evolve_progress)
  have "\<not> rebound b i" if "getPayment M j = Some b" for j b
    using existing_none_binding[OF M(2,3) one that] i(3,4,5) by (auto simp: rebound_def same_request_def)
  then have "admit_step prepared_payment rebound any_payment (getPayment M) (getPayment N)"
    unfolding admit_step_def using i by blast
  then show ?thesis using one by (rule binding.admit_no_rivals)
qed

interpretation service: intent_machine evolves prepared_payment same_request live_payment
  "\<lambda>L L'. fees_nonneg E \<and> payment_step E L L'" getPayment reservations_balanced for E
proof
  show "same_request i j \<Longrightarrow> same_request j i" for i j by (simp add: same_request_def)
qed (auto intro: step_balanced admits_machine step_admits payment_live_backwards simp: evolves_same_request)

lemma service_content:
  assumes "(\<lambda>L L'. fees_nonneg E \<and> payment_step E L L')\<^sup>*\<^sup>* L L'" "reservations_balanced L"
    and "getPayment L k = Some i"
  shows "\<exists>i'. getPayment L' k = Some i' \<and> content i' = content i \<and>
    (paymentHoldsSettlementReservation i' \<longrightarrow> paymentHoldsSettlementReservation i) \<and>
    (\<not> paymentHoldsSettlementReservation i \<longrightarrow> i' = i)"
  using service.steps_evolve[OF assms] evolves_star by blast

lemma service_steps:
  assumes "payment_steps E L L'" "fees_nonneg E"
  shows "(\<lambda>L L'. fees_nonneg E \<and> payment_step E L L')\<^sup>*\<^sup>* L L'"
  using assms by (simp add: assms(2))

lemma steps_one_binding:
  assumes "payment_steps E L L'" "fees_nonneg E" "reservations_balanced L" "one_binding (getPayment L)"
  shows "one_binding (getPayment L')"
  using assms(1)
proof (induction rule: rtranclp_induct)
  case (step M N)
  have "reservations_balanced M" using steps_balanced[OF step.hyps(1) assms(3,2)] .
  then show ?case using admits_binding[OF step_admits[OF step.hyps(2)] step.IH] by simp
qed (rule assms(4))

end
