(* ===== verification/Payment_Run.thy ===== *)
theory Payment_Run
  imports Payment_Machine
begin

text \<open>
  A complete run of the payment service on the sample configuration, evaluated in the kernel: a
  wallet registers, its position is synced, and a payment is prepared. The witnesses of the
  properties about reachable ledgers start from it.
\<close>

definition run_registration :: RegisterAgentWalletInput where
  "run_registration = \<lparr>ra_wallet = sample_wallet, ra_signingPolicyId = ''policy'', ra_signingMode = None,
     ra_signerValidationMode = None, ra_signerProvider = Some ''privy'', ra_safetyBufferRawUsdc = None,
     ra_activateForPayments = True\<rparr>"

definition run_sync :: SyncWalletPositionInput where
  "run_sync = \<lparr>sy_wallet = sample_wallet, sy_vault = None, sy_expectedPositionVersion = None,
     sy_stakedSharesRaw = None, sy_unstakedSharesRaw = None, sy_totalSharesRaw = ''2000000'',
     sy_exchangeRateScaled = ''1000000000000'', sy_instantRedeemCapacityRawUsdc = ''5000000'',
     sy_principalBasisRawUsdc = Some ''1000000'', sy_principalBasisSource = Some subly_receipts,
     sy_kaminoPnlSnapshot = None, sy_observedSlot = None, sy_sourceEndpoint = None,
     sy_forceConservativeReset = False\<rparr>"

definition run_input :: PreparePaymentInput where
  "run_input = \<lparr>pi_wallet = sample_wallet, pi_scheme = None, pi_network = None, pi_vault = None,
     pi_shareMint = None, pi_asset = sample_mint, pi_seller = sample_seller,
     pi_sellerRequestId = ''req_1'', pi_httpMethod = ''get'',
     pi_canonicalResourceUrl = ''https://seller.example/'', pi_requestBodyHash = None,
     pi_amountRawUsdc = ''1000'', pi_payTo = sample_seller, pi_sellerUsdcAta = sample_seller,
     pi_dustRecipientUsdcAta = sample_wallet\<rparr>"

definition run_registered :: WalletPosition where
  "run_registered = initialPosition sample_env sample_wallet run_registration 0"

definition run_synced :: WalletPosition where
  "run_synced = run_registered\<lparr>pos_stakedSharesRaw := 0, pos_unstakedSharesRaw := 2000000,
     pos_totalSharesRaw := 2000000, pos_exchangeRateScaled := 1000000000000,
     pos_instantRedeemCapacityRawUsdc := 5000000, pos_principalBasisRawUsdc := 1000000,
     pos_principalBasisSource := subly_receipts, pos_version := 2\<rparr>"

lemma base58_digits: "BASE58_LOOKUP CHR ''1'' = Some 0" "BASE58_LOOKUP CHR ''2'' = Some 1"
  "BASE58_LOOKUP CHR ''3'' = Some 2" "BASE58_LOOKUP CHR ''4'' = Some 3" "BASE58_LOOKUP CHR ''5'' = Some 4"
  by code_simp+

lemma base58_padded [simp]: "base58_value (replicate n (CHR ''1'') @ s) 0 = base58_value s 0"
  by (induction n) (simp_all add: base58_digits)

lemma bytes_le_small [simp]: "0 < d \<Longrightarrow> d < 256 \<Longrightarrow> bytes_le d = [d]"
  by (simp add: bytes_le.simps)

lemma padded_address:
  assumes "BASE58_LOOKUP c = Some d" "0 < d" "d < 256" "c \<noteq> CHR ''1''"
  shows "valid_address (replicate 31 (CHR ''1'') @ [c])"
proof -
  have "takeWhile (\<lambda>c. c = CHR ''1'') (replicate 31 (CHR ''1'') @ [c]) = replicate 31 (CHR ''1'')"
    using assms(4) by (subst takeWhile_append2) auto
  then show ?thesis
    using assms by (simp add: valid_address_def decodeBase58_def)
qed

lemma run_addresses [simp]:
  "valid_address sample_wallet" "valid_address sample_seller" "sample_seller \<noteq> sample_wallet"
  using padded_address[OF base58_digits(2)] padded_address[OF base58_digits(3)]
  by (simp_all add: sample_address_defs)

lemma run_numbers [simp]:
  "parseRawUnits (JsStr ''2000000'') f = Inr 2000000"
  "parseRawUnits (JsStr ''1000000000000'') f = Inr 1000000000000"
  "parseRawUnits (JsStr ''5000000'') f = Inr 5000000"
  "parseRawUnits (JsStr ''1000000'') f = Inr 1000000" "parseRawUnits (JsStr ''1000'') f = Inr 1000"
  by (simp_all add: parseRawUnits_def is_digit_def BigInt_def digit_value_def)

lemma run_register: "snd (registerAgentWallet sample_env run_registration empty_ledger) = savePosition run_registered empty_ledger"
  by (simp add: registerAgentWallet_def action_defs run_registration_def run_registered_def Let_def)


lemma run_registered_simps [simp]:
  "pos_wallet run_registered = sample_wallet" "pos_vault run_registered = sample_vault"
  "pos_totalSharesRaw run_registered = 0" "pos_stakedSharesRaw run_registered = 0"
  "pos_principalBasisSource run_registered = basis_empty" "pos_principalBasisRawUsdc run_registered = 0"
  "pos_lastSyncedSlot run_registered = None" "pos_version run_registered = 1"
  "pos_reservedRawUsdc run_registered = 0" "pos_status run_registered = pos_active"
  "pos_kaminoPnlSnapshot run_registered = []"
  by (simp_all add: run_registered_def initialPosition_def run_registration_def sample_vault_config_def)

lemma run_sync_snapshot:
  "parseSyncSnapshot run_registered run_sync = Inr \<lparr>sn_totalSharesRaw = 2000000, sn_stakedSharesRaw = 0,
     sn_unstakedSharesRaw = 2000000, sn_exchangeRateScaled = 1000000000000,
     sn_instantRedeemCapacityRawUsdc = 5000000, sn_currentPositionValueRawUsdc = 2000000,
     sn_providedPrincipal = Some 1000000\<rparr>"
  by (simp add: parseSyncSnapshot_def run_sync_def parsePositiveRawUnits_def checkR_def
      computePositionValueRawUsdc_def mulDivFloor_def RATE_SCALE_def)

lemma run_sync_simps [simp]:
  "sy_wallet run_sync = sample_wallet" "sy_vault run_sync = None" "sy_expectedPositionVersion run_sync = None"
  "sy_observedSlot run_sync = None" "\<not> sy_forceConservativeReset run_sync"
  "sy_principalBasisSource run_sync = Some subly_receipts" "sy_kaminoPnlSnapshot run_sync = None"
  by (simp_all add: run_sync_def)

lemma empty_lists [simp]:
  "listDepositsForPosition empty_ledger w v = []" "listWithdrawalsForPosition empty_ledger w v = []"
  "listPaymentsForPosition empty_ledger w v = []"
  by (simp_all add: listDepositsForPosition_def listWithdrawalsForPosition_def listPaymentsForPosition_def
      empty_ledger_def map_values_def)

lemma run_synced_position:
  "syncedPosition run_registered run_sync \<lparr>sn_totalSharesRaw = 2000000, sn_stakedSharesRaw = 0,
     sn_unstakedSharesRaw = 2000000, sn_exchangeRateScaled = 1000000000000,
     sn_instantRedeemCapacityRawUsdc = 5000000, sn_currentPositionValueRawUsdc = 2000000,
     sn_providedPrincipal = Some 1000000\<rparr> False 1000000 = run_synced"
  by (rule WalletPosition.equality) (simp_all add: syncedPosition_def run_synced_def)

lemma run_synced:
  "\<exists>e. snd (syncWalletPosition sample_env 0 ''e1'' run_sync (savePosition run_registered empty_ledger))
     = recordSyncEvent 0 ''e1'' e (savePosition run_synced (savePosition run_registered empty_ledger))"
  by (simp add: syncWalletPosition_def syncLockedPosition_def action_defs Let_def staleSnapshot_def
      runConservativeReset_def hasEstablishedBaseline_def externalDepositFloorRawUsdc_def
      nextPrincipalBasisRawUsdc_def run_sync_snapshot sample_vault_config_def
      maxBigInt_def run_synced_position split: sum.splits) (rule exI, rule refl)

definition run_request :: PaymentRequest where
  "run_request = \<lparr>pr_wallet = sample_wallet, pr_vault = sample_vault, pr_scheme = PAYMENT_SCHEME,
     pr_network = SOLANA_MAINNET_NETWORK, pr_requestBodyHash = EMPTY_BODY_HASH, pr_amountRawUsdc = 1000,
     pr_asset = sample_mint, pr_seller = sample_seller, pr_sellerRequestId = ''req_1'',
     pr_payTo = sample_seller, pr_sellerUsdcAta = sample_seller, pr_dustRecipientUsdcAta = sample_wallet,
     pr_httpMethod = ''GET'', pr_canonicalResourceUrl = ''https://seller.example/'',
     pr_requestBindingHash = computeRequestBindingHash (\<lambda>s. s)
       \<lparr>rb_sellerRequestId = ''req_1'', rb_httpMethod = ''GET'',
        rb_canonicalResourceUrl = ''https://seller.example/'', rb_requestBodyHash = EMPTY_BODY_HASH,
        rb_seller = sample_seller, rb_asset = sample_mint, rb_amountRawUsdc = toString 1000,
        rb_payTo = sample_seller, rb_sellerUsdcAta = sample_seller\<rparr>\<rparr>"

lemma run_checked: "checkPaymentRequest sample_env run_input = Inr run_request"
proof -
  have "tagged_sha256 EMPTY_BODY_HASH" by code_simp
  moreover have "toUpperCase ''get'' = ''GET''" by code_simp
  ultimately show ?thesis
    by (simp add: checkPaymentRequest_def run_input_def run_request_def parsePositiveRawUnits_def
        assertExpectedPaymentRequirement_def assertCanonicalResourceUrl_def checkR_def Let_def
        sample_vault_config_def normalizeRequestBodyHash_def sample_env_def)
qed

definition run_eval :: PaymentBudgetEvaluation where
  "run_eval = \<lparr>be_budget = \<lparr>bs_positionValueRawUsdc = 2000000, bs_grossYieldRawUsdc = 1000000,
       bs_spendableYieldRawUsdc = 1000000\<rparr>, be_requiredBudgetRawUsdc = 1100,
     be_requiredWithdrawRawUsdc = 1000, be_sharesToRedeemRaw = 1000,
     be_postPositionValueRawUsdc = 1999000, be_reservationRawUsdc = 1100\<rparr>"

lemma run_synced_simps [simp]:
  "pos_wallet run_synced = sample_wallet" "pos_vault run_synced = sample_vault"
  "pos_totalSharesRaw run_synced = 2000000" "pos_principalBasisRawUsdc run_synced = 1000000"
  "pos_exchangeRateScaled run_synced = 1000000000000" "pos_reservedRawUsdc run_synced = 0"
  "pos_instantRedeemCapacityRawUsdc run_synced = 5000000" "pos_feeDebtRawUsdc run_synced = 0"
  "pos_safetyBufferRawUsdc run_synced = 0" "pos_status run_synced = pos_active"
  "pos_signingPolicyId run_synced = Some ''policy''" "pos_signingMode run_synced = non_interactive"
  "pos_signerProvider run_synced = ''privy''" "pos_version run_synced = 2"
  by (simp_all add: run_synced_def) (simp_all add: run_registered_def initialPosition_def run_registration_def)

lemma run_evaluated: "evaluatePaymentBudget run_synced 1000 100 None (Some 0) = Inr (BudgetOk run_eval)"
  by (simp add: evaluatePaymentBudget_def computeBudgetSnapshot_def computePositionValueRawUsdc_def
      mulDivFloor_def RATE_SCALE_def Let_def sharesToRedeemRaw_def ceilDiv_def run_eval_def clampToZero_def)

lemma run_request_simps [simp]:
  "pr_wallet run_request = sample_wallet" "pr_vault run_request = sample_vault"
  "pr_seller run_request = sample_seller" "pr_amountRawUsdc run_request = 1000"
  "pr_sellerRequestId run_request = ''req_1''"
  by (simp_all add: run_request_def)

lemma raw_Inr: "0 \<le> v \<Longrightarrow> raw v = Inr (JString (toString v))"
  by (simp add: raw_def rawUnitsToString_def)

lemma run_intent_json: "\<exists>j. paymentIntentJson sample_env run_request k t 1000 sample_prepared = Inr j"
  by (simp add: paymentIntentJson_def objR_def raw_Inr)

lemma run_budget_json: "\<exists>j. serializeBudget run_synced = Inr j"
proof -
  have "\<exists>j. serializeWalletPosition run_synced = Inr j"
    by (simp add: serializeWalletPosition_def objR_def raw_Inr)
       (simp add: run_synced_def raw_Inr)
  then show ?thesis
    by (auto simp: serializeBudget_def objR_def computeBudgetSnapshot_def computePositionValueRawUsdc_def
        mulDivFloor_def RATE_SCALE_def Let_def clampToZero_def raw_Inr)
qed

lemma run_sync_returns:
  "\<exists>j L'. syncWalletPosition sample_env 0 ''e1'' run_sync (savePosition run_registered empty_ledger) = (Inr j, L')"
proof -
  obtain j where "serializeBudget run_synced = Inr j" using run_budget_json by blast
  then show ?thesis
    by (simp add: syncWalletPosition_def syncLockedPosition_def action_defs Let_def staleSnapshot_def
        runConservativeReset_def hasEstablishedBaseline_def externalDepositFloorRawUsdc_def
        nextPrincipalBasisRawUsdc_def run_sync_snapshot sample_vault_config_def
        maxBigInt_def run_synced_position)
qed

lemma run_prepared_valid: "assertPreparedSettlementTransaction sample_env sample_prepared = Inr ()"
proof -
  have "tagged_sha256 sample_hash" by code_simp
  then show ?thesis
    by (simp add: assertPreparedSettlementTransaction_def sample_prepared_def sample_env_def checkR_def MAX_SAFE_INTEGER_def)
qed

text \<open>The first prepare on a ledger that holds the synced position and nothing else of interest.\<close>

definition run_ready :: "ledger \<Rightarrow> bool" where
  "run_ready L \<longleftrightarrow> getPosition L sample_wallet sample_vault = Some run_synced \<and> led_payments L = [] \<and>
     led_deposits L = [] \<and> led_withdrawals L = [] \<and> led_liquidityPolicies L = []"

lemma run_prepare_on:
  assumes "getPosition L sample_wallet sample_vault = Some run_synced" "led_payments L = []"
    and "led_liquidityPolicies L = []" "pendingVaultFlows now L sample_wallet sample_vault = 0"
  shows "\<exists>j intentJson. let i = newPaymentIntent run_request ''policy'' run_synced (''pay_'' @ uuid)
        (toISOString (now + 120000)) \<lparr>fe_estimatedFeeLamports = 5000, fe_estimatedFeeDebtRawUsdc = 100\<rparr>
        run_eval 1000 sample_prepared intentJson
      in preparePayment sample_env now uuid evUuid run_input L = (Inr j,
        savePayment i (savePosition (run_synced\<lparr>pos_reservedRawUsdc := 1100, pos_version := 3\<rparr>) L))"
proof -
  have lists: "listPaymentsForPosition L w v = []" for w v
    using assms by (simp_all add: listPaymentsForPosition_def map_values_def)
  obtain intentJson where intent: "paymentIntentJson sample_env run_request (''pay_'' @ uuid)
      (toISOString (now + 120000)) 1000 sample_prepared = Inr intentJson" using run_intent_json by blast
  let ?i = "newPaymentIntent run_request ''policy'' run_synced (''pay_'' @ uuid)
        (toISOString (now + 120000)) \<lparr>fe_estimatedFeeLamports = 5000, fe_estimatedFeeDebtRawUsdc = 100\<rparr>
        run_eval 1000 sample_prepared intentJson"
  obtain j where j: "serializePaymentIntent ?i = Inr j"
    by (simp add: serializePaymentIntent_def objR_def newPaymentIntent_def raw_Inr run_eval_def Let_def)
  have pre: "expirePreparedPaymentsForLockedPosition now sample_wallet sample_vault L = (Inr (Some run_synced), L)"
    using assms by (simp add: expirePreparedPaymentsForLockedPosition_def expiredPreparedPayments_def
        lists action_defs)
  have none: "existingPayment L run_request = Inr None" "sellerLiquidityPolicy L s v = None" "activeWithdrawReservedRawUsdc L w v = 0" for w v s
    using assms by (simp_all add: existingPayment_def findPaymentBySellerRequest_def map_values_def lists sellerLiquidityPolicy_def getLiquidityPolicy_def map_get_def
        activeWithdrawReservedRawUsdc_def)
  have payable: "requirePayablePosition sample_env (getPosition L sample_wallet sample_vault) = Inr (run_synced, ''policy'')"
    using assms by (simp add: requirePayablePosition_def)
  have "commitPreparedPayment sample_env now uuid run_request ''policy'' run_synced None
      \<lparr>fe_estimatedFeeLamports = 5000, fe_estimatedFeeDebtRawUsdc = 100\<rparr> run_eval L
    = (Inr j, savePayment ?i (savePosition (run_synced\<lparr>pos_reservedRawUsdc := 1100, pos_version := 3\<rparr>) L))"
    using intent j run_prepared_valid
    by (simp add: commitPreparedPayment_def action_defs Let_def sample_env_def run_eval_def sample_prepared_def)
  then have "prepareLockedPayment sample_env now uuid evUuid run_request L
    = (Inr j, savePayment ?i (savePosition (run_synced\<lparr>pos_reservedRawUsdc := 1100, pos_version := 3\<rparr>) L))"
    using pre none payable run_evaluated assms(4)
    by (simp add: prepareLockedPayment_def evaluateAndCommit_def quoteWorkingPosition_def action_defs
        checkLiquidityPolicy_def checkR_def belowMinimumLiquidity_def)
  then show ?thesis
    by (auto simp: preparePayment_def run_checked action_defs Let_def)
qed

lemma run_prepare:
  assumes "run_ready L"
  shows "\<exists>j intentJson. let i = newPaymentIntent run_request ''policy'' run_synced (''pay_'' @ uuid)
        (toISOString (now + 120000)) \<lparr>fe_estimatedFeeLamports = 5000, fe_estimatedFeeDebtRawUsdc = 100\<rparr>
        run_eval 1000 sample_prepared intentJson
      in preparePayment sample_env now uuid evUuid run_input L = (Inr j,
        savePayment i (savePosition (run_synced\<lparr>pos_reservedRawUsdc := 1100, pos_version := 3\<rparr>) L))"
  using assms by (intro run_prepare_on) (simp_all add: run_ready_def pendingVaultFlows_def
      listDepositsForPosition_def listWithdrawalsForPosition_def map_values_def)

text \<open>The whole run: the ledger it reaches holds one prepared payment and its reservation.\<close>

lemma fees_sample [simp]: "fees_nonneg sample_env"
  by (auto simp: fees_nonneg_def)

lemma run_ready_synced:
  "run_ready (recordSyncEvent 0 ''e1'' e (savePosition run_synced (savePosition run_registered empty_ledger)))"
  by (simp add: run_ready_def recordSyncEvent_def saveSyncEvent_def savePosition_def getPosition_def empty_ledger_def)

lemma run_reachable:
  "\<exists>L i j. payment_steps sample_env empty_ledger L \<and> getPayment L ''pay_1'' = Some i \<and>
     pay_status i = pay_prepared \<and> held i = 1100 \<and> same_request i sample_payment \<and>
     getPosition L sample_wallet sample_vault = Some (run_synced\<lparr>pos_reservedRawUsdc := 1100, pos_version := 3\<rparr>) \<and>
     pay_expiresAt i = AtMs 120000 \<and>
     (\<exists>M. run_ready M \<and> getPayment M ''pay_1'' = None \<and> reservations_balanced M \<and> one_live (getPayment M) \<and>
        preparePayment sample_env 0 ''1'' ''e2'' run_input M = (Inr j, L) \<and>
        L = savePayment i (savePosition (run_synced\<lparr>pos_reservedRawUsdc := 1100, pos_version := 3\<rparr>) M))"
proof -
  obtain e where e: "snd (syncWalletPosition sample_env 0 ''e1'' run_sync (savePosition run_registered empty_ledger))
     = recordSyncEvent 0 ''e1'' e (savePosition run_synced (savePosition run_registered empty_ledger))"
    using run_synced by blast
  let ?M = "recordSyncEvent 0 ''e1'' e (savePosition run_synced (savePosition run_registered empty_ledger))"
  have M: "payment_steps sample_env empty_ledger ?M"
    using step_register[of sample_env empty_ledger run_registration]
      step_sync[of sample_env "savePosition run_registered empty_ledger" 0 "''e1''" run_sync]
    unfolding run_register e by (meson r_into_rtranclp rtranclp.rtrancl_into_rtrancl)
  have fresh: "getPayment ?M ''pay_1'' = None" by simp
  obtain j intentJson where prep: "preparePayment sample_env 0 ''1'' ''e2'' run_input ?M = (Inr j,
        savePayment (newPaymentIntent run_request ''policy'' run_synced ''pay_1''
        (toISOString 120000) \<lparr>fe_estimatedFeeLamports = 5000, fe_estimatedFeeDebtRawUsdc = 100\<rparr>
        run_eval 1000 sample_prepared intentJson)
        (savePosition (run_synced\<lparr>pos_reservedRawUsdc := 1100, pos_version := 3\<rparr>) ?M))"
    using run_prepare[OF run_ready_synced, of "''1''" 0 "''e2''" e] by (auto simp: Let_def)
  let ?i = "newPaymentIntent run_request ''policy'' run_synced ''pay_1''
        (toISOString 120000) \<lparr>fe_estimatedFeeLamports = 5000, fe_estimatedFeeDebtRawUsdc = 100\<rparr>
        run_eval 1000 sample_prepared intentJson"
  let ?L = "savePayment ?i (savePosition (run_synced\<lparr>pos_reservedRawUsdc := 1100, pos_version := 3\<rparr>) ?M)"
  have L: "payment_steps sample_env empty_ledger ?L"
    using M step_prepare[of ?M "''1''" sample_env 0 "''e2''" run_input] fresh
    unfolding prep by (simp add: rtranclp.rtrancl_into_rtrancl)
  have i: "pay_status ?i = pay_prepared" "held ?i = 1100" "same_request ?i sample_payment"
    "pay_expiresAt ?i = AtMs 120000"
    by (simp_all add: newPaymentIntent_def held_def paymentHoldsSettlementReservation_def run_eval_def
        same_request_def sample_payment_def toISOString_def)
  have M': "reservations_balanced ?M" "one_live (getPayment ?M)" "run_ready ?M"
    using steps_balanced[OF M balanced_empty] run_ready_synced by (simp_all add: no_rivals_def)
  show ?thesis
    by (rule exI[of _ ?L], rule exI[of _ ?i], rule exI[of _ j])
      (use L i M' fresh prep in \<open>auto intro!: exI[of _ ?M]\<close>)
qed

end
