(* ===== verification/Payment_Outcomes.thy ===== *)
theory Payment_Outcomes
  imports Payment_Run
begin

text \<open>
  What the handlers of the payment service do to the accounts: preparing keeps the principal
  covered and can be retried, settling books exactly the result, syncing is conservative; and
  two places where the code does not do what its comments promise.
\<close>

section \<open>Properties of the payment service\<close>

text \<open>
  C8: every step of the payment service (a locked section of a call with any arguments,
  returning or throwing, under either ledger) is a step of the abstract payment store: stored
  payments keep their content and follow the life cycle, finished ones do not change at all,
  and at most one fresh payment is admitted, for a seller request no unfailed payment answers.
\<close>

theorem step_refines_specification:
  assumes "payment_step E L L'" and "reservations_balanced L"
  shows "machine_step (getPayment L) (getPayment L')"
  by (rule admits_machine[OF step_admits[OF assms]])

lemma mark_example:
  "markPaymentSubmittedBeforeSend 5 ''pay_1'' (ledger_with sample_submission) = (Inr (),
     savePayment (sample_submission\<lparr>pay_status := pay_submitted, pay_submittedAt := Some (AtMs 5)\<rparr>)
       (ledger_with sample_submission))"
  by (simp add: markPaymentSubmittedBeforeSend_def action_defs sample_submission_def sample_payment_def
      toISOString_def)

lemma mark_step_example:
  "payment_step sample_env (ledger_with sample_submission)
     (savePayment (sample_submission\<lparr>pay_status := pay_submitted, pay_submittedAt := Some (AtMs 5)\<rparr>)
       (ledger_with sample_submission))"
  using step_mark[of sample_env "ledger_with sample_submission" 5 "''pay_1''"]
  by (simp add: mark_example)

theorem step_refines_specification_witness:
  "machine_step (getPayment (ledger_with sample_submission))
     (getPayment (savePayment (sample_submission\<lparr>pay_status := pay_submitted, pay_submittedAt := Some (AtMs 5)\<rparr>)
       (ledger_with sample_submission)))"
  by (rule step_refines_specification[OF mark_step_example]) simp

text \<open>
  C5: on every ledger the service can reach from an empty one, by any interleaving of
  any calls, the amount reserved on a position is exactly what the unfinished payments of that
  position hold: no reservation leaks and none is lost.
\<close>

theorem reservations_balanced_reachable:
  assumes "payment_steps E empty_ledger L" and "fees_nonneg E" and "plain w"
  shows "reserved L w v = held_total L w v"
  using steps_balanced[OF assms(1) balanced_empty assms(2)] assms(3)
  by (simp add: reservations_balanced_def)

theorem reservations_balanced_reachable_witness:
  "\<exists>L. payment_steps sample_env empty_ledger L \<and> reserved L sample_wallet sample_vault = 1100 \<and>
     held_total L sample_wallet sample_vault = 1100"
proof -
  obtain L where "payment_steps sample_env empty_ledger L"
    "getPosition L sample_wallet sample_vault = Some (run_synced\<lparr>pos_reservedRawUsdc := 1100, pos_version := 3\<rparr>)"
    using run_reachable by blast
  moreover from this have "reserved L sample_wallet sample_vault = 1100" by (simp add: reserved_def)
  ultimately show ?thesis
    using reservations_balanced_reachable[OF _ fees_sample plain_samples(1)] by metis
qed

text \<open>
  C1: on every reachable ledger a seller request has at most one payment that is not
  terminally failed, so no interleaving of calls pays the same seller request twice.
\<close>

theorem one_live_payment_per_seller_request:
  assumes "payment_steps E empty_ledger L" and "fees_nonneg E"
    and "getPayment L j = Some a" and "getPayment L k = Some b" and "same_request a b"
    and "pay_status a \<in> LIVE_OR_SETTLED_STATUSES" and "pay_status b \<in> LIVE_OR_SETTLED_STATUSES"
  shows "j = k"
proof -
  have "one_live (getPayment empty_ledger)" by (simp add: no_rivals_def)
  from service.steps_no_rivals[OF service_steps[OF assms(1,2)] balanced_empty this] assms(3-)
  show ?thesis unfolding no_rivals_def by blast
qed

theorem one_live_payment_per_seller_request_witness:
  "\<exists>L i. payment_steps sample_env empty_ledger L \<and> getPayment L ''pay_1'' = Some i \<and>
     (\<forall>k b. getPayment L k = Some b \<and> same_request i b \<and> pay_status b \<in> LIVE_OR_SETTLED_STATUSES \<longrightarrow> k = ''pay_1'')"
proof -
  obtain L i where L: "payment_steps sample_env empty_ledger L" "getPayment L ''pay_1'' = Some i"
    "pay_status i = pay_prepared"
    using run_reachable by blast
  then show ?thesis
    using one_live_payment_per_seller_request[OF L(1) fees_sample L(2)] by auto
qed

text \<open>
  C25: along any sequence of steps a stored payment is never dropped, its content (parties,
  amounts, binding, reservation, shares) never changes, a finished payment is frozen, and an
  unfinished one never comes out of a finished one.
\<close>

theorem payment_content_is_permanent:
  assumes "payment_steps E L L'" and "reservations_balanced L" and "fees_nonneg E"
    and "getPayment L k = Some i"
  shows "\<exists>i'. getPayment L' k = Some i' \<and> content i' = content i \<and>
    (paymentHoldsSettlementReservation i' \<longrightarrow> paymentHoldsSettlementReservation i) \<and>
    (\<not> paymentHoldsSettlementReservation i \<longrightarrow> i' = i)"
  by (rule service_content[OF service_steps[OF assms(1,3)] assms(2,4)])

theorem payment_content_is_permanent_witness:
  "\<exists>i'. getPayment (savePayment (sample_submission\<lparr>pay_status := pay_submitted, pay_submittedAt := Some (AtMs 5)\<rparr>)
       (ledger_with sample_submission)) ''pay_1'' = Some i' \<and> content i' = content sample_submission"
  using payment_content_is_permanent[OF r_into_rtranclp[of "payment_step sample_env", OF mark_step_example] _ fees_sample,
      of "''pay_1''" sample_submission]
  by fastforce

section \<open>Preparing\<close>

text \<open>
  The accounts of a position are covered when what its shares are worth pays for the principal,
  the safety buffer, everything reserved and every fee owed.
\<close>

definition position_value :: "WalletPosition \<Rightarrow> int" where
  "position_value p = pos_totalSharesRaw p * pos_exchangeRateScaled p div RATE_SCALE"

definition covered :: "WalletPosition \<Rightarrow> bool" where
  "covered p \<longleftrightarrow> pos_principalBasisRawUsdc p + pos_safetyBufferRawUsdc p + pos_reservedRawUsdc p
     + pos_feeDebtRawUsdc p \<le> position_value p"

definition commits :: "PaymentRequest \<Rightarrow> PaymentIntent \<Rightarrow> WalletPosition \<Rightarrow> bool" where
  "commits q i p \<longleftrightarrow> pay_status i = pay_prepared \<and>
     pay_wallet i = pr_wallet q \<and> pay_vault i = pr_vault q \<and> pay_seller i = pr_seller q \<and>
     pay_sellerRequestId i = pr_sellerRequestId q \<and> pay_requestBindingHash i = pr_requestBindingHash q \<and>
     pay_amountRawUsdc i = pr_amountRawUsdc q \<and> pay_payTo i = pr_payTo q \<and>
     pay_sellerUsdcAta i = pr_sellerUsdcAta q \<and>
     pay_reservationRawUsdc i = pay_requiredWithdrawRawUsdc i + pay_estimatedFeeDebtRawUsdc i \<and>
     pay_reservationRawUsdc i \<le> pay_spendableYieldBeforeRawUsdc i \<and>
     pos_status p = pos_active \<and> covered p"

lemma budget_covers:
  assumes "evaluatePaymentBudget p a fee wo ao = Inr (BudgetOk e)"
  shows "be_reservationRawUsdc e = be_requiredWithdrawRawUsdc e + fee"
    and "be_reservationRawUsdc e \<le> bs_spendableYieldRawUsdc (be_budget e)"
    and "covered (p\<lparr>pos_reservedRawUsdc := pos_reservedRawUsdc p + be_reservationRawUsdc e, pos_version := n\<rparr>)"
  using assms
  by (auto simp: budget_ok_iff Let_def covered_def position_value_def principal_covered_def snapshot_iff)

definition fresh_outcome :: "payment_env \<Rightarrow> int \<Rightarrow> string \<Rightarrow> PaymentRequest \<Rightarrow> json \<Rightarrow> ledger \<Rightarrow> bool" where
  "fresh_outcome E now k q j L' \<longleftrightarrow>
     (\<exists>i p. getPayment L' k = Some i \<and> serializePaymentIntent i = Inr j \<and>
        getPosition L' (pr_wallet q) (pr_vault q) = Some p \<and> commits q i p \<and>
        pay_expiresAt i = toISOString (now + pe_paymentExpirySeconds E * 1000))"

lemma commit_outcome:
  assumes e: "evaluatePaymentBudget p a (fe_estimatedFeeDebtRawUsdc f) wo ao = Inr (BudgetOk e)"
    and act: "pos_status p = pos_active" and w: "plain (pr_wallet q)"
    and p: "pos_wallet p = pr_wallet q" "pos_vault p = pr_vault q"
  shows "runs (commitPreparedPayment E now uuid q pol p s f e) L
    (fresh_outcome E now (''pay_'' @ uuid) q) (\<lambda>_ _. True)"
  using budget_covers[OF e] act p
  by (auto simp: commitPreparedPayment_def Let_def commits_def newPaymentIntent_def
      fresh_outcome_def split: sum.splits)

lemma evaluate_outcome:
  assumes bal: "reservations_balanced L" and p: "getPosition L (pr_wallet q) (pr_vault q) = Some p"
    and w: "plain (pr_wallet q)" and act: "pos_status p = pos_active"
  shows "runs (evaluateAndCommit E now uuid evUuid q lp (p, pol)) L
    (fresh_outcome E now (''pay_'' @ uuid) q) (\<lambda>_ _. True)"
proof -
  note pos = store_ok_position[OF balanced_store[OF bal] p w]
  have step: "runs (commitPreparedPayment E now uuid q pol p' s f e) M
      (fresh_outcome E now (''pay_'' @ uuid) q) (\<lambda>_ _. True)"
    if "evaluatePaymentBudget p' (pr_amountRawUsdc q) (fe_estimatedFeeDebtRawUsdc f) wo ao = Inr (BudgetOk e)"
      "pos_status p' = pos_active" "pos_wallet p' = pr_wallet q" "pos_vault p' = pr_vault q"
    for p' s f e M wo ao
    by (rule commit_outcome[OF that(1,2) w that(3,4)])
  have "pos_status (quotedPosition p s) = pos_active" for s
    using act by (simp add: quotedPosition_def)
  then show ?thesis
    using step act pos
    by (auto simp: evaluateAndCommit_def quoteWorkingPosition_def Let_def
        split: option.splits sum.splits BudgetDecision.splits)
qed

text \<open>
  The outcome of a successful prepare: either the stored payment that answers the request, on
  the ledger the expiry left, or a fresh one.
\<close>

definition prepared_outcome :: "payment_env \<Rightarrow> int \<Rightarrow> string \<Rightarrow> PaymentRequest \<Rightarrow> json \<Rightarrow> ledger \<Rightarrow> bool" where
  "prepared_outcome E now k q j L' \<longleftrightarrow>
     (\<exists>i. existingPayment L' q = Inr (Some i) \<and> serializePaymentIntent i = Inr j \<and> getPayment L' k = None) \<or>
     fresh_outcome E now k q j L'"

lemma prepare_locked_outcome:
  assumes bal: "reservations_balanced L" and w: "plain (pr_wallet q)"
    and fresh: "getPayment L (''pay_'' @ uuid) = None"
  shows "runs (prepareLockedPayment E now uuid evUuid q) L (prepared_outcome E now (''pay_'' @ uuid) q) (\<lambda>_ _. True)"
  unfolding prepareLockedPayment_def runs_bind
proof (rule runs_mono[OF expire_fresh[OF bal w, of now "pr_vault q" "''pay_'' @ uuid"]])
  fix r L'
  assume *: "reservations_balanced L' \<and>
    (getPayment L (''pay_'' @ uuid) = None \<longrightarrow> getPayment L' (''pay_'' @ uuid) = None)"
  have ev: "runs (evaluateAndCommit E now uuid evUuid q lp payable) L'
      (prepared_outcome E now (''pay_'' @ uuid) q) (\<lambda>_ _. True)"
    if "requirePayablePosition E (getPosition L' (pr_wallet q) (pr_vault q)) = Inr payable" for payable lp
  proof (cases payable)
    case (Pair p pol)
    then have p: "getPosition L' (pr_wallet q) (pr_vault q) = Some p" "pos_status p = pos_active"
      using that by (simp_all add: requirePayable_iff)
    show ?thesis
      unfolding Pair
      by (rule runs_mono[OF evaluate_outcome[OF _ p(1) w p(2)]]) (use * in \<open>auto simp: prepared_outcome_def\<close>)
  qed
  show "runs (readA (\<lambda>L. existingPayment L q)) L' (\<lambda>x t. runs (case x of
        Some p \<Rightarrow> liftR (serializePaymentIntent p)
      | None \<Rightarrow> bindA (readA (\<lambda>L. requirePayablePosition E (getPosition L (pr_wallet q) (pr_vault q)))) (\<lambda>payable.
         bindA (readA (\<lambda>L. checkR (pendingVaultFlows now L (pr_wallet q) (pr_vault q) = 0)
           (conflict ''vault_flow_pending''))) (\<lambda>_.
         bindA (getsA (\<lambda>L. sellerLiquidityPolicy L (pr_seller q) (pr_vault q))) (\<lambda>liquidityPolicy.
         bindA (liftR (checkLiquidityPolicy E liquidityPolicy (pr_amountRawUsdc q))) (\<lambda>_.
         evaluateAndCommit E now uuid evUuid q liquidityPolicy payable))))) t
       (prepared_outcome E now (''pay_'' @ uuid) q) (\<lambda>_ _. True)) (\<lambda>_ _. True)"
    using * fresh ev by (auto simp: prepared_outcome_def split: sum.splits option.splits)
qed auto

lemma prepare_outcome:
  assumes "reservations_balanced L" "getPayment L (''pay_'' @ uuid) = None"
    and "preparePayment E now uuid evUuid x L = (Inr j, L')"
  obtains q where "checkPaymentRequest E x = Inr q" "plain (pr_wallet q)"
    "prepared_outcome E now (''pay_'' @ uuid) q j L'"
proof -
  have "runs (preparePayment E now uuid evUuid x) L
      (\<lambda>j L'. \<exists>q. checkPaymentRequest E x = Inr q \<and> plain (pr_wallet q) \<and>
         prepared_outcome E now (''pay_'' @ uuid) q j L') (\<lambda>_ _. True)"
  proof (cases "checkPaymentRequest E x")
    case (Inr q)
    then have w: "plain (pr_wallet q)" using checkPaymentRequest_wallet valid_address_plain by blast
    show ?thesis
      using Inr w runs_mono[OF prepare_locked_outcome[OF assms(1) w assms(2), of E now evUuid]]
      by (auto simp: preparePayment_def intro!: lock.runs_lock)
  qed (simp add: preparePayment_def)
  from runs_InrD[OF this assms(3)] show thesis using that by blast
qed

text \<open>
  C3: when a prepare succeeds on a balanced ledger it returns either the stored payment
  that answers the same request (same binding hash, not terminally failed), or a fresh prepared
  payment that carries the request, whose reservation is what it withdraws plus its estimated
  fee and fits in the spendable yield, on an active position that stays covered: its shares are
  still worth the principal, the safety buffer and everything reserved and owed, the new
  reservation included.
\<close>

theorem prepare_keeps_principal_covered:
  assumes "reservations_balanced L" and "getPayment L (''pay_'' @ uuid) = None"
    and "preparePayment E now uuid evUuid x L = (Inr j, L')"
  shows "\<exists>q. checkPaymentRequest E x = Inr q \<and>
    ((\<exists>i. existingPayment L' q = Inr (Some i) \<and> serializePaymentIntent i = Inr j) \<or>
     (\<exists>i p. getPayment L' (''pay_'' @ uuid) = Some i \<and> serializePaymentIntent i = Inr j \<and>
        getPosition L' (pr_wallet q) (pr_vault q) = Some p \<and> commits q i p))"
  by (rule prepare_outcome[OF assms]) (unfold prepared_outcome_def fresh_outcome_def, blast)

theorem prepare_keeps_principal_covered_witness:
  "\<exists>M j L. preparePayment sample_env 0 ''1'' ''e2'' run_input M = (Inr j, L) \<and>
     (\<exists>q. checkPaymentRequest sample_env run_input = Inr q \<and>
      ((\<exists>i. existingPayment L q = Inr (Some i) \<and> serializePaymentIntent i = Inr j) \<or>
       (\<exists>i p. getPayment L ''pay_1'' = Some i \<and> serializePaymentIntent i = Inr j \<and>
        getPosition L (pr_wallet q) (pr_vault q) = Some p \<and> commits q i p)))"
proof -
  obtain L i j M where M: "getPayment M (''pay_'' @ ''1'') = None" "reservations_balanced M"
    "preparePayment sample_env 0 ''1'' ''e2'' run_input M = (Inr j, L)"
    using run_reachable by fastforce
  have "''pay_'' @ ''1'' = ''pay_1''" by simp
  then show ?thesis
    using prepare_keeps_principal_covered[OF M(2,1,3)] M(3) by metis
qed

text \<open>A stored live payment of a request is found.\<close>

lemma existing_found:
  assumes "ledger_ok L" "one_live (getPayment L)" "getPayment L k = Some i"
    and "pay_seller i = pr_seller q" "pay_sellerRequestId i = pr_sellerRequestId q"
    and "pay_requestBindingHash i = pr_requestBindingHash q" "pay_status i \<in> LIVE_OR_SETTLED_STATUSES"
  shows "existingPayment L q = Inr (Some i)"
proof -
  have i: "i \<in> seller_request_payments L (pr_seller q) (pr_sellerRequestId q)"
    using assms payments_keyed[OF assms(1,3)] by (simp add: seller_request_payments_def)
  obtain p where p: "findPaymentBySellerRequest L (pr_seller q) (pr_sellerRequestId q) = Some p"
    using find_payment_none[OF assms(1)] i by (cases "findPaymentBySellerRequest L (pr_seller q) (pr_sellerRequestId q)") auto
  have "p \<in> seller_request_payments L (pr_seller q) (pr_sellerRequestId q)"
    using find_payment_cases[OF assms(1), of "pr_seller q" "pr_sellerRequestId q"] p by simp
  moreover have live: "pay_status p \<in> LIVE_OR_SETTLED_STATUSES"
    using find_payment_some[OF assms(1) p _ i] assms(7) by blast
  ultimately have "pay_paymentId p = k" "getPayment L (pay_paymentId p) = Some p"
    using assms unfolding no_rivals_def same_request_def seller_request_payments_def by auto
  then have "p = i" using assms(3) by simp
  then show ?thesis
    using p assms(6,7) by (simp add: existingPayment_def terminal_failed_not_live)
qed

lemma retry_answered:
  assumes "checkPaymentRequest E x = Inr q" "existingPayment L q = Inr (Some i)"
    and "serializePaymentIntent i = Inr j" "expiredPreparedPayments now L (pr_wallet q) (pr_vault q) = []"
  shows "preparePayment E now uuid evUuid x L = (Inr j, L)"
proof -
  obtain r where "expirePreparedPaymentsForLockedPosition now (pr_wallet q) (pr_vault q) L = (Inr r, L)"
    using assms(4) by (cases "getPosition L (pr_wallet q) (pr_vault q)")
      (auto simp: expirePreparedPaymentsForLockedPosition_def action_defs)
  then have "prepareLockedPayment E now uuid evUuid q L = (Inr j, L)"
    using assms(2,3) by (simp add: prepareLockedPayment_def action_defs)
  then show ?thesis
    using assms(1) by (simp add: preparePayment_def action_defs withLock_Inr)
qed

text \<open>
  Preparing is idempotent: as long as nothing has expired since, retrying a prepare
  that succeeded (with whatever new ids and clock) returns the same payment and changes nothing.
\<close>

theorem prepare_retry_is_idempotent:
  assumes "reservations_balanced L" and "fees_nonneg E" and "one_live (getPayment L)"
    and "getPayment L (''pay_'' @ uuid) = None"
    and "preparePayment E now uuid evUuid x L = (Inr j, L')"
    and "\<forall>w v. expiredPreparedPayments now' L' w v = []"
  shows "preparePayment E now' uuid' evUuid' x L' = (Inr j, L')"
proof -
  have step: "payment_step E L L'" using step_prepare[of L uuid E now evUuid x] assms(4,5) by simp
  have ok: "ledger_ok L'"
    using step_balanced[OF step assms(1,2)] by (simp add: reservations_balanced_def store_ok_def)
  have live: "one_live (getPayment L')"
    using service.step_no_rivals[OF admits_machine[OF step_admits[OF step assms(1)]] assms(3)] .
  obtain q where q: "checkPaymentRequest E x = Inr q" "prepared_outcome E now (''pay_'' @ uuid) q j L'"
    using prepare_outcome[OF assms(1,4,5)] by blast
  have "\<exists>i. existingPayment L' q = Inr (Some i) \<and> serializePaymentIntent i = Inr j"
    using q(2) existing_found[OF ok live]
    unfolding prepared_outcome_def fresh_outcome_def commits_def by (metis live_prepared)
  then show ?thesis using retry_answered[OF q(1)] assms(6) by blast
qed

theorem prepare_retry_is_idempotent_witness:
  "\<exists>M j L. preparePayment sample_env 0 ''1'' ''e2'' run_input M = (Inr j, L) \<and>
     preparePayment sample_env 60000 ''2'' ''e3'' run_input L = (Inr j, L)"
proof -
  obtain L i j M where M: "run_ready M" "getPayment M (''pay_'' @ ''1'') = None" "reservations_balanced M"
    "one_live (getPayment M)" "preparePayment sample_env 0 ''1'' ''e2'' run_input M = (Inr j, L)"
    "L = savePayment i (savePosition (run_synced\<lparr>pos_reservedRawUsdc := 1100, pos_version := 3\<rparr>) M)"
    "pay_expiresAt i = AtMs 120000"
    using run_reachable by fastforce
  have "led_payments L = [(pay_paymentId i, i)]"
    using M(1,6) by (simp add: savePayment_def savePosition_def run_ready_def map_set_def)
  then have "expiredPreparedPayments 60000 L w v = []" for w v
    using M(7) by (simp add: expiredPreparedPayments_def listPaymentsForPosition_def map_values_def
        paymentIntentExpired_def)
  then show ?thesis
    using prepare_retry_is_idempotent[OF M(3) fees_sample M(4,2,5), of 60000 "''2''" "''e3''"] M(5) by blast
qed

end
