(* ===== verification/Payment_Accounts.thy ===== *)
theory Payment_Accounts
  imports Payment_Outcomes
begin

text \<open>
  What settling and syncing do to the accounts of a position, and two behaviours of the payment
  service its comments and tests rule out.
\<close>

section \<open>Settling\<close>

definition shares_consistent :: "WalletPosition \<Rightarrow> bool" where
  "shares_consistent p \<longleftrightarrow> 0 \<le> pos_stakedSharesRaw p \<and> 0 \<le> pos_unstakedSharesRaw p \<and>
     pos_totalSharesRaw p = pos_stakedSharesRaw p + pos_unstakedSharesRaw p"

definition same_shares :: "WalletPosition \<Rightarrow> WalletPosition \<Rightarrow> bool" where
  "same_shares p p' \<longleftrightarrow> pos_stakedSharesRaw p' = pos_stakedSharesRaw p \<and>
     pos_unstakedSharesRaw p' = pos_unstakedSharesRaw p \<and> pos_totalSharesRaw p' = pos_totalSharesRaw p"

text \<open>The books after a result: the reservation is released and the fee is owed.\<close>

definition books_result ::
  "WalletPosition \<Rightarrow> PaymentIntent \<Rightarrow> SettlementSubmissionResult \<Rightarrow> WalletPosition \<Rightarrow> bool" where
  "books_result p i r p' \<longleftrightarrow>
     pos_reservedRawUsdc p' = pos_reservedRawUsdc p - pay_reservationRawUsdc i \<and>
     pos_feeDebtRawUsdc p' = pos_feeDebtRawUsdc p + settlementFeeDebt i r \<and>
     pos_principalBasisRawUsdc p' = pos_principalBasisRawUsdc p \<and>
     pos_exchangeRateScaled p' = pos_exchangeRateScaled p \<and>
     (case r of
        Settled s \<Rightarrow>
          (let n = orElse (sr_actualSharesRedeemedRaw s) (pay_sharesToRedeemRaw i) in
             n \<le> pay_sharesToRedeemRaw i \<and> sr_sellerTransferRawUsdc s = Some (pay_amountRawUsdc i) \<and>
             (if n \<le> pos_totalSharesRaw p
              then shares_consistent p' \<and> pos_totalSharesRaw p' = pos_totalSharesRaw p - n
              else same_shares p p' \<and> pos_status p' = needs_baseline_reset))
      | _ \<Rightarrow> same_shares p p')"

lemma subtract_shares:
  assumes "subtractRedeemedShares p n = Inr b" "shares_consistent p"
  shows "n \<le> pos_totalSharesRaw p" "0 \<le> pos_stakedSharesRaw b" "0 \<le> pos_unstakedSharesRaw b"
    "pos_totalSharesRaw b = pos_stakedSharesRaw b + pos_unstakedSharesRaw b"
    "pos_totalSharesRaw b = pos_totalSharesRaw p - n"
  using assms by (auto simp: subtractRedeemedShares_def shares_consistent_def Let_def minBigInt_def split: if_splits)

lemma settled_valid:
  assumes "settlementResultValidationError i (Settled s) = None"
  shows "orElse (sr_actualSharesRedeemedRaw s) (pay_sharesToRedeemRaw i) \<le> pay_sharesToRedeemRaw i"
    "sr_sellerTransferRawUsdc s = Some (pay_amountRawUsdc i)"
  using assms by (auto simp: settlementResultValidationError_def settledResultError_def Let_def
      split: if_splits option.splits)

lemma apply_books:
  assumes "applySettlementResultToPosition p i r = Inr p'" "shares_consistent p"
    and "settlementResultValidationError i r = None"
    and "pay_reservationRawUsdc i \<le> pos_reservedRawUsdc p"
  shows "books_result p i r p'"
proof (cases r)
  case (Settled s)
  show ?thesis
    using assms settled_valid[of i s] subtract_shares[of p] unfolding Settled
    by (auto simp: applySettlementResultToPosition_def books_result_def Let_def bindR_Inr
        same_shares_def shares_consistent_def split: if_splits)
qed (use assms in \<open>auto simp: applySettlementResultToPosition_def books_result_def Let_def same_shares_def\<close>)

lemma finalize_outcome:
  assumes bal: "reservations_balanced L" and got: "getPayment L k = Some i"
    and holds: "paymentHoldsSettlementReservation i"
    and p: "getPosition L (pay_wallet i) (pay_vault i) = Some p" "shares_consistent p"
  shows "runs (finalizeSubmittedPayment E now uuid i r) L
    (\<lambda>j L'. \<exists>p' i'. getPosition L' (pay_wallet i) (pay_vault i) = Some p' \<and> books_result p i r p' \<and>
       getPayment L' k = Some i' \<and> pay_status i' = resultStatus r \<and>
       pay_settlementResponse i' = Some j) (\<lambda>_ _. True)"
proof -
  note ok = balanced_store[OF bal]
  note pay = store_ok_payment[OF ok got]
  note pos = store_ok_position[OF ok p(1) pay(2)]
  have ge: "pay_reservationRawUsdc i \<le> pos_reservedRawUsdc p"
    using balanced_reserved_ge[OF bal got holds] p(1) by (simp add: reserved_def)
  have app: "applySettlementResultToPosition p i r = Inr p' \<Longrightarrow> settlementResultValidationError i r = None \<Longrightarrow>
     books_result p i r p' \<and> pos_wallet p' = pay_wallet i \<and> pos_vault p' = pay_vault i" for p'
    using apply_books[OF _ p(2) _ ge] applySettlement_reserved pos by simp
  show ?thesis
    using p(1) pay(1) app
    by (auto simp: finalizeSubmittedPayment_def rejectSettlementResult_def split: option.splits sum.splits)
qed

text \<open>
  C10: a settlement result that is accepted for an unfinished payment moves it to the
  status of the result and answers with the stored response; the reservation is released in
  full, the fee is owed, the principal is untouched; a settled payment burnt at most the shares it was
  prepared for, paid the seller exactly the amount, and the tracked shares drop by exactly what
  was burnt (or the position is flagged when fewer are tracked); a failed one leaves the shares.
\<close>

theorem settlement_books_result:
  assumes "reservations_balanced L" and "getPayment L k = Some i"
    and "paymentHoldsSettlementReservation i"
    and "getPosition L (pay_wallet i) (pay_vault i) = Some p" and "shares_consistent p"
    and "finalizeSubmissionSection E now uuid k r L = (Inr j, L')"
  shows "\<exists>p' i'. getPosition L' (pay_wallet i) (pay_vault i) = Some p' \<and> books_result p i r p' \<and>
    getPayment L' k = Some i' \<and> pay_status i' = resultStatus r \<and> pay_settlementResponse i' = Some j"
proof -
  have "terminalSettlementResponseForStoredState i = None" using assms(3) by (simp add: terminal_iff)
  then have "finalizeSubmittedPayment E now uuid i r L = (Inr j, L')"
    using assms(2,6) by (simp add: finalizeSubmissionSection_def action_defs)
  from runs_InrD[OF finalize_outcome[OF assms(1-5)] this] show ?thesis .
qed

lemma finalize_example:
  "\<exists>j L'. finalizeSubmissionSection sample_env 9 ''e'' ''pay_1'' (Settled (sample_settled sample_submission))
     (ledger_with sample_submission) = (Inr j, L')"
proof -
  have "settlementResultValidationError sample_submission (Settled (sample_settled sample_submission)) = None"
    by (simp add: settlementResultValidationError_def settledResultError_def sample_settled_def
        sample_submission_def sample_payment_def Let_def settlementResultTxSignature_def)
  moreover have "\<exists>j. settlementResponse None sample_submission (Settled (sample_settled sample_submission)) = Inr j"
    by (simp add: settlementResponse_def successfulSettlementResponse_def objR_def raw_Inr
        sample_settled_def sample_submission_def sample_payment_def Let_def)
  moreover have "terminalSettlementResponseForStoredState sample_submission = None"
    by (simp add: terminal_iff paymentHoldsSettlementReservation_def)
  moreover have "\<exists>p'. applySettlementResultToPosition (sample_position\<lparr>pos_reservedRawUsdc := 1100\<rparr>)
      sample_submission (Settled (sample_settled sample_submission)) = Inr p'"
    by (simp add: applySettlementResultToPosition_def subtractRedeemedShares_def Let_def
        sample_settled_def sample_submission_def sample_payment_def sample_position_def)
  ultimately show ?thesis
    by (auto simp: finalizeSubmissionSection_def finalizeSubmittedPayment_def action_defs resultStatus_def)
qed

theorem settlement_books_result_witness:
  "\<exists>j L' p' i'. finalizeSubmissionSection sample_env 9 ''e'' ''pay_1'' (Settled (sample_settled sample_submission))
     (ledger_with sample_submission) = (Inr j, L') \<and>
     getPosition L' sample_wallet sample_vault = Some p' \<and> pos_totalSharesRaw p' = 1999000 \<and>
     pos_reservedRawUsdc p' = 0 \<and> pos_feeDebtRawUsdc p' = 50 \<and>
     getPayment L' ''pay_1'' = Some i' \<and> pay_status i' = settled"
proof -
  obtain j L' where L': "finalizeSubmissionSection sample_env 9 ''e'' ''pay_1''
      (Settled (sample_settled sample_submission)) (ledger_with sample_submission) = (Inr j, L')"
    using finalize_example by blast
  have "shares_consistent (sample_position\<lparr>pos_reservedRawUsdc := 1100\<rparr>)"
    "paymentHoldsSettlementReservation sample_submission"
    by (simp_all add: shares_consistent_def sample_position_def paymentHoldsSettlementReservation_def)
  moreover have "getPosition (ledger_with sample_submission) sample_wallet sample_vault
      = Some (sample_position\<lparr>pos_reservedRawUsdc := 1100\<rparr>)"
    "getPayment (ledger_with sample_submission) ''pay_1'' = Some sample_submission"
    "reservations_balanced (ledger_with sample_submission)"
    by simp_all
  ultimately show ?thesis
    using settlement_books_result[OF _ _ _ _ _ L', of sample_submission "sample_position\<lparr>pos_reservedRawUsdc := 1100\<rparr>"] L'
    by (force simp: books_result_def Let_def resultStatus_def settlementFeeDebt_def sample_settled_def
        sample_submission_def sample_payment_def sample_position_def)
qed

section \<open>Syncing\<close>

text \<open>The books after a sync with the parsed snapshot \<open>n\<close>.\<close>

definition books_sync ::
  "ledger \<Rightarrow> WalletPosition \<Rightarrow> bool \<Rightarrow> SyncSnapshot \<Rightarrow> ledger \<Rightarrow> WalletPosition \<Rightarrow> bool" where
  "books_sync L p forced n L' p' \<longleftrightarrow>
     pos_totalSharesRaw p' = sn_totalSharesRaw n \<and> pos_exchangeRateScaled p' = sn_exchangeRateScaled n \<and>
     pos_totalSharesRaw p' = pos_stakedSharesRaw p' + pos_unstakedSharesRaw p' \<and>
     pos_version p' = pos_version p + 1 \<and>
     (if runConservativeReset p forced n
      then activeSubmittedPayments (listPaymentsForPosition L (pos_wallet p) (pos_vault p)) = [] \<and>
        pos_reservedRawUsdc p' = 0 \<and> pos_principalBasisRawUsdc p' = position_value p' \<and>
        pos_status p' \<noteq> needs_baseline_reset \<and>
        (\<forall>k i. getPayment L' k = Some i \<longrightarrow> of_position (pos_wallet p) (pos_vault p) i \<longrightarrow>
           \<not> paymentHoldsSettlementReservation i)
      else getPayment L' = getPayment L \<and> pos_reservedRawUsdc p' = pos_reservedRawUsdc p \<and>
        pos_status p' = pos_status p \<and>
        (case sn_providedPrincipal n of
           Some basis \<Rightarrow> max (pos_principalBasisRawUsdc p) basis \<le> pos_principalBasisRawUsdc p'
         | None \<Rightarrow> pos_totalSharesRaw p' \<le> pos_totalSharesRaw p \<and>
             pos_principalBasisRawUsdc p' = (if pos_principalBasisSource p = basis_empty then position_value p'
               else pos_principalBasisRawUsdc p)) \<and>
        (hasEstablishedBaseline p \<longrightarrow> pos_totalSharesRaw p < pos_totalSharesRaw p' \<longrightarrow>
           (pos_totalSharesRaw p' - pos_totalSharesRaw p) * pos_exchangeRateScaled p'
             \<le> (pos_principalBasisRawUsdc p' - pos_principalBasisRawUsdc p) * RATE_SCALE))"

lemma snapshot_facts:
  assumes "parseSyncSnapshot p x = Inr n"
  shows "sn_stakedSharesRaw n + sn_unstakedSharesRaw n = sn_totalSharesRaw n"
    "sn_currentPositionValueRawUsdc n = sn_totalSharesRaw n * sn_exchangeRateScaled n div RATE_SCALE"
  using assms by (auto simp: parseSyncSnapshot_def bindR_Inr checkR_def computePositionValueRawUsdc_def
      mulDivFloor_def split: if_splits)

lemma mulDivCeil_bound: "mulDivCeil a b RATE_SCALE = Inr v \<Longrightarrow> a * b \<le> v * RATE_SCALE"
  by (auto simp: mulDivCeil_def ceilDiv_iff split: if_splits)

lemma reset_leaves_none:
  assumes ok: "store_ok L" and none: "activeSubmittedPayments (listPaymentsForPosition L w v) = []"
    and got: "getPayment (fold (\<lambda>p. savePayment (resetExpired now p))
      (filter (\<lambda>p. pay_status p = pay_prepared) (listPaymentsForPosition L w v)) L) k = Some i"
    and own: "of_position w v i"
  shows "\<not> paymentHoldsSettlementReservation i"
proof -
  let ?xs = "filter (\<lambda>p. pay_status p = pay_prepared) (listPaymentsForPosition L w v)"
  have st: "stored_payments L ?xs"
    unfolding listPaymentsForPosition_def filter_filter by (rule stored_filter[OF ok])
  obtain j where j: "getPayment L k = Some j" "i = (if j \<in> set ?xs then resetExpired now j else j)"
    using fold_savePayment(2)[OF ok st keeps_account_resetExpired[of now], of k] got
    by (auto split: option.splits)
  show ?thesis
  proof (cases "j \<in> set ?xs")
    case True
    then show ?thesis
      using j(2) by (simp add: resetExpired_def paymentHoldsSettlementReservation_def)
  next
    case False
    then have "j \<in> set (listPaymentsForPosition L w v)" "i = j"
      using j own store_ok_payment(4)[OF ok j(1)] by (auto simp: listPaymentsForPosition_def)
    then show ?thesis
      using False none by (auto simp: activeSubmittedPayments_def filter_empty_conv
          paymentHoldsSettlementReservation_def)
  qed
qed

lemma nextPrincipal_floor:
  assumes "externalDepositFloorRawUsdc p n = Inr f" "\<not> runConservativeReset p forced n" "hasEstablishedBaseline p"
    and *: "pos_totalSharesRaw p < sn_totalSharesRaw n"
  shows "(sn_totalSharesRaw n - pos_totalSharesRaw p) * sn_exchangeRateScaled n
        \<le> (nextPrincipalBasisRawUsdc p n False f - pos_principalBasisRawUsdc p) * RATE_SCALE"
proof -
  obtain provided v where v: "sn_providedPrincipal n = Some provided"
    "mulDivCeil (sn_totalSharesRaw n - pos_totalSharesRaw p) (sn_exchangeRateScaled n) RATE_SCALE = Inr v"
    "f = pos_principalBasisRawUsdc p + v"
    using assms by (auto simp: runConservativeReset_def externalDepositFloorRawUsdc_def bindR_Inr)
  have "f \<le> nextPrincipalBasisRawUsdc p n False f"
    using v(1) by (auto simp: nextPrincipalBasisRawUsdc_def maxBigInt_def)
  then have "v \<le> nextPrincipalBasisRawUsdc p n False f - pos_principalBasisRawUsdc p" using v(3) by simp
  then show ?thesis
    using mulDivCeil_bound[OF v(2)] by (meson RATE_SCALE_pos(1) order_trans mult_right_mono less_imp_le)
qed

lemma nextPrincipal_reported:
  assumes "\<not> runConservativeReset p forced n"
  shows "case sn_providedPrincipal n of
      Some basis \<Rightarrow> max (pos_principalBasisRawUsdc p) basis \<le> nextPrincipalBasisRawUsdc p n False f
    | None \<Rightarrow> sn_totalSharesRaw n \<le> pos_totalSharesRaw p \<and>
        nextPrincipalBasisRawUsdc p n False f = (if pos_principalBasisSource p = basis_empty
          then sn_currentPositionValueRawUsdc n else pos_principalBasisRawUsdc p)"
  using assms by (auto simp: nextPrincipalBasisRawUsdc_def runConservativeReset_def maxBigInt_def split: option.split)

lemma sync_locked_books:
  assumes bal: "reservations_balanced L" and w: "plain w" and p: "getPosition L w v = Some p"
  shows "runs (syncLockedPosition now uuid w v x) L
    (\<lambda>_ L'. \<exists>n p'. parseSyncSnapshot p x = Inr n \<and> getPosition L' w v = Some p' \<and>
       books_sync L p (sy_forceConservativeReset x) n L' p') (\<lambda>_ _. True)"
proof -
  note ok = balanced_store[OF bal]
  note pos = store_ok_position[OF ok p w]
  have status: "walletStatusAfterConservativeReset p \<noteq> needs_baseline_reset"
    by (simp add: walletStatusAfterConservativeReset_def)
  have reset: "books_sync L p forced n L' (syncedPosition p x n True (nextPrincipalBasisRawUsdc p n True f))"
    if "parseSyncSnapshot p x = Inr n" "runConservativeReset p forced n"
      "activeSubmittedPayments (listPaymentsForPosition L w v) = []"
      "\<And>k i. getPayment L' k = Some i \<Longrightarrow> of_position w v i \<Longrightarrow> \<not> paymentHoldsSettlementReservation i"
    for n f L' forced
    using that snapshot_facts[OF that(1)] pos status
    by (auto simp: books_sync_def syncedPosition_def position_value_def nextPrincipalBasisRawUsdc_def)
  have keep: "books_sync L p forced n L' (syncedPosition p x n False (nextPrincipalBasisRawUsdc p n False f))"
    if "parseSyncSnapshot p x = Inr n" "externalDepositFloorRawUsdc p n = Inr f"
      "\<not> runConservativeReset p forced n" "getPayment L' = getPayment L" for n f L' forced
    using that(4) snapshot_facts[OF that(1)] nextPrincipal_floor[OF that(2,3)] nextPrincipal_reported[OF that(3), of f] pos that(3)
    by (cases "sn_providedPrincipal n") (simp_all add: books_sync_def syncedPosition_def position_value_def)
  note left = reset_leaves_none[OF ok, of "pos_wallet p" "pos_vault p" now]
  show ?thesis
    using p pos
    by (auto simp: syncLockedPosition_def Let_def intro!: reset keep simp: left split: sum.splits)
qed



section \<open>A submitted payment can be finalized by a racing call\<close>

text \<open>
  When two calls submit the same recorded payment, the first marks it submitted, and the second,
  whose own simulation failed, still finalizes it: the payment ends as
  \<open>failed_not_submitted\<close>, and the seller request is open for another payment.
\<close>

lemma marked_then_failed:
  assumes "reservations_balanced L" and "getPayment L k = Some i" and "pay_status i = submission_prepared"
    and "markPaymentSubmittedBeforeSend sent k L = (Inr (), M)"
    and "finalizeSubmissionSection E now uuid k (FailedNotSubmitted code message) M = (Inr j, N)"
  shows "map_option pay_status (getPayment M k) = Some pay_submitted"
    and "map_option pay_status (getPayment N k) = Some pay_failed_not_submitted"
    and "reservations_balanced N" and "progress L M" and "progress M N"
proof -
  note ok = balanced_store[OF assms(1)]
  note key = store_ok_payment(1)[OF ok assms(2)]
  define m where "m = i\<lparr>pay_status := pay_submitted,
      pay_submittedAt := Some (orElse (pay_submittedAt i) (toISOString sent))\<rparr>"
  have M: "M = savePayment m L"
    using assms(2,3,4) by (simp add: markPaymentSubmittedBeforeSend_def action_defs m_def)
  have gm: "getPayment M k = Some m" "pay_status m = pay_submitted"
    using key assms(3) by (auto simp: M m_def)
  then show "map_option pay_status (getPayment M k) = Some pay_submitted" by simp
  have "runs (markPaymentSubmittedBeforeSend sent k) L (\<lambda>_ t. reservations_balanced t \<and> progress L t)
      (\<lambda>_ t. reservations_balanced t \<and> progress L t)"
    by (rule runs_conj[OF balanced_mark_section[OF assms(1)] mark_progress[OF ok]])
  from runs_InrD[OF this assms(4)] have M': "reservations_balanced M" "progress L M" by simp_all
  then show "progress L M" by simp
  have "terminalSettlementResponseForStoredState m = None"
    using gm by (simp add: terminal_iff paymentHoldsSettlementReservation_def)
  then have fin: "finalizeSubmittedPayment E now uuid m (FailedNotSubmitted code message) M = (Inr j, N)"
    using assms(5) gm by (simp add: finalizeSubmissionSection_def action_defs)
  show "map_option pay_status (getPayment N k) = Some pay_failed_not_submitted"
    using fin gm key
    by (auto simp: finalizeSubmittedPayment_def rejectSettlementResult_def action_defs resultStatus_def m_def
        split: option.splits sum.splits if_splits prod.splits)
  have "runs (finalizeSubmittedPayment E now uuid m (FailedNotSubmitted code message)) M
      (\<lambda>_ t. reservations_balanced t \<and> progress M t) (\<lambda>_ t. reservations_balanced t \<and> progress M t)"
    using gm key by (intro runs_conj balanced_finalize[OF M'(1) gm(1)] finalize_progress[OF gm(1)])
      (auto simp: paymentHoldsSettlementReservation_def m_def)
  from runs_InrD[OF this fin] show "reservations_balanced N" "progress M N" by simp_all
qed

text \<open>Where every payment of a request is bound to it and none is live, the request is open.\<close>

lemma request_open:
  assumes ok: "ledger_ok N"
    and same: "\<And>a. getPayment N (pay_paymentId a) = Some a \<Longrightarrow> pay_seller a = pr_seller q \<Longrightarrow>
      pay_sellerRequestId a = pr_sellerRequestId q \<Longrightarrow>
      pay_requestBindingHash a = pr_requestBindingHash q \<and> pay_status a \<notin> LIVE_OR_SETTLED_STATUSES"
  shows "existingPayment N q = Inr None"
proof (cases "findPaymentBySellerRequest N (pr_seller q) (pr_sellerRequestId q)")
  case (Some p)
  then have "p \<in> seller_request_payments N (pr_seller q) (pr_sellerRequestId q)"
    using find_payment_cases[OF ok, of "pr_seller q" "pr_sellerRequestId q"] by simp
  then show ?thesis
    using Some same by (simp add: existingPayment_def seller_request_payments_def terminal_failed_not_live)
qed (simp add: existingPayment_def)

lemma failed_request_open:
  assumes live: "one_live (getPayment L)" and bound: "one_binding (getPayment L)" and i: "getPayment L k = Some i"
    and l: "live_payment i"
    and q: "pr_seller q = pay_seller i" "pr_sellerRequestId q = pay_sellerRequestId i"
      "pr_requestBindingHash q = pay_requestBindingHash i"
    and N: "progress L M" "progress M N" "ledger_ok N"
    and failed: "map_option pay_status (getPayment N k) = Some pay_failed_not_submitted"
  shows "existingPayment N q = Inr None"
proof (rule request_open[OF N(3)])
  fix a assume a: "getPayment N (pay_paymentId a) = Some a" "pay_seller a = pr_seller q" "pay_sellerRequestId a = pr_sellerRequestId q"
  obtain b where b: "getPayment M (pay_paymentId a) = Some b" "evolves b a"
    using evolve_step_get(1)[OF N(2)[unfolded evolve_progress] a(1)] by blast
  then obtain c where c: "getPayment L (pay_paymentId a) = Some c" "evolves c b"
    using evolve_step_get(1)[OF N(1)[unfolded evolve_progress]] by blast
  have same: "content a = content c" using b(2) c(2) by (simp add: evolves_def)
  have request: "same_request c i" using a(2,3) q content_eq(2,3)[OF same] by (simp add: same_request_def)
  have "pay_requestBindingHash c = pay_requestBindingHash i"
  proof (rule ccontr)
    assume "pay_requestBindingHash c \<noteq> pay_requestBindingHash i"
    moreover from this have "pay_paymentId a = k"
      using bound c(1) i request unfolding no_rivals_def rebound_def by blast
    ultimately show False using c(1) i by simp
  qed
  moreover have "pay_status a \<notin> LIVE_OR_SETTLED_STATUSES"
  proof
    assume alive: "pay_status a \<in> LIVE_OR_SETTLED_STATUSES"
    then have "live_payment c" using payment_live_backwards b(2) c(2) by blast
    then have "pay_paymentId a = k" using live c(1) i request l unfolding no_rivals_def by blast
    then show False using failed a(1) alive by (auto simp: LIVE_OR_SETTLED_STATUSES_def)
  qed
  ultimately show "pay_requestBindingHash a = pr_requestBindingHash q \<and> pay_status a \<notin> LIVE_OR_SETTLED_STATUSES"
    using q(3) content_eq(6)[OF same] by simp
qed

lemma one_binding_with: "pay_wallet i = sample_wallet \<Longrightarrow> pay_vault i = sample_vault \<Longrightarrow>
    0 \<le> pay_reservationRawUsdc i \<Longrightarrow> one_binding (getPayment (ledger_with i))"
  by (simp add: no_rivals_def balanced_ledger_with)

lemma one_live_with: "pay_wallet i = sample_wallet \<Longrightarrow> pay_vault i = sample_vault \<Longrightarrow>
    0 \<le> pay_reservationRawUsdc i \<Longrightarrow> one_live (getPayment (ledger_with i))"
  by (simp add: no_rivals_def balanced_ledger_with)

lemma not_submitted_returns:
  assumes "getPayment M k = Some i" "paymentHoldsSettlementReservation i"
  shows "\<exists>j N. finalizeSubmissionSection E now uuid k (FailedNotSubmitted code message) M = (Inr j, N)"
proof -
  have "terminalSettlementResponseForStoredState i = None" using assms(2) by (simp add: terminal_iff)
  moreover have "settlementResultValidationError i (FailedNotSubmitted code message) = None"
    by (simp add: settlementResultValidationError_def settlementResultTxSignature_def split: option.splits)
  moreover have "\<exists>p'. applySettlementResultToPosition p i (FailedNotSubmitted code message) = Inr p'" for p
    by (simp add: applySettlementResultToPosition_def Let_def)
  then have "\<exists>p'. liftR (applySettlementResultToPosition p i (FailedNotSubmitted code message)) M = (Inr p', M)" for p
    by (auto simp: liftR_def)
  ultimately show ?thesis
    using assms(1)
    by (cases "getPosition M (pay_wallet i) (pay_vault i)")
      (auto simp: finalizeSubmissionSection_def finalizeSubmittedPayment_def action_defs settlementResponse_def
        applySettlementResultToPosition_def Let_def)
qed

section \<open>The two ledgers disagree on a detected share movement\<close>

text \<open>
  C29: when the on-chain quote of a prepare shows another share balance than the ledger
  tracks, the handler flags the position \<open>needs_baseline_reset\<close>, records a sync event
  and answers with a conflict. Thrown inside the lock, that conflict rolls the flag and the
  event back on the PostgreSQL ledger: the position stays active there, while the in-memory
  ledger, which the tests use, keeps the flag.
\<close>

theorem share_movement_flag_needs_memory_ledger:
  assumes "checkPaymentRequest E x = Inr q"
    and "expiredPreparedPayments now L (pr_wallet q) (pr_vault q) = []"
    and "existingPayment L q = Inr None"
    and "getPosition L (pr_wallet q) (pr_vault q) = Some p" and "requirePayablePosition E (Some p) = Inr (p, pol)"
    and "pendingVaultFlows now L (pr_wallet q) (pr_vault q) = 0"
    and "checkLiquidityPolicy E (sellerLiquidityPolicy L (pr_seller q) (pr_vault q)) (pr_amountRawUsdc q) = Inr ()"
    and "pe_quote E = Some f" and "f (pr_wallet q) (pr_vault q) (pr_amountRawUsdc q) = Inr s"
    and "sq_userTotalSharesRaw s \<noteq> pos_totalSharesRaw p"
    and "plain (pr_wallet q)" and "reservations_balanced L"
  shows "\<exists>L'. preparePayment E now uuid evUuid x L = (Inl (conflict ''needs_baseline_reset''), L') \<and>
    (pe_ledger E = InMemoryLedger \<longrightarrow>
       map_option pos_status (getPosition L' (pr_wallet q) (pr_vault q)) = Some needs_baseline_reset \<and>
       length (led_syncEvents L') = length (led_syncEvents L) + 1) \<and>
    (pe_ledger E = PostgresLedger \<longrightarrow> L' = L)"
proof -
  note pos = store_ok_position[OF balanced_store[OF assms(12)] assms(4,11)]
  have "expirePreparedPaymentsForLockedPosition now (pr_wallet q) (pr_vault q) L = (Inr (Some p), L)"
    using assms(2,4) by (simp add: expirePreparedPaymentsForLockedPosition_def action_defs)
  then have locked: "prepareLockedPayment E now uuid evUuid q L = (Inl (conflict ''needs_baseline_reset''),
      recordSyncEvent now evUuid (externalMovementEvent (pr_wallet q) (pr_vault q)
        (sq_userTotalSharesRaw s - pos_totalSharesRaw p) (sq_observedSlot s))
        (savePosition (flagBaselineReset p) L))" (is "_ = (_, ?M)")
    using assms(3-10)
    by (simp add: prepareLockedPayment_def evaluateAndCommit_def quoteWorkingPosition_def action_defs)
  have "getPosition ?M (pr_wallet q) (pr_vault q) = Some (flagBaselineReset p)"
    "length (led_syncEvents ?M) = length (led_syncEvents L) + 1"
    using pos by simp (simp add: recordSyncEvent_def saveSyncEvent_def save_defs)
  then show ?thesis
    using assms(1) locked
    by (cases "pe_ledger E") (auto simp: preparePayment_def action_defs withLock_def rolls_back_def conflict_def)
qed

lemma check_request_frame: "checkPaymentRequest (E\<lparr>pe_ledger := k, pe_quote := f\<rparr>) x = checkPaymentRequest E x"
proof -
  have "assertCanonicalResourceUrl (E\<lparr>pe_ledger := k, pe_quote := f\<rparr>) u = assertCanonicalResourceUrl E u" for u
    by (cases "pe_parseUrl E u") (auto simp: assertCanonicalResourceUrl_def Let_def)
  then have "assertExpectedPaymentRequirement (E\<lparr>pe_ledger := k, pe_quote := f\<rparr>) a b c d e g h
      = assertExpectedPaymentRequirement E a b c d e g h" for a b c d e g h
    by (simp add: assertExpectedPaymentRequirement_def)
  then show ?thesis by (simp add: checkPaymentRequest_def)
qed

definition moved_quote :: SettlementQuote where
  "moved_quote = \<lparr>sq_requiredWithdrawRawUsdc = 1000, sq_sharesToRedeemRaw = 1000,
     sq_withdrawalPenaltyRawUsdc = 0, sq_exchangeRateScaled = 1000000000000,
     sq_instantRedeemCapacityRawUsdc = 5000000, sq_userStakedSharesRaw = 0,
     sq_userUnstakedSharesRaw = 1500000, sq_userTotalSharesRaw = 1500000, sq_observedSlot = 7\<rparr>"

theorem share_movement_flag_needs_memory_ledger_witness:
  "\<exists>L. getPosition L sample_wallet sample_vault = Some run_synced \<and> pos_status run_synced = pos_active \<and>
     preparePayment (sample_env\<lparr>pe_ledger := PostgresLedger, pe_quote := Some (\<lambda>_ _ _. Inr moved_quote)\<rparr>)
       0 ''1'' ''e2'' run_input L = (Inl (conflict ''needs_baseline_reset''), L)"
proof -
  let ?E = "sample_env\<lparr>pe_ledger := PostgresLedger, pe_quote := Some (\<lambda>_ _ _. Inr moved_quote)\<rparr>"
  obtain M where M: "run_ready M" "reservations_balanced M" using run_reachable by blast
  have lists: "listPaymentsForPosition M w v = []" "listDepositsForPosition M w v = []"
    "listWithdrawalsForPosition M w v = []" for w v
    using M by (simp_all add: listDepositsForPosition_def listWithdrawalsForPosition_def
        listPaymentsForPosition_def run_ready_def map_values_def)
  have check: "checkPaymentRequest ?E run_input = Inr run_request"
    by (simp add: check_request_frame run_checked)
  have pos: "getPosition M (pr_wallet run_request) (pr_vault run_request) = Some run_synced"
    using M by (simp add: run_ready_def)
  have rest: "expiredPreparedPayments 0 M (pr_wallet run_request) (pr_vault run_request) = []"
    "existingPayment M run_request = Inr None" "pendingVaultFlows 0 M (pr_wallet run_request) (pr_vault run_request) = 0"
    "checkLiquidityPolicy ?E (sellerLiquidityPolicy M (pr_seller run_request) (pr_vault run_request))
      (pr_amountRawUsdc run_request) = Inr ()" "requirePayablePosition ?E (Some run_synced) = Inr (run_synced, ''policy'')"
    using M by (simp_all add: expiredPreparedPayments_def lists existingPayment_def findPaymentBySellerRequest_def
        run_ready_def map_values_def pendingVaultFlows_def sellerLiquidityPolicy_def getLiquidityPolicy_def
        map_get_def checkLiquidityPolicy_def checkR_def requirePayablePosition_def)
  have "sq_userTotalSharesRaw moved_quote \<noteq> pos_totalSharesRaw run_synced" "pe_quote ?E = Some (\<lambda>_ _ _. Inr moved_quote)"
    "plain (pr_wallet run_request)"
    by (simp_all add: moved_quote_def)
  then show ?thesis
    using share_movement_flag_needs_memory_ledger[OF check rest(1,2) pos rest(5,3,4) _ _ _ _ M(2),
        of "\<lambda>_ _ _. Inr moved_quote" moved_quote "''1''" "''e2''"] pos
    by auto
qed

end
