(* ===== verification/Vault_Math.thy ===== *)
theory Vault_Math
  imports Raw_Units "HOL-Library.While_Combinator"
begin

text \<open>
  The arithmetic of \<open>src/src/kamino/vault-adapter.ts\<close>: the withdrawal penalty of the
  vault, the gross withdrawal that nets a target, the liquidity one withdraw instruction can
  serve, and the settlement quote. What the SDK reads from the chain (share balances, reserve
  liquidity, the exchange rate, the blockhash) is the content of a \<open>VaultContext\<close>; building
  instructions is the SDK's.
\<close>

section \<open>Penalty and gross amount\<close>

datatype vault_error = VaultLiquidityError | VaultError error

definition FULL_BPS :: int where "FULL_BPS = 10000"
definition RESERVE_LIQUIDITY_ROUNDING_BUFFER :: int where "RESERVE_LIQUIDITY_ROUNDING_BUFFER = 1"

definition withdrawalPenaltyFor :: "int \<Rightarrow> int \<Rightarrow> int \<Rightarrow> int result" where
  "withdrawalPenaltyFor grossRawUsdc penaltyBps penaltyLamports =
     (if grossRawUsdc \<le> 0 then Inr 0
      else bindR (ceilDiv (grossRawUsdc * penaltyBps) FULL_BPS) (\<lambda>bpsPenalty.
        Inr (if bpsPenalty > penaltyLamports then bpsPenalty else penaltyLamports)))"

text \<open>The condition of the \<open>while\<close> loop; evaluating it can throw, which ends the loop.\<close>

definition netBelowTarget :: "int \<Rightarrow> int \<Rightarrow> int \<Rightarrow> int \<Rightarrow> bool" where
  "netBelowTarget targetNetRawUsdc penaltyBps penaltyLamports gross =
     (case withdrawalPenaltyFor gross penaltyBps penaltyLamports of
        Inl _ \<Rightarrow> False | Inr penalty \<Rightarrow> gross - penalty < targetNetRawUsdc)"

definition startGross :: "int \<Rightarrow> int \<Rightarrow> int \<Rightarrow> int result" where
  "startGross targetNetRawUsdc penaltyBps penaltyLamports =
     bindR (ceilDiv (targetNetRawUsdc * FULL_BPS) (FULL_BPS - penaltyBps)) (\<lambda>gross.
       Inr (if gross < targetNetRawUsdc + penaltyLamports then targetNetRawUsdc + penaltyLamports else gross))"

definition grossWithdrawForNetTarget :: "int \<Rightarrow> int \<Rightarrow> int \<Rightarrow> vault_error + int" where
  "grossWithdrawForNetTarget targetNetRawUsdc penaltyBps penaltyLamports =
     (if penaltyBps \<ge> FULL_BPS then Inl VaultLiquidityError
      else case startGross targetNetRawUsdc penaltyBps penaltyLamports of
          Inl e \<Rightarrow> Inl (VaultError e)
        | Inr start \<Rightarrow>
            let gross = while (netBelowTarget targetNetRawUsdc penaltyBps penaltyLamports) (\<lambda>g. g + 1) start
            in case withdrawalPenaltyFor gross penaltyBps penaltyLamports of
                Inl e \<Rightarrow> Inl (VaultError e) | Inr _ \<Rightarrow> Inr gross)"

definition effectiveWithdrawalPenalty :: "int \<Rightarrow> int \<Rightarrow> int \<Rightarrow> int \<Rightarrow> int \<times> int" where
  "effectiveWithdrawalPenalty vaultBps globalBps vaultLamports globalLamports =
     (if vaultBps > globalBps then vaultBps else globalBps,
      if vaultLamports > globalLamports then vaultLamports else globalLamports)"

section \<open>Liquidity\<close>

record VaultContext =
  vx_slot :: int
  vx_exchangeRateScaled :: int
  vx_tokenAvailableRaw :: int
  vx_instantRedeemCapacityRawUsdc :: int
  vx_singleInstructionRedeemCapacityRawUsdc :: int
  vx_bestReserve :: "string option"
  vx_reserveExecutableLiquidity :: "(string \<times> int) list"
  vx_withdrawalPenaltyBps :: int
  vx_withdrawalPenaltyLamports :: int
  vx_minWithdrawAmountRaw :: int
  vx_minDepositAmountRaw :: int
  vx_blockhash :: string
  vx_lastValidBlockHeight :: int

text \<open>
  What the SDK says each reserve could pay out, less one lamport of rounding; then the total
  and the best single reserve.
\<close>

definition executableLiquidity :: "int \<Rightarrow> int" where
  "executableLiquidity executable =
     (if executable > RESERVE_LIQUIDITY_ROUNDING_BUFFER
      then executable - RESERVE_LIQUIDITY_ROUNDING_BUFFER else 0)"

fun liquidityScan :: "(string \<times> int) list \<Rightarrow> int \<times> string option \<times> int \<Rightarrow> int \<times> string option \<times> int" where
  "liquidityScan [] acc = acc"
| "liquidityScan ((reserve, liquidity) # rest) (totalLiquidity, best, bestLiquidity) =
     liquidityScan rest
       (if liquidity > bestLiquidity then (totalLiquidity + liquidity, Some reserve, liquidity)
        else (totalLiquidity + liquidity, best, bestLiquidity))"

definition withLiquidity :: "int \<Rightarrow> (string \<times> int) list \<Rightarrow> VaultContext \<Rightarrow> VaultContext" where
  "withLiquidity tokenAvailableRaw available c =
     (let liquidity = map (\<lambda>(r, l). (r, executableLiquidity l)) available;
          (totalLiquidity, best, bestLiquidity) = liquidityScan liquidity (0, None, 0)
      in c\<lparr>vx_tokenAvailableRaw := tokenAvailableRaw,
           vx_instantRedeemCapacityRawUsdc := tokenAvailableRaw + totalLiquidity,
           vx_singleInstructionRedeemCapacityRawUsdc := tokenAvailableRaw + bestLiquidity,
           vx_bestReserve := best, vx_reserveExecutableLiquidity := liquidity\<rparr>)"

section \<open>Quoting\<close>

record SettlementWithdrawQuote =
  swq_requiredWithdrawRawUsdc :: int
  swq_sharesToRedeemRaw :: int
  swq_withdrawalPenaltyRawUsdc :: int
  swq_expectedNetOutputRawUsdc :: int

definition vaultR :: "'a result \<Rightarrow> vault_error + 'a" where
  "vaultR r = (case r of Inl e \<Rightarrow> Inl (VaultError e) | Inr x \<Rightarrow> Inr x)"

definition quoteSettlementWithdraw :: "int \<Rightarrow> VaultContext \<Rightarrow> vault_error + SettlementWithdrawQuote" where
  "quoteSettlementWithdraw targetNetRawUsdc c =
     (if targetNetRawUsdc \<le> 0 then Inl (VaultError (JsError ''targetNetRawUsdc must be positive''))
      else if vx_exchangeRateScaled c \<le> 0
        then Inl (VaultError (JsError ''Vault exchange rate is not positive''))
      else case grossWithdrawForNetTarget targetNetRawUsdc (vx_withdrawalPenaltyBps c)
             (vx_withdrawalPenaltyLamports c) of
          Inl e \<Rightarrow> Inl e
        | Inr gross \<Rightarrow>
          (case withdrawalPenaltyFor gross (vx_withdrawalPenaltyBps c) (vx_withdrawalPenaltyLamports c) of
             Inl e \<Rightarrow> Inl (VaultError e)
           | Inr penalty \<Rightarrow>
             let net = gross - penalty in
             if net \<le> vx_minWithdrawAmountRaw c then Inl VaultLiquidityError
             else if gross > vx_singleInstructionRedeemCapacityRawUsdc c then Inl VaultLiquidityError
             else case ceilDiv (gross * RATE_SCALE) (vx_exchangeRateScaled c) of
                 Inl e \<Rightarrow> Inl (VaultError e)
               | Inr shares \<Rightarrow> Inr
                   \<lparr>swq_requiredWithdrawRawUsdc = gross, swq_sharesToRedeemRaw = shares,
                    swq_withdrawalPenaltyRawUsdc = penalty, swq_expectedNetOutputRawUsdc = net\<rparr>))"

section \<open>What the gross amount guarantees\<close>

lemma FULL_BPS_pos [simp]: "0 < FULL_BPS" "0 \<le> FULL_BPS"
  by (simp_all add: FULL_BPS_def)

lemma penalty_positive:
  assumes "withdrawalPenaltyFor g b l = Inr p" "0 < g"
  obtains q where "g * b \<le> q * FULL_BPS" "q * FULL_BPS < g * b + FULL_BPS" "p = max q l"
proof -
  obtain q where "ceilDiv (g * b) FULL_BPS = Inr q" "p = max q l"
    using assms by (cases "ceilDiv (g * b) FULL_BPS") (auto simp: withdrawalPenaltyFor_def)
  then show thesis using that unfolding ceilDiv_iff by blast
qed

text \<open>A withdrawal nets the target exactly when it reaches both bounds the start value is made of.\<close>

lemma net_covers_iff:
  assumes "0 < g" "withdrawalPenaltyFor g b l = Inr p"
  shows "t \<le> g - p \<longleftrightarrow> t * FULL_BPS \<le> g * (FULL_BPS - b) \<and> t + l \<le> g"
proof -
  from assms obtain q where q: "g * b \<le> q * FULL_BPS" "q * FULL_BPS < g * b + FULL_BPS" "p = max q l"
    by (elim penalty_positive)
  have "t \<le> g - q \<longleftrightarrow> t * FULL_BPS \<le> g * (FULL_BPS - b)"
  proof
    assume "t \<le> g - q"
    then have "t * FULL_BPS \<le> (g - q) * FULL_BPS" by (intro mult_right_mono) simp_all
    then show "t * FULL_BPS \<le> g * (FULL_BPS - b)" using q(1) by (simp add: algebra_simps)
  next
    assume "t * FULL_BPS \<le> g * (FULL_BPS - b)"
    then have "t * FULL_BPS < (g - q + 1) * FULL_BPS" using q(2) by (simp add: algebra_simps)
    then have "t < g - q + 1" by (simp add: mult_less_cancel_right)
    then show "t \<le> g - q" by simp
  qed
  then show ?thesis using q(3) by auto
qed

lemma penalty_total: "0 \<le> b \<Longrightarrow> \<exists>p. withdrawalPenaltyFor g b l = Inr p"
  by (cases "0 < g") (simp_all add: withdrawalPenaltyFor_def ceilDiv_def FULL_BPS_def not_less)

lemma startGross_bounds:
  assumes "startGross t b l = Inr g"
  obtains q where "b < FULL_BPS" "0 \<le> t" "t * FULL_BPS \<le> q * (FULL_BPS - b)"
    "q * (FULL_BPS - b) < t * FULL_BPS + (FULL_BPS - b)" "g = max q (t + l)"
proof -
  obtain q where "ceilDiv (t * FULL_BPS) (FULL_BPS - b) = Inr q" "g = max q (t + l)"
    using assms by (cases "ceilDiv (t * FULL_BPS) (FULL_BPS - b)") (auto simp: startGross_def)
  moreover from this(1) have "0 \<le> t * FULL_BPS" by (simp add: ceilDiv_iff)
  then have "0 \<le> t" by (simp add: FULL_BPS_def)
  ultimately show thesis using that unfolding ceilDiv_iff by force
qed

lemma startGross_total: "b < FULL_BPS \<Longrightarrow> 0 \<le> t \<Longrightarrow> \<exists>g. startGross t b l = Inr g"
  by (simp add: startGross_def ceilDiv_def FULL_BPS_def)

text \<open>The start value already covers the target, so the loop never runs.\<close>

lemma start_covers:
  assumes "0 \<le> b" "startGross t b l = Inr g" "withdrawalPenaltyFor g b l = Inr p"
  shows "t \<le> g - p"
proof -
  obtain q where q: "b < FULL_BPS" "0 \<le> t" "t * FULL_BPS \<le> q * (FULL_BPS - b)" "g = max q (t + l)"
    using assms(2) by (elim startGross_bounds)
  have "q * (FULL_BPS - b) \<le> g * (FULL_BPS - b)" using q(1,4) by (intro mult_right_mono) auto
  then have le: "t * FULL_BPS \<le> g * (FULL_BPS - b)" using q(3) by linarith
  show ?thesis
  proof (cases "0 < g")
    case True
    then show ?thesis using net_covers_iff[OF True assms(3), of t] le q(4) by simp
  next
    case False
    then have "g * (FULL_BPS - b) \<le> 0" using q(1) by (intro mult_nonpos_nonneg) simp_all
    then have "t = 0" using le q(2) by (simp add: FULL_BPS_def)
    moreover have "0 \<le> q"
    proof (rule ccontr)
      assume "\<not> 0 \<le> q"
      then have "q * (FULL_BPS - b) < 0" using q(1) by (intro mult_neg_pos) simp_all
      then show False using q(2,3) FULL_BPS_pos(2) mult_nonneg_nonneg[of t FULL_BPS] by linarith
    qed
    moreover from this have "g = 0" using False q(4) by simp
    ultimately show ?thesis using assms(3) by (simp add: withdrawalPenaltyFor_def)
  qed
qed

lemma loop_never_runs:
  assumes "0 \<le> b" "startGross t b l = Inr g"
  shows "\<not> netBelowTarget t b l g"
    "while (netBelowTarget t b l) (\<lambda>g. g + 1) g = g"
    "while_option (netBelowTarget t b l) (\<lambda>g. g + 1) g = Some g"
proof -
  obtain p where "withdrawalPenaltyFor g b l = Inr p" using penalty_total[OF assms(1)] by blast
  then show *: "\<not> netBelowTarget t b l g"
    using start_covers[OF assms] by (simp add: netBelowTarget_def not_less)
  then show "while (netBelowTarget t b l) (\<lambda>g. g + 1) g = g"
    "while_option (netBelowTarget t b l) (\<lambda>g. g + 1) g = Some g"
    by (simp_all add: while_unfold while_option_unfold)
qed

lemma gross_eq:
  assumes "0 \<le> b" "b < FULL_BPS"
  shows "grossWithdrawForNetTarget t b l = vaultR (startGross t b l)"
proof (cases "startGross t b l")
  case (Inr g)
  obtain p where "withdrawalPenaltyFor g b l = Inr p" using penalty_total[OF assms(1)] by blast
  then show ?thesis
    using assms Inr loop_never_runs[OF assms(1) Inr]
    by (simp add: grossWithdrawForNetTarget_def vaultR_def)
qed (use assms in \<open>simp add: grossWithdrawForNetTarget_def vaultR_def\<close>)

text \<open>
  C30: for a non-negative penalty rate below 100% the gross amount is the least withdrawal
  whose output after the penalty covers the target, and the search loop behind it ends at
  once: its start value already is that least amount.
\<close>

theorem gross_withdraw_is_least:
  assumes "0 \<le> b" and "b < FULL_BPS" and "0 < t" and "0 \<le> l"
  shows "\<exists>g p. grossWithdrawForNetTarget t b l = Inr g \<and> withdrawalPenaltyFor g b l = Inr p \<and>
    t \<le> g - p \<and> (\<forall>h p'. withdrawalPenaltyFor h b l = Inr p' \<longrightarrow> t \<le> h - p' \<longrightarrow> g \<le> h) \<and>
    startGross t b l = Inr g \<and> while_option (netBelowTarget t b l) (\<lambda>g. g + 1) g = Some g"
proof -
  obtain g where g: "startGross t b l = Inr g" using startGross_total[of b t l] assms by auto
  obtain p where p: "withdrawalPenaltyFor g b l = Inr p" using penalty_total[OF assms(1)] by blast
  obtain q where q: "q * (FULL_BPS - b) < t * FULL_BPS + (FULL_BPS - b)" "g = max q (t + l)"
    using g by (elim startGross_bounds)
  have "g \<le> h" if h: "withdrawalPenaltyFor h b l = Inr p'" "t \<le> h - p'" for h p'
  proof -
    have "0 < h"
      using h assms(3) by (cases "0 < h") (auto simp: withdrawalPenaltyFor_def)
    from net_covers_iff[OF this h(1), of t] h(2)
    have le: "t * FULL_BPS \<le> h * (FULL_BPS - b)" "t + l \<le> h" by simp_all
    then have "q * (FULL_BPS - b) < (h + 1) * (FULL_BPS - b)" using q(1) by (simp add: algebra_simps)
    then have "q < h + 1" using assms(2) by (simp add: mult_less_cancel_right)
    then show ?thesis using le(2) q(2) by simp
  qed
  then show ?thesis
    using g p start_covers[OF assms(1) g p] loop_never_runs(3)[OF assms(1) g] gross_eq[OF assms(1,2), of t l]
    by (auto simp: vaultR_def)
qed

theorem gross_withdraw_is_least_witness:
  "grossWithdrawForNetTarget 1000 50 3 = Inr 1006 \<and>
   while_option (netBelowTarget 1000 50 3) (\<lambda>g. g + 1) 1006 = Some 1006"
proof -
  have "startGross 1000 50 3 = Inr 1006" by (simp add: startGross_def ceilDiv_def FULL_BPS_def)
  then show ?thesis
    using gross_withdraw_is_least[of 50 1000 3] by (auto simp: FULL_BPS_def)
qed

section \<open>What a settlement quote guarantees\<close>

text \<open>
  A settlement quote withdraws the least amount that nets the target, is worth at
  least that in shares (and would not be with one share less), clears the vault's minimum and
  fits in what one withdraw instruction can serve.
\<close>

theorem quote_covers_target:
  assumes "quoteSettlementWithdraw t c = Inr s" and "0 \<le> vx_withdrawalPenaltyBps c"
  shows "t \<le> swq_expectedNetOutputRawUsdc s \<and>
    swq_expectedNetOutputRawUsdc s = swq_requiredWithdrawRawUsdc s - swq_withdrawalPenaltyRawUsdc s \<and>
    vx_minWithdrawAmountRaw c < swq_expectedNetOutputRawUsdc s \<and>
    swq_requiredWithdrawRawUsdc s \<le> vx_singleInstructionRedeemCapacityRawUsdc c \<and>
    swq_requiredWithdrawRawUsdc s * RATE_SCALE \<le> swq_sharesToRedeemRaw s * vx_exchangeRateScaled c \<and>
    (swq_sharesToRedeemRaw s - 1) * vx_exchangeRateScaled c < swq_requiredWithdrawRawUsdc s * RATE_SCALE"
proof -
  let ?b = "vx_withdrawalPenaltyBps c" and ?l = "vx_withdrawalPenaltyLamports c"
  obtain g p sh where s: "grossWithdrawForNetTarget t ?b ?l = Inr g" "withdrawalPenaltyFor g ?b ?l = Inr p"
    "vx_minWithdrawAmountRaw c < g - p" "g \<le> vx_singleInstructionRedeemCapacityRawUsdc c"
    "ceilDiv (g * RATE_SCALE) (vx_exchangeRateScaled c) = Inr sh"
    "s = \<lparr>swq_requiredWithdrawRawUsdc = g, swq_sharesToRedeemRaw = sh,
          swq_withdrawalPenaltyRawUsdc = p, swq_expectedNetOutputRawUsdc = g - p\<rparr>"
    using assms(1) by (auto simp: quoteSettlementWithdraw_def Let_def split: if_splits sum.splits)
  have b: "?b < FULL_BPS" using s(1) by (auto simp: grossWithdrawForNetTarget_def split: if_splits)
  have "startGross t ?b ?l = Inr g"
    using s(1) gross_eq[OF assms(2) b] by (auto simp: vaultR_def split: sum.splits)
  from start_covers[OF assms(2) this s(2)] show ?thesis
    using s(3-) by (auto simp: ceilDiv_iff left_diff_distrib)
qed

definition sample_context :: VaultContext where
  "sample_context = \<lparr>vx_slot = 7, vx_exchangeRateScaled = 1000000000000, vx_tokenAvailableRaw = 5000000,
     vx_instantRedeemCapacityRawUsdc = 5000000, vx_singleInstructionRedeemCapacityRawUsdc = 5000000,
     vx_bestReserve = None, vx_reserveExecutableLiquidity = [], vx_withdrawalPenaltyBps = 50,
     vx_withdrawalPenaltyLamports = 3, vx_minWithdrawAmountRaw = 10, vx_minDepositAmountRaw = 100,
     vx_blockhash = ''blockhash'', vx_lastValidBlockHeight = 100\<rparr>"

theorem quote_covers_target_witness:
  "\<exists>s. quoteSettlementWithdraw 1000 sample_context = Inr s \<and> 1000 \<le> swq_expectedNetOutputRawUsdc s"
proof -
  have "startGross 1000 50 3 = Inr 1006" by (simp add: startGross_def ceilDiv_def FULL_BPS_def)
  then have "grossWithdrawForNetTarget 1000 50 3 = Inr 1006"
    using gross_eq[of 50 1000 3] by (simp add: vaultR_def FULL_BPS_def)
  then obtain s where s: "quoteSettlementWithdraw 1000 sample_context = Inr s"
    by (simp add: quoteSettlementWithdraw_def sample_context_def withdrawalPenaltyFor_def ceilDiv_def
        FULL_BPS_def RATE_SCALE_def)
  then show ?thesis
    using quote_covers_target[OF s] by (auto simp: sample_context_def)
qed

section \<open>What the liquidity scan guarantees\<close>

lemma scan_total: "fst (liquidityScan xs (t, b, m)) = t + (\<Sum>(r, l)\<leftarrow>xs. l)"
  by (induction xs "(t, b, m)" arbitrary: t b m rule: liquidityScan.induct) auto

lemma scan_best:
  assumes "liquidityScan xs (t, b, m) = (t', b', m')"
  shows "m \<le> m'" "\<forall>x \<in> set xs. snd x \<le> m'"
    "b' = b \<and> m' = m \<or> (\<exists>r. b' = Some r \<and> (r, m') \<in> set xs)"
  using assms
proof (induction xs arbitrary: t b m)
  case (Cons x xs)
  obtain r l where x: "x = (r, l)" by force
  {
    case 1
    then show ?case using Cons.IH(1) x by (fastforce split: if_splits)
  next
    case 2
    then show ?case using Cons.IH(1,2) x by (fastforce split: if_splits)
  next
    case 3
    then show ?case using Cons.IH(3) x by (simp split: if_splits) blast+
  }
qed simp_all

lemma member_le_sum_list_int: "\<forall>x \<in> set xs. 0 \<le> x \<Longrightarrow> y \<in> set xs \<Longrightarrow> y \<le> sum_list xs" for y :: int
  by (induction xs) (auto simp: sum_list_nonneg add_increasing add_increasing2)

lemma executable_nonneg: "0 \<le> executableLiquidity l"
  by (simp add: executableLiquidity_def RESERVE_LIQUIDITY_ROUNDING_BUFFER_def)

text \<open>
  C3: the instant capacity is the buffer plus what every reserve can pay out, the
  single-instruction capacity is the buffer plus the best reserve alone, that reserve is named,
  and the second never exceeds the first.
\<close>

theorem redeem_capacities:
  "let c' = withLiquidity avail xs c; ls = map (\<lambda>(r, l). (r, executableLiquidity l)) xs in
   vx_instantRedeemCapacityRawUsdc c' = avail + (\<Sum>(r, l)\<leftarrow>xs. executableLiquidity l) \<and>
   avail \<le> vx_singleInstructionRedeemCapacityRawUsdc c' \<and>
   vx_singleInstructionRedeemCapacityRawUsdc c' \<le> vx_instantRedeemCapacityRawUsdc c' \<and>
   (\<forall>(r, l) \<in> set ls. avail + l \<le> vx_singleInstructionRedeemCapacityRawUsdc c') \<and>
   (case vx_bestReserve c' of
      None \<Rightarrow> vx_singleInstructionRedeemCapacityRawUsdc c' = avail
    | Some r \<Rightarrow> (r, vx_singleInstructionRedeemCapacityRawUsdc c' - avail) \<in> set ls)"
proof -
  define ls where "ls = map (\<lambda>(r, l). (r, executableLiquidity l)) xs"
  obtain t b m where scan: "liquidityScan ls (0, None, 0) = (t, b, m)" by (metis prod_cases3)
  have t: "t = (\<Sum>(r, l)\<leftarrow>xs. executableLiquidity l)"
    using scan_total[of ls 0 None 0] scan
    by (simp add: ls_def comp_def case_prod_unfold)
  have best: "0 \<le> m" "\<forall>x \<in> set ls. snd x \<le> m" "b = None \<and> m = 0 \<or> (\<exists>r. b = Some r \<and> (r, m) \<in> set ls)"
    using scan_best[OF scan] by auto
  have nonneg: "\<forall>x \<in> set (map snd ls). 0 \<le> x" by (auto simp: ls_def executable_nonneg)
  have "m \<le> sum_list (map snd ls)"
  proof (cases "m = 0")
    case True
    then show ?thesis using nonneg by (metis sum_list_nonneg)
  next
    case False
    then have "m \<in> set (map snd ls)" using best(3) by force
    then show ?thesis using nonneg by (metis member_le_sum_list_int)
  qed
  moreover have "sum_list (map snd ls) = t"
    using t by (simp add: ls_def comp_def case_prod_unfold)
  ultimately show ?thesis
    using t best scan unfolding withLiquidity_def Let_def ls_def[symmetric]
    by (auto simp: split_beta split: option.splits)
qed

end
