(* ===== verification/Vault_Core.thy ===== *)
theory Vault_Core
  imports Payment_Balance Vault_Math
begin

text \<open>
  The data and the pure functions of \<open>src/src/domain/vault-flow-service.ts\<close>: its
  configuration and collaborators, the outcome of a submitted transaction, the terminal states
  of a flow and the JSON views. The chain adapter, the transaction builder and the submission
  engine are functions of the environment of one call; the spending mandates are an interface
  of actions on the ledger.
\<close>

section \<open>Collaborators\<close>

record UserSharesRaw =
  us_stakedSharesRaw :: int
  us_unstakedSharesRaw :: int
  us_totalSharesRaw :: int

record BuiltTransaction =
  bt_messageHash :: string
  bt_serializedBase64 :: string

record MandateAuthorization =
  ma_policySource :: "string option"
  ma_mandateHash :: "string option"
  ma_policyDecision :: "string option"
  ma_approvalId :: "string option"

definition noAuthorization :: MandateAuthorization where
  "noAuthorization = \<lparr>ma_policySource = None, ma_mandateHash = None, ma_policyDecision = None,
     ma_approvalId = None\<rparr>"

text \<open>The operations of \<open>SpendingMandateService\<close> the flows call.\<close>

record mandate_ops =
  mo_authorizeDeposit ::
    "string \<Rightarrow> string \<Rightarrow> int \<Rightarrow> string option \<Rightarrow> (ledger, MandateAuthorization) action"
  mo_authorizeRealize ::
    "string \<Rightarrow> string \<Rightarrow> int \<Rightarrow> PaymentBindingWire option \<Rightarrow> string option \<Rightarrow> (ledger, MandateAuthorization) action"
  mo_authorizeWithdrawal ::
    "string \<Rightarrow> string \<Rightarrow> int \<Rightarrow> string option \<Rightarrow> (ledger, MandateAuthorization) action"
  mo_assertPreparedDeposit :: "DepositIntent \<Rightarrow> (ledger, unit) action"
  mo_assertPreparedWithdrawal :: "WithdrawalIntent \<Rightarrow> (ledger, unit) action"
  mo_consumeApproval :: "string \<Rightarrow> string \<Rightarrow> (ledger, unit) action"

text \<open>
  What the chain knows of a transaction: whether it landed with an error, its fee, and the
  token balance change of every account it touched.
\<close>

record ConfirmedFlowOutcome =
  co_err :: bool
  co_feeLamports :: int
  co_tokenBalanceDeltas :: "string \<Rightarrow> int option"

datatype FlowOutcome = FlowPending | FlowNotSubmitted string | FlowConfirmed ConfirmedFlowOutcome

datatype ConfirmationOutcome = ConfirmationConfirmed | ConfirmationExpired | ConfirmationTimeout

text \<open>
  \<open>vf_lookup n\<close> is the answer to the n-th lookup of the call, since the chain may move
  between two lookups.
\<close>

record flow_env =
  vf_ledger :: ledger_kind
  vf_production :: bool
  vf_vault :: VaultConfig
  vf_sponsor :: string
  vf_flowExpirySeconds :: int
  vf_realizeOverheadRawUsdc :: int
  vf_mandates :: "mandate_ops option"
  vf_deriveAta :: "string \<Rightarrow> string \<Rightarrow> string result"
  vf_loadContext :: "VaultContext result"
  vf_getUserSharesRaw :: "string \<Rightarrow> VaultContext \<Rightarrow> UserSharesRaw result"
  vf_buildDeposit :: "string \<Rightarrow> int \<Rightarrow> VaultContext \<Rightarrow> BuiltTransaction result"
  vf_buildWithdraw :: "string \<Rightarrow> int \<Rightarrow> VaultContext \<Rightarrow> BuiltTransaction result"
  vf_messageHash :: "string \<Rightarrow> string option"
  vf_signerSignature :: "string \<Rightarrow> string \<Rightarrow> string option"
  vf_sponsorSign :: "string \<Rightarrow> (string \<times> string option) result"
  vf_simulate :: "string \<Rightarrow> bool result"
  vf_send :: "string \<Rightarrow> unit result"
  vf_waitForConfirmation :: "string \<Rightarrow> int option \<Rightarrow> ConfirmationOutcome result"
  vf_lookup :: "nat \<Rightarrow> string \<Rightarrow> ConfirmedFlowOutcome option result"
  vf_isBlockhashExpired :: "int option \<Rightarrow> bool result"
  vf_feeLamportsToUsdc :: "(int \<Rightarrow> int result) option"

section \<open>Chain outcomes\<close>

definition lookupConfirmedFlow :: "flow_env \<Rightarrow> nat \<Rightarrow> string \<Rightarrow> FlowOutcome result" where
  "lookupConfirmedFlow E n txSignature = bindR (vf_lookup E n txSignature) (\<lambda>lookup. Inr
     (case lookup of None \<Rightarrow> FlowPending | Some c \<Rightarrow> FlowConfirmed c))"

text \<open>
  Resending the stored bytes while a transaction is pending is best effort and does not
  change the outcome.
\<close>

definition reconcileFlow :: "flow_env \<Rightarrow> string option \<Rightarrow> int option \<Rightarrow> FlowOutcome result" where
  "reconcileFlow E txSignature lastValidBlockHeight = (case txSignature of
       None \<Rightarrow> Inr FlowPending
     | Some tx \<Rightarrow>
         bindR (vf_lookup E 0 tx) (\<lambda>lookup. case lookup of
           Some c \<Rightarrow> Inr (FlowConfirmed c)
         | None \<Rightarrow>
             bindR (vf_isBlockhashExpired E lastValidBlockHeight) (\<lambda>expired.
             if expired then
               bindR (lookupConfirmedFlow E 1 tx) (\<lambda>finalLookup. Inr (case finalLookup of
                 FlowConfirmed c \<Rightarrow> FlowConfirmed c
               | _ \<Rightarrow> FlowNotSubmitted ''blockhash_expired''))
             else Inr FlowPending)))"

definition sendAndConfirmFlow ::
  "flow_env \<Rightarrow> string option \<Rightarrow> string option \<Rightarrow> int option \<Rightarrow> FlowOutcome result" where
  "sendAndConfirmFlow E txSignature submittedTransaction lastValidBlockHeight =
     (case (txSignature, submittedTransaction) of
        (Some tx, Some bytes) \<Rightarrow>
          bindR (vf_simulate E bytes) (\<lambda>failed.
          if failed then reconcileFlow E txSignature lastValidBlockHeight
          else case vf_send E bytes of
              Inl _ \<Rightarrow> Inr FlowPending
            | Inr _ \<Rightarrow>
                bindR (vf_waitForConfirmation E tx lastValidBlockHeight) (\<lambda>confirmation.
                case confirmation of
                  ConfirmationExpired \<Rightarrow> reconcileFlow E txSignature lastValidBlockHeight
                | ConfirmationTimeout \<Rightarrow> Inr FlowPending
                | ConfirmationConfirmed \<Rightarrow> lookupConfirmedFlow E 0 tx))
      | _ \<Rightarrow> reconcileFlow E txSignature lastValidBlockHeight)"

section \<open>Terminal states\<close>

definition terminalDeposit :: "int \<Rightarrow> VaultFlowStatus \<Rightarrow> string \<Rightarrow> DepositIntent \<Rightarrow> DepositIntent" where
  "terminalDeposit now status errorCode i = i\<lparr>dep_status := status, dep_errorCode := Some errorCode,
     dep_terminalAt := Some (toISOString now)\<rparr>"

definition terminalWithdrawal :: "int \<Rightarrow> VaultFlowStatus \<Rightarrow> string \<Rightarrow> WithdrawalIntent \<Rightarrow> WithdrawalIntent" where
  "terminalWithdrawal now status errorCode i = i\<lparr>wdr_status := status, wdr_errorCode := Some errorCode,
     wdr_terminalAt := Some (toISOString now)\<rparr>"

section \<open>Checks\<close>

definition verifyAgentSignedFlowTransaction ::
  "flow_env \<Rightarrow> string \<Rightarrow> string \<Rightarrow> string \<Rightarrow> string \<Rightarrow> unit result" where
  "verifyAgentSignedFlowTransaction E expectedMessageHash wallet serializedTransaction agentSignature =
     (case vf_messageHash E serializedTransaction of
        None \<Rightarrow> Inl (badRequest ''invalid_transaction_encoding'')
      | Some messageHash \<Rightarrow>
          if messageHash \<noteq> expectedMessageHash then Inl (conflict ''message_hash_mismatch'')
          else case vf_signerSignature E serializedTransaction wallet of
              None \<Rightarrow> Inl (conflict ''agent_signature_invalid'')
            | Some signature \<Rightarrow>
                checkR (signature = agentSignature) (conflict ''agent_signature_invalid''))"

definition requireSignerReadyPosition :: "flow_env \<Rightarrow> WalletPosition option \<Rightarrow> WalletPosition result" where
  "requireSignerReadyPosition E found = (case found of
       None \<Rightarrow> Inl (notFound ''wallet_not_registered'')
     | Some p \<Rightarrow>
         if pos_signingMode p \<noteq> non_interactive then Inl (conflict ''observed_only'')
         else if pos_signerProvider p = ''unconfigured'' then Inl (conflict ''signer_provider_missing'')
         else if vf_production E \<and> pos_signerValidationMode p \<noteq> structured_intent_transaction
           then Inl (conflict ''signer_policy_validation_missing'')
         else Inr p)"

end
