(* ===== verification/Flow_Views.thy ===== *)
theory Flow_Views
  imports Vault_Core
begin

text \<open>
  The JSON of the vault flows: \<open>serializeDepositIntent\<close> and
  \<open>serializeWithdrawalIntent\<close> of \<open>src/src/domain/vault-flow-service.ts\<close>, and the
  signing intents the prepare calls add to them.
\<close>

section \<open>String unions\<close>

definition VaultFlowStatus_string :: "VaultFlowStatus \<Rightarrow> string" where
  "VaultFlowStatus_string x = (case x of
       flow_prepared \<Rightarrow> ''prepared''
     | flow_submitted \<Rightarrow> ''submitted''
     | flow_confirmed \<Rightarrow> ''confirmed''
     | flow_failed \<Rightarrow> ''failed''
     | flow_expired \<Rightarrow> ''expired''
     | flow_failed_not_submitted \<Rightarrow> ''failed_not_submitted'')"

definition WithdrawalPurpose_string :: "WithdrawalPurpose \<Rightarrow> string" where
  "WithdrawalPurpose_string x = (case x of
       normal \<Rightarrow> ''normal''
     | yield_realize \<Rightarrow> ''yield_realize'')"

definition PaymentVerification_string :: "PaymentVerification \<Rightarrow> string" where
  "PaymentVerification_string x = (case x of
       verified_onchain \<Rightarrow> ''verified_onchain''
     | reported \<Rightarrow> ''reported''
     | unreported \<Rightarrow> ''unreported'')"

section \<open>Views\<close>

definition opt_raw :: "int option \<Rightarrow> json result" where
  "opt_raw x = (case x of None \<Rightarrow> Inr JNull | Some v \<Rightarrow> raw v)"

definition paymentBindingJson :: "PaymentBindingWire option \<Rightarrow> json" where
  "paymentBindingJson x = (case x of None \<Rightarrow> JNull | Some b \<Rightarrow> obj
     [(''payTo'', JString (pb_payTo b)),
      (''amountRawUsdc'', JString (pb_amountRawUsdc b)),
      (''resourceUrlHash'', JString (pb_resourceUrlHash b)),
      (''method'', JString (pb_method b))])"

definition depositFields :: "DepositIntent \<Rightarrow> (string \<times> json result) list" where
  "depositFields i =
    [(''depositId'', Inr (JString (dep_depositId i))),
     (''wallet'', Inr (JString (dep_wallet i))),
     (''vault'', Inr (JString (dep_vault i))),
     (''amountRawUsdc'', raw (dep_amountRawUsdc i)),
     (''policySource'', Inr (opt_string (dep_policySource i))),
     (''mandateHash'', Inr (opt_string (dep_mandateHash i))),
     (''policyDecision'', Inr (opt_string (dep_policyDecision i))),
     (''approvalId'', Inr (opt_string (dep_approvalId i))),
     (''preparedMessageHash'', Inr (JString (dep_preparedMessageHash i))),
     (''recentBlockhash'', Inr (opt_string (dep_recentBlockhash i))),
     (''lastValidBlockHeight'', Inr (opt_number (dep_lastValidBlockHeight i))),
     (''serializedTransaction'', Inr (JString (dep_serializedTransaction i))),
     (''txSignature'', Inr (opt_string (dep_txSignature i))),
     (''actualDepositRawUsdc'', opt_raw (dep_actualDepositRawUsdc i)),
     (''sharesMintedRaw'', opt_raw (dep_sharesMintedRaw i)),
     (''principalBasisBeforeRawUsdc'', raw (dep_principalBasisBeforeRawUsdc i)),
     (''principalBasisAfterRawUsdc'', opt_raw (dep_principalBasisAfterRawUsdc i)),
     (''status'', Inr (JString (VaultFlowStatus_string (dep_status i)))),
     (''expiresAt'', Inr (JString (iso_text (dep_expiresAt i)))),
     (''submittedAt'', Inr (opt_string (map_option iso_text (dep_submittedAt i)))),
     (''terminalAt'', Inr (opt_string (map_option iso_text (dep_terminalAt i)))),
     (''errorCode'', Inr (opt_string (dep_errorCode i)))]"

definition serializeDepositIntent :: "DepositIntent \<Rightarrow> json result" where
  "serializeDepositIntent i = objR (depositFields i)"

definition withdrawalFields :: "WithdrawalIntent \<Rightarrow> (string \<times> json result) list" where
  "withdrawalFields i =
    [(''withdrawalId'', Inr (JString (wdr_withdrawalId i))),
     (''wallet'', Inr (JString (wdr_wallet i))),
     (''vault'', Inr (JString (wdr_vault i))),
     (''purpose'', Inr (JString (WithdrawalPurpose_string (wdr_purpose i)))),
     (''paymentBinding'', Inr (paymentBindingJson (wdr_paymentBinding i))),
     (''policySource'', Inr (opt_string (wdr_policySource i))),
     (''mandateHash'', Inr (opt_string (wdr_mandateHash i))),
     (''policyDecision'', Inr (opt_string (wdr_policyDecision i))),
     (''approvalId'', Inr (opt_string (wdr_approvalId i))),
     (''paymentTxSignature'', Inr (opt_string (wdr_paymentTxSignature i))),
     (''paymentVerification'', Inr (opt_string (map_option PaymentVerification_string (wdr_paymentVerification i)))),
     (''requestedWithdrawRawUsdc'', raw (wdr_requestedWithdrawRawUsdc i)),
     (''requestedSharesRaw'', raw (wdr_requestedSharesRaw i)),
     (''maxSharesToRedeemRaw'', raw (wdr_maxSharesToRedeemRaw i)),
     (''destinationUsdcAta'', Inr (JString (wdr_destinationUsdcAta i))),
     (''preparedMessageHash'', Inr (JString (wdr_preparedMessageHash i))),
     (''recentBlockhash'', Inr (opt_string (wdr_recentBlockhash i))),
     (''lastValidBlockHeight'', Inr (opt_number (wdr_lastValidBlockHeight i))),
     (''serializedTransaction'', Inr (JString (wdr_serializedTransaction i))),
     (''txSignature'', Inr (opt_string (wdr_txSignature i))),
     (''actualSharesBurnedRaw'', opt_raw (wdr_actualSharesBurnedRaw i)),
     (''actualWithdrawRawUsdc'', opt_raw (wdr_actualWithdrawRawUsdc i)),
     (''principalBasisBeforeRawUsdc'', raw (wdr_principalBasisBeforeRawUsdc i)),
     (''principalBasisAfterRawUsdc'', opt_raw (wdr_principalBasisAfterRawUsdc i)),
     (''status'', Inr (JString (VaultFlowStatus_string (wdr_status i)))),
     (''expiresAt'', Inr (JString (iso_text (wdr_expiresAt i)))),
     (''submittedAt'', Inr (opt_string (map_option iso_text (wdr_submittedAt i)))),
     (''terminalAt'', Inr (opt_string (map_option iso_text (wdr_terminalAt i)))),
     (''errorCode'', Inr (opt_string (wdr_errorCode i))),
     (''liquidityRejectionReason'', Inr (opt_string (wdr_liquidityRejectionReason i)))]"

definition serializeWithdrawalIntent :: "WithdrawalIntent \<Rightarrow> json result" where
  "serializeWithdrawalIntent i = objR (withdrawalFields i)"

definition depositSigningIntent :: "flow_env \<Rightarrow> DepositIntent \<Rightarrow> json result" where
  "depositSigningIntent E i = objR
    [(''wallet'', Inr (JString (dep_wallet i))),
     (''vault'', Inr (JString (dep_vault i))),
     (''farm'', Inr (JString (vc_farm (vf_vault E)))),
     (''shareMint'', Inr (JString (vc_shareMint (vf_vault E)))),
     (''asset'', Inr (JString (vc_usdcMint (vf_vault E)))),
     (''amountRawUsdc'', raw (dep_amountRawUsdc i)),
     (''feePayer'', Inr (JString (vf_sponsor E))),
     (''expiresAt'', Inr (JString (iso_text (dep_expiresAt i)))),
     (''preparedMessageHash'', Inr (JString (dep_preparedMessageHash i)))]"

definition withdrawalSigningIntent :: "flow_env \<Rightarrow> bool \<Rightarrow> WithdrawalIntent \<Rightarrow> json result" where
  "withdrawalSigningIntent E allowFullExit i = objR
    [(''wallet'', Inr (JString (wdr_wallet i))),
     (''vault'', Inr (JString (wdr_vault i))),
     (''farm'', Inr (JString (vc_farm (vf_vault E)))),
     (''shareMint'', Inr (JString (vc_shareMint (vf_vault E)))),
     (''asset'', Inr (JString (vc_usdcMint (vf_vault E)))),
     (''destinationUsdcAta'', Inr (JString (wdr_destinationUsdcAta i))),
     (''maxSharesToRedeemRaw'', raw (wdr_maxSharesToRedeemRaw i)),
     (''allowFullExit'', Inr (JBool allowFullExit)),
     (''feePayer'', Inr (JString (vf_sponsor E))),
     (''expiresAt'', Inr (JString (iso_text (wdr_expiresAt i)))),
     (''preparedMessageHash'', Inr (JString (wdr_preparedMessageHash i)))]"

end
