(* ===== verification/Flow_Service.thy ===== *)
theory Flow_Service
  imports Flow_Views
begin

text \<open>
  The handlers of \<open>VaultFlowService\<close> (\<open>src/src/domain/vault-flow-service.ts\<close>):
  preparing, submitting, finalising and reporting deposits and withdrawals. A handler is an
  action on the ledger; what it does under \<open>withWalletVaultLock\<close> is one locked section, and
  a handler with two sections lets other calls in between them. \<open>now\<close> is the clock of a
  section and \<open>uuid\<close> the fresh identifier it draws (no section draws two).
\<close>

section \<open>Helpers\<close>

definition DEPOSIT_SHARE_ROUNDING_MARGIN_RAW :: int where
  "DEPOSIT_SHARE_ROUNDING_MARGIN_RAW = 10"

definition flowExpiry :: "flow_env \<Rightarrow> int \<Rightarrow> timestamp" where
  "flowExpiry E now = toISOString (now + vf_flowExpirySeconds E * 1000)"

definition recordFlowEvent ::
  "int \<Rightarrow> string \<Rightarrow> string \<Rightarrow> string \<Rightarrow> SyncEventType \<Rightarrow> string option \<Rightarrow> int \<Rightarrow> int \<Rightarrow>
   string \<Rightarrow> int option \<Rightarrow> (ledger, unit) action" where
  "recordFlowEvent now uuid wallet vault eventType txSignature deltaShares deltaPrincipal classification slot =
     modifyA (recordSyncEvent now uuid
       \<lparr>si_wallet = wallet, si_vault = vault, si_eventType = eventType,
        si_deltaSharesRaw = deltaShares, si_deltaPrincipalRawUsdc = deltaPrincipal,
        si_classification = classification, si_sourceEndpoint = ''chain_rpc'',
        si_rawSnapshot = None, si_txSignature = txSignature, si_slot = slot\<rparr>)"

definition flagFlowBaselineReset :: "int \<Rightarrow> string \<Rightarrow> string \<Rightarrow> string \<Rightarrow> (ledger, unit) action" where
  "flagFlowBaselineReset now uuid wallet vault =
     bindA (getsA (\<lambda>L. getPosition L wallet vault)) (\<lambda>found. case found of
       None \<Rightarrow> returnA ()
     | Some position \<Rightarrow>
         bindA (modifyA (savePosition (flagBaselineReset position))) (\<lambda>_.
         recordFlowEvent now uuid wallet vault external_share_movement None 0 0 ''needs_baseline_reset'' None))"

definition applyFlowFeeDebt :: "flow_env \<Rightarrow> string \<Rightarrow> string \<Rightarrow> int \<Rightarrow> (ledger, unit) action" where
  "applyFlowFeeDebt E wallet vault feeLamports = (case vf_feeLamportsToUsdc E of
       None \<Rightarrow> returnA ()
     | Some convert \<Rightarrow>
         (case convert feeLamports of
            Inl _ \<Rightarrow> returnA ()
          | Inr feeDebtRawUsdc \<Rightarrow>
              bindA (getsA (\<lambda>L. getPosition L wallet vault)) (\<lambda>found. case found of
                None \<Rightarrow> returnA ()
              | Some position \<Rightarrow> modifyA (savePosition (position\<lparr>
                  pos_feeDebtRawUsdc := pos_feeDebtRawUsdc position + feeDebtRawUsdc,
                  pos_version := pos_version position + 1\<rparr>)))))"

definition assertNoPendingFlow :: "int \<Rightarrow> string \<Rightarrow> string \<Rightarrow> (ledger, unit) action" where
  "assertNoPendingFlow now wallet vault =
     readA (\<lambda>L. checkR (pendingVaultFlows now L wallet vault = 0) (conflict ''vault_flow_pending''))"

definition staleFlow :: "int \<Rightarrow> VaultFlowStatus \<Rightarrow> timestamp \<Rightarrow> bool" where
  "staleFlow now status expiresAt \<longleftrightarrow> status = flow_prepared \<and> flowExpired now expiresAt"

definition expireStaleFlows :: "int \<Rightarrow> string \<Rightarrow> string \<Rightarrow> (ledger, unit) action" where
  "expireStaleFlows now wallet vault =
     bindA (getsA (\<lambda>L. filter (\<lambda>d. staleFlow now (dep_status d) (dep_expiresAt d))
       (listDepositsForPosition L wallet vault))) (\<lambda>deposits.
     bindA (forA deposits (\<lambda>d. modifyA (saveDeposit (terminalDeposit now flow_expired ''expired'' d)))) (\<lambda>_.
     bindA (getsA (\<lambda>L. filter (\<lambda>w. staleFlow now (wdr_status w) (wdr_expiresAt w))
       (listWithdrawalsForPosition L wallet vault))) (\<lambda>withdrawals.
     forA withdrawals (\<lambda>w. modifyA (saveWithdrawal (terminalWithdrawal now flow_expired ''expired'' w))))))"

definition storeDeposit :: "DepositIntent \<Rightarrow> (ledger, DepositIntent) action" where
  "storeDeposit i = bindA (modifyA (saveDeposit i)) (\<lambda>_. returnA i)"

definition storeWithdrawal :: "WithdrawalIntent \<Rightarrow> (ledger, WithdrawalIntent) action" where
  "storeWithdrawal i = bindA (modifyA (saveWithdrawal i)) (\<lambda>_. returnA i)"

text \<open>The share check both prepare calls make against the position read at their start.\<close>

definition requireMatchingShares ::
  "int \<Rightarrow> string \<Rightarrow> WalletPosition \<Rightarrow> VaultContext \<Rightarrow> UserSharesRaw \<Rightarrow> string \<Rightarrow> string \<Rightarrow> (ledger, unit) action" where
  "requireMatchingShares now uuid position context userShares wallet vault =
     (if us_totalSharesRaw userShares \<noteq> pos_totalSharesRaw position then
        bindA (modifyA (savePosition (flagBaselineReset position))) (\<lambda>_.
        bindA (recordFlowEvent now uuid wallet vault external_share_movement None
          (us_totalSharesRaw userShares - pos_totalSharesRaw position) 0 ''needs_baseline_reset''
          (Some (vx_slot context))) (\<lambda>_.
        throwA (conflict ''needs_baseline_reset'')))
      else returnA ())"

record Refreshed =
  rf_position :: WalletPosition
  rf_after :: UserSharesRaw
  rf_exchangeRateScaled :: int
  rf_instantRedeemCapacityRawUsdc :: int
  rf_observedSlot :: int

definition refreshPositionFromChain :: "flow_env \<Rightarrow> string \<Rightarrow> string \<Rightarrow> (ledger, Refreshed option) action" where
  "refreshPositionFromChain E wallet vault =
     bindA (getsA (\<lambda>L. getPosition L wallet vault)) (\<lambda>found. returnA (case found of
       None \<Rightarrow> None
     | Some position \<Rightarrow>
         (case bindR (vf_loadContext E) (\<lambda>context.
                 bindR (vf_getUserSharesRaw E wallet context) (\<lambda>after. Inr (context, after))) of
            Inl _ \<Rightarrow> None
          | Inr (context, after) \<Rightarrow> Some
              \<lparr>rf_position = position, rf_after = after,
               rf_exchangeRateScaled = vx_exchangeRateScaled context,
               rf_instantRedeemCapacityRawUsdc = vx_instantRedeemCapacityRawUsdc context,
               rf_observedSlot = vx_slot context\<rparr>)))"

definition refreshedPosition :: "Refreshed \<Rightarrow> int \<Rightarrow> WalletPosition" where
  "refreshedPosition r basisAfter = (rf_position r)\<lparr>
     pos_stakedSharesRaw := us_stakedSharesRaw (rf_after r),
     pos_unstakedSharesRaw := us_unstakedSharesRaw (rf_after r),
     pos_totalSharesRaw := us_totalSharesRaw (rf_after r),
     pos_exchangeRateScaled := rf_exchangeRateScaled r,
     pos_instantRedeemCapacityRawUsdc := rf_instantRedeemCapacityRawUsdc r,
     pos_principalBasisRawUsdc := basisAfter,
     pos_principalBasisSource := subly_receipts,
     pos_lastSyncedSlot := Some (rf_observedSlot r),
     pos_version := pos_version (rf_position r) + 1\<rparr>"

section \<open>Deposits\<close>

definition newDepositIntent ::
  "flow_env \<Rightarrow> int \<Rightarrow> string \<Rightarrow> string \<Rightarrow> int \<Rightarrow> MandateAuthorization \<Rightarrow> VaultContext \<Rightarrow>
   BuiltTransaction \<Rightarrow> WalletPosition \<Rightarrow> DepositIntent" where
  "newDepositIntent E now uuid wallet amountRawUsdc auth context built position =
     \<lparr>dep_depositId = ''dep_'' @ uuid, dep_wallet = wallet, dep_vault = vc_address (vf_vault E),
      dep_amountRawUsdc = amountRawUsdc, dep_policySource = ma_policySource auth,
      dep_mandateHash = ma_mandateHash auth, dep_policyDecision = ma_policyDecision auth,
      dep_approvalId = ma_approvalId auth, dep_preparedMessageHash = bt_messageHash built,
      dep_recentBlockhash = Some (vx_blockhash context),
      dep_lastValidBlockHeight = Some (vx_lastValidBlockHeight context),
      dep_serializedTransaction = bt_serializedBase64 built, dep_txSignature = None,
      dep_submittedSerializedTransaction = None, dep_actualDepositRawUsdc = None,
      dep_sharesMintedRaw = None, dep_principalBasisBeforeRawUsdc = pos_principalBasisRawUsdc position,
      dep_principalBasisAfterRawUsdc = None, dep_status = flow_prepared,
      dep_expiresAt = flowExpiry E now, dep_submittedAt = None, dep_terminalAt = None,
      dep_errorCode = None\<rparr>"

definition authorizeDeposit :: "flow_env \<Rightarrow> string \<Rightarrow> int \<Rightarrow> string option \<Rightarrow> (ledger, MandateAuthorization) action" where
  "authorizeDeposit E wallet amountRawUsdc approvalId = (case vf_mandates E of
       None \<Rightarrow> returnA noAuthorization
     | Some m \<Rightarrow> mo_authorizeDeposit m wallet (vc_address (vf_vault E)) amountRawUsdc approvalId)"

definition commitDeposit ::
  "flow_env \<Rightarrow> int \<Rightarrow> string \<Rightarrow> string \<Rightarrow> int \<Rightarrow> MandateAuthorization \<Rightarrow> WalletPosition \<Rightarrow> (ledger, json) action" where
  "commitDeposit E now uuid wallet amountRawUsdc auth position =
     bindA (liftR (vf_loadContext E)) (\<lambda>context.
     bindA (assertA (vx_minDepositAmountRaw context + DEPOSIT_SHARE_ROUNDING_MARGIN_RAW \<le> amountRawUsdc)
       (badRequest ''deposit_below_minimum'')) (\<lambda>_.
     bindA (liftR (vf_getUserSharesRaw E wallet context)) (\<lambda>userShares.
     bindA (requireMatchingShares now uuid position context userShares wallet (vc_address (vf_vault E))) (\<lambda>_.
     bindA (liftR (vf_buildDeposit E wallet amountRawUsdc context)) (\<lambda>built.
     bindA (storeDeposit (newDepositIntent E now uuid wallet amountRawUsdc auth context built position)) (\<lambda>saved.
     liftR (objR (depositFields saved @ [(''signingIntent'', depositSigningIntent E saved)]))))))))"

definition prepareDepositSection ::
  "flow_env \<Rightarrow> int \<Rightarrow> string \<Rightarrow> string \<Rightarrow> int \<Rightarrow> string option \<Rightarrow> (ledger, json) action" where
  "prepareDepositSection E now uuid wallet amountRawUsdc approvalId =
     (let vault = vc_address (vf_vault E) in
      bindA (readA (\<lambda>L. requireSignerReadyPosition E (getPosition L wallet vault))) (\<lambda>position.
      bindA (expireStaleFlows now wallet vault) (\<lambda>_.
      bindA (assertNoPendingFlow now wallet vault) (\<lambda>_.
      bindA (authorizeDeposit E wallet amountRawUsdc approvalId) (\<lambda>auth.
      commitDeposit E now uuid wallet amountRawUsdc auth position)))))"

definition prepareDeposit ::
  "flow_env \<Rightarrow> int \<Rightarrow> string \<Rightarrow> string \<Rightarrow> js_unknown \<Rightarrow> string option \<Rightarrow> (ledger, json) action" where
  "prepareDeposit E now uuid walletInput amountInput approvalId =
     bindA (liftR (requireSolanaAddress walletInput ''wallet'')) (\<lambda>wallet.
     bindA (liftR (parsePositiveRawUnits amountInput ''amountRawUsdc'')) (\<lambda>amountRawUsdc.
     withLock (vf_ledger E) (prepareDepositSection E now uuid wallet amountRawUsdc approvalId)))"

text \<open>A submit call finds the intent already past \<open>prepared\<close> or records the submission.\<close>

datatype 'i submission = ExistingIntent 'i | SubmitIntent 'i

record SubmitFlowInput =
  sf_serializedTransaction :: string
  sf_agentSignature :: string

definition findDeposit :: "flow_env \<Rightarrow> string \<Rightarrow> ledger \<Rightarrow> DepositIntent result" where
  "findDeposit E depositId L = (case getDeposit L depositId of
       None \<Rightarrow> Inl (notFound ''deposit_not_found'')
     | Some i \<Rightarrow> if dep_vault i \<noteq> vc_address (vf_vault E) then Inl (notFound ''deposit_not_found'') else Inr i)"

text \<open>The sponsor's co-signature and the signature that identifies the transaction.\<close>

definition sponsorSigned :: "flow_env \<Rightarrow> string \<Rightarrow> (string \<times> string) result" where
  "sponsorSigned E serializedTransaction =
     bindR (vf_sponsorSign E serializedTransaction) (\<lambda>(serializedBase64, signature). case signature of
       None \<Rightarrow> Inl (conflict ''sponsor_signature_missing'')
     | Some txSignature \<Rightarrow> Inr (serializedBase64, txSignature))"

definition assertPreparedDeposit :: "flow_env \<Rightarrow> DepositIntent \<Rightarrow> (ledger, unit) action" where
  "assertPreparedDeposit E i = (case vf_mandates E of None \<Rightarrow> returnA () | Some m \<Rightarrow> mo_assertPreparedDeposit m i)"

definition submitDepositSection ::
  "flow_env \<Rightarrow> int \<Rightarrow> string \<Rightarrow> SubmitFlowInput \<Rightarrow> (ledger, DepositIntent submission) action" where
  "submitDepositSection E now depositId x =
     bindA (readA (findDeposit E depositId)) (\<lambda>intent.
     if dep_status intent \<noteq> flow_prepared then returnA (ExistingIntent intent)
     else if flowExpired now (dep_expiresAt intent) then
       bindA (storeDeposit (terminalDeposit now flow_expired ''expired'' intent)) (\<lambda>i. returnA (ExistingIntent i))
     else
       bindA (assertPreparedDeposit E intent) (\<lambda>_.
       bindA (liftR (verifyAgentSignedFlowTransaction E (dep_preparedMessageHash intent) (dep_wallet intent)
         (sf_serializedTransaction x) (sf_agentSignature x))) (\<lambda>_.
       bindA (liftR (sponsorSigned E (sf_serializedTransaction x))) (\<lambda>(serializedBase64, txSignature).
       bindA (storeDeposit (intent\<lparr>dep_status := flow_submitted, dep_txSignature := Some txSignature,
         dep_submittedSerializedTransaction := Some serializedBase64,
         dep_submittedAt := Some (toISOString now)\<rparr>)) (\<lambda>i. returnA (SubmitIntent i))))))"
definition settleDepositOutcome ::
  "flow_env \<Rightarrow> int \<Rightarrow> string \<Rightarrow> DepositIntent \<Rightarrow> DepositIntent \<Rightarrow> ConfirmedFlowOutcome \<Rightarrow> Refreshed option \<Rightarrow>
   int \<Rightarrow> (ledger, DepositIntent) action" where
  "settleDepositOutcome E now uuid intent latest outcome refreshed actualDepositRawUsdc =
     (case (if actualDepositRawUsdc = 0 then None else refreshed) of
        None \<Rightarrow>
          bindA (flagFlowBaselineReset now uuid (dep_wallet intent) (dep_vault intent)) (\<lambda>_.
          storeDeposit (terminalDeposit now flow_failed ''deposit_classification_failed'' latest))
      | Some r \<Rightarrow>
          let sharesMintedRaw = clampToZero (us_totalSharesRaw (rf_after r) - pos_totalSharesRaw (rf_position r));
              basisAfter = pos_principalBasisRawUsdc (rf_position r) + actualDepositRawUsdc in
          bindA (modifyA (savePosition (refreshedPosition r basisAfter))) (\<lambda>_.
          bindA (applyFlowFeeDebt E (dep_wallet intent) (dep_vault intent) (co_feeLamports outcome)) (\<lambda>_.
          bindA (recordFlowEvent now uuid (dep_wallet intent) (dep_vault intent) deposit_confirmed
            (dep_txSignature latest) sharesMintedRaw actualDepositRawUsdc ''subly_deposit_receipt''
            (Some (rf_observedSlot r))) (\<lambda>_.
          bindA (storeDeposit (latest\<lparr>dep_status := flow_confirmed,
            dep_actualDepositRawUsdc := Some actualDepositRawUsdc,
            dep_sharesMintedRaw := Some sharesMintedRaw,
            dep_principalBasisAfterRawUsdc := Some basisAfter,
            dep_terminalAt := Some (toISOString now)\<rparr>)) (\<lambda>confirmed.
          bindA (case (vf_mandates E, dep_approvalId confirmed) of
              (Some m, Some approvalId) \<Rightarrow> mo_consumeApproval m approvalId (dep_depositId confirmed)
            | _ \<Rightarrow> returnA ()) (\<lambda>_.
          returnA confirmed))))))"

definition finalizeDepositSection ::
  "flow_env \<Rightarrow> int \<Rightarrow> string \<Rightarrow> DepositIntent \<Rightarrow> ConfirmedFlowOutcome \<Rightarrow> (ledger, DepositIntent) action" where
  "finalizeDepositSection E now uuid intent outcome =
     bindA (getsA (\<lambda>L. getDeposit L (dep_depositId intent))) (\<lambda>found. case found of
       None \<Rightarrow> returnA intent
     | Some latest \<Rightarrow>
         if dep_status latest \<noteq> flow_submitted then returnA latest
         else if co_err outcome then
           bindA (applyFlowFeeDebt E (dep_wallet intent) (dep_vault intent) (co_feeLamports outcome)) (\<lambda>_.
           storeDeposit (terminalDeposit now flow_failed ''landed_failed'' latest))
         else
           bindA (liftR (vf_deriveAta E (dep_wallet intent) (vc_usdcMint (vf_vault E)))) (\<lambda>agentUsdcAta.
           let usdcDelta = orElse (co_tokenBalanceDeltas outcome agentUsdcAta) 0 in
           bindA (refreshPositionFromChain E (dep_wallet intent) (dep_vault intent)) (\<lambda>refreshed.
           settleDepositOutcome E now uuid intent latest outcome refreshed
             (if usdcDelta < 0 then - usdcDelta else 0))))"

definition notSubmittedDepositSection ::
  "int \<Rightarrow> DepositIntent \<Rightarrow> string \<Rightarrow> (ledger, DepositIntent) action" where
  "notSubmittedDepositSection now intent errorCode =
     bindA (getsA (\<lambda>L. getDeposit L (dep_depositId intent))) (\<lambda>found. case found of
       None \<Rightarrow> returnA intent
     | Some latest \<Rightarrow>
         if dep_status latest \<noteq> flow_submitted then returnA latest
         else storeDeposit (terminalDeposit now flow_failed_not_submitted errorCode latest))"

definition applyDepositOutcome ::
  "flow_env \<Rightarrow> int \<Rightarrow> string \<Rightarrow> DepositIntent \<Rightarrow> FlowOutcome \<Rightarrow> (ledger, DepositIntent) action" where
  "applyDepositOutcome E now uuid intent outcome = (case outcome of
       FlowPending \<Rightarrow> getsA (\<lambda>L. orElse (getDeposit L (dep_depositId intent)) intent)
     | FlowNotSubmitted errorCode \<Rightarrow> withLock (vf_ledger E) (notSubmittedDepositSection now intent errorCode)
     | FlowConfirmed c \<Rightarrow> withLock (vf_ledger E) (finalizeDepositSection E now uuid intent c))"

definition reconcileDeposit :: "flow_env \<Rightarrow> int \<Rightarrow> string \<Rightarrow> DepositIntent \<Rightarrow> (ledger, DepositIntent) action" where
  "reconcileDeposit E now uuid intent =
     bindA (liftR (reconcileFlow E (dep_txSignature intent) (dep_lastValidBlockHeight intent)))
       (applyDepositOutcome E now uuid intent)"

definition sendAndFinalizeDeposit :: "flow_env \<Rightarrow> int \<Rightarrow> string \<Rightarrow> DepositIntent \<Rightarrow> (ledger, DepositIntent) action" where
  "sendAndFinalizeDeposit E now uuid intent =
     bindA (liftR (sendAndConfirmFlow E (dep_txSignature intent)
         (dep_submittedSerializedTransaction intent) (dep_lastValidBlockHeight intent)))
       (applyDepositOutcome E now uuid intent)"

text \<open>\<open>now\<close> is the clock of the first locked section, \<open>later\<close> that of the second.\<close>

definition submitDeposit ::
  "flow_env \<Rightarrow> int \<Rightarrow> int \<Rightarrow> string \<Rightarrow> string \<Rightarrow> SubmitFlowInput \<Rightarrow> (ledger, json) action" where
  "submitDeposit E now later uuid depositId x =
     bindA (readA (findDeposit E depositId)) (\<lambda>_.
     bindA (withLock (vf_ledger E) (submitDepositSection E now depositId x)) (\<lambda>submission.
     bindA (case submission of
         ExistingIntent i \<Rightarrow>
           if dep_status i = flow_submitted then reconcileDeposit E later uuid i else returnA i
       | SubmitIntent i \<Rightarrow> sendAndFinalizeDeposit E later uuid i) (\<lambda>i.
     liftR (serializeDepositIntent i))))"

definition expireDepositSection :: "int \<Rightarrow> DepositIntent \<Rightarrow> (ledger, DepositIntent) action" where
  "expireDepositSection now intent =
     bindA (getsA (\<lambda>L. getDeposit L (dep_depositId intent))) (\<lambda>found. case found of
       None \<Rightarrow> returnA intent
     | Some latest \<Rightarrow>
         if dep_status latest \<noteq> flow_prepared \<or> \<not> flowExpired now (dep_expiresAt latest) then returnA latest
         else storeDeposit (terminalDeposit now flow_expired ''expired'' latest))"

text \<open>The view of a deposit, named apart from the ledger's \<open>getDeposit\<close>.\<close>

definition getDepositView :: "flow_env \<Rightarrow> int \<Rightarrow> string \<Rightarrow> string \<Rightarrow> (ledger, json) action" where
  "getDepositView E now uuid depositId =
     bindA (readA (findDeposit E depositId)) (\<lambda>intent.
     bindA (if dep_status intent = flow_submitted then reconcileDeposit E now uuid intent
         else if dep_status intent = flow_prepared \<and> flowExpired now (dep_expiresAt intent) then
           withLock (vf_ledger E) (expireDepositSection now intent)
         else returnA intent) (\<lambda>i.
     liftR (serializeDepositIntent i)))"

section \<open>Withdrawals\<close>

record PrepareWithdrawalInput =
  pw_wallet :: string
  pw_amountRawUsdc :: js_unknown
  pw_yieldRealize :: bool
  pw_payment :: "PaymentBindingWire option"
  pw_approvalId :: "string option"

definition authorizeWithdrawalFlow ::
  "flow_env \<Rightarrow> string \<Rightarrow> int \<Rightarrow> PrepareWithdrawalInput \<Rightarrow> (ledger, MandateAuthorization) action" where
  "authorizeWithdrawalFlow E wallet amountRawUsdc x = (case vf_mandates E of
       None \<Rightarrow> returnA noAuthorization
     | Some m \<Rightarrow>
         if pw_yieldRealize x
         then mo_authorizeRealize m wallet (vc_address (vf_vault E)) amountRawUsdc (pw_payment x) (pw_approvalId x)
         else mo_authorizeWithdrawal m wallet (vc_address (vf_vault E)) amountRawUsdc (pw_approvalId x))"

definition assertNoLivePayments :: "string \<Rightarrow> string \<Rightarrow> (ledger, unit) action" where
  "assertNoLivePayments wallet vault =
     bindA (getsA (\<lambda>L. listPaymentsForPosition L wallet vault)) (\<lambda>payments.
     bindA (assertA (activeSubmittedPayments payments = []) (conflict ''wallet_locked_by_payment'')) (\<lambda>_.
     assertA (filter (\<lambda>p. pay_status p = pay_prepared) payments = []) (conflict ''payment_reservation_active'')))"

definition withdrawTarget :: "bool \<Rightarrow> int \<Rightarrow> int" where
  "withdrawTarget yieldRealize amountRawUsdc =
     amountRawUsdc + (if yieldRealize then YIELD_REALIZE_ROUNDING_RAW_USDC else 0)"

definition grossWithdrawFor :: "bool \<Rightarrow> int \<Rightarrow> VaultContext \<Rightarrow> int result" where
  "grossWithdrawFor yieldRealize amountRawUsdc context =
     bindR (case grossWithdrawForNetTarget (withdrawTarget yieldRealize amountRawUsdc)
              (vx_withdrawalPenaltyBps context) (vx_withdrawalPenaltyLamports context) of
          Inl VaultLiquidityError \<Rightarrow> Inl (conflict ''withdraw_illiquid'')
        | Inl (VaultError e) \<Rightarrow> Inl e
        | Inr gross \<Rightarrow> Inr gross) (\<lambda>gross.
     bindR (checkR (gross \<le> vx_instantRedeemCapacityRawUsdc context) (conflict ''withdraw_illiquid'')) (\<lambda>_.
     Inr gross))"

text \<open>The position as the chain shows it, over the ledger's principal, reservation and debt.\<close>

definition chainPosition :: "WalletPosition \<Rightarrow> UserSharesRaw \<Rightarrow> VaultContext \<Rightarrow> WalletPosition" where
  "chainPosition position userShares context = position\<lparr>
     pos_stakedSharesRaw := us_stakedSharesRaw userShares,
     pos_unstakedSharesRaw := us_unstakedSharesRaw userShares,
     pos_totalSharesRaw := us_totalSharesRaw userShares,
     pos_exchangeRateScaled := vx_exchangeRateScaled context,
     pos_instantRedeemCapacityRawUsdc := vx_instantRedeemCapacityRawUsdc context\<rparr>"

definition assertYieldOnly ::
  "flow_env \<Rightarrow> WalletPosition \<Rightarrow> UserSharesRaw \<Rightarrow> VaultContext \<Rightarrow> int \<Rightarrow> int \<Rightarrow> unit result" where
  "assertYieldOnly E position userShares context amountRawUsdc gross =
     bindR (evaluatePaymentBudget (chainPosition position userShares context) amountRawUsdc
         (vf_realizeOverheadRawUsdc E) (Some gross) None) (\<lambda>evaluation. case evaluation of
       BudgetRejected code _ \<Rightarrow> Inl (conflict (rejection_code code))
     | BudgetOk _ \<Rightarrow> Inr ())"

definition newWithdrawalIntent ::
  "flow_env \<Rightarrow> int \<Rightarrow> string \<Rightarrow> string \<Rightarrow> int \<Rightarrow> PrepareWithdrawalInput \<Rightarrow> MandateAuthorization \<Rightarrow>
   VaultContext \<Rightarrow> int \<Rightarrow> int \<Rightarrow> string \<Rightarrow> BuiltTransaction \<Rightarrow> WalletPosition \<Rightarrow> WithdrawalIntent" where
  "newWithdrawalIntent E now uuid wallet amountRawUsdc x auth context requested maxShares ata built position =
     \<lparr>wdr_withdrawalId = ''wdr_'' @ uuid, wdr_wallet = wallet, wdr_vault = vc_address (vf_vault E),
      wdr_purpose = (if pw_yieldRealize x then yield_realize else normal),
      wdr_paymentBinding = pw_payment x,
      wdr_policySource = ma_policySource auth, wdr_mandateHash = ma_mandateHash auth,
      wdr_policyDecision = ma_policyDecision auth, wdr_approvalId = ma_approvalId auth,
      wdr_paymentTxSignature = None,
      wdr_paymentVerification = (if pw_yieldRealize x then Some unreported else None),
      wdr_requestedWithdrawRawUsdc = amountRawUsdc, wdr_requestedSharesRaw = requested,
      wdr_maxSharesToRedeemRaw = maxShares, wdr_destinationUsdcAta = ata,
      wdr_preparedMessageHash = bt_messageHash built, wdr_recentBlockhash = Some (vx_blockhash context),
      wdr_lastValidBlockHeight = Some (vx_lastValidBlockHeight context),
      wdr_serializedTransaction = bt_serializedBase64 built, wdr_txSignature = None,
      wdr_submittedSerializedTransaction = None, wdr_actualSharesBurnedRaw = None,
      wdr_actualWithdrawRawUsdc = None,
      wdr_principalBasisBeforeRawUsdc = pos_principalBasisRawUsdc position,
      wdr_principalBasisAfterRawUsdc = None, wdr_status = flow_prepared,
      wdr_expiresAt = flowExpiry E now, wdr_submittedAt = None, wdr_terminalAt = None,
      wdr_errorCode = None, wdr_liquidityRejectionReason = None\<rparr>"

definition storePreparedWithdrawal ::
  "flow_env \<Rightarrow> int \<Rightarrow> string \<Rightarrow> string \<Rightarrow> int \<Rightarrow> PrepareWithdrawalInput \<Rightarrow> MandateAuthorization \<Rightarrow>
   WalletPosition \<Rightarrow> VaultContext \<Rightarrow> UserSharesRaw \<Rightarrow> (ledger, json) action" where
  "storePreparedWithdrawal E now uuid wallet amountRawUsdc x auth position context userShares =
     bindA (liftR (grossWithdrawFor (pw_yieldRealize x) amountRawUsdc context)) (\<lambda>gross.
     bindA (liftR (if pw_yieldRealize x then assertYieldOnly E position userShares context amountRawUsdc gross
                   else Inr ())) (\<lambda>_.
     bindA (liftR (ceilDiv (gross * RATE_SCALE) (vx_exchangeRateScaled context))) (\<lambda>shares.
     let requested = minBigInt shares (us_totalSharesRaw userShares);
         fullExit = requested \<ge> us_totalSharesRaw userShares;
         maxShares = (if fullExit then us_totalSharesRaw userShares else requested) in
     bindA (liftR (vf_deriveAta E wallet (vc_usdcMint (vf_vault E)))) (\<lambda>ata.
     bindA (liftR (vf_buildWithdraw E wallet requested context)) (\<lambda>built.
     bindA (storeWithdrawal (newWithdrawalIntent E now uuid wallet amountRawUsdc x auth context
         requested maxShares ata built position)) (\<lambda>saved.
     liftR (objR (withdrawalFields saved @
       [(''signingIntent'', withdrawalSigningIntent E fullExit saved)]))))))))"

definition commitWithdrawal ::
  "flow_env \<Rightarrow> int \<Rightarrow> string \<Rightarrow> string \<Rightarrow> int \<Rightarrow> PrepareWithdrawalInput \<Rightarrow> MandateAuthorization \<Rightarrow>
   WalletPosition \<Rightarrow> (ledger, json) action" where
  "commitWithdrawal E now uuid wallet amountRawUsdc x auth position =
     bindA (liftR (vf_loadContext E)) (\<lambda>context.
     bindA (liftR (vf_getUserSharesRaw E wallet context)) (\<lambda>userShares.
     bindA (requireMatchingShares now uuid position context userShares wallet (vc_address (vf_vault E))) (\<lambda>_.
     storePreparedWithdrawal E now uuid wallet amountRawUsdc x auth position context userShares)))"

definition prepareWithdrawalSection ::
  "flow_env \<Rightarrow> int \<Rightarrow> string \<Rightarrow> string \<Rightarrow> int \<Rightarrow> PrepareWithdrawalInput \<Rightarrow> (ledger, json) action" where
  "prepareWithdrawalSection E now uuid wallet amountRawUsdc x =
     (let vault = vc_address (vf_vault E) in
      bindA (readA (\<lambda>L. requireSignerReadyPosition E (getPosition L wallet vault))) (\<lambda>position.
      bindA (expirePreparedPaymentsForLockedPosition now wallet vault) (\<lambda>_.
      bindA (assertNoLivePayments wallet vault) (\<lambda>_.
      bindA (expireStaleFlows now wallet vault) (\<lambda>_.
      bindA (assertNoPendingFlow now wallet vault) (\<lambda>_.
      bindA (authorizeWithdrawalFlow E wallet amountRawUsdc x) (\<lambda>auth.
      commitWithdrawal E now uuid wallet amountRawUsdc x auth position)))))))"

definition prepareWithdrawal ::
  "flow_env \<Rightarrow> int \<Rightarrow> string \<Rightarrow> PrepareWithdrawalInput \<Rightarrow> (ledger, json) action" where
  "prepareWithdrawal E now uuid x =
     bindA (liftR (requireSolanaAddress (pw_wallet x) ''wallet'')) (\<lambda>wallet.
     bindA (liftR (parsePositiveRawUnits (pw_amountRawUsdc x) ''amountRawUsdc'')) (\<lambda>amountRawUsdc.
     withLock (vf_ledger E) (prepareWithdrawalSection E now uuid wallet amountRawUsdc x)))"

definition findWithdrawal :: "flow_env \<Rightarrow> string \<Rightarrow> ledger \<Rightarrow> WithdrawalIntent result" where
  "findWithdrawal E withdrawalId L = (case getWithdrawal L withdrawalId of
       None \<Rightarrow> Inl (notFound ''withdrawal_not_found'')
     | Some i \<Rightarrow> if wdr_vault i \<noteq> vc_address (vf_vault E) then Inl (notFound ''withdrawal_not_found'') else Inr i)"

definition assertPreparedWithdrawal :: "flow_env \<Rightarrow> WithdrawalIntent \<Rightarrow> (ledger, unit) action" where
  "assertPreparedWithdrawal E i = (case vf_mandates E of None \<Rightarrow> returnA () | Some m \<Rightarrow> mo_assertPreparedWithdrawal m i)"

definition submitWithdrawalSection ::
  "flow_env \<Rightarrow> int \<Rightarrow> string \<Rightarrow> SubmitFlowInput \<Rightarrow> (ledger, WithdrawalIntent submission) action" where
  "submitWithdrawalSection E now withdrawalId x =
     bindA (readA (findWithdrawal E withdrawalId)) (\<lambda>intent.
     if wdr_status intent \<noteq> flow_prepared then returnA (ExistingIntent intent)
     else if flowExpired now (wdr_expiresAt intent) then
       bindA (storeWithdrawal (terminalWithdrawal now flow_expired ''expired'' intent)) (\<lambda>i. returnA (ExistingIntent i))
     else
       bindA (assertPreparedWithdrawal E intent) (\<lambda>_.
       bindA (liftR (verifyAgentSignedFlowTransaction E (wdr_preparedMessageHash intent) (wdr_wallet intent)
         (sf_serializedTransaction x) (sf_agentSignature x))) (\<lambda>_.
       bindA (liftR (sponsorSigned E (sf_serializedTransaction x))) (\<lambda>(serializedBase64, txSignature).
       bindA (storeWithdrawal (intent\<lparr>wdr_status := flow_submitted, wdr_txSignature := Some txSignature,
         wdr_submittedSerializedTransaction := Some serializedBase64,
         wdr_submittedAt := Some (toISOString now)\<rparr>)) (\<lambda>i. returnA (SubmitIntent i))))))"

definition settleWithdrawalOutcome ::
  "flow_env \<Rightarrow> int \<Rightarrow> string \<Rightarrow> WithdrawalIntent \<Rightarrow> WithdrawalIntent \<Rightarrow> ConfirmedFlowOutcome \<Rightarrow>
   Refreshed option \<Rightarrow> int \<Rightarrow> (ledger, WithdrawalIntent) action" where
  "settleWithdrawalOutcome E now uuid intent latest outcome refreshed actualWithdrawRawUsdc =
     (case (if actualWithdrawRawUsdc = 0 then None else refreshed) of
        None \<Rightarrow>
          bindA (flagFlowBaselineReset now uuid (wdr_wallet intent) (wdr_vault intent)) (\<lambda>_.
          storeWithdrawal (terminalWithdrawal now flow_failed ''withdrawal_classification_failed'' latest))
      | Some r \<Rightarrow>
          let actualSharesBurnedRaw = clampToZero (pos_totalSharesRaw (rf_position r) - us_totalSharesRaw (rf_after r)) in
          bindA (liftR (computePositionValueRawUsdc (us_totalSharesRaw (rf_after r)) (rf_exchangeRateScaled r)))
            (\<lambda>newPositionValue.
          let basisAfter = minBigInt (pos_principalBasisRawUsdc (rf_position r)) newPositionValue in
          bindA (modifyA (savePosition (refreshedPosition r basisAfter))) (\<lambda>_.
          bindA (applyFlowFeeDebt E (wdr_wallet intent) (wdr_vault intent) (co_feeLamports outcome)) (\<lambda>_.
          bindA (recordFlowEvent now uuid (wdr_wallet intent) (wdr_vault intent) withdrawal_confirmed
            (wdr_txSignature latest) (- actualSharesBurnedRaw)
            (basisAfter - pos_principalBasisRawUsdc (rf_position r)) ''subly_withdrawal_receipt''
            (Some (rf_observedSlot r))) (\<lambda>_.
          bindA (storeWithdrawal (latest\<lparr>wdr_status := flow_confirmed,
            wdr_actualSharesBurnedRaw := Some actualSharesBurnedRaw,
            wdr_actualWithdrawRawUsdc := Some actualWithdrawRawUsdc,
            wdr_principalBasisAfterRawUsdc := Some basisAfter,
            wdr_terminalAt := Some (toISOString now)\<rparr>)) (\<lambda>confirmed.
          bindA (case (vf_mandates E, wdr_approvalId confirmed) of
              (Some m, Some approvalId) \<Rightarrow> mo_consumeApproval m approvalId (wdr_withdrawalId confirmed)
            | _ \<Rightarrow> returnA ()) (\<lambda>_.
          returnA confirmed)))))))"

definition finalizeWithdrawalSection ::
  "flow_env \<Rightarrow> int \<Rightarrow> string \<Rightarrow> WithdrawalIntent \<Rightarrow> ConfirmedFlowOutcome \<Rightarrow> (ledger, WithdrawalIntent) action" where
  "finalizeWithdrawalSection E now uuid intent outcome =
     bindA (getsA (\<lambda>L. getWithdrawal L (wdr_withdrawalId intent))) (\<lambda>found. case found of
       None \<Rightarrow> returnA intent
     | Some latest \<Rightarrow>
         if wdr_status latest \<noteq> flow_submitted then returnA latest
         else if co_err outcome then
           bindA (applyFlowFeeDebt E (wdr_wallet intent) (wdr_vault intent) (co_feeLamports outcome)) (\<lambda>_.
           storeWithdrawal (terminalWithdrawal now flow_failed ''landed_failed'' latest))
         else
           let usdcDelta = orElse (co_tokenBalanceDeltas outcome (wdr_destinationUsdcAta intent)) 0 in
           bindA (refreshPositionFromChain E (wdr_wallet intent) (wdr_vault intent)) (\<lambda>refreshed.
           settleWithdrawalOutcome E now uuid intent latest outcome refreshed
             (if usdcDelta > 0 then usdcDelta else 0)))"
definition notSubmittedWithdrawalSection ::
  "int \<Rightarrow> WithdrawalIntent \<Rightarrow> string \<Rightarrow> (ledger, WithdrawalIntent) action" where
  "notSubmittedWithdrawalSection now intent errorCode =
     bindA (getsA (\<lambda>L. getWithdrawal L (wdr_withdrawalId intent))) (\<lambda>found. case found of
       None \<Rightarrow> returnA intent
     | Some latest \<Rightarrow>
         if wdr_status latest \<noteq> flow_submitted then returnA latest
         else storeWithdrawal (terminalWithdrawal now flow_failed_not_submitted errorCode latest))"

definition applyWithdrawalOutcome ::
  "flow_env \<Rightarrow> int \<Rightarrow> string \<Rightarrow> WithdrawalIntent \<Rightarrow> FlowOutcome \<Rightarrow> (ledger, WithdrawalIntent) action" where
  "applyWithdrawalOutcome E now uuid intent outcome = (case outcome of
       FlowPending \<Rightarrow> getsA (\<lambda>L. orElse (getWithdrawal L (wdr_withdrawalId intent)) intent)
     | FlowNotSubmitted errorCode \<Rightarrow> withLock (vf_ledger E) (notSubmittedWithdrawalSection now intent errorCode)
     | FlowConfirmed c \<Rightarrow> withLock (vf_ledger E) (finalizeWithdrawalSection E now uuid intent c))"

definition reconcileWithdrawal ::
  "flow_env \<Rightarrow> int \<Rightarrow> string \<Rightarrow> WithdrawalIntent \<Rightarrow> (ledger, WithdrawalIntent) action" where
  "reconcileWithdrawal E now uuid intent =
     bindA (liftR (reconcileFlow E (wdr_txSignature intent) (wdr_lastValidBlockHeight intent)))
       (applyWithdrawalOutcome E now uuid intent)"

definition sendAndFinalizeWithdrawal ::
  "flow_env \<Rightarrow> int \<Rightarrow> string \<Rightarrow> WithdrawalIntent \<Rightarrow> (ledger, WithdrawalIntent) action" where
  "sendAndFinalizeWithdrawal E now uuid intent =
     bindA (liftR (sendAndConfirmFlow E (wdr_txSignature intent)
         (wdr_submittedSerializedTransaction intent) (wdr_lastValidBlockHeight intent)))
       (applyWithdrawalOutcome E now uuid intent)"

definition submitWithdrawal ::
  "flow_env \<Rightarrow> int \<Rightarrow> int \<Rightarrow> string \<Rightarrow> string \<Rightarrow> SubmitFlowInput \<Rightarrow> (ledger, json) action" where
  "submitWithdrawal E now later uuid withdrawalId x =
     bindA (readA (findWithdrawal E withdrawalId)) (\<lambda>_.
     bindA (withLock (vf_ledger E) (submitWithdrawalSection E now withdrawalId x)) (\<lambda>submission.
     bindA (case submission of
         ExistingIntent i \<Rightarrow>
           if wdr_status i = flow_submitted then reconcileWithdrawal E later uuid i else returnA i
       | SubmitIntent i \<Rightarrow> sendAndFinalizeWithdrawal E later uuid i) (\<lambda>i.
     liftR (serializeWithdrawalIntent i))))"

definition expireWithdrawalSection :: "int \<Rightarrow> WithdrawalIntent \<Rightarrow> (ledger, WithdrawalIntent) action" where
  "expireWithdrawalSection now intent =
     bindA (getsA (\<lambda>L. getWithdrawal L (wdr_withdrawalId intent))) (\<lambda>found. case found of
       None \<Rightarrow> returnA intent
     | Some latest \<Rightarrow>
         if wdr_status latest \<noteq> flow_prepared \<or> \<not> flowExpired now (wdr_expiresAt latest) then returnA latest
         else storeWithdrawal (terminalWithdrawal now flow_expired ''expired'' latest))"

definition getWithdrawalView :: "flow_env \<Rightarrow> int \<Rightarrow> string \<Rightarrow> string \<Rightarrow> (ledger, json) action" where
  "getWithdrawalView E now uuid withdrawalId =
     bindA (readA (findWithdrawal E withdrawalId)) (\<lambda>intent.
     bindA (if wdr_status intent = flow_submitted then reconcileWithdrawal E now uuid intent
         else if wdr_status intent = flow_prepared \<and> flowExpired now (wdr_expiresAt intent) then
           withLock (vf_ledger E) (expireWithdrawalSection now intent)
         else returnA intent) (\<lambda>i.
     liftR (serializeWithdrawalIntent i)))"

section \<open>Reporting the payment a realize funded\<close>

text \<open>The lookup is best effort: every throw on the way keeps \<open>reported\<close>.\<close>

definition paymentVerified :: "flow_env \<Rightarrow> PaymentBindingWire \<Rightarrow> string \<Rightarrow> bool" where
  "paymentVerified E binding txSignature = (case vf_lookup E 0 txSignature of
       Inr (Some c) \<Rightarrow> \<not> co_err c \<and>
         (case vf_deriveAta E (pb_payTo binding) (vc_usdcMint (vf_vault E)) of
            Inl _ \<Rightarrow> False
          | Inr payToAta \<Rightarrow>
              (case js_BigInt (pb_amountRawUsdc binding) of
                 None \<Rightarrow> False
               | Some due \<Rightarrow> due \<le> orElse (co_tokenBalanceDeltas c payToAta) 0))
     | _ \<Rightarrow> False)"

definition reportVerification :: "flow_env \<Rightarrow> WithdrawalIntent \<Rightarrow> string \<Rightarrow> PaymentVerification" where
  "reportVerification E i txSignature = (case wdr_paymentBinding i of
       None \<Rightarrow> reported
     | Some b \<Rightarrow> if paymentVerified E b txSignature then verified_onchain else reported)"

definition otherPaymentReported :: "WithdrawalIntent \<Rightarrow> string \<Rightarrow> bool" where
  "otherPaymentReported i txSignature \<longleftrightarrow>
     wdr_paymentTxSignature i \<noteq> None \<and> wdr_paymentTxSignature i \<noteq> Some txSignature"

definition reportSection ::
  "string \<Rightarrow> string \<Rightarrow> PaymentVerification \<Rightarrow> (ledger, WithdrawalIntent) action" where
  "reportSection withdrawalId txSignature verification =
     bindA (getsA (\<lambda>L. getWithdrawal L withdrawalId)) (\<lambda>found. case found of
       None \<Rightarrow> throwA (notFound ''withdrawal_not_found'')
     | Some latest \<Rightarrow>
         bindA (assertA (\<not> otherPaymentReported latest txSignature) (conflict ''payment_already_reported'')) (\<lambda>_.
         storeWithdrawal (latest\<lparr>wdr_paymentTxSignature := Some txSignature,
           wdr_paymentVerification := Some
             (if wdr_paymentVerification latest = Some verified_onchain then verified_onchain
              else verification)\<rparr>)))"

definition reportable :: "string \<Rightarrow> string \<Rightarrow> WithdrawalIntent option \<Rightarrow> WithdrawalIntent result" where
  "reportable wallet txSignature found = (case found of
       None \<Rightarrow> Inl (notFound ''withdrawal_not_found'')
     | Some i \<Rightarrow>
         if wdr_wallet i \<noteq> wallet then Inl (notFound ''withdrawal_not_found'')
         else if wdr_purpose i \<noteq> yield_realize then Inl (conflict ''not_a_realize_withdrawal'')
         else if wdr_status i \<noteq> flow_confirmed then Inl (conflict ''realize_not_confirmed'')
         else if otherPaymentReported i txSignature then Inl (conflict ''payment_already_reported'')
         else Inr i)"

definition reportPayment :: "flow_env \<Rightarrow> string \<Rightarrow> string \<Rightarrow> string \<Rightarrow> (ledger, json) action" where
  "reportPayment E wallet withdrawalId txSignature =
     bindA (readA (\<lambda>L. reportable wallet txSignature (getWithdrawal L withdrawalId))) (\<lambda>intent.
     bindA (withLock (vf_ledger E)
       (reportSection withdrawalId txSignature (reportVerification E intent txSignature))) (\<lambda>saved.
     returnA (obj
       [(''withdrawalId'', JString (wdr_withdrawalId saved)),
        (''paymentTxSignature'', opt_string (wdr_paymentTxSignature saved)),
        (''paymentVerification'', opt_string (map_option PaymentVerification_string (wdr_paymentVerification saved)))])))"

end
