(* ===== verification/Flow_Machine.thy ===== *)
theory Flow_Machine
  imports Flow_Service Intent_Machine
begin

text \<open>
  The vault flows as a store of intents. A flow is a deposit or a withdrawal; it evolves along
  its life cycle and is open while it is prepared or submitted; two flows are rivals when they
  are of the same position. Every locked section of \<open>VaultFlowService\<close> is a step of the
  abstract store of \<open>Intent_Machine\<close>: stored flows evolve, and a prepare admits at most one
  flow, on a position without an open one. What the flows rely on of the mandate service is the
  locale \<open>mandate_gate\<close>.
\<close>

section \<open>Flows\<close>

datatype vault_flow = DepositFlow DepositIntent | WithdrawalFlow WithdrawalIntent

type_synonym flow_id = "string + string"

definition flows :: "ledger \<Rightarrow> flow_id \<Rightarrow> vault_flow option" where
  "flows L k = (case k of
       Inl i \<Rightarrow> map_option DepositFlow (getDeposit L i)
     | Inr i \<Rightarrow> map_option WithdrawalFlow (getWithdrawal L i))"

fun flow_status :: "vault_flow \<Rightarrow> VaultFlowStatus" where
  "flow_status (DepositFlow d) = dep_status d"
| "flow_status (WithdrawalFlow w) = wdr_status w"

fun flow_position :: "vault_flow \<Rightarrow> string \<times> string" where
  "flow_position (DepositFlow d) = (dep_wallet d, dep_vault d)"
| "flow_position (WithdrawalFlow w) = (wdr_wallet w, wdr_vault w)"

definition open_status :: "VaultFlowStatus \<Rightarrow> bool" where
  "open_status s \<longleftrightarrow> s = flow_prepared \<or> s = flow_submitted"

definition open_flow :: "vault_flow \<Rightarrow> bool" where
  "open_flow f \<longleftrightarrow> open_status (flow_status f)"

definition prepared_flow :: "vault_flow \<Rightarrow> bool" where
  "prepared_flow f \<longleftrightarrow> flow_status f = flow_prepared"

definition same_position :: "vault_flow \<Rightarrow> vault_flow \<Rightarrow> bool" where
  "same_position f g \<longleftrightarrow> flow_position f = flow_position g"

subsection \<open>The life cycle\<close>

text \<open>
  The content of a flow is everything but its status, its submission record, its outcome and,
  for a realize, the payment reported for it.
\<close>

definition deposit_content :: "DepositIntent \<Rightarrow> DepositIntent" where
  "deposit_content i = i\<lparr>dep_status := flow_prepared, dep_txSignature := None,
     dep_submittedSerializedTransaction := None, dep_actualDepositRawUsdc := None,
     dep_sharesMintedRaw := None, dep_principalBasisAfterRawUsdc := None, dep_submittedAt := None,
     dep_terminalAt := None, dep_errorCode := None\<rparr>"

definition without_report :: "WithdrawalIntent \<Rightarrow> WithdrawalIntent" where
  "without_report i = i\<lparr>wdr_paymentTxSignature := None, wdr_paymentVerification := None\<rparr>"

definition withdrawal_content :: "WithdrawalIntent \<Rightarrow> WithdrawalIntent" where
  "withdrawal_content i = (without_report i)\<lparr>wdr_status := flow_prepared, wdr_txSignature := None,
     wdr_submittedSerializedTransaction := None, wdr_actualSharesBurnedRaw := None,
     wdr_actualWithdrawRawUsdc := None, wdr_principalBasisAfterRawUsdc := None,
     wdr_submittedAt := None, wdr_terminalAt := None, wdr_errorCode := None\<rparr>"

definition flow_next :: "VaultFlowStatus \<Rightarrow> VaultFlowStatus \<Rightarrow> bool" where
  "flow_next s s' \<longleftrightarrow> s' = s \<or> (case s of
       flow_prepared \<Rightarrow> s' \<in> {flow_submitted, flow_expired}
     | flow_submitted \<Rightarrow> s' \<in> {flow_confirmed, flow_failed, flow_failed_not_submitted}
     | _ \<Rightarrow> False)"

text \<open>
  A reported payment is never replaced and a verified one never downgraded; reporting touches
  nothing else, and only a confirmed realize can be reported.
\<close>

definition report_next :: "WithdrawalIntent \<Rightarrow> WithdrawalIntent \<Rightarrow> bool" where
  "report_next i i' \<longleftrightarrow>
     (wdr_paymentTxSignature i' = wdr_paymentTxSignature i \<and>
      wdr_paymentVerification i' = wdr_paymentVerification i) \<or>
     (wdr_status i = flow_confirmed \<and> wdr_purpose i = yield_realize \<and>
      without_report i' = without_report i \<and> wdr_paymentTxSignature i' \<noteq> None \<and>
      wdr_paymentTxSignature i \<in> {None, wdr_paymentTxSignature i'} \<and>
      (wdr_paymentVerification i = Some verified_onchain \<longrightarrow>
       wdr_paymentVerification i' = Some verified_onchain))"

fun flow_evolves :: "vault_flow \<Rightarrow> vault_flow \<Rightarrow> bool" where
  "flow_evolves (DepositFlow i) (DepositFlow i') \<longleftrightarrow>
     deposit_content i' = deposit_content i \<and> flow_next (dep_status i) (dep_status i') \<and>
     (dep_status i \<noteq> flow_prepared \<longrightarrow> dep_txSignature i' = dep_txSignature i \<and>
        dep_submittedSerializedTransaction i' = dep_submittedSerializedTransaction i) \<and>
     (\<not> open_status (dep_status i) \<longrightarrow> i' = i)"
| "flow_evolves (WithdrawalFlow i) (WithdrawalFlow i') \<longleftrightarrow>
     withdrawal_content i' = withdrawal_content i \<and> flow_next (wdr_status i) (wdr_status i') \<and>
     (wdr_status i \<noteq> flow_prepared \<longrightarrow> wdr_txSignature i' = wdr_txSignature i \<and>
        wdr_submittedSerializedTransaction i' = wdr_submittedSerializedTransaction i) \<and>
     (\<not> open_status (wdr_status i) \<longrightarrow> without_report i' = without_report i) \<and> report_next i i'"
| "flow_evolves _ _ \<longleftrightarrow> False"

abbreviation flow_store_step :: "(flow_id \<Rightarrow> vault_flow option) \<Rightarrow> (flow_id \<Rightarrow> vault_flow option) \<Rightarrow> bool" where
  "flow_store_step \<equiv> store_step flow_evolves prepared_flow same_position open_flow"

abbreviation one_open :: "(flow_id \<Rightarrow> vault_flow option) \<Rightarrow> bool" where
  "one_open \<equiv> no_rivals same_position open_flow"

lemma flow_next_refl [simp]: "flow_next s s" and report_next_refl [simp]: "report_next i i"
  by (simp_all add: flow_next_def report_next_def)

lemma flow_evolves_refl [simp]: "flow_evolves f f"
  by (cases f) simp_all

lemma deposit_content_position:
  "deposit_content i' = deposit_content i \<Longrightarrow> dep_wallet i' = dep_wallet i \<and> dep_vault i' = dep_vault i \<and>
     dep_depositId i' = dep_depositId i"
  unfolding deposit_content_def
  by (auto dest: arg_cong[where f = dep_wallet] arg_cong[where f = dep_vault] arg_cong[where f = dep_depositId])

lemma withdrawal_content_position:
  "withdrawal_content i' = withdrawal_content i \<Longrightarrow> wdr_wallet i' = wdr_wallet i \<and> wdr_vault i' = wdr_vault i \<and>
     wdr_withdrawalId i' = wdr_withdrawalId i"
  unfolding withdrawal_content_def without_report_def
  by (auto dest: arg_cong[where f = wdr_wallet] arg_cong[where f = wdr_vault] arg_cong[where f = wdr_withdrawalId])

lemma evolves_position: "flow_evolves f f' \<Longrightarrow> flow_position f' = flow_position f"
  by (cases f; cases f') (auto dest: deposit_content_position withdrawal_content_position)

lemma evolves_key:
  "flow_evolves (DepositFlow i) (DepositFlow i') \<Longrightarrow> dep_depositId i' = dep_depositId i"
  "flow_evolves (WithdrawalFlow j) (WithdrawalFlow j') \<Longrightarrow> wdr_withdrawalId j' = wdr_withdrawalId j"
  using deposit_content_position[of i' i] withdrawal_content_position[of j' j] by simp_all

lemma open_backwards: "flow_evolves f f' \<Longrightarrow> open_flow f' \<Longrightarrow> open_flow f"
proof (cases f; cases f')
  fix i i' assume "f = WithdrawalFlow i" "f' = WithdrawalFlow i'" "flow_evolves f f'" "open_flow f'"
  then show ?thesis by (cases "wdr_status i") (auto simp: open_flow_def open_status_def flow_next_def)
next
  fix i i' assume "f = DepositFlow i" "f' = DepositFlow i'" "flow_evolves f f'" "open_flow f'"
  then show ?thesis by (cases "dep_status i") (auto simp: open_flow_def open_status_def flow_next_def)
qed auto

subsection \<open>The store of flows\<close>

definition flows_ok :: "ledger \<Rightarrow> bool" where
  "flows_ok L \<longleftrightarrow> keyed dep_depositId (led_deposits L) \<and> keyed wdr_withdrawalId (led_withdrawals L)"

lemma ledger_flows_ok: "ledger_ok L \<Longrightarrow> flows_ok L"
  by (simp add: ledger_ok_def flows_ok_def)

lemma flows_cong:
  "led_deposits L' = led_deposits L \<Longrightarrow> led_withdrawals L' = led_withdrawals L \<Longrightarrow> flows L' = flows L"
  by (auto simp: flows_def fun_eq_iff getDeposit_def getWithdrawal_def split: sum.splits)

lemma flows_ok_cong:
  "led_deposits L' = led_deposits L \<Longrightarrow> led_withdrawals L' = led_withdrawals L \<Longrightarrow> flows_ok L' = flows_ok L"
  by (simp add: flows_ok_def)

lemma flows_frame [simp]:
  "flows (savePosition p L) = flows L" "flows (savePayment i L) = flows L"
  "flows (saveLiquidityPolicy q L) = flows L"
  "flows (saveSyncEvent e L) = flows L" "flows (saveSpendingApproval a L) = flows L"
  "flows (saveSpendingMandate m L) = flows L" "flows (saveSpendingMandateEvent me L) = flows L"
  "flows (saveSetupSession z L) = flows L"
  "flows (recordSyncEvent now uuid x L) = flows L"
  by (rule flows_cong; simp add: recordSyncEvent_def)+

lemma flows_ok_frame [simp]:
  "flows_ok (savePosition p L) = flows_ok L" "flows_ok (savePayment i L) = flows_ok L"
  "flows_ok (saveLiquidityPolicy q L) = flows_ok L"
  "flows_ok (saveSyncEvent e L) = flows_ok L" "flows_ok (saveSpendingApproval a L) = flows_ok L"
  "flows_ok (saveSpendingMandate m L) = flows_ok L" "flows_ok (saveSpendingMandateEvent me L) = flows_ok L"
  "flows_ok (saveSetupSession z L) = flows_ok L"
  "flows_ok (recordSyncEvent now uuid x L) = flows_ok L"
  by (rule flows_ok_cong; simp add: recordSyncEvent_def)+

lemma flows_save [simp]:
  "flows (saveDeposit d L) = (flows L)(Inl (dep_depositId d) \<mapsto> DepositFlow d)"
  "flows (saveWithdrawal w L) = (flows L)(Inr (wdr_withdrawalId w) \<mapsto> WithdrawalFlow w)"
  by (auto simp: flows_def fun_eq_iff split: sum.splits)

lemma flows_ok_save [simp]:
  "flows_ok L \<Longrightarrow> flows_ok (saveDeposit d L)" "flows_ok L \<Longrightarrow> flows_ok (saveWithdrawal w L)"
  by (simp_all add: flows_ok_def deposits.ok_save withdrawals.ok_save)

lemma flows_get [simp]:
  "flows L (Inl k) = Some f \<longleftrightarrow> (\<exists>i. getDeposit L k = Some i \<and> f = DepositFlow i)"
  "flows L (Inr k) = Some f \<longleftrightarrow> (\<exists>i. getWithdrawal L k = Some i \<and> f = WithdrawalFlow i)"
  "flows L (Inl k) = None \<longleftrightarrow> getDeposit L k = None"
  "flows L (Inr k) = None \<longleftrightarrow> getWithdrawal L k = None"
  by (auto simp: flows_def)

lemma flows_keyed:
  "flows_ok L \<Longrightarrow> getDeposit L k = Some i \<Longrightarrow> dep_depositId i = k"
  "flows_ok L \<Longrightarrow> getWithdrawal L k = Some j \<Longrightarrow> wdr_withdrawalId j = k"
  using deposits.get_key withdrawals.get_key by (auto simp: flows_ok_def)

text \<open>Between two ledgers every stored flow evolves.\<close>

definition flow_progress :: "ledger \<Rightarrow> ledger \<Rightarrow> bool" where
  "flow_progress L L' \<longleftrightarrow> flows_ok L' \<and> evolve_step flow_evolves (flows L) (flows L')"

lemma flow_progress_same: "flows_ok L \<Longrightarrow> flows L' = flows L \<Longrightarrow> flows_ok L' = flows_ok L \<Longrightarrow> flow_progress L L'"
  by (simp add: flow_progress_def)

lemma flow_progress_refl [simp]: "flow_progress L L \<longleftrightarrow> flows_ok L"
  by (simp add: flow_progress_def)

lemma flow_progress_frame [simp]:
  "flow_progress L (savePosition p M) = flow_progress L M"
  "flow_progress L (recordSyncEvent now uuid x M) = flow_progress L M"
  "flow_progress L (savePayment i M) = flow_progress L M"
  by (simp_all add: flow_progress_def)

lemma flow_progress_deposit:
  assumes "flows_ok L" "getDeposit L k = Some i" "flow_evolves (DepositFlow i) (DepositFlow i')"
    and "flows M = flows L" "flows_ok M"
  shows "flow_progress L (saveDeposit i' M)"
proof -
  have "dep_depositId i' = k"
    using flows_keyed(1)[OF assms(1,2)] evolves_key(1)[OF assms(3)] by simp
  then show ?thesis
    using assms evolve_step_update[of flow_evolves "flows L" "Inl k"] by (simp add: flow_progress_def)
qed

lemma flow_progress_withdrawal:
  assumes "flows_ok L" "getWithdrawal L k = Some i" "flow_evolves (WithdrawalFlow i) (WithdrawalFlow i')"
    and "flows M = flows L" "flows_ok M"
  shows "flow_progress L (saveWithdrawal i' M)"
proof -
  have "wdr_withdrawalId i' = k"
    using flows_keyed(2)[OF assms(1,2)] evolves_key(2)[OF assms(3)] by simp
  then show ?thesis
    using assms evolve_step_update[of flow_evolves "flows L" "Inr k"] by (simp add: flow_progress_def)
qed

end
