(* ===== verification/Flow_Steps.thy ===== *)
theory Flow_Steps
  imports Flow_Machine Payment_Machine
begin

text \<open>
  Every locked section of \<open>VaultFlowService\<close>, returning or throwing and under either
  ledger, is a step of the flow store, and the steps of a running service.
\<close>

section \<open>The contract of the mandate service\<close>

text \<open>
  What the flows rely on of the mandate service they may be configured with: its gates touch
  the stored approvals alone.
\<close>

definition gated :: "ledger \<Rightarrow> ledger \<Rightarrow> bool" where
  "gated L L' \<longleftrightarrow> (\<exists>as. L' = L\<lparr>led_spendingApprovals := as\<rparr> \<and>
     (keyed ap_approvalId (led_spendingApprovals L) \<longrightarrow> keyed ap_approvalId as))"

abbreviation gates :: "(ledger, 'a) action \<Rightarrow> ledger \<Rightarrow> bool" where
  "gates m L \<equiv> runs m L (\<lambda>_. gated L) (\<lambda>_. gated L)"

lemma gated_refl [simp]: "gated L L"
  by (auto simp: gated_def intro: exI[of _ "led_spendingApprovals L"])

lemma gated_trans: "gated L M \<Longrightarrow> gated M N \<Longrightarrow> gated L N"
  by (auto simp: gated_def)

lemma gated_frame:
  assumes "gated L L'"
  shows "flows L' = flows L" "flows_ok L' = flows_ok L" "led_positions L' = led_positions L"
    "led_payments L' = led_payments L" "getPayment L' = getPayment L" "getPosition L' = getPosition L"
    "led_spendingMandates L' = led_spendingMandates L" "ledger_ok L \<Longrightarrow> ledger_ok L'"
    "led_deposits L' = led_deposits L" "led_withdrawals L' = led_withdrawals L"
  using assms flows_cong[of L' L]
  by (auto simp: gated_def flows_ok_def getPayment_def getPosition_def ledger_ok_def fun_eq_iff)

locale mandate_gate =
  fixes gate :: "mandate_ops option"
  assumes gate_deposit: "gate = Some m \<Longrightarrow> gates (mo_authorizeDeposit m w v a i) L"
    and gate_realize: "gate = Some m \<Longrightarrow> gates (mo_authorizeRealize m w v a p i) L"
    and gate_withdrawal: "gate = Some m \<Longrightarrow> gates (mo_authorizeWithdrawal m w v a i) L"
    and gate_assert_deposit: "gate = Some m \<Longrightarrow> gates (mo_assertPreparedDeposit m d) L"
    and gate_assert_withdrawal: "gate = Some m \<Longrightarrow> gates (mo_assertPreparedWithdrawal m x) L"
    and gate_consume: "gate = Some m \<Longrightarrow> gates (mo_consumeApproval m approvalId consumedBy) L"
begin

lemma gates_deposit: "vf_mandates E = gate \<Longrightarrow> gates (authorizeDeposit E w a i) L"
  by (auto simp: authorizeDeposit_def gate_deposit split: option.splits)

lemma gates_withdrawal: "vf_mandates E = gate \<Longrightarrow> gates (authorizeWithdrawalFlow E w a x) L"
  by (auto simp: authorizeWithdrawalFlow_def gate_realize gate_withdrawal split: option.splits)

lemma gates_assert:
  "vf_mandates E = gate \<Longrightarrow> gates (assertPreparedDeposit E d) L"
  "vf_mandates E = gate \<Longrightarrow> gates (assertPreparedWithdrawal E y) L"
  by (auto simp: assertPreparedDeposit_def assertPreparedWithdrawal_def gate_assert_deposit
      gate_assert_withdrawal split: option.splits)

lemma gates_consume:
  "vf_mandates E = gate \<Longrightarrow> gates (case (vf_mandates E, a) of
       (Some m, Some i) \<Rightarrow> mo_consumeApproval m i j | _ \<Rightarrow> returnA ()) L"
  by (auto simp: gate_consume split: option.splits)

end

text \<open>An action whose effect is known only as \<open>gated\<close>, in front of a postcondition.\<close>

lemma gates_then:
  assumes "gates m L" "\<And>x M. gated L M \<Longrightarrow> Q x M" "\<And>e M. gated L M \<Longrightarrow> Q' e M"
  shows "runs m L Q Q'"
  by (rule runs_mono[OF assms(1)]) (use assms(2,3) in auto)

section \<open>Expiring and pending flows\<close>

fun flow_expiresAt :: "vault_flow \<Rightarrow> timestamp" where
  "flow_expiresAt (DepositFlow d) = dep_expiresAt d"
| "flow_expiresAt (WithdrawalFlow w) = wdr_expiresAt w"

lemma listed_flows:
  assumes "flows_ok L"
  shows "d \<in> set (listDepositsForPosition L w v) \<longleftrightarrow>
      getDeposit L (dep_depositId d) = Some d \<and> dep_wallet d = w \<and> dep_vault d = v"
    and "x \<in> set (listWithdrawalsForPosition L w v) \<longleftrightarrow>
      getWithdrawal L (wdr_withdrawalId x) = Some x \<and> wdr_wallet x = w \<and> wdr_vault x = v"
  using assms deposits.set_entries[of L d] withdrawals.set_entries[of L x]
  by (auto simp: flows_ok_def listDepositsForPosition_def listWithdrawalsForPosition_def)

lemma no_pending:
  assumes ok: "flows_ok L" and none: "pendingVaultFlows now L w v = 0"
    and f: "flows L k = Some f" "flow_position f = (w, v)"
  shows "\<not> pendingFlow now (flow_status f) (flow_expiresAt f)"
proof (cases k)
  case (Inl i)
  then obtain d where "getDeposit L i = Some d" "f = DepositFlow d" using f(1) by auto
  moreover from this have "d \<in> set (listDepositsForPosition L w v)"
    using listed_flows(1)[OF ok] flows_keyed(1)[OF ok] f(2) by auto
  ultimately show ?thesis using none by (auto simp: pendingVaultFlows_def filter_empty_conv)
next
  case (Inr i)
  then obtain x where "getWithdrawal L i = Some x" "f = WithdrawalFlow x" using f(1) by auto
  moreover from this have "x \<in> set (listWithdrawalsForPosition L w v)"
    using listed_flows(2)[OF ok] flows_keyed(2)[OF ok] f(2) by auto
  ultimately show ?thesis using none by (auto simp: pendingVaultFlows_def filter_empty_conv)
qed

lemma terminal_evolves:
  "dep_status d = flow_prepared \<Longrightarrow> flow_evolves (DepositFlow d) (DepositFlow (terminalDeposit now flow_expired c d))"
  "wdr_status x = flow_prepared \<Longrightarrow>
     flow_evolves (WithdrawalFlow x) (WithdrawalFlow (terminalWithdrawal now flow_expired c x))"
  "dep_status d = flow_submitted \<Longrightarrow> s \<in> {flow_failed, flow_failed_not_submitted} \<Longrightarrow>
     flow_evolves (DepositFlow d) (DepositFlow (terminalDeposit now s c d))"
  "wdr_status x = flow_submitted \<Longrightarrow> s \<in> {flow_failed, flow_failed_not_submitted} \<Longrightarrow>
     flow_evolves (WithdrawalFlow x) (WithdrawalFlow (terminalWithdrawal now s c x))"
  by (auto simp: terminalDeposit_def terminalWithdrawal_def deposit_content_def withdrawal_content_def
      without_report_def flow_next_def report_next_def open_status_def)

definition stale_free :: "int \<Rightarrow> string \<Rightarrow> string \<Rightarrow> ledger \<Rightarrow> bool" where
  "stale_free now w v L \<longleftrightarrow> (\<forall>k f. flows L k = Some f \<longrightarrow> flow_position f = (w, v) \<longrightarrow>
     \<not> staleFlow now (flow_status f) (flow_expiresAt f))"

lemma expireDeposits:
  fixes L w v now
  defines "xs \<equiv> filter (\<lambda>d. staleFlow now (dep_status d) (dep_expiresAt d)) (listDepositsForPosition L w v)"
  defines "M \<equiv> fold (\<lambda>d. saveDeposit (terminalDeposit now flow_expired ''expired'' d)) xs L"
  assumes ok: "flows_ok L"
  shows "flows_ok M" "getWithdrawal M = getWithdrawal L"
    "getDeposit M k = map_option (\<lambda>d. if staleFlow now (dep_status d) (dep_expiresAt d) \<and>
       dep_wallet d = w \<and> dep_vault d = v then terminalDeposit now flow_expired ''expired'' d else d) (getDeposit L k)"
proof -
  have keys: "\<forall>d \<in> set xs. getDeposit L (dep_depositId d) = Some d"
    using listed_flows(1)[OF ok] by (auto simp: xs_def)
  have dok: "keyed dep_depositId (led_deposits L)" using ok by (simp add: flows_ok_def)
  note M = deposits.fold_save[OF dok keys, of "terminalDeposit now flow_expired ''expired''", folded M_def]
  have fr: "led_withdrawals M = led_withdrawals L"
    unfolding M_def by (induction xs arbitrary: L) simp_all
  show "flows_ok M" using M(1) ok fr by (simp add: flows_ok_def terminalDeposit_def)
  show "getWithdrawal M = getWithdrawal L" by (simp add: getWithdrawal_def fun_eq_iff fr)
  have "d \<in> set xs \<longleftrightarrow> staleFlow now (dep_status d) (dep_expiresAt d) \<and> dep_wallet d = w \<and> dep_vault d = v"
    if "getDeposit L k = Some d" for d
    using listed_flows(1)[OF ok] flows_keyed(1)[OF ok that] that by (auto simp: xs_def)
  then show "getDeposit M k = map_option (\<lambda>d. if staleFlow now (dep_status d) (dep_expiresAt d) \<and>
       dep_wallet d = w \<and> dep_vault d = v then terminalDeposit now flow_expired ''expired'' d else d) (getDeposit L k)"
    using M(2)[of k] by (auto simp: terminalDeposit_def split: option.splits)
qed

lemma expireWithdrawals:
  fixes L w v now
  defines "xs \<equiv> filter (\<lambda>x. staleFlow now (wdr_status x) (wdr_expiresAt x)) (listWithdrawalsForPosition L w v)"
  defines "M \<equiv> fold (\<lambda>x. saveWithdrawal (terminalWithdrawal now flow_expired ''expired'' x)) xs L"
  assumes ok: "flows_ok L"
  shows "flows_ok M" "getDeposit M = getDeposit L"
    "getWithdrawal M k = map_option (\<lambda>x. if staleFlow now (wdr_status x) (wdr_expiresAt x) \<and>
       wdr_wallet x = w \<and> wdr_vault x = v then terminalWithdrawal now flow_expired ''expired'' x else x) (getWithdrawal L k)"
proof -
  have keys: "\<forall>x \<in> set xs. getWithdrawal L (wdr_withdrawalId x) = Some x"
    using listed_flows(2)[OF ok] by (auto simp: xs_def)
  have dok: "keyed wdr_withdrawalId (led_withdrawals L)" using ok by (simp add: flows_ok_def)
  note M = withdrawals.fold_save[OF dok keys, of "terminalWithdrawal now flow_expired ''expired''", folded M_def]
  have fr: "led_deposits M = led_deposits L"
    unfolding M_def by (induction xs arbitrary: L) simp_all
  show "flows_ok M" using M(1) ok fr by (simp add: flows_ok_def terminalWithdrawal_def)
  show "getDeposit M = getDeposit L" by (simp add: getDeposit_def fun_eq_iff fr)
  have "x \<in> set xs \<longleftrightarrow> staleFlow now (wdr_status x) (wdr_expiresAt x) \<and> wdr_wallet x = w \<and> wdr_vault x = v"
    if "getWithdrawal L k = Some x" for x
    using listed_flows(2)[OF ok] flows_keyed(2)[OF ok that] that by (auto simp: xs_def)
  then show "getWithdrawal M k = map_option (\<lambda>x. if staleFlow now (wdr_status x) (wdr_expiresAt x) \<and>
       wdr_wallet x = w \<and> wdr_vault x = v then terminalWithdrawal now flow_expired ''expired'' x else x) (getWithdrawal L k)"
    using M(2)[of k] by (auto simp: terminalWithdrawal_def split: option.splits)
qed

text \<open>The accounts are what the flows do not touch.\<close>

abbreviation same_accounts :: "ledger \<Rightarrow> ledger \<Rightarrow> bool" where
  "same_accounts L L' \<equiv> led_positions L' = led_positions L \<and> led_payments L' = led_payments L"

lemma same_accounts_fold [simp]:
  "led_positions (fold (\<lambda>d. saveDeposit (f d)) xs L) = led_positions L"
  "led_payments (fold (\<lambda>d. saveDeposit (f d)) xs L) = led_payments L"
  "led_positions (fold (\<lambda>d. saveWithdrawal (g d)) ys L) = led_positions L"
  "led_payments (fold (\<lambda>d. saveWithdrawal (g d)) ys L) = led_payments L"
  by ((induction xs arbitrary: L; simp), (induction xs arbitrary: L; simp),
      (induction ys arbitrary: L; simp), (induction ys arbitrary: L; simp))

text \<open>Every open flow was there before, unchanged.\<close>

definition only_closes :: "ledger \<Rightarrow> ledger \<Rightarrow> bool" where
  "only_closes L L' \<longleftrightarrow> (\<forall>k f. flows L' k = Some f \<longrightarrow> open_flow f \<longrightarrow> flows L k = Some f)"

lemma expire_stale:
  assumes ok: "flows_ok L"
  shows "runs (expireStaleFlows now w v) L
    (\<lambda>_ L'. flow_progress L L' \<and> stale_free now w v L' \<and> same_accounts L L' \<and> only_closes L L') (\<lambda>_ _. False)"
proof -
  define M where "M = fold (\<lambda>d. saveDeposit (terminalDeposit now flow_expired ''expired'' d))
    (filter (\<lambda>d. staleFlow now (dep_status d) (dep_expiresAt d)) (listDepositsForPosition L w v)) L"
  define N where "N = fold (\<lambda>x. saveWithdrawal (terminalWithdrawal now flow_expired ''expired'' x))
    (filter (\<lambda>x. staleFlow now (wdr_status x) (wdr_expiresAt x)) (listWithdrawalsForPosition M w v)) M"
  note M = expireDeposits[OF ok, of now w v, folded M_def]
  note N = expireWithdrawals[OF M(1), of now w v, folded N_def]
  have prog: "evolve_step flow_evolves (flows L) (flows N)"
    unfolding evolve_step_def
  proof
    fix k
    show "rel_option flow_evolves (flows L k) (flows N k)"
    proof (cases k)
      case (Inl i)
      then show ?thesis
        by (cases "getDeposit L i")
          (simp_all add: flows_def staleFlow_def terminal_evolves(1) M(3) N(2) del: flow_evolves.simps)
    next
      case (Inr i)
      then show ?thesis
        by (cases "getWithdrawal L i")
          (simp_all add: flows_def staleFlow_def terminal_evolves(2) M(2) N(3) del: flow_evolves.simps)
    qed
  qed
  have "stale_free now w v N"
    unfolding stale_free_def
  proof (intro allI impI)
    fix k f
    assume f: "flows N k = Some f" "flow_position f = (w, v)"
    show "\<not> staleFlow now (flow_status f) (flow_expiresAt f)"
    proof (cases k)
      case (Inl i)
      then obtain d where "getDeposit N i = Some d" "f = DepositFlow d" using f(1) by auto
      then show ?thesis
        using f(2) unfolding N(2) M(3)
        by (cases "getDeposit L i") (simp_all add: staleFlow_def terminalDeposit_def split: if_splits, auto)
    next
      case (Inr i)
      then obtain x where "getWithdrawal N i = Some x" "f = WithdrawalFlow x" using f(1) by auto
      then show ?thesis
        using f(2) unfolding N(3) M(2)
        by (cases "getWithdrawal L i") (simp_all add: staleFlow_def terminalWithdrawal_def split: if_splits, auto)
    qed
  qed
  moreover have "flows L k = Some f" if f: "flows N k = Some f" "open_flow f" for k f
  proof (cases k)
    case (Inl i)
    then obtain d where "getDeposit N i = Some d" "f = DepositFlow d" using f(1) by auto
    then show ?thesis
      using f(2) Inl unfolding N(2) M(3) by (cases "getDeposit L i")
        (simp_all add: open_flow_def open_status_def terminalDeposit_def split: if_splits, auto)
  next
    case (Inr i)
    then obtain x where "getWithdrawal N i = Some x" "f = WithdrawalFlow x" using f(1) by auto
    then show ?thesis
      using f(2) Inr unfolding N(3) M(2) by (cases "getWithdrawal L i")
        (simp_all add: open_flow_def open_status_def terminalWithdrawal_def split: if_splits, auto)
  qed
  moreover have "same_accounts L N" by (simp add: N_def M_def)
  ultimately have "flow_progress L N \<and> stale_free now w v N \<and> same_accounts L N \<and> only_closes L N"
    using prog N(1) by (simp add: flow_progress_def only_closes_def)
  then show ?thesis
    by (simp only: expireStaleFlows_def runs_simps N_def M_def)
qed

text \<open>After it, a position without a pending flow has no open flow at all.\<close>

lemma no_open:
  assumes "flows_ok L" "stale_free now w v L" "pendingVaultFlows now L w v = 0"
    and "flows L k = Some f" "flow_position f = (w, v)"
  shows "\<not> open_flow f"
  using assms(2) no_pending[OF assms(1,3,4,5)] assms(4,5)
  by (auto simp: stale_free_def open_flow_def open_status_def staleFlow_def pendingFlow_def)

section \<open>The sections\<close>

definition flow_outcome :: "ledger \<Rightarrow> ledger \<Rightarrow> bool" where
  "flow_outcome L L' \<longleftrightarrow> flows_ok L' \<and> flow_store_step (flows L) (flows L')"

lemma progress_outcome: "flow_progress L L' \<Longrightarrow> flow_outcome L L'"
  by (auto simp: flow_progress_def flow_outcome_def store_step_def)

lemma flow_outcome_frame [simp]:
  "flow_outcome L (savePosition p M) = flow_outcome L M"
  "flow_outcome L (recordSyncEvent now uuid x M) = flow_outcome L M"
  by (simp_all add: flow_outcome_def)

lemma flow_outcome_refl: "flows_ok L \<Longrightarrow> flow_outcome L L"
  by (rule progress_outcome) simp

lemma admit_outcome:
  assumes "flow_progress L M" "flows M k = None" "prepared_flow f" "flow_position f = (w, v)"
    and "\<And>j g. flows M j = Some g \<Longrightarrow> flow_position g = (w, v) \<Longrightarrow> \<not> open_flow g"
    and "flows N = (flows M)(k \<mapsto> f)" "flows_ok N"
  shows "flow_outcome L N"
proof -
  have "admit_step prepared_flow same_position open_flow (flows M) (flows N)"
    unfolding admit_step_def using assms(2-6) by (intro exI[of _ k] exI[of _ f]) (auto simp: same_position_def)
  then show ?thesis using assms(1,7) by (auto simp: flow_outcome_def flow_progress_def store_step_def)
qed

lemma progress_none_flow: "flow_progress L M \<Longrightarrow> flows M k = None \<longleftrightarrow> flows L k = None"
  by (rule evolve_step_none[of flow_evolves]) (simp add: flow_progress_def)

lemma newDepositIntent_simps [simp]:
  "dep_depositId (newDepositIntent E now uuid w a auth c b p) = ''dep_'' @ uuid"
  "dep_status (newDepositIntent E now uuid w a auth c b p) = flow_prepared"
  "dep_wallet (newDepositIntent E now uuid w a auth c b p) = w"
  "dep_vault (newDepositIntent E now uuid w a auth c b p) = vc_address (vf_vault E)"
  by (simp_all add: newDepositIntent_def)

lemma newWithdrawalIntent_simps [simp]:
  "wdr_withdrawalId (newWithdrawalIntent E now uuid w a x auth c r s t b p) = ''wdr_'' @ uuid"
  "wdr_status (newWithdrawalIntent E now uuid w a x auth c r s t b p) = flow_prepared"
  "wdr_wallet (newWithdrawalIntent E now uuid w a x auth c r s t b p) = w"
  "wdr_vault (newWithdrawalIntent E now uuid w a x auth c r s t b p) = vc_address (vf_vault E)"
  by (simp_all add: newWithdrawalIntent_def)

abbreviation flow_runs :: "(ledger, 'a) action \<Rightarrow> ledger \<Rightarrow> bool" where
  "flow_runs m L \<equiv> runs m L (\<lambda>_. flow_outcome L) (\<lambda>_. flow_outcome L)"

lemma flow_runs_lock: "flows_ok L \<Longrightarrow> flow_runs m L \<Longrightarrow> flow_runs (withLock k m) L"
  by (rule lock.runs_lock_inv) (simp_all add: flow_outcome_refl)

text \<open>The writes to the accounts do not touch the flows.\<close>

lemma runs_fee_debt:
  "runs (applyFlowFeeDebt E w v fee) L (\<lambda>_ L'. flows L' = flows L \<and> flows_ok L' = flows_ok L) (\<lambda>_ _. False)"
  by (auto simp: applyFlowFeeDebt_def split: option.splits sum.splits)

lemma runs_flag:
  "runs (flagFlowBaselineReset now uuid w v) L (\<lambda>_ L'. flows L' = flows L \<and> flows_ok L' = flows_ok L) (\<lambda>_ _. False)"
  by (auto simp: flagFlowBaselineReset_def recordFlowEvent_def split: option.splits)

lemma fee_debt_then:
  "(\<And>M. flows M = flows L \<Longrightarrow> flows_ok M = flows_ok L \<Longrightarrow> Q () M) \<Longrightarrow> runs (applyFlowFeeDebt E w v fee) L Q Q'"
  by (rule runs_mono[OF runs_fee_debt]) auto

lemma flag_then:
  "(\<And>M. flows M = flows L \<Longrightarrow> flows_ok M = flows_ok L \<Longrightarrow> Q () M) \<Longrightarrow> runs (flagFlowBaselineReset now uuid w v) L Q Q'"
  by (rule runs_mono[OF runs_flag]) auto

lemma expire_payments_flows:
  "runs (expirePreparedPaymentsForLockedPosition now w v) L
     (\<lambda>_ L'. flows L' = flows L \<and> flows_ok L' = flows_ok L) (\<lambda>_ _. False)"
proof -
  have "flows (fold (\<lambda>p. savePayment (g p)) xs M) = flows M \<and>
      flows_ok (fold (\<lambda>p. savePayment (g p)) xs M) = flows_ok M" for g xs M
    by (induction xs arbitrary: M) simp_all
  then show ?thesis
    by (auto simp: expirePreparedPaymentsForLockedPosition_def split: option.splits)
qed

lemma runs_live_payments:
  "runs (assertNoLivePayments w v) L
     (\<lambda>_ L'. L' = L \<and> (\<forall>p \<in> set (listPaymentsForPosition L w v). \<not> paymentHoldsSettlementReservation p))
     (\<lambda>_ L'. L' = L)"
  by (auto simp: assertNoLivePayments_def activeSubmittedPayments_def filter_empty_conv
      paymentHoldsSettlementReservation_def)

text \<open>An action whose writes are the admission of one flow, after its checks.\<close>

definition admitting :: "ledger \<Rightarrow> ledger \<Rightarrow> flow_id \<Rightarrow> string \<Rightarrow> string \<Rightarrow> bool" where
  "admitting L M k w v \<longleftrightarrow> flow_progress L M \<and> flows M k = None \<and>
     (\<forall>j g. flows M j = Some g \<longrightarrow> flow_position g = (w, v) \<longrightarrow> \<not> open_flow g)"

lemma admitting_frame: "admitting L M k w v \<Longrightarrow> flows N = flows M \<Longrightarrow> flows_ok N = flows_ok M \<Longrightarrow> admitting L N k w v"
  by (simp add: admitting_def flow_progress_def)

lemma admitting_outcome: "admitting L M k w v \<Longrightarrow> flow_outcome L M"
  by (simp add: admitting_def progress_outcome)

lemma admitting_ok: "admitting L M k w v \<Longrightarrow> flows_ok M"
  by (simp add: admitting_def flow_progress_def)

lemma admitting_deposit:
  "admitting L M (Inl (dep_depositId d)) (dep_wallet d) (dep_vault d) \<Longrightarrow> dep_status d = flow_prepared \<Longrightarrow>
   flow_outcome L (saveDeposit d M)"
  by (rule admit_outcome[of L M "Inl (dep_depositId d)" "DepositFlow d" "dep_wallet d" "dep_vault d"])
    (auto simp: admitting_def prepared_flow_def flow_progress_def)

lemma admitting_withdrawal:
  "admitting L M (Inr (wdr_withdrawalId x)) (wdr_wallet x) (wdr_vault x) \<Longrightarrow> wdr_status x = flow_prepared \<Longrightarrow>
   flow_outcome L (saveWithdrawal x M)"
  by (rule admit_outcome[of L M "Inr (wdr_withdrawalId x)" "WithdrawalFlow x" "wdr_wallet x" "wdr_vault x"])
    (auto simp: admitting_def prepared_flow_def flow_progress_def)

lemma admittingI:
  "flow_progress L M \<Longrightarrow> flows L k = None \<Longrightarrow> stale_free now w v M \<Longrightarrow> pendingVaultFlows now M w v = 0 \<Longrightarrow>
   admitting L M k w v"
  using progress_none_flow[of L M k] no_open[of M now w v]
  by (auto simp: admitting_def flow_progress_def)

lemma matching_outcome:
  assumes "flow_outcome L M" "Q () M"
  shows "runs (requireMatchingShares now uuid p c u w v) M Q (\<lambda>_. flow_outcome L)"
  using assms by (auto simp: requireMatchingShares_def recordFlowEvent_def)

lemma commit_deposit:
  assumes "admitting L M (Inl (''dep_'' @ uuid)) wallet (vc_address (vf_vault E))"
  shows "runs (commitDeposit E now uuid wallet a auth p) M (\<lambda>_. flow_outcome L) (\<lambda>_. flow_outcome L)"
proof -
  have out: "flow_outcome L M" by (rule admitting_outcome[OF assms])
  moreover have "flow_outcome L (saveDeposit (newDepositIntent E now uuid wallet a auth c b p) M)" for c b
    by (rule admitting_deposit) (use assms in simp_all)
  ultimately show ?thesis
    by (auto simp: commitDeposit_def storeDeposit_def intro!: matching_outcome[OF out] split: sum.splits)
qed

lemma commit_withdrawal:
  assumes "admitting L M (Inr (''wdr_'' @ uuid)) wallet (vc_address (vf_vault E))"
  shows "runs (commitWithdrawal E now uuid wallet a x auth p) M (\<lambda>_. flow_outcome L) (\<lambda>_. flow_outcome L)"
proof -
  have out: "flow_outcome L M" by (rule admitting_outcome[OF assms])
  moreover have "flow_outcome L (saveWithdrawal (newWithdrawalIntent E now uuid wallet a x auth c r s t b p) M)" for c r s t b
    by (rule admitting_withdrawal) (use assms in simp_all)
  ultimately show ?thesis
    by (auto simp: commitWithdrawal_def storePreparedWithdrawal_def storeWithdrawal_def Let_def
        intro!: matching_outcome[OF out] split: sum.splits)
qed

text \<open>
  The common end of the two prepare sections: the stale flows expire, no pending flow is left,
  a gate that touches approvals alone, and the commit.
\<close>

lemma prepares_flow:
  assumes K: "flows_ok K" "flows L = flows K" "flows_ok L" and fresh: "flows K k = None"
    and auth: "\<And>M. gates auth M"
    and commit: "\<And>r M. admitting K M k w v \<Longrightarrow> runs (commit r) M (\<lambda>_. flow_outcome K) (\<lambda>_. flow_outcome K)"
  shows "runs (bindA (expireStaleFlows now w v) (\<lambda>_. bindA (assertNoPendingFlow now w v) (\<lambda>_.
     bindA auth commit))) L (\<lambda>_. flow_outcome K) (\<lambda>_. flow_outcome K)"
proof (rule runs_seq[OF expire_stale[OF K(3)]])
  fix x M
  assume M: "flow_progress L M \<and> stale_free now w v M \<and> same_accounts L M \<and> only_closes L M"
  then have prog: "flow_progress K M" using K(2) by (simp add: flow_progress_def)
  have "runs (bindA auth commit) M (\<lambda>_. flow_outcome K) (\<lambda>_. flow_outcome K)"
    if "pendingVaultFlows now M w v = 0"
  proof (rule runs_seq[OF auth])
    have adm: "admitting K M k w v" using admittingI[OF prog fresh _ that] M by simp
    show "runs (commit r) N (\<lambda>_. flow_outcome K) (\<lambda>_. flow_outcome K)" if "gated M N" for r N
      by (rule commit[OF admitting_frame[OF adm gated_frame(1,2)[OF that]]])
    show "flow_outcome K N" if "gated M N" for N
      by (rule admitting_outcome[OF admitting_frame[OF adm gated_frame(1,2)[OF that]]])
  qed
  then show "runs (bindA (assertNoPendingFlow now w v) (\<lambda>_. bindA auth commit)) M
      (\<lambda>_. flow_outcome K) (\<lambda>_. flow_outcome K)"
    using progress_outcome[OF prog] unfolding runs_bind[where m = "assertNoPendingFlow now w v"]
    by (cases "pendingVaultFlows now M w v = 0") (simp_all add: assertNoPendingFlow_def)
qed simp

lemma submitted_evolves:
  "dep_status d = flow_prepared \<Longrightarrow> flow_evolves (DepositFlow d) (DepositFlow (d\<lparr>dep_status := flow_submitted,
     dep_txSignature := s, dep_submittedSerializedTransaction := t, dep_submittedAt := u\<rparr>))"
  "wdr_status x = flow_prepared \<Longrightarrow> flow_evolves (WithdrawalFlow x) (WithdrawalFlow (x\<lparr>wdr_status := flow_submitted,
     wdr_txSignature := s, wdr_submittedSerializedTransaction := t, wdr_submittedAt := u\<rparr>))"
  by (auto simp: deposit_content_def withdrawal_content_def without_report_def flow_next_def
      report_next_def open_status_def)

lemma confirmed_evolves:
  "dep_status d = flow_submitted \<Longrightarrow> flow_evolves (DepositFlow d) (DepositFlow (d\<lparr>dep_status := flow_confirmed,
     dep_actualDepositRawUsdc := s, dep_sharesMintedRaw := t, dep_principalBasisAfterRawUsdc := u, dep_terminalAt := z\<rparr>))"
  "wdr_status x = flow_submitted \<Longrightarrow> flow_evolves (WithdrawalFlow x) (WithdrawalFlow (x\<lparr>wdr_status := flow_confirmed,
     wdr_actualSharesBurnedRaw := s, wdr_actualWithdrawRawUsdc := t, wdr_principalBasisAfterRawUsdc := u,
     wdr_terminalAt := z\<rparr>))"
  by (auto simp: deposit_content_def withdrawal_content_def without_report_def flow_next_def
      report_next_def open_status_def)

lemma found_deposit: "findDeposit E k L = Inr d \<Longrightarrow> getDeposit L k = Some d"
  by (auto simp: findDeposit_def split: option.splits if_splits)

lemma found_withdrawal: "findWithdrawal E k L = Inr x \<Longrightarrow> getWithdrawal L k = Some x"
  by (auto simp: findWithdrawal_def split: option.splits if_splits)

lemma store_deposit_outcome:
  "flows_ok L \<Longrightarrow> getDeposit L k = Some d \<Longrightarrow> flow_evolves (DepositFlow d) (DepositFlow d') \<Longrightarrow>
   flows M = flows L \<Longrightarrow> flows_ok M = flows_ok L \<Longrightarrow> flow_outcome L (saveDeposit d' M)"
  by (rule progress_outcome[OF flow_progress_deposit]) auto

lemma store_withdrawal_outcome:
  "flows_ok L \<Longrightarrow> getWithdrawal L k = Some x \<Longrightarrow> flow_evolves (WithdrawalFlow x) (WithdrawalFlow x') \<Longrightarrow>
   flows M = flows L \<Longrightarrow> flows_ok M = flows_ok L \<Longrightarrow> flow_outcome L (saveWithdrawal x' M)"
  by (rule progress_outcome[OF flow_progress_withdrawal]) auto

lemma outcome_same: "flows_ok L \<Longrightarrow> flows M = flows L \<Longrightarrow> flows_ok M = flows_ok L \<Longrightarrow> flow_outcome L M"
  by (rule progress_outcome[OF flow_progress_same])

lemma outcome_then: "flow_outcome L M \<Longrightarrow> flows N = flows M \<Longrightarrow> flows_ok N = flows_ok M \<Longrightarrow> flow_outcome L N"
  by (simp add: flow_outcome_def)


context mandate_gate
begin

lemma prepare_deposit:
  assumes E: "vf_mandates E = gate" and ok: "flows_ok L" and fresh: "getDeposit L (''dep_'' @ uuid) = None"
  shows "flow_runs (prepareDepositSection E now uuid wallet a i) L"
  unfolding prepareDepositSection_def Let_def runs_bind[where m = "readA _"]
  using fresh ok flow_outcome_refl[OF ok]
  by (auto simp del: runs_bind intro!: prepares_flow[where k = "Inl (''dep_'' @ uuid)"]
      gates_deposit[OF E] commit_deposit split: sum.splits)

lemma prepare_withdrawal:
  assumes E: "vf_mandates E = gate" and ok: "flows_ok L" and fresh: "getWithdrawal L (''wdr_'' @ uuid) = None"
  shows "flow_runs (prepareWithdrawalSection E now uuid wallet a x) L"
proof -
  let ?v = "vc_address (vf_vault E)"
  have "runs (bindA (assertNoLivePayments wallet ?v) (\<lambda>_. bindA (expireStaleFlows now wallet ?v) (\<lambda>_.
      bindA (assertNoPendingFlow now wallet ?v) (\<lambda>_. bindA (authorizeWithdrawalFlow E wallet a x) (\<lambda>auth.
      commitWithdrawal E now uuid wallet a x auth p))))) M (\<lambda>_. flow_outcome L) (\<lambda>_. flow_outcome L)"
    if M: "flows M = flows L" "flows_ok M = flows_ok L" for M p
    using M fresh ok outcome_same[OF ok M]
    by (intro runs_seq[OF runs_live_payments] prepares_flow[where k = "Inr (''wdr_'' @ uuid)"]
        gates_withdrawal[OF E] commit_withdrawal) simp_all
  then show ?thesis
    unfolding prepareWithdrawalSection_def Let_def runs_bind[where m = "readA _"]
    using flow_outcome_refl[OF ok]
    by (auto simp del: runs_bind intro!: runs_seq[OF expire_payments_flows] split: sum.splits)
qed

lemma submit_deposit:
  assumes E: "vf_mandates E = gate" and ok: "flows_ok L"
  shows "flow_runs (submitDepositSection E now k x) L"
proof -
  have exp: "flow_outcome L (saveDeposit (terminalDeposit now flow_expired c d) L)"
    if "getDeposit L k = Some d" "dep_status d = flow_prepared" for d c
    by (rule store_deposit_outcome[OF ok that(1) terminal_evolves(1)[OF that(2)]]) simp_all
  have sub: "flow_outcome L (saveDeposit (d\<lparr>dep_status := flow_submitted, dep_txSignature := s,
      dep_submittedSerializedTransaction := t, dep_submittedAt := u\<rparr>) M)"
    if "getDeposit L k = Some d" "dep_status d = flow_prepared" "gated L M" for d s t u M
    by (rule store_deposit_outcome[OF ok that(1) submitted_evolves(1)[OF that(2)]])
      (simp_all add: gated_frame[OF that(3)])
  have gated: "flow_outcome L M" if "gated L M" for M
    by (rule outcome_same[OF ok]) (simp_all add: gated_frame[OF that])
  show ?thesis
    using exp sub gated flow_outcome_refl[OF ok]
    by (auto simp: submitDepositSection_def storeDeposit_def dest!: found_deposit
        intro!: gates_then[OF gates_assert(1)[OF E]] split: sum.splits)
qed

lemma submit_withdrawal:
  assumes E: "vf_mandates E = gate" and ok: "flows_ok L"
  shows "flow_runs (submitWithdrawalSection E now k x) L"
proof -
  have exp: "flow_outcome L (saveWithdrawal (terminalWithdrawal now flow_expired c d) L)"
    if "getWithdrawal L k = Some d" "wdr_status d = flow_prepared" for d c
    by (rule store_withdrawal_outcome[OF ok that(1) terminal_evolves(2)[OF that(2)]]) simp_all
  have sub: "flow_outcome L (saveWithdrawal (d\<lparr>wdr_status := flow_submitted, wdr_txSignature := s,
      wdr_submittedSerializedTransaction := t, wdr_submittedAt := u\<rparr>) M)"
    if "getWithdrawal L k = Some d" "wdr_status d = flow_prepared" "gated L M" for d s t u M
    by (rule store_withdrawal_outcome[OF ok that(1) submitted_evolves(2)[OF that(2)]])
      (simp_all add: gated_frame[OF that(3)])
  have gated: "flow_outcome L M" if "gated L M" for M
    by (rule outcome_same[OF ok]) (simp_all add: gated_frame[OF that])
  show ?thesis
    using exp sub gated flow_outcome_refl[OF ok]
    by (auto simp: submitWithdrawalSection_def storeWithdrawal_def dest!: found_withdrawal
        intro!: gates_then[OF gates_assert(2)[OF E]] split: sum.splits)
qed

lemma consume_outcome:
  assumes "vf_mandates E = gate" "vf_mandates E = Some m" "flow_outcome L M"
  shows "runs (mo_consumeApproval m approvalId consumedBy) M (\<lambda>_. flow_outcome L) (\<lambda>_. flow_outcome L)"
proof (rule gates_then)
  show "gates (mo_consumeApproval m approvalId consumedBy) M" using assms gate_consume by simp
  show "flow_outcome L N" if "gated M N" for N
    by (rule outcome_then[OF assms(3)]) (simp_all add: gated_frame[OF that])
  then show "flow_outcome L N" if "gated M N" for N using that .
qed

lemma settle_deposit:
  assumes E: "vf_mandates E = gate" and ok: "flows_ok L"
    and d: "getDeposit L k = Some d" "dep_status d = flow_submitted"
  shows "flow_runs (settleDepositOutcome E now uuid i d c r n) L"
proof -
  have failed: "flow_outcome L (saveDeposit (terminalDeposit now flow_failed e d) M)"
    if "flows M = flows L" "flows_ok M = flows_ok L" for M e
    by (rule store_deposit_outcome[OF ok d(1) terminal_evolves(3)[OF d(2)]]) (use that in simp_all)
  have confirmed: "flow_outcome L (saveDeposit (d\<lparr>dep_status := flow_confirmed,
      dep_actualDepositRawUsdc := s, dep_sharesMintedRaw := t, dep_principalBasisAfterRawUsdc := u, dep_terminalAt := z\<rparr>) M)"
    if "flows M = flows L" "flows_ok M = flows_ok L" for s t u z M
    by (rule store_deposit_outcome[OF ok d(1) confirmed_evolves(1)[OF d(2)]]) (use that in simp_all)
  show ?thesis
    using failed confirmed
    by (auto simp: settleDepositOutcome_def storeDeposit_def recordFlowEvent_def Let_def
        intro!: flag_then fee_debt_then consume_outcome[OF E] split: option.splits)
qed

lemma finalize_deposit:
  assumes E: "vf_mandates E = gate" and ok: "flows_ok L"
  shows "flow_runs (finalizeDepositSection E now uuid i c) L"
proof -
  have failed: "flow_outcome L (saveDeposit (terminalDeposit now flow_failed e d) M)"
    if "getDeposit L k = Some d" "dep_status d = flow_submitted" "flows M = flows L" "flows_ok M = flows_ok L" for M e d k
    by (rule store_deposit_outcome[OF ok that(1) terminal_evolves(3)[OF that(2)]]) (use that in simp_all)
  show ?thesis
    using failed settle_deposit[OF E ok] flow_outcome_refl[OF ok]
    by (auto simp: finalizeDepositSection_def refreshPositionFromChain_def storeDeposit_def Let_def
        intro!: fee_debt_then split: option.splits sum.splits)
qed

lemma settle_withdrawal:
  assumes E: "vf_mandates E = gate" and ok: "flows_ok L"
    and d: "getWithdrawal L k = Some d" "wdr_status d = flow_submitted"
  shows "flow_runs (settleWithdrawalOutcome E now uuid i d c r n) L"
proof -
  have failed: "flow_outcome L (saveWithdrawal (terminalWithdrawal now flow_failed e d) M)"
    if "flows M = flows L" "flows_ok M = flows_ok L" for M e
    by (rule store_withdrawal_outcome[OF ok d(1) terminal_evolves(4)[OF d(2)]]) (use that in simp_all)
  have confirmed: "flow_outcome L (saveWithdrawal (d\<lparr>wdr_status := flow_confirmed,
      wdr_actualSharesBurnedRaw := s, wdr_actualWithdrawRawUsdc := t, wdr_principalBasisAfterRawUsdc := u,
      wdr_terminalAt := z\<rparr>) M)"
    if "flows M = flows L" "flows_ok M = flows_ok L" for s t u z M
    by (rule store_withdrawal_outcome[OF ok d(1) confirmed_evolves(2)[OF d(2)]]) (use that in simp_all)
  show ?thesis
    using failed confirmed flow_outcome_refl[OF ok]
    by (auto simp: settleWithdrawalOutcome_def storeWithdrawal_def recordFlowEvent_def Let_def
        intro!: flag_then fee_debt_then consume_outcome[OF E] split: option.splits sum.splits)
qed

lemma finalize_withdrawal:
  assumes E: "vf_mandates E = gate" and ok: "flows_ok L"
  shows "flow_runs (finalizeWithdrawalSection E now uuid i c) L"
proof -
  have failed: "flow_outcome L (saveWithdrawal (terminalWithdrawal now flow_failed e d) M)"
    if "getWithdrawal L k = Some d" "wdr_status d = flow_submitted" "flows M = flows L" "flows_ok M = flows_ok L" for M e d k
    by (rule store_withdrawal_outcome[OF ok that(1) terminal_evolves(4)[OF that(2)]]) (use that in simp_all)
  show ?thesis
    using failed settle_withdrawal[OF E ok] flow_outcome_refl[OF ok]
    by (auto simp: finalizeWithdrawalSection_def refreshPositionFromChain_def storeWithdrawal_def Let_def
        intro!: fee_debt_then split: option.splits sum.splits)
qed

end

text \<open>The sections that do not call the mandate service.\<close>

lemma not_submitted_sections:
  assumes ok: "flows_ok L"
  shows "flow_runs (notSubmittedDepositSection now i e) L"
    and "flow_runs (notSubmittedWithdrawalSection now j e) L"
proof -
  have "flow_outcome L (saveDeposit (terminalDeposit now flow_failed_not_submitted e d) L)"
    if "getDeposit L k = Some d" "dep_status d = flow_submitted" for d k
    by (rule store_deposit_outcome[OF ok that(1) terminal_evolves(3)[OF that(2)]]) simp_all
  then show "flow_runs (notSubmittedDepositSection now i e) L"
    using flow_outcome_refl[OF ok]
    by (auto simp: notSubmittedDepositSection_def storeDeposit_def split: option.splits)
  have "flow_outcome L (saveWithdrawal (terminalWithdrawal now flow_failed_not_submitted e d) L)"
    if "getWithdrawal L k = Some d" "wdr_status d = flow_submitted" for d k
    by (rule store_withdrawal_outcome[OF ok that(1) terminal_evolves(4)[OF that(2)]]) simp_all
  then show "flow_runs (notSubmittedWithdrawalSection now j e) L"
    using flow_outcome_refl[OF ok]
    by (auto simp: notSubmittedWithdrawalSection_def storeWithdrawal_def split: option.splits)
qed

lemma expire_sections:
  assumes ok: "flows_ok L"
  shows "flow_runs (expireDepositSection now i) L" and "flow_runs (expireWithdrawalSection now j) L"
proof -
  have "flow_outcome L (saveDeposit (terminalDeposit now flow_expired c d) L)"
    if "getDeposit L k = Some d" "dep_status d = flow_prepared" for d c k
    by (rule store_deposit_outcome[OF ok that(1) terminal_evolves(1)[OF that(2)]]) simp_all
  then show "flow_runs (expireDepositSection now i) L"
    using flow_outcome_refl[OF ok] by (auto simp: expireDepositSection_def storeDeposit_def split: option.splits)
  have "flow_outcome L (saveWithdrawal (terminalWithdrawal now flow_expired c d) L)"
    if "getWithdrawal L k = Some d" "wdr_status d = flow_prepared" for d c k
    by (rule store_withdrawal_outcome[OF ok that(1) terminal_evolves(2)[OF that(2)]]) simp_all
  then show "flow_runs (expireWithdrawalSection now j) L"
    using flow_outcome_refl[OF ok] by (auto simp: expireWithdrawalSection_def storeWithdrawal_def split: option.splits)
qed

text \<open>
  A report runs after the handler has seen the realize confirmed; a confirmed realize stays
  one, which is why the section need not look again.
\<close>

definition realized :: "ledger \<Rightarrow> string \<Rightarrow> bool" where
  "realized L k \<longleftrightarrow> (\<exists>i. getWithdrawal L k = Some i \<and> wdr_purpose i = yield_realize \<and> wdr_status i = flow_confirmed)"

lemma report_section:
  assumes ok: "flows_ok L" and r: "realized L k"
  shows "flow_runs (reportSection k tx v) L"
proof -
  have "flow_outcome L (saveWithdrawal (i\<lparr>wdr_paymentTxSignature := Some tx,
      wdr_paymentVerification := Some (if wdr_paymentVerification i = Some verified_onchain then verified_onchain else v)\<rparr>) L)"
    if "getWithdrawal L k = Some i" "\<not> otherPaymentReported i tx" for i
    by (rule store_withdrawal_outcome[OF ok that(1)])
      (use r that in \<open>auto simp: realized_def withdrawal_content_def without_report_def report_next_def
         otherPaymentReported_def\<close>)
  then show ?thesis
    using flow_outcome_refl[OF ok] r
    by (auto simp: reportSection_def storeWithdrawal_def realized_def split: option.splits)
qed

lemma reportable_realized: "reportable w tx (getWithdrawal L k) = Inr i \<Longrightarrow> realized L k"
  by (auto simp: reportable_def realized_def split: option.splits if_splits)

end
