(* ===== verification/WebAuthn_Owner.thy ===== *)
theory WebAuthn_Owner
  imports Payment_Core "HOL-Library.Word"
begin

text \<open>
  \<open>src/src/domain/webauthn-owner.ts\<close>: the check of a passkey owner's assertion. Bytes are
  8-bit words. SHA-256, \<open>JSON.parse\<close> of a UTF-8 buffer, the import of a public key and the
  signature check are functions of the environment.
\<close>

unbundle bit_operations_syntax

type_synonym byte = "8 word"

section \<open>Base64url\<close>

text \<open>
  \<open>Buffer.from(text, "base64url")\<close> never fails: it reads both alphabets up to the first
  padding character, skips every other character and drops incomplete bytes.
\<close>

definition b64_value :: "char \<Rightarrow> int option" where
  "b64_value c = (let n = of_char c :: int in
     if 65 \<le> n \<and> n \<le> 90 then Some (n - 65)
     else if 97 \<le> n \<and> n \<le> 122 then Some (n - 71)
     else if 48 \<le> n \<and> n \<le> 57 then Some (n + 4)
     else if n = 43 \<or> n = 45 then Some 62
     else if n = 47 \<or> n = 95 then Some 63
     else None)"

fun sextets_to_bytes :: "int list \<Rightarrow> byte list" where
  "sextets_to_bytes (a # b # c # d # rest) =
     word_of_int (a * 4 + b div 16) # word_of_int (b mod 16 * 16 + c div 4) #
     word_of_int (c mod 4 * 64 + d) # sextets_to_bytes rest"
| "sextets_to_bytes [a, b, c] = [word_of_int (a * 4 + b div 16), word_of_int (b mod 16 * 16 + c div 4)]"
| "sextets_to_bytes [a, b] = [word_of_int (a * 4 + b div 16)]"
| "sextets_to_bytes _ = []"

definition base64url_bytes :: "string \<Rightarrow> byte list" where
  "base64url_bytes text =
     sextets_to_bytes (List.map_filter b64_value (takeWhile (\<lambda>c. c \<noteq> CHR ''='') text))"

section \<open>Configuration and keys\<close>

record WebAuthnOwnerConfig =
  wc_rpId :: string
  wc_origins :: "string list"

datatype KeyType = KeyEc | KeyEd25519 | KeyRsa | KeyOther

definition COSE_ES256 :: int where "COSE_ES256 = - 7"
definition COSE_EDDSA :: int where "COSE_EDDSA = - 8"
definition COSE_RS256 :: int where "COSE_RS256 = - 257"

definition SUPPORTED_COSE_ALGORITHMS :: "int list" where
  "SUPPORTED_COSE_ALGORITHMS = [COSE_ES256, COSE_EDDSA, COSE_RS256]"

text \<open>
  \<open>wa_sha\<close> hashes bytes, \<open>wa_challenge\<close> is the base64url text of the SHA-256 of a
  message, \<open>wa_rpHash\<close> the SHA-256 of a text; \<open>wa_key\<close> imports an SPKI key or
  throws (\<open>None\<close>), and so does \<open>wa_verify\<close>, whose first argument says whether the
  data is hashed with SHA-256 first.
\<close>

record webauthn_env =
  wa_sha :: "byte list \<Rightarrow> byte list"
  wa_challenge :: "string \<Rightarrow> string"
  wa_rpHash :: "string \<Rightarrow> byte list"
  wa_parse :: "byte list \<Rightarrow> json option"
  wa_key :: "byte list \<Rightarrow> KeyType option"
  wa_verify :: "bool \<Rightarrow> byte list \<Rightarrow> byte list \<Rightarrow> byte list \<Rightarrow> bool option"

section \<open>Reading JSON objects\<close>

text \<open>A property read: \<open>None\<close> is \<open>undefined\<close>; reading from \<open>null\<close> throws.\<close>

definition json_get :: "string \<Rightarrow> json \<Rightarrow> json option result" where
  "json_get k v = (case v of
       JNull \<Rightarrow> Inl (JsError ''TypeError'')
     | JObject kvs \<Rightarrow> Inr (case map_of kvs k of None \<Rightarrow> None | Some x \<Rightarrow> x)
     | _ \<Rightarrow> Inr None)"

definition json_text :: "json option \<Rightarrow> string option" where
  "json_text v = (case v of Some (JString s) \<Rightarrow> Some s | _ \<Rightarrow> None)"

record WebAuthnAssertionWire =
  aw_credentialId :: string
  aw_authenticatorData :: string
  aw_clientDataJSON :: string
  aw_signature :: string

definition member_text :: "string \<Rightarrow> json \<Rightarrow> string option" where
  "member_text k v = (case json_get k v of Inl _ \<Rightarrow> None | Inr x \<Rightarrow> json_text x)"

definition decodeAssertion :: "webauthn_env \<Rightarrow> string \<Rightarrow> WebAuthnAssertionWire option" where
  "decodeAssertion W signature = (case wa_parse W (base64url_bytes signature) of
       None \<Rightarrow> None
     | Some parsed \<Rightarrow>
         (case (member_text ''credentialId'' parsed, member_text ''authenticatorData'' parsed,
                member_text ''clientDataJSON'' parsed, member_text ''signature'' parsed) of
            (Some c, Some a, Some d, Some s) \<Rightarrow> Some
              \<lparr>aw_credentialId = c, aw_authenticatorData = a, aw_clientDataJSON = d, aw_signature = s\<rparr>
          | _ \<Rightarrow> None))"

section \<open>The check\<close>

definition FLAG_USER_PRESENT :: byte where "FLAG_USER_PRESENT = 0x01"
definition FLAG_USER_VERIFIED :: byte where "FLAG_USER_VERIFIED = 0x04"

definition inferAlgorithm :: "KeyType \<Rightarrow> int" where
  "inferAlgorithm t = (case t of KeyEc \<Rightarrow> COSE_ES256 | KeyEd25519 \<Rightarrow> COSE_EDDSA
     | KeyRsa \<Rightarrow> COSE_RS256 | KeyOther \<Rightarrow> 0)"

text \<open>The client data names our ceremony, the hash of the message and an accepted origin.\<close>

definition clientDataOk :: "webauthn_env \<Rightarrow> WebAuthnOwnerConfig \<Rightarrow> string \<Rightarrow> json \<Rightarrow> bool result" where
  "clientDataOk W config message clientData =
     bindR (json_get ''type'' clientData) (\<lambda>ceremony.
     if json_text ceremony \<noteq> Some ''webauthn.get'' then Inr False
     else bindR (json_get ''challenge'' clientData) (\<lambda>challenge.
     if json_text challenge \<noteq> Some (wa_challenge W message) then Inr False
     else bindR (json_get ''origin'' clientData) (\<lambda>origin.
       Inr (case json_text origin of None \<Rightarrow> False | Some o' \<Rightarrow> o' \<in> set (wc_origins config)))))"

text \<open>The authenticator data names our relying party and a present and verified user.\<close>

definition authDataOk :: "webauthn_env \<Rightarrow> WebAuthnOwnerConfig \<Rightarrow> byte list \<Rightarrow> bool" where
  "authDataOk W config authData \<longleftrightarrow> 37 \<le> length authData \<and>
     take 32 authData = wa_rpHash W (wc_rpId config) \<and>
     authData ! 32 AND FLAG_USER_PRESENT \<noteq> 0 \<and> authData ! 32 AND FLAG_USER_VERIFIED \<noteq> 0"

definition assertionSignatureOk ::
  "webauthn_env \<Rightarrow> OwnerCredential \<Rightarrow> byte list \<Rightarrow> byte list \<Rightarrow> bool" where
  "assertionSignatureOk W credential signedData signature =
     (let key = base64url_bytes (oc_publicKey credential) in
      case wa_key W key of
        None \<Rightarrow> False
      | Some keyType \<Rightarrow>
          let algorithm = (case oc_algorithm credential of None \<Rightarrow> inferAlgorithm keyType | Some a \<Rightarrow> a);
              verified = (\<lambda>hashed. case wa_verify W hashed signedData key signature of
                None \<Rightarrow> False | Some ok \<Rightarrow> ok)
          in if algorithm = COSE_ES256 then keyType = KeyEc \<and> verified True
             else if algorithm = COSE_EDDSA then keyType = KeyEd25519 \<and> verified False
             else if algorithm = COSE_RS256 then keyType = KeyRsa \<and> verified True
             else False)"

definition verifyWebAuthnOwnerAssertion ::
  "webauthn_env \<Rightarrow> WebAuthnOwnerConfig \<Rightarrow> string \<Rightarrow> string \<Rightarrow> OwnerCredential \<Rightarrow> bool result" where
  "verifyWebAuthnOwnerAssertion W config message signature credential =
     (case decodeAssertion W signature of
        None \<Rightarrow> Inr False
      | Some assertion \<Rightarrow>
          if oc_credentialId credential \<noteq> Some (aw_credentialId assertion) then Inr False
          else let clientDataBytes = base64url_bytes (aw_clientDataJSON assertion);
                   authData = base64url_bytes (aw_authenticatorData assertion) in
            (case wa_parse W clientDataBytes of
               None \<Rightarrow> Inr False
             | Some clientData \<Rightarrow>
                 bindR (clientDataOk W config message clientData) (\<lambda>ok.
                 Inr (ok \<and> authDataOk W config authData \<and>
                   assertionSignatureOk W credential (authData @ wa_sha W clientDataBytes)
                     (base64url_bytes (aw_signature assertion))))))"

end
