(* ===== verification/Mandate_Document.thy ===== *)
theory Mandate_Document
  imports WebAuthn_Owner
begin

text \<open>
  \<open>src/src/domain/spending-mandate.ts\<close>: the spending mandate documents, the policy they
  carry, the messages their signatures cover and the validation of a submitted document.
  base58 decoding and the ed25519 check belong to packages and are functions of the environment,
  as is SHA-256.
\<close>

section \<open>Policies\<close>

datatype MandateEnforcementLevel = enforcement_off | enforcement_warn | enforcement_on

definition parseMandateEnforcementLevel :: "string option \<Rightarrow> MandateEnforcementLevel result" where
  "parseMandateEnforcementLevel v = (case v of
       None \<Rightarrow> Inr enforcement_on
     | Some s \<Rightarrow>
         if s = '''' \<or> s = ''on'' then Inr enforcement_on
         else if s = ''off'' then Inr enforcement_off
         else if s = ''warn'' then Inr enforcement_warn
         else Inl (JsError ''SUBLY_MANDATE_ENFORCEMENT must be off|warn|on''))"

datatype PolicyMode = agent_allowed | owner_approval_required

definition PolicyMode_string :: "PolicyMode \<Rightarrow> string" where
  "PolicyMode_string m = (case m of agent_allowed \<Rightarrow> ''agent_allowed''
     | owner_approval_required \<Rightarrow> ''owner_approval_required'')"

record MandatePolicyWire =
  wp_perPaymentCapRawUsdc :: string
  wp_dailyApiSpendCapRawUsdc :: "string option"
  wp_monthlyApiSpendCapRawUsdc :: "string option"
  wp_dailyDepositCapRawUsdc :: "string option"
  wp_approvalThresholdRawUsdc :: "string option"
  wp_allowedPayToAddresses :: "string list option"
  wp_depositPolicy :: PolicyMode
  wp_withdrawalPolicy :: PolicyMode

record MandatePolicy =
  mp_perPaymentCapRawUsdc :: int
  mp_dailyApiSpendCapRawUsdc :: "int option"
  mp_monthlyApiSpendCapRawUsdc :: "int option"
  mp_dailyDepositCapRawUsdc :: "int option"
  mp_approvalThresholdRawUsdc :: "int option"
  mp_allowedPayToAddresses :: "string list option"
  mp_depositPolicy :: PolicyMode
  mp_withdrawalPolicy :: PolicyMode

definition DEFAULT_RELAYER_POLICY :: MandatePolicy where
  "DEFAULT_RELAYER_POLICY =
     \<lparr>mp_perPaymentCapRawUsdc = 10000000, mp_dailyApiSpendCapRawUsdc = Some 100000000,
      mp_monthlyApiSpendCapRawUsdc = None, mp_dailyDepositCapRawUsdc = Some 3000000000,
      mp_approvalThresholdRawUsdc = Some 1000000, mp_allowedPayToAddresses = None,
      mp_depositPolicy = owner_approval_required, mp_withdrawalPolicy = agent_allowed\<rparr>"

definition defaultMandatePolicyWire :: MandatePolicyWire where
  "defaultMandatePolicyWire = (let p = DEFAULT_RELAYER_POLICY in
     \<lparr>wp_perPaymentCapRawUsdc = toString (mp_perPaymentCapRawUsdc p),
      wp_dailyApiSpendCapRawUsdc = map_option toString (mp_dailyApiSpendCapRawUsdc p),
      wp_monthlyApiSpendCapRawUsdc = map_option toString (mp_monthlyApiSpendCapRawUsdc p),
      wp_dailyDepositCapRawUsdc = map_option toString (mp_dailyDepositCapRawUsdc p),
      wp_approvalThresholdRawUsdc = map_option toString (mp_approvalThresholdRawUsdc p),
      wp_allowedPayToAddresses = mp_allowedPayToAddresses p,
      wp_depositPolicy = mp_depositPolicy p, wp_withdrawalPolicy = mp_withdrawalPolicy p\<rparr>)"

definition opt_units :: "(js_unknown \<Rightarrow> string \<Rightarrow> int result) \<Rightarrow> string option \<Rightarrow> string \<Rightarrow> int option result" where
  "opt_units parse v fieldName = (case v of
       None \<Rightarrow> Inr None
     | Some s \<Rightarrow> bindR (parse (JsStr s) fieldName) (\<lambda>x. Inr (Some x)))"

text \<open>The amounts are read in the order of the object literal; any throw becomes one code.\<close>

definition policyOfWire :: "MandatePolicyWire \<Rightarrow> MandatePolicy result" where
  "policyOfWire w =
     bindR (parsePositiveRawUnits (JsStr (wp_perPaymentCapRawUsdc w)) ''policy.perPaymentCapRawUsdc'') (\<lambda>cap.
     bindR (opt_units parsePositiveRawUnits (wp_dailyApiSpendCapRawUsdc w) ''policy.dailyApiSpendCapRawUsdc'') (\<lambda>daily.
     bindR (opt_units parsePositiveRawUnits (wp_monthlyApiSpendCapRawUsdc w) ''policy.monthlyApiSpendCapRawUsdc'') (\<lambda>monthly.
     bindR (opt_units parsePositiveRawUnits (wp_dailyDepositCapRawUsdc w) ''policy.dailyDepositCapRawUsdc'') (\<lambda>deposit.
     bindR (opt_units parseRawUnits (wp_approvalThresholdRawUsdc w) ''policy.approvalThresholdRawUsdc'') (\<lambda>threshold.
     Inr \<lparr>mp_perPaymentCapRawUsdc = cap, mp_dailyApiSpendCapRawUsdc = daily,
          mp_monthlyApiSpendCapRawUsdc = monthly, mp_dailyDepositCapRawUsdc = deposit,
          mp_approvalThresholdRawUsdc = threshold, mp_allowedPayToAddresses = wp_allowedPayToAddresses w,
          mp_depositPolicy = wp_depositPolicy w, mp_withdrawalPolicy = wp_withdrawalPolicy w\<rparr>)))))"

definition parseMandatePolicy :: "MandatePolicyWire \<Rightarrow> MandatePolicy result" where
  "parseMandatePolicy w = (case policyOfWire w of
       Inl _ \<Rightarrow> Inl (badRequest ''invalid_policy'')
     | Inr policy \<Rightarrow>
         (case mp_approvalThresholdRawUsdc policy of
            None \<Rightarrow> Inr policy
          | Some threshold \<Rightarrow>
              if threshold \<ge> mp_perPaymentCapRawUsdc policy then Inl (badRequest ''invalid_policy_thresholds'')
              else Inr policy))"

section \<open>Documents\<close>

record SpendingMandateDocument =
  sd_ownerAuth :: OwnerAuth
  sd_ownerCredential :: OwnerCredential
  sd_enforcementMode :: EnforcementMode
  sd_agentWallet :: string
  sd_vault :: string
  sd_issuedAtMs :: int
  sd_expiresAtMs :: int
  sd_policy :: MandatePolicyWire
  sd_initialDepositRawUsdc :: "string option"
  sd_ownerSignature :: string
  sd_agentWalletSignature :: "string option"
  sd_currentOwnerSignature :: "string option"

datatype ApprovalBinding =
    PaymentBinding PaymentBindingWire
  | DepositBinding string
  | WithdrawalBinding string

subsection \<open>JSON forms\<close>

definition OwnerAuth_string :: "OwnerAuth \<Rightarrow> string" where
  "OwnerAuth_string x = (case x of ed25519 \<Rightarrow> ''ed25519'' | passkey \<Rightarrow> ''passkey'')"

definition EnforcementMode_string :: "EnforcementMode \<Rightarrow> string" where
  "EnforcementMode_string x = (case x of subly \<Rightarrow> ''subly'' | wallet_infra \<Rightarrow> ''wallet_infra'')"

definition opt_strings :: "string list option \<Rightarrow> json" where
  "opt_strings x = (case x of None \<Rightarrow> JNull | Some xs \<Rightarrow> JArray (map JString xs))"

text \<open>A property spread in only when defined is absent (\<open>None\<close>) otherwise.\<close>

definition ownerCredentialJson :: "OwnerCredential \<Rightarrow> json" where
  "ownerCredentialJson c = JObject
     [(''publicKey'', Some (JString (oc_publicKey c))),
      (''credentialId'', map_option JString (oc_credentialId c)),
      (''algorithm'', map_option JNumber (oc_algorithm c))]"

definition policyWireJson :: "MandatePolicyWire \<Rightarrow> json" where
  "policyWireJson w = obj
     [(''perPaymentCapRawUsdc'', JString (wp_perPaymentCapRawUsdc w)),
      (''dailyApiSpendCapRawUsdc'', opt_string (wp_dailyApiSpendCapRawUsdc w)),
      (''monthlyApiSpendCapRawUsdc'', opt_string (wp_monthlyApiSpendCapRawUsdc w)),
      (''dailyDepositCapRawUsdc'', opt_string (wp_dailyDepositCapRawUsdc w)),
      (''approvalThresholdRawUsdc'', opt_string (wp_approvalThresholdRawUsdc w)),
      (''allowedPayToAddresses'', opt_strings (wp_allowedPayToAddresses w)),
      (''depositPolicy'', JString (PolicyMode_string (wp_depositPolicy w))),
      (''withdrawalPolicy'', JString (PolicyMode_string (wp_withdrawalPolicy w)))]"

definition payloadMembers :: "SpendingMandateDocument \<Rightarrow> (string \<times> json option) list" where
  "payloadMembers d =
     [(''version'', Some (JNumber 1)),
      (''ownerAuth'', Some (JString (OwnerAuth_string (sd_ownerAuth d)))),
      (''ownerCredential'', Some (ownerCredentialJson (sd_ownerCredential d))),
      (''enforcementMode'', Some (JString (EnforcementMode_string (sd_enforcementMode d)))),
      (''agentWallet'', Some (JString (sd_agentWallet d))),
      (''vault'', Some (JString (sd_vault d))),
      (''issuedAtMs'', Some (JNumber (sd_issuedAtMs d))),
      (''expiresAtMs'', Some (JNumber (sd_expiresAtMs d))),
      (''policy'', Some (policyWireJson (sd_policy d))),
      (''initialDeposit'', map_option (\<lambda>a. obj [(''amountRawUsdc'', JString a)]) (sd_initialDepositRawUsdc d))]"

definition mandatePayloadOf :: "SpendingMandateDocument \<Rightarrow> json" where
  "mandatePayloadOf d = JObject (payloadMembers d)"

definition documentJson :: "SpendingMandateDocument \<Rightarrow> json" where
  "documentJson d = JObject (payloadMembers d @
     [(''ownerSignature'', Some (JString (sd_ownerSignature d))),
      (''agentWalletSignature'', map_option JString (sd_agentWalletSignature d)),
      (''currentOwnerSignature'', map_option JString (sd_currentOwnerSignature d))])"

definition bindingJson :: "ApprovalBinding \<Rightarrow> json" where
  "bindingJson b = (case b of
       PaymentBinding p \<Rightarrow> obj
         [(''kind'', JString ''payment''), (''payTo'', JString (pb_payTo p)),
          (''amountRawUsdc'', JString (pb_amountRawUsdc p)),
          (''resourceUrlHash'', JString (pb_resourceUrlHash p)), (''method'', JString (pb_method p))]
     | DepositBinding a \<Rightarrow> obj [(''kind'', JString ''deposit''), (''amountRawUsdc'', JString a)]
     | WithdrawalBinding a \<Rightarrow> obj [(''kind'', JString ''withdrawal''), (''amountRawUsdc'', JString a)])"

subsection \<open>Reading a stored policy back\<close>

text \<open>
  The services read the policy of a stored document with a cast, \<open>documentJson as
  SpendingMandateDocument\<close>. Every stored document was validated, so only well-formed policies
  are read; a malformed one is refused as \<open>parseMandatePolicy\<close> refuses it.
\<close>

definition textMember :: "string \<Rightarrow> json \<Rightarrow> string option" where
  "textMember k v = member_text k v"

definition optTextMember :: "string \<Rightarrow> json \<Rightarrow> string option option" where
  "optTextMember k v = (case json_get k v of
       Inr (Some JNull) \<Rightarrow> Some None
     | Inr (Some (JString s)) \<Rightarrow> Some (Some s)
     | _ \<Rightarrow> None)"

fun json_texts :: "json list \<Rightarrow> string list option" where
  "json_texts [] = Some []"
| "json_texts (JString s # xs) = map_option ((#) s) (json_texts xs)"
| "json_texts _ = None"

definition optTextsMember :: "string \<Rightarrow> json \<Rightarrow> string list option option" where
  "optTextsMember k v = (case json_get k v of
       Inr (Some JNull) \<Rightarrow> Some None
     | Inr (Some (JArray xs)) \<Rightarrow> map_option Some (json_texts xs)
     | _ \<Rightarrow> None)"

definition modeMember :: "string \<Rightarrow> json \<Rightarrow> PolicyMode option" where
  "modeMember k v = (case textMember k v of
       Some s \<Rightarrow> if s = ''agent_allowed'' then Some agent_allowed
         else if s = ''owner_approval_required'' then Some owner_approval_required else None
     | None \<Rightarrow> None)"

definition policyWireOfJson :: "json \<Rightarrow> MandatePolicyWire option" where
  "policyWireOfJson v =
     (case (textMember ''perPaymentCapRawUsdc'' v, optTextMember ''dailyApiSpendCapRawUsdc'' v,
            optTextMember ''monthlyApiSpendCapRawUsdc'' v, optTextMember ''dailyDepositCapRawUsdc'' v,
            optTextMember ''approvalThresholdRawUsdc'' v, optTextsMember ''allowedPayToAddresses'' v,
            modeMember ''depositPolicy'' v, modeMember ''withdrawalPolicy'' v) of
        (Some cap, Some daily, Some monthly, Some deposit, Some threshold, Some payees, Some dp, Some wp) \<Rightarrow>
          Some \<lparr>wp_perPaymentCapRawUsdc = cap, wp_dailyApiSpendCapRawUsdc = daily,
            wp_monthlyApiSpendCapRawUsdc = monthly, wp_dailyDepositCapRawUsdc = deposit,
            wp_approvalThresholdRawUsdc = threshold, wp_allowedPayToAddresses = payees,
            wp_depositPolicy = dp, wp_withdrawalPolicy = wp\<rparr>
      | _ \<Rightarrow> None)"

definition documentPolicyWire :: "json \<Rightarrow> MandatePolicyWire result" where
  "documentPolicyWire document = (case json_get ''policy'' document of
       Inr (Some v) \<Rightarrow> (case policyWireOfJson v of
           None \<Rightarrow> Inl (badRequest ''invalid_policy'') | Some w \<Rightarrow> Inr w)
     | _ \<Rightarrow> Inl (badRequest ''invalid_policy''))"

definition documentPolicy :: "json \<Rightarrow> MandatePolicy result" where
  "documentPolicy document = bindR (documentPolicyWire document) parseMandatePolicy"

section \<open>Signed messages\<close>

definition mandateHashOf :: "(string \<Rightarrow> string) \<Rightarrow> SpendingMandateDocument \<Rightarrow> string" where
  "mandateHashOf sha d = canonicalJsonHash sha (mandatePayloadOf d)"

definition bindingHashOf :: "(string \<Rightarrow> string) \<Rightarrow> ApprovalBinding \<Rightarrow> string" where
  "bindingHashOf sha b = canonicalJsonHash sha (bindingJson b)"

definition mandateSigningMessage :: "string \<Rightarrow> string" where
  "mandateSigningMessage h = ''subly-mandate:v1:'' @ h"

definition revokeSigningMessage :: "string \<Rightarrow> int \<Rightarrow> string" where
  "revokeSigningMessage h signedAtMs = ''subly-mandate-revoke:v1:'' @ h @ '':'' @ toString signedAtMs"

definition recoveryCancelSigningMessage :: "string \<Rightarrow> int \<Rightarrow> string" where
  "recoveryCancelSigningMessage h signedAtMs =
     ''subly-mandate-recovery-cancel:v1:'' @ h @ '':'' @ toString signedAtMs"

definition approvalSigningMessage :: "string \<Rightarrow> bool \<Rightarrow> string \<Rightarrow> int \<Rightarrow> string" where
  "approvalSigningMessage approvalId approve bindingHash signedAtMs =
     ''subly-approval:v1:'' @ approvalId @ '':'' @ (if approve then ''approve'' else ''deny'') @ '':'' @
     bindingHash @ '':'' @ toString signedAtMs"

section \<open>Signature checks\<close>

text \<open>
  What a \<open>SpendingMandateService\<close> is configured with. \<open>me_bs58\<close> and
  \<open>me_ed25519\<close> are \<open>bs58.decode\<close> (which may throw) and \<open>nacl.sign.detached.verify\<close>;
  \<open>me_ownerUrl\<close> rewrites a setup URL into an owner URL with the \<open>URL\<close> class.
\<close>

record mandate_env =
  me_ledger :: ledger_kind
  me_level :: MandateEnforcementLevel
  me_approveUrlBase :: string
  me_setupUrlBase :: string
  me_defaultVault :: string
  me_webauthn :: WebAuthnOwnerConfig
  me_wa :: webauthn_env
  me_sha :: "string \<Rightarrow> string"
  me_bs58 :: "string \<Rightarrow> byte list option"
  me_ed25519 :: "string \<Rightarrow> byte list \<Rightarrow> byte list \<Rightarrow> bool"
  me_ownerUrl :: "string \<Rightarrow> string \<Rightarrow> string result"

definition verifyEd25519Message :: "mandate_env \<Rightarrow> string \<Rightarrow> string \<Rightarrow> string \<Rightarrow> bool" where
  "verifyEd25519Message M message signatureBase58 publicKeyBase58 =
     (case (me_bs58 M publicKeyBase58, me_bs58 M signatureBase58) of
        (Some publicKey, Some signature) \<Rightarrow>
          length publicKey = 32 \<and> length signature = 64 \<and> me_ed25519 M message signature publicKey
      | _ \<Rightarrow> False)"

definition verifyOwnerMessageSignature ::
  "mandate_env \<Rightarrow> OwnerAuth \<Rightarrow> OwnerCredential \<Rightarrow> string \<Rightarrow> string \<Rightarrow> bool result" where
  "verifyOwnerMessageSignature M ownerAuth credential message signature = (case ownerAuth of
       passkey \<Rightarrow> verifyWebAuthnOwnerAssertion (me_wa M) (me_webauthn M) message signature credential
     | ed25519 \<Rightarrow> Inr (verifyEd25519Message M message signature (oc_publicKey credential)))"

text \<open>An \<open>if (!verify(...)) throw\<close>, where verifying may itself throw.\<close>

definition requireSignature :: "bool result \<Rightarrow> error \<Rightarrow> unit result" where
  "requireSignature verified e = bindR verified (\<lambda>ok. checkR ok e)"

section \<open>Validating a document\<close>

definition SIGNED_AT_MAX_AGE_MS :: int where "SIGNED_AT_MAX_AGE_MS = 300000"

definition isSafeInteger :: "int \<Rightarrow> bool" where
  "isSafeInteger i \<longleftrightarrow> \<bar>i\<bar> \<le> MAX_SAFE_INTEGER"

definition assertFreshSignedAt :: "int \<Rightarrow> int \<Rightarrow> unit result" where
  "assertFreshSignedAt signedAtMs nowMs =
     checkR (isSafeInteger signedAtMs \<and> \<bar>nowMs - signedAtMs\<bar> \<le> SIGNED_AT_MAX_AGE_MS)
       (badRequest ''signature_expired'')"

definition passkeyCredentialOk :: "OwnerCredential \<Rightarrow> bool" where
  "passkeyCredentialOk c \<longleftrightarrow> oc_credentialId c \<noteq> None \<and>
     (case oc_algorithm c of None \<Rightarrow> False | Some a \<Rightarrow> a \<in> set SUPPORTED_COSE_ALGORITHMS)"

datatype AgentCosign = cosign_document | cosign_setup_session

definition checkAgentCosign :: "mandate_env \<Rightarrow> AgentCosign \<Rightarrow> SpendingMandateDocument \<Rightarrow> string \<Rightarrow> unit result" where
  "checkAgentCosign M cosign d message = (case cosign of
       cosign_setup_session \<Rightarrow> Inr ()
     | cosign_document \<Rightarrow>
         checkR (case sd_agentWalletSignature d of
             None \<Rightarrow> False
           | Some s \<Rightarrow> verifyEd25519Message M message s (sd_agentWallet d)) (badRequest ''agent_cosign_invalid''))"

definition validateMandateDocument ::
  "mandate_env \<Rightarrow> SpendingMandateDocument \<Rightarrow> string \<Rightarrow> string \<Rightarrow> int \<Rightarrow> AgentCosign \<Rightarrow> (MandatePolicy \<times> string) result" where
  "validateMandateDocument M d wallet vault nowMs cosign =
     bindR (checkR (sd_agentWallet d = wallet) (badRequest ''mandate_wallet_mismatch'')) (\<lambda>_.
     bindR (checkR (sd_vault d = vault) (badRequest ''mandate_vault_mismatch'')) (\<lambda>_.
     bindR (checkR (sd_ownerAuth d = passkey \<longrightarrow> passkeyCredentialOk (sd_ownerCredential d))
       (badRequest ''invalid_owner_credential'')) (\<lambda>_.
     bindR (checkR (isSafeInteger (sd_issuedAtMs d) \<and> isSafeInteger (sd_expiresAtMs d) \<and>
       sd_issuedAtMs d < sd_expiresAtMs d) (badRequest ''invalid_mandate_times'')) (\<lambda>_.
     bindR (checkR (sd_issuedAtMs d \<le> nowMs + SIGNED_AT_MAX_AGE_MS) (badRequest ''invalid_mandate_times'')) (\<lambda>_.
     bindR (checkR (nowMs < sd_expiresAtMs d) (badRequest ''mandate_expired'')) (\<lambda>_.
     bindR (parseMandatePolicy (sd_policy d)) (\<lambda>policy.
     let mandateHash = mandateHashOf (me_sha M) d;
         message = mandateSigningMessage mandateHash in
     bindR (requireSignature (verifyOwnerMessageSignature M (sd_ownerAuth d) (sd_ownerCredential d) message
       (sd_ownerSignature d)) (badRequest ''owner_signature_invalid'')) (\<lambda>_.
     bindR (checkAgentCosign M cosign d message) (\<lambda>_.
     Inr (policy, mandateHash))))))))))"

section \<open>What parsing guarantees\<close>

lemma member_of_obj:
  "json_get k (JObject kvs) = Inr (case map_of kvs k of None \<Rightarrow> None | Some x \<Rightarrow> x)"
  by (simp add: json_get_def)

lemma PolicyMode_text [simp]:
  "PolicyMode_string m = ''agent_allowed'' \<longleftrightarrow> m = agent_allowed"
  "PolicyMode_string m = ''owner_approval_required'' \<longleftrightarrow> m = owner_approval_required"
  by (cases m; simp add: PolicyMode_string_def)+

lemma json_texts_map [simp]: "json_texts (map JString xs) = Some xs"
  by (induction xs) simp_all

lemma read_members:
  "json_get k v = Inr (Some (JString t)) \<Longrightarrow> textMember k v = Some t"
  "json_get k v = Inr (Some (opt_string x)) \<Longrightarrow> optTextMember k v = Some x"
  "json_get k v = Inr (Some (opt_strings xs)) \<Longrightarrow> optTextsMember k v = Some xs"
  "json_get k v = Inr (Some (JString (PolicyMode_string m))) \<Longrightarrow> modeMember k v = Some m"
  by (cases x; cases xs; cases m; simp add: textMember_def member_text_def json_text_def optTextMember_def
      opt_string_def optTextsMember_def opt_strings_def modeMember_def PolicyMode_string_def)+

lemma policyWire_roundtrip: "policyWireOfJson (policyWireJson w) = Some w"
proof -
  have get: "json_get k (policyWireJson w) = Inr (map_of
     [(''perPaymentCapRawUsdc'', JString (wp_perPaymentCapRawUsdc w)),
      (''dailyApiSpendCapRawUsdc'', opt_string (wp_dailyApiSpendCapRawUsdc w)),
      (''monthlyApiSpendCapRawUsdc'', opt_string (wp_monthlyApiSpendCapRawUsdc w)),
      (''dailyDepositCapRawUsdc'', opt_string (wp_dailyDepositCapRawUsdc w)),
      (''approvalThresholdRawUsdc'', opt_string (wp_approvalThresholdRawUsdc w)),
      (''allowedPayToAddresses'', opt_strings (wp_allowedPayToAddresses w)),
      (''depositPolicy'', JString (PolicyMode_string (wp_depositPolicy w))),
      (''withdrawalPolicy'', JString (PolicyMode_string (wp_withdrawalPolicy w)))] k)" for k
    by (simp add: policyWireJson_def obj_def member_of_obj)
  show ?thesis by (simp add: policyWireOfJson_def get read_members)
qed

lemma documentPolicyWire_stored: "documentPolicyWire (documentJson d) = Inr (sd_policy d)"
  by (simp add: documentPolicyWire_def documentJson_def payloadMembers_def member_of_obj policyWire_roundtrip)

end
