(* ===== verification/Mandate_Enforcement.thy ===== *)
theory Mandate_Enforcement
  imports Mandate_Document Flow_Views
begin

text \<open>
  The enforcement half of \<open>SpendingMandateService\<close>
  (\<open>src/src/domain/spending-mandate-service.ts\<close>): the effective policy of a wallet, the
  gates for realizes, deposits and withdrawals, the owner approvals and the spending log. The
  gates run inside the wallet lock of their caller, so they are actions without a lock of their
  own. In \<open>warn\<close> mode the console output is not modelled, only the code it stamps.
\<close>

section \<open>Constants\<close>

definition DAY_MS :: int where "DAY_MS = 86400000"
definition ROLLING_MONTH_MS :: int where "ROLLING_MONTH_MS = 30 * DAY_MS"
definition APPROVAL_TTL_MS :: int where "APPROVAL_TTL_MS = 900000"
definition APPROVAL_RETENTION_MS :: int where "APPROVAL_RETENTION_MS = 7 * DAY_MS"
definition MAX_PENDING_APPROVALS_PER_WALLET :: nat where "MAX_PENDING_APPROVALS_PER_WALLET = 20"

section \<open>The effective policy\<close>

datatype EffectiveStatus =
    eff_active | eff_expired | eff_revoked | eff_recovery_pending | eff_recovery_elapsed

definition effectiveStatus :: "SpendingMandateRecord \<Rightarrow> int \<Rightarrow> EffectiveStatus" where
  "effectiveStatus r nowMs =
     (if md_status r = mandate_revoked then eff_revoked
      else if md_expiresAtMs r \<le> nowMs then eff_expired
      else if md_status r = recovery_pending then
        (case md_recoveryAtMs r of
           Some t \<Rightarrow> if t \<le> nowMs then eff_recovery_elapsed else eff_recovery_pending
         | None \<Rightarrow> eff_recovery_pending)
      else eff_active)"

record EffectivePolicy =
  ef_policy :: MandatePolicy
  ef_policySource :: string
  ef_mandate :: "SpendingMandateRecord option"
  ef_ownerAvailable :: bool
  ef_revoked :: bool

definition defaultPolicy :: EffectivePolicy where
  "defaultPolicy = \<lparr>ef_policy = DEFAULT_RELAYER_POLICY, ef_policySource = ''default'',
     ef_mandate = None, ef_ownerAvailable = False, ef_revoked = False\<rparr>"

definition resolvePolicy :: "string \<Rightarrow> int \<Rightarrow> string \<Rightarrow> ledger \<Rightarrow> EffectivePolicy result" where
  "resolvePolicy wallet nowMs vault L = (case getSpendingMandate L wallet vault of
       None \<Rightarrow> Inr defaultPolicy
     | Some r \<Rightarrow>
         (case effectiveStatus r nowMs of
            eff_revoked \<Rightarrow> Inr (defaultPolicy\<lparr>ef_mandate := Some r, ef_revoked := True\<rparr>)
          | eff_expired \<Rightarrow> Inr defaultPolicy
          | eff_recovery_elapsed \<Rightarrow> Inr defaultPolicy
          | _ \<Rightarrow> bindR (documentPolicy (md_documentJson r)) (\<lambda>policy. Inr
              \<lparr>ef_policy = policy, ef_policySource = ''mandate:'' @ md_mandateHash r,
               ef_mandate = Some r, ef_ownerAvailable = True, ef_revoked = False\<rparr>)))"

definition effectiveHash :: "EffectivePolicy \<Rightarrow> string option" where
  "effectiveHash e = map_option md_mandateHash (ef_mandate e)"

section \<open>Windows\<close>

definition terminalMs :: "timestamp option \<Rightarrow> int" where
  "terminalMs terminalAt = (case terminalAt of None \<Rightarrow> 0
     | Some t \<Rightarrow> (case getTime t of None \<Rightarrow> 0 | Some ms \<Rightarrow> ms))"

definition confirmedRealize :: "WithdrawalIntent \<Rightarrow> bool" where
  "confirmedRealize i \<longleftrightarrow> wdr_purpose i = yield_realize \<and> wdr_status i = flow_confirmed"

definition confirmedRealizeSum :: "ledger \<Rightarrow> string \<Rightarrow> string \<Rightarrow> int \<Rightarrow> int" where
  "confirmedRealizeSum L wallet vault sinceMs =
     (\<Sum>i\<leftarrow>filter (\<lambda>i. confirmedRealize i \<and> sinceMs \<le> terminalMs (wdr_terminalAt i))
        (listWithdrawalsForPosition L wallet vault). wdr_requestedWithdrawRawUsdc i)"

definition confirmedDepositSum :: "ledger \<Rightarrow> string \<Rightarrow> string \<Rightarrow> int \<Rightarrow> int" where
  "confirmedDepositSum L wallet vault sinceMs =
     (\<Sum>i\<leftarrow>filter (\<lambda>i. dep_status i = flow_confirmed \<and> sinceMs \<le> terminalMs (dep_terminalAt i))
        (listDepositsForPosition L wallet vault). orElse (dep_actualDepositRawUsdc i) (dep_amountRawUsdc i))"

section \<open>Approvals\<close>

definition expiredView :: "SpendingApproval \<Rightarrow> int \<Rightarrow> SpendingApproval" where
  "expiredView a nowMs =
     (if (ap_status a = approval_pending \<or> ap_status a = approval_approved) \<and> ap_expiresAtMs a \<le> nowMs
      then a\<lparr>ap_status := approval_expired\<rparr> else a)"

definition expireIfStale :: "SpendingApproval \<Rightarrow> int \<Rightarrow> (ledger, SpendingApproval) action" where
  "expireIfStale a nowMs = (let viewed = expiredView a nowMs in
     if viewed \<noteq> a then bindA (modifyA (saveSpendingApproval viewed)) (\<lambda>_. returnA viewed)
     else returnA a)"

definition intentExpired :: "timestamp \<Rightarrow> int \<Rightarrow> bool" where
  "intentExpired expiresAt nowMs = expired_at nowMs expiresAt"

definition openIntent :: "string \<Rightarrow> int \<Rightarrow> string option \<Rightarrow> VaultFlowStatus \<Rightarrow> timestamp \<Rightarrow> bool" where
  "openIntent approvalId nowMs carried status expiresAt \<longleftrightarrow> carried = Some approvalId \<and>
     (status = flow_submitted \<or> (status = flow_prepared \<and> \<not> intentExpired expiresAt nowMs))"

definition approvalInFlight :: "ledger \<Rightarrow> string \<Rightarrow> string \<Rightarrow> string \<Rightarrow> ApprovalBinding \<Rightarrow> int \<Rightarrow> bool" where
  "approvalInFlight L approvalId wallet vault binding nowMs = (case binding of
       DepositBinding _ \<Rightarrow> list_ex (\<lambda>i. openIntent approvalId nowMs (dep_approvalId i) (dep_status i) (dep_expiresAt i))
         (listDepositsForPosition L wallet vault)
     | _ \<Rightarrow> list_ex (\<lambda>i. openIntent approvalId nowMs (wdr_approvalId i) (wdr_status i) (wdr_expiresAt i))
         (listWithdrawalsForPosition L wallet vault))"

definition pendingApproval :: "int \<Rightarrow> SpendingApproval \<Rightarrow> bool" where
  "pendingApproval nowMs a \<longleftrightarrow> ap_status a = approval_pending \<and> nowMs < ap_expiresAtMs a"

definition findReusablePending ::
  "ledger \<Rightarrow> string \<Rightarrow> string \<Rightarrow> string \<Rightarrow> int \<Rightarrow> SpendingApproval option" where
  "findReusablePending L wallet mandateHash bindingHash nowMs =
     find (\<lambda>a. ap_bindingHash a = bindingHash \<and> ap_mandateHash a = mandateHash \<and> pendingApproval nowMs a)
       (listSpendingApprovalsForWallet L wallet)"

definition newApproval ::
  "mandate_env \<Rightarrow> string \<Rightarrow> string \<Rightarrow> string \<Rightarrow> ApprovalBinding \<Rightarrow> SpendingApprovalStatus \<Rightarrow> json option \<Rightarrow>
   int option \<Rightarrow> int \<Rightarrow> SpendingApproval" where
  "newApproval M uuid wallet mandateHash binding status decision decidedAtMs nowMs =
     \<lparr>ap_approvalId = ''apr_'' @ uuid, ap_wallet = wallet, ap_bindingHash = bindingHashOf (me_sha M) binding,
      ap_bindingJson = bindingJson binding, ap_mandateHash = mandateHash, ap_status = status,
      ap_decisionJson = decision, ap_requestedAtMs = nowMs, ap_expiresAtMs = nowMs + APPROVAL_TTL_MS,
      ap_decidedAtMs = decidedAtMs, ap_consumedAtMs = None, ap_consumedByWithdrawalId = None\<rparr>"

text \<open>The provided approval, when it may drive this operation.\<close>

definition usableApproval ::
  "mandate_env \<Rightarrow> int \<Rightarrow> string \<Rightarrow> string \<Rightarrow> string \<Rightarrow> ApprovalBinding \<Rightarrow> string option \<Rightarrow>
   (ledger, SpendingApproval option) action" where
  "usableApproval M nowMs wallet vault mandateHash binding approvalId = (case approvalId of
       None \<Rightarrow> returnA None
     | Some i \<Rightarrow>
         bindA (getsA (\<lambda>L. getSpendingApproval L i)) (\<lambda>provided. case provided of
           None \<Rightarrow> returnA None
         | Some a \<Rightarrow>
             if ap_wallet a \<noteq> wallet then returnA None
             else
               bindA (expireIfStale a nowMs) (\<lambda>current.
               getsA (\<lambda>L. if ap_status current = approval_approved \<and> ap_mandateHash current = mandateHash \<and>
                   ap_bindingHash current = bindingHashOf (me_sha M) binding \<and>
                   \<not> approvalInFlight L (ap_approvalId current) wallet vault binding nowMs
                 then Some current else None))))"

definition requireOperationApproval ::
  "mandate_env \<Rightarrow> int \<Rightarrow> string \<Rightarrow> string \<Rightarrow> string \<Rightarrow> string \<Rightarrow> ApprovalBinding \<Rightarrow> string \<Rightarrow> string option \<Rightarrow>
   (ledger, SpendingApproval) action" where
  "requireOperationApproval M nowMs uuid wallet vault mandateHash binding requiredCode approvalId =
     bindA (modifyA (\<lambda>L. snd (pruneSpendingApprovals wallet (nowMs - APPROVAL_RETENTION_MS) L))) (\<lambda>_.
     bindA (usableApproval M nowMs wallet vault mandateHash binding approvalId) (\<lambda>usable. case usable of
       Some current \<Rightarrow> returnA current
     | None \<Rightarrow>
         bindA (getsA (\<lambda>L. findReusablePending L wallet mandateHash (bindingHashOf (me_sha M) binding) nowMs)) (\<lambda>pending.
         bindA (case pending of
             Some a \<Rightarrow> returnA a
           | None \<Rightarrow>
               bindA (readA (\<lambda>L. checkR (length (filter (pendingApproval nowMs)
                   (listSpendingApprovalsForWallet L wallet)) < MAX_PENDING_APPROVALS_PER_WALLET)
                 (conflict ''too_many_pending_approvals''))) (\<lambda>_.
               let a = newApproval M uuid wallet mandateHash binding approval_pending None None nowMs in
               bindA (modifyA (saveSpendingApproval a)) (\<lambda>_. returnA a))) (\<lambda>a.
         throwA (ApprovalRequiredError requiredCode (ap_approvalId a) (ap_expiresAtMs a))))))"

definition consumeApproval :: "int \<Rightarrow> string \<Rightarrow> string \<Rightarrow> (ledger, unit) action" where
  "consumeApproval nowMs approvalId consumedBy =
     bindA (getsA (\<lambda>L. getSpendingApproval L approvalId)) (\<lambda>found. case found of
       None \<Rightarrow> returnA ()
     | Some a \<Rightarrow>
         if ap_status a \<noteq> approval_approved then returnA ()
         else modifyA (saveSpendingApproval (a\<lparr>ap_status := approval_consumed,
           ap_consumedAtMs := Some nowMs, ap_consumedByWithdrawalId := Some consumedBy\<rparr>)))"

section \<open>Violations\<close>

text \<open>
  \<open>warned ??= this.violation(error)\<close>: blocks in \<open>on\<close> mode, otherwise stamps the first
  code.
\<close>

definition violation_code :: "error \<Rightarrow> string" where
  "violation_code e = (case e of SublyError code _ \<Rightarrow> code | ApprovalRequiredError code _ _ \<Rightarrow> code | JsError m \<Rightarrow> m)"

definition violation :: "mandate_env \<Rightarrow> bool \<Rightarrow> error \<Rightarrow> string option \<Rightarrow> string option result" where
  "violation M violated e warned =
     (if \<not> violated then Inr warned
      else case warned of
          Some c \<Rightarrow> Inr (Some c)
        | None \<Rightarrow> if me_level M = enforcement_on then Inl e else Inr (Some (violation_code e)))"

definition unenforced :: MandateAuthorization where
  "unenforced = \<lparr>ma_policySource = Some ''default'', ma_mandateHash = None,
     ma_policyDecision = Some ''unenforced'', ma_approvalId = None\<rparr>"

definition decided :: "EffectivePolicy \<Rightarrow> string option \<Rightarrow> MandateAuthorization" where
  "decided e warned = \<lparr>ma_policySource = Some (ef_policySource e), ma_mandateHash = effectiveHash e,
     ma_policyDecision = Some (case warned of None \<Rightarrow> ''auto_within_policy'' | Some c \<Rightarrow> ''warned:'' @ c),
     ma_approvalId = None\<rparr>"

definition ownerApproved :: "EffectivePolicy \<Rightarrow> SpendingApproval \<Rightarrow> MandateAuthorization" where
  "ownerApproved e a = (decided e None)\<lparr>ma_policyDecision := Some (''owner_approved:'' @ ap_approvalId a),
     ma_approvalId := Some (ap_approvalId a)\<rparr>"

text \<open>\<open>warned ??= code\<close>.\<close>

definition stampWarned :: "string \<Rightarrow> string option \<Rightarrow> string option" where
  "stampWarned code warned = (case warned of None \<Rightarrow> Some code | Some c \<Rightarrow> Some c)"

definition exceeds :: "int option \<Rightarrow> int \<Rightarrow> bool" where
  "exceeds cap amount = (case cap of None \<Rightarrow> False | Some c \<Rightarrow> c < amount)"

section \<open>The gates\<close>

definition mandateNotRevoked :: "EffectivePolicy \<Rightarrow> unit result" where
  "mandateNotRevoked e = checkR (\<not> ef_revoked e) (conflict ''mandate_revoked'')"

text \<open>\<open>effective.mandate!.mandateHash\<close>: reading it without a mandate would throw.\<close>

definition requiredHash :: "EffectivePolicy \<Rightarrow> string result" where
  "requiredHash e = (case effectiveHash e of None \<Rightarrow> Inl (JsError ''TypeError'') | Some h \<Rightarrow> Inr h)"

definition checkPaymentBinding :: "mandate_env \<Rightarrow> PaymentBindingWire option \<Rightarrow> int \<Rightarrow> string option result" where
  "checkPaymentBinding M payment amount = (case payment of
       None \<Rightarrow> violation M True (badRequest ''payment_binding_required'') None
     | Some p \<Rightarrow>
         (case js_BigInt (pb_amountRawUsdc p) of
            None \<Rightarrow> Inl (JsError ''SyntaxError'')
          | Some declared \<Rightarrow> violation M (declared \<noteq> amount) (badRequest ''payment_binding_mismatch'') None))"

definition payeeRefused :: "MandatePolicy \<Rightarrow> PaymentBindingWire option \<Rightarrow> bool" where
  "payeeRefused policy payment = (case (payment, mp_allowedPayToAddresses policy) of
       (Some p, Some allowed) \<Rightarrow> pb_payTo p \<notin> set allowed
     | _ \<Rightarrow> False)"

text \<open>
  The checks of a realize below the per-payment cap, and the code of the first one that is
  violated in \<open>warn\<close> mode.
\<close>

definition spendingWindows ::
  "mandate_env \<Rightarrow> int \<Rightarrow> string \<Rightarrow> string \<Rightarrow> MandatePolicy \<Rightarrow> int \<Rightarrow> string option \<Rightarrow> ledger \<Rightarrow> string option result" where
  "spendingWindows M nowMs wallet vault policy amount warned L =
     bindR (violation M (exceeds (mp_dailyApiSpendCapRawUsdc policy)
         (confirmedRealizeSum L wallet vault (nowMs - DAY_MS) + amount)) (conflict ''daily_cap_exceeded'') warned)
       (violation M (exceeds (mp_monthlyApiSpendCapRawUsdc policy)
         (confirmedRealizeSum L wallet vault (nowMs - ROLLING_MONTH_MS) + amount)) (conflict ''monthly_cap_exceeded''))"

definition escalateRealize ::
  "mandate_env \<Rightarrow> int \<Rightarrow> string \<Rightarrow> string \<Rightarrow> string \<Rightarrow> EffectivePolicy \<Rightarrow> int \<Rightarrow> PaymentBindingWire option \<Rightarrow>
   string option \<Rightarrow> string option \<Rightarrow> (ledger, MandateAuthorization) action" where
  "escalateRealize M nowMs uuid wallet vault e amount payment approvalId warned =
     (if \<not> exceeds (mp_approvalThresholdRawUsdc (ef_policy e)) amount then returnA (decided e warned)
      else if \<not> ef_ownerAvailable e then
        bindA (liftR (violation M True (conflict ''mandate_required_for_larger_payments'') warned))
          (\<lambda>w. returnA (decided e w))
      else case (payment, me_level M) of
          (Some p, enforcement_on) \<Rightarrow>
            bindA (liftR (requiredHash e)) (\<lambda>h.
            bindA (requireOperationApproval M nowMs uuid wallet vault h (PaymentBinding p)
                ''approval_required'' approvalId)
              (\<lambda>a. returnA (ownerApproved e a)))
        | (_, enforcement_warn) \<Rightarrow> returnA (decided e (stampWarned ''approval_required'' warned))
        | _ \<Rightarrow> returnA (decided e warned))"

definition authorizeRealize ::
  "mandate_env \<Rightarrow> int \<Rightarrow> string \<Rightarrow> string \<Rightarrow> string \<Rightarrow> int \<Rightarrow> PaymentBindingWire option \<Rightarrow> string option \<Rightarrow>
   (ledger, MandateAuthorization) action" where
  "authorizeRealize M nowMs uuid wallet vault amount payment approvalId =
     (if me_level M = enforcement_off then returnA unenforced
      else
        bindA (readA (resolvePolicy wallet nowMs vault)) (\<lambda>e.
        bindA (liftR (mandateNotRevoked e)) (\<lambda>_.
        bindA (liftR (checkPaymentBinding M payment amount)) (\<lambda>w1.
        bindA (liftR (violation M (payeeRefused (ef_policy e) payment) (conflict ''payee_not_allowed'') w1)) (\<lambda>w2.
        if mp_perPaymentCapRawUsdc (ef_policy e) < amount then
          bindA (liftR (violation M True (conflict ''per_payment_cap_exceeded'') w2)) (\<lambda>w. returnA (decided e w))
        else
          bindA (readA (spendingWindows M nowMs wallet vault (ef_policy e) amount w2)) (\<lambda>w3.
          escalateRealize M nowMs uuid wallet vault e amount payment approvalId w3))))))"

definition approveOperation ::
  "mandate_env \<Rightarrow> int \<Rightarrow> string \<Rightarrow> string \<Rightarrow> string \<Rightarrow> EffectivePolicy \<Rightarrow> ApprovalBinding \<Rightarrow> string \<Rightarrow>
   string option \<Rightarrow> (ledger, MandateAuthorization) action" where
  "approveOperation M nowMs uuid wallet vault e binding requiredCode approvalId =
     bindA (liftR (requiredHash e)) (\<lambda>h.
     bindA (requireOperationApproval M nowMs uuid wallet vault h binding requiredCode approvalId)
       (\<lambda>a. returnA (ownerApproved e a)))"

definition mandateAuthorizeDeposit ::
  "mandate_env \<Rightarrow> int \<Rightarrow> string \<Rightarrow> string \<Rightarrow> string \<Rightarrow> int \<Rightarrow> string option \<Rightarrow> (ledger, MandateAuthorization) action" where
  "mandateAuthorizeDeposit M nowMs uuid wallet vault amount approvalId =
     (if me_level M = enforcement_off then returnA unenforced
      else
        bindA (readA (resolvePolicy wallet nowMs vault)) (\<lambda>e.
        bindA (liftR (mandateNotRevoked e)) (\<lambda>_.
        bindA (readA (\<lambda>L. violation M (exceeds (mp_dailyDepositCapRawUsdc (ef_policy e))
            (confirmedDepositSum L wallet vault (nowMs - DAY_MS) + amount))
            (conflict ''daily_deposit_cap_exceeded'') None)) (\<lambda>warned.
        if mp_depositPolicy (ef_policy e) \<noteq> owner_approval_required then returnA (decided e warned)
        else if \<not> ef_ownerAvailable e then
          bindA (liftR (violation M True (conflict ''mandate_required_for_deposit'') warned))
            (\<lambda>w. returnA (decided e w))
        else if me_level M = enforcement_on then
          approveOperation M nowMs uuid wallet vault e (DepositBinding (toString amount))
            ''deposit_approval_required'' approvalId
        else returnA (decided e (stampWarned ''deposit_approval_required'' warned))))))"

definition mandateAuthorizeWithdrawal ::
  "mandate_env \<Rightarrow> int \<Rightarrow> string \<Rightarrow> string \<Rightarrow> string \<Rightarrow> int \<Rightarrow> string option \<Rightarrow> (ledger, MandateAuthorization) action" where
  "mandateAuthorizeWithdrawal M nowMs uuid wallet vault amount approvalId =
     (if me_level M = enforcement_off then returnA unenforced
      else
        bindA (readA (resolvePolicy wallet nowMs vault)) (\<lambda>e.
        bindA (liftR (mandateNotRevoked e)) (\<lambda>_.
        if mp_withdrawalPolicy (ef_policy e) \<noteq> owner_approval_required then returnA (decided e None)
        else if me_level M = enforcement_on then
          approveOperation M nowMs uuid wallet vault e (WithdrawalBinding (toString amount))
            ''withdrawal_approval_required'' approvalId
        else returnA (decided e (Some ''withdrawal_approval_required'')))))"

definition assertPreparedAuthorization ::
  "mandate_env \<Rightarrow> int \<Rightarrow> string \<Rightarrow> string \<Rightarrow> string option \<Rightarrow> string option \<Rightarrow> (ledger, unit) action" where
  "assertPreparedAuthorization M nowMs wallet vault mandateHash approvalId =
     (if me_level M = enforcement_off then returnA ()
      else
        bindA (readA (resolvePolicy wallet nowMs vault)) (\<lambda>e.
        bindA (liftR (mandateNotRevoked e)) (\<lambda>_.
        bindA (assertA (effectiveHash e = mandateHash) (conflict ''mandate_changed'')) (\<lambda>_.
        readA (\<lambda>L. case approvalId of
            None \<Rightarrow> Inr ()
          | Some i \<Rightarrow> checkR (case getSpendingApproval L i of
                None \<Rightarrow> False
              | Some a \<Rightarrow> ap_wallet a = wallet \<and> Some (ap_mandateHash a) = mandateHash \<and>
                  ap_status a = approval_approved \<and> nowMs < ap_expiresAtMs a)
              (conflict ''approval_no_longer_valid''))))))"

text \<open>The interface the vault flows call, for a call at \<open>nowMs\<close> that may draw \<open>uuid\<close>.\<close>

definition mandateOps :: "mandate_env \<Rightarrow> int \<Rightarrow> string \<Rightarrow> mandate_ops" where
  "mandateOps M nowMs uuid =
     \<lparr>mo_authorizeDeposit = mandateAuthorizeDeposit M nowMs uuid,
      mo_authorizeRealize = authorizeRealize M nowMs uuid,
      mo_authorizeWithdrawal = mandateAuthorizeWithdrawal M nowMs uuid,
      mo_assertPreparedDeposit = (\<lambda>i. assertPreparedAuthorization M nowMs (dep_wallet i) (dep_vault i)
        (dep_mandateHash i) (dep_approvalId i)),
      mo_assertPreparedWithdrawal = (\<lambda>i. assertPreparedAuthorization M nowMs (wdr_wallet i) (wdr_vault i)
        (wdr_mandateHash i) (wdr_approvalId i)),
      mo_consumeApproval = consumeApproval nowMs\<rparr>"

section \<open>The spending log\<close>

definition spendingLogEntry :: "WithdrawalIntent \<Rightarrow> json result" where
  "spendingLogEntry i = objR
    [(''paidAtMs'', Inr (JNumber (terminalMs (wdr_terminalAt i)))),
     (''payTo'', Inr (opt_string (map_option pb_payTo (wdr_paymentBinding i)))),
     (''amountRawUsdc'', raw (wdr_requestedWithdrawRawUsdc i)),
     (''resourceUrlHash'', Inr (opt_string (map_option pb_resourceUrlHash (wdr_paymentBinding i)))),
     (''method'', Inr (opt_string (map_option pb_method (wdr_paymentBinding i)))),
     (''realizeTxSignature'', Inr (opt_string (wdr_txSignature i))),
     (''paymentTxSignature'', Inr (opt_string (wdr_paymentTxSignature i))),
     (''paymentVerification'', Inr (JString (case wdr_paymentVerification i of
        None \<Rightarrow> ''unreported'' | Some v \<Rightarrow> PaymentVerification_string v))),
     (''decision'', Inr (JString (orElse (wdr_policyDecision i) ''unenforced''))),
     (''mandateHash'', Inr (opt_string (wdr_mandateHash i))),
     (''policySource'', Inr (JString (orElse (wdr_policySource i) ''default'')))]"

definition spendingLogEntries :: "ledger \<Rightarrow> string \<Rightarrow> string \<Rightarrow> nat \<Rightarrow> WithdrawalIntent list" where
  "spendingLogEntries L wallet vault limit =
     take limit (sort_key (\<lambda>i. - terminalMs (wdr_terminalAt i))
       (filter confirmedRealize (listWithdrawalsForPosition L wallet vault)))"

definition spendingLog :: "string \<Rightarrow> string \<Rightarrow> nat \<Rightarrow> (ledger, json) action" where
  "spendingLog wallet vault limit =
     readA (\<lambda>L. bindR (fieldsR (map (\<lambda>i. ('''', spendingLogEntry i)) (spendingLogEntries L wallet vault limit)))
       (\<lambda>entries. Inr (obj [(''wallet'', JString wallet), (''vault'', JString vault),
          (''entries'', JArray (map snd entries))])))"

end
