(* ===== verification/Flow_Safety.thy ===== *)
theory Flow_Safety
  imports Flow_Steps Mandate_Enforcement
begin

text \<open>
  The mandate service keeps the contract the vault flows rely on, and the vault flow service as
  a transition system: a step is one locked section of a call, with any arguments and any
  answers of the chain. On every reachable ledger a position has at most one open flow, and
  flows never leave their life cycle.
\<close>

section \<open>The mandate service as a gate\<close>

lemma gated_save [simp]: "gated L M \<Longrightarrow> gated L (saveSpendingApproval a M)"
  by (auto simp: gated_def saveSpendingApproval_def)

lemma keyed_filter: "keyed key m \<Longrightarrow> keyed key (filter P m)"
  unfolding keyed_def map_ok_def by (auto simp: distinct_map_filter)

lemma gated_prune [simp]: "gated L M \<Longrightarrow> gated L (snd (pruneSpendingApprovals w t M))"
  by (auto simp: gated_def pruneSpendingApprovals_def keyed_filter)

lemma gates_bind:
  assumes "gates m L" "\<And>x M. gated L M \<Longrightarrow> gates (f x) M"
  shows "gates (bindA m f) L"
proof (rule runs_seq[OF assms(1)])
  show "runs (f x) M (\<lambda>_. gated L) (\<lambda>_. gated L)" if "gated L M" for x M
    by (rule runs_mono[OF assms(2)[OF that]]) (auto intro: gated_trans[OF that])
qed

lemma gates_usable: "gates (usableApproval M now w v h b i) L"
  by (auto simp: usableApproval_def expireIfStale_def Let_def split: option.splits)

lemma gates_require: "gates (requireOperationApproval M now uuid w v h b c i) L"
  unfolding requireOperationApproval_def
proof (rule gates_bind)
  fix x N
  assume "gated L N"
  show "gates (bindA (usableApproval M now w v h b i) (\<lambda>usable. case usable of
       Some current \<Rightarrow> returnA current
     | None \<Rightarrow>
         bindA (getsA (\<lambda>L. findReusablePending L w h (bindingHashOf (me_sha M) b) now)) (\<lambda>pending.
         bindA (case pending of
             Some a \<Rightarrow> returnA a
           | None \<Rightarrow>
               bindA (readA (\<lambda>L. checkR (length (filter (pendingApproval now)
                   (listSpendingApprovalsForWallet L w)) < MAX_PENDING_APPROVALS_PER_WALLET)
                 (conflict ''too_many_pending_approvals''))) (\<lambda>_.
               let a = newApproval M uuid w h b approval_pending None None now in
               bindA (modifyA (saveSpendingApproval a)) (\<lambda>_. returnA a))) (\<lambda>a.
         throwA (ApprovalRequiredError c (ap_approvalId a) (ap_expiresAtMs a)))))) N"
    by (rule gates_bind[OF gates_usable]) (auto simp: Let_def split: option.splits sum.splits)
qed simp

lemma gates_approve: "gates (approveOperation M now uuid w v e b c i) L"
  unfolding approveOperation_def
  by (intro gates_bind gates_require) (auto split: sum.splits)

lemma gates_escalate: "gates (escalateRealize M now uuid w v e a p i warned) L"
  using gates_require[of M now uuid w v]
  by (auto simp: escalateRealize_def split: sum.splits option.splits MandateEnforcementLevel.splits
      intro!: gates_then[OF gates_require])

lemma gates_realize: "gates (authorizeRealize M now uuid w v a p i) L"
  unfolding authorizeRealize_def
  by (auto simp: gates_escalate split: sum.splits)

lemma gates_mandate_deposit: "gates (mandateAuthorizeDeposit M now uuid w v a i) L"
  unfolding mandateAuthorizeDeposit_def
  by (auto simp: gates_approve split: sum.splits)

lemma gates_mandate_withdrawal: "gates (mandateAuthorizeWithdrawal M now uuid w v a i) L"
  unfolding mandateAuthorizeWithdrawal_def
  by (auto simp: gates_approve split: sum.splits)

lemma gates_prepared: "gates (assertPreparedAuthorization M now w v h i) L"
  unfolding assertPreparedAuthorization_def
  by (auto split: sum.splits option.splits)

lemma gates_consumption: "gates (consumeApproval now i j) L"
  by (auto simp: consumeApproval_def split: option.splits)

interpretation guard: mandate_gate "map_option (\<lambda>M. mandateOps M nowMs uid) config" for config nowMs uid
  by unfold_locales (auto simp: mandateOps_def gates_realize gates_mandate_deposit
      gates_mandate_withdrawal gates_prepared gates_consumption)


section \<open>Steps\<close>

text \<open>
  The service runs on one kind of ledger and is configured with a mandate service or without
  one; the chain, the builder and the clocks may answer anything.
\<close>

definition wired :: "ledger_kind \<Rightarrow> flow_env \<Rightarrow> bool" where
  "wired K E \<longleftrightarrow> vf_ledger E = K \<and>
     (\<exists>config nowMs uid. vf_mandates E = map_option (\<lambda>M. mandateOps M nowMs uid) config)"

text \<open>
  One locked section of one call, at the clock \<open>now\<close>. New identifiers are fresh, and a
  report follows the check that its realize is confirmed; the handlers below are shown to
  respect it. The two prepare calls are one section behind the parsing of their arguments.
\<close>

inductive flow_step :: "ledger_kind \<Rightarrow> int \<Rightarrow> ledger \<Rightarrow> ledger \<Rightarrow> bool" for K now where
  step_prepare_deposit: "wired K E \<Longrightarrow> getDeposit L (''dep_'' @ uuid) = None \<Longrightarrow>
    flow_step K now L (snd (prepareDeposit E now uuid wi ai i L))"
| step_submit_deposit: "wired K E \<Longrightarrow>
    flow_step K now L (snd (withLock K (submitDepositSection E now k x) L))"
| step_finalize_deposit: "wired K E \<Longrightarrow>
    flow_step K now L (snd (withLock K (finalizeDepositSection E now uuid d c) L))"
| step_drop_deposit:
    "flow_step K now L (snd (withLock K (notSubmittedDepositSection now d e) L))"
| step_expire_deposit: "flow_step K now L (snd (withLock K (expireDepositSection now d) L))"
| step_prepare_withdrawal: "wired K E \<Longrightarrow> getWithdrawal L (''wdr_'' @ uuid) = None \<Longrightarrow>
    flow_step K now L (snd (prepareWithdrawal E now uuid y L))"
| step_submit_withdrawal: "wired K E \<Longrightarrow>
    flow_step K now L (snd (withLock K (submitWithdrawalSection E now k x) L))"
| step_finalize_withdrawal: "wired K E \<Longrightarrow>
    flow_step K now L (snd (withLock K (finalizeWithdrawalSection E now uuid z c) L))"
| step_drop_withdrawal:
    "flow_step K now L (snd (withLock K (notSubmittedWithdrawalSection now z e) L))"
| step_expire_withdrawal: "flow_step K now L (snd (withLock K (expireWithdrawalSection now z) L))"
| step_report: "realized L k \<Longrightarrow> flow_step K now L (snd (withLock K (reportSection k tx v) L))"

abbreviation flow_move :: "ledger_kind \<Rightarrow> ledger \<Rightarrow> ledger \<Rightarrow> bool" where
  "flow_move K \<equiv> \<lambda>L L'. \<exists>now. flow_step K now L L'"

abbreviation flow_steps :: "ledger_kind \<Rightarrow> ledger \<Rightarrow> ledger \<Rightarrow> bool" where
  "flow_steps K \<equiv> (flow_move K)\<^sup>*\<^sup>*"

lemma wired_runs:
  assumes "wired K E" "flows_ok L"
  shows "getDeposit L (''dep_'' @ uuid) = None \<Longrightarrow> flow_runs (prepareDepositSection E now uuid w a i) L"
    "flow_runs (submitDepositSection E now k x) L" "flow_runs (finalizeDepositSection E now uuid d c) L"
    "getWithdrawal L (''wdr_'' @ uuid) = None \<Longrightarrow> flow_runs (prepareWithdrawalSection E now uuid w a y) L"
    "flow_runs (submitWithdrawalSection E now k x) L" "flow_runs (finalizeWithdrawalSection E now uuid z c) L"
proof -
  obtain config nowMs uid where E: "vf_mandates E = map_option (\<lambda>M. mandateOps M nowMs uid) config"
    using assms(1) by (auto simp: wired_def)
  note guarded = guard.prepare_deposit[OF E assms(2)] guard.submit_deposit[OF E assms(2)]
    guard.finalize_deposit[OF E assms(2)] guard.prepare_withdrawal[OF E assms(2)]
    guard.submit_withdrawal[OF E assms(2)] guard.finalize_withdrawal[OF E assms(2)]
  show "getDeposit L (''dep_'' @ uuid) = None \<Longrightarrow> flow_runs (prepareDepositSection E now uuid w a i) L"
    "flow_runs (submitDepositSection E now k x) L" "flow_runs (finalizeDepositSection E now uuid d c) L"
    "getWithdrawal L (''wdr_'' @ uuid) = None \<Longrightarrow> flow_runs (prepareWithdrawalSection E now uuid w a y) L"
    "flow_runs (submitWithdrawalSection E now k x) L" "flow_runs (finalizeWithdrawalSection E now uuid z c) L"
    by (erule guarded | rule guarded)+
qed

lemma wired_prepare:
  assumes "wired K E" "flows_ok L"
  shows "getDeposit L (''dep_'' @ uuid) = None \<Longrightarrow> flow_runs (prepareDeposit E now uuid wi ai i) L"
    and "getWithdrawal L (''wdr_'' @ uuid) = None \<Longrightarrow> flow_runs (prepareWithdrawal E now uuid y) L"
  using flow_outcome_refl[OF assms(2)]
  by (auto simp: prepareDeposit_def prepareWithdrawal_def simp del: append.simps
      intro!: flow_runs_lock[OF assms(2)] wired_runs[OF assms] split: sum.splits)

lemma step_outcome:
  assumes "flow_step K now L L'" "flows_ok L"
  shows "flow_outcome L L'"
  using assms
proof (induction rule: flow_step.induct)
qed (simp_all add: flow_runs_lock wired_runs wired_prepare not_submitted_sections expire_sections report_section
    del: append.simps flip: runs_snd)

interpretation vault: intent_machine flow_evolves prepared_flow same_position open_flow "flow_move K" flows flows_ok
  for K
proof
  show "flow_evolves i i' \<Longrightarrow> flow_evolves j j' \<Longrightarrow> same_position i' j' \<longleftrightarrow> same_position i j" for i i' j j'
    using evolves_position unfolding same_position_def by metis
  show "same_position i j \<Longrightarrow> same_position j i" for i j by (simp add: same_position_def)
qed (auto intro: open_backwards dest!: step_outcome simp: flow_outcome_def)

section \<open>Handlers are sequences of steps\<close>

lemma without_report_eq:
  assumes "without_report j' = without_report j"
  shows "wdr_purpose j' = wdr_purpose j" "wdr_status j' = wdr_status j"
  using arg_cong[OF assms, of wdr_purpose] arg_cong[OF assms, of wdr_status]
  by (simp_all add: without_report_def)

lemma realized_evolves:
  assumes "realized L k" "flow_steps K L L'" "flows_ok L"
  shows "realized L' k"
proof -
  obtain i where i: "getWithdrawal L k = Some i" "wdr_purpose i = yield_realize" "wdr_status i = flow_confirmed"
    using assms(1) by (auto simp: realized_def)
  have done_stays: "\<exists>j. f = WithdrawalFlow j \<and> wdr_purpose j = yield_realize \<and> wdr_status j = flow_confirmed"
    if "flow_evolves\<^sup>*\<^sup>* (WithdrawalFlow i) f" for f
    using that
  proof (induction rule: rtranclp_induct)
    case base
    then show ?case using i by simp
  next
    case (step f g)
    then obtain j where j: "f = WithdrawalFlow j" "wdr_purpose j = yield_realize" "wdr_status j = flow_confirmed"
      by blast
    with step.hyps(2) obtain j' where j': "g = WithdrawalFlow j'" "without_report j' = without_report j"
      by (cases g) (auto simp: open_status_def)
    with j without_report_eq[OF j'(2)] show ?case by simp
  qed
  have "flows L (Inr k) = Some (WithdrawalFlow i)" using i by simp
  from vault.steps_evolve[OF assms(2,3) this] done_stays show ?thesis
    by (auto simp: realized_def)
qed

lemma along_move: "flow_step K now L (snd (m L)) \<Longrightarrow> along (flow_move K) m L"
  by (rule along_step) blast

lemma wired_ledger: "wired K E \<Longrightarrow> vf_ledger E = K"
  by (simp add: wired_def)

lemma along_apply:
  assumes "wired K E"
  shows "along (flow_move K) (applyDepositOutcome E now uuid i c) L"
    "along (flow_move K) (applyWithdrawalOutcome E now uuid j c) L"
  using assms by (auto simp: applyDepositOutcome_def applyWithdrawalOutcome_def wired_ledger[OF assms]
      intro!: along_move step_drop_deposit step_finalize_deposit step_drop_withdrawal step_finalize_withdrawal
      split: FlowOutcome.splits)

lemma along_reconcile:
  assumes "wired K E"
  shows "along (flow_move K) (reconcileDeposit E now uuid d) L"
    "along (flow_move K) (reconcileWithdrawal E now uuid z) L"
    "along (flow_move K) (sendAndFinalizeDeposit E now uuid d) L"
    "along (flow_move K) (sendAndFinalizeWithdrawal E now uuid z) L"
  using assms
  by (auto simp: reconcileDeposit_def reconcileWithdrawal_def sendAndFinalizeDeposit_def
      sendAndFinalizeWithdrawal_def along_apply split: sum.splits)

lemma along_lift: "along (flow_move K) (liftR r) L" "along (flow_move K) (readA f) L"
  by (auto split: sum.splits)

lemma along_sections:
  assumes "wired K E"
  shows "along (flow_move K) (withLock (vf_ledger E) (submitDepositSection E now k x)) L"
    and "along (flow_move K) (withLock (vf_ledger E) (submitWithdrawalSection E now k x)) L"
    and "along (flow_move K) (withLock (vf_ledger E) (expireDepositSection now d)) L"
    and "along (flow_move K) (withLock (vf_ledger E) (expireWithdrawalSection now z)) L"
    and "realized L k \<Longrightarrow> along (flow_move K) (withLock (vf_ledger E) (reportSection k tx v)) L"
  using assms by (auto intro!: along_move step_submit_deposit step_submit_withdrawal
      step_expire_deposit step_expire_withdrawal step_report simp: wired_ledger[OF assms])

text \<open>Every public call of the service beyond the two prepares, as a sequence of steps.\<close>

lemma handlers_along:
  assumes E: "wired K E"
  shows "along (flow_move K) (submitDeposit E now later uuid k x) L"
    and "along (flow_move K) (submitWithdrawal E now later uuid k x) L"
    and "along (flow_move K) (getDepositView E now uuid k) L"
    and "along (flow_move K) (getWithdrawalView E now uuid k) L"
  using E
  by (auto simp: submitDeposit_def submitWithdrawal_def getDepositView_def getWithdrawalView_def
      simp del: runs_bind intro!: along_bind along_lift along_pure along_reconcile along_sections
      split: submission.splits)

lemma report_along:
  assumes E: "wired K E"
  shows "along (flow_move K) (reportPayment E w k tx) L"
  using along_sections(5)[OF E reportable_realized]
  by (auto simp: reportPayment_def split: sum.splits)

end
