(* ===== verification/Flow_Balance.thy ===== *)
theory Flow_Balance
  imports Flow_Safety
begin

text \<open>
  The reservation balance of \<open>Position_Maintenance\<close> under the vault flows: no section of the
  vault flow service moves a reservation, with one exception that only the rollback of the
  PostgreSQL ledger repairs (a withdrawal whose share check fails writes the position it read
  before it expired payments).
\<close>

section \<open>Writes that keep the balance\<close>

lemma balanced_gated:
  assumes "reservations_balanced L" "gated L M"
  shows "reservations_balanced M"
proof -
  note frame = gated_frame[OF assms(2)]
  have "store_ok L" by (rule balanced_store[OF assms(1)])
  then have "store_ok M"
    by (rule store_ok_cong) (simp_all add: frame store_ok_ledger[OF \<open>store_ok L\<close>])
  then show ?thesis
    using assms(1) by (simp add: balanced_iff surplus_cong[OF frame(3,4)])
qed

text \<open>A position read from the store can be written back wherever its key came from.\<close>

lemma balanced_rewrite:
  assumes bal: "reservations_balanced L" and got: "getPosition L w v = Some p"
    and p': "pos_wallet p' = pos_wallet p" "pos_vault p' = pos_vault p"
      "pos_reservedRawUsdc p' = pos_reservedRawUsdc p"
  shows "reservations_balanced (savePosition p' L)"
proof -
  note ok = store_ok_positions[OF balanced_store[OF bal]]
  have got': "map_get (led_positions L) (positionKey w v) = Some p" using got by (simp add: getPosition_def)
  have "getPosition L (pos_wallet p) (pos_vault p) = Some p"
    using positions.get_key[OF ok got'] got by (simp add: getPosition_def position_key_def)
  moreover have "plain (pos_wallet p)"
    using positions.got_entry[OF ok got'] balanced_store[OF bal] by (simp add: store_ok_def)
  ultimately show ?thesis using balanced_same_reserved[OF bal _ _ p'] by blast
qed

lemma keeps_fee_debt: "reservations_balanced L \<Longrightarrow> keeps (applyFlowFeeDebt E w v fee) L"
  by (auto simp: applyFlowFeeDebt_def intro: balanced_rewrite split: option.splits sum.splits)

lemma keeps_flag: "reservations_balanced L \<Longrightarrow> keeps (flagFlowBaselineReset now uuid w v) L"
  by (auto simp: flagFlowBaselineReset_def recordFlowEvent_def intro!: balanced_event intro: balanced_rewrite
      split: option.splits)

lemma balanced_fold:
  "reservations_balanced L \<Longrightarrow> reservations_balanced (fold (\<lambda>d. saveDeposit (f d)) xs L)"
  "reservations_balanced L \<Longrightarrow> reservations_balanced (fold (\<lambda>x. saveWithdrawal (g x)) ys L)"
  by ((induction xs arbitrary: L; simp), (induction ys arbitrary: L; simp))

lemma keeps_expire_stale: "reservations_balanced L \<Longrightarrow> keeps (expireStaleFlows now w v) L"
  by (simp add: expireStaleFlows_def balanced_fold)

lemma refreshedPosition_simps [simp]:
  "pos_wallet (refreshedPosition r b) = pos_wallet (rf_position r)"
  "pos_vault (refreshedPosition r b) = pos_vault (rf_position r)"
  "pos_reservedRawUsdc (refreshedPosition r b) = pos_reservedRawUsdc (rf_position r)"
  by (simp_all add: refreshedPosition_def)

section \<open>Sections\<close>

text \<open>
  What the PostgreSQL ledger keeps of a section: the writes of a return, and those of a throw
  it does not roll back.
\<close>

abbreviation flow_keeps :: "(ledger, 'a) action \<Rightarrow> ledger \<Rightarrow> bool" where
  "flow_keeps m L \<equiv> runs m L (\<lambda>_. reservations_balanced)
     (\<lambda>e L'. rolls_back PostgresLedger e \<or> reservations_balanced L')"

lemma flow_keeps_lock:
  "reservations_balanced L \<Longrightarrow> flow_keeps m L \<Longrightarrow> keeps (withLock PostgresLedger m) L"
  by (auto simp: runs_def withLock_def split: prod.splits sum.splits)

lemma flow_keepsI: "keeps m L \<Longrightarrow> flow_keeps m L"
  by (rule runs_mono, assumption) auto

lemma rolls_back_conflict [simp]: "rolls_back PostgresLedger (conflict c)"
  by (simp add: rolls_back_def conflict_def)

lemma gate_keeps: "gates m L \<Longrightarrow> reservations_balanced L \<Longrightarrow> keeps m L"
  by (rule gates_then) (auto intro: balanced_gated)

lemma matching_keeps:
  "reservations_balanced L \<Longrightarrow> flow_keeps (requireMatchingShares now uuid p c u w v) L"
  by (auto simp: requireMatchingShares_def recordFlowEvent_def)

lemma flow_keeps_seq:
  assumes "flow_keeps m L" "\<And>x M. reservations_balanced M \<Longrightarrow> flow_keeps (f x) M"
  shows "flow_keeps (bindA m f) L"
  by (rule runs_seq[OF assms(1)]) (use assms(2) in auto)

lemma keeps_read: "reservations_balanced L \<Longrightarrow> keeps (readA f) L" "reservations_balanced L \<Longrightarrow> keeps (liftR r) L"
  "reservations_balanced L \<Longrightarrow> keeps (getsA g) L" "reservations_balanced L \<Longrightarrow> keeps (assertA c e) L"
  "reservations_balanced L \<Longrightarrow> keeps (returnA x) L"
  by (auto split: sum.splits)

lemma keeps_store: "reservations_balanced L \<Longrightarrow> keeps (storeDeposit d) L"
  "reservations_balanced L \<Longrightarrow> keeps (storeWithdrawal z) L"
  by (simp_all add: storeDeposit_def storeWithdrawal_def)

lemma keeps_pending: "reservations_balanced L \<Longrightarrow> keeps (assertNoPendingFlow now w v) L"
  "reservations_balanced L \<Longrightarrow> keeps (assertNoLivePayments w v) L"
  by (auto simp: assertNoPendingFlow_def assertNoLivePayments_def)

lemmas section_keeps = keeps_read keeps_store keeps_pending keeps_expire_stale keeps_fee_debt keeps_flag

lemma commit_deposit_keeps:
  "reservations_balanced L \<Longrightarrow> flow_keeps (commitDeposit E now uuid w a auth p) L"
  unfolding commitDeposit_def
  by (intro flow_keeps_seq flow_keepsI section_keeps matching_keeps; assumption?)

lemma commit_withdrawal_keeps:
  "reservations_balanced L \<Longrightarrow> flow_keeps (commitWithdrawal E now uuid w a y auth p) L"
  unfolding commitWithdrawal_def storePreparedWithdrawal_def Let_def
  by (intro flow_keeps_seq flow_keepsI section_keeps matching_keeps; assumption?)

context mandate_gate
begin

lemma prepare_deposit_keeps:
  assumes E: "vf_mandates E = gate" and bal: "reservations_balanced L"
  shows "flow_keeps (prepareDepositSection E now uuid w a i) L"
  unfolding prepareDepositSection_def Let_def
  by (intro flow_keeps_seq flow_keepsI section_keeps gate_keeps[OF gates_deposit[OF E]]
      commit_deposit_keeps; (rule bal | assumption)?)

lemma prepare_withdrawal_keeps:
  assumes E: "vf_mandates E = gate" and bal: "reservations_balanced L" and w: "plain w"
  shows "flow_keeps (prepareWithdrawalSection E now uuid w a y) L"
  unfolding prepareWithdrawalSection_def Let_def
  by (intro flow_keeps_seq flow_keepsI section_keeps gate_keeps[OF gates_withdrawal[OF E]]
      commit_withdrawal_keeps expire_keeps; (rule bal | rule w | assumption)?)

lemma submit_keeps:
  assumes E: "vf_mandates E = gate" and bal: "reservations_balanced L"
  shows "keeps (submitDepositSection E now k x) L" "keeps (submitWithdrawalSection E now k x) L"
  using bal
  by (auto simp: submitDepositSection_def submitWithdrawalSection_def storeDeposit_def storeWithdrawal_def
      intro!: gates_then[OF gates_assert(1)[OF E]] gates_then[OF gates_assert(2)[OF E]]
      dest: balanced_gated split: sum.splits)

lemma consume_keeps:
  "gate = Some m \<Longrightarrow> reservations_balanced L \<Longrightarrow> keeps (mo_consumeApproval m approvalId j) L"
  by (rule gate_keeps[OF gate_consume])

lemma settle_keeps:
  assumes E: "vf_mandates E = gate" and bal: "reservations_balanced L"
    and r: "\<And>x. r = Some x \<Longrightarrow> getPosition L w v = Some (rf_position x)"
  shows "keeps (settleDepositOutcome E now uuid d latest c r n) L"
    and "keeps (settleWithdrawalOutcome E now uuid z latest' c r n) L"
proof -
  have pos: "reservations_balanced (savePosition (refreshedPosition x b) L)" if "r = Some x" for x b
    by (rule balanced_rewrite[OF bal r[OF that]]) simp_all
  note steps = keeps_flag[OF bal] keeps_fee_debt[OF pos]
  have fee: "runs (applyFlowFeeDebt E w' v' f) M Q Q'"
    if "reservations_balanced M" "\<And>N. reservations_balanced N \<Longrightarrow> Q () N" "\<And>e N. reservations_balanced N \<Longrightarrow> Q' e N"
    for w' v' f M Q Q'
    by (rule runs_mono[OF keeps_fee_debt[OF that(1)]]) (use that in auto)
  have flag: "runs (flagFlowBaselineReset now uuid w' v') L Q Q'"
    if "\<And>N. reservations_balanced N \<Longrightarrow> Q () N" "\<And>e N. reservations_balanced N \<Longrightarrow> Q' e N" for w' v' Q Q'
    by (rule runs_mono[OF keeps_flag[OF bal]]) (use that in auto)
  show "keeps (settleDepositOutcome E now uuid d latest c r n) L"
    using pos E by (auto simp: settleDepositOutcome_def storeDeposit_def recordFlowEvent_def Let_def
        intro!: fee flag consume_keeps split: option.splits)
  show "keeps (settleWithdrawalOutcome E now uuid z latest' c r n) L"
    using pos E bal by (auto simp: settleWithdrawalOutcome_def storeWithdrawal_def recordFlowEvent_def Let_def
        intro!: fee flag consume_keeps split: option.splits sum.splits)
qed

lemma finalize_keeps:
  assumes E: "vf_mandates E = gate" and bal: "reservations_balanced L"
  shows "keeps (finalizeDepositSection E now uuid d c) L" "keeps (finalizeWithdrawalSection E now uuid z c) L"
proof -
  have fee: "runs (applyFlowFeeDebt E w' v' f) L Q Q'"
    if "\<And>N. reservations_balanced N \<Longrightarrow> Q () N" "\<And>e N. reservations_balanced N \<Longrightarrow> Q' e N" for w' v' f Q Q'
    by (rule runs_mono[OF keeps_fee_debt[OF bal]]) (use that in auto)
  have settle: "keeps (settleDepositOutcome E now uuid d latest c r n) L"
    if "\<And>x. r = Some x \<Longrightarrow> getPosition L (dep_wallet d) (dep_vault d) = Some (rf_position x)" for latest r n
    by (rule settle_keeps(1)[OF E bal that])
  have settle': "keeps (settleWithdrawalOutcome E now uuid z latest' c r n) L"
    if "\<And>x. r = Some x \<Longrightarrow> getPosition L (wdr_wallet z) (wdr_vault z) = Some (rf_position x)" for latest' r n
    by (rule settle_keeps(2)[OF E bal that])
  show "keeps (finalizeDepositSection E now uuid d c) L" "keeps (finalizeWithdrawalSection E now uuid z c) L"
    using bal
    by (auto simp: finalizeDepositSection_def finalizeWithdrawalSection_def refreshPositionFromChain_def
        storeDeposit_def storeWithdrawal_def Let_def
        intro!: fee settle settle' split: option.splits sum.splits)
qed

end

section \<open>Steps\<close>

lemma flow_step_balanced:
  assumes "flow_step PostgresLedger now L L'" "reservations_balanced L"
  shows "reservations_balanced L'"
  using assms
proof (induction rule: flow_step.induct)
  case (step_prepare_deposit E L uuid wi ai i)
  then obtain config nowMs uid where E: "vf_mandates E = map_option (\<lambda>M. mandateOps M nowMs uid) config"
    "vf_ledger E = PostgresLedger" by (auto simp: wired_def)
  have "keeps (prepareDeposit E now uuid wi ai i) L"
    using step_prepare_deposit.prems
    by (auto simp: prepareDeposit_def E(2) intro!: flow_keeps_lock guard.prepare_deposit_keeps[OF E(1)]
        split: sum.splits)
  then show ?case by (simp flip: runs_snd)
next
  case (step_prepare_withdrawal E L uuid y)
  then obtain config nowMs uid where E: "vf_mandates E = map_option (\<lambda>M. mandateOps M nowMs uid) config"
    "vf_ledger E = PostgresLedger" by (auto simp: wired_def)
  have "keeps (prepareWithdrawal E now uuid y) L"
    using step_prepare_withdrawal.prems
    by (auto simp: prepareWithdrawal_def E(2) intro!: flow_keeps_lock guard.prepare_withdrawal_keeps[OF E(1)]
        valid_address_plain split: sum.splits)
  then show ?case by (simp flip: runs_snd)
qed (auto simp: wired_def keeps_lock guard.submit_keeps guard.finalize_keeps notSubmittedDepositSection_def
    notSubmittedWithdrawalSection_def expireDepositSection_def expireWithdrawalSection_def reportSection_def
    storeDeposit_def storeWithdrawal_def intro!: keeps_lock split: option.splits simp flip: runs_snd)

end
