(* ===== verification/System_Steps.thy ===== *)
theory System_Steps
  imports Flow_Balance Payment_Outcomes
begin

text \<open>
  Payments and vault flows on one PostgreSQL ledger, with a clock that never runs backwards. A
  state is reachable by any interleaving of the locked sections of both services. On it a
  position never has a live payment and a pending withdrawal at once, has one open flow at
  most, and its reservations are balanced.
\<close>

section \<open>Payments and flows together\<close>

abbreviation keeps_flows :: "(ledger, 'a) action \<Rightarrow> ledger \<Rightarrow> bool" where
  "keeps_flows m L \<equiv> runs m L
     (\<lambda>_ L'. led_deposits L' = led_deposits L \<and> led_withdrawals L' = led_withdrawals L)
     (\<lambda>_ L'. led_deposits L' = led_deposits L \<and> led_withdrawals L' = led_withdrawals L)"

lemma keeps_flows_event [simp]:
  "led_deposits (recordSyncEvent now uuid x L) = led_deposits L"
  "led_withdrawals (recordSyncEvent now uuid x L) = led_withdrawals L"
  by (simp_all add: recordSyncEvent_def)

lemma keeps_flows_fold [simp]:
  "led_deposits (fold (\<lambda>p. savePayment (f p)) xs L) = led_deposits L"
  "led_withdrawals (fold (\<lambda>p. savePayment (f p)) xs L) = led_withdrawals L"
  by ((induction xs arbitrary: L; simp), (induction xs arbitrary: L; simp))

lemma keeps_flows_lock: "keeps_flows m L \<Longrightarrow> keeps_flows (withLock k m) L"
  by (rule lock.runs_lock_inv) simp_all

lemma keeps_flows_expire: "keeps_flows (expirePreparedPaymentsForLockedPosition now w v) L"
  by (auto simp: expirePreparedPaymentsForLockedPosition_def split: option.splits)

lemma keeps_flows_expirePrepared: "keeps_flows (expirePreparedPayment now i) L"
  by (auto simp: expirePreparedPayment_def Let_def split: option.splits)

lemma keeps_flows_finalize: "keeps_flows (finalizeSubmittedPayment E now uuid i r) L"
  by (auto simp: finalizeSubmittedPayment_def rejectSettlementResult_def split: option.splits sum.splits)

lemma keeps_flows_sync: "keeps_flows (syncWalletPosition E now uuid y) L"
  by (auto simp: syncWalletPosition_def syncLockedPosition_def Let_def intro!: keeps_flows_lock
      split: option.splits sum.splits)

lemma keeps_flows_simple:
  "keeps_flows (registerAgentWallet E x) L"
  "keeps_flows (verifyExpiredSection E now k z) L"
  "keeps_flows (settleSection E now z) L"
  "keeps_flows (markPaymentSubmittedBeforeSend now k) L"
  "keeps_flows (finalizeSubmissionSection E now uuid k r) L"
  "keeps_flows (reconcileSection E now uuid k r) L"
  "keeps_flows (recordPendingSection now k t m) L"
  "keeps_flows (upsertLiquidityPolicy E num q) L"
  by (auto simp: registerAgentWallet_def verifyExpiredSection_def settleSection_def
      prepareSubmissionRecord_def markPaymentSubmittedBeforeSend_def finalizeSubmissionSection_def
      reconcileSection_def recordPendingSection_def upsertLiquidityPolicy_def Let_def
      keeps_flows_expirePrepared keeps_flows_finalize intro!: keeps_flows_lock
      split: option.splits sum.splits Verification.splits)

lemma keeps_flows_budget: "keeps_flows (getBudget E now w v) L"
  using keeps_flows_expire
  by (auto simp: getBudget_def Let_def intro!: keeps_flows_lock runs_mono[OF keeps_flows_expire]
      split: option.splits sum.splits)

lemma progress_holds:
  "evolves i i' \<Longrightarrow> paymentHoldsSettlementReservation i' \<Longrightarrow> paymentHoldsSettlementReservation i"
  by (auto simp: evolves_def)

section \<open>Admitting a payment\<close>

text \<open>A payment is admitted only when no vault flow of its position is pending.\<close>

definition admits_clear :: "int \<Rightarrow> ledger \<Rightarrow> ledger \<Rightarrow> bool" where
  "admits_clear now L N \<longleftrightarrow> led_deposits N = led_deposits L \<and> led_withdrawals N = led_withdrawals L \<and>
     (progress L N \<or> (\<exists>M i. progress L M \<and> pendingVaultFlows now L (pay_wallet i) (pay_vault i) = 0 \<and>
        getPayment N = (getPayment M)(pay_paymentId i \<mapsto> i)))"

lemma pendingVaultFlows_cong:
  "led_deposits L' = led_deposits L \<Longrightarrow> led_withdrawals L' = led_withdrawals L \<Longrightarrow>
   pendingVaultFlows now L' w v = pendingVaultFlows now L w v"
  by (simp add: pendingVaultFlows_def listDepositsForPosition_def listWithdrawalsForPosition_def)

lemma newPaymentIntent_owner [simp]:
  "pay_wallet (newPaymentIntent q pol p k t f e n pr j) = pr_wallet q"
  "pay_vault (newPaymentIntent q pol p k t f e n pr j) = pr_vault q"
  "pay_paymentId (newPaymentIntent q pol p k t f e n pr j) = k"
  by (simp_all add: newPaymentIntent_def)

lemma evaluate_clear:
  assumes M: "progress L M" "led_deposits M = led_deposits L" "led_withdrawals M = led_withdrawals L"
    and none: "pendingVaultFlows now M (pr_wallet q) (pr_vault q) = 0"
  shows "runs (evaluateAndCommit E now uuid evUuid q lp payable) M (\<lambda>_. admits_clear now L) (\<lambda>_. admits_clear now L)"
proof -
  have none': "pendingVaultFlows now L (pr_wallet q) (pr_vault q) = 0"
    using none pendingVaultFlows_cong[OF M(2,3)] by simp
  have same: "admits_clear now L N"
    if "getPayment N = getPayment M" "led_deposits N = led_deposits L" "led_withdrawals N = led_withdrawals L" for N
    using M(1) that by (simp add: admits_clear_def progress_def)
  have "admits_clear now L (savePayment (newPaymentIntent q pol p k t f e n pr j) (savePosition p' N))"
    if "getPayment N = getPayment M" "led_deposits N = led_deposits L" "led_withdrawals N = led_withdrawals L"
    for N pol p t f e n pr j p' k
    unfolding admits_clear_def using M(1) none' that
    by (auto intro!: exI[of _ M] exI[of _ "newPaymentIntent q pol p k t f e n pr j"])
  with same have commit: "runs (commitPreparedPayment E now uuid q pol p s f e) N (\<lambda>_. admits_clear now L) (\<lambda>_. admits_clear now L)"
    if "getPayment N = getPayment M" "led_deposits N = led_deposits L" "led_withdrawals N = led_withdrawals L" for N pol p s f e
    using that by (auto simp: commitPreparedPayment_def Let_def split: sum.splits)
  show ?thesis
    using commit same M(2,3)
    by (cases payable) (auto simp: evaluateAndCommit_def quoteWorkingPosition_def Let_def
        split: option.splits sum.splits BudgetDecision.splits)
qed

lemma prepare_locked_clear:
  assumes bal: "reservations_balanced L" and w: "plain (pr_wallet q)"
  shows "runs (prepareLockedPayment E now uuid evUuid q) L (\<lambda>_. admits_clear now L) (\<lambda>_. admits_clear now L)"
  unfolding prepareLockedPayment_def
proof (rule runs_seq[OF runs_conj[OF expire_progress[OF bal w] keeps_flows_expire]])
  fix r M
  assume *: "(reservations_balanced M \<and> progress L M) \<and> led_deposits M = led_deposits L \<and> led_withdrawals M = led_withdrawals L"
  then have same: "admits_clear now L M" by (simp add: admits_clear_def)
  have "runs (evaluateAndCommit E now uuid evUuid q lp payable) M (\<lambda>_. admits_clear now L) (\<lambda>_. admits_clear now L)"
    if "pendingVaultFlows now M (pr_wallet q) (pr_vault q) = 0" for lp payable
    using * that by (intro evaluate_clear) auto
  then show "runs (bindA (readA (\<lambda>L. existingPayment L q)) (\<lambda>x. case x of
      Some p \<Rightarrow> liftR (serializePaymentIntent p)
    | None \<Rightarrow> bindA (readA (\<lambda>L. requirePayablePosition E (getPosition L (pr_wallet q) (pr_vault q)))) (\<lambda>payable.
       bindA (readA (\<lambda>L. checkR (pendingVaultFlows now L (pr_wallet q) (pr_vault q) = 0)
         (conflict ''vault_flow_pending''))) (\<lambda>_.
       bindA (getsA (\<lambda>L. sellerLiquidityPolicy L (pr_seller q) (pr_vault q))) (\<lambda>liquidityPolicy.
       bindA (liftR (checkLiquidityPolicy E liquidityPolicy (pr_amountRawUsdc q))) (\<lambda>_.
       evaluateAndCommit E now uuid evUuid q liquidityPolicy payable)))))) M
     (\<lambda>_. admits_clear now L) (\<lambda>_. admits_clear now L)"
    using same by (auto split: sum.splits option.splits)
qed simp

lemma prepare_clear:
  assumes "reservations_balanced L"
  shows "runs (preparePayment E now uuid evUuid x) L (\<lambda>_. admits_clear now L) (\<lambda>_. admits_clear now L)"
  using prepare_locked_clear[OF assms] checkPaymentRequest_wallet[of E x]
  by (auto simp: preparePayment_def valid_address_plain admits_clear_def[of _ L L]
      intro!: lock.runs_lock_inv split: sum.splits)

section \<open>Payments and withdrawals exclude each other\<close>

definition pending_withdrawal :: "int \<Rightarrow> ledger \<Rightarrow> string \<Rightarrow> string \<Rightarrow> bool" where
  "pending_withdrawal now L w v \<longleftrightarrow> (\<exists>k x. getWithdrawal L k = Some x \<and> wdr_wallet x = w \<and> wdr_vault x = v \<and>
     pendingFlow now (wdr_status x) (wdr_expiresAt x))"

definition live_payment_at :: "ledger \<Rightarrow> string \<Rightarrow> string \<Rightarrow> bool" where
  "live_payment_at L w v \<longleftrightarrow> (\<exists>k p. getPayment L k = Some p \<and> of_position w v p \<and> paymentHoldsSettlementReservation p)"

definition exclusive :: "int \<Rightarrow> ledger \<Rightarrow> bool" where
  "exclusive now L \<longleftrightarrow> (\<forall>w v. live_payment_at L w v \<longrightarrow> \<not> pending_withdrawal now L w v)"

lemma exclusiveD: "exclusive now L \<Longrightarrow> live_payment_at L w v \<Longrightarrow> \<not> pending_withdrawal now L w v"
  by (simp add: exclusive_def)

lemma exclusive_mono:
  assumes "exclusive now L"
    and "\<And>w v. live_payment_at L' w v \<Longrightarrow> live_payment_at L w v"
    and "\<And>w v. pending_withdrawal now' L' w v \<Longrightarrow> pending_withdrawal now L w v"
  shows "exclusive now' L'"
  using assms unfolding exclusive_def by blast

lemma pendingFlow_earlier: "pendingFlow now' s e \<Longrightarrow> now \<le> now' \<Longrightarrow> pendingFlow now s e"
  using expired_at_mono[of now e now'] by (auto simp: pendingFlow_def flowExpired_def)

lemma exclusive_later: "exclusive now L \<Longrightarrow> now \<le> now' \<Longrightarrow> exclusive now' L"
  using pendingFlow_earlier[of now' _ _ now]
  by - (erule exclusive_mono, simp, auto simp: pending_withdrawal_def)

lemma live_payment_progress:
  assumes "progress L L'" "live_payment_at L' w v"
  shows "live_payment_at L w v"
proof -
  obtain k p' where p': "getPayment L' k = Some p'" "of_position w v p'" "paymentHoldsSettlementReservation p'"
    using assms(2) by (auto simp: live_payment_at_def)
  then obtain p where p: "getPayment L k = Some p" using progress_none[OF assms(1), of k] by fastforce
  then have "evolves p p'" using progress_get[OF assms(1) p] p'(1) by simp
  then show ?thesis
    using p p' content_eq(4,5)[of p' p] progress_holds unfolding live_payment_at_def evolves_def by auto
qed

lemma live_payment_cong: "led_payments L' = led_payments L \<Longrightarrow> live_payment_at L' = live_payment_at L"
  by (simp add: live_payment_at_def getPayment_def fun_eq_iff)

lemma pending_withdrawal_cong:
  "led_withdrawals L' = led_withdrawals L \<Longrightarrow> pending_withdrawal now L' = pending_withdrawal now L"
  by (simp add: pending_withdrawal_def getWithdrawal_def fun_eq_iff)

lemma exclusive_progress:
  "exclusive now L \<Longrightarrow> progress L L' \<Longrightarrow> led_withdrawals L' = led_withdrawals L \<Longrightarrow> exclusive now L'"
  using live_payment_progress[of L L'] pending_withdrawal_cong[of L' L now]
  by - (erule exclusive_mono, simp_all)

lemma no_pending_withdrawal:
  assumes "flows_ok L" "pendingVaultFlows now L w v = 0"
  shows "\<not> pending_withdrawal now L w v"
proof
  assume "pending_withdrawal now L w v"
  then obtain k x where "getWithdrawal L k = Some x" "wdr_wallet x = w" "wdr_vault x = v"
    "pendingFlow now (wdr_status x) (wdr_expiresAt x)" by (auto simp: pending_withdrawal_def)
  then show False using no_pending[OF assms, of "Inr k" "WithdrawalFlow x"] by simp
qed

lemma exclusive_admits:
  assumes ex: "exclusive now L" and ok: "flows_ok L" and adm: "admits_clear now L N"
  shows "exclusive now N"
proof (cases "progress L N")
  case True
  then show ?thesis using exclusive_progress[OF ex True] adm by (simp add: admits_clear_def)
next
  case False
  then obtain M i where M: "progress L M" "pendingVaultFlows now L (pay_wallet i) (pay_vault i) = 0"
    "getPayment N = (getPayment M)(pay_paymentId i \<mapsto> i)" "led_withdrawals N = led_withdrawals L"
    using adm by (auto simp: admits_clear_def)
  have "live_payment_at N w v \<Longrightarrow> live_payment_at M w v \<or> of_position w v i" for w v
    using M(3) by (auto simp: live_payment_at_def split: if_splits)
  then show ?thesis
    using ex M live_payment_progress[OF M(1)] no_pending_withdrawal[OF ok M(2)]
    unfolding exclusive_def pending_withdrawal_cong[OF M(4)] by blast
qed

subsection \<open>Flow sections create no pending withdrawal\<close>

definition calm :: "int \<Rightarrow> ledger \<Rightarrow> ledger \<Rightarrow> bool" where
  "calm now L L' \<longleftrightarrow> led_payments L' = led_payments L \<and>
     (\<forall>w v. pending_withdrawal now L' w v \<longrightarrow> pending_withdrawal now L w v)"

lemma calm_refl [simp]: "calm now L L"
  by (simp add: calm_def)

lemma calm_frame [simp]:
  "calm now L (savePosition p M) = calm now L M" "calm now L (saveDeposit d M) = calm now L M"
  "calm now L (recordSyncEvent t uuid x M) = calm now L M"
  by (simp_all add: calm_def pending_withdrawal_def recordSyncEvent_def)

lemma calm_gated: "calm now L M \<Longrightarrow> gated M N \<Longrightarrow> calm now L N"
  using pending_withdrawal_cong[of N M now] by (simp add: calm_def gated_frame)

lemma exclusive_calm: "exclusive now L \<Longrightarrow> calm now L L' \<Longrightarrow> exclusive now L'"
  using live_payment_cong[of L' L] by - (erule exclusive_mono, simp_all add: calm_def)

lemma calm_save:
  assumes "flows_ok L" "getWithdrawal L k = Some x" "wdr_withdrawalId x' = wdr_withdrawalId x"
    "wdr_wallet x' = wdr_wallet x" "wdr_vault x' = wdr_vault x"
    and "pendingFlow now (wdr_status x') (wdr_expiresAt x') \<Longrightarrow> pendingFlow now (wdr_status x) (wdr_expiresAt x)"
    and "led_payments M = led_payments L" "led_withdrawals M = led_withdrawals L"
  shows "calm now L (saveWithdrawal x' M)"
proof -
  have "wdr_withdrawalId x' = k" using flows_keyed(2)[OF assms(1,2)] assms(3) by simp
  moreover have "getWithdrawal M = getWithdrawal L" using assms(8) by (simp add: getWithdrawal_def fun_eq_iff)
  ultimately have get: "getWithdrawal (saveWithdrawal x' M) j = (if j = k then Some x' else getWithdrawal L j)" for j
    by simp
  have "pending_withdrawal now L w v" if pend: "pending_withdrawal now (saveWithdrawal x' M) w v" for w v
  proof -
    obtain j y where y: "getWithdrawal (saveWithdrawal x' M) j = Some y" "wdr_wallet y = w" "wdr_vault y = v"
      "pendingFlow now (wdr_status y) (wdr_expiresAt y)"
      using pend unfolding pending_withdrawal_def by blast
    show ?thesis
    proof (cases "j = k")
      case True
      then have "y = x'" using y(1) unfolding get by simp
      then show ?thesis
        using y(2-4) assms(2,4,5,6) unfolding pending_withdrawal_def by (intro exI[of _ k] exI[of _ x]) simp
    next
      case False
      then show ?thesis
        using y unfolding get pending_withdrawal_def by (intro exI[of _ j] exI[of _ y]) simp
    qed
  qed
  then show ?thesis using assms(7) by (simp add: calm_def)
qed

abbreviation calms :: "int \<Rightarrow> (ledger, 'a) action \<Rightarrow> ledger \<Rightarrow> bool" where
  "calms now m L \<equiv> runs m L (\<lambda>_. calm now L) (\<lambda>_. calm now L)"

lemma calms_lock: "calms now m L \<Longrightarrow> calms now (withLock k m) L"
  by (rule lock.runs_lock_inv) simp_all

lemma pendingFlow_status [simp]:
  "\<not> pendingFlow now flow_confirmed e" "\<not> pendingFlow now flow_failed e" "\<not> pendingFlow now flow_expired e"
  "\<not> pendingFlow now flow_failed_not_submitted e" "pendingFlow now flow_submitted e"
  by (simp_all add: pendingFlow_def)

lemma calms_seq:
  assumes "calms now m L" "\<And>x M. calm now L M \<Longrightarrow> runs (f x) M (\<lambda>_. calm now L) (\<lambda>_. calm now L)"
  shows "calms now (bindA m f) L"
  by (rule runs_seq[OF assms(1)]) (use assms(2) in auto)

lemma calm_closed:
  assumes "flows_ok L" "getWithdrawal L k = Some x"
    and "led_payments M = led_payments L" "led_withdrawals M = led_withdrawals L"
  shows "s \<in> {flow_failed, flow_expired, flow_failed_not_submitted} \<Longrightarrow>
      calm now L (saveWithdrawal (terminalWithdrawal t s c x) M)"
    and "calm now L (saveWithdrawal (x\<lparr>wdr_status := flow_confirmed, wdr_actualSharesBurnedRaw := a,
      wdr_actualWithdrawRawUsdc := b, wdr_principalBasisAfterRawUsdc := d, wdr_terminalAt := z\<rparr>) M)"
  by (rule calm_save[OF assms(1,2)]; use assms(3,4) in \<open>auto simp: terminalWithdrawal_def\<close>)+

lemma calm_stale:
  assumes "flows_ok L"
  shows "runs (expireStaleFlows now w v) L (\<lambda>_. calm now L) (\<lambda>_ _. False)"
proof (rule runs_mono[OF expire_stale[OF assms]])
  fix r M
  assume M: "flow_progress L M \<and> stale_free now w v M \<and> same_accounts L M \<and> only_closes L M"
  have "getWithdrawal L k = Some x"
    if "getWithdrawal M k = Some x" "pendingFlow now (wdr_status x) (wdr_expiresAt x)" for k x
    using M that unfolding only_closes_def
    by (auto simp: open_flow_def open_status_def pendingFlow_def dest!: spec[of _ "Inr k"] spec[of _ "WithdrawalFlow x"])
  then show "calm now L M" using M by (auto simp: calm_def pending_withdrawal_def)
qed simp

lemma calm_ok: "calm now L M \<Longrightarrow> calm now M N \<Longrightarrow> calm now L N"
  by (simp add: calm_def)

lemma calms_fee: "calm now L M \<Longrightarrow> runs (applyFlowFeeDebt E w v fee) M (\<lambda>_. calm now L) (\<lambda>_ _. False)"
  by (auto simp: applyFlowFeeDebt_def split: option.splits sum.splits)

lemma calms_flag: "calm now L M \<Longrightarrow> runs (flagFlowBaselineReset t uuid w v) M (\<lambda>_. calm now L) (\<lambda>_ _. False)"
  by (auto simp: flagFlowBaselineReset_def recordFlowEvent_def split: option.splits)

lemma calm_commit_deposit:
  "calm now L M \<Longrightarrow> runs (commitDeposit E now uuid w a auth p) M (\<lambda>_. calm now L) (\<lambda>_. calm now L)"
  by (auto simp: commitDeposit_def requireMatchingShares_def recordFlowEvent_def storeDeposit_def split: sum.splits)

lemma calm_simple:
  assumes "flows_ok L"
  shows "calms now (notSubmittedDepositSection t d e) L" "calms now (notSubmittedWithdrawalSection t z e) L"
    "calms now (expireDepositSection t d) L" "calms now (expireWithdrawalSection t z) L"
  using calm_closed(1)[OF assms]
  by (auto simp: notSubmittedDepositSection_def notSubmittedWithdrawalSection_def expireDepositSection_def
      expireWithdrawalSection_def storeDeposit_def storeWithdrawal_def split: option.splits)

lemma calm_report:
  assumes "flows_ok L"
  shows "calms now (reportSection k tx v) L"
proof -
  have "calm now L (saveWithdrawal (i\<lparr>wdr_paymentTxSignature := a, wdr_paymentVerification := b\<rparr>) L)"
    if "getWithdrawal L k = Some i" for i a b
    by (rule calm_save[OF assms that]) simp_all
  then show ?thesis by (auto simp: reportSection_def storeWithdrawal_def split: option.splits)
qed

text \<open>The writes to accounts and events, as far as the withdrawals see them.\<close>

lemma fee_frame:
  "runs (applyFlowFeeDebt E w v fee) L (\<lambda>_ M. led_payments M = led_payments L \<and> led_withdrawals M = led_withdrawals L) (\<lambda>_ _. False)"
  by (auto simp: applyFlowFeeDebt_def split: option.splits sum.splits)

lemma flag_frame:
  "runs (flagFlowBaselineReset t uuid w v) L (\<lambda>_ M. led_payments M = led_payments L \<and> led_withdrawals M = led_withdrawals L) (\<lambda>_ _. False)"
  by (auto simp: flagFlowBaselineReset_def recordFlowEvent_def recordSyncEvent_def split: option.splits)

lemma fee_frame_then:
  "(\<And>M. led_payments M = led_payments L \<Longrightarrow> led_withdrawals M = led_withdrawals L \<Longrightarrow> Q () M) \<Longrightarrow>
   runs (applyFlowFeeDebt E w v fee) L Q Q'"
  by (rule runs_mono[OF fee_frame]) auto

lemma flag_frame_then:
  "(\<And>M. led_payments M = led_payments L \<Longrightarrow> led_withdrawals M = led_withdrawals L \<Longrightarrow> Q () M) \<Longrightarrow>
   runs (flagFlowBaselineReset t uuid w v) L Q Q'"
  by (rule runs_mono[OF flag_frame]) auto

lemma recordSyncEvent_tables [simp]:
  "led_payments (recordSyncEvent t uuid x L) = led_payments L"
  by (simp add: recordSyncEvent_def)

context mandate_gate
begin

lemma calm_prepare_deposit:
  assumes E: "vf_mandates E = gate" and ok: "flows_ok L"
  shows "calms now (prepareDepositSection E now uuid w a i) L"
proof -
  have auth: "runs (bindA (authorizeDeposit E w a i) (\<lambda>auth. commitDeposit E now uuid w a auth p)) M
      (\<lambda>_. calm now L) (\<lambda>_. calm now L)" if "calm now L M" for M p
    by (rule runs_seq[OF gates_deposit[OF E]]) (auto intro: calm_commit_deposit calm_gated[OF that])
  have "runs (bindA (assertNoPendingFlow now w (vc_address (vf_vault E))) (\<lambda>_.
      bindA (authorizeDeposit E w a i) (\<lambda>auth. commitDeposit E now uuid w a auth p))) M
      (\<lambda>_. calm now L) (\<lambda>_. calm now L)" if "calm now L M" for M p
    using auth[OF that] that unfolding runs_bind[where m = "assertNoPendingFlow _ _ _"]
    by (auto simp: assertNoPendingFlow_def checkR_def simp del: runs_bind)
  then show ?thesis
    unfolding prepareDepositSection_def Let_def runs_bind[where m = "readA _"]
    by (auto simp del: runs_bind intro!: runs_seq[OF calm_stale[OF ok]] split: sum.splits)
qed

lemma calm_submit:
  assumes E: "vf_mandates E = gate" and ok: "flows_ok L"
  shows "calms now (submitDepositSection E now k x) L" "calms now (submitWithdrawalSection E now k x) L"
proof -
  have exp: "calm now L (saveWithdrawal (terminalWithdrawal t flow_expired c d) L)" if "getWithdrawal L k = Some d" for d c t
    by (rule calm_closed(1)[OF ok that]) simp_all
  have sub: "calm now L (saveWithdrawal (d\<lparr>wdr_status := flow_submitted, wdr_txSignature := s,
      wdr_submittedSerializedTransaction := t, wdr_submittedAt := u\<rparr>) M)"
    if "getWithdrawal L k = Some d" "wdr_status d = flow_prepared" "\<not> flowExpired now (wdr_expiresAt d)" "gated L M" for d s t u M
    by (rule calm_save[OF ok that(1)]) (use that gated_frame[OF that(4)] in \<open>simp_all add: pendingFlow_def\<close>)
  have gate: "calm now L M" if "gated L M" for M using calm_gated[OF calm_refl that] .
  show "calms now (submitDepositSection E now k x) L"
    using gate by (auto simp: submitDepositSection_def storeDeposit_def
        intro!: gates_then[OF gates_assert(1)[OF E]] split: sum.splits)
  show "calms now (submitWithdrawalSection E now k x) L"
    using exp sub gate by (auto simp: submitWithdrawalSection_def storeWithdrawal_def dest!: found_withdrawal
        intro!: gates_then[OF gates_assert(2)[OF E]] split: sum.splits)
qed

lemma calm_consume:
  "gate = Some m \<Longrightarrow> calm now L M \<Longrightarrow> runs (mo_consumeApproval m approvalId j) M (\<lambda>_. calm now L) (\<lambda>_. calm now L)"
  by (rule gates_then[OF gate_consume]) (auto intro: calm_gated)

lemma calm_finalize:
  assumes E: "vf_mandates E = gate" and ok: "flows_ok L"
  shows "calms now (finalizeDepositSection E t uuid d c) L" "calms now (finalizeWithdrawalSection E t uuid z c) L"
proof -
  have fee: "calm now L M \<Longrightarrow> runs (applyFlowFeeDebt E w v fee) M Q Q'"
    if "\<And>N. calm now L N \<Longrightarrow> Q () N" for w v fee M Q Q'
    by (rule runs_mono[OF calms_fee]) (use that in auto)
  have flag: "runs (flagFlowBaselineReset t uuid w v) L Q Q'"
    if "\<And>N. calm now L N \<Longrightarrow> Q () N" for w v Q Q'
    by (rule runs_mono[OF calms_flag[OF calm_refl]]) (use that in auto)
  show "calms now (finalizeDepositSection E t uuid d c) L"
    using E by (auto simp: finalizeDepositSection_def settleDepositOutcome_def refreshPositionFromChain_def
        storeDeposit_def recordFlowEvent_def Let_def intro!: fee flag calm_consume split: option.splits sum.splits)
  show "calms now (finalizeWithdrawalSection E t uuid z c) L"
    using E calm_closed[OF ok]
    by (auto simp: finalizeWithdrawalSection_def settleWithdrawalOutcome_def refreshPositionFromChain_def
        storeWithdrawal_def recordFlowEvent_def Let_def
        intro!: fee_frame_then flag_frame_then calm_consume split: option.splits sum.splits)
qed

end

text \<open>A withdrawal is admitted only when its position has no live payment.\<close>

definition withdrawable :: "int \<Rightarrow> string \<Rightarrow> string \<Rightarrow> ledger \<Rightarrow> bool" where
  "withdrawable now w v L \<longleftrightarrow> exclusive now L \<and> \<not> live_payment_at L w v"

lemma withdrawable_calm: "withdrawable now w v L \<Longrightarrow> calm now L M \<Longrightarrow> withdrawable now w v M"
  using exclusive_calm live_payment_cong[of M L] by (auto simp: withdrawable_def calm_def)

lemma withdrawable_save:
  assumes "withdrawable now (wdr_wallet x) (wdr_vault x) M"
  shows "exclusive now (saveWithdrawal x M)"
proof -
  have "pending_withdrawal now M w v" if "pending_withdrawal now (saveWithdrawal x M) w v"
    "(w, v) \<noteq> (wdr_wallet x, wdr_vault x)" for w v
    using that by (auto simp: pending_withdrawal_def split: if_splits)
  then show ?thesis
    using assms live_payment_cong[of "saveWithdrawal x M" M]
    unfolding withdrawable_def exclusive_def by fastforce
qed

lemma exclusive_frame:
  "exclusive now (savePosition p M) = exclusive now M" "exclusive now (recordSyncEvent t uuid x M) = exclusive now M"
  by (simp_all add: exclusive_def live_payment_at_def pending_withdrawal_def recordSyncEvent_def)

lemma commit_exclusive:
  assumes "withdrawable now w (vc_address (vf_vault E)) M"
  shows "runs (commitWithdrawal E t uuid w a x auth p) M (\<lambda>_. exclusive now) (\<lambda>_. exclusive now)"
proof -
  have "exclusive now M" using assms by (simp add: withdrawable_def)
  moreover have "exclusive now (saveWithdrawal (newWithdrawalIntent E t uuid w a x auth c r s k b p) M)" for c r s k b
    by (rule withdrawable_save) (use assms in simp)
  ultimately show ?thesis
    by (auto simp: commitWithdrawal_def storePreparedWithdrawal_def storeWithdrawal_def requireMatchingShares_def
        recordFlowEvent_def Let_def exclusive_frame split: sum.splits)
qed

lemma no_live_payment:
  assumes "store_ok L" "\<forall>p \<in> set (listPaymentsForPosition L w v). \<not> paymentHoldsSettlementReservation p"
  shows "\<not> live_payment_at L w v"
proof
  assume "live_payment_at L w v"
  then obtain k p where p: "getPayment L k = Some p" "of_position w v p" "paymentHoldsSettlementReservation p"
    by (auto simp: live_payment_at_def)
  with store_ok_payment(4)[OF assms(1) p(1)] assms(2) show False by (simp add: listPaymentsForPosition_def)
qed

lemma balanced_flows_ok: "reservations_balanced L \<Longrightarrow> flows_ok L"
  by (rule ledger_flows_ok[OF store_ok_ledger[OF balanced_store]])

context mandate_gate
begin

lemma exclusive_admission:
  assumes E: "vf_mandates E = gate" and w: "withdrawable now w (vc_address (vf_vault E)) M" and ok: "flows_ok M"
  shows "runs (bindA (expireStaleFlows now w (vc_address (vf_vault E))) (\<lambda>_.
      bindA (assertNoPendingFlow now w (vc_address (vf_vault E))) (\<lambda>_.
      bindA (authorizeWithdrawalFlow E w a y) (\<lambda>auth. commitWithdrawal E now uuid w a y auth p)))) M
    (\<lambda>_. exclusive now) (\<lambda>_. exclusive now)"
proof (rule runs_seq[OF calm_stale[OF ok]])
  fix r N
  assume "calm now M N"
  then have N: "withdrawable now w (vc_address (vf_vault E)) N" using withdrawable_calm[OF w] by blast
  then have ex: "exclusive now N" by (simp add: withdrawable_def)
  have "runs (bindA (authorizeWithdrawalFlow E w a y) (\<lambda>auth. commitWithdrawal E now uuid w a y auth p)) N
    (\<lambda>_. exclusive now) (\<lambda>_. exclusive now)"
  proof (rule runs_seq[OF gates_withdrawal[OF E]])
    fix auth K
    assume "gated N K"
    then have K: "withdrawable now w (vc_address (vf_vault E)) K"
      using withdrawable_calm[OF N calm_gated[OF calm_refl]] by blast
    show "runs (commitWithdrawal E now uuid w a y auth p) K (\<lambda>_. exclusive now) (\<lambda>_. exclusive now)"
      by (rule commit_exclusive[OF K])
  next
    fix e K
    assume "gated N K"
    then show "exclusive now K" using exclusive_calm[OF ex calm_gated[OF calm_refl]] by blast
  qed
  then show "runs (bindA (assertNoPendingFlow now w (vc_address (vf_vault E))) (\<lambda>_.
      bindA (authorizeWithdrawalFlow E w a y) (\<lambda>auth. commitWithdrawal E now uuid w a y auth p))) N
    (\<lambda>_. exclusive now) (\<lambda>_. exclusive now)"
    using ex unfolding runs_bind[where m = "assertNoPendingFlow _ _ _"]
    by (auto simp: assertNoPendingFlow_def checkR_def simp del: runs_bind)
qed simp

lemma exclusive_prepare_withdrawal:
  assumes E: "vf_mandates E = gate" and bal: "reservations_balanced L" and w: "plain w" and ex: "exclusive now L"
  shows "runs (prepareWithdrawalSection E now uuid w a y) L (\<lambda>_. exclusive now) (\<lambda>_. exclusive now)"
proof -
  let ?v = "vc_address (vf_vault E)"
  have "runs (bindA (assertNoLivePayments w ?v) (\<lambda>_. bindA (expireStaleFlows now w ?v) (\<lambda>_.
      bindA (assertNoPendingFlow now w ?v) (\<lambda>_.
      bindA (authorizeWithdrawalFlow E w a y) (\<lambda>auth. commitWithdrawal E now uuid w a y auth p))))) M
    (\<lambda>_. exclusive now) (\<lambda>_. exclusive now)"
    if M: "reservations_balanced M" "progress L M" "led_withdrawals M = led_withdrawals L" for M p
  proof (rule runs_seq[OF runs_live_payments])
    have exM: "exclusive now M" by (rule exclusive_progress[OF ex M(2,3)])
    then show "exclusive now K" if "K = M" for K using that by simp
    fix r K
    assume K: "K = M \<and> (\<forall>p \<in> set (listPaymentsForPosition M w ?v). \<not> paymentHoldsSettlementReservation p)"
    then have "withdrawable now w ?v K"
      using no_live_payment[OF balanced_store[OF M(1)]] exM by (simp add: withdrawable_def)
    then show "runs (bindA (expireStaleFlows now w ?v) (\<lambda>_. bindA (assertNoPendingFlow now w ?v) (\<lambda>_.
      bindA (authorizeWithdrawalFlow E w a y) (\<lambda>auth. commitWithdrawal E now uuid w a y auth p)))) K
      (\<lambda>_. exclusive now) (\<lambda>_. exclusive now)"
      using exclusive_admission[OF E] balanced_flows_ok[OF M(1)] K by blast
  qed
  then show ?thesis
    unfolding prepareWithdrawalSection_def Let_def runs_bind[where m = "readA _"]
    using ex by (auto simp del: runs_bind
        intro!: runs_seq[OF runs_conj[OF expire_progress[OF bal w] keeps_flows_expire]] split: sum.splits)
qed

end

lemma wired_calm:
  assumes "wired K E" "flows_ok L"
  shows "calms now (submitDepositSection E now k x) L" "calms now (submitWithdrawalSection E now k x) L"
    "calms now (finalizeDepositSection E t uuid d c) L" "calms now (finalizeWithdrawalSection E t uuid z c) L"
proof -
  obtain config nowMs uid where E: "vf_mandates E = map_option (\<lambda>M. mandateOps M nowMs uid) config"
    using assms(1) by (auto simp: wired_def)
  show "calms now (submitDepositSection E now k x) L" "calms now (submitWithdrawalSection E now k x) L"
    "calms now (finalizeDepositSection E t uuid d c) L" "calms now (finalizeWithdrawalSection E t uuid z c) L"
    by (rule guard.calm_submit[OF E assms(2)] guard.calm_finalize[OF E assms(2)])+
qed

lemma flow_step_exclusive:
  assumes "flow_step K now L L'" "reservations_balanced L" "exclusive now L"
  shows "exclusive now L'"
proof -
  note ok = balanced_flows_ok[OF assms(2)]
  have calm: "exclusive now (snd (withLock K m L))" if "calms now m L" for m :: "(ledger, 'z) action"
    using calms_lock[OF that, of K] exclusive_calm[OF assms(3)] by (simp add: runs_snd)
  from assms(1) show ?thesis
  proof (cases rule: flow_step.cases)
    case (step_prepare_deposit E uuid wi ai i)
    then obtain config nowMs uid where E: "vf_mandates E = map_option (\<lambda>M. mandateOps M nowMs uid) config"
      "vf_ledger E = K" by (auto simp: wired_def)
    have "calms now (prepareDeposit E now uuid wi ai i) L"
      by (auto simp: prepareDeposit_def E(2) intro!: calms_lock guard.calm_prepare_deposit[OF E(1) ok] split: sum.splits)
    then show ?thesis using exclusive_calm[OF assms(3)] unfolding step_prepare_deposit(1) by (simp add: runs_snd)
  next
    case (step_prepare_withdrawal E uuid y)
    then obtain config nowMs uid where E: "vf_mandates E = map_option (\<lambda>M. mandateOps M nowMs uid) config"
      "vf_ledger E = K" by (auto simp: wired_def)
    have "runs (prepareWithdrawal E now uuid y) L (\<lambda>_. exclusive now) (\<lambda>_. exclusive now)"
      using assms(2,3) by (auto simp: prepareWithdrawal_def E(2) valid_address_plain
          intro!: lock.runs_lock_inv guard.exclusive_prepare_withdrawal[OF E(1)] split: sum.splits)
    then show ?thesis unfolding step_prepare_withdrawal(1) by (simp add: runs_snd)
  qed (auto intro!: calm wired_calm[OF _ ok] calm_simple[OF ok] calm_report[OF ok])
qed

section \<open>The system\<close>

text \<open>
  One locked section of either service at the clock \<open>now\<close>. Preparing a payment is named with
  its clock, and every other payment section admits no payment (\<open>step_progress\<close> below).
\<close>

inductive system_step :: "payment_env \<Rightarrow> int \<Rightarrow> ledger \<Rightarrow> ledger \<Rightarrow> bool" for E now where
  system_prepare: "getPayment L (''pay_'' @ uuid) = None \<Longrightarrow>
    system_step E now L (snd (preparePayment E now uuid evUuid x L))"
| system_payment: "payment_step E L L' \<Longrightarrow> progress L L' \<Longrightarrow> system_step E now L L'"
| system_flow: "flow_step PostgresLedger now L L' \<Longrightarrow> system_step E now L L'"

inductive reaches :: "payment_env \<Rightarrow> int \<Rightarrow> ledger \<Rightarrow> bool" for E where
  reaches_start: "reaches E now empty_ledger"
| reaches_step: "reaches E now L \<Longrightarrow> now \<le> later \<Longrightarrow> system_step E later L L' \<Longrightarrow> reaches E later L'"


lemma step_progress:
  assumes "payment_step E L L'" "reservations_balanced L"
  shows "progress L L' \<or> (\<exists>now uuid evUuid x. getPayment L (''pay_'' @ uuid) = None \<and>
    L' = snd (preparePayment E now uuid evUuid x L))"
  using assms
proof (induction rule: payment_step.induct)
  case (step_prepare L uuid now evUuid x)
  then show ?case by blast
qed ((rule disjI1, simp add: register_progress sync_progress budget_progress verify_progress mark_progress
    settle_section_progress finalize_section_progress reconcile_section_progress
    pending_section_progress policy_progress balanced_store progresses_lock flip: runs_snd)+)

lemma keeps_flows_snd:
  "keeps_flows m L \<Longrightarrow> led_deposits (snd (m L)) = led_deposits L \<and> led_withdrawals (snd (m L)) = led_withdrawals L"
  by (subst (asm) runs_snd)

lemma payment_keeps_flows:
  assumes "payment_step E L L'" "progress L L'" "reservations_balanced L"
  shows "led_deposits L' = led_deposits L \<and> led_withdrawals L' = led_withdrawals L"
  using assms(1,3)
proof (induction rule: payment_step.induct)
  case (step_prepare L uuid now evUuid x)
  have "runs (preparePayment E now uuid evUuid x) L
     (\<lambda>_ L'. led_deposits L' = led_deposits L \<and> led_withdrawals L' = led_withdrawals L)
     (\<lambda>_ L'. led_deposits L' = led_deposits L \<and> led_withdrawals L' = led_withdrawals L)"
    by (rule runs_mono[OF prepare_clear[OF step_prepare.prems]]) (auto simp: admits_clear_def)
  then show ?case by (rule keeps_flows_snd)
qed (rule keeps_flows_snd, simp add: keeps_flows_lock keeps_flows_simple keeps_flows_sync keeps_flows_budget)+

definition system_ok :: "int \<Rightarrow> ledger \<Rightarrow> bool" where
  "system_ok now L \<longleftrightarrow> reservations_balanced L \<and> exclusive now L \<and> one_open (flows L)"

lemma system_step_ok:
  assumes "system_step E now L L'" "system_ok now L" "fees_nonneg E"
  shows "system_ok now L'"
proof -
  have inv: "reservations_balanced L" "exclusive now L" "one_open (flows L)"
    using assms(2) by (simp_all add: system_ok_def)
  note ok = balanced_flows_ok[OF inv(1)]
  from assms(1) show ?thesis
  proof cases
    case (system_prepare uuid evUuid x)
    have "admits_clear now L L'"
      using prepare_clear[OF inv(1)] unfolding system_prepare(1) by (simp add: runs_snd)
    moreover from this have "flows L' = flows L" by (auto simp: admits_clear_def intro: flows_cong)
    moreover have "reservations_balanced L'"
      using step_balanced[OF step_prepare[OF system_prepare(2)] inv(1) assms(3)] system_prepare(1) by simp
    ultimately show ?thesis using exclusive_admits[OF inv(2) ok] inv(3) by (simp add: system_ok_def)
  next
    case system_payment
    note same = payment_keeps_flows[OF system_payment inv(1)]
    have "flows L' = flows L" using same flows_cong by blast
    then show ?thesis
      using step_balanced[OF system_payment(1) inv(1) assms(3)] exclusive_progress[OF inv(2) system_payment(2)]
        same inv(3) by (simp add: system_ok_def)
  next
    case system_flow
    have "one_open (flows L')"
      using vault.step_no_rivals step_outcome[OF system_flow ok] inv(3) by (auto simp: flow_outcome_def)
    then show ?thesis
      using flow_step_balanced[OF system_flow inv(1)] flow_step_exclusive[OF system_flow inv(1,2)]
      by (simp add: system_ok_def)
  qed
qed

lemma reaches_ok: "reaches E now L \<Longrightarrow> fees_nonneg E \<Longrightarrow> system_ok now L"
proof (induction rule: reaches.induct)
  case (reaches_start now)
  have "exclusive now empty_ledger"
    by (simp add: exclusive_def live_payment_at_def getPayment_def empty_ledger_def)
  moreover have "one_open (flows empty_ledger)"
    by (simp add: no_rivals_def flows_def getDeposit_def getWithdrawal_def empty_ledger_def split: sum.splits)
  ultimately show ?case by (simp add: system_ok_def balanced_empty)
next
  case (reaches_step now L later L')
  then have "system_ok later L" using exclusive_later by (auto simp: system_ok_def)
  then show ?case using system_step_ok reaches_step by blast
qed

end
