(* ===== verification/Flow_Run.thy ===== *)
theory Flow_Run
  imports System_Steps
begin

text \<open>
  A vault flow service in which every collaborator is a concrete function, and its first
  prepares, evaluated in the kernel. The witnesses of the flow properties start from it.
\<close>

definition sample_outcome :: ConfirmedFlowOutcome where
  "sample_outcome = \<lparr>co_err = False, co_feeLamports = 5000,
     co_tokenBalanceDeltas = (\<lambda>a. if a = sample_wallet then Some (- 1000) else None)\<rparr>"

definition sample_built :: BuiltTransaction where
  "sample_built = \<lparr>bt_messageHash = sample_hash, bt_serializedBase64 = ''tx''\<rparr>"

definition sample_shares :: UserSharesRaw where
  "sample_shares = \<lparr>us_stakedSharesRaw = 0, us_unstakedSharesRaw = 2000000, us_totalSharesRaw = 2000000\<rparr>"

definition sample_flow_env :: flow_env where
  "sample_flow_env = \<lparr>vf_ledger = PostgresLedger, vf_production = False, vf_vault = sample_vault_config,
     vf_sponsor = ''sponsor'', vf_flowExpirySeconds = 120, vf_realizeOverheadRawUsdc = 100,
     vf_mandates = None, vf_deriveAta = (\<lambda>owner _. Inr owner), vf_loadContext = Inr sample_context,
     vf_getUserSharesRaw = (\<lambda>_ _. Inr sample_shares),
     vf_buildDeposit = (\<lambda>_ _ _. Inr sample_built), vf_buildWithdraw = (\<lambda>_ _ _. Inr sample_built),
     vf_messageHash = (\<lambda>_. Some sample_hash), vf_signerSignature = (\<lambda>_ _. Some ''sig''),
     vf_sponsorSign = (\<lambda>s. Inr (s, Some ''signature'')), vf_simulate = (\<lambda>_. Inr False),
     vf_send = (\<lambda>_. Inr ()), vf_waitForConfirmation = (\<lambda>_ _. Inr ConfirmationConfirmed),
     vf_lookup = (\<lambda>_ _. Inr (Some sample_outcome)), vf_isBlockhashExpired = (\<lambda>_. Inr False),
     vf_feeLamportsToUsdc = None\<rparr>"

lemma wired_sample [simp]: "wired PostgresLedger sample_flow_env"
  by (auto simp: wired_def sample_flow_env_def intro: exI[of _ None])

lemma sample_flow_simps [simp]:
  "vf_ledger sample_flow_env = PostgresLedger" "vf_vault sample_flow_env = sample_vault_config"
  "vf_mandates sample_flow_env = None" "vf_loadContext sample_flow_env = Inr sample_context"
  "vf_getUserSharesRaw sample_flow_env w c = Inr sample_shares"
  "vf_buildDeposit sample_flow_env w a c = Inr sample_built"
  "vf_buildWithdraw sample_flow_env w a c = Inr sample_built"
  "vf_deriveAta sample_flow_env w m = Inr w" "\<not> vf_production sample_flow_env"
  "vf_flowExpirySeconds sample_flow_env = 120" "vf_feeLamportsToUsdc sample_flow_env = None"
  "vf_lookup sample_flow_env n s = Inr (Some sample_outcome)"
  "vf_sponsorSign sample_flow_env s = Inr (s, Some ''signature'')"
  "vf_messageHash sample_flow_env s = Some sample_hash" "vf_signerSignature sample_flow_env s w = Some ''sig''"
  "vf_realizeOverheadRawUsdc sample_flow_env = 100"
  by (simp_all add: sample_flow_env_def)

lemma sample_context_simps [simp]:
  "vx_minDepositAmountRaw sample_context = 100" "us_totalSharesRaw sample_shares = 2000000"
  "us_stakedSharesRaw sample_shares = 0" "us_unstakedSharesRaw sample_shares = 2000000"
  "vx_withdrawalPenaltyBps sample_context = 50" "vx_withdrawalPenaltyLamports sample_context = 3"
  "vx_exchangeRateScaled sample_context = 1000000000000" "vx_instantRedeemCapacityRawUsdc sample_context = 5000000"
  "vx_slot sample_context = 7"
  by (simp_all add: sample_context_def sample_shares_def)

lemma sample_vault_simps [simp]: "vc_address sample_vault_config = sample_vault"
  "vc_usdcMint sample_vault_config = sample_mint"
  by (simp_all add: sample_vault_config_def)

lemma sample_position_key [simp]:
  "pos_wallet sample_position = sample_wallet" "pos_vault sample_position = sample_vault"
  by (simp_all add: sample_position_def)

definition run_deposit :: DepositIntent where
  "run_deposit = newDepositIntent sample_flow_env 0 ''1'' sample_wallet 1000 noAuthorization sample_context
     sample_built run_synced"

lemma run_deposit_simps [simp]:
  "dep_depositId run_deposit = ''dep_1''" "dep_status run_deposit = flow_prepared"
  "dep_wallet run_deposit = sample_wallet" "dep_vault run_deposit = sample_vault"
  "dep_expiresAt run_deposit = AtMs 120000" "dep_preparedMessageHash run_deposit = sample_hash"
  by (simp_all add: run_deposit_def) (simp_all add: newDepositIntent_def flowExpiry_def toISOString_def sample_built_def)

lemma run_deposit_json: "\<exists>j. objR (depositFields run_deposit @ [(''signingIntent'', depositSigningIntent sample_flow_env run_deposit)]) = Inr j"
  by (simp add: run_deposit_def newDepositIntent_def depositFields_def depositSigningIntent_def objR_def raw_Inr opt_raw_def)

lemma ready_lists:
  assumes "run_ready L"
  shows "listPaymentsForPosition L w v = []" "listDepositsForPosition L w v = []"
    "listWithdrawalsForPosition L w v = []" "getPosition L sample_wallet sample_vault = Some run_synced"
  using assms by (simp_all add: listDepositsForPosition_def listWithdrawalsForPosition_def
      listPaymentsForPosition_def run_ready_def map_values_def)

lemma run_prepare_deposit:
  assumes "run_ready L"
  shows "\<exists>j. prepareDeposit sample_flow_env 0 ''1'' sample_wallet (JsStr ''1000'') None L
    = (Inr j, saveDeposit run_deposit L)"
proof -
  note lists = ready_lists[OF assms]
  obtain j where j: "objR (depositFields run_deposit @ [(''signingIntent'', depositSigningIntent sample_flow_env run_deposit)]) = Inr j"
    using run_deposit_json by blast
  have ready: "requireSignerReadyPosition sample_flow_env (Some run_synced) = Inr run_synced"
    by (simp add: requireSignerReadyPosition_def)
  have "prepareDepositSection sample_flow_env 0 ''1'' sample_wallet 1000 None L = (Inr j, saveDeposit run_deposit L)"
    using j by (simp add: prepareDepositSection_def lists ready expireStaleFlows_def assertNoPendingFlow_def
        pendingVaultFlows_def authorizeDeposit_def commitDeposit_def requireMatchingShares_def storeDeposit_def
        action_defs checkR_def DEPOSIT_SHARE_ROUNDING_MARGIN_RAW_def
        flip: run_deposit_def)
  then show ?thesis
    by (simp add: prepareDeposit_def parsePositiveRawUnits_def action_defs withLock_Inr)
qed


definition run_withdrawal_input :: PrepareWithdrawalInput where
  "run_withdrawal_input = \<lparr>pw_wallet = sample_wallet, pw_amountRawUsdc = JsStr ''1000'', pw_yieldRealize = False,
     pw_payment = None, pw_approvalId = None\<rparr>"

definition run_withdrawal :: WithdrawalIntent where
  "run_withdrawal = newWithdrawalIntent sample_flow_env 0 ''1'' sample_wallet 1000 run_withdrawal_input
     noAuthorization sample_context 1006 1006 sample_wallet sample_built run_synced"

lemma run_withdrawal_simps [simp]:
  "wdr_withdrawalId run_withdrawal = ''wdr_1''" "wdr_status run_withdrawal = flow_prepared"
  "wdr_wallet run_withdrawal = sample_wallet" "wdr_vault run_withdrawal = sample_vault"
  "wdr_expiresAt run_withdrawal = AtMs 120000" "wdr_preparedMessageHash run_withdrawal = sample_hash"
  by (simp_all add: run_withdrawal_def) (simp_all add: newWithdrawalIntent_def flowExpiry_def toISOString_def sample_built_def)

lemma run_withdrawal_json:
  "\<exists>j. objR (withdrawalFields run_withdrawal @ [(''signingIntent'', withdrawalSigningIntent sample_flow_env b run_withdrawal)]) = Inr j"
  by (simp add: run_withdrawal_def newWithdrawalIntent_def withdrawalFields_def withdrawalSigningIntent_def
      objR_def raw_Inr opt_raw_def)

lemma run_gross: "grossWithdrawFor False 1000 sample_context = Inr 1006"
proof -
  have "startGross 1000 50 3 = Inr 1006" by (simp add: startGross_def ceilDiv_def FULL_BPS_def)
  then have "grossWithdrawForNetTarget 1000 50 3 = Inr 1006"
    using gross_eq[of 50 1000 3] by (simp add: vaultR_def FULL_BPS_def)
  then show ?thesis by (simp add: grossWithdrawFor_def withdrawTarget_def)
qed

lemma run_prepare_withdrawal:
  assumes "run_ready L"
  shows "\<exists>j. prepareWithdrawal sample_flow_env 0 ''1'' run_withdrawal_input L = (Inr j, saveWithdrawal run_withdrawal L)"
proof -
  note lists = ready_lists[OF assms]
  obtain j where j: "objR (withdrawalFields run_withdrawal @
      [(''signingIntent'', withdrawalSigningIntent sample_flow_env False run_withdrawal)]) = Inr j"
    using run_withdrawal_json by blast
  have ready: "requireSignerReadyPosition sample_flow_env (Some run_synced) = Inr run_synced"
    by (simp add: requireSignerReadyPosition_def)
  have input: "pw_wallet run_withdrawal_input = sample_wallet" "pw_amountRawUsdc run_withdrawal_input = JsStr ''1000''"
    "\<not> pw_yieldRealize run_withdrawal_input"
    by (simp_all add: run_withdrawal_input_def)
  have "prepareWithdrawalSection sample_flow_env 0 ''1'' sample_wallet 1000 run_withdrawal_input L
      = (Inr j, saveWithdrawal run_withdrawal L)"
    using j run_gross input
    by (simp add: prepareWithdrawalSection_def lists ready expireStaleFlows_def assertNoPendingFlow_def
        expirePreparedPaymentsForLockedPosition_def expiredPreparedPayments_def assertNoLivePayments_def
        activeSubmittedPayments_def pendingVaultFlows_def authorizeWithdrawalFlow_def commitWithdrawal_def
        storePreparedWithdrawal_def requireMatchingShares_def storeWithdrawal_def ceilDiv_def RATE_SCALE_def
        minBigInt_def Let_def action_defs checkR_def flip: run_withdrawal_def)
  then show ?thesis
    by (simp add: prepareWithdrawal_def parsePositiveRawUnits_def action_defs withLock_Inr input)
qed

end
