(* ===== verification/System_Safety.thy ===== *)
theory System_Safety
  imports Flow_Run
begin

text \<open>
  What holds of every ledger that payments and vault flows reach together: they exclude each
  other on a position, a position has one open flow, flows keep their content and their life
  cycle, and reservations stay balanced.
\<close>

section \<open>Concrete runs\<close>

lemma run_start: "\<exists>M. reaches sample_env 0 M \<and> run_ready M"
proof -
  let ?A = "savePosition run_registered empty_ledger"
  have A: "payment_step sample_env empty_ledger ?A" "progress empty_ledger ?A"
    using step_register[of sample_env empty_ledger run_registration] unfolding run_register by simp_all
  obtain e where e: "snd (syncWalletPosition sample_env 0 ''e1'' run_sync ?A)
     = recordSyncEvent 0 ''e1'' e (savePosition run_synced ?A)"
    using run_synced by blast
  let ?M = "recordSyncEvent 0 ''e1'' e (savePosition run_synced ?A)"
  have M: "payment_step sample_env ?A ?M" "progress ?A ?M"
    using step_sync[of sample_env ?A 0 "''e1''" run_sync] unfolding e by simp_all
  have "reaches sample_env 0 ?M"
    by (rule reaches_step[OF reaches_step[OF reaches_start[where now = 0] order_refl system_payment[OF A]]
          order_refl system_payment[OF M]])
  then show ?thesis using run_ready_synced by blast
qed

lemma run_deposit_reached: "\<exists>L. reaches sample_env 0 L \<and> getDeposit L ''dep_1'' = Some run_deposit"
proof -
  obtain M where M: "reaches sample_env 0 M" "run_ready M" using run_start by blast
  have fresh: "getDeposit M (''dep_'' @ ''1'') = None"
    using M(2) by (simp add: run_ready_def getDeposit_def)
  obtain j where j: "prepareDeposit sample_flow_env 0 ''1'' sample_wallet (JsStr ''1000'') None M = (Inr j, saveDeposit run_deposit M)"
    using run_prepare_deposit[OF M(2)] by blast
  have "system_step sample_env 0 M (saveDeposit run_deposit M)"
    using system_flow[OF step_prepare_deposit[OF wired_sample fresh, of 0 sample_wallet "JsStr ''1000''" None]]
    unfolding j by simp
  then have "reaches sample_env 0 (saveDeposit run_deposit M)" by (rule reaches_step[OF M(1) order_refl])
  then show ?thesis by auto
qed

lemma run_withdrawal_reached:
  "\<exists>L. reaches sample_env 0 L \<and> getWithdrawal L ''wdr_1'' = Some run_withdrawal \<and>
     (\<exists>M. run_ready M \<and> L = saveWithdrawal run_withdrawal M)"
proof -
  obtain M where M: "reaches sample_env 0 M" "run_ready M" using run_start by blast
  have fresh: "getWithdrawal M (''wdr_'' @ ''1'') = None"
    using M(2) by (simp add: run_ready_def getWithdrawal_def)
  obtain j where j: "prepareWithdrawal sample_flow_env 0 ''1'' run_withdrawal_input M = (Inr j, saveWithdrawal run_withdrawal M)"
    using run_prepare_withdrawal[OF M(2)] by blast
  have "system_step sample_env 0 M (saveWithdrawal run_withdrawal M)"
    using system_flow[OF step_prepare_withdrawal[OF wired_sample fresh, of 0 run_withdrawal_input]]
    unfolding j by simp
  then have "reaches sample_env 0 (saveWithdrawal run_withdrawal M)" by (rule reaches_step[OF M(1) order_refl])
  then show ?thesis using M(2) by auto
qed

text \<open>The withdrawal lapses, and a payment is prepared 200 seconds later.\<close>

lemma run_payment_after:
  "\<exists>L p. reaches sample_env 200000 L \<and> getWithdrawal L ''wdr_1'' = Some run_withdrawal \<and>
     getPayment L ''pay_1'' = Some p \<and> paymentHoldsSettlementReservation p \<and> of_position sample_wallet sample_vault p"
proof -
  obtain N M where N: "reaches sample_env 0 N" "getWithdrawal N ''wdr_1'' = Some run_withdrawal"
    "run_ready M" "N = saveWithdrawal run_withdrawal M"
    using run_withdrawal_reached by blast
  have fresh: "getPayment N (''pay_'' @ ''1'') = None" and none: "led_payments N = []" "led_liquidityPolicies N = []"
    using N(3) by (simp_all add: N(4) run_ready_def getPayment_def saveWithdrawal_def)
  have "getPosition N sample_wallet sample_vault = Some run_synced" using N(3,4) by (simp add: run_ready_def)
  moreover have "pendingVaultFlows 200000 N sample_wallet sample_vault = 0"
    using N(3) by (simp add: N(4) pendingVaultFlows_def listDepositsForPosition_def listWithdrawalsForPosition_def
        run_ready_def map_values_def saveWithdrawal_def map_set_def pendingFlow_def flowExpired_def)
  ultimately obtain j intentJson where prep: "preparePayment sample_env 200000 ''1'' ''e2'' run_input N = (Inr j,
        savePayment (newPaymentIntent run_request ''policy'' run_synced ''pay_1''
        (toISOString 320000) \<lparr>fe_estimatedFeeLamports = 5000, fe_estimatedFeeDebtRawUsdc = 100\<rparr>
        run_eval 1000 sample_prepared intentJson)
        (savePosition (run_synced\<lparr>pos_reservedRawUsdc := 1100, pos_version := 3\<rparr>) N))"
    using run_prepare_on[OF _ none, of 200000 "''1''" "''e2''"] by (auto simp: Let_def)
  define p where "p = newPaymentIntent run_request ''policy'' run_synced ''pay_1''
        (toISOString 320000) \<lparr>fe_estimatedFeeLamports = 5000, fe_estimatedFeeDebtRawUsdc = 100\<rparr>
        run_eval 1000 sample_prepared intentJson"
  have p: "pay_paymentId p = ''pay_1''" "of_position sample_wallet sample_vault p"
    "paymentHoldsSettlementReservation p"
    by (simp_all add: p_def newPaymentIntent_def paymentHoldsSettlementReservation_def)
  let ?L = "savePayment p (savePosition (run_synced\<lparr>pos_reservedRawUsdc := 1100, pos_version := 3\<rparr>) N)"
  have "snd (preparePayment sample_env 200000 ''1'' ''e2'' run_input N) = ?L" by (simp add: prep p_def)
  then have "system_step sample_env 200000 N ?L" using system_prepare[OF fresh] by metis
  then have "reaches sample_env 200000 ?L" by (intro reaches_step[OF N(1)]) simp_all
  then show ?thesis
    using N(2) p by (intro exI[of _ ?L] exI[of _ p]) simp
qed

section \<open>Properties\<close>

text \<open>
  C31: on every ledger that any interleaving of payment and vault flow calls reaches, a position
  that has a payment holding a reservation has no withdrawal that is submitted or that is
  prepared and still submittable. So a withdrawal never takes out shares that a live payment is
  going to redeem.
\<close>

theorem payments_exclude_withdrawals:
  assumes "reaches E now L" and "fees_nonneg E"
    and "getPayment L j = Some p" and "paymentHoldsSettlementReservation p"
    and "getWithdrawal L k = Some x" and "wdr_wallet x = pay_wallet p" and "wdr_vault x = pay_vault p"
  shows "\<not> pendingFlow now (wdr_status x) (wdr_expiresAt x)"
proof -
  have "exclusive now L" using reaches_ok[OF assms(1,2)] by (simp add: system_ok_def)
  moreover have "live_payment_at L (pay_wallet p) (pay_vault p)" using assms(3,4) by (auto simp: live_payment_at_def)
  ultimately have "\<not> pending_withdrawal now L (pay_wallet p) (pay_vault p)" by (rule exclusiveD)
  then show ?thesis using assms(5-) by (auto simp: pending_withdrawal_def)
qed

theorem payments_exclude_withdrawals_witness:
  "\<exists>L. reaches sample_env 200000 L \<and> getWithdrawal L ''wdr_1'' = Some run_withdrawal \<and>
     wdr_status run_withdrawal = flow_prepared \<and> \<not> pendingFlow 200000 (wdr_status run_withdrawal) (wdr_expiresAt run_withdrawal)"
proof -
  obtain L p where L: "reaches sample_env 200000 L" "getWithdrawal L ''wdr_1'' = Some run_withdrawal"
    "getPayment L ''pay_1'' = Some p" "paymentHoldsSettlementReservation p" "of_position sample_wallet sample_vault p"
    using run_payment_after by blast
  from payments_exclude_withdrawals[OF L(1) fees_sample L(3,4,2)] L(5)
  have "\<not> pendingFlow 200000 (wdr_status run_withdrawal) (wdr_expiresAt run_withdrawal)" by simp
  then show ?thesis using L(1,2) by auto
qed

text \<open>
  C32: on every reachable ledger a position has at most one open flow: no two of its deposits
  and withdrawals are prepared or submitted at the same time.
\<close>

theorem one_open_flow_per_position:
  assumes "reaches E now L" and "fees_nonneg E"
    and "flows L j = Some f" and "flows L k = Some g" and "same_position f g"
    and "open_flow f" and "open_flow g"
  shows "j = k"
  using reaches_ok[OF assms(1,2)] assms(3-) unfolding system_ok_def no_rivals_def by blast

theorem one_open_flow_per_position_witness:
  "\<exists>L. reaches sample_env 0 L \<and> flows L (Inl ''dep_1'') = Some (DepositFlow run_deposit) \<and>
     \<not> (\<exists>k g. flows L k = Some g \<and> k \<noteq> Inl ''dep_1'' \<and> same_position (DepositFlow run_deposit) g \<and> open_flow g)"
proof -
  obtain L where L: "reaches sample_env 0 L" "getDeposit L ''dep_1'' = Some run_deposit"
    using run_deposit_reached by blast
  have "open_flow (DepositFlow run_deposit)" by (simp add: open_flow_def open_status_def)
  moreover have got: "flows L (Inl ''dep_1'') = Some (DepositFlow run_deposit)" using L(2) by simp
  ultimately have "k = Inl ''dep_1''"
    if "flows L k = Some g" "same_position (DepositFlow run_deposit) g" "open_flow g" for k g
    using one_open_flow_per_position[OF L(1) fees_sample got that(1,2)] that(3) by simp
  then show ?thesis using L(1) got by blast
qed

text \<open>
  The reservations stay balanced when vault flows run beside payments: on every ledger
  reachable under PostgreSQL the reserved amount of a position is what its unfinished payments
  hold.
\<close>

theorem reservations_survive_flows:
  assumes "reaches E now L" and "fees_nonneg E" and "plain w"
  shows "reserved L w v = held_total L w v"
  using reaches_ok[OF assms(1,2)] assms(3) by (simp add: system_ok_def reservations_balanced_def)

theorem reservations_survive_flows_witness:
  "\<exists>L. reaches sample_env 0 L \<and> getDeposit L ''dep_1'' = Some run_deposit \<and>
     reserved L sample_wallet sample_vault = held_total L sample_wallet sample_vault"
  using run_deposit_reached reservations_survive_flows[OF _ fees_sample plain_samples(1)] by blast

end
