(* ===== verification/Flow_Outcomes.thy ===== *)
theory Flow_Outcomes
  imports Flow_Run
begin

text \<open>
  What the vault flows do to the accounts: a confirmed deposit or withdrawal books what the chain
  shows, a realize takes yield alone, and a flow is given up as not submitted only when the
  chain cannot include it any more.
\<close>

section \<open>Bookkeeping\<close>

text \<open>The network fee of a landed transaction in USDC, nothing when it cannot be converted.\<close>

definition flow_fee :: "flow_env \<Rightarrow> int \<Rightarrow> int" where
  "flow_fee E lamports = (case vf_feeLamportsToUsdc E of None \<Rightarrow> 0
     | Some convert \<Rightarrow> (case convert lamports of Inl _ \<Rightarrow> 0 | Inr fee \<Rightarrow> fee))"

text \<open>\<open>p\<close> is the stored position of a wallet and vault, stored under its own key.\<close>

definition position_at :: "ledger \<Rightarrow> string \<Rightarrow> string \<Rightarrow> WalletPosition \<Rightarrow> bool" where
  "position_at L w v p \<longleftrightarrow> getPosition L w v = Some p \<and> positionKey (pos_wallet p) (pos_vault p) = positionKey w v"

lemma position_at_stored:
  assumes "ledger_ok L" "getPosition L w v = Some p"
  shows "position_at L w v p"
  using assms by (auto simp: position_at_def ledger_ok_def keyed_get getPosition_def position_key_def)

lemma position_at_save:
  "position_at L w v p \<Longrightarrow> pos_wallet p' = pos_wallet p \<Longrightarrow> pos_vault p' = pos_vault p \<Longrightarrow>
   position_at (savePosition p' L) w v p'"
  by (simp add: position_at_def getPosition_def savePosition_def)

lemma position_at_cong: "led_positions L' = led_positions L \<Longrightarrow> position_at L' w v p = position_at L w v p"
  by (simp add: position_at_def getPosition_def)

lemma position_at_frame [simp]:
  "position_at (saveDeposit d L) w v p = position_at L w v p"
  "position_at (saveWithdrawal x L) w v p = position_at L w v p"
  "position_at (recordSyncEvent t uuid e L) w v p = position_at L w v p"
  by (rule position_at_cong; simp add: recordSyncEvent_def)+

definition same_books :: "WalletPosition \<Rightarrow> WalletPosition \<Rightarrow> int \<Rightarrow> bool" where
  "same_books p p' fee \<longleftrightarrow> pos_wallet p' = pos_wallet p \<and> pos_vault p' = pos_vault p \<and>
     pos_principalBasisRawUsdc p' = pos_principalBasisRawUsdc p \<and>
     pos_totalSharesRaw p' = pos_totalSharesRaw p \<and> pos_exchangeRateScaled p' = pos_exchangeRateScaled p \<and>
     pos_reservedRawUsdc p' = pos_reservedRawUsdc p \<and>
     pos_feeDebtRawUsdc p' = pos_feeDebtRawUsdc p + fee"

lemma fee_books:
  assumes "position_at M w v p"
  shows "runs (applyFlowFeeDebt E w v lamports) M
    (\<lambda>_ N. \<exists>p'. position_at N w v p' \<and> same_books p p' (flow_fee E lamports) \<and> pos_status p' = pos_status p) (\<lambda>_ _. False)"
proof -
  have "position_at (savePosition (p\<lparr>pos_feeDebtRawUsdc := a, pos_version := b\<rparr>) M) w v
     (p\<lparr>pos_feeDebtRawUsdc := a, pos_version := b\<rparr>)" for a b
    by (rule position_at_save[OF assms]) simp_all
  moreover have "getPosition M w v = Some p" using assms by (simp add: position_at_def)
  ultimately show ?thesis
    using assms by (fastforce simp: applyFlowFeeDebt_def flow_fee_def same_books_def split: option.splits sum.splits)
qed

lemma flag_books:
  assumes "position_at M w v p"
  shows "runs (flagFlowBaselineReset t uuid w v) M
    (\<lambda>_ N. \<exists>p'. position_at N w v p' \<and> same_books p p' 0 \<and> pos_status p' = needs_baseline_reset) (\<lambda>_ _. False)"
proof -
  have "position_at (savePosition (flagBaselineReset p) M) w v (flagBaselineReset p)"
    by (rule position_at_save[OF assms]) simp_all
  moreover have "getPosition M w v = Some p" using assms by (simp add: position_at_def)
  ultimately show ?thesis
    by (auto simp: flagFlowBaselineReset_def recordFlowEvent_def same_books_def flagBaselineReset_def
        intro!: exI[of _ "flagBaselineReset p"])
qed

section \<open>Confirmed deposits\<close>

text \<open>
  What a landed deposit must leave behind: \<open>paid\<close> is what left the agent's token account.
  Without a readable delta the deposit counts as failed and the position must be re-baselined.
\<close>

definition deposit_booked ::
  "flow_env \<Rightarrow> ConfirmedFlowOutcome \<Rightarrow> VaultContext \<Rightarrow> UserSharesRaw \<Rightarrow> int \<Rightarrow> WalletPosition \<Rightarrow> string \<Rightarrow> string \<Rightarrow>
   DepositIntent \<Rightarrow> ledger \<Rightarrow> bool" where
  "deposit_booked E c ctx sh paid p w v i L' \<longleftrightarrow> (\<exists>p'. position_at L' w v p' \<and>
     pos_reservedRawUsdc p' = pos_reservedRawUsdc p \<and>
     (if 0 < paid
      then dep_status i = flow_confirmed \<and> dep_actualDepositRawUsdc i = Some paid \<and>
        pos_principalBasisRawUsdc p' = pos_principalBasisRawUsdc p + paid \<and>
        dep_principalBasisAfterRawUsdc i = Some (pos_principalBasisRawUsdc p') \<and>
        pos_totalSharesRaw p' = us_totalSharesRaw sh \<and> pos_exchangeRateScaled p' = vx_exchangeRateScaled ctx \<and>
        pos_feeDebtRawUsdc p' = pos_feeDebtRawUsdc p + flow_fee E (co_feeLamports c) \<and>
        pos_status p' = pos_status p
      else dep_status i = flow_failed \<and> dep_errorCode i = Some ''deposit_classification_failed'' \<and>
        same_books p p' 0 \<and> pos_status p' = needs_baseline_reset))"

lemma deposit_booked_frame:
  "led_positions M = led_positions L \<Longrightarrow> deposit_booked E c ctx sh paid p w v i M = deposit_booked E c ctx sh paid p w v i L"
  by (simp add: deposit_booked_def position_at_cong[of M L])

lemma settle_deposit_books:
  assumes E: "wired K E" and p: "position_at L (dep_wallet d) (dep_vault d) p"
    and r: "rf_position r = p" "rf_after r = sh" "rf_exchangeRateScaled r = vx_exchangeRateScaled ctx" and paid: "0 \<le> paid"
  shows "runs (settleDepositOutcome E now uuid d latest c (Some r) paid) L
    (deposit_booked E c ctx sh paid p (dep_wallet d) (dep_vault d)) (\<lambda>_ _. True)"
proof -
  let ?w = "dep_wallet d" and ?v = "dep_vault d"
  obtain config nowMs uid where mandates: "vf_mandates E = map_option (\<lambda>M. mandateOps M nowMs uid) config"
    using E by (auto simp: wired_def)
  have at: "position_at (savePosition (refreshedPosition r b) L) ?w ?v (refreshedPosition r b)" for b
    by (rule position_at_save[OF p]) (simp_all add: r)
  have fee: "runs (applyFlowFeeDebt E ?w ?v f) (savePosition (refreshedPosition r b) L) Q Q'"
    if "\<And>N p'. position_at N ?w ?v p' \<Longrightarrow> same_books (refreshedPosition r b) p' (flow_fee E f) \<Longrightarrow>
      pos_status p' = pos_status p \<Longrightarrow> Q () N" for b f Q Q'
    by (rule runs_mono[OF fee_books[OF at]]) (use that r in \<open>auto simp: refreshedPosition_def\<close>)
  have flag: "runs (flagFlowBaselineReset now uuid ?w ?v) L Q Q'"
    if "\<And>N p'. position_at N ?w ?v p' \<Longrightarrow> same_books p p' 0 \<Longrightarrow> pos_status p' = needs_baseline_reset \<Longrightarrow> Q () N" for Q Q'
    by (rule runs_mono[OF flag_books[OF p]]) (use that in auto)
  have consume: "runs (mo_consumeApproval m x j) M (\<lambda>_. deposit_booked E c ctx sh paid p ?w ?v i) (\<lambda>_ _. True)"
    if "vf_mandates E = Some m" "deposit_booked E c ctx sh paid p ?w ?v i M" for m x j M i
    using that(2) by (intro gates_then[OF guard.gate_consume[OF that(1)[unfolded mandates]]])
      (simp_all add: deposit_booked_frame[OF gated_frame(3)])
  show ?thesis
    using paid
    by (auto simp: settleDepositOutcome_def storeDeposit_def recordFlowEvent_def Let_def r
        intro!: flag fee consume split: option.splits)
      (auto simp: deposit_booked_def same_books_def terminalDeposit_def refreshedPosition_def r)
qed

text \<open>The chain is readable: its context and the wallet's shares.\<close>

definition chain_shows :: "flow_env \<Rightarrow> string \<Rightarrow> VaultContext \<Rightarrow> UserSharesRaw \<Rightarrow> bool" where
  "chain_shows E w ctx sh \<longleftrightarrow> vf_loadContext E = Inr ctx \<and> vf_getUserSharesRaw E w ctx = Inr sh"

text \<open>
  C33: when a submitted deposit has landed, its principal grows by exactly what left the
  agent's token account, the position shows the shares and the rate of the chain, the
  reservation stays and the network fee is booked; a landed deposit whose token delta cannot be
  read is failed and forces a new baseline without touching the principal. So deposited money
  never counts as yield.
\<close>

theorem deposit_books_chain_delta:
  assumes "wired K E" and "ledger_ok L"
    and "getDeposit L (dep_depositId d) = Some latest" and "dep_status latest = flow_submitted"
    and "\<not> co_err c" and "getPosition L (dep_wallet d) (dep_vault d) = Some p"
    and "chain_shows E (dep_wallet d) ctx sh"
    and "vf_deriveAta E (dep_wallet d) (vc_usdcMint (vf_vault E)) = Inr ata"
    and "finalizeDepositSection E now uuid d c L = (Inr i, L')"
  shows "deposit_booked E c ctx sh (clampToZero (- orElse (co_tokenBalanceDeltas c ata) 0)) p
    (dep_wallet d) (dep_vault d) i L'"
proof -
  note at = position_at_stored[OF assms(2,6)]
  let ?r = "\<lparr>rf_position = p, rf_after = sh, rf_exchangeRateScaled = vx_exchangeRateScaled ctx,
     rf_instantRedeemCapacityRawUsdc = vx_instantRedeemCapacityRawUsdc ctx, rf_observedSlot = vx_slot ctx\<rparr>"
  let ?paid = "clampToZero (- orElse (co_tokenBalanceDeltas c ata) 0)"
  have paid: "(if orElse (co_tokenBalanceDeltas c ata) 0 < 0 then - orElse (co_tokenBalanceDeltas c ata) 0 else 0) = ?paid"
    by (simp add: clampToZero_def)
  have "runs (settleDepositOutcome E now uuid d latest c (Some ?r) ?paid) L
      (deposit_booked E c ctx sh ?paid p (dep_wallet d) (dep_vault d)) (\<lambda>_ _. True)"
    by (rule settle_deposit_books[OF assms(1) at]) (simp_all add: clampToZero_def)
  then have "runs (finalizeDepositSection E now uuid d c) L
      (deposit_booked E c ctx sh ?paid p (dep_wallet d) (dep_vault d)) (\<lambda>_ _. True)"
    using assms(3-8) paid
    by (simp add: finalizeDepositSection_def refreshPositionFromChain_def chain_shows_def Let_def)
  then show ?thesis using runs_InrD assms(9) by fastforce
qed

definition landed_deposit :: DepositIntent where
  "landed_deposit = sample_deposit\<lparr>dep_status := flow_submitted, dep_txSignature := Some ''signature''\<rparr>"

definition landed_ledger :: ledger where
  "landed_ledger = saveDeposit landed_deposit (savePosition sample_position empty_ledger)"

lemma landed_simps [simp]:
  "dep_depositId landed_deposit = ''dep_1''" "dep_wallet landed_deposit = sample_wallet"
  "dep_vault landed_deposit = sample_vault" "dep_status landed_deposit = flow_submitted"
  "ledger_ok landed_ledger" "getDeposit landed_ledger ''dep_1'' = Some landed_deposit"
  "getPosition landed_ledger sample_wallet sample_vault = Some sample_position"
  "\<not> co_err sample_outcome" "co_tokenBalanceDeltas sample_outcome sample_wallet = Some (- 1000)"
  by (simp_all add: landed_ledger_def) (simp_all add: landed_deposit_def sample_deposit_def sample_outcome_def)

theorem deposit_books_chain_delta_witness:
  "\<exists>i L' p'. finalizeDepositSection sample_flow_env 5 ''e'' landed_deposit sample_outcome landed_ledger = (Inr i, L') \<and>
     dep_status i = flow_confirmed \<and> getPosition L' sample_wallet sample_vault = Some p' \<and>
     pos_principalBasisRawUsdc p' = 1001000"
proof -
  obtain i L' where run: "finalizeDepositSection sample_flow_env 5 ''e'' landed_deposit sample_outcome landed_ledger = (Inr i, L')"
    by (simp add: finalizeDepositSection_def settleDepositOutcome_def refreshPositionFromChain_def
        applyFlowFeeDebt_def recordFlowEvent_def storeDeposit_def Let_def action_defs)
  have "chain_shows sample_flow_env sample_wallet sample_context sample_shares" by (simp add: chain_shows_def)
  from deposit_books_chain_delta[OF wired_sample landed_simps(5) _ landed_simps(4) landed_simps(8) _ _ _ run] this
  have "deposit_booked sample_flow_env sample_outcome sample_context sample_shares 1000 sample_position
      sample_wallet sample_vault i L'" by (simp add: clampToZero_def)
  then show ?thesis using run by (auto simp: deposit_booked_def position_at_def sample_position_def)
qed

section \<open>Confirmed withdrawals\<close>

definition withdrawal_booked ::
  "flow_env \<Rightarrow> ConfirmedFlowOutcome \<Rightarrow> VaultContext \<Rightarrow> UserSharesRaw \<Rightarrow> int \<Rightarrow> int \<Rightarrow> WalletPosition \<Rightarrow> string \<Rightarrow>
   string \<Rightarrow> WithdrawalIntent \<Rightarrow> ledger \<Rightarrow> bool" where
  "withdrawal_booked E c ctx sh received left p w v i L' \<longleftrightarrow> (\<exists>p'. position_at L' w v p' \<and>
     pos_reservedRawUsdc p' = pos_reservedRawUsdc p \<and>
     (if 0 < received
      then wdr_status i = flow_confirmed \<and> wdr_actualWithdrawRawUsdc i = Some received \<and>
        pos_principalBasisRawUsdc p' = min (pos_principalBasisRawUsdc p) left \<and>
        wdr_principalBasisAfterRawUsdc i = Some (pos_principalBasisRawUsdc p') \<and>
        pos_totalSharesRaw p' = us_totalSharesRaw sh \<and> pos_exchangeRateScaled p' = vx_exchangeRateScaled ctx \<and>
        pos_feeDebtRawUsdc p' = pos_feeDebtRawUsdc p + flow_fee E (co_feeLamports c) \<and>
        pos_status p' = pos_status p
      else wdr_status i = flow_failed \<and> wdr_errorCode i = Some ''withdrawal_classification_failed'' \<and>
        same_books p p' 0 \<and> pos_status p' = needs_baseline_reset))"

lemma withdrawal_booked_frame:
  "led_positions M = led_positions L \<Longrightarrow>
   withdrawal_booked E c ctx sh received left p w v i M = withdrawal_booked E c ctx sh received left p w v i L"
  by (simp add: withdrawal_booked_def position_at_cong[of M L])

lemma settle_withdrawal_books:
  assumes E: "wired K E" and p: "position_at L (wdr_wallet d) (wdr_vault d) p"
    and r: "rf_position r = p" "rf_after r = sh" "rf_exchangeRateScaled r = vx_exchangeRateScaled ctx"
    and worth: "computePositionValueRawUsdc (us_totalSharesRaw sh) (vx_exchangeRateScaled ctx) = Inr left"
    and received: "0 \<le> received"
  shows "runs (settleWithdrawalOutcome E now uuid d latest c (Some r) received) L
    (withdrawal_booked E c ctx sh received left p (wdr_wallet d) (wdr_vault d)) (\<lambda>_ _. True)"
proof -
  let ?w = "wdr_wallet d" and ?v = "wdr_vault d"
  obtain config nowMs uid where mandates: "vf_mandates E = map_option (\<lambda>M. mandateOps M nowMs uid) config"
    using E by (auto simp: wired_def)
  have at: "position_at (savePosition (refreshedPosition r b) L) ?w ?v (refreshedPosition r b)" for b
    by (rule position_at_save[OF p]) (simp_all add: r)
  have fee: "runs (applyFlowFeeDebt E ?w ?v f) (savePosition (refreshedPosition r b) L) Q Q'"
    if "\<And>N p'. position_at N ?w ?v p' \<Longrightarrow> same_books (refreshedPosition r b) p' (flow_fee E f) \<Longrightarrow>
      pos_status p' = pos_status p \<Longrightarrow> Q () N" for b f Q Q'
    by (rule runs_mono[OF fee_books[OF at]]) (use that r in \<open>auto simp: refreshedPosition_def\<close>)
  have flag: "runs (flagFlowBaselineReset now uuid ?w ?v) L Q Q'"
    if "\<And>N p'. position_at N ?w ?v p' \<Longrightarrow> same_books p p' 0 \<Longrightarrow> pos_status p' = needs_baseline_reset \<Longrightarrow> Q () N" for Q Q'
    by (rule runs_mono[OF flag_books[OF p]]) (use that in auto)
  have consume: "runs (mo_consumeApproval m x j) M (\<lambda>_. withdrawal_booked E c ctx sh received left p ?w ?v i) (\<lambda>_ _. True)"
    if "vf_mandates E = Some m" "withdrawal_booked E c ctx sh received left p ?w ?v i M" for m x j M i
    using that(2) by (intro gates_then[OF guard.gate_consume[OF that(1)[unfolded mandates]]])
      (simp_all add: withdrawal_booked_frame[OF gated_frame(3)])
  show ?thesis
    using received
    by (auto simp: settleWithdrawalOutcome_def storeWithdrawal_def recordFlowEvent_def Let_def r worth
        intro!: flag fee consume split: option.splits)
      (auto simp: withdrawal_booked_def same_books_def terminalWithdrawal_def refreshedPosition_def r minBigInt_def)
qed

text \<open>
  When a submitted withdrawal has landed, the position shows the shares and the rate of
  the chain and the principal becomes the smaller of what it was and what the remaining shares
  are worth: it never grows, and it never exceeds the value left behind. The reservation stays,
  the fee is booked, and a landed withdrawal without a readable delta is failed and forces a new
  baseline.
\<close>

theorem withdrawal_caps_principal:
  assumes "wired K E" and "ledger_ok L"
    and "getWithdrawal L (wdr_withdrawalId d) = Some latest" and "wdr_status latest = flow_submitted"
    and "\<not> co_err c" and "getPosition L (wdr_wallet d) (wdr_vault d) = Some p"
    and "chain_shows E (wdr_wallet d) ctx sh"
    and "computePositionValueRawUsdc (us_totalSharesRaw sh) (vx_exchangeRateScaled ctx) = Inr left"
    and "finalizeWithdrawalSection E now uuid d c L = (Inr i, L')"
  shows "withdrawal_booked E c ctx sh (clampToZero (orElse (co_tokenBalanceDeltas c (wdr_destinationUsdcAta d)) 0))
    left p (wdr_wallet d) (wdr_vault d) i L'"
proof -
  note at = position_at_stored[OF assms(2,6)]
  let ?r = "\<lparr>rf_position = p, rf_after = sh, rf_exchangeRateScaled = vx_exchangeRateScaled ctx,
     rf_instantRedeemCapacityRawUsdc = vx_instantRedeemCapacityRawUsdc ctx, rf_observedSlot = vx_slot ctx\<rparr>"
  let ?got = "clampToZero (orElse (co_tokenBalanceDeltas c (wdr_destinationUsdcAta d)) 0)"
  have got: "(if 0 < orElse (co_tokenBalanceDeltas c (wdr_destinationUsdcAta d)) 0
      then orElse (co_tokenBalanceDeltas c (wdr_destinationUsdcAta d)) 0 else 0) = ?got"
    by (simp add: clampToZero_def)
  have "runs (settleWithdrawalOutcome E now uuid d latest c (Some ?r) ?got) L
      (withdrawal_booked E c ctx sh ?got left p (wdr_wallet d) (wdr_vault d)) (\<lambda>_ _. True)"
    by (rule settle_withdrawal_books[OF assms(1) at _ _ _ assms(8)]) (simp_all add: clampToZero_def)
  then have "runs (finalizeWithdrawalSection E now uuid d c) L
      (withdrawal_booked E c ctx sh ?got left p (wdr_wallet d) (wdr_vault d)) (\<lambda>_ _. True)"
    using assms(3-7) got
    by (simp add: finalizeWithdrawalSection_def refreshPositionFromChain_def chain_shows_def Let_def)
  then show ?thesis using runs_InrD assms(9) by fastforce
qed

definition landed_withdrawal :: WithdrawalIntent where
  "landed_withdrawal = sample_withdrawal\<lparr>wdr_status := flow_submitted, wdr_destinationUsdcAta := sample_seller\<rparr>"

definition landed_withdrawals :: ledger where
  "landed_withdrawals = saveWithdrawal landed_withdrawal (savePosition sample_position empty_ledger)"

definition small_env :: flow_env where
  "small_env = sample_flow_env\<lparr>vf_getUserSharesRaw := \<lambda>_ _. Inr \<lparr>us_stakedSharesRaw = 0,
     us_unstakedSharesRaw = 400000, us_totalSharesRaw = 400000\<rparr>\<rparr>"

definition small_outcome :: ConfirmedFlowOutcome where
  "small_outcome = sample_outcome\<lparr>co_tokenBalanceDeltas := \<lambda>a. Some 1600000\<rparr>"

theorem withdrawal_caps_principal_witness:
  "\<exists>i L' p'. finalizeWithdrawalSection small_env 5 ''e'' landed_withdrawal small_outcome landed_withdrawals = (Inr i, L') \<and>
     wdr_status i = flow_confirmed \<and> getPosition L' sample_wallet sample_vault = Some p' \<and>
     pos_principalBasisRawUsdc sample_position = 1000000 \<and> pos_principalBasisRawUsdc p' = 400000"
proof -
  let ?sh = "\<lparr>us_stakedSharesRaw = 0, us_unstakedSharesRaw = 400000, us_totalSharesRaw = 400000\<rparr>"
  have w: "wdr_withdrawalId landed_withdrawal = ''wdr_1''" "wdr_wallet landed_withdrawal = sample_wallet"
    "wdr_vault landed_withdrawal = sample_vault" "wdr_status landed_withdrawal = flow_submitted"
    by (simp_all add: landed_withdrawal_def sample_withdrawal_def)
  have L: "ledger_ok landed_withdrawals" "getWithdrawal landed_withdrawals ''wdr_1'' = Some landed_withdrawal"
    "getPosition landed_withdrawals sample_wallet sample_vault = Some sample_position"
    by (simp_all add: landed_withdrawals_def w)
  have E: "wired PostgresLedger small_env" "vf_loadContext small_env = Inr sample_context"
    "vf_getUserSharesRaw small_env w c = Inr ?sh" "vf_mandates small_env = None" "vf_feeLamportsToUsdc small_env = None" for w c
    by (simp_all add: small_env_def) (auto simp: wired_def intro: exI[of _ None])
  have c: "\<not> co_err small_outcome" "co_tokenBalanceDeltas small_outcome a = Some 1600000" for a
    by (simp_all add: small_outcome_def)
  have v: "computePositionValueRawUsdc 400000 1000000000000 = Inr 400000"
    by (simp add: computePositionValueRawUsdc_def mulDivFloor_def RATE_SCALE_def)
  obtain i L' where run: "finalizeWithdrawalSection small_env 5 ''e'' landed_withdrawal small_outcome landed_withdrawals = (Inr i, L')"
    using L w E c v
    by (simp add: finalizeWithdrawalSection_def settleWithdrawalOutcome_def refreshPositionFromChain_def
        applyFlowFeeDebt_def recordFlowEvent_def storeWithdrawal_def Let_def action_defs)
  have "chain_shows small_env sample_wallet sample_context ?sh" by (simp add: chain_shows_def E)
  from withdrawal_caps_principal[OF E(1) L(1) _ w(4) c(1) _ _ _ run] this
  have "withdrawal_booked small_env small_outcome sample_context ?sh 1600000 400000 sample_position
      sample_wallet sample_vault i L'" using w L v c by (simp add: clampToZero_def)
  then show ?thesis using run by (auto simp: withdrawal_booked_def position_at_def sample_position_def)
qed

section \<open>Giving a transaction up\<close>

text \<open>What the chain must say before a sent transaction counts as never submitted.\<close>

definition chain_lost :: "flow_env \<Rightarrow> string option \<Rightarrow> int option \<Rightarrow> bool" where
  "chain_lost E txSignature lastValidBlockHeight \<longleftrightarrow> (\<exists>s. txSignature = Some s \<and> vf_lookup E 0 s = Inr None \<and>
     vf_isBlockhashExpired E lastValidBlockHeight = Inr True \<and> vf_lookup E 1 s = Inr None)"

lemma reconcile_lost: "reconcileFlow E s h = Inr (FlowNotSubmitted e) \<Longrightarrow> chain_lost E s h"
  by (auto simp: reconcileFlow_def chain_lost_def lookupConfirmedFlow_def bindR_def
      split: option.split_asm sum.split_asm if_splits FlowOutcome.split_asm)

lemma send_lost: "sendAndConfirmFlow E s b h = Inr (FlowNotSubmitted e) \<Longrightarrow> chain_lost E s h"
  by (auto simp: sendAndConfirmFlow_def bindR_def lookupConfirmedFlow_def dest: reconcile_lost
      split: option.split_asm if_splits sum.split_asm ConfirmationOutcome.split_asm)

lemma settle_not_lost:
  "runs (settleDepositOutcome E now uuid d latest c r n) L (\<lambda>i _. dep_status i \<noteq> flow_failed_not_submitted) (\<lambda>_ _. True)"
  "runs (settleWithdrawalOutcome E now uuid z later c r n) L (\<lambda>i _. wdr_status i \<noteq> flow_failed_not_submitted) (\<lambda>_ _. True)"
proof -
  have any: "runs m M (\<lambda>_ _. True) (\<lambda>_ _. True)" for m :: "(ledger, unit) action" and M by (rule runsI) auto
  show "runs (settleDepositOutcome E now uuid d latest c r n) L (\<lambda>i _. dep_status i \<noteq> flow_failed_not_submitted) (\<lambda>_ _. True)"
    by (auto simp: settleDepositOutcome_def storeDeposit_def recordFlowEvent_def Let_def terminalDeposit_def
        intro!: runs_mono[OF any] split: option.splits)
  show "runs (settleWithdrawalOutcome E now uuid z later c r n) L (\<lambda>i _. wdr_status i \<noteq> flow_failed_not_submitted) (\<lambda>_ _. True)"
    by (auto simp: settleWithdrawalOutcome_def storeWithdrawal_def recordFlowEvent_def Let_def terminalWithdrawal_def
        intro!: runs_mono[OF any] split: option.splits sum.splits)
qed

lemma finalize_not_lost:
  assumes "getDeposit L (dep_depositId d) = Some latest" "dep_status latest = flow_submitted"
  shows "runs (finalizeDepositSection E now uuid d c) L (\<lambda>i _. dep_status i \<noteq> flow_failed_not_submitted) (\<lambda>_ _. True)"
proof -
  have any: "runs m M (\<lambda>_ _. True) (\<lambda>_ _. True)" for m :: "(ledger, unit) action" and M by (rule runsI) auto
  show ?thesis
    using assms settle_not_lost(1)
    by (auto simp: finalizeDepositSection_def refreshPositionFromChain_def storeDeposit_def terminalDeposit_def Let_def
        intro!: runs_mono[OF any] split: option.splits sum.splits)
qed

text \<open>
  A submitted deposit becomes \<open>failed_not_submitted\<close>, whether its transaction was just
  sent or is being reconciled, only when the chain did not know the transaction, its blockhash
  had expired, and a second look after the expiry still did not find it; a failed simulation, a
  failed send or a timeout alone never gives it up.
\<close>

theorem given_up_only_when_lost:
  assumes "m = reconcileDeposit E now uuid d \<or> m = sendAndFinalizeDeposit E now uuid d"
    and "getDeposit L (dep_depositId d) = Some latest" and "dep_status latest = flow_submitted"
    and "m L = (Inr i, L')" and "dep_status i = flow_failed_not_submitted"
  shows "chain_lost E (dep_txSignature d) (dep_lastValidBlockHeight d)"
proof -
  have apply_outcome: "chain_lost E (dep_txSignature d) (dep_lastValidBlockHeight d)"
    if out: "applyDepositOutcome E now uuid d out L = (Inr i, L')"
      and lost: "\<And>e. out = FlowNotSubmitted e \<Longrightarrow> chain_lost E (dep_txSignature d) (dep_lastValidBlockHeight d)" for out
  proof (cases out)
    case FlowPending
    then show ?thesis using out assms(2,3,5) by (auto simp: applyDepositOutcome_def action_defs)
  next
    case (FlowNotSubmitted e)
    then show ?thesis by (rule lost)
  next
    case (FlowConfirmed c)
    then have "finalizeDepositSection E now uuid d c L = (Inr i, L')"
      using out by (simp add: applyDepositOutcome_def withLock_Inr)
    from runs_InrD[OF finalize_not_lost[OF assms(2,3)] this] assms(5) show ?thesis by simp
  qed
  have lift: "\<exists>out. r = Inr out \<and> f out L = (Inr i, L')"
    if "bindA (liftR r) f L = (Inr i, L')" for r :: "FlowOutcome result" and f
    using that by (cases r) (auto simp: bindA_def liftR_def)
  show ?thesis
    using assms(1)
  proof
    assume "m = reconcileDeposit E now uuid d"
    then show ?thesis
      using assms(4) lift apply_outcome reconcile_lost unfolding reconcileDeposit_def by metis
  next
    assume "m = sendAndFinalizeDeposit E now uuid d"
    then show ?thesis
      using assms(4) lift apply_outcome send_lost unfolding sendAndFinalizeDeposit_def by metis
  qed
qed

definition lost_env :: flow_env where
  "lost_env = sample_flow_env\<lparr>vf_lookup := \<lambda>_ _. Inr None, vf_isBlockhashExpired := \<lambda>_. Inr True\<rparr>"

theorem given_up_only_when_lost_witness:
  "\<exists>i L'. reconcileDeposit lost_env 5 ''e'' landed_deposit landed_ledger = (Inr i, L') \<and>
     dep_status i = flow_failed_not_submitted \<and> chain_lost lost_env (Some ''signature'') None"
proof -
  have sig: "dep_txSignature landed_deposit = Some ''signature''" "dep_lastValidBlockHeight landed_deposit = None"
    by (simp_all add: landed_deposit_def sample_deposit_def)
  obtain i L' where run: "reconcileDeposit lost_env 5 ''e'' landed_deposit landed_ledger = (Inr i, L')"
    "dep_status i = flow_failed_not_submitted"
    by (simp add: reconcileDeposit_def reconcileFlow_def lookupConfirmedFlow_def lost_env_def sig
        applyDepositOutcome_def notSubmittedDepositSection_def storeDeposit_def terminalDeposit_def action_defs
        withLock_def)
  then show ?thesis
    using given_up_only_when_lost[OF disjI1[OF refl] _ landed_simps(4) run] sig by simp
qed

section \<open>Realizing yield\<close>

text \<open>The same position with the shares and the rate the chain shows.\<close>

definition chain_value :: "UserSharesRaw \<Rightarrow> VaultContext \<Rightarrow> int" where
  "chain_value sh ctx = us_totalSharesRaw sh * vx_exchangeRateScaled ctx div RATE_SCALE"

lemma yield_only_covered:
  assumes "assertYieldOnly E p sh ctx amount gross = Inr ()"
  shows "principal_covered p (chain_value sh ctx) gross (vf_realizeOverheadRawUsdc E)"
    and "gross \<le> vx_instantRedeemCapacityRawUsdc ctx"
proof -
  obtain e where e: "evaluatePaymentBudget (chainPosition p sh ctx) amount (vf_realizeOverheadRawUsdc E)
      (Some gross) None = Inr (BudgetOk e)"
    using assms by (auto simp: assertYieldOnly_def bindR_def split: sum.split_asm BudgetDecision.split_asm)
  then show "principal_covered p (chain_value sh ctx) gross (vf_realizeOverheadRawUsdc E)"
    "gross \<le> vx_instantRedeemCapacityRawUsdc ctx"
    by (auto simp: budget_ok_iff snapshot_iff Let_def chainPosition_def chain_value_def principal_covered_def)
qed

definition realize_prepared ::
  "flow_env \<Rightarrow> string \<Rightarrow> string \<Rightarrow> int \<Rightarrow> WalletPosition \<Rightarrow> ledger \<Rightarrow> bool" where
  "realize_prepared E k w a p L' \<longleftrightarrow> (\<exists>i ctx sh gross. getWithdrawal L' k = Some i \<and> wdr_wallet i = w \<and>
     wdr_purpose i = yield_realize \<and> wdr_requestedWithdrawRawUsdc i = a \<and>
     wdr_maxSharesToRedeemRaw i \<le> us_totalSharesRaw sh \<and>
     chain_shows E w ctx sh \<and> us_totalSharesRaw sh = pos_totalSharesRaw p \<and>
     grossWithdrawFor True a ctx = Inr gross \<and> gross \<le> vx_instantRedeemCapacityRawUsdc ctx \<and>
     principal_covered p (chain_value sh ctx) gross (vf_realizeOverheadRawUsdc E))"

lemma realize_stored:
  assumes "pw_yieldRealize x" "chain_shows E w ctx sh" "us_totalSharesRaw sh = pos_totalSharesRaw p"
    and "grossWithdrawFor True a ctx = Inr gross" "assertYieldOnly E p sh ctx a gross = Inr ()"
    and "m \<le> us_totalSharesRaw sh"
  shows "realize_prepared E (''wdr_'' @ uuid) w a p
    (saveWithdrawal (newWithdrawalIntent E now uuid w a x auth ctx r m ata built q) M)"
  unfolding realize_prepared_def
  by (rule exI[of _ "newWithdrawalIntent E now uuid w a x auth ctx r m ata built q"], rule exI[of _ ctx],
      rule exI[of _ sh], rule exI[of _ gross])
    (use assms yield_only_covered[OF assms(5)] in \<open>simp add: newWithdrawalIntent_def\<close>)

lemma commit_realize:
  assumes "pw_yieldRealize x"
  shows "runs (commitWithdrawal E now uuid w a x auth p) M
    (\<lambda>_ N. led_positions N = led_positions M \<and> realize_prepared E (''wdr_'' @ uuid) w a p N) (\<lambda>_ _. True)"
proof -
  have "runs (storePreparedWithdrawal E now uuid w a x auth p ctx sh) M
      (\<lambda>_ N. led_positions N = led_positions M \<and> realize_prepared E (''wdr_'' @ uuid) w a p N) (\<lambda>_ _. True)"
    if sh: "chain_shows E w ctx sh" "us_totalSharesRaw sh = pos_totalSharesRaw p" for ctx sh
    using assms by (auto simp: storePreparedWithdrawal_def storeWithdrawal_def Let_def minBigInt_def
        simp del: append.simps intro!: realize_stored[OF assms sh] split: sum.splits)
  then show ?thesis
    by (auto simp: commitWithdrawal_def requireMatchingShares_def recordFlowEvent_def chain_shows_def
        simp del: append.simps split: sum.splits)
qed

text \<open>Expiring payments only frees reserved yield.\<close>

definition released_position :: "WalletPosition \<Rightarrow> WalletPosition \<Rightarrow> bool" where
  "released_position p p' \<longleftrightarrow> (\<exists>n r. p' = p\<lparr>pos_reservedRawUsdc := pos_reservedRawUsdc p - r, pos_version := n\<rparr> \<and> 0 \<le> r)"

lemma released_covered: "released_position p p' \<Longrightarrow> principal_covered p v g f \<Longrightarrow> principal_covered p' v g f"
  by (auto simp: released_position_def principal_covered_def)

lemma realize_released:
  "released_position p p' \<Longrightarrow> realize_prepared E k w a p L' \<Longrightarrow> realize_prepared E k w a p' L'"
  unfolding realize_prepared_def using released_covered[of p p']
  by (elim exE conjE, intro exI conjI; assumption?) (auto simp: released_position_def)

lemma expire_releases:
  assumes bal: "reservations_balanced L" and w: "plain w" and p: "getPosition L w v = Some p"
  shows "runs (expirePreparedPaymentsForLockedPosition now w v) L
    (\<lambda>_ M. \<exists>p'. getPosition M w v = Some p' \<and> released_position p p') (\<lambda>_ _. False)"
proof -
  let ?xs = "expiredPreparedPayments now L w v"
  have "x \<in> set ?xs \<Longrightarrow> 0 \<le> pay_reservationRawUsdc x" for x
    using balanced_store[OF bal]
    by (auto simp: expiredPreparedPayments_def listPaymentsForPosition_def store_ok_def)
  then have nonneg: "0 \<le> (\<Sum>x\<leftarrow>?xs. pay_reservationRawUsdc x)" by (intro sum_list_nonneg) auto
  have same: "released_position p p"
    unfolding released_position_def by (intro exI[of _ "pos_version p"] exI[of _ 0]) simp
  have less: "released_position p (p\<lparr>pos_reservedRawUsdc := pos_reservedRawUsdc p - r, pos_version := n\<rparr>)"
    if "0 \<le> r" for r n using that unfolding released_position_def by blast
  show ?thesis
    by (rule runs_mono[OF expire_outcome[OF bal w]])
      (use p nonneg in \<open>auto simp: Let_def same less split: if_splits\<close>)
qed

text \<open>
  C21: a prepared realize is paid out of yield alone. When \<open>prepareWithdrawal\<close> with
  \<open>purpose: yield_realize\<close> returns, the position as it now stands covers, at the value the
  chain shows, its principal, its safety buffer, every reservation, the fee debt and the
  realize overhead after the gross amount is withdrawn; that amount fits the vault's instant
  liquidity, and no more shares may be redeemed than the wallet holds.
\<close>

theorem realize_takes_yield_only:
  assumes "wired K E" and "reservations_balanced L" and "pw_yieldRealize x"
    and "prepareWithdrawal E now uuid x L = (Inr j, L')"
  shows "\<exists>a p. parsePositiveRawUnits (pw_amountRawUsdc x) ''amountRawUsdc'' = Inr a \<and>
    getPosition L' (pw_wallet x) (vc_address (vf_vault E)) = Some p \<and>
    realize_prepared E (''wdr_'' @ uuid) (pw_wallet x) a p L'"
proof -
  let ?w = "pw_wallet x" and ?v = "vc_address (vf_vault E)"
  let ?Q = "\<lambda>a L'. \<exists>p. getPosition L' ?w ?v = Some p \<and> realize_prepared E (''wdr_'' @ uuid) ?w a p L'"
  obtain config nowMs uid where mandates: "vf_mandates E = map_option (\<lambda>M. mandateOps M nowMs uid) config"
    using assms(1) by (auto simp: wired_def)
  note gate = guard.gates_withdrawal[OF mandates]
  have commit: "runs (commitWithdrawal E now uuid ?w a x auth p) M (\<lambda>_. ?Q a) (\<lambda>_ _. True)"
    if "getPosition M ?w ?v = Some p'" "released_position p p'" for a auth p p' M
    by (rule runs_mono[OF commit_realize[OF assms(3)]])
      (use that realize_released[OF that(2)] in \<open>auto simp: getPosition_def\<close>)
  have tail: "runs (bindA (expireStaleFlows now ?w ?v) (\<lambda>_. bindA (assertNoPendingFlow now ?w ?v) (\<lambda>_.
      bindA (authorizeWithdrawalFlow E ?w a x) (\<lambda>auth. commitWithdrawal E now uuid ?w a x auth p)))) M
      (\<lambda>_. ?Q a) (\<lambda>_ _. True)"
    if M: "reservations_balanced M" "getPosition M ?w ?v = Some p'" "released_position p p'" for a p p' M
  proof (rule runs_seq[OF expire_stale[OF balanced_flows_ok[OF M(1)]]])
    fix r N
    assume "flow_progress M N \<and> stale_free now ?w ?v N \<and> same_accounts M N \<and> only_closes M N"
    then have N: "getPosition N ?w ?v = Some p'" using M(2) by (simp add: getPosition_def)
    have "runs (bindA (authorizeWithdrawalFlow E ?w a x) (\<lambda>auth. commitWithdrawal E now uuid ?w a x auth p)) N
      (\<lambda>_. ?Q a) (\<lambda>_ _. True)"
      by (rule runs_seq[OF gate], rule commit[OF _ M(3)]) (simp_all add: gated_frame(6) N)
    then show "runs (bindA (assertNoPendingFlow now ?w ?v) (\<lambda>_. bindA (authorizeWithdrawalFlow E ?w a x)
      (\<lambda>auth. commitWithdrawal E now uuid ?w a x auth p))) N (\<lambda>_. ?Q a) (\<lambda>_ _. True)"
      unfolding runs_bind[where m = "assertNoPendingFlow _ _ _"]
      by (auto simp: assertNoPendingFlow_def checkR_def simp del: runs_bind)
  qed simp
  have "runs (prepareWithdrawalSection E now uuid ?w a x) L (\<lambda>_. ?Q a) (\<lambda>_ _. True)" if "plain ?w" for a
  proof -
    have "runs (bindA (expirePreparedPaymentsForLockedPosition now ?w ?v) (\<lambda>_. bindA (assertNoLivePayments ?w ?v) (\<lambda>_.
      bindA (expireStaleFlows now ?w ?v) (\<lambda>_. bindA (assertNoPendingFlow now ?w ?v) (\<lambda>_.
      bindA (authorizeWithdrawalFlow E ?w a x) (\<lambda>auth. commitWithdrawal E now uuid ?w a x auth p)))))) L
      (\<lambda>_. ?Q a) (\<lambda>_ _. True)" if p: "getPosition L ?w ?v = Some p" for p
      by (rule runs_seq[OF runs_conj[OF expire_releases[OF assms(2) \<open>plain ?w\<close> p] expire_keeps[OF assms(2) \<open>plain ?w\<close>]]])
        (auto intro!: runs_seq[OF runs_live_payments] tail simp del: runs_bind append.simps)
    then show ?thesis
      unfolding prepareWithdrawalSection_def Let_def runs_bind[where m = "readA _"]
      by (auto simp: requireSignerReadyPosition_def simp del: runs_bind split: sum.splits option.splits if_splits)
  qed
  then have "runs (prepareWithdrawal E now uuid x) L
      (\<lambda>_ L'. \<exists>a. parsePositiveRawUnits (pw_amountRawUsdc x) ''amountRawUsdc'' = Inr a \<and> ?Q a L') (\<lambda>_ _. True)"
    by (auto simp: prepareWithdrawal_def valid_address_plain intro!: lock.runs_lock split: sum.splits)
  then show ?thesis using runs_InrD assms(4) by fastforce
qed

definition realize_input :: PrepareWithdrawalInput where
  "realize_input = run_withdrawal_input\<lparr>pw_yieldRealize := True, pw_payment := Some
     \<lparr>pb_payTo = sample_seller, pb_amountRawUsdc = ''1000'', pb_resourceUrlHash = ''hash'', pb_method = ''GET''\<rparr>\<rparr>"

definition sample_ledger :: ledger where
  "sample_ledger = savePosition sample_position empty_ledger"

lemma sample_ledger_simps [simp]:
  "reservations_balanced sample_ledger" "getPosition sample_ledger sample_wallet sample_vault = Some sample_position"
  "listPaymentsForPosition sample_ledger w v = []" "listDepositsForPosition sample_ledger w v = []"
  "listWithdrawalsForPosition sample_ledger w v = []"
proof -
  have "reserved empty_ledger sample_wallet sample_vault = 0" by (simp add: reserved_def)
  moreover have "pos_reservedRawUsdc sample_position = 0" by (simp add: sample_position_def)
  ultimately show "reservations_balanced sample_ledger"
    unfolding sample_ledger_def by (intro balanced_position) (simp_all add: balanced_empty)
qed (simp_all add: sample_ledger_def listPaymentsForPosition_def listDepositsForPosition_def
    listWithdrawalsForPosition_def savePosition_def empty_ledger_def map_values_def getPosition_def)


lemma realize_gross: "grossWithdrawFor True 1000 sample_context = Inr 1011"
proof -
  have "startGross 1005 50 3 = Inr 1011" by (simp add: startGross_def ceilDiv_def FULL_BPS_def)
  then have "grossWithdrawForNetTarget 1005 50 3 = Inr 1011"
    using gross_eq[of 50 1005 3] by (simp add: vaultR_def FULL_BPS_def)
  then show ?thesis
    by (simp add: grossWithdrawFor_def withdrawTarget_def YIELD_REALIZE_ROUNDING_RAW_USDC_def WITHDRAWAL_ROUNDING_RAW_USDC_def)
qed

lemma realize_evaluated: "assertYieldOnly sample_flow_env sample_position sample_shares sample_context 1000 1011 = Inr ()"
  by (simp add: assertYieldOnly_def chainPosition_def evaluatePaymentBudget_def computeBudgetSnapshot_def
      computePositionValueRawUsdc_def mulDivFloor_def sharesToRedeemRaw_def ceilDiv_def RATE_SCALE_def clampToZero_def
      minBigInt_def maxBigInt_def Let_def sample_position_def)

lemma realize_json:
  "\<exists>j. objR (withdrawalFields (newWithdrawalIntent sample_flow_env 0 ''1'' sample_wallet 1000 realize_input
      noAuthorization sample_context 1011 1011 sample_wallet sample_built sample_position) @
    [(''signingIntent'', withdrawalSigningIntent sample_flow_env False (newWithdrawalIntent sample_flow_env 0 ''1''
      sample_wallet 1000 realize_input noAuthorization sample_context 1011 1011 sample_wallet sample_built
      sample_position))]) = Inr j"
  by (simp add: newWithdrawalIntent_def withdrawalFields_def withdrawalSigningIntent_def realize_input_def
      run_withdrawal_input_def objR_def raw_Inr opt_raw_def sample_position_def)

theorem realize_takes_yield_only_witness:
  "\<exists>j L' i. prepareWithdrawal sample_flow_env 0 ''1'' realize_input sample_ledger = (Inr j, L') \<and>
     getWithdrawal L' ''wdr_1'' = Some i \<and> wdr_purpose i = yield_realize \<and> wdr_requestedWithdrawRawUsdc i = 1000"
proof -
  have ready: "requireSignerReadyPosition sample_flow_env (Some sample_position) = Inr sample_position"
    by (simp add: requireSignerReadyPosition_def sample_position_def)
  have shares: "pos_totalSharesRaw sample_position = 2000000" by (simp add: sample_position_def)
  have input: "pw_wallet realize_input = sample_wallet" "pw_amountRawUsdc realize_input = JsStr ''1000''"
    "pw_yieldRealize realize_input"
    by (simp_all add: realize_input_def run_withdrawal_input_def)
  obtain j L' where run: "prepareWithdrawal sample_flow_env 0 ''1'' realize_input sample_ledger = (Inr j, L')"
    using realize_gross realize_evaluated realize_json input shares
    by (auto simp: prepareWithdrawal_def parsePositiveRawUnits_def prepareWithdrawalSection_def ready expireStaleFlows_def
        assertNoPendingFlow_def expirePreparedPaymentsForLockedPosition_def expiredPreparedPayments_def
        assertNoLivePayments_def activeSubmittedPayments_def pendingVaultFlows_def authorizeWithdrawalFlow_def
        commitWithdrawal_def storePreparedWithdrawal_def requireMatchingShares_def storeWithdrawal_def ceilDiv_def
        RATE_SCALE_def minBigInt_def Let_def action_defs checkR_def withLock_Inr)
  from realize_takes_yield_only[OF wired_sample sample_ledger_simps(1) input(3) run] obtain a where
    a: "parsePositiveRawUnits (JsStr ''1000'') ''amountRawUsdc'' = Inr a"
    "\<exists>p. realize_prepared sample_flow_env (''wdr_'' @ ''1'') sample_wallet a p L'"
    unfolding input by blast
  moreover have "a = 1000" using a(1) by (simp add: parsePositiveRawUnits_def)
  ultimately show ?thesis using run by (auto simp: realize_prepared_def)
qed

end
