(* ===== verification/Mandate_Service.thy ===== *)
theory Mandate_Service
  imports Mandate_Enforcement
begin

text \<open>
  The management half of \<open>SpendingMandateService\<close>
  (\<open>src/src/domain/spending-mandate-service.ts\<close>): registering, revoking and recovering a
  mandate, deciding approvals, and the setup and owner sessions. \<open>withMandateLock\<close> is the
  wallet's mandate lock around the wallet-vault lock; a session call runs under its session lock
  and is one section here, since session rows are only written under that lock.
\<close>

definition RECOVERY_GRACE_MS :: int where "RECOVERY_GRACE_MS = 259200000"
definition SETUP_SESSION_TTL_MS :: int where "SETUP_SESSION_TTL_MS = 600000"
definition DEFAULT_MANDATE_TTL_MS :: int where "DEFAULT_MANDATE_TTL_MS = 365 * DAY_MS"

section \<open>Views\<close>

definition SpendingMandateStatus_string :: "SpendingMandateStatus \<Rightarrow> string" where
  "SpendingMandateStatus_string s = (case s of mandate_active \<Rightarrow> ''active''
     | mandate_revoked \<Rightarrow> ''revoked'' | recovery_pending \<Rightarrow> ''recovery_pending'')"

definition EffectiveStatus_string :: "EffectiveStatus \<Rightarrow> string" where
  "EffectiveStatus_string s = (case s of eff_active \<Rightarrow> ''active'' | eff_expired \<Rightarrow> ''expired''
     | eff_revoked \<Rightarrow> ''revoked'' | eff_recovery_pending \<Rightarrow> ''recovery_pending''
     | eff_recovery_elapsed \<Rightarrow> ''recovery_elapsed'')"

definition SpendingApprovalStatus_string :: "SpendingApprovalStatus \<Rightarrow> string" where
  "SpendingApprovalStatus_string s = (case s of approval_pending \<Rightarrow> ''pending''
     | approval_approved \<Rightarrow> ''approved'' | approval_denied \<Rightarrow> ''denied''
     | approval_expired \<Rightarrow> ''expired'' | approval_consumed \<Rightarrow> ''consumed'')"

definition serializeApproval :: "SpendingApproval \<Rightarrow> json" where
  "serializeApproval a = obj
    [(''approvalId'', JString (ap_approvalId a)),
     (''wallet'', JString (ap_wallet a)),
     (''bindingHash'', JString (ap_bindingHash a)),
     (''binding'', ap_bindingJson a),
     (''mandateHash'', JString (ap_mandateHash a)),
     (''status'', JString (SpendingApprovalStatus_string (ap_status a))),
     (''requestedAtMs'', JNumber (ap_requestedAtMs a)),
     (''expiresAtMs'', JNumber (ap_expiresAtMs a)),
     (''decidedAtMs'', opt_number (ap_decidedAtMs a)),
     (''consumedAtMs'', opt_number (ap_consumedAtMs a)),
     (''consumedByWithdrawalId'', opt_string (ap_consumedByWithdrawalId a))]"

section \<open>Finding mandates\<close>

definition requireMandate :: "string \<Rightarrow> string \<Rightarrow> ledger \<Rightarrow> SpendingMandateRecord result" where
  "requireMandate wallet vault L = (case getSpendingMandate L wallet vault of
       None \<Rightarrow> Inl (notFound ''mandate_not_found'') | Some r \<Rightarrow> Inr r)"

definition requireMandateByHash :: "string \<Rightarrow> string \<Rightarrow> ledger \<Rightarrow> SpendingMandateRecord result" where
  "requireMandateByHash wallet h L = (case getSpendingMandateByHash L wallet h of
       None \<Rightarrow> Inl (notFound ''mandate_not_found'') | Some r \<Rightarrow> Inr r)"

definition withMandateLock :: "mandate_env \<Rightarrow> (ledger, 'a) action \<Rightarrow> (ledger, 'a) action" where
  "withMandateLock M m = withLock (me_ledger M) (withLock (me_ledger M) m)"

definition recordMandateEvent ::
  "int \<Rightarrow> string \<Rightarrow> string \<Rightarrow> SpendingMandateEventType \<Rightarrow> string \<Rightarrow> json \<Rightarrow> (ledger, unit) action" where
  "recordMandateEvent nowMs uuid wallet eventType mandateHash document =
     modifyA (saveSpendingMandateEvent \<lparr>mev_eventId = ''mev_'' @ uuid, mev_wallet = wallet,
       mev_eventType = eventType, mev_mandateHash = mandateHash, mev_documentJson = document,
       mev_createdAtMs = nowMs\<rparr>)"

definition assertOwnerSignature ::
  "mandate_env \<Rightarrow> SpendingMandateRecord \<Rightarrow> string \<Rightarrow> string \<Rightarrow> string \<Rightarrow> unit result" where
  "assertOwnerSignature M r message signature code =
     requireSignature (verifyOwnerMessageSignature M (md_ownerAuth r) (md_ownerCredential r) message signature)
       (forbidden code)"

definition ownerStateOf :: "SpendingMandateRecord \<Rightarrow> OwnerManagement" where
  "ownerStateOf r = \<lparr>om_mandateHash = md_mandateHash r, om_status = md_status r,
     om_recoveryAtMs = md_recoveryAtMs r, om_revokedAtMs = md_revokedAtMs r\<rparr>"

definition assertOwnerSessionCurrent :: "SpendingMandateRecord option \<Rightarrow> OwnerManagement \<Rightarrow> unit result" where
  "assertOwnerSessionCurrent found expected =
     checkR (case found of None \<Rightarrow> False | Some r \<Rightarrow> ownerStateOf r = expected) (conflict ''owner_session_stale'')"

definition assertExpectedOwner :: "SpendingMandateRecord \<Rightarrow> OwnerManagement option \<Rightarrow> unit result" where
  "assertExpectedOwner r expected = (case expected of
       None \<Rightarrow> Inr () | Some x \<Rightarrow> assertOwnerSessionCurrent (Some r) x)"

section \<open>Registration\<close>

text \<open>Who may replace a mandate that is still alive or was revoked.\<close>

definition assertReplaceAuthorized ::
  "mandate_env \<Rightarrow> SpendingMandateRecord \<Rightarrow> SpendingMandateDocument \<Rightarrow> string \<Rightarrow> int \<Rightarrow> unit result" where
  "assertReplaceAuthorized M existing d newHash nowMs =
     (let status = effectiveStatus existing nowMs in
      if status = eff_expired \<or> status = eff_recovery_elapsed then Inr ()
      else if oc_publicKey (md_ownerCredential existing) = oc_publicKey (sd_ownerCredential d) then Inr ()
      else if status = eff_revoked then Inl (forbidden ''mandate_revoked'')
      else case sd_currentOwnerSignature d of
          None \<Rightarrow> Inl (forbidden ''owner_rotation_requires_current_owner'')
        | Some s \<Rightarrow> requireSignature (verifyOwnerMessageSignature M (md_ownerAuth existing)
            (md_ownerCredential existing) (mandateSigningMessage newHash) s)
            (forbidden ''owner_rotation_requires_current_owner''))"

definition checkReplacement ::
  "mandate_env \<Rightarrow> SpendingMandateRecord option \<Rightarrow> SpendingMandateDocument \<Rightarrow> string \<Rightarrow> int \<Rightarrow> OwnerManagement option \<Rightarrow>
   unit result" where
  "checkReplacement M found d newHash nowMs expected =
     bindR (case expected of
         None \<Rightarrow> Inr ()
       | Some x \<Rightarrow>
           bindR (assertOwnerSessionCurrent found x) (\<lambda>_.
           checkR (case found of None \<Rightarrow> False | Some r \<Rightarrow> md_ownerAuth r = sd_ownerAuth d \<and>
               canonicalJson (ownerCredentialJson (md_ownerCredential r))
                 = canonicalJson (ownerCredentialJson (sd_ownerCredential d)))
             (forbidden ''owner_session_credential_mismatch''))) (\<lambda>_.
     case found of
       None \<Rightarrow> Inr ()
     | Some r \<Rightarrow>
         bindR (checkR (md_issuedAtMs r < sd_issuedAtMs d) (conflict ''mandate_replay_rejected'')) (\<lambda>_.
         assertReplaceAuthorized M r d newHash nowMs))"

definition newMandateRecord :: "string \<Rightarrow> string \<Rightarrow> SpendingMandateDocument \<Rightarrow> string \<Rightarrow> SpendingMandateRecord" where
  "newMandateRecord wallet vault d mandateHash =
     \<lparr>md_wallet = wallet, md_vault = vault, md_documentJson = documentJson d, md_mandateHash = mandateHash,
      md_ownerAuth = sd_ownerAuth d, md_ownerCredential = sd_ownerCredential d,
      md_enforcementMode = sd_enforcementMode d, md_issuedAtMs = sd_issuedAtMs d,
      md_expiresAtMs = sd_expiresAtMs d, md_status = mandate_active, md_recoveryAtMs = None,
      md_revokedAtMs = None, md_revokeJson = None\<rparr>"

record RegisterMandateInput =
  rm_wallet :: string
  rm_vault :: string
  rm_document :: SpendingMandateDocument
  rm_agentCosign :: AgentCosign
  rm_provenance :: "json option"
  rm_expectedOwnerState :: "OwnerManagement option"

definition issueInitialDepositApproval ::
  "mandate_env \<Rightarrow> int \<Rightarrow> string \<Rightarrow> RegisterMandateInput \<Rightarrow> string \<Rightarrow> bool \<Rightarrow> (ledger, SpendingApproval option) action" where
  "issueInitialDepositApproval M nowMs uuid x mandateHash first =
     (case (first, sd_initialDepositRawUsdc (rm_document x)) of
        (True, Some amount) \<Rightarrow>
          let a = newApproval M uuid (rm_wallet x) mandateHash (DepositBinding amount) approval_approved
                (Some (obj [(''source'', JString ''mandate_initial_deposit''), (''mandateHash'', JString mandateHash)]))
                (Some nowMs) nowMs in
          bindA (modifyA (saveSpendingApproval a)) (\<lambda>_. returnA (Some a))
      | _ \<Rightarrow> returnA None)"

definition registerMandateSection ::
  "mandate_env \<Rightarrow> int \<Rightarrow> string \<Rightarrow> string \<Rightarrow> RegisterMandateInput \<Rightarrow> string \<Rightarrow>
   (ledger, SpendingMandateRecord \<times> SpendingApproval option) action" where
  "registerMandateSection M nowMs uuid evUuid x mandateHash =
     (let d = rm_document x in
      bindA (getsA (\<lambda>L. getSpendingMandate L (rm_wallet x) (rm_vault x))) (\<lambda>existing.
      bindA (liftR (checkReplacement M existing d mandateHash nowMs (rm_expectedOwnerState x))) (\<lambda>_.
      let r = newMandateRecord (rm_wallet x) (rm_vault x) d mandateHash in
      bindA (modifyA (saveSpendingMandate r)) (\<lambda>_.
      bindA (recordMandateEvent nowMs evUuid (rm_wallet x)
        (case existing of None \<Rightarrow> ev_registered | Some _ \<Rightarrow> ev_replaced) mandateHash
        (case rm_provenance x of None \<Rightarrow> documentJson d
          | Some p \<Rightarrow> obj [(''document'', documentJson d), (''provenance'', p)])) (\<lambda>_.
      bindA (issueInitialDepositApproval M nowMs uuid x mandateHash (existing = None)) (\<lambda>approval.
      returnA (r, approval)))))))"

definition registerMandate ::
  "mandate_env \<Rightarrow> int \<Rightarrow> string \<Rightarrow> string \<Rightarrow> RegisterMandateInput \<Rightarrow>
   (ledger, SpendingMandateRecord \<times> SpendingApproval option) action" where
  "registerMandate M nowMs uuid evUuid x =
     bindA (liftR (validateMandateDocument M (rm_document x) (rm_wallet x) (rm_vault x) nowMs (rm_agentCosign x)))
       (\<lambda>(policy, mandateHash). withMandateLock M (registerMandateSection M nowMs uuid evUuid x mandateHash))"

definition initialDepositView :: "SpendingApproval option \<Rightarrow> json" where
  "initialDepositView a = (case a of None \<Rightarrow> JNull | Some x \<Rightarrow> obj
     [(''approvalId'', JString (ap_approvalId x)), (''expiresAtMs'', JNumber (ap_expiresAtMs x))])"

definition registrationView :: "SpendingMandateRecord \<times> SpendingApproval option \<Rightarrow> json" where
  "registrationView p = (case p of (r, approval) \<Rightarrow> obj
     [(''wallet'', JString (md_wallet r)), (''mandateHash'', JString (md_mandateHash r)),
      (''status'', JString (SpendingMandateStatus_string (md_status r))),
      (''issuedAtMs'', JNumber (md_issuedAtMs r)), (''expiresAtMs'', JNumber (md_expiresAtMs r)),
      (''policySource'', JString (''mandate:'' @ md_mandateHash r)),
      (''initialDepositApproval'', initialDepositView approval)])"

definition getMandate :: "int \<Rightarrow> string \<Rightarrow> string \<Rightarrow> (ledger, json) action" where
  "getMandate nowMs wallet vault =
     bindA (readA (requireMandate wallet vault)) (\<lambda>r.
     readA (\<lambda>L. objR
       [(''wallet'', Inr (JString (md_wallet r))),
        (''mandate'', Inr (md_documentJson r)),
        (''mandateHash'', Inr (JString (md_mandateHash r))),
        (''status'', Inr (JString (SpendingMandateStatus_string (md_status r)))),
        (''effectiveStatus'', Inr (JString (EffectiveStatus_string (effectiveStatus r nowMs)))),
        (''recoveryAtMs'', Inr (opt_number (md_recoveryAtMs r))),
        (''revokedAtMs'', Inr (opt_number (md_revokedAtMs r))),
        (''usage'', objR
          [(''dailyApiSpendRawUsdc'', raw (confirmedRealizeSum L wallet vault (nowMs - DAY_MS))),
           (''dailyDepositRawUsdc'', raw (confirmedDepositSum L wallet vault (nowMs - DAY_MS)))])]))"

section \<open>Revocation and recovery\<close>

text \<open>A mandate change returns the hash it acted on and the status it left.\<close>

record OwnerActionInput =
  oa_wallet :: string
  oa_mandateHash :: string
  oa_signedAtMs :: int
  oa_signature :: string
  oa_expectedOwnerState :: "OwnerManagement option"

definition revokeJson :: "OwnerActionInput \<Rightarrow> json" where
  "revokeJson x = obj [(''mandateHash'', JString (oa_mandateHash x)),
     (''signedAtMs'', JNumber (oa_signedAtMs x)), (''signature'', JString (oa_signature x))]"

definition revokedRecord :: "SpendingMandateRecord \<Rightarrow> OwnerActionInput \<Rightarrow> int \<Rightarrow> SpendingMandateRecord" where
  "revokedRecord r x nowMs = r\<lparr>md_status := mandate_revoked, md_recoveryAtMs := None,
     md_revokedAtMs := Some nowMs, md_revokeJson := Some (revokeJson x)\<rparr>"

definition checkRevoke :: "mandate_env \<Rightarrow> SpendingMandateRecord \<Rightarrow> OwnerActionInput \<Rightarrow> int \<Rightarrow> unit result" where
  "checkRevoke M r x nowMs =
     bindR (assertFreshSignedAt (oa_signedAtMs x) nowMs) (\<lambda>_.
     assertOwnerSignature M r (revokeSigningMessage (oa_mandateHash x) (oa_signedAtMs x)) (oa_signature x)
       ''revoke_signature_invalid'')"

definition revokeMandateSection ::
  "mandate_env \<Rightarrow> int \<Rightarrow> string \<Rightarrow> OwnerActionInput \<Rightarrow> (ledger, string \<times> SpendingMandateStatus) action" where
  "revokeMandateSection M nowMs evUuid x =
     bindA (readA (requireMandateByHash (oa_wallet x) (oa_mandateHash x))) (\<lambda>r.
     bindA (liftR (assertExpectedOwner r (oa_expectedOwnerState x))) (\<lambda>_.
     bindA (assertA (md_mandateHash r = oa_mandateHash x) (conflict ''mandate_hash_mismatch'')) (\<lambda>_.
     if md_status r = mandate_revoked then returnA (md_mandateHash r, mandate_revoked)
     else
       bindA (liftR (checkRevoke M r x nowMs)) (\<lambda>_.
       bindA (modifyA (saveSpendingMandate (revokedRecord r x nowMs))) (\<lambda>_.
       bindA (recordMandateEvent nowMs evUuid (oa_wallet x) ev_revoked (md_mandateHash r) (revokeJson x)) (\<lambda>_.
       returnA (md_mandateHash r, mandate_revoked)))))))"

definition revokeMandate ::
  "mandate_env \<Rightarrow> int \<Rightarrow> string \<Rightarrow> OwnerActionInput \<Rightarrow> (ledger, string \<times> SpendingMandateStatus) action" where
  "revokeMandate M nowMs evUuid x = withMandateLock M (revokeMandateSection M nowMs evUuid x)"

definition scheduleRecoverySection ::
  "int \<Rightarrow> string \<Rightarrow> string \<Rightarrow> string \<Rightarrow> (ledger, string \<times> int option) action" where
  "scheduleRecoverySection nowMs evUuid wallet vault =
     bindA (readA (requireMandate wallet vault)) (\<lambda>r.
     bindA (assertA (md_status r \<noteq> mandate_revoked) (conflict ''mandate_revoked'')) (\<lambda>_.
     bindA (assertA (effectiveStatus r nowMs \<noteq> eff_expired) (conflict ''mandate_expired'')) (\<lambda>_.
     if md_status r = recovery_pending \<and> md_recoveryAtMs r \<noteq> None then
       returnA (md_mandateHash r, md_recoveryAtMs r)
     else
       let recoveryAtMs = nowMs + RECOVERY_GRACE_MS in
       bindA (modifyA (saveSpendingMandate (r\<lparr>md_status := recovery_pending,
         md_recoveryAtMs := Some recoveryAtMs\<rparr>))) (\<lambda>_.
       bindA (recordMandateEvent nowMs evUuid wallet ev_recovery_scheduled (md_mandateHash r)
         (obj [(''recoveryAtMs'', JNumber recoveryAtMs)])) (\<lambda>_.
       returnA (md_mandateHash r, Some recoveryAtMs))))))"

definition scheduleRecoveryRevoke ::
  "mandate_env \<Rightarrow> int \<Rightarrow> string \<Rightarrow> string \<Rightarrow> string option \<Rightarrow> (ledger, string \<times> int option) action" where
  "scheduleRecoveryRevoke M nowMs evUuid wallet vault =
     withMandateLock M (scheduleRecoverySection nowMs evUuid wallet (orElse vault (me_defaultVault M)))"

definition checkCancelRecovery :: "mandate_env \<Rightarrow> SpendingMandateRecord \<Rightarrow> OwnerActionInput \<Rightarrow> int \<Rightarrow> unit result" where
  "checkCancelRecovery M r x nowMs =
     bindR (checkR (effectiveStatus r nowMs \<noteq> eff_expired) (conflict ''mandate_expired'')) (\<lambda>_.
     bindR (case (md_status r, md_recoveryAtMs r) of
         (recovery_pending, Some t) \<Rightarrow> checkR (nowMs < t) (conflict ''recovery_elapsed'')
       | _ \<Rightarrow> Inl (conflict ''recovery_not_pending'')) (\<lambda>_.
     bindR (checkR (md_mandateHash r = oa_mandateHash x) (conflict ''mandate_hash_mismatch'')) (\<lambda>_.
     bindR (assertFreshSignedAt (oa_signedAtMs x) nowMs) (\<lambda>_.
     assertOwnerSignature M r (recoveryCancelSigningMessage (oa_mandateHash x) (oa_signedAtMs x))
       (oa_signature x) ''recovery_cancel_signature_invalid''))))"

definition cancelRecoverySection ::
  "mandate_env \<Rightarrow> int \<Rightarrow> string \<Rightarrow> OwnerActionInput \<Rightarrow> (ledger, string \<times> SpendingMandateStatus) action" where
  "cancelRecoverySection M nowMs evUuid x =
     bindA (readA (requireMandateByHash (oa_wallet x) (oa_mandateHash x))) (\<lambda>r.
     bindA (liftR (assertExpectedOwner r (oa_expectedOwnerState x))) (\<lambda>_.
     bindA (liftR (checkCancelRecovery M r x nowMs)) (\<lambda>_.
     bindA (modifyA (saveSpendingMandate (r\<lparr>md_status := mandate_active, md_recoveryAtMs := None\<rparr>))) (\<lambda>_.
     bindA (recordMandateEvent nowMs evUuid (oa_wallet x) ev_recovery_cancelled (md_mandateHash r)
       (obj [(''cancelledAtMs'', JNumber nowMs)])) (\<lambda>_.
     returnA (md_mandateHash r, mandate_active))))))"

definition cancelRecoveryRevoke ::
  "mandate_env \<Rightarrow> int \<Rightarrow> string \<Rightarrow> OwnerActionInput \<Rightarrow> (ledger, string \<times> SpendingMandateStatus) action" where
  "cancelRecoveryRevoke M nowMs evUuid x = withMandateLock M (cancelRecoverySection M nowMs evUuid x)"

section \<open>Deciding approvals\<close>

record DecideApprovalInput =
  da_approvalId :: string
  da_approve :: bool
  da_signedAtMs :: int
  da_signature :: string

definition decisionJson :: "DecideApprovalInput \<Rightarrow> string \<Rightarrow> json" where
  "decisionJson x mandateHash = obj
     [(''decision'', JString (if da_approve x then ''approve'' else ''deny'')),
      (''signedAtMs'', JNumber (da_signedAtMs x)), (''signature'', JString (da_signature x)),
      (''mandateHash'', JString mandateHash)]"

definition checkDecision ::
  "mandate_env \<Rightarrow> SpendingMandateRecord \<Rightarrow> SpendingApproval \<Rightarrow> DecideApprovalInput \<Rightarrow> int \<Rightarrow> unit result" where
  "checkDecision M r current x nowMs =
     bindR (checkR (ap_status current \<noteq> approval_expired) (conflict ''approval_expired'')) (\<lambda>_.
     bindR (checkR (ap_status current = approval_pending) (conflict ''approval_already_decided'')) (\<lambda>_.
     bindR (checkR (effectiveStatus r nowMs = eff_active \<or> effectiveStatus r nowMs = eff_recovery_pending)
       (conflict ''mandate_not_active'')) (\<lambda>_.
     bindR (assertFreshSignedAt (da_signedAtMs x) nowMs) (\<lambda>_.
     assertOwnerSignature M r (approvalSigningMessage (da_approvalId x) (da_approve x)
         (ap_bindingHash current) (da_signedAtMs x)) (da_signature x) ''approval_signature_invalid''))))"

definition decidedApproval :: "SpendingApproval \<Rightarrow> DecideApprovalInput \<Rightarrow> string \<Rightarrow> int \<Rightarrow> SpendingApproval" where
  "decidedApproval current x mandateHash nowMs = current\<lparr>
     ap_status := (if da_approve x then approval_approved else approval_denied),
     ap_decidedAtMs := Some nowMs, ap_decisionJson := Some (decisionJson x mandateHash)\<rparr>"

definition decideApprovalSection ::
  "mandate_env \<Rightarrow> int \<Rightarrow> SpendingApproval \<Rightarrow> DecideApprovalInput \<Rightarrow> (ledger, SpendingApproval) action" where
  "decideApprovalSection M nowMs located x =
     bindA (readA (requireMandateByHash (ap_wallet located) (ap_mandateHash located))) (\<lambda>r.
     bindA (getsA (\<lambda>L. getSpendingApproval L (da_approvalId x))) (\<lambda>found. case found of
       None \<Rightarrow> throwA (notFound ''approval_not_found'')
     | Some approval \<Rightarrow>
         bindA (expireIfStale approval nowMs) (\<lambda>current.
         bindA (liftR (checkDecision M r current x nowMs)) (\<lambda>_.
         let a = decidedApproval current x (md_mandateHash r) nowMs in
         bindA (modifyA (saveSpendingApproval a)) (\<lambda>_. returnA a)))))"

definition decideApproval :: "mandate_env \<Rightarrow> int \<Rightarrow> DecideApprovalInput \<Rightarrow> (ledger, json) action" where
  "decideApproval M nowMs x =
     bindA (getsA (\<lambda>L. getSpendingApproval L (da_approvalId x))) (\<lambda>found. case found of
       None \<Rightarrow> throwA (notFound ''approval_not_found'')
     | Some located \<Rightarrow>
         bindA (readA (requireMandateByHash (ap_wallet located) (ap_mandateHash located))) (\<lambda>_.
         bindA (withLock (me_ledger M) (decideApprovalSection M nowMs located x)) (\<lambda>a.
         returnA (serializeApproval a))))"

definition listApprovals ::
  "int \<Rightarrow> string \<Rightarrow> SpendingApprovalStatus option \<Rightarrow> string option \<Rightarrow> ledger \<Rightarrow> json list" where
  "listApprovals nowMs wallet status vault L =
     (let selected = (case vault of None \<Rightarrow> None | Some v \<Rightarrow> getSpendingMandate L wallet v) in
      map serializeApproval
        (filter (\<lambda>a. case status of None \<Rightarrow> True | Some s \<Rightarrow> ap_status a = s)
          (map (\<lambda>a. expiredView a nowMs)
            (filter (\<lambda>a. vault = None \<or> Some (ap_mandateHash a) = map_option md_mandateHash selected)
              (listSpendingApprovalsForWallet L wallet)))))"

definition getApprovalView :: "int \<Rightarrow> string \<Rightarrow> ledger \<Rightarrow> json result" where
  "getApprovalView nowMs approvalId L = (case getSpendingApproval L approvalId of
       None \<Rightarrow> Inl (notFound ''approval_not_found'')
     | Some a \<Rightarrow>
         let r = getSpendingMandateByHash L (ap_wallet a) (ap_mandateHash a); v = expiredView a nowMs in
         Inr (obj
           [(''approvalId'', JString (ap_approvalId v)), (''wallet'', JString (ap_wallet v)),
            (''vault'', opt_string (map_option md_vault r)), (''binding'', ap_bindingJson v),
            (''bindingHash'', JString (ap_bindingHash v)), (''mandateHash'', JString (ap_mandateHash v)),
            (''status'', JString (SpendingApprovalStatus_string (ap_status v))),
            (''requestedAtMs'', JNumber (ap_requestedAtMs v)), (''expiresAtMs'', JNumber (ap_expiresAtMs v)),
            (''decidedAtMs'', opt_number (ap_decidedAtMs v)),
            (''owner'', case r of None \<Rightarrow> JNull | Some m \<Rightarrow> obj
              [(''ownerAuth'', JString (OwnerAuth_string (md_ownerAuth m))),
               (''credentialId'', opt_string (oc_credentialId (md_ownerCredential m)))])]))"

definition getMandateSummary :: "mandate_env \<Rightarrow> int \<Rightarrow> string \<Rightarrow> string option \<Rightarrow> ledger \<Rightarrow> json result" where
  "getMandateSummary M nowMs wallet vault L =
     bindR (requireMandate wallet (orElse vault (me_defaultVault M)) L) (\<lambda>r. Inr (obj
       [(''wallet'', JString (md_wallet r)), (''vault'', JString (md_vault r)),
        (''mandateHash'', JString (md_mandateHash r)),
        (''status'', JString (EffectiveStatus_string (effectiveStatus r nowMs))),
        (''ownerAuth'', JString (OwnerAuth_string (md_ownerAuth r))),
        (''credentialId'', opt_string (oc_credentialId (md_ownerCredential r))),
        (''expiresAtMs'', JNumber (md_expiresAtMs r)), (''recoveryAtMs'', opt_number (md_recoveryAtMs r))]))"

end
