(* ===== verification/Mandate_Sessions.thy ===== *)
theory Mandate_Sessions
  imports Mandate_Service
begin

text \<open>
  The setup and owner sessions of \<open>SpendingMandateService\<close>
  (\<open>src/src/domain/spending-mandate-service.ts\<close>): the links an agent creates and an owner
  completes. A completed session must carry exactly the values it was created with.
\<close>

section \<open>Creating a session\<close>

text \<open>A partial policy: an outer \<open>None\<close> is an undefined property, which is not spread.\<close>

record MandatePolicyPatch =
  pp_perPaymentCapRawUsdc :: "string option"
  pp_dailyApiSpendCapRawUsdc :: "string option option"
  pp_monthlyApiSpendCapRawUsdc :: "string option option"
  pp_dailyDepositCapRawUsdc :: "string option option"
  pp_approvalThresholdRawUsdc :: "string option option"
  pp_allowedPayToAddresses :: "string list option option"
  pp_depositPolicy :: "PolicyMode option"
  pp_withdrawalPolicy :: "PolicyMode option"

definition emptyPatch :: MandatePolicyPatch where
  "emptyPatch = \<lparr>pp_perPaymentCapRawUsdc = None, pp_dailyApiSpendCapRawUsdc = None,
     pp_monthlyApiSpendCapRawUsdc = None, pp_dailyDepositCapRawUsdc = None,
     pp_approvalThresholdRawUsdc = None, pp_allowedPayToAddresses = None,
     pp_depositPolicy = None, pp_withdrawalPolicy = None\<rparr>"

definition patchPolicy :: "MandatePolicyWire \<Rightarrow> MandatePolicyPatch \<Rightarrow> MandatePolicyWire" where
  "patchPolicy w p =
     \<lparr>wp_perPaymentCapRawUsdc = orElse (pp_perPaymentCapRawUsdc p) (wp_perPaymentCapRawUsdc w),
      wp_dailyApiSpendCapRawUsdc = orElse (pp_dailyApiSpendCapRawUsdc p) (wp_dailyApiSpendCapRawUsdc w),
      wp_monthlyApiSpendCapRawUsdc = orElse (pp_monthlyApiSpendCapRawUsdc p) (wp_monthlyApiSpendCapRawUsdc w),
      wp_dailyDepositCapRawUsdc = orElse (pp_dailyDepositCapRawUsdc p) (wp_dailyDepositCapRawUsdc w),
      wp_approvalThresholdRawUsdc = orElse (pp_approvalThresholdRawUsdc p) (wp_approvalThresholdRawUsdc w),
      wp_allowedPayToAddresses = orElse (pp_allowedPayToAddresses p) (wp_allowedPayToAddresses w),
      wp_depositPolicy = orElse (pp_depositPolicy p) (wp_depositPolicy w),
      wp_withdrawalPolicy = orElse (pp_withdrawalPolicy p) (wp_withdrawalPolicy w)\<rparr>"

record CreateSetupSessionInput =
  cs_wallet :: string
  cs_vault :: string
  cs_policy :: MandatePolicyPatch
  cs_enforcementMode :: "EnforcementMode option"
  cs_mandateTtlMs :: "int option"
  cs_initialDepositRawUsdc :: "string option"
  cs_agentAuth :: "json option"
  cs_ownerManagement :: "OwnerManagement option"
  cs_mandateExpiresAtMs :: "int option"

definition checkInitialDeposit :: "MandatePolicy \<Rightarrow> string option \<Rightarrow> unit result" where
  "checkInitialDeposit policy initial = (case initial of
       None \<Rightarrow> Inr ()
     | Some text \<Rightarrow>
         (case js_BigInt text of
            None \<Rightarrow> Inl (JsError ''SyntaxError'')
          | Some amount \<Rightarrow> checkR (\<not> exceeds (mp_dailyDepositCapRawUsdc policy) amount)
              (badRequest ''initial_deposit_exceeds_daily_cap'')))"

definition newSetupSession ::
  "int \<Rightarrow> string \<Rightarrow> CreateSetupSessionInput \<Rightarrow> MandatePolicyWire \<Rightarrow> SetupSession" where
  "newSetupSession nowMs uuid x wire =
     \<lparr>ss_sessionId = ''st_'' @ uuid, ss_wallet = cs_wallet x, ss_vault = cs_vault x,
      ss_policyWire = policyWireJson wire, ss_enforcementMode = orElse (cs_enforcementMode x) subly,
      ss_mandateExpiresAtMs = orElse (cs_mandateExpiresAtMs x)
        (nowMs + orElse (cs_mandateTtlMs x) DEFAULT_MANDATE_TTL_MS),
      ss_initialDepositRawUsdc = cs_initialDepositRawUsdc x, ss_status = setup_pending,
      ss_createdAtMs = nowMs, ss_expiresAtMs = nowMs + SETUP_SESSION_TTL_MS, ss_completedAtMs = None,
      ss_mandateHash = None, ss_initialDepositApprovalId = None,
      ss_agentAuth = orElse (cs_agentAuth x) JNull, ss_ownerManagement = cs_ownerManagement x,
      ss_ownerAction = None\<rparr>"

definition createSetupSession ::
  "int \<Rightarrow> string \<Rightarrow> CreateSetupSessionInput \<Rightarrow> (ledger, SetupSession) action" where
  "createSetupSession nowMs uuid x =
     (let wire = patchPolicy defaultMandatePolicyWire (cs_policy x) in
      bindA (liftR (parseMandatePolicy wire)) (\<lambda>policy.
      bindA (liftR (checkInitialDeposit policy (cs_initialDepositRawUsdc x))) (\<lambda>_.
      let s = newSetupSession nowMs uuid x wire in
      bindA (modifyA (saveSetupSession s)) (\<lambda>_. returnA s))))"

definition appendToUrlBase :: "string \<Rightarrow> string \<Rightarrow> string" where
  "appendToUrlBase base i =
     (if base \<noteq> [] \<and> last base = CHR ''/'' then base @ i else base @ ''/'' @ i)"

definition sessionMembers :: "SetupSession \<Rightarrow> (string \<times> json) list" where
  "sessionMembers s =
     [(''sessionId'', JString (ss_sessionId s)), (''expiresAtMs'', JNumber (ss_expiresAtMs s)),
      (''wallet'', JString (ss_wallet s)), (''vault'', JString (ss_vault s)),
      (''policy'', ss_policyWire s),
      (''enforcementMode'', JString (EnforcementMode_string (ss_enforcementMode s))),
      (''mandateExpiresAtMs'', JNumber (ss_mandateExpiresAtMs s)),
      (''initialDepositRawUsdc'', opt_string (ss_initialDepositRawUsdc s))]"

definition setupUrl :: "mandate_env \<Rightarrow> SetupSession \<Rightarrow> string" where
  "setupUrl M s = appendToUrlBase (me_setupUrlBase M) (ss_sessionId s)"

definition createSetupSessionView :: "mandate_env \<Rightarrow> SetupSession \<Rightarrow> json" where
  "createSetupSessionView M s = obj (sessionMembers s @ [(''setupUrl'', JString (setupUrl M s))])"

text \<open>An owner session proposes the stored policy with the overrides laid over it.\<close>

definition fullPatch :: "MandatePolicyWire \<Rightarrow> MandatePolicyPatch" where
  "fullPatch w = \<lparr>pp_perPaymentCapRawUsdc = Some (wp_perPaymentCapRawUsdc w),
     pp_dailyApiSpendCapRawUsdc = Some (wp_dailyApiSpendCapRawUsdc w),
     pp_monthlyApiSpendCapRawUsdc = Some (wp_monthlyApiSpendCapRawUsdc w),
     pp_dailyDepositCapRawUsdc = Some (wp_dailyDepositCapRawUsdc w),
     pp_approvalThresholdRawUsdc = Some (wp_approvalThresholdRawUsdc w),
     pp_allowedPayToAddresses = Some (wp_allowedPayToAddresses w),
     pp_depositPolicy = Some (wp_depositPolicy w), pp_withdrawalPolicy = Some (wp_withdrawalPolicy w)\<rparr>"

definition ownerSessionInput ::
  "SpendingMandateRecord \<Rightarrow> MandatePolicyWire \<Rightarrow> string \<Rightarrow> string \<Rightarrow> MandatePolicyPatch \<Rightarrow> int option \<Rightarrow>
   json option \<Rightarrow> CreateSetupSessionInput" where
  "ownerSessionInput existing wire wallet vault patch ttl agentAuth =
     \<lparr>cs_wallet = wallet, cs_vault = vault, cs_policy = fullPatch (patchPolicy wire patch),
      cs_enforcementMode = Some (md_enforcementMode existing), cs_mandateTtlMs = ttl,
      cs_initialDepositRawUsdc = None, cs_agentAuth = agentAuth,
      cs_ownerManagement = Some (ownerStateOf existing),
      cs_mandateExpiresAtMs = (if ttl = None then Some (md_expiresAtMs existing) else None)\<rparr>"

definition createOwnerSession ::
  "mandate_env \<Rightarrow> int \<Rightarrow> string \<Rightarrow> string \<Rightarrow> string \<Rightarrow> MandatePolicyPatch \<Rightarrow> int option \<Rightarrow> json option \<Rightarrow>
   (ledger, json) action" where
  "createOwnerSession M nowMs uuid wallet vault patch ttl agentAuth =
     bindA (readA (requireMandate wallet vault)) (\<lambda>existing.
     bindA (liftR (documentPolicyWire (md_documentJson existing))) (\<lambda>wire.
     bindA (createSetupSession nowMs uuid (ownerSessionInput existing wire wallet vault patch ttl agentAuth)) (\<lambda>s.
     bindA (liftR (me_ownerUrl M (setupUrl M s) (ss_sessionId s))) (\<lambda>url.
     returnA (obj (sessionMembers s @ [(''ownerUrl'', JString url)]))))))"

section \<open>Looking at a session\<close>

definition completedSessionView :: "int \<Rightarrow> SetupSession \<Rightarrow> ledger \<Rightarrow> json" where
  "completedSessionView nowMs s L = obj
     [(''sessionId'', JString (ss_sessionId s)), (''status'', JString ''completed''),
      (''wallet'', JString (ss_wallet s)), (''mandateHash'', opt_string (ss_mandateHash s)),
      (''completedAtMs'', opt_number (ss_completedAtMs s)),
      (''initialDepositApproval'',
        case ss_initialDepositApprovalId s of None \<Rightarrow> JNull | Some i \<Rightarrow>
          (case getSpendingApproval L i of None \<Rightarrow> JNull | Some a \<Rightarrow>
             let v = expiredView a nowMs in obj
               [(''approvalId'', JString (ap_approvalId v)), (''expiresAtMs'', JNumber (ap_expiresAtMs v)),
                (''status'', JString (SpendingApprovalStatus_string (ap_status v)))]))]"

definition pendingSessionMembers :: "mandate_env \<Rightarrow> int \<Rightarrow> SetupSession \<Rightarrow> ledger \<Rightarrow> (string \<times> json) list" where
  "pendingSessionMembers M nowMs s L =
     [(''sessionId'', JString (ss_sessionId s)), (''status'', JString ''pending''),
      (''wallet'', JString (ss_wallet s)), (''vault'', JString (ss_vault s)),
      (''policy'', ss_policyWire s),
      (''enforcementMode'', JString (EnforcementMode_string (ss_enforcementMode s))),
      (''mandateExpiresAtMs'', JNumber (ss_mandateExpiresAtMs s)),
      (''initialDepositRawUsdc'', opt_string (ss_initialDepositRawUsdc s)),
      (''expiresAtMs'', JNumber (ss_expiresAtMs s)),
      (''webauthn'', obj [(''rpId'', JString (wc_rpId (me_webauthn M)))]),
      (''existingMandate'',
        case getSpendingMandate L (ss_wallet s) (ss_vault s) of None \<Rightarrow> JNull | Some r \<Rightarrow> obj
          [(''status'', JString (EffectiveStatus_string (effectiveStatus r nowMs))),
           (''ownerAuth'', JString (OwnerAuth_string (md_ownerAuth r)))])]"

definition expiredSessionMembers :: "SetupSession \<Rightarrow> (string \<times> json) list" where
  "expiredSessionMembers s =
     [(''sessionId'', JString (ss_sessionId s)), (''status'', JString ''expired''),
      (''wallet'', JString (ss_wallet s))]"

definition getSetupSessionView :: "mandate_env \<Rightarrow> int \<Rightarrow> string \<Rightarrow> ledger \<Rightarrow> json result" where
  "getSetupSessionView M nowMs sessionId L = (case getSetupSession L sessionId of
       None \<Rightarrow> Inl (notFound ''setup_session_not_found'')
     | Some s \<Rightarrow> Inr
         (if ss_status s = setup_completed then completedSessionView nowMs s L
          else if ss_expiresAtMs s \<le> nowMs then obj (expiredSessionMembers s)
          else obj (pendingSessionMembers M nowMs s L)))"

definition requireOwnerSession :: "string \<Rightarrow> ledger \<Rightarrow> (SetupSession \<times> OwnerManagement) result" where
  "requireOwnerSession sessionId L = (case getSetupSession L sessionId of
       None \<Rightarrow> Inl (notFound ''owner_session_not_found'')
     | Some s \<Rightarrow> (case ss_ownerManagement s of
           None \<Rightarrow> Inl (notFound ''owner_session_not_found'') | Some x \<Rightarrow> Inr (s, x)))"

definition OwnerAction_string :: "OwnerAction \<Rightarrow> string" where
  "OwnerAction_string a = (case a of action_update \<Rightarrow> ''update'' | action_revoke \<Rightarrow> ''revoke''
     | action_cancel_recovery \<Rightarrow> ''cancel_recovery'')"

definition currentMandateJson :: "int \<Rightarrow> SpendingMandateRecord \<Rightarrow> json result" where
  "currentMandateJson nowMs r = bindR (json_get ''policy'' (md_documentJson r)) (\<lambda>policy. Inr (JObject
     [(''mandateHash'', Some (JString (md_mandateHash r))),
      (''status'', Some (JString (EffectiveStatus_string (effectiveStatus r nowMs)))),
      (''ownerAuth'', Some (JString (OwnerAuth_string (md_ownerAuth r)))),
      (''ownerCredential'', Some (ownerCredentialJson (md_ownerCredential r))),
      (''policy'', policy), (''expiresAtMs'', Some (JNumber (md_expiresAtMs r))),
      (''recoveryAtMs'', Some (opt_number (md_recoveryAtMs r)))]))"

definition withMembers :: "json \<Rightarrow> (string \<times> json) list \<Rightarrow> json" where
  "withMembers v kvs = (case v of JObject xs \<Rightarrow> JObject (xs @ map (\<lambda>(k, x). (k, Some x)) kvs) | _ \<Rightarrow> v)"

definition getOwnerSession :: "mandate_env \<Rightarrow> int \<Rightarrow> string \<Rightarrow> ledger \<Rightarrow> json result" where
  "getOwnerSession M nowMs sessionId L =
     bindR (requireOwnerSession sessionId L) (\<lambda>(s, expected).
     bindR (getSetupSessionView M nowMs sessionId L) (\<lambda>view.
     if ss_status s = setup_completed \<or> ss_expiresAtMs s \<le> nowMs then
       Inr (withMembers view [(''vault'', JString (ss_vault s)),
         (''action'', opt_string (map_option OwnerAction_string (ss_ownerAction s)))])
     else
       let existing = getSpendingMandate L (ss_wallet s) (ss_vault s) in
       bindR (assertOwnerSessionCurrent existing expected) (\<lambda>_. case existing of
           None \<Rightarrow> Inl (JsError ''TypeError'')
         | Some r \<Rightarrow> bindR (currentMandateJson nowMs r) (\<lambda>current.
             Inr (withMembers view [(''currentMandate'', current)])))))"

section \<open>Completing a session\<close>

definition documentMatchesSession :: "SpendingMandateDocument \<Rightarrow> SetupSession \<Rightarrow> bool" where
  "documentMatchesSession d s \<longleftrightarrow> sd_agentWallet d = ss_wallet s \<and> sd_vault d = ss_vault s \<and>
     sd_enforcementMode d = ss_enforcementMode s \<and> sd_expiresAtMs d = ss_mandateExpiresAtMs s \<and>
     canonicalJson (policyWireJson (sd_policy d)) = canonicalJson (ss_policyWire s) \<and>
     sd_initialDepositRawUsdc d = ss_initialDepositRawUsdc s"

definition openSession :: "int \<Rightarrow> SetupSession \<Rightarrow> unit result" where
  "openSession nowMs s =
     bindR (checkR (ss_status s \<noteq> setup_completed) (conflict ''setup_session_used'')) (\<lambda>_.
     checkR (nowMs < ss_expiresAtMs s) (conflict ''setup_session_expired''))"

definition sessionRegistration :: "SetupSession \<Rightarrow> SpendingMandateDocument \<Rightarrow> RegisterMandateInput" where
  "sessionRegistration s d =
     \<lparr>rm_wallet = ss_wallet s, rm_vault = ss_vault s, rm_document = d,
      rm_agentCosign = cosign_setup_session,
      rm_provenance = Some (obj [(''via'', JString ''setup_session''),
        (''sessionId'', JString (ss_sessionId s)), (''agentAuth'', ss_agentAuth s)]),
      rm_expectedOwnerState = ss_ownerManagement s\<rparr>"

definition completedSession ::
  "int \<Rightarrow> SetupSession \<Rightarrow> SpendingMandateRecord \<Rightarrow> SpendingApproval option \<Rightarrow> SetupSession" where
  "completedSession nowMs s r approval = s\<lparr>ss_status := setup_completed, ss_completedAtMs := Some nowMs,
     ss_mandateHash := Some (md_mandateHash r),
     ss_initialDepositApprovalId := map_option ap_approvalId approval,
     ss_ownerAction := (if ss_ownerManagement s = None then ss_ownerAction s else Some action_update)\<rparr>"

definition completeSetupSession ::
  "mandate_env \<Rightarrow> int \<Rightarrow> string \<Rightarrow> string \<Rightarrow> string \<Rightarrow> SpendingMandateDocument \<Rightarrow> (ledger, json) action" where
  "completeSetupSession M nowMs uuid evUuid sessionId d =
     withLock (me_ledger M)
       (bindA (getsA (\<lambda>L. getSetupSession L sessionId)) (\<lambda>found. case found of
          None \<Rightarrow> throwA (notFound ''setup_session_not_found'')
        | Some s \<Rightarrow>
            bindA (liftR (openSession nowMs s)) (\<lambda>_.
            bindA (assertA (documentMatchesSession d s) (badRequest ''setup_session_mismatch'')) (\<lambda>_.
            bindA (registerMandate M nowMs uuid evUuid (sessionRegistration s d)) (\<lambda>(r, approval).
            bindA (modifyA (saveSetupSession (completedSession nowMs s r approval))) (\<lambda>_.
            returnA (obj
              [(''sessionId'', JString (ss_sessionId s)), (''wallet'', JString (ss_wallet s)),
               (''mandateHash'', JString (md_mandateHash r)),
               (''status'', JString (SpendingMandateStatus_string (md_status r))),
               (''expiresAtMs'', JNumber (md_expiresAtMs r)),
               (''initialDepositApproval'', initialDepositView approval)])))))))"

definition completeOwnerSession ::
  "mandate_env \<Rightarrow> int \<Rightarrow> string \<Rightarrow> string \<Rightarrow> string \<Rightarrow> SpendingMandateDocument \<Rightarrow> (ledger, json) action" where
  "completeOwnerSession M nowMs uuid evUuid sessionId d =
     bindA (readA (requireOwnerSession sessionId)) (\<lambda>_. completeSetupSession M nowMs uuid evUuid sessionId d)"

definition completeOwnerAction ::
  "mandate_env \<Rightarrow> int \<Rightarrow> string \<Rightarrow> string \<Rightarrow> bool \<Rightarrow> string \<Rightarrow> int \<Rightarrow> string \<Rightarrow> (ledger, json) action" where
  "completeOwnerAction M nowMs evUuid sessionId revoke mandateHash signedAtMs signature =
     withLock (me_ledger M)
       (bindA (readA (requireOwnerSession sessionId)) (\<lambda>(s, expected).
        bindA (liftR (openSession nowMs s)) (\<lambda>_.
        bindA (assertA (mandateHash = om_mandateHash expected) (conflict ''mandate_hash_mismatch'')) (\<lambda>_.
        let x = \<lparr>oa_wallet = ss_wallet s, oa_mandateHash = mandateHash, oa_signedAtMs = signedAtMs,
              oa_signature = signature, oa_expectedOwnerState = Some expected\<rparr> in
        bindA (if revoke then revokeMandate M nowMs evUuid x else cancelRecoveryRevoke M nowMs evUuid x)
          (\<lambda>(h, status).
        bindA (modifyA (saveSetupSession (s\<lparr>ss_status := setup_completed, ss_completedAtMs := Some nowMs,
            ss_mandateHash := Some h,
            ss_ownerAction := Some (if revoke then action_revoke else action_cancel_recovery)\<rparr>))) (\<lambda>_.
        returnA (obj
          [(''wallet'', JString (ss_wallet s)), (''mandateHash'', JString h),
           (''status'', JString (SpendingMandateStatus_string status)),
           (''sessionId'', JString (ss_sessionId s)),
           (''action'', JString (if revoke then ''revoke'' else ''cancel_recovery''))])))))))"

end
