(* ===== verification/Mandate_Machine.thy ===== *)
theory Mandate_Machine
  imports Mandate_Sessions Flow_Safety
begin

text \<open>
  The mandate service as a transition system. \<open>mandate_change\<close> says how the mandate of a
  wallet and vault may change and whose signature that takes, \<open>approval_change\<close> the same for an
  approval and \<open>session_change\<close> for a setup session; every operation is shown to follow the
  three.
\<close>

section \<open>Signatures of an owner\<close>

definition signed_by :: "mandate_env \<Rightarrow> OwnerAuth \<Rightarrow> OwnerCredential \<Rightarrow> string \<Rightarrow> string \<Rightarrow> bool" where
  "signed_by M auth credential message s \<longleftrightarrow> verifyOwnerMessageSignature M auth credential message s = Inr True"

abbreviation owner_signed :: "mandate_env \<Rightarrow> SpendingMandateRecord \<Rightarrow> string \<Rightarrow> string \<Rightarrow> bool" where
  "owner_signed M r \<equiv> signed_by M (md_ownerAuth r) (md_ownerCredential r)"

lemma requireSignature_iff: "requireSignature v e = Inr () \<longleftrightarrow> v = Inr True"
  by (cases v) (auto simp: requireSignature_def)

lemma assertOwnerSignature_iff [simp]:
  "assertOwnerSignature M r message s code = Inr () \<longleftrightarrow> owner_signed M r message s"
  by (simp add: assertOwnerSignature_def requireSignature_iff signed_by_def)

text \<open>The message that a mandate document's own owner signs.\<close>

definition document_message :: "mandate_env \<Rightarrow> SpendingMandateDocument \<Rightarrow> string" where
  "document_message M d = mandateSigningMessage (mandateHashOf (me_sha M) d)"

definition document_signed :: "mandate_env \<Rightarrow> SpendingMandateDocument \<Rightarrow> bool" where
  "document_signed M d \<longleftrightarrow>
     signed_by M (sd_ownerAuth d) (sd_ownerCredential d) (document_message M d) (sd_ownerSignature d)"

abbreviation record_of :: "mandate_env \<Rightarrow> SpendingMandateDocument \<Rightarrow> SpendingMandateRecord" where
  "record_of M d \<equiv> newMandateRecord (sd_agentWallet d) (sd_vault d) d (mandateHashOf (me_sha M) d)"

definition acceptable :: "mandate_env \<Rightarrow> int \<Rightarrow> SpendingMandateDocument \<Rightarrow> bool" where
  "acceptable M now d \<longleftrightarrow> document_signed M d \<and> sd_issuedAtMs d < sd_expiresAtMs d \<and> now < sd_expiresAtMs d \<and>
     (\<exists>policy. parseMandatePolicy (sd_policy d) = Inr policy)"

lemma validated:
  assumes "validateMandateDocument M d w v now cosign = Inr (policy, h)"
  shows "acceptable M now d" "h = mandateHashOf (me_sha M) d" "sd_agentWallet d = w" "sd_vault d = v"
    "parseMandatePolicy (sd_policy d) = Inr policy"
  using assms
  by (auto simp: validateMandateDocument_def Let_def bindR_Inr acceptable_def document_signed_def
      document_message_def signed_by_def requireSignature_iff)

section \<open>Mandates\<close>

text \<open>Who may put a document in the place of a stored mandate.\<close>

definition may_replace :: "mandate_env \<Rightarrow> int \<Rightarrow> SpendingMandateRecord \<Rightarrow> SpendingMandateDocument \<Rightarrow> bool" where
  "may_replace M now r d \<longleftrightarrow> md_issuedAtMs r < sd_issuedAtMs d \<and>
     (effectiveStatus r now = eff_expired \<or> effectiveStatus r now = eff_recovery_elapsed \<or>
      oc_publicKey (md_ownerCredential r) = oc_publicKey (sd_ownerCredential d) \<or>
      (effectiveStatus r now \<noteq> eff_revoked \<and>
       (\<exists>s. sd_currentOwnerSignature d = Some s \<and> owner_signed M r (document_message M d) s)))"

lemma replacement_checked:
  "checkReplacement M (Some r) d (mandateHashOf (me_sha M) d) now x = Inr () \<Longrightarrow> may_replace M now r d"
  by (auto simp: checkReplacement_def assertReplaceAuthorized_def may_replace_def bindR_Inr Let_def
      requireSignature_iff signed_by_def document_message_def split: if_splits option.split_asm)

inductive mandate_change ::
  "mandate_env \<Rightarrow> int \<Rightarrow> SpendingMandateRecord option \<Rightarrow> SpendingMandateRecord option \<Rightarrow> bool" for M now where
  kept: "mandate_change M now r r"
| registered: "acceptable M now d \<Longrightarrow> mandate_change M now None (Some (record_of M d))"
| replaced: "acceptable M now d \<Longrightarrow> may_replace M now r d \<Longrightarrow>
    mandate_change M now (Some r) (Some (record_of M d))"
| revoked: "md_status r \<noteq> mandate_revoked \<Longrightarrow>
    owner_signed M r (revokeSigningMessage (md_mandateHash r) t) s \<Longrightarrow> \<bar>now - t\<bar> \<le> SIGNED_AT_MAX_AGE_MS \<Longrightarrow>
    mandate_change M now (Some r) (Some (r\<lparr>md_status := mandate_revoked, md_recoveryAtMs := None,
      md_revokedAtMs := Some now, md_revokeJson := j\<rparr>))"
| recovery_scheduled: "md_status r \<noteq> mandate_revoked \<Longrightarrow> effectiveStatus r now \<noteq> eff_expired \<Longrightarrow>
    mandate_change M now (Some r) (Some (r\<lparr>md_status := recovery_pending,
      md_recoveryAtMs := Some (now + RECOVERY_GRACE_MS)\<rparr>))"
| recovery_cancelled: "md_status r = recovery_pending \<Longrightarrow> md_recoveryAtMs r = Some t0 \<Longrightarrow> now < t0 \<Longrightarrow>
    owner_signed M r (recoveryCancelSigningMessage (md_mandateHash r) t) s \<Longrightarrow>
    \<bar>now - t\<bar> \<le> SIGNED_AT_MAX_AGE_MS \<Longrightarrow>
    mandate_change M now (Some r) (Some (r\<lparr>md_status := mandate_active, md_recoveryAtMs := None\<rparr>))"

declare mandate_change.kept [simp]

section \<open>Approvals\<close>

definition closed_approval :: "SpendingApproval \<Rightarrow> bool" where
  "closed_approval a \<longleftrightarrow> ap_status a = approval_denied \<or> ap_status a = approval_expired \<or>
     ap_status a = approval_consumed"

text \<open>What an approval is for never changes.\<close>

definition approval_content :: "SpendingApproval \<Rightarrow> SpendingApproval" where
  "approval_content a = a\<lparr>ap_status := approval_pending, ap_decisionJson := None, ap_decidedAtMs := None,
     ap_consumedAtMs := None, ap_consumedByWithdrawalId := None\<rparr>"

text \<open>The owner of a stored mandate with the approval's hash has signed the approval.\<close>

definition owner_approved :: "mandate_env \<Rightarrow> SpendingMandateRecord \<Rightarrow> SpendingApproval \<Rightarrow> bool" where
  "owner_approved M r a \<longleftrightarrow> md_mandateHash r = ap_mandateHash a \<and>
     (\<exists>t s. owner_signed M r (approvalSigningMessage (ap_approvalId a) True (ap_bindingHash a) t) s)"

definition approval_change :: "mandate_env \<Rightarrow> ledger \<Rightarrow> SpendingApproval \<Rightarrow> SpendingApproval \<Rightarrow> bool" where
  "approval_change M L a a' \<longleftrightarrow> approval_content a' = approval_content a \<and>
     (closed_approval a \<longrightarrow> a' = a) \<and>
     (ap_status a' = approval_pending \<longrightarrow> a' = a) \<and>
     (ap_status a' = approval_approved \<longrightarrow> a' = a \<or>
       (\<exists>r \<in> set (map_values (led_spendingMandates L)). owner_approved M r a)) \<and>
     (ap_status a' = approval_consumed \<longrightarrow> a' = a \<or> ap_status a = approval_approved \<or>
       (\<exists>r \<in> set (map_values (led_spendingMandates L)). owner_approved M r a))"

lemma approval_change_refl [simp]: "approval_change M L a a"
  by (simp add: approval_change_def)

lemma approval_content_eq:
  assumes "approval_content a = approval_content b"
  shows "ap_approvalId a = ap_approvalId b" "ap_bindingHash a = ap_bindingHash b"
    "ap_mandateHash a = ap_mandateHash b" "ap_wallet a = ap_wallet b" "ap_expiresAtMs a = ap_expiresAtMs b"
  using arg_cong[OF assms, of ap_approvalId] arg_cong[OF assms, of ap_bindingHash]
    arg_cong[OF assms, of ap_mandateHash] arg_cong[OF assms, of ap_wallet] arg_cong[OF assms, of ap_expiresAtMs]
  by (simp_all add: approval_content_def)

lemma owner_approved_content:
  "approval_content a = approval_content b \<Longrightarrow> owner_approved M r a = owner_approved M r b"
  using approval_content_eq[of a b] by (simp add: owner_approved_def)

lemma approval_changeD:
  assumes "approval_change M L a a'"
  shows "approval_content a' = approval_content a" "closed_approval a \<Longrightarrow> a' = a"
    "ap_status a' = approval_pending \<Longrightarrow> a' = a"
    "ap_status a' = approval_approved \<Longrightarrow> a' \<noteq> a \<Longrightarrow>
       \<exists>r \<in> set (map_values (led_spendingMandates L)). owner_approved M r a"
  using assms unfolding approval_change_def by blast+

lemma approval_change_trans:
  assumes "approval_change M L a b" "approval_change M L b c"
  shows "approval_change M L a c"
proof (cases "b = a \<or> c = b")
  case False
  note ab = approval_changeD[OF assms(1)] and bc = approval_changeD[OF assms(2)]
  have "ap_status b = approval_approved"
    using False ab(3) bc(2) by (cases "ap_status b") (auto simp only: closed_approval_def)
  then have "\<exists>r \<in> set (map_values (led_spendingMandates L)). owner_approved M r a" using ab(4) False by blast
  moreover have "\<not> closed_approval a" "ap_status c \<noteq> approval_pending" using False ab(2) bc(3) by blast+
  ultimately show ?thesis
    unfolding approval_change_def using ab(1) bc(1) by simp
next
  case True
  then show ?thesis using assms by (elim disjE) simp_all
qed

text \<open>A new approval waits for the owner, or is the initial deposit of a signed mandate.\<close>

definition approval_issued :: "mandate_env \<Rightarrow> SpendingApproval \<Rightarrow> bool" where
  "approval_issued M a \<longleftrightarrow> ap_status a = approval_pending \<or> (ap_status a = approval_approved \<and>
     (\<exists>amount. ap_bindingHash a = bindingHashOf (me_sha M) (DepositBinding amount)))"

text \<open>From one ledger to the next: kept, pruned, moved on, or issued under a drawn id.\<close>

definition approval_next ::
  "mandate_env \<Rightarrow> ledger \<Rightarrow> bool \<Rightarrow> SpendingApproval option \<Rightarrow> SpendingApproval option \<Rightarrow> bool" where
  "approval_next M L drawn old new \<longleftrightarrow> (\<forall>a'. new = Some a' \<longrightarrow>
     (\<exists>a. (old = Some a \<or> (drawn \<and> approval_issued M a)) \<and> approval_change M L a a'))"

lemma approval_next_simps [simp]: "approval_next M L d old old" "approval_next M L d old None"
  by (auto simp: approval_next_def intro: approval_change_refl)

lemma approval_next_change:
  "approval_next M L d old (Some a) \<Longrightarrow> approval_change M L a a' \<Longrightarrow> approval_next M L d old (Some a')"
  by (auto simp: approval_next_def intro: approval_change_trans)

section \<open>Setup sessions\<close>

definition session_proposal :: "SetupSession \<Rightarrow> SetupSession" where
  "session_proposal s = s\<lparr>ss_status := setup_pending, ss_completedAtMs := None, ss_mandateHash := None,
     ss_initialDepositApprovalId := None, ss_ownerAction := None\<rparr>"

text \<open>A session is completed once, in time, as it was proposed.\<close>

definition session_change :: "int \<Rightarrow> SetupSession \<Rightarrow> SetupSession \<Rightarrow> bool" where
  "session_change now s s' \<longleftrightarrow> s' = s \<or> (ss_status s \<noteq> setup_completed \<and> now < ss_expiresAtMs s \<and>
     ss_status s' = setup_completed \<and> session_proposal s' = session_proposal s)"

definition session_next :: "int \<Rightarrow> bool \<Rightarrow> SetupSession option \<Rightarrow> SetupSession option \<Rightarrow> bool" where
  "session_next now drawn old new \<longleftrightarrow> drawn \<or> new = old \<or>
     (\<exists>s s'. old = Some s \<and> new = Some s' \<and> session_change now s s')"

lemma session_next_simps [simp]: "session_next now d old old" "session_next now True old new"
  by (simp_all add: session_next_def)

lemma session_next_change:
  "session_next now d old (Some s) \<Longrightarrow> session_change now s s' \<Longrightarrow> session_next now d old (Some s')"
  by (auto simp: session_next_def session_change_def)

section \<open>What an operation may do\<close>

definition mandate_progress :: "mandate_env \<Rightarrow> int \<Rightarrow> string set \<Rightarrow> ledger \<Rightarrow> ledger \<Rightarrow> bool" where
  "mandate_progress M now D L L' \<longleftrightarrow> ledger_ok L' \<and>
     (\<forall>k. mandate_change M now (map_get (led_spendingMandates L) k) (map_get (led_spendingMandates L') k)) \<and>
     (\<forall>k. approval_next M L (k \<in> (@) ''apr_'' ` D) (getSpendingApproval L k) (getSpendingApproval L' k)) \<and>
     (\<forall>k. session_next now (k \<in> (@) ''st_'' ` D) (getSetupSession L k) (getSetupSession L' k))"

abbreviation follows_mandate :: "mandate_env \<Rightarrow> int \<Rightarrow> string set \<Rightarrow> (ledger, 'a) action \<Rightarrow> ledger \<Rightarrow> bool" where
  "follows_mandate M now D m L \<equiv>
     runs m L (\<lambda>_. mandate_progress M now D L) (\<lambda>_. mandate_progress M now D L)"

lemma mandate_progress_refl [simp]: "ledger_ok L \<Longrightarrow> mandate_progress M now D L L"
  by (simp add: mandate_progress_def)

lemma led_tables [simp]:
  "led_spendingMandates (saveSpendingApproval a L) = led_spendingMandates L"
  "led_spendingMandates (saveSpendingMandateEvent e L) = led_spendingMandates L"
  "led_spendingMandates (saveSetupSession s L) = led_spendingMandates L"
  "led_spendingMandates (snd (pruneSpendingApprovals w t L)) = led_spendingMandates L"
  "getSetupSession (snd (pruneSpendingApprovals w t L)) k = getSetupSession L k"
  by (simp_all add: save_defs pruneSpendingApprovals_def getSetupSession_def)

lemma pruned_approval:
  assumes "ledger_ok L"
  shows "getSpendingApproval (snd (pruneSpendingApprovals w t L)) k = (case getSpendingApproval L k of None \<Rightarrow> None
    | Some a \<Rightarrow> if approval_prunable w t a then None else Some a)"
proof -
  have "distinct (map fst (led_spendingApprovals L))"
    using assms by (simp add: ledger_ok_def keyed_def map_ok_def)
  from map_of_filter_snd[OF this, of "\<lambda>a. \<not> approval_prunable w t a" k] show ?thesis
    unfolding pruneSpendingApprovals_def getSpendingApproval_def map_get_def
    by (cases "map_of (led_spendingApprovals L) k") simp_all
qed

lemma progress_event [simp]:
  "mandate_progress M now D L N \<Longrightarrow> mandate_progress M now D L (saveSpendingMandateEvent e N)"
  by (simp add: mandate_progress_def)

lemma progress_prune:
  assumes "mandate_progress M now D L N"
  shows "mandate_progress M now D L (snd (pruneSpendingApprovals w t N))"
proof -
  let ?N = "snd (pruneSpendingApprovals w t N)"
  have N: "ledger_ok N" using assms by (simp add: mandate_progress_def)
  have "gated N ?N" by simp
  then have ok: "ledger_ok ?N" using N by (rule gated_frame(8))
  have "getSpendingApproval ?N k = None \<or> getSpendingApproval ?N k = getSpendingApproval N k" for k
    unfolding pruned_approval[OF N] by (cases "getSpendingApproval N k") simp_all
  then have "approval_next M L d old (getSpendingApproval ?N k)"
    if "approval_next M L d old (getSpendingApproval N k)" for d old k
    using that approval_next_simps(2) by metis
  then show ?thesis
    using assms ok unfolding mandate_progress_def led_tables by blast
qed

lemma progress_approval:
  assumes "mandate_progress M now D L N" "getSpendingApproval N (ap_approvalId a') = Some a" "approval_change M L a a'"
  shows "mandate_progress M now D L (saveSpendingApproval a' N)"
  using assms approval_next_change[of M L _ _ a a'] by (simp add: mandate_progress_def) metis

lemma progress_new_approval:
  assumes "mandate_progress M now D L N" "ap_approvalId a = ''apr_'' @ u" "u \<in> D" "approval_issued M a"
  shows "mandate_progress M now D L (saveSpendingApproval a N)"
  using assms by (auto simp: mandate_progress_def approval_next_def intro: approval_change_refl)

lemma progress_mandate:
  assumes "ledger_ok L" "mandate_change M now (map_get (led_spendingMandates L) (mandate_key r)) (Some r)"
  shows "mandate_progress M now D L (saveSpendingMandate r L)"
  using assms by (simp add: mandate_progress_def mandates.get_save getSpendingApproval_def getSetupSession_def)

lemma progress_session:
  assumes "mandate_progress M now D L N" "getSetupSession N (ss_sessionId s') = Some s" "session_change now s s'"
  shows "mandate_progress M now D L (saveSetupSession s' N)"
  using assms session_next_change[of now _ _ s s'] by (simp add: mandate_progress_def sessions.get_save) metis

lemma progress_new_session:
  assumes "mandate_progress M now D L N" "ss_sessionId s = ''st_'' @ u" "u \<in> D"
  shows "mandate_progress M now D L (saveSetupSession s N)"
  using assms by (auto simp: mandate_progress_def sessions.get_save)

lemma follows_lock:
  assumes "ledger_ok L" "follows_mandate M now D m L"
  shows "follows_mandate M now D (withLock k m) L"
  by (rule lock.runs_lock_inv[OF assms(2)]) (simp add: assms(1))

section \<open>Every operation follows them\<close>

lemma stored_approval_id: "ledger_ok L \<Longrightarrow> getSpendingApproval L k = Some a \<Longrightarrow> ap_approvalId a = k"
  using approvals.get_key by (auto simp: ledger_ok_def)

lemma stored_session_id: "ledger_ok L \<Longrightarrow> getSetupSession L k = Some s \<Longrightarrow> ss_sessionId s = k"
  using sessions.get_key by (auto simp: ledger_ok_def)

lemma stored_mandate_key: "ledger_ok L \<Longrightarrow> map_get (led_spendingMandates L) k = Some r \<Longrightarrow> mandate_key r = k"
  using mandates.get_key by (auto simp: ledger_ok_def)

lemma mandate_by_hash:
  assumes "ledger_ok L" "getSpendingMandateByHash L w h = Some r"
  shows "map_get (led_spendingMandates L) (mandate_key r) = Some r" "md_wallet r = w" "md_mandateHash r = h"
    "r \<in> set (map_values (led_spendingMandates L))"
proof -
  obtain r0 where r0: "r0 \<in> set (map_values (led_spendingMandates L))" "md_wallet r0 = w" "md_mandateHash r0 = h"
    "getSpendingMandate L w (md_vault r0) = Some r"
    using assms(2) by (auto simp: getSpendingMandateByHash_def find_Some_iff split: option.splits
        dest!: nth_mem)
  have keyed: "keyed mandate_key (led_spendingMandates L)" using assms(1) by (simp add: ledger_ok_def)
  then have "map_get (led_spendingMandates L) (mandate_key r0) = Some r0"
    using r0(1) by (simp add: keyed_values)
  then have "r = r0" using r0(2,4) by (simp add: getSpendingMandate_def mandate_key_def)
  then show "map_get (led_spendingMandates L) (mandate_key r) = Some r" "md_wallet r = w" "md_mandateHash r = h"
    "r \<in> set (map_values (led_spendingMandates L))"
    using r0 keyed by (simp_all add: keyed_values)
qed

lemma progress_ok: "mandate_progress M now D L N \<Longrightarrow> ledger_ok N"
  by (simp add: mandate_progress_def)

lemma expired_change: "approval_change M L a (expiredView a now)"
  by (auto simp: approval_change_def expiredView_def approval_content_def closed_approval_def)

lemma approval_content_expired [simp]: "approval_content (expiredView a now) = approval_content a"
  by (simp add: expiredView_def approval_content_def)

lemma expiredView_id [simp]: "ap_approvalId (expiredView a now) = ap_approvalId a"
  by (simp add: expiredView_def)

lemma progress_expire:
  assumes "mandate_progress M now D L N" "getSpendingApproval N k = Some a"
  shows "runs (expireIfStale a t) N (\<lambda>a' N'. mandate_progress M now D L N' \<and> a' = expiredView a t \<and>
    getSpendingApproval N' k = Some a' \<and> led_spendingMandates N' = led_spendingMandates N) (\<lambda>_ _. False)"
proof -
  have k: "ap_approvalId a = k" using stored_approval_id[OF progress_ok[OF assms(1)] assms(2)] .
  show ?thesis
    using progress_approval[OF assms(1) _ expired_change, of a t] assms k
    by (auto simp: expireIfStale_def Let_def)
qed

lemma progress_usable:
  assumes "mandate_progress M now D L N"
  shows "runs (usableApproval M t w v h b i) N (\<lambda>_. mandate_progress M now D L) (\<lambda>_. mandate_progress M now D L)"
proof -
  have "runs (expireIfStale a t) N (\<lambda>_. mandate_progress M now D L) (\<lambda>_. mandate_progress M now D L)"
    if "getSpendingApproval N k = Some a" for k a
    by (rule runs_mono[OF progress_expire[OF assms that]]) auto
  then show ?thesis
    using assms by (auto simp: usableApproval_def split: option.splits)
qed

lemma newApproval_issued [simp]:
  "approval_issued M (newApproval M u w h b approval_pending j t now)"
  "approval_issued M (newApproval M u w h (DepositBinding x) approval_approved j t now)"
  "ap_approvalId (newApproval M u w h b st j t now) = ''apr_'' @ u"
  by (auto simp: approval_issued_def newApproval_def)

lemma progress_require:
  assumes "ledger_ok L" "uuid \<in> D"
  shows "follows_mandate M now D (requireOperationApproval M t uuid w v h b c i) L"
proof -
  note new = progress_new_approval[OF _ newApproval_issued(3) assms(2) newApproval_issued(1)]
  have "mandate_progress M now D L (snd (pruneSpendingApprovals w (t - APPROVAL_RETENTION_MS) L))"
    using assms by (intro progress_prune) simp
  then show ?thesis
    unfolding requireOperationApproval_def runs_bind[where m = "modifyA _"] runs_modify
    by (intro runs_seq[OF progress_usable])
      (auto simp: Let_def new simp del: append.simps split: option.splits sum.splits)
qed

lemma progress_approve:
  assumes "ledger_ok L" "uuid \<in> D"
  shows "follows_mandate M now D (approveOperation M t uuid w v e b c i) L"
  using assms progress_require[OF assms]
  by (auto simp: approveOperation_def split: sum.splits intro: runs_seq)

lemma progress_escalate:
  assumes "ledger_ok L" "uuid \<in> D"
  shows "follows_mandate M now D (escalateRealize M t uuid w v e a p i warned) L"
  using assms(1) progress_require[OF assms]
  by (auto simp: escalateRealize_def split: sum.splits option.splits MandateEnforcementLevel.splits
      intro: runs_seq)

lemma follows_gates:
  assumes "ledger_ok L" "uuid \<in> D"
  shows "follows_mandate M now D (authorizeRealize M t uuid w v a p i) L"
    "follows_mandate M now D (mandateAuthorizeDeposit M t uuid w v a i) L"
    "follows_mandate M now D (mandateAuthorizeWithdrawal M t uuid w v a i) L"
  using assms(1) progress_escalate[OF assms] progress_approve[OF assms]
  by (auto simp: authorizeRealize_def mandateAuthorizeDeposit_def mandateAuthorizeWithdrawal_def split: sum.splits)

lemma follows_consume:
  assumes "ledger_ok L"
  shows "follows_mandate M now D (consumeApproval t k j) L"
proof -
  have "mandate_progress M now D L (saveSpendingApproval (a\<lparr>ap_status := approval_consumed,
           ap_consumedAtMs := Some t, ap_consumedByWithdrawalId := Some j\<rparr>) L)"
    if "getSpendingApproval L k = Some a" "ap_status a = approval_approved" for a
    by (rule progress_approval[OF mandate_progress_refl[OF assms]])
      (use that stored_approval_id[OF assms that(1)] in
        \<open>auto simp: approval_change_def approval_content_def closed_approval_def\<close>)
  then show ?thesis using assms by (auto simp: consumeApproval_def split: option.splits)
qed

text \<open>Registration writes the mandate first, then its event and its initial approval.\<close>

lemma newMandateRecord_simps [simp]:
  "md_wallet (newMandateRecord w v d h) = w" "md_vault (newMandateRecord w v d h) = v"
  "md_mandateHash (newMandateRecord w v d h) = h" "md_status (newMandateRecord w v d h) = mandate_active"
  "md_ownerAuth (newMandateRecord w v d h) = sd_ownerAuth d"
  "md_ownerCredential (newMandateRecord w v d h) = sd_ownerCredential d"
  "md_issuedAtMs (newMandateRecord w v d h) = sd_issuedAtMs d"
  "md_expiresAtMs (newMandateRecord w v d h) = sd_expiresAtMs d"
  "md_documentJson (newMandateRecord w v d h) = documentJson d" "md_recoveryAtMs (newMandateRecord w v d h) = None"
  "mandate_key (newMandateRecord w v d h) = positionKey w v"
  by (simp_all add: newMandateRecord_def mandate_key_def)

lemma progress_register_section:
  assumes ok: "ledger_ok L" and u: "uuid \<in> D"
    and d: "validateMandateDocument M (rm_document x) (rm_wallet x) (rm_vault x) now cosign = Inr (policy, h)"
  shows "runs (registerMandateSection M now uuid ev x h) L
    (\<lambda>(r, a) L'. mandate_progress M now D L L' \<and> getSetupSession L' = getSetupSession L \<and>
      r = newMandateRecord (rm_wallet x) (rm_vault x) (rm_document x) h \<and>
      getSpendingMandate L' (rm_wallet x) (rm_vault x) = Some r) (\<lambda>_. mandate_progress M now D L)"
proof -
  let ?d = "rm_document x" and ?w = "rm_wallet x" and ?v = "rm_vault x"
  note d = validated[OF d]
  let ?r = "newMandateRecord ?w ?v ?d h"
  have r: "?r = record_of M ?d" using d by simp
  have save: "mandate_progress M now D L (saveSpendingMandate ?r L)"
    if "checkReplacement M (getSpendingMandate L ?w ?v) ?d h now (rm_expectedOwnerState x) = Inr ()"
  proof (rule progress_mandate[OF ok])
    show "mandate_change M now (map_get (led_spendingMandates L) (mandate_key ?r)) (Some ?r)"
    proof (cases "getSpendingMandate L ?w ?v")
      case None
      then show ?thesis unfolding r using mandate_change.registered[OF d(1)] d
        by (simp add: getSpendingMandate_def)
    next
      case (Some r0)
      then show ?thesis
        unfolding r using mandate_change.replaced[OF d(1) replacement_checked] that d
        by (simp add: getSpendingMandate_def)
    qed
  qed
  have got: "getSpendingMandate (saveSpendingMandate ?r L) ?w ?v = Some ?r"
    by (simp add: getSpendingMandate_def saveSpendingMandate_def)
  note new = progress_new_approval[OF progress_event[OF save] newApproval_issued(3) u newApproval_issued(2)]
  show ?thesis
    using save new got ok
    by (auto simp: registerMandateSection_def Let_def recordMandateEvent_def issueInitialDepositApproval_def
        frame_getSetupSession simp del: append.simps split: sum.splits option.splits)
qed

lemma runs_withMandateLock:
  assumes "ledger_ok L" "runs m L Q (\<lambda>_. mandate_progress M now D L)"
  shows "runs (withMandateLock M0 m) L Q (\<lambda>_. mandate_progress M now D L)"
  unfolding withMandateLock_def
  by (intro lock.runs_lock assms(2)) (simp_all add: assms(1))

lemma progress_register:
  assumes "ledger_ok L" "uuid \<in> D"
  shows "runs (registerMandate M now uuid ev x) L
    (\<lambda>(r, a) L'. mandate_progress M now D L L' \<and> getSetupSession L' = getSetupSession L \<and>
      (\<exists>h policy. validateMandateDocument M (rm_document x) (rm_wallet x) (rm_vault x) now (rm_agentCosign x)
          = Inr (policy, h) \<and>
        r = newMandateRecord (rm_wallet x) (rm_vault x) (rm_document x) h) \<and>
      getSpendingMandate L' (rm_wallet x) (rm_vault x) = Some r) (\<lambda>_. mandate_progress M now D L)"
proof -
  have "runs (withMandateLock M (registerMandateSection M now uuid ev x h)) L
      (\<lambda>(r, a) L'. mandate_progress M now D L L' \<and> getSetupSession L' = getSetupSession L \<and>
        (\<exists>h policy. validateMandateDocument M (rm_document x) (rm_wallet x) (rm_vault x) now (rm_agentCosign x)
            = Inr (policy, h) \<and>
          r = newMandateRecord (rm_wallet x) (rm_vault x) (rm_document x) h) \<and>
        getSpendingMandate L' (rm_wallet x) (rm_vault x) = Some r) (\<lambda>_. mandate_progress M now D L)"
    if "validateMandateDocument M (rm_document x) (rm_wallet x) (rm_vault x) now (rm_agentCosign x) = Inr (policy, h)"
    for policy h
    by (rule runs_withMandateLock[OF assms(1)], rule runs_mono[OF progress_register_section[OF assms that]])
      (use that in auto)
  then show ?thesis
    using assms(1) by (auto simp: registerMandate_def split: sum.splits)
qed

lemma fresh_iff [simp]: "assertFreshSignedAt t now = Inr () \<longleftrightarrow> isSafeInteger t \<and> \<bar>now - t\<bar> \<le> SIGNED_AT_MAX_AGE_MS"
  by (simp add: assertFreshSignedAt_def)

text \<open>An update of a stored mandate in place.\<close>

lemma progress_update:
  assumes "ledger_ok L" "map_get (led_spendingMandates L) (mandate_key r) = Some r"
    and "mandate_change M now (Some r) (Some r')" "mandate_key r' = mandate_key r"
  shows "mandate_progress M now D L (saveSpendingMandate r' L)"
  by (rule progress_mandate) (simp_all add: assms)

lemma get_mandate_key:
  assumes "ledger_ok L" "getSpendingMandate L w v = Some r"
  shows "mandate_key r = positionKey w v" "map_get (led_spendingMandates L) (mandate_key r) = Some r"
  using assms stored_mandate_key[of L "positionKey w v" r] by (simp_all add: getSpendingMandate_def)

lemma revokedRecord_simps [simp]:
  "mandate_key (revokedRecord r x now) = mandate_key r" "md_status (revokedRecord r x now) = mandate_revoked"
  "md_mandateHash (revokedRecord r x now) = md_mandateHash r" "md_wallet (revokedRecord r x now) = md_wallet r"
  "md_vault (revokedRecord r x now) = md_vault r"
  by (simp_all add: revokedRecord_def mandate_key_def)

lemma frame_session_mandate [simp]:
  "getSetupSession (saveSpendingMandate r L) = getSetupSession L"
  "getSetupSession (saveSpendingMandateEvent e L) = getSetupSession L"
  by (simp_all add: getSetupSession_def[abs_def] save_defs)

text \<open>A revocation leaves a revoked mandate where the hash was found.\<close>

lemma progress_revoke:
  assumes ok: "ledger_ok L"
  shows "runs (revokeMandate M now ev x) L
    (\<lambda>(h, st) L'. mandate_progress M now D L L' \<and> getSetupSession L' = getSetupSession L \<and> st = mandate_revoked \<and>
      (\<exists>r0 r. getSpendingMandateByHash L (oa_wallet x) (oa_mandateHash x) = Some r0 \<and>
        (md_status r0 \<noteq> mandate_revoked \<longrightarrow> owner_signed M r0
           (revokeSigningMessage (oa_mandateHash x) (oa_signedAtMs x)) (oa_signature x)) \<and>
        map_get (led_spendingMandates L') (mandate_key r0) = Some r \<and> md_status r = mandate_revoked \<and>
        md_mandateHash r = oa_mandateHash x \<and> md_wallet r = oa_wallet x \<and> md_vault r = md_vault r0))
    (\<lambda>_. mandate_progress M now D L)"
proof -
  have "mandate_progress M now D L (saveSpendingMandate (revokedRecord r x now) L)"
    if r: "getSpendingMandateByHash L (oa_wallet x) (oa_mandateHash x) = Some r"
      "checkRevoke M r x now = Inr ()" "md_status r \<noteq> mandate_revoked" for r
    by (rule progress_update[OF ok mandate_by_hash(1)[OF ok r(1)]])
      (use that mandate_by_hash(3)[OF ok r(1)]
        mandate_change.revoked[where r = r and t = "oa_signedAtMs x" and s = "oa_signature x"] in
        \<open>simp_all add: checkRevoke_def bindR_Inr revokedRecord_def mandate_key_def\<close>)
  then show ?thesis
    unfolding revokeMandate_def
    by (intro runs_withMandateLock[OF ok])
      (auto simp: revokeMandateSection_def requireMandateByHash_def recordMandateEvent_def ok checkRevoke_def
        bindR_Inr mandates.get_save mandate_by_hash[OF ok] split: sum.splits option.splits)
qed

lemma follows_schedule:
  assumes ok: "ledger_ok L"
  shows "follows_mandate M now D (scheduleRecoveryRevoke M' now ev w v) L"
proof -
  have "mandate_progress M now D L (saveSpendingMandate (r\<lparr>md_status := recovery_pending,
      md_recoveryAtMs := Some (now + RECOVERY_GRACE_MS)\<rparr>) L)"
    if "getSpendingMandate L w v = Some r" "md_status r \<noteq> mandate_revoked" "effectiveStatus r now \<noteq> eff_expired" for r v
    by (rule progress_update[OF ok get_mandate_key(2)[OF ok that(1)]])
      (use that mandate_change.recovery_scheduled in \<open>simp_all add: mandate_key_def\<close>)
  then show ?thesis
    unfolding scheduleRecoveryRevoke_def
    by (intro runs_withMandateLock[OF ok])
      (auto simp: scheduleRecoverySection_def requireMandate_def recordMandateEvent_def ok Let_def
        split: sum.splits option.splits)
qed

lemma progress_cancel:
  assumes ok: "ledger_ok L"
  shows "runs (cancelRecoveryRevoke M now ev x) L
    (\<lambda>_ L'. mandate_progress M now D L L' \<and> getSetupSession L' = getSetupSession L) (\<lambda>_. mandate_progress M now D L)"
proof -
  have "mandate_progress M now D L (saveSpendingMandate (r\<lparr>md_status := mandate_active, md_recoveryAtMs := None\<rparr>) L)"
    if r: "getSpendingMandateByHash L (oa_wallet x) (oa_mandateHash x) = Some r"
      "checkCancelRecovery M r x now = Inr ()" for r
    by (rule progress_update[OF ok mandate_by_hash(1)[OF ok r(1)]])
      (use that mandate_by_hash(3)[OF ok r(1)] mandate_change.recovery_cancelled in
        \<open>auto simp: checkCancelRecovery_def bindR_Inr mandate_key_def
          split: SpendingMandateStatus.split_asm option.split_asm\<close>)
  then show ?thesis
    unfolding cancelRecoveryRevoke_def
    by (intro runs_withMandateLock[OF ok])
      (auto simp: cancelRecoverySection_def requireMandateByHash_def recordMandateEvent_def ok
        split: sum.splits option.splits)
qed

text \<open>A decision: approving takes the owner's signature over this approval.\<close>

lemma follows_decide:
  assumes ok: "ledger_ok L"
  shows "follows_mandate M now D (decideApproval M now x) L"
proof -
  have decide: "mandate_progress M now D L (saveSpendingApproval (decidedApproval (expiredView a now) x h now) N)"
    if N: "mandate_progress M now D L N" "getSpendingApproval N (da_approvalId x) = Some (expiredView a now)"
      and a: "getSpendingApproval L (da_approvalId x) = Some a"
      and r: "getSpendingMandateByHash L (ap_wallet a) (ap_mandateHash a) = Some r"
      and c: "checkDecision M r (expiredView a now) x now = Inr ()" for N a r h
  proof (rule progress_approval[OF N(1)])
    have id: "ap_approvalId a = da_approvalId x" by (rule stored_approval_id[OF ok a])
    then show "getSpendingApproval N (ap_approvalId (decidedApproval (expiredView a now) x h now)) = Some (expiredView a now)"
      using N(2) by (simp add: decidedApproval_def)
    have p: "ap_status (expiredView a now) = approval_pending"
      and s: "owner_signed M r (approvalSigningMessage (da_approvalId x) (da_approve x)
        (ap_bindingHash (expiredView a now)) (da_signedAtMs x)) (da_signature x)"
      using c by (auto simp: checkDecision_def bindR_Inr)
    have "owner_approved M r (expiredView a now)" if "da_approve x"
      using s that mandate_by_hash(3)[OF ok r] id approval_content_eq[of "expiredView a now" a]
      unfolding owner_approved_def by (auto simp: approval_content_expired)
    then show "approval_change M L (expiredView a now) (decidedApproval (expiredView a now) x h now)"
      using p mandate_by_hash(4)[OF ok r]
      by (auto simp: approval_change_def decidedApproval_def approval_content_def closed_approval_def)
  qed
  have "follows_mandate M now D (decideApprovalSection M now a x) L"
    if a: "getSpendingApproval L (da_approvalId x) = Some a" for a
    by (auto simp: decideApprovalSection_def requireMandateByHash_def a ok Let_def
        intro!: runs_mono[OF progress_expire[OF mandate_progress_refl[OF ok] a]] decide[OF _ _ a] split: option.splits sum.splits)
  then show ?thesis
    using ok by (auto simp: decideApproval_def requireMandateByHash_def intro!: follows_lock split: option.splits sum.splits)
qed

end
