(* ===== verification/Mandate_Steps.thy ===== *)
theory Mandate_Steps
  imports Mandate_Machine
begin

text \<open>
  The sessions of the mandate service, and its operations as steps on a configuration: the
  identifiers drawn so far and the ledger. Between two operations the other services may do
  anything that leaves the mandate tables alone.
\<close>

section \<open>Setup sessions\<close>

lemma follows_create_session:
  assumes "ledger_ok L" "uuid \<in> D"
  shows "follows_mandate M now D (createSetupSession now uuid x) L"
proof -
  have "mandate_progress M now D L (saveSetupSession (newSetupSession now uuid x wire) L)" for wire
    by (rule progress_new_session[OF mandate_progress_refl[OF assms(1)] _ assms(2)]) (simp add: newSetupSession_def)
  then show ?thesis using assms(1) by (auto simp: createSetupSession_def Let_def split: sum.splits)
qed

lemma follows_owner_session:
  assumes "ledger_ok L" "uuid \<in> D"
  shows "follows_mandate M now D (createOwnerSession M now uuid w v patch ttl auth) L"
proof -
  show ?thesis
    using assms(1) by (auto simp: createOwnerSession_def
        intro!: runs_mono[OF follows_create_session[OF assms]] split: sum.splits)
qed

lemma open_session_iff [simp]:
  "openSession now s = Inr () \<longleftrightarrow> ss_status s \<noteq> setup_completed \<and> now < ss_expiresAtMs s"
  by (simp add: openSession_def bindR_Inr)

text \<open>Completing a session registers its mandate, then marks the session.\<close>

definition session_done :: "mandate_env \<Rightarrow> int \<Rightarrow> SpendingMandateDocument \<Rightarrow> SetupSession \<Rightarrow> ledger \<Rightarrow> bool" where
  "session_done M now d s L' \<longleftrightarrow> ss_status s \<noteq> setup_completed \<and> now < ss_expiresAtMs s \<and>
     documentMatchesSession d s \<and> acceptable M now d \<and>
     getSpendingMandate L' (ss_wallet s) (ss_vault s) = Some (record_of M d) \<and>
     (\<exists>s'. getSetupSession L' (ss_sessionId s) = Some s' \<and> ss_status s' = setup_completed \<and>
       session_proposal s' = session_proposal s)"

lemma completedSession_simps [simp]:
  "ss_sessionId (completedSession now s r a) = ss_sessionId s" "ss_status (completedSession now s r a) = setup_completed"
  "session_proposal (completedSession now s r a) = session_proposal s"
  by (simp_all add: completedSession_def session_proposal_def)

lemma sessionRegistration_simps [simp]:
  "rm_wallet (sessionRegistration s d) = ss_wallet s" "rm_vault (sessionRegistration s d) = ss_vault s"
  "rm_document (sessionRegistration s d) = d"
  by (simp_all add: sessionRegistration_def)

lemma getSetupSession_saved [simp]:
  "getSetupSession (saveSetupSession s L) k = (if k = ss_sessionId s then Some s else getSetupSession L k)"
  by (rule sessions.get_save)

lemma session_completed:
  assumes ok: "ledger_ok L" and u: "uuid \<in> D"
  shows "runs (completeSetupSession M now uuid ev k d) L
    (\<lambda>_ L'. mandate_progress M now D L L' \<and> (\<exists>s. getSetupSession L k = Some s \<and> session_done M now d s L'))
    (\<lambda>_. mandate_progress M now D L)"
proof -
  have body: "runs (registerMandate M now uuid ev (sessionRegistration s d)) L
     (\<lambda>(r, a) N. mandate_progress M now D L (saveSetupSession (completedSession now s r a) N) \<and>
        session_done M now d s (saveSetupSession (completedSession now s r a) N)) (\<lambda>_. mandate_progress M now D L)"
    if s: "getSetupSession L k = Some s" "ss_status s \<noteq> setup_completed" "now < ss_expiresAtMs s"
      "documentMatchesSession d s" for s
  proof (rule runs_mono[OF progress_register[OF ok u]], clarsimp simp del: append.simps)
    fix a N h policy
    assume N: "mandate_progress M now D L N" "getSetupSession N = getSetupSession L"
      and v: "validateMandateDocument M d (ss_wallet s) (ss_vault s) now (rm_agentCosign (sessionRegistration s d))
        = Inr (policy, h)"
      and got: "getSpendingMandate N (ss_wallet s) (ss_vault s) = Some (newMandateRecord (ss_wallet s) (ss_vault s) d h)"
    have k: "ss_sessionId s = k" using stored_session_id[OF ok s(1)] .
    let ?s = "completedSession now s (newMandateRecord (ss_wallet s) (ss_vault s) d h) a"
    have "mandate_progress M now D L (saveSetupSession ?s N)"
      by (rule progress_session[OF N(1), of _ s]) (use s N(2) k in \<open>simp_all add: session_change_def\<close>)
    then show "mandate_progress M now D L (saveSetupSession ?s N) \<and> session_done M now d s (saveSetupSession ?s N)"
      using s got validated[OF v] by (simp add: session_done_def)
  qed
  show ?thesis
    unfolding completeSetupSession_def
    by (rule lock.runs_lock)
      (auto simp: ok case_prod_unfold intro!: runs_mono[OF body] split: option.splits sum.splits)
qed

lemma follows_complete:
  assumes "ledger_ok L" "uuid \<in> D"
  shows "follows_mandate M now D (completeSetupSession M now uuid ev k d) L"
    "follows_mandate M now D (completeOwnerSession M now uuid ev k d) L"
proof -
  show c: "follows_mandate M now D (completeSetupSession M now uuid ev k d) L"
    by (rule runs_mono[OF session_completed[OF assms]]) auto
  show "follows_mandate M now D (completeOwnerSession M now uuid ev k d) L"
    using c assms(1) by (auto simp: completeOwnerSession_def split: sum.splits)
qed

lemma follows_owner_action:
  assumes ok: "ledger_ok L"
  shows "follows_mandate M now D (completeOwnerAction M now ev k revoke h t sig) L"
proof -
  have save: "mandate_progress M now D L (saveSetupSession (s\<lparr>ss_status := setup_completed,
      ss_completedAtMs := Some now, ss_mandateHash := Some h', ss_ownerAction := Some act\<rparr>) N)"
    if "getSetupSession L k = Some s" "ss_status s \<noteq> setup_completed" "now < ss_expiresAtMs s"
      "mandate_progress M now D L N" "getSetupSession N = getSetupSession L" for s h' act N
    by (rule progress_session[OF that(4), of _ s])
      (use that stored_session_id[OF ok that(1)] in \<open>simp_all add: session_change_def session_proposal_def\<close>)
  have found: "requireOwnerSession k L = Inr (s, x) \<Longrightarrow> getSetupSession L k = Some s" for s x
    by (auto simp: requireOwnerSession_def split: option.split_asm)
  show ?thesis
    unfolding completeOwnerAction_def
    by (rule follows_lock[OF ok])
      (auto simp: ok Let_def case_prod_unfold dest!: found intro: save
        intro!: runs_mono[OF progress_revoke[OF ok]] runs_mono[OF progress_cancel[OF ok]] split: sum.splits)
qed

section \<open>The steps of the service\<close>

definition same_mandates :: "ledger \<Rightarrow> ledger \<Rightarrow> bool" where
  "same_mandates L L' \<longleftrightarrow> led_spendingMandates L' = led_spendingMandates L \<and>
     led_spendingApprovals L' = led_spendingApprovals L \<and> led_setupSessions L' = led_setupSessions L \<and>
     (ledger_ok L \<longrightarrow> ledger_ok L')"

inductive mandate_step ::
  "mandate_env \<Rightarrow> int \<Rightarrow> string set \<times> ledger \<Rightarrow> string set \<times> ledger \<Rightarrow> bool" for M now where
  step_realize: "uuid \<notin> U \<Longrightarrow>
    mandate_step M now (U, L) (insert uuid U, snd (authorizeRealize M now uuid w v a p i L))"
| step_deposit: "uuid \<notin> U \<Longrightarrow>
    mandate_step M now (U, L) (insert uuid U, snd (mandateAuthorizeDeposit M now uuid w v a i L))"
| step_withdrawal: "uuid \<notin> U \<Longrightarrow>
    mandate_step M now (U, L) (insert uuid U, snd (mandateAuthorizeWithdrawal M now uuid w v a i L))"
| step_consume: "mandate_step M now (U, L) (U, snd (consumeApproval now k j L))"
| step_register: "uuid \<notin> U \<Longrightarrow>
    mandate_step M now (U, L) (insert uuid U, snd (registerMandate M now uuid ev x L))"
| step_revoke: "mandate_step M now (U, L) (U, snd (revokeMandate M now ev y L))"
| step_schedule: "mandate_step M now (U, L) (U, snd (scheduleRecoveryRevoke M now ev w vo L))"
| step_cancel: "mandate_step M now (U, L) (U, snd (cancelRecoveryRevoke M now ev y L))"
| step_decide: "mandate_step M now (U, L) (U, snd (decideApproval M now z L))"
| step_create: "uuid \<notin> U \<Longrightarrow>
    mandate_step M now (U, L) (insert uuid U, snd (createSetupSession now uuid q L))"
| step_create_owner: "uuid \<notin> U \<Longrightarrow>
    mandate_step M now (U, L) (insert uuid U, snd (createOwnerSession M now uuid w v patch ttl auth L))"
| step_complete: "uuid \<notin> U \<Longrightarrow>
    mandate_step M now (U, L) (insert uuid U, snd (completeSetupSession M now uuid ev k d L))"
| step_complete_owner: "uuid \<notin> U \<Longrightarrow>
    mandate_step M now (U, L) (insert uuid U, snd (completeOwnerSession M now uuid ev k d L))"
| step_owner_action: "mandate_step M now (U, L) (U, snd (completeOwnerAction M now ev k revoke h t sig L))"
| step_elsewhere: "same_mandates L L' \<Longrightarrow> mandate_step M now (U, L) (U, L')"

abbreviation mandate_steps :: "mandate_env \<Rightarrow> string set \<times> ledger \<Rightarrow> string set \<times> ledger \<Rightarrow> bool" where
  "mandate_steps M \<equiv> (\<lambda>c c'. \<exists>now. mandate_step M now c c')\<^sup>*\<^sup>*"

lemma steps_then: "mandate_steps M c c' \<Longrightarrow> mandate_step M now c' c'' \<Longrightarrow> mandate_steps M c c''"
  by (rule rtranclp.rtrancl_into_rtrancl) auto

lemma progress_elsewhere: "ledger_ok L \<Longrightarrow> same_mandates L L' \<Longrightarrow> mandate_progress M now D L L'"
  by (simp add: same_mandates_def mandate_progress_def getSpendingApproval_def getSetupSession_def)

lemma step_follows:
  assumes "mandate_step M now (U, L) (U', L')" "ledger_ok L"
  shows "\<exists>D. U' = D \<union> U \<and> D \<inter> U = {} \<and> mandate_progress M now D L L'"
proof -
  have drawn: "\<exists>D. insert u U = D \<union> U \<and> D \<inter> U = {} \<and> mandate_progress M now D L (snd (m L))"
    if "u \<notin> U" "follows_mandate M now {u} m L" for u and m :: "(ledger, 'x) action"
    using that by (intro exI[of _ "{u}"]) (simp add: runs_snd)
  have plain: "\<exists>D. U = D \<union> U \<and> D \<inter> U = {} \<and> mandate_progress M now D L (snd (m L))"
    if "follows_mandate M now {} m L" for m :: "(ledger, 'x) action"
    using that by (intro exI[of _ "{}"]) (simp add: runs_snd)
  have elsewhere: "\<exists>D. U = D \<union> U \<and> D \<inter> U = {} \<and> mandate_progress M now D L N" if "same_mandates L N" for N
    by (intro exI[of _ "{}"]) (simp add: progress_elsewhere[OF assms(2) that])
  have revoke: "follows_mandate M now {} (revokeMandate M now ev y) L" for ev y
    by (rule runs_mono[OF progress_revoke[OF assms(2)]]) auto
  have cancel: "follows_mandate M now {} (cancelRecoveryRevoke M now ev y) L" for ev y
    by (rule runs_mono[OF progress_cancel[OF assms(2)]]) auto
  note follows = follows_gates follows_consume follows_schedule follows_decide follows_create_session
    follows_owner_session follows_complete follows_owner_action
  have register: "follows_mandate M now {u} (registerMandate M now u ev x) L" for u ev x
    by (rule runs_mono[OF progress_register[OF assms(2)]]) auto
  from assms(1) show ?thesis
    by cases (auto simp: assms(2) simp del: Un_insert_left dest!: elsewhere
      intro!: drawn plain revoke cancel register follows)
qed

end
