(* ===== verification/Mandate_Run.thy ===== *)
theory Mandate_Run
  imports Mandate_Safety Flow_Run
begin

text \<open>
  A concrete owner, a signed mandate and a large payment, taken through registration, request,
  approval and confirmation in the kernel. The witnesses of the mandate properties start from it.
\<close>

definition sample_webauthn :: webauthn_env where
  "sample_webauthn = \<lparr>wa_sha = (\<lambda>x. x), wa_challenge = (\<lambda>x. x), wa_rpHash = (\<lambda>_. replicate 32 0),
     wa_parse = (\<lambda>_. None), wa_key = (\<lambda>_. None), wa_verify = (\<lambda>_ _ _ _. None)\<rparr>"

text \<open>An owner with the key \<open>owner\<close>; the base58 of every other text is 64 bytes long.\<close>

definition sample_mandate_env :: mandate_env where
  "sample_mandate_env = \<lparr>me_ledger = PostgresLedger, me_level = enforcement_on,
     me_approveUrlBase = ''approve'', me_setupUrlBase = ''setup'', me_defaultVault = sample_vault,
     me_webauthn = \<lparr>wc_rpId = ''rp'', wc_origins = [''origin'']\<rparr>, me_wa = sample_webauthn,
     me_sha = (\<lambda>x. x), me_bs58 = (\<lambda>x. Some (replicate (if x = ''owner'' then 32 else 64) 0)),
     me_ed25519 = (\<lambda>message signature key. True), me_ownerUrl = (\<lambda>u i. Inr (u @ i))\<rparr>"

lemma sample_mandate_env_simps [simp]:
  "me_ledger sample_mandate_env = PostgresLedger" "me_level sample_mandate_env = enforcement_on"
  "me_sha sample_mandate_env = (\<lambda>x. x)" "me_defaultVault sample_mandate_env = sample_vault"
  by (simp_all add: sample_mandate_env_def)

definition sample_binding :: PaymentBindingWire where
  "sample_binding = \<lparr>pb_payTo = sample_seller, pb_amountRawUsdc = ''1000'', pb_resourceUrlHash = ''hash'',
     pb_method = ''GET''\<rparr>"

lemma sample_binding_amount [simp]: "js_BigInt (pb_amountRawUsdc sample_binding) = Some 1000"
proof -
  have "js_BigInt ''1000'' = Some 1000" by code_simp
  then show ?thesis by (simp add: sample_binding_def)
qed

definition sample_document :: SpendingMandateDocument where
  "sample_document = \<lparr>sd_ownerAuth = ed25519,
     sd_ownerCredential = \<lparr>oc_publicKey = ''owner'', oc_credentialId = None, oc_algorithm = None\<rparr>,
     sd_enforcementMode = subly, sd_agentWallet = sample_wallet, sd_vault = sample_vault, sd_issuedAtMs = 1,
     sd_expiresAtMs = 1000000000, sd_policy = defaultMandatePolicyWire, sd_initialDepositRawUsdc = Some ''500'',
     sd_ownerSignature = ''sig'', sd_agentWalletSignature = None, sd_currentOwnerSignature = None\<rparr>"

definition sample_hash_of_document :: string where
  "sample_hash_of_document = mandateHashOf (\<lambda>x. x) sample_document"

definition sample_registration :: RegisterMandateInput where
  "sample_registration = \<lparr>rm_wallet = sample_wallet, rm_vault = sample_vault, rm_document = sample_document,
     rm_agentCosign = cosign_setup_session, rm_provenance = None, rm_expectedOwnerState = None\<rparr>"

lemma printed_units [simp]:
  "0 \<le> n \<Longrightarrow> parseRawUnits (JsStr (toString n)) f = Inr n"
  "0 < n \<Longrightarrow> parsePositiveRawUnits (JsStr (toString n)) f = Inr n"
  using BigInt_toString[of n] by (auto simp: parsePositiveRawUnits_def parseRawUnits_def)

lemma default_policy_parses: "parseMandatePolicy defaultMandatePolicyWire = Inr DEFAULT_RELAYER_POLICY"
  by (simp add: parseMandatePolicy_def policyOfWire_def defaultMandatePolicyWire_def opt_units_def
      DEFAULT_RELAYER_POLICY_def Let_def)

lemma sample_document_valid:
  "validateMandateDocument sample_mandate_env sample_document sample_wallet sample_vault 5 cosign_setup_session
    = Inr (DEFAULT_RELAYER_POLICY, sample_hash_of_document)"
  by (simp add: validateMandateDocument_def sample_document_def isSafeInteger_def MAX_SAFE_INTEGER_def
      SIGNED_AT_MAX_AGE_MS_def default_policy_parses requireSignature_def verifyOwnerMessageSignature_def
      verifyEd25519Message_def sample_mandate_env_def checkAgentCosign_def Let_def sample_hash_of_document_def)

definition sample_record :: SpendingMandateRecord where
  "sample_record = newMandateRecord sample_wallet sample_vault sample_document sample_hash_of_document"

definition sample_initial :: SpendingApproval where
  "sample_initial = newApproval sample_mandate_env ''u'' sample_wallet sample_hash_of_document (DepositBinding ''500'')
     approval_approved (Some (obj [(''source'', JString ''mandate_initial_deposit''),
       (''mandateHash'', JString sample_hash_of_document)])) (Some 5) 5"

definition sample_registered :: ledger where
  "sample_registered = snd (registerMandate sample_mandate_env 5 ''u'' ''e'' sample_registration empty_ledger)"

lemma sample_registered:
  "registerMandate sample_mandate_env 5 ''u'' ''e'' sample_registration empty_ledger
     = (Inr (sample_record, Some sample_initial), sample_registered)"
  "getSpendingMandate sample_registered sample_wallet sample_vault = Some sample_record"
  "led_spendingApprovals sample_registered = [(''apr_u'', sample_initial)]" "led_withdrawals sample_registered = []"
  "map_values (led_spendingMandates sample_registered) = [sample_record]"
proof -
  have none: "getSpendingMandate empty_ledger sample_wallet sample_vault = None"
    by (simp add: getSpendingMandate_def empty_ledger_def)
  have d: "sd_initialDepositRawUsdc sample_document = Some ''500''" by (simp add: sample_document_def)
  have id: "ap_approvalId sample_initial = ''apr_u''" by (simp add: sample_initial_def newApproval_def)
  obtain e where sec: "registerMandateSection sample_mandate_env 5 ''u'' ''e'' sample_registration sample_hash_of_document
      empty_ledger = (Inr (sample_record, Some sample_initial), saveSpendingApproval sample_initial
        (saveSpendingMandateEvent e (saveSpendingMandate sample_record empty_ledger)))"
    by (simp add: registerMandateSection_def sample_registration_def none d checkReplacement_def recordMandateEvent_def
        issueInitialDepositApproval_def action_defs Let_def sample_record_def sample_initial_def)
  then have reg: "registerMandate sample_mandate_env 5 ''u'' ''e'' sample_registration empty_ledger
      = (Inr (sample_record, Some sample_initial), saveSpendingApproval sample_initial
        (saveSpendingMandateEvent e (saveSpendingMandate sample_record empty_ledger)))"
    using sample_document_valid
    by (simp add: registerMandate_def sample_registration_def withMandateLock_def withLock_Inr action_defs)
  then show "registerMandate sample_mandate_env 5 ''u'' ''e'' sample_registration empty_ledger
     = (Inr (sample_record, Some sample_initial), sample_registered)"
    "getSpendingMandate sample_registered sample_wallet sample_vault = Some sample_record"
    "led_spendingApprovals sample_registered = [(''apr_u'', sample_initial)]" "led_withdrawals sample_registered = []"
    "map_values (led_spendingMandates sample_registered) = [sample_record]"
    by (simp_all add: sample_registered_def)
      (simp_all add: save_defs empty_ledger_def map_set_def map_get_def map_values_def id getSpendingMandate_def sample_record_def)
qed

lemma sample_register_step: "mandate_step sample_mandate_env 5 ({}, empty_ledger) ({''u''}, sample_registered)"
  using mandate_step.step_register[of "''u''" "{}"] by (simp add: sample_registered_def)

text \<open>The life of a large payment: refused with an approval to ask for, approved, permitted.\<close>

definition large_binding :: PaymentBindingWire where
  "large_binding = sample_binding\<lparr>pb_amountRawUsdc := ''2000000''\<rparr>"

definition large_approval :: SpendingApproval where
  "large_approval = newApproval sample_mandate_env ''v'' sample_wallet sample_hash_of_document
     (PaymentBinding large_binding) approval_pending None None 6"

definition large_decision :: DecideApprovalInput where
  "large_decision = \<lparr>da_approvalId = ''apr_v'', da_approve = True, da_signedAtMs = 7, da_signature = ''sig''\<rparr>"

definition asked_ledger :: ledger where
  "asked_ledger = snd (authorizeRealize sample_mandate_env 6 ''v'' sample_wallet sample_vault 2000000
     (Some large_binding) None sample_registered)"

definition agreed_ledger :: ledger where
  "agreed_ledger = snd (decideApproval sample_mandate_env 7 large_decision asked_ledger)"

lemma sample_effective:
  assumes "getSpendingMandate L sample_wallet sample_vault = Some sample_record" "now < 1000000000"
  shows "resolvePolicy sample_wallet now sample_vault L = Inr \<lparr>ef_policy = DEFAULT_RELAYER_POLICY,
    ef_policySource = ''mandate:'' @ sample_hash_of_document, ef_mandate = Some sample_record,
    ef_ownerAvailable = True, ef_revoked = False\<rparr>"
proof -
  have "sd_policy sample_document = defaultMandatePolicyWire" "sd_expiresAtMs sample_document = 1000000000"
    by (simp_all add: sample_document_def)
  then show ?thesis
    using assms by (simp add: resolvePolicy_def effectiveStatus_def sample_record_def documentPolicy_def
        documentPolicyWire_stored default_policy_parses)
qed

lemma large_amount [simp]: "js_BigInt (pb_amountRawUsdc large_binding) = Some 2000000"
proof -
  have "js_BigInt ''2000000'' = Some 2000000" by code_simp
  then show ?thesis by (simp add: large_binding_def)
qed

lemma no_realized [simp]: "led_withdrawals L = [] \<Longrightarrow> confirmedRealizeSum L w v t = 0"
  by (simp add: confirmedRealizeSum_def listWithdrawalsForPosition_def map_values_def)

lemma large_escalates:
  assumes "getSpendingMandate L sample_wallet sample_vault = Some sample_record" "now < 1000000000"
    and "led_withdrawals L = []"
  shows "authorizeRealize sample_mandate_env now u sample_wallet sample_vault 2000000 (Some large_binding) i L =
    bindA (requireOperationApproval sample_mandate_env now u sample_wallet sample_vault sample_hash_of_document
        (PaymentBinding large_binding) ''approval_required'' i)
      (\<lambda>a. returnA (ownerApproved \<lparr>ef_policy = DEFAULT_RELAYER_POLICY,
        ef_policySource = ''mandate:'' @ sample_hash_of_document, ef_mandate = Some sample_record,
        ef_ownerAvailable = True, ef_revoked = False\<rparr> a)) L"
  using assms
  by (simp add: authorizeRealize_def sample_effective bindA_def[of "readA _"] readA_def liftR_def bindA_def[of "liftR _"]
      mandateNotRevoked_def checkPaymentBinding_def violation_def payeeRefused_def spendingWindows_def escalateRealize_def
      exceeds_def DEFAULT_RELAYER_POLICY_def requiredHash_def effectiveHash_def sample_record_def)

lemma asked_ledger:
  "led_spendingApprovals asked_ledger = [(''apr_u'', sample_initial), (''apr_v'', large_approval)]"
  "getSpendingMandate asked_ledger sample_wallet sample_vault = Some sample_record"
  "led_withdrawals asked_ledger = []" "led_spendingMandates asked_ledger = led_spendingMandates sample_registered"
proof -
  have i: "ap_status sample_initial = approval_approved" "ap_expiresAtMs sample_initial = 900005"
    by (simp_all add: sample_initial_def newApproval_def APPROVAL_TTL_MS_def)
  have v: "ap_approvalId large_approval = ''apr_v''" by (simp add: large_approval_def)
  have "filter (\<lambda>(k, a). \<not> approval_prunable sample_wallet (6 - APPROVAL_RETENTION_MS) a)
      (led_spendingApprovals sample_registered) = led_spendingApprovals sample_registered"
    by (simp add: sample_registered i approval_prunable_def APPROVAL_RETENTION_MS_def DAY_MS_def)
  then have kept: "snd (pruneSpendingApprovals sample_wallet (6 - APPROVAL_RETENTION_MS) sample_registered) = sample_registered"
    by (simp add: pruneSpendingApprovals_def)
  have none: "findReusablePending sample_registered sample_wallet h b 6 = None"
    "length (filter (pendingApproval 6) (listSpendingApprovalsForWallet sample_registered sample_wallet)) = 0" for h b
    by (simp_all add: findReusablePending_def listSpendingApprovalsForWallet_def sample_registered map_values_def
        pendingApproval_def i)
  have ask: "asked_ledger = saveSpendingApproval large_approval sample_registered"
    by (simp add: asked_ledger_def large_escalates sample_registered requireOperationApproval_def usableApproval_def
        action_defs kept none MAX_PENDING_APPROVALS_PER_WALLET_def Let_def flip: large_approval_def)
  show "led_spendingApprovals asked_ledger = [(''apr_u'', sample_initial), (''apr_v'', large_approval)]"
    "getSpendingMandate asked_ledger sample_wallet sample_vault = Some sample_record"
    "led_withdrawals asked_ledger = []" "led_spendingMandates asked_ledger = led_spendingMandates sample_registered"
    using sample_registered(2-) by (simp_all add: ask v saveSpendingApproval_def map_set_def getSpendingMandate_def)
qed

lemma sample_signed [simp]: "owner_signed sample_mandate_env sample_record message ''sig''"
  by (simp add: signed_by_def verifyOwnerMessageSignature_def verifyEd25519Message_def sample_record_def
      sample_document_def sample_mandate_env_def)

definition large_approved :: SpendingApproval where
  "large_approved = decidedApproval large_approval large_decision sample_hash_of_document 7"

lemma agreed_ledger:
  "getSpendingApproval agreed_ledger ''apr_v'' = Some large_approved"
  "getSpendingMandate agreed_ledger sample_wallet sample_vault = Some sample_record"
  "led_withdrawals agreed_ledger = []" "led_spendingApprovals agreed_ledger = [(''apr_u'', sample_initial), (''apr_v'', large_approved)]"
  "led_deposits agreed_ledger = led_deposits asked_ledger"
proof -
  have got: "getSpendingApproval asked_ledger ''apr_v'' = Some large_approval"
    by (simp add: getSpendingApproval_def asked_ledger map_get_def)
  have a: "ap_wallet large_approval = sample_wallet" "ap_mandateHash large_approval = sample_hash_of_document"
    "ap_status large_approval = approval_pending" "ap_expiresAtMs large_approval = 900006"
    "ap_approvalId large_approval = ''apr_v''"
    by (simp_all add: large_approval_def newApproval_def APPROVAL_TTL_MS_def)
  have r: "getSpendingMandateByHash asked_ledger sample_wallet sample_hash_of_document = Some sample_record"
    using asked_ledger(2) by (simp add: getSpendingMandateByHash_def asked_ledger(4) sample_registered(5) sample_record_def)
  have "expireIfStale large_approval 7 asked_ledger = (Inr large_approval, asked_ledger)"
    by (simp add: expireIfStale_def expiredView_def a returnA_def)
  moreover have "effectiveStatus sample_record 7 = eff_active"
    by (simp add: effectiveStatus_def sample_record_def) (simp add: sample_document_def)
  moreover have sig: "assertOwnerSignature sample_mandate_env sample_record m ''sig'' c = Inr ()"
    "md_mandateHash sample_record = sample_hash_of_document" for m c
    by (simp_all add: sample_record_def[symmetric] del: newMandateRecord_simps) (simp add: sample_record_def)
  ultimately have sec: "decideApprovalSection sample_mandate_env 7 large_approval large_decision asked_ledger
      = (Inr large_approved, saveSpendingApproval large_approved asked_ledger)"
    by (simp add: decideApprovalSection_def requireMandateByHash_def a r action_defs large_decision_def got
        checkDecision_def assertFreshSignedAt_def isSafeInteger_def MAX_SAFE_INTEGER_def SIGNED_AT_MAX_AGE_MS_def Let_def
        large_approved_def sig)
  have locked: "withLock k (decideApprovalSection sample_mandate_env 7 large_approval large_decision) asked_ledger
      = (Inr large_approved, saveSpendingApproval large_approved asked_ledger)" for k
    using sec by (rule withLock_return)
  have id: "ap_approvalId large_approved = ''apr_v''"
    by (simp add: large_approved_def decidedApproval_def a)
  have "da_approvalId large_decision = ''apr_v''" by (simp add: large_decision_def)
  then have ag: "agreed_ledger = saveSpendingApproval large_approved asked_ledger"
    by (simp add: agreed_ledger_def decideApproval_def action_defs requireMandateByHash_def a r locked got)
  show "getSpendingApproval agreed_ledger ''apr_v'' = Some large_approved"
    "getSpendingMandate agreed_ledger sample_wallet sample_vault = Some sample_record"
    "led_withdrawals agreed_ledger = []" "led_spendingApprovals agreed_ledger = [(''apr_u'', sample_initial), (''apr_v'', large_approved)]"
  "led_deposits agreed_ledger = led_deposits asked_ledger"
    using asked_ledger by (simp_all add: ag id map_set_def getSpendingMandate_def saveSpendingApproval_def map_set_def
        getSpendingApproval_def map_get_def)
qed

definition large_authorization :: MandateAuthorization where
  "large_authorization = ownerApproved \<lparr>ef_policy = DEFAULT_RELAYER_POLICY,
     ef_policySource = ''mandate:'' @ sample_hash_of_document, ef_mandate = Some sample_record,
     ef_ownerAvailable = True, ef_revoked = False\<rparr> large_approved"

lemma large_permitted:
  "\<exists>L'. authorizeRealize sample_mandate_env 8 ''x'' sample_wallet sample_vault 2000000 (Some large_binding)
     (Some ''apr_v'') agreed_ledger = (Inr large_authorization, L')"
proof -
  have st: "ap_status sample_initial = approval_approved" "ap_expiresAtMs sample_initial = 900005"
    "ap_status large_approved = approval_approved" "ap_expiresAtMs large_approved = 900006"
    "ap_wallet large_approved = sample_wallet" "ap_mandateHash large_approved = sample_hash_of_document"
    "ap_bindingHash large_approved = bindingHashOf (\<lambda>x. x) (PaymentBinding large_binding)"
    "ap_approvalId large_approved = ''apr_v''"
    by (simp_all add: sample_initial_def large_approved_def decidedApproval_def large_decision_def large_approval_def
        newApproval_def APPROVAL_TTL_MS_def)
  have "filter (\<lambda>(k, a). \<not> approval_prunable sample_wallet (8 - APPROVAL_RETENTION_MS) a)
      (led_spendingApprovals agreed_ledger) = led_spendingApprovals agreed_ledger"
    by (simp add: agreed_ledger st approval_prunable_def APPROVAL_RETENTION_MS_def DAY_MS_def)
  then have kept: "snd (pruneSpendingApprovals sample_wallet (8 - APPROVAL_RETENTION_MS) agreed_ledger) = agreed_ledger"
    by (simp add: pruneSpendingApprovals_def)
  have exp: "expireIfStale large_approved 8 agreed_ledger = (Inr large_approved, agreed_ledger)"
    by (simp add: expireIfStale_def expiredView_def st returnA_def)
  have flight: "\<not> approvalInFlight agreed_ledger k w v (PaymentBinding p) n" for k w v p n
    by (simp add: approvalInFlight_def listWithdrawalsForPosition_def agreed_ledger map_values_def)
  have "requireOperationApproval sample_mandate_env 8 ''x'' sample_wallet sample_vault sample_hash_of_document
      (PaymentBinding large_binding) ''approval_required'' (Some ''apr_v'') agreed_ledger
      = (Inr large_approved, agreed_ledger)"
    by (simp add: requireOperationApproval_def usableApproval_def action_defs kept agreed_ledger(1) exp st flight)
  then show ?thesis
    by (simp add: large_escalates agreed_ledger action_defs large_authorization_def)
qed

lemma large_steps: "mandate_steps sample_mandate_env ({}, empty_ledger) ({''v'', ''u''}, agreed_ledger)"
proof -
  have "mandate_step sample_mandate_env 6 ({''u''}, sample_registered) ({''v'', ''u''}, asked_ledger)"
    using mandate_step.step_realize[of "''v''" "{''u''}"] by (simp add: asked_ledger_def)
  moreover have "mandate_step sample_mandate_env 7 ({''v'', ''u''}, asked_ledger) ({''v'', ''u''}, agreed_ledger)"
    unfolding agreed_ledger_def by (rule mandate_step.step_decide)
  ultimately show ?thesis
    by (rule steps_then[OF steps_then[OF steps_then[OF rtranclp.rtrancl_refl sample_register_step]]])
qed

definition paid_withdrawal :: WithdrawalIntent where
  "paid_withdrawal = sample_withdrawal\<lparr>wdr_status := flow_submitted, wdr_approvalId := Some ''apr_v'',
     wdr_destinationUsdcAta := sample_seller\<rparr>"

definition paid_ledger :: ledger where
  "paid_ledger = saveWithdrawal paid_withdrawal (savePosition sample_position agreed_ledger)"

definition paid_env :: flow_env where
  "paid_env = sample_flow_env\<lparr>vf_mandates := Some (mandateOps sample_mandate_env 9 ''y'')\<rparr>"

definition paid_outcome :: ConfirmedFlowOutcome where
  "paid_outcome = sample_outcome\<lparr>co_tokenBalanceDeltas := \<lambda>a. Some 1600000\<rparr>"

lemma paid_ok: "mandates_ok sample_mandate_env {''v'', ''u''} paid_ledger"
proof -
  have "same_mandates agreed_ledger paid_ledger"
    by (simp add: same_mandates_def paid_ledger_def) (simp add: saveWithdrawal_def savePosition_def)
  from steps_then[OF large_steps mandate_step.step_elsewhere[OF this]] show ?thesis
    by (rule steps_mandates_ok) simp
qed


definition sample_revocation :: OwnerActionInput where
  "sample_revocation = \<lparr>oa_wallet = sample_wallet, oa_mandateHash = sample_hash_of_document, oa_signedAtMs = 6,
     oa_signature = ''sig'', oa_expectedOwnerState = None\<rparr>"

lemma registered_by_hash:
  "getSpendingMandateByHash sample_registered sample_wallet sample_hash_of_document = Some sample_record"
  using sample_registered(2) by (simp add: getSpendingMandateByHash_def sample_registered(5) sample_record_def)

lemma sample_owner_signature:
  "assertOwnerSignature sample_mandate_env sample_record m ''sig'' c = Inr ()"
  "md_mandateHash sample_record = sample_hash_of_document" "md_status sample_record = mandate_active"
  "md_vault sample_record = sample_vault" "md_issuedAtMs sample_record = 1"
  by (simp_all add: sample_record_def[symmetric] del: newMandateRecord_simps)
    (simp_all add: sample_record_def sample_document_def)

lemma sample_revoked:
  "\<exists>L1. revokeMandate sample_mandate_env 7 ''f'' sample_revocation sample_registered
     = (Inr (sample_hash_of_document, mandate_revoked), L1) \<and>
     getSpendingMandate L1 sample_wallet sample_vault = Some (revokedRecord sample_record sample_revocation 7)"
proof -
  have "revokeMandateSection sample_mandate_env 7 ''f'' sample_revocation sample_registered
      = (Inr (sample_hash_of_document, mandate_revoked), saveSpendingMandateEvent
          \<lparr>mev_eventId = ''mev_f'', mev_wallet = sample_wallet, mev_eventType = ev_revoked,
           mev_mandateHash = sample_hash_of_document, mev_documentJson = revokeJson sample_revocation, mev_createdAtMs = 7\<rparr>
          (saveSpendingMandate (revokedRecord sample_record sample_revocation 7) sample_registered))"
    by (simp add: revokeMandateSection_def requireMandateByHash_def sample_revocation_def registered_by_hash action_defs
        assertExpectedOwner_def sample_owner_signature checkRevoke_def assertFreshSignedAt_def isSafeInteger_def
        MAX_SAFE_INTEGER_def SIGNED_AT_MAX_AGE_MS_def recordMandateEvent_def)
  then have "revokeMandate sample_mandate_env 7 ''f'' sample_revocation sample_registered
      = (Inr (sample_hash_of_document, mandate_revoked), saveSpendingMandateEvent
          \<lparr>mev_eventId = ''mev_f'', mev_wallet = sample_wallet, mev_eventType = ev_revoked,
           mev_mandateHash = sample_hash_of_document, mev_documentJson = revokeJson sample_revocation, mev_createdAtMs = 7\<rparr>
          (saveSpendingMandate (revokedRecord sample_record sample_revocation 7) sample_registered))"
    by (simp add: revokeMandate_def withMandateLock_def withLock_Inr)
  moreover have "md_wallet (revokedRecord sample_record sample_revocation 7) = sample_wallet"
    by (simp add: sample_record_def)
  ultimately show ?thesis
    by (simp add: getSpendingMandate_def saveSpendingMandate_def sample_owner_signature saveSpendingMandateEvent_def)
qed

definition sample_session :: SetupSession where
  "sample_session = newSetupSession 1 ''s'' \<lparr>cs_wallet = sample_wallet, cs_vault = sample_vault, cs_policy = emptyPatch,
     cs_enforcementMode = None, cs_mandateTtlMs = None, cs_initialDepositRawUsdc = Some ''500'', cs_agentAuth = None,
     cs_ownerManagement = None, cs_mandateExpiresAtMs = Some 1000000000\<rparr> defaultMandatePolicyWire"

definition session_ledger :: ledger where
  "session_ledger = saveSetupSession sample_session empty_ledger"

end
