(* ===== verification/Mandate_Outcomes.thy ===== *)
theory Mandate_Outcomes
  imports Mandate_Run
begin

text \<open>
  The properties of the spending mandates: what a permitted realize satisfies, what a large
  payment rests on, how mandates change, and the life of approvals, revocations and sessions.
\<close>

section \<open>What a permitted realize satisfies\<close>

definition usable_for ::
  "mandate_env \<Rightarrow> int \<Rightarrow> string \<Rightarrow> string \<Rightarrow> string \<Rightarrow> ApprovalBinding \<Rightarrow> string \<Rightarrow> ledger \<Rightarrow> bool" where
  "usable_for M now w v h b k L \<longleftrightarrow> (\<exists>a. getSpendingApproval L k = Some a \<and> ap_wallet a = w \<and>
     ap_status a = approval_approved \<and> now < ap_expiresAtMs a \<and> ap_mandateHash a = h \<and>
     ap_bindingHash a = bindingHashOf (me_sha M) b \<and> \<not> approvalInFlight L k w v b now)"

lemma inFlight_save [simp]:
  "approvalInFlight (saveSpendingApproval a L) k w v b now = approvalInFlight L k w v b now"
  by (cases b) (simp_all add: approvalInFlight_def)

lemma inFlight_prune [simp]:
  "approvalInFlight (snd (pruneSpendingApprovals x t L)) k w v b now = approvalInFlight L k w v b now"
  by (cases b) (simp_all add: approvalInFlight_def listDepositsForPosition_def listWithdrawalsForPosition_def
      pruneSpendingApprovals_def)

lemma expired_view_approved:
  "ap_status (expiredView a now) = approval_approved \<Longrightarrow>
   expiredView a now = a \<and> ap_status a = approval_approved \<and> now < ap_expiresAtMs a"
  by (auto simp: expiredView_def split: if_splits)

lemma runs_expire:
  "runs (expireIfStale a now) N (\<lambda>c N'. c = expiredView a now \<and> (N' = N \<or> N' = saveSpendingApproval c N)) (\<lambda>_ _. False)"
  by (auto simp: expireIfStale_def Let_def)

lemma runs_usable:
  assumes "ledger_ok N"
  shows "runs (usableApproval M now w v h b i) N
    (\<lambda>r _. \<forall>a. r = Some a \<longrightarrow> i = Some (ap_approvalId a) \<and> usable_for M now w v h b (ap_approvalId a) N) (\<lambda>_ _. True)"
proof -
  have use: "usable_for M now w v h b k N"
    if "getSpendingApproval N k = Some a" "ap_wallet a = w" "ap_status (expiredView a now) = approval_approved"
      "ap_mandateHash (expiredView a now) = h" "ap_bindingHash (expiredView a now) = bindingHashOf (me_sha M) b"
      "\<not> approvalInFlight N k w v b now" for k a
    using that expired_view_approved[OF that(3)] unfolding usable_for_def by metis
  have "runs (bindA (expireIfStale a now) (\<lambda>c. getsA (\<lambda>L. if ap_status c = approval_approved \<and>
        ap_mandateHash c = h \<and> ap_bindingHash c = bindingHashOf (me_sha M) b \<and>
        \<not> approvalInFlight L (ap_approvalId c) w v b now then Some c else None))) N
      (\<lambda>r _. \<forall>c. r = Some c \<longrightarrow> k = ap_approvalId c \<and> usable_for M now w v h b (ap_approvalId c) N) (\<lambda>_ _. True)"
    if k: "getSpendingApproval N k = Some a" "ap_wallet a = w" for k a
    by (rule runs_seq[OF runs_expire]) (use use[OF k] stored_approval_id[OF assms k(1)] in auto)
  then show ?thesis
    by (auto simp: usableApproval_def runs_bind[where m = "getsA (\<lambda>L. getSpendingApproval L _)"]
        simp del: runs_bind split: option.splits)
qed

lemma require_outcome:
  assumes ok: "ledger_ok L"
  shows "runs (requireOperationApproval M now uuid w v h b c i) L
    (\<lambda>a _. i = Some (ap_approvalId a) \<and> usable_for M now w v h b (ap_approvalId a) L) (\<lambda>_ _. True)"
proof -
  let ?N = "snd (pruneSpendingApprovals w (now - APPROVAL_RETENTION_MS) L)"
  have N: "ledger_ok ?N" by (rule gated_frame(8)[OF _ ok]) simp
  have use: "usable_for M now w v h b k L" if u: "usable_for M now w v h b k ?N" for k
  proof -
    obtain a where "getSpendingApproval ?N k = Some a" using u by (auto simp: usable_for_def)
    then have "getSpendingApproval L k = getSpendingApproval ?N k"
      by (auto simp: pruned_approval[OF ok] split: option.splits if_splits)
    then show ?thesis using u by (simp add: usable_for_def)
  qed
  show ?thesis
    unfolding requireOperationApproval_def runs_bind[where m = "modifyA _"] runs_modify
    by (rule runs_seq[OF runs_usable[OF N]])
      (auto simp: Let_def use split: option.splits sum.splits)
qed

definition policy_allows ::
  "MandatePolicy \<Rightarrow> ledger \<Rightarrow> int \<Rightarrow> string \<Rightarrow> string \<Rightarrow> int \<Rightarrow> PaymentBindingWire \<Rightarrow> bool" where
  "policy_allows policy L now w v amount p \<longleftrightarrow> js_BigInt (pb_amountRawUsdc p) = Some amount \<and>
     (\<forall>allowed. mp_allowedPayToAddresses policy = Some allowed \<longrightarrow> pb_payTo p \<in> set allowed) \<and>
     amount \<le> mp_perPaymentCapRawUsdc policy \<and>
     (\<forall>c. mp_dailyApiSpendCapRawUsdc policy = Some c \<longrightarrow> confirmedRealizeSum L w v (now - DAY_MS) + amount \<le> c) \<and>
     (\<forall>c. mp_monthlyApiSpendCapRawUsdc policy = Some c \<longrightarrow>
        confirmedRealizeSum L w v (now - ROLLING_MONTH_MS) + amount \<le> c)"

lemma violation_on:
  "me_level M = enforcement_on \<Longrightarrow> violation M b e None = Inr x \<longleftrightarrow> \<not> b \<and> x = None"
  by (auto simp: violation_def)

lemma exceeds_iff: "exceeds c a \<longleftrightarrow> (\<exists>m. c = Some m \<and> m < a)"
  by (cases c) (simp_all add: exceeds_def)

text \<open>How a permitted realize was decided: within the policy, or with the owner's approval.\<close>

definition realize_decided ::
  "mandate_env \<Rightarrow> int \<Rightarrow> string \<Rightarrow> string \<Rightarrow> EffectivePolicy \<Rightarrow> int \<Rightarrow> PaymentBindingWire \<Rightarrow> string option \<Rightarrow>
   MandateAuthorization \<Rightarrow> ledger \<Rightarrow> bool" where
  "realize_decided M now w v e amount p i auth L \<longleftrightarrow>
     (if exceeds (mp_approvalThresholdRawUsdc (ef_policy e)) amount
      then ef_ownerAvailable e \<and> (\<exists>h k. effectiveHash e = Some h \<and> i = Some k \<and> ma_approvalId auth = Some k \<and>
        usable_for M now w v h (PaymentBinding p) k L)
      else auth = decided e None)"

lemma escalate_outcome:
  assumes "ledger_ok L" "me_level M = enforcement_on"
  shows "runs (escalateRealize M now uuid w v e amount (Some p) i None) L
    (\<lambda>auth _. realize_decided M now w v e amount p i auth L) (\<lambda>_ _. True)"
proof -
  have "runs (requireOperationApproval M now uuid w v h (PaymentBinding p) c i) L
      (\<lambda>a _. effectiveHash e = Some h \<and> exceeds (mp_approvalThresholdRawUsdc (ef_policy e)) amount \<and>
        ef_ownerAvailable e \<longrightarrow> realize_decided M now w v e amount p i (ownerApproved e a) L) (\<lambda>_ _. True)" for h c
    by (rule runs_mono[OF require_outcome[OF assms(1)]]) (auto simp: realize_decided_def ownerApproved_def)
  then show ?thesis
    using assms(2) by (auto simp: escalateRealize_def requiredHash_def violation_def realize_decided_def
        intro: runs_mono split: option.splits sum.splits)
qed

lemma realize_outcome:
  assumes "ledger_ok L" "me_level M = enforcement_on"
  shows "runs (authorizeRealize M now uuid w v amount payment i) L
    (\<lambda>auth _. \<exists>e p. resolvePolicy w now v L = Inr e \<and> \<not> ef_revoked e \<and> payment = Some p \<and>
      policy_allows (ef_policy e) L now w v amount p \<and> realize_decided M now w v e amount p i auth L) (\<lambda>_ _. True)"
proof -
  show ?thesis
    by (auto simp: authorizeRealize_def assms(2) mandateNotRevoked_def checkPaymentBinding_def violation_on[OF assms(2)]
        spendingWindows_def bindR_Inr exceeds_iff payeeRefused_def policy_allows_def not_less
        intro!: escalate_outcome[OF assms] split: sum.splits option.splits)
qed

text \<open>
  C7: with enforcement on, a realize is permitted only for a declared payment of exactly its
  amount to an allowed payee, within the per-payment cap and within the rolling day and month
  counting every confirmed realize; above the threshold it also takes a stored approval the
  owner has given for this very payment, under this mandate, unexpired and not in use by another
  open withdrawal.
\<close>

theorem realize_within_policy:
  assumes "ledger_ok L" and "me_level M = enforcement_on"
    and "authorizeRealize M now uuid w v amount payment i L = (Inr auth, L')"
  shows "\<exists>e p. resolvePolicy w now v L = Inr e \<and> \<not> ef_revoked e \<and> payment = Some p \<and>
    policy_allows (ef_policy e) L now w v amount p \<and> realize_decided M now w v e amount p i auth L"
  by (rule runs_InrD[OF realize_outcome[OF assms(1,2)] assms(3)])

theorem realize_within_policy_witness:
  "\<exists>auth L'. authorizeRealize sample_mandate_env 0 ''u'' sample_wallet sample_vault 1000 (Some sample_binding) None
       empty_ledger = (Inr auth, L') \<and>
     policy_allows DEFAULT_RELAYER_POLICY empty_ledger 0 sample_wallet sample_vault 1000 sample_binding \<and>
     ma_policyDecision auth = Some ''auto_within_policy''"
proof -
  have e: "resolvePolicy sample_wallet 0 sample_vault empty_ledger = Inr defaultPolicy"
    by (simp add: resolvePolicy_def getSpendingMandate_def empty_ledger_def)
  have s: "confirmedRealizeSum empty_ledger w v t = 0" for w v t
    by (simp add: confirmedRealizeSum_def listWithdrawalsForPosition_def empty_ledger_def map_values_def)
  have run: "authorizeRealize sample_mandate_env 0 ''u'' sample_wallet sample_vault 1000 (Some sample_binding) None
       empty_ledger = (Inr (decided defaultPolicy None), empty_ledger)"
    by (simp add: authorizeRealize_def e s action_defs mandateNotRevoked_def checkPaymentBinding_def violation_def
        payeeRefused_def spendingWindows_def escalateRealize_def exceeds_def defaultPolicy_def DEFAULT_RELAYER_POLICY_def)
  from realize_within_policy[OF ledger_ok_empty _ run] e have
    "policy_allows (ef_policy defaultPolicy) empty_ledger 0 sample_wallet sample_vault 1000 sample_binding" by auto
  then show ?thesis using run by (auto simp: defaultPolicy_def decided_def)
qed

section \<open>Changing a mandate\<close>

text \<open>
  C20: no operation changes the mandate of a wallet and vault except as
  \<open>mandate_change\<close> allows: a document is stored only with its owner's signature, replaces
  an unexpired mandate only when it is newer and the current owner agrees or keeps the key, a
  revocation and the cancellation of a recovery carry a fresh signature of the stored owner, and
  without a signature the agent can only start the recovery clock.
\<close>

theorem mandate_changes_need_owner:
  assumes "ledger_ok L" and "mandate_step M now (U, L) (U', L')"
  shows "mandate_change M now (getSpendingMandate L w v) (getSpendingMandate L' w v)"
  using step_follows[OF assms(2,1)] unfolding mandate_progress_def getSpendingMandate_def by metis

theorem mandate_changes_need_owner_witness:
  "mandate_step sample_mandate_env 5 ({}, empty_ledger) ({''u''}, sample_registered) \<and>
     mandate_change sample_mandate_env 5 None (Some sample_record)"
  using mandate_changes_need_owner[OF ledger_ok_empty sample_register_step, of sample_wallet sample_vault]
    sample_registered(2) sample_register_step by (simp add: getSpendingMandate_def empty_ledger_def)

section \<open>Large payments\<close>

lemma payment_not_deposit:
  "canonicalJson (bindingJson (PaymentBinding p)) \<noteq> canonicalJson (bindingJson (DepositBinding a))"
  unfolding canonicalJson_def stableStringify_eq by (simp add: bindingJson_def obj_def sorted_defined_def)

lemma approved_large_payment:
  assumes ok: "mandates_ok M U L" and "realize_decided M now w v e amount p i auth L"
    and "exceeds (mp_approvalThresholdRawUsdc (ef_policy e)) amount"
  obtains h k where "effectiveHash e = Some h" "ma_approvalId auth = Some k"
    "owner_agreed M h k (bindingHashOf (me_sha M) (PaymentBinding p)) \<or>
     deposit_binding M (bindingHashOf (me_sha M) (PaymentBinding p))"
proof -
  obtain h k where h: "effectiveHash e = Some h" "ma_approvalId auth = Some k"
    "usable_for M now w v h (PaymentBinding p) k L"
    using assms(2,3) by (auto simp: realize_decided_def)
  then obtain a where a: "getSpendingApproval L k = Some a" "ap_status a = approval_approved" "ap_mandateHash a = h"
    "ap_bindingHash a = bindingHashOf (me_sha M) (PaymentBinding p)"
    by (auto simp: usable_for_def)
  have "ledger_ok L" "approval_backed M a" using ok a(1) by (auto simp: mandates_ok_def)
  then have "ap_approvalId a = k" using stored_approval_id a(1) by blast
  then show ?thesis
    using that[OF h(1,2)] \<open>approval_backed M a\<close> a(2-4) by (auto simp: approval_backed_def)
qed

text \<open>
  C34: with enforcement on (in the warning mode a violation is only logged, and off checks nothing),
  no payment above the approval threshold without its owner. On every ledger the service
  can reach, a realize whose amount exceeds the threshold of the effective policy is permitted
  only for a payment the owner has signed: a signature by the owner of a signed mandate document
  with the effective hash, over exactly this approval and the hash of exactly this payment,
  unless the digest function collides on the text of the payment.
\<close>

theorem large_payments_need_owner:
  assumes "mandate_steps M ({}, empty_ledger) (U, L)" and "me_level M = enforcement_on"
    and "authorizeRealize M now uuid w v amount payment i L = (Inr auth, L')"
    and "resolvePolicy w now v L = Inr e" and "exceeds (mp_approvalThresholdRawUsdc (ef_policy e)) amount"
  shows "\<exists>p h k. payment = Some p \<and> js_BigInt (pb_amountRawUsdc p) = Some amount \<and> effectiveHash e = Some h \<and>
    ma_approvalId auth = Some k \<and>
    (owner_agreed M h k (bindingHashOf (me_sha M) (PaymentBinding p)) \<or>
     (\<exists>x. x \<noteq> canonicalJson (bindingJson (PaymentBinding p)) \<and>
        me_sha M x = me_sha M (canonicalJson (bindingJson (PaymentBinding p)))))"
proof -
  have ok: "mandates_ok M U L" by (rule steps_mandates_ok[OF assms(1) mandates_ok_empty])
  then have "ledger_ok L" by (simp add: mandates_ok_def)
  from runs_InrD[OF realize_outcome[OF this assms(2)] assms(3)] assms(4) obtain p where
    p: "payment = Some p" "policy_allows (ef_policy e) L now w v amount p"
    "realize_decided M now w v e amount p i auth L" by auto
  have collision: "\<exists>x. x \<noteq> canonicalJson (bindingJson (PaymentBinding p)) \<and>
      me_sha M x = me_sha M (canonicalJson (bindingJson (PaymentBinding p)))"
    if "deposit_binding M (bindingHashOf (me_sha M) (PaymentBinding p))"
    using that payment_not_deposit by (auto simp: deposit_binding_def bindingHashOf_def canonicalJsonHash_def) metis
  show ?thesis
    by (rule approved_large_payment[OF ok p(3) assms(5)])
      (use p(1,2) collision in \<open>auto simp: policy_allows_def\<close>)
qed

theorem large_payments_need_owner_witness:
  "\<exists>L' k. authorizeRealize sample_mandate_env 8 ''x'' sample_wallet sample_vault 2000000 (Some large_binding)
       (Some ''apr_v'') agreed_ledger = (Inr large_authorization, L') \<and> ma_approvalId large_authorization = Some k \<and>
     owner_agreed sample_mandate_env sample_hash_of_document k
       (bindingHashOf (\<lambda>x. x) (PaymentBinding large_binding))"
proof -
  obtain L' where run: "authorizeRealize sample_mandate_env 8 ''x'' sample_wallet sample_vault 2000000
      (Some large_binding) (Some ''apr_v'') agreed_ledger = (Inr large_authorization, L')"
    using large_permitted by blast
  have e: "resolvePolicy sample_wallet 8 sample_vault agreed_ledger = Inr \<lparr>ef_policy = DEFAULT_RELAYER_POLICY,
    ef_policySource = ''mandate:'' @ sample_hash_of_document, ef_mandate = Some sample_record,
    ef_ownerAvailable = True, ef_revoked = False\<rparr>"
    by (rule sample_effective) (simp_all add: agreed_ledger)
  have x: "exceeds (mp_approvalThresholdRawUsdc (ef_policy \<lparr>ef_policy = DEFAULT_RELAYER_POLICY,
    ef_policySource = ''mandate:'' @ sample_hash_of_document, ef_mandate = Some sample_record,
    ef_ownerAvailable = True, ef_revoked = False\<rparr>)) 2000000"
    by (simp add: DEFAULT_RELAYER_POLICY_def exceeds_def)
  from large_payments_need_owner[OF large_steps sample_mandate_env_simps(2) run e x] run show ?thesis
    by (auto simp: effectiveHash_def sample_record_def)
qed

section \<open>An approval pays once\<close>

lemma closed_keeps:
  assumes "mandate_steps M (U, L) (U', L')" and "ledger_ok L" and "getSpendingApproval L k = Some a"
    and "closed_approval a" and "\<forall>u. k = ''apr_'' @ u \<longrightarrow> u \<in> U"
  shows "ledger_ok L' \<and> (\<forall>b. getSpendingApproval L' k = Some b \<longrightarrow> b = a)"
proof -
  let ?I = "\<lambda>V N. ledger_ok N \<and> (\<forall>u. k = ''apr_'' @ u \<longrightarrow> u \<in> V) \<and> (\<forall>b. getSpendingApproval N k = Some b \<longrightarrow> b = a)"
  have "?I U' L'"
  proof (rule steps_invariant[where I = ?I, OF assms(1)])
    fix now V N V' N'
    assume s: "mandate_step M now (V, N) (V', N')" and I: "?I V N"
    then obtain D where D: "V' = D \<union> V" "D \<inter> V = {}" "mandate_progress M now D N N'"
      using step_follows[OF s] by auto
    have "k \<notin> (@) ''apr_'' ` D" using I D(2) by blast
    moreover have "approval_next M N (k \<in> (@) ''apr_'' ` D) (getSpendingApproval N k) (getSpendingApproval N' k)"
      using D(3) unfolding mandate_progress_def by blast
    ultimately have "b = a" if "getSpendingApproval N' k = Some b" for b
      using that I approval_changeD(2)[OF _ assms(4)] by (auto simp: approval_next_def)
    then show "?I V' N'" using I D progress_ok[OF D(3)] by blast
  qed (use assms in auto)
  then show ?thesis by blast
qed

text \<open>A gate that names an approval has found it approved.\<close>

definition gate_call ::
  "mandate_env \<Rightarrow> int \<Rightarrow> string \<Rightarrow> string \<Rightarrow> string \<Rightarrow> int \<Rightarrow> PaymentBindingWire option \<Rightarrow> string option \<Rightarrow>
   (ledger, MandateAuthorization) action \<Rightarrow> bool" where
  "gate_call M now uuid w v amount payment i m \<longleftrightarrow>
     m = authorizeRealize M now uuid w v amount payment i \<or>
     m = mandateAuthorizeDeposit M now uuid w v amount i \<or> m = mandateAuthorizeWithdrawal M now uuid w v amount i"

definition names_approved :: "MandateAuthorization \<Rightarrow> ledger \<Rightarrow> bool" where
  "names_approved auth L \<longleftrightarrow> (\<forall>k. ma_approvalId auth = Some k \<longrightarrow>
     (\<exists>a. getSpendingApproval L k = Some a \<and> ap_status a = approval_approved))"

lemma decided_names [simp]: "names_approved (decided e x) L" "names_approved unenforced L"
  by (simp_all add: names_approved_def decided_def unenforced_def)

lemma require_names:
  assumes "ledger_ok L"
  shows "runs (requireOperationApproval M now uuid w v h b c i) L (\<lambda>a _. names_approved (ownerApproved e a) L) (\<lambda>_ _. True)"
  by (rule runs_mono[OF require_outcome[OF assms]]) (auto simp: names_approved_def ownerApproved_def usable_for_def)

lemma gates_name:
  assumes "ledger_ok L" "gate_call M now uuid w v amount payment i m"
  shows "runs m L (\<lambda>auth _. names_approved auth L) (\<lambda>_ _. True)"
proof -
  note require = require_names[OF assms(1)]
  have "runs (escalateRealize M now uuid w v e a p i x) L (\<lambda>auth _. names_approved auth L) (\<lambda>_ _. True)" for e a p x
    by (auto simp: escalateRealize_def intro!: require split: sum.splits option.splits MandateEnforcementLevel.splits)
  moreover have "runs (approveOperation M now uuid w v e b c i) L (\<lambda>auth _. names_approved auth L) (\<lambda>_ _. True)" for e b c
    by (auto simp: approveOperation_def intro!: require split: sum.splits)
  ultimately show ?thesis
    using assms(2) by (auto simp: gate_call_def authorizeRealize_def mandateAuthorizeDeposit_def
        mandateAuthorizeWithdrawal_def split: sum.splits)
qed

definition spent :: "string \<Rightarrow> ledger \<Rightarrow> bool" where
  "spent k L \<longleftrightarrow> ledger_ok L \<and> (\<exists>a. getSpendingApproval L k = Some a \<and> closed_approval a)"

lemma fee_keeps_approvals:
  assumes "ledger_ok L"
  shows "runs (applyFlowFeeDebt E w v fee) L
    (\<lambda>_ N. ledger_ok N \<and> getSpendingApproval N = getSpendingApproval L) (\<lambda>_ _. False)"
  using assms by (auto simp: applyFlowFeeDebt_def split: option.splits sum.splits)

lemma consume_spends:
  assumes "ledger_ok L" "getSpendingApproval L k = Some a" "ap_status a \<noteq> approval_pending"
  shows "runs (consumeApproval now k j) L (\<lambda>_. spent k) (\<lambda>_ _. False)"
proof -
  have "ap_approvalId a = k" using stored_approval_id[OF assms(1,2)] .
  then show ?thesis
    using assms by (cases "ap_status a") (auto simp: consumeApproval_def spent_def closed_approval_def)
qed

lemma settle_spends:
  assumes "vf_mandates E = Some (mandateOps M nowMs uid)" and "ledger_ok L" and "wdr_approvalId latest = Some k"
    and "getSpendingApproval L k = Some a" and "ap_status a \<noteq> approval_pending"
  shows "runs (settleWithdrawalOutcome E now ev d latest c r n) L
    (\<lambda>i L'. wdr_status i = flow_confirmed \<longrightarrow> spent k L') (\<lambda>_ _. True)"
proof -
  have fee: "runs (applyFlowFeeDebt E w v f) (savePosition p L) Q Q'"
    if "\<And>N. ledger_ok N \<Longrightarrow> getSpendingApproval N k = Some a \<Longrightarrow> Q () N" for w v f p Q Q'
    by (rule runs_mono[OF fee_keeps_approvals]) (use assms(2,4) that in auto)
  have consume: "runs (consumeApproval nowMs k j) N (\<lambda>_. spent k) (\<lambda>_ _. True)"
    if "ledger_ok N" "getSpendingApproval N k = Some a" for N j
    by (rule runs_mono[OF consume_spends[OF that assms(5)]]) auto
  have flag: "runs (flagFlowBaselineReset now ev w v) L (\<lambda>_ _. True) (\<lambda>_ _. True)" for w v
    by (rule runsI) auto
  show ?thesis
    using assms(1,3)
    by (auto simp: settleWithdrawalOutcome_def storeWithdrawal_def recordFlowEvent_def recordSyncEvent_def Let_def
        mandateOps_def terminalWithdrawal_def intro!: fee consume flag split: option.splits sum.splits)
qed

text \<open>
  C35: an approval pays once. When a submitted withdrawal that carries an approval is confirmed,
  then whatever the mandate service and the other services do afterwards, no gate ever
  authorizes a realize, a deposit or a withdrawal with that approval again.
\<close>

theorem confirmed_flow_spends_approval:
  assumes "mandates_ok M U L" and "vf_mandates E = Some (mandateOps M nowMs uid)"
    and "getWithdrawal L (wdr_withdrawalId d) = Some latest" and "wdr_approvalId latest = Some k"
    and "wdr_status latest = flow_submitted" and "getSpendingApproval L k = Some a" and "ap_status a \<noteq> approval_pending"
    and "finalizeWithdrawalSection E t ev d c L = (Inr i, L1)" and "wdr_status i = flow_confirmed"
    and "mandate_steps M (U, L1) (U', L2)"
    and "gate_call M now uuid w v amount payment j m" and "m L2 = (Inr auth, L3)"
  shows "ma_approvalId auth \<noteq> Some k"
proof
  assume k: "ma_approvalId auth = Some k"
  have L: "ledger_ok L" and drawn: "ids_drawn U L" using assms(1) by (auto simp: mandates_ok_def)
  note settle = settle_spends[OF assms(2) L assms(4,6,7), of t ev d c]
  have fee: "runs (applyFlowFeeDebt E w' v' f) L (\<lambda>_ N. wdr_status (terminalWithdrawal t flow_failed ''landed_failed'' latest)
      = flow_confirmed \<longrightarrow> spent k (saveWithdrawal (terminalWithdrawal t flow_failed ''landed_failed'' latest) N)) (\<lambda>_ _. True)"
    for w' v' f by (rule runsI) (auto simp: terminalWithdrawal_def)
  have "runs (finalizeWithdrawalSection E t ev d c) L (\<lambda>i N. wdr_status i = flow_confirmed \<longrightarrow> spent k N) (\<lambda>_ _. True)"
    using assms(3,5) settle fee
    by (auto simp: finalizeWithdrawalSection_def refreshPositionFromChain_def storeWithdrawal_def Let_def
        split: option.splits sum.splits)
  then have "spent k L1" using runs_InrD assms(8,9) by fastforce
  then obtain b where b: "ledger_ok L1" "getSpendingApproval L1 k = Some b" "closed_approval b"
    by (auto simp: spent_def)
  have "\<forall>u. k = ''apr_'' @ u \<longrightarrow> u \<in> U" using drawn assms(6) unfolding ids_drawn_def by (metis option.distinct(1))
  from closed_keeps[OF assms(10) b this] have L2: "ledger_ok L2" "\<forall>b'. getSpendingApproval L2 k = Some b' \<longrightarrow> b' = b"
    by blast+
  from runs_InrD[OF gates_name[OF L2(1) assms(11)] assms(12)] k L2(2) b(3) show False
    by (auto simp: names_approved_def closed_approval_def)
qed

theorem confirmed_flow_spends_approval_witness:
  "\<exists>i L1 auth L3. finalizeWithdrawalSection paid_env 9 ''z'' paid_withdrawal paid_outcome paid_ledger = (Inr i, L1) \<and>
     wdr_status i = flow_confirmed \<and>
     mandateAuthorizeWithdrawal sample_mandate_env 10 ''q'' sample_wallet sample_vault 5 (Some ''apr_v'') L1
       = (Inr auth, L3) \<and> ma_approvalId auth \<noteq> Some ''apr_v''"
proof -
  have w: "wdr_withdrawalId paid_withdrawal = ''wdr_1''" "wdr_wallet paid_withdrawal = sample_wallet"
    "wdr_vault paid_withdrawal = sample_vault" "wdr_status paid_withdrawal = flow_submitted"
    "wdr_approvalId paid_withdrawal = Some ''apr_v''"
    by (simp_all add: paid_withdrawal_def sample_withdrawal_def)
  have got: "getWithdrawal paid_ledger ''wdr_1'' = Some paid_withdrawal"
    "getPosition paid_ledger sample_wallet sample_vault = Some sample_position"
    "getSpendingApproval paid_ledger ''apr_v'' = Some large_approved"
    "led_spendingMandates paid_ledger = led_spendingMandates agreed_ledger"
    by (simp_all add: paid_ledger_def w agreed_ledger) (simp_all add: saveWithdrawal_def savePosition_def)
  have a: "ap_status large_approved = approval_approved"
    by (simp add: large_approved_def decidedApproval_def large_decision_def)
  have E: "vf_loadContext paid_env = Inr sample_context" "vf_getUserSharesRaw paid_env x y = Inr sample_shares"
    "vf_mandates paid_env = Some (mandateOps sample_mandate_env 9 ''y'')" "vf_feeLamportsToUsdc paid_env = None" for x y
    by (simp_all add: paid_env_def)
  have c: "\<not> co_err paid_outcome" "co_tokenBalanceDeltas paid_outcome z = Some 1600000" for z
    by (simp_all add: paid_outcome_def sample_outcome_def)
  have v: "computePositionValueRawUsdc 2000000 1000000000000 = Inr 2000000"
    by (simp add: computePositionValueRawUsdc_def mulDivFloor_def RATE_SCALE_def)
  have "runs (finalizeWithdrawalSection paid_env 9 ''z'' paid_withdrawal paid_outcome) paid_ledger
      (\<lambda>i N. wdr_status i = flow_confirmed \<and> led_spendingMandates N = led_spendingMandates agreed_ledger) (\<lambda>_ _. False)"
    using got w E c v a
    by (simp add: finalizeWithdrawalSection_def settleWithdrawalOutcome_def refreshPositionFromChain_def
        applyFlowFeeDebt_def recordFlowEvent_def recordSyncEvent_def storeWithdrawal_def mandateOps_def
        consumeApproval_def Let_def) (simp add: save_defs)
  then obtain i L1 where run: "finalizeWithdrawalSection paid_env 9 ''z'' paid_withdrawal paid_outcome paid_ledger = (Inr i, L1)"
    and i: "wdr_status i = flow_confirmed" and m: "led_spendingMandates L1 = led_spendingMandates agreed_ledger"
    by (auto simp: runs_def split: prod.splits sum.splits)
  have "getSpendingMandate L1 sample_wallet sample_vault = Some sample_record"
    using agreed_ledger(2) m by (simp add: getSpendingMandate_def)
  from sample_effective[OF this, of 10] obtain auth L3 where gate: "mandateAuthorizeWithdrawal sample_mandate_env 10 ''q''
      sample_wallet sample_vault 5 (Some ''apr_v'') L1 = (Inr auth, L3)"
    by (simp add: mandateAuthorizeWithdrawal_def action_defs mandateNotRevoked_def DEFAULT_RELAYER_POLICY_def)
  have "gate_call sample_mandate_env 10 ''q'' sample_wallet sample_vault 5 None (Some ''apr_v'')
      (mandateAuthorizeWithdrawal sample_mandate_env 10 ''q'' sample_wallet sample_vault 5 (Some ''apr_v''))"
    by (simp add: gate_call_def)
  from confirmed_flow_spends_approval[OF paid_ok E(3) _ w(5) w(4) got(3) _ run i rtranclp.rtrancl_refl this gate] w got a
  show ?thesis using run i gate by auto
qed

section \<open>Revocation\<close>

lemma revoked_stays:
  assumes "mandate_change M now (Some r) new" "md_status r = mandate_revoked"
  shows "new = Some r \<or> (\<exists>d. acceptable M now d \<and> new = Some (record_of M d) \<and> md_issuedAtMs r < sd_issuedAtMs d \<and>
    oc_publicKey (md_ownerCredential r) = oc_publicKey (sd_ownerCredential d))"
  using assms by cases (auto simp: may_replace_def effectiveStatus_def)

lemma revoked_refuses:
  assumes "getSpendingMandate L w v = Some r" "md_status r = mandate_revoked" "me_level M \<noteq> enforcement_off"
  shows "gate_call M now uuid w v amount payment i m \<Longrightarrow> m L = (Inl (conflict ''mandate_revoked''), L)"
    and "assertPreparedAuthorization M now w v h i L = (Inl (conflict ''mandate_revoked''), L)"
proof -
  have e: "resolvePolicy w now v L = Inr (defaultPolicy\<lparr>ef_mandate := Some r, ef_revoked := True\<rparr>)"
    using assms by (simp add: resolvePolicy_def effectiveStatus_def)
  show "assertPreparedAuthorization M now w v h i L = (Inl (conflict ''mandate_revoked''), L)"
    using assms(3) by (simp add: assertPreparedAuthorization_def e mandateNotRevoked_def action_defs checkR_def)
  show "m L = (Inl (conflict ''mandate_revoked''), L)" if "gate_call M now uuid w v amount payment i m"
    using that assms(3) by (auto simp: gate_call_def authorizeRealize_def mandateAuthorizeDeposit_def
        mandateAuthorizeWithdrawal_def e mandateNotRevoked_def action_defs checkR_def)
qed

text \<open>After a revocation the wallet may be revived: its own key has signed a newer document.\<close>

definition revived :: "mandate_env \<Rightarrow> SpendingMandateRecord \<Rightarrow> string set \<times> ledger \<Rightarrow> string \<Rightarrow> string \<Rightarrow> bool" where
  "revived M r c w v \<longleftrightarrow> (\<exists>V N d. mandate_steps M c (V, N) \<and> getSpendingMandate N w v = Some (record_of M d) \<and>
     document_signed M d \<and> md_issuedAtMs r < sd_issuedAtMs d \<and>
     oc_publicKey (sd_ownerCredential d) = oc_publicKey (md_ownerCredential r))"

lemma mandate_newer:
  assumes "mandate_change M now (Some r) new"
  obtains r' where "new = Some r'" "md_issuedAtMs r \<le> md_issuedAtMs r'"
  using assms by cases (auto simp: may_replace_def)

lemma revoked_or_revived:
  assumes "mandate_steps M (U, L) (U', L')" "ledger_ok L" "getSpendingMandate L w v = Some r" "md_status r = mandate_revoked"
  shows "getSpendingMandate L' w v = Some r \<or>
    (\<exists>r'. getSpendingMandate L' w v = Some r' \<and> md_issuedAtMs r < md_issuedAtMs r' \<and> revived M r (U, L) w v)"
proof -
  let ?J = "\<lambda>N. getSpendingMandate N w v = Some r \<or>
    (\<exists>r'. getSpendingMandate N w v = Some r' \<and> md_issuedAtMs r < md_issuedAtMs r' \<and> revived M r (U, L) w v)"
  let ?I = "\<lambda>V N. mandate_steps M (U, L) (V, N) \<and> ledger_ok N \<and> ?J N"
  have "?I U' L'"
  proof (rule steps_invariant[where I = ?I, OF assms(1)])
    fix now V N V' N'
    assume s: "mandate_step M now (V, N) (V', N')" and I: "?I V N"
    then have r: "mandate_steps M (U, L) (V', N')" using steps_then by blast
    from I obtain D where p: "mandate_progress M now D N N'" using step_follows[OF s] by blast
    have c: "mandate_change M now (getSpendingMandate N w v) (getSpendingMandate N' w v)"
      using p unfolding mandate_progress_def getSpendingMandate_def by blast
    have first: "?J N'" if "getSpendingMandate N' w v = Some (record_of M d)" "acceptable M now d"
        "md_issuedAtMs r < sd_issuedAtMs d" "oc_publicKey (md_ownerCredential r) = oc_publicKey (sd_ownerCredential d)" for d
    proof -
      have "document_signed M d" using that(2) by (simp add: acceptable_def)
      then have "revived M r (U, L) w v" unfolding revived_def using r that(1,3) that(4)[symmetric] by blast
      then show ?thesis using that(1,3) by simp
    qed
    from I consider "getSpendingMandate N w v = Some r"
      | r' where "getSpendingMandate N w v = Some r'" "md_issuedAtMs r < md_issuedAtMs r'" "revived M r (U, L) w v"
      by blast
    then have "?J N'"
    proof cases
      case 1
      then have "mandate_change M now (Some r) (getSpendingMandate N' w v)" using c by simp
      from revoked_stays[OF this assms(4)] first show ?thesis by blast
    next
      case 2
      from mandate_newer[OF c[unfolded 2(1)]] 2(2,3) show ?thesis by fastforce
    qed
    then show "?I V' N'" using r progress_ok[OF p] by blast
  qed (use assms in auto)
  then show ?thesis by blast
qed

text \<open>
  C36: the kill switch. After \<open>revokeMandate\<close> has returned, whatever happens afterwards,
  every gate refuses every realize, deposit and withdrawal of the wallet and vault with
  \<open>mandate_revoked\<close>, and so does the check before a prepared flow is submitted, unless the
  owner's own key has signed a newer mandate that was registered since.
\<close>

theorem revocation_stops_wallet:
  assumes "ledger_ok L" and "me_level M \<noteq> enforcement_off"
    and "revokeMandate M t ev x L = (Inr res, L1)"
    and "getSpendingMandateByHash L (oa_wallet x) (oa_mandateHash x) = Some r"
    and "mandate_steps M (U, L1) (U', L2)"
    and "gate_call M now uuid (oa_wallet x) (md_vault r) amount payment i m"
  shows "m L2 = (Inl (conflict ''mandate_revoked''), L2) \<and>
      assertPreparedAuthorization M now (oa_wallet x) (md_vault r) h i L2 = (Inl (conflict ''mandate_revoked''), L2) \<or>
    (\<exists>r1 r2. getSpendingMandate L1 (oa_wallet x) (md_vault r) = Some r1 \<and>
      getSpendingMandate L2 (oa_wallet x) (md_vault r) = Some r2 \<and> md_issuedAtMs r1 < md_issuedAtMs r2 \<and>
      revived M r1 (U, L1) (oa_wallet x) (md_vault r))"
proof -
  from runs_InrD[OF progress_revoke[OF assms(1)] assms(3), of "{}"] assms(4) mandate_by_hash(2)[OF assms(1,4)]
  obtain r1 where "ledger_ok L1" and r1: "getSpendingMandate L1 (oa_wallet x) (md_vault r) = Some r1"
    "md_status r1 = mandate_revoked"
    by (auto simp: getSpendingMandate_def mandate_key_def dest: progress_ok)
  from revoked_or_revived[OF assms(5) this] show ?thesis
    using revoked_refuses[OF _ r1(2) assms(2)] assms(6) r1 by blast
qed

theorem revocation_stops_wallet_witness:
  "\<exists>L1. revokeMandate sample_mandate_env 7 ''f'' sample_revocation sample_registered
       = (Inr (sample_hash_of_document, mandate_revoked), L1) \<and>
     mandateAuthorizeWithdrawal sample_mandate_env 8 ''g'' sample_wallet sample_vault 5 None L1
       = (Inl (conflict ''mandate_revoked''), L1)"
proof -
  obtain L1 where run: "revokeMandate sample_mandate_env 7 ''f'' sample_revocation sample_registered
      = (Inr (sample_hash_of_document, mandate_revoked), L1)"
    and got: "getSpendingMandate L1 sample_wallet sample_vault = Some (revokedRecord sample_record sample_revocation 7)"
    using sample_revoked by blast
  have x: "oa_wallet sample_revocation = sample_wallet" "oa_mandateHash sample_revocation = sample_hash_of_document"
    by (simp_all add: sample_revocation_def)
  have ok: "ledger_ok sample_registered"
    using steps_mandates_ok[OF steps_then[OF rtranclp.rtrancl_refl sample_register_step] mandates_ok_empty]
    by (simp add: mandates_ok_def)
  have call: "gate_call sample_mandate_env 8 ''g'' (oa_wallet sample_revocation) (md_vault sample_record) 5 None None
      (mandateAuthorizeWithdrawal sample_mandate_env 8 ''g'' sample_wallet sample_vault 5 None)"
    by (simp add: gate_call_def x sample_owner_signature)
  have "md_vault sample_record = sample_vault" by (rule sample_owner_signature)
  with revocation_stops_wallet[OF ok _ run _ rtranclp.rtrancl_refl call] run got x registered_by_hash show ?thesis by auto
qed

section \<open>Registration and setup sessions\<close>

text \<open>
  C37: the policy the owner signed is the policy that is enforced. After a registration, and
  until the mandate expires, the effective policy of the wallet and vault is what the amounts of
  the signed document parse to, read back from the stored document, under the document's hash.
\<close>

theorem registered_policy_is_enforced:
  assumes "ledger_ok L" and "registerMandate M now uuid ev x L = (Inr (r, a), L')"
    and "now' < sd_expiresAtMs (rm_document x)"
  shows "\<exists>policy. parseMandatePolicy (sd_policy (rm_document x)) = Inr policy \<and>
    document_signed M (rm_document x) \<and>
    resolvePolicy (rm_wallet x) now' (rm_vault x) L' = Inr \<lparr>ef_policy = policy,
      ef_policySource = ''mandate:'' @ mandateHashOf (me_sha M) (rm_document x), ef_mandate = Some r,
      ef_ownerAvailable = True, ef_revoked = False\<rparr>"
proof -
  from runs_InrD[OF progress_register[OF assms(1), of uuid "{uuid}"] assms(2)] obtain h policy where
    v: "validateMandateDocument M (rm_document x) (rm_wallet x) (rm_vault x) now (rm_agentCosign x) = Inr (policy, h)"
    and r: "r = newMandateRecord (rm_wallet x) (rm_vault x) (rm_document x) h"
      "getSpendingMandate L' (rm_wallet x) (rm_vault x) = Some r"
    by auto
  have "effectiveStatus r now' = eff_active" using assms(3) by (simp add: effectiveStatus_def r(1))
  then show ?thesis
    using validated[OF v] r by (simp add: resolvePolicy_def documentPolicy_def documentPolicyWire_stored acceptable_def)
qed

theorem registered_policy_is_enforced_witness:
  "document_signed sample_mandate_env sample_document \<and>
   resolvePolicy sample_wallet 100 sample_vault sample_registered = Inr \<lparr>ef_policy = DEFAULT_RELAYER_POLICY,
     ef_policySource = ''mandate:'' @ sample_hash_of_document, ef_mandate = Some sample_record,
     ef_ownerAvailable = True, ef_revoked = False\<rparr>"
proof -
  have d: "rm_document sample_registration = sample_document" "rm_wallet sample_registration = sample_wallet"
    "rm_vault sample_registration = sample_vault"
    by (simp_all add: sample_registration_def)
  have "100 < sd_expiresAtMs (rm_document sample_registration)" by (simp add: d) (simp add: sample_document_def)
  from registered_policy_is_enforced[OF ledger_ok_empty sample_registered(1) this]
  have "\<exists>policy. parseMandatePolicy (sd_policy sample_document) = Inr policy \<and>
    document_signed sample_mandate_env sample_document \<and>
    resolvePolicy sample_wallet 100 sample_vault sample_registered = Inr \<lparr>ef_policy = policy,
      ef_policySource = ''mandate:'' @ sample_hash_of_document, ef_mandate = Some sample_record,
      ef_ownerAvailable = True, ef_revoked = False\<rparr>"
    by (simp add: d sample_hash_of_document_def)
  moreover have "sd_policy sample_document = defaultMandatePolicyWire" by (simp add: sample_document_def)
  ultimately show ?thesis by (simp add: default_policy_parses)
qed

lemma completed_stays:
  assumes "mandate_steps M (U, L) (U', L')" "ledger_ok L" "getSetupSession L k = Some s" "ss_status s = setup_completed"
    and "\<forall>u. k = ''st_'' @ u \<longrightarrow> u \<in> U"
  shows "getSetupSession L' k = Some s"
proof -
  let ?I = "\<lambda>V N. ledger_ok N \<and> (\<forall>u. k = ''st_'' @ u \<longrightarrow> u \<in> V) \<and> getSetupSession N k = Some s"
  have "?I U' L'"
  proof (rule steps_invariant[where I = ?I, OF assms(1)])
    fix now V N V' N'
    assume st: "mandate_step M now (V, N) (V', N')" and I: "?I V N"
    then obtain D where D: "V' = D \<union> V" "D \<inter> V = {}" "mandate_progress M now D N N'"
      using step_follows[OF st] by auto
    have "k \<notin> (@) ''st_'' ` D" using I D(2) by blast
    moreover have "session_next now (k \<in> (@) ''st_'' ` D) (getSetupSession N k) (getSetupSession N' k)"
      using D(3) unfolding mandate_progress_def by blast
    ultimately have "getSetupSession N' k = Some s"
      using I assms(4) by (simp add: session_next_def session_change_def)
    then show "?I V' N'" using I D progress_ok[OF D(3)] by blast
  qed (use assms in auto)
  then show ?thesis by blast
qed

text \<open>
  A setup link works once and only for what it proposed. A completed session was open,
  unexpired and matched by the document, whose owner signature verified and which is now the
  mandate; afterwards every further completion of the session is refused as used and changes
  nothing, whatever the services do in between.
\<close>

theorem setup_session_completes_once:
  assumes "ledger_ok L" and "ids_drawn U L" and "completeSetupSession M t uuid ev k d L = (Inr j, L1)"
    and "mandate_steps M (U, L1) (U', L2)"
  shows "(\<exists>s. getSetupSession L k = Some s \<and> session_done M t d s L1) \<and>
    completeSetupSession M now u' ev' k d' L2 = (Inl (conflict ''setup_session_used''), L2)"
proof -
  from runs_InrD[OF session_completed[OF assms(1), of uuid "{uuid}"] assms(3)] obtain s where
    s: "getSetupSession L k = Some s" "session_done M t d s L1" "ledger_ok L1"
    by (auto dest: progress_ok)
  then obtain s' where s': "getSetupSession L1 k = Some s'" "ss_status s' = setup_completed"
    using stored_session_id[OF assms(1) s(1)] by (auto simp: session_done_def)
  have "\<forall>u. k = ''st_'' @ u \<longrightarrow> u \<in> U" using assms(2) s(1) unfolding ids_drawn_def by (metis option.distinct(1))
  from completed_stays[OF assms(4) s(3) s' this] s'(2)
  have "completeSetupSession M now u' ev' k d' L2 = (Inl (conflict ''setup_session_used''), L2)"
    by (simp add: completeSetupSession_def openSession_def withLock_def action_defs checkR_def)
  then show ?thesis using s by blast
qed

theorem setup_session_completes_once_witness:
  "\<exists>j L1. completeSetupSession sample_mandate_env 5 ''u'' ''e'' ''st_s'' sample_document session_ledger = (Inr j, L1) \<and>
     completeSetupSession sample_mandate_env 6 ''u2'' ''e2'' ''st_s'' sample_document L1
       = (Inl (conflict ''setup_session_used''), L1)"
proof -
  have s: "ss_sessionId sample_session = ''st_s''" "ss_status sample_session = setup_pending"
    "ss_wallet sample_session = sample_wallet" "ss_vault sample_session = sample_vault"
    "ss_ownerManagement sample_session = None" "5 < ss_expiresAtMs sample_session"
    "documentMatchesSession sample_document sample_session"
    by (simp_all add: sample_session_def newSetupSession_def SETUP_SESSION_TTL_MS_def documentMatchesSession_def)
      (simp add: sample_document_def)
  have L: "getSetupSession session_ledger ''st_s'' = Some sample_session" "ledger_ok session_ledger"
    "getSpendingMandate session_ledger sample_wallet sample_vault = None" "ids_drawn {''s''} session_ledger"
    by (simp_all add: session_ledger_def s)
      (simp_all add: ids_drawn_def s empty_ledger_def getSpendingMandate_def getSpendingApproval_def getSetupSession_def
        saveSetupSession_def)
  let ?x = "sessionRegistration sample_session sample_document"
  have cosign: "rm_agentCosign ?x = cosign_setup_session" "rm_expectedOwnerState ?x = None"
    by (simp_all add: sessionRegistration_def s)
  have "\<exists>r a N. registerMandateSection sample_mandate_env 5 ''u'' ''e'' ?x sample_hash_of_document session_ledger
      = (Inr (r, a), N)"
    by (simp add: registerMandateSection_def cosign s L(3) checkReplacement_def recordMandateEvent_def
        issueInitialDepositApproval_def action_defs Let_def split: option.split)
  then obtain r a N where "registerMandateSection sample_mandate_env 5 ''u'' ''e'' ?x sample_hash_of_document session_ledger
      = (Inr (r, a), N)" by blast
  then have "registerMandate sample_mandate_env 5 ''u'' ''e'' ?x session_ledger = (Inr (r, a), N)"
    using sample_document_valid by (simp add: registerMandate_def cosign s withMandateLock_def withLock_Inr action_defs)
  then obtain j L1 where run: "completeSetupSession sample_mandate_env 5 ''u'' ''e'' ''st_s'' sample_document session_ledger
      = (Inr j, L1)"
    using s(2,6,7) L(1) by (simp add: completeSetupSession_def openSession_def withLock_Inr action_defs checkR_def)
  from setup_session_completes_once[OF L(2,4) run rtranclp.rtrancl_refl] run show ?thesis by blast
qed

end
