(* ===== verification/Token_Accounts.thy ===== *)
theory Token_Accounts
  imports WebAuthn_Owner "HOL-Library.Signed_Division"
begin

text \<open>
  \<open>src/src/lib/associated-token-account.ts\<close>: the derivation of an associated token account,
  an address that is the SHA-256 of four seeds and lies off the Ed25519 curve. The curve test
  is written with arbitrary-precision integers, as the source has it; SHA-256 and the base58
  coder of the \<open>bs58\<close> package are functions of the environment.
\<close>

section \<open>Modular arithmetic\<close>

text \<open>
  \<open>mod\<close>: the remainder of JavaScript takes the sign of the dividend, the function moves it
  into the range of the modulus.
\<close>

definition js_mod :: "int \<Rightarrow> int \<Rightarrow> int" where
  "js_mod n modulus = (let remainder = n smod modulus in
     if remainder \<ge> 0 then remainder else remainder + modulus)"

lemma smod_pos:
  fixes n m :: int
  assumes "0 < m"
  shows "n smod m = (if 0 \<le> n then n mod m else - ((- n) mod m))"
proof (cases "0 \<le> n")
  case True
  with assms show ?thesis by (simp add: smod_int_alt_def sgn_if)
next
  case False
  with assms show ?thesis by (simp add: smod_int_alt_def sgn_if)
qed

lemma js_mod_eq:
  assumes "0 < m"
  shows "js_mod n m = n mod m"
proof (cases "0 \<le> n")
  case True
  with assms show ?thesis by (simp add: js_mod_def smod_pos)
next
  case False
  define k where "k = (- n) mod m"
  have k: "0 \<le> k" using assms by (simp add: k_def)
  have "n mod m = (if k = 0 then 0 else m - k)"
    using zmod_zminus1_eq_if [of "- n" m] by (simp add: k_def)
  moreover have "js_mod n m = (if 0 \<le> - k then - k else - k + m)"
    using False assms by (simp add: js_mod_def smod_pos k_def)
  ultimately show ?thesis using k by auto
qed

text \<open>\<open>modPow\<close>: square and multiply, the loop over the bits of the exponent.\<close>

function modPowLoop :: "int \<Rightarrow> int \<Rightarrow> int \<Rightarrow> int \<Rightarrow> int" where
  "modPowLoop modulus acc nextBase nextExponent =
     (if nextExponent > 0
      then modPowLoop modulus
        (if nextExponent AND 1 = 1 then js_mod (acc * nextBase) modulus else acc)
        (js_mod (nextBase * nextBase) modulus) (drop_bit 1 nextExponent)
      else acc)"
  by pat_completeness auto
termination
  by (relation "measure (\<lambda>(m, a, b, e). nat e)") (auto simp: drop_bit_eq_div)

declare modPowLoop.simps [simp del]

definition modPow :: "int \<Rightarrow> int \<Rightarrow> int \<Rightarrow> int" where
  "modPow base exponent modulus = modPowLoop modulus 1 (js_mod base modulus) exponent"

lemma square_step:
  fixes b e :: int
  assumes "0 < e"
  shows "b ^ nat e = (b * b) ^ nat (drop_bit 1 e) * (if e AND 1 = 1 then b else 1)"
proof -
  have n: "nat e = 2 * nat (e div 2) + nat (e mod 2)"
    using assms minus_mod_eq_mult_div [of e 2] by (simp flip: nat_mult_distrib nat_add_distrib)
  have "b ^ nat e = (b * b) ^ nat (e div 2) * b ^ nat (e mod 2)"
    unfolding n power_add power_mult by (simp add: power2_eq_square)
  moreover have "e mod 2 = 0 \<or> e mod 2 = 1" by presburger
  ultimately show ?thesis
    by (auto simp: drop_bit_eq_div and_one_eq)
qed

lemma modPowLoop_correct:
  assumes "0 < m" and "0 \<le> e"
  shows "modPowLoop m a b e mod m = a * b ^ nat e mod m"
  using assms(2)
proof (induction "nat e" arbitrary: a b e rule: less_induct)
  case less
  show ?case
  proof (cases "0 < e")
    case False
    with less.prems show ?thesis by (simp add: modPowLoop.simps)
  next
    case True
    let ?a = "if e AND 1 = 1 then js_mod (a * b) m else a"
    have "0 \<le> drop_bit 1 e" and "nat (drop_bit 1 e) < nat e"
      using True by (auto simp: drop_bit_eq_div)
    then have "modPowLoop m ?a (js_mod (b * b) m) (drop_bit 1 e) mod m
        = ?a * js_mod (b * b) m ^ nat (drop_bit 1 e) mod m"
      by (rule less.hyps [rotated])
    also have "\<dots> = ?a * (b * b) ^ nat (drop_bit 1 e) mod m"
      using assms(1) by (metis js_mod_eq mod_mult_right_eq power_mod)
    also have "\<dots> = (a * (if e AND 1 = 1 then b else 1)) * (b * b) ^ nat (drop_bit 1 e) mod m"
      using assms(1) by (auto simp: js_mod_eq mod_mult_left_eq)
    also have "\<dots> = a * b ^ nat e mod m"
      by (subst square_step [OF True]) (simp add: mult_ac)
    finally show ?thesis
      using True by (simp add: modPowLoop.simps [of m a b e])
  qed
qed

lemma modPowLoop_range:
  assumes "0 < m" and "0 \<le> a" and "a < m"
  shows "0 \<le> modPowLoop m a b e \<and> modPowLoop m a b e < m"
  using assms(2,3)
proof (induction "nat e" arbitrary: a b e rule: less_induct)
  case less
  let ?a = "if e AND 1 = 1 then js_mod (a * b) m else a"
  have "0 \<le> ?a" "?a < m"
    using less.prems assms(1) by (auto simp: js_mod_eq)
  then show ?case
    using less.hyps [of "drop_bit 1 e" ?a "js_mod (b * b) m"] less.prems
    by (cases "0 < e") (auto simp: modPowLoop.simps [of m a b e] drop_bit_eq_div)
qed

lemma modPow_eq:
  assumes "1 < m" and "0 \<le> e"
  shows "modPow b e m = b ^ nat e mod m"
proof -
  have "modPow b e m = modPow b e m mod m"
    using modPowLoop_range [of m 1 "js_mod b m" e] assms(1) by (simp add: modPow_def)
  also have "\<dots> = js_mod b m ^ nat e mod m"
    using assms by (simp add: modPow_def modPowLoop_correct)
  also have "\<dots> = b ^ nat e mod m"
    using assms(1) by (simp add: js_mod_eq power_mod)
  finally show ?thesis .
qed

section \<open>Points of the curve\<close>

definition ED25519_P :: int where "ED25519_P = push_bit 255 1 - 19"

definition ED25519_D :: int where
  "ED25519_D = js_mod (- 121665 * modPow 121666 (ED25519_P - 2) ED25519_P) ED25519_P"

definition littleEndianToBigInt :: "byte list \<Rightarrow> int" where
  "littleEndianToBigInt bytes = foldr (\<lambda>b n. push_bit 8 n + uint b) bytes 0"

definition isEd25519Point :: "byte list \<Rightarrow> bool" where
  "isEd25519Point bytes =
     (if length bytes \<noteq> 32 then False
      else let yBytes = bytes[31 := bytes ! 31 AND 0x7f];
               y = littleEndianToBigInt yBytes in
        if y \<ge> ED25519_P then False
        else let ySquared = js_mod (y * y) ED25519_P;
                 numerator = js_mod (ySquared - 1) ED25519_P;
                 denominator = js_mod (ED25519_D * ySquared + 1) ED25519_P in
          if denominator = 0 then False
          else let xSquared = js_mod (numerator * modPow denominator (ED25519_P - 2) ED25519_P) ED25519_P in
            xSquared = 0 \<or> modPow xSquared ((ED25519_P - 1) div 2) ED25519_P = 1)"

section \<open>The derivation\<close>

text \<open>\<open>ta_decode\<close> is \<open>bs58.decode\<close>, which throws on a foreign character (\<open>None\<close>).\<close>

record token_env =
  ta_digest :: "byte list \<Rightarrow> byte list"
  ta_decode :: "string \<Rightarrow> byte list option"
  ta_encode :: "byte list \<Rightarrow> string"
  ta_usdcMint :: string

definition SPL_TOKEN_PROGRAM_ID :: string where
  "SPL_TOKEN_PROGRAM_ID = ''TokenkegQfeZyiNwAJbNbGKPFXCWuBvf9Ss623VQ5DA''"
definition ASSOCIATED_TOKEN_PROGRAM_ID :: string where
  "ASSOCIATED_TOKEN_PROGRAM_ID = ''ATokenGPvbdGVxr1b2hvZbsiqW5xWH25efTNsLJA8knL''"

definition PDA_MARKER :: "byte list" where
  "PDA_MARKER = map (\<lambda>c. word_of_int (of_char c)) ''ProgramDerivedAddress''"

definition createProgramAddress :: "'a token_env_scheme \<Rightarrow> byte list list \<Rightarrow> byte list \<Rightarrow> byte list option" where
  "createProgramAddress T seeds programId =
     (let digest = ta_digest T (concat seeds @ programId @ PDA_MARKER) in
      if isEd25519Point digest then None else Some digest)"

definition decodePublicKey :: "'a token_env_scheme \<Rightarrow> string \<Rightarrow> string \<Rightarrow> byte list result" where
  "decodePublicKey T v fieldName = (case ta_decode T v of
       None \<Rightarrow> Inl (JsError ''Non-base58 character'')
     | Some decoded \<Rightarrow> if length decoded \<noteq> 32
         then Inl (JsError (fieldName @ '' must be a 32-byte public key'')) else Inr decoded)"

text \<open>The loop over the bumps, downwards from \<open>bump\<close>.\<close>

fun deriveFromBump :: "'a token_env_scheme \<Rightarrow> byte list \<Rightarrow> byte list \<Rightarrow> byte list \<Rightarrow> byte list \<Rightarrow> nat \<Rightarrow> string result" where
  "deriveFromBump T owner tokenProgramId mint associatedTokenProgramId bump =
     (case createProgramAddress T [owner, tokenProgramId, mint, [of_nat bump]] associatedTokenProgramId of
        Some address \<Rightarrow> Inr (ta_encode T address)
      | None \<Rightarrow> (case bump of
            0 \<Rightarrow> Inl (JsError ''Unable to derive associated token account address'')
          | Suc bump' \<Rightarrow> deriveFromBump T owner tokenProgramId mint associatedTokenProgramId bump'))"

declare deriveFromBump.simps [simp del]

definition deriveAssociatedTokenAddress ::
  "'a token_env_scheme \<Rightarrow> string \<Rightarrow> string option \<Rightarrow> string option \<Rightarrow> string result" where
  "deriveAssociatedTokenAddress T owner mint tokenProgramId =
     bindR (decodePublicKey T owner ''owner'') (\<lambda>ownerKey.
     bindR (decodePublicKey T (case mint of None \<Rightarrow> ta_usdcMint T | Some m \<Rightarrow> m) ''mint'') (\<lambda>mintKey.
     bindR (decodePublicKey T (case tokenProgramId of None \<Rightarrow> SPL_TOKEN_PROGRAM_ID | Some p \<Rightarrow> p) ''tokenProgramId'') (\<lambda>programKey.
     bindR (decodePublicKey T ASSOCIATED_TOKEN_PROGRAM_ID ''associatedTokenProgramId'') (\<lambda>associatedKey.
     deriveFromBump T ownerKey programKey mintKey associatedKey 255))))"

section \<open>What the derivation computes\<close>

lemma littleEndianToBigInt_simps [simp]:
  "littleEndianToBigInt [] = 0"
  "littleEndianToBigInt (b # bs) = 256 * littleEndianToBigInt bs + uint b"
  by (simp_all add: littleEndianToBigInt_def push_bit_eq_mult)

lemma littleEndianToBigInt_range:
  "0 \<le> littleEndianToBigInt bs \<and> littleEndianToBigInt bs < 256 ^ length bs"
proof (induction bs)
  case (Cons b bs)
  have "0 \<le> uint b" "uint b < 256" using uint_lt2p [of b] by simp_all
  with Cons show ?case by auto
qed simp

lemma littleEndianToBigInt_append:
  "littleEndianToBigInt (bs @ cs) = littleEndianToBigInt bs + 256 ^ length bs * littleEndianToBigInt cs"
  by (induction bs) (simp_all add: algebra_simps)

lemma low_digit:
  fixes a k x :: int
  assumes "0 \<le> a" and "a < k"
  shows "(a + k * x) mod (k * 128) = a + k * (x mod 128)"
proof -
  have "(a + k * x) mod k = a" and "(a + k * x) div k = x"
    using assms by simp_all
  then show ?thesis by (simp add: zmod_zmult2_eq)
qed

lemma clear_sign_bit:
  assumes "length bytes = 32"
  shows "littleEndianToBigInt (bytes[31 := bytes ! 31 AND 0x7f]) = littleEndianToBigInt bytes mod 2 ^ 255"
proof -
  define bs b where "bs = take 31 bytes" and "b = bytes ! 31"
  have bytes: "bytes = bs @ [b]" and len: "length bs = 31"
    using assms by (simp_all add: bs_def b_def flip: take_Suc_conv_app_nth)
  have b: "uint (b AND 0x7f) = uint b mod 128"
    using take_bit_eq_mask [of 7 "uint b"] by (simp add: unsigned_and_eq take_bit_eq_mod mask_eq_exp_minus_1)
  have "littleEndianToBigInt bytes mod 2 ^ 255
      = (littleEndianToBigInt bs + 256 ^ 31 * uint b) mod (256 ^ 31 * 128)"
    by (simp add: bytes len littleEndianToBigInt_append)
  also have "\<dots> = littleEndianToBigInt bs + 256 ^ 31 * (uint b mod 128)"
    by (rule low_digit) (use littleEndianToBigInt_range [of bs] in \<open>simp_all add: len\<close>)
  finally show ?thesis
    by (simp add: bytes len littleEndianToBigInt_append b list_update_append nth_append)
qed

text \<open>
  The reference test: the \<open>y\<close> coordinate is the low 255 bits, and
  \<open>x\<^sup>2 = (y\<^sup>2 - 1) / (d y\<^sup>2 + 1)\<close> is a square by Euler's criterion, with the inverse and
  the criterion written as powers modulo the prime.
\<close>

definition on_curve :: "byte list \<Rightarrow> bool" where
  "on_curve bytes \<longleftrightarrow>
     (let y = littleEndianToBigInt bytes mod 2 ^ 255;
          u = (y\<^sup>2 - 1) mod ED25519_P;
          v = (ED25519_D * y\<^sup>2 + 1) mod ED25519_P;
          w = u * v ^ nat (ED25519_P - 2) mod ED25519_P
      in length bytes = 32 \<and> y < ED25519_P \<and> v \<noteq> 0 \<and>
         (w = 0 \<or> w ^ nat ((ED25519_P - 1) div 2) mod ED25519_P = 1))"

lemma prime_pos: "1 < ED25519_P" "0 < ED25519_P - 2"
  by (simp_all add: ED25519_P_def push_bit_eq_mult)

lemma curve_terms:
  assumes "0 < p"
  shows "js_mod (js_mod (y * y) p - 1) p = (y\<^sup>2 - 1) mod p"
    and "js_mod (d * js_mod (y * y) p + 1) p = (d * y\<^sup>2 + 1) mod p"
  using assms
  by (simp_all add: js_mod_eq power2_eq_square mod_diff_left_eq)
    (metis mod_add_left_eq mod_mult_right_eq)

lemma curve_quotient:
  assumes "1 < p" and "0 \<le> e"
  shows "js_mod (u * modPow v e p) p = u * v ^ nat e mod p"
  using assms by (simp add: js_mod_eq modPow_eq mod_mult_right_eq)

lemma guards: "(if a then False else if b then False else c) \<longleftrightarrow> \<not> a \<and> \<not> b \<and> c"
  by simp

lemma isEd25519Point_eq: "isEd25519Point bytes = on_curve bytes"
proof (cases "length bytes = 32")
  case True
  have pos: "0 < ED25519_P" "0 \<le> ED25519_P - 2" "0 \<le> (ED25519_P - 1) div 2"
    using prime_pos by auto
  show ?thesis
    unfolding isEd25519Point_def on_curve_def Let_def clear_sign_bit [OF True]
      curve_terms [OF pos(1)] curve_quotient [OF prime_pos(1) pos(2)] modPow_eq [OF prime_pos(1) pos(3)]
    by (simp only: True simp_thms if_False guards not_le)
next
  case False
  then show ?thesis by (simp add: isEd25519Point_def on_curve_def Let_def)
qed

text \<open>The hash that a bump gives.\<close>

definition bump_digest :: "'a token_env_scheme \<Rightarrow> byte list \<Rightarrow> byte list \<Rightarrow> byte list \<Rightarrow> byte list \<Rightarrow> nat \<Rightarrow> byte list" where
  "bump_digest T owner program mint associated bump =
     ta_digest T (owner @ program @ mint @ [of_nat bump] @ associated @ PDA_MARKER)"

lemma deriveFromBump_Inr:
  "deriveFromBump T owner program mint associated n = Inr a \<longleftrightarrow>
     (\<exists>bump \<le> n. \<not> on_curve (bump_digest T owner program mint associated bump) \<and>
        (\<forall>b. bump < b \<and> b \<le> n \<longrightarrow> on_curve (bump_digest T owner program mint associated b)) \<and>
        a = ta_encode T (bump_digest T owner program mint associated bump))"
proof (induction n)
  case 0
  show ?case
    by (subst deriveFromBump.simps)
      (auto simp: createProgramAddress_def Let_def isEd25519Point_eq bump_digest_def)
next
  case (Suc n)
  let ?h = "bump_digest T owner program mint associated"
  have "deriveFromBump T owner program mint associated (Suc n) =
      (if on_curve (?h (Suc n)) then deriveFromBump T owner program mint associated n
       else Inr (ta_encode T (?h (Suc n))))"
    by (subst deriveFromBump.simps)
      (simp add: createProgramAddress_def Let_def isEd25519Point_eq bump_digest_def)
  with Suc show ?case
    by (cases "on_curve (?h (Suc n))") (auto simp: le_Suc_eq)
qed

section \<open>The derived address\<close>

definition key_of :: "'a token_env_scheme \<Rightarrow> string \<Rightarrow> byte list \<Rightarrow> bool" where
  "key_of T text key \<longleftrightarrow> ta_decode T text = Some key \<and> length key = 32"

lemma decodePublicKey_Inr [simp]: "decodePublicKey T text f = Inr key \<longleftrightarrow> key_of T text key"
  by (auto simp: decodePublicKey_def key_of_def split: option.splits)

text \<open>
  C38: the derivation returns an address exactly when the four keys decode to 32 bytes and some
  bump gives a hash off the curve, and it is the encoding of the hash at the greatest such
  bump. The curve test of the source, with its square-and-multiply powers and its own
  remainder, is here the reference test \<open>on_curve\<close>, written with true powers modulo the
  prime.
\<close>

theorem derived_address_is_greatest_off_curve_bump:
  "deriveAssociatedTokenAddress T owner mint program = Inr a \<longleftrightarrow>
     (\<exists>ok mk pk ak bump. key_of T owner ok
        \<and> key_of T (case mint of None \<Rightarrow> ta_usdcMint T | Some m \<Rightarrow> m) mk
        \<and> key_of T (case program of None \<Rightarrow> SPL_TOKEN_PROGRAM_ID | Some p \<Rightarrow> p) pk
        \<and> key_of T ASSOCIATED_TOKEN_PROGRAM_ID ak
        \<and> bump \<le> 255 \<and> \<not> on_curve (bump_digest T ok pk mk ak bump)
        \<and> (\<forall>b. bump < b \<and> b \<le> 255 \<longrightarrow> on_curve (bump_digest T ok pk mk ak b))
        \<and> a = ta_encode T (bump_digest T ok pk mk ak bump))"
  unfolding deriveAssociatedTokenAddress_def bindR_Inr decodePublicKey_Inr deriveFromBump_Inr
  by blast

definition flat_token_env :: token_env where
  "flat_token_env = \<lparr>ta_digest = \<lambda>_. replicate 32 255, ta_decode = \<lambda>_. Some (replicate 32 7),
     ta_encode = \<lambda>bytes. ''account'', ta_usdcMint = ''USDC''\<rparr>"

lemma flat_digest_off_curve: "\<not> on_curve (replicate 32 255)"
proof -
  have "littleEndianToBigInt (replicate n 255) = 256 ^ n - 1" for n by (induction n) simp_all
  from this [of 32] have "\<not> littleEndianToBigInt (replicate 32 255) mod 2 ^ 255 < ED25519_P"
    by (simp add: ED25519_P_def push_bit_eq_mult)
  then show ?thesis unfolding on_curve_def Let_def by blast
qed

theorem derived_address_is_greatest_off_curve_bump_witness:
  "deriveAssociatedTokenAddress flat_token_env ''wallet'' None None = Inr ''account''"
proof -
  have "key_of flat_token_env x (replicate 32 7)" for x
    by (simp add: key_of_def flat_token_env_def)
  moreover have "\<not> on_curve (bump_digest flat_token_env o' p m a b)" for o' p m a b
    using flat_digest_off_curve by (simp add: bump_digest_def flat_token_env_def)
  ultimately show ?thesis
    unfolding derived_address_is_greatest_off_curve_bump
    by (intro exI [of _ "replicate 32 7"] exI [of _ "255::nat"]) (auto simp: flat_token_env_def bump_digest_def)
qed

end
