(* ===== verification/Intent_Wire.thy ===== *)
theory Intent_Wire
  imports Token_Accounts
begin

text \<open>
  The reading half of \<open>src/src/client/transaction-intent-validator.ts\<close>: little-endian
  integers, the compact-u16 signature count and \<open>decodeIntentTransaction\<close>, which resolves
  the instructions of a wire transaction. The decoder of a compiled message
  (\<open>@solana/kit\<close>) and the hash are functions of the environment; a refusal
  (\<open>IntentValidationError\<close>) is a plain JavaScript error, of which the reason is kept.
\<close>

definition reject :: "string \<Rightarrow> 'a result" where
  "reject reason = Inl (JsError reason)"

definition require :: "bool \<Rightarrow> string \<Rightarrow> unit result" where
  "require c reason = checkR c (JsError reason)"

lemma require_simps [simp]:
  "require c reason = Inr () \<longleftrightarrow> c"
  "require True reason = Inr ()"
  "require False reason = Inl (JsError reason)"
  by (simp_all add: require_def)

lemma reject_Inr [simp]: "reject reason \<noteq> Inr x"
  by (simp add: reject_def)

text \<open>Reading an array at an index: \<open>None\<close> is \<open>undefined\<close>.\<close>

definition js_at :: "'a list \<Rightarrow> nat \<Rightarrow> 'a option" where
  "js_at xs i = (if i < length xs then Some (xs ! i) else None)"

lemma js_at_simps [simp]:
  "js_at [] i = None"
  "js_at (x # xs) 0 = Some x"
  "js_at (x # xs) (Suc i) = js_at xs i"
  "js_at (x # xs) (numeral n) = js_at xs (pred_numeral n)"
  by (simp_all add: js_at_def numeral_eq_Suc)

lemma js_at_Some: "js_at xs i = Some x \<longleftrightarrow> i < length xs \<and> xs ! i = x"
  by (simp add: js_at_def)

fun mapR :: "('a \<Rightarrow> 'b result) \<Rightarrow> 'a list \<Rightarrow> 'b list result" where
  "mapR f [] = Inr []"
| "mapR f (x # xs) = bindR (f x) (\<lambda>y. bindR (mapR f xs) (\<lambda>ys. Inr (y # ys)))"

section \<open>Integers in instruction data\<close>

definition bytesStartWith :: "byte list \<Rightarrow> byte list \<Rightarrow> bool" where
  "bytesStartWith data prefix =
     (if length data < length prefix then False
      else list_all (\<lambda>(b, i). js_at data i = Some b) (zip prefix [0..<length prefix]))"

definition readU64LE :: "byte list \<Rightarrow> nat \<Rightarrow> int result" where
  "readU64LE data offset = (if length data < offset + 8 then reject ''invalid_transaction_encoding''
     else Inr (littleEndianToBigInt (take 8 (drop offset data))))"

definition readU32LE :: "byte list \<Rightarrow> nat \<Rightarrow> int result" where
  "readU32LE data offset = (if length data < offset + 4 then reject ''invalid_transaction_encoding''
     else Inr (littleEndianToBigInt (take 4 (drop offset data))))"

definition readU128LE :: "byte list \<Rightarrow> nat \<Rightarrow> int result" where
  "readU128LE data offset = (if length data < offset + 16 then reject ''invalid_transaction_encoding''
     else Inr (foldl (\<lambda>n i. n OR push_bit (i * 8) (uint (data ! (offset + i)))) 0 [0..<16]))"

section \<open>The signature count\<close>

text \<open>
  JavaScript's \<open>|=\<close> and \<open><<\<close> work on 32-bit signed integers, so the fifth group can
  set the sign bit.
\<close>

fun readShortVecFrom :: "byte list \<Rightarrow> 32 word \<Rightarrow> nat \<Rightarrow> nat \<Rightarrow> (int \<times> nat) option" where
  "readShortVecFrom [] n shift offset = None"
| "readShortVecFrom (b # bytes) n shift offset =
     (let n' = n OR push_bit shift (ucast (b AND 0x7f)) in
      if b AND 0x80 = 0 then Some (sint n', offset + 1)
      else if shift + 7 > 28 then None
      else readShortVecFrom bytes n' (shift + 7) (offset + 1))"

definition readShortVec :: "byte list \<Rightarrow> nat \<Rightarrow> (int \<times> nat) option" where
  "readShortVec bytes startOffset = readShortVecFrom (drop startOffset bytes) 0 0 startOffset"

text \<open>\<open>subarray\<close> counts a negative start from the end.\<close>

definition subarray :: "'a list \<Rightarrow> int \<Rightarrow> 'a list" where
  "subarray xs start = (if start < 0 then drop (nat (int (length xs) + start)) xs else drop (nat start) xs)"

section \<open>The compiled message\<close>

text \<open>
  \<open>cm_version\<close> is \<open>None\<close> for a legacy message. The client accepts both spellings of
  the index lists that versions of the library use.
\<close>

record CompiledInstruction =
  ci_programAddressIndex :: nat
  ci_accountIndices :: "nat list option"
  ci_data :: "byte list option"

record TableLookup =
  tl_lookupTableAddress :: string
  tl_writableIndexes :: "nat list option"
  tl_writableIndices :: "nat list option"
  tl_readonlyIndexes :: "nat list option"
  tl_readableIndices :: "nat list option"

record CompiledMessage =
  cm_version :: "nat option"
  cm_numSignerAccounts :: nat
  cm_staticAccounts :: "string list"
  cm_addressTableLookups :: "TableLookup list option"
  cm_instructions :: "CompiledInstruction list"

record DecodedInstruction =
  ix_programAddress :: string
  ix_accounts :: "string list"
  ix_data :: "byte list"

record DecodedIntentTransaction =
  di_feePayer :: string
  di_requiredSigners :: "string list"
  di_instructions :: "DecodedInstruction list"
  di_messageHash :: string

record intent_env = token_env +
  iv_shaBuffer :: "byte list \<Rightarrow> string"
  iv_shaText :: "string \<Rightarrow> string"
  iv_decodeMessage :: "byte list \<Rightarrow> CompiledMessage result"
  iv_utf8 :: "byte list \<Rightarrow> string"
  iv_defaultVault :: VaultConfig

type_synonym LookupTables = "string \<Rightarrow> string list option"

definition orElseO :: "'a option \<Rightarrow> 'a option \<Rightarrow> 'a option" where
  "orElseO a b = (case a of None \<Rightarrow> b | Some x \<Rightarrow> Some x)"

definition indexList :: "nat list option \<Rightarrow> nat list option \<Rightarrow> nat list" where
  "indexList a b = (case orElseO a b of None \<Rightarrow> [] | Some xs \<Rightarrow> xs)"

definition resolveIndexes :: "string list \<Rightarrow> nat list \<Rightarrow> string list result" where
  "resolveIndexes table = mapR (\<lambda>index. case js_at table index of
       None \<Rightarrow> reject ''lookup_table_unresolved'' | Some resolved \<Rightarrow> Inr resolved)"

definition resolveLookup :: "LookupTables option \<Rightarrow> TableLookup \<Rightarrow> (string list \<times> string list) result" where
  "resolveLookup lookupTables lookup =
     (case (case lookupTables of None \<Rightarrow> None | Some t \<Rightarrow> t (tl_lookupTableAddress lookup)) of
        None \<Rightarrow> reject ''lookup_table_unresolved''
      | Some table \<Rightarrow>
          bindR (resolveIndexes table (indexList (tl_writableIndexes lookup) (tl_writableIndices lookup))) (\<lambda>writable.
          bindR (resolveIndexes table (indexList (tl_readonlyIndexes lookup) (tl_readableIndices lookup))) (\<lambda>readonly.
          Inr (writable, readonly))))"

definition resolveInstruction :: "string list \<Rightarrow> CompiledInstruction \<Rightarrow> DecodedInstruction result" where
  "resolveInstruction orderedAccounts ix =
     (case js_at orderedAccounts (ci_programAddressIndex ix) of
        None \<Rightarrow> reject ''invalid_transaction_encoding''
      | Some programAddress \<Rightarrow>
          bindR (mapR (\<lambda>index. case js_at orderedAccounts index of
                None \<Rightarrow> reject ''invalid_transaction_encoding'' | Some a \<Rightarrow> Inr a)
              (case ci_accountIndices ix of None \<Rightarrow> [] | Some xs \<Rightarrow> xs)) (\<lambda>accounts.
          Inr \<lparr>ix_programAddress = programAddress, ix_accounts = accounts,
               ix_data = (case ci_data ix of None \<Rightarrow> [] | Some d \<Rightarrow> d)\<rparr>))"

definition messageOffset :: "byte list \<Rightarrow> int result" where
  "messageOffset wire = (case readShortVec wire 0 of
       None \<Rightarrow> reject ''invalid_transaction_encoding''
     | Some (signatureCount, nextOffset) \<Rightarrow>
         let offset = int nextOffset + signatureCount * 64 in
         if offset \<ge> int (length wire) then reject ''invalid_transaction_encoding'' else Inr offset)"

definition resolveMessage ::
  "intent_env \<Rightarrow> byte list \<Rightarrow> LookupTables option \<Rightarrow> CompiledMessage \<Rightarrow> DecodedIntentTransaction result" where
  "resolveMessage E messageBytes lookupTables compiled =
     bindR (require (cm_version compiled = Some 0) ''unsupported_transaction_version'') (\<lambda>_.
     let staticAccounts = cm_staticAccounts compiled;
         lookups = (case cm_addressTableLookups compiled of None \<Rightarrow> [] | Some ls \<Rightarrow> ls) in
     bindR (mapR (resolveLookup lookupTables) lookups) (\<lambda>loaded.
     let orderedAccounts = staticAccounts @ concat (map fst loaded) @ concat (map snd loaded) in
     bindR (mapR (resolveInstruction orderedAccounts) (cm_instructions compiled)) (\<lambda>instructions.
     case staticAccounts of
       [] \<Rightarrow> reject ''invalid_transaction_encoding''
     | feePayer # _ \<Rightarrow> Inr
         \<lparr>di_feePayer = feePayer,
          di_requiredSigners = take (cm_numSignerAccounts compiled) staticAccounts,
          di_instructions = instructions,
          di_messageHash = iv_shaBuffer E messageBytes\<rparr>)))"

definition decodeIntentTransaction ::
  "intent_env \<Rightarrow> string \<Rightarrow> LookupTables option \<Rightarrow> DecodedIntentTransaction result" where
  "decodeIntentTransaction E serializedTransaction lookupTables =
     (let wire = base64url_bytes serializedTransaction in
      bindR (messageOffset wire) (\<lambda>offset.
      let messageBytes = subarray wire offset in
      bindR (iv_decodeMessage E messageBytes) (resolveMessage E messageBytes lookupTables)))"

end
