(* ===== verification/Intent_Validator.thy ===== *)
theory Intent_Validator
  imports Intent_Wire Mandate_Document
begin

text \<open>
  The checking half of \<open>src/src/client/transaction-intent-validator.ts\<close>: before an agent
  signs a transaction that the relayer prepared, it checks every instruction against the
  structured intent it agreed to. The \<open>expect\<close> functions of the source shift
  instructions off a mutable list; here each returns the remaining list.
\<close>

section \<open>Intents and policy\<close>

record PaymentSigningIntent =
  psi_paymentId :: string
  psi_sellerRequestId :: string
  psi_wallet :: string
  psi_network :: string
  psi_scheme :: string
  psi_httpMethod :: string
  psi_canonicalResourceUrl :: string
  psi_requestBodyHash :: string
  psi_requestBindingHash :: string
  psi_seller :: string
  psi_vault :: string
  psi_farm :: string
  psi_shareMint :: string
  psi_asset :: string
  psi_amountRawUsdc :: string
  psi_payTo :: string
  psi_sellerUsdcAta :: string
  psi_feePayer :: string
  psi_temporarySettlementTokenAccount :: string
  psi_dustRecipientUsdcAta :: string
  psi_maxSharesToRedeemRaw :: string
  psi_memo :: string
  psi_expiresAt :: timestamp
  psi_preparedMessageHash :: string

record DepositSigningIntent =
  dsi_wallet :: string
  dsi_vault :: string
  dsi_farm :: string
  dsi_shareMint :: string
  dsi_asset :: string
  dsi_amountRawUsdc :: string
  dsi_feePayer :: string
  dsi_expiresAt :: timestamp
  dsi_preparedMessageHash :: string

record WithdrawalSigningIntent =
  wsi_wallet :: string
  wsi_vault :: string
  wsi_farm :: string
  wsi_shareMint :: string
  wsi_asset :: string
  wsi_destinationUsdcAta :: string
  wsi_maxSharesToRedeemRaw :: string
  wsi_allowFullExit :: bool
  wsi_feePayer :: string
  wsi_expiresAt :: timestamp
  wsi_preparedMessageHash :: string

record IntentValidationPolicy =
  ivp_vault :: "VaultConfig option"
  ivp_maxComputeUnitLimit :: "int option"
  ivp_maxComputeUnitPriceMicroLamports :: "int option"
  ivp_maxTemporaryAccountLamports :: "int option"

record ResolvedIntentValidationPolicy =
  rvp_vault :: VaultConfig
  rvp_maxComputeUnitLimit :: int
  rvp_maxComputeUnitPriceMicroLamports :: int
  rvp_maxTemporaryAccountLamports :: int

definition COMPUTE_BUDGET_PROGRAM_ID :: string where
  "COMPUTE_BUDGET_PROGRAM_ID = ''ComputeBudget111111111111111111111111111111''"
definition SYSTEM_PROGRAM_ID :: string where
  "SYSTEM_PROGRAM_ID = ''11111111111111111111111111111111''"
definition MEMO_PROGRAM_ID :: string where
  "MEMO_PROGRAM_ID = ''MemoSq4gqABAXKb96qnH8TysNcWxMyWCqXgDLGmfcHr''"
definition KVAULT_PROGRAM_ID :: string where
  "KVAULT_PROGRAM_ID = ''KvauGMspG5k6rtzrqqn7WNn3oZdyKqLKwK2XWQ8FLjd''"
definition KAMINO_FARMS_PROGRAM_ID :: string where
  "KAMINO_FARMS_PROGRAM_ID = ''FarmsPZpWu9i7Kky8tPN37rs2TpmMrAZrC7S7vJa91Hr''"

definition KVAULT_WITHDRAW_DISCRIMINATOR :: "byte list" where
  "KVAULT_WITHDRAW_DISCRIMINATOR = [183, 18, 70, 156, 148, 109, 161, 34]"
definition KVAULT_WITHDRAW_FROM_AVAILABLE_DISCRIMINATOR :: "byte list" where
  "KVAULT_WITHDRAW_FROM_AVAILABLE_DISCRIMINATOR = [19, 131, 112, 155, 170, 220, 34, 57]"
definition KVAULT_DEPOSIT_DISCRIMINATOR :: "byte list" where
  "KVAULT_DEPOSIT_DISCRIMINATOR = [242, 35, 198, 137, 82, 225, 242, 182]"
definition KAMINO_FARMS_UNSTAKE_DISCRIMINATOR :: "byte list" where
  "KAMINO_FARMS_UNSTAKE_DISCRIMINATOR = [90, 95, 107, 42, 205, 124, 50, 225]"
definition KAMINO_FARMS_WITHDRAW_UNSTAKED_DISCRIMINATOR :: "byte list" where
  "KAMINO_FARMS_WITHDRAW_UNSTAKED_DISCRIMINATOR = [36, 102, 187, 49, 220, 36, 132, 67]"

definition U64_MAX :: int where "U64_MAX = 18446744073709551615"
definition MAX_TEMP_ACCOUNT_LAMPORTS :: int where "MAX_TEMP_ACCOUNT_LAMPORTS = 10000000"
definition DEFAULT_MAX_COMPUTE_UNIT_LIMIT :: int where "DEFAULT_MAX_COMPUTE_UNIT_LIMIT = 1400000"
definition DEFAULT_MAX_COMPUTE_UNIT_PRICE_MICRO_LAMPORTS :: int where
  "DEFAULT_MAX_COMPUTE_UNIT_PRICE_MICRO_LAMPORTS = 100000"

definition orDefault :: "'a option \<Rightarrow> 'a \<Rightarrow> 'a" where
  "orDefault a d = (case a of None \<Rightarrow> d | Some x \<Rightarrow> x)"

definition resolveIntentValidationPolicy ::
  "intent_env \<Rightarrow> IntentValidationPolicy option \<Rightarrow> ResolvedIntentValidationPolicy result" where
  "resolveIntentValidationPolicy E policy =
     (let resolved =
        \<lparr>rvp_vault = orDefault (Option.bind policy ivp_vault) (iv_defaultVault E),
         rvp_maxComputeUnitLimit =
           orDefault (Option.bind policy ivp_maxComputeUnitLimit) DEFAULT_MAX_COMPUTE_UNIT_LIMIT,
         rvp_maxComputeUnitPriceMicroLamports =
           orDefault (Option.bind policy ivp_maxComputeUnitPriceMicroLamports)
             DEFAULT_MAX_COMPUTE_UNIT_PRICE_MICRO_LAMPORTS,
         rvp_maxTemporaryAccountLamports =
           orDefault (Option.bind policy ivp_maxTemporaryAccountLamports) MAX_TEMP_ACCOUNT_LAMPORTS\<rparr> in
      bindR (require (isSafeInteger (rvp_maxComputeUnitLimit resolved) \<and> rvp_maxComputeUnitLimit resolved > 0)
        ''invalid_policy'') (\<lambda>_.
      bindR (require (rvp_maxComputeUnitPriceMicroLamports resolved \<ge> 0) ''invalid_policy'') (\<lambda>_.
      bindR (require (rvp_maxTemporaryAccountLamports resolved > 0) ''invalid_policy'') (\<lambda>_.
      Inr resolved))))"

text \<open>
  The expiry test of the signer: \<open>new Date(expiresAt).getTime() <= now\<close>. A date that does
  not parse is \<open>NaN\<close>, and no comparison with it holds.
\<close>

definition intentExpired :: "int \<Rightarrow> timestamp \<Rightarrow> bool" where
  "intentExpired now expiresAt = (case getTime expiresAt of None \<Rightarrow> False | Some t \<Rightarrow> t \<le> now)"

definition BigIntR :: "string \<Rightarrow> int result" where
  "BigIntR text = (case js_BigInt text of None \<Rightarrow> Inl (JsError ''SyntaxError'') | Some n \<Rightarrow> Inr n)"

definition ataOf :: "intent_env \<Rightarrow> string \<Rightarrow> string \<Rightarrow> string result" where
  "ataOf E owner mint = deriveAssociatedTokenAddress E owner (Some mint) None"

section \<open>Single instructions\<close>

text \<open>
  \<open>programIs\<close> and \<open>accountIs\<close> are the comparisons of the source with a value that
  may be \<open>undefined\<close>.
\<close>

definition accountIs :: "DecodedInstruction \<Rightarrow> nat \<Rightarrow> string \<Rightarrow> bool" where
  "accountIs ix i address \<longleftrightarrow> js_at (ix_accounts ix) i = Some address"

definition tagIs :: "DecodedInstruction \<Rightarrow> byte \<Rightarrow> bool" where
  "tagIs ix tag \<longleftrightarrow> js_at (ix_data ix) 0 = Some tag"

definition validateComputeBudgetInstruction ::
  "ResolvedIntentValidationPolicy \<Rightarrow> DecodedInstruction \<Rightarrow> unit result" where
  "validateComputeBudgetInstruction policy ix =
     (if tagIs ix 2 then
        bindR (readU32LE (ix_data ix) 1) (\<lambda>units.
        require (\<not> (units \<le> 0 \<or> units > rvp_maxComputeUnitLimit policy)) ''compute_budget_mismatch'')
      else if tagIs ix 3 then
        bindR (readU64LE (ix_data ix) 1) (\<lambda>microLamports.
        require (\<not> microLamports > rvp_maxComputeUnitPriceMicroLamports policy) ''compute_budget_mismatch'')
      else reject ''compute_budget_mismatch'')"

definition expectAtaCreateForOwner :: "string \<Rightarrow> DecodedInstruction \<Rightarrow> unit result" where
  "expectAtaCreateForOwner owner ix = require (accountIs ix 2 owner) ''unexpected_instruction''"

definition validateFarmUnstakeInstruction :: "string \<Rightarrow> string \<Rightarrow> DecodedInstruction \<Rightarrow> string result" where
  "validateFarmUnstakeInstruction wallet farm ix =
     bindR (if ix_programAddress ix \<noteq> KAMINO_FARMS_PROGRAM_ID
              \<or> \<not> bytesStartWith (ix_data ix) KAMINO_FARMS_UNSTAKE_DISCRIMINATOR
              \<or> length (ix_data ix) \<noteq> 24
            then reject ''farm_instruction_mismatch''
            else bindR (readU128LE (ix_data ix) 8) (\<lambda>shares.
              require (\<not> shares \<le> 0) ''farm_instruction_mismatch'')) (\<lambda>_.
     bindR (require (length (ix_accounts ix) = 4) ''farm_instruction_mismatch'') (\<lambda>_.
     bindR (require (accountIs ix 0 wallet) ''farm_instruction_mismatch'') (\<lambda>_.
     bindR (require (accountIs ix 2 farm) ''farm_instruction_mismatch'') (\<lambda>_.
     Inr (ix_accounts ix ! 1)))))"

definition validateFarmWithdrawInstruction ::
  "intent_env \<Rightarrow> string \<Rightarrow> string \<Rightarrow> string \<Rightarrow> string option \<Rightarrow> DecodedInstruction \<Rightarrow> unit result" where
  "validateFarmWithdrawInstruction E wallet farm shareMint expectedUserState ix =
     bindR (require (ix_programAddress ix = KAMINO_FARMS_PROGRAM_ID
              \<and> bytesStartWith (ix_data ix) KAMINO_FARMS_WITHDRAW_UNSTAKED_DISCRIMINATOR
              \<and> length (ix_data ix) = 8) ''farm_instruction_mismatch'') (\<lambda>_.
     bindR (require (length (ix_accounts ix) = 7) ''farm_instruction_mismatch'') (\<lambda>_.
     bindR (ataOf E wallet shareMint) (\<lambda>expectedSharesAta.
     require (accountIs ix 0 wallet \<and> js_at (ix_accounts ix) 1 = expectedUserState \<and> accountIs ix 2 farm
         \<and> accountIs ix 3 expectedSharesAta \<and> accountIs ix 6 SPL_TOKEN_PROGRAM_ID)
       ''farm_instruction_mismatch'')))"

record KvaultWithdrawExpectation =
  kw_wallet :: string
  kw_vault :: string
  kw_shareMint :: string
  kw_asset :: string
  kw_userTokenAccount :: string
  kw_maxSharesToRedeemRaw :: int
  kw_allowFullExit :: bool

definition validateKvaultWithdrawInstruction ::
  "intent_env \<Rightarrow> KvaultWithdrawExpectation \<Rightarrow> DecodedInstruction \<Rightarrow> unit result" where
  "validateKvaultWithdrawInstruction E x ix =
     bindR (require (bytesStartWith (ix_data ix) KVAULT_WITHDRAW_DISCRIMINATOR
              \<or> bytesStartWith (ix_data ix) KVAULT_WITHDRAW_FROM_AVAILABLE_DISCRIMINATOR)
            ''withdraw_mismatch'') (\<lambda>_.
     bindR (readU64LE (ix_data ix) 8) (\<lambda>sharesAmount.
     let fullExit = (sharesAmount = U64_MAX) in
     bindR (require (\<not> (fullExit \<and> \<not> kw_allowFullExit x)) ''withdraw_mismatch'') (\<lambda>_.
     bindR (require (\<not> (\<not> fullExit \<and> sharesAmount > kw_maxSharesToRedeemRaw x)) ''shares_exceed_max'') (\<lambda>_.
     bindR (require (accountIs ix 0 (kw_wallet x)) ''withdraw_mismatch'') (\<lambda>_.
     bindR (require (accountIs ix 1 (kw_vault x)) ''withdraw_mismatch'') (\<lambda>_.
     bindR (require (accountIs ix 5 (kw_userTokenAccount x)) ''withdraw_mismatch'') (\<lambda>_.
     bindR (require (accountIs ix 6 (kw_asset x)) ''withdraw_mismatch'') (\<lambda>_.
     bindR (ataOf E (kw_wallet x) (kw_shareMint x)) (\<lambda>expectedSharesAta.
     bindR (require (accountIs ix 7 expectedSharesAta) ''withdraw_mismatch'') (\<lambda>_.
     require (accountIs ix 8 (kw_shareMint x)) ''withdraw_mismatch''))))))))))"

section \<open>The canonical settlement, instruction by instruction\<close>

type_synonym instructions = "DecodedInstruction list"

definition shiftR :: "string \<Rightarrow> (DecodedInstruction \<Rightarrow> bool) \<Rightarrow> instructions \<Rightarrow> (DecodedInstruction \<times> instructions) result" where
  "shiftR reason c ixs = (case ixs of
       [] \<Rightarrow> reject reason
     | ix # rest \<Rightarrow> if c ix then Inr (ix, rest) else reject reason)"

definition expectComputeBudget ::
  "byte \<Rightarrow> ResolvedIntentValidationPolicy \<Rightarrow> instructions \<Rightarrow> instructions result" where
  "expectComputeBudget discriminator policy ixs =
     bindR (shiftR ''compute_budget_mismatch''
       (\<lambda>ix. ix_programAddress ix = COMPUTE_BUDGET_PROGRAM_ID \<and> tagIs ix discriminator) ixs) (\<lambda>(ix, rest).
     bindR (validateComputeBudgetInstruction policy ix) (\<lambda>_. Inr rest))"

definition expectComputeBudgetPair ::
  "ResolvedIntentValidationPolicy \<Rightarrow> instructions \<Rightarrow> instructions result" where
  "expectComputeBudgetPair policy ixs =
     bindR (expectComputeBudget 2 policy ixs) (expectComputeBudget 3 policy)"

definition expectCreateTemporaryAccount ::
  "intent_env \<Rightarrow> PaymentSigningIntent \<Rightarrow> ResolvedIntentValidationPolicy \<Rightarrow> instructions \<Rightarrow> instructions result" where
  "expectCreateTemporaryAccount E intent policy ixs =
     bindR (shiftR ''temp_account_mismatch'' (\<lambda>ix. ix_programAddress ix = SYSTEM_PROGRAM_ID) ixs) (\<lambda>(ix, rest).
     bindR (if length (ix_data ix) < 52 then reject ''temp_account_mismatch''
            else bindR (readU32LE (ix_data ix) 0) (\<lambda>d. require (d = 0) ''temp_account_mismatch'')) (\<lambda>_.
     bindR (readU64LE (ix_data ix) 4) (\<lambda>lamports.
     bindR (readU64LE (ix_data ix) 12) (\<lambda>space.
     let owner = ta_encode E (take 32 (drop 20 (ix_data ix))) in
     bindR (require (space = 165) ''temp_account_mismatch'') (\<lambda>_.
     bindR (require (owner = SPL_TOKEN_PROGRAM_ID) ''temp_account_mismatch'') (\<lambda>_.
     bindR (require (\<not> lamports > rvp_maxTemporaryAccountLamports policy) ''temp_account_mismatch'') (\<lambda>_.
     bindR (require (accountIs ix 0 (psi_feePayer intent)) ''temp_account_mismatch'') (\<lambda>_.
     bindR (require (accountIs ix 1 (psi_temporarySettlementTokenAccount intent)) ''temp_account_mismatch'') (\<lambda>_.
     Inr rest)))))))))"

definition expectInitializeTemporaryAccount ::
  "intent_env \<Rightarrow> PaymentSigningIntent \<Rightarrow> instructions \<Rightarrow> instructions result" where
  "expectInitializeTemporaryAccount E intent ixs =
     bindR (shiftR ''temp_account_mismatch''
       (\<lambda>ix. ix_programAddress ix = SPL_TOKEN_PROGRAM_ID \<and> tagIs ix 18) ixs) (\<lambda>(ix, rest).
     let owner = ta_encode E (take 32 (drop 1 (ix_data ix))) in
     bindR (require (owner = psi_wallet intent) ''temp_account_mismatch'') (\<lambda>_.
     bindR (require (accountIs ix 0 (psi_temporarySettlementTokenAccount intent)) ''temp_account_mismatch'') (\<lambda>_.
     bindR (require (accountIs ix 1 (psi_asset intent)) ''temp_account_mismatch'') (\<lambda>_.
     Inr rest))))"

definition nextProgramIs :: "instructions \<Rightarrow> string \<Rightarrow> bool" where
  "nextProgramIs ixs program = (case ixs of [] \<Rightarrow> False | ix # _ \<Rightarrow> ix_programAddress ix = program)"

definition consumeFarmInstructions ::
  "intent_env \<Rightarrow> PaymentSigningIntent \<Rightarrow> instructions \<Rightarrow> instructions result" where
  "consumeFarmInstructions E intent ixs =
     (if \<not> nextProgramIs ixs KAMINO_FARMS_PROGRAM_ID then Inr ixs
      else bindR (validateFarmUnstakeInstruction (psi_wallet intent) (psi_farm intent) (hd ixs)) (\<lambda>userState.
        if \<not> nextProgramIs (tl ixs) KAMINO_FARMS_PROGRAM_ID then reject ''farm_instruction_mismatch''
        else bindR (validateFarmWithdrawInstruction E (psi_wallet intent) (psi_farm intent)
               (psi_shareMint intent) (Some userState) (hd (tl ixs))) (\<lambda>_.
          if nextProgramIs (tl (tl ixs)) KAMINO_FARMS_PROGRAM_ID then reject ''farm_instruction_mismatch''
          else Inr (tl (tl ixs)))))"

definition expectKvaultWithdraw ::
  "intent_env \<Rightarrow> KvaultWithdrawExpectation \<Rightarrow> instructions \<Rightarrow> instructions result" where
  "expectKvaultWithdraw E x ixs =
     bindR (shiftR ''withdraw_mismatch'' (\<lambda>ix. ix_programAddress ix = KVAULT_PROGRAM_ID) ixs) (\<lambda>(ix, rest).
     bindR (validateKvaultWithdrawInstruction E x ix) (\<lambda>_. Inr rest))"

record TransferExpectation =
  tx_source :: string
  tx_mint :: string
  tx_destination :: string
  tx_authority :: string
  tx_amount :: "int option"

definition isTransferChecked :: "DecodedInstruction \<Rightarrow> bool" where
  "isTransferChecked ix \<longleftrightarrow> ix_programAddress ix = SPL_TOKEN_PROGRAM_ID \<and> tagIs ix 12"

definition expectTransferChecked :: "TransferExpectation \<Rightarrow> instructions \<Rightarrow> instructions result" where
  "expectTransferChecked x ixs =
     bindR (shiftR ''transfer_mismatch'' isTransferChecked ixs) (\<lambda>(ix, rest).
     bindR (readU64LE (ix_data ix) 1) (\<lambda>amount.
     let decimals = js_at (ix_data ix) 9 in
     bindR (require (case tx_amount x of None \<Rightarrow> True | Some expected \<Rightarrow> amount = expected) ''amount_mismatch'') (\<lambda>_.
     bindR (require (map_option uint decimals = Some USDC_DECIMALS) ''transfer_mismatch'') (\<lambda>_.
     bindR (require (accountIs ix 0 (tx_source x)) ''transfer_mismatch'') (\<lambda>_.
     bindR (require (accountIs ix 1 (tx_mint x)) ''transfer_mismatch'') (\<lambda>_.
     bindR (require (accountIs ix 2 (tx_destination x)) ''transfer_mismatch'') (\<lambda>_.
     bindR (require (accountIs ix 3 (tx_authority x)) ''transfer_mismatch'') (\<lambda>_.
     Inr rest))))))))"

definition expectCloseAccount :: "string \<Rightarrow> string \<Rightarrow> string \<Rightarrow> instructions \<Rightarrow> instructions result" where
  "expectCloseAccount account destination owner ixs =
     bindR (shiftR ''close_mismatch''
       (\<lambda>ix. ix_programAddress ix = SPL_TOKEN_PROGRAM_ID \<and> tagIs ix 9) ixs) (\<lambda>(ix, rest).
     bindR (require (accountIs ix 0 account) ''close_mismatch'') (\<lambda>_.
     bindR (require (accountIs ix 1 destination) ''close_mismatch'') (\<lambda>_.
     bindR (require (accountIs ix 2 owner) ''close_mismatch'') (\<lambda>_.
     Inr rest))))"

definition expectMemo :: "intent_env \<Rightarrow> string \<Rightarrow> instructions \<Rightarrow> instructions result" where
  "expectMemo E memo ixs =
     bindR (shiftR ''memo_mismatch'' (\<lambda>ix. ix_programAddress ix = MEMO_PROGRAM_ID) ixs) (\<lambda>(ix, rest).
     bindR (require (iv_utf8 E (ix_data ix) = memo) ''memo_mismatch'') (\<lambda>_.
     Inr rest))"

section \<open>Payments\<close>

definition paymentBinding :: "PaymentSigningIntent \<Rightarrow> RequestBindingFields" where
  "paymentBinding intent =
     \<lparr>rb_sellerRequestId = psi_sellerRequestId intent,
      rb_httpMethod = psi_httpMethod intent,
      rb_canonicalResourceUrl = psi_canonicalResourceUrl intent,
      rb_requestBodyHash = psi_requestBodyHash intent,
      rb_seller = psi_seller intent,
      rb_asset = psi_asset intent,
      rb_amountRawUsdc = psi_amountRawUsdc intent,
      rb_payTo = psi_payTo intent,
      rb_sellerUsdcAta = psi_sellerUsdcAta intent\<rparr>"

definition checkPaymentFields ::
  "intent_env \<Rightarrow> int \<Rightarrow> ResolvedIntentValidationPolicy \<Rightarrow> PaymentSigningIntent \<Rightarrow> unit result" where
  "checkPaymentFields E now policy intent =
     bindR (require (\<not> intentExpired now (psi_expiresAt intent)) ''expired'') (\<lambda>_.
     bindR (require (psi_scheme intent = PAYMENT_SCHEME) ''scheme_mismatch'') (\<lambda>_.
     bindR (require (psi_network intent = SOLANA_MAINNET_NETWORK) ''network_mismatch'') (\<lambda>_.
     bindR (require (psi_vault intent = vc_address (rvp_vault policy)) ''vault_mismatch'') (\<lambda>_.
     bindR (require (psi_shareMint intent = vc_shareMint (rvp_vault policy)) ''share_mint_mismatch'') (\<lambda>_.
     bindR (require (psi_farm intent = vc_farm (rvp_vault policy)) ''farm_mismatch'') (\<lambda>_.
     bindR (require (psi_asset intent = vc_usdcMint (rvp_vault policy)) ''asset_mismatch'') (\<lambda>_.
     bindR (require (psi_memo intent = psi_paymentId intent) ''memo_mismatch'') (\<lambda>_.
     bindR (require (computeRequestBindingHash (iv_shaText E) (paymentBinding intent)
         = psi_requestBindingHash intent) ''request_binding_mismatch'') (\<lambda>_.
     bindR (ataOf E (psi_payTo intent) (psi_asset intent)) (\<lambda>expectedSellerAta.
     bindR (require (expectedSellerAta = psi_sellerUsdcAta intent) ''seller_ata_mismatch'') (\<lambda>_.
     bindR (ataOf E (psi_wallet intent) (psi_asset intent)) (\<lambda>expectedDustAta.
     require (expectedDustAta = psi_dustRecipientUsdcAta intent) ''dust_recipient_mismatch''))))))))))))"

text \<open>\<open>Set.size\<close> and membership of the expected signers.\<close>

definition signersExact :: "string list \<Rightarrow> string list \<Rightarrow> bool" where
  "signersExact required expected \<longleftrightarrow>
     length required = card (set expected) \<and> list_all (\<lambda>signer. signer \<in> set expected) required"

definition checkSettlementInstructions ::
  "intent_env \<Rightarrow> ResolvedIntentValidationPolicy \<Rightarrow> PaymentSigningIntent \<Rightarrow> instructions \<Rightarrow> unit result" where
  "checkSettlementInstructions E policy intent ixs0 =
     bindR (expectComputeBudgetPair policy ixs0) (\<lambda>ixs.
     bindR (expectCreateTemporaryAccount E intent policy ixs) (\<lambda>ixs.
     bindR (expectInitializeTemporaryAccount E intent ixs) (\<lambda>ixs.
     bindR (consumeFarmInstructions E intent ixs) (\<lambda>ixs.
     bindR (BigIntR (psi_maxSharesToRedeemRaw intent)) (\<lambda>maxShares.
     bindR (expectKvaultWithdraw E
       \<lparr>kw_wallet = psi_wallet intent, kw_vault = psi_vault intent, kw_shareMint = psi_shareMint intent,
        kw_asset = psi_asset intent, kw_userTokenAccount = psi_temporarySettlementTokenAccount intent,
        kw_maxSharesToRedeemRaw = maxShares, kw_allowFullExit = False\<rparr> ixs) (\<lambda>ixs.
     bindR (BigIntR (psi_amountRawUsdc intent)) (\<lambda>amount.
     bindR (expectTransferChecked
       \<lparr>tx_source = psi_temporarySettlementTokenAccount intent, tx_mint = psi_asset intent,
        tx_destination = psi_sellerUsdcAta intent, tx_authority = psi_wallet intent,
        tx_amount = Some amount\<rparr> ixs) (\<lambda>ixs.
     bindR (if ixs \<noteq> [] \<and> isTransferChecked (hd ixs)
            then expectTransferChecked
              \<lparr>tx_source = psi_temporarySettlementTokenAccount intent, tx_mint = psi_asset intent,
               tx_destination = psi_dustRecipientUsdcAta intent, tx_authority = psi_wallet intent,
               tx_amount = None\<rparr> ixs
            else Inr ixs) (\<lambda>ixs.
     bindR (expectCloseAccount (psi_temporarySettlementTokenAccount intent) (psi_feePayer intent)
              (psi_wallet intent) ixs) (\<lambda>ixs.
     bindR (expectMemo E (psi_memo intent) ixs) (\<lambda>ixs.
     require (ixs = []) ''unexpected_instruction'')))))))))))"

definition validatePaymentIntentTransaction ::
  "intent_env \<Rightarrow> PaymentSigningIntent \<Rightarrow> string \<Rightarrow> LookupTables option \<Rightarrow> IntentValidationPolicy option
    \<Rightarrow> int \<Rightarrow> unit result" where
  "validatePaymentIntentTransaction E intent serializedTransaction lookupTables policy0 now =
     bindR (resolveIntentValidationPolicy E policy0) (\<lambda>policy.
     bindR (checkPaymentFields E now policy intent) (\<lambda>_.
     bindR (decodeIntentTransaction E serializedTransaction lookupTables) (\<lambda>decoded.
     bindR (require (di_messageHash decoded = psi_preparedMessageHash intent) ''message_hash_mismatch'') (\<lambda>_.
     bindR (require (di_feePayer decoded = psi_feePayer intent) ''fee_payer_mismatch'') (\<lambda>_.
     bindR (require (signersExact (di_requiredSigners decoded)
         [psi_feePayer intent, psi_wallet intent, psi_temporarySettlementTokenAccount intent])
         ''unexpected_signers'') (\<lambda>_.
     checkSettlementInstructions E policy intent (di_instructions decoded)))))))"

section \<open>Deposits\<close>

definition assertVaultIntentTargets :: "string \<Rightarrow> string \<Rightarrow> string \<Rightarrow> string \<Rightarrow> VaultConfig \<Rightarrow> unit result" where
  "assertVaultIntentTargets vault farm shareMint asset config =
     bindR (require (vault = vc_address config) ''vault_mismatch'') (\<lambda>_.
     bindR (require (shareMint = vc_shareMint config) ''share_mint_mismatch'') (\<lambda>_.
     bindR (require (farm = vc_farm config) ''farm_mismatch'') (\<lambda>_.
     require (asset = vc_usdcMint config) ''asset_mismatch'')))"

definition checkDepositInstruction :: "intent_env \<Rightarrow> DepositSigningIntent \<Rightarrow> DecodedInstruction \<Rightarrow> unit result" where
  "checkDepositInstruction E intent ix =
     bindR (require (bytesStartWith (ix_data ix) KVAULT_DEPOSIT_DISCRIMINATOR) ''unexpected_instruction'') (\<lambda>_.
     bindR (readU64LE (ix_data ix) 8) (\<lambda>maxAmount.
     bindR (BigIntR (dsi_amountRawUsdc intent)) (\<lambda>amount.
     bindR (require (maxAmount = amount) ''amount_mismatch'') (\<lambda>_.
     bindR (require (accountIs ix 0 (dsi_wallet intent)) ''wallet_mismatch'') (\<lambda>_.
     bindR (require (accountIs ix 1 (dsi_vault intent)) ''vault_mismatch'') (\<lambda>_.
     bindR (require (accountIs ix 3 (dsi_asset intent)) ''asset_mismatch'') (\<lambda>_.
     bindR (require (accountIs ix 5 (dsi_shareMint intent)) ''share_mint_mismatch'') (\<lambda>_.
     bindR (ataOf E (dsi_wallet intent) (dsi_asset intent)) (\<lambda>expectedSourceAta.
     require (accountIs ix 6 expectedSourceAta) ''source_ata_mismatch'')))))))))"

text \<open>One turn of the loop; the flag is \<open>sawDeposit\<close>.\<close>

definition depositInstruction ::
  "intent_env \<Rightarrow> ResolvedIntentValidationPolicy \<Rightarrow> DepositSigningIntent \<Rightarrow> bool \<Rightarrow> DecodedInstruction \<Rightarrow> bool result" where
  "depositInstruction E policy intent sawDeposit ix =
     (let program = ix_programAddress ix in
      if program = COMPUTE_BUDGET_PROGRAM_ID then
        bindR (validateComputeBudgetInstruction policy ix) (\<lambda>_. Inr sawDeposit)
      else if program = ASSOCIATED_TOKEN_PROGRAM_ID then
        bindR (expectAtaCreateForOwner (dsi_wallet intent) ix) (\<lambda>_. Inr sawDeposit)
      else if program = MEMO_PROGRAM_ID then Inr sawDeposit
      else if program = KVAULT_PROGRAM_ID then
        bindR (require (\<not> sawDeposit) ''duplicate_deposit'') (\<lambda>_.
        bindR (checkDepositInstruction E intent ix) (\<lambda>_. Inr True))
      else reject ''unexpected_instruction'')"

fun loopR :: "('s \<Rightarrow> 'a \<Rightarrow> 's result) \<Rightarrow> 's \<Rightarrow> 'a list \<Rightarrow> 's result" where
  "loopR f s [] = Inr s"
| "loopR f s (x # xs) = bindR (f s x) (\<lambda>t. loopR f t xs)"

definition validateDepositIntentTransaction ::
  "intent_env \<Rightarrow> DepositSigningIntent \<Rightarrow> string \<Rightarrow> LookupTables option \<Rightarrow> IntentValidationPolicy option
    \<Rightarrow> int \<Rightarrow> unit result" where
  "validateDepositIntentTransaction E intent serializedTransaction lookupTables policy0 now =
     bindR (resolveIntentValidationPolicy E policy0) (\<lambda>policy.
     bindR (require (\<not> intentExpired now (dsi_expiresAt intent)) ''expired'') (\<lambda>_.
     bindR (assertVaultIntentTargets (dsi_vault intent) (dsi_farm intent) (dsi_shareMint intent)
       (dsi_asset intent) (rvp_vault policy)) (\<lambda>_.
     bindR (decodeIntentTransaction E serializedTransaction lookupTables) (\<lambda>decoded.
     bindR (require (di_messageHash decoded = dsi_preparedMessageHash intent) ''message_hash_mismatch'') (\<lambda>_.
     bindR (require (di_feePayer decoded = dsi_feePayer intent) ''fee_payer_mismatch'') (\<lambda>_.
     bindR (loopR (depositInstruction E policy intent) False (di_instructions decoded)) (\<lambda>sawDeposit.
     require sawDeposit ''missing_instruction'')))))))"

section \<open>Withdrawals\<close>

record withdrawal_scan =
  sc_sawWithdraw :: bool
  sc_farmUserState :: "string option"
  sc_farmInstructionCount :: nat

definition scanFarmInstruction ::
  "intent_env \<Rightarrow> WithdrawalSigningIntent \<Rightarrow> withdrawal_scan \<Rightarrow> DecodedInstruction \<Rightarrow> withdrawal_scan result" where
  "scanFarmInstruction E intent s ix =
     (let farmInstructionCount = sc_farmInstructionCount s + 1;
          s = s\<lparr>sc_farmInstructionCount := farmInstructionCount\<rparr> in
      if farmInstructionCount = 1 then
        bindR (validateFarmUnstakeInstruction (wsi_wallet intent) (wsi_farm intent) ix) (\<lambda>userState.
        Inr (s\<lparr>sc_farmUserState := Some userState\<rparr>))
      else if farmInstructionCount = 2 then
        bindR (validateFarmWithdrawInstruction E (wsi_wallet intent) (wsi_farm intent)
          (wsi_shareMint intent) (sc_farmUserState s) ix) (\<lambda>_. Inr s)
      else reject ''farm_instruction_mismatch'')"

definition withdrawalInstruction ::
  "intent_env \<Rightarrow> ResolvedIntentValidationPolicy \<Rightarrow> WithdrawalSigningIntent \<Rightarrow> withdrawal_scan \<Rightarrow> DecodedInstruction
    \<Rightarrow> withdrawal_scan result" where
  "withdrawalInstruction E policy intent s ix =
     (let program = ix_programAddress ix in
      if program = COMPUTE_BUDGET_PROGRAM_ID then
        bindR (validateComputeBudgetInstruction policy ix) (\<lambda>_. Inr s)
      else if program = MEMO_PROGRAM_ID then Inr s
      else if program = KAMINO_FARMS_PROGRAM_ID then scanFarmInstruction E intent s ix
      else if program = ASSOCIATED_TOKEN_PROGRAM_ID then
        bindR (expectAtaCreateForOwner (wsi_wallet intent) ix) (\<lambda>_. Inr s)
      else if program = SPL_TOKEN_PROGRAM_ID then
        bindR (require (tagIs ix 9) ''unexpected_instruction'') (\<lambda>_.
        bindR (require (accountIs ix 1 (wsi_wallet intent) \<and> accountIs ix 2 (wsi_wallet intent))
          ''unexpected_instruction'') (\<lambda>_. Inr s))
      else if program = KVAULT_PROGRAM_ID then
        bindR (require (\<not> sc_sawWithdraw s) ''withdraw_mismatch'') (\<lambda>_.
        bindR (BigIntR (wsi_maxSharesToRedeemRaw intent)) (\<lambda>maxShares.
        bindR (validateKvaultWithdrawInstruction E
          \<lparr>kw_wallet = wsi_wallet intent, kw_vault = wsi_vault intent, kw_shareMint = wsi_shareMint intent,
           kw_asset = wsi_asset intent, kw_userTokenAccount = wsi_destinationUsdcAta intent,
           kw_maxSharesToRedeemRaw = maxShares, kw_allowFullExit = wsi_allowFullExit intent\<rparr> ix) (\<lambda>_.
        Inr (s\<lparr>sc_sawWithdraw := True\<rparr>))))
      else reject ''unexpected_instruction'')"

definition validateWithdrawalIntentTransaction ::
  "intent_env \<Rightarrow> WithdrawalSigningIntent \<Rightarrow> string \<Rightarrow> LookupTables option \<Rightarrow> IntentValidationPolicy option
    \<Rightarrow> int \<Rightarrow> unit result" where
  "validateWithdrawalIntentTransaction E intent serializedTransaction lookupTables policy0 now =
     bindR (resolveIntentValidationPolicy E policy0) (\<lambda>policy.
     bindR (require (\<not> intentExpired now (wsi_expiresAt intent)) ''expired'') (\<lambda>_.
     bindR (assertVaultIntentTargets (wsi_vault intent) (wsi_farm intent) (wsi_shareMint intent)
       (wsi_asset intent) (rvp_vault policy)) (\<lambda>_.
     bindR (ataOf E (wsi_wallet intent) (wsi_asset intent)) (\<lambda>expectedDestination.
     bindR (require (expectedDestination = wsi_destinationUsdcAta intent) ''destination_mismatch'') (\<lambda>_.
     bindR (decodeIntentTransaction E serializedTransaction lookupTables) (\<lambda>decoded.
     bindR (require (di_messageHash decoded = wsi_preparedMessageHash intent) ''message_hash_mismatch'') (\<lambda>_.
     bindR (require (di_feePayer decoded = wsi_feePayer intent) ''fee_payer_mismatch'') (\<lambda>_.
     bindR (loopR (withdrawalInstruction E policy intent)
       \<lparr>sc_sawWithdraw = False, sc_farmUserState = None, sc_farmInstructionCount = 0\<rparr>
       (di_instructions decoded)) (\<lambda>scan.
     bindR (require (sc_sawWithdraw scan) ''missing_instruction'') (\<lambda>_.
     require (sc_farmInstructionCount scan \<noteq> 1) ''farm_instruction_mismatch''))))))))))"

end
