(* ===== verification/Intent_Grammar.thy ===== *)
theory Intent_Grammar
  imports Intent_Validator
begin

text \<open>
  What the validators of theory \<open>Intent_Validator\<close> accept, as grammars over the
  instruction list: the one shape of a settlement, and the instructions a deposit and a
  withdrawal may consist of.
\<close>

section \<open>Forms of one instruction\<close>

definition u64_at :: "byte list \<Rightarrow> nat \<Rightarrow> int \<Rightarrow> bool" where
  "u64_at data i n \<longleftrightarrow> i + 8 \<le> length data \<and> littleEndianToBigInt (take 8 (drop i data)) = n"

definition u32_at :: "byte list \<Rightarrow> nat \<Rightarrow> int \<Rightarrow> bool" where
  "u32_at data i n \<longleftrightarrow> i + 4 \<le> length data \<and> littleEndianToBigInt (take 4 (drop i data)) = n"

definition begins :: "'a list \<Rightarrow> 'a list \<Rightarrow> bool" where
  "begins xs ys \<longleftrightarrow> (\<exists>zs. ys = xs @ zs)"

lemma readU64LE_Inr [simp]: "readU64LE data i = Inr n \<longleftrightarrow> u64_at data i n"
  by (auto simp: readU64LE_def u64_at_def)

lemma readU32LE_Inr [simp]: "readU32LE data i = Inr n \<longleftrightarrow> u32_at data i n"
  by (auto simp: readU32LE_def u32_at_def)

lemma bytesStartWith_eq: "bytesStartWith data prefix \<longleftrightarrow> begins prefix data"
proof -
  have "bytesStartWith data prefix \<longleftrightarrow>
      length prefix \<le> length data \<and> (\<forall>i < length prefix. data ! i = prefix ! i)"
    by (auto simp: bytesStartWith_def list_all_length js_at_Some)
  also have "\<dots> \<longleftrightarrow> take (length prefix) data = prefix"
    by (auto simp: list_eq_iff_nth_eq)
  also have "\<dots> \<longleftrightarrow> begins prefix data"
    unfolding begins_def by (metis append_eq_conv_conj append_take_drop_id)
  finally show ?thesis .
qed

lemma required_Inr: "require c reason = Inr u \<longleftrightarrow> c" for u :: unit
  by simp

lemma required_bind: "bindR (require c reason) f = Inr y \<longleftrightarrow> c \<and> f () = Inr y"
  by (simp add: bindR_Inr)

definition limits_compute :: "ResolvedIntentValidationPolicy \<Rightarrow> DecodedInstruction \<Rightarrow> bool" where
  "limits_compute policy ix \<longleftrightarrow> tagIs ix 2 \<and>
     (\<exists>units. u32_at (ix_data ix) 1 units \<and> 0 < units \<and> units \<le> rvp_maxComputeUnitLimit policy)"

definition prices_compute :: "ResolvedIntentValidationPolicy \<Rightarrow> DecodedInstruction \<Rightarrow> bool" where
  "prices_compute policy ix \<longleftrightarrow> tagIs ix 3 \<and>
     (\<exists>price. u64_at (ix_data ix) 1 price \<and> price \<le> rvp_maxComputeUnitPriceMicroLamports policy)"

lemma tagIs_fun: "tagIs ix a \<Longrightarrow> tagIs ix b \<longleftrightarrow> a = b"
  by (auto simp: tagIs_def)

lemma computeBudget_Inr [simp]:
  "validateComputeBudgetInstruction policy ix = Inr () \<longleftrightarrow>
     limits_compute policy ix \<or> prices_compute policy ix"
  by (auto simp: validateComputeBudgetInstruction_def limits_compute_def prices_compute_def bindR_Inr
      dest: tagIs_fun [of _ 2 3])

definition creates_account ::
  "intent_env \<Rightarrow> int \<Rightarrow> string \<Rightarrow> string \<Rightarrow> DecodedInstruction \<Rightarrow> bool" where
  "creates_account E maxLamports payer account ix \<longleftrightarrow>
     ix_programAddress ix = SYSTEM_PROGRAM_ID \<and> 52 \<le> length (ix_data ix) \<and> u32_at (ix_data ix) 0 0 \<and>
     (\<exists>lamports. u64_at (ix_data ix) 4 lamports \<and> lamports \<le> maxLamports) \<and> u64_at (ix_data ix) 12 165 \<and>
     ta_encode E (take 32 (drop 20 (ix_data ix))) = SPL_TOKEN_PROGRAM_ID \<and>
     begins [payer, account] (ix_accounts ix)"

definition initializes_account :: "intent_env \<Rightarrow> string \<Rightarrow> string \<Rightarrow> string \<Rightarrow> DecodedInstruction \<Rightarrow> bool" where
  "initializes_account E account mint owner ix \<longleftrightarrow>
     ix_programAddress ix = SPL_TOKEN_PROGRAM_ID \<and> tagIs ix 18 \<and>
     ta_encode E (take 32 (drop 1 (ix_data ix))) = owner \<and> begins [account, mint] (ix_accounts ix)"

definition unstakes :: "string \<Rightarrow> string \<Rightarrow> string \<Rightarrow> DecodedInstruction \<Rightarrow> bool" where
  "unstakes wallet farm user ix \<longleftrightarrow>
     ix_programAddress ix = KAMINO_FARMS_PROGRAM_ID \<and>
     begins KAMINO_FARMS_UNSTAKE_DISCRIMINATOR (ix_data ix) \<and> length (ix_data ix) = 24 \<and>
     (\<exists>b \<in> set (drop 8 (ix_data ix)). b \<noteq> 0) \<and> (\<exists>authority. ix_accounts ix = [wallet, user, farm, authority])"

definition returns_shares :: "intent_env \<Rightarrow> string \<Rightarrow> string \<Rightarrow> string \<Rightarrow> string \<Rightarrow> DecodedInstruction \<Rightarrow> bool" where
  "returns_shares E wallet farm shareMint user ix \<longleftrightarrow>
     ix_programAddress ix = KAMINO_FARMS_PROGRAM_ID \<and>
     ix_data ix = KAMINO_FARMS_WITHDRAW_UNSTAKED_DISCRIMINATOR \<and>
     (\<exists>shares farmVault authority. ataOf E wallet shareMint = Inr shares \<and>
       ix_accounts ix = [wallet, user, farm, shares, farmVault, authority, SPL_TOKEN_PROGRAM_ID])"

text \<open>A KVault withdrawal: what is burned is within the approved maximum, unless it is all.\<close>

definition withdraws :: "intent_env \<Rightarrow> KvaultWithdrawExpectation \<Rightarrow> DecodedInstruction \<Rightarrow> bool" where
  "withdraws E x ix \<longleftrightarrow>
     (begins KVAULT_WITHDRAW_DISCRIMINATOR (ix_data ix)
       \<or> begins KVAULT_WITHDRAW_FROM_AVAILABLE_DISCRIMINATOR (ix_data ix)) \<and>
     (\<exists>burned. u64_at (ix_data ix) 8 burned \<and>
        (if burned = U64_MAX then kw_allowFullExit x else burned \<le> kw_maxSharesToRedeemRaw x)) \<and>
     (\<exists>shares. ataOf E (kw_wallet x) (kw_shareMint x) = Inr shares \<and>
        (\<exists>globalConfig tokenVault authority.
          begins [kw_wallet x, kw_vault x, globalConfig, tokenVault, authority, kw_userTokenAccount x,
            kw_asset x, shares, kw_shareMint x] (ix_accounts ix)))"

definition transfers :: "string \<Rightarrow> string \<Rightarrow> string \<Rightarrow> string \<Rightarrow> int \<Rightarrow> DecodedInstruction \<Rightarrow> bool" where
  "transfers source mint destination authority amount ix \<longleftrightarrow>
     isTransferChecked ix \<and> u64_at (ix_data ix) 1 amount \<and> js_at (ix_data ix) 9 = Some 6 \<and>
     begins [source, mint, destination, authority] (ix_accounts ix)"

definition closes :: "string \<Rightarrow> string \<Rightarrow> string \<Rightarrow> DecodedInstruction \<Rightarrow> bool" where
  "closes account destination owner ix \<longleftrightarrow>
     ix_programAddress ix = SPL_TOKEN_PROGRAM_ID \<and> tagIs ix 9 \<and>
     begins [account, destination, owner] (ix_accounts ix)"

definition carries_memo :: "intent_env \<Rightarrow> string \<Rightarrow> DecodedInstruction \<Rightarrow> bool" where
  "carries_memo E memo ix \<longleftrightarrow> ix_programAddress ix = MEMO_PROGRAM_ID \<and> iv_utf8 E (ix_data ix) = memo"

section \<open>What the checks of one instruction accept\<close>

lemma begins_simps [simp]:
  "begins [] ys"
  "begins (x # xs) (y # ys) \<longleftrightarrow> x = y \<and> begins xs ys"
  "\<not> begins (x # xs) []"
  by (auto simp: begins_def)

lemma begins_Cons_iff: "begins (x # xs) ys \<longleftrightarrow> js_at ys 0 = Some x \<and> begins xs (drop 1 ys)"
  by (cases ys) auto

lemma js_at_drop [simp]: "js_at (drop n xs) i = js_at xs (n + i)"
  by (auto simp: js_at_def add.commute)

lemma js_at_0_drop: "js_at xs i = js_at (drop i xs) 0"
  by simp

text \<open>Reading accounts one by one is reading a prefix.\<close>

lemma small_numerals:
  "(2::nat) = Suc (Suc 0)" "(3::nat) = Suc (Suc (Suc 0))" "(5::nat) = Suc (Suc (Suc (Suc (Suc 0))))"
  "(6::nat) = Suc (Suc (Suc (Suc (Suc (Suc 0)))))" "(7::nat) = Suc (Suc (Suc (Suc (Suc (Suc (Suc 0))))))"
  "(8::nat) = Suc (Suc (Suc (Suc (Suc (Suc (Suc (Suc 0)))))))"
  by simp_all

lemmas accounts_as_prefix = begins_Cons_iff accountIs_def drop_drop small_numerals

lemma guarded_Inr [simp]: "(if c then reject reason else m) = Inr x \<longleftrightarrow> \<not> c \<and> m = Inr x"
  by simp

lemma shiftR_Inr [simp]: "shiftR reason c ixs = Inr (ix, rest) \<longleftrightarrow> ixs = ix # rest \<and> c ix"
  by (cases ixs) (auto simp: shiftR_def)

lemma expectCloseAccount_Inr:
  "expectCloseAccount account destination owner ixs = Inr rest \<longleftrightarrow>
     (\<exists>ix. ixs = ix # rest \<and> closes account destination owner ix)"
  by (auto simp: expectCloseAccount_def closes_def bindR_Inr accounts_as_prefix)

lemma expectMemo_Inr:
  "expectMemo E memo ixs = Inr rest \<longleftrightarrow> (\<exists>ix. ixs = ix # rest \<and> carries_memo E memo ix)"
  by (auto simp: expectMemo_def carries_memo_def bindR_Inr)

lemma expectInitializeTemporaryAccount_Inr:
  "expectInitializeTemporaryAccount E intent ixs = Inr rest \<longleftrightarrow>
     (\<exists>ix. ixs = ix # rest \<and> initializes_account E (psi_temporarySettlementTokenAccount intent)
        (psi_asset intent) (psi_wallet intent) ix)"
  by (auto simp: expectInitializeTemporaryAccount_def initializes_account_def bindR_Inr Let_def accounts_as_prefix)

lemma expectCreateTemporaryAccount_Inr:
  "expectCreateTemporaryAccount E intent policy ixs = Inr rest \<longleftrightarrow>
     (\<exists>ix. ixs = ix # rest \<and> creates_account E (rvp_maxTemporaryAccountLamports policy)
        (psi_feePayer intent) (psi_temporarySettlementTokenAccount intent) ix)"
  by (auto simp: expectCreateTemporaryAccount_def creates_account_def bindR_Inr Let_def accounts_as_prefix
      not_less)

lemma bits_collected:
  fixes f :: "nat \<Rightarrow> byte"
  assumes "0 \<le> n"
  shows "0 \<le> foldl (\<lambda>n i. n OR push_bit (i * 8) (uint (f i))) n is \<and>
     (foldl (\<lambda>n i. n OR push_bit (i * 8) (uint (f i))) n is = 0 \<longleftrightarrow> n = 0 \<and> (\<forall>i \<in> set is. f i = 0))"
  using assms
proof (induction "is" arbitrary: n)
  case (Cons i "is")
  have "0 \<le> n OR push_bit (i * 8) (uint (f i))"
    using Cons.prems by (simp add: push_bit_eq_mult)
  from Cons.IH [OF this] show ?case
    by (auto simp: or_eq_0_iff unsigned_eq_0_iff)
qed simp

lemma bytes_from: "length data = n + m \<Longrightarrow> (\<forall>i \<in> set [0..<m]. data ! (n + i) = 0) \<longleftrightarrow> (\<forall>b \<in> set (drop n data). b = 0)"
  for data :: "byte list"
  by (subst all_set_conv_all_nth) auto

lemma readU128LE_positive:
  assumes "length data = 24"
  shows "(\<exists>n. readU128LE data 8 = Inr n \<and> 0 < n) \<longleftrightarrow> (\<exists>b \<in> set (drop 8 data). b \<noteq> 0)"
  using bits_collected [of 0 "\<lambda>i. data ! (8 + i)" "[0..<16]"] bytes_from [of data 8 16] assms
  by (auto simp: readU128LE_def order_le_less)

lemma four_elements: "length xs = 4 \<longleftrightarrow> (\<exists>a b c d. xs = [a, b, c, d])"
  by (auto simp: numeral_eq_Suc length_Suc_conv)

lemma seven_elements: "length xs = 7 \<longleftrightarrow> (\<exists>a b c d e f g. xs = [a, b, c, d, e, f, g])"
  by (auto simp: numeral_eq_Suc length_Suc_conv)

lemma unstake_Inr:
  "validateFarmUnstakeInstruction wallet farm ix = Inr user \<longleftrightarrow> unstakes wallet farm user ix"
proof -
  have "validateFarmUnstakeInstruction wallet farm ix = Inr user \<longleftrightarrow>
      ix_programAddress ix = KAMINO_FARMS_PROGRAM_ID \<and>
      begins KAMINO_FARMS_UNSTAKE_DISCRIMINATOR (ix_data ix) \<and> length (ix_data ix) = 24 \<and>
      (\<exists>n. readU128LE (ix_data ix) 8 = Inr n \<and> 0 < n) \<and> length (ix_accounts ix) = 4 \<and>
      accountIs ix 0 wallet \<and> accountIs ix 2 farm \<and> ix_accounts ix ! 1 = user"
    by (auto simp: validateFarmUnstakeInstruction_def bindR_Inr bytesStartWith_eq not_le)
  also have "\<dots> \<longleftrightarrow> unstakes wallet farm user ix"
    unfolding unstakes_def four_elements
    by (cases "length (ix_data ix) = 24") (auto simp: accountIs_def simp flip: readU128LE_positive [of "ix_data ix"])
  finally show ?thesis .
qed

lemma begins_whole: "begins xs ys \<and> length ys = length xs \<longleftrightarrow> ys = xs"
  by (auto simp: begins_def)

lemma farm_withdraw_Inr:
  "validateFarmWithdrawInstruction E wallet farm shareMint (Some user) ix = Inr () \<longleftrightarrow>
     returns_shares E wallet farm shareMint user ix"
proof -
  have d: "begins KAMINO_FARMS_WITHDRAW_UNSTAKED_DISCRIMINATOR (ix_data ix) \<and> length (ix_data ix) = 8 \<longleftrightarrow>
      ix_data ix = KAMINO_FARMS_WITHDRAW_UNSTAKED_DISCRIMINATOR"
    using begins_whole [of KAMINO_FARMS_WITHDRAW_UNSTAKED_DISCRIMINATOR "ix_data ix"]
    by (simp add: KAMINO_FARMS_WITHDRAW_UNSTAKED_DISCRIMINATOR_def small_numerals)
  show ?thesis
    unfolding validateFarmWithdrawInstruction_def returns_shares_def bindR_Inr require_simps
      bytesStartWith_eq d seven_elements
    by (auto simp: accountIs_def)
qed

lemma nine_accounts:
  "(\<exists>c t b. begins [w, v, c, t, b, u, a, s, m] xs) \<longleftrightarrow>
     js_at xs 0 = Some w \<and> js_at xs 1 = Some v \<and> js_at xs 5 = Some u \<and> js_at xs 6 = Some a \<and>
     js_at xs 7 = Some s \<and> js_at xs 8 = Some m"
  by (auto simp: accounts_as_prefix js_at_def)

lemma kvault_Inr:
  "validateKvaultWithdrawInstruction E x ix = Inr () \<longleftrightarrow> withdraws E x ix"
proof -
  have burn: "\<not> (n = U64_MAX \<and> \<not> a) \<and> \<not> (n \<noteq> U64_MAX \<and> m < n) \<longleftrightarrow> (if n = U64_MAX then a else n \<le> m)"
    for n m a by auto
  show ?thesis
    unfolding validateKvaultWithdrawInstruction_def withdraws_def bindR_Inr required_Inr bytesStartWith_eq
      Let_def readU64LE_Inr accountIs_def burn [symmetric] nine_accounts
    by blast
qed

lemma transfer_Inr:
  "expectTransferChecked x ixs = Inr rest \<longleftrightarrow>
     (\<exists>ix amount. ixs = ix # rest \<and> (case tx_amount x of None \<Rightarrow> True | Some expected \<Rightarrow> amount = expected) \<and>
        transfers (tx_source x) (tx_mint x) (tx_destination x) (tx_authority x) amount ix)"
proof -
  have six: "map_option uint d = Some USDC_DECIMALS \<longleftrightarrow> d = Some 6" for d :: "byte option"
    by (cases d) (auto simp: USDC_DECIMALS_def word_uint_eq_iff)
  show ?thesis
    unfolding expectTransferChecked_def transfers_def Let_def six
    by (auto simp: accounts_as_prefix bindR_Inr)
qed

section \<open>The settlement grammar\<close>

definition farm_part :: "intent_env \<Rightarrow> PaymentSigningIntent \<Rightarrow> instructions \<Rightarrow> bool" where
  "farm_part E intent ixs \<longleftrightarrow> ixs = [] \<or>
     (\<exists>unstake back user. ixs = [unstake, back] \<and>
        unstakes (psi_wallet intent) (psi_farm intent) user unstake \<and>
        returns_shares E (psi_wallet intent) (psi_farm intent) (psi_shareMint intent) user back)"

definition dust_part :: "PaymentSigningIntent \<Rightarrow> instructions \<Rightarrow> bool" where
  "dust_part intent ixs \<longleftrightarrow> ixs = [] \<or>
     (\<exists>sweep amount. ixs = [sweep] \<and> transfers (psi_temporarySettlementTokenAccount intent) (psi_asset intent)
        (psi_dustRecipientUsdcAta intent) (psi_wallet intent) amount sweep)"

definition payment_withdrawal :: "PaymentSigningIntent \<Rightarrow> int \<Rightarrow> KvaultWithdrawExpectation" where
  "payment_withdrawal intent maxShares =
     \<lparr>kw_wallet = psi_wallet intent, kw_vault = psi_vault intent, kw_shareMint = psi_shareMint intent,
      kw_asset = psi_asset intent, kw_userTokenAccount = psi_temporarySettlementTokenAccount intent,
      kw_maxSharesToRedeemRaw = maxShares, kw_allowFullExit = False\<rparr>"

text \<open>
  The one shape of a settlement: two compute-budget instructions, the temporary account
  created at the sponsor's cost and initialised for the wallet, shares fetched from the farm if
  they are staked, one bounded vault withdrawal into the temporary account, the payment to the
  seller, what is left back to the wallet, the rent back to the sponsor, the payment id.
\<close>

definition canonical_settlement ::
  "intent_env \<Rightarrow> ResolvedIntentValidationPolicy \<Rightarrow> PaymentSigningIntent \<Rightarrow> int \<Rightarrow> int \<Rightarrow> instructions \<Rightarrow> bool" where
  "canonical_settlement E policy intent maxShares amount ixs \<longleftrightarrow>
     (\<exists>limit price create init farm withdraw pay dust close memo.
        ixs = [limit, price, create, init] @ farm @ [withdraw, pay] @ dust @ [close, memo]
        \<and> ix_programAddress limit = COMPUTE_BUDGET_PROGRAM_ID \<and> limits_compute policy limit
        \<and> ix_programAddress price = COMPUTE_BUDGET_PROGRAM_ID \<and> prices_compute policy price
        \<and> creates_account E (rvp_maxTemporaryAccountLamports policy) (psi_feePayer intent)
            (psi_temporarySettlementTokenAccount intent) create
        \<and> initializes_account E (psi_temporarySettlementTokenAccount intent) (psi_asset intent)
            (psi_wallet intent) init
        \<and> farm_part E intent farm
        \<and> ix_programAddress withdraw = KVAULT_PROGRAM_ID
        \<and> withdraws E (payment_withdrawal intent maxShares) withdraw
        \<and> transfers (psi_temporarySettlementTokenAccount intent) (psi_asset intent)
            (psi_sellerUsdcAta intent) (psi_wallet intent) amount pay
        \<and> dust_part intent dust
        \<and> closes (psi_temporarySettlementTokenAccount intent) (psi_feePayer intent) (psi_wallet intent) close
        \<and> carries_memo E (psi_memo intent) memo)"

lemma programs_distinct [simp]:
  "KAMINO_FARMS_PROGRAM_ID \<noteq> KVAULT_PROGRAM_ID"
  "KVAULT_PROGRAM_ID \<noteq> KAMINO_FARMS_PROGRAM_ID"
  by (simp_all add: KAMINO_FARMS_PROGRAM_ID_def KVAULT_PROGRAM_ID_def)

lemma expectComputeBudgetPair_Inr:
  "expectComputeBudgetPair policy ixs = Inr rest \<longleftrightarrow>
     (\<exists>limit price. ixs = limit # price # rest
        \<and> ix_programAddress limit = COMPUTE_BUDGET_PROGRAM_ID \<and> limits_compute policy limit
        \<and> ix_programAddress price = COMPUTE_BUDGET_PROGRAM_ID \<and> prices_compute policy price)"
  by (auto simp: expectComputeBudgetPair_def expectComputeBudget_def bindR_Inr limits_compute_def
      prices_compute_def dest: tagIs_fun [of _ 2 3])

lemma consumeFarmInstructions_Inr:
  "consumeFarmInstructions E intent ixs = Inr rest \<longleftrightarrow>
     \<not> nextProgramIs rest KAMINO_FARMS_PROGRAM_ID \<and> (\<exists>farm. ixs = farm @ rest \<and> farm_part E intent farm)"
proof (cases "nextProgramIs ixs KAMINO_FARMS_PROGRAM_ID")
  case False
  then show ?thesis
    by (auto simp: consumeFarmInstructions_def farm_part_def nextProgramIs_def unstakes_def)
next
  case True
  then obtain a xs where ixs: "ixs = a # xs" "ix_programAddress a = KAMINO_FARMS_PROGRAM_ID"
    by (auto simp: nextProgramIs_def split: list.splits)
  show ?thesis
  proof (cases "nextProgramIs xs KAMINO_FARMS_PROGRAM_ID")
    case False
    with True ixs show ?thesis
      by (auto simp: consumeFarmInstructions_def farm_part_def bindR_Inr nextProgramIs_def returns_shares_def)
  next
    case next_farm: True
    then obtain b ys where xs: "xs = b # ys" by (auto simp: nextProgramIs_def split: list.splits)
    show ?thesis
      using True next_farm
      by (auto simp: ixs xs consumeFarmInstructions_def farm_part_def bindR_Inr unstake_Inr farm_withdraw_Inr
          append_eq_Cons_conv Cons_eq_append_conv)
  qed
qed

lemma expectKvaultWithdraw_Inr:
  "expectKvaultWithdraw E x ixs = Inr rest \<longleftrightarrow>
     (\<exists>ix. ixs = ix # rest \<and> ix_programAddress ix = KVAULT_PROGRAM_ID \<and> withdraws E x ix)"
  by (auto simp: expectKvaultWithdraw_def bindR_Inr kvault_Inr)

lemma close_is_no_transfer: "closes account destination owner ix \<Longrightarrow> \<not> isTransferChecked ix"
  by (auto simp: closes_def isTransferChecked_def dest: tagIs_fun [of _ 9 12])

lemma dust_Inr:
  assumes "closes account destination owner close"
  shows "(if ixs \<noteq> [] \<and> isTransferChecked (hd ixs)
            then expectTransferChecked
              \<lparr>tx_source = psi_temporarySettlementTokenAccount intent, tx_mint = psi_asset intent,
               tx_destination = psi_dustRecipientUsdcAta intent, tx_authority = psi_wallet intent,
               tx_amount = None\<rparr> ixs
            else Inr ixs) = Inr (close # rest) \<longleftrightarrow>
     (\<exists>dust. ixs = dust @ close # rest \<and> dust_part intent dust)"
proof (cases "ixs \<noteq> [] \<and> isTransferChecked (hd ixs)")
  case True
  with close_is_no_transfer [OF assms] show ?thesis
    by (auto simp: transfer_Inr dust_part_def Cons_eq_append_conv)
next
  case False
  then show ?thesis
    by (auto simp: dust_part_def transfers_def)
qed

lemma BigIntR_Inr [simp]: "BigIntR text = Inr n \<longleftrightarrow> js_BigInt text = Some n"
  by (auto simp: BigIntR_def split: option.splits)

text \<open>The tail of the settlement, from the dust sweep on.\<close>

lemma settlement_tail_Inr:
  "bindR (if ixs \<noteq> [] \<and> isTransferChecked (hd ixs)
            then expectTransferChecked
              \<lparr>tx_source = psi_temporarySettlementTokenAccount intent, tx_mint = psi_asset intent,
               tx_destination = psi_dustRecipientUsdcAta intent, tx_authority = psi_wallet intent,
               tx_amount = None\<rparr> ixs
            else Inr ixs) (\<lambda>ixs.
     bindR (expectCloseAccount (psi_temporarySettlementTokenAccount intent) (psi_feePayer intent)
              (psi_wallet intent) ixs) (\<lambda>ixs.
     bindR (expectMemo E (psi_memo intent) ixs) (\<lambda>ixs.
     require (ixs = []) ''unexpected_instruction''))) = Inr () \<longleftrightarrow>
   (\<exists>dust close memo. ixs = dust @ [close, memo] \<and> dust_part intent dust
      \<and> closes (psi_temporarySettlementTokenAccount intent) (psi_feePayer intent) (psi_wallet intent) close
      \<and> carries_memo E (psi_memo intent) memo)" (is "bindR ?dust _ = _ \<longleftrightarrow> ?R")
proof -
  have "bindR ?dust (\<lambda>ixs.
     bindR (expectCloseAccount (psi_temporarySettlementTokenAccount intent) (psi_feePayer intent)
              (psi_wallet intent) ixs) (\<lambda>ixs.
     bindR (expectMemo E (psi_memo intent) ixs) (\<lambda>ixs.
     require (ixs = []) ''unexpected_instruction''))) = Inr () \<longleftrightarrow>
     (\<exists>close memo. closes (psi_temporarySettlementTokenAccount intent) (psi_feePayer intent) (psi_wallet intent) close
      \<and> ?dust = Inr (close # [memo]) \<and> carries_memo E (psi_memo intent) memo)"
    by (auto simp: bindR_Inr [of ?dust] bindR_Inr [of "expectCloseAccount _ _ _ _"] bindR_Inr [of "expectMemo _ _ _"]
        expectCloseAccount_Inr expectMemo_Inr simp del: append.simps split del: if_split)
  also have "\<dots> \<longleftrightarrow> ?R"
    by (simp only: dust_Inr [of "psi_temporarySettlementTokenAccount intent" "psi_feePayer intent"
        "psi_wallet intent"] cong: conj_cong) blast
  finally show ?thesis .
qed

lemmas settlement_binds =
  bindR_Inr [of "expectComputeBudgetPair _ _"] bindR_Inr [of "expectCreateTemporaryAccount _ _ _ _"]
  bindR_Inr [of "expectInitializeTemporaryAccount _ _ _"] bindR_Inr [of "consumeFarmInstructions _ _ _"]
  bindR_Inr [of "BigIntR _"] bindR_Inr [of "expectKvaultWithdraw _ _ _"]
  bindR_Inr [of "expectTransferChecked _ _"]

lemma checkSettlementInstructions_Inr:
  "checkSettlementInstructions E policy intent ixs = Inr () \<longleftrightarrow>
     (\<exists>maxShares amount. js_BigInt (psi_maxSharesToRedeemRaw intent) = Some maxShares
        \<and> js_BigInt (psi_amountRawUsdc intent) = Some amount
        \<and> canonical_settlement E policy intent maxShares amount ixs)"
  unfolding checkSettlementInstructions_def settlement_binds settlement_tail_Inr
    expectComputeBudgetPair_Inr expectCreateTemporaryAccount_Inr expectInitializeTemporaryAccount_Inr
    consumeFarmInstructions_Inr BigIntR_Inr expectKvaultWithdraw_Inr transfer_Inr
    canonical_settlement_def payment_withdrawal_def [symmetric]
  apply (auto simp: nextProgramIs_def)
   apply blast
  subgoal for maxShares amount limit price create init farm withdraw pay dust close memo
    by (rule exI [of _ "withdraw # pay # dust @ [close, memo]"]) auto
  done

section \<open>The checks before the instructions\<close>

definition payment_fields_ok ::
  "intent_env \<Rightarrow> int \<Rightarrow> ResolvedIntentValidationPolicy \<Rightarrow> PaymentSigningIntent \<Rightarrow> bool" where
  "payment_fields_ok E now policy intent \<longleftrightarrow>
     \<not> intentExpired now (psi_expiresAt intent)
     \<and> psi_scheme intent = PAYMENT_SCHEME \<and> psi_network intent = SOLANA_MAINNET_NETWORK
     \<and> psi_vault intent = vc_address (rvp_vault policy)
     \<and> psi_shareMint intent = vc_shareMint (rvp_vault policy)
     \<and> psi_farm intent = vc_farm (rvp_vault policy) \<and> psi_asset intent = vc_usdcMint (rvp_vault policy)
     \<and> psi_memo intent = psi_paymentId intent
     \<and> computeRequestBindingHash (iv_shaText E) (paymentBinding intent) = psi_requestBindingHash intent
     \<and> ataOf E (psi_payTo intent) (psi_asset intent) = Inr (psi_sellerUsdcAta intent)
     \<and> ataOf E (psi_wallet intent) (psi_asset intent) = Inr (psi_dustRecipientUsdcAta intent)"

lemma checkPaymentFields_Inr:
  "checkPaymentFields E now policy intent = Inr u \<longleftrightarrow> payment_fields_ok E now policy intent" for u :: unit
  by (auto simp: checkPaymentFields_def payment_fields_ok_def bindR_Inr)

text \<open>The policy in force: the caller's limits, the defaults where it gives none.\<close>

definition policy_in_force ::
  "intent_env \<Rightarrow> IntentValidationPolicy option \<Rightarrow> ResolvedIntentValidationPolicy \<Rightarrow> bool" where
  "policy_in_force E policy0 policy \<longleftrightarrow> resolveIntentValidationPolicy E policy0 = Inr policy"

text \<open>The decoded transaction is the one the intent names, paid for by its sponsor.\<close>

definition prepared_transaction ::
  "intent_env \<Rightarrow> string \<Rightarrow> LookupTables option \<Rightarrow> string \<Rightarrow> string \<Rightarrow> DecodedIntentTransaction \<Rightarrow> bool" where
  "prepared_transaction E text tables messageHash feePayer decoded \<longleftrightarrow>
     decodeIntentTransaction E text tables = Inr decoded \<and> di_messageHash decoded = messageHash \<and>
     di_feePayer decoded = feePayer"

section \<open>Deposits\<close>

text \<open>What may stand beside the vault instruction of a deposit or a withdrawal.\<close>

definition side_instruction :: "ResolvedIntentValidationPolicy \<Rightarrow> string \<Rightarrow> DecodedInstruction \<Rightarrow> bool" where
  "side_instruction policy wallet ix \<longleftrightarrow>
     (ix_programAddress ix = COMPUTE_BUDGET_PROGRAM_ID \<and> (limits_compute policy ix \<or> prices_compute policy ix))
     \<or> (ix_programAddress ix = ASSOCIATED_TOKEN_PROGRAM_ID \<and> accountIs ix 2 wallet)
     \<or> ix_programAddress ix = MEMO_PROGRAM_ID"

definition deposits :: "intent_env \<Rightarrow> DepositSigningIntent \<Rightarrow> DecodedInstruction \<Rightarrow> bool" where
  "deposits E intent ix \<longleftrightarrow>
     ix_programAddress ix = KVAULT_PROGRAM_ID \<and> begins KVAULT_DEPOSIT_DISCRIMINATOR (ix_data ix) \<and>
     (\<exists>amount. js_BigInt (dsi_amountRawUsdc intent) = Some amount \<and> u64_at (ix_data ix) 8 amount) \<and>
     (\<exists>source. ataOf E (dsi_wallet intent) (dsi_asset intent) = Inr source \<and>
       accountIs ix 0 (dsi_wallet intent) \<and> accountIs ix 1 (dsi_vault intent) \<and> accountIs ix 3 (dsi_asset intent)
       \<and> accountIs ix 5 (dsi_shareMint intent) \<and> accountIs ix 6 source)"

lemma u64_at_fun: "u64_at data i m \<Longrightarrow> u64_at data i n \<longleftrightarrow> m = n"
  by (auto simp: u64_at_def)

lemma checkDepositInstruction_Inr:
  "ix_programAddress ix = KVAULT_PROGRAM_ID \<Longrightarrow>
     checkDepositInstruction E intent ix = Inr () \<longleftrightarrow> deposits E intent ix"
  unfolding checkDepositInstruction_def deposits_def required_bind required_Inr bytesStartWith_eq
    bindR_Inr [of "readU64LE _ _"] bindR_Inr [of "BigIntR _"] bindR_Inr [of "ataOf _ _ _"]
    readU64LE_Inr BigIntR_Inr
  by auto

lemma side_program:
  assumes "side_instruction policy wallet ix"
  shows "ix_programAddress ix \<in> {COMPUTE_BUDGET_PROGRAM_ID, ASSOCIATED_TOKEN_PROGRAM_ID, MEMO_PROGRAM_ID}"
  using assms by (auto simp: side_instruction_def)

lemmas program_ids =
  COMPUTE_BUDGET_PROGRAM_ID_def ASSOCIATED_TOKEN_PROGRAM_ID_def MEMO_PROGRAM_ID_def KVAULT_PROGRAM_ID_def
  KAMINO_FARMS_PROGRAM_ID_def SPL_TOKEN_PROGRAM_ID_def

lemma depositInstruction_Inr:
  "depositInstruction E policy intent saw ix = Inr saw' \<longleftrightarrow>
     (side_instruction policy (dsi_wallet intent) ix \<and> saw' = saw) \<or> (deposits E intent ix \<and> \<not> saw \<and> saw')"
proof -
  consider "ix_programAddress ix = COMPUTE_BUDGET_PROGRAM_ID" | "ix_programAddress ix = ASSOCIATED_TOKEN_PROGRAM_ID"
    | "ix_programAddress ix = MEMO_PROGRAM_ID" | "ix_programAddress ix = KVAULT_PROGRAM_ID"
    | "ix_programAddress ix \<notin> {COMPUTE_BUDGET_PROGRAM_ID, ASSOCIATED_TOKEN_PROGRAM_ID, MEMO_PROGRAM_ID, KVAULT_PROGRAM_ID}"
    by blast
  then show ?thesis
  proof cases
    case 4
    then show ?thesis
      by (auto simp: depositInstruction_def side_instruction_def bindR_Inr checkDepositInstruction_Inr program_ids)
  qed (auto simp: depositInstruction_def side_instruction_def deposits_def bindR_Inr expectAtaCreateForOwner_def
      program_ids)
qed

lemma side_is_no_deposit: "side_instruction policy wallet ix \<Longrightarrow> \<not> deposits E intent ix"
  by (auto simp: side_instruction_def deposits_def program_ids)

lemma deposit_loop_after:
  "loopR (depositInstruction E policy intent) True ixs = Inr saw \<longleftrightarrow>
     saw \<and> list_all (side_instruction policy (dsi_wallet intent)) ixs"
  by (induction ixs) (auto simp: bindR_Inr depositInstruction_Inr)

lemma one_between:
  "(\<exists>before y after. x # xs = before @ y # after \<and> P y \<and> list_all Q (before @ after)) \<longleftrightarrow>
     (Q x \<and> (\<exists>before y after. xs = before @ y # after \<and> P y \<and> list_all Q (before @ after)))
     \<or> (P x \<and> list_all Q xs)" (is "?L \<longleftrightarrow> ?R")
proof
  assume ?L
  then show ?R by (auto simp: Cons_eq_append_conv) blast+
next
  assume ?R
  then show ?L
  proof (elim disjE conjE exE)
    fix before y after
    assume "Q x" "xs = before @ y # after" "P y" "list_all Q (before @ after)"
    then show ?L by (intro exI [of _ "x # before"] exI [of _ y] exI [of _ after]) simp
  next
    assume "P x" "list_all Q xs"
    then show ?L by (intro exI [of _ "[]"] exI [of _ x] exI [of _ xs]) simp
  qed
qed

lemma deposit_loop:
  "loopR (depositInstruction E policy intent) False ixs = Inr True \<longleftrightarrow>
     (\<exists>before deposit after. ixs = before @ deposit # after \<and> deposits E intent deposit
        \<and> list_all (side_instruction policy (dsi_wallet intent)) (before @ after))"
proof (induction ixs)
  case (Cons ix ixs)
  have "loopR (depositInstruction E policy intent) False (ix # ixs) = Inr True \<longleftrightarrow>
      (side_instruction policy (dsi_wallet intent) ix \<and> loopR (depositInstruction E policy intent) False ixs = Inr True)
      \<or> (deposits E intent ix \<and> list_all (side_instruction policy (dsi_wallet intent)) ixs)"
    by (simp add: bindR_Inr depositInstruction_Inr ex_bool_eq deposit_loop_after) blast
  also have "\<dots> \<longleftrightarrow> (\<exists>before deposit after. ix # ixs = before @ deposit # after \<and> deposits E intent deposit
        \<and> list_all (side_instruction policy (dsi_wallet intent)) (before @ after))"
    unfolding Cons.IH one_between ..
  finally show ?case .
qed simp

section \<open>Withdrawals\<close>

definition withdrawal_of :: "WithdrawalSigningIntent \<Rightarrow> int \<Rightarrow> KvaultWithdrawExpectation" where
  "withdrawal_of intent maxShares =
     \<lparr>kw_wallet = wsi_wallet intent, kw_vault = wsi_vault intent, kw_shareMint = wsi_shareMint intent,
      kw_asset = wsi_asset intent, kw_userTokenAccount = wsi_destinationUsdcAta intent,
      kw_maxSharesToRedeemRaw = maxShares, kw_allowFullExit = wsi_allowFullExit intent\<rparr>"

definition burns :: "intent_env \<Rightarrow> WithdrawalSigningIntent \<Rightarrow> DecodedInstruction \<Rightarrow> bool" where
  "burns E intent ix \<longleftrightarrow> (\<exists>maxShares. js_BigInt (wsi_maxSharesToRedeemRaw intent) = Some maxShares \<and>
     withdraws E (withdrawal_of intent maxShares) ix)"

definition closes_to_wallet :: "string \<Rightarrow> DecodedInstruction \<Rightarrow> bool" where
  "closes_to_wallet wallet ix \<longleftrightarrow> ix_programAddress ix = SPL_TOKEN_PROGRAM_ID \<and> tagIs ix 9 \<and>
     accountIs ix 1 wallet \<and> accountIs ix 2 wallet"

definition vault_calls :: "instructions \<Rightarrow> instructions" where
  "vault_calls = filter (\<lambda>ix. ix_programAddress ix = KVAULT_PROGRAM_ID)"

definition farm_calls :: "instructions \<Rightarrow> instructions" where
  "farm_calls = filter (\<lambda>ix. ix_programAddress ix = KAMINO_FARMS_PROGRAM_ID)"

definition farm_exit :: "intent_env \<Rightarrow> WithdrawalSigningIntent \<Rightarrow> instructions \<Rightarrow> bool" where
  "farm_exit E intent ixs \<longleftrightarrow> ixs = [] \<or>
     (\<exists>unstake back user. ixs = [unstake, back] \<and>
        unstakes (wsi_wallet intent) (wsi_farm intent) user unstake \<and>
        returns_shares E (wsi_wallet intent) (wsi_farm intent) (wsi_shareMint intent) user back)"

definition other_instruction :: "ResolvedIntentValidationPolicy \<Rightarrow> string \<Rightarrow> DecodedInstruction \<Rightarrow> bool" where
  "other_instruction policy wallet ix \<longleftrightarrow>
     ix_programAddress ix \<in> {KVAULT_PROGRAM_ID, KAMINO_FARMS_PROGRAM_ID} \<or>
     side_instruction policy wallet ix \<or> closes_to_wallet wallet ix"

text \<open>The three interleaved parts of a withdrawal.\<close>

definition canonical_withdrawal ::
  "intent_env \<Rightarrow> ResolvedIntentValidationPolicy \<Rightarrow> WithdrawalSigningIntent \<Rightarrow> instructions \<Rightarrow> bool" where
  "canonical_withdrawal E policy intent ixs \<longleftrightarrow>
     list_all (other_instruction policy (wsi_wallet intent)) ixs
     \<and> (\<exists>w. vault_calls ixs = [w] \<and> burns E intent w) \<and> farm_exit E intent (farm_calls ixs)"

lemma withdrawalInstruction_Inr:
  "withdrawalInstruction E policy intent s ix = Inr s' \<longleftrightarrow>
     (if ix_programAddress ix = KVAULT_PROGRAM_ID
      then \<not> sc_sawWithdraw s \<and> burns E intent ix \<and> s' = s\<lparr>sc_sawWithdraw := True\<rparr>
      else if ix_programAddress ix = KAMINO_FARMS_PROGRAM_ID then scanFarmInstruction E intent s ix = Inr s'
      else (side_instruction policy (wsi_wallet intent) ix \<or> closes_to_wallet (wsi_wallet intent) ix) \<and> s' = s)"
  (is "?L \<longleftrightarrow> ?R")
proof -
  consider "ix_programAddress ix = COMPUTE_BUDGET_PROGRAM_ID" | "ix_programAddress ix = ASSOCIATED_TOKEN_PROGRAM_ID"
    | "ix_programAddress ix = MEMO_PROGRAM_ID" | "ix_programAddress ix = KVAULT_PROGRAM_ID"
    | "ix_programAddress ix = KAMINO_FARMS_PROGRAM_ID" | "ix_programAddress ix = SPL_TOKEN_PROGRAM_ID"
    | "ix_programAddress ix \<notin> {COMPUTE_BUDGET_PROGRAM_ID, ASSOCIATED_TOKEN_PROGRAM_ID, MEMO_PROGRAM_ID,
         KVAULT_PROGRAM_ID, KAMINO_FARMS_PROGRAM_ID, SPL_TOKEN_PROGRAM_ID}"
    by blast
  then show ?thesis
    by cases (auto simp: withdrawalInstruction_def side_instruction_def closes_to_wallet_def bindR_Inr
        expectAtaCreateForOwner_def kvault_Inr burns_def withdrawal_of_def program_ids)
qed

lemma scanFarmInstruction_saw:
  "scanFarmInstruction E intent (s\<lparr>sc_sawWithdraw := b\<rparr>) ix =
     (case scanFarmInstruction E intent s ix of Inl e \<Rightarrow> Inl e | Inr t \<Rightarrow> Inr (t\<lparr>sc_sawWithdraw := b\<rparr>))"
  by (auto simp: scanFarmInstruction_def Let_def bindR_def split: sum.splits)

lemma scanFarm_loop_saw:
  "loopR (scanFarmInstruction E intent) (s\<lparr>sc_sawWithdraw := b\<rparr>) ixs =
     (case loopR (scanFarmInstruction E intent) s ixs of Inl e \<Rightarrow> Inl e | Inr t \<Rightarrow> Inr (t\<lparr>sc_sawWithdraw := b\<rparr>))"
proof (induction ixs arbitrary: s)
  case (Cons ix ixs)
  show ?case
    by (cases "scanFarmInstruction E intent s ix") (simp_all add: scanFarmInstruction_saw Cons.IH)
qed simp

lemma scanFarmInstruction_keeps_saw:
  "scanFarmInstruction E intent s ix = Inr t \<Longrightarrow> sc_sawWithdraw t = sc_sawWithdraw s"
  by (auto simp: scanFarmInstruction_def Let_def bindR_Inr split: if_splits)

lemma scanFarm_loop_keeps_saw:
  "loopR (scanFarmInstruction E intent) s ixs = Inr t \<Longrightarrow> sc_sawWithdraw t = sc_sawWithdraw s"
  by (induction ixs arbitrary: s) (auto simp: bindR_Inr dest!: scanFarmInstruction_keeps_saw)

definition one_call :: "intent_env \<Rightarrow> WithdrawalSigningIntent \<Rightarrow> bool \<Rightarrow> instructions \<Rightarrow> bool \<Rightarrow> bool" where
  "one_call E intent saw calls saw' \<longleftrightarrow>
     (calls = [] \<and> saw' = saw) \<or> (\<exists>w. calls = [w] \<and> burns E intent w \<and> \<not> saw \<and> saw')"

text \<open>The loop splits into the scan of the vault calls and the scan of the farm calls.\<close>

lemma withdrawal_loop:
  "loopR (withdrawalInstruction E policy intent) s ixs = Inr t \<longleftrightarrow>
     list_all (other_instruction policy (wsi_wallet intent)) ixs
     \<and> one_call E intent (sc_sawWithdraw s) (vault_calls ixs) (sc_sawWithdraw t)
     \<and> (\<exists>u. loopR (scanFarmInstruction E intent) s (farm_calls ixs) = Inr u
          \<and> t = u\<lparr>sc_sawWithdraw := sc_sawWithdraw t\<rparr>)"
proof (induction ixs arbitrary: s)
  case Nil
  show ?case
    by (auto simp: one_call_def vault_calls_def farm_calls_def)
next
  case (Cons ix ixs)
  let ?rest = "\<lambda>s. list_all (other_instruction policy (wsi_wallet intent)) ixs
     \<and> one_call E intent (sc_sawWithdraw s) (vault_calls ixs) (sc_sawWithdraw t)
     \<and> (\<exists>u. loopR (scanFarmInstruction E intent) s (farm_calls ixs) = Inr u
          \<and> t = u\<lparr>sc_sawWithdraw := sc_sawWithdraw t\<rparr>)"
  have step: "loopR (withdrawalInstruction E policy intent) s (ix # ixs) = Inr t \<longleftrightarrow>
      (\<exists>s'. withdrawalInstruction E policy intent s ix = Inr s' \<and> ?rest s')"
    by (simp add: bindR_Inr Cons.IH)
  consider (vault) "ix_programAddress ix = KVAULT_PROGRAM_ID" | (farm) "ix_programAddress ix = KAMINO_FARMS_PROGRAM_ID"
    | (other) "ix_programAddress ix \<notin> {KVAULT_PROGRAM_ID, KAMINO_FARMS_PROGRAM_ID}"
    by blast
  then show ?case
  proof cases
    case vault
    have "loopR (scanFarmInstruction E intent) (s\<lparr>sc_sawWithdraw := True\<rparr>) (farm_calls ixs) = Inr u
        \<longleftrightarrow> (\<exists>v. loopR (scanFarmInstruction E intent) s (farm_calls ixs) = Inr v \<and> u = v\<lparr>sc_sawWithdraw := True\<rparr>)" for u
      by (auto simp: scanFarm_loop_saw split: sum.splits)
    with vault show ?thesis
      unfolding step
      by (auto simp: withdrawalInstruction_Inr other_instruction_def [of policy _ ix] one_call_def vault_calls_def farm_calls_def)
  next
    case farm
    have "scanFarmInstruction E intent s ix = Inr x \<Longrightarrow> sc_sawWithdraw x = sc_sawWithdraw s" for x
      by (rule scanFarmInstruction_keeps_saw)
    with farm show ?thesis
      unfolding step
      by (auto simp: withdrawalInstruction_Inr other_instruction_def [of policy _ ix] vault_calls_def farm_calls_def bindR_Inr)
  next
    case other
    then show ?thesis
      unfolding step
      by (auto simp: withdrawalInstruction_Inr other_instruction_def [of policy _ ix] vault_calls_def farm_calls_def)
  qed
qed

definition scan_start :: withdrawal_scan where
  "scan_start = \<lparr>sc_sawWithdraw = False, sc_farmUserState = None, sc_farmInstructionCount = 0\<rparr>"

lemma scanFarm_overfull:
  "2 \<le> sc_farmInstructionCount s \<Longrightarrow> loopR (scanFarmInstruction E intent) s ixs = Inr t \<longleftrightarrow> ixs = [] \<and> t = s"
  by (cases ixs) (auto simp: scanFarmInstruction_def bindR_Inr)

lemma farm_first:
  "scanFarmInstruction E intent scan_start ix = Inr t \<longleftrightarrow>
     (\<exists>user. unstakes (wsi_wallet intent) (wsi_farm intent) user ix
        \<and> t = scan_start\<lparr>sc_farmUserState := Some user, sc_farmInstructionCount := 1\<rparr>)"
  by (auto simp: scan_start_def scanFarmInstruction_def bindR_Inr unstake_Inr)

lemma farm_second:
  "scanFarmInstruction E intent (scan_start\<lparr>sc_farmUserState := Some user, sc_farmInstructionCount := 1\<rparr>) ix = Inr t
     \<longleftrightarrow> returns_shares E (wsi_wallet intent) (wsi_farm intent) (wsi_shareMint intent) user ix
        \<and> t = scan_start\<lparr>sc_farmUserState := Some user, sc_farmInstructionCount := 2\<rparr>"
  by (auto simp: scan_start_def scanFarmInstruction_def bindR_Inr farm_withdraw_Inr)

lemma farm_scan:
  "(\<exists>t. loopR (scanFarmInstruction E intent) scan_start ixs = Inr t \<and> sc_farmInstructionCount t \<noteq> 1)
     \<longleftrightarrow> farm_exit E intent ixs"
proof (cases ixs)
  case Nil
  then show ?thesis by (simp add: farm_exit_def scan_start_def)
next
  case (Cons a xs)
  show ?thesis
  proof (cases xs)
    case Nil
    with Cons show ?thesis
      by (auto simp: farm_exit_def bindR_Inr farm_first)
  next
    case (Cons b ys)
    have second: "(\<exists>t. loopR (scanFarmInstruction E intent)
          (scan_start\<lparr>sc_farmUserState := Some user, sc_farmInstructionCount := 1\<rparr>) (b # ys) = Inr t
          \<and> sc_farmInstructionCount t \<noteq> 1)
        \<longleftrightarrow> ys = [] \<and> returns_shares E (wsi_wallet intent) (wsi_farm intent) (wsi_shareMint intent) user b" for user
      by (auto simp: bindR_Inr farm_second scanFarm_overfull simp del: One_nat_def)
    have "(\<exists>t. loopR (scanFarmInstruction E intent) scan_start (a # b # ys) = Inr t \<and> sc_farmInstructionCount t \<noteq> 1)
      \<longleftrightarrow> ys = [] \<and> (\<exists>user. unstakes (wsi_wallet intent) (wsi_farm intent) user a
            \<and> returns_shares E (wsi_wallet intent) (wsi_farm intent) (wsi_shareMint intent) user b)"
      unfolding loopR.simps(2) [of _ _ a] bindR_Inr [of "scanFarmInstruction _ _ _ a"] farm_first
      using second by blast
    then show ?thesis
      by (auto simp: \<open>ixs = a # xs\<close> Cons farm_exit_def)
  qed
qed

lemma withdrawal_scan_Inr:
  "(\<exists>scan. loopR (withdrawalInstruction E policy intent) scan_start ixs = Inr scan \<and> sc_sawWithdraw scan
      \<and> sc_farmInstructionCount scan \<noteq> 1) \<longleftrightarrow> canonical_withdrawal E policy intent ixs"
proof -
  have "(\<exists>scan. loopR (withdrawalInstruction E policy intent) scan_start ixs = Inr scan \<and> sc_sawWithdraw scan
      \<and> sc_farmInstructionCount scan \<noteq> 1) \<longleftrightarrow>
      list_all (other_instruction policy (wsi_wallet intent)) ixs \<and> one_call E intent False (vault_calls ixs) True
      \<and> (\<exists>u. loopR (scanFarmInstruction E intent) scan_start (farm_calls ixs) = Inr u
           \<and> sc_farmInstructionCount u \<noteq> 1)" (is "?L \<longleftrightarrow> ?R")
  proof
    assume ?L
    then show ?R by (auto simp: withdrawal_loop scan_start_def)
  next
    assume ?R
    then obtain u where "list_all (other_instruction policy (wsi_wallet intent)) ixs"
        "one_call E intent False (vault_calls ixs) True"
        "loopR (scanFarmInstruction E intent) scan_start (farm_calls ixs) = Inr u" "sc_farmInstructionCount u \<noteq> 1"
      by blast
    then show ?L
      by (intro exI [of _ "u\<lparr>sc_sawWithdraw := True\<rparr>"]) (auto simp: withdrawal_loop scan_start_def)
  qed
  then show ?thesis
    unfolding farm_scan by (auto simp: canonical_withdrawal_def one_call_def)
qed

end
