(* ===== verification/Intent_Outcomes.thy ===== *)
theory Intent_Outcomes
  imports Intent_Grammar
begin

text \<open>
  What the intent validators promise the agent: each accepts exactly the transactions of a
  grammar, and the grammar says where every unit of the agent's funds goes.
\<close>

section \<open>Payments\<close>

text \<open>
  C4: the payment validator accepts exactly the canonical settlements. It returns normally if
  and only if the policy is valid, the fields of the intent fit the pinned vault and bind the
  request, the transaction decodes to the message the intent names, with the sponsor paying
  and the three expected signers, and its instructions are, with nothing before, between or
  after them, one settlement for the amount and within the share maximum of the intent.
\<close>

theorem accepted_payments_are_settlements:
  "validatePaymentIntentTransaction E intent text tables policy0 now = Inr () \<longleftrightarrow>
     (\<exists>policy decoded maxShares amount. policy_in_force E policy0 policy
        \<and> payment_fields_ok E now policy intent
        \<and> prepared_transaction E text tables (psi_preparedMessageHash intent) (psi_feePayer intent) decoded
        \<and> set (di_requiredSigners decoded)
            \<subseteq> {psi_feePayer intent, psi_wallet intent, psi_temporarySettlementTokenAccount intent}
        \<and> length (di_requiredSigners decoded)
            = card {psi_feePayer intent, psi_wallet intent, psi_temporarySettlementTokenAccount intent}
        \<and> js_BigInt (psi_maxSharesToRedeemRaw intent) = Some maxShares
        \<and> js_BigInt (psi_amountRawUsdc intent) = Some amount
        \<and> canonical_settlement E policy intent maxShares amount (di_instructions decoded))"
proof -
  have signers: "signersExact required [a, b, c] \<longleftrightarrow> set required \<subseteq> {a, b, c} \<and> length required = card {a, b, c}"
    for required a b c by (auto simp: signersExact_def list_all_iff)
  show ?thesis
    unfolding validatePaymentIntentTransaction_def required_bind signers
      bindR_Inr [of "resolveIntentValidationPolicy _ _"] bindR_Inr [of "checkPaymentFields _ _ _ _"]
      bindR_Inr [of "decodeIntentTransaction _ _ _"] checkPaymentFields_Inr checkSettlementInstructions_Inr
      policy_in_force_def prepared_transaction_def
    by blast
qed

section \<open>Deposits\<close>

definition vault_targets_ok :: "string \<Rightarrow> string \<Rightarrow> string \<Rightarrow> string \<Rightarrow> VaultConfig \<Rightarrow> bool" where
  "vault_targets_ok vault farm shareMint asset config \<longleftrightarrow>
     vault = vc_address config \<and> farm = vc_farm config \<and> shareMint = vc_shareMint config
     \<and> asset = vc_usdcMint config"

lemma assertVaultIntentTargets_Inr:
  "assertVaultIntentTargets vault farm shareMint asset config = Inr u \<longleftrightarrow>
     vault_targets_ok vault farm shareMint asset config" for u :: unit
  by (auto simp: assertVaultIntentTargets_def vault_targets_ok_def bindR_Inr)

text \<open>
  C22: the deposit validator accepts a transaction exactly when it is the prepared one and
  deposits once: one vault deposit of exactly the amount of the intent, from the wallet's own
  USDC account into the pinned vault, with only compute-budget instructions within the policy,
  token-account creations for the wallet and memos beside it.
\<close>

theorem accepted_deposits_deposit_once:
  "validateDepositIntentTransaction E intent text tables policy0 now = Inr () \<longleftrightarrow>
     (\<exists>policy decoded before deposit after. policy_in_force E policy0 policy
        \<and> \<not> intentExpired now (dsi_expiresAt intent)
        \<and> vault_targets_ok (dsi_vault intent) (dsi_farm intent) (dsi_shareMint intent) (dsi_asset intent)
            (rvp_vault policy)
        \<and> prepared_transaction E text tables (dsi_preparedMessageHash intent) (dsi_feePayer intent) decoded
        \<and> di_instructions decoded = before @ deposit # after \<and> deposits E intent deposit
        \<and> list_all (side_instruction policy (dsi_wallet intent)) (before @ after))"
proof -
  have loop: "(\<exists>saw. loopR (depositInstruction E policy intent) False ixs = Inr saw \<and> saw) \<longleftrightarrow>
      (\<exists>before deposit after. ixs = before @ deposit # after \<and> deposits E intent deposit
        \<and> list_all (side_instruction policy (dsi_wallet intent)) (before @ after))" for policy ixs
    by (simp add: ex_bool_eq deposit_loop)
  show ?thesis
    unfolding validateDepositIntentTransaction_def required_bind required_Inr
      bindR_Inr [of "resolveIntentValidationPolicy _ _"] bindR_Inr [of "assertVaultIntentTargets _ _ _ _ _"]
      bindR_Inr [of "decodeIntentTransaction _ _ _"] bindR_Inr [of "loopR _ _ _"] assertVaultIntentTargets_Inr
      policy_in_force_def prepared_transaction_def loop
    by blast
qed

section \<open>Withdrawals\<close>

text \<open>
  C23: the withdrawal validator accepts a transaction exactly when it is the prepared one, pays
  into the wallet's own USDC account and consists of three parts, in any interleaving: one vault
  withdrawal that burns at most the approved shares (all of them only where the intent allows a
  full exit), either no farm call or an unstake followed by the return of the shares to the
  wallet, and otherwise only compute-budget instructions within the policy, memos, token-account
  creations for the wallet and account closings that pay the wallet.
\<close>

theorem accepted_withdrawals_are_canonical:
  "validateWithdrawalIntentTransaction E intent text tables policy0 now = Inr () \<longleftrightarrow>
     (\<exists>policy decoded. policy_in_force E policy0 policy
        \<and> \<not> intentExpired now (wsi_expiresAt intent)
        \<and> vault_targets_ok (wsi_vault intent) (wsi_farm intent) (wsi_shareMint intent) (wsi_asset intent)
            (rvp_vault policy)
        \<and> ataOf E (wsi_wallet intent) (wsi_asset intent) = Inr (wsi_destinationUsdcAta intent)
        \<and> prepared_transaction E text tables (wsi_preparedMessageHash intent) (wsi_feePayer intent) decoded
        \<and> canonical_withdrawal E policy intent (di_instructions decoded))"
  unfolding validateWithdrawalIntentTransaction_def required_bind required_Inr
    bindR_Inr [of "resolveIntentValidationPolicy _ _"] bindR_Inr [of "assertVaultIntentTargets _ _ _ _ _"]
    bindR_Inr [of "ataOf _ _ _"]
    bindR_Inr [of "decodeIntentTransaction _ _ _"] bindR_Inr [of "loopR _ _ _"] assertVaultIntentTargets_Inr
    policy_in_force_def prepared_transaction_def withdrawal_scan_Inr [symmetric] scan_start_def
  by blast

section \<open>Dates that do not parse\<close>

text \<open>
  The server helpers treat such a date as expired. The signer's test compares \<open>NaN\<close>, so an
  intent with an expiry that does not parse is never refused as expired.
\<close>

lemma unparsable_expiry_never_expires:
  "validatePaymentIntentTransaction E (intent\<lparr>psi_expiresAt := Unparsable s\<rparr>) text tables policy now =
     validatePaymentIntentTransaction E (intent\<lparr>psi_expiresAt := Unparsable s\<rparr>) text tables policy later"
  by (simp add: validatePaymentIntentTransaction_def checkPaymentFields_def intentExpired_def)

text \<open>
  The shifts of the signature count are 32-bit and signed: five continuation groups give a
  negative count, and a negative message offset, which \<open>subarray\<close> reads from the end.
\<close>

lemma negative_signature_count:
  "readShortVec [0x80, 0x80, 0x80, 0x80, 0x08] 0 = Some (- 2147483648, 5)"
  "messageOffset ([0x80, 0x80, 0x80, 0x80, 0x08] @ rest) = Inr (- 137438953467)"
proof -
  have b: "(0x80 AND 0x7f :: byte) = 0" "(0x08 AND 0x7f :: byte) = 8" "(0x80 AND 0x80 :: byte) \<noteq> 0"
      "(0x08 AND 0x80 :: byte) = 0" "sint (push_bit 28 8 :: 32 word) = - 2147483648"
    by code_simp+
  then have read: "readShortVec ([0x80, 0x80, 0x80, 0x80, 0x08] @ rest) 0 = Some (- 2147483648, 5)" for rest
    by (simp add: readShortVec_def Let_def)
  then show "messageOffset ([0x80, 0x80, 0x80, 0x80, 0x08] @ rest) = Inr (- 137438953467)"
    by (simp add: messageOffset_def)
  show "readShortVec [0x80, 0x80, 0x80, 0x80, 0x08] 0 = Some (- 2147483648, 5)"
    using read [of "[]"] by simp
qed

section \<open>A settlement that is accepted\<close>

definition sample_intent_env :: intent_env where
  "sample_intent_env =
     \<lparr>ta_digest = \<lambda>bytes. hd bytes # replicate 31 255,
      ta_decode = \<lambda>text. Some ((if text = ''wallet'' then 240 else 241) # replicate 31 0),
      ta_encode = \<lambda>bytes. (if hd bytes = 1 then SPL_TOKEN_PROGRAM_ID else if hd bytes = 2 then ''wallet''
        else if hd bytes = 240 then ''wallet-ata'' else ''seller-ata''),
      ta_usdcMint = ''usdc'',
      iv_shaBuffer = \<lambda>_. ''message-hash'', iv_shaText = \<lambda>_. ''binding-hash'',
      iv_decodeMessage = \<lambda>_. Inr
        \<lparr>cm_version = Some 0, cm_numSignerAccounts = 3,
         cm_staticAccounts = [''sponsor'', ''wallet'', ''temp'', COMPUTE_BUDGET_PROGRAM_ID, SYSTEM_PROGRAM_ID,
           SPL_TOKEN_PROGRAM_ID, ''usdc'', KVAULT_PROGRAM_ID, ''vault'', ''shares'', ''seller-ata'', ''wallet-ata'',
           MEMO_PROGRAM_ID, ''config''],
         cm_addressTableLookups = None,
         cm_instructions = map (\<lambda>(p, as, d). \<lparr>ci_programAddressIndex = p, ci_accountIndices = Some as, ci_data = Some d\<rparr>)
           [(3, [], [2, 64, 13, 3, 0]), (3, [], [3, 1, 0, 0, 0, 0, 0, 0, 0]),
            (4, [0, 2], [0, 0, 0, 0, 0, 32, 31, 0, 0, 0, 0, 0, 165, 0, 0, 0, 0, 0, 0, 0] @ replicate 32 1),
            (5, [2, 6], 18 # replicate 32 2),
            (7, [1, 8, 13, 13, 13, 2, 6, 11, 9], KVAULT_WITHDRAW_DISCRIMINATOR @ [100, 0, 0, 0, 0, 0, 0, 0]),
            (5, [2, 6, 10, 1], [12, 5, 0, 0, 0, 0, 0, 0, 0, 6]),
            (5, [2, 0, 1], [9]), (12, [], [112])]\<rparr>,
      iv_utf8 = \<lambda>_. ''pay-1'',
      iv_defaultVault = \<lparr>vc_address = ''vault'', vc_programId = KVAULT_PROGRAM_ID, vc_usdcMint = ''usdc'',
        vc_shareMint = ''shares'', vc_farm = ''farm''\<rparr>\<rparr>"

definition sample_payment_intent :: PaymentSigningIntent where
  "sample_payment_intent =
     \<lparr>psi_paymentId = ''pay-1'', psi_sellerRequestId = ''request'', psi_wallet = ''wallet'',
      psi_network = SOLANA_MAINNET_NETWORK, psi_scheme = PAYMENT_SCHEME, psi_httpMethod = ''GET'',
      psi_canonicalResourceUrl = ''url'', psi_requestBodyHash = ''body'', psi_requestBindingHash = ''sha256-binding-hash'',
      psi_seller = ''seller'', psi_vault = ''vault'', psi_farm = ''farm'', psi_shareMint = ''shares'',
      psi_asset = ''usdc'', psi_amountRawUsdc = ''5'', psi_payTo = ''seller'', psi_sellerUsdcAta = ''seller-ata'',
      psi_feePayer = ''sponsor'', psi_temporarySettlementTokenAccount = ''temp'',
      psi_dustRecipientUsdcAta = ''wallet-ata'', psi_maxSharesToRedeemRaw = ''120'', psi_memo = ''pay-1'',
      psi_expiresAt = AtMs 1000, psi_preparedMessageHash = ''message-hash''\<rparr>"

lemma sample_settlement_accepted:
  "validatePaymentIntentTransaction sample_intent_env sample_payment_intent ''ACo='' None None 500 = Inr ()"
  by code_simp

end
