(* ===== verification/X402_Challenge.thy ===== *)
theory X402_Challenge
  imports Intent_Validator
begin

text \<open>
  The x402 wire format of the buyer: \<open>src/src/x402/headers.ts\<close> (the base64 JSON headers)
  and \<open>src/src/x402/standard-requirements.ts\<close> (the payment requirements of a 402
  challenge and the choice of the one the agent can pay). JSON values are those of theory
  \<open>Canonical_Json\<close>; the schema checks of the \<open>zod\<close> package are written out.
\<close>

section \<open>Headers\<close>

definition PAYMENT_REQUIRED_HEADER :: string where "PAYMENT_REQUIRED_HEADER = ''payment-required''"
definition PAYMENT_RESPONSE_HEADER :: string where "PAYMENT_RESPONSE_HEADER = ''payment-response''"

definition MAX_HEADER_JSON_BYTES :: int where "MAX_HEADER_JSON_BYTES = 16384"

text \<open>
  \<open>xh_parse\<close> reads a UTF-8 buffer and parses it as JSON, or throws (\<open>None\<close>).
  \<open>xh_sha\<close> is the hex SHA-256 of a text.
\<close>

record x402_env =
  xh_parse :: "byte list \<Rightarrow> json option"
  xh_sha :: "string \<Rightarrow> string"

definition decodeX402Header :: "'a x402_env_scheme \<Rightarrow> string \<Rightarrow> json result" where
  "decodeX402Header X headerValue =
     (if int (length headerValue) > (MAX_HEADER_JSON_BYTES * 4 + 2) div 3 + 4 then reject ''header_too_large''
      else case xh_parse X (base64url_bytes headerValue) of
          None \<Rightarrow> reject ''invalid_header_encoding''
        | Some v \<Rightarrow> Inr v)"

definition requestBodyHashFor :: "'a x402_env_scheme \<Rightarrow> string option \<Rightarrow> string" where
  "requestBodyHashFor X body = (case body of
       None \<Rightarrow> EMPTY_BODY_HASH
     | Some text \<Rightarrow> if text = [] then EMPTY_BODY_HASH else sha256TaggedHex (xh_sha X) text)"

section \<open>Schemas\<close>

text \<open>A member of an object that is absent or \<open>undefined\<close> is \<open>None\<close>.\<close>

definition member :: "string \<Rightarrow> (string \<times> json option) list \<Rightarrow> json option" where
  "member k ps = (case map_of ps k of None \<Rightarrow> None | Some v \<Rightarrow> v)"

definition nonEmptyText :: "json option \<Rightarrow> string option" where
  "nonEmptyText v = (case v of Some (JString s) \<Rightarrow> if s = [] then None else Some s | _ \<Rightarrow> None)"

text \<open>An optional member: absent, or of the given form.\<close>

definition optionally :: "json option \<Rightarrow> (json \<Rightarrow> bool) \<Rightarrow> bool" where
  "optionally v ok = (case v of None \<Rightarrow> True | Some x \<Rightarrow> ok x)"

definition isText :: "json \<Rightarrow> bool" where
  "isText v = (case v of JString _ \<Rightarrow> True | _ \<Rightarrow> False)"

definition isNonEmptyText :: "json \<Rightarrow> bool" where
  "isNonEmptyText v \<longleftrightarrow> nonEmptyText (Some v) \<noteq> None"

definition isInteger :: "json \<Rightarrow> bool" where
  "isInteger v = (case v of JNumber n \<Rightarrow> isSafeInteger n | _ \<Rightarrow> False)"

definition isPositiveInteger :: "json \<Rightarrow> bool" where
  "isPositiveInteger v = (case v of JNumber n \<Rightarrow> isSafeInteger n \<and> n > 0 | _ \<Rightarrow> False)"

definition isObjectWith :: "string \<Rightarrow> (json \<Rightarrow> bool) \<Rightarrow> json \<Rightarrow> bool" where
  "isObjectWith k ok v = (case v of JObject ps \<Rightarrow> optionally (member k ps) ok | _ \<Rightarrow> False)"

text \<open>The language of \<open>/^[1-9]\d*$/\<close>.\<close>

definition positiveDecimal :: "string \<Rightarrow> bool" where
  "positiveDecimal s \<longleftrightarrow> s \<noteq> [] \<and> list_all is_digit s \<and> hd s \<noteq> CHR ''0''"

record StandardExactRequirement =
  se_network :: string
  se_asset :: string
  se_amount :: string
  se_payTo :: string
  se_feePayer :: "string option"
  se_data :: json

definition STANDARD_EXACT_SCHEME :: string where "STANDARD_EXACT_SCHEME = ''exact''"

definition extraFeePayer :: "json option \<Rightarrow> string option" where
  "extraFeePayer extra = (case extra of Some (JObject ps) \<Rightarrow> nonEmptyText (member ''feePayer'' ps) | _ \<Rightarrow> None)"

text \<open>\<open>standardExactRequirementSchema.safeParse\<close>; a loose schema keeps the other members.\<close>

definition parseExactRequirement :: "json \<Rightarrow> StandardExactRequirement option" where
  "parseExactRequirement v = (case v of
       JObject ps \<Rightarrow>
         (case (nonEmptyText (member ''network'' ps), nonEmptyText (member ''asset'' ps),
                nonEmptyText (member ''amount'' ps), nonEmptyText (member ''payTo'' ps)) of
            (Some network, Some asset, Some amount, Some payTo) \<Rightarrow>
              if member ''scheme'' ps = Some (JString STANDARD_EXACT_SCHEME) \<and> positiveDecimal amount
                 \<and> optionally (member ''maxTimeoutSeconds'' ps) isPositiveInteger
                 \<and> optionally (member ''extra'' ps) (isObjectWith ''feePayer'' isNonEmptyText)
              then Some \<lparr>se_network = network, se_asset = asset, se_amount = amount, se_payTo = payTo,
                     se_feePayer = extraFeePayer (member ''extra'' ps), se_data = v\<rparr>
              else None
          | _ \<Rightarrow> None)
     | _ \<Rightarrow> None)"

definition startsWith :: "string \<Rightarrow> string \<Rightarrow> bool" where
  "startsWith text prefix \<longleftrightarrow> take (length prefix) text = prefix"

definition solanaExactRequirement :: "json \<Rightarrow> StandardExactRequirement list" where
  "solanaExactRequirement candidate = (case parseExactRequirement candidate of
       None \<Rightarrow> []
     | Some r \<Rightarrow> if startsWith (se_network r) ''solana:'' then [r] else [])"

definition parseStandardChallenge :: "json \<Rightarrow> StandardExactRequirement list result" where
  "parseStandardChallenge challenge = (case challenge of
       JObject ps \<Rightarrow>
         (case member ''accepts'' ps of
            Some (JArray accepts) \<Rightarrow>
              if (case member ''x402Version'' ps of None \<Rightarrow> False | Some n \<Rightarrow> isInteger n)
                 \<and> optionally (member ''error'' ps) isText
                 \<and> optionally (member ''resource'' ps) (isObjectWith ''url'' isText)
              then Inr (concat (map solanaExactRequirement accepts))
              else reject ''invalid_payment_required''
          | _ \<Rightarrow> reject ''invalid_payment_required'')
     | _ \<Rightarrow> reject ''invalid_payment_required'')"

definition decodeStandardPaymentRequiredHeader ::
  "'a x402_env_scheme \<Rightarrow> string \<Rightarrow> StandardExactRequirement list result" where
  "decodeStandardPaymentRequiredHeader X headerValue =
     bindR (decodeX402Header X headerValue) parseStandardChallenge"

section \<open>Selection\<close>

record SelectedSolanaRequirement =
  sel_requirement :: json
  sel_amountRawUsdc :: int
  sel_payTo :: string
  sel_feePayer :: string

definition selectPayableSolanaRequirement ::
  "string \<Rightarrow> string \<Rightarrow> StandardExactRequirement list \<Rightarrow> SelectedSolanaRequirement result" where
  "selectPayableSolanaRequirement network usdcMint requirements =
     (let matchingRequirements = filter (\<lambda>c. se_network c = network \<and> se_asset c = usdcMint) requirements in
      if matchingRequirements = [] then reject ''no_payable_requirement''
      else case List.find (\<lambda>c. se_feePayer c \<noteq> None) matchingRequirements of
          None \<Rightarrow> reject ''missing_svm_fee_payer''
        | Some requirement \<Rightarrow>
            (case se_feePayer requirement of
               None \<Rightarrow> reject ''missing_svm_fee_payer''
             | Some feePayer \<Rightarrow>
                 bindR (BigIntR (se_amount requirement)) (\<lambda>amount.
                 Inr \<lparr>sel_requirement = se_data requirement, sel_amountRawUsdc = amount,
                      sel_payTo = se_payTo requirement, sel_feePayer = feePayer\<rparr>)))"

text \<open>
  \<open>stableJson\<close>: the text with sorted keys. Only the equality of two such texts is used, so
  the order of the keys (by locale in the source, by code units here) does not matter.
\<close>

definition stableJson :: "json \<Rightarrow> string" where
  "stableJson v = stableStringify v"

definition standardRequirementMatchesSelected :: "json \<Rightarrow> SelectedSolanaRequirement \<Rightarrow> bool" where
  "standardRequirementMatchesSelected candidate selected = (case parseExactRequirement candidate of
       None \<Rightarrow> False
     | Some parsed \<Rightarrow> stableJson (se_data parsed) = stableJson (sel_requirement selected))"

end
