(* ===== verification/X402_Payer.thy ===== *)
theory X402_Payer
  imports X402_Challenge
begin

text \<open>
  The buyer of \<open>src/src/client/standard-x402-payer.ts\<close>: it realizes yield into the
  agent's token account and then pays a seller, with a durable record of every step, so that a
  crash can be recovered from. The seller, the realizer and the x402 client are answers given
  to the run; the state holds the records in memory, the records on disk and a log of the
  effects in their order.
\<close>

section \<open>Records\<close>

record PreparedWithdrawal =
  pd_requestedWithdrawRawUsdc :: string
  pd_purpose :: string
  pd_withdrawalId :: string
  pd_serializedTransaction :: string
  pd_destinationUsdcAta :: string
  pd_signingIntent :: WithdrawalSigningIntent

datatype pending_status = realizing | realized | external_outcome_unknown

record RealizationContext =
  rc_wallet :: string
  rc_vault :: string
  rc_relayerBaseUrl :: string

record PaymentRecovery =
  rv_context :: RealizationContext
  rv_requestHeadersHash :: string
  rv_requirement :: json
  rv_prepared :: "PreparedWithdrawal option"

text \<open>The free-form \<open>detail\<close> of a record is never read and not modelled.\<close>

record PendingPayment =
  pp_key :: string
  pp_url :: string
  pp_method :: string
  pp_requestBodyHash :: string
  pp_amountRawUsdc :: string
  pp_payTo :: string
  pp_feePayer :: "string option"
  pp_realizedRawUsdc :: string
  pp_realizeTxSignature :: "string option"
  pp_status :: pending_status
  pp_recovery :: "PaymentRecovery option"
  pp_createdAtMs :: int
  pp_updatedAtMs :: int

record RealizePaymentBinding =
  rpb_payTo :: string
  rpb_amountRawUsdc :: string
  rpb_resourceUrlHash :: string
  rpb_method :: string

record StandardPayInput =
  spi_url :: string
  spi_method :: "string option"
  spi_body :: "string option"
  spi_headers :: "json option"
  spi_maxAmountRawUsdc :: "int option"
  spi_forceNewPayment :: "bool option"
  spi_approvalId :: "string option"

section \<open>The outside world\<close>

record RealizeResult =
  rr_realizedRawUsdc :: int
  rr_txSignature :: "string option"
  rr_withdrawalId :: "string option"

text \<open>What a realizer throws: the two members the payer reads.\<close>

record RealizeFailure =
  rl_code :: "string option"
  rl_realizationSafeToRetry :: bool

record FetchResponse =
  fr_status :: int
  fr_headers :: "string \<Rightarrow> string option"
  fr_text :: string
  fr_json :: "json option"

text \<open>
  The answers to one call of \<open>pay\<close>. A realizer calls \<open>onPrepared\<close> at most once,
  before it submits anything, and lets an error of the callback through
  (\<open>relayer-yield-realizer.ts\<close>); \<open>an_ensure\<close> is its outcome otherwise. The answer to a
  report is ignored by the payer.
\<close>

record pay_answers =
  an_probe :: "FetchResponse result"
  an_prepared :: "PreparedWithdrawal option"
  an_ensure :: "RealizeFailure + RealizeResult"
  an_resume :: "RealizeFailure + RealizeResult"
  an_payment :: "FetchResponse result"

record realizer_info =
  ri_vault :: "string option"
  ri_realizationContext :: "RealizationContext option"
  ri_canResume :: bool
  ri_canReport :: bool

record payer_config = x402_env +
  xc_network :: string
  xc_usdcMint :: string
  xc_defaultMaxAmountRawUsdc :: int
  xc_hasStore :: bool
  xc_hasLock :: bool

text \<open>
  What a save does: it may write and return, fail without writing, or write and then fail (a
  \<open>fsync\<close> of the directory comes after the rename).
\<close>

datatype save_outcome = SaveDone | SaveFailed | SaveDoneThenFailed

datatype payer_event =
    Saved "PendingPayment list"
  | Realize string RealizePaymentBinding "string option"
  | Resume string PreparedWithdrawal RealizePaymentBinding
  | PaymentSent string SelectedSolanaRequirement
  | Reported string string

record payer_world =
  pw_pending :: "(string, PendingPayment) js_map"
  pw_disk :: "PendingPayment list"
  pw_faults :: "nat \<Rightarrow> save_outcome"
  pw_saves :: nat
  pw_log :: "payer_event list"

definition emit :: "payer_event \<Rightarrow> (payer_world, unit) action" where
  "emit e = modifyA (\<lambda>w. w\<lparr>pw_log := pw_log w @ [e]\<rparr>)"

definition payError :: "string \<Rightarrow> error" where
  "payError reason = JsError reason"

section \<open>The durable records\<close>

definition persist :: "payer_config \<Rightarrow> (payer_world, unit) action" where
  "persist C = (if \<not> xc_hasStore C then returnA ()
     else bindA (getsA (\<lambda>w. (map_values (pw_pending w), pw_faults w (pw_saves w)))) (\<lambda>(records, outcome).
       bindA (modifyA (\<lambda>w. w\<lparr>pw_saves := pw_saves w + 1\<rparr>)) (\<lambda>_.
       bindA (if outcome = SaveFailed then returnA ()
              else bindA (modifyA (\<lambda>w. w\<lparr>pw_disk := records\<rparr>)) (\<lambda>_. emit (Saved records))) (\<lambda>_.
       if outcome = SaveDone then returnA () else throwA (JsError ''EIO'')))))"

definition restore :: "string \<Rightarrow> PendingPayment option \<Rightarrow> payer_world \<Rightarrow> payer_world" where
  "restore key previous w = (case previous of
       None \<Rightarrow> w\<lparr>pw_pending := map_delete key (pw_pending w)\<rparr>
     | Some r \<Rightarrow> w\<lparr>pw_pending := map_set key r (pw_pending w)\<rparr>)"

definition track :: "payer_config \<Rightarrow> PendingPayment \<Rightarrow> (payer_world, unit) action" where
  "track C record' =
     bindA (getsA (\<lambda>w. map_get (pw_pending w) (pp_key record'))) (\<lambda>previous.
     bindA (modifyA (\<lambda>w. w\<lparr>pw_pending := map_set (pp_key record') record' (pw_pending w)\<rparr>)) (\<lambda>_.
     catchA (persist C) (\<lambda>e. bindA (modifyA (restore (pp_key record') previous)) (\<lambda>_. throwA e))))"

definition persistCheckpoint :: "payer_config \<Rightarrow> PendingPayment \<Rightarrow> (payer_world, unit) action" where
  "persistCheckpoint C record' =
     catchA (track C record') (\<lambda>_. throwA (payError ''state_persist_failed''))"

definition untrack :: "payer_config \<Rightarrow> string \<Rightarrow> (payer_world, unit) action" where
  "untrack C key =
     bindA (getsA (\<lambda>w. map_get (pw_pending w) key)) (\<lambda>previous.
     bindA (modifyA (\<lambda>w. w\<lparr>pw_pending := map_delete key (pw_pending w)\<rparr>)) (\<lambda>_.
     catchA (persist C) (\<lambda>e.
       bindA (modifyA (\<lambda>w. if previous = None then w else restore key previous w)) (\<lambda>_. throwA e))))"

definition clearDelivered :: "payer_config \<Rightarrow> string \<Rightarrow> (payer_world, unit) action" where
  "clearDelivered C key =
     bindA (getsA (\<lambda>w. map_get (pw_pending w) key)) (\<lambda>previous.
     bindA (modifyA (\<lambda>w. w\<lparr>pw_pending := map_delete key (pw_pending w)\<rparr>)) (\<lambda>_.
     catchA (persist C) (\<lambda>_. modifyA (\<lambda>w. if previous = None then w else restore key previous w))))"

definition markUnknown :: "payer_config \<Rightarrow> int \<Rightarrow> string \<Rightarrow> (payer_world, unit) action" where
  "markUnknown C now key =
     bindA (getsA (\<lambda>w. map_get (pw_pending w) key)) (\<lambda>current.
     case current of None \<Rightarrow> returnA ()
     | Some r \<Rightarrow>
         bindA (modifyA (\<lambda>w. w\<lparr>pw_pending := map_set key
            (r\<lparr>pp_status := external_outcome_unknown, pp_updatedAtMs := now\<rparr>) (pw_pending w)\<rparr>)) (\<lambda>_.
         catchA (persist C) (\<lambda>e. bindA (modifyA (restore key current)) (\<lambda>_. throwA e))))"

definition tryMarkUnknown :: "payer_config \<Rightarrow> int \<Rightarrow> string \<Rightarrow> (payer_world, unit) action" where
  "tryMarkUnknown C now key = catchA (markUnknown C now key) (\<lambda>_. returnA ())"

section \<open>Receipts and challenges\<close>

datatype receipt_status = receipt_absent | receipt_success | receipt_failed | receipt_invalid

definition receiptOf :: "json \<Rightarrow> receipt_status \<times> string option" where
  "receiptOf decoded = (case decoded of
       JObject ps \<Rightarrow>
         (case member ''success'' ps of
            Some (JBool success) \<Rightarrow>
              if \<not> success then (receipt_failed, None)
              else (case (nonEmptyText (member ''transaction'' ps), nonEmptyText (member ''txHash'' ps)) of
                  (Some t, _) \<Rightarrow> (receipt_success, Some t)
                | (None, Some t) \<Rightarrow> (receipt_success, Some t)
                | (None, None) \<Rightarrow> (receipt_invalid, None))
          | _ \<Rightarrow> (receipt_invalid, None))
     | _ \<Rightarrow> (receipt_invalid, None))"

definition readSettlementReceipt :: "payer_config \<Rightarrow> FetchResponse \<Rightarrow> receipt_status \<times> string option" where
  "readSettlementReceipt C response =
     (case orElseO (fr_headers response PAYMENT_RESPONSE_HEADER) (fr_headers response ''x-payment-response'') of
        None \<Rightarrow> (receipt_absent, None)
      | Some header \<Rightarrow>
          (case decodeX402Header C header of
             Inl _ \<Rightarrow> (receipt_invalid, None)
           | Inr decoded \<Rightarrow> receiptOf decoded))"

definition readChallenge :: "payer_config \<Rightarrow> FetchResponse \<Rightarrow> StandardExactRequirement list result" where
  "readChallenge C probe = (case fr_headers probe PAYMENT_REQUIRED_HEADER of
       Some header \<Rightarrow> decodeStandardPaymentRequiredHeader C header
     | None \<Rightarrow> (case fr_json probe of
           None \<Rightarrow> Inl (payError ''invalid_challenge'')
         | Some v \<Rightarrow> parseStandardChallenge v))"

definition selectRequirement :: "payer_config \<Rightarrow> FetchResponse \<Rightarrow> SelectedSolanaRequirement result" where
  "selectRequirement C probe =
     bindR (readChallenge C probe) (\<lambda>requirements.
     case selectPayableSolanaRequirement (xc_network C) (xc_usdcMint C) requirements of
       Inl _ \<Rightarrow> Inl (payError ''no_payable_requirement'')
     | Inr selected \<Rightarrow> Inr selected)"

definition pendingPaymentKey :: "string \<Rightarrow> string \<Rightarrow> string \<Rightarrow> string" where
  "pendingPaymentKey url method requestBodyHash = method @ '':'' @ url @ '':'' @ requestBodyHash"

section \<open>A run\<close>

record computed_request =
  cr_method :: string
  cr_requestBodyHash :: string
  cr_pendingKey :: string

definition contextJson :: "RealizationContext option \<Rightarrow> json" where
  "contextJson c = (case c of None \<Rightarrow> JNull
     | Some x \<Rightarrow> JObject [(''wallet'', Some (JString (rc_wallet x))), (''vault'', Some (JString (rc_vault x))),
         (''relayerBaseUrl'', Some (JString (rc_relayerBaseUrl x)))])"

definition headersHash :: "payer_config \<Rightarrow> StandardPayInput \<Rightarrow> string" where
  "headersHash C input = canonicalJsonHash (xh_sha C) (case spi_headers input of None \<Rightarrow> JObject [] | Some h \<Rightarrow> h)"

text \<open>
  What is done about a record that exists for the request: the record to resume from, no record
  after it was discarded, or a refusal.
\<close>

definition admitPending ::
  "payer_config \<Rightarrow> realizer_info \<Rightarrow> StandardPayInput \<Rightarrow> computed_request \<Rightarrow> (payer_world, PendingPayment option) action" where
  "admitPending C realizer input computed =
     bindA (getsA (\<lambda>w. map_get (pw_pending w) (cr_pendingKey computed))) (\<lambda>existing.
     case existing of
       None \<Rightarrow> returnA None
     | Some p \<Rightarrow>
         (case pp_recovery p of
            Some recovery \<Rightarrow>
              if pp_status p \<noteq> external_outcome_unknown then
                bindA (assertA (canonicalJsonHash (xh_sha C) (contextJson (Some (rv_context recovery)))
                    = canonicalJsonHash (xh_sha C) (contextJson (ri_realizationContext realizer))
                  \<and> rv_requestHeadersHash recovery = headersHash C input
                  \<and> pp_url p = spi_url input \<and> pp_method p = cr_method computed
                  \<and> pp_requestBodyHash p = cr_requestBodyHash computed) (payError ''payment_outcome_unknown'')) (\<lambda>_.
                bindA (assertA (\<not> (pp_status p = realizing \<and> rv_prepared recovery = None))
                  (payError ''payment_outcome_unknown'')) (\<lambda>_.
                returnA (Some p)))
              else
                bindA (assertA (spi_forceNewPayment input = Some True) (payError ''payment_outcome_unknown'')) (\<lambda>_.
                bindA (catchA (untrack C (cr_pendingKey computed)) (\<lambda>_. throwA (payError ''state_persist_failed''))) (\<lambda>_.
                returnA None))
          | None \<Rightarrow>
              bindA (assertA (spi_forceNewPayment input = Some True \<and> pp_status p \<noteq> realizing)
                (payError ''payment_outcome_unknown'')) (\<lambda>_.
              bindA (catchA (untrack C (cr_pendingKey computed)) (\<lambda>_. throwA (payError ''state_persist_failed''))) (\<lambda>_.
              returnA None))))"

definition newPending ::
  "payer_config \<Rightarrow> int \<Rightarrow> realizer_info \<Rightarrow> StandardPayInput \<Rightarrow> computed_request \<Rightarrow> SelectedSolanaRequirement
    \<Rightarrow> PendingPayment" where
  "newPending C now realizer input computed selected =
     \<lparr>pp_key = cr_pendingKey computed, pp_url = spi_url input, pp_method = cr_method computed,
      pp_requestBodyHash = cr_requestBodyHash computed,
      pp_amountRawUsdc = toString (sel_amountRawUsdc selected), pp_payTo = sel_payTo selected,
      pp_feePayer = Some (sel_feePayer selected), pp_realizedRawUsdc = ''0'', pp_realizeTxSignature = None,
      pp_status = realizing,
      pp_recovery = map_option (\<lambda>context. \<lparr>rv_context = context, rv_requestHeadersHash = headersHash C input,
        rv_requirement = sel_requirement selected, rv_prepared = None\<rparr>) (ri_realizationContext realizer),
      pp_createdAtMs = now, pp_updatedAtMs = now\<rparr>"

text \<open>The callback \<open>onPrepared\<close>: the withdrawal is on disk before it can be submitted.\<close>

definition onPrepared :: "payer_config \<Rightarrow> int \<Rightarrow> PendingPayment \<Rightarrow> PreparedWithdrawal \<Rightarrow> (payer_world, PendingPayment) action" where
  "onPrepared C now p prepared = (case pp_recovery p of
       None \<Rightarrow> throwA (payError ''state_persist_failed'')
     | Some recovery \<Rightarrow>
         let checkpoint = p\<lparr>pp_updatedAtMs := now, pp_recovery := Some (recovery\<lparr>rv_prepared := Some prepared\<rparr>)\<rparr> in
         bindA (persistCheckpoint C checkpoint) (\<lambda>_. returnA checkpoint))"

text \<open>The \<open>catch\<close> clause around the realizer.\<close>

definition realizeFailed ::
  "payer_config \<Rightarrow> bool \<Rightarrow> PendingPayment \<Rightarrow> RealizeFailure \<Rightarrow> (payer_world, 'a) action" where
  "realizeFailed C resuming p failure =
     (let safeToRetry = (\<not> resuming \<and> (rl_realizationSafeToRetry failure \<or>
            (rl_code failure = Some ''approval_required'' \<and> Option.bind (pp_recovery p) rv_prepared = None))) in
      bindA (if safeToRetry
             then catchA (untrack C (pp_key p)) (\<lambda>_. throwA (payError ''state_persist_failed''))
             else returnA ()) (\<lambda>_.
      throwA (payError (if safeToRetry
        then if rl_code failure = Some ''approval_required'' then ''approval_required'' else ''realize_failed''
        else ''payment_outcome_unknown''))))"

text \<open>A fresh realization: the realizer prepares, calls back, and then submits or fails.\<close>

definition ensureUsdcAvailable ::
  "payer_config \<Rightarrow> int \<Rightarrow> pay_answers \<Rightarrow> RealizePaymentBinding \<Rightarrow> string option \<Rightarrow> PendingPayment
    \<Rightarrow> (payer_world, PendingPayment \<times> (RealizeFailure + RealizeResult)) action" where
  "ensureUsdcAvailable C now ans payment approvalId p =
     bindA (emit (Realize (pp_key p) payment approvalId)) (\<lambda>_.
     bindA (case an_prepared ans of
         None \<Rightarrow> returnA p
       | Some prepared \<Rightarrow> onPrepared C now p prepared) (\<lambda>p'.
     returnA (p', an_ensure ans)))"

definition realizeStep ::
  "payer_config \<Rightarrow> int \<Rightarrow> realizer_info \<Rightarrow> StandardPayInput \<Rightarrow> pay_answers \<Rightarrow> bool \<Rightarrow> RealizePaymentBinding
    \<Rightarrow> PendingPayment \<Rightarrow> (payer_world, PendingPayment \<times> RealizeResult) action" where
  "realizeStep C now realizer input ans resuming payment p =
     (if resuming \<and> pp_status p = realized then
        bindA (liftR (BigIntR (pp_realizedRawUsdc p))) (\<lambda>amount.
        returnA (p, \<lparr>rr_realizedRawUsdc = amount, rr_txSignature = pp_realizeTxSignature p,
          rr_withdrawalId = map_option pd_withdrawalId (Option.bind (pp_recovery p) rv_prepared)\<rparr>))
      else
        bindA (if resuming then
            (case (ri_canResume realizer, Option.bind (pp_recovery p) rv_prepared) of
               (True, Some prepared) \<Rightarrow>
                 bindA (emit (Resume (pp_key p) prepared payment)) (\<lambda>_. returnA (p, an_resume ans))
             | _ \<Rightarrow> returnA (p, Inl \<lparr>rl_code = None, rl_realizationSafeToRetry = False\<rparr>))
          else ensureUsdcAvailable C now ans payment (spi_approvalId input) p) (\<lambda>(p', outcome).
        case outcome of
          Inl failure \<Rightarrow> realizeFailed C resuming p' failure
        | Inr result \<Rightarrow> returnA (p', result)))"

record StandardPayment =
  sy_amountRawUsdc :: string
  sy_payTo :: string
  sy_feePayer :: string
  sy_realizedRawUsdc :: string
  sy_realizeTxSignature :: "string option"
  sy_paymentTxSignature :: "string option"

datatype StandardPayResult =
    NotPaid int string
  | Paid "string option" int string StandardPayment

text \<open>The seller's answer to the payment.\<close>

definition settleAnswer ::
  "payer_config \<Rightarrow> int \<Rightarrow> realizer_info \<Rightarrow> pay_answers \<Rightarrow> SelectedSolanaRequirement \<Rightarrow> string \<Rightarrow> RealizeResult
    \<Rightarrow> (payer_world, StandardPayResult) action" where
  "settleAnswer C now realizer ans selected key result = (case an_payment ans of
       Inl _ \<Rightarrow> bindA (tryMarkUnknown C now key) (\<lambda>_. throwA (payError ''payment_outcome_unknown''))
     | Inr response \<Rightarrow>
         let (receipt, paymentTxSignature) = readSettlementReceipt C response in
         if fr_status response < 200 \<or> fr_status response \<ge> 300 \<or> receipt \<in> {receipt_failed, receipt_invalid} then
           bindA (tryMarkUnknown C now key) (\<lambda>_. throwA (payError ''payment_outcome_unknown''))
         else
           bindA (clearDelivered C key) (\<lambda>_.
           bindA (case (paymentTxSignature, rr_withdrawalId result) of
               (Some tx, Some withdrawalId) \<Rightarrow>
                 if ri_canReport realizer then emit (Reported withdrawalId tx) else returnA ()
             | _ \<Rightarrow> returnA ()) (\<lambda>_.
           returnA (Paid (ri_vault realizer) (fr_status response) (fr_text response)
             \<lparr>sy_amountRawUsdc = toString (sel_amountRawUsdc selected), sy_payTo = sel_payTo selected,
              sy_feePayer = sel_feePayer selected, sy_realizedRawUsdc = toString (rr_realizedRawUsdc result),
              sy_realizeTxSignature = rr_txSignature result, sy_paymentTxSignature = paymentTxSignature\<rparr>))))"

text \<open>The payment itself, from the barrier on.\<close>

definition sendPayment ::
  "payer_config \<Rightarrow> int \<Rightarrow> realizer_info \<Rightarrow> pay_answers \<Rightarrow> SelectedSolanaRequirement \<Rightarrow> PendingPayment
    \<Rightarrow> RealizeResult \<Rightarrow> (payer_world, StandardPayResult) action" where
  "sendPayment C now realizer ans selected p result =
     bindA (persistCheckpoint C (p\<lparr>pp_status := external_outcome_unknown, pp_updatedAtMs := now\<rparr>)) (\<lambda>_.
     bindA (emit (PaymentSent (pp_key p) selected)) (\<lambda>_.
     settleAnswer C now realizer ans selected (pp_key p) result))"

definition fundAndSend ::
  "payer_config \<Rightarrow> int \<Rightarrow> realizer_info \<Rightarrow> StandardPayInput \<Rightarrow> pay_answers \<Rightarrow> computed_request
    \<Rightarrow> PendingPayment option \<Rightarrow> SelectedSolanaRequirement \<Rightarrow> (payer_world, StandardPayResult) action" where
  "fundAndSend C now realizer input ans computed resume selected =
     (let payment = \<lparr>rpb_payTo = sel_payTo selected, rpb_amountRawUsdc = toString (sel_amountRawUsdc selected),
            rpb_resourceUrlHash = xh_sha C (spi_url input), rpb_method = cr_method computed\<rparr>;
          p0 = (case resume of Some p \<Rightarrow> p | None \<Rightarrow> newPending C now realizer input computed selected) in
      bindA (if resume = None then persistCheckpoint C p0 else returnA ()) (\<lambda>_.
      bindA (realizeStep C now realizer input ans (resume \<noteq> None) payment p0) (\<lambda>(p1, result).
      let p2 = p1\<lparr>pp_status := realized, pp_realizedRawUsdc := toString (rr_realizedRawUsdc result),
            pp_realizeTxSignature := rr_txSignature result, pp_updatedAtMs := now\<rparr> in
      bindA (persistCheckpoint C p2) (\<lambda>_.
      bindA (assertA (\<not> rr_realizedRawUsdc result < sel_amountRawUsdc selected) (payError ''realize_underfunded'')) (\<lambda>_.
      sendPayment C now realizer ans selected p2 result)))))"

definition runPay ::
  "payer_config \<Rightarrow> int \<Rightarrow> realizer_info \<Rightarrow> StandardPayInput \<Rightarrow> pay_answers \<Rightarrow> computed_request
    \<Rightarrow> (payer_world, StandardPayResult) action" where
  "runPay C now realizer input ans computed =
     bindA (admitPending C realizer input computed) (\<lambda>resume.
     bindA (liftR (an_probe ans)) (\<lambda>probe.
     if fr_status probe \<noteq> 402 then
       (if resume \<noteq> None then throwA (payError ''payment_outcome_unknown'')
        else returnA (NotPaid (fr_status probe) (fr_text probe)))
     else
       bindA (liftR (selectRequirement C probe)) (\<lambda>selected.
       bindA (assertA (case resume of None \<Rightarrow> True | Some p \<Rightarrow>
           (case pp_recovery p of None \<Rightarrow> False
            | Some recovery \<Rightarrow> standardRequirementMatchesSelected (rv_requirement recovery) selected)
           \<and> pp_amountRawUsdc p = toString (sel_amountRawUsdc selected)
           \<and> pp_payTo p = sel_payTo selected \<and> pp_feePayer p = Some (sel_feePayer selected))
         (payError ''payment_outcome_unknown'')) (\<lambda>_.
       bindA (assertA (\<not> sel_amountRawUsdc selected
           > (case spi_maxAmountRawUsdc input of None \<Rightarrow> xc_defaultMaxAmountRawUsdc C | Some cap \<Rightarrow> cap))
         (payError ''amount_exceeds_client_cap'')) (\<lambda>_.
       fundAndSend C now realizer input ans computed resume selected)))))"

definition computeRequest :: "payer_config \<Rightarrow> StandardPayInput \<Rightarrow> computed_request" where
  "computeRequest C input =
     (let method = toUpperCase (case spi_method input of None \<Rightarrow> ''GET'' | Some m \<Rightarrow> m);
          bodyHash = requestBodyHashFor C (spi_body input) in
      \<lparr>cr_method = method, cr_requestBodyHash = bodyHash,
       cr_pendingKey = pendingPaymentKey (spi_url input) method bodyHash\<rparr>)"

text \<open>\<open>new Map\<close> of the records on disk: the constructor, and a run that holds the lock.\<close>

definition loadPending :: "PendingPayment list \<Rightarrow> (string, PendingPayment) js_map" where
  "loadPending records = foldl (\<lambda>m r. map_set (pp_key r) r m) [] records"

definition newPayer :: "payer_config \<Rightarrow> PendingPayment list \<Rightarrow> (nat \<Rightarrow> save_outcome) \<Rightarrow> payer_world" where
  "newPayer C disk faults =
     \<lparr>pw_pending = (if xc_hasStore C then loadPending disk else []), pw_disk = disk, pw_faults = faults,
      pw_saves = 0, pw_log = []\<rparr>"

definition pay ::
  "payer_config \<Rightarrow> int \<Rightarrow> realizer_info \<Rightarrow> StandardPayInput \<Rightarrow> pay_answers \<Rightarrow> (payer_world, StandardPayResult) action" where
  "pay C now realizer input ans =
     bindA (modifyA (\<lambda>w. if xc_hasStore C \<and> xc_hasLock C
        then w\<lparr>pw_pending := loadPending (pw_disk w)\<rparr> else w)) (\<lambda>_.
     runPay C now realizer input ans (computeRequest C input))"

end
