(* ===== verification/X402_Payer_Safety.thy ===== *)
theory X402_Payer_Safety
  imports X402_Payer
begin

text \<open>
  Crash safety of the buyer. The log of a run lists its effects and its writes to disk in their
  order, so a crash leaves a prefix of the log and the disk of the last write in it. The lemmas
  say what is on disk at each effect; they lift to sequences of runs that may each crash at any
  point.
\<close>

section \<open>Logs\<close>

fun disk_after :: "PendingPayment list \<Rightarrow> payer_event list \<Rightarrow> PendingPayment list" where
  "disk_after d [] = d"
| "disk_after d (Saved rs # es) = disk_after rs es"
| "disk_after d (_ # es) = disk_after d es"

lemma disk_after_snoc:
  "disk_after d (es @ [e]) = (case e of Saved rs \<Rightarrow> rs | _ \<Rightarrow> disk_after d es)"
  by (induction d es rule: disk_after.induct) (auto split: payer_event.splits)

definition sound :: "(payer_event list \<Rightarrow> payer_event \<Rightarrow> bool) \<Rightarrow> payer_event list \<Rightarrow> bool" where
  "sound P log \<longleftrightarrow> (\<forall>i < length log. P (take i log) (log ! i))"

lemma sound_Nil [simp]: "sound P []"
  by (simp add: sound_def)

lemma sound_snoc [simp]: "sound P (log @ [e]) \<longleftrightarrow> sound P log \<and> P log e"
  by (auto simp: sound_def nth_append less_Suc_eq)

lemma soundD: "sound P (pre @ e # post) \<Longrightarrow> P pre e"
  unfolding sound_def by (drule spec [of _ "length pre"]) simp

definition sent :: "string \<Rightarrow> payer_event list \<Rightarrow> bool" where
  "sent k log \<longleftrightarrow> (\<exists>sel. PaymentSent k sel \<in> set log)"

lemma sent_simps [simp]:
  "\<not> sent k []"
  "sent k (log @ log') \<longleftrightarrow> sent k log \<or> sent k log'"
  "sent k (e # log) \<longleftrightarrow> (\<exists>sel. e = PaymentSent k sel) \<or> sent k log"
  by (auto simp: sent_def)

definition refused_on :: "PendingPayment list \<Rightarrow> string \<Rightarrow> bool" where
  "refused_on d k \<longleftrightarrow> (\<exists>r \<in> set d. pp_key r = k \<and> pp_status r = external_outcome_unknown)"

text \<open>The seller confirmed: a successful answer without a failed or unreadable receipt.\<close>

definition delivered :: "payer_config \<Rightarrow> pay_answers \<Rightarrow> bool" where
  "delivered C ans \<longleftrightarrow> (\<exists>response. an_payment ans = Inr response
     \<and> 200 \<le> fr_status response \<and> fr_status response < 300
     \<and> fst (readSettlementReceipt C response) \<notin> {receipt_failed, receipt_invalid})"

definition describes :: "PendingPayment \<Rightarrow> string \<Rightarrow> SelectedSolanaRequirement \<Rightarrow> bool" where
  "describes r k selected \<longleftrightarrow> pp_key r = k \<and> pp_amountRawUsdc r = toString (sel_amountRawUsdc selected)
     \<and> pp_payTo r = sel_payTo selected \<and> pp_feePayer r = Some (sel_feePayer selected)"

definition client_cap :: "payer_config \<Rightarrow> StandardPayInput \<Rightarrow> int" where
  "client_cap C input = (case spi_maxAmountRawUsdc input of None \<Rightarrow> xc_defaultMaxAmountRawUsdc C | Some c \<Rightarrow> c)"

text \<open>The records that a forced payment may discard.\<close>

definition discardable :: "StandardPayInput \<Rightarrow> PendingPayment \<Rightarrow> bool" where
  "discardable input p \<longleftrightarrow> spi_forceNewPayment input = Some True \<and>
     (pp_status p = external_outcome_unknown \<or> (pp_recovery p = None \<and> pp_status p = realized))"

text \<open>The facts that bind a realization to the payment it is for.\<close>

definition funds :: "payer_config \<Rightarrow> StandardPayInput \<Rightarrow> RealizePaymentBinding \<Rightarrow> SelectedSolanaRequirement \<Rightarrow> bool" where
  "funds C input payment selected \<longleftrightarrow> rpb_payTo payment = sel_payTo selected
     \<and> rpb_amountRawUsdc payment = toString (sel_amountRawUsdc selected)
     \<and> rpb_resourceUrlHash payment = xh_sha C (spi_url input)"

text \<open>
  Yield may be realized: for a payment within the client's cap, which the record on disk describes
  as being realized, before the payment is sent.
\<close>

definition realizable ::
  "payer_config \<Rightarrow> string \<Rightarrow> StandardPayInput \<Rightarrow> PendingPayment list \<Rightarrow> payer_event list \<Rightarrow> RealizePaymentBinding
    \<Rightarrow> PreparedWithdrawal option \<Rightarrow> bool" where
  "realizable C k input d0 pre payment prepared \<longleftrightarrow> \<not> sent k pre \<and> (\<exists>selected. funds C input payment selected
     \<and> sel_amountRawUsdc selected \<le> client_cap C input
     \<and> (\<exists>r \<in> set (disk_after d0 pre). describes r k selected \<and> pp_status r = realizing
          \<and> (prepared \<noteq> None \<longrightarrow> Option.bind (pp_recovery r) rv_prepared = prepared)))"

text \<open>What must hold of an effect when it happens, after the events \<open>pre\<close>.\<close>

definition event_ok ::
  "payer_config \<Rightarrow> pay_answers \<Rightarrow> string \<Rightarrow> StandardPayInput \<Rightarrow> PendingPayment list \<Rightarrow> payer_event list \<Rightarrow> payer_event \<Rightarrow> bool" where
  "event_ok C ans k input d0 pre e = (case e of
       Saved rs \<Rightarrow> (sent k pre \<longrightarrow> refused_on rs k \<or> delivered C ans)
         \<and> (\<forall>r. pp_key r \<noteq> k \<longrightarrow> r \<in> set d0 \<longleftrightarrow> r \<in> set rs) \<and> distinct (map pp_key rs)
     | Realize k' payment approvalId \<Rightarrow> k' = k \<and> approvalId = spi_approvalId input
         \<and> realizable C k input d0 pre payment None
         \<and> (\<forall>r \<in> set d0. pp_key r = k \<longrightarrow> discardable input r)
     | Resume k' prepared payment \<Rightarrow> k' = k \<and> realizable C k input d0 pre payment (Some prepared)
     | PaymentSent k' selected \<Rightarrow> k' = k \<and> sel_amountRawUsdc selected \<le> client_cap C input \<and> \<not> sent k pre
         \<and> (\<exists>r \<in> set (disk_after d0 pre). describes r k selected \<and> pp_status r = external_outcome_unknown)
     | Reported withdrawalId tx \<Rightarrow> sent k pre \<and> delivered C ans)"

section \<open>The invariant of a run\<close>

definition records_keyed :: "(string, PendingPayment) js_map \<Rightarrow> bool" where
  "records_keyed m \<longleftrightarrow> map_ok m \<and> (\<forall>k r. map_get m k = Some r \<longrightarrow> pp_key r = k)"

lemma record_values: "records_keyed m \<Longrightarrow> r \<in> set (map_values m) \<longleftrightarrow> map_get m (pp_key r) = Some r"
  by (auto simp: records_keyed_def in_map_values)

lemma keyed_simps [simp]:
  "records_keyed []"
  "records_keyed m \<Longrightarrow> records_keyed (map_delete k m)"
  "records_keyed m \<Longrightarrow> records_keyed (map_set (pp_key r) r m)"
  "records_keyed m \<Longrightarrow> pp_key r = k \<Longrightarrow> records_keyed (map_set k r m)"
  by (auto simp: records_keyed_def)

lemma values_distinct:
  assumes "records_keyed m"
  shows "distinct (map pp_key (map_values m))"
proof -
  have "pp_key (snd x) = fst x" if "x \<in> set m" for x
  proof -
    have "map_get m (fst x) = Some (snd x)"
      using that assms by (simp add: map_get_def records_keyed_def map_ok_def)
    then show ?thesis using assms by (simp add: records_keyed_def)
  qed
  then have "map pp_key (map_values m) = map fst m" by (simp add: map_values_def)
  then show ?thesis using assms by (simp add: records_keyed_def map_ok_def)
qed

definition run_ok ::
  "payer_config \<Rightarrow> pay_answers \<Rightarrow> string \<Rightarrow> StandardPayInput \<Rightarrow> PendingPayment list \<Rightarrow> payer_world \<Rightarrow> bool" where
  "run_ok C ans k input d0 w \<longleftrightarrow>
     records_keyed (pw_pending w) \<and> pw_disk w = disk_after d0 (pw_log w)
     \<and> sound (event_ok C ans k input d0) (pw_log w)
     \<and> (\<forall>r. pp_key r \<noteq> k \<longrightarrow> r \<in> set d0 \<longleftrightarrow> map_get (pw_pending w) (pp_key r) = Some r)
     \<and> (\<forall>r. pp_key r \<noteq> k \<longrightarrow> r \<in> set d0 \<longleftrightarrow> r \<in> set (pw_disk w))
     \<and> (sent k (pw_log w) \<longrightarrow> refused_on (pw_disk w) k \<or> delivered C ans)"

text \<open>What the memory must hold for a write to be allowed.\<close>

definition writable :: "payer_config \<Rightarrow> pay_answers \<Rightarrow> string \<Rightarrow> payer_world \<Rightarrow> bool" where
  "writable C ans k w \<longleftrightarrow> (sent k (pw_log w) \<longrightarrow>
     (\<exists>r. map_get (pw_pending w) k = Some r \<and> pp_status r = external_outcome_unknown) \<or> delivered C ans)"

definition saved_world :: "payer_world \<Rightarrow> payer_world" where
  "saved_world w = w\<lparr>pw_saves := pw_saves w + 1, pw_disk := map_values (pw_pending w),
     pw_log := pw_log w @ [Saved (map_values (pw_pending w))]\<rparr>"

definition failed_world :: "payer_world \<Rightarrow> payer_world" where
  "failed_world w = w\<lparr>pw_saves := pw_saves w + 1\<rparr>"

lemma saved_world_simps [simp]:
  "pw_pending (saved_world w) = pw_pending w"
  "pw_disk (saved_world w) = map_values (pw_pending w)"
  "pw_log (saved_world w) = pw_log w @ [Saved (map_values (pw_pending w))]"
  "pw_pending (failed_world w) = pw_pending w"
  "pw_disk (failed_world w) = pw_disk w"
  "pw_log (failed_world w) = pw_log w"
  by (simp_all add: saved_world_def failed_world_def)

lemma persist_eq:
  "xc_hasStore C \<Longrightarrow> persist C w = (case pw_faults w (pw_saves w) of
       SaveDone \<Rightarrow> (Inr (), saved_world w)
     | SaveFailed \<Rightarrow> (Inl (JsError ''EIO''), failed_world w)
     | SaveDoneThenFailed \<Rightarrow> (Inl (JsError ''EIO''), saved_world w))"
  by (cases "pw_faults w (pw_saves w)")
    (simp_all add: persist_def action_defs emit_def saved_world_def failed_world_def)

lemma runs_persist:
  assumes "xc_hasStore C"
    and "Q () (saved_world w)" and "\<And>e. E e (saved_world w)" and "\<And>e. E e (failed_world w)"
  shows "runs (persist C) w Q E"
  unfolding runs_def persist_eq [OF assms(1)]
  by (cases "pw_faults w (pw_saves w)") (simp_all add: assms(2-4))

lemma run_ok_failed [simp]: "run_ok C ans k input d0 (failed_world w) \<longleftrightarrow> run_ok C ans k input d0 w"
  by (simp add: run_ok_def)

lemma saved_world_ok:
  assumes ok: "run_ok C ans k input d0 w" and wr: "writable C ans k w"
  shows "run_ok C ans k input d0 (saved_world w)"
proof -
  have records_keyed: "records_keyed (pw_pending w)" using ok unfolding run_ok_def by blast
  have refused: "refused_on (map_values (pw_pending w)) k \<or> delivered C ans" if "sent k (pw_log w)"
  proof -
    have "\<exists>r. map_get (pw_pending w) k = Some r \<and> pp_status r = external_outcome_unknown" if "\<not> delivered C ans"
      using wr that \<open>sent k (pw_log w)\<close> unfolding writable_def by blast
    then show ?thesis
      using records_keyed unfolding refused_on_def by (metis records_keyed_def record_values)
  qed
  have others: "\<forall>r. pp_key r \<noteq> k \<longrightarrow> r \<in> set d0 \<longleftrightarrow> r \<in> set (map_values (pw_pending w))"
    using ok unfolding run_ok_def record_values [OF records_keyed] by blast
  have "distinct (map pp_key (map_values (pw_pending w)))"
    using records_keyed by (rule values_distinct)
  then have "event_ok C ans k input d0 (pw_log w) (Saved (map_values (pw_pending w)))"
    using refused others by (simp add: event_ok_def)
  then show ?thesis
    using ok refused others unfolding run_ok_def
    by (simp add: disk_after_snoc)
qed

section \<open>The writing operations\<close>

text \<open>Changing the record of the run in memory keeps the invariant.\<close>

lemma run_ok_pending:
  assumes "run_ok C ans k input d0 w" and "records_keyed m"
    and "\<And>k'. k' \<noteq> k \<Longrightarrow> map_get m k' = map_get (pw_pending w) k'"
  shows "run_ok C ans k input d0 (w\<lparr>pw_pending := m\<rparr>)"
proof -
  have "\<forall>r. pp_key r \<noteq> k \<longrightarrow> r \<in> set d0 \<longleftrightarrow> map_get m (pp_key r) = Some r"
    using assms(1) assms(3) unfolding run_ok_def by metis
  then show ?thesis
    using assms(1,2) unfolding run_ok_def
    by (elim conjE, intro conjI) simp_all
qed

lemma run_ok_keyed: "run_ok C ans k input d0 w \<Longrightarrow> records_keyed (pw_pending w)"
  by (simp add: run_ok_def)

lemma restore_ok:
  assumes ok: "run_ok C ans k input d0 w" and previous: "\<And>r. previous = Some r \<Longrightarrow> pp_key r = k"
  shows "run_ok C ans k input d0 (restore k previous w)"
proof (cases previous)
  case None
  then show ?thesis
    using run_ok_keyed [OF ok] by (simp add: restore_def run_ok_pending [OF ok])
next
  case (Some r)
  then show ?thesis
    using run_ok_keyed [OF ok] previous [of r] by (simp add: restore_def run_ok_pending [OF ok])
qed

lemma restore_log [simp]: "pw_log (restore k previous w) = pw_log w" "pw_disk (restore k previous w) = pw_disk w"
  by (auto simp: restore_def split: option.splits)

text \<open>A write of changed memory: what every writing operation does.\<close>

lemma runs_write:
  assumes store: "xc_hasStore C" and ok: "run_ok C ans k input d0 w"
    and m: "records_keyed m" "\<And>k'. k' \<noteq> k \<Longrightarrow> map_get m k' = map_get (pw_pending w) k'"
    and wr: "writable C ans k (w\<lparr>pw_pending := m\<rparr>)"
    and Q: "\<And>w'. run_ok C ans k input d0 w' \<Longrightarrow> pw_pending w' = m \<Longrightarrow> pw_disk w' = map_values m
       \<Longrightarrow> sent k (pw_log w') = sent k (pw_log w) \<Longrightarrow> Q () w'"
    and E: "\<And>e w'. run_ok C ans k input d0 w' \<Longrightarrow> sent k (pw_log w') = sent k (pw_log w) \<Longrightarrow> E e w'"
  shows "runs (persist C) (w\<lparr>pw_pending := m\<rparr>) Q E"
proof -
  have ok': "run_ok C ans k input d0 (w\<lparr>pw_pending := m\<rparr>)"
    by (rule run_ok_pending [OF ok m])
  show ?thesis
    by (rule runs_persist [OF store]) (auto intro!: Q E saved_world_ok [OF ok' wr] simp: ok')
qed

lemma record_key: "records_keyed m \<Longrightarrow> map_get m k = Some r \<Longrightarrow> pp_key r = k"
  by (simp add: records_keyed_def)

lemma runs_persistCheckpoint:
  assumes store: "xc_hasStore C" and ok: "run_ok C ans k input d0 w" and key: "pp_key r = k"
    and wr: "sent k (pw_log w) \<Longrightarrow> pp_status r = external_outcome_unknown \<or> delivered C ans"
    and Q: "\<And>w'. run_ok C ans k input d0 w' \<Longrightarrow> map_get (pw_pending w') k = Some r \<Longrightarrow> r \<in> set (pw_disk w')
       \<Longrightarrow> sent k (pw_log w') = sent k (pw_log w) \<Longrightarrow> Q () w'"
    and E: "\<And>e w'. run_ok C ans k input d0 w' \<Longrightarrow> sent k (pw_log w') = sent k (pw_log w) \<Longrightarrow> E e w'"
  shows "runs (persistCheckpoint C r) w Q E"
proof -
  let ?m = "map_set k r (pw_pending w)"
  have m: "records_keyed ?m" using run_ok_keyed [OF ok] key by simp
  have disk: "r \<in> set (map_values ?m)" using record_values [OF m, of r] key by simp
  have previous: "pp_key x = k" if "map_get (pw_pending w) k = Some x" for x
    using record_key [OF run_ok_keyed [OF ok] that] .
  have "runs (persist C) (w\<lparr>pw_pending := ?m\<rparr>) Q
     (\<lambda>e t. E (payError ''state_persist_failed'') (restore k (map_get (pw_pending w) k) t))"
    by (rule runs_write [OF store ok m])
      (auto simp: writable_def disk intro!: Q E restore_ok previous dest: wr)
  then show ?thesis
    by (simp add: persistCheckpoint_def track_def key)
qed

lemma runs_untrack:
  assumes store: "xc_hasStore C" and ok: "run_ok C ans k input d0 w" and unsent: "\<not> sent k (pw_log w)"
    and Q: "\<And>w'. run_ok C ans k input d0 w' \<Longrightarrow> map_get (pw_pending w') k = None
       \<Longrightarrow> \<not> sent k (pw_log w') \<Longrightarrow> Q () w'"
    and E: "\<And>e w'. run_ok C ans k input d0 w' \<Longrightarrow> \<not> sent k (pw_log w') \<Longrightarrow> E e w'"
  shows "runs (untrack C k) w Q E"
proof -
  let ?m = "map_delete k (pw_pending w)"
  have m: "records_keyed ?m" using run_ok_keyed [OF ok] by simp
  have previous: "pp_key x = k" if "map_get (pw_pending w) k = Some x" for x
    using record_key [OF run_ok_keyed [OF ok] that] .
  have "runs (persist C) (w\<lparr>pw_pending := ?m\<rparr>) Q
     (\<lambda>e t. E e (if map_get (pw_pending w) k = None then t else restore k (map_get (pw_pending w) k) t))"
    by (rule runs_write [OF store ok m])
      (use unsent in \<open>auto simp: writable_def intro!: Q E restore_ok previous\<close>)
  then show ?thesis
    by (simp add: untrack_def)
qed

lemma runs_clearDelivered:
  assumes store: "xc_hasStore C" and ok: "run_ok C ans k input d0 w" and del: "delivered C ans"
    and Q: "\<And>w'. run_ok C ans k input d0 w' \<Longrightarrow> sent k (pw_log w') = sent k (pw_log w) \<Longrightarrow> Q () w'"
  shows "runs (clearDelivered C k) w Q E"
proof -
  let ?m = "map_delete k (pw_pending w)"
  have m: "records_keyed ?m" using run_ok_keyed [OF ok] by simp
  have previous: "pp_key x = k" if "map_get (pw_pending w) k = Some x" for x
    using record_key [OF run_ok_keyed [OF ok] that] .
  have "runs (persist C) (w\<lparr>pw_pending := ?m\<rparr>) Q
     (\<lambda>e t. Q () (if map_get (pw_pending w) k = None then t else restore k (map_get (pw_pending w) k) t))"
    by (rule runs_write [OF store ok m])
      (use del in \<open>auto simp: writable_def intro!: Q restore_ok previous\<close>)
  then show ?thesis
    by (simp add: clearDelivered_def)
qed

lemma runs_tryMarkUnknown:
  assumes store: "xc_hasStore C" and ok: "run_ok C ans k input d0 w"
    and Q: "\<And>w'. run_ok C ans k input d0 w' \<Longrightarrow> sent k (pw_log w') = sent k (pw_log w) \<Longrightarrow> Q () w'"
  shows "runs (tryMarkUnknown C now k) w Q E"
proof (cases "map_get (pw_pending w) k")
  case None
  then show ?thesis by (simp add: tryMarkUnknown_def markUnknown_def Q ok)
next
  case (Some r)
  let ?r = "r\<lparr>pp_status := external_outcome_unknown, pp_updatedAtMs := now\<rparr>"
  let ?m = "map_set k ?r (pw_pending w)"
  have key: "pp_key r = k" using record_key [OF run_ok_keyed [OF ok] Some] .
  then have m: "records_keyed ?m" using run_ok_keyed [OF ok] by simp
  have "runs (persist C) (w\<lparr>pw_pending := ?m\<rparr>) Q (\<lambda>e t. Q () (restore k (Some r) t))"
    by (rule runs_write [OF store ok m]) (auto simp: writable_def key intro!: Q restore_ok)
  then show ?thesis
    by (simp add: tryMarkUnknown_def markUnknown_def Some)
qed

section \<open>The steps of a run\<close>

lemma run_ok_emit:
  assumes ok: "run_ok C ans k input d0 w" and e: "event_ok C ans k input d0 (pw_log w) e"
    and unsaved: "\<And>rs. e \<noteq> Saved rs"
    and refused: "\<And>k' sel. e = PaymentSent k' sel \<Longrightarrow> refused_on (pw_disk w) k"
  shows "run_ok C ans k input d0 (w\<lparr>pw_log := pw_log w @ [e]\<rparr>)"
proof -
  have disk: "disk_after d0 (pw_log w @ [e]) = disk_after d0 (pw_log w)"
    using unsaved by (cases e) (auto simp: disk_after_snoc)
  have sent': "sent k (pw_log w @ [e]) \<longrightarrow> refused_on (pw_disk w) k \<or> delivered C ans"
    using ok refused unfolding run_ok_def by auto
  show ?thesis
    using ok e disk sent' unfolding run_ok_def
    by (elim conjE, intro conjI) simp_all
qed

lemma runs_emit [simp]: "runs (emit e) w Q E = Q () (w\<lparr>pw_log := pw_log w @ [e]\<rparr>)"
  by (simp add: emit_def)

lemma disk_log: "run_ok C ans k input d0 w \<Longrightarrow> pw_disk w = disk_after d0 (pw_log w)"
  by (simp add: run_ok_def)

text \<open>The state a run ends in: the invariant holds, and all of the log is accounted for.\<close>

abbreviation ends_ok where
  "ends_ok C ans k input d0 \<equiv> (\<lambda>_ t. run_ok C ans k input d0 t)"

lemma describes_unknown:
  "describes (p\<lparr>pp_status := s, pp_updatedAtMs := now\<rparr>) k selected = describes p k selected" for p s now
  by (simp add: describes_def)

lemma runs_settleAnswer:
  assumes store: "xc_hasStore C" and t: "run_ok C ans k input d0 t" "sent k (pw_log t)"
  shows "runs (settleAnswer C now realizer ans selected k result) t
    (ends_ok C ans k input d0) (ends_ok C ans k input d0)"
proof (cases "delivered C ans")
  case False
  then show ?thesis
    using t by (cases "an_payment ans")
      (auto simp: settleAnswer_def delivered_def split: prod.splits intro!: runs_tryMarkUnknown [OF store t(1)])
next
  case True
  then obtain response where r: "an_payment ans = Inr response" "200 \<le> fr_status response"
      "fr_status response < 300" "fst (readSettlementReceipt C response) \<notin> {receipt_failed, receipt_invalid}"
    by (auto simp: delivered_def)
  have report: "event_ok C ans k input d0 (pw_log u) (Reported i tx)" if "sent k (pw_log u)" for u i tx
    using that True by (simp add: event_ok_def)
  show ?thesis
    using r by (cases "readSettlementReceipt C response")
      (auto simp: settleAnswer_def t intro!: runs_clearDelivered [OF store t(1) True] run_ok_emit report
        split: option.splits)
qed

lemma runs_sendPayment:
  assumes store: "xc_hasStore C" and ok: "run_ok C ans k input d0 w" and unsent: "\<not> sent k (pw_log w)"
    and p: "describes p k selected" and cap: "sel_amountRawUsdc selected \<le> client_cap C input"
  shows "runs (sendPayment C now realizer ans selected p result) w
    (ends_ok C ans k input d0) (ends_ok C ans k input d0)"
proof -
  let ?p = "p\<lparr>pp_status := external_outcome_unknown, pp_updatedAtMs := now\<rparr>"
  have key: "pp_key p = k" using p by (simp add: describes_def)
  have after: "runs (settleAnswer C now realizer ans selected k result) (t\<lparr>pw_log := pw_log t @ [PaymentSent k selected]\<rparr>)
      (ends_ok C ans k input d0) (ends_ok C ans k input d0)"
    if t: "run_ok C ans k input d0 t" "?p \<in> set (pw_disk t)" "\<not> sent k (pw_log t)" for t
  proof (rule runs_settleAnswer [OF store])
    have "describes ?p k selected" using p describes_unknown by blast
    with t cap have "event_ok C ans k input d0 (pw_log t) (PaymentSent k selected)"
      by (auto simp: event_ok_def simp flip: disk_log [OF t(1)] intro!: bexI [of _ ?p])
    moreover have "refused_on (pw_disk t) k"
      using t(2) key by (auto simp: refused_on_def intro!: bexI [of _ ?p])
    ultimately show "run_ok C ans k input d0 (t\<lparr>pw_log := pw_log t @ [PaymentSent k selected]\<rparr>)"
      using t(1) by (intro run_ok_emit) auto
  qed simp
  show ?thesis
    unfolding sendPayment_def runs_bind runs_emit key
    by (rule runs_persistCheckpoint [OF store ok]) (use unsent in \<open>auto simp: key intro: after\<close>)
qed

text \<open>A record that may be resumed.\<close>

definition resumable :: "PendingPayment \<Rightarrow> bool" where
  "resumable p \<longleftrightarrow> pp_status p \<noteq> external_outcome_unknown \<and>
     (\<exists>recovery. pp_recovery p = Some recovery \<and> (pp_status p = realizing \<longrightarrow> rv_prepared recovery \<noteq> None))"

lemma runs_admitPending:
  assumes store: "xc_hasStore C" and ok: "run_ok C ans k input d0 w" and unsent: "\<not> sent k (pw_log w)"
    and key: "cr_pendingKey computed = k"
  shows "runs (admitPending C realizer input computed) w
    (\<lambda>resume t. run_ok C ans k input d0 t \<and> \<not> sent k (pw_log t) \<and>
       (\<forall>p. resume = Some p \<longrightarrow> map_get (pw_pending w) k = Some p \<and> resumable p \<and> t = w) \<and>
       (resume = None \<longrightarrow> (\<forall>p. map_get (pw_pending w) k = Some p \<longrightarrow> discardable input p)))
    (ends_ok C ans k input d0)"
proof (cases "map_get (pw_pending w) k")
  case None
  then show ?thesis using ok unsent by (simp add: admitPending_def key)
next
  case (Some p)
  have untracked: "runs (untrack C k) w
      (\<lambda>_ t. run_ok C ans k input d0 t \<and> \<not> sent k (pw_log t)) (\<lambda>_ t. run_ok C ans k input d0 t)"
    by (rule runs_untrack [OF store ok unsent]) auto
  show ?thesis
  proof (cases "pp_recovery p")
    case None
    then show ?thesis
      using ok untracked by (cases "pp_status p") (simp_all add: admitPending_def key Some discardable_def)
  next
    case (Some recovery)
    then show ?thesis
      using ok unsent untracked \<open>map_get (pw_pending w) k = Some p\<close>
      by (simp add: admitPending_def key resumable_def discardable_def)
  qed
qed

lemma runs_realizeFailed:
  assumes store: "xc_hasStore C" and ok: "run_ok C ans k input d0 w" and unsent: "\<not> sent k (pw_log w)"
    and key: "pp_key p = k"
  shows "runs (realizeFailed C resuming p failure) w Q (ends_ok C ans k input d0)"
proof -
  have "runs (untrack C k) w (ends_ok C ans k input d0) (ends_ok C ans k input d0)"
    by (rule runs_untrack [OF store ok unsent]) auto
  with ok show ?thesis by (simp add: realizeFailed_def key Let_def)
qed

lemma runs_onPrepared:
  assumes store: "xc_hasStore C" and ok: "run_ok C ans k input d0 w" and unsent: "\<not> sent k (pw_log w)"
    and p: "describes p k selected"
  shows "runs (onPrepared C now p prepared) w
    (\<lambda>p' t. run_ok C ans k input d0 t \<and> \<not> sent k (pw_log t) \<and> describes p' k selected)
    (ends_ok C ans k input d0)"
proof (cases "pp_recovery p")
  case None
  then show ?thesis using ok by (simp add: onPrepared_def)
next
  case (Some recovery)
  let ?p = "p\<lparr>pp_updatedAtMs := now, pp_recovery := Some (recovery\<lparr>rv_prepared := Some prepared\<rparr>)\<rparr>"
  have p': "describes ?p k selected" using p by (simp add: describes_def)
  then have key: "pp_key ?p = k" by (simp add: describes_def)
  show ?thesis
    unfolding onPrepared_def Some option.case Let_def runs_bind runs_return
    by (rule runs_persistCheckpoint [OF store ok key]) (use unsent p' in auto)
qed

lemma runs_realizeStep:
  assumes store: "xc_hasStore C" and ok: "run_ok C ans k input d0 w" and unsent: "\<not> sent k (pw_log w)"
    and p: "describes p k selected" and payment: "funds C input payment selected"
    and cap: "sel_amountRawUsdc selected \<le> client_cap C input"
    and fresh: "\<not> resuming \<Longrightarrow> p \<in> set (pw_disk w) \<and> pp_status p = realizing
       \<and> (\<forall>r \<in> set d0. pp_key r = k \<longrightarrow> discardable input r)"
    and resumed: "resuming \<Longrightarrow> p \<in> set (pw_disk w) \<and> resumable p"
  shows "runs (realizeStep C now realizer input ans resuming payment p) w
    (\<lambda>(p', result) t. run_ok C ans k input d0 t \<and> \<not> sent k (pw_log t) \<and> describes p' k selected)
    (ends_ok C ans k input d0)"
proof -
  have key: "pp_key p = k" using p by (simp add: describes_def)
  note failed = runs_realizeFailed [OF store]
  show ?thesis
  proof (cases resuming)
    case True
    show ?thesis
    proof (cases "pp_status p = realized")
      case True
      with \<open>resuming\<close> ok unsent p show ?thesis
        by (auto simp: realizeStep_def split: sum.splits)
    next
      case False
      then obtain prepared where st: "pp_status p = realizing"
          and pr: "Option.bind (pp_recovery p) rv_prepared = Some prepared" and disk: "p \<in> set (pw_disk w)"
        using resumed [OF True] by (cases "pp_status p") (auto simp: resumable_def)
      let ?w = "w\<lparr>pw_log := pw_log w @ [Resume k prepared payment]\<rparr>"
      have "event_ok C ans k input d0 (pw_log w) (Resume k prepared payment)"
        using disk st pr p unsent payment cap
        by (auto simp: event_ok_def realizable_def simp flip: disk_log [OF ok] intro!: exI [of _ selected] bexI [of _ p])
      then have ok': "run_ok C ans k input d0 ?w" by (intro run_ok_emit [OF ok]) auto
      have "runs (case an_resume ans of Inl failure \<Rightarrow> realizeFailed C True p failure
          | Inr result \<Rightarrow> returnA (p, result)) ?w
        (\<lambda>(p', result) t. run_ok C ans k input d0 t \<and> \<not> sent k (pw_log t) \<and> describes p' k selected)
        (ends_ok C ans k input d0)"
        using ok' unsent p by (cases "an_resume ans") (auto intro!: failed [OF ok' _ key])
      then show ?thesis
        using st pr True unsent
        by (cases "ri_canResume realizer") (auto simp: realizeStep_def key intro!: failed [OF ok _ key])
    qed
  next
    case False
    let ?w = "w\<lparr>pw_log := pw_log w @ [Realize k payment (spi_approvalId input)]\<rparr>"
    have "event_ok C ans k input d0 (pw_log w) (Realize k payment (spi_approvalId input))"
      using fresh [OF False] p unsent payment cap
      by (auto simp: event_ok_def realizable_def simp flip: disk_log [OF ok] intro!: exI [of _ selected] bexI [of _ p])
    then have ok': "run_ok C ans k input d0 ?w" by (intro run_ok_emit [OF ok]) auto
    have unsent': "\<not> sent k (pw_log ?w)" using unsent by simp
    have outcome: "runs (case an_ensure ans of Inl failure \<Rightarrow> realizeFailed C False p' failure
        | Inr result \<Rightarrow> returnA (p', result)) t
      (\<lambda>(p', result) t. run_ok C ans k input d0 t \<and> \<not> sent k (pw_log t) \<and> describes p' k selected)
      (ends_ok C ans k input d0)"
      if t: "run_ok C ans k input d0 t" "\<not> sent k (pw_log t)" "describes p' k selected" for p' t
      using t by (cases "an_ensure ans") (auto simp: describes_def intro!: failed [OF t(1,2)])
    have "runs (case an_prepared ans of None \<Rightarrow> returnA p | Some prepared \<Rightarrow> onPrepared C now p prepared) ?w
      (\<lambda>p' t. run_ok C ans k input d0 t \<and> \<not> sent k (pw_log t) \<and> describes p' k selected)
      (ends_ok C ans k input d0)"
      using ok' unsent' p by (cases "an_prepared ans") (auto intro!: runs_onPrepared [OF store ok' unsent' p])
    then have "runs (bindA (case an_prepared ans of None \<Rightarrow> returnA p | Some prepared \<Rightarrow> onPrepared C now p prepared)
        (\<lambda>p'. case an_ensure ans of Inl failure \<Rightarrow> realizeFailed C False p' failure
          | Inr result \<Rightarrow> returnA (p', result))) ?w
      (\<lambda>(p', result) t. run_ok C ans k input d0 t \<and> \<not> sent k (pw_log t) \<and> describes p' k selected)
      (ends_ok C ans k input d0)"
      unfolding runs_bind by (rule runs_mono) (use outcome in auto)
    then show ?thesis
      using False by (simp add: realizeStep_def ensureUsdcAvailable_def key)
  qed
qed

lemma newPending_facts:
  "describes (newPending C now realizer input computed selected) (cr_pendingKey computed) selected"
  "pp_key (newPending C now realizer input computed selected) = cr_pendingKey computed"
  "pp_status (newPending C now realizer input computed selected) = realizing"
  by (simp_all add: newPending_def describes_def)

lemma runs_fundAndSend:
  assumes store: "xc_hasStore C" and ok: "run_ok C ans k input d0 w" and unsent: "\<not> sent k (pw_log w)"
    and key: "cr_pendingKey computed = k" and cap: "sel_amountRawUsdc selected \<le> client_cap C input"
    and resume: "\<And>p. resume = Some p \<Longrightarrow> p \<in> set (pw_disk w) \<and> resumable p \<and> describes p k selected"
    and new: "resume = None \<Longrightarrow> \<forall>r \<in> set d0. pp_key r = k \<longrightarrow> discardable input r"
  shows "runs (fundAndSend C now realizer input ans computed resume selected) w
    (ends_ok C ans k input d0) (ends_ok C ans k input d0)"
proof -
  define payment where "payment = \<lparr>rpb_payTo = sel_payTo selected,
    rpb_amountRawUsdc = toString (sel_amountRawUsdc selected),
    rpb_resourceUrlHash = xh_sha C (spi_url input), rpb_method = cr_method computed\<rparr>"
  define p0 where "p0 = (case resume of Some p \<Rightarrow> p | None \<Rightarrow> newPending C now realizer input computed selected)"
  have funds: "funds C input payment selected" by (simp add: payment_def funds_def)
  have p0: "describes p0 k selected"
    using resume newPending_facts(1) [of C now realizer input computed selected]
    by (auto simp: p0_def key split: option.splits)
  then have key0: "pp_key p0 = k" by (simp add: describes_def)
  have send: "runs (let p2 = p1\<lparr>pp_status := realized, pp_realizedRawUsdc := toString (rr_realizedRawUsdc result),
            pp_realizeTxSignature := rr_txSignature result, pp_updatedAtMs := now\<rparr> in
      bindA (persistCheckpoint C p2) (\<lambda>_.
      bindA (assertA (\<not> rr_realizedRawUsdc result < sel_amountRawUsdc selected) (payError ''realize_underfunded'')) (\<lambda>_.
      sendPayment C now realizer ans selected p2 result))) t (ends_ok C ans k input d0) (ends_ok C ans k input d0)"
    if t: "run_ok C ans k input d0 t" "\<not> sent k (pw_log t)" "describes p1 k selected" for t p1 result
  proof -
    let ?p = "p1\<lparr>pp_status := realized, pp_realizedRawUsdc := toString (rr_realizedRawUsdc result),
            pp_realizeTxSignature := rr_txSignature result, pp_updatedAtMs := now\<rparr>"
    have p: "describes ?p k selected" "pp_key ?p = k" using t(3) by (simp_all add: describes_def)
    show ?thesis
      unfolding Let_def runs_bind
      by (rule runs_persistCheckpoint [OF store t(1) p(2)])
        (use t(2) p(1) cap in \<open>auto intro: runs_sendPayment [OF store]\<close>)
  qed
  have realize: "runs (bindA (realizeStep C now realizer input ans (resume \<noteq> None) payment p0) (\<lambda>(p1, result).
      let p2 = p1\<lparr>pp_status := realized, pp_realizedRawUsdc := toString (rr_realizedRawUsdc result),
            pp_realizeTxSignature := rr_txSignature result, pp_updatedAtMs := now\<rparr> in
      bindA (persistCheckpoint C p2) (\<lambda>_.
      bindA (assertA (\<not> rr_realizedRawUsdc result < sel_amountRawUsdc selected) (payError ''realize_underfunded'')) (\<lambda>_.
      sendPayment C now realizer ans selected p2 result)))) t (ends_ok C ans k input d0) (ends_ok C ans k input d0)"
    if t: "run_ok C ans k input d0 t" "\<not> sent k (pw_log t)" "p0 \<in> set (pw_disk t)" for t
    unfolding runs_bind
    by (rule runs_mono [OF runs_realizeStep [OF store t(1,2) p0 funds cap]])
      (use t(3) resume new newPending_facts(3) [of C now realizer input computed selected] send in
        \<open>auto simp: p0_def split: option.splits\<close>)
  show ?thesis
  proof (cases resume)
    case None
    have "runs (persistCheckpoint C p0) w
        (\<lambda>_ t. run_ok C ans k input d0 t \<and> \<not> sent k (pw_log t) \<and> p0 \<in> set (pw_disk t)) (ends_ok C ans k input d0)"
      by (rule runs_persistCheckpoint [OF store ok key0]) (use unsent in auto)
    then show ?thesis
      unfolding fundAndSend_def Let_def payment_def [symmetric] p0_def [symmetric] runs_bind [of "if _ then _ else _"]
      by (simp only: None simp_thms if_True) (erule runs_mono, use realize None in \<open>auto simp: Let_def\<close>)
  next
    case (Some p)
    have "runs (returnA ()) w (\<lambda>_ t. run_ok C ans k input d0 t \<and> \<not> sent k (pw_log t) \<and> p0 \<in> set (pw_disk t))
        (ends_ok C ans k input d0)"
      using ok unsent resume Some by (simp add: p0_def)
    then show ?thesis
      unfolding fundAndSend_def Let_def payment_def [symmetric] p0_def [symmetric] runs_bind [of "if _ then _ else _"]
      by (simp only: Some option.distinct simp_thms if_False) (erule runs_mono, use realize Some in \<open>auto simp: Let_def\<close>)
  qed
qed

lemma runs_runPay:
  assumes store: "xc_hasStore C" and ok: "run_ok C ans k input d0 w" and unsent: "\<not> sent k (pw_log w)"
    and key: "cr_pendingKey computed = k"
    and memory: "\<And>p. map_get (pw_pending w) k = Some p \<longleftrightarrow> p \<in> set d0 \<and> pp_key p = k"
    and start: "pw_disk w = d0"
  shows "runs (runPay C now realizer input ans computed) w (ends_ok C ans k input d0) (ends_ok C ans k input d0)"
proof -
  have rest: "runs (bindA (liftR (an_probe ans)) (\<lambda>probe.
     if fr_status probe \<noteq> 402 then
       (if resume \<noteq> None then throwA (payError ''payment_outcome_unknown'')
        else returnA (NotPaid (fr_status probe) (fr_text probe)))
     else
       bindA (liftR (selectRequirement C probe)) (\<lambda>selected.
       bindA (assertA (case resume of None \<Rightarrow> True | Some p \<Rightarrow>
           (case pp_recovery p of None \<Rightarrow> False
            | Some recovery \<Rightarrow> standardRequirementMatchesSelected (rv_requirement recovery) selected)
           \<and> pp_amountRawUsdc p = toString (sel_amountRawUsdc selected)
           \<and> pp_payTo p = sel_payTo selected \<and> pp_feePayer p = Some (sel_feePayer selected))
         (payError ''payment_outcome_unknown'')) (\<lambda>_.
       bindA (assertA (\<not> sel_amountRawUsdc selected
           > (case spi_maxAmountRawUsdc input of None \<Rightarrow> xc_defaultMaxAmountRawUsdc C | Some cap \<Rightarrow> cap))
         (payError ''amount_exceeds_client_cap'')) (\<lambda>_.
       fundAndSend C now realizer input ans computed resume selected))))) t
      (ends_ok C ans k input d0) (ends_ok C ans k input d0)"
    if t: "run_ok C ans k input d0 t" "\<not> sent k (pw_log t)"
      "\<forall>p. resume = Some p \<longrightarrow> map_get (pw_pending w) k = Some p \<and> resumable p \<and> t = w"
      "resume = None \<longrightarrow> (\<forall>p. map_get (pw_pending w) k = Some p \<longrightarrow> discardable input p)" for resume t
  proof -
    have send: "runs (fundAndSend C now realizer input ans computed resume selected) t
        (ends_ok C ans k input d0) (ends_ok C ans k input d0)"
      if "\<not> client_cap C input < sel_amountRawUsdc selected"
        "case resume of None \<Rightarrow> True | Some p \<Rightarrow>
           (case pp_recovery p of None \<Rightarrow> False
            | Some recovery \<Rightarrow> standardRequirementMatchesSelected (rv_requirement recovery) selected)
           \<and> pp_amountRawUsdc p = toString (sel_amountRawUsdc selected)
           \<and> pp_payTo p = sel_payTo selected \<and> pp_feePayer p = Some (sel_feePayer selected)" for selected
    proof (rule runs_fundAndSend [OF store t(1,2) key])
      fix p assume p: "resume = Some p"
      then have "map_get (pw_pending w) k = Some p" "resumable p" "t = w" using t(3) by auto
      then show "p \<in> set (pw_disk t) \<and> resumable p \<and> describes p k selected"
        using memory start that p by (simp add: describes_def)
    next
      assume "resume = None"
      then show "\<forall>r \<in> set d0. pp_key r = k \<longrightarrow> discardable input r" using t(4) memory by blast
    qed (use that in simp)
    show ?thesis
      using t(1) send by (auto simp: client_cap_def split: sum.splits)
  qed
  show ?thesis
    unfolding runPay_def runs_bind [of "admitPending _ _ _ _"]
    by (rule runs_mono [OF runs_admitPending [OF store ok unsent key]]) (use rest in blast)+
qed

section \<open>Starting from the disk\<close>

lemma loadPending_snoc: "loadPending (rs @ [r]) = map_set (pp_key r) r (loadPending rs)"
  by (simp add: loadPending_def)

lemma loadPending_get:
  assumes "distinct (map pp_key rs)"
  shows "records_keyed (loadPending rs) \<and> (\<forall>k r. map_get (loadPending rs) k = Some r \<longleftrightarrow> r \<in> set rs \<and> pp_key r = k)"
  using assms
proof (induction rs rule: rev_induct)
  case Nil
  then show ?case by (simp add: loadPending_def)
next
  case (snoc r rs)
  then show ?case by (auto simp: loadPending_snoc) (metis image_eqI)
qed

lemma start_ok:
  assumes "xc_hasStore C" and "distinct (map pp_key d0)"
  shows "run_ok C ans k input d0 (newPayer C d0 faults)"
  using assms loadPending_get [OF assms(2)] by (auto simp: run_ok_def newPayer_def)

abbreviation request_key :: "payer_config \<Rightarrow> StandardPayInput \<Rightarrow> string" where
  "request_key C input \<equiv> cr_pendingKey (computeRequest C input)"

text \<open>A run of a fresh process on what is on disk.\<close>

lemma pay_ends_ok:
  assumes store: "xc_hasStore C" and d0: "distinct (map pp_key d0)"
  shows "run_ok C ans (request_key C input) input d0
     (snd (pay C now realizer input ans (newPayer C d0 faults)))"
proof -
  let ?w = "newPayer C d0 faults"
  have start: "run_ok C ans (request_key C input) input d0 ?w"
    by (rule start_ok [OF store d0])
  have "runs (runPay C now realizer input ans (computeRequest C input)) ?w
      (ends_ok C ans (request_key C input) input d0)
      (ends_ok C ans (request_key C input) input d0)"
    by (rule runs_runPay [OF store start])
      (use loadPending_get [OF d0] store in \<open>auto simp: newPayer_def\<close>)
  moreover have "(if xc_hasStore C \<and> xc_hasLock C then ?w\<lparr>pw_pending := loadPending (pw_disk ?w)\<rparr> else ?w) = ?w"
    using store by (simp add: newPayer_def)
  ultimately show ?thesis
    by (simp add: pay_def flip: runs_state)
qed

end
