(* ===== verification/X402_Payer_Outcomes.thy ===== *)
theory X402_Payer_Outcomes
  imports X402_Payer_Safety
begin

text \<open>
  What the buyer promises across crashes: effects only after their record is on disk, and no
  second payment for a request while the first may have gone through.
\<close>

section \<open>Attempts that may crash\<close>

record attempt =
  at_now :: int
  at_realizer :: realizer_info
  at_input :: StandardPayInput
  at_answers :: pay_answers
  at_faults :: "nat \<Rightarrow> save_outcome"
  at_cut :: nat

text \<open>
  A process reads the disk, runs \<open>pay\<close>, and is cut off after \<open>at_cut\<close> effects, or
  runs to its end when there are fewer. The next process starts from the disk it left.
\<close>

definition attempt_log :: "payer_config \<Rightarrow> PendingPayment list \<Rightarrow> attempt \<Rightarrow> payer_event list" where
  "attempt_log C disk a = take (at_cut a)
     (pw_log (snd (pay C (at_now a) (at_realizer a) (at_input a) (at_answers a) (newPayer C disk (at_faults a)))))"

fun history :: "payer_config \<Rightarrow> PendingPayment list \<Rightarrow> attempt list \<Rightarrow> (attempt \<times> payer_event list) list" where
  "history C disk [] = []"
| "history C disk (a # as) =
     (let log = attempt_log C disk a in (a, log) # history C (disk_after disk log) as)"

definition attempt_key :: "payer_config \<Rightarrow> attempt \<Rightarrow> string" where
  "attempt_key C a = request_key C (at_input a)"

definition unforced :: "attempt \<Rightarrow> bool" where
  "unforced a \<longleftrightarrow> spi_forceNewPayment (at_input a) \<noteq> Some True"

section \<open>What a log leaves on disk\<close>

lemma sound_take:
  assumes "sound P log"
  shows "sound P (take n log)"
  using assms by (simp add: sound_def)

lemma attempt_sound:
  assumes "xc_hasStore C" and "distinct (map pp_key disk)"
  shows "sound (event_ok C (at_answers a) (attempt_key C a) (at_input a) disk) (attempt_log C disk a)"
  using pay_ends_ok [OF assms, of "at_answers a" "at_input a" "at_now a" "at_realizer a" "at_faults a"]
  by (simp add: attempt_log_def attempt_key_def run_ok_def sound_take)

lemma sound_leaves:
  assumes "sound (event_ok C ans k input d0) log" and "distinct (map pp_key d0)"
  shows "distinct (map pp_key (disk_after d0 log))
     \<and> (\<forall>r. pp_key r \<noteq> k \<longrightarrow> r \<in> set d0 \<longleftrightarrow> r \<in> set (disk_after d0 log))
     \<and> (sent k log \<longrightarrow> refused_on (disk_after d0 log) k \<or> delivered C ans)
     \<and> (\<forall>k'. sent k' log \<longrightarrow> k' = k)"
  using assms(1)
proof (induction log rule: rev_induct)
  case Nil
  then show ?case using assms(2) by simp
next
  case (snoc e log)
  then have "sound (event_ok C ans k input d0) log" and e: "event_ok C ans k input d0 log e"
    by simp_all
  from snoc.IH [OF this(1)]
  have IH: "distinct (map pp_key (disk_after d0 log))"
      "\<forall>r. pp_key r \<noteq> k \<longrightarrow> r \<in> set d0 \<longleftrightarrow> r \<in> set (disk_after d0 log)"
      "sent k log \<longrightarrow> refused_on (disk_after d0 log) k \<or> delivered C ans"
      "\<forall>k'. sent k' log \<longrightarrow> k' = k"
    by blast+
  show ?case
  proof (cases e)
    case (Saved rs)
    have log: "sent x (log @ [e]) \<longleftrightarrow> sent x log" "disk_after d0 (log @ [e]) = rs" for x
      by (simp_all add: Saved disk_after_snoc)
    have "sent k log \<longrightarrow> refused_on rs k \<or> delivered C ans"
        "\<forall>r. pp_key r \<noteq> k \<longrightarrow> r \<in> set d0 \<longleftrightarrow> r \<in> set rs" "distinct (map pp_key rs)"
      using e by (simp_all add: event_ok_def Saved)
    then show ?thesis unfolding log using IH(4) by blast
  next
    case (PaymentSent k' selected)
    have k: "k' = k" "refused_on (disk_after d0 log) k"
      using e by (auto simp: event_ok_def PaymentSent refused_on_def describes_def)
    then have log: "sent x (log @ [e]) \<longleftrightarrow> x = k \<or> sent x log" "disk_after d0 (log @ [e]) = disk_after d0 log" for x
      by (auto simp: PaymentSent disk_after_snoc)
    show ?thesis unfolding log using IH k(2) by blast
  next
    case (Realize k' payment approvalId)
    have log: "sent x (log @ [e]) \<longleftrightarrow> sent x log" "disk_after d0 (log @ [e]) = disk_after d0 log" for x
      by (simp_all add: Realize disk_after_snoc)
    show ?thesis unfolding log using IH by blast
  next
    case (Resume k' prepared payment)
    have log: "sent x (log @ [e]) \<longleftrightarrow> sent x log" "disk_after d0 (log @ [e]) = disk_after d0 log" for x
      by (simp_all add: Resume disk_after_snoc)
    show ?thesis unfolding log using IH by blast
  next
    case (Reported withdrawalId tx)
    have log: "sent x (log @ [e]) \<longleftrightarrow> sent x log" "disk_after d0 (log @ [e]) = disk_after d0 log" for x
      by (simp_all add: Reported disk_after_snoc)
    show ?thesis unfolding log using IH by blast
  qed
qed

lemma attempt_leaves:
  assumes "xc_hasStore C" and "distinct (map pp_key disk)"
  shows "distinct (map pp_key (disk_after disk (attempt_log C disk a)))"
    and "pp_key r \<noteq> attempt_key C a \<Longrightarrow> r \<in> set disk \<longleftrightarrow> r \<in> set (disk_after disk (attempt_log C disk a))"
    and "sent (attempt_key C a) (attempt_log C disk a) \<Longrightarrow>
      refused_on (disk_after disk (attempt_log C disk a)) (attempt_key C a) \<or> delivered C (at_answers a)"
    and "sent k (attempt_log C disk a) \<Longrightarrow> k = attempt_key C a"
  using sound_leaves [OF attempt_sound [OF assms, of a] assms(2)] by blast+

section \<open>Refusal\<close>

lemma pay_refuses:
  assumes store: "xc_hasStore C" and d: "distinct (map pp_key disk)"
    and refused: "refused_on disk (request_key C input)" and unforced: "spi_forceNewPayment input \<noteq> Some True"
  shows "pay C now realizer input ans (newPayer C disk faults)
     = (Inl (payError ''payment_outcome_unknown''), newPayer C disk faults)"
proof -
  let ?w = "newPayer C disk faults"
  obtain r where r: "r \<in> set disk" "pp_key r = request_key C input" "pp_status r = external_outcome_unknown"
    using refused by (auto simp: refused_on_def)
  then have get: "map_get (pw_pending ?w) (request_key C input) = Some r"
    using loadPending_get [OF d] store by (simp add: newPayer_def)
  have "admitPending C realizer input (computeRequest C input) ?w = (Inl (payError ''payment_outcome_unknown''), ?w)"
    using get r unforced
    by (cases "pp_recovery r") (simp_all add: admitPending_def action_defs)
  moreover have "(if xc_hasStore C \<and> xc_hasLock C then ?w\<lparr>pw_pending := loadPending (pw_disk ?w)\<rparr> else ?w) = ?w"
    using store by (simp add: newPayer_def)
  ultimately show ?thesis
    by (simp add: pay_def runPay_def bindA_def [of "modifyA _"] bindA_def [of "admitPending _ _ _ _"] modifyA_def)
qed

lemma refused_attempt:
  assumes "xc_hasStore C" and "distinct (map pp_key disk)" and "refused_on disk (attempt_key C a)" and "unforced a"
  shows "attempt_log C disk a = []"
  using pay_refuses [OF assms(1,2), of "at_input a"] assms(3,4)
  by (simp add: attempt_log_def attempt_key_def unforced_def newPayer_def)

lemma refused_stays:
  assumes "xc_hasStore C" and "distinct (map pp_key disk)" and "refused_on disk k"
    and "\<forall>a \<in> set as. unforced a" and "(b, log) \<in> set (history C disk as)"
  shows "\<not> sent k log"
  using assms(2-)
proof (induction as arbitrary: disk)
  case (Cons a as)
  let ?log = "attempt_log C disk a"
  have refused: "refused_on (disk_after disk ?log) k \<and> \<not> sent k ?log"
  proof (cases "attempt_key C a = k")
    case True
    then have "?log = []" using Cons.prems refused_attempt [OF assms(1)] by auto
    with Cons.prems show ?thesis by simp
  next
    case False
    then show ?thesis
      using Cons.prems(2) attempt_leaves(2,4) [OF assms(1) Cons.prems(1), of _ a]
      by (auto simp: refused_on_def)
  qed
  show ?case
    using Cons.IH [of "disk_after disk ?log"] Cons.prems refused attempt_leaves(1) [OF assms(1) Cons.prems(1), of a]
    by (auto simp: Let_def)
qed simp

section \<open>No second payment\<close>

text \<open>
  C2: across any sequence of attempts, each in a fresh process that may crash after any number
  of effects and whose writes may fail, a request is not paid again after a payment that was
  not confirmed: if two attempts send a payment for the same request and none of them was told
  to force a new payment, the seller confirmed the first one.
\<close>

theorem unconfirmed_payment_is_never_repeated:
  assumes "xc_hasStore C" and "distinct (map pp_key disk)" and "\<forall>a \<in> set as. unforced a"
    and "history C disk as = pre @ (a, log) # mid @ (b, log') # post" and "sent k log" and "sent k log'"
  shows "delivered C (at_answers a)"
  using assms(2-)
proof (induction as arbitrary: disk pre)
  case (Cons x as)
  let ?log = "attempt_log C disk x"
  have disk': "distinct (map pp_key (disk_after disk ?log))"
    by (rule attempt_leaves(1) [OF assms(1) Cons.prems(1)])
  show ?case
  proof (cases pre)
    case Nil
    with Cons.prems(3) have first: "x = a" "?log = log"
        "history C (disk_after disk log) as = mid @ (b, log') # post"
      by (auto simp: Let_def)
    have k: "k = attempt_key C a"
      using attempt_leaves(4) [OF assms(1) Cons.prems(1), of k a] Cons.prems(4) first by simp
    show ?thesis
    proof (rule ccontr)
      assume "\<not> delivered C (at_answers a)"
      then have "refused_on (disk_after disk log) k"
        using attempt_leaves(3) [OF assms(1) Cons.prems(1), of a] Cons.prems(4) first k by auto
      then have "\<not> sent k log'"
        using refused_stays [OF assms(1), of "disk_after disk log" k as b log'] disk' Cons.prems(2) first
        by auto
      with Cons.prems(5) show False by simp
    qed
  next
    case (Cons y pre')
    then have "history C (disk_after disk ?log) as = pre' @ (a, log) # mid @ (b, log') # post"
      using Cons.prems(3) by (simp add: Let_def)
    then show ?thesis
      using Cons.IH [OF disk'] Cons.prems(2,4,5) by simp
  qed
qed simp

section \<open>Records before effects\<close>

text \<open>
  C9: every effect of a run is on disk before it happens. A payment is sent at most once, within
  the client's cap, and only when the record on disk already says that its outcome is unknown,
  for this amount, payee and fee payer. A yield realization, fresh or resumed, is started only
  before the payment is sent, for an amount within the client's cap, and only when the record on
  disk says that this amount is being realized for this payee. A fresh one needs that the run found no
  record of the request, or one that a forced payment may discard; a resumed one continues
  exactly the withdrawal that the record on disk holds.
\<close>

theorem effects_are_recorded_first:
  assumes "xc_hasStore C" and "distinct (map pp_key disk)"
    and "attempt_log C disk a = pre @ e # post"
  shows "(\<forall>k selected. e = PaymentSent k selected \<longrightarrow>
        k = attempt_key C a \<and> \<not> sent k pre \<and> sel_amountRawUsdc selected \<le> client_cap C (at_input a)
        \<and> (\<exists>r \<in> set (disk_after disk pre). describes r k selected \<and> pp_status r = external_outcome_unknown))
    \<and> (\<forall>k payment approvalId. e = Realize k payment approvalId \<longrightarrow>
        k = attempt_key C a \<and> \<not> sent k pre \<and> (\<forall>r \<in> set disk. pp_key r = k \<longrightarrow> discardable (at_input a) r)
        \<and> approvalId = spi_approvalId (at_input a)
        \<and> (\<exists>selected. funds C (at_input a) payment selected \<and> sel_amountRawUsdc selected \<le> client_cap C (at_input a)
             \<and> (\<exists>r \<in> set (disk_after disk pre). describes r k selected \<and> pp_status r = realizing)))
    \<and> (\<forall>k prepared payment. e = Resume k prepared payment \<longrightarrow>
        k = attempt_key C a \<and> \<not> sent k pre
        \<and> (\<exists>selected. funds C (at_input a) payment selected \<and> sel_amountRawUsdc selected \<le> client_cap C (at_input a)
             \<and> (\<exists>r \<in> set (disk_after disk pre). describes r k selected \<and> pp_status r = realizing
                  \<and> Option.bind (pp_recovery r) rv_prepared = Some prepared)))"
proof -
  have "event_ok C (at_answers a) (attempt_key C a) (at_input a) disk pre e"
    using attempt_sound [OF assms(1,2), of a] assms(3) by (auto dest: soundD)
  then show ?thesis
    by (cases e) (simp_all add: event_ok_def realizable_def)
qed

section \<open>A purchase\<close>

definition sample_config :: payer_config where
  "sample_config = \<lparr>xh_parse = \<lambda>_. None, xh_sha = \<lambda>text. text, xc_network = ''solana:main'', xc_usdcMint = ''usdc'',
     xc_defaultMaxAmountRawUsdc = 100, xc_hasStore = True, xc_hasLock = True\<rparr>"

definition sample_answer :: "int \<Rightarrow> json option \<Rightarrow> FetchResponse" where
  "sample_answer status body = \<lparr>fr_status = status, fr_headers = \<lambda>_. None, fr_text = ''body'', fr_json = body\<rparr>"

definition sample_challenge :: json where
  "sample_challenge = JObject [(''x402Version'', Some (JNumber 2)), (''accepts'', Some (JArray
     [JObject [(''scheme'', Some (JString ''exact'')), (''network'', Some (JString ''solana:main'')),
        (''asset'', Some (JString ''usdc'')), (''amount'', Some (JString ''40'')), (''payTo'', Some (JString ''seller'')),
        (''extra'', Some (JObject [(''feePayer'', Some (JString ''payer''))]))]]))]"

definition sample_attempt :: attempt where
  "sample_attempt = \<lparr>at_now = 7,
     at_realizer = \<lparr>ri_vault = Some ''vault'', ri_realizationContext =
       Some \<lparr>rc_wallet = ''wallet'', rc_vault = ''vault'', rc_relayerBaseUrl = ''url''\<rparr>,
       ri_canResume = True, ri_canReport = False\<rparr>,
     at_input = \<lparr>spi_url = ''api'', spi_method = None, spi_body = None, spi_headers = None,
       spi_maxAmountRawUsdc = None, spi_forceNewPayment = None, spi_approvalId = None\<rparr>,
     at_answers = \<lparr>an_probe = Inr (sample_answer 402 (Some sample_challenge)), an_prepared = None,
       an_ensure = Inr \<lparr>rr_realizedRawUsdc = 41, rr_txSignature = Some ''tx'', rr_withdrawalId = None\<rparr>,
       an_resume = Inl \<lparr>rl_code = None, rl_realizationSafeToRetry = False\<rparr>,
       an_payment = Inr (sample_answer 200 None)\<rparr>,
     at_faults = (\<lambda>_. SaveDone), at_cut = 100\<rparr>"

lemma sent_code [code]:
  "sent k log \<longleftrightarrow> list_ex (\<lambda>e. case e of PaymentSent k' _ \<Rightarrow> k' = k | _ \<Rightarrow> False) log"
proof (induction log)
  case (Cons e log)
  then show ?case by (cases e) auto
qed simp

lemma sample_log:
  "let log = attempt_log sample_config [] sample_attempt in
     length log = 6 \<and> sent (attempt_key sample_config sample_attempt) log \<and> disk_after [] log = []
     \<and> (case log ! 4 of PaymentSent k selected \<Rightarrow> True | _ \<Rightarrow> False)"
  by code_simp

lemma sample_run:
  "length (attempt_log sample_config [] sample_attempt) = 6"
  "sent (attempt_key sample_config sample_attempt) (attempt_log sample_config [] sample_attempt)"
  "disk_after [] (attempt_log sample_config [] sample_attempt) = []"
  "case attempt_log sample_config [] sample_attempt ! 4 of PaymentSent k selected \<Rightarrow> True | _ \<Rightarrow> False"
  using sample_log by (simp_all add: Let_def)

theorem unconfirmed_payment_is_never_repeated_witness:
  "delivered sample_config (at_answers sample_attempt)"
proof (rule unconfirmed_payment_is_never_repeated [where disk = "[]" and as = "[sample_attempt, sample_attempt]"
      and pre = "[]" and mid = "[]" and post = "[]" and k = "attempt_key sample_config sample_attempt"])
  show "history sample_config [] [sample_attempt, sample_attempt]
      = [] @ (sample_attempt, attempt_log sample_config [] sample_attempt)
        # [] @ (sample_attempt, attempt_log sample_config [] sample_attempt) # []"
    by (simp add: Let_def sample_run(3))
qed (simp_all add: sample_run(2), simp_all add: sample_config_def sample_attempt_def unforced_def)

theorem effects_are_recorded_first_witness:
  "\<exists>k selected r. r \<in> set (disk_after [] (take 4 (attempt_log sample_config [] sample_attempt)))
     \<and> describes r k selected \<and> pp_status r = external_outcome_unknown"
proof -
  let ?log = "attempt_log sample_config [] sample_attempt"
  obtain k selected where sent: "?log ! 4 = PaymentSent k selected"
    using sample_run(4) by (cases "?log ! 4") auto
  have split: "?log = take 4 ?log @ ?log ! 4 # drop 5 ?log"
    using sample_run(1) id_take_nth_drop [of 4 ?log] by simp
  have store: "xc_hasStore sample_config" by (simp add: sample_config_def)
  show ?thesis
    using effects_are_recorded_first [OF store _ split] sent by fastforce
qed

end
