(* ===== verification/Vault_Client.thy ===== *)
theory Vault_Client
  imports X402_Payer Vault_Math
begin

text \<open>
  The agent's client of the relayer's vault flows: \<open>src/src/client/vault-flows.ts\<close>,
  \<open>withdrawal-preview.ts\<close>, the signing boundary of \<open>agent-wallet-signer.ts\<close> and the
  realizer of \<open>relayer-yield-realizer.ts\<close>. Answers of the relayer, of the client's own RPC
  node and of the signing key are arguments. A rejected promise is an error value: the client's
  own error with its step and the relayer's error code, or any other.
\<close>

section \<open>Errors and answers\<close>

datatype client_step = step_prepare | step_submit | step_budget | step_sync | step_read

text \<open>
  A \<open>VaultFlowClientError\<close> with its step and the relayer's error code, the payer's own
  \<open>StandardX402PayError\<close>, or any other error. The realizer looks for a code a second time in
  the text of the response, where \<open>parseRelayerError\<close> has already looked for it.
\<close>

datatype client_error = FlowClientError client_step "string option" | PayerError | OtherError

type_synonym 'a answer = "client_error + 'a"

definition bindE :: "'a answer \<Rightarrow> ('a \<Rightarrow> 'b answer) \<Rightarrow> 'b answer" where
  "bindE r f = (case r of Inl e \<Rightarrow> Inl e | Inr x \<Rightarrow> f x)"

lemma bindE_simps [simp]: "bindE (Inl e) f = Inl e" "bindE (Inr x) f = f x"
  by (simp_all add: bindE_def)

lemma bindE_Inr: "bindE r f = Inr y \<longleftrightarrow> (\<exists>x. r = Inr x \<and> f x = Inr y)"
  by (cases r) auto

definition checkE :: "bool \<Rightarrow> client_error \<Rightarrow> unit answer" where
  "checkE c e = (if c then Inr () else Inl e)"

lemma checkE_Inr [simp]: "checkE c e = Inr u \<longleftrightarrow> c" for u :: unit
  by (simp add: checkE_def)

text \<open>A plain error of a called function.\<close>

definition plainE :: "'a result \<Rightarrow> 'a answer" where
  "plainE r = (case r of Inl _ \<Rightarrow> Inl OtherError | Inr x \<Rightarrow> Inr x)"

lemma plainE_Inr [simp]: "plainE r = Inr x \<longleftrightarrow> r = Inr x"
  by (cases r) (simp_all add: plainE_def)

section \<open>The preview\<close>

record TokenInfo =
  ti_source :: "string option"
  ti_destination :: "string option"
  ti_amount :: "json option"
  ti_tokenAmount :: "json option"

record InnerInstruction =
  ii_programId :: string
  ii_parsed :: "(json \<times> TokenInfo option) option"

record Simulation =
  sn_failed :: bool
  sn_innerInstructions :: "InnerInstruction list list"

definition previewAmount :: "json option \<Rightarrow> int answer" where
  "previewAmount amountText = (case amountText of
       Some (JString s) \<Rightarrow> if s \<noteq> [] \<and> list_all is_digit s then plainE (BigIntR s) else Inl OtherError
     | _ \<Rightarrow> Inl OtherError)"

definition previewStep :: "string \<Rightarrow> int \<Rightarrow> InnerInstruction \<Rightarrow> int answer" where
  "previewStep destination received instruction = (case ii_parsed instruction of
       None \<Rightarrow> Inr received
     | Some (parsedType, info) \<Rightarrow>
         if ii_programId instruction \<noteq> SPL_TOKEN_PROGRAM_ID
            \<or> parsedType \<notin> {JString ''transfer'', JString ''transferChecked''} then Inr received
         else (case info of
             None \<Rightarrow> Inr received
           | Some i \<Rightarrow>
               if ti_destination i \<noteq> Some destination \<and> ti_source i \<noteq> Some destination then Inr received
               else bindE (previewAmount (if parsedType = JString ''transferChecked'' then ti_tokenAmount i else ti_amount i)) (\<lambda>amount.
                 let received = (if ti_destination i = Some destination then received + amount else received) in
                 Inr (if ti_source i = Some destination then received - amount else received))))"

fun loopE :: "('s \<Rightarrow> 'a \<Rightarrow> 's answer) \<Rightarrow> 's \<Rightarrow> 'a list \<Rightarrow> 's answer" where
  "loopE f s [] = Inr s"
| "loopE f s (x # xs) = bindE (f s x) (\<lambda>t. loopE f t xs)"

definition assertWithdrawalPreview ::
  "intent_env \<Rightarrow> string \<Rightarrow> VaultConfig \<Rightarrow> int \<Rightarrow> bool \<Rightarrow> Simulation answer \<Rightarrow> unit answer" where
  "assertWithdrawalPreview E wallet vault amountRawUsdc yieldRealize simulated =
     bindE (plainE (ataOf E wallet (vc_usdcMint vault))) (\<lambda>destination.
     bindE simulated (\<lambda>simulation.
     bindE (checkE (\<not> sn_failed simulation) OtherError) (\<lambda>_.
     bindE (loopE (previewStep destination) 0 (concat (sn_innerInstructions simulation))) (\<lambda>received.
     let minimum = (if yieldRealize then amountRawUsdc else amountRawUsdc - WITHDRAWAL_ROUNDING_RAW_USDC) in
     checkE (\<not> (received \<le> 0 \<or> received > amountRawUsdc + WITHDRAWAL_ROUNDING_RAW_USDC \<or> received < minimum))
       OtherError))))"

section \<open>The signer\<close>

record agent_signer =
  as_walletAddress :: string
  as_vault :: VaultConfig
  as_policy :: IntentValidationPolicy

text \<open>The constructor pins the vault of the policy.\<close>

definition newSigner :: "intent_env \<Rightarrow> string \<Rightarrow> IntentValidationPolicy option \<Rightarrow> agent_signer" where
  "newSigner E walletAddress policy =
     (let vault = orDefault (Option.bind policy ivp_vault) (iv_defaultVault E) in
      \<lparr>as_walletAddress = walletAddress, as_vault = vault,
       as_policy = (case policy of
           None \<Rightarrow> \<lparr>ivp_vault = Some vault, ivp_maxComputeUnitLimit = None,
             ivp_maxComputeUnitPriceMicroLamports = None, ivp_maxTemporaryAccountLamports = None\<rparr>
         | Some p \<Rightarrow> p\<lparr>ivp_vault := Some vault\<rparr>)\<rparr>)"

text \<open>The signing key, local or in custody: the signed transaction and the signature, or an error.\<close>

type_synonym signed_transaction = "string \<times> string"

definition assertIntentWallet :: "agent_signer \<Rightarrow> string \<Rightarrow> unit answer" where
  "assertIntentWallet S wallet = checkE (wallet = as_walletAddress S) OtherError"

definition signPayment ::
  "intent_env \<Rightarrow> agent_signer \<Rightarrow> int \<Rightarrow> (string \<Rightarrow> signed_transaction answer) \<Rightarrow> PaymentSigningIntent \<Rightarrow> string
    \<Rightarrow> LookupTables option \<Rightarrow> signed_transaction answer" where
  "signPayment E S now key intent serializedTransaction lookupTables =
     bindE (assertIntentWallet S (psi_wallet intent)) (\<lambda>_.
     bindE (plainE (validatePaymentIntentTransaction E intent serializedTransaction lookupTables
       (Some (as_policy S)) now)) (\<lambda>_.
     key serializedTransaction))"

definition signDeposit ::
  "intent_env \<Rightarrow> agent_signer \<Rightarrow> int \<Rightarrow> (string \<Rightarrow> signed_transaction answer) \<Rightarrow> DepositSigningIntent \<Rightarrow> string
    \<Rightarrow> LookupTables option \<Rightarrow> signed_transaction answer" where
  "signDeposit E S now key intent serializedTransaction lookupTables =
     bindE (assertIntentWallet S (dsi_wallet intent)) (\<lambda>_.
     bindE (plainE (validateDepositIntentTransaction E intent serializedTransaction lookupTables
       (Some (as_policy S)) now)) (\<lambda>_.
     key serializedTransaction))"

definition signWithdrawal ::
  "intent_env \<Rightarrow> agent_signer \<Rightarrow> int \<Rightarrow> (string \<Rightarrow> signed_transaction answer) \<Rightarrow> WithdrawalSigningIntent \<Rightarrow> string
    \<Rightarrow> LookupTables option \<Rightarrow> signed_transaction answer" where
  "signWithdrawal E S now key intent serializedTransaction lookupTables =
     bindE (assertIntentWallet S (wsi_wallet intent)) (\<lambda>_.
     bindE (plainE (validateWithdrawalIntentTransaction E intent serializedTransaction lookupTables
       (Some (as_policy S)) now)) (\<lambda>_.
     key serializedTransaction))"

section \<open>The client\<close>

record vault_client =
  cf_signer :: agent_signer
  cf_vault :: VaultConfig

definition newVaultFlowClient :: "VaultConfig option \<Rightarrow> agent_signer \<Rightarrow> vault_client answer" where
  "newVaultFlowClient vault signer =
     (let v = orDefault vault (as_vault signer) in
      bindE (checkE (vc_address (as_vault signer) = vc_address v) OtherError) (\<lambda>_.
      Inr \<lparr>cf_signer = signer, cf_vault = v\<rparr>))"

abbreviation walletOf :: "vault_client \<Rightarrow> string" where
  "walletOf C \<equiv> as_walletAddress (cf_signer C)"

record PreparedDeposit =
  qd_depositId :: string
  qd_serializedTransaction :: string
  qd_signingIntent :: DepositSigningIntent

record VaultDepositOutcome =
  vdo_depositId :: string
  vdo_status :: string
  vdo_txSignature :: "string option"
  vdo_actualDepositRawUsdc :: "string option"
  vdo_sharesMintedRaw :: "string option"
  vdo_errorCode :: "string option"

record VaultWithdrawalOutcome =
  vwo_withdrawalId :: string
  vwo_status :: string
  vwo_txSignature :: "string option"
  vwo_destinationUsdcAta :: "string option"
  vwo_actualWithdrawRawUsdc :: "string option"
  vwo_actualSharesBurnedRaw :: "string option"
  vwo_errorCode :: "string option"

record VaultWithdrawalInput =
  vwi_amountRawUsdc :: int
  vwi_yieldRealize :: bool
  vwi_payment :: "RealizePaymentBinding option"
  vwi_approvalId :: "string option"

record ApprovalBinding =
  abv_kind :: "string option"
  abv_amountRawUsdc :: "string option"

record ApprovalView =
  av_approvalId :: string
  av_binding :: "ApprovalBinding option"

text \<open>
  The withdrawal as the reconciling endpoint returns it. A response is a record of the expected
  members; \<open>pd_signingIntent\<close> is that of a response which has one.
\<close>

record CurrentWithdrawal = VaultWithdrawalOutcome +
  cw_wallet :: string
  cw_vault :: string
  cw_requestedWithdrawRawUsdc :: string
  cw_purpose :: string
  cw_paymentBinding :: json
  cw_serializedTransaction :: string
  cw_preparedMessageHash :: string
  cw_destinationUsdcAta :: string

text \<open>One answer of a polled endpoint: a failed request, an ignored response, or an outcome.\<close>

datatype 'a poll = PollFailed | PollIgnored | PollAnswer 'a

text \<open>The answers of the relayer, of the RPC node and of the key to one call of the client.\<close>

record client_answers =
  ca_prepareDeposit :: "string option \<Rightarrow> PreparedDeposit answer"
  ca_approvals :: "ApprovalView list answer"
  ca_submitDeposit :: "VaultDepositOutcome answer"
  ca_pollDeposit :: "VaultDepositOutcome poll list"
  ca_prepareWithdrawal :: "PreparedWithdrawal answer"
  ca_onPrepared :: "PreparedWithdrawal \<Rightarrow> unit answer"
  ca_currentWithdrawal :: "CurrentWithdrawal answer"
  ca_simulation :: "string \<Rightarrow> Simulation answer"
  ca_lookupTables :: "string \<Rightarrow> LookupTables answer"
  ca_key :: "string \<Rightarrow> signed_transaction answer"
  ca_submitWithdrawal :: "VaultWithdrawalOutcome answer"
  ca_pollWithdrawal :: "VaultWithdrawalOutcome poll list"
  ca_budget :: "string option answer"

text \<open>What the client asks for, in the order it asks for it.\<close>

datatype client_event =
    AskedDeposit int "string option"
  | AskedWithdrawal VaultWithdrawalInput
  | Checkpointed PreparedWithdrawal
  | BeforeSubmit
  | SubmittedDeposit string signed_transaction
  | SubmittedWithdrawal string signed_transaction
  | SyncedFromChain

type_synonym 'a run = "'a answer \<times> client_event list"

definition bindW :: "'a run \<Rightarrow> ('a \<Rightarrow> 'b run) \<Rightarrow> 'b run" where
  "bindW r f = (case fst r of Inl e \<Rightarrow> (Inl e, snd r) | Inr x \<Rightarrow> (fst (f x), snd r @ snd (f x)))"

definition pureW :: "'a answer \<Rightarrow> 'a run" where
  "pureW r = (r, [])"

definition tellW :: "client_event \<Rightarrow> 'a answer \<Rightarrow> 'a run" where
  "tellW e r = (r, [e])"

text \<open>\<open>pollUntilTerminal\<close>: the polls that fit before the deadline; a failed request is thrown.\<close>

fun pollUntilTerminal :: "('a \<Rightarrow> string) \<Rightarrow> 'a \<Rightarrow> 'a poll list \<Rightarrow> 'a answer" where
  "pollUntilTerminal status latest [] = Inr latest"
| "pollUntilTerminal status latest (PollFailed # ps) = Inl OtherError"
| "pollUntilTerminal status latest (PollIgnored # ps) = pollUntilTerminal status latest ps"
| "pollUntilTerminal status latest (PollAnswer x # ps) =
     (if status x \<noteq> ''submitted'' then Inr x else pollUntilTerminal status x ps)"

section \<open>Deposits\<close>

definition findApprovedDepositApproval :: "int \<Rightarrow> ApprovalView list answer \<Rightarrow> string option" where
  "findApprovedDepositApproval amountRawUsdc approvals = (case approvals of
       Inl _ \<Rightarrow> None
     | Inr views \<Rightarrow> map_option av_approvalId (find (\<lambda>approval. case av_binding approval of
           None \<Rightarrow> False
         | Some binding \<Rightarrow> abv_kind binding = Some ''deposit''
             \<and> abv_amountRawUsdc binding = Some (toString amountRawUsdc)) views))"

definition askDeposit :: "client_answers \<Rightarrow> int \<Rightarrow> string option \<Rightarrow> PreparedDeposit run" where
  "askDeposit A amountRawUsdc approvalId =
     tellW (AskedDeposit amountRawUsdc approvalId) (ca_prepareDeposit A approvalId)"

definition prepareDepositRequest :: "client_answers \<Rightarrow> int \<Rightarrow> string option \<Rightarrow> PreparedDeposit run" where
  "prepareDepositRequest A amountRawUsdc approvalId =
     (case askDeposit A amountRawUsdc approvalId of
        (Inr prepared, log) \<Rightarrow> (Inr prepared, log)
      | (Inl e, log) \<Rightarrow>
          if (case e of FlowClientError _ errorCode \<Rightarrow> errorCode \<noteq> Some ''deposit_approval_required'' | _ \<Rightarrow> True)
             \<or> approvalId \<noteq> None then (Inl e, log)
          else (case findApprovedDepositApproval amountRawUsdc (ca_approvals A) of
              None \<Rightarrow> (Inl e, log)
            | Some found \<Rightarrow>
                let (r, log') = askDeposit A amountRawUsdc (Some found) in (r, log @ log')))"

definition deposit ::
  "intent_env \<Rightarrow> vault_client \<Rightarrow> int \<Rightarrow> client_answers \<Rightarrow> int \<Rightarrow> string option \<Rightarrow> VaultDepositOutcome run" where
  "deposit E C now A amountRawUsdc approvalId =
     bindW (prepareDepositRequest A amountRawUsdc approvalId) (\<lambda>prepared.
     bindW (pureW (checkE (dsi_wallet (qd_signingIntent prepared) = walletOf C
         \<and> dsi_vault (qd_signingIntent prepared) = vc_address (cf_vault C)
         \<and> dsi_amountRawUsdc (qd_signingIntent prepared) = toString amountRawUsdc)
       (FlowClientError step_prepare None))) (\<lambda>_.
     bindW (pureW (bindE (ca_lookupTables A (qd_serializedTransaction prepared)) (\<lambda>tables.
       signDeposit E (cf_signer C) now (ca_key A) (qd_signingIntent prepared)
         (qd_serializedTransaction prepared) (Some tables)))) (\<lambda>signed.
     bindW (tellW (SubmittedDeposit (qd_depositId prepared) signed) (ca_submitDeposit A)) (\<lambda>first.
     bindW (pureW (if vdo_status first = ''submitted''
         then pollUntilTerminal vdo_status first (ca_pollDeposit A) else Inr first)) (\<lambda>outcome.
     pureW (Inr (outcome\<lparr>vdo_depositId := qd_depositId prepared\<rparr>)))))))"

section \<open>Withdrawals\<close>

definition assertPreparedWithdrawal :: "vault_client \<Rightarrow> PreparedWithdrawal \<Rightarrow> VaultWithdrawalInput \<Rightarrow> unit answer" where
  "assertPreparedWithdrawal C prepared input =
     checkE (\<not> (wsi_wallet (pd_signingIntent prepared) \<noteq> walletOf C
         \<or> wsi_vault (pd_signingIntent prepared) \<noteq> vc_address (cf_vault C)
         \<or> pd_requestedWithdrawRawUsdc prepared \<noteq> toString (vwi_amountRawUsdc input)
         \<or> pd_purpose prepared \<noteq> (if vwi_yieldRealize input then ''yield_realize'' else ''normal'')
         \<or> (vwi_yieldRealize input \<and> wsi_allowFullExit (pd_signingIntent prepared)))
       \<and> pd_withdrawalId prepared \<noteq> []) (FlowClientError step_prepare None)"

definition withdrawalOutcome :: "PreparedWithdrawal \<Rightarrow> 'a VaultWithdrawalOutcome_scheme \<Rightarrow> VaultWithdrawalOutcome" where
  "withdrawalOutcome prepared outcome =
     \<lparr>vwo_withdrawalId = pd_withdrawalId prepared, vwo_status = vwo_status outcome,
      vwo_txSignature = vwo_txSignature outcome,
      vwo_destinationUsdcAta = Some (pd_destinationUsdcAta prepared),
      vwo_actualWithdrawRawUsdc = vwo_actualWithdrawRawUsdc outcome,
      vwo_actualSharesBurnedRaw = vwo_actualSharesBurnedRaw outcome,
      vwo_errorCode = vwo_errorCode outcome\<rparr>"

definition submitPreparedWithdrawal ::
  "intent_env \<Rightarrow> vault_client \<Rightarrow> int \<Rightarrow> client_answers \<Rightarrow> bool \<Rightarrow> PreparedWithdrawal \<Rightarrow> VaultWithdrawalInput
    \<Rightarrow> VaultWithdrawalOutcome run" where
  "submitPreparedWithdrawal E C now A notify prepared input =
     bindW (pureW (assertWithdrawalPreview E (walletOf C) (cf_vault C) (vwi_amountRawUsdc input)
       (vwi_yieldRealize input) (ca_simulation A (pd_serializedTransaction prepared)))) (\<lambda>_.
     bindW (pureW (bindE (ca_lookupTables A (pd_serializedTransaction prepared)) (\<lambda>tables.
       signWithdrawal E (cf_signer C) now (ca_key A) (pd_signingIntent prepared)
         (pd_serializedTransaction prepared) (Some tables)))) (\<lambda>signed.
     bindW (if notify then tellW BeforeSubmit (Inr ()) else pureW (Inr ())) (\<lambda>_.
     bindW (tellW (SubmittedWithdrawal (pd_withdrawalId prepared) signed) (ca_submitWithdrawal A)) (\<lambda>first.
     bindW (pureW (if vwo_status first = ''submitted''
         then pollUntilTerminal vwo_status first (ca_pollWithdrawal A) else Inr first)) (\<lambda>outcome.
     pureW (Inr (withdrawalOutcome prepared outcome)))))))"

definition withdraw ::
  "intent_env \<Rightarrow> vault_client \<Rightarrow> int \<Rightarrow> client_answers \<Rightarrow> bool \<Rightarrow> VaultWithdrawalInput \<Rightarrow> VaultWithdrawalOutcome run" where
  "withdraw E C now A notify input =
     bindW (tellW (AskedWithdrawal input) (ca_prepareWithdrawal A)) (\<lambda>prepared.
     bindW (pureW (assertPreparedWithdrawal C prepared input)) (\<lambda>_.
     bindW (case ca_onPrepared A prepared of
         Inl e \<Rightarrow> pureW (Inl e) | Inr u \<Rightarrow> tellW (Checkpointed prepared) (Inr u)) (\<lambda>_.
     submitPreparedWithdrawal E C now A notify prepared input)))"

definition bindingView :: "RealizePaymentBinding \<Rightarrow> json" where
  "bindingView payment = JObject [(''payTo'', Some (JString (rpb_payTo payment))),
     (''amountRawUsdc'', Some (JString (rpb_amountRawUsdc payment))),
     (''resourceUrlHash'', Some (JString (rpb_resourceUrlHash payment))),
     (''method'', Some (JString (rpb_method payment)))]"

definition resumeWithdrawal ::
  "intent_env \<Rightarrow> vault_client \<Rightarrow> int \<Rightarrow> client_answers \<Rightarrow> PreparedWithdrawal \<Rightarrow> VaultWithdrawalInput
    \<Rightarrow> VaultWithdrawalOutcome run" where
  "resumeWithdrawal E C now A prepared input =
     bindW (pureW (assertPreparedWithdrawal C prepared input)) (\<lambda>_.
     bindW (pureW (ca_currentWithdrawal A)) (\<lambda>current.
     bindW (pureW (checkE (\<not> (vwo_withdrawalId current \<noteq> pd_withdrawalId prepared
         \<or> cw_wallet current \<noteq> walletOf C \<or> cw_vault current \<noteq> vc_address (cf_vault C)
         \<or> cw_requestedWithdrawRawUsdc current \<noteq> toString (vwi_amountRawUsdc input)
         \<or> cw_purpose current \<noteq> (if vwi_yieldRealize input then ''yield_realize'' else ''normal'')
         \<or> canonicalJsonHash (iv_shaText E) (cw_paymentBinding current)
             \<noteq> canonicalJsonHash (iv_shaText E) (case vwi_payment input of None \<Rightarrow> JNull | Some p \<Rightarrow> bindingView p)
         \<or> cw_serializedTransaction current \<noteq> pd_serializedTransaction prepared
         \<or> cw_preparedMessageHash current \<noteq> wsi_preparedMessageHash (pd_signingIntent prepared)
         \<or> cw_destinationUsdcAta current \<noteq> pd_destinationUsdcAta prepared))
       (FlowClientError step_read None))) (\<lambda>_.
     if vwo_status current = ''prepared'' then submitPreparedWithdrawal E C now A False prepared input
     else bindW (pureW (checkE (vwo_status current \<in> {''submitted'', ''confirmed'', ''failed'',
           ''failed_not_submitted'', ''expired'', ''quarantined''}) (FlowClientError step_read None))) (\<lambda>_.
       pureW (Inr (withdrawalOutcome prepared current))))))"

section \<open>Reading an operation\<close>

datatype operation_kind = deposit_kind | withdrawal_kind

definition hexId :: "string \<Rightarrow> string \<Rightarrow> bool" where
  "hexId start text \<longleftrightarrow> take (length start) text = start \<and> length (drop (length start) text) = 32
     \<and> list_all is_lower_hex (drop (length start) text)"

definition vaultOperationKind :: "string \<Rightarrow> operation_kind answer" where
  "vaultOperationKind intentId =
     (if hexId ''dep_'' intentId then Inr deposit_kind
      else if hexId ''wdr_'' intentId then Inr withdrawal_kind
      else Inl (FlowClientError step_read None))"

datatype next_action = check_again | done_action | reconcile_with_operator

record VaultOperationStatus =
  vos_intentId :: string
  vos_kind :: operation_kind
  vos_wallet :: string
  vos_vault :: string
  vos_status :: string
  vos_requestedAmountRawUsdc :: string
  vos_actualAmountRawUsdc :: "string option"
  vos_txSignature :: "string option"
  vos_errorCode :: "string option"
  vos_stillConfirming :: bool
  vos_nextAction :: next_action

definition digitText :: "json option \<Rightarrow> bool" where
  "digitText v = (case v of Some (JString s) \<Rightarrow> s \<noteq> [] \<and> list_all is_digit s | _ \<Rightarrow> False)"

definition jsonText :: "json option \<Rightarrow> string option" where
  "jsonText v = (case v of Some (JString s) \<Rightarrow> Some s | _ \<Rightarrow> None)"

definition nullOr :: "(json option \<Rightarrow> bool) \<Rightarrow> json option \<Rightarrow> bool" where
  "nullOr ok v \<longleftrightarrow> v = Some JNull \<or> ok v"

definition operationFieldsOk :: "operation_kind \<Rightarrow> (string \<times> json option) list \<Rightarrow> bool" where
  "operationFieldsOk operation rec =
     (let status = member ''status'' rec;
          requested = member (if operation = deposit_kind then ''amountRawUsdc'' else ''requestedWithdrawRawUsdc'') rec;
          actual = member (if operation = deposit_kind then ''actualDepositRawUsdc'' else ''actualWithdrawRawUsdc'') rec in
      jsonText status \<in> {Some ''prepared'', Some ''submitted'', Some ''confirmed'', Some ''failed'', Some ''expired'',
          Some ''failed_not_submitted''}
      \<and> digitText requested
      \<and> nullOr digitText actual
      \<and> nullOr (\<lambda>v. nonEmptyText v \<noteq> None) (member ''txSignature'' rec)
      \<and> nullOr (\<lambda>v. jsonText v \<noteq> None) (member ''errorCode'' rec)
      \<and> \<not> (jsonText status = Some ''confirmed'' \<and> (actual = Some JNull \<or> member ''txSignature'' rec = Some JNull)))"

definition operationNextAction :: "string \<Rightarrow> next_action" where
  "operationNextAction status =
     (if status = ''confirmed'' then done_action
      else if status = ''submitted'' \<or> status = ''prepared'' then check_again
      else reconcile_with_operator)"

definition getOperationStatus :: "vault_client \<Rightarrow> (operation_kind \<Rightarrow> json answer) \<Rightarrow> string \<Rightarrow> VaultOperationStatus answer" where
  "getOperationStatus C getJson intentId =
     bindE (vaultOperationKind intentId) (\<lambda>operation.
     bindE (getJson operation) (\<lambda>response.
     case response of
       JObject rec \<Rightarrow>
         bindE (checkE (\<not> (member (if operation = deposit_kind then ''depositId'' else ''withdrawalId'') rec
               \<noteq> Some (JString intentId)
             \<or> member ''wallet'' rec \<noteq> Some (JString (walletOf C))
             \<or> member ''vault'' rec \<noteq> Some (JString (vc_address (cf_vault C))))) (FlowClientError step_read None)) (\<lambda>_.
         bindE (checkE (operationFieldsOk operation rec) (FlowClientError step_read None)) (\<lambda>_.
         let status = orDefault (jsonText (member ''status'' rec)) [] in
         Inr \<lparr>vos_intentId = intentId, vos_kind = operation, vos_wallet = walletOf C,
           vos_vault = vc_address (cf_vault C), vos_status = status,
           vos_requestedAmountRawUsdc = orDefault (jsonText (member
             (if operation = deposit_kind then ''amountRawUsdc'' else ''requestedWithdrawRawUsdc'') rec)) [],
           vos_actualAmountRawUsdc = jsonText (member
             (if operation = deposit_kind then ''actualDepositRawUsdc'' else ''actualWithdrawRawUsdc'') rec),
           vos_txSignature = jsonText (member ''txSignature'' rec),
           vos_errorCode = jsonText (member ''errorCode'' rec),
           vos_stillConfirming = (status = ''submitted''), vos_nextAction = operationNextAction status\<rparr>))
     | _ \<Rightarrow> Inl (FlowClientError step_read None)))"

section \<open>The realizer of a payment\<close>

datatype realize_code =
    insufficient_yield | budget_unavailable | prepare_failed | submit_failed
  | realize_not_confirmed | approval_required

text \<open>What the realizer throws: the payer's own error, its own error, or any other.\<close>

datatype realize_error =
    PayerErrorThrown
  | RelayerRealizeError realize_code bool
  | OtherErrorThrown

definition REALIZE_OVERHEAD_RAW_USDC :: int where "REALIZE_OVERHEAD_RAW_USDC = 2500"

text \<open>
  \<open>getBudget\<close>: the sync is best effort; the answer is the spendable yield of the view, absent
  when the response has none.
\<close>

definition spendableYieldText :: "client_answers \<Rightarrow> string run" where
  "spendableYieldText A =
     bindW (tellW SyncedFromChain (Inr ())) (\<lambda>_. pureW (bindE (ca_budget A) (\<lambda>text. Inr (orDefault text ''0''))))"

definition assertSpendableYield :: "client_answers \<Rightarrow> int \<Rightarrow> (realize_error + unit) \<times> client_event list" where
  "assertSpendableYield A shortfallRawUsdc =
     (let budget = bindW (spendableYieldText A) (\<lambda>text. pureW (plainE (BigIntR text))) in
      (case fst budget of
         Inl _ \<Rightarrow> Inl (RelayerRealizeError budget_unavailable True)
       | Inr spendable \<Rightarrow>
           if spendable < shortfallRawUsdc + REALIZE_OVERHEAD_RAW_USDC
           then Inl (RelayerRealizeError insufficient_yield True) else Inr (),
       snd budget))"

definition mapWithdrawError :: "client_error \<Rightarrow> bool \<Rightarrow> realize_error" where
  "mapWithdrawError e safeToRetry = (case e of
       FlowClientError step serverCode \<Rightarrow>
         RelayerRealizeError
           (if serverCode = Some ''approval_required'' then approval_required
            else if serverCode = Some ''insufficient_yield''
              \<or> serverCode = Some ''post_state_principal_invariant_failed'' then insufficient_yield
            else if step = step_submit then submit_failed else prepare_failed) safeToRetry
     | _ \<Rightarrow> RelayerRealizeError prepare_failed safeToRetry)"

definition confirmedRealization :: "VaultWithdrawalOutcome \<Rightarrow> realize_error + RealizeResult" where
  "confirmedRealization outcome =
     (if vwo_status outcome \<noteq> ''confirmed'' \<or> vwo_txSignature outcome = None
      then Inl (RelayerRealizeError realize_not_confirmed False)
      else case js_BigInt (orDefault (vwo_actualWithdrawRawUsdc outcome) ''0'') of
          None \<Rightarrow> Inl OtherErrorThrown
        | Some amount \<Rightarrow> Inr \<lparr>rr_realizedRawUsdc = amount, rr_txSignature = vwo_txSignature outcome,
            rr_withdrawalId = Some (vwo_withdrawalId outcome)\<rparr>)"

definition realizeInput :: "int \<Rightarrow> RealizePaymentBinding option \<Rightarrow> string option \<Rightarrow> VaultWithdrawalInput" where
  "realizeInput amountRawUsdc payment approvalId =
     \<lparr>vwi_amountRawUsdc = amountRawUsdc, vwi_yieldRealize = True, vwi_payment = payment, vwi_approvalId = approvalId\<rparr>"

definition relayerEnsureUsdcAvailable ::
  "intent_env \<Rightarrow> vault_client \<Rightarrow> int \<Rightarrow> client_answers \<Rightarrow> int \<Rightarrow> RealizePaymentBinding option \<Rightarrow> string option
    \<Rightarrow> (realize_error + RealizeResult) \<times> client_event list" where
  "relayerEnsureUsdcAvailable E C now A amountRawUsdc payment approvalId =
     (let (checked, log) = assertSpendableYield A amountRawUsdc in
      case checked of
        Inl e \<Rightarrow> (Inl e, log)
      | Inr _ \<Rightarrow>
          let (withdrawn, log') = withdraw E C now A True (realizeInput amountRawUsdc payment approvalId);
              submissionPossible = (BeforeSubmit \<in> set log') in
          (case withdrawn of
             Inl PayerError \<Rightarrow> Inl PayerErrorThrown
           | Inl e \<Rightarrow> Inl (mapWithdrawError e (\<not> submissionPossible))
           | Inr outcome \<Rightarrow> confirmedRealization outcome,
           log @ log'))"

definition resumeUsdcAvailable ::
  "intent_env \<Rightarrow> vault_client \<Rightarrow> int \<Rightarrow> client_answers \<Rightarrow> int \<Rightarrow> RealizePaymentBinding \<Rightarrow> PreparedWithdrawal
    \<Rightarrow> (client_error + realize_error + RealizeResult) \<times> client_event list" where
  "resumeUsdcAvailable E C now A amountRawUsdc payment prepared =
     (let (withdrawn, log) = resumeWithdrawal E C now A prepared (realizeInput amountRawUsdc (Some payment) None) in
      (case withdrawn of Inl e \<Rightarrow> Inl e | Inr outcome \<Rightarrow> Inr (confirmedRealization outcome), log))"

end
