(* ===== verification/Vault_Client_Outcomes.thy ===== *)
theory Vault_Client_Outcomes
  imports Vault_Client Intent_Outcomes
begin

text \<open>
  What the client of the vault flows guarantees: a withdrawal leaves the agent only after the
  independent preview, the structured validation and the durable checkpoint, and a realization
  is reported as safe to retry exactly when nothing was submitted.
\<close>

section \<open>The preview\<close>

text \<open>The net movement of the token account in a simulation, and the transfers it reads.\<close>

definition is_token_transfer :: "InnerInstruction \<Rightarrow> bool" where
  "is_token_transfer ix \<longleftrightarrow> ii_programId ix = SPL_TOKEN_PROGRAM_ID
     \<and> (\<exists>kd i. ii_parsed ix = Some (kd, Some i) \<and> kd \<in> {JString ''transfer'', JString ''transferChecked''})"

definition transfer_info :: "InnerInstruction \<Rightarrow> TokenInfo" where
  "transfer_info ix = the (snd (the (ii_parsed ix)))"

definition transfer_amount :: "InnerInstruction \<Rightarrow> int answer" where
  "transfer_amount ix = previewAmount
     (if fst (the (ii_parsed ix)) = JString ''transferChecked'' then ti_tokenAmount (transfer_info ix)
      else ti_amount (transfer_info ix))"

definition touches :: "string \<Rightarrow> InnerInstruction \<Rightarrow> bool" where
  "touches account ix \<longleftrightarrow> is_token_transfer ix
     \<and> (ti_destination (transfer_info ix) = Some account \<or> ti_source (transfer_info ix) = Some account)"

definition movement :: "string \<Rightarrow> InnerInstruction \<Rightarrow> int" where
  "movement account ix = (if touches account ix then
       (if ti_destination (transfer_info ix) = Some account then projr (transfer_amount ix) else 0)
       - (if ti_source (transfer_info ix) = Some account then projr (transfer_amount ix) else 0)
     else 0)"

definition readable :: "string \<Rightarrow> InnerInstruction \<Rightarrow> bool" where
  "readable account ix \<longleftrightarrow> touches account ix \<longrightarrow> \<not> isl (transfer_amount ix)"

lemma previewStep_Inr:
  "previewStep account received ix = Inr n \<longleftrightarrow> readable account ix \<and> n = received + movement account ix"
proof (cases "ii_parsed ix")
  case None
  then show ?thesis
    by (auto simp: previewStep_def readable_def touches_def is_token_transfer_def movement_def)
next
  case (Some p)
  obtain kd info where p: "p = (kd, info)" by (cases p)
  show ?thesis
  proof (cases info)
    case None
    then show ?thesis using Some p
      by (auto simp: previewStep_def readable_def touches_def is_token_transfer_def movement_def)
  next
    case (Some i)
    note eqs = \<open>ii_parsed ix = Some p\<close> p Some
    show ?thesis
      by (cases "transfer_amount ix")
        (auto simp: eqs previewStep_def readable_def touches_def is_token_transfer_def movement_def
          transfer_amount_def transfer_info_def Let_def)
  qed
qed

lemma preview_loop:
  "loopE (previewStep account) received ixs = Inr n \<longleftrightarrow>
     list_all (readable account) ixs \<and> n = received + sum_list (map (movement account) ixs)"
proof (induction ixs arbitrary: received)
  case (Cons ix ixs)
  then show ?case
    unfolding loopE.simps bindE_Inr previewStep_Inr by (simp add: add.assoc)
qed auto

text \<open>The amount a preview may show for a request.\<close>

definition preview_amount_ok :: "bool \<Rightarrow> int \<Rightarrow> int \<Rightarrow> bool" where
  "preview_amount_ok yieldRealize requested received \<longleftrightarrow> 0 < received \<and> received \<le> requested + 10
     \<and> requested - (if yieldRealize then 0 else 10) \<le> received"

definition previewed :: "intent_env \<Rightarrow> string \<Rightarrow> VaultConfig \<Rightarrow> int \<Rightarrow> bool \<Rightarrow> Simulation answer \<Rightarrow> bool" where
  "previewed E wallet vault requested yieldRealize simulated \<longleftrightarrow>
     (\<exists>account simulation. ataOf E wallet (vc_usdcMint vault) = Inr account \<and> simulated = Inr simulation
        \<and> \<not> sn_failed simulation
        \<and> list_all (readable account) (concat (sn_innerInstructions simulation))
        \<and> preview_amount_ok yieldRealize requested
            (sum_list (map (movement account) (concat (sn_innerInstructions simulation)))))"

lemma preview_bounds:
  "\<not> (received \<le> 0 \<or> received > requested + WITHDRAWAL_ROUNDING_RAW_USDC
     \<or> received < (if yieldRealize then requested else requested - WITHDRAWAL_ROUNDING_RAW_USDC))
   \<longleftrightarrow> preview_amount_ok yieldRealize requested received"
  by (cases yieldRealize) (auto simp: preview_amount_ok_def WITHDRAWAL_ROUNDING_RAW_USDC_def)

lemma assertWithdrawalPreview_Inr:
  "assertWithdrawalPreview E wallet vault requested yieldRealize simulated = Inr u \<longleftrightarrow>
     previewed E wallet vault requested yieldRealize simulated" for u :: unit
  unfolding assertWithdrawalPreview_def previewed_def Let_def bindE_Inr checkE_Inr plainE_Inr preview_loop
    preview_bounds
  by simp

section \<open>Runs\<close>

lemma bindW_simps [simp]:
  "bindW (Inl e, log) f = (Inl e, log)"
  "bindW (Inr x, log) f = (fst (f x), log @ snd (f x))"
  "pureW r = (r, [])" "tellW ev r = (r, [ev])"
  by (simp_all add: bindW_def pureW_def tellW_def)

lemma signWithdrawal_Inr:
  "signWithdrawal E S now key intent text tables = Inr tx \<longleftrightarrow>
     wsi_wallet intent = as_walletAddress S
     \<and> validateWithdrawalIntentTransaction E intent text tables (Some (as_policy S)) now = Inr ()
     \<and> key text = Inr tx"
  by (auto simp: signWithdrawal_def assertIntentWallet_def bindE_Inr)

definition signable :: "intent_env \<Rightarrow> vault_client \<Rightarrow> int \<Rightarrow> client_answers \<Rightarrow> PreparedWithdrawal \<Rightarrow> signed_transaction \<Rightarrow> bool" where
  "signable E C now A prepared tx \<longleftrightarrow>
     (\<exists>tables. ca_lookupTables A (pd_serializedTransaction prepared) = Inr tables
        \<and> wsi_wallet (pd_signingIntent prepared) = walletOf C
        \<and> validateWithdrawalIntentTransaction E (pd_signingIntent prepared) (pd_serializedTransaction prepared)
            (Some tables) (Some (as_policy (cf_signer C))) now = Inr ()
        \<and> ca_key A (pd_serializedTransaction prepared) = Inr tx)"

lemma signed_Inr:
  "bindE (ca_lookupTables A (pd_serializedTransaction prepared)) (\<lambda>tables.
     signWithdrawal E (cf_signer C) now (ca_key A) (pd_signingIntent prepared)
       (pd_serializedTransaction prepared) (Some tables)) = Inr tx \<longleftrightarrow> signable E C now A prepared tx"
  by (auto simp: bindE_Inr signWithdrawal_Inr signable_def)

text \<open>The log of a submission: nothing before the checks, then the notice and the request.\<close>

lemma submitPreparedWithdrawal_log:
  "snd (submitPreparedWithdrawal E C now A notify prepared input) = log \<longleftrightarrow>
     (if previewed E (walletOf C) (cf_vault C) (vwi_amountRawUsdc input) (vwi_yieldRealize input)
           (ca_simulation A (pd_serializedTransaction prepared)) \<and> (\<exists>tx. signable E C now A prepared tx)
      then \<exists>tx. signable E C now A prepared tx
        \<and> log = (if notify then [BeforeSubmit] else []) @ [SubmittedWithdrawal (pd_withdrawalId prepared) tx]
      else log = [])"
proof (cases "assertWithdrawalPreview E (walletOf C) (cf_vault C) (vwi_amountRawUsdc input)
    (vwi_yieldRealize input) (ca_simulation A (pd_serializedTransaction prepared))")
  case (Inl e)
  then have "\<not> previewed E (walletOf C) (cf_vault C) (vwi_amountRawUsdc input) (vwi_yieldRealize input)
      (ca_simulation A (pd_serializedTransaction prepared))"
    using assertWithdrawalPreview_Inr [of E "walletOf C" "cf_vault C" "vwi_amountRawUsdc input"
      "vwi_yieldRealize input" "ca_simulation A (pd_serializedTransaction prepared)" "()"] by simp
  then show ?thesis using Inl by (auto simp: submitPreparedWithdrawal_def)
next
  case (Inr u)
  then have previewed: "previewed E (walletOf C) (cf_vault C) (vwi_amountRawUsdc input) (vwi_yieldRealize input)
      (ca_simulation A (pd_serializedTransaction prepared))"
    by (simp add: assertWithdrawalPreview_Inr)
  let ?sign = "bindE (ca_lookupTables A (pd_serializedTransaction prepared)) (\<lambda>tables.
     signWithdrawal E (cf_signer C) now (ca_key A) (pd_signingIntent prepared)
       (pd_serializedTransaction prepared) (Some tables))"
  show ?thesis
  proof (cases ?sign)
    case (Inl e)
    then have "\<not> signable E C now A prepared tx" for tx
      using signed_Inr [of A prepared E C now tx] by simp
    then show ?thesis using Inr Inl by (auto simp: submitPreparedWithdrawal_def)
  next
    case sign: (Inr tx)
    then have only: "signable E C now A prepared tx' \<longleftrightarrow> tx' = tx" for tx'
      using signed_Inr [of A prepared E C now tx'] by auto
    show ?thesis
      by (cases "ca_submitWithdrawal A"; cases "pollUntilTerminal vwo_status (projr (ca_submitWithdrawal A)) (ca_pollWithdrawal A)")
        (auto simp: submitPreparedWithdrawal_def Inr sign only previewed)
  qed
qed

section \<open>Withdrawals\<close>

definition matches_request :: "vault_client \<Rightarrow> VaultWithdrawalInput \<Rightarrow> PreparedWithdrawal \<Rightarrow> bool" where
  "matches_request C input prepared \<longleftrightarrow>
     wsi_wallet (pd_signingIntent prepared) = walletOf C
     \<and> wsi_vault (pd_signingIntent prepared) = vc_address (cf_vault C)
     \<and> pd_requestedWithdrawRawUsdc prepared = toString (vwi_amountRawUsdc input)
     \<and> pd_purpose prepared = (if vwi_yieldRealize input then ''yield_realize'' else ''normal'')
     \<and> (vwi_yieldRealize input \<longrightarrow> \<not> wsi_allowFullExit (pd_signingIntent prepared))
     \<and> pd_withdrawalId prepared \<noteq> []"

lemma assertPreparedWithdrawal_Inr:
  "assertPreparedWithdrawal C prepared input = Inr u \<longleftrightarrow> matches_request C input prepared" for u :: unit
  by (auto simp: assertPreparedWithdrawal_def matches_request_def)

definition submittable :: "intent_env \<Rightarrow> vault_client \<Rightarrow> int \<Rightarrow> client_answers \<Rightarrow> VaultWithdrawalInput
    \<Rightarrow> PreparedWithdrawal \<Rightarrow> signed_transaction \<Rightarrow> bool" where
  "submittable E C now A input prepared tx \<longleftrightarrow>
     previewed E (walletOf C) (cf_vault C) (vwi_amountRawUsdc input) (vwi_yieldRealize input)
       (ca_simulation A (pd_serializedTransaction prepared))
     \<and> signable E C now A prepared tx"

lemma submitPreparedWithdrawal_submits:
  "SubmittedWithdrawal i tx \<in> set (snd (submitPreparedWithdrawal E C now A notify prepared input)) \<longleftrightarrow>
     i = pd_withdrawalId prepared \<and> submittable E C now A input prepared tx"
proof -
  have unique: "signable E C now A prepared tx \<Longrightarrow> signable E C now A prepared tx' \<Longrightarrow> tx = tx'" for tx tx'
    by (auto simp: signable_def)
  show ?thesis
    using submitPreparedWithdrawal_log [of E C now A notify prepared input
        "snd (submitPreparedWithdrawal E C now A notify prepared input)"]
    unfolding submittable_def by (auto split: if_splits dest: unique simp del: split_paired_Ex split_paired_All)
qed

text \<open>The notice comes with every submission, and only then.\<close>

lemma submitPreparedWithdrawal_notice:
  "BeforeSubmit \<in> set (snd (submitPreparedWithdrawal E C now A True prepared input)) \<longleftrightarrow>
     (\<exists>i tx. SubmittedWithdrawal i tx \<in> set (snd (submitPreparedWithdrawal E C now A True prepared input)))"
  using submitPreparedWithdrawal_log [of E C now A True prepared input
      "snd (submitPreparedWithdrawal E C now A True prepared input)"]
  by (auto split: if_splits)

lemma withdraw_log:
  "snd (withdraw E C now A notify input) = AskedWithdrawal input #
     (case ca_prepareWithdrawal A of
        Inl _ \<Rightarrow> []
      | Inr prepared \<Rightarrow>
          if matches_request C input prepared \<and> \<not> isl (ca_onPrepared A prepared)
          then Checkpointed prepared # snd (submitPreparedWithdrawal E C now A notify prepared input)
          else [])"
proof (cases "ca_prepareWithdrawal A")
  case (Inr prepared)
  show ?thesis
    using assertPreparedWithdrawal_Inr [of C prepared input "()"]
    by (cases "assertPreparedWithdrawal C prepared input"; cases "ca_onPrepared A prepared")
      (simp_all add: withdraw_def Inr)
qed (simp add: withdraw_def)

text \<open>
  C6: a withdrawal is submitted exactly when the relayer prepared one that matches the request
  of the wallet and its vault, the durable checkpoint of it succeeded, the client's own node
  simulates a transfer of the requested amount into the wallet's token account, at most ten raw
  units more and never less for a payment, the signer's structured validation accepts the
  transaction for its pinned vault, and the key signed that transaction.
\<close>

theorem withdrawals_are_checked_before_submission:
  "SubmittedWithdrawal i tx \<in> set (snd (withdraw E C now A notify input)) \<longleftrightarrow>
     (\<exists>prepared. ca_prepareWithdrawal A = Inr prepared \<and> i = pd_withdrawalId prepared
        \<and> matches_request C input prepared \<and> ca_onPrepared A prepared = Inr ()
        \<and> submittable E C now A input prepared tx)"
proof (cases "ca_prepareWithdrawal A")
  case (Inr prepared)
  show ?thesis
    by (cases "ca_onPrepared A prepared") (auto simp: withdraw_log Inr submitPreparedWithdrawal_submits)
qed (simp add: withdraw_log)

section \<open>Realizations\<close>

lemma withdraw_notice:
  "BeforeSubmit \<in> set (snd (withdraw E C now A True input)) \<longleftrightarrow>
     (\<exists>i tx. SubmittedWithdrawal i tx \<in> set (snd (withdraw E C now A True input)))"
  by (auto simp: withdraw_log submitPreparedWithdrawal_notice split: sum.split)

lemma assertSpendableYield_log: "snd (assertSpendableYield A amount) = [SyncedFromChain]"
  by (cases "ca_budget A"; cases "plainE (BigIntR (orDefault (projr (ca_budget A)) ''0''))")
    (auto simp: assertSpendableYield_def spendableYieldText_def Let_def)

lemma assertSpendableYield_Inr:
  "fst (assertSpendableYield A amount) = Inr u \<longleftrightarrow>
     (\<exists>text spendable. ca_budget A = Inr text \<and> js_BigInt (orDefault text ''0'') = Some spendable
        \<and> amount + 2500 \<le> spendable)" for u :: unit
proof (cases "ca_budget A")
  case (Inr shown)
  then show ?thesis
    by (cases "js_BigInt (orDefault shown ''0'')")
      (auto simp: assertSpendableYield_def spendableYieldText_def REALIZE_OVERHEAD_RAW_USDC_def BigIntR_def
        plainE_def Let_def)
qed (simp add: assertSpendableYield_def spendableYieldText_def Let_def)

lemma assertSpendableYield_Inl:
  "fst (assertSpendableYield A amount) = Inl e \<Longrightarrow> \<exists>reason. e = RelayerRealizeError reason True"
  by (auto simp: assertSpendableYield_def Let_def split: sum.splits if_splits)

text \<open>The two ways a realization goes: stopped by the budget, or on to a withdrawal.\<close>

lemma ensure_cases:
  "relayerEnsureUsdcAvailable E C now A amount payment approvalId =
     (case fst (assertSpendableYield A amount) of
        Inl e \<Rightarrow> (Inl e, [SyncedFromChain])
      | Inr _ \<Rightarrow>
          let w = withdraw E C now A True (realizeInput amount payment approvalId) in
          (case fst w of
             Inl PayerError \<Rightarrow> Inl PayerErrorThrown
           | Inl e \<Rightarrow> Inl (mapWithdrawError e (BeforeSubmit \<notin> set (snd w)))
           | Inr outcome \<Rightarrow> confirmedRealization outcome, SyncedFromChain # snd w))"
  by (simp add: relayerEnsureUsdcAvailable_def Let_def case_prod_beta assertSpendableYield_log split: sum.split)

lemma mapWithdrawError_safe:
  "mapWithdrawError e safe = RelayerRealizeError reason safe' \<Longrightarrow> safe' = safe"
  by (auto simp: mapWithdrawError_def split: client_error.splits)

lemma mapWithdrawError_other: "mapWithdrawError e safe \<noteq> OtherErrorThrown"
  by (auto simp: mapWithdrawError_def split: client_error.splits)

lemma confirmedRealization_unsafe: "confirmedRealization outcome = Inl e \<Longrightarrow> e = RelayerRealizeError reason safe \<Longrightarrow> \<not> safe"
  by (auto simp: confirmedRealization_def split: if_splits option.splits)

lemma confirmedRealization_Inr:
  "confirmedRealization outcome = Inr r \<longleftrightarrow> vwo_status outcome = ''confirmed'' \<and> vwo_txSignature outcome \<noteq> None
     \<and> js_BigInt (orDefault (vwo_actualWithdrawRawUsdc outcome) ''0'') = Some (rr_realizedRawUsdc r)
     \<and> rr_txSignature r = vwo_txSignature outcome \<and> rr_withdrawalId r = Some (vwo_withdrawalId outcome)"
  by (cases r) (auto simp: confirmedRealization_def split: option.split)

lemma submitPreparedWithdrawal_Inr:
  assumes "fst (submitPreparedWithdrawal E C now A notify prepared input) = Inr outcome"
  shows "\<exists>tx. submittable E C now A input prepared tx \<and> vwo_withdrawalId outcome = pd_withdrawalId prepared"
proof -
  obtain u where preview: "assertWithdrawalPreview E (walletOf C) (cf_vault C) (vwi_amountRawUsdc input)
      (vwi_yieldRealize input) (ca_simulation A (pd_serializedTransaction prepared)) = Inr u"
    using assms by (cases "assertWithdrawalPreview E (walletOf C) (cf_vault C) (vwi_amountRawUsdc input)
      (vwi_yieldRealize input) (ca_simulation A (pd_serializedTransaction prepared))")
      (auto simp: submitPreparedWithdrawal_def)
  let ?sign = "bindE (ca_lookupTables A (pd_serializedTransaction prepared)) (\<lambda>tables.
     signWithdrawal E (cf_signer C) now (ca_key A) (pd_signingIntent prepared)
       (pd_serializedTransaction prepared) (Some tables))"
  obtain tx where sign: "?sign = Inr tx"
    using assms preview by (cases ?sign) (auto simp: submitPreparedWithdrawal_def)
  have "vwo_withdrawalId outcome = pd_withdrawalId prepared"
    using assms preview sign
    by (cases "ca_submitWithdrawal A";
        cases "pollUntilTerminal vwo_status (projr (ca_submitWithdrawal A)) (ca_pollWithdrawal A)")
      (auto simp: submitPreparedWithdrawal_def withdrawalOutcome_def split: if_splits)
  then show ?thesis
    using preview sign unfolding submittable_def signed_Inr assertWithdrawalPreview_Inr by blast
qed

lemma withdraw_Inr:
  assumes "fst (withdraw E C now A notify input) = Inr outcome"
  shows "\<exists>prepared tx. ca_prepareWithdrawal A = Inr prepared \<and> matches_request C input prepared
    \<and> ca_onPrepared A prepared = Inr () \<and> submittable E C now A input prepared tx
    \<and> vwo_withdrawalId outcome = pd_withdrawalId prepared"
proof (cases "ca_prepareWithdrawal A")
  case (Inr prepared)
  have "matches_request C input prepared \<and> ca_onPrepared A prepared = Inr ()
    \<and> fst (submitPreparedWithdrawal E C now A notify prepared input) = Inr outcome"
    using assms assertPreparedWithdrawal_Inr [of C prepared input "()"]
    by (cases "assertPreparedWithdrawal C prepared input"; cases "ca_onPrepared A prepared")
      (auto simp: withdraw_def Inr)
  then show ?thesis using Inr submitPreparedWithdrawal_Inr by blast
qed (use assms in \<open>simp add: withdraw_def\<close>)

lemma withdraw_submitted:
  assumes "fst (withdraw E C now A notify input) = Inr outcome"
  shows "\<exists>i tx. SubmittedWithdrawal i tx \<in> set (snd (withdraw E C now A notify input))"
proof -
  obtain prepared tx where prepared: "ca_prepareWithdrawal A = Inr prepared" "matches_request C input prepared"
    "ca_onPrepared A prepared = Inr ()" "submittable E C now A input prepared tx"
    using withdraw_Inr [OF assms] by blast
  then have "SubmittedWithdrawal (pd_withdrawalId prepared) tx
      \<in> set (snd (submitPreparedWithdrawal E C now A notify prepared input))"
    using submitPreparedWithdrawal_submits by blast
  then show ?thesis using prepared by (auto simp: withdraw_log simp del: split_paired_Ex)
qed

text \<open>
  C24: a realization that fails with the realizer's own error carries the mark of a safe retry
  exactly when no withdrawal was submitted, also when a submitted withdrawal did not confirm.
  Any other error carries no mark: it is the payer's own error passed through, or the
  unreadable amount of a withdrawal that was submitted.
\<close>

theorem safe_retry_exactly_when_not_submitted:
  assumes "fst (relayerEnsureUsdcAvailable E C now A amount payment approvalId) = Inl e"
  shows "(\<forall>reason safe. e = RelayerRealizeError reason safe \<longrightarrow>
      (safe \<longleftrightarrow> (\<forall>i tx. SubmittedWithdrawal i tx
        \<notin> set (snd (relayerEnsureUsdcAvailable E C now A amount payment approvalId)))))
    \<and> (e = OtherErrorThrown \<longrightarrow> (\<exists>i tx. SubmittedWithdrawal i tx
        \<in> set (snd (relayerEnsureUsdcAvailable E C now A amount payment approvalId))))"
proof (cases "fst (assertSpendableYield A amount)")
  case (Inl e')
  then show ?thesis using assms assertSpendableYield_Inl [OF Inl] by (auto simp: ensure_cases)
next
  case (Inr u)
  let ?w = "withdraw E C now A True (realizeInput amount payment approvalId)"
  have log: "SubmittedWithdrawal i tx \<in> set (snd (relayerEnsureUsdcAvailable E C now A amount payment approvalId))
      \<longleftrightarrow> SubmittedWithdrawal i tx \<in> set (snd ?w)" for i tx
    using Inr by (simp add: ensure_cases Let_def)
  show ?thesis
  proof (cases "fst ?w")
    case (Inl e')
    then have "e = PayerErrorThrown \<or> mapWithdrawError e' (BeforeSubmit \<notin> set (snd ?w)) = e"
      using assms Inr by (cases e') (auto simp: ensure_cases Let_def)
    then show ?thesis
      unfolding log using withdraw_notice [of E C now A "realizeInput amount payment approvalId"]
        mapWithdrawError_safe mapWithdrawError_other by blast
  next
    case outcome: (Inr outcome)
    then have "confirmedRealization outcome = Inl e"
      using assms Inr by (simp add: ensure_cases Let_def)
    then show ?thesis
      unfolding log using withdraw_submitted [OF outcome] confirmedRealization_unsafe by blast
  qed
qed

section \<open>A realization whose submission is lost\<close>

definition refused_answers :: client_answers where
  "refused_answers = \<lparr>ca_prepareDeposit = (\<lambda>_. Inl OtherError), ca_approvals = Inl OtherError,
     ca_submitDeposit = Inl OtherError, ca_pollDeposit = [],
     ca_prepareWithdrawal = Inl (FlowClientError step_prepare (Some ''approval_required'')),
     ca_onPrepared = (\<lambda>_. Inr ()), ca_currentWithdrawal = Inl OtherError,
     ca_simulation = (\<lambda>_. Inl OtherError), ca_lookupTables = (\<lambda>_. Inl OtherError),
     ca_key = (\<lambda>_. Inl OtherError), ca_submitWithdrawal = Inl OtherError, ca_pollWithdrawal = [],
     ca_budget = Inr (Some ''9000'')\<rparr>"

text \<open>A withdrawal of 5000 that passes every check and is submitted, and its outcome is not a confirmation.\<close>

definition withdrawal_message :: CompiledMessage where
  "withdrawal_message =
     \<lparr>cm_version = Some 0, cm_numSignerAccounts = 2,
      cm_staticAccounts = [''sponsor'', ''wallet'', ''usdc'', KVAULT_PROGRAM_ID, ''vault'', ''shares'', ''wallet-ata'', ''config''],
      cm_addressTableLookups = None,
      cm_instructions = [\<lparr>ci_programAddressIndex = 3, ci_accountIndices = Some [1, 4, 7, 7, 7, 6, 2, 6, 5],
        ci_data = Some (KVAULT_WITHDRAW_DISCRIMINATOR @ [100, 0, 0, 0, 0, 0, 0, 0])\<rparr>]\<rparr>"

definition realizing_env :: intent_env where
  "realizing_env = sample_intent_env\<lparr>iv_decodeMessage := \<lambda>_. Inr withdrawal_message\<rparr>"

definition realizing_client :: vault_client where
  "realizing_client = \<lparr>cf_signer = newSigner realizing_env ''wallet'' None, cf_vault = iv_defaultVault realizing_env\<rparr>"

definition realizing_intent :: WithdrawalSigningIntent where
  "realizing_intent = \<lparr>wsi_wallet = ''wallet'', wsi_vault = ''vault'', wsi_farm = ''farm'', wsi_shareMint = ''shares'',
     wsi_asset = ''usdc'', wsi_destinationUsdcAta = ''wallet-ata'', wsi_maxSharesToRedeemRaw = ''120'',
     wsi_allowFullExit = False, wsi_feePayer = ''sponsor'', wsi_expiresAt = AtMs 1000,
     wsi_preparedMessageHash = ''message-hash''\<rparr>"

definition realizing_simulation :: Simulation where
  "realizing_simulation = \<lparr>sn_failed = False, sn_innerInstructions = [[\<lparr>ii_programId = SPL_TOKEN_PROGRAM_ID,
     ii_parsed = Some (JString ''transfer'', Some \<lparr>ti_source = Some ''vault-ata'', ti_destination = Some ''wallet-ata'',
       ti_amount = Some (JString ''5000''), ti_tokenAmount = None\<rparr>)\<rparr>]]\<rparr>"

definition realizing_withdrawal :: PreparedWithdrawal where
  "realizing_withdrawal = \<lparr>pd_requestedWithdrawRawUsdc = toString 5000, pd_purpose = ''yield_realize'',
     pd_withdrawalId = ''wdr_1'', pd_serializedTransaction = ''ACo='', pd_destinationUsdcAta = ''wallet-ata'',
     pd_signingIntent = realizing_intent\<rparr>"

definition unconfirmed_answers :: client_answers where
  "unconfirmed_answers = refused_answers\<lparr>ca_prepareWithdrawal := Inr realizing_withdrawal,
     ca_simulation := \<lambda>_. Inr realizing_simulation,
     ca_lookupTables := \<lambda>_. Inr (\<lambda>_. None), ca_key := \<lambda>_. Inr (''signed'', ''sig''),
     ca_submitWithdrawal := Inr \<lparr>vwo_withdrawalId = ''wdr_1'', vwo_status = ''submitted'', vwo_txSignature = Some ''sig'',
       vwo_destinationUsdcAta = None, vwo_actualWithdrawRawUsdc = None, vwo_actualSharesBurnedRaw = None,
       vwo_errorCode = None\<rparr>\<rparr>"

lemma realizing_validated:
  "validateWithdrawalIntentTransaction realizing_env realizing_intent ''ACo='' (Some (\<lambda>_. None))
     (Some (as_policy (newSigner realizing_env ''wallet'' None))) 500 = Inr ()"
  by code_simp

lemma realizing_previewed:
  "assertWithdrawalPreview realizing_env ''wallet'' (iv_defaultVault realizing_env) 5000 True
     (Inr realizing_simulation) = Inr ()"
  by code_simp

lemma realizing_budget: "js_BigInt ''9000'' = Some 9000"
  by code_simp

lemma unconfirmed_run:
  "fst (relayerEnsureUsdcAvailable realizing_env realizing_client 500 unconfirmed_answers 5000 None None)
     = Inl (RelayerRealizeError realize_not_confirmed False)"
proof -
  have budget: "fst (assertSpendableYield unconfirmed_answers 5000) = Inr ()"
    unfolding assertSpendableYield_Inr by (simp add: unconfirmed_answers_def refused_answers_def orDefault_def realizing_budget)
  have client: "as_walletAddress (newSigner E w p) = w" "cf_signer realizing_client = newSigner realizing_env ''wallet'' None"
    "cf_vault realizing_client = iv_defaultVault realizing_env" "vc_address (iv_defaultVault realizing_env) = ''vault''" for E w p
    by (simp_all add: newSigner_def realizing_client_def realizing_env_def sample_intent_env_def Let_def)
  have prepared: "pd_serializedTransaction realizing_withdrawal = ''ACo=''"
    "matches_request realizing_client (realizeInput 5000 None None) realizing_withdrawal"
    by (simp_all add: matches_request_def client realizeInput_def realizing_withdrawal_def realizing_intent_def)
  have answers: "ca_prepareWithdrawal unconfirmed_answers = Inr realizing_withdrawal"
    "ca_onPrepared unconfirmed_answers p = Inr ()" "ca_lookupTables unconfirmed_answers t = Inr (\<lambda>_. None)"
    "ca_key unconfirmed_answers t = Inr (''signed'', ''sig'')" "ca_pollWithdrawal unconfirmed_answers = []"
    "ca_simulation unconfirmed_answers t = Inr realizing_simulation" for p t
    by (simp_all add: unconfirmed_answers_def refused_answers_def)
  have bound: "assertPreparedWithdrawal realizing_client realizing_withdrawal (realizeInput 5000 None None) = Inr ()"
    using prepared(2) by (simp add: assertPreparedWithdrawal_Inr)
  have signed: "signWithdrawal realizing_env (newSigner realizing_env ''wallet'' None) 500 (ca_key unconfirmed_answers)
      (pd_signingIntent realizing_withdrawal) ''ACo='' (Some (\<lambda>_. None)) = Inr (''signed'', ''sig'')"
    unfolding signWithdrawal_Inr using realizing_validated
    by (simp add: answers client realizing_withdrawal_def) (simp add: realizing_intent_def)
  have request: "vwi_amountRawUsdc (realizeInput a p i) = a" "vwi_yieldRealize (realizeInput a p i)" for a p i
    by (simp_all add: realizeInput_def)
  obtain first where first: "ca_submitWithdrawal unconfirmed_answers = Inr first" "vwo_status first = ''submitted''"
    by (simp add: unconfirmed_answers_def)
  have "fst (withdraw realizing_env realizing_client 500 unconfirmed_answers True (realizeInput 5000 None None))
      = Inr (withdrawalOutcome realizing_withdrawal first)"
    using first by (simp add: withdraw_def submitPreparedWithdrawal_def answers bound prepared(1) signed client request
        realizing_previewed)
  then show ?thesis
    using first(2) by (simp add: ensure_cases budget Let_def withdrawalOutcome_def confirmedRealization_def)
qed

theorem safe_retry_exactly_when_not_submitted_witness:
  "\<exists>i tx. SubmittedWithdrawal i tx
     \<in> set (snd (relayerEnsureUsdcAvailable realizing_env realizing_client 500 unconfirmed_answers 5000 None None))"
  using safe_retry_exactly_when_not_submitted [OF unconfirmed_run] by blast

section \<open>What a realization is worth\<close>

text \<open>
  A realization that succeeds had the yield to spend, with the fee headroom, and its withdrawal
  was one that matches the request and passed every check.
\<close>

lemma realized_only_from_checked_yield:
  assumes "fst (relayerEnsureUsdcAvailable E C now A amount payment approvalId) = Inr r"
  shows "(\<exists>text spendable. ca_budget A = Inr text \<and> js_BigInt (orDefault text ''0'') = Some spendable
      \<and> amount + 2500 \<le> spendable)
    \<and> (\<exists>prepared tx. ca_prepareWithdrawal A = Inr prepared \<and> rr_withdrawalId r = Some (pd_withdrawalId prepared)
        \<and> matches_request C (realizeInput amount payment approvalId) prepared
        \<and> submittable E C now A (realizeInput amount payment approvalId) prepared tx)"
proof (cases "fst (assertSpendableYield A amount)")
  case (Inr u)
  let ?w = "withdraw E C now A True (realizeInput amount payment approvalId)"
  obtain outcome where outcome: "fst ?w = Inr outcome" "confirmedRealization outcome = Inr r"
    using assms Inr by (cases "fst ?w") (auto simp: ensure_cases Let_def split: client_error.splits)
  have yield: "\<exists>text spendable. ca_budget A = Inr text \<and> js_BigInt (orDefault text ''0'') = Some spendable
      \<and> amount + 2500 \<le> spendable"
    using Inr unfolding assertSpendableYield_Inr .
  have "rr_withdrawalId r = Some (vwo_withdrawalId outcome)"
    using outcome(2) unfolding confirmedRealization_Inr by blast
  then show ?thesis using yield withdraw_Inr [OF outcome(1)] by metis
qed (use assms in \<open>simp add: ensure_cases\<close>)

section \<open>Reading an operation\<close>

text \<open>A read that succeeds is about the operation asked for, and a confirmed one is complete.\<close>

lemma getOperationStatus_Inr:
  assumes "getOperationStatus C getJson intentId = Inr s"
  shows "vos_intentId s = intentId \<and> vaultOperationKind intentId = Inr (vos_kind s)
    \<and> vos_wallet s = walletOf C \<and> vos_vault s = vc_address (cf_vault C)
    \<and> (vos_nextAction s = done_action \<longleftrightarrow> vos_status s = ''confirmed'')
    \<and> (vos_status s = ''confirmed'' \<longrightarrow> vos_actualAmountRawUsdc s \<noteq> None \<and> vos_txSignature s \<noteq> None)"
proof -
  obtain operation response where read: "vaultOperationKind intentId = Inr operation"
      "getJson operation = Inr response"
    using assms unfolding getOperationStatus_def bindE_Inr by blast
  obtain rec where rec: "response = JObject rec"
    using assms by (cases response) (simp_all add: getOperationStatus_def read)
  let ?text = "\<lambda>k. jsonText (member k rec)"
  let ?actual = "if operation = deposit_kind then ''actualDepositRawUsdc'' else ''actualWithdrawRawUsdc''"
  have fields: "operationFieldsOk operation rec"
    and s: "vos_intentId s = intentId" "vos_kind s = operation" "vos_wallet s = walletOf C"
      "vos_vault s = vc_address (cf_vault C)" "vos_status s = orDefault (?text ''status'') []"
      "vos_nextAction s = operationNextAction (vos_status s)"
      "vos_actualAmountRawUsdc s = ?text ?actual" "vos_txSignature s = ?text ''txSignature''"
    using assms by (auto simp: getOperationStatus_def read rec bindE_Inr Let_def)
  have complete: "jsonText v \<noteq> None" if "nullOr ok v" "v \<noteq> Some JNull" "\<And>v. ok v \<Longrightarrow> jsonText v \<noteq> None" for ok v
    using that by (auto simp: nullOr_def)
  have texts: "digitText v \<Longrightarrow> jsonText v \<noteq> None" "nonEmptyText v \<noteq> None \<Longrightarrow> jsonText v \<noteq> None" for v
    by (auto simp: digitText_def nonEmptyText_def jsonText_def split: option.splits json.splits)
  have "vos_actualAmountRawUsdc s \<noteq> None \<and> vos_txSignature s \<noteq> None" if "vos_status s = ''confirmed''"
  proof -
    have "?text ''status'' = Some ''confirmed''"
      using that by (simp add: s orDefault_def split: option.splits)
    then have "nullOr digitText (member ?actual rec)" "member ?actual rec \<noteq> Some JNull"
      "nullOr (\<lambda>v. nonEmptyText v \<noteq> None) (member ''txSignature'' rec)"
      "member ''txSignature'' rec \<noteq> Some JNull"
      using fields unfolding operationFieldsOk_def Let_def by blast+
    then show ?thesis
      unfolding s using complete [OF _ _ texts(1)] complete [OF _ _ texts(2)] by blast
  qed
  then show ?thesis by (simp add: s(1-4,6) read operationNextAction_def)
qed

end
