(* ===== verification/Submission.thy ===== *)
theory Submission
  imports Vault_Core
begin

text \<open>
  The submission engine of \<open>src/src/solana/submission.ts\<close> and the settlement submitter of
  \<open>src/src/domain/kamino-settlement-submitter.ts\<close>. Every call of the RPC node is an answer that
  depends on how many calls came before it, so that the chain may move between any two; a log
  lists what was broadcast and when the submission was recorded.
\<close>

section \<open>The node\<close>

record TokenBalance =
  tb_accountIndex :: nat
  tb_amount :: string

record TransactionMeta =
  tm_err :: json
  tm_fee :: int
  tm_loadedWritable :: "string list"
  tm_loadedReadonly :: "string list"
  tm_preTokenBalances :: "TokenBalance list"
  tm_postTokenBalances :: "TokenBalance list"

record TransactionResponse =
  tr_meta :: "TransactionMeta option"
  tr_accountKeys :: "string list"
  tr_slot :: int

text \<open>\<open>rp_status\<close>: whether the status of a signature is \<open>confirmed\<close> or \<open>finalized\<close>.\<close>

record rpc_node =
  rp_simulate :: "nat \<Rightarrow> string \<Rightarrow> json result"
  rp_send :: "nat \<Rightarrow> string \<Rightarrow> string result"
  rp_status :: "nat \<Rightarrow> string \<Rightarrow> bool result"
  rp_blockHeight :: "nat \<Rightarrow> int result"
  rp_transaction :: "nat \<Rightarrow> string \<Rightarrow> TransactionResponse option result"

datatype chain_event = RecordedSubmission | Broadcast string

record chain_world =
  cw_calls :: nat
  cw_events :: "chain_event list"

definition rpcCall :: "(nat \<Rightarrow> 'a result) \<Rightarrow> (chain_world, 'a) action" where
  "rpcCall f w = (f (cw_calls w), w\<lparr>cw_calls := Suc (cw_calls w)\<rparr>)"

definition chainEvent :: "chain_event \<Rightarrow> (chain_world, unit) action" where
  "chainEvent e = modifyA (\<lambda>w. w\<lparr>cw_events := cw_events w @ [e]\<rparr>)"

section \<open>The engine\<close>

record ConfirmedTransactionSummary =
  ct_err :: json
  ct_feeLamports :: int
  ct_tokenBalanceDeltas :: "string \<Rightarrow> int option"
  ct_slot :: int

definition simulateSignedTransaction :: "rpc_node \<Rightarrow> string \<Rightarrow> (chain_world, json) action" where
  "simulateSignedTransaction R serializedBase64 = rpcCall (\<lambda>n. rp_simulate R n serializedBase64)"

definition sendSignedTransaction :: "rpc_node \<Rightarrow> string \<Rightarrow> (chain_world, string) action" where
  "sendSignedTransaction R serializedBase64 =
     bindA (chainEvent (Broadcast serializedBase64)) (\<lambda>_. rpcCall (\<lambda>n. rp_send R n serializedBase64))"

text \<open>One balance moves the entry of its account; an index outside the keys is skipped.\<close>

definition addBalance :: "int \<Rightarrow> string list \<Rightarrow> (string \<Rightarrow> int option) \<Rightarrow> TokenBalance \<Rightarrow> (string \<Rightarrow> int option) result" where
  "addBalance sign orderedKeys deltas b =
     (if tb_accountIndex b < length orderedKeys then
        let account = orderedKeys ! tb_accountIndex b in
        (case js_BigInt (tb_amount b) of
           None \<Rightarrow> Inl (JsError ''SyntaxError'')
         | Some amount \<Rightarrow> Inr (deltas(account \<mapsto> orElse (deltas account) 0 + sign * amount)))
      else Inr deltas)"

fun addBalances :: "int \<Rightarrow> string list \<Rightarrow> (string \<Rightarrow> int option) \<Rightarrow> TokenBalance list \<Rightarrow> (string \<Rightarrow> int option) result" where
  "addBalances sign orderedKeys deltas [] = Inr deltas"
| "addBalances sign orderedKeys deltas (b # bs) =
     bindR (addBalance sign orderedKeys deltas b) (\<lambda>deltas'. addBalances sign orderedKeys deltas' bs)"

definition orderedKeysOf :: "TransactionResponse \<Rightarrow> TransactionMeta \<Rightarrow> string list" where
  "orderedKeysOf response m = tr_accountKeys response @ tm_loadedWritable m @ tm_loadedReadonly m"

definition summaryOf :: "TransactionResponse \<Rightarrow> TransactionMeta \<Rightarrow> ConfirmedTransactionSummary result" where
  "summaryOf response m =
     (let orderedKeys = orderedKeysOf response m in
      bindR (addBalances (-1) orderedKeys Map.empty (tm_preTokenBalances m)) (\<lambda>before.
      bindR (addBalances 1 orderedKeys before (tm_postTokenBalances m)) (\<lambda>deltas.
      Inr \<lparr>ct_err = tm_err m, ct_feeLamports = tm_fee m, ct_tokenBalanceDeltas = deltas, ct_slot = tr_slot response\<rparr>)))"

definition lookupTransaction :: "rpc_node \<Rightarrow> string \<Rightarrow> (chain_world, ConfirmedTransactionSummary option) action" where
  "lookupTransaction R txSignature =
     bindA (rpcCall (\<lambda>n. rp_transaction R n txSignature)) (\<lambda>response.
     case response of
       None \<Rightarrow> returnA None
     | Some r \<Rightarrow> (case tr_meta r of
           None \<Rightarrow> returnA None
         | Some m \<Rightarrow> liftR (bindR (summaryOf r m) (\<lambda>s. Inr (Some s)))))"

definition EXPIRY_BUFFER :: int where "EXPIRY_BUFFER = 32"

definition isBlockhashExpired :: "rpc_node \<Rightarrow> int option \<Rightarrow> (chain_world, bool) action" where
  "isBlockhashExpired R lastValidBlockHeight = (case lastValidBlockHeight of
       None \<Rightarrow> returnA False
     | Some l \<Rightarrow> bindA (rpcCall (rp_blockHeight R)) (\<lambda>blockHeight. returnA (blockHeight > l + EXPIRY_BUFFER)))"

text \<open>\<open>rounds\<close>: how many times the clock is still before the deadline.\<close>

fun waitForConfirmation :: "rpc_node \<Rightarrow> nat \<Rightarrow> string \<Rightarrow> int option \<Rightarrow> (chain_world, ConfirmationOutcome) action" where
  "waitForConfirmation R 0 txSignature lastValidBlockHeight = returnA ConfirmationTimeout"
| "waitForConfirmation R (Suc rounds) txSignature lastValidBlockHeight =
     bindA (rpcCall (\<lambda>n. rp_status R n txSignature)) (\<lambda>confirmed.
     if confirmed then returnA ConfirmationConfirmed
     else
       bindA (isBlockhashExpired R lastValidBlockHeight) (\<lambda>expired.
       if expired then
         bindA (lookupTransaction R txSignature) (\<lambda>found.
         returnA (if found \<noteq> None then ConfirmationConfirmed else ConfirmationExpired))
       else waitForConfirmation R rounds txSignature lastValidBlockHeight))"

section \<open>The submitter\<close>

text \<open>
  \<open>kx_sign\<close> adds the sponsor's signature: the signed bytes and the sponsor's signature in
  them; \<open>kx_feeLamportsToUsdc\<close> is the price oracle, \<open>kx_stringify\<close> the text of an on-chain error in
  a message and \<open>kx_message\<close> the message of a thrown one.
\<close>

record kamino_submitter =
  kx_rpc :: rpc_node
  kx_sponsor :: string
  kx_sign :: "string \<Rightarrow> (string \<times> string option) result"
  kx_feeLamportsToUsdc :: "(int \<Rightarrow> int result) option"
  kx_stringify :: "json \<Rightarrow> string"
  kx_message :: "error \<Rightarrow> string"
  kx_rounds :: nat

type_synonym 'a submission = "chain_world \<Rightarrow> (SubmissionError + 'a) \<times> chain_world"

definition bindT :: "'a submission \<Rightarrow> ('a \<Rightarrow> 'b submission) \<Rightarrow> 'b submission" where
  "bindT m f w = (case m w of (Inl e, w') \<Rightarrow> (Inl e, w') | (Inr x, w') \<Rightarrow> f x w')"

definition returnT :: "'a \<Rightarrow> 'a submission" where
  "returnT x w = (Inr x, w)"

definition throwT :: "SubmissionError \<Rightarrow> 'a submission" where
  "throwT e w = (Inl e, w)"

text \<open>An error of the node is rethrown as it is; only its message is ever looked at.\<close>

definition engineT :: "kamino_submitter \<Rightarrow> (chain_world, 'a) action \<Rightarrow> 'a submission" where
  "engineT K m w = (case m w of (Inl e, w') \<Rightarrow> (Inl (OtherError (Some (kx_message K e))), w') | (Inr x, w') \<Rightarrow> (Inr x, w'))"

definition preparePaymentSettlementSubmission ::
  "kamino_submitter \<Rightarrow> string option \<Rightarrow> string \<Rightarrow> SubmissionError + PreparedSettlementSubmission" where
  "preparePaymentSettlementSubmission K sponsorFeePayer serializedTransaction =
     (if sponsorFeePayer \<noteq> Some (kx_sponsor K)
      then Inl (SettlementSubmissionError failed_not_submitted ''sponsor_mismatch''
        ''Configured sponsor signer does not match the service sponsor fee payer'' None)
      else case kx_sign K serializedTransaction of
          Inl e \<Rightarrow> Inl (OtherError (Some (kx_message K e)))
        | Inr (_, None) \<Rightarrow> Inl (SettlementSubmissionError failed_not_submitted ''sponsor_signature_missing''
            ''Sponsor signature could not be applied to the settlement transaction'' None)
        | Inr (bytes, Some txSignature) \<Rightarrow>
            Inr \<lparr>sub_txSignature = txSignature, sub_serializedSignedTransaction = bytes\<rparr>)"

definition tryConvertFee :: "kamino_submitter \<Rightarrow> int \<Rightarrow> int option" where
  "tryConvertFee K feeLamports = (case kx_feeLamportsToUsdc K of
       None \<Rightarrow> None
     | Some convert \<Rightarrow> (case convert feeLamports of Inl _ \<Rightarrow> None | Inr fee \<Rightarrow> Some fee))"

definition mapConfirmedTransaction ::
  "kamino_submitter \<Rightarrow> PaymentIntent \<Rightarrow> string \<Rightarrow> ConfirmedTransactionSummary \<Rightarrow> SettlementSubmissionResult" where
  "mapConfirmedTransaction K i txSignature summary =
     (let actualFeeDebtRawUsdc = tryConvertFee K (ct_feeLamports summary) in
      if ct_err summary \<noteq> JNull then
        Failed \<lparr>fr_txSignature = txSignature, fr_errorCode = ''landed_failed'',
          fr_errorMessage = ''Settlement transaction landed but failed on-chain: '' @ kx_stringify K (ct_err summary),
          fr_actualFeeLamports = Some (ct_feeLamports summary), fr_actualFeeDebtRawUsdc = actualFeeDebtRawUsdc\<rparr>
      else
        let sellerDelta = orElse (ct_tokenBalanceDeltas summary (pay_sellerUsdcAta i)) 0;
            dustDelta = (if pay_dustRecipientUsdcAta i = pay_sellerUsdcAta i then None
              else ct_tokenBalanceDeltas summary (pay_dustRecipientUsdcAta i));
            dust = (case dustDelta of None \<Rightarrow> 0 | Some d \<Rightarrow> if d > 0 then d else 0) in
        Settled \<lparr>sr_txSignature = txSignature, sr_actualFeeLamports = Some (ct_feeLamports summary),
          sr_actualFeeDebtRawUsdc = actualFeeDebtRawUsdc, sr_actualSharesRedeemedRaw = Some (pay_sharesToRedeemRaw i),
          sr_sellerTransferRawUsdc = Some sellerDelta, sr_withdrawOutputRawUsdc = Some (sellerDelta + dust),
          sr_dustTransferRawUsdc = Some dust\<rparr>)"

definition expiredResult :: SettlementSubmissionResult where
  "expiredResult = FailedNotSubmitted ''blockhash_expired''
     ''Settlement transaction expired without landing before its last valid block height''"

definition finalizeFromChain :: "kamino_submitter \<Rightarrow> PaymentIntent \<Rightarrow> string \<Rightarrow> SettlementSubmissionResult submission" where
  "finalizeFromChain K i txSignature =
     bindT (engineT K (lookupTransaction (kx_rpc K) txSignature)) (\<lambda>lookup.
     case lookup of
       None \<Rightarrow> throwT (SettlementSubmissionError ambiguous ''confirmed_transaction_not_found''
         ''Settlement was confirmed but the transaction could not be loaded yet'' (Some txSignature))
     | Some summary \<Rightarrow> returnT (mapConfirmedTransaction K i txSignature summary))"

text \<open>The callback \<open>onBeforeSend\<close> is the argument \<open>recorded\<close>: it records the submission or throws.\<close>

definition onBeforeSend :: "unit result \<Rightarrow> (chain_world, unit) action" where
  "onBeforeSend recorded = bindA (liftR recorded) (\<lambda>_. chainEvent RecordedSubmission)"

text \<open>From the broadcast on.\<close>

definition broadcastAndConfirm :: "kamino_submitter \<Rightarrow> PaymentIntent \<Rightarrow> string \<Rightarrow> string \<Rightarrow> SettlementSubmissionResult submission" where
  "broadcastAndConfirm K i txSignature bytes w =
     (case sendSignedTransaction (kx_rpc K) bytes w of
        (Inl e, w') \<Rightarrow> (Inl (SettlementSubmissionError ambiguous ''send_failed''
          (''Settlement send failed: '' @ kx_message K e) (Some txSignature)), w')
      | (Inr _, w') \<Rightarrow>
          bindT (engineT K (waitForConfirmation (kx_rpc K) (kx_rounds K) txSignature (pay_lastValidBlockHeight i))) (\<lambda>confirmation.
          case confirmation of
            ConfirmationExpired \<Rightarrow> returnT expiredResult
          | ConfirmationTimeout \<Rightarrow> throwT (SettlementSubmissionError ambiguous ''confirmation_timeout''
              ''Settlement confirmation timed out; reconcile by stored signature'' (Some txSignature))
          | ConfirmationConfirmed \<Rightarrow> finalizeFromChain K i txSignature) w')"

definition submitPaymentSettlement ::
  "kamino_submitter \<Rightarrow> unit result \<Rightarrow> PaymentIntent \<Rightarrow> string \<Rightarrow> string \<Rightarrow> SettlementSubmissionResult submission" where
  "submitPaymentSettlement K recorded i txSignature bytes =
     bindT (engineT K (lookupTransaction (kx_rpc K) txSignature)) (\<lambda>existing.
     case existing of
       Some summary \<Rightarrow> returnT (mapConfirmedTransaction K i txSignature summary)
     | None \<Rightarrow>
         bindT (engineT K (simulateSignedTransaction (kx_rpc K) bytes)) (\<lambda>simulationErr.
         if simulationErr \<noteq> JNull then
           returnT (FailedNotSubmitted ''simulation_failed''
             (''Settlement simulation failed before submission: '' @ kx_stringify K simulationErr))
         else
           bindT (engineT K (onBeforeSend recorded)) (\<lambda>_. broadcastAndConfirm K i txSignature bytes)))"

definition reconcilePaymentSettlement ::
  "kamino_submitter \<Rightarrow> PaymentIntent \<Rightarrow> SettlementReconciliationResult submission" where
  "reconcilePaymentSettlement K i = (case (pay_txSignature i, pay_submittedSerializedTransaction i) of
       (Some txSignature, Some storedTransaction) \<Rightarrow>
         bindT (engineT K (lookupTransaction (kx_rpc K) txSignature)) (\<lambda>lookup.
         case lookup of
           Some summary \<Rightarrow> returnT (Reconciled (mapConfirmedTransaction K i txSignature summary))
         | None \<Rightarrow>
             bindT (engineT K (isBlockhashExpired (kx_rpc K) (pay_lastValidBlockHeight i))) (\<lambda>expired.
             if expired then returnT (Reconciled expiredResult)
             else (\<lambda>w. (Inr (StillSubmitted (Some txSignature) None),
               snd (sendSignedTransaction (kx_rpc K) storedTransaction w)))))
     | _ \<Rightarrow> returnT (Reconciled (FailedNotSubmitted ''submission_record_missing''
         ''No stored settlement submission record exists for reconciliation'')))"

end
