(* ===== verification/Submission_Outcomes.thy ===== *)
theory Submission_Outcomes
  imports Submission Payment_Accounts
begin

text \<open>
  What the submission engine and the settlement submitter guarantee on a node that reports the
  chain faithfully: when a settlement may be reported as not submitted, what was broadcast, and
  that a settlement which landed is booked by the next reconciliation.
\<close>

section \<open>Runs of the submitter\<close>

lemma bindT_Inr: "bindT m f w = (Inr y, w') \<longleftrightarrow> (\<exists>x v. m w = (Inr x, v) \<and> f x v = (Inr y, w'))"
  by (auto simp: bindT_def split: prod.splits sum.splits)

lemma engineT_Inr [simp]: "engineT K m w = (Inr x, v) \<longleftrightarrow> m w = (Inr x, v)"
  by (auto simp: engineT_def split: prod.splits sum.splits)

lemma returnT_Inr [simp]: "returnT x w = (Inr y, w') \<longleftrightarrow> y = x \<and> w' = w"
  by (auto simp: returnT_def)

lemma throwT_Inr [simp]: "\<not> throwT e w = (Inr y, w')"
  by (simp add: throwT_def)

lemma bindA_Inr: "bindA m f w = (Inr y, w') \<longleftrightarrow> (\<exists>x v. m w = (Inr x, v) \<and> f x v = (Inr y, w'))"
  by (auto simp: bindA_def split: prod.splits sum.splits)

lemma rpcCall_Inr [simp]:
  "rpcCall f w = (Inr x, v) \<longleftrightarrow> f (cw_calls w) = Inr x \<and> v = w\<lparr>cw_calls := Suc (cw_calls w)\<rparr>"
  by (auto simp: rpcCall_def)

lemma returnA_Inr [simp]: "returnA x w = (Inr y, v) \<longleftrightarrow> y = x \<and> v = w"
  by (auto simp: returnA_def)

lemma liftR_Inr_run [simp]: "liftR r w = (Inr y, v) \<longleftrightarrow> r = Inr y \<and> v = w"
  by (auto simp: liftR_def)

section \<open>A node that reports the chain faithfully\<close>

text \<open>
  \<open>seen tx\<close> is the call from which on a lookup finds the transaction, if it ever lands. A
  transaction lands only up to its last valid block, and is found at the latest when the chain
  is 32 blocks past it: this is the buffer of the source.
\<close>

definition found :: "TransactionResponse option \<Rightarrow> bool" where
  "found r \<longleftrightarrow> Option.bind r tr_meta \<noteq> None"

definition faithful_node :: "rpc_node \<Rightarrow> (string \<Rightarrow> nat option) \<Rightarrow> bool" where
  "faithful_node R seen \<longleftrightarrow> (\<forall>n tx r. rp_transaction R n tx = Inr r \<longrightarrow>
     (found r \<longleftrightarrow> (\<exists>t. seen tx = Some t \<and> t \<le> n)))"

definition lands_in_time :: "rpc_node \<Rightarrow> (string \<Rightarrow> nat option) \<Rightarrow> string \<Rightarrow> int \<Rightarrow> bool" where
  "lands_in_time R seen tx l \<longleftrightarrow> (\<forall>n h t. rp_blockHeight R n = Inr h \<longrightarrow> h > l + 32 \<longrightarrow>
     seen tx = Some t \<longrightarrow> t \<le> n)"

lemma lookup_Inr:
  assumes "lookupTransaction R tx w = (Inr x, v)"
  shows "v = w\<lparr>cw_calls := Suc (cw_calls w)\<rparr>"
    and "\<exists>r. rp_transaction R (cw_calls w) tx = Inr r \<and> (x \<noteq> None \<longleftrightarrow> found r)"
proof -
  obtain r where r: "rp_transaction R (cw_calls w) tx = Inr r"
    using assms unfolding lookupTransaction_def bindA_Inr rpcCall_Inr by blast
  have "v = w\<lparr>cw_calls := Suc (cw_calls w)\<rparr> \<and> (x \<noteq> None \<longleftrightarrow> found r)"
  proof (cases "Option.bind r tr_meta")
    case None
    then show ?thesis
      using assms r by (cases r) (auto simp: lookupTransaction_def bindA_Inr found_def)
  next
    case (Some m)
    then show ?thesis
      using assms r by (cases r) (auto simp: lookupTransaction_def bindA_Inr found_def bindR_Inr)
  qed
  then show "v = w\<lparr>cw_calls := Suc (cw_calls w)\<rparr>"
    "\<exists>r. rp_transaction R (cw_calls w) tx = Inr r \<and> (x \<noteq> None \<longleftrightarrow> found r)"
    using r by blast+
qed

lemma lookup_faithful:
  assumes "faithful_node R seen" "lookupTransaction R tx w = (Inr x, v)"
  shows "x \<noteq> None \<longleftrightarrow> (\<exists>t. seen tx = Some t \<and> t \<le> cw_calls w)"
  using assms lookup_Inr(2)[OF assms(2)] unfolding faithful_node_def by blast

lemma expired_Inr:
  "isBlockhashExpired R (Some l) w = (Inr b, v) \<longleftrightarrow>
     (\<exists>h. rp_blockHeight R (cw_calls w) = Inr h \<and> b = (h > l + 32)) \<and> v = w\<lparr>cw_calls := Suc (cw_calls w)\<rparr>"
  by (auto simp: isBlockhashExpired_def bindA_Inr EXPIRY_BUFFER_def)

text \<open>An expiry that is followed by a lookup without a find is final.\<close>

lemma expiry_then_lookup:
  assumes "faithful_node R seen" "lands_in_time R seen tx l"
    and "isBlockhashExpired R (Some l) w = (Inr True, v)" "lookupTransaction R tx v = (Inr None, v')"
  shows "seen tx = None"
proof (rule ccontr)
  assume "seen tx \<noteq> None"
  then obtain t where t: "seen tx = Some t" by blast
  have v: "cw_calls v = Suc (cw_calls w)"
    using assms(3) by (auto simp: expired_Inr)
  have "t \<le> cw_calls w"
    using assms(2,3) t by (auto simp: expired_Inr lands_in_time_def)
  then show False
    using lookup_faithful[OF assms(1,4)] t v by auto
qed

lemma wait_expired:
  assumes "faithful_node R seen" "lands_in_time R seen tx l"
    and "waitForConfirmation R rounds tx (Some l) w = (Inr ConfirmationExpired, w')"
  shows "seen tx = None"
  using assms(3)
proof (induction rounds arbitrary: w)
  case (Suc rounds)
  then show ?case
    using expiry_then_lookup[OF assms(1,2)]
    by (auto simp: bindA_Inr split: if_splits option.splits)
qed simp

section \<open>What is broadcast\<close>

lemma rpcCall_events [simp]: "cw_events (snd (rpcCall f w)) = cw_events w"
  by (simp add: rpcCall_def)

lemma bindA_snd: "snd (bindA m f w) = (case fst (m w) of Inl e \<Rightarrow> snd (m w) | Inr x \<Rightarrow> snd (f x (snd (m w))))"
  by (simp add: bindA_def case_prod_beta split: sum.split)

lemma lookup_events [simp]: "cw_events (snd (lookupTransaction R tx w)) = cw_events w"
  by (auto simp: lookupTransaction_def bindA_snd returnA_def liftR_def split: sum.split option.split)

lemma expired_events [simp]: "cw_events (snd (isBlockhashExpired R l w)) = cw_events w"
  by (auto simp: isBlockhashExpired_def bindA_snd returnA_def split: sum.split option.split)

lemma wait_events [simp]: "cw_events (snd (waitForConfirmation R n tx l w)) = cw_events w"
  by (induction n arbitrary: w) (auto simp: bindA_snd returnA_def split: sum.split)

lemma send_events [simp]: "cw_events (snd (sendSignedTransaction R tx w)) = cw_events w @ [Broadcast tx]"
  by (simp add: sendSignedTransaction_def bindA_snd chainEvent_def modifyA_def)

lemma bindT_snd: "snd (bindT m f w) = (case fst (m w) of Inl e \<Rightarrow> snd (m w) | Inr x \<Rightarrow> snd (f x (snd (m w))))"
  by (simp add: bindT_def case_prod_beta split: sum.split)

lemma engineT_snd [simp]: "snd (engineT K m w) = snd (m w)"
  by (simp add: engineT_def case_prod_beta split: sum.split)

lemma finalize_events [simp]: "cw_events (snd (finalizeFromChain K i tx w)) = cw_events w"
  by (auto simp: finalizeFromChain_def bindT_snd returnT_def throwT_def split: sum.split option.split)

lemma broadcast_events:
  "cw_events (snd (broadcastAndConfirm K i tx bytes w)) = cw_events w @ [Broadcast bytes]"
proof (cases "sendSignedTransaction (kx_rpc K) bytes w")
  case (Pair r w')
  then have "cw_events w' = cw_events w @ [Broadcast bytes]"
    using send_events[of "kx_rpc K" bytes w] by simp
  then show ?thesis
    by (auto simp: broadcastAndConfirm_def Pair bindT_snd returnT_def throwT_def
        split: sum.split ConfirmationOutcome.split)
qed

text \<open>Nothing is broadcast before the submission is recorded, and at most once.\<close>

lemma before_send:
  "engineT K (onBeforeSend recording) w = (case recording of
     Inl e \<Rightarrow> (Inl (OtherError (Some (kx_message K e))), w)
   | Inr u \<Rightarrow> (Inr (), w\<lparr>cw_events := cw_events w @ [RecordedSubmission]\<rparr>))"
  by (simp add: engineT_def onBeforeSend_def bindA_def liftR_def chainEvent_def modifyA_def split: sum.split)

lemma submit_events:
  "cw_events (snd (submitPaymentSettlement K recording i tx bytes w)) = cw_events w
   \<or> recording = Inr () \<and> cw_events (snd (submitPaymentSettlement K recording i tx bytes w))
       = cw_events w @ [RecordedSubmission, Broadcast bytes]"
  by (cases recording)
    (auto simp: submitPaymentSettlement_def bindT_snd returnT_def simulateSignedTransaction_def
      before_send broadcast_events split: sum.split option.split)

section \<open>Submissions\<close>

lemma broadcast_Inr:
  assumes "broadcastAndConfirm K i tx bytes w = (Inr (FailedNotSubmitted code message), w')"
  shows "code = ''blockhash_expired'' \<and> (\<exists>v v'. waitForConfirmation (kx_rpc K) (kx_rounds K) tx
    (pay_lastValidBlockHeight i) v = (Inr ConfirmationExpired, v'))"
proof -
  obtain v x where sent: "sendSignedTransaction (kx_rpc K) bytes w = (Inr x, v)"
    using assms by (auto simp: broadcastAndConfirm_def split: prod.splits sum.splits)
  obtain c v' where c: "waitForConfirmation (kx_rpc K) (kx_rounds K) tx (pay_lastValidBlockHeight i) v = (Inr c, v')"
    and after: "(case c of
        ConfirmationExpired \<Rightarrow> returnT expiredResult
      | ConfirmationTimeout \<Rightarrow> throwT (SettlementSubmissionError ambiguous ''confirmation_timeout''
          ''Settlement confirmation timed out; reconcile by stored signature'' (Some tx))
      | ConfirmationConfirmed \<Rightarrow> finalizeFromChain K i tx) v' = (Inr (FailedNotSubmitted code message), w')"
    using assms by (auto simp: broadcastAndConfirm_def sent bindT_Inr)
  show ?thesis
    using after c
    by (cases c) (auto simp: expiredResult_def finalizeFromChain_def bindT_Inr mapConfirmedTransaction_def Let_def
        split: option.splits if_splits)
qed

text \<open>
  C12: on a node that reports the chain faithfully, a submission that reports a settlement as not
  submitted did one of two things. Either the node refused the transaction in simulation, this
  call has recorded and broadcast nothing, and the transaction was not on chain when the call began; or
  the call recorded the submission, broadcast exactly the signed bytes, and the transaction has expired and
  will never land, whoever broadcast it. (After a refused simulation it can land only through a broadcast
  of another call.)
\<close>

theorem not_submitted_is_unsent_or_expired:
  assumes "faithful_node (kx_rpc K) seen"
    and "pay_lastValidBlockHeight i = Some l" "lands_in_time (kx_rpc K) seen tx l"
    and "submitPaymentSettlement K recording i tx bytes w = (Inr (FailedNotSubmitted code message), w')"
  shows "code = ''simulation_failed'' \<and> cw_events w' = cw_events w
      \<and> (\<exists>err. rp_simulate (kx_rpc K) (Suc (cw_calls w)) bytes = Inr err \<and> err \<noteq> JNull)
      \<and> (\<forall>t. seen tx = Some t \<longrightarrow> cw_calls w < t)
    \<or> code = ''blockhash_expired'' \<and> cw_events w' = cw_events w @ [RecordedSubmission, Broadcast bytes]
      \<and> seen tx = None"
proof -
  obtain x v where x: "lookupTransaction (kx_rpc K) tx w = (Inr x, v)"
    using assms(4) by (auto simp: submitPaymentSettlement_def bindT_Inr)
  have none: "x = None"
    using assms(4) x by (cases x)
      (auto simp: submitPaymentSettlement_def bindT_Inr mapConfirmedTransaction_def Let_def split: if_splits)
  have v: "cw_calls v = Suc (cw_calls w)" "\<forall>t. seen tx = Some t \<longrightarrow> cw_calls w < t"
    using lookup_Inr(1)[OF x] lookup_faithful[OF assms(1) x] none by (simp_all add: not_le)
  obtain err v' where sim: "simulateSignedTransaction (kx_rpc K) bytes v = (Inr err, v')"
    using assms(4) by (auto simp: submitPaymentSettlement_def bindT_Inr x none)
  then have err: "rp_simulate (kx_rpc K) (Suc (cw_calls w)) bytes = Inr err"
    by (simp add: simulateSignedTransaction_def v)
  have events: "cw_events v' = cw_events w"
    using x sim lookup_events[of "kx_rpc K" tx w] by (simp add: simulateSignedTransaction_def)
  show ?thesis
  proof (cases "err = JNull")
    case False
    then show ?thesis using assms(4) events err v(2) by (auto simp: submitPaymentSettlement_def bindT_Inr x none sim)
  next
    case True
    then obtain u where recorded: "engineT K (onBeforeSend recording) v' = (Inr (), u)"
      and sent: "broadcastAndConfirm K i tx bytes u = (Inr (FailedNotSubmitted code message), w')"
      using assms(4) by (auto simp: submitPaymentSettlement_def bindT_Inr x none sim)
    have "cw_events u = cw_events w @ [RecordedSubmission]"
      using recorded events by (auto simp: before_send simp del: engineT_Inr split: sum.splits)
    then have "cw_events w' = cw_events w @ [RecordedSubmission, Broadcast bytes]"
      using broadcast_events[of K i tx bytes u] sent by simp
    then show ?thesis
      using broadcast_Inr[OF sent] wait_expired[OF assms(1,3)] assms(2) by auto
  qed
qed

text \<open>
  The comment in \<open>submitPreparedSettlement\<close> promises that once a payment is marked
  submitted, because its transaction may be on the wire, only the reconcile path may finish it
  as \<open>failed_not_submitted\<close>. C28: the code does not keep that promise. Two calls
  submit the same recorded payment. The first records the submission and broadcasts the
  transaction; the second is refused in its own simulation, and still finalizes the payment the first has
  marked: it ends as \<open>failed_not_submitted\<close>, and the request it answered is open for another
  payment, while the broadcast transaction can still land.
\<close>

theorem racing_failure_reopens_request:
  assumes "reservations_balanced L" and "one_live (getPayment L)" and "one_binding (getPayment L)"
    and "getPayment L k = Some i" and "pay_status i = submission_prepared"
    and "pr_seller q = pay_seller i" and "pr_sellerRequestId q = pay_sellerRequestId i"
    and "pr_requestBindingHash q = pay_requestBindingHash i"
    and "submitPaymentSettlement K (Inr ()) i tx bytes v = (answer, v')" and "cw_events v' \<noteq> cw_events v"
    and "markPaymentSubmittedBeforeSend sent k L = (Inr (), M)"
    and "submitPaymentSettlement K recording i tx bytes w = (Inr (FailedNotSubmitted ''simulation_failed'' message), w')"
    and "finalizeSubmissionSection E now uuid k (FailedNotSubmitted ''simulation_failed'' message) M = (Inr j, N)"
  shows "cw_events v' = cw_events v @ [RecordedSubmission, Broadcast bytes]
    \<and> map_option pay_status (getPayment M k) = Some pay_submitted
    \<and> map_option pay_status (getPayment N k) = Some pay_failed_not_submitted
    \<and> existingPayment N q = Inr None"
proof -
  note steps = marked_then_failed[OF assms(1,4,5,11,13)]
  have "ledger_ok N" using balanced_store[OF steps(3)] by (simp add: store_ok_def)
  moreover have "live_payment i" using assms(5) by (simp add: LIVE_OR_SETTLED_STATUSES_def)
  ultimately have "existingPayment N q = Inr None"
    using failed_request_open[OF assms(2-4) _ assms(6-8) steps(4,5) _ steps(2)] by simp
  moreover have "cw_events v' = cw_events v @ [RecordedSubmission, Broadcast bytes]"
    using submit_events[of K "Inr ()" i tx bytes v] assms(9,10) by simp
  ultimately show ?thesis using steps(1,2) by simp
qed

section \<open>Reconciliation\<close>

text \<open>
  A node on which a transaction is found from call 1 on, in its last valid block, while a client
  pauses between call 0 and call 1 for more than 32 blocks.
\<close>

definition sample_meta :: TransactionMeta where
  "sample_meta = \<lparr>tm_err = JNull, tm_fee = 5000, tm_loadedWritable = [], tm_loadedReadonly = [],
     tm_preTokenBalances = [\<lparr>tb_accountIndex = 0, tb_amount = ''5''\<rparr>],
     tm_postTokenBalances = [\<lparr>tb_accountIndex = 0, tb_amount = ''1005''\<rparr>]\<rparr>"

definition pausing_node :: rpc_node where
  "pausing_node = \<lparr>rp_simulate = (\<lambda>_ _. Inr JNull), rp_send = (\<lambda>_ _. Inr ''sig''), rp_status = (\<lambda>_ _. Inr False),
     rp_blockHeight = (\<lambda>n. Inr (if n = 0 then 100 else 133)),
     rp_transaction = (\<lambda>n tx. Inr (if tx = ''sig'' \<and> 1 \<le> n
       then Some \<lparr>tr_meta = Some sample_meta, tr_accountKeys = [''seller''], tr_slot = 7\<rparr> else None))\<rparr>"

definition pausing_seen :: "string \<Rightarrow> nat option" where
  "pausing_seen tx = (if tx = ''sig'' then Some 1 else None)"

definition submitter_on :: "rpc_node \<Rightarrow> kamino_submitter" where
  "submitter_on R = \<lparr>kx_rpc = R, kx_sponsor = ''sponsor'', kx_sign = (\<lambda>t. Inr (t, Some ''sig'')),
     kx_feeLamportsToUsdc = None, kx_stringify = (\<lambda>_. ''error''), kx_message = (\<lambda>_. ''message''), kx_rounds = 3\<rparr>"

lemma submitter_on_rpc [simp]: "kx_rpc (submitter_on R) = R"
  by (simp add: submitter_on_def)

definition last_block_payment :: PaymentIntent where
  "last_block_payment = sample_submission\<lparr>pay_status := pay_submitted, pay_lastValidBlockHeight := Some 100\<rparr>"

lemma last_block_payment_simps [simp]:
  "pay_txSignature last_block_payment = Some ''sig''"
  "pay_submittedSerializedTransaction last_block_payment = Some ''tx''"
  "pay_lastValidBlockHeight last_block_payment = Some 100"
  by (simp_all add: last_block_payment_def sample_submission_def)

lemma pausing_node_faithful:
  "faithful_node pausing_node pausing_seen" "lands_in_time pausing_node pausing_seen tx 100"
  by (auto simp: faithful_node_def lands_in_time_def pausing_node_def pausing_seen_def found_def split: if_splits)

text \<open>
  C39: when a reconciliation reports a stored submission as expired. It looks the transaction up before it
  reads the block height and not again after it. On a node that reports the chain faithfully it
  reports the expiry exactly when the block height is past the buffer, and the transaction never
  lands or is found from the very next call on: a landing between the two calls, and only
  such a landing, is missed.
\<close>

theorem reconcile_expiry_misses_one_window:
  assumes "faithful_node (kx_rpc K) seen" "lands_in_time (kx_rpc K) seen tx l"
    and "pay_txSignature i = Some tx" "pay_submittedSerializedTransaction i \<noteq> None" "pay_lastValidBlockHeight i = Some l"
    and "rp_transaction (kx_rpc K) (cw_calls w) tx = Inr r" "rp_blockHeight (kx_rpc K) (Suc (cw_calls w)) = Inr h"
  shows "fst (reconcilePaymentSettlement K i w) = Inr (Reconciled expiredResult) \<longleftrightarrow>
    h > l + 32 \<and> (seen tx = None \<or> seen tx = Some (Suc (cw_calls w)))"
proof -
  let ?v = "w\<lparr>cw_calls := Suc (cw_calls w)\<rparr>"
  have verdict: "fst (reconcilePaymentSettlement K i w) = Inr (Reconciled expiredResult) \<longleftrightarrow> \<not> found r \<and> h > l + 32"
  proof (cases "found r")
    case False
    then have "lookupTransaction (kx_rpc K) tx w = (Inr None, ?v)"
      using assms(6) by (cases r) (auto simp: lookupTransaction_def bindA_def rpcCall_def returnA_def found_def split: option.split)
    then show ?thesis
      using assms(3-5,7) False
      by (auto simp: reconcilePaymentSettlement_def bindT_def engineT_def isBlockhashExpired_def EXPIRY_BUFFER_def
          bindA_def rpcCall_def returnA_def returnT_def split: if_splits)
  next
    case True
    have landed: "mapConfirmedTransaction K i tx y \<noteq> expiredResult" for y
      by (auto simp: mapConfirmedTransaction_def expiredResult_def Let_def)
    from True have "fst (lookupTransaction (kx_rpc K) tx w) \<noteq> Inr None"
      using assms(6) by (cases r) (auto simp: lookupTransaction_def bindA_def rpcCall_def liftR_def found_def bindR_Inr
          split: sum.split)
    then show ?thesis
      using assms(3,4) True
      by (cases "lookupTransaction (kx_rpc K) tx w"; cases "fst (lookupTransaction (kx_rpc K) tx w)")
        (auto simp: reconcilePaymentSettlement_def bindT_def engineT_def returnT_def landed)
  qed
  have "found r \<longleftrightarrow> (\<exists>t. seen tx = Some t \<and> t \<le> cw_calls w)"
    using assms(1,6) by (simp add: faithful_node_def)
  moreover have "t \<le> Suc (cw_calls w)" if "h > l + 32" "seen tx = Some t" for t
    using assms(2,7) that by (auto simp: lands_in_time_def)
  ultimately show ?thesis unfolding verdict by (cases "seen tx") (auto simp: le_Suc_eq)
qed

theorem reconcile_expiry_misses_one_window_witness:
  "fst (reconcilePaymentSettlement (submitter_on pausing_node) last_block_payment \<lparr>cw_calls = 0, cw_events = []\<rparr>)
       = Inr (Reconciled expiredResult)
   \<and> pausing_seen ''sig'' = Some 1"
proof -
  have node: "faithful_node (kx_rpc (submitter_on pausing_node)) pausing_seen"
    "lands_in_time (kx_rpc (submitter_on pausing_node)) pausing_seen ''sig'' 100"
    using pausing_node_faithful by simp_all
  show ?thesis
    using reconcile_expiry_misses_one_window[OF node, of last_block_payment "\<lparr>cw_calls = 0, cw_events = []\<rparr>" None 133]
    by (simp add: pausing_node_def pausing_seen_def)
qed

text \<open>
  The flows look up again after the expiry; with the engine's answers their verdict is final.
\<close>

definition flow_engine :: "rpc_node \<Rightarrow> flow_env \<Rightarrow> string \<Rightarrow> bool" where
  "flow_engine R E tx \<longleftrightarrow>
     (\<forall>r. vf_lookup E 0 tx = Inr r \<longrightarrow> (\<exists>x. rp_transaction R 0 tx = Inr x \<and> (r \<noteq> None \<longleftrightarrow> found x)))
     \<and> (\<forall>l b. vf_isBlockhashExpired E (Some l) = Inr b \<longrightarrow>
         (\<exists>h. rp_blockHeight R 1 = Inr h \<and> b = (h > l + 32)))
     \<and> (\<forall>r. vf_lookup E 1 tx = Inr r \<longrightarrow> (\<exists>x. rp_transaction R 2 tx = Inr x \<and> (r \<noteq> None \<longleftrightarrow> found x)))"

lemma flow_expiry_is_final:
  assumes "faithful_node R seen" "lands_in_time R seen tx l" "flow_engine R E tx"
    and "reconcileFlow E (Some tx) (Some l) = Inr (FlowNotSubmitted code)"
  shows "seen tx = None"
proof (rule ccontr)
  assume "seen tx \<noteq> None"
  then obtain t where t: "seen tx = Some t" by blast
  have expired: "vf_isBlockhashExpired E (Some l) = Inr True" and final: "vf_lookup E 1 tx = Inr None"
    using assms(4)
    by (cases "vf_lookup E 1 tx"; cases "projr (vf_lookup E 1 tx)";
        auto simp: reconcileFlow_def lookupConfirmedFlow_def bindR_Inr split: option.splits if_splits)+
  have "t \<le> 1"
    using assms(2,3) expired t unfolding lands_in_time_def flow_engine_def by blast
  moreover obtain x where "rp_transaction R 2 tx = Inr x" "\<not> found x"
    using assms(3) final unfolding flow_engine_def by blast
  ultimately show False
    using assms(1) t unfolding faithful_node_def by (metis le_trans one_le_numeral)
qed

section \<open>What a landed settlement amounts to\<close>

text \<open>The net movement of an account: what its entries say after, minus what they say before.\<close>

definition entry_amount :: "TokenBalance \<Rightarrow> int" where
  "entry_amount b = orElse (js_BigInt (tb_amount b)) 0"

definition of_account :: "string list \<Rightarrow> string \<Rightarrow> TokenBalance \<Rightarrow> bool" where
  "of_account orderedKeys account b \<longleftrightarrow> tb_accountIndex b < length orderedKeys
     \<and> orderedKeys ! tb_accountIndex b = account"

definition account_total :: "string list \<Rightarrow> string \<Rightarrow> TokenBalance list \<Rightarrow> int" where
  "account_total orderedKeys account bs = sum_list (map entry_amount (filter (of_account orderedKeys account) bs))"

lemma addBalances_total:
  "addBalances sign keys deltas bs = Inr deltas' \<Longrightarrow>
     orElse (deltas' a) 0 = orElse (deltas a) 0 + sign * account_total keys a bs"
proof (induction bs arbitrary: deltas)
  case (Cons b bs)
  then obtain mid where mid: "addBalance sign keys deltas b = Inr mid" "addBalances sign keys mid bs = Inr deltas'"
    by (auto simp: bindR_Inr)
  have "orElse (mid a) 0 = orElse (deltas a) 0 + (if of_account keys a b then sign * entry_amount b else 0)"
    using mid(1) by (auto simp: addBalance_def of_account_def entry_amount_def Let_def
        split: if_splits option.splits)
  then show ?case using Cons.IH[OF mid(2)] by (simp add: account_total_def algebra_simps)
qed (simp add: account_total_def)

lemma summary_deltas:
  assumes "summaryOf response m = Inr s"
  shows "orElse (ct_tokenBalanceDeltas s a) 0 =
      account_total (orderedKeysOf response m) a (tm_postTokenBalances m)
      - account_total (orderedKeysOf response m) a (tm_preTokenBalances m)"
    and "ct_err s = tm_err m" "ct_feeLamports s = tm_fee m"
proof -
  let ?keys = "orderedKeysOf response m"
  obtain before deltas where b: "addBalances (-1) ?keys Map.empty (tm_preTokenBalances m) = Inr before"
    "addBalances 1 ?keys before (tm_postTokenBalances m) = Inr deltas"
    "s = \<lparr>ct_err = tm_err m, ct_feeLamports = tm_fee m, ct_tokenBalanceDeltas = deltas, ct_slot = tr_slot response\<rparr>"
    using assms by (auto simp: summaryOf_def Let_def bindR_Inr)
  show "orElse (ct_tokenBalanceDeltas s a) 0 =
      account_total ?keys a (tm_postTokenBalances m) - account_total ?keys a (tm_preTokenBalances m)"
    using addBalances_total[OF b(1), of a] addBalances_total[OF b(2), of a] by (simp add: b(3))
  show "ct_err s = tm_err m" "ct_feeLamports s = tm_fee m" by (simp_all add: b(3))
qed

text \<open>
  The settlement service accepts what the submitter reports of a landed transaction exactly
  when the transaction failed on chain or moved the payment's amount, neither more nor less,
  into the seller's account; the result it books carries the actual fee of the chain.
\<close>

theorem landed_result_is_accepted:
  assumes "summaryOf response m = Inr s" "pay_txSignature i = Some tx"
  shows "settlementResultValidationError i (mapConfirmedTransaction K i tx s) = None \<longleftrightarrow>
    tm_err m \<noteq> JNull \<or>
    account_total (orderedKeysOf response m) (pay_sellerUsdcAta i) (tm_postTokenBalances m)
      - account_total (orderedKeysOf response m) (pay_sellerUsdcAta i) (tm_preTokenBalances m) = pay_amountRawUsdc i"
  using summary_deltas[OF assms(1)] assms(2)
  by (auto simp: settlementResultValidationError_def mapConfirmedTransaction_def Let_def settledResultError_def
      settlementResultTxSignature_def split: option.splits)

theorem landed_result_is_accepted_witness:
  "\<exists>s. summaryOf \<lparr>tr_meta = Some sample_meta, tr_accountKeys = [''seller''], tr_slot = 7\<rparr> sample_meta = Inr s
     \<and> settlementResultValidationError (last_block_payment\<lparr>pay_amountRawUsdc := 1000, pay_sellerUsdcAta := ''seller''\<rparr>)
         (mapConfirmedTransaction (submitter_on pausing_node)
           (last_block_payment\<lparr>pay_amountRawUsdc := 1000, pay_sellerUsdcAta := ''seller''\<rparr>) ''sig'' s) = None"
proof -
  let ?r = "\<lparr>tr_meta = Some sample_meta, tr_accountKeys = [''seller''], tr_slot = 7\<rparr>"
  have digits: "js_BigInt ''5'' = Some 5" "js_BigInt ''1005'' = Some 1005" by code_simp+
  obtain s where s: "summaryOf ?r sample_meta = Inr s"
    by (simp add: summaryOf_def orderedKeysOf_def sample_meta_def addBalance_def digits Let_def)
  have "account_total (orderedKeysOf ?r sample_meta) ''seller'' (tm_postTokenBalances sample_meta)
      - account_total (orderedKeysOf ?r sample_meta) ''seller'' (tm_preTokenBalances sample_meta) = 1000"
    by (simp add: account_total_def orderedKeysOf_def sample_meta_def of_account_def entry_amount_def digits)
  then show ?thesis
    using s landed_result_is_accepted[OF s, of "last_block_payment\<lparr>pay_amountRawUsdc := 1000, pay_sellerUsdcAta := ''seller''\<rparr>"
        "''sig''" "submitter_on pausing_node"] by simp
qed

section \<open>A landed settlement is booked\<close>

text \<open>The submitter as the collaborator of the payment service, called in the state \<open>w\<close> of the node.\<close>

definition with_submitter :: "kamino_submitter \<Rightarrow> chain_world \<Rightarrow> payment_env \<Rightarrow> payment_env" where
  "with_submitter K w E = E\<lparr>pe_ready := True,
     pe_submit := (\<lambda>i tx bytes. (RecordedSubmission \<in> set (drop (length (cw_events w))
         (cw_events (snd (submitPaymentSettlement K (Inr ()) i tx bytes w)))),
       fst (submitPaymentSettlement K (Inr ()) i tx bytes w))),
     pe_reconcile := Some (\<lambda>i. fst (reconcilePaymentSettlement K i w))\<rparr>"

definition printable_payment :: "PaymentIntent \<Rightarrow> bool" where
  "printable_payment i \<longleftrightarrow> 0 \<le> pay_amountRawUsdc i \<and> 0 \<le> pay_sharesToRedeemRaw i
     \<and> 0 \<le> pay_principalBasisBeforeRawUsdc i \<and> 0 \<le> pay_grossYieldBeforeRawUsdc i
     \<and> 0 \<le> pay_spendableYieldBeforeRawUsdc i \<and> 0 \<le> pay_postPositionValueRawUsdc i"

lemma reconcile_found:
  assumes "pay_txSignature i = Some tx" "pay_submittedSerializedTransaction i \<noteq> None"
    and "rp_transaction (kx_rpc K) (cw_calls w) tx = Inr (Some response)"
    and "tr_meta response = Some m" "summaryOf response m = Inr s"
  shows "fst (reconcilePaymentSettlement K i w) = Inr (Reconciled (mapConfirmedTransaction K i tx s))"
  using assms
  by (auto simp: reconcilePaymentSettlement_def bindT_def engineT_def lookupTransaction_def bindA_def rpcCall_def
      liftR_def returnT_def split: option.splits)

lemma landed_response:
  assumes "settlementResultValidationError i (mapConfirmedTransaction K i tx s) = None" "printable_payment i"
  shows "\<exists>j. settlementResponse sponsor i (mapConfirmedTransaction K i tx s) = Inr j"
proof (cases "mapConfirmedTransaction K i tx s")
  case (Settled r)
  have r: "sr_sellerTransferRawUsdc r = Some (pay_amountRawUsdc i)"
    "orElse (sr_actualSharesRedeemedRaw r) (pay_sharesToRedeemRaw i) = pay_sharesToRedeemRaw i"
    using settled_valid[of i r] assms(1) Settled
    by (auto simp: mapConfirmedTransaction_def Let_def split: if_splits)
  have "0 \<le> orElse (sr_withdrawOutputRawUsdc r) (pay_requiredWithdrawRawUsdc i)"
    "\<exists>d\<ge>0. sr_dustTransferRawUsdc r = Some d"
    using Settled r(1) assms(2)
    by (auto simp: mapConfirmedTransaction_def Let_def printable_payment_def split: if_splits option.splits)
  then show ?thesis
    using r assms(2) unfolding Settled
    by (auto simp: settlementResponse_def successfulSettlementResponse_def objR_def raw_Inr Let_def printable_payment_def)
qed (simp_all add: settlementResponse_def)

lemma apply_total: "\<exists>p'. applySettlementResultToPosition p i r = Inr p'"
  by (cases r) (auto simp: applySettlementResultToPosition_def subtractRedeemedShares_def Let_def)

lemma finalize_total:
  assumes "settlementResultValidationError i r = None" "settlementResponse (pe_sponsorFeePayer E) i r = Inr j"
  shows "\<exists>L'. finalizeSubmittedPayment E now uuid i r L = (Inr j, L')"
proof (cases "getPosition L (pay_wallet i) (pay_vault i)")
  case (Some p)
  then show ?thesis using apply_total[of p i r] assms
    by (auto simp: finalizeSubmittedPayment_def action_defs)
qed (use assms in \<open>auto simp: finalizeSubmittedPayment_def action_defs\<close>)

text \<open>
  C13: a submitted payment whose transaction has landed does not stay submitted: as soon as the
  node returns the transaction, the next settle call books it. The payment ends settled or
  failed, its reservation is released, the fee is owed and its shares are removed, provided the
  chain shows a failure or the exact amount in the seller's account.
\<close>

theorem landed_payment_is_booked:
  assumes "reservations_balanced L" "getPayment L (vp_paymentId x) = Some i" "pay_paymentId i = vp_paymentId x"
    and "pay_status i = pay_submitted" "printable_payment i"
    and "getPosition L (pay_wallet i) (pay_vault i) = Some p" "shares_consistent p"
    and "verifySettlementPayloadForIntent (with_submitter K w E) i x = Verified j r"
    and "pay_txSignature i = Some tx" "pay_submittedSerializedTransaction i \<noteq> None"
    and "rp_transaction (kx_rpc K) (cw_calls w) tx = Inr (Some response)"
    and "tr_meta response = Some m" "summaryOf response m = Inr s"
    and "tm_err m \<noteq> JNull \<or> orElse (ct_tokenBalanceDeltas s (pay_sellerUsdcAta i)) 0 = pay_amountRawUsdc i"
  shows "\<exists>answer L' i' p'. settlePaymentPayload (with_submitter K w E) c x L = (Inr answer, L')
    \<and> getPayment L' (vp_paymentId x) = Some i'
    \<and> pay_status i' = (if tm_err m = JNull then settled else pay_failed)
    \<and> getPosition L' (pay_wallet i) (pay_vault i) = Some p'
    \<and> books_result p i (mapConfirmedTransaction K i tx s) p'"
proof -
  let ?E = "with_submitter K w E" and ?r = "mapConfirmedTransaction K i tx s"
  have env: "pe_ready ?E" "pe_reconcile ?E = Some (\<lambda>i. fst (reconcilePaymentSettlement K i w))"
    by (simp_all add: with_submitter_def)
  have valid: "settlementResultValidationError i ?r = None"
    using assms(9,14) summary_deltas(2)[OF assms(13)]
    by (auto simp: settlementResultValidationError_def mapConfirmedTransaction_def Let_def settledResultError_def
        settlementResultTxSignature_def split: option.splits)
  obtain answer where "settlementResponse (pe_sponsorFeePayer ?E) i ?r = Inr answer"
    using landed_response[OF valid assms(5)] by blast
  then obtain L' where L': "finalizeSubmittedPayment ?E (at_end c) (at_uuid c) i ?r L = (Inr answer, L')"
    using finalize_total[OF valid] by blast
  have holds: "paymentHoldsSettlementReservation i"
    using assms(4) by (simp add: paymentHoldsSettlementReservation_def)
  have "reconcileSection ?E (at_end c) (at_uuid c) (pay_paymentId i) ?r L = (Inr answer, L')"
    using assms(2,3,4) holds L' by (simp add: reconcileSection_def action_defs terminal_iff [THEN iffD2])
  then have "settlePaymentPayload ?E c x L = (Inr answer, L')"
    using assms(2,4,8,9) env reconcile_found[OF assms(9,10,11,12,13)]
    by (simp add: settlePaymentPayload_def reconcileSubmittedPayment_def action_defs withLock_return)
  moreover have "resultStatus ?r = (if tm_err m = JNull then settled else pay_failed)"
    using summary_deltas(2)[OF assms(13)] by (simp add: mapConfirmedTransaction_def Let_def resultStatus_def)
  ultimately show ?thesis
    using runs_InrD[OF finalize_outcome[OF assms(1,2) holds assms(6,7)] L'] by auto
qed

section \<open>Witnesses\<close>

definition quiet_node :: rpc_node where
  "quiet_node = \<lparr>rp_simulate = (\<lambda>_ _. Inr JNull), rp_send = (\<lambda>_ _. Inr ''sig''), rp_status = (\<lambda>_ _. Inr False),
     rp_blockHeight = (\<lambda>_. Inr 133), rp_transaction = (\<lambda>_ _. Inr None)\<rparr>"

theorem not_submitted_is_unsent_or_expired_witness:
  "\<exists>w'. submitPaymentSettlement (submitter_on quiet_node) (Inr ()) last_block_payment ''sig'' ''tx''
       \<lparr>cw_calls = 0, cw_events = []\<rparr> = (Inr expiredResult, w')
     \<and> cw_events w' = [RecordedSubmission, Broadcast ''tx'']"
proof -
  let ?w = "\<lparr>cw_calls = 0, cw_events = []\<rparr>"
  have rounds: "kx_rounds (submitter_on quiet_node) = Suc (Suc (Suc 0))"
    by (simp add: submitter_on_def)
  have "fst (submitPaymentSettlement (submitter_on quiet_node) (Inr ()) last_block_payment ''sig'' ''tx'' ?w) = Inr expiredResult"
    by (simp add: submitPaymentSettlement_def bindT_def engineT_def lookupTransaction_def bindA_def rpcCall_def
        returnA_def quiet_node_def isBlockhashExpired_def EXPIRY_BUFFER_def returnT_def simulateSignedTransaction_def
        onBeforeSend_def liftR_def chainEvent_def modifyA_def broadcastAndConfirm_def sendSignedTransaction_def
        rounds [unfolded quiet_node_def])
  then obtain w' where w': "submitPaymentSettlement (submitter_on quiet_node) (Inr ()) last_block_payment ''sig'' ''tx'' ?w
      = (Inr expiredResult, w')"
    by (metis prod.collapse)
  have "faithful_node (kx_rpc (submitter_on quiet_node)) Map.empty"
    "lands_in_time (kx_rpc (submitter_on quiet_node)) Map.empty ''sig'' 100"
    by (auto simp: faithful_node_def lands_in_time_def quiet_node_def found_def)
  from not_submitted_is_unsent_or_expired[OF this(1) last_block_payment_simps(3) this(2) w'[unfolded expiredResult_def]] w'
  show ?thesis by auto
qed

text \<open>A node that accepts the first simulation and refuses the next.\<close>

definition racing_node :: rpc_node where
  "racing_node = quiet_node\<lparr>rp_simulate := (\<lambda>n _. Inr (if n = 1 then JNull else JString ''stale'')),
     rp_blockHeight := (\<lambda>_. Inr 0)\<rparr>"

lemma racing_submissions:
  "cw_events (snd (submitPaymentSettlement (submitter_on racing_node) (Inr ()) sample_submission ''sig'' ''tx''
     \<lparr>cw_calls = 0, cw_events = []\<rparr>)) \<noteq> []"
  "fst (submitPaymentSettlement (submitter_on racing_node) (Inr ()) sample_submission ''sig'' ''tx''
     \<lparr>cw_calls = 9, cw_events = []\<rparr>)
     = Inr (FailedNotSubmitted ''simulation_failed'' (''Settlement simulation failed before submission: '' @ ''error''))"
  by (simp_all add: submitPaymentSettlement_def bindT_def engineT_def lookupTransaction_def bindA_def rpcCall_def
      returnA_def racing_node_def quiet_node_def returnT_def simulateSignedTransaction_def submitter_on_def
      onBeforeSend_def liftR_def chainEvent_def modifyA_def broadcast_events)

theorem racing_failure_reopens_request_witness:
  "\<exists>M N j. markPaymentSubmittedBeforeSend 5 ''pay_1'' (ledger_with sample_submission) = (Inr (), M)
     \<and> finalizeSubmissionSection sample_env 9 ''e'' ''pay_1'' (FailedNotSubmitted ''simulation_failed''
         (''Settlement simulation failed before submission: '' @ ''error'')) M = (Inr j, N)
     \<and> map_option pay_status (getPayment N ''pay_1'') = Some pay_failed_not_submitted
     \<and> existingPayment N (run_request\<lparr>pr_requestBindingHash := ''binding''\<rparr>) = Inr None"
proof -
  let ?q = "run_request\<lparr>pr_requestBindingHash := ''binding''\<rparr>"
  let ?m = "sample_submission\<lparr>pay_status := pay_submitted, pay_submittedAt := Some (AtMs 5)\<rparr>"
  let ?M = "savePayment ?m (ledger_with sample_submission)"
  have "getPayment ?M ''pay_1'' = Some ?m" "paymentHoldsSettlementReservation ?m"
    by (simp_all add: paymentHoldsSettlementReservation_def)
  then obtain j N where N: "finalizeSubmissionSection sample_env 9 ''e'' ''pay_1''
      (FailedNotSubmitted ''simulation_failed'' (''Settlement simulation failed before submission: '' @ ''error'')) ?M = (Inr j, N)"
    using not_submitted_returns by blast
  obtain answer v' where first: "submitPaymentSettlement (submitter_on racing_node) (Inr ()) sample_submission ''sig'' ''tx''
      \<lparr>cw_calls = 0, cw_events = []\<rparr> = (answer, v')" "cw_events v' \<noteq> cw_events \<lparr>cw_calls = 0, cw_events = []\<rparr>"
    using racing_submissions(1) by (metis chain_world.select_convs(2) snd_conv surj_pair)
  obtain w' where second: "submitPaymentSettlement (submitter_on racing_node) (Inr ()) sample_submission ''sig'' ''tx''
      \<lparr>cw_calls = 9, cw_events = []\<rparr> = (Inr (FailedNotSubmitted ''simulation_failed''
        (''Settlement simulation failed before submission: '' @ ''error'')), w')"
    using racing_submissions(2) by (metis fst_conv surj_pair)
  have i: "reservations_balanced (ledger_with sample_submission)" "one_live (getPayment (ledger_with sample_submission))"
    "one_binding (getPayment (ledger_with sample_submission))"
    "getPayment (ledger_with sample_submission) ''pay_1'' = Some sample_submission"
    by (simp_all add: one_live_with one_binding_with)
  have q: "pr_seller ?q = pay_seller sample_submission" "pr_sellerRequestId ?q = pay_sellerRequestId sample_submission"
    "pr_requestBindingHash ?q = pay_requestBindingHash sample_submission"
    by (simp_all add: sample_submission_def sample_payment_def)
  show ?thesis
    using racing_failure_reopens_request[OF i _ q first mark_example second N] mark_example N by auto
qed

definition booked_payment :: PaymentIntent where
  "booked_payment = last_block_payment\<lparr>pay_sellerUsdcAta := ''seller''\<rparr>"

lemma booked_payment_simps [simp]:
  "pay_txSignature booked_payment = Some ''sig''" "pay_submittedSerializedTransaction booked_payment = Some ''tx''"
  "pay_status booked_payment = pay_submitted" "pay_paymentId booked_payment = ''pay_1''"
  "pay_wallet booked_payment = sample_wallet" "pay_vault booked_payment = sample_vault"
  "pay_reservationRawUsdc booked_payment = 1100" "held booked_payment = 1100"
  "pay_sellerUsdcAta booked_payment = ''seller''" "pay_amountRawUsdc booked_payment = 1000"
  "printable_payment booked_payment"
  by (simp_all add: booked_payment_def last_block_payment_def sample_submission_def sample_payment_def held_def
      paymentHoldsSettlementReservation_def printable_payment_def)

theorem landed_payment_is_booked_witness:
  "\<exists>answer L' i'. settlePaymentPayload
       (with_submitter (submitter_on pausing_node) \<lparr>cw_calls = 1, cw_events = []\<rparr> sample_env)
       \<lparr>at_now = 5, at_send = 6, at_end = 7, at_uuid = ''e''\<rparr>
       (sample_payload booked_payment) (ledger_with booked_payment) = (Inr answer, L')
     \<and> getPayment L' ''pay_1'' = Some i' \<and> pay_status i' = settled"
proof -
  let ?r = "\<lparr>tr_meta = Some sample_meta, tr_accountKeys = [''seller''], tr_slot = 7\<rparr>"
  let ?w = "\<lparr>cw_calls = 1, cw_events = []\<rparr>"
  let ?K = "submitter_on pausing_node"
  have digits: "js_BigInt ''5'' = Some 5" "js_BigInt ''1005'' = Some 1005" by code_simp+
  obtain s where s: "summaryOf ?r sample_meta = Inr s"
    by (simp add: summaryOf_def orderedKeysOf_def sample_meta_def addBalance_def digits Let_def)
  have paid: "orElse (ct_tokenBalanceDeltas s ''seller'') 0 = 1000"
    unfolding summary_deltas(1)[OF s]
    by (simp add: account_total_def orderedKeysOf_def sample_meta_def of_account_def entry_amount_def digits)
  have verified: "verifySettlementPayloadForIntent (with_submitter ?K ?w sample_env) booked_payment
      (sample_payload booked_payment) = Verified ''pay_1'' pay_submitted"
    by (simp add: verifySettlementPayloadForIntent_def with_submitter_def sample_payload_def)
  have node: "rp_transaction (kx_rpc ?K) (cw_calls ?w) ''sig'' = Inr (Some ?r)"
    by (simp add: pausing_node_def)
  have shares: "shares_consistent (sample_position\<lparr>pos_reservedRawUsdc := 1100\<rparr>)"
    by (simp add: shares_consistent_def sample_position_def)
  have stored: "getPosition (ledger_with booked_payment) (pay_wallet booked_payment) (pay_vault booked_payment)
      = Some (sample_position\<lparr>pos_reservedRawUsdc := 1100\<rparr>)"
    "getPayment (ledger_with booked_payment) (vp_paymentId (sample_payload booked_payment)) = Some booked_payment"
    "pay_paymentId booked_payment = vp_paymentId (sample_payload booked_payment)"
    "vp_paymentId (sample_payload booked_payment) = ''pay_1''"
    "reservations_balanced (ledger_with booked_payment)"
    by (simp_all add: sample_payload_def)
  have chain: "tm_err sample_meta \<noteq> JNull \<or>
      orElse (ct_tokenBalanceDeltas s (pay_sellerUsdcAta booked_payment)) 0 = pay_amountRawUsdc booked_payment"
    using paid by simp
  have "tm_err sample_meta = JNull" by (simp add: sample_meta_def)
  then show ?thesis
    using landed_payment_is_booked[OF stored(5,2,3) booked_payment_simps(3,11) stored(1) shares verified
        booked_payment_simps(1) _ node _ s chain] stored(4) by fastforce
qed

end
