(* ===== verification/Payload_Verifier.thy ===== *)
theory Payload_Verifier
  imports Intent_Wire Payment_Core
begin

text \<open>
  The verifier of signed payment payloads, \<open>src/src/domain/payment-payload-verifier.ts\<close>: it reads the
  signatures, the account keys and the message out of a serialized transaction and checks that the
  required signers signed this very message. The base58 coder, the hash and the Ed25519 check are
  functions of the environment. The verdict of a check is \<open>None\<close> or the reason of a refusal.
\<close>

section \<open>Environment\<close>

record verifier_env =
  pl_decode :: "string \<Rightarrow> byte list option"
  pl_encode :: "byte list \<Rightarrow> string"
  pl_sha :: "byte list \<Rightarrow> string"
  pl_verify :: "byte list \<Rightarrow> byte list \<Rightarrow> byte list \<Rightarrow> bool"

definition MAX_SOLANA_TRANSACTION_BYTES :: nat where "MAX_SOLANA_TRANSACTION_BYTES = 1232"

record SignedPaymentPayload =
  sp_serializedTransaction :: string
  sp_agentSignature :: string
  sp_temporarySettlementSignature :: string

section \<open>Parsing\<close>

record ParsedTransaction =
  pz_message :: "byte list"
  pz_signatures :: "byte list list"
  pz_accountKeys :: "byte list list"
  pz_numRequiredSignatures :: nat

text \<open>A loop that cuts \<open>n\<close> pieces of a fixed size, refusing a short one.\<close>

fun readChunks :: "nat \<Rightarrow> byte list \<Rightarrow> nat \<Rightarrow> nat \<Rightarrow> (byte list list \<times> nat) option" where
  "readChunks width bytes offset 0 = Some ([], offset)"
| "readChunks width bytes offset (Suc n) =
     (if offset + width > length bytes then None
      else map_option (\<lambda>(cs, next). (take width (drop offset bytes) # cs, next)) (readChunks width bytes (offset + width) n))"

definition parseMessage :: "byte list \<Rightarrow> (byte list list \<times> nat) option" where
  "parseMessage message =
     (if length message < 3 then None
      else
        let offset = (if message ! 0 AND 0x80 \<noteq> 0 then 1 else 0) in
        if offset + 3 > length message then None
        else
          let numRequiredSignatures = unat (message ! offset) in
          (case readShortVec message (offset + 3) of
             None \<Rightarrow> None
           | Some (accountCount, nextOffset) \<Rightarrow>
               map_option (\<lambda>(accountKeys, _). (accountKeys, numRequiredSignatures))
                 (readChunks 32 message nextOffset (nat accountCount))))"

definition parseTransaction :: "string \<Rightarrow> ParsedTransaction option" where
  "parseTransaction serializedTransaction =
     (let bytes = base64url_bytes serializedTransaction in
      if bytes = [] \<or> length bytes > MAX_SOLANA_TRANSACTION_BYTES then None
      else (case readShortVec bytes 0 of
          None \<Rightarrow> None
        | Some (signatureCount, nextOffset) \<Rightarrow>
            (case readChunks 64 bytes nextOffset (nat signatureCount) of
               None \<Rightarrow> None
             | Some (signatures, offset) \<Rightarrow>
                 let message = drop offset bytes in
                 map_option (\<lambda>(accountKeys, numRequiredSignatures).
                   \<lparr>pz_message = message, pz_signatures = signatures, pz_accountKeys = accountKeys,
                    pz_numRequiredSignatures = numRequiredSignatures\<rparr>) (parseMessage message))))"

section \<open>Signers\<close>

definition decodeBase58 :: "verifier_env \<Rightarrow> string \<Rightarrow> nat \<Rightarrow> byte list option" where
  "decodeBase58 V encoded expectedLength = (case pl_decode V encoded of
       None \<Rightarrow> None
     | Some decoded \<Rightarrow> if length decoded = expectedLength then Some decoded else None)"

text \<open>\<open>findIndex\<close>: the first position of an element, if any.\<close>

fun findIndexFrom :: "nat \<Rightarrow> 'a \<Rightarrow> 'a list \<Rightarrow> nat option" where
  "findIndexFrom n x [] = None"
| "findIndexFrom n x (y # ys) = (if y = x then Some n else findIndexFrom (Suc n) x ys)"

definition validRequiredSignerSignature :: "verifier_env \<Rightarrow> ParsedTransaction \<Rightarrow> string \<Rightarrow> string + byte list" where
  "validRequiredSignerSignature V transaction signerPublicKey = (case decodeBase58 V signerPublicKey 32 of
       None \<Rightarrow> Inl ''signature_encoding_invalid''
     | Some publicKey \<Rightarrow> (case findIndexFrom 0 publicKey (pz_accountKeys transaction) of
           None \<Rightarrow> Inl ''signer_missing''
         | Some signerIndex \<Rightarrow>
             if signerIndex \<ge> pz_numRequiredSignatures transaction then Inl ''not_required_signer''
             else (case js_at (pz_signatures transaction) signerIndex of
                 None \<Rightarrow> Inl ''signature_missing''
               | Some transactionSignature \<Rightarrow>
                   if \<not> pl_verify V (pz_message transaction) transactionSignature publicKey then Inl ''signature_invalid''
                   else Inr transactionSignature)))"

definition verifyRequiredSigner :: "verifier_env \<Rightarrow> ParsedTransaction \<Rightarrow> string \<Rightarrow> string \<Rightarrow> string option" where
  "verifyRequiredSigner V transaction signerPublicKey providedSignature = (case decodeBase58 V providedSignature 64 of
       None \<Rightarrow> Some ''signature_encoding_invalid''
     | Some provided \<Rightarrow> (case validRequiredSignerSignature V transaction signerPublicKey of
           Inl reason \<Rightarrow> Some reason
         | Inr signature \<Rightarrow> if signature \<noteq> provided then Some ''signature_mismatch'' else None))"

section \<open>The verifier\<close>

definition verify :: "verifier_env \<Rightarrow> PaymentIntent \<Rightarrow> SignedPaymentPayload \<Rightarrow> string option" where
  "verify V i x =
     (if sp_agentSignature x = [] \<or> sp_temporarySettlementSignature x = [] then Some ''missing_required_signature''
      else case parseTransaction (sp_serializedTransaction x) of
          None \<Rightarrow> Some ''invalid_transaction_encoding''
        | Some transaction \<Rightarrow>
            if pl_sha V (pz_message transaction) \<noteq> pay_preparedMessageHash i then Some ''message_hash_mismatch''
            else (case verifyRequiredSigner V transaction (pay_temporarySettlementTokenAccount i)
                  (sp_temporarySettlementSignature x) of
                Some reason \<Rightarrow> Some (''temporary_settlement_'' @ reason)
              | None \<Rightarrow> (case verifyRequiredSigner V transaction (pay_wallet i) (sp_agentSignature x) of
                    Some reason \<Rightarrow> Some (''agent_'' @ reason)
                  | None \<Rightarrow> None)))"

definition preparedMessageHashFromSerializedTransaction :: "verifier_env \<Rightarrow> string \<Rightarrow> string option" where
  "preparedMessageHashFromSerializedTransaction V serializedTransaction =
     map_option (\<lambda>t. pl_sha V (pz_message t)) (parseTransaction serializedTransaction)"

definition extractValidRequiredSignerSignature :: "verifier_env \<Rightarrow> string \<Rightarrow> string \<Rightarrow> string + string" where
  "extractValidRequiredSignerSignature V serializedTransaction signerPublicKey =
     (case parseTransaction serializedTransaction of
        None \<Rightarrow> Inl ''invalid_transaction_encoding''
      | Some transaction \<Rightarrow> (case validRequiredSignerSignature V transaction signerPublicKey of
            Inl reason \<Rightarrow> Inl reason
          | Inr signature \<Rightarrow> Inr (pl_encode V signature)))"

definition transactionSignatureFromSerializedTransaction :: "verifier_env \<Rightarrow> string \<Rightarrow> string option" where
  "transactionSignatureFromSerializedTransaction V serializedTransaction =
     (case parseTransaction serializedTransaction of
        None \<Rightarrow> None
      | Some t \<Rightarrow> map_option (pl_encode V) (js_at (pz_signatures t) 0))"

section \<open>The form of a parsed transaction\<close>

lemma readChunks_Some:
  "readChunks width bytes offset n = Some (cs, end') \<Longrightarrow>
     length cs = n \<and> end' = offset + n * width \<and> list_all (\<lambda>c. length c = width) cs
     \<and> (n = 0 \<or> end' \<le> length bytes) \<and> concat cs = take (n * width) (drop offset bytes)"
proof (induction n arbitrary: offset cs)
  case (Suc n)
  then obtain rest where rest: "readChunks width bytes (offset + width) n = Some (rest, end')"
    "cs = take width (drop offset bytes) # rest" "offset + width \<le> length bytes"
    by (auto split: if_splits)
  show ?case
    using Suc.IH[OF rest(1)] rest(2,3) by (auto simp: take_add add.commute)
qed auto

lemma readShortVecFrom_offset:
  "readShortVecFrom bytes n shift offset = Some (v, next) \<Longrightarrow> offset < next \<and> next \<le> offset + length bytes"
  by (induction bytes n shift offset rule: readShortVecFrom.induct)
    (auto simp: Let_def split: if_splits)

lemma parseMessage_form:
  "parseMessage message = Some (ks, n) \<Longrightarrow> list_all (\<lambda>k. length k = 32) ks \<and> 3 \<le> length message"
  using readChunks_Some by (fastforce simp: parseMessage_def Let_def split: if_splits option.splits prod.splits)

text \<open>
  A transaction that parses has the wire format: at most 1232 bytes, which are the short
  vector of the signature count, then that many signatures of 64 bytes, then the message; its
  account keys have 32 bytes each.
\<close>

theorem parsed_transaction_is_well_formed:
  assumes "parseTransaction t = Some p"
  shows "length (base64url_bytes t) \<le> 1232
    \<and> (\<exists>countBytes signatureCount. readShortVec (base64url_bytes t) 0 = Some (signatureCount, length countBytes)
        \<and> length (pz_signatures p) = nat signatureCount
        \<and> base64url_bytes t = countBytes @ concat (pz_signatures p) @ pz_message p)
    \<and> list_all (\<lambda>s. length s = 64) (pz_signatures p) \<and> list_all (\<lambda>k. length k = 32) (pz_accountKeys p)
    \<and> 3 \<le> length (pz_message p)"
proof -
  let ?bytes = "base64url_bytes t"
  obtain v after where count: "readShortVec ?bytes 0 = Some (v, after)"
    using assms by (auto simp: parseTransaction_def Let_def split: if_splits option.splits)
  obtain cs offset where chunks: "readChunks 64 ?bytes after (nat v) = Some (cs, offset)"
    using assms by (auto simp: parseTransaction_def Let_def count split: if_splits option.splits)
  obtain ks n where message: "parseMessage (drop offset ?bytes) = Some (ks, n)"
    and p: "p = \<lparr>pz_message = drop offset ?bytes, pz_signatures = cs, pz_accountKeys = ks,
      pz_numRequiredSignatures = n\<rparr>"
    using assms by (auto simp: parseTransaction_def Let_def count chunks split: if_splits)
  have bound: "length ?bytes \<le> 1232"
    using assms by (auto simp: parseTransaction_def Let_def MAX_SOLANA_TRANSACTION_BYTES_def split: if_splits)
  have within: "after \<le> length ?bytes"
    using readShortVecFrom_offset[of ?bytes 0 0 0 v after] count by (simp add: readShortVec_def)
  note form = readChunks_Some[OF chunks]
  have "?bytes = take after ?bytes @ concat cs @ drop offset ?bytes"
    using form by (metis append_take_drop_id drop_drop add.commute)
  then show ?thesis
    using bound count within form parseMessage_form[OF message]
    by (intro conjI exI[of _ "take after ?bytes"] exI[of _ v]) (simp_all add: p)
qed

text \<open>A transaction of one signature and a message that names one key, all zero.\<close>

definition sample_transaction_text :: string where
  "sample_transaction_text = ''AQAA'' @ replicate 80 (CHR ''A'') @ ''AAABAAAB'' @ replicate 43 (CHR ''A'')"

lemma sample_transaction_bytes:
  "base64url_bytes sample_transaction_text = 1 # replicate 64 0 @ [1, 0, 0, 1] @ replicate 32 0"
  by code_simp

definition sample_parsed :: ParsedTransaction where
  "sample_parsed = \<lparr>pz_message = [1, 0, 0, 1] @ replicate 32 0, pz_signatures = [replicate 64 0],
     pz_accountKeys = [replicate 32 0], pz_numRequiredSignatures = 1\<rparr>"

lemma sample_transaction_parses: "parseTransaction sample_transaction_text = Some sample_parsed"
  unfolding parseTransaction_def sample_transaction_bytes by code_simp

theorem parsed_transaction_is_well_formed_witness:
  "length (base64url_bytes sample_transaction_text) \<le> 1232 \<and> 3 \<le> length (pz_message sample_parsed)"
  using parsed_transaction_is_well_formed[OF sample_transaction_parses] by blast

section \<open>What is accepted\<close>

text \<open>The key signed the message as a required signer, with the signature given.\<close>

definition required_signature :: "verifier_env \<Rightarrow> ParsedTransaction \<Rightarrow> string \<Rightarrow> byte list \<Rightarrow> bool" where
  "required_signature V p signer signature \<longleftrightarrow>
     (\<exists>key n. pl_decode V signer = Some key \<and> length key = 32 \<and> n < length (pz_accountKeys p)
        \<and> pz_accountKeys p ! n = key \<and> (\<forall>m. m < n \<longrightarrow> pz_accountKeys p ! m \<noteq> key)
        \<and> n < pz_numRequiredSignatures p \<and> n < length (pz_signatures p)
        \<and> pz_signatures p ! n = signature \<and> pl_verify V (pz_message p) signature key)"

lemma findIndexFrom_Some:
  "findIndexFrom k x ys = Some n \<longleftrightarrow> k \<le> n \<and> n - k < length ys \<and> ys ! (n - k) = x
     \<and> (\<forall>m. m < n - k \<longrightarrow> ys ! m \<noteq> x)"
proof (induction ys arbitrary: k)
  case (Cons y ys)
  show ?case
  proof (cases "y = x")
    case True
    then show ?thesis by (auto simp: nth_Cons split: nat.splits)
  next
    case False
    show ?thesis
    proof (cases "k < n")
      case True
      then have "n - k = Suc (n - Suc k)" by simp
      then show ?thesis using False True Cons.IH[of "Suc k"] by (auto simp: less_Suc_eq_0_disj)
    next
      case le: False
      then show ?thesis using False Cons.IH[of "Suc k"] by auto
    qed
  qed
qed simp

lemma decodeBase58_Some: "decodeBase58 V e n = Some b \<longleftrightarrow> pl_decode V e = Some b \<and> length b = n"
  by (auto simp: decodeBase58_def split: option.splits)

lemma validRequiredSignerSignature_Inr:
  "validRequiredSignerSignature V p signer = Inr signature \<longleftrightarrow> required_signature V p signer signature"
proof -
  have "validRequiredSignerSignature V p signer = Inr signature \<longleftrightarrow>
      (\<exists>key n. decodeBase58 V signer 32 = Some key \<and> findIndexFrom 0 key (pz_accountKeys p) = Some n
        \<and> n < pz_numRequiredSignatures p \<and> js_at (pz_signatures p) n = Some signature
        \<and> pl_verify V (pz_message p) signature key)"
    by (auto simp: validRequiredSignerSignature_def split: option.splits if_splits)
  then show ?thesis
    unfolding required_signature_def by (simp add: decodeBase58_Some findIndexFrom_Some js_at_Some)
qed

lemma verifyRequiredSigner_None:
  "verifyRequiredSigner V p signer provided = None \<longleftrightarrow>
     (\<exists>signature. decodeBase58 V provided 64 = Some signature \<and> required_signature V p signer signature)"
  by (cases "decodeBase58 V provided 64"; cases "validRequiredSignerSignature V p signer")
    (auto simp: verifyRequiredSigner_def validRequiredSignerSignature_Inr [symmetric])

text \<open>
  C19: a payload is accepted exactly when its transaction parses, its message is the one that was
  prepared for the payment, and both the temporary settlement account and the agent's wallet are
  required signers of that message, with valid signatures that are the ones the payload names.
\<close>

theorem accepted_payloads_are_signed:
  "verify V i x = None \<longleftrightarrow> sp_agentSignature x \<noteq> [] \<and> sp_temporarySettlementSignature x \<noteq> []
     \<and> (\<exists>p agent temporary. parseTransaction (sp_serializedTransaction x) = Some p
        \<and> pl_sha V (pz_message p) = pay_preparedMessageHash i
        \<and> decodeBase58 V (sp_agentSignature x) 64 = Some agent \<and> required_signature V p (pay_wallet i) agent
        \<and> decodeBase58 V (sp_temporarySettlementSignature x) 64 = Some temporary
        \<and> required_signature V p (pay_temporarySettlementTokenAccount i) temporary)"
proof (cases "parseTransaction (sp_serializedTransaction x)")
  case (Some p)
  have "verify V i x = None \<longleftrightarrow> sp_agentSignature x \<noteq> [] \<and> sp_temporarySettlementSignature x \<noteq> []
      \<and> pl_sha V (pz_message p) = pay_preparedMessageHash i
      \<and> verifyRequiredSigner V p (pay_temporarySettlementTokenAccount i) (sp_temporarySettlementSignature x) = None
      \<and> verifyRequiredSigner V p (pay_wallet i) (sp_agentSignature x) = None"
    by (auto simp: verify_def Some split: option.split)
  then show ?thesis unfolding verifyRequiredSigner_None Some by blast
qed (simp add: verify_def)

end
