(* ===== verification/Wallet_Auth.thy ===== *)
theory Wallet_Auth
  imports Canonical_Json
begin

text \<open>
  The authentication of wallet requests, \<open>src/src/api/wallet-auth.ts\<close> and its client side,
  \<open>src/src/client/wallet-auth-headers.ts\<close>: a request carries an Ed25519 signature of the wallet over one
  line that binds the method, the path, the body and the time of signing. The hash, the base58
  coder and the signature check are functions of the environment; a message is its text, of which
  the primitives see the UTF-8 bytes.
\<close>

record auth_env =
  au_sha :: "string \<Rightarrow> string"
  au_decode :: "string \<Rightarrow> nat list option"
  au_verify :: "string \<Rightarrow> nat list \<Rightarrow> nat list \<Rightarrow> bool"

definition WALLET_AUTH_MAX_AGE_MS :: int where "WALLET_AUTH_MAX_AGE_MS = 300000"

definition walletAuthMessage :: "auth_env \<Rightarrow> string \<Rightarrow> string \<Rightarrow> string \<Rightarrow> string \<Rightarrow> string" where
  "walletAuthMessage A httpMethod path rawBody signedAtMs =
     ''subly-api:'' @ toUpperCase httpMethod @ '':'' @ path @ '':'' @ au_sha A rawBody @ '':'' @ signedAtMs"

text \<open>The language of \<open>/^\d{1,16}$/\<close>.\<close>

definition timestampText :: "string \<Rightarrow> bool" where
  "timestampText s \<longleftrightarrow> 1 \<le> length s \<and> length s \<le> 16 \<and> list_all is_digit s"

datatype WalletAuthResult = WalletAuthOk string | WalletAuthRefused string

definition verifyWalletAuth ::
  "auth_env \<Rightarrow> string option \<Rightarrow> string option \<Rightarrow> string option \<Rightarrow> string \<Rightarrow> string \<Rightarrow> string \<Rightarrow> int \<Rightarrow> WalletAuthResult" where
  "verifyWalletAuth A wallet signedAt signature httpMethod path rawBody now =
     (case (wallet, signedAt, signature) of
        (Some w, Some at, Some sg) \<Rightarrow>
          if \<not> timestampText at then WalletAuthRefused ''invalid x-subly-signed-at''
          else if \<bar>now - BigInt at\<bar> > WALLET_AUTH_MAX_AGE_MS then WalletAuthRefused ''wallet auth signature expired''
          else (case (au_decode A w, au_decode A sg) of
              (Some publicKeyBytes, Some signatureBytes) \<Rightarrow>
                if length publicKeyBytes \<noteq> 32 \<or> length signatureBytes \<noteq> 64
                then WalletAuthRefused ''invalid wallet auth key or signature length''
                else if \<not> au_verify A (walletAuthMessage A httpMethod path rawBody at) signatureBytes publicKeyBytes
                then WalletAuthRefused ''wallet auth signature verification failed''
                else WalletAuthOk w
            | _ \<Rightarrow> WalletAuthRefused ''invalid base58 in wallet auth headers'')
      | _ \<Rightarrow> WalletAuthRefused ''missing wallet auth headers'')"

section \<open>What a signature binds\<close>

lemma colon_not_digit: "list_all is_digit s \<Longrightarrow> CHR '':'' \<notin> set s"
  by (auto simp: list_all_iff is_digit_def)

lemma append_colon_eq:
  assumes "x @ CHR '':'' # a = y @ CHR '':'' # b" "CHR '':'' \<notin> set x" "CHR '':'' \<notin> set y"
  shows "x = y \<and> a = b"
proof -
  have "takeWhile (\<lambda>c. c \<noteq> CHR '':'') (x @ CHR '':'' # a) = x" "takeWhile (\<lambda>c. c \<noteq> CHR '':'') (y @ CHR '':'' # b) = y"
    using assms(2,3) by (auto simp: takeWhile_append intro!: takeWhile_eq_all_conv [THEN iffD2])
  then show ?thesis using assms(1) by auto
qed

lemma append_colon_eq_last:
  assumes "a @ CHR '':'' # x = b @ CHR '':'' # y" "CHR '':'' \<notin> set x" "CHR '':'' \<notin> set y"
  shows "a = b \<and> x = y"
proof -
  have "rev x @ CHR '':'' # rev a = rev y @ CHR '':'' # rev b"
    using arg_cong[OF assms(1), of rev] by simp
  from append_colon_eq[OF this] show ?thesis using assms(2,3) by auto
qed

definition plain_digest :: "auth_env \<Rightarrow> bool" where
  "plain_digest A \<longleftrightarrow> (\<forall>s. CHR '':'' \<notin> set (au_sha A s))"

lemma toUpperCase_colon: "CHR '':'' \<notin> set (toUpperCase m) \<longleftrightarrow> CHR '':'' \<notin> set m"
proof -
  have colon: "CHR '':'' = (if CHR ''a'' \<le> c \<and> c \<le> CHR ''z'' then char_of (of_char c - 32 :: nat) else c)
      \<longleftrightarrow> c = CHR '':''" for c
  proof (cases "CHR ''a'' \<le> c \<and> c \<le> CHR ''z''")
    case True
    then have "97 \<le> (of_char c :: nat)" "(of_char c :: nat) \<le> 122" by (simp_all add: less_eq_char_def)
    then have "(of_char (char_of (of_char c - 32 :: nat)) :: nat) \<noteq> 58" "(of_char c :: nat) \<noteq> 58" by simp_all
    moreover have "(of_char (CHR '':'') :: nat) = 58" by simp
    ultimately show ?thesis using True by metis
  next
    case False
    show ?thesis unfolding if_not_P[OF False] by (rule eq_commute)
  qed
  show ?thesis unfolding toUpperCase_def set_map image_iff colon by auto
qed

text \<open>
  The signed line determines the request: two requests with the same line have the same
  method, path, body hash and time, whatever characters their paths contain. A signature made
  for one request therefore authorizes no other, as long as the hash tells bodies apart.
\<close>

theorem wallet_auth_binds_request:
  assumes "plain_digest A" "CHR '':'' \<notin> set m" "CHR '':'' \<notin> set m'" "timestampText t" "timestampText t'"
    and "walletAuthMessage A m path body t = walletAuthMessage A m' path' body' t'"
  shows "toUpperCase m = toUpperCase m' \<and> path = path' \<and> au_sha A body = au_sha A body' \<and> t = t'"
proof -
  have eq: "toUpperCase m @ CHR '':'' # path @ CHR '':'' # au_sha A body @ CHR '':'' # t
      = toUpperCase m' @ CHR '':'' # path' @ CHR '':'' # au_sha A body' @ CHR '':'' # t'"
    using assms(6) by (simp add: walletAuthMessage_def)
  have first: "toUpperCase m = toUpperCase m'"
    and rest: "(path @ CHR '':'' # au_sha A body) @ CHR '':'' # t = (path' @ CHR '':'' # au_sha A body') @ CHR '':'' # t'"
    using append_colon_eq[OF eq] assms(2,3) by (auto simp: toUpperCase_colon)
  have "path @ CHR '':'' # au_sha A body = path' @ CHR '':'' # au_sha A body' \<and> t = t'"
    by (rule append_colon_eq_last[OF rest])
      (use assms(4,5) in \<open>simp_all add: timestampText_def colon_not_digit\<close>)
  then show ?thesis
    using first append_colon_eq_last[of path "au_sha A body" path' "au_sha A body'"] assms(1)
    by (auto simp: plain_digest_def)
qed

definition sample_auth :: auth_env where
  "sample_auth = \<lparr>au_sha = (\<lambda>_. ''00ff''), au_decode = (\<lambda>_. None), au_verify = (\<lambda>_ _ _. False)\<rparr>"

theorem wallet_auth_binds_request_witness:
  "toUpperCase ''get'' = toUpperCase ''GET'' \<and> ''/v1?a=1:2'' = ''/v1?a=1:2''
     \<and> au_sha sample_auth ''x'' = au_sha sample_auth ''y'' \<and> ''17'' = ''17''"
proof (rule wallet_auth_binds_request)
  show "plain_digest sample_auth" by (simp add: plain_digest_def sample_auth_def)
  show "timestampText ''17''" "timestampText ''17''" by code_simp+
  show "walletAuthMessage sample_auth ''get'' ''/v1?a=1:2'' ''x'' ''17''
      = walletAuthMessage sample_auth ''GET'' ''/v1?a=1:2'' ''y'' ''17''"
    by code_simp
qed simp_all

text \<open>A request is authorized as a wallet exactly when its key signed this line recently.\<close>

lemma verifyWalletAuth_ok:
  "verifyWalletAuth A wallet signedAt signature m path body now = WalletAuthOk w \<longleftrightarrow>
     wallet = Some w \<and> (\<exists>t sg key sig. signedAt = Some t \<and> signature = Some sg
       \<and> timestampText t \<and> \<bar>now - BigInt t\<bar> \<le> 300000
       \<and> au_decode A w = Some key \<and> length key = 32 \<and> au_decode A sg = Some sig \<and> length sig = 64
       \<and> au_verify A (walletAuthMessage A m path body t) sig key)"
  by (auto simp: verifyWalletAuth_def WALLET_AUTH_MAX_AGE_MS_def split: option.splits if_splits)

section \<open>The client\<close>

text \<open>
  \<open>sign\<close> is the wallet's key; \<open>path\<close> the path and query the platform reads from the URL.
\<close>

record wallet_headers =
  wh_wallet :: string
  wh_signedAt :: string
  wh_signature :: string

definition walletAuthHeaders ::
  "auth_env \<Rightarrow> string \<Rightarrow> (string \<Rightarrow> string) \<Rightarrow> string \<Rightarrow> string \<Rightarrow> string option \<Rightarrow> int \<Rightarrow> wallet_headers" where
  "walletAuthHeaders A wallet sign httpMethod path body now =
     (let signedAtMs = toString now in
      \<lparr>wh_wallet = wallet, wh_signedAt = signedAtMs,
       wh_signature = sign (walletAuthMessage A httpMethod path (case body of None \<Rightarrow> [] | Some b \<Rightarrow> b) signedAtMs)\<rparr>)"

text \<open>Headers are accepted for five minutes around the time they were made.\<close>

lemma fresh_headers_accepted:
  assumes "walletAuthHeaders A wallet sign m path body now = h"
    and "au_decode A wallet = Some key" "length key = 32" "timestampText (toString now)" "BigInt (toString now) = now"
    and "\<And>line. \<exists>sig. au_decode A (sign line) = Some sig \<and> length sig = 64 \<and> au_verify A line sig key"
    and "\<bar>later - now\<bar> \<le> 300000"
  shows "verifyWalletAuth A (Some (wh_wallet h)) (Some (wh_signedAt h)) (Some (wh_signature h)) m path
    (case body of None \<Rightarrow> [] | Some b \<Rightarrow> b) later = WalletAuthOk wallet"
  unfolding assms(1)[symmetric] verifyWalletAuth_ok
  using assms(2-7) by (auto simp: walletAuthHeaders_def Let_def)

end
