(* ===== verification/Fee_Oracle.thy ===== *)
theory Fee_Oracle
  imports Payment_Core
begin

text \<open>
  The fee estimators, \<open>src/src/domain/fee-estimator.ts\<close> and \<open>src/src/domain/pyth-fee-estimator.ts\<close>: a
  static one, one of a configured price and one of the Pyth oracle with its cache. A time of
  observation that is no time is \<open>None\<close>; a response of the oracle is its parsed price.
\<close>

section \<open>The static and the policy estimator\<close>

definition staticEstimate :: "int \<Rightarrow> int \<Rightarrow> FeeEstimate" where
  "staticEstimate lamports feeDebt =
     \<lparr>fe_estimatedFeeLamports = lamports, fe_estimatedFeeDebtRawUsdc = feeDebt\<rparr>"

record PolicyFeeEstimatorConfig =
  pf_estimatedFeeLamports :: int
  pf_solUsdcPriceScaled :: int
  pf_priceScale :: int
  pf_observedAtMs :: "int option"
  pf_maxAgeMs :: int
  pf_maxEstimatedFeeLamports :: int
  pf_maxFeeDebtRawUsdcPerPayment :: int

definition policyEstimate :: "PolicyFeeEstimatorConfig \<Rightarrow> int \<Rightarrow> FeeEstimate result" where
  "policyEstimate F now = (case pf_observedAtMs F of
       None \<Rightarrow> Inl (conflict ''stale_oracle'')
     | Some observedAtMs \<Rightarrow>
         if observedAtMs > now + 60000 then Inl (conflict ''stale_oracle'')
         else if now - observedAtMs > pf_maxAgeMs F then Inl (conflict ''stale_oracle'')
         else if pf_estimatedFeeLamports F > pf_maxEstimatedFeeLamports F then Inl (conflict ''fee_cap_exceeded'')
         else bindR (ceilDiv (pf_estimatedFeeLamports F * pf_solUsdcPriceScaled F) (1000000000 * pf_priceScale F))
           (\<lambda>estimatedFeeDebtRawUsdc.
             if estimatedFeeDebtRawUsdc > pf_maxFeeDebtRawUsdcPerPayment F then Inl (conflict ''fee_cap_exceeded'')
             else Inr (staticEstimate (pf_estimatedFeeLamports F) estimatedFeeDebtRawUsdc)))"

definition parseFeeRawUnits :: "js_unknown \<Rightarrow> string \<Rightarrow> bool \<Rightarrow> int result" where
  "parseFeeRawUnits v fieldName positive =
     (case (if positive then parsePositiveRawUnits v fieldName else parseRawUnits v fieldName) of
        Inl _ \<Rightarrow> Inl (badRequest ''invalid_fee_oracle_config'')
      | Inr n \<Rightarrow> Inr n)"

text \<open>The language of \<open>/^(0|[1-9]\d*)$/\<close> and the bound of a safe integer.\<close>

definition parseNonNegativeSafeInteger :: "string \<Rightarrow> int result" where
  "parseNonNegativeSafeInteger v =
     (if \<not> raw_integer v then Inl (badRequest ''invalid_fee_oracle_config'')
      else if BigInt v > MAX_SAFE_INTEGER then Inl (badRequest ''invalid_fee_oracle_config'')
      else Inr (BigInt v))"

text \<open>
  \<open>feeEstimatorFromEnv\<close>: \<open>env\<close> reads an environment variable, \<open>date\<close> is \<open>new Date\<close>.
\<close>

definition envValue :: "(string \<Rightarrow> string option) \<Rightarrow> string \<Rightarrow> js_unknown" where
  "envValue env k = (case env k of None \<Rightarrow> JsOther | Some v \<Rightarrow> JsStr v)"

definition envOr :: "(string \<Rightarrow> string option) \<Rightarrow> string \<Rightarrow> string \<Rightarrow> string" where
  "envOr env k d = (case env k of None \<Rightarrow> d | Some v \<Rightarrow> v)"

definition feeEstimatorFromEnv ::
  "(string \<Rightarrow> string option) \<Rightarrow> (string \<Rightarrow> int option) \<Rightarrow> PolicyFeeEstimatorConfig result" where
  "feeEstimatorFromEnv env date =
     bindR (parseFeeRawUnits (envValue env ''SUBLY_ESTIMATED_FEE_LAMPORTS'') ''SUBLY_ESTIMATED_FEE_LAMPORTS'' False) (\<lambda>lamports.
     bindR (parseFeeRawUnits (envValue env ''SUBLY_SOL_USDC_PRICE_SCALED'') ''SUBLY_SOL_USDC_PRICE_SCALED'' True) (\<lambda>price.
     bindR (parseFeeRawUnits (envValue env ''SUBLY_PRICE_SCALE'') ''SUBLY_PRICE_SCALE'' True) (\<lambda>scale.
     case env ''SUBLY_FEE_OBSERVED_AT'' of
       None \<Rightarrow> Inl (badRequest ''fee_oracle_not_configured'')
     | Some observedAt \<Rightarrow>
         bindR (parseNonNegativeSafeInteger (envOr env ''SUBLY_FEE_MAX_AGE_MS'' ''60000'')) (\<lambda>maxAge.
         bindR (parseFeeRawUnits (JsStr (envOr env ''SUBLY_MAX_ESTIMATED_FEE_LAMPORTS'' (toString lamports)))
           ''SUBLY_MAX_ESTIMATED_FEE_LAMPORTS'' False) (\<lambda>maxLamports.
         bindR (parseFeeRawUnits (JsStr (envOr env ''SUBLY_MAX_FEE_DEBT_RAW_USDC_PER_PAYMENT'' ''10000''))
           ''SUBLY_MAX_FEE_DEBT_RAW_USDC_PER_PAYMENT'' False) (\<lambda>maxDebt.
         Inr \<lparr>pf_estimatedFeeLamports = lamports, pf_solUsdcPriceScaled = price, pf_priceScale = scale,
           pf_observedAtMs = date observedAt, pf_maxAgeMs = maxAge, pf_maxEstimatedFeeLamports = maxLamports,
           pf_maxFeeDebtRawUsdcPerPayment = maxDebt\<rparr>))))))"

section \<open>The Pyth estimator\<close>

definition LAMPORTS_PER_SOL :: int where "LAMPORTS_PER_SOL = 1000000000"
definition PRICE_SCALE :: int where "PRICE_SCALE = 1000000000"

record PythConfig =
  py_estimatedFeeLamports :: int
  py_maxEstimatedFeeLamports :: int
  py_maxFeeDebtRawUsdcPerPayment :: int
  py_maxPriceAgeMs :: int
  py_priceCacheTtlMs :: int

definition DEFAULT_PYTH_FEE_CONFIG :: PythConfig where
  "DEFAULT_PYTH_FEE_CONFIG = \<lparr>py_estimatedFeeLamports = 120000, py_maxEstimatedFeeLamports = 2000000,
     py_maxFeeDebtRawUsdcPerPayment = 50000, py_maxPriceAgeMs = 60000, py_priceCacheTtlMs = 10000\<rparr>"

record CachedPrice =
  cp_priceScaled :: int
  cp_publishTimeMs :: int
  cp_fetchedAtMs :: int

text \<open>A response: the price text, its exponent and the publish time in seconds; \<open>None\<close> when missing.\<close>

record PythPrice =
  pq_price :: "string option"
  pq_expo :: "int option"
  pq_publishTime :: "int option"

text \<open>The language of \<open>/^-?\d+$/\<close>.\<close>

definition signedIntegerText :: "string \<Rightarrow> bool" where
  "signedIntegerText s \<longleftrightarrow> (let d = (if s \<noteq> [] \<and> hd s = CHR ''-'' then tl s else s) in d \<noteq> [] \<and> list_all is_digit d)"

definition signedIntegerValue :: "string \<Rightarrow> int" where
  "signedIntegerValue s = (if s \<noteq> [] \<and> hd s = CHR ''-'' then - BigInt (tl s) else BigInt s)"

text \<open>The division of JavaScript truncates towards zero.\<close>

definition truncDiv :: "int \<Rightarrow> int \<Rightarrow> int" where
  "truncDiv a b = sgn a * sgn b * (\<bar>a\<bar> div \<bar>b\<bar>)"

definition scalePythPrice :: "string \<Rightarrow> int \<Rightarrow> int result" where
  "scalePythPrice price expo =
     (if \<not> signedIntegerText price then Inl (conflict ''stale_oracle'')
      else
        let v = signedIntegerValue price; targetExpo = expo + 9 in
        if targetExpo \<ge> 0 then Inr (v * 10 ^ nat targetExpo) else Inr (truncDiv v (10 ^ nat (- targetExpo))))"

definition assertFresh :: "PythConfig \<Rightarrow> CachedPrice \<Rightarrow> int \<Rightarrow> unit result" where
  "assertFresh P price now =
     (if now - cp_publishTimeMs price > py_maxPriceAgeMs P then Inl (conflict ''stale_oracle'')
      else checkR (\<not> cp_publishTimeMs price > now + 60000) (conflict ''stale_oracle''))"

text \<open>The state of the estimator is its cached price; \<open>fetched\<close> is the answer of the oracle.\<close>

definition freshPrice :: "PythConfig \<Rightarrow> int \<Rightarrow> PythPrice result \<Rightarrow> (CachedPrice option, CachedPrice) action" where
  "freshPrice P now fetched =
     bindA (getsA id) (\<lambda>cached.
     case (case cached of Some c \<Rightarrow> if now - cp_fetchedAtMs c \<le> py_priceCacheTtlMs P then Some c else None
           | None \<Rightarrow> None) of
       Some c \<Rightarrow> bindA (liftR (assertFresh P c now)) (\<lambda>_. returnA c)
     | None \<Rightarrow>
         (case fetched of
            Inl _ \<Rightarrow> throwA (conflict ''stale_oracle'')
          | Inr r \<Rightarrow> (case (pq_price r, pq_expo r, pq_publishTime r) of
              (Some price, Some expo, Some publishTime) \<Rightarrow>
                bindA (liftR (scalePythPrice price expo)) (\<lambda>priceScaled.
                bindA (assertA (\<not> priceScaled \<le> 0) (conflict ''stale_oracle'')) (\<lambda>_.
                let new = \<lparr>cp_priceScaled = priceScaled, cp_publishTimeMs = publishTime * 1000, cp_fetchedAtMs = now\<rparr> in
                bindA (liftR (assertFresh P new now)) (\<lambda>_.
                bindA (modifyA (\<lambda>_. Some new)) (\<lambda>_. returnA new))))
            | _ \<Rightarrow> throwA (conflict ''stale_oracle''))))"

definition feeLamportsToUsdc :: "int \<Rightarrow> CachedPrice \<Rightarrow> int result" where
  "feeLamportsToUsdc feeLamports price =
     ceilDiv (feeLamports * cp_priceScaled price * 1000000) (LAMPORTS_PER_SOL * PRICE_SCALE)"

definition pythEstimate :: "PythConfig \<Rightarrow> int \<Rightarrow> PythPrice result \<Rightarrow> (CachedPrice option, FeeEstimate) action" where
  "pythEstimate P now fetched =
     bindA (assertA (\<not> py_estimatedFeeLamports P > py_maxEstimatedFeeLamports P) (conflict ''fee_cap_exceeded'')) (\<lambda>_.
     bindA (freshPrice P now fetched) (\<lambda>price.
     bindA (liftR (feeLamportsToUsdc (py_estimatedFeeLamports P) price)) (\<lambda>estimatedFeeDebtRawUsdc.
     bindA (assertA (\<not> estimatedFeeDebtRawUsdc > py_maxFeeDebtRawUsdcPerPayment P) (conflict ''fee_cap_exceeded'')) (\<lambda>_.
     returnA (staticEstimate (py_estimatedFeeLamports P) estimatedFeeDebtRawUsdc)))))"

definition convertFeeLamportsToUsdc :: "PythConfig \<Rightarrow> int \<Rightarrow> PythPrice result \<Rightarrow> int \<Rightarrow> (CachedPrice option, int) action" where
  "convertFeeLamportsToUsdc P now fetched feeLamports =
     bindA (freshPrice P now fetched) (\<lambda>price. liftR (feeLamportsToUsdc feeLamports price))"

section \<open>What an estimate is\<close>

definition cache_ok :: "CachedPrice option \<Rightarrow> bool" where
  "cache_ok c \<longleftrightarrow> (case c of None \<Rightarrow> True | Some p \<Rightarrow> 0 < cp_priceScaled p)"

definition fresh_price :: "PythConfig \<Rightarrow> int \<Rightarrow> CachedPrice \<Rightarrow> bool" where
  "fresh_price P now price \<longleftrightarrow> 0 < cp_priceScaled price
     \<and> now - py_maxPriceAgeMs P \<le> cp_publishTimeMs price \<and> cp_publishTimeMs price \<le> now + 60000"

lemma assertFresh_Inr: "assertFresh P price now = Inr u \<longleftrightarrow>
    now - py_maxPriceAgeMs P \<le> cp_publishTimeMs price \<and> cp_publishTimeMs price \<le> now + 60000" for u :: unit
  by (auto simp: assertFresh_def)

lemma freshPrice_Inr:
  assumes "cache_ok c"
  shows "runs (freshPrice P now fetched) c (\<lambda>price c'. c' = Some price \<and> fresh_price P now price) (\<lambda>_ c'. c' = c)"
  using assms
  by (auto simp: freshPrice_def fresh_price_def cache_ok_def assertFresh_Inr Let_def split: option.splits sum.splits if_splits)

text \<open>The least raw amount that pays for the lamports at the price.\<close>

definition covers_exactly :: "int \<Rightarrow> int \<Rightarrow> int \<Rightarrow> bool" where
  "covers_exactly lamports price debt \<longleftrightarrow>
     (debt - 1) * 10 ^ 18 < lamports * price * 10 ^ 6 \<and> lamports * price * 10 ^ 6 \<le> debt * 10 ^ 18"

lemma feeLamportsToUsdc_exact:
  assumes "feeLamportsToUsdc lamports price = Inr debt"
  shows "covers_exactly lamports (cp_priceScaled price) debt" "0 \<le> debt"
proof -
  have q: "0 \<le> lamports * cp_priceScaled price * 1000000"
    "lamports * cp_priceScaled price * 1000000 \<le> debt * 1000000000000000000"
    "debt * 1000000000000000000 < lamports * cp_priceScaled price * 1000000 + 1000000000000000000"
    using assms by (auto simp: feeLamportsToUsdc_def ceilDiv_iff LAMPORTS_PER_SOL_def PRICE_SCALE_def Let_def)
  then show "covers_exactly lamports (cp_priceScaled price) debt"
    by (simp add: covers_exactly_def algebra_simps)
  show "0 \<le> debt" using q by linarith
qed

text \<open>
  C40: an estimate of the Pyth oracle charges the configured lamports at a positive price that is
  fresh at the time of the estimate, also when it comes from the cache; the debt is the least raw
  amount that covers them, it is not negative and within its cap. A refusal leaves the cache as
  it was or with a fresh price.
\<close>

theorem pyth_estimate_is_fresh_and_exact:
  assumes "cache_ok c" "pythEstimate P now fetched c = (Inr estimate, c')"
  shows "\<exists>price. c' = Some price \<and> cache_ok c' \<and> fresh_price P now price
    \<and> fe_estimatedFeeLamports estimate = py_estimatedFeeLamports P
    \<and> py_estimatedFeeLamports P \<le> py_maxEstimatedFeeLamports P
    \<and> covers_exactly (py_estimatedFeeLamports P) (cp_priceScaled price) (fe_estimatedFeeDebtRawUsdc estimate)
    \<and> 0 \<le> fe_estimatedFeeDebtRawUsdc estimate
    \<and> fe_estimatedFeeDebtRawUsdc estimate \<le> py_maxFeeDebtRawUsdcPerPayment P"
proof -
  obtain price d where fresh: "freshPrice P now fetched c = (Inr price, d)"
    and within: "py_estimatedFeeLamports P \<le> py_maxEstimatedFeeLamports P"
    using assms(2) by (auto simp: pythEstimate_def action_defs split: if_splits prod.splits sum.splits)
  obtain debt where debt: "feeLamportsToUsdc (py_estimatedFeeLamports P) price = Inr debt"
    and estimate: "debt \<le> py_maxFeeDebtRawUsdcPerPayment P" "c' = d"
      "estimate = staticEstimate (py_estimatedFeeLamports P) debt"
    using assms(2) within fresh by (auto simp: pythEstimate_def action_defs split: if_splits prod.splits sum.splits)
  have "d = Some price" "fresh_price P now price"
    using runs_InrD[OF freshPrice_Inr[OF assms(1)] fresh] by simp_all
  then show ?thesis
    using feeLamportsToUsdc_exact[OF debt] within estimate
    by (auto simp: staticEstimate_def cache_ok_def fresh_price_def)
qed

lemma sample_price: "scalePythPrice ''15000000000'' (- 8) = Inr 150000000000"
  by code_simp

theorem pyth_estimate_is_fresh_and_exact_witness:
  "covers_exactly 120000 150000000000 18000 \<and> (18000 :: int) \<le> 50000"
proof -
  let ?r = "Inr \<lparr>pq_price = Some ''15000000000'', pq_expo = Some (- 8), pq_publishTime = Some 1000\<rparr>"
  let ?p = "\<lparr>cp_priceScaled = 150000000000, cp_publishTimeMs = 1000000, cp_fetchedAtMs = 1005000\<rparr>"
  have run: "pythEstimate DEFAULT_PYTH_FEE_CONFIG 1005000 ?r None = (Inr (staticEstimate 120000 18000), Some ?p)"
    by (simp add: pythEstimate_def freshPrice_def action_defs sample_price assertFresh_def DEFAULT_PYTH_FEE_CONFIG_def
        feeLamportsToUsdc_def ceilDiv_def LAMPORTS_PER_SOL_def PRICE_SCALE_def Let_def)
  have "cache_ok None" by (simp add: cache_ok_def)
  from pyth_estimate_is_fresh_and_exact[OF this run]
  show ?thesis by (auto simp: staticEstimate_def DEFAULT_PYTH_FEE_CONFIG_def)
qed

lemma ceilDiv_nonneg: "ceilDiv n d = Inr q \<Longrightarrow> 0 \<le> q"
  unfolding ceilDiv_iff by (metis linorder_not_less order.trans mult_neg_pos less_le_not_le)

text \<open>The policy estimator: within its caps, of a recent observation, and never negative.\<close>

lemma policy_estimate_ok:
  assumes "policyEstimate F now = Inr estimate"
  shows "0 \<le> fe_estimatedFeeDebtRawUsdc estimate
    \<and> fe_estimatedFeeDebtRawUsdc estimate \<le> pf_maxFeeDebtRawUsdcPerPayment F
    \<and> fe_estimatedFeeLamports estimate \<le> pf_maxEstimatedFeeLamports F
    \<and> (\<exists>t. pf_observedAtMs F = Some t \<and> now - pf_maxAgeMs F \<le> t \<and> t \<le> now + 60000)"
proof -
  obtain debt where "ceilDiv (pf_estimatedFeeLamports F * pf_solUsdcPriceScaled F) (1000000000 * pf_priceScale F) = Inr debt"
    "debt \<le> pf_maxFeeDebtRawUsdcPerPayment F" "estimate = staticEstimate (pf_estimatedFeeLamports F) debt"
    using assms by (auto simp: policyEstimate_def bindR_Inr split: option.splits if_splits)
  then show ?thesis
    using assms ceilDiv_nonneg by (auto simp: policyEstimate_def staticEstimate_def split: option.splits if_splits)
qed

end
