(* ===== verification/Rate_Limit.thy ===== *)
theory Rate_Limit
  imports Prelude Complex_Main
begin

text \<open>
  The token bucket limiter of \<open>src/src/x402/rate-limit.ts\<close> and the operational metrics of
  \<open>src/src/domain/metrics.ts\<close>. The fractional tokens are exact rationals here, where the source
  computes with doubles; times are whole milliseconds.
\<close>

section \<open>The limiter\<close>

record TokenBucketConfig =
  lm_capacity :: rat
  lm_refillPerSecond :: rat
  lm_maxKeys :: int

definition DEFAULT_MAX_KEYS :: int where "DEFAULT_MAX_KEYS = 10000"

definition newLimiter :: "rat \<Rightarrow> rat \<Rightarrow> int option \<Rightarrow> TokenBucketConfig result" where
  "newLimiter capacity refillPerSecond maxKeys =
     (if capacity \<le> 0 \<or> refillPerSecond \<le> 0 then Inl (JsError ''capacity and refillPerSecond must be positive'')
      else Inr \<lparr>lm_capacity = capacity, lm_refillPerSecond = refillPerSecond,
        lm_maxKeys = (case maxKeys of None \<Rightarrow> DEFAULT_MAX_KEYS | Some n \<Rightarrow> n)\<rparr>)"

record Bucket =
  bk_tokens :: rat
  bk_lastRefillMs :: int

type_synonym buckets = "(string, Bucket) js_map"

definition elapsedSeconds :: "int \<Rightarrow> Bucket \<Rightarrow> rat" where
  "elapsedSeconds now b = of_int (max 0 (now - bk_lastRefillMs b)) / 1000"

text \<open>The scan for idle buckets; the second component says that it made room and returned.\<close>

fun evictIdle :: "TokenBucketConfig \<Rightarrow> int \<Rightarrow> (string \<times> Bucket) list \<Rightarrow> buckets \<Rightarrow> buckets \<times> bool" where
  "evictIdle L now [] m = (m, False)"
| "evictIdle L now ((key, b) # rest) m =
     (if bk_tokens b + elapsedSeconds now b * lm_refillPerSecond L \<ge> lm_capacity L then
        let m' = map_delete key m in
        if int (length m') < lm_maxKeys L then (m', True) else evictIdle L now rest m'
      else evictIdle L now rest m)"

definition evictIfFull :: "TokenBucketConfig \<Rightarrow> int \<Rightarrow> buckets \<Rightarrow> buckets" where
  "evictIfFull L now m =
     (if int (length m) < lm_maxKeys L then m
      else case evictIdle L now m m of
          (m', True) \<Rightarrow> m'
        | (m', False) \<Rightarrow> (case m' of [] \<Rightarrow> [] | (oldest, _) # _ \<Rightarrow> map_delete oldest m'))"

definition refilled :: "TokenBucketConfig \<Rightarrow> int \<Rightarrow> Bucket \<Rightarrow> Bucket" where
  "refilled L now b = \<lparr>bk_tokens = min (lm_capacity L) (bk_tokens b + elapsedSeconds now b * lm_refillPerSecond L),
     bk_lastRefillMs = now\<rparr>"

definition tryTake :: "TokenBucketConfig \<Rightarrow> int \<Rightarrow> string \<Rightarrow> buckets \<Rightarrow> bool \<times> buckets" where
  "tryTake L now key m =
     (let (b, m') = (case map_get m key of
          None \<Rightarrow> (\<lparr>bk_tokens = lm_capacity L, bk_lastRefillMs = now\<rparr>, evictIfFull L now m)
        | Some b \<Rightarrow> (refilled L now b, m)) in
      if bk_tokens b < 1 then (False, map_set key b m')
      else (True, map_set key (b\<lparr>bk_tokens := bk_tokens b - 1\<rparr>) m'))"

definition retryAfterSeconds :: "TokenBucketConfig \<Rightarrow> string \<Rightarrow> buckets \<Rightarrow> int" where
  "retryAfterSeconds L key m = (case map_get m key of
       None \<Rightarrow> 0
     | Some b \<Rightarrow> if bk_tokens b \<ge> 1 then 0 else \<lceil>(1 - bk_tokens b) / lm_refillPerSecond L\<rceil>)"

text \<open>A sequence of takes, and how many of them one key was granted.\<close>

fun takes :: "TokenBucketConfig \<Rightarrow> (int \<times> string) list \<Rightarrow> buckets \<Rightarrow> (string \<times> bool) list" where
  "takes L [] m = []"
| "takes L ((now, key) # calls) m = (let (granted, m') = tryTake L now key m in (key, granted) # takes L calls m')"

definition granted_to :: "string \<Rightarrow> (string \<times> bool) list \<Rightarrow> nat" where
  "granted_to k rs = length (filter (\<lambda>r. r = (k, True)) rs)"

section \<open>The buckets stay bounded\<close>

definition limiter_ok :: "TokenBucketConfig \<Rightarrow> bool" where
  "limiter_ok L \<longleftrightarrow> 0 < lm_capacity L \<and> 0 < lm_refillPerSecond L \<and> 1 \<le> lm_maxKeys L"

definition bucket_ok :: "TokenBucketConfig \<Rightarrow> Bucket \<Rightarrow> bool" where
  "bucket_ok L b \<longleftrightarrow> 0 \<le> bk_tokens b \<and> bk_tokens b \<le> lm_capacity L"

definition buckets_ok :: "TokenBucketConfig \<Rightarrow> buckets \<Rightarrow> bool" where
  "buckets_ok L m \<longleftrightarrow> map_ok m \<and> int (length m) \<le> lm_maxKeys L
     \<and> (\<forall>k b. map_get m k = Some b \<longrightarrow> bucket_ok L b)"

lemma length_delete_le: "length (map_delete k m) \<le> length m"
  by (simp add: map_delete_def AList.delete_eq)

lemma length_delete_less: "map_get m k \<noteq> None \<Longrightarrow> length (map_delete k m) < length m"
  by (induction m) (auto simp: map_delete_def map_get_def AList.delete_eq less_Suc_eq_le split: if_splits)

lemma length_set: "map_ok m \<Longrightarrow> length (map_set k v m) = (if map_get m k = None then Suc (length m) else length m)"
  by (induction m) (auto simp: map_set_def map_get_def map_ok_def split: if_splits)

lemma elapsed_nonneg [simp]: "0 \<le> elapsedSeconds now b"
  by (simp add: elapsedSeconds_def)

text \<open>Eviction only removes buckets.\<close>

definition sub_map :: "buckets \<Rightarrow> buckets \<Rightarrow> bool" where
  "sub_map m' m \<longleftrightarrow> (map_ok m \<longrightarrow> map_ok m') \<and> length m' \<le> length m
     \<and> (\<forall>k b. map_get m' k = Some b \<longrightarrow> map_get m k = Some b)"

lemma sub_map_refl [simp]: "sub_map m m" by (simp add: sub_map_def)

lemma sub_map_trans: "sub_map m'' m' \<Longrightarrow> sub_map m' m \<Longrightarrow> sub_map m'' m"
  by (auto simp: sub_map_def)

lemma sub_map_delete [simp]: "sub_map (map_delete k m) m"
  by (auto simp: sub_map_def length_delete_le split: if_splits)

lemma evictIdle_sub: "sub_map (fst (evictIdle L now bs m)) m"
  by (induction L now bs m rule: evictIdle.induct)
    (auto simp: Let_def intro: sub_map_trans[OF _ sub_map_delete])

lemma evictIdle_room: "evictIdle L now bs m = (m', True) \<Longrightarrow> int (length m') < lm_maxKeys L"
  by (induction L now bs m rule: evictIdle.induct) (auto simp: Let_def split: if_splits)

lemma evictIfFull_ok:
  assumes "buckets_ok L m" "limiter_ok L"
  shows "sub_map (evictIfFull L now m) m" "int (length (evictIfFull L now m)) < lm_maxKeys L"
proof -
  have "sub_map (evictIfFull L now m) m \<and> int (length (evictIfFull L now m)) < lm_maxKeys L"
  proof (cases "int (length m) < lm_maxKeys L")
    case False
    obtain m' full where m': "evictIdle L now m m = (m', full)" by (cases "evictIdle L now m m")
    have sub: "sub_map m' m" using evictIdle_sub[of L now m m] m' by simp
    show ?thesis
    proof (cases full)
      case True
      then show ?thesis using False m' sub evictIdle_room[of L now m m m'] by (simp add: evictIfFull_def)
    next
      case no: False
      show ?thesis
      proof (cases m')
        case Nil
        then show ?thesis using False m' no sub assms(2) by (simp add: evictIfFull_def limiter_ok_def)
      next
        case (Cons ob rest)
        then obtain oldest b where ob: "m' = (oldest, b) # rest" by (cases ob) auto
        have "length (map_delete oldest m') < length m'"
          by (rule length_delete_less) (simp add: ob map_get_def)
        moreover have "int (length m') \<le> lm_maxKeys L"
          using sub assms(1) by (auto simp: sub_map_def buckets_ok_def)
        ultimately show ?thesis
          using False m' no sub sub_map_trans[OF sub_map_delete sub] by (simp add: evictIfFull_def ob)
      qed
    qed
  qed (simp add: evictIfFull_def)
  then show "sub_map (evictIfFull L now m) m" "int (length (evictIfFull L now m)) < lm_maxKeys L" by simp_all
qed

lemma tryTake_ok:
  assumes "buckets_ok L m" "limiter_ok L"
  shows "buckets_ok L (snd (tryTake L now key m))"
proof (cases "map_get m key")
  case None
  note ev = evictIfFull_ok[OF assms, of now]
  have "map_get (evictIfFull L now m) key = None"
    using ev(1) None by (cases "map_get (evictIfFull L now m) key") (auto simp: sub_map_def)
  then show ?thesis
    using ev assms None
    by (auto simp: tryTake_def buckets_ok_def sub_map_def length_set bucket_ok_def limiter_ok_def split: if_splits)
next
  case (Some b)
  then have "bucket_ok L b" using assms(1) by (simp add: buckets_ok_def)
  then show ?thesis
    using assms Some
    by (auto simp: tryTake_def buckets_ok_def length_set bucket_ok_def limiter_ok_def refilled_def split: if_splits)
qed

section \<open>What a key is granted\<close>

lemma tryTake_other: "k \<noteq> key \<Longrightarrow> length m < nat (lm_maxKeys L) \<or> map_get m key \<noteq> None \<Longrightarrow>
    map_get (snd (tryTake L now key m)) k = map_get m k"
  by (cases "map_get m key") (auto simp: tryTake_def evictIfFull_def Let_def)

lemma granted_Cons [simp]:
  "granted_to k ((key, g) # rs) = (if key = k \<and> g then Suc (granted_to k rs) else granted_to k rs)"
  by (simp add: granted_to_def)

lemma granted_Nil [simp]: "granted_to k [] = 0" by (simp add: granted_to_def)

text \<open>No bucket is ever evicted while the keys that are used fit into the map.\<close>

definition roomy :: "TokenBucketConfig \<Rightarrow> string set \<Rightarrow> buckets \<Rightarrow> bool" where
  "roomy L K m \<longleftrightarrow> finite K \<and> int (card K) \<le> lm_maxKeys L \<and> map_ok m \<and> fst ` set m \<subseteq> K"

lemma roomy_room:
  assumes "roomy L K m" "key \<in> K" "map_get m key = None"
  shows "int (length m) < lm_maxKeys L"
proof -
  have "key \<notin> fst ` set m" using assms(3) by (simp add: map_get_def map_of_eq_None_iff)
  then have "fst ` set m \<subset> K" using assms(1,2) by (auto simp: roomy_def)
  then have "card (fst ` set m) < card K" using assms(1) by (auto simp: roomy_def intro: psubset_card_mono)
  moreover have "card (fst ` set m) = length m"
    using assms(1) distinct_card[of "map fst m"] by (simp add: roomy_def map_ok_def)
  ultimately show ?thesis using assms(1) by (simp add: roomy_def)
qed

lemma keys_set: "fst ` set (map_set k v m) = insert k (fst ` set m)"
  by (simp add: map_set_def dom_update)

lemma roomy_take:
  assumes "roomy L K m" "key \<in> K"
  shows "roomy L K (snd (tryTake L now key m))"
  using assms roomy_room[OF assms]
  by (cases "map_get m key")
    (auto simp: tryTake_def evictIfFull_def Let_def roomy_def keys_set)

text \<open>The tokens a key can have by the time \<open>until\<close>.\<close>

definition allowance :: "TokenBucketConfig \<Rightarrow> string \<Rightarrow> buckets \<Rightarrow> int \<Rightarrow> int \<Rightarrow> rat" where
  "allowance L k m start until = (case map_get m k of
       None \<Rightarrow> lm_capacity L + of_int (until - start) / 1000 * lm_refillPerSecond L
     | Some b \<Rightarrow> bk_tokens b + of_int (until - bk_lastRefillMs b) / 1000 * lm_refillPerSecond L)"

lemma elapsed_forward: "bk_lastRefillMs b \<le> now \<Longrightarrow> elapsedSeconds now b = of_int (now - bk_lastRefillMs b) / 1000"
  by (simp add: elapsedSeconds_def)

lemma take_allowance:
  assumes "limiter_ok L" "roomy L K m" "k \<in> K" "start \<le> now"
    and "\<And>b. map_get m k = Some b \<Longrightarrow> bk_lastRefillMs b \<le> now \<and> bucket_ok L b"
  shows "\<exists>b. map_get (snd (tryTake L now k m)) k = Some b \<and> bk_lastRefillMs b = now \<and> bucket_ok L b
    \<and> (if fst (tryTake L now k m) then 1 else 0) + allowance L k (snd (tryTake L now k m)) start until
        \<le> allowance L k m start until"
proof (cases "map_get m k")
  case None
  have "of_int (until - now) / 1000 * lm_refillPerSecond L \<le> of_int (until - start) / 1000 * lm_refillPerSecond L"
    using assms(1,4) by (intro mult_right_mono divide_right_mono) (auto simp: limiter_ok_def)
  then show ?thesis
    using None assms(1) by (auto simp: tryTake_def Let_def allowance_def bucket_ok_def limiter_ok_def)
next
  case (Some b)
  let ?r = "refilled L now b"
  have last: "bk_lastRefillMs b \<le> now" and ok: "bucket_ok L b" using assms(5)[OF Some] by simp_all
  have tokens: "bk_tokens ?r \<le> bk_tokens b + of_int (now - bk_lastRefillMs b) / 1000 * lm_refillPerSecond L"
    unfolding refilled_def elapsed_forward[OF last, symmetric] by simp
  have split: "of_int (until - bk_lastRefillMs b) / 1000 * lm_refillPerSecond L
      = of_int (now - bk_lastRefillMs b) / 1000 * lm_refillPerSecond L + of_int (until - now) / 1000 * lm_refillPerSecond L"
    by (simp add: field_simps)
  have okr: "bucket_ok L ?r" using ok assms(1) by (auto simp: bucket_ok_def refilled_def limiter_ok_def)
  have "bk_lastRefillMs ?r = now" by (simp add: refilled_def)
  then show ?thesis
    using Some tokens split okr by (auto simp: tryTake_def Let_def allowance_def bucket_ok_def add_divide_distrib)
qed

lemma grants_within:
  assumes "limiter_ok L" "roomy L K m" "snd ` set calls \<subseteq> K" "k \<in> K"
    and "sorted (map fst calls)" "list_all (\<lambda>(t, _). start \<le> t \<and> t \<le> until) calls" "start \<le> until"
    and "\<And>b. map_get m k = Some b \<Longrightarrow> list_all (\<lambda>(t, _). bk_lastRefillMs b \<le> t) calls
      \<and> bk_lastRefillMs b \<le> until \<and> bucket_ok L b"
  shows "of_nat (granted_to k (takes L calls m)) \<le> allowance L k m start until"
  using assms(2-8)
proof (induction calls arbitrary: m)
  case Nil
  have "0 \<le> of_int d / 1000 * lm_refillPerSecond L" if "0 \<le> d" for d :: int
    using assms(1) that by (intro mult_nonneg_nonneg divide_nonneg_nonneg) (simp_all add: limiter_ok_def)
  then show ?case
    using Nil(6,7) assms(1) by (auto simp: allowance_def bucket_ok_def limiter_ok_def split: option.split intro!: add_nonneg_nonneg)
next
  case (Cons call calls)
  obtain now key where call: "call = (now, key)" by (cases call)
  obtain g m' where step: "tryTake L now key m = (g, m')" by (cases "tryTake L now key m")
  have room: "roomy L K m'"
    using roomy_take[OF Cons.prems(1), of key now] Cons.prems(2) step by (simp add: call)
  have rest: "snd ` set calls \<subseteq> K" "sorted (map fst calls)" "list_all (\<lambda>(t, _). start \<le> t \<and> t \<le> until) calls"
    "list_all (\<lambda>(t, _). now \<le> t) calls" "start \<le> now" "now \<le> until"
    using Cons.prems by (auto simp: call list_all_iff)
  show ?case
  proof (cases "key = k")
    case True
    have "start \<le> now" by (rule rest(5))
    from take_allowance[OF assms(1) Cons.prems(1,3) this, of until] Cons.prems(7)
    obtain b where b: "map_get m' k = Some b" "bk_lastRefillMs b = now" "bucket_ok L b"
      "(if g then 1 else 0) + allowance L k m' start until \<le> allowance L k m start until"
      using step True by (auto simp: call)
    have "of_nat (granted_to k (takes L calls m')) \<le> allowance L k m' start until"
      using Cons.IH[OF room rest(1) Cons.prems(3) rest(2,3) Cons.prems(6)] b rest by simp
    then show ?thesis using b(4) step True by (auto simp: call)
  next
    case False
    have "length m < nat (lm_maxKeys L) \<or> map_get m key \<noteq> None"
      using roomy_room[OF Cons.prems(1), of key] Cons.prems(2) by (auto simp: call)
    then have same: "map_get m' k = map_get m k"
      using tryTake_other[of k key m L now] False step by auto
    then have "of_nat (granted_to k (takes L calls m')) \<le> allowance L k m' start until"
      using Cons.IH[OF room rest(1) Cons.prems(3) rest(2,3) Cons.prems(6)] Cons.prems(7) by (auto simp: call)
    moreover have "allowance L k m' start until = allowance L k m start until"
      using same by (simp add: allowance_def)
    ultimately show ?thesis using False by (simp add: call step)
  qed
qed

text \<open>
  A limiter that starts empty grants a key at most its burst and what the refill rate adds
  between the first and the last call, however its calls are interleaved with those of others, as long
  as the keys in use fit into the map.
\<close>

theorem rate_limit_bounds_grants:
  assumes "limiter_ok L" "finite K" "int (card K) \<le> lm_maxKeys L" "snd ` set calls \<subseteq> K" "k \<in> K"
    and "sorted (map fst calls)" "list_all (\<lambda>(t, _). start \<le> t \<and> t \<le> until) calls" "start \<le> until"
  shows "of_nat (granted_to k (takes L calls [])) \<le>
    lm_capacity L + of_int (until - start) / 1000 * lm_refillPerSecond L"
proof -
  have "roomy L K []" using assms(2,3) by (simp add: roomy_def)
  from grants_within[OF assms(1) this assms(4-8)] show ?thesis by (simp add: allowance_def)
qed

definition sample_limiter :: TokenBucketConfig where
  "sample_limiter = \<lparr>lm_capacity = 2, lm_refillPerSecond = 1, lm_maxKeys = 10\<rparr>"

definition sample_calls :: "(int \<times> string) list" where
  "sample_calls = [(0, ''a''), (0, ''a''), (0, ''b''), (0, ''a''), (1000, ''a''), (1000, ''a'')]"

lemma sample_grants: "granted_to ''a'' (takes sample_limiter sample_calls []) = 3"
  by (simp add: sample_calls_def sample_limiter_def tryTake_def evictIfFull_def refilled_def elapsedSeconds_def
      map_get_def map_set_def Let_def)

theorem rate_limit_bounds_grants_witness:
  "of_nat 3 \<le> (2 + of_int (1000 - 0) / 1000 * 1 :: rat)"
proof -
  have "of_nat (granted_to ''a'' (takes sample_limiter sample_calls [])) \<le>
      lm_capacity sample_limiter + of_int (1000 - 0) / 1000 * lm_refillPerSecond sample_limiter"
    by (rule rate_limit_bounds_grants[where K = "{''a'', ''b''}"])
      (simp_all add: limiter_ok_def sample_limiter_def sample_calls_def)
  then show ?thesis by (simp only: sample_grants) (simp add: sample_limiter_def)
qed

section \<open>Metrics\<close>

definition MAX_LATENCY_SAMPLES :: nat where "MAX_LATENCY_SAMPLES = 512"

record OperationalMetrics =
  ms_counters :: "(string, int) js_map"
  ms_settlementLatenciesMs :: "int list"

definition increment :: "string \<Rightarrow> int \<Rightarrow> OperationalMetrics \<Rightarrow> OperationalMetrics" where
  "increment name by' M = M\<lparr>ms_counters :=
     map_set name ((case map_get (ms_counters M) name of None \<Rightarrow> 0 | Some n \<Rightarrow> n) + by') (ms_counters M)\<rparr>"

text \<open>A duration that is not a finite number is \<open>None\<close>.\<close>

definition observeSettlementLatencyMs :: "int option \<Rightarrow> OperationalMetrics \<Rightarrow> OperationalMetrics" where
  "observeSettlementLatencyMs durationMs M = (case durationMs of
       None \<Rightarrow> M
     | Some d \<Rightarrow>
         if d < 0 then M
         else let samples = ms_settlementLatenciesMs M @ [d] in
           M\<lparr>ms_settlementLatenciesMs := (if length samples > MAX_LATENCY_SAMPLES then tl samples else samples)\<rparr>)"

record latency_view =
  lv_count :: nat
  lv_p50 :: "int option"
  lv_p95 :: "int option"
  lv_max :: "int option"

text \<open>\<open>q\<close> is the quantile in percent.\<close>

definition percentile :: "int list \<Rightarrow> nat \<Rightarrow> int option" where
  "percentile sorted' q = (if sorted' = [] then None
     else Some (sorted' ! min (length sorted' - 1) (q * (length sorted' - 1) div 100)))"

text \<open>\<open>collate\<close> ranks the names as \<open>localeCompare\<close> orders them.\<close>

definition snapshot :: "(string \<Rightarrow> nat) \<Rightarrow> OperationalMetrics \<Rightarrow> (string, int) js_map \<times> latency_view" where
  "snapshot collate M =
     (let ordered = sort (ms_settlementLatenciesMs M) in
      (sort_key (\<lambda>(name, _). collate name) (ms_counters M),
       \<lparr>lv_count = length ordered, lv_p50 = percentile ordered 50, lv_p95 = percentile ordered 95,
        lv_max = (if ordered = [] then None else Some (last ordered))\<rparr>))"

lemma latencies_bounded:
  "length (ms_settlementLatenciesMs M) \<le> 512 \<Longrightarrow>
     length (ms_settlementLatenciesMs (observeSettlementLatencyMs d M)) \<le> 512"
  by (auto simp: observeSettlementLatencyMs_def MAX_LATENCY_SAMPLES_def Let_def split: option.split)

end
