(* ===== verification/Subly_Header.thy ===== *)
theory Subly_Header
  imports X402_Challenge Payment_Core
begin

text \<open>
  The part of \<open>src/src/x402/headers.ts\<close> that belongs to the \<open>subly-yield-exact\<close> scheme: the
  encoder of the headers, the schemas of a requirement and of a payment payload, and their decoders.
\<close>

section \<open>Base64\<close>

text \<open>\<open>Buffer.toString("base64")\<close>, and the digit of a sextet.\<close>

definition b64_digit :: "int \<Rightarrow> char" where
  "b64_digit v = char_of (if v < 26 then v + 65 else if v < 52 then v + 71 else if v < 62 then v - 4
     else if v = 62 then 43 else 47)"

fun base64_text :: "byte list \<Rightarrow> string" where
  "base64_text (a # b # c # rest) =
     map b64_digit [uint a div 4, uint a mod 4 * 16 + uint b div 16, uint b mod 16 * 4 + uint c div 64, uint c mod 64]
       @ base64_text rest"
| "base64_text [a, b] = map b64_digit [uint a div 4, uint a mod 4 * 16 + uint b div 16, uint b mod 16 * 4] @ ''=''"
| "base64_text [a] = map b64_digit [uint a div 4, uint a mod 4 * 16] @ ''==''"
| "base64_text [] = []"

lemma b64_digit_value:
  assumes "0 \<le> v" "v < 64"
  shows "b64_value (b64_digit v) = Some v"
proof -
  consider "v < 26" | "26 \<le> v \<and> v < 52" | "52 \<le> v \<and> v < 62" | "v = 62" | "v = 63"
    using assms(2) by linarith
  then show ?thesis
    using assms(1) by cases (simp_all add: b64_digit_def b64_value_def Let_def)
qed

lemma b64_digit_pad: "0 \<le> v \<Longrightarrow> v < 64 \<Longrightarrow> b64_digit v \<noteq> CHR ''=''"
  using b64_digit_value[of v] by (auto simp: b64_value_def Let_def)

definition sextets_of :: "string \<Rightarrow> int list" where
  "sextets_of t = List.map_filter b64_value (takeWhile (\<lambda>c. c \<noteq> CHR ''='') t)"

lemma sextets_of_digit: "0 \<le> v \<Longrightarrow> v < 64 \<Longrightarrow> sextets_of (b64_digit v # t) = v # sextets_of t"
  by (simp add: sextets_of_def b64_digit_pad b64_digit_value map_filter_simps)

lemma sextets_of_pad: "sextets_of (CHR ''='' # t) = []" "sextets_of [] = []"
  by (simp_all add: sextets_of_def map_filter_simps)

lemma byte_range: "0 \<le> uint (b :: byte)" "uint (b :: byte) < 256"
  using uint_lt2p[of b] by simp_all

lemma split_digits:
  fixes x y n :: int
  assumes "0 \<le> y" "y < n"
  shows "(x * n + y) div n = x" "(x * n + y) mod n = y"
  using assms by simp_all

definition sextet :: "int \<Rightarrow> bool" where "sextet v \<longleftrightarrow> 0 \<le> v \<and> v < 64"

lemma sextets_of_digits: "list_all sextet vs \<Longrightarrow> sextets_of (map b64_digit vs @ t) = vs @ sextets_of t"
  by (induction vs) (simp_all add: sextet_def sextets_of_digit)

text \<open>The four sextets of three bytes, and the bytes again.\<close>

lemma three_bytes:
  fixes a b c :: int
  assumes "0 \<le> a" "a < 256" "0 \<le> b" "b < 256" "0 \<le> c" "c < 256"
  shows "list_all sextet [a div 4, a mod 4 * 16 + b div 16, b mod 16 * 4 + c div 64, c mod 64]"
    and "a div 4 * 4 + (a mod 4 * 16 + b div 16) div 16 = a"
    and "(a mod 4 * 16 + b div 16) mod 16 * 16 + (b mod 16 * 4 + c div 64) div 4 = b"
    and "(b mod 16 * 4 + c div 64) mod 4 * 64 + c mod 64 = c"
proof -
  have b: "0 \<le> b div 16" "b div 16 < 16" and c: "0 \<le> c div 64" "c div 64 < 4"
    and a: "0 \<le> a div 4" "a div 4 < 64"
    using assms by linarith+
  have r: "0 \<le> a mod 4" "a mod 4 < 4" "0 \<le> b mod 16" "b mod 16 < 16" "0 \<le> c mod 64" "c mod 64 < 64"
    by simp_all
  show "list_all sextet [a div 4, a mod 4 * 16 + b div 16, b mod 16 * 4 + c div 64, c mod 64]"
    using a b c r by (simp add: sextet_def) linarith
  show "a div 4 * 4 + (a mod 4 * 16 + b div 16) div 16 = a"
    unfolding split_digits(1)[OF b] by (rule div_mult_mod_eq)
  show "(a mod 4 * 16 + b div 16) mod 16 * 16 + (b mod 16 * 4 + c div 64) div 4 = b"
    unfolding split_digits(2)[OF b] split_digits(1)[OF c] by (rule div_mult_mod_eq)
  show "(b mod 16 * 4 + c div 64) mod 4 * 64 + c mod 64 = c"
    unfolding split_digits(2)[OF c] by (rule div_mult_mod_eq)
qed

lemma base64_roundtrip: "base64url_bytes (base64_text bytes) = bytes"
  unfolding base64url_bytes_def sextets_of_def[symmetric]
proof (induction bytes rule: base64_text.induct)
  case (1 a b c rest)
  note three = three_bytes[OF byte_range[of a] byte_range[of b] byte_range[of c]]
  show ?case
    unfolding base64_text.simps sextets_of_digits[OF three(1)] append.simps sextets_to_bytes.simps three(2-4) 1
    by simp
next
  case (2 a b)
  note three = three_bytes[OF byte_range[of a] byte_range[of b], of 0, simplified]
  have "list_all sextet [uint a div 4, uint a mod 4 * 16 + uint b div 16, uint b mod 16 * 4]"
    using three(1) by simp
  from sextets_of_digits[OF this, of "''=''"] show ?case
    using three(2,3) by (simp add: sextets_of_pad)
next
  case (3 a)
  note three = three_bytes[OF byte_range[of a], of 0 0, simplified]
  have "list_all sextet [uint a div 4, uint a mod 4 * 16]"
    using three(1) by simp
  from sextets_of_digits[OF this, of "''==''"] show ?case
    using three(2) by (simp add: sextets_of_pad)
qed (simp add: sextets_of_pad)

lemma base64_length: "length (base64_text bytes) = (length bytes + 2) div 3 * 4"
proof (induction bytes rule: base64_text.induct)
  case (1 a b c rest)
  have "(length (a # b # c # rest) + 2) div 3 = Suc ((length rest + 2) div 3)"
    using div_mult_self2[of 3 "length rest + 2" 1] by (simp add: add.commute)
  then show ?case using 1 by simp
qed simp_all

section \<open>Encoding\<close>

text \<open>\<open>sh_stringify\<close>: the UTF-8 bytes of \<open>JSON.stringify\<close>; \<open>sh_isUrl\<close>: the schema \<open>z.string().url()\<close>.\<close>

record subly_env = x402_env +
  sh_stringify :: "json \<Rightarrow> byte list"
  sh_isUrl :: "string \<Rightarrow> bool"

definition PAYMENT_SIGNATURE_HEADER :: string where "PAYMENT_SIGNATURE_HEADER = ''payment-signature''"
definition X402_VERSION :: int where "X402_VERSION = 2"

definition encodeX402Header :: "'a subly_env_scheme \<Rightarrow> json \<Rightarrow> string result" where
  "encodeX402Header X v =
     (let bytes = sh_stringify X v in
      if int (length bytes) > MAX_HEADER_JSON_BYTES then reject ''header_too_large'' else Inr (base64_text bytes))"

text \<open>
  Whatever the encoder of the x402 headers accepts, the decoder reads back, whatever its
  length and padding; the size limits of the two agree.
\<close>

theorem x402_header_roundtrip:
  assumes "xh_parse X (sh_stringify X v) = Some v" "encodeX402Header X v = Inr header"
  shows "decodeX402Header X header = Inr v"
proof -
  have header: "header = base64_text (sh_stringify X v)" and size: "length (sh_stringify X v) \<le> 16384"
    using assms(2) by (auto simp: encodeX402Header_def Let_def MAX_HEADER_JSON_BYTES_def reject_def split: if_splits)
  have "(length (sh_stringify X v) + 2) div 3 * 4 \<le> 21848"
    using size by linarith
  then have "\<not> int (length header) > (MAX_HEADER_JSON_BYTES * 4 + 2) div 3 + 4"
    unfolding header base64_length MAX_HEADER_JSON_BYTES_def by simp
  then show ?thesis
    using assms(1) by (simp add: decodeX402Header_def header base64_roundtrip)
qed

definition null_env :: subly_env where
  "null_env = \<lparr>xh_parse = (\<lambda>bytes. if bytes = [110, 117, 108, 108] then Some JNull else None), xh_sha = (\<lambda>s. s),
     sh_stringify = (\<lambda>_. [110, 117, 108, 108]), sh_isUrl = (\<lambda>_. True)\<rparr>"

theorem x402_header_roundtrip_witness: "decodeX402Header null_env ''bnVsbA=='' = Inr JNull"
proof -
  have "base64_text [110, 117, 108, 108] = ''bnVsbA==''" by code_simp
  then have "encodeX402Header null_env JNull = Inr ''bnVsbA==''"
    by (simp add: encodeX402Header_def null_env_def MAX_HEADER_JSON_BYTES_def)
  then show ?thesis by (intro x402_header_roundtrip) (simp_all add: null_env_def)
qed

section \<open>Schemas\<close>

definition textOfLength :: "nat \<Rightarrow> json option \<Rightarrow> string option" where
  "textOfLength least v = (case v of Some (JString s) \<Rightarrow> if length s \<ge> least then Some s else None | _ \<Rightarrow> None)"

record SublyRequirementExtra =
  sx_sellerRequestId :: string
  sx_seller :: string
  sx_sellerUsdcAta :: string
  sx_vault :: string
  sx_shareMint :: string

record SublyPaymentRequirements =
  sr2_network :: string
  sr2_asset :: string
  sr2_amountRawUsdc :: string
  sr2_resource :: string
  sr2_payTo :: string
  sr2_maxTimeoutSeconds :: int
  sr2_extra :: SublyRequirementExtra

definition parseRequirementExtra :: "json option \<Rightarrow> SublyRequirementExtra option" where
  "parseRequirementExtra v = (case v of
       Some (JObject ps) \<Rightarrow>
         (case (textOfLength 1 (member ''sellerRequestId'' ps), textOfLength 32 (member ''seller'' ps),
                textOfLength 32 (member ''sellerUsdcAta'' ps), textOfLength 32 (member ''vault'' ps),
                textOfLength 32 (member ''shareMint'' ps)) of
            (Some sellerRequestId, Some seller, Some sellerUsdcAta, Some vault, Some shareMint) \<Rightarrow>
              Some \<lparr>sx_sellerRequestId = sellerRequestId, sx_seller = seller, sx_sellerUsdcAta = sellerUsdcAta,
                sx_vault = vault, sx_shareMint = shareMint\<rparr>
          | _ \<Rightarrow> None)
     | _ \<Rightarrow> None)"

definition parseSublyRequirement :: "'a subly_env_scheme \<Rightarrow> json \<Rightarrow> SublyPaymentRequirements option" where
  "parseSublyRequirement X v = (case v of
       JObject ps \<Rightarrow>
         (case (nonEmptyText (member ''network'' ps), textOfLength 32 (member ''asset'' ps),
                nonEmptyText (member ''amountRawUsdc'' ps), textOfLength 0 (member ''resource'' ps),
                textOfLength 32 (member ''payTo'' ps), member ''maxTimeoutSeconds'' ps,
                parseRequirementExtra (member ''extra'' ps)) of
            (Some network, Some asset, Some amount, Some resource, Some payTo, Some (JNumber seconds), Some extra) \<Rightarrow>
              if member ''scheme'' ps = Some (JString PAYMENT_SCHEME) \<and> positiveDecimal amount
                 \<and> sh_isUrl X resource \<and> optionally (member ''description'' ps) isText
                 \<and> optionally (member ''mimeType'' ps) isText \<and> isPositiveInteger (JNumber seconds)
              then Some \<lparr>sr2_network = network, sr2_asset = asset, sr2_amountRawUsdc = amount, sr2_resource = resource,
                     sr2_payTo = payTo, sr2_maxTimeoutSeconds = seconds, sr2_extra = extra\<rparr>
              else None
          | _ \<Rightarrow> None)
     | _ \<Rightarrow> None)"

definition decodePaymentRequiredHeader ::
  "'a subly_env_scheme \<Rightarrow> string \<Rightarrow> SublyPaymentRequirements list result" where
  "decodePaymentRequiredHeader X headerValue =
     bindR (decodeX402Header X headerValue) (\<lambda>v. case v of
       JObject ps \<Rightarrow>
         (case member ''accepts'' ps of
            Some (JArray accepts) \<Rightarrow>
              if (case member ''x402Version'' ps of None \<Rightarrow> False | Some n \<Rightarrow> isInteger n)
                 \<and> optionally (member ''error'' ps) isText
              then Inr (List.map_filter (parseSublyRequirement X) accepts)
              else reject ''invalid_payment_required''
          | _ \<Rightarrow> reject ''invalid_payment_required'')
     | _ \<Rightarrow> reject ''invalid_payment_required'')"

record SublyPayload =
  sl_paymentId :: string
  sl_requestBindingHash :: string
  sl_preparedMessageHash :: string
  sl_serializedTransaction :: string
  sl_agentSignature :: string
  sl_temporarySettlementSignature :: string

definition boundedText :: "nat \<Rightarrow> json option \<Rightarrow> string option" where
  "boundedText most v = (case nonEmptyText v of None \<Rightarrow> None | Some s \<Rightarrow> if length s \<le> most then Some s else None)"

definition parseSublyPayload :: "json option \<Rightarrow> SublyPayload option" where
  "parseSublyPayload v = (case v of
       Some (JObject ps) \<Rightarrow>
         (case (nonEmptyText (member ''paymentId'' ps), nonEmptyText (member ''requestBindingHash'' ps),
                nonEmptyText (member ''preparedMessageHash'' ps), boundedText 4096 (member ''serializedTransaction'' ps),
                boundedText 128 (member ''agentSignature'' ps),
                boundedText 128 (member ''temporarySettlementSignature'' ps)) of
            (Some paymentId, Some requestBindingHash, Some preparedMessageHash, Some serializedTransaction,
             Some agentSignature, Some temporarySettlementSignature) \<Rightarrow>
              Some \<lparr>sl_paymentId = paymentId, sl_requestBindingHash = requestBindingHash,
                sl_preparedMessageHash = preparedMessageHash, sl_serializedTransaction = serializedTransaction,
                sl_agentSignature = agentSignature, sl_temporarySettlementSignature = temporarySettlementSignature\<rparr>
          | _ \<Rightarrow> None)
     | _ \<Rightarrow> None)"

text \<open>The network of a payment payload and its inner payload.\<close>

definition decodePaymentSignatureHeader :: "'a subly_env_scheme \<Rightarrow> string \<Rightarrow> (string \<times> SublyPayload) result" where
  "decodePaymentSignatureHeader X headerValue =
     bindR (decodeX402Header X headerValue) (\<lambda>v. case v of
       JObject ps \<Rightarrow>
         (case (nonEmptyText (member ''network'' ps), parseSublyPayload (member ''payload'' ps)) of
            (Some network, Some payload) \<Rightarrow>
              if (case member ''x402Version'' ps of None \<Rightarrow> False | Some n \<Rightarrow> isInteger n)
                 \<and> member ''scheme'' ps = Some (JString PAYMENT_SCHEME)
              then Inr (network, payload) else reject ''invalid_payment_payload''
          | _ \<Rightarrow> reject ''invalid_payment_payload'')
     | _ \<Rightarrow> reject ''invalid_payment_payload'')"

end
