(* ===== verification/Seller_Gate.thy ===== *)
theory Seller_Gate
  imports Subly_Header
begin

text \<open>
  The seller's gate, \<open>src/src/x402/seller.ts\<close>: it issues a 402 challenge, and on the retry verifies
  and settles the signed payment at the facilitator before it grants access. The answers of the
  facilitator are functions of the number of calls made before; the calls are logged.
\<close>

section \<open>The gate\<close>

record seller_env = subly_env +
  ga_facilitator :: "nat \<Rightarrow> string \<Rightarrow> SublyPayload \<Rightarrow> json result"

record SellerGate =
  sg_payTo :: string
  sg_network :: string
  sg_maxTimeoutSeconds :: int
  sg_sellerUsdcAta :: string
  sg_vault :: VaultConfig

definition newSellerGate ::
  "'b token_env_scheme \<Rightarrow> VaultConfig \<Rightarrow> string \<Rightarrow> string option \<Rightarrow> int option \<Rightarrow> SellerGate result" where
  "newSellerGate T vault payTo network maxTimeoutSeconds =
     bindR (deriveAssociatedTokenAddress T payTo (Some (vc_usdcMint vault)) None) (\<lambda>sellerUsdcAta.
     Inr \<lparr>sg_payTo = payTo, sg_network = orElse network SOLANA_MAINNET_NETWORK,
       sg_maxTimeoutSeconds = orElse maxTimeoutSeconds 120, sg_sellerUsdcAta = sellerUsdcAta, sg_vault = vault\<rparr>)"

record PricedRequest =
  pr_sellerRequestId :: string
  pr_httpMethod :: string
  pr_resource :: string
  pr_amountRawUsdc :: string
  pr_description :: "string option"
  pr_body :: "string option"

definition assertCanonicalRawAmount :: "string \<Rightarrow> unit result" where
  "assertCanonicalRawAmount amountRawUsdc =
     (if positiveDecimal amountRawUsdc then Inr ()
      else Inl (JsError ''amountRawUsdc must be a positive integer string in raw USDC units''))"

definition gateRequirementJson :: "SellerGate \<Rightarrow> PricedRequest \<Rightarrow> json" where
  "gateRequirementJson G r = JObject
     ([(''scheme'', Some (JString PAYMENT_SCHEME)), (''network'', Some (JString (sg_network G))),
       (''asset'', Some (JString (vc_usdcMint (sg_vault G)))), (''amountRawUsdc'', Some (JString (pr_amountRawUsdc r))),
       (''resource'', Some (JString (pr_resource r)))]
      @ (case pr_description r of None \<Rightarrow> [] | Some d \<Rightarrow> [(''description'', Some (JString d))])
      @ [(''payTo'', Some (JString (sg_payTo G))), (''maxTimeoutSeconds'', Some (JNumber (sg_maxTimeoutSeconds G))),
         (''extra'', Some (JObject
            [(''sellerRequestId'', Some (JString (pr_sellerRequestId r))), (''seller'', Some (JString (sg_payTo G))),
             (''sellerUsdcAta'', Some (JString (sg_sellerUsdcAta G))), (''vault'', Some (JString (vc_address (sg_vault G)))),
             (''shareMint'', Some (JString (vc_shareMint (sg_vault G))))]))])"

definition challengeBody :: "SellerGate \<Rightarrow> PricedRequest \<Rightarrow> json" where
  "challengeBody G r = JObject
     [(''x402Version'', Some (JNumber X402_VERSION)), (''accepts'', Some (JArray [gateRequirementJson G r]))]"

text \<open>The \<open>PAYMENT-REQUIRED\<close> header of the challenge and its body; the status is always 402.\<close>

definition paymentRequiredResponse ::
  "'a subly_env_scheme \<Rightarrow> SellerGate \<Rightarrow> PricedRequest \<Rightarrow> (string \<times> json) result" where
  "paymentRequiredResponse X G r =
     bindR (assertCanonicalRawAmount (pr_amountRawUsdc r)) (\<lambda>_.
     bindR (encodeX402Header X (challengeBody G r)) (\<lambda>headerValue. Inr (headerValue, challengeBody G r)))"

definition pricedBinding :: "'a subly_env_scheme \<Rightarrow> SellerGate \<Rightarrow> PricedRequest \<Rightarrow> RequestBindingFields" where
  "pricedBinding X G r = \<lparr>rb_sellerRequestId = pr_sellerRequestId r, rb_httpMethod = pr_httpMethod r,
     rb_canonicalResourceUrl = pr_resource r, rb_requestBodyHash = requestBodyHashFor X (pr_body r),
     rb_seller = sg_payTo G, rb_asset = vc_usdcMint (sg_vault G), rb_amountRawUsdc = pr_amountRawUsdc r,
     rb_payTo = sg_payTo G, rb_sellerUsdcAta = sg_sellerUsdcAta G\<rparr>"

definition bindingHashFor :: "'a subly_env_scheme \<Rightarrow> SellerGate \<Rightarrow> PricedRequest \<Rightarrow> string result" where
  "bindingHashFor X G r =
     bindR (assertCanonicalRawAmount (pr_amountRawUsdc r)) (\<lambda>_.
     Inr (computeRequestBindingHash (xh_sha X) (pricedBinding X G r)))"

section \<open>Answers of the facilitator\<close>

text \<open>A property of a value: reading one of \<open>undefined\<close> or \<open>null\<close> throws, a primitive has none.\<close>

definition propertyOf :: "string \<Rightarrow> json option \<Rightarrow> json option result" where
  "propertyOf k v = (case v of
       None \<Rightarrow> Inl (JsError ''TypeError'')
     | Some JNull \<Rightarrow> Inl (JsError ''TypeError'')
     | Some (JObject ps) \<Rightarrow> Inr (member k ps)
     | Some _ \<Rightarrow> Inr None)"

text \<open>The optional chain \<open>?.\<close>.\<close>

definition optionalProperty :: "string \<Rightarrow> json option \<Rightarrow> json option" where
  "optionalProperty k v = (case v of Some (JObject ps) \<Rightarrow> member k ps | _ \<Rightarrow> None)"

definition isValidVerifyResponse :: "json \<Rightarrow> bool" where
  "isValidVerifyResponse response \<longleftrightarrow> optionalProperty ''isValid'' (Some response) = Some (JBool True)"

definition isSuccessfulSettlement :: "json \<Rightarrow> bool" where
  "isSuccessfulSettlement response \<longleftrightarrow> optionalProperty ''success'' (Some response) = Some (JBool True)"

definition invalidReasonOf :: "json \<Rightarrow> string option" where
  "invalidReasonOf response = (case optionalProperty ''invalidReason'' (Some response) of
       Some (JString s) \<Rightarrow> Some s
     | _ \<Rightarrow> (case optionalProperty ''code'' (optionalProperty ''error'' (Some response)) of
           Some (JString s) \<Rightarrow> Some s
         | _ \<Rightarrow> None))"

text \<open>The first check that fails names the reason.\<close>

fun firstMismatch :: "(bool \<times> string) list \<Rightarrow> string option" where
  "firstMismatch [] = None"
| "firstMismatch ((ok, reason) # checks) = (if ok then firstMismatch checks else Some reason)"

definition sublyChecks :: "SellerGate \<Rightarrow> PricedRequest \<Rightarrow> string \<Rightarrow> string \<Rightarrow> (string \<Rightarrow> json option) \<Rightarrow> (bool \<times> string) list" where
  "sublyChecks G r paymentId expectedBindingHash report =
     [(report ''paymentId'' = Some (JString paymentId), ''payment_id_mismatch''),
      (report ''sellerRequestId'' = Some (JString (pr_sellerRequestId r)), ''seller_request_id_mismatch''),
      (report ''requestBindingHash'' = Some (JString expectedBindingHash), ''request_binding_mismatch''),
      (report ''payTo'' = Some (JString (sg_payTo G)), ''pay_to_mismatch''),
      (report ''sellerUsdcAta'' = Some (JString (sg_sellerUsdcAta G)), ''seller_ata_mismatch''),
      (report ''sellerTransferRawUsdc'' = Some (JString (pr_amountRawUsdc r)), ''seller_transfer_mismatch'')]"

definition settlementMismatchReason ::
  "SellerGate \<Rightarrow> PricedRequest \<Rightarrow> string \<Rightarrow> string \<Rightarrow> json \<Rightarrow> string option result" where
  "settlementMismatchReason G r paymentId expectedBindingHash settlement = (case settlement of
       JObject ps \<Rightarrow>
         let report = optionalProperty ''subly'' (member ''extensions'' ps) in
         (case firstMismatch
             [(nonEmptyText (member ''transaction'' ps) \<noteq> None, ''settlement_transaction_missing''),
              (member ''network'' ps = Some (JString (sg_network G)), ''network_mismatch''),
              (member ''asset'' ps = Some (JString (vc_usdcMint (sg_vault G))), ''asset_mismatch''),
              (member ''amount'' ps = Some (JString (pr_amountRawUsdc r)), ''amount_mismatch''),
              (report \<noteq> None, ''settlement_response_mismatch'')] of
            Some reason \<Rightarrow> Inr (Some reason)
          | None \<Rightarrow>
              bindR (propertyOf ''paymentId'' report) (\<lambda>_.
              Inr (firstMismatch (sublyChecks G r paymentId expectedBindingHash (\<lambda>k. optionalProperty k report)))))
     | JArray _ \<Rightarrow> Inr (Some ''settlement_transaction_missing'')
     | _ \<Rightarrow> Inr (Some ''settlement_response_mismatch''))"

section \<open>Settling a retry\<close>

type_synonym facilitator_calls = "(string \<times> SublyPayload) list"

definition callFacilitator :: "seller_env \<Rightarrow> string \<Rightarrow> SublyPayload \<Rightarrow> (facilitator_calls, json) action" where
  "callFacilitator X path body calls = (ga_facilitator X (length calls) path body, calls @ [(path, body)])"

datatype SellerGateResult =
    Granted string json string
  | Denied string "json option"

text \<open>A granted access has the payment id, the settlement and the \<open>PAYMENT-RESPONSE\<close> header.\<close>

definition settleAtFacilitator ::
  "seller_env \<Rightarrow> SellerGate \<Rightarrow> PricedRequest \<Rightarrow> SublyPayload \<Rightarrow> string \<Rightarrow> (facilitator_calls, SellerGateResult) action" where
  "settleAtFacilitator X G r payload expectedBindingHash =
     bindA (callFacilitator X ''/v1/x402/verify'' payload) (\<lambda>verify.
     if \<not> isValidVerifyResponse verify
     then returnA (Denied (orElse (invalidReasonOf verify) ''verification_failed'') (Some verify))
     else
       bindA (callFacilitator X ''/v1/x402/settle'' payload) (\<lambda>settlement.
       if \<not> isSuccessfulSettlement settlement
       then returnA (Denied (orElse (invalidReasonOf settlement) ''settlement_failed'') (Some settlement))
       else
         bindA (liftR (settlementMismatchReason G r (sl_paymentId payload) expectedBindingHash settlement)) (\<lambda>mismatch.
         case mismatch of
           Some reason \<Rightarrow> returnA (Denied reason (Some settlement))
         | None \<Rightarrow>
             bindA (liftR (encodeX402Header X settlement)) (\<lambda>responseHeader.
             returnA (Granted (sl_paymentId payload) settlement responseHeader)))))"

definition headerReason :: "error \<Rightarrow> string" where
  "headerReason e = (case e of JsError reason \<Rightarrow> reason | _ \<Rightarrow> ''invalid_payment_payload'')"

definition settle ::
  "seller_env \<Rightarrow> SellerGate \<Rightarrow> PricedRequest \<Rightarrow> string \<Rightarrow> (facilitator_calls, SellerGateResult) action" where
  "settle X G r paymentSignatureHeader = (case decodePaymentSignatureHeader X paymentSignatureHeader of
       Inl e \<Rightarrow> returnA (Denied (headerReason e) None)
     | Inr (network, payload) \<Rightarrow>
         if network \<noteq> sg_network G then returnA (Denied ''network_mismatch'' None)
         else (case bindingHashFor X G r of
             Inl _ \<Rightarrow> returnA (Denied ''invalid_priced_request'' None)
           | Inr expectedBindingHash \<Rightarrow>
               if sl_requestBindingHash payload \<noteq> expectedBindingHash
               then returnA (Denied ''request_binding_mismatch'' None)
               else settleAtFacilitator X G r payload expectedBindingHash))"

section \<open>When access is granted\<close>

lemma firstMismatch_None: "firstMismatch checks = None \<longleftrightarrow> list_all fst checks"
  by (induction checks rule: firstMismatch.induct) auto

text \<open>The settlement names the seller's own network, asset, amount, request, payee and account.\<close>

definition settles :: "SellerGate \<Rightarrow> PricedRequest \<Rightarrow> string \<Rightarrow> string \<Rightarrow> json \<Rightarrow> bool" where
  "settles G r paymentId bindingHash settlement \<longleftrightarrow> (\<exists>ps es ss transaction.
     settlement = JObject ps \<and> member ''success'' ps = Some (JBool True)
     \<and> member ''transaction'' ps = Some (JString transaction) \<and> transaction \<noteq> []
     \<and> member ''network'' ps = Some (JString (sg_network G))
     \<and> member ''asset'' ps = Some (JString (vc_usdcMint (sg_vault G)))
     \<and> member ''amount'' ps = Some (JString (pr_amountRawUsdc r))
     \<and> member ''extensions'' ps = Some (JObject es) \<and> member ''subly'' es = Some (JObject ss)
     \<and> member ''paymentId'' ss = Some (JString paymentId)
     \<and> member ''sellerRequestId'' ss = Some (JString (pr_sellerRequestId r))
     \<and> member ''requestBindingHash'' ss = Some (JString bindingHash)
     \<and> member ''payTo'' ss = Some (JString (sg_payTo G))
     \<and> member ''sellerUsdcAta'' ss = Some (JString (sg_sellerUsdcAta G))
     \<and> member ''sellerTransferRawUsdc'' ss = Some (JString (pr_amountRawUsdc r)))"

lemma optionalProperty_Some: "optionalProperty k v = Some x \<longleftrightarrow> (\<exists>ps. v = Some (JObject ps) \<and> member k ps = Some x)"
  by (auto simp: optionalProperty_def split: option.split json.split)

lemma nonEmptyText_Some: "nonEmptyText v = Some s \<longleftrightarrow> v = Some (JString s) \<and> s \<noteq> []"
  by (auto simp: nonEmptyText_def split: option.split json.split)

lemma nonEmptyText_JString [simp]: "nonEmptyText (Some (JString s)) = (if s = [] then None else Some s)"
  by (simp add: nonEmptyText_def)

lemma settlementMismatchReason_None:
  "isSuccessfulSettlement s \<and> settlementMismatchReason G r paymentId bindingHash s = Inr None
     \<longleftrightarrow> settles G r paymentId bindingHash s"
proof (cases s)
  case (JObject ps)
  have subly: "optionalProperty ''subly'' (member ''extensions'' ps) = Some x
      \<longleftrightarrow> (\<exists>es. member ''extensions'' ps = Some (JObject es) \<and> member ''subly'' es = Some x)" for x
    by (rule optionalProperty_Some)
  show ?thesis
  proof (cases "optionalProperty ''subly'' (member ''extensions'' ps)")
    case None
    then show ?thesis using subly
      by (auto simp: settles_def settlementMismatchReason_def JObject Let_def split: option.split)
  next
    case (Some x)
    then obtain es where es: "member ''extensions'' ps = Some (JObject es)" "member ''subly'' es = Some x"
      using subly by blast
    show ?thesis
      by (cases x) (auto simp: settles_def settlementMismatchReason_def JObject Let_def Some es firstMismatch_None
          sublyChecks_def propertyOf_def optionalProperty_def nonEmptyText_Some isSuccessfulSettlement_def
          split: option.split if_splits)
  qed
qed (simp_all add: settles_def settlementMismatchReason_def isSuccessfulSettlement_def optionalProperty_def)

text \<open>
  C17: settle before deliver. The gate grants access exactly when the payment header is a payload for the gate's
  network that is bound to the seller's own facts (request, method, resource, body, payee, amount), the
  facilitator has verified this very payload and after that settled it, and the settlement names the
  payload's payment and the seller's own network, asset, amount, request, payee and account.
\<close>

theorem access_needs_matching_settlement:
  "settle X G r header calls = (Inr (Granted paymentId settlement responseHeader), calls') \<longleftrightarrow>
     (\<exists>payload verdict. let binding = computeRequestBindingHash (xh_sha X) (pricedBinding X G r) in
        decodePaymentSignatureHeader X header = Inr (sg_network G, payload)
      \<and> positiveDecimal (pr_amountRawUsdc r) \<and> sl_requestBindingHash payload = binding
      \<and> ga_facilitator X (length calls) ''/v1/x402/verify'' payload = Inr verdict \<and> isValidVerifyResponse verdict
      \<and> ga_facilitator X (Suc (length calls)) ''/v1/x402/settle'' payload = Inr settlement
      \<and> settles G r paymentId binding settlement \<and> paymentId = sl_paymentId payload
      \<and> encodeX402Header X settlement = Inr responseHeader
      \<and> calls' = calls @ [(''/v1/x402/verify'', payload), (''/v1/x402/settle'', payload)])"
  unfolding settlementMismatchReason_None[symmetric] Let_def
  by (auto simp: settle_def settleAtFacilitator_def callFacilitator_def action_defs bindingHashFor_def
      assertCanonicalRawAmount_def bindR_Inr split: sum.split if_split option.split)

text \<open>Nothing but a verified payload bound to the seller's own facts is ever submitted for settlement.\<close>

lemma settle_submits_bound_payloads:
  assumes "settle X G r header calls = (result, calls')" "(''/v1/x402/settle'', payload) \<in> set calls'"
    and "(''/v1/x402/settle'', payload) \<notin> set calls"
  shows "decodePaymentSignatureHeader X header = Inr (sg_network G, payload)
    \<and> bindingHashFor X G r = Inr (sl_requestBindingHash payload)
    \<and> (\<exists>verdict. ga_facilitator X (length calls) ''/v1/x402/verify'' payload = Inr verdict \<and> isValidVerifyResponse verdict)"
  using assms
  by (auto simp: settle_def settleAtFacilitator_def callFacilitator_def action_defs
      split: sum.splits if_splits option.splits prod.splits)

end
