(* ===== verification/X402_Client.thy ===== *)
theory X402_Client
  imports Seller_Gate Vault_Client Intent_Outcomes
begin

text \<open>
  The buyer of the \<open>subly-yield-exact\<close> scheme, \<open>src/src/x402/client.ts\<close>: it answers a 402 challenge
  with a payment that the relayer prepares and its own signer validates and signs. What the
  relayer answers to a prepare is an argument, in the form in which the response check sees it.
\<close>

section \<open>The client\<close>

record PreparedPaymentResponse =
  xp_paymentId :: string
  xp_requestBindingHash :: string
  xp_preparedMessageHash :: string
  xp_temporarySettlementSignature :: string
  xp_serializedTransaction :: string
  xp_signingIntent :: "PaymentSigningIntent option"

text \<open>A status other than 200 with its error code, a malformed body, or a prepared payment.\<close>

datatype PrepareAnswer =
    PrepareRefused "string option"
  | PrepareMalformed
  | PreparePrepared PreparedPaymentResponse

record x402_client =
  xq_network :: string
  xq_vault :: VaultConfig
  xq_intents :: intent_env
  xq_signer :: agent_signer
  xq_key :: "string \<Rightarrow> signed_transaction answer"
  xq_lookupTablesFor :: "(string \<Rightarrow> LookupTables answer) option"
  xq_prepare :: "json \<Rightarrow> PrepareAnswer answer"

text \<open>An error of a called function is rethrown.\<close>

definition rethrow :: "'a answer \<Rightarrow> 'a result" where
  "rethrow r = (case r of Inl _ \<Rightarrow> Inl (JsError ''Error'') | Inr x \<Rightarrow> Inr x)"

lemma rethrow_Inr [simp]: "rethrow r = Inr x \<longleftrightarrow> r = Inr x"
  by (cases r) (simp_all add: rethrow_def)

definition supportedRequirement :: "x402_client \<Rightarrow> SublyPaymentRequirements \<Rightarrow> bool" where
  "supportedRequirement C candidate \<longleftrightarrow>
     sr2_network candidate = xq_network C
     \<and> sx_vault (sr2_extra candidate) = vc_address (xq_vault C)
     \<and> sx_shareMint (sr2_extra candidate) = vc_shareMint (xq_vault C)
     \<and> sr2_asset candidate = vc_usdcMint (xq_vault C)"

text \<open>A header error keeps its reason.\<close>

definition selectRequirement :: "'a subly_env_scheme \<Rightarrow> x402_client \<Rightarrow> string \<Rightarrow> SublyPaymentRequirements result" where
  "selectRequirement X C paymentRequiredHeader =
     bindR (decodePaymentRequiredHeader X paymentRequiredHeader) (\<lambda>candidates.
     case find (supportedRequirement C) candidates of
       None \<Rightarrow> reject ''no_supported_requirement''
     | Some selected \<Rightarrow> Inr selected)"

definition prepareBody :: "x402_client \<Rightarrow> SublyPaymentRequirements \<Rightarrow> string \<Rightarrow> string \<Rightarrow> string \<Rightarrow> json" where
  "prepareBody C q httpMethod requestBodyHash dustRecipientUsdcAta = JObject
     [(''wallet'', Some (JString (as_walletAddress (xq_signer C)))), (''scheme'', Some (JString PAYMENT_SCHEME)),
      (''network'', Some (JString (sr2_network q))), (''vault'', Some (JString (sx_vault (sr2_extra q)))),
      (''shareMint'', Some (JString (sx_shareMint (sr2_extra q)))), (''asset'', Some (JString (sr2_asset q))),
      (''seller'', Some (JString (sx_seller (sr2_extra q)))),
      (''sellerRequestId'', Some (JString (sx_sellerRequestId (sr2_extra q)))),
      (''httpMethod'', Some (JString httpMethod)), (''canonicalResourceUrl'', Some (JString (sr2_resource q))),
      (''requestBodyHash'', Some (JString requestBodyHash)), (''amountRawUsdc'', Some (JString (sr2_amountRawUsdc q))),
      (''payTo'', Some (JString (sr2_payTo q))), (''sellerUsdcAta'', Some (JString (sx_sellerUsdcAta (sr2_extra q)))),
      (''dustRecipientUsdcAta'', Some (JString dustRecipientUsdcAta))]"

definition preparePaymentAtRelayer ::
  "x402_client \<Rightarrow> SublyPaymentRequirements \<Rightarrow> string \<Rightarrow> string \<Rightarrow> PreparedPaymentResponse result" where
  "preparePaymentAtRelayer C q httpMethod requestBodyHash =
     bindR (ataOf (xq_intents C) (as_walletAddress (xq_signer C)) (vc_usdcMint (xq_vault C))) (\<lambda>dustRecipientUsdcAta.
     bindR (rethrow (xq_prepare C (prepareBody C q httpMethod requestBodyHash dustRecipientUsdcAta))) (\<lambda>answer.
     case answer of
       PrepareRefused code \<Rightarrow> reject (orElse code ''prepare_failed'')
     | PrepareMalformed \<Rightarrow> reject ''invalid_prepare_response''
     | PreparePrepared prepared \<Rightarrow> Inr prepared))"

text \<open>The request the client means to pay for, and the intent that says the same.\<close>

definition challengeBinding :: "SublyPaymentRequirements \<Rightarrow> string \<Rightarrow> string \<Rightarrow> string \<Rightarrow> RequestBindingFields" where
  "challengeBinding q httpMethod url requestBodyHash =
     \<lparr>rb_sellerRequestId = sx_sellerRequestId (sr2_extra q), rb_httpMethod = toUpperCase httpMethod,
      rb_canonicalResourceUrl = url, rb_requestBodyHash = requestBodyHash, rb_seller = sx_seller (sr2_extra q),
      rb_asset = sr2_asset q, rb_amountRawUsdc = sr2_amountRawUsdc q, rb_payTo = sr2_payTo q,
      rb_sellerUsdcAta = sx_sellerUsdcAta (sr2_extra q)\<rparr>"

definition intentMatches :: "x402_client \<Rightarrow> SublyPaymentRequirements \<Rightarrow> RequestBindingFields \<Rightarrow> PaymentSigningIntent \<Rightarrow> bool" where
  "intentMatches C q b intent \<longleftrightarrow>
     psi_wallet intent = as_walletAddress (xq_signer C) \<and> psi_scheme intent = PAYMENT_SCHEME
     \<and> psi_network intent = sr2_network q \<and> psi_vault intent = sx_vault (sr2_extra q)
     \<and> psi_shareMint intent = sx_shareMint (sr2_extra q) \<and> psi_asset intent = rb_asset b
     \<and> psi_seller intent = rb_seller b \<and> psi_sellerRequestId intent = rb_sellerRequestId b
     \<and> psi_httpMethod intent = rb_httpMethod b \<and> psi_canonicalResourceUrl intent = rb_canonicalResourceUrl b
     \<and> psi_requestBodyHash intent = rb_requestBodyHash b \<and> psi_amountRawUsdc intent = rb_amountRawUsdc b
     \<and> psi_payTo intent = rb_payTo b \<and> psi_sellerUsdcAta intent = rb_sellerUsdcAta b"

definition paymentPayloadJson :: "SublyPaymentRequirements \<Rightarrow> PreparedPaymentResponse \<Rightarrow> signed_transaction \<Rightarrow> json" where
  "paymentPayloadJson q prepared tx = JObject
     [(''x402Version'', Some (JNumber X402_VERSION)), (''scheme'', Some (JString PAYMENT_SCHEME)),
      (''network'', Some (JString (sr2_network q))),
      (''payload'', Some (JObject
         [(''paymentId'', Some (JString (xp_paymentId prepared))),
          (''requestBindingHash'', Some (JString (xp_requestBindingHash prepared))),
          (''preparedMessageHash'', Some (JString (xp_preparedMessageHash prepared))),
          (''serializedTransaction'', Some (JString (fst tx))),
          (''agentSignature'', Some (JString (snd tx))),
          (''temporarySettlementSignature'', Some (JString (xp_temporarySettlementSignature prepared)))]))]"

definition signPrepared ::
  "x402_client \<Rightarrow> int \<Rightarrow> PreparedPaymentResponse \<Rightarrow> PaymentSigningIntent \<Rightarrow> signed_transaction answer" where
  "signPrepared C now prepared intent =
     bindE (case xq_lookupTablesFor C of
         None \<Rightarrow> Inr None
       | Some tablesFor \<Rightarrow> bindE (tablesFor (xp_serializedTransaction prepared)) (\<lambda>tables. Inr (Some tables))) (\<lambda>lookupTables.
     signPayment (xq_intents C) (xq_signer C) now (xq_key C) intent (xp_serializedTransaction prepared) lookupTables)"

text \<open>The header value and the payment id.\<close>

definition buildPaymentSignatureHeader ::
  "'a subly_env_scheme \<Rightarrow> x402_client \<Rightarrow> int \<Rightarrow> string \<Rightarrow> string \<Rightarrow> string \<Rightarrow> string option \<Rightarrow> (string \<times> string) result" where
  "buildPaymentSignatureHeader X C now paymentRequiredHeader httpMethod url body =
     bindR (selectRequirement X C paymentRequiredHeader) (\<lambda>q.
     bindR (require (sr2_resource q = url) ''resource_mismatch'') (\<lambda>_.
     let requestBodyHash = requestBodyHashFor X body in
     bindR (preparePaymentAtRelayer C q (toUpperCase httpMethod) requestBodyHash) (\<lambda>prepared.
     let b = challengeBinding q httpMethod url requestBodyHash;
         bindingHash = computeRequestBindingHash (xh_sha X) b in
     case xp_signingIntent prepared of
       None \<Rightarrow> reject ''prepared_intent_mismatch''
     | Some intent \<Rightarrow>
         bindR (require (intentMatches C q b intent \<and> psi_requestBindingHash intent = bindingHash
           \<and> xp_requestBindingHash prepared = bindingHash) ''prepared_intent_mismatch'') (\<lambda>_.
         bindR (rethrow (signPrepared C now prepared intent)) (\<lambda>tx.
         bindR (encodeX402Header X (paymentPayloadJson q prepared tx)) (\<lambda>headerValue.
         Inr (headerValue, xp_paymentId prepared)))))))"

text \<open>
  \<open>fetchWithPayment\<close>: a 402 answer with a challenge is paid and the request retried once. An answer is
  its status and its \<open>PAYMENT-REQUIRED\<close> header; \<open>send\<close> performs the request with an optional
  payment header.
\<close>

definition fetchWithPayment ::
  "'a subly_env_scheme \<Rightarrow> x402_client \<Rightarrow> int \<Rightarrow> (string option \<Rightarrow> (int \<times> string option) result)
     \<Rightarrow> string \<Rightarrow> string option \<Rightarrow> string option \<Rightarrow> (int \<times> string option) result" where
  "fetchWithPayment X C now send url httpMethod body =
     bindR (send None) (\<lambda>first.
     case first of
       (status, Some challenge) \<Rightarrow>
         if status \<noteq> 402 then Inr first
         else bindR (buildPaymentSignatureHeader X C now challenge (orElse httpMethod ''GET'') url body)
           (\<lambda>(headerValue, _). send (Some headerValue))
     | _ \<Rightarrow> Inr first)"

section \<open>An honest retry\<close>

text \<open>What the schema reads out of a challenge of the gate.\<close>

definition gateRequirement :: "SellerGate \<Rightarrow> PricedRequest \<Rightarrow> SublyPaymentRequirements" where
  "gateRequirement G r = \<lparr>sr2_network = sg_network G, sr2_asset = vc_usdcMint (sg_vault G),
     sr2_amountRawUsdc = pr_amountRawUsdc r, sr2_resource = pr_resource r, sr2_payTo = sg_payTo G,
     sr2_maxTimeoutSeconds = sg_maxTimeoutSeconds G,
     sr2_extra = \<lparr>sx_sellerRequestId = pr_sellerRequestId r, sx_seller = sg_payTo G,
       sx_sellerUsdcAta = sg_sellerUsdcAta G, sx_vault = vc_address (sg_vault G), sx_shareMint = vc_shareMint (sg_vault G)\<rparr>\<rparr>"

lemma textOfLength_Some: "textOfLength n v = Some s \<longleftrightarrow> v = Some (JString s) \<and> n \<le> length s"
  by (auto simp: textOfLength_def split: option.split json.split)

lemma textOfLength_JString [simp]: "textOfLength n (Some (JString s)) = (if n \<le> length s then Some s else None)"
  by (simp add: textOfLength_def)

lemma parse_gate_requirement:
  "parseSublyRequirement X (gateRequirementJson G r) = Some q \<Longrightarrow> q = gateRequirement G r"
  by (cases "pr_description r")
    (auto simp: parseSublyRequirement_def gateRequirementJson_def parseRequirementExtra_def member_def gateRequirement_def
      split: if_splits)

lemma find_map_filter: "find P (List.map_filter f [x]) = Some y \<Longrightarrow> f x = Some y"
  by (auto simp: map_filter_simps split: option.splits if_splits)

lemma selects_gate_requirement:
  assumes "decodeX402Header X challenge = Inr (challengeBody G r)" "selectRequirement X C challenge = Inr q"
  shows "q = gateRequirement G r"
proof -
  have "find (supportedRequirement C) (List.map_filter (parseSublyRequirement X) [gateRequirementJson G r]) = Some q"
    using assms by (auto simp: selectRequirement_def decodePaymentRequiredHeader_def bindR_Inr challengeBody_def
        member_def reject_def split: option.splits if_splits)
  then show ?thesis by (intro parse_gate_requirement[of X]) (rule find_map_filter)
qed

lemma buildPaymentSignatureHeader_InrD:
  assumes "buildPaymentSignatureHeader X C now challenge httpMethod url body = Inr (header, paymentId)"
  shows "\<exists>q prepared intent tx. let b = challengeBinding q httpMethod url (requestBodyHashFor X body);
         bindingHash = computeRequestBindingHash (xh_sha X) b in
        selectRequirement X C challenge = Inr q \<and> sr2_resource q = url
      \<and> preparePaymentAtRelayer C q (toUpperCase httpMethod) (requestBodyHashFor X body) = Inr prepared
      \<and> xp_signingIntent prepared = Some intent \<and> intentMatches C q b intent
      \<and> psi_requestBindingHash intent = bindingHash \<and> xp_requestBindingHash prepared = bindingHash
      \<and> signPrepared C now prepared intent = Inr tx
      \<and> encodeX402Header X (paymentPayloadJson q prepared tx) = Inr header \<and> paymentId = xp_paymentId prepared"
  using assms unfolding buildPaymentSignatureHeader_def Let_def
  by (auto simp: bindR_Inr require_def checkR_def reject_def split: option.splits if_splits)

lemma decode_encoded:
  assumes "encodeX402Header X v = Inr h" "decodeX402Header X h = Inr w" "xh_parse X (sh_stringify X v) = Some v"
  shows "w = v"
proof -
  have "h = base64_text (sh_stringify X v)"
    using assms(1) by (auto simp: encodeX402Header_def Let_def reject_def split: if_splits)
  then show ?thesis
    using assms(2,3) by (auto simp: decodeX402Header_def base64_roundtrip reject_def split: if_splits)
qed

lemma decoded_payload:
  assumes "decodePaymentSignatureHeader X header = Inr (network, payload)"
    and "decodeX402Header X header = Inr (paymentPayloadJson q prepared tx)"
  shows "network = sr2_network q \<and> payload = \<lparr>sl_paymentId = xp_paymentId prepared,
    sl_requestBindingHash = xp_requestBindingHash prepared, sl_preparedMessageHash = xp_preparedMessageHash prepared,
    sl_serializedTransaction = fst tx, sl_agentSignature = snd tx,
    sl_temporarySettlementSignature = xp_temporarySettlementSignature prepared\<rparr>"
  using assms
  by (auto simp: decodePaymentSignatureHeader_def bindR_Inr paymentPayloadJson_def parseSublyPayload_def member_def
      boundedText_def reject_def split: option.splits if_splits)

lemma decodePaymentSignatureHeader_json:
  "decodePaymentSignatureHeader X header = Inr d \<Longrightarrow> \<exists>v. decodeX402Header X header = Inr v"
  by (auto simp: decodePaymentSignatureHeader_def bindR_Inr)

lemma upper_char:
  "c' = (if CHR ''a'' \<le> c \<and> c \<le> CHR ''z'' then char_of (of_char c - 32 :: nat) else c)
    \<Longrightarrow> \<not> (CHR ''a'' \<le> c' \<and> c' \<le> CHR ''z'')"
  by (auto simp: less_eq_char_def split: if_splits)

lemma toUpperCase_idem: "toUpperCase (toUpperCase m) = toUpperCase m"
  unfolding toUpperCase_def map_map o_def if_not_P[OF upper_char[OF refl]] ..

lemma challengeBinding_gate:
  "computeRequestBindingHash sha (challengeBinding (gateRequirement G r) (pr_httpMethod r) (pr_resource r)
     (requestBodyHashFor X (pr_body r))) = computeRequestBindingHash sha (pricedBinding X G r)"
  by (simp add: computeRequestBindingHash_def requestBindingJson_def challengeBinding_def gateRequirement_def
      pricedBinding_def toUpperCase_idem)

lemma paymentRequiredResponse_Inr:
  "paymentRequiredResponse X G r = Inr (challenge, v) \<longleftrightarrow> positiveDecimal (pr_amountRawUsdc r)
     \<and> encodeX402Header X (challengeBody G r) = Inr challenge \<and> v = challengeBody G r"
  by (auto simp: paymentRequiredResponse_def assertCanonicalRawAmount_def bindR_Inr)

text \<open>
  C14: an honest retry fits. When a buyer pays the challenge of a gate for the very request it was issued for, and
  the two headers survive their JSON round trip, the gate takes the payload to the facilitator: it
  is for the gate's network, bound to the hash the gate computes from its own facts, and it
  carries the transaction that the buyer's signer signed after validating a payment of the priced
  amount from the buyer's wallet to the gate's payee and account.
\<close>

theorem honest_retry_reaches_settlement:
  assumes codec: "\<And>v. encodeX402Header X v \<in> {Inr challenge, Inr header} \<Longrightarrow> xh_parse X (sh_stringify X v) = Some v"
    and "paymentRequiredResponse X G r = Inr (challenge, body)"
    and "buildPaymentSignatureHeader X C now challenge (pr_httpMethod r) (pr_resource r) (pr_body r) = Inr (header, paymentId)"
    and decoded: "decodePaymentSignatureHeader X header = Inr (network, payload)"
  shows "settle X G r header calls = settleAtFacilitator X G r payload (sl_requestBindingHash payload) calls
    \<and> sl_paymentId payload = paymentId
    \<and> (\<exists>prepared intent. signPrepared C now prepared intent
          = Inr (sl_serializedTransaction payload, sl_agentSignature payload)
        \<and> psi_wallet intent = as_walletAddress (xq_signer C) \<and> psi_amountRawUsdc intent = pr_amountRawUsdc r
        \<and> psi_payTo intent = sg_payTo G \<and> psi_sellerUsdcAta intent = sg_sellerUsdcAta G)"
proof -
  have issued: "positiveDecimal (pr_amountRawUsdc r)" "encodeX402Header X (challengeBody G r) = Inr challenge"
    using assms(2) by (simp_all add: paymentRequiredResponse_Inr)
  obtain q prepared intent tx where q: "selectRequirement X C challenge = Inr q"
    and intent: "intentMatches C q (challengeBinding q (pr_httpMethod r) (pr_resource r)
      (requestBodyHashFor X (pr_body r))) intent"
    and hash: "xp_requestBindingHash prepared = computeRequestBindingHash (xh_sha X)
      (challengeBinding q (pr_httpMethod r) (pr_resource r) (requestBodyHashFor X (pr_body r)))"
    and tx: "signPrepared C now prepared intent = Inr tx"
    and header: "encodeX402Header X (paymentPayloadJson q prepared tx) = Inr header" "paymentId = xp_paymentId prepared"
    using buildPaymentSignatureHeader_InrD[OF assms(3)] unfolding Let_def by blast
  obtain v where "decodeX402Header X challenge = Inr v"
    using q by (auto simp: selectRequirement_def decodePaymentRequiredHeader_def bindR_Inr)
  then have "decodeX402Header X challenge = Inr (challengeBody G r)"
    using decode_encoded[OF issued(2)] codec issued(2) by blast
  then have gate: "q = gateRequirement G r" by (rule selects_gate_requirement[OF _ q])
  obtain w where "decodeX402Header X header = Inr w"
    using decodePaymentSignatureHeader_json[OF decoded] by blast
  then have "decodeX402Header X header = Inr (paymentPayloadJson q prepared tx)"
    using decode_encoded[OF header(1)] codec header(1) by blast
  note payload = decoded_payload[OF decoded this]
  have "bindingHashFor X G r = Inr (sl_requestBindingHash payload)" "network = sg_network G"
    using payload issued(1) hash
    by (simp_all add: bindingHashFor_def assertCanonicalRawAmount_def gate challengeBinding_gate)
      (simp add: gateRequirement_def)
  then have "settle X G r header calls = settleAtFacilitator X G r payload (sl_requestBindingHash payload) calls"
    using decoded by (simp add: settle_def)
  moreover have "signPrepared C now prepared intent = Inr (sl_serializedTransaction payload, sl_agentSignature payload)"
    using payload tx by simp
  ultimately show ?thesis
    using payload header(2) intent by (auto simp: intentMatches_def challengeBinding_def gate gateRequirement_def)
qed

definition demo_vault :: VaultConfig where
  "demo_vault = \<lparr>vc_address = ''vault-of-the-demonstration-0000001'', vc_programId = KVAULT_PROGRAM_ID,
     vc_usdcMint = ''usdc-mint-of-the-demonstration-001'', vc_shareMint = ''share-mint-of-the-demonstration-01'',
     vc_farm = ''farm''\<rparr>"

definition demo_intents :: intent_env where
  "demo_intents = sample_intent_env
     \<lparr>ta_encode := (\<lambda>bytes. if hd bytes = 1 then SPL_TOKEN_PROGRAM_ID else if hd bytes = 2 then ''wallet''
        else if hd bytes = 240 then ''wallet-ata'' else ''seller-token-account-of-the-demo-1''),
      iv_decodeMessage := (\<lambda>_. Inr
        \<lparr>cm_version = Some 0, cm_numSignerAccounts = 3,
         cm_staticAccounts = [''sponsor'', ''wallet'', ''temp'', COMPUTE_BUDGET_PROGRAM_ID, SYSTEM_PROGRAM_ID,
           SPL_TOKEN_PROGRAM_ID, vc_usdcMint demo_vault, KVAULT_PROGRAM_ID, vc_address demo_vault,
           vc_shareMint demo_vault, ''seller-token-account-of-the-demo-1'', ''wallet-ata'', MEMO_PROGRAM_ID, ''config''],
         cm_addressTableLookups = None,
         cm_instructions = map (\<lambda>(p, as, d). \<lparr>ci_programAddressIndex = p, ci_accountIndices = Some as, ci_data = Some d\<rparr>)
           [(3, [], [2, 64, 13, 3, 0]), (3, [], [3, 1, 0, 0, 0, 0, 0, 0, 0]),
            (4, [0, 2], [0, 0, 0, 0, 0, 32, 31, 0, 0, 0, 0, 0, 165, 0, 0, 0, 0, 0, 0, 0] @ replicate 32 1),
            (5, [2, 6], 18 # replicate 32 2),
            (7, [1, 8, 13, 13, 13, 2, 6, 11, 9], KVAULT_WITHDRAW_DISCRIMINATOR @ [100, 0, 0, 0, 0, 0, 0, 0]),
            (5, [2, 6, 10, 1], [12, 5, 0, 0, 0, 0, 0, 0, 0, 6]),
            (5, [2, 0, 1], [9]), (12, [], [112])]\<rparr>)\<rparr>"

definition demo_gate :: SellerGate where
  "demo_gate = \<lparr>sg_payTo = ''seller-wallet-of-the-demonstration'', sg_network = SOLANA_MAINNET_NETWORK,
     sg_maxTimeoutSeconds = 120, sg_sellerUsdcAta = ''seller-token-account-of-the-demo-1'', sg_vault = demo_vault\<rparr>"

definition demo_request :: PricedRequest where
  "demo_request = \<lparr>pr_sellerRequestId = ''request'', pr_httpMethod = ''get'', pr_resource = ''https://demo'',
     pr_amountRawUsdc = ''5'', pr_description = None, pr_body = None\<rparr>"

definition demo_intent :: PaymentSigningIntent where
  "demo_intent = sample_payment_intent
     \<lparr>psi_canonicalResourceUrl := ''https://demo'', psi_requestBodyHash := EMPTY_BODY_HASH, psi_seller := sg_payTo demo_gate,
      psi_vault := vc_address demo_vault, psi_shareMint := vc_shareMint demo_vault, psi_asset := vc_usdcMint demo_vault,
      psi_payTo := sg_payTo demo_gate, psi_sellerUsdcAta := sg_sellerUsdcAta demo_gate\<rparr>"

definition demo_prepared :: PreparedPaymentResponse where
  "demo_prepared = \<lparr>xp_paymentId = ''pay-1'', xp_requestBindingHash = ''sha256-binding-hash'',
     xp_preparedMessageHash = ''message-hash'', xp_temporarySettlementSignature = ''temp-signature'',
     xp_serializedTransaction = ''ACo='', xp_signingIntent = Some demo_intent\<rparr>"

definition demo_client :: x402_client where
  "demo_client = \<lparr>xq_network = SOLANA_MAINNET_NETWORK, xq_vault = demo_vault, xq_intents = demo_intents,
     xq_signer = newSigner demo_intents ''wallet'' (Some \<lparr>ivp_vault = Some demo_vault, ivp_maxComputeUnitLimit = None,
       ivp_maxComputeUnitPriceMicroLamports = None, ivp_maxTemporaryAccountLamports = None\<rparr>),
     xq_key = (\<lambda>_. Inr (''signed'', ''agent-signature'')), xq_lookupTablesFor = None,
     xq_prepare = (\<lambda>_. Inr (PreparePrepared demo_prepared))\<rparr>"

definition demo_payload_json :: json where
  "demo_payload_json = paymentPayloadJson (gateRequirement demo_gate demo_request) demo_prepared (''signed'', ''agent-signature'')"

definition demo_env :: seller_env where
  "demo_env = \<lparr>xh_parse = (\<lambda>bytes. if bytes = [1] then Some (challengeBody demo_gate demo_request)
       else if bytes = [2] then Some demo_payload_json else None),
     xh_sha = (\<lambda>_. ''binding-hash''),
     sh_stringify = (\<lambda>v. if v = challengeBody demo_gate demo_request then [1] else if v = demo_payload_json then [2] else [3]),
     sh_isUrl = (\<lambda>_. True), ga_facilitator = (\<lambda>_ _ _. Inl (JsError ''unreachable''))\<rparr>"

lemma demo_challenge: "paymentRequiredResponse demo_env demo_gate demo_request = Inr (''AQ=='', challengeBody demo_gate demo_request)"
  by code_simp

lemma demo_payment:
  "buildPaymentSignatureHeader demo_env demo_client 500 ''AQ=='' ''get'' ''https://demo'' None = Inr (''Ag=='', ''pay-1'')"
  by code_simp

lemma demo_codec:
  assumes "encodeX402Header demo_env v \<in> {Inr ''AQ=='', Inr ''Ag==''}"
  shows "xh_parse demo_env (sh_stringify demo_env v) = Some v"
proof -
  have "base64_text [3] = ''Aw==''" by code_simp
  then have "v = challengeBody demo_gate demo_request \<or> v = demo_payload_json"
    using assms by (auto simp: encodeX402Header_def demo_env_def Let_def MAX_HEADER_JSON_BYTES_def split: if_splits)
  moreover have "challengeBody demo_gate demo_request \<noteq> demo_payload_json"
    by (simp add: challengeBody_def demo_payload_json_def paymentPayloadJson_def)
  ultimately show ?thesis by (auto simp: demo_env_def)
qed

definition demo_payload :: SublyPayload where
  "demo_payload = \<lparr>sl_paymentId = ''pay-1'', sl_requestBindingHash = ''sha256-binding-hash'',
     sl_preparedMessageHash = ''message-hash'', sl_serializedTransaction = ''signed'',
     sl_agentSignature = ''agent-signature'', sl_temporarySettlementSignature = ''temp-signature''\<rparr>"

lemma demo_decoded: "decodePaymentSignatureHeader demo_env ''Ag=='' = Inr (SOLANA_MAINNET_NETWORK, demo_payload)"
  by code_simp

theorem honest_retry_reaches_settlement_witness:
  "settle demo_env demo_gate demo_request ''Ag=='' []
     = settleAtFacilitator demo_env demo_gate demo_request demo_payload ''sha256-binding-hash'' []
   \<and> sl_paymentId demo_payload = ''pay-1''"
proof -
  have paid: "buildPaymentSignatureHeader demo_env demo_client 500 ''AQ=='' (pr_httpMethod demo_request)
      (pr_resource demo_request) (pr_body demo_request) = Inr (''Ag=='', ''pay-1'')"
    using demo_payment by (simp add: demo_request_def)
  have "sl_requestBindingHash demo_payload = ''sha256-binding-hash''" by (simp add: demo_payload_def)
  then show ?thesis
    using honest_retry_reaches_settlement[OF demo_codec demo_challenge paid demo_decoded, of "[]"] by simp
qed

end
