(* ===== verification/Paid_Fetch.thy ===== *)
theory Paid_Fetch
  imports Subly_Header X402_Payer
begin

text \<open>
  The paid fetch of the \<open>subly-yield-exact\<close> buyer, \<open>src/src/client/paid-fetch.ts\<close>: one marker per URL
  stands for a signed payment whose delivery is not confirmed, in memory and in the state store.
  Calls run one after another. The seller, the signature builder, the status probe and the budget
  view are answers given to a call; the log lists the writes of the store, the payment signatures
  handed to the seller, and why a marker was closed.
\<close>

section \<open>Markers\<close>

record PendingMarker =
  pk_headerValue :: string
  pk_paymentId :: string
  pk_amountUsdc :: string
  pk_payTo :: string
  pk_challengeAtMs :: int
  pk_unresolved :: bool

type_synonym markers = "(string, PendingMarker) js_map"

datatype marker_closing = DeliveryConfirmed | ForcedAway | KnownUnsettled | MarkerEvicted

datatype fetch_event =
    MarkersSaved markers
  | SignatureSent string string
  | MarkerClosed marker_closing string string

record fetch_world =
  fw_pending :: markers
  fw_disk :: markers
  fw_faults :: "nat \<Rightarrow> save_outcome"
  fw_saves :: nat
  fw_log :: "fetch_event list"

record fetch_config = subly_env +
  fc_defaultMaxAmountRawUsdc :: int
  fc_pendingTtlMs :: int
  fc_maxTrackedUrls :: int
  fc_maxBodyChars :: nat
  fc_hasStore :: bool

definition fetchEvent :: "fetch_event \<Rightarrow> (fetch_world, unit) action" where
  "fetchEvent e = modifyA (\<lambda>w. w\<lparr>fw_log := fw_log w @ [e]\<rparr>)"

definition setMarkers :: "markers \<Rightarrow> (fetch_world, unit) action" where
  "setMarkers m = modifyA (\<lambda>w. w\<lparr>fw_pending := m\<rparr>)"

text \<open>The constructor reads the records of the store in their order.\<close>

definition loadMarkers :: "markers \<Rightarrow> markers" where
  "loadMarkers records = foldl (\<lambda>m (url, entry). map_set url entry m) [] records"

definition fetchPersist :: "fetch_config \<Rightarrow> (fetch_world, unit) action" where
  "fetchPersist C = (if \<not> fc_hasStore C then returnA ()
     else bindA (getsA (\<lambda>w. (fw_pending w, fw_faults w (fw_saves w)))) (\<lambda>(records, outcome).
       bindA (modifyA (\<lambda>w. w\<lparr>fw_saves := fw_saves w + 1\<rparr>)) (\<lambda>_.
       bindA (if outcome = SaveFailed then returnA ()
              else bindA (modifyA (\<lambda>w. w\<lparr>fw_disk := records\<rparr>)) (\<lambda>_. fetchEvent (MarkersSaved records))) (\<lambda>_.
       if outcome = SaveDone then returnA () else throwA (JsError ''EIO'')))))"

definition evictOldest :: "(fetch_world, unit) action" where
  "evictOldest = bindA (getsA fw_pending) (\<lambda>m. case m of
       [] \<Rightarrow> returnA ()
     | (oldest, entry) # _ \<Rightarrow>
         bindA (fetchEvent (MarkerClosed MarkerEvicted oldest (pk_headerValue entry))) (\<lambda>_.
         setMarkers (map_delete oldest m)))"

definition trackMarker :: "fetch_config \<Rightarrow> string \<Rightarrow> PendingMarker \<Rightarrow> (fetch_world, unit) action" where
  "trackMarker C url entry =
     bindA (getsA fw_pending) (\<lambda>previous.
     bindA (if map_get previous url = None \<and> int (length previous) \<ge> fc_maxTrackedUrls C
            then evictOldest else returnA ()) (\<lambda>_.
     bindA (modifyA (\<lambda>w. w\<lparr>fw_pending := map_set url entry (fw_pending w)\<rparr>)) (\<lambda>_.
     catchA (fetchPersist C) (\<lambda>_. bindA (setMarkers previous) (\<lambda>_. throwA (payError ''state_persist_failed''))))))"

definition untrackMarker :: "fetch_config \<Rightarrow> string \<Rightarrow> (fetch_world, unit) action" where
  "untrackMarker C url =
     bindA (getsA fw_pending) (\<lambda>previous.
     bindA (setMarkers (map_delete url previous)) (\<lambda>_.
     catchA (fetchPersist C) (\<lambda>_. bindA (setMarkers previous) (\<lambda>_. throwA (payError ''state_persist_failed'')))))"

definition clearDeliveredMarker :: "fetch_config \<Rightarrow> string \<Rightarrow> (fetch_world, unit) action" where
  "clearDeliveredMarker C url =
     bindA (getsA fw_pending) (\<lambda>previous.
     bindA (setMarkers (map_delete url previous)) (\<lambda>_.
     catchA (fetchPersist C) (\<lambda>_. setMarkers previous)))"

section \<open>A call\<close>

datatype PaymentOutcomeProbe = ProbeSettled | ProbeNotSettled | ProbeIndeterminate

record fetch_answers =
  fa_nowMs :: int
  fa_challengeAtMs :: int
  fa_first :: "FetchResponse result"
  fa_build :: "string \<Rightarrow> (string \<times> string) result"
  fa_delivery :: "FetchResponse result"
  fa_probe :: "PaymentOutcomeProbe result"
  fa_budgetBefore :: "(string \<times> string) option"
  fa_budgetAfter :: "(string \<times> string) option"

record fetch_params =
  fq_url :: string
  fq_maxAmountRawUsdc :: "int option"
  fq_forceNewPayment :: "bool option"

record FetchPayment =
  fy_amountUsdc :: string
  fy_payTo :: string
  fy_paymentId :: string
  fy_transaction :: "string option"
  fy_solscanUrl :: "string option"
  fy_budgetBefore :: "(string \<times> string) option"
  fy_budgetAfter :: "(string \<times> string) option"

text \<open>An unpaid answer, or a paid one: its status, its body, whether a pending payment was retried.\<close>

datatype PaidFetchResult = FetchUnpaid int string | FetchPaid int string bool FetchPayment

definition formatRawUsdcAmount :: "int \<Rightarrow> string" where
  "formatRawUsdcAmount v =
     (let digits = toString (\<bar>v\<bar> mod 1000000) in
      (if v < 0 then ''-'' else []) @ toString (\<bar>v\<bar> div 1000000) @ ''.''
        @ replicate (6 - length digits) CHR ''0'' @ digits)"

definition truncatedBody :: "fetch_config \<Rightarrow> string \<Rightarrow> string" where
  "truncatedBody C body = (if length body > fc_maxBodyChars C
     then take (fc_maxBodyChars C) body @ [CHR 0x0A] @ ''... (truncated)'' else body)"

definition receiptTransaction :: "fetch_config \<Rightarrow> (string \<Rightarrow> string option) \<Rightarrow> string option" where
  "receiptTransaction C headers = (case headers PAYMENT_RESPONSE_HEADER of
       None \<Rightarrow> None
     | Some receiptHeader \<Rightarrow> (case decodeX402Header C receiptHeader of
           Inr (JObject ps) \<Rightarrow> nonEmptyText (member ''transaction'' ps)
         | _ \<Rightarrow> None))"

text \<open>The entry object is shared with the map: marking it unresolved marks the tracked entry.\<close>

definition markUnresolved :: "fetch_config \<Rightarrow> string \<Rightarrow> PendingMarker \<Rightarrow> (fetch_world, unit) action" where
  "markUnresolved C url entry =
     bindA (getsA fw_pending) (\<lambda>previous.
     bindA (setMarkers (if map_get previous url = None then previous
       else map_set url (entry\<lparr>pk_unresolved := True\<rparr>) previous)) (\<lambda>_.
     catchA (fetchPersist C) (\<lambda>_. setMarkers (if map_get previous url = None then previous
       else map_set url (entry\<lparr>pk_unresolved := False\<rparr>) previous))))"

definition deliver ::
  "fetch_config \<Rightarrow> string \<Rightarrow> PendingMarker \<Rightarrow> bool \<Rightarrow> (string \<times> string) option \<Rightarrow> fetch_answers
    \<Rightarrow> (fetch_world, PaidFetchResult) action" where
  "deliver C url entry retried budgetBefore ans =
     bindA (fetchEvent (SignatureSent url (pk_headerValue entry))) (\<lambda>_.
     case fa_delivery ans of
       Inl _ \<Rightarrow> throwA (payError ''delivery_failed_payment_pending'')
     | Inr second \<Rightarrow>
         if fr_status second = 200 then
           bindA (fetchEvent (MarkerClosed DeliveryConfirmed url (pk_headerValue entry))) (\<lambda>_.
           bindA (clearDeliveredMarker C url) (\<lambda>_.
           let transaction = receiptTransaction C (fr_headers second) in
           returnA (FetchPaid (fr_status second) (truncatedBody C (fr_text second)) retried
             \<lparr>fy_amountUsdc = pk_amountUsdc entry, fy_payTo = pk_payTo entry, fy_paymentId = pk_paymentId entry,
              fy_transaction = transaction,
              fy_solscanUrl = map_option (\<lambda>t. ''https://solscan.io/tx/'' @ t) transaction,
              fy_budgetBefore = budgetBefore, fy_budgetAfter = fa_budgetAfter ans\<rparr>)))
         else if fr_status second = 402 then
           bindA (markUnresolved C url entry) (\<lambda>_. throwA (payError ''payment_outcome_unknown''))
         else throwA (payError ''delivery_failed_payment_pending''))"

text \<open>The challenge of the first answer: its header and its first requirement.\<close>

definition challengeOf :: "fetch_config \<Rightarrow> FetchResponse \<Rightarrow> (string \<times> SublyPaymentRequirements) result" where
  "challengeOf C first = (case fr_headers first PAYMENT_REQUIRED_HEADER of
       None \<Rightarrow> Inl (payError ''invalid_challenge'')
     | Some challengeHeader \<Rightarrow>
         bindR (decodePaymentRequiredHeader C challengeHeader) (\<lambda>requirements. case requirements of
           [] \<Rightarrow> Inl (payError ''invalid_challenge'')
         | requirement # _ \<Rightarrow> Inr (challengeHeader, requirement)))"

definition purchase :: "fetch_config \<Rightarrow> fetch_params \<Rightarrow> fetch_answers \<Rightarrow> (fetch_world, PaidFetchResult) action" where
  "purchase C p ans =
     bindA (liftR (fa_first ans)) (\<lambda>first.
     if fr_status first \<noteq> 402 then returnA (FetchUnpaid (fr_status first) (truncatedBody C (fr_text first)))
     else
       bindA (liftR (challengeOf C first)) (\<lambda>(challengeHeader, requirement).
       bindA (liftR (BigIntR (sr2_amountRawUsdc requirement))) (\<lambda>amountRawUsdc.
       bindA (assertA (\<not> amountRawUsdc > orElse (fq_maxAmountRawUsdc p) (fc_defaultMaxAmountRawUsdc C))
         (payError ''amount_exceeds_client_cap'')) (\<lambda>_.
       bindA (liftR (fa_build ans challengeHeader)) (\<lambda>(headerValue, paymentId).
       let entry = \<lparr>pk_headerValue = headerValue, pk_paymentId = paymentId,
         pk_amountUsdc = formatRawUsdcAmount amountRawUsdc, pk_payTo = sr2_payTo requirement,
         pk_challengeAtMs = fa_challengeAtMs ans, pk_unresolved = False\<rparr> in
       bindA (trackMarker C (fq_url p) entry) (\<lambda>_.
       deliver C (fq_url p) entry False (fa_budgetBefore ans) ans))))))"

definition discardMarker :: "fetch_config \<Rightarrow> marker_closing \<Rightarrow> string \<Rightarrow> PendingMarker \<Rightarrow> (fetch_world, unit) action" where
  "discardMarker C reason url entry =
     bindA (fetchEvent (MarkerClosed reason url (pk_headerValue entry))) (\<lambda>_. untrackMarker C url)"

definition runFetch :: "fetch_config \<Rightarrow> fetch_params \<Rightarrow> fetch_answers \<Rightarrow> (fetch_world, PaidFetchResult) action" where
  "runFetch C p ans =
     bindA (getsA (\<lambda>w. map_get (fw_pending w) (fq_url p))) (\<lambda>pending.
     case pending of
       None \<Rightarrow> purchase C p ans
     | Some entry \<Rightarrow>
         if pk_unresolved entry \<or> fa_nowMs ans - pk_challengeAtMs entry > fc_pendingTtlMs C then
           (if fq_forceNewPayment p = Some True
            then bindA (discardMarker C ForcedAway (fq_url p) entry) (\<lambda>_. purchase C p ans)
            else
              bindA (liftR (fa_probe ans)) (\<lambda>outcome. case outcome of
                ProbeNotSettled \<Rightarrow> bindA (discardMarker C KnownUnsettled (fq_url p) entry) (\<lambda>_. purchase C p ans)
              | ProbeSettled \<Rightarrow> throwA (payError ''payment_already_settled'')
              | ProbeIndeterminate \<Rightarrow> throwA (payError ''payment_outcome_unknown'')))
         else deliver C (fq_url p) entry True None ans)"

end
