(* ===== verification/Paid_Fetch_Safety.thy ===== *)
theory Paid_Fetch_Safety
  imports Paid_Fetch
begin

text \<open>
  Why the paid fetch does not pay twice: the invariant of its log, of the markers in memory and
  of the markers on disk, kept by every call and by a crash after any effect.
\<close>

section \<open>What a log says\<close>

definition closed_at :: "fetch_event list \<Rightarrow> string \<Rightarrow> string set" where
  "closed_at log url = {h. \<exists>reason. MarkerClosed reason url h \<in> set log}"

text \<open>The signatures handed to the seller whose payment has not been accounted for.\<close>

definition open_at :: "fetch_event list \<Rightarrow> string \<Rightarrow> string set" where
  "open_at log url = {h. SignatureSent url h \<in> set log} - closed_at log url"

definition disk_of :: "fetch_event list \<Rightarrow> markers" where
  "disk_of log = foldl (\<lambda>disk e. case e of MarkersSaved m \<Rightarrow> m | _ \<Rightarrow> disk) [] log"

definition marker_in :: "markers \<Rightarrow> string \<Rightarrow> string \<Rightarrow> bool" where
  "marker_in m url h \<longleftrightarrow> (\<exists>e. map_get m url = Some e \<and> pk_headerValue e = h)"

lemma marker_in_unique: "marker_in m url h \<Longrightarrow> marker_in m url h' \<Longrightarrow> h = h'"
  by (auto simp: marker_in_def)

definition event_ok :: "fetch_event list \<Rightarrow> fetch_event \<Rightarrow> bool" where
  "event_ok log e = (case e of
       SignatureSent url h \<Rightarrow> open_at log url \<subseteq> {h} \<and> (h \<in> closed_at log url \<or> marker_in (disk_of log) url h)
     | MarkersSaved m \<Rightarrow> map_ok m \<and> (\<forall>url. \<forall>h \<in> open_at log url. marker_in m url h)
     | MarkerClosed _ _ _ \<Rightarrow> True)"

inductive safe_log :: "fetch_event list \<Rightarrow> bool" where
  safe_Nil: "safe_log []"
| safe_snoc: "safe_log log \<Longrightarrow> event_ok log e \<Longrightarrow> safe_log (log @ [e])"

inductive_cases safe_log_snocE: "safe_log (log @ [e])"

lemma safe_log_snoc [simp]: "safe_log (log @ [e]) \<longleftrightarrow> safe_log log \<and> event_ok log e"
  by (auto elim: safe_log_snocE intro: safe_snoc)

lemma safe_log_prefix: "safe_log (log @ rest) \<Longrightarrow> safe_log log"
proof (induction rest rule: rev_induct)
  case (snoc e rest)
  then show ?case by (simp flip: append_assoc)
qed simp

lemma disk_of_snoc [simp]:
  "disk_of (log @ [MarkersSaved m]) = m"
  "disk_of (log @ [SignatureSent u h]) = disk_of log"
  "disk_of (log @ [MarkerClosed r u h]) = disk_of log"
  by (simp_all add: disk_of_def)

lemma closed_at_snoc [simp]:
  "closed_at (log @ [MarkersSaved m]) url = closed_at log url"
  "closed_at (log @ [SignatureSent u h]) url = closed_at log url"
  "closed_at (log @ [MarkerClosed r u h]) url = (if u = url then insert h (closed_at log url) else closed_at log url)"
  by (auto simp: closed_at_def)

lemma open_at_snoc [simp]:
  "open_at (log @ [MarkersSaved m]) url = open_at log url"
  "open_at (log @ [SignatureSent u h]) url
     = (if u = url then open_at log url \<union> ({h} - closed_at log url) else open_at log url)"
  "open_at (log @ [MarkerClosed r u h]) url = (if u = url then open_at log url - {h} else open_at log url)"
  by (auto simp: open_at_def)

text \<open>At every moment the store holds a marker of every payment that is open.\<close>

lemma safe_log_on_disk: "safe_log log \<Longrightarrow> map_ok (disk_of log) \<and> (\<forall>url. \<forall>h \<in> open_at log url. marker_in (disk_of log) url h)"
proof (induction log rule: safe_log.induct)
  case (safe_snoc log e)
  then show ?case
    by (cases e) (auto simp: event_ok_def dest: marker_in_unique)
qed (simp add: open_at_def disk_of_def)

section \<open>The invariant\<close>

definition base_ok :: "fetch_world \<Rightarrow> bool" where
  "base_ok w \<longleftrightarrow> safe_log (fw_log w) \<and> fw_disk w = disk_of (fw_log w)"

definition covers :: "markers \<Rightarrow> fetch_event list \<Rightarrow> bool" where
  "covers m log \<longleftrightarrow> map_ok m \<and> (\<forall>url. \<forall>h \<in> open_at log url. marker_in m url h)"

definition backed :: "markers \<Rightarrow> fetch_event list \<Rightarrow> bool" where
  "backed m log \<longleftrightarrow> (\<forall>url h. marker_in m url h \<longrightarrow> h \<in> closed_at log url \<or> marker_in (disk_of log) url h)"

definition fetch_ok :: "fetch_world \<Rightarrow> bool" where
  "fetch_ok w \<longleftrightarrow> base_ok w \<and> covers (fw_pending w) (fw_log w) \<and> backed (fw_pending w) (fw_log w)"

lemma runs_setMarkers [simp, runs_simps]: "runs (setMarkers m) w Q E = Q () (w\<lparr>fw_pending := m\<rparr>)"
  by (simp add: setMarkers_def)

lemma runs_fetchEvent [simp, runs_simps]: "runs (fetchEvent e) w Q E = Q () (w\<lparr>fw_log := fw_log w @ [e]\<rparr>)"
  by (simp add: fetchEvent_def)

text \<open>
  A write of the store: when it returns, the markers in memory are on disk; when it fails, the
  markers from before may be put back as long as the new ones or closings account for them.
\<close>

definition accounted :: "markers \<Rightarrow> markers \<Rightarrow> fetch_event list \<Rightarrow> bool" where
  "accounted previous m log \<longleftrightarrow> (\<forall>url h. marker_in previous url h \<longrightarrow> h \<in> closed_at log url \<or> marker_in m url h)"

lemma runs_fetchPersist:
  assumes "fc_hasStore C" "base_ok w" "covers (fw_pending w) (fw_log w)"
    and "covers previous (fw_log w)" "backed previous (fw_log w)" "accounted previous (fw_pending w) (fw_log w)"
    and Q: "\<And>w'. fetch_ok w' \<Longrightarrow> fw_pending w' = fw_pending w \<Longrightarrow> Q () w'"
    and E: "\<And>e w'. fetch_ok (w'\<lparr>fw_pending := previous\<rparr>) \<Longrightarrow> E e w'"
  shows "runs (fetchPersist C) w Q E"
proof -
  have saved: "base_ok (w\<lparr>fw_saves := n, fw_disk := fw_pending w, fw_log := fw_log w @ [MarkersSaved (fw_pending w)]\<rparr>)" for n
    using assms(2,3) by (simp add: base_ok_def event_ok_def covers_def)
  show ?thesis
    using assms(1-6) saved
    by (cases "fw_faults w (fw_saves w)")
      (auto simp: fetchPersist_def intro!: Q E,
        auto simp: fetch_ok_def base_ok_def covers_def backed_def accounted_def event_ok_def)
qed


section \<open>Every operation keeps the invariant\<close>

lemma marker_closed_keeps:
  "base_ok w \<Longrightarrow> base_ok (w\<lparr>fw_log := fw_log w @ [MarkerClosed r u h]\<rparr>)"
  "covers m log \<Longrightarrow> covers m (log @ [MarkerClosed r u h])"
  "backed m log \<Longrightarrow> backed m (log @ [MarkerClosed r u h])"
  by (auto simp: base_ok_def event_ok_def covers_def backed_def)

lemma covers_set:
  "covers m log \<Longrightarrow> open_at log url \<subseteq> {pk_headerValue e} \<Longrightarrow> covers (map_set url e m) log"
  by (auto simp: covers_def marker_in_def)

lemma covers_delete: "covers m log \<Longrightarrow> open_at log url = {} \<Longrightarrow> covers (map_delete url m) log"
  by (auto simp: covers_def marker_in_def)

lemma covers_open: "covers m log \<Longrightarrow> map_get m url = Some e \<Longrightarrow> open_at log url \<subseteq> {pk_headerValue e}"
  by (fastforce simp: covers_def marker_in_def)

lemma covers_open_None: "covers m log \<Longrightarrow> map_get m url = None \<Longrightarrow> open_at log url = {}"
  by (fastforce simp: covers_def marker_in_def)

lemma map_get_hd: "map_get ((k, v) # m) k = Some v"
  by (simp add: map_get_def)

lemma runs_trackMarker:
  assumes "fc_hasStore C" "fetch_ok w" "map_get (fw_pending w) url = None"
    and Q: "\<And>w'. fetch_ok w' \<Longrightarrow> map_get (fw_pending w') url = Some entry \<Longrightarrow> Q () w'"
    and E: "\<And>e w'. fetch_ok w' \<Longrightarrow> E e w'"
  shows "runs (trackMarker C url entry) w Q E"
proof -
  note ok = assms(2)[unfolded fetch_ok_def]
  have set_ok: "runs (catchA (fetchPersist C) (\<lambda>_. bindA (setMarkers (fw_pending w)) (\<lambda>_. throwA err)))
      (v\<lparr>fw_pending := map_set url entry (fw_pending v)\<rparr>) Q E"
    if "base_ok v" "covers (fw_pending v) (fw_log v)" "open_at (fw_log v) url = {}" "covers (fw_pending w) (fw_log v)"
      "backed (fw_pending w) (fw_log v)" "accounted (fw_pending w) (fw_pending v) (fw_log v)" for v err
    unfolding runs_catch
    by (rule runs_fetchPersist[of C _ "fw_pending w"])
      (use that assms(1,3) in \<open>auto intro!: covers_set Q E simp: base_ok_def accounted_def marker_in_def\<close>)
  have room: "open_at (fw_log w) url = {}" using covers_open_None assms(3) ok by blast
  show ?thesis
  proof (cases "map_get (fw_pending w) url = None \<and> int (length (fw_pending w)) \<ge> fc_maxTrackedUrls C \<and> fw_pending w \<noteq> []")
    case False
    then show ?thesis
      unfolding trackMarker_def
      using set_ok[of w] ok room assms(3) by (auto simp: evictOldest_def accounted_def split: list.split)
  next
    case True
    then obtain oldest e rest where m: "fw_pending w = (oldest, e) # rest" by (cases "fw_pending w") auto
    let ?v = "w\<lparr>fw_log := fw_log w @ [MarkerClosed MarkerEvicted oldest (pk_headerValue e)],
      fw_pending := map_delete oldest (fw_pending w)\<rparr>"
    have "open_at (fw_log w) oldest \<subseteq> {pk_headerValue e}"
      using covers_open[of "fw_pending w" "fw_log w" oldest e] ok by (simp add: m map_get_hd)
    then have "open_at (fw_log ?v) oldest = {}" by auto
    then have "covers (fw_pending ?v) (fw_log ?v)" using covers_delete[OF marker_closed_keeps(2)] ok by simp
    moreover have "accounted (fw_pending w) (fw_pending ?v) (fw_log ?v)"
      by (auto simp: accounted_def marker_in_def m map_get_hd)
    moreover have "base_ok ?v" using ok marker_closed_keeps(1)[of w] by (simp add: base_ok_def)
    ultimately show ?thesis
      unfolding trackMarker_def
      using set_ok[of ?v] True ok room marker_closed_keeps(2,3) by (auto simp: evictOldest_def m)
  qed
qed

lemma runs_drop_marker:
  assumes "fc_hasStore C" "fetch_ok w" "map_get (fw_pending w) url = Some entry" "pk_headerValue entry \<in> closed_at (fw_log w) url"
    and Q: "\<And>w'. fetch_ok w' \<Longrightarrow> map_get (fw_pending w') url = None \<Longrightarrow> Q () w'"
    and E: "\<And>e w'. fetch_ok (w'\<lparr>fw_pending := fw_pending w\<rparr>) \<Longrightarrow> E e w'"
  shows "runs (fetchPersist C) (w\<lparr>fw_pending := map_delete url (fw_pending w)\<rparr>) Q E"
proof -
  note ok = assms(2)[unfolded fetch_ok_def]
  have "open_at (fw_log w) url = {}"
    using covers_open[of "fw_pending w" "fw_log w" url entry] ok assms(3,4) by (auto simp: open_at_def)
  then show ?thesis
    using ok assms(1,3,4)
    by (intro runs_fetchPersist[of C _ "fw_pending w"])
      (auto intro!: covers_delete Q E simp: base_ok_def accounted_def marker_in_def)
qed

lemma runs_untrackMarker:
  assumes "fc_hasStore C" "fetch_ok w" "map_get (fw_pending w) url = Some entry" "pk_headerValue entry \<in> closed_at (fw_log w) url"
    and Q: "\<And>w'. fetch_ok w' \<Longrightarrow> map_get (fw_pending w') url = None \<Longrightarrow> Q () w'"
    and E: "\<And>e w'. fetch_ok w' \<Longrightarrow> E e w'"
  shows "runs (untrackMarker C url) w Q E"
  using runs_drop_marker[OF assms(1-4)] Q E by (simp add: untrackMarker_def)

lemma runs_clearDeliveredMarker:
  assumes "fc_hasStore C" "fetch_ok w" "map_get (fw_pending w) url = Some entry" "pk_headerValue entry \<in> closed_at (fw_log w) url"
    and Q: "\<And>w'. fetch_ok w' \<Longrightarrow> Q () w'"
  shows "runs (clearDeliveredMarker C url) w Q E"
  using runs_drop_marker[OF assms(1-4)] Q by (simp add: clearDeliveredMarker_def)

lemma runs_markUnresolved:
  assumes "fc_hasStore C" "fetch_ok w" "map_get (fw_pending w) url = Some entry"
    and Q: "\<And>w'. fetch_ok w' \<Longrightarrow> Q () w'"
  shows "runs (markUnresolved C url entry) w Q E"
proof -
  note ok = assms(2)[unfolded fetch_ok_def]
  have covered: "covers (map_set url (entry\<lparr>pk_unresolved := b\<rparr>) (fw_pending w)) (fw_log w)" for b
    using ok covers_open[of "fw_pending w" "fw_log w" url entry] assms(3) by (auto intro!: covers_set)
  have backing: "backed (map_set url (entry\<lparr>pk_unresolved := b\<rparr>) (fw_pending w)) (fw_log w)" for b
    using ok assms(3) by (auto simp: backed_def marker_in_def split: if_splits)
  show ?thesis
    unfolding markUnresolved_def
    using ok assms(1,3) covered backing
    by (auto intro!: runs_fetchPersist[of C _ "map_set url (entry\<lparr>pk_unresolved := False\<rparr>) (fw_pending w)"] Q
        simp: base_ok_def accounted_def marker_in_def)
qed

lemma sent_keeps:
  assumes "fetch_ok w" "map_get (fw_pending w) url = Some entry"
  shows "fetch_ok (w\<lparr>fw_log := fw_log w @ [SignatureSent url (pk_headerValue entry)]\<rparr>)"
proof -
  note ok = assms(1)[unfolded fetch_ok_def]
  have "open_at (fw_log w) url \<subseteq> {pk_headerValue entry}" "marker_in (fw_pending w) url (pk_headerValue entry)"
    using ok covers_open assms(2) by (blast, simp add: marker_in_def)
  then show ?thesis
    using ok by (auto simp: fetch_ok_def base_ok_def event_ok_def covers_def backed_def)
qed

lemma closing_keeps:
  "fetch_ok w \<Longrightarrow> fetch_ok (w\<lparr>fw_log := fw_log w @ [MarkerClosed r u h]\<rparr>)"
  using marker_closed_keeps unfolding fetch_ok_def by auto

lemma runs_deliver:
  assumes "fc_hasStore C" "fetch_ok w" "map_get (fw_pending w) url = Some entry"
  shows "runs (deliver C url entry retried budgetBefore ans) w (\<lambda>_. fetch_ok) (\<lambda>_. fetch_ok)"
  using assms sent_keeps[OF assms(2,3)] closing_keeps[OF sent_keeps[OF assms(2,3)], of DeliveryConfirmed url "pk_headerValue entry"]
  by (cases "fa_delivery ans")
    (auto simp: deliver_def Let_def closed_at_def intro!: runs_clearDeliveredMarker[of C _ url entry] runs_markUnresolved)

lemma runs_purchase:
  assumes "fc_hasStore C" "fetch_ok w" "map_get (fw_pending w) (fq_url p) = None"
  shows "runs (purchase C p ans) w (\<lambda>_. fetch_ok) (\<lambda>_. fetch_ok)"
  using assms
  by (auto simp: purchase_def Let_def split: sum.split prod.split intro!: runs_trackMarker[OF assms] runs_deliver)

lemma runs_discardMarker:
  assumes "fc_hasStore C" "fetch_ok w" "map_get (fw_pending w) url = Some entry"
    and Q: "\<And>w'. fetch_ok w' \<Longrightarrow> map_get (fw_pending w') url = None \<Longrightarrow> Q () w'"
    and E: "\<And>e w'. fetch_ok w' \<Longrightarrow> E e w'"
  shows "runs (discardMarker C reason url entry) w Q E"
  unfolding discardMarker_def
  by (simp, rule runs_untrackMarker[of C _ url entry]) (use assms closing_keeps in auto)

lemma runs_runFetch:
  assumes "fc_hasStore C" "fetch_ok w"
  shows "runs (runFetch C p ans) w (\<lambda>_. fetch_ok) (\<lambda>_. fetch_ok)"
proof (cases "map_get (fw_pending w) (fq_url p)")
  case None
  then show ?thesis using runs_purchase[OF assms None] by (simp add: runFetch_def)
next
  case (Some entry)
  have again: "runs (bindA (discardMarker C reason (fq_url p) entry) (\<lambda>_. purchase C p ans)) w (\<lambda>_. fetch_ok) (\<lambda>_. fetch_ok)" for reason
    using runs_discardMarker[OF assms Some] runs_purchase[OF assms(1)] by simp
  show ?thesis
    using Some again runs_deliver[OF assms Some] assms(2)
    by (auto simp: runFetch_def simp del: runs_bind split: sum.split PaymentOutcomeProbe.split) (auto split: sum.split PaymentOutcomeProbe.split)
qed

section \<open>What a call closes\<close>

text \<open>
  The reason a call that starts in \<open>v\<close> has for closing a payment, after the events
  \<open>pre\<close> of this call. A payment is delivered when this call handed it over and the seller answered
  200. It is discarded when its marker is stale, and the caller forces a new payment or the status
  probe of this call says that it has not settled. It is evicted when it is the oldest of a
  full table.
\<close>

definition stale_marker :: "fetch_config \<Rightarrow> fetch_world \<Rightarrow> fetch_answers \<Rightarrow> string \<Rightarrow> string \<Rightarrow> bool" where
  "stale_marker C v ans url h \<longleftrightarrow> (\<exists>e. map_get (fw_pending v) url = Some e \<and> pk_headerValue e = h
     \<and> (pk_unresolved e \<or> fa_nowMs ans - pk_challengeAtMs e > fc_pendingTtlMs C))"

definition closing_ok ::
  "fetch_config \<Rightarrow> fetch_world \<Rightarrow> fetch_params \<Rightarrow> fetch_answers \<Rightarrow> fetch_event list
    \<Rightarrow> marker_closing \<Rightarrow> string \<Rightarrow> string \<Rightarrow> bool" where
  "closing_ok C v p ans pre reason url h = (case reason of
       DeliveryConfirmed \<Rightarrow> url = fq_url p \<and> SignatureSent url h \<in> set pre
         \<and> (\<exists>r. fa_delivery ans = Inr r \<and> fr_status r = 200)
     | ForcedAway \<Rightarrow> url = fq_url p \<and> stale_marker C v ans url h \<and> fq_forceNewPayment p = Some True
     | KnownUnsettled \<Rightarrow> url = fq_url p \<and> stale_marker C v ans url h \<and> fa_probe ans = Inr ProbeNotSettled
     | MarkerEvicted \<Rightarrow> (\<exists>e rest. map_delete (fq_url p) (fw_pending v) = (url, e) # rest \<and> pk_headerValue e = h
         \<and> int (length rest) + 1 \<ge> fc_maxTrackedUrls C))"

definition closings_ok ::
  "fetch_config \<Rightarrow> fetch_world \<Rightarrow> fetch_params \<Rightarrow> fetch_answers \<Rightarrow> fetch_event list \<Rightarrow> bool" where
  "closings_ok C v p ans events \<longleftrightarrow> (\<forall>pre reason url h post. events = pre @ MarkerClosed reason url h # post \<longrightarrow>
     closing_ok C v p ans pre reason url h)"

lemma split_around:
  "xs @ ys = pre @ e # post \<longleftrightarrow>
     (\<exists>tail. xs = pre @ e # tail \<and> post = tail @ ys) \<or> (\<exists>tail. pre = xs @ tail \<and> ys = tail @ e # post)"
  by (auto simp: append_eq_append_conv2 append_eq_Cons_conv Cons_eq_append_conv)

lemma closings_prefix: "closings_ok C v p ans (events @ tail) \<Longrightarrow> closings_ok C v p ans events"
  by (simp add: closings_ok_def)

lemma closings_simps [simp]:
  "closings_ok C v p ans []"
  "closings_ok C v p ans (events @ [MarkersSaved m]) \<longleftrightarrow> closings_ok C v p ans events"
  "closings_ok C v p ans (events @ [SignatureSent u x]) \<longleftrightarrow> closings_ok C v p ans events"
  "closings_ok C v p ans (events @ [MarkerClosed reason u x]) \<longleftrightarrow>
     closings_ok C v p ans events \<and> closing_ok C v p ans events reason u x"
  by (auto simp: closings_ok_def split_around Cons_eq_append_conv)

text \<open>The log of a call that started in \<open>v\<close>.\<close>

definition in_call :: "fetch_config \<Rightarrow> fetch_world \<Rightarrow> fetch_params \<Rightarrow> fetch_answers \<Rightarrow> fetch_world \<Rightarrow> bool" where
  "in_call C v p ans w \<longleftrightarrow> (\<exists>events. fw_log w = fw_log v @ events \<and> closings_ok C v p ans events)"

lemma in_call_simps [simp]:
  "in_call C v p ans v"
  "in_call C v p ans (w\<lparr>fw_pending := m\<rparr>) \<longleftrightarrow> in_call C v p ans w"
  "in_call C v p ans (w\<lparr>fw_saves := n\<rparr>) \<longleftrightarrow> in_call C v p ans w"
  by (simp_all add: in_call_def)

lemma in_call_snoc:
  assumes "in_call C v p ans w" "fw_log w' = fw_log w @ [e]"
    and "\<And>events. fw_log w = fw_log v @ events \<Longrightarrow> closings_ok C v p ans events \<Longrightarrow> closings_ok C v p ans (events @ [e])"
  shows "in_call C v p ans w'"
proof -
  obtain events where "fw_log w = fw_log v @ events" "closings_ok C v p ans events"
    using assms(1) by (auto simp: in_call_def)
  then show ?thesis
    unfolding in_call_def using assms(2,3) by (intro exI[of _ "events @ [e]"]) simp
qed

lemma in_call_saved:
  "in_call C v p ans w \<Longrightarrow> in_call C v p ans (w\<lparr>fw_saves := n, fw_disk := d, fw_log := fw_log w @ [MarkersSaved m]\<rparr>)"
  by (rule in_call_snoc[where e = "MarkersSaved m"]) simp_all

lemma in_call_sent: "in_call C v p ans w \<Longrightarrow> in_call C v p ans (w\<lparr>fw_log := fw_log w @ [SignatureSent u x]\<rparr>)"
  by (rule in_call_snoc[where e = "SignatureSent u x"]) simp_all

lemma in_call_closed:
  assumes "in_call C v p ans w" "\<And>events. fw_log w = fw_log v @ events \<Longrightarrow> closing_ok C v p ans events reason u x"
  shows "in_call C v p ans (w\<lparr>fw_log := fw_log w @ [MarkerClosed reason u x]\<rparr>)"
  by (rule in_call_snoc[OF assms(1)]) (use assms(2) in auto)

lemma in_call_delivered:
  assumes "in_call C v p ans w" "fa_delivery ans = Inr r" "fr_status r = 200"
  shows "in_call C v p ans (w\<lparr>fw_log := fw_log w @ [SignatureSent (fq_url p) x, MarkerClosed DeliveryConfirmed (fq_url p) x]\<rparr>)"
proof -
  obtain events where "fw_log w = fw_log v @ events" "closings_ok C v p ans events"
    using assms(1) by (auto simp: in_call_def)
  moreover from this have "closings_ok C v p ans
      ((events @ [SignatureSent (fq_url p) x]) @ [MarkerClosed DeliveryConfirmed (fq_url p) x])"
    unfolding closings_simps using assms(2,3) by (simp add: closing_ok_def)
  ultimately show ?thesis by (simp add: in_call_def)
qed

lemma runs_persist_call:
  assumes "in_call C v p ans w"
    and "\<And>w'. in_call C v p ans w' \<Longrightarrow> fw_pending w' = fw_pending w \<Longrightarrow> Q () w'"
    and "\<And>e w'. in_call C v p ans w' \<Longrightarrow> E e w'"
  shows "runs (fetchPersist C) w Q E"
  using assms in_call_saved[OF assms(1)] by (auto simp: fetchPersist_def)

lemma trackMarker_call:
  assumes "in_call C v p ans w" "fw_pending w = map_delete (fq_url p) (fw_pending v)"
    and "\<And>w'. in_call C v p ans w' \<Longrightarrow> Q () w'" "\<And>e w'. in_call C v p ans w' \<Longrightarrow> E e w'"
  shows "runs (trackMarker C (fq_url p) entry) w Q E"
proof -
  have evict: "in_call C v p ans (w\<lparr>fw_log := fw_log w @ [MarkerClosed MarkerEvicted u (pk_headerValue e)]\<rparr>)"
    if "fw_pending w = (u, e) # rest" "int (length (fw_pending w)) \<ge> fc_maxTrackedUrls C" for u e rest
    by (rule in_call_closed[OF assms(1)]) (use that assms(2) in \<open>simp add: closing_ok_def\<close>)
  then show ?thesis
    unfolding trackMarker_def evictOldest_def
    using assms by (auto split: list.split intro!: runs_persist_call)
qed

lemma drop_marker_call:
  assumes "in_call C v p ans w"
    and "\<And>w'. in_call C v p ans w' \<Longrightarrow> fw_pending w' = map_delete url (fw_pending w) \<Longrightarrow> Q () w'"
    and "\<And>e w'. in_call C v p ans w' \<Longrightarrow> E e w'"
  shows "runs (untrackMarker C url) w Q E"
  unfolding untrackMarker_def using assms by (auto intro!: runs_persist_call)

lemma deliver_call:
  assumes "in_call C v p ans w"
  shows "runs (deliver C (fq_url p) entry retried budgetBefore ans) w
    (\<lambda>_. in_call C v p ans) (\<lambda>_. in_call C v p ans)"
  unfolding deliver_def clearDeliveredMarker_def markUnresolved_def
  using in_call_sent[OF assms] in_call_delivered[OF assms]
  by (auto simp: Let_def split: sum.split intro!: runs_persist_call)

lemma purchase_call:
  assumes "in_call C v p ans w" "fw_pending w = map_delete (fq_url p) (fw_pending v)"
  shows "runs (purchase C p ans) w (\<lambda>_. in_call C v p ans) (\<lambda>_. in_call C v p ans)"
  using assms
  by (auto simp: purchase_def Let_def split: sum.split prod.split intro!: trackMarker_call deliver_call)

lemma discard_call:
  assumes "in_call C v p ans w" "\<And>pre. closing_ok C v p ans pre reason url (pk_headerValue entry)"
    and "\<And>w'. in_call C v p ans w' \<Longrightarrow> fw_pending w' = map_delete url (fw_pending w) \<Longrightarrow> Q () w'"
    and "\<And>e w'. in_call C v p ans w' \<Longrightarrow> E e w'"
  shows "runs (discardMarker C reason url entry) w Q E"
  unfolding discardMarker_def
  using in_call_closed[OF assms(1,2)] assms(3,4) by (auto intro!: drop_marker_call)

lemma runFetch_call: "runs (runFetch C p ans) v (\<lambda>_. in_call C v p ans) (\<lambda>_. in_call C v p ans)"
proof (cases "map_get (fw_pending v) (fq_url p)")
  case None
  then have "map_delete (fq_url p) (fw_pending v) = fw_pending v"
    by (simp add: map_get_def map_delete_def map_of_eq_None_iff)
  then show ?thesis using None purchase_call[of C v p ans v] by (simp add: runFetch_def)
next
  case (Some entry)
  have again: "runs (discardMarker C reason (fq_url p) entry) v
      (\<lambda>_ t. runs (purchase C p ans) t (\<lambda>_. in_call C v p ans) (\<lambda>_. in_call C v p ans)) (\<lambda>_. in_call C v p ans)"
    if "\<And>pre. closing_ok C v p ans pre reason (fq_url p) (pk_headerValue entry)" for reason
    by (rule discard_call) (use that in \<open>auto intro: purchase_call\<close>)
  show ?thesis
    using Some by (auto simp: runFetch_def closing_ok_def stale_marker_def
        intro!: again deliver_call split: sum.split PaymentOutcomeProbe.split)
qed

section \<open>Calls and crashes\<close>

text \<open>
  A process starts with an empty store, makes calls one after another, and may crash after any
  effect of a call: the log then ends there, and a new process loads what is on disk. The history
  keeps each call: where it started, its arguments, the answers it got, and the effects it had.
\<close>

record fetch_call =
  fk_world :: fetch_world
  fk_params :: fetch_params
  fk_answers :: fetch_answers
  fk_events :: "fetch_event list"

inductive fetch_history :: "fetch_config \<Rightarrow> fetch_call list \<Rightarrow> fetch_world \<Rightarrow> bool" for C where
  started: "fetch_history C [] \<lparr>fw_pending = [], fw_disk = [], fw_faults = faults, fw_saves = 0, fw_log = []\<rparr>"
| called: "fetch_history C calls w \<Longrightarrow> fw_log (snd (runFetch C p ans w)) = fw_log w @ seen \<Longrightarrow>
    fetch_history C (calls @ [\<lparr>fk_world = w, fk_params = p, fk_answers = ans, fk_events = seen\<rparr>])
      (snd (runFetch C p ans w))"
| crashed: "fetch_history C calls w \<Longrightarrow> fw_log (snd (runFetch C p ans w)) = fw_log w @ seen @ lost \<Longrightarrow>
    fetch_history C (calls @ [\<lparr>fk_world = w, fk_params = p, fk_answers = ans, fk_events = seen\<rparr>])
      \<lparr>fw_pending = loadMarkers (disk_of (fw_log w @ seen)), fw_disk = disk_of (fw_log w @ seen),
        fw_faults = faults, fw_saves = 0, fw_log = fw_log w @ seen\<rparr>"

text \<open>A call of the history that closed a payment before the log reached \<open>before\<close>, with its reason.\<close>

definition closed_by ::
  "fetch_config \<Rightarrow> fetch_call \<Rightarrow> fetch_event list \<Rightarrow> string \<Rightarrow> string \<Rightarrow> bool" where
  "closed_by C c before url h \<longleftrightarrow> (\<exists>pre reason post rest. fk_events c = pre @ MarkerClosed reason url h # post
     \<and> before = fw_log (fk_world c) @ pre @ MarkerClosed reason url h # rest
     \<and> closing_ok C (fk_world c) (fk_params c) (fk_answers c) pre reason url h)"

lemma call_events:
  "fw_log (snd (runFetch C p ans w)) = fw_log w @ events \<Longrightarrow> closings_ok C w p ans events"
  using runFetch_call[of C p ans w] by (auto simp: runs_snd in_call_def)

lemma closed_by_later: "closed_by C c before url h \<Longrightarrow> closed_by C c (before @ later) url h"
  unfolding closed_by_def by fastforce

definition closings_known :: "fetch_config \<Rightarrow> fetch_call list \<Rightarrow> fetch_event list \<Rightarrow> bool" where
  "closings_known C calls log \<longleftrightarrow> (\<forall>pre reason url h post. log = pre @ MarkerClosed reason url h # post \<longrightarrow>
     (\<exists>c \<in> set calls. closed_by C c (pre @ [MarkerClosed reason url h]) url h))"

lemma history_called:
  assumes "fetch_history C calls w"
  shows "\<exists>calls'. fetch_history C calls' (snd (runFetch C p ans w))"
  using called[OF assms] runFetch_call[of C p ans w] by (auto simp: runs_snd in_call_def)

lemma closings_known_call:
  assumes "closings_known C calls (fw_log w)" "closings_ok C w p ans seen"
  shows "closings_known C (calls @ [\<lparr>fk_world = w, fk_params = p, fk_answers = ans, fk_events = seen\<rparr>]) (fw_log w @ seen)"
  unfolding closings_known_def split_around
proof (intro allI impI, elim disjE exE conjE)
  fix pre reason url h post tail
  assume "fw_log w = pre @ MarkerClosed reason url h # tail"
  then have "\<exists>c \<in> set calls. closed_by C c (pre @ [MarkerClosed reason url h]) url h"
    using assms(1) unfolding closings_known_def by blast
  then show "\<exists>c \<in> set (calls @ [\<lparr>fk_world = w, fk_params = p, fk_answers = ans, fk_events = seen\<rparr>]).
      closed_by C c (pre @ [MarkerClosed reason url h]) url h" by auto
next
  fix pre reason url h post tail
  assume "pre = fw_log w @ tail" "seen = tail @ MarkerClosed reason url h # post"
  moreover from this have "closing_ok C w p ans tail reason url h"
    using assms(2) unfolding closings_ok_def by blast
  ultimately have "closed_by C \<lparr>fk_world = w, fk_params = p, fk_answers = ans, fk_events = seen\<rparr>
      (pre @ [MarkerClosed reason url h]) url h"
    unfolding closed_by_def by fastforce
  then show "\<exists>c \<in> set (calls @ [\<lparr>fk_world = w, fk_params = p, fk_answers = ans, fk_events = seen\<rparr>]).
      closed_by C c (pre @ [MarkerClosed reason url h]) url h" by auto
qed

lemma history_closings: "fetch_history C calls w \<Longrightarrow> closings_known C calls (fw_log w)"
proof (induction rule: fetch_history.induct)
  case (called calls w p ans seen)
  then show ?case using closings_known_call[OF called.IH call_events[OF called.hyps(2)]] by simp
next
  case (crashed calls w p ans seen lost faults)
  have "closings_ok C w p ans seen"
    using call_events[of C p ans w "seen @ lost"] crashed.hyps(2) closings_prefix by blast
  then show ?case using closings_known_call[OF crashed.IH] by simp
qed (simp add: closings_known_def)

lemma closed_by_log:
  assumes "closings_known C calls (before @ after)" "MarkerClosed reason url h \<in> set before"
  shows "\<exists>c \<in> set calls. closed_by C c before url h"
proof -
  obtain pre post where before: "before = pre @ MarkerClosed reason url h # post"
    using assms(2) by (auto simp: in_set_conv_decomp)
  then have "before @ after = pre @ MarkerClosed reason url h # post @ after" by simp
  then obtain c where c: "c \<in> set calls" "closed_by C c (pre @ [MarkerClosed reason url h]) url h"
    using assms(1) unfolding closings_known_def by blast
  from c(2) have "closed_by C c ((pre @ [MarkerClosed reason url h]) @ post) url h"
    by (rule closed_by_later)
  then show ?thesis using c(1) before by auto
qed

lemma map_get_Cons: "map_get ((k, v) # m) k' = (if k' = k then Some v else map_get m k')"
  by (simp add: map_get_def)

lemma load_get:
  "map_ok records \<Longrightarrow> map_get (foldl (\<lambda>m (url, entry). map_set url entry m) m0 records) url
     = (case map_get records url of None \<Rightarrow> map_get m0 url | Some e \<Rightarrow> Some e)"
proof (induction records arbitrary: m0)
  case (Cons r records)
  obtain u e where r: "r = (u, e)" by (cases r)
  have rest: "map_ok records" "map_get records u = None"
    using Cons.prems by (auto simp: r map_ok_def map_get_def map_of_eq_None_iff)
  show ?case
    using Cons.IH[OF rest(1), of "map_set u e m0"] rest(2) by (auto simp: r map_get_Cons split: option.split)
qed simp

lemma load_ok: "map_ok (loadMarkers records)"
proof -
  have "map_ok m0 \<Longrightarrow> map_ok (foldl (\<lambda>m (url, entry). map_set url entry m) m0 records)" for m0 :: markers
    by (induction records arbitrary: m0) auto
  then show ?thesis by (simp add: loadMarkers_def)
qed

lemma load_marker: "map_ok m \<Longrightarrow> marker_in (loadMarkers m) url h \<longleftrightarrow> marker_in m url h"
  by (simp add: marker_in_def loadMarkers_def load_get split: option.split)

lemma restart_ok:
  assumes "safe_log log"
  shows "fetch_ok \<lparr>fw_pending = loadMarkers (disk_of log), fw_disk = disk_of log, fw_faults = faults, fw_saves = n, fw_log = log\<rparr>"
  using safe_log_on_disk[OF assms] assms
  by (auto simp: fetch_ok_def base_ok_def covers_def backed_def load_ok load_marker)

lemma runFetch_ok: "fc_hasStore C \<Longrightarrow> fetch_ok w \<Longrightarrow> fetch_ok (snd (runFetch C p ans w))"
  using runs_runFetch[of C w p ans] by (auto simp: runs_def split: prod.splits sum.splits)

lemma fetch_history_ok: "fetch_history C calls w \<Longrightarrow> fc_hasStore C \<Longrightarrow> fetch_ok w"
proof (induction rule: fetch_history.induct)
  case (started faults)
  show ?case using restart_ok[OF safe_Nil, of faults 0] by (simp add: loadMarkers_def disk_of_def)
next
  case (called calls w p ans seen)
  then show ?case by (simp add: runFetch_ok)
next
  case (crashed calls w p ans seen lost faults)
  then have "safe_log ((fw_log w @ seen) @ lost)"
    using runFetch_ok[of C w p ans] by (simp add: fetch_ok_def base_ok_def)
  then show ?case by (intro restart_ok) (rule safe_log_prefix)
qed

text \<open>
  C18: over any sequence of calls, failing writes and crashes, a new payment of a URL is handed to the seller
  only after every other payment of this URL handed over before has been closed by an earlier part
  of the history. The call that closed it handed it over and got the answer 200, or found its
  marker stale and either was told to force a new payment or was told by its status probe
  that the payment has not settled, or evicted it as the oldest of a full table. And a payment that
  no call has closed is on disk before the seller gets it.
\<close>

theorem no_second_payment_while_one_is_open:
  assumes "fetch_history C calls w" "fc_hasStore C" "fw_log w = before @ SignatureSent url h # after"
  shows "(SignatureSent url h' \<in> set before \<longrightarrow> h' = h \<or> (\<exists>c \<in> set calls. closed_by C c before url h'))
    \<and> ((\<exists>c \<in> set calls. closed_by C c before url h) \<or> marker_in (disk_of before) url h)"
proof -
  have "safe_log ((before @ [SignatureSent url h]) @ after)"
    using fetch_history_ok[OF assms(1,2)] assms(3) by (simp add: fetch_ok_def base_ok_def)
  then have "event_ok before (SignatureSent url h)" using safe_log_prefix by fastforce
  moreover have "closed_at before url \<subseteq> {x. \<exists>c \<in> set calls. closed_by C c before url x}"
    using closed_by_log history_closings[OF assms(1)] unfolding assms(3) closed_at_def by blast
  ultimately show ?thesis by (fastforce simp: event_ok_def open_at_def)
qed

section \<open>A forced second payment\<close>

definition lost_requirement :: json where
  "lost_requirement = JObject
     [(''scheme'', Some (JString PAYMENT_SCHEME)), (''network'', Some (JString ''net'')),
      (''asset'', Some (JString (replicate 32 CHR ''a''))), (''amountRawUsdc'', Some (JString ''5'')),
      (''resource'', Some (JString ''u'')), (''payTo'', Some (JString (replicate 32 CHR ''p''))),
      (''maxTimeoutSeconds'', Some (JNumber 60)),
      (''extra'', Some (JObject
         [(''sellerRequestId'', Some (JString ''r'')), (''seller'', Some (JString (replicate 32 CHR ''p''))),
          (''sellerUsdcAta'', Some (JString (replicate 32 CHR ''t''))), (''vault'', Some (JString (replicate 32 CHR ''v''))),
          (''shareMint'', Some (JString (replicate 32 CHR ''s'')))]))]"

definition lost_config :: fetch_config where
  "lost_config = \<lparr>xh_parse = (\<lambda>_. Some (JObject [(''x402Version'', Some (JNumber 2)), (''accepts'', Some (JArray [lost_requirement]))])),
     xh_sha = (\<lambda>s. s), sh_stringify = (\<lambda>_. []), sh_isUrl = (\<lambda>_. True), fc_defaultMaxAmountRawUsdc = 10,
     fc_pendingTtlMs = 110000, fc_maxTrackedUrls = 1000, fc_maxBodyChars = 20000, fc_hasStore = True\<rparr>"

definition refusal :: FetchResponse where
  "refusal = \<lparr>fr_status = 402, fr_headers = (\<lambda>h. if h = PAYMENT_REQUIRED_HEADER then Some ''AA=='' else None), fr_text = [], fr_json = None\<rparr>"

definition lost_answers :: "string \<Rightarrow> fetch_answers" where
  "lost_answers header = \<lparr>fa_nowMs = 0, fa_challengeAtMs = 0, fa_first = Inr refusal, fa_build = (\<lambda>_. Inr (header, ''p'')),
     fa_delivery = Inr refusal, fa_probe = Inr ProbeIndeterminate, fa_budgetBefore = None, fa_budgetAfter = None\<rparr>"

definition lost_marker :: "string \<Rightarrow> bool \<Rightarrow> PendingMarker" where
  "lost_marker header unresolved = \<lparr>pk_headerValue = header, pk_paymentId = ''p'', pk_amountUsdc = ''0.000005'',
     pk_payTo = replicate 32 CHR ''p'', pk_challengeAtMs = 0, pk_unresolved = unresolved\<rparr>"

definition lost_world :: fetch_world where
  "lost_world = (let call = (\<lambda>force header. runFetch lost_config \<lparr>fq_url = ''u'', fq_maxAmountRawUsdc = None,
       fq_forceNewPayment = force\<rparr> (lost_answers header)) in
     snd (call (Some True) ''h2'' (snd (call None ''h1''
       \<lparr>fw_pending = [], fw_disk = [], fw_faults = (\<lambda>_. SaveDone), fw_saves = 0, fw_log = []\<rparr>))))"

lemma lost_world_log:
  "fw_log lost_world =
     [MarkersSaved [(''u'', lost_marker ''h1'' False)], SignatureSent ''u'' ''h1'', MarkersSaved [(''u'', lost_marker ''h1'' True)],
      MarkerClosed ForcedAway ''u'' ''h1'', MarkersSaved [], MarkersSaved [(''u'', lost_marker ''h2'' False)]]
     @ SignatureSent ''u'' ''h2'' # [MarkersSaved [(''u'', lost_marker ''h2'' True)]]"
  by code_simp

lemma lost_history: "\<exists>calls. fetch_history lost_config calls lost_world"
  using history_called[OF started] history_called unfolding lost_world_def Let_def by metis

theorem no_second_payment_while_one_is_open_witness:
  "\<exists>calls. fetch_history lost_config calls lost_world
     \<and> (\<exists>c \<in> set calls. closed_by lost_config c (take 6 (fw_log lost_world)) ''u'' ''h1'')"
proof -
  obtain calls where calls: "fetch_history lost_config calls lost_world" using lost_history by blast
  from no_second_payment_while_one_is_open[OF calls _ lost_world_log, of "''h1''"] calls
  show ?thesis by (auto simp: lost_config_def lost_world_log)
qed

end
