(* ===== verification/Settlement_Builder.thy ===== *)
theory Settlement_Builder
  imports Vault_Core Intent_Grammar
begin

text \<open>
  The builder of the canonical settlement transaction, \<open>src/src/domain/kamino-transaction-builder.ts\<close>,
  with the withdraw instructions of \<open>src/src/kamino/vault-adapter.ts\<close>. The constructors of single
  instructions, the addresses the Kamino SDK derives and the compiler of a transaction belong to
  packages and are fields of a record; an instruction is what the agent's validator decodes. The
  answers of the node are inputs.
\<close>

section \<open>Packages\<close>

record WithdrawAccounts =
  wf_user :: string
  wf_vaultState :: string
  wf_globalConfig :: string
  wf_tokenVault :: string
  wf_baseVaultAuthority :: string
  wf_userTokenAta :: string
  wf_tokenMint :: string
  wf_userSharesAta :: string
  wf_sharesMint :: string
  wf_tokenProgram :: string
  wf_eventAuthority :: string

record ReserveState =
  ra_lendingMarket :: string
  ra_supplyVault :: string
  ra_collateralMint :: string

record ReserveAccounts =
  rw_vaultState :: string
  rw_reserve :: string
  rw_ctokenVault :: string
  rw_lendingMarket :: string
  rw_lendingMarketAuthority :: string
  rw_reserveLiquiditySupply :: string
  rw_reserveCollateralMint :: string

text \<open>What the adapter loads of the vault beside the numbers.\<close>

record SettlementContext = VaultContext +
  xs_tokenVault :: string
  xs_baseVaultAuthority :: string
  xs_tokenMint :: string
  xs_sharesMint :: string
  xs_tokenProgram :: string
  xs_allocations :: "string list"
  xs_reserves :: "string \<Rightarrow> ReserveState option"

record SettlementShares = UserSharesRaw +
  xu_sharesAtaExists :: bool

record settlement_sdk =
  sk_setComputeUnitLimit :: "int \<Rightarrow> DecodedInstruction"
  sk_setComputeUnitPrice :: "int \<Rightarrow> DecodedInstruction"
  sk_createAccount :: "string \<Rightarrow> string \<Rightarrow> int \<Rightarrow> int \<Rightarrow> string \<Rightarrow> DecodedInstruction"
  sk_initializeAccount3 :: "string \<Rightarrow> string \<Rightarrow> string \<Rightarrow> DecodedInstruction"
  sk_transferChecked :: "string \<Rightarrow> string \<Rightarrow> string \<Rightarrow> string \<Rightarrow> int \<Rightarrow> int \<Rightarrow> DecodedInstruction"
  sk_closeAccount :: "string \<Rightarrow> string \<Rightarrow> string \<Rightarrow> DecodedInstruction"
  sk_addMemo :: "string \<Rightarrow> DecodedInstruction"
  sk_unstakePlan :: "SettlementContext \<Rightarrow> string \<Rightarrow> int \<Rightarrow> DecodedInstruction list result"
  sk_withdrawFromAvailable :: "int \<Rightarrow> WithdrawAccounts \<Rightarrow> DecodedInstruction"
  sk_withdraw :: "int \<Rightarrow> WithdrawAccounts \<Rightarrow> ReserveAccounts \<Rightarrow> DecodedInstruction"
  sk_appendReserves :: "SettlementContext \<Rightarrow> DecodedInstruction \<Rightarrow> DecodedInstruction"
  sk_globalConfig :: string
  sk_eventAuthority :: string
  sk_sharesAta :: "string \<Rightarrow> string \<Rightarrow> string"
  sk_ctokenVault :: "string \<Rightarrow> string \<Rightarrow> string"
  sk_marketAuthority :: "string \<Rightarrow> string"

section \<open>The withdraw instructions\<close>

definition DEFAULT_PUBLIC_KEY :: string where "DEFAULT_PUBLIC_KEY = ''11111111111111111111111111111111''"

definition hasAllocatedReserves :: "SettlementContext \<Rightarrow> bool" where
  "hasAllocatedReserves c \<longleftrightarrow> list_ex (\<lambda>reserve. reserve \<noteq> DEFAULT_PUBLIC_KEY) (xs_allocations c)"

definition vaultErr :: "string \<Rightarrow> vault_error + 'a" where
  "vaultErr message = Inl (VaultError (JsError message))"

definition bindV :: "vault_error + 'a \<Rightarrow> ('a \<Rightarrow> vault_error + 'b) \<Rightarrow> vault_error + 'b" where
  "bindV r f = (case r of Inl e \<Rightarrow> Inl e | Inr x \<Rightarrow> f x)"

definition withdrawAccounts :: "settlement_sdk \<Rightarrow> string \<Rightarrow> SettlementContext \<Rightarrow> string \<Rightarrow> string \<Rightarrow> WithdrawAccounts" where
  "withdrawAccounts K vaultAddress c wallet settlementTokenAccount =
     \<lparr>wf_user = wallet, wf_vaultState = vaultAddress, wf_globalConfig = sk_globalConfig K,
      wf_tokenVault = xs_tokenVault c, wf_baseVaultAuthority = xs_baseVaultAuthority c,
      wf_userTokenAta = settlementTokenAccount, wf_tokenMint = xs_tokenMint c,
      wf_userSharesAta = sk_sharesAta K (xs_sharesMint c) wallet, wf_sharesMint = xs_sharesMint c,
      wf_tokenProgram = xs_tokenProgram c, wf_eventAuthority = sk_eventAuthority K\<rparr>"

definition unstakeInstructions ::
  "settlement_sdk \<Rightarrow> SettlementContext \<Rightarrow> SettlementShares \<Rightarrow> string \<Rightarrow> int \<Rightarrow> vault_error + DecodedInstruction list" where
  "unstakeInstructions K c userShares wallet shares =
     (if \<not> shares > us_unstakedSharesRaw userShares then Inr []
      else case sk_unstakePlan K c wallet shares of
          Inl e \<Rightarrow> Inl (VaultError e)
        | Inr plan \<Rightarrow>
            let unstakeIxs = filter (\<lambda>ix. ix_programAddress ix \<noteq> ASSOCIATED_TOKEN_PROGRAM_ID) plan in
            if unstakeIxs = [] then vaultErr ''Vault farm unstake instructions are required but could not be built''
            else Inr unstakeIxs)"

definition withdrawInstruction ::
  "settlement_sdk \<Rightarrow> string \<Rightarrow> SettlementContext \<Rightarrow> WithdrawAccounts \<Rightarrow> int \<Rightarrow> int \<Rightarrow> vault_error + DecodedInstruction" where
  "withdrawInstruction K vaultAddress c accounts sharesAmount grossWithdrawRawUsdc =
     (if grossWithdrawRawUsdc \<le> vx_tokenAvailableRaw c \<or> vx_bestReserve c = None then
        (if grossWithdrawRawUsdc > vx_tokenAvailableRaw c then Inl VaultLiquidityError
         else Inr (sk_withdrawFromAvailable K sharesAmount accounts))
      else
        let reserveAddress = the (vx_bestReserve c) in
        (case xs_reserves c reserveAddress of
           None \<Rightarrow> vaultErr ''Reserve missing from vault reserves map''
         | Some reserve \<Rightarrow> Inr (sk_withdraw K sharesAmount accounts
             \<lparr>rw_vaultState = vaultAddress, rw_reserve = reserveAddress,
              rw_ctokenVault = sk_ctokenVault K vaultAddress reserveAddress,
              rw_lendingMarket = ra_lendingMarket reserve,
              rw_lendingMarketAuthority = sk_marketAuthority K (ra_lendingMarket reserve),
              rw_reserveLiquiditySupply = ra_supplyVault reserve,
              rw_reserveCollateralMint = ra_collateralMint reserve\<rparr>)))"

definition buildSettlementWithdrawInstructions ::
  "settlement_sdk \<Rightarrow> string \<Rightarrow> SettlementContext \<Rightarrow> SettlementShares \<Rightarrow> string \<Rightarrow> string \<Rightarrow> int \<Rightarrow> int
    \<Rightarrow> vault_error + (DecodedInstruction list \<times> DecodedInstruction)" where
  "buildSettlementWithdrawInstructions K vaultAddress c userShares wallet settlementTokenAccount shares grossWithdrawRawUsdc =
     (if shares \<le> 0 then vaultErr ''sharesToRedeemRaw must be positive''
      else if shares > us_totalSharesRaw userShares then Inl VaultLiquidityError
      else if \<not> xu_sharesAtaExists userShares then vaultErr ''agent vault share ATA does not exist''
      else
        bindV (unstakeInstructions K c userShares wallet shares) (\<lambda>unstakeIxs.
        bindV (withdrawInstruction K vaultAddress c (withdrawAccounts K vaultAddress c wallet settlementTokenAccount)
          shares grossWithdrawRawUsdc) (\<lambda>withdrawIx.
        Inr (unstakeIxs, if hasAllocatedReserves c then sk_appendReserves K c withdrawIx else withdrawIx))))"

section \<open>The node\<close>

record SimulatedAccount =
  za_lamports :: int
  za_owner :: string
  za_data :: "byte list"

record SimulationAnswer =
  zs_err :: json
  zs_accounts :: "SimulatedAccount option list"

definition accountAt :: "SimulationAnswer \<Rightarrow> nat \<Rightarrow> SimulatedAccount option" where
  "accountAt answer index = Option.bind (js_at (zs_accounts answer) index) id"

text \<open>The amount of a token account stands at byte 64 of its data.\<close>

definition tokenAmount :: "SimulatedAccount option \<Rightarrow> int option" where
  "tokenAmount account = (case account of
       None \<Rightarrow> None
     | Some a \<Rightarrow> if za_owner a = SPL_TOKEN_PROGRAM_ID \<and> length (za_data a) \<ge> 72
         then Some (littleEndianToBigInt (take 8 (drop 64 (za_data a)))) else None)"

definition accountExists :: "SimulatedAccount option \<Rightarrow> bool" where
  "accountExists account = (case account of None \<Rightarrow> False | Some a \<Rightarrow> za_lamports a > 0)"

text \<open>Maps over the watched accounts: a later entry of the same address wins.\<close>

definition tokenAmounts :: "SimulationAnswer \<Rightarrow> string list \<Rightarrow> string \<Rightarrow> int option" where
  "tokenAmounts answer watched = foldl (\<lambda>m (index, address). case tokenAmount (accountAt answer index) of
       None \<Rightarrow> m | Some amount \<Rightarrow> m(address \<mapsto> amount)) Map.empty (enumerate 0 watched)"

definition accountsExisting :: "SimulationAnswer \<Rightarrow> string list \<Rightarrow> string \<Rightarrow> bool option" where
  "accountsExisting answer watched = foldl (\<lambda>m (index, address). m(address \<mapsto> accountExists (accountAt answer index)))
     Map.empty (enumerate 0 watched)"

record settlement_node =
  bd_isAddress :: "string \<Rightarrow> bool"
  bd_loadContext :: "SettlementContext result"
  bd_userShares :: "string \<Rightarrow> SettlementContext \<Rightarrow> SettlementShares result"
  bd_accountsExist :: "(bool \<times> bool) result"
  bd_rent :: "int result"
  bd_newAccount :: string
  bd_lookupTables :: "SettlementContext \<Rightarrow> LookupTables result"
  bd_compile :: "LookupTables \<Rightarrow> string \<Rightarrow> SettlementContext \<Rightarrow> DecodedInstruction list \<Rightarrow> bool \<Rightarrow> BuiltTransaction result"
  bd_simulate :: "nat \<Rightarrow> string \<Rightarrow> string list \<Rightarrow> SimulationAnswer result"
  bd_signatureFor :: "BuiltTransaction \<Rightarrow> string \<Rightarrow> string option"

record settlement_builder =
  bl_sdk :: settlement_sdk
  bl_vaultAddress :: string
  bl_computeUnitLimit :: int
  bl_computeUnitPriceMicroLamports :: int
  bl_contextTtlMs :: int

record CachedContext =
  cx_context :: SettlementContext
  cx_userShares :: "(string, SettlementShares) js_map"
  cx_loadedAtMs :: int

record builder_state =
  bs_cached :: "CachedContext option"
  bs_rent :: "int option"
  bs_simulations :: nat
  bs_built :: "DecodedInstruction list list"

section \<open>The builder\<close>

definition TOKEN_ACCOUNT_SIZE :: int where "TOKEN_ACCOUNT_SIZE = 165"
definition SHARES_TO_REDEEM_MARGIN :: int where "SHARES_TO_REDEEM_MARGIN = 4"

definition mapLiquidityError :: "vault_error + 'a \<Rightarrow> 'a result" where
  "mapLiquidityError r = (case r of
       Inl VaultLiquidityError \<Rightarrow> Inl (conflict ''budget_illiquid'')
     | Inl (VaultError e) \<Rightarrow> Inl e
     | Inr x \<Rightarrow> Inr x)"

definition loadFreshContext ::
  "settlement_builder \<Rightarrow> settlement_node \<Rightarrow> int \<Rightarrow> string \<Rightarrow> (builder_state, SettlementContext \<times> SettlementShares) action" where
  "loadFreshContext B N now wallet =
     bindA (getsA bs_cached) (\<lambda>cached.
     bindA (case cached of
         Some x \<Rightarrow> if now - cx_loadedAtMs x > bl_contextTtlMs B then liftR (bd_loadContext N) else returnA (cx_context x)
       | None \<Rightarrow> liftR (bd_loadContext N)) (\<lambda>context.
     let entry = (case cached of
           Some x \<Rightarrow> if now - cx_loadedAtMs x > bl_contextTtlMs B
             then \<lparr>cx_context = context, cx_userShares = [], cx_loadedAtMs = now\<rparr> else x
         | None \<Rightarrow> \<lparr>cx_context = context, cx_userShares = [], cx_loadedAtMs = now\<rparr>) in
     bindA (modifyA (\<lambda>s. s\<lparr>bs_cached := Some entry\<rparr>)) (\<lambda>_.
     case map_get (cx_userShares entry) wallet of
       Some userShares \<Rightarrow> returnA (context, userShares)
     | None \<Rightarrow>
         bindA (liftR (bd_userShares N wallet context)) (\<lambda>userShares.
         bindA (modifyA (\<lambda>s. s\<lparr>bs_cached := Some (entry\<lparr>cx_userShares := map_set wallet userShares (cx_userShares entry)\<rparr>)\<rparr>)) (\<lambda>_.
         returnA (context, userShares))))))"

definition quoteSettlement ::
  "settlement_builder \<Rightarrow> settlement_node \<Rightarrow> int \<Rightarrow> string \<Rightarrow> string \<Rightarrow> int \<Rightarrow> (builder_state, SettlementQuote) action" where
  "quoteSettlement B N now wallet vault amountRawUsdc =
     bindA (assertA (vault = bl_vaultAddress B) (conflict ''unsupported_vault'')) (\<lambda>_.
     bindA (loadFreshContext B N now wallet) (\<lambda>(context, userShares).
     bindA (liftR (mapLiquidityError (quoteSettlementWithdraw amountRawUsdc (VaultContext.truncate context)))) (\<lambda>quote.
     returnA \<lparr>sq_requiredWithdrawRawUsdc = swq_requiredWithdrawRawUsdc quote,
       sq_sharesToRedeemRaw = swq_sharesToRedeemRaw quote + SHARES_TO_REDEEM_MARGIN,
       sq_withdrawalPenaltyRawUsdc = swq_withdrawalPenaltyRawUsdc quote,
       sq_exchangeRateScaled = vx_exchangeRateScaled context,
       sq_instantRedeemCapacityRawUsdc = vx_instantRedeemCapacityRawUsdc context,
       sq_userStakedSharesRaw = us_stakedSharesRaw userShares, sq_userUnstakedSharesRaw = us_unstakedSharesRaw userShares,
       sq_userTotalSharesRaw = us_totalSharesRaw userShares, sq_observedSlot = vx_slot context\<rparr>)))"

definition tokenAccountRent :: "settlement_node \<Rightarrow> (builder_state, int) action" where
  "tokenAccountRent N =
     bindA (getsA bs_rent) (\<lambda>known. case known of
       Some rent \<Rightarrow> returnA rent
     | None \<Rightarrow> bindA (liftR (bd_rent N)) (\<lambda>rent. bindA (modifyA (\<lambda>s. s\<lparr>bs_rent := Some rent\<rparr>)) (\<lambda>_. returnA rent)))"

definition assertSettlementAccountsExist :: "settlement_node \<Rightarrow> SettlementShares \<Rightarrow> unit result" where
  "assertSettlementAccountsExist N userShares =
     bindR (bd_accountsExist N) (\<lambda>(seller, dustRecipient).
     bindR (checkR seller (conflict ''seller_ata_missing'')) (\<lambda>_.
     bindR (checkR dustRecipient (conflict ''agent_usdc_ata_missing'')) (\<lambda>_.
     checkR (xu_sharesAtaExists userShares) (conflict ''agent_shares_ata_missing''))))"

definition compile :: "settlement_node \<Rightarrow> LookupTables \<Rightarrow> string \<Rightarrow> SettlementContext \<Rightarrow> DecodedInstruction list \<Rightarrow> bool
    \<Rightarrow> (builder_state, BuiltTransaction) action" where
  "compile N tables sponsor c ixs signTemp =
     bindA (modifyA (\<lambda>s. s\<lparr>bs_built := bs_built s @ [ixs]\<rparr>)) (\<lambda>_. liftR (bd_compile N tables sponsor c ixs signTemp))"

definition simulate :: "settlement_node \<Rightarrow> string \<Rightarrow> string list \<Rightarrow> (builder_state, SimulationAnswer) action" where
  "simulate N serializedBase64 watched =
     bindA (getsA bs_simulations) (\<lambda>n.
     bindA (modifyA (\<lambda>s. s\<lparr>bs_simulations := n + 1\<rparr>)) (\<lambda>_. liftR (bd_simulate N n serializedBase64 watched)))"

definition settlementPrefix ::
  "settlement_builder \<Rightarrow> CanonicalPaymentSettlementInput \<Rightarrow> string \<Rightarrow> string \<Rightarrow> int \<Rightarrow> DecodedInstruction list \<Rightarrow> DecodedInstruction
    \<Rightarrow> DecodedInstruction list" where
  "settlementPrefix B x sponsor temp rentLamports unstakeIxs withdrawIx =
     [sk_setComputeUnitLimit (bl_sdk B) (bl_computeUnitLimit B),
      sk_setComputeUnitPrice (bl_sdk B) (bl_computeUnitPriceMicroLamports B),
      sk_createAccount (bl_sdk B) sponsor temp rentLamports TOKEN_ACCOUNT_SIZE SPL_TOKEN_PROGRAM_ID,
      sk_initializeAccount3 (bl_sdk B) temp (ci_usdcMint x) (ci_wallet x)]
     @ unstakeIxs @ [withdrawIx]"

datatype probe_outcome =
    ProbeFailed
  | ProbeUncovered
  | ProbeCovered "DecodedInstruction list" int int

text \<open>
  The probe loop, with the number of attempts left: a covered probe has its instructions, its
  output and the shares it burns.
\<close>

fun probeLoop ::
  "settlement_builder \<Rightarrow> settlement_node \<Rightarrow> CanonicalPaymentSettlementInput \<Rightarrow> SettlementContext \<Rightarrow> SettlementShares
    \<Rightarrow> LookupTables \<Rightarrow> string \<Rightarrow> int \<Rightarrow> nat \<Rightarrow> int \<Rightarrow> (builder_state, probe_outcome) action" where
  "probeLoop B N x c userShares tables sponsor rentLamports 0 shares = returnA ProbeUncovered"
| "probeLoop B N x c userShares tables sponsor rentLamports (Suc attempts) shares =
     bindA (liftR (mapLiquidityError (buildSettlementWithdrawInstructions (bl_sdk B) (bl_vaultAddress B) c userShares
       (ci_wallet x) (bd_newAccount N) shares (ci_requiredWithdrawRawUsdc x)))) (\<lambda>(unstakeIxs, withdrawIx).
     let prefix = settlementPrefix B x sponsor (bd_newAccount N) rentLamports unstakeIxs withdrawIx in
     bindA (compile N tables sponsor c prefix False) (\<lambda>probe.
     bindA (simulate N (bt_serializedBase64 probe) [bd_newAccount N]) (\<lambda>answer.
     if zs_err answer \<noteq> JNull then returnA ProbeFailed
     else (case tokenAmounts answer [bd_newAccount N] (bd_newAccount N) of
         None \<Rightarrow> throwA (conflict ''simulation_failed'')
       | Some output \<Rightarrow>
           if output \<ge> ci_amountRawUsdc x then returnA (ProbeCovered prefix output shares)
           else
             bindA (liftR (ceilDiv ((ci_amountRawUsdc x - output) * RATE_SCALE) (vx_exchangeRateScaled c))) (\<lambda>needed.
             if shares + max 1 needed > ci_sharesToRedeemRaw x then returnA ProbeUncovered
             else probeLoop B N x c userShares tables sponsor rentLamports attempts (shares + max 1 needed))))))"

definition settlementSuffix ::
  "settlement_builder \<Rightarrow> CanonicalPaymentSettlementInput \<Rightarrow> string \<Rightarrow> string \<Rightarrow> int \<Rightarrow> DecodedInstruction list" where
  "settlementSuffix B x sponsor temp dustRawUsdc =
     [sk_transferChecked (bl_sdk B) temp (ci_usdcMint x) (ci_sellerUsdcAta x) (ci_wallet x) (ci_amountRawUsdc x) USDC_DECIMALS]
     @ (if dustRawUsdc > 0
        then [sk_transferChecked (bl_sdk B) temp (ci_usdcMint x) (ci_dustRecipientUsdcAta x) (ci_wallet x) dustRawUsdc USDC_DECIMALS]
        else [])
     @ [sk_closeAccount (bl_sdk B) temp sponsor (ci_wallet x), sk_addMemo (bl_sdk B) (ci_memo x)]"

text \<open>From the covered probe on: the whole message, compiled, signed by the temporary account and simulated.\<close>

definition finishSettlement ::
  "settlement_builder \<Rightarrow> settlement_node \<Rightarrow> CanonicalPaymentSettlementInput \<Rightarrow> SettlementContext \<Rightarrow> LookupTables \<Rightarrow> string
    \<Rightarrow> DecodedInstruction list \<Rightarrow> int \<Rightarrow> int \<Rightarrow> (builder_state, PreparedSettlementTransaction) action" where
  "finishSettlement B N x c tables sponsor prefix output shares =
     (let temp = bd_newAccount N;
          instructions = prefix @ settlementSuffix B x sponsor temp (output - ci_amountRawUsdc x) in
      bindA (compile N tables sponsor c instructions True) (\<lambda>final.
      bindA (simulate N (bt_serializedBase64 final) [temp, ci_sellerUsdcAta x]) (\<lambda>answer.
      bindA (assertA (zs_err answer = JNull) (conflict ''simulation_failed'')) (\<lambda>_.
      bindA (assertA (accountsExisting answer [temp, ci_sellerUsdcAta x] temp \<noteq> Some True) (conflict ''simulation_failed'')) (\<lambda>_.
      case bd_signatureFor N final temp of
        None \<Rightarrow> throwA (unavailable ''transaction_builder_invalid'')
      | Some signature \<Rightarrow> returnA
          \<lparr>pt_preparedMessageHash = bt_messageHash final, pt_recentBlockhash = Some (vx_blockhash c),
           pt_lastValidBlockHeight = Some (vx_lastValidBlockHeight c), pt_temporarySettlementTokenAccount = temp,
           pt_temporarySettlementSignature = signature, pt_serializedTransaction = bt_serializedBase64 final,
           pt_sharesToRedeemRaw = Some shares\<rparr>)))))"

definition assertAddresses :: "settlement_node \<Rightarrow> CanonicalPaymentSettlementInput \<Rightarrow> string \<Rightarrow> unit result" where
  "assertAddresses N x sponsor =
     checkR (list_all (bd_isAddress N) [sponsor, ci_wallet x, ci_usdcMint x, ci_sellerUsdcAta x, ci_dustRecipientUsdcAta x])
       (JsError ''invalid address'')"

definition preparePaymentSettlement ::
  "settlement_builder \<Rightarrow> settlement_node \<Rightarrow> int \<Rightarrow> CanonicalPaymentSettlementInput
    \<Rightarrow> (builder_state, PreparedSettlementTransaction) action" where
  "preparePaymentSettlement B N now x = (case ci_feePayer x of
       None \<Rightarrow> throwA (unavailable ''sponsor_fee_payer_not_configured'')
     | Some sponsor \<Rightarrow>
         bindA (liftR (assertAddresses N x sponsor)) (\<lambda>_.
         bindA (loadFreshContext B N now (ci_wallet x)) (\<lambda>(context, userShares).
         bindA (liftR (assertSettlementAccountsExist N userShares)) (\<lambda>_.
         bindA (tokenAccountRent N) (\<lambda>rentLamports.
         bindA (liftR (bd_lookupTables N context)) (\<lambda>tables.
         bindA (liftR (mapLiquidityError (quoteSettlementWithdraw (ci_amountRawUsdc x) (VaultContext.truncate context)))) (\<lambda>exactQuote.
         bindA (probeLoop B N x context userShares tables sponsor rentLamports 4
           (min (swq_sharesToRedeemRaw exactQuote) (ci_sharesToRedeemRaw x))) (\<lambda>outcome.
         case outcome of
           ProbeCovered prefix output shares \<Rightarrow>
             finishSettlement B N x context tables sponsor prefix output shares
         | _ \<Rightarrow> throwA (conflict ''simulation_failed'')))))))))"

end
