(* ===== verification/Settlement_Canonical.thy ===== *)
theory Settlement_Canonical
  imports Settlement_Builder Intent_Outcomes
begin

text \<open>
  What the relayer builds, the agent's signer accepts: under the documented wire formats of the
  instructions, a prepared settlement is in the grammar of theory \<open>Intent_Grammar\<close>, for the maximum
  of shares the agent approves.
\<close>

section \<open>Integers on the wire\<close>

fun le_bytes :: "nat \<Rightarrow> int \<Rightarrow> byte list" where
  "le_bytes 0 v = []"
| "le_bytes (Suc n) v = word_of_int v # le_bytes n (v div 256)"

lemma length_le_bytes [simp]: "length (le_bytes n v) = n"
  by (induction n arbitrary: v) simp_all

lemma le_bytes_value: "0 \<le> v \<Longrightarrow> v < 256 ^ n \<Longrightarrow> littleEndianToBigInt (le_bytes n v) = v"
proof (induction n arbitrary: v)
  case (Suc n)
  have "v div 256 < 256 ^ n" using Suc.prems(2) by (simp add: div_less_iff_less_mult mult.commute)
  then have "littleEndianToBigInt (le_bytes n (v div 256)) = v div 256" using Suc.IH Suc.prems(1) by simp
  then show ?case by (simp add: uint_word_of_int)
qed simp

lemma u64_le: "0 \<le> v \<Longrightarrow> v < 2 ^ 64 \<Longrightarrow> length pre = i \<Longrightarrow> u64_at (pre @ le_bytes 8 v @ post) i v"
  by (simp add: u64_at_def le_bytes_value)

lemma u32_le: "0 \<le> v \<Longrightarrow> v < 2 ^ 32 \<Longrightarrow> length pre = i \<Longrightarrow> u32_at (pre @ le_bytes 4 v @ post) i v"
  by (simp add: u32_at_def le_bytes_value)

section \<open>The documented formats\<close>

text \<open>A withdrawal of shares out of the vault: the nine accounts the signer looks at, then others.\<close>

definition vault_withdrawal :: "WithdrawAccounts \<Rightarrow> int \<Rightarrow> DecodedInstruction \<Rightarrow> bool" where
  "vault_withdrawal a n ix \<longleftrightarrow> ix_programAddress ix = KVAULT_PROGRAM_ID
     \<and> (ix_data ix = KVAULT_WITHDRAW_FROM_AVAILABLE_DISCRIMINATOR @ le_bytes 8 n
        \<or> ix_data ix = KVAULT_WITHDRAW_DISCRIMINATOR @ le_bytes 8 n)
     \<and> begins [wf_user a, wf_vaultState a, wf_globalConfig a, wf_tokenVault a, wf_baseVaultAuthority a,
          wf_userTokenAta a, wf_tokenMint a, wf_userSharesAta a, wf_sharesMint a] (ix_accounts ix)"

text \<open>The pair of farm instructions that brings staked shares back, or none.\<close>

definition unstake_pair :: "intent_env \<Rightarrow> string \<Rightarrow> string \<Rightarrow> string \<Rightarrow> DecodedInstruction list \<Rightarrow> bool" where
  "unstake_pair E wallet farm shareMint ixs \<longleftrightarrow> ixs = [] \<or>
     (\<exists>unstake back user. ixs = [unstake, back] \<and> unstakes wallet farm user unstake
        \<and> returns_shares E wallet farm shareMint user back)"

text \<open>
  The programs' own layouts: \<open>key\<close> gives the 32 bytes of an address and \<open>utf8\<close> the bytes of a text. An
  unstake plan is, without the creation of token accounts, empty or the pair of farm instructions.
\<close>

definition conforming_sdk ::
  "intent_env \<Rightarrow> string \<Rightarrow> (string \<Rightarrow> byte list) \<Rightarrow> (string \<Rightarrow> byte list) \<Rightarrow> settlement_sdk \<Rightarrow> bool" where
  "conforming_sdk E farm key utf8 K \<longleftrightarrow>
     (\<forall>a. length (key a) = 32)
     \<and> (\<forall>units. 0 \<le> units \<and> units < 2 ^ 32 \<longrightarrow> sk_setComputeUnitLimit K units
          = \<lparr>ix_programAddress = COMPUTE_BUDGET_PROGRAM_ID, ix_accounts = [], ix_data = [2] @ le_bytes 4 units\<rparr>)
     \<and> (\<forall>price. 0 \<le> price \<and> price < 2 ^ 64 \<longrightarrow> sk_setComputeUnitPrice K price
          = \<lparr>ix_programAddress = COMPUTE_BUDGET_PROGRAM_ID, ix_accounts = [], ix_data = [3] @ le_bytes 8 price\<rparr>)
     \<and> (\<forall>payer account rent space program. 0 \<le> rent \<and> rent < 2 ^ 64 \<and> 0 \<le> space \<and> space < 2 ^ 64 \<longrightarrow>
          sk_createAccount K payer account rent space program
          = \<lparr>ix_programAddress = SYSTEM_PROGRAM_ID, ix_accounts = [payer, account],
             ix_data = le_bytes 4 0 @ le_bytes 8 rent @ le_bytes 8 space @ key program\<rparr>)
     \<and> (\<forall>account mint owner. sk_initializeAccount3 K account mint owner
          = \<lparr>ix_programAddress = SPL_TOKEN_PROGRAM_ID, ix_accounts = [account, mint], ix_data = [18] @ key owner\<rparr>)
     \<and> (\<forall>source mint destination authority amount. 0 \<le> amount \<and> amount < 2 ^ 64 \<longrightarrow>
          sk_transferChecked K source mint destination authority amount 6
          = \<lparr>ix_programAddress = SPL_TOKEN_PROGRAM_ID, ix_accounts = [source, mint, destination, authority],
             ix_data = [12] @ le_bytes 8 amount @ [6]\<rparr>)
     \<and> (\<forall>account destination owner. sk_closeAccount K account destination owner
          = \<lparr>ix_programAddress = SPL_TOKEN_PROGRAM_ID, ix_accounts = [account, destination, owner], ix_data = [9]\<rparr>)
     \<and> (\<forall>memo. sk_addMemo K memo = \<lparr>ix_programAddress = MEMO_PROGRAM_ID, ix_accounts = [], ix_data = utf8 memo\<rparr>)
     \<and> (\<forall>n a. 0 \<le> n \<and> n < 2 ^ 64 \<longrightarrow> vault_withdrawal a n (sk_withdrawFromAvailable K n a))
     \<and> (\<forall>n a r. 0 \<le> n \<and> n < 2 ^ 64 \<longrightarrow> vault_withdrawal a n (sk_withdraw K n a r))
     \<and> (\<forall>c ix. \<exists>extra. sk_appendReserves K c ix = ix\<lparr>ix_accounts := ix_accounts ix @ extra\<rparr>)
     \<and> (\<forall>mint wallet ata. ataOf E wallet mint = Inr ata \<longrightarrow> sk_sharesAta K mint wallet = ata)
     \<and> (\<forall>c wallet n plan. sk_unstakePlan K c wallet n = Inr plan \<longrightarrow>
          unstake_pair E wallet farm (xs_sharesMint c)
            (filter (\<lambda>ix. ix_programAddress ix \<noteq> ASSOCIATED_TOKEN_PROGRAM_ID) plan))"

section \<open>The withdraw instructions\<close>

lemma bindV_Inr: "bindV r f = Inr y \<longleftrightarrow> (\<exists>x. r = Inr x \<and> f x = Inr y)"
  by (cases r) (auto simp: bindV_def)

lemma mapLiquidityError_Inr [simp]: "mapLiquidityError r = Inr x \<longleftrightarrow> r = Inr x"
  by (auto simp: mapLiquidityError_def split: sum.split vault_error.split)

lemma appended_form:
  assumes "conforming_sdk E farm key utf8 K" "vault_withdrawal a n ix"
  shows "vault_withdrawal a n (sk_appendReserves K c ix)"
proof -
  have "\<exists>extra. sk_appendReserves K c ix = ix\<lparr>ix_accounts := ix_accounts ix @ extra\<rparr>"
    using assms(1) by (simp only: conforming_sdk_def)
  then show ?thesis using assms(2) by (auto simp: vault_withdrawal_def begins_def)
qed

lemma withdraw_instructions_form:
  assumes "conforming_sdk E farm key utf8 K"
    and "buildSettlementWithdrawInstructions K vault c u wallet temp n gross = Inr (unstakeIxs, withdrawIx)" "n < 2 ^ 64"
  shows "0 < n" "vault_withdrawal (withdrawAccounts K vault c wallet temp) n withdrawIx"
    "unstake_pair E wallet farm (xs_sharesMint c) unstakeIxs"
proof -
  obtain ix where parts: "unstakeInstructions K c u wallet n = Inr unstakeIxs" "0 < n"
    "withdrawInstruction K vault c (withdrawAccounts K vault c wallet temp) n gross = Inr ix"
    "withdrawIx = (if hasAllocatedReserves c then sk_appendReserves K c ix else ix)"
    using assms(2)
    by (simp add: buildSettlementWithdrawInstructions_def vaultErr_def bindV_Inr split: if_split_asm) metis+
  show "0 < n" by (rule parts(2))
  have forms: "vault_withdrawal a n (sk_withdrawFromAvailable K n a)" "vault_withdrawal a n (sk_withdraw K n a r)" for a r
    using assms(1,3) parts(2) by (simp_all add: conforming_sdk_def)
  then show "vault_withdrawal (withdrawAccounts K vault c wallet temp) n withdrawIx"
    using parts(3,4) appended_form[OF assms(1)]
    by (auto simp: withdrawInstruction_def vaultErr_def Let_def split: if_splits option.splits)
  have "sk_unstakePlan K c wallet n = Inr plan \<Longrightarrow> unstake_pair E wallet farm (xs_sharesMint c)
      (filter (\<lambda>ix. ix_programAddress ix \<noteq> ASSOCIATED_TOKEN_PROGRAM_ID) plan)" for plan
    using assms(1) by (simp add: conforming_sdk_def)
  then show "unstake_pair E wallet farm (xs_sharesMint c) unstakeIxs"
    using parts(1)
    by (auto simp: unstakeInstructions_def vaultErr_def Let_def unstake_pair_def split: if_splits sum.splits)
qed

section \<open>The probe loop\<close>

lemma tokenAmount_range: "tokenAmount account = Some output \<Longrightarrow> 0 \<le> output \<and> output < 2 ^ 64"
proof -
  have "0 \<le> littleEndianToBigInt (take 8 (drop 64 d)) \<and> littleEndianToBigInt (take 8 (drop 64 d)) < 2 ^ 64"
    if "72 \<le> length d" for d
    using littleEndianToBigInt_range[of "take 8 (drop 64 d)"] that by (simp add: min_absorb2)
  then show "tokenAmount account = Some output \<Longrightarrow> 0 \<le> output \<and> output < 2 ^ 64"
    by (auto simp: tokenAmount_def split: option.splits if_splits)
qed

lemma tokenAmounts_one: "tokenAmounts answer [a] a = Some output \<Longrightarrow> 0 \<le> output \<and> output < 2 ^ 64"
  using tokenAmount_range by (auto simp: tokenAmounts_def split: option.splits)

text \<open>A covered probe burns at most the approved maximum and pays at least the amount.\<close>

definition covered_by ::
  "settlement_builder \<Rightarrow> settlement_node \<Rightarrow> CanonicalPaymentSettlementInput \<Rightarrow> SettlementContext \<Rightarrow> SettlementShares
    \<Rightarrow> string \<Rightarrow> int \<Rightarrow> probe_outcome \<Rightarrow> bool" where
  "covered_by B N x c u sponsor rent outcome \<longleftrightarrow> (case outcome of
       ProbeCovered prefix output burned \<Rightarrow>
         burned \<le> ci_sharesToRedeemRaw x \<and> ci_amountRawUsdc x \<le> output \<and> output < 2 ^ 64
         \<and> (\<exists>unstakeIxs withdrawIx. prefix = settlementPrefix B x sponsor (bd_newAccount N) rent unstakeIxs withdrawIx
            \<and> buildSettlementWithdrawInstructions (bl_sdk B) (bl_vaultAddress B) c u (ci_wallet x) (bd_newAccount N) burned
                (ci_requiredWithdrawRawUsdc x) = Inr (unstakeIxs, withdrawIx))
     | _ \<Rightarrow> True)"

lemma covered_by_simps [simp]:
  "covered_by B N x c u sponsor rent ProbeFailed"
  "covered_by B N x c u sponsor rent ProbeUncovered"
  by (simp_all add: covered_by_def)

lemma covered_byI:
  "burned \<le> ci_sharesToRedeemRaw x \<Longrightarrow> ci_amountRawUsdc x \<le> output \<Longrightarrow> output < 2 ^ 64 \<Longrightarrow>
     buildSettlementWithdrawInstructions (bl_sdk B) (bl_vaultAddress B) c u (ci_wallet x) (bd_newAccount N) burned
       (ci_requiredWithdrawRawUsdc x) = Inr (unstakeIxs, withdrawIx) \<Longrightarrow>
     covered_by B N x c u sponsor rent
       (ProbeCovered (settlementPrefix B x sponsor (bd_newAccount N) rent unstakeIxs withdrawIx) output burned)"
  by (auto simp: covered_by_def)

lemma runs_compile [simp]: "runs (compile N tables sponsor c ixs signTemp) s Q E =
    (case bd_compile N tables sponsor c ixs signTemp of
       Inl e \<Rightarrow> E e (s\<lparr>bs_built := bs_built s @ [ixs]\<rparr>) | Inr b \<Rightarrow> Q b (s\<lparr>bs_built := bs_built s @ [ixs]\<rparr>))"
  by (simp add: compile_def)

lemma runs_simulate [simp]: "runs (simulate N b watched) s Q E =
    (case bd_simulate N (bs_simulations s) b watched of
       Inl e \<Rightarrow> E e (s\<lparr>bs_simulations := Suc (bs_simulations s)\<rparr>) | Inr a \<Rightarrow> Q a (s\<lparr>bs_simulations := Suc (bs_simulations s)\<rparr>))"
  by (simp add: simulate_def)

lemma runs_probeLoop:
  "n \<le> ci_sharesToRedeemRaw x \<Longrightarrow> bs_cached s = cached \<Longrightarrow> bs_rent s = known \<Longrightarrow>
     runs (probeLoop B N x c u tables sponsor rent attempts n) s
       (\<lambda>outcome s'. covered_by B N x c u sponsor rent outcome \<and> bs_cached s' = cached \<and> bs_rent s' = known) (\<lambda>_ _. True)"
proof (induction attempts arbitrary: n s cached known)
  case (Suc attempts)
  show ?case
    using Suc.prems tokenAmounts_one
    by (auto simp: Let_def not_less not_le split: sum.split prod.split option.split intro: Suc.IH intro!: covered_byI)
qed simp

section \<open>What a prepared settlement was built from\<close>

definition built_settlement ::
  "settlement_builder \<Rightarrow> settlement_node \<Rightarrow> CanonicalPaymentSettlementInput \<Rightarrow> string \<Rightarrow> SettlementContext \<Rightarrow> int
    \<Rightarrow> PreparedSettlementTransaction \<Rightarrow> DecodedInstruction list \<Rightarrow> bool" where
  "built_settlement B N x sponsor c rent t ixs \<longleftrightarrow>
     (\<exists>u tables unstakeIxs withdrawIx burned output final.
        buildSettlementWithdrawInstructions (bl_sdk B) (bl_vaultAddress B) c u (ci_wallet x) (bd_newAccount N) burned
          (ci_requiredWithdrawRawUsdc x) = Inr (unstakeIxs, withdrawIx)
        \<and> burned \<le> ci_sharesToRedeemRaw x \<and> ci_amountRawUsdc x \<le> output \<and> output < 2 ^ 64
        \<and> ixs = settlementPrefix B x sponsor (bd_newAccount N) rent unstakeIxs withdrawIx
            @ settlementSuffix B x sponsor (bd_newAccount N) (output - ci_amountRawUsdc x)
        \<and> bd_compile N tables sponsor c ixs True = Inr final
        \<and> pt_preparedMessageHash t = bt_messageHash final \<and> pt_serializedTransaction t = bt_serializedBase64 final
        \<and> pt_temporarySettlementTokenAccount t = bd_newAccount N \<and> pt_sharesToRedeemRaw t = Some burned)"

lemma runs_after:
  "runs m s R (\<lambda>_ _. True) \<Longrightarrow> (\<And>x t. R x t \<Longrightarrow> runs (f x) t Q (\<lambda>_ _. True)) \<Longrightarrow>
     runs (bindA m f) s Q (\<lambda>_ _. True)"
  by (rule runs_seq)

lemma runs_after_lift:
  "(\<And>x. runs (f x) s Q (\<lambda>_ _. True)) \<Longrightarrow> runs (bindA (liftR r) f) s Q (\<lambda>_ _. True)"
  by (simp split: sum.split)

lemma runs_loadFreshContext:
  "runs (loadFreshContext B N now wallet) s
     (\<lambda>(c, u) s'. \<exists>entry. bs_cached s' = Some entry \<and> cx_context entry = c) (\<lambda>_ _. True)"
  by (auto simp: loadFreshContext_def Let_def split: option.split sum.split)

lemma runs_tokenAccountRent:
  "bs_cached s = cached \<Longrightarrow> runs (tokenAccountRent N) s
     (\<lambda>rent s'. bs_rent s' = Some rent \<and> bs_cached s' = cached) (\<lambda>_ _. True)"
  by (auto simp: tokenAccountRent_def split: option.split sum.split)

lemma runs_finishSettlement:
  assumes "covered_by B N x c u sponsor rent (ProbeCovered prefix output burned)"
    and "bs_cached s = cached" "bs_rent s = known"
  shows "runs (finishSettlement B N x c tables sponsor prefix output burned) s
    (\<lambda>t s'. built_settlement B N x sponsor c rent t (last (bs_built s')) \<and> bs_cached s' = cached \<and> bs_rent s' = known)
    (\<lambda>_ _. True)"
  using assms
  by (auto simp: finishSettlement_def Let_def covered_by_def built_settlement_def split: sum.split option.split) blast

lemma runs_preparePaymentSettlement:
  "runs (preparePaymentSettlement B N now x) s
     (\<lambda>t s'. \<exists>sponsor entry rent. ci_feePayer x = Some sponsor \<and> bs_cached s' = Some entry \<and> bs_rent s' = Some rent
        \<and> built_settlement B N x sponsor (cx_context entry) rent t (last (bs_built s'))) (\<lambda>_ _. True)"
proof (cases "ci_feePayer x")
  case (Some sponsor)
  have covered: "runs (case outcome of
        ProbeCovered prefix output shares \<Rightarrow> finishSettlement B N x (cx_context entry) tables sponsor prefix output shares
      | _ \<Rightarrow> throwA (conflict ''simulation_failed'')) s'
      (\<lambda>t s'. \<exists>sponsor entry rent. ci_feePayer x = Some sponsor \<and> bs_cached s' = Some entry \<and> bs_rent s' = Some rent
        \<and> built_settlement B N x sponsor (cx_context entry) rent t (last (bs_built s'))) (\<lambda>_ _. True)"
    if "covered_by B N x (cx_context entry) u sponsor rent outcome" "bs_cached s' = Some entry" "bs_rent s' = Some rent"
    for outcome entry tables u rent s'
    using that Some by (cases outcome) (auto intro: runs_mono [OF runs_finishSettlement])
  show ?thesis
    unfolding preparePaymentSettlement_def Some option.case
    apply (rule runs_after_lift, rule runs_after [OF runs_loadFreshContext])
    apply (clarify, rule runs_after_lift, rule runs_after [OF runs_tokenAccountRent], assumption)
    apply (rule runs_after_lift, rule runs_after_lift, elim conjE)
    apply (rule runs_after [OF runs_probeLoop], simp, assumption, assumption)
    apply (elim conjE, rule covered [unfolded Some]; assumption)
    done
qed (simp add: preparePaymentSettlement_def)

section \<open>A prepared settlement is canonical\<close>

text \<open>The terms of the signer's policy the relayer's constants must respect.\<close>

definition within_policy :: "ResolvedIntentValidationPolicy \<Rightarrow> settlement_builder \<Rightarrow> int \<Rightarrow> bool" where
  "within_policy policy B rent \<longleftrightarrow>
     0 < bl_computeUnitLimit B \<and> bl_computeUnitLimit B \<le> rvp_maxComputeUnitLimit policy \<and> bl_computeUnitLimit B < 2 ^ 32
     \<and> 0 \<le> bl_computeUnitPriceMicroLamports B
     \<and> bl_computeUnitPriceMicroLamports B \<le> rvp_maxComputeUnitPriceMicroLamports policy
     \<and> bl_computeUnitPriceMicroLamports B < 2 ^ 64
     \<and> 0 \<le> rent \<and> rent \<le> rvp_maxTemporaryAccountLamports policy \<and> rent < 2 ^ 64"

text \<open>The intent the agent is asked to sign, against what the relayer was asked to build.\<close>

definition intent_of ::
  "settlement_builder \<Rightarrow> CanonicalPaymentSettlementInput \<Rightarrow> string \<Rightarrow> SettlementContext \<Rightarrow> PreparedSettlementTransaction
    \<Rightarrow> string \<Rightarrow> PaymentSigningIntent \<Rightarrow> bool" where
  "intent_of B x sponsor c t farm intent \<longleftrightarrow>
     psi_wallet intent = ci_wallet x \<and> psi_vault intent = bl_vaultAddress B \<and> psi_farm intent = farm
     \<and> psi_shareMint intent = xs_sharesMint c \<and> psi_asset intent = ci_usdcMint x \<and> psi_asset intent = xs_tokenMint c
     \<and> psi_feePayer intent = sponsor \<and> psi_sellerUsdcAta intent = ci_sellerUsdcAta x
     \<and> psi_dustRecipientUsdcAta intent = ci_dustRecipientUsdcAta x \<and> psi_memo intent = ci_memo x
     \<and> psi_temporarySettlementTokenAccount intent = pt_temporarySettlementTokenAccount t
     \<and> js_BigInt (psi_amountRawUsdc intent) = Some (ci_amountRawUsdc x)
     \<and> js_BigInt (psi_maxSharesToRedeemRaw intent) = Some (ci_sharesToRedeemRaw x)"

text \<open>
  The encodings of an address and of a text are read back by the signer, and the wallet has an
  associated account for the shares.
\<close>

definition reads_back ::
  "intent_env \<Rightarrow> (string \<Rightarrow> byte list) \<Rightarrow> (string \<Rightarrow> byte list) \<Rightarrow> string \<Rightarrow> string \<Rightarrow> string \<Rightarrow> bool" where
  "reads_back E key utf8 wallet shareMint memo \<longleftrightarrow> ta_encode E (key SPL_TOKEN_PROGRAM_ID) = SPL_TOKEN_PROGRAM_ID
     \<and> ta_encode E (key wallet) = wallet \<and> iv_utf8 E (utf8 memo) = memo \<and> (\<exists>ata. ataOf E wallet shareMint = Inr ata)"

lemma withdrawal_accepted:
  assumes "vault_withdrawal (withdrawAccounts K vault c wallet temp) n ix"
    and "0 \<le> n" "n \<le> maxShares" "maxShares < U64_MAX" "ataOf E wallet (xs_sharesMint c) = Inr (sk_sharesAta K (xs_sharesMint c) wallet)"
    and "psi_wallet intent = wallet" "psi_vault intent = vault" "psi_shareMint intent = xs_sharesMint c"
      "psi_asset intent = xs_tokenMint c" "psi_temporarySettlementTokenAccount intent = temp"
  shows "ix_programAddress ix = KVAULT_PROGRAM_ID \<and> withdraws E (payment_withdrawal intent maxShares) ix"
proof -
  have n: "n < 2 ^ 64" "n \<noteq> U64_MAX" using assms(3,4) by (simp_all add: U64_MAX_def)
  have d: "length KVAULT_WITHDRAW_FROM_AVAILABLE_DISCRIMINATOR = 8" "length KVAULT_WITHDRAW_DISCRIMINATOR = 8"
    by (simp_all add: KVAULT_WITHDRAW_FROM_AVAILABLE_DISCRIMINATOR_def KVAULT_WITHDRAW_DISCRIMINATOR_def)
  have "u64_at (ix_data ix) 8 n"
    using assms(1,2) n(1) d u64_le [of n _ 8 "[]"] by (auto simp: vault_withdrawal_def)
  moreover have "begins KVAULT_WITHDRAW_DISCRIMINATOR (ix_data ix) \<or> begins KVAULT_WITHDRAW_FROM_AVAILABLE_DISCRIMINATOR (ix_data ix)"
    using assms(1) by (auto simp: vault_withdrawal_def begins_def)
  ultimately show ?thesis
    using assms n(2)
    by (auto simp: vault_withdrawal_def withdraws_def payment_withdrawal_def withdrawAccounts_def intro!: exI [of _ n])
qed

lemma sdk_formats:
  assumes "conforming_sdk E farm key utf8 K"
  shows "length (key a) = 32"
    and "0 \<le> n \<Longrightarrow> n < 2 ^ 32 \<Longrightarrow> sk_setComputeUnitLimit K n
       = \<lparr>ix_programAddress = COMPUTE_BUDGET_PROGRAM_ID, ix_accounts = [], ix_data = [2] @ le_bytes 4 n\<rparr>"
    and "0 \<le> n \<Longrightarrow> n < 2 ^ 64 \<Longrightarrow> sk_setComputeUnitPrice K n
       = \<lparr>ix_programAddress = COMPUTE_BUDGET_PROGRAM_ID, ix_accounts = [], ix_data = [3] @ le_bytes 8 n\<rparr>"
    and "0 \<le> rent \<Longrightarrow> rent < 2 ^ 64 \<Longrightarrow> 0 \<le> space \<Longrightarrow> space < 2 ^ 64 \<Longrightarrow>
       sk_createAccount K payer account rent space program
       = \<lparr>ix_programAddress = SYSTEM_PROGRAM_ID, ix_accounts = [payer, account],
          ix_data = le_bytes 4 0 @ le_bytes 8 rent @ le_bytes 8 space @ key program\<rparr>"
    and "sk_initializeAccount3 K account mint owner
       = \<lparr>ix_programAddress = SPL_TOKEN_PROGRAM_ID, ix_accounts = [account, mint], ix_data = [18] @ key owner\<rparr>"
    and "0 \<le> n \<Longrightarrow> n < 2 ^ 64 \<Longrightarrow> sk_transferChecked K source mint destination authority n USDC_DECIMALS
       = \<lparr>ix_programAddress = SPL_TOKEN_PROGRAM_ID, ix_accounts = [source, mint, destination, authority],
          ix_data = [12] @ le_bytes 8 n @ [6]\<rparr>"
    and "sk_closeAccount K account destination owner
       = \<lparr>ix_programAddress = SPL_TOKEN_PROGRAM_ID, ix_accounts = [account, destination, owner], ix_data = [9]\<rparr>"
    and "sk_addMemo K memo = \<lparr>ix_programAddress = MEMO_PROGRAM_ID, ix_accounts = [], ix_data = utf8 memo\<rparr>"
    and "ataOf E wallet mint = Inr ata \<Longrightarrow> sk_sharesAta K mint wallet = ata"
  using assms unfolding conforming_sdk_def USDC_DECIMALS_def by simp_all

lemma transfer_format:
  assumes "conforming_sdk E farm key utf8 K" "0 \<le> n" "n < 2 ^ 64"
  shows "transfers source mint destination authority n
    (sk_transferChecked K source mint destination authority n USDC_DECIMALS)"
proof -
  have "js_at ([12] @ le_bytes 8 n @ [6]) 9 = Some 6" by (simp add: js_at_def nth_append)
  moreover have "u64_at ([12] @ le_bytes 8 n @ [6]) 1 n" using assms(2,3) by (intro u64_le) simp_all
  ultimately show ?thesis
    using assms by (simp add: transfers_def sdk_formats isTransferChecked_def tagIs_def js_at_def)
qed

lemma prefix_formats:
  assumes "conforming_sdk E farm key utf8 K" "within_policy policy B rent" "K = bl_sdk B"
    and "reads_back E key utf8 wallet shareMint memo"
  shows "limits_compute policy (sk_setComputeUnitLimit K (bl_computeUnitLimit B))"
    and "prices_compute policy (sk_setComputeUnitPrice K (bl_computeUnitPriceMicroLamports B))"
    and "creates_account E (rvp_maxTemporaryAccountLamports policy) sponsor temp
      (sk_createAccount K sponsor temp rent TOKEN_ACCOUNT_SIZE SPL_TOKEN_PROGRAM_ID)"
    and "initializes_account E temp mint wallet (sk_initializeAccount3 K temp mint wallet)"
proof -
  show "limits_compute policy (sk_setComputeUnitLimit K (bl_computeUnitLimit B))"
    using assms(2) u32_le [of "bl_computeUnitLimit B" "[2]" 1 "[]"]
    by (auto simp: limits_compute_def within_policy_def sdk_formats [OF assms(1)] tagIs_def js_at_def)
  show "prices_compute policy (sk_setComputeUnitPrice K (bl_computeUnitPriceMicroLamports B))"
    using assms(2) u64_le [of "bl_computeUnitPriceMicroLamports B" "[3]" 1 "[]"]
    by (auto simp: prices_compute_def within_policy_def sdk_formats [OF assms(1)] tagIs_def js_at_def)
  show "initializes_account E temp mint wallet (sk_initializeAccount3 K temp mint wallet)"
    using assms(4) by (simp add: initializes_account_def reads_back_def sdk_formats [OF assms(1)] tagIs_def js_at_def)
  have rent: "u64_at (le_bytes 4 0 @ le_bytes 8 rent @ le_bytes 8 165 @ k) 4 rent"
    "u64_at ((le_bytes 4 0 @ le_bytes 8 rent) @ le_bytes 8 165 @ k) 12 165"
    "u32_at ([] @ le_bytes 4 0 @ le_bytes 8 rent @ le_bytes 8 165 @ k) 0 0" for k
    using assms(2) by (intro u64_le u32_le; simp add: within_policy_def)+
  then show "creates_account E (rvp_maxTemporaryAccountLamports policy) sponsor temp
      (sk_createAccount K sponsor temp rent TOKEN_ACCOUNT_SIZE SPL_TOKEN_PROGRAM_ID)"
    using assms(2,4)
    by (auto simp: creates_account_def within_policy_def reads_back_def sdk_formats [OF assms(1)] TOKEN_ACCOUNT_SIZE_def)
qed

lemma suffix_formats:
  assumes "conforming_sdk E farm key utf8 (bl_sdk B)" "intent_of B x sponsor c t farm intent"
    and "pt_temporarySettlementTokenAccount t = temp" "0 \<le> ci_amountRawUsdc x" "ci_amountRawUsdc x \<le> output"
    and "output < 2 ^ 64" "reads_back E key utf8 wallet shareMint (ci_memo x)"
  shows "\<exists>pay dust close memo. settlementSuffix B x sponsor temp (output - ci_amountRawUsdc x) = [pay] @ dust @ [close, memo]
    \<and> transfers (psi_temporarySettlementTokenAccount intent) (psi_asset intent) (psi_sellerUsdcAta intent)
        (psi_wallet intent) (ci_amountRawUsdc x) pay
    \<and> dust_part intent dust
    \<and> closes (psi_temporarySettlementTokenAccount intent) (psi_feePayer intent) (psi_wallet intent) close
    \<and> carries_memo E (psi_memo intent) memo"
proof -
  let ?dust = "output - ci_amountRawUsdc x"
  let ?transfer = "\<lambda>to. sk_transferChecked (bl_sdk B) temp (ci_usdcMint x) to (ci_wallet x)"
  have "transfers temp (ci_usdcMint x) to (ci_wallet x) (ci_amountRawUsdc x) (?transfer to (ci_amountRawUsdc x) USDC_DECIMALS)"
    and "transfers temp (ci_usdcMint x) to (ci_wallet x) ?dust (?transfer to ?dust USDC_DECIMALS)" for to
    using assms(4-6) by (auto intro!: transfer_format [OF assms(1)])
  then show ?thesis
    using assms(2,3,7)
    by (auto simp: settlementSuffix_def dust_part_def intent_of_def closes_def carries_memo_def reads_back_def
        sdk_formats(7,8) [OF assms(1)] tagIs_def js_at_def)
qed

lemma built_settlement_canonical:
  assumes "built_settlement B N x sponsor c rent t ixs"
    and "conforming_sdk E farm key utf8 (bl_sdk B)" "reads_back E key utf8 (ci_wallet x) (xs_sharesMint c) (ci_memo x)"
    and "within_policy policy B rent" "intent_of B x sponsor c t farm intent"
    and "0 \<le> ci_amountRawUsdc x" "ci_sharesToRedeemRaw x < U64_MAX"
  shows "canonical_settlement E policy intent (ci_sharesToRedeemRaw x) (ci_amountRawUsdc x) ixs"
proof -
  let ?temp = "bd_newAccount N"
  obtain u farmIxs withdrawIx burned withdrawn where
    w: "buildSettlementWithdrawInstructions (bl_sdk B) (bl_vaultAddress B) c u (ci_wallet x) ?temp burned
          (ci_requiredWithdrawRawUsdc x) = Inr (farmIxs, withdrawIx)"
    and b: "burned \<le> ci_sharesToRedeemRaw x" "ci_amountRawUsdc x \<le> withdrawn" "withdrawn < 2 ^ 64"
      "pt_temporarySettlementTokenAccount t = ?temp"
    and ixs: "ixs = settlementPrefix B x sponsor ?temp rent farmIxs withdrawIx
            @ settlementSuffix B x sponsor ?temp (withdrawn - ci_amountRawUsdc x)"
    using assms(1) by (auto simp: built_settlement_def)
  have "burned < 2 ^ 64" using b(1) assms(7) by (simp add: U64_MAX_def)
  note form = withdraw_instructions_form [OF assms(2) w this]
  have ata: "ataOf E (ci_wallet x) (xs_sharesMint c) = Inr (sk_sharesAta (bl_sdk B) (xs_sharesMint c) (ci_wallet x))"
    using assms(3) sdk_formats(9) [OF assms(2)] by (auto simp: reads_back_def)
  have withdraw: "ix_programAddress withdrawIx = KVAULT_PROGRAM_ID
      \<and> withdraws E (payment_withdrawal intent (ci_sharesToRedeemRaw x)) withdrawIx"
    using assms(5,7) b form(1) ata
    by (intro withdrawal_accepted [OF form(2)]) (auto simp: intent_of_def)
  have farm: "farm_part E intent farmIxs"
    using form(3) assms(5) by (simp add: farm_part_def unstake_pair_def intent_of_def)
  obtain pay dust close memo where tail:
    "settlementSuffix B x sponsor ?temp (withdrawn - ci_amountRawUsdc x) = [pay] @ dust @ [close, memo]"
    "transfers (psi_temporarySettlementTokenAccount intent) (psi_asset intent) (psi_sellerUsdcAta intent)
        (psi_wallet intent) (ci_amountRawUsdc x) pay"
    "dust_part intent dust" "carries_memo E (psi_memo intent) memo"
    "closes (psi_temporarySettlementTokenAccount intent) (psi_feePayer intent) (psi_wallet intent) close"
    using suffix_formats [OF assms(2,5) b(4) assms(6) b(2,3) assms(3)] by blast
  note head = prefix_formats [OF assms(2,4) refl assms(3)]
  have names: "psi_wallet intent = ci_wallet x" "psi_asset intent = ci_usdcMint x" "psi_feePayer intent = sponsor"
    "psi_temporarySettlementTokenAccount intent = ?temp"
    using assms(5) b(4) by (simp_all add: intent_of_def)
  show ?thesis
    unfolding canonical_settlement_def ixs settlementPrefix_def tail(1)
    by (rule exI [of _ "sk_setComputeUnitLimit (bl_sdk B) (bl_computeUnitLimit B)"],
        rule exI [of _ "sk_setComputeUnitPrice (bl_sdk B) (bl_computeUnitPriceMicroLamports B)"],
        rule exI [of _ "sk_createAccount (bl_sdk B) sponsor ?temp rent TOKEN_ACCOUNT_SIZE SPL_TOKEN_PROGRAM_ID"],
        rule exI [of _ "sk_initializeAccount3 (bl_sdk B) ?temp (ci_usdcMint x) (ci_wallet x)"],
        rule exI [of _ farmIxs], rule exI [of _ withdrawIx], rule exI [of _ pay], rule exI [of _ dust],
        rule exI [of _ close], rule exI [of _ memo])
      (use assms(4) withdraw farm tail(2-5) head in \<open>simp add: names, simp add: within_policy_def sdk_formats(2,3) [OF assms(2)]\<close>)
qed

text \<open>
  C15: what the relayer prepares, the agent's signer accepts. If the instruction packages produce the
  layouts of the Solana programs and the relayer's compute limits and rent are within the signer's
  policy, then every settlement that \<open>preparePaymentSettlement\<close> returns, from any state of the builder
  and for any answers of the node, was compiled from instructions that pass the signer's checks for
  the intent of that payment, and burns at most the approved shares.
\<close>

theorem prepared_settlement_is_canonical:
  assumes "preparePaymentSettlement B N now x s = (Inr t, s')"
    and "conforming_sdk E farm key utf8 (bl_sdk B)" "reads_back E key utf8 (ci_wallet x) (xs_sharesMint (cx_context entry)) (ci_memo x)"
    and "bs_cached s' = Some entry" "bs_rent s' = Some rent" "ci_feePayer x = Some sponsor"
    and "within_policy policy B rent" "intent_of B x sponsor (cx_context entry) t farm intent"
    and "0 \<le> ci_amountRawUsdc x" "ci_sharesToRedeemRaw x < U64_MAX"
  shows "\<exists>tables final burned.
    bd_compile N tables sponsor (cx_context entry) (last (bs_built s')) True = Inr final
    \<and> pt_preparedMessageHash t = bt_messageHash final \<and> pt_serializedTransaction t = bt_serializedBase64 final
    \<and> pt_sharesToRedeemRaw t = Some burned \<and> burned \<le> ci_sharesToRedeemRaw x
    \<and> checkSettlementInstructions E policy intent (last (bs_built s')) = Inr ()"
proof -
  have built: "built_settlement B N x sponsor (cx_context entry) rent t (last (bs_built s'))"
    using runs_preparePaymentSettlement [of B N now x s] assms(1,4-6) by (auto simp: runs_def)
  moreover have "checkSettlementInstructions E policy intent (last (bs_built s')) = Inr ()"
    using built_settlement_canonical [OF built assms(2,3,7-10)] assms(8)
    by (auto simp: checkSettlementInstructions_Inr intent_of_def)
  ultimately show ?thesis by (auto simp: built_settlement_def)
qed

section \<open>A settlement that is prepared\<close>

definition sample_key :: "string \<Rightarrow> byte list" where
  "sample_key text = (if text = SPL_TOKEN_PROGRAM_ID then replicate 32 1 else replicate 32 2)"

definition sample_vault_call :: "int \<Rightarrow> WithdrawAccounts \<Rightarrow> DecodedInstruction" where
  "sample_vault_call n a = \<lparr>ix_programAddress = KVAULT_PROGRAM_ID,
     ix_accounts = [wf_user a, wf_vaultState a, wf_globalConfig a, wf_tokenVault a, wf_baseVaultAuthority a,
       wf_userTokenAta a, wf_tokenMint a, wf_userSharesAta a, wf_sharesMint a],
     ix_data = KVAULT_WITHDRAW_FROM_AVAILABLE_DISCRIMINATOR @ le_bytes 8 n\<rparr>"

definition sample_sdk :: settlement_sdk where
  "sample_sdk =
     \<lparr>sk_setComputeUnitLimit = \<lambda>units. \<lparr>ix_programAddress = COMPUTE_BUDGET_PROGRAM_ID, ix_accounts = [], ix_data = [2] @ le_bytes 4 units\<rparr>,
      sk_setComputeUnitPrice = \<lambda>price. \<lparr>ix_programAddress = COMPUTE_BUDGET_PROGRAM_ID, ix_accounts = [], ix_data = [3] @ le_bytes 8 price\<rparr>,
      sk_createAccount = \<lambda>payer account rent space program. \<lparr>ix_programAddress = SYSTEM_PROGRAM_ID,
        ix_accounts = [payer, account], ix_data = le_bytes 4 0 @ le_bytes 8 rent @ le_bytes 8 space @ sample_key program\<rparr>,
      sk_initializeAccount3 = \<lambda>account mint owner. \<lparr>ix_programAddress = SPL_TOKEN_PROGRAM_ID,
        ix_accounts = [account, mint], ix_data = [18] @ sample_key owner\<rparr>,
      sk_transferChecked = \<lambda>source mint destination authority amount decimals. \<lparr>ix_programAddress = SPL_TOKEN_PROGRAM_ID,
        ix_accounts = [source, mint, destination, authority], ix_data = [12] @ le_bytes 8 amount @ [word_of_int decimals]\<rparr>,
      sk_closeAccount = \<lambda>account destination owner. \<lparr>ix_programAddress = SPL_TOKEN_PROGRAM_ID,
        ix_accounts = [account, destination, owner], ix_data = [9]\<rparr>,
      sk_addMemo = \<lambda>_. \<lparr>ix_programAddress = MEMO_PROGRAM_ID, ix_accounts = [], ix_data = [112]\<rparr>,
      sk_unstakePlan = \<lambda>_ _ _. Inr [], sk_withdrawFromAvailable = sample_vault_call, sk_withdraw = \<lambda>n a _. sample_vault_call n a,
      sk_appendReserves = \<lambda>_ ix. ix, sk_globalConfig = ''config'', sk_eventAuthority = ''event'',
      sk_sharesAta = \<lambda>mint wallet. (case ataOf sample_intent_env wallet mint of Inr ata \<Rightarrow> ata | Inl _ \<Rightarrow> ''none''),
      sk_ctokenVault = \<lambda>vault reserve. reserve, sk_marketAuthority = \<lambda>market. market\<rparr>"

definition sample_settlement_context :: SettlementContext where
  "sample_settlement_context = VaultContext.extend sample_context
     \<lparr>xs_tokenVault = ''token-vault'', xs_baseVaultAuthority = ''authority'', xs_tokenMint = ''usdc'',
      xs_sharesMint = ''shares'', xs_tokenProgram = SPL_TOKEN_PROGRAM_ID, xs_allocations = [], xs_reserves = \<lambda>_. None\<rparr>"

text \<open>The first probe pays one unit too little, the second one too much: the loop adds a share.\<close>

definition sample_settlement_node :: settlement_node where
  "sample_settlement_node =
     \<lparr>bd_isAddress = \<lambda>_. True, bd_loadContext = Inr sample_settlement_context,
      bd_userShares = \<lambda>_ _. Inr (UserSharesRaw.extend
        \<lparr>us_stakedSharesRaw = 0, us_unstakedSharesRaw = 5000, us_totalSharesRaw = 5000\<rparr> \<lparr>xu_sharesAtaExists = True\<rparr>),
      bd_accountsExist = Inr (True, True), bd_rent = Inr 2039280, bd_newAccount = ''temp'', bd_lookupTables = \<lambda>_. Inr (\<lambda>_. None),
      bd_compile = \<lambda>_ _ _ _ _. Inr \<lparr>bt_messageHash = ''message-hash'', bt_serializedBase64 = ''transaction''\<rparr>,
      bd_simulate = \<lambda>n _ _. Inr (if n < 2
        then \<lparr>zs_err = JNull, zs_accounts = [Some \<lparr>za_lamports = 2039280, za_owner = SPL_TOKEN_PROGRAM_ID,
                za_data = replicate 64 0 @ le_bytes 8 (if n = 0 then 999 else 1001) @ replicate 93 0\<rparr>]\<rparr>
        else \<lparr>zs_err = JNull, zs_accounts = [None, None]\<rparr>),
      bd_signatureFor = \<lambda>_ _. Some ''signature''\<rparr>"

definition sample_builder :: settlement_builder where
  "sample_builder = \<lparr>bl_sdk = sample_sdk, bl_vaultAddress = ''vault'', bl_computeUnitLimit = 1000000,
     bl_computeUnitPriceMicroLamports = 1, bl_contextTtlMs = 5000\<rparr>"

definition sample_settlement_input :: CanonicalPaymentSettlementInput where
  "sample_settlement_input =
     \<lparr>ci_paymentId = ''pay-1'', ci_wallet = ''wallet'', ci_vault = ''vault'', ci_shareMint = ''shares'', ci_usdcMint = ''usdc'',
      ci_feePayer = Some ''sponsor'', ci_seller = ''seller'', ci_sellerRequestId = ''request'',
      ci_requestBindingHash = ''sha256-binding-hash'', ci_httpMethod = ''GET'', ci_canonicalResourceUrl = ''url'',
      ci_requestBodyHash = ''body'', ci_amountRawUsdc = 1000, ci_payTo = ''seller'', ci_sellerUsdcAta = ''seller-ata'',
      ci_dustRecipientUsdcAta = ''wallet-ata'', ci_sharesToRedeemRaw = 1020, ci_requiredWithdrawRawUsdc = 1006,
      ci_memo = ''pay-1'', ci_expiresAt = AtMs 1000\<rparr>"

definition sample_builder_state :: builder_state where
  "sample_builder_state = \<lparr>bs_cached = None, bs_rent = None, bs_simulations = 0, bs_built = []\<rparr>"

definition sample_preparation :: "(error + PreparedSettlementTransaction) \<times> builder_state" where
  "sample_preparation =
     preparePaymentSettlement sample_builder sample_settlement_node 0 sample_settlement_input sample_builder_state"

definition sample_policy :: ResolvedIntentValidationPolicy where
  "sample_policy = \<lparr>rvp_vault = iv_defaultVault sample_intent_env, rvp_maxComputeUnitLimit = 1400000,
     rvp_maxComputeUnitPriceMicroLamports = 1000000, rvp_maxTemporaryAccountLamports = 10000000\<rparr>"

definition sample_settlement_intent :: PaymentSigningIntent where
  "sample_settlement_intent =
     sample_payment_intent\<lparr>psi_amountRawUsdc := ''1000'', psi_maxSharesToRedeemRaw := ''1020''\<rparr>"

lemma sample_preparation_run:
  "case sample_preparation of
     (Inr t, s') \<Rightarrow> pt_sharesToRedeemRaw t = Some 1007 \<and> pt_temporarySettlementTokenAccount t = ''temp''
       \<and> length (bs_built s') = 3 \<and> bs_rent s' = Some 2039280
       \<and> (case bs_cached s' of None \<Rightarrow> False | Some entry \<Rightarrow>
            xs_sharesMint (cx_context entry) = ''shares'' \<and> xs_tokenMint (cx_context entry) = ''usdc'')
   | _ \<Rightarrow> False"
  by code_simp

lemma sample_sdk_conforms: "conforming_sdk sample_intent_env ''farm'' sample_key (\<lambda>_. [112]) sample_sdk"
  unfolding conforming_sdk_def sample_sdk_def
  by (auto simp: sample_key_def sample_vault_call_def vault_withdrawal_def begins_def unstake_pair_def
      intro!: exI [of _ "[]"])

lemma sample_reads_back:
  "reads_back sample_intent_env sample_key (\<lambda>_. [112]) ''wallet'' ''shares'' ''pay-1''"
proof -
  have "ataOf sample_intent_env ''wallet'' ''shares'' = Inr ''wallet-ata''" by code_simp
  then show ?thesis
    by (simp add: reads_back_def sample_key_def sample_intent_env_def SPL_TOKEN_PROGRAM_ID_def)
qed

lemma sample_settlement_numbers: "js_BigInt ''1000'' = Some 1000" "js_BigInt ''1020'' = Some 1020"
  by code_simp+

theorem prepared_settlement_is_canonical_witness:
  "\<exists>t s'. sample_preparation = (Inr t, s') \<and> pt_sharesToRedeemRaw t = Some 1007
     \<and> checkSettlementInstructions sample_intent_env sample_policy sample_settlement_intent (last (bs_built s')) = Inr ()"
proof -
  obtain t s' entry where run: "sample_preparation = (Inr t, s')" "pt_sharesToRedeemRaw t = Some 1007"
    "pt_temporarySettlementTokenAccount t = ''temp''" "bs_rent s' = Some 2039280" "bs_cached s' = Some entry"
    "xs_sharesMint (cx_context entry) = ''shares''" "xs_tokenMint (cx_context entry) = ''usdc''"
    using sample_preparation_run by (auto split: prod.splits sum.splits option.splits)
  have x: "ci_wallet sample_settlement_input = ''wallet''" "ci_memo sample_settlement_input = ''pay-1''"
    "bl_sdk sample_builder = sample_sdk" "ci_feePayer sample_settlement_input = Some ''sponsor''"
    by (simp_all add: sample_settlement_input_def sample_builder_def)
  have "intent_of sample_builder sample_settlement_input ''sponsor'' (cx_context entry) t ''farm'' sample_settlement_intent"
    by (simp add: intent_of_def run sample_settlement_intent_def sample_payment_intent_def sample_builder_def
        sample_settlement_input_def sample_settlement_numbers)
  moreover have "within_policy sample_policy sample_builder 2039280"
    by (simp add: within_policy_def sample_policy_def sample_builder_def)
  moreover have "0 \<le> ci_amountRawUsdc sample_settlement_input" "ci_sharesToRedeemRaw sample_settlement_input < U64_MAX"
    by (simp_all add: sample_settlement_input_def U64_MAX_def)
  ultimately have "checkSettlementInstructions sample_intent_env sample_policy sample_settlement_intent (last (bs_built s')) = Inr ()"
    using prepared_settlement_is_canonical [OF run(1) [unfolded sample_preparation_def], of sample_intent_env "''farm''"
        sample_key "\<lambda>_. [112]" entry 2039280 "''sponsor''" sample_policy sample_settlement_intent]
      sample_sdk_conforms sample_reads_back run x by auto
  with run(1,2) show ?thesis by blast
qed

end
