(* ===== verification/Pg_Rows.thy ===== *)
theory Pg_Rows
  imports Flow_Views Intent_Validator
begin

text \<open>
  The rows of \<open>src/src/domain/postgres-ledger.ts\<close>: how a stored object becomes the JSON of a row
  (\<open>dehydrate\<close>) and the JSON of a row an object again (\<open>hydrate*\<close>). A JavaScript object is a
  list of members; what PostgreSQL's \<open>jsonb\<close> keeps of it is its members, not their order, and the
  relation \<open>js_same\<close> is equality up to that.
\<close>

section \<open>Objects\<close>

type_synonym js_members = "(string \<times> json option) list"

definition js_field :: "js_members \<Rightarrow> string \<Rightarrow> json option" where
  "js_field members k = Option.bind (map_of members k) id"

definition js_put :: "string \<Rightarrow> json \<Rightarrow> js_members \<Rightarrow> js_members" where
  "js_put k v members = AList.update k (Some v) members"

lemma js_field_put [simp]: "js_field (js_put k v members) k' = (if k' = k then Some v else js_field members k')"
  by (simp add: js_field_def js_put_def update_conv')

text \<open>\<open>String(value)\<close>; an array is its elements, with nothing for \<open>null\<close>, joined by commas.\<close>

fun js_String :: "json \<Rightarrow> string" where
  "js_String JNull = ''null''"
| "js_String (JBool b) = (if b then ''true'' else ''false'')"
| "js_String (JNumber i) = toString i"
| "js_String (JBigint i) = toString i"
| "js_String (JString s) = s"
| "js_String (JArray xs) = join (CHR '','') (map (\<lambda>x. if x = JNull then [] else js_String x) xs)"
| "js_String (JObject members) = ''[object Object]''"

definition js_StringO :: "json option \<Rightarrow> string" where
  "js_StringO v = (case v of None \<Rightarrow> ''undefined'' | Some x \<Rightarrow> js_String x)"

section \<open>Writing and reading a row\<close>

text \<open>\<open>JSON.parse(JSON.stringify(value, replacer))\<close>: a \<open>bigint\<close> is its text, what is undefined is dropped.\<close>

fun dehydrate :: "json \<Rightarrow> json" where
  "dehydrate (JBigint i) = JString (toString i)"
| "dehydrate (JArray xs) = JArray (map dehydrate xs)"
| "dehydrate (JObject members) =
     JObject (filter (\<lambda>(k, v). v \<noteq> None) (map (\<lambda>(k, v). (k, map_option dehydrate v)) members))"
| "dehydrate v = v"

text \<open>The members of a dehydrated object.\<close>

definition dehydrated :: "js_members \<Rightarrow> js_members" where
  "dehydrated members = filter (\<lambda>(k, v). v \<noteq> None) (map (\<lambda>(k, v). (k, map_option dehydrate v)) members)"

definition POSITION_BIGINT_FIELDS :: "string list" where
  "POSITION_BIGINT_FIELDS =
     [''stakedSharesRaw'', ''unstakedSharesRaw'', ''totalSharesRaw'', ''exchangeRateScaled'', ''instantRedeemCapacityRawUsdc'',
      ''principalBasisRawUsdc'', ''reservedRawUsdc'', ''feeDebtRawUsdc'', ''safetyBufferRawUsdc'']"

definition PAYMENT_BIGINT_FIELDS :: "string list" where
  "PAYMENT_BIGINT_FIELDS =
     [''amountRawUsdc'', ''sharesToRedeemRaw'', ''requiredWithdrawRawUsdc'', ''estimatedFeeLamports'',
      ''estimatedFeeDebtRawUsdc'', ''principalBasisBeforeRawUsdc'', ''grossYieldBeforeRawUsdc'',
      ''spendableYieldBeforeRawUsdc'', ''postPositionValueRawUsdc'', ''reservationRawUsdc'']"

definition DEPOSIT_BIGINT_FIELDS :: "string list" where
  "DEPOSIT_BIGINT_FIELDS = [''amountRawUsdc'', ''principalBasisBeforeRawUsdc'']"

definition DEPOSIT_NULLABLE_BIGINT_FIELDS :: "string list" where
  "DEPOSIT_NULLABLE_BIGINT_FIELDS = [''actualDepositRawUsdc'', ''sharesMintedRaw'', ''principalBasisAfterRawUsdc'']"

definition WITHDRAWAL_BIGINT_FIELDS :: "string list" where
  "WITHDRAWAL_BIGINT_FIELDS =
     [''requestedWithdrawRawUsdc'', ''requestedSharesRaw'', ''maxSharesToRedeemRaw'', ''principalBasisBeforeRawUsdc'']"

definition WITHDRAWAL_NULLABLE_BIGINT_FIELDS :: "string list" where
  "WITHDRAWAL_NULLABLE_BIGINT_FIELDS = [''actualSharesBurnedRaw'', ''actualWithdrawRawUsdc'', ''principalBasisAfterRawUsdc'']"

text \<open>\<open>next[field] = BigInt(String(data[field]))\<close> for each field, and the same where \<open>null\<close> stays.\<close>

fun hydrateBigints :: "string list \<Rightarrow> js_members \<Rightarrow> js_members \<Rightarrow> js_members result" where
  "hydrateBigints [] data object = Inr object"
| "hydrateBigints (f # fs) data object =
     bindR (BigIntR (js_StringO (js_field data f))) (\<lambda>n. hydrateBigints fs data (js_put f (JBigint n) object))"

fun hydrateNullable :: "string list \<Rightarrow> js_members \<Rightarrow> js_members \<Rightarrow> js_members result" where
  "hydrateNullable [] data object = Inr object"
| "hydrateNullable (f # fs) data object =
     (if js_field data f = Some JNull \<or> js_field data f = None then hydrateNullable fs data (js_put f JNull object)
      else bindR (BigIntR (js_StringO (js_field data f))) (\<lambda>n. hydrateNullable fs data (js_put f (JBigint n) object)))"

text \<open>\<open>next[field] = data[field] ?? null\<close>.\<close>

definition orNull :: "string \<Rightarrow> js_members \<Rightarrow> js_members \<Rightarrow> js_members" where
  "orNull f data object = js_put f (case js_field data f of None \<Rightarrow> JNull | Some v \<Rightarrow> v) object"

definition hydrateProvenance :: "json \<Rightarrow> json result" where
  "hydrateProvenance entry = (case entry of
       JObject members \<Rightarrow> bindR (hydrateBigints [''normalizedRawUnits''] members members) (\<lambda>object. Inr (JObject object))
     | JNull \<Rightarrow> Inl (JsError ''TypeError'')
     | _ \<Rightarrow> Inl (JsError ''SyntaxError''))"

fun hydrateEach :: "json list \<Rightarrow> json list result" where
  "hydrateEach [] = Inr []"
| "hydrateEach (x # xs) = bindR (hydrateProvenance x) (\<lambda>y. bindR (hydrateEach xs) (\<lambda>ys. Inr (y # ys)))"

definition hydrateProvenanceList :: "json option \<Rightarrow> json result" where
  "hydrateProvenanceList v = (case v of
       Some (JArray xs) \<Rightarrow> bindR (hydrateEach xs) (\<lambda>ys. Inr (JArray ys))
     | _ \<Rightarrow> Inr (JArray []))"

definition hydrateWalletPosition :: "js_members \<Rightarrow> js_members result" where
  "hydrateWalletPosition data =
     bindR (hydrateBigints POSITION_BIGINT_FIELDS data data) (\<lambda>object.
     bindR (hydrateProvenanceList (js_field data ''kaminoPositionSnapshot'')) (\<lambda>position.
     bindR (hydrateProvenanceList (js_field data ''kaminoPnlSnapshot'')) (\<lambda>pnl.
     Inr (js_put ''kaminoPnlSnapshot'' pnl (js_put ''kaminoPositionSnapshot'' position
       (js_put ''signerValidationMode''
         (JString (if js_field data ''signerValidationMode'' = Some (JString ''structured_intent_transaction'')
           then ''structured_intent_transaction'' else ''unverified'')) object))))))"

definition hydratePaymentIntent :: "js_members \<Rightarrow> js_members result" where
  "hydratePaymentIntent data =
     bindR (hydrateBigints PAYMENT_BIGINT_FIELDS data data) (\<lambda>object.
     Inr (js_put ''submittedSerializedTransaction''
       (case js_field data ''submittedSerializedTransaction'' of Some (JString s) \<Rightarrow> JString s | _ \<Rightarrow> JNull) object))"

definition hydrateDepositIntent :: "js_members \<Rightarrow> js_members result" where
  "hydrateDepositIntent data =
     bindR (hydrateBigints DEPOSIT_BIGINT_FIELDS data data) (\<lambda>object.
     bindR (hydrateNullable DEPOSIT_NULLABLE_BIGINT_FIELDS data object) (\<lambda>object.
     Inr (orNull ''approvalId'' data (orNull ''policyDecision'' data (orNull ''mandateHash'' data
       (orNull ''policySource'' data object))))))"

definition hydrateWithdrawalIntent :: "js_members \<Rightarrow> js_members result" where
  "hydrateWithdrawalIntent data =
     bindR (hydrateBigints WITHDRAWAL_BIGINT_FIELDS data data) (\<lambda>object.
     bindR (hydrateNullable WITHDRAWAL_NULLABLE_BIGINT_FIELDS data object) (\<lambda>object.
     Inr (orNull ''paymentVerification'' data (orNull ''paymentTxSignature'' data
       (orNull ''approvalId'' data (orNull ''policyDecision'' data (orNull ''mandateHash'' data
       (orNull ''policySource'' data (orNull ''paymentBinding'' data
       (js_put ''purpose'' (JString (if js_field data ''purpose'' = Some (JString ''yield_realize'')
         then ''yield_realize'' else ''normal'')) object))))))))))"

definition hydrateSyncEvent :: "js_members \<Rightarrow> js_members result" where
  "hydrateSyncEvent data = hydrateBigints [''deltaSharesRaw'', ''deltaPrincipalRawUsdc''] data data"

section \<open>The stored objects\<close>

definition opt_iso :: "timestamp option \<Rightarrow> json" where
  "opt_iso t = (case t of None \<Rightarrow> JNull | Some t \<Rightarrow> JString (iso_text t))"

definition opt_bigint :: "int option \<Rightarrow> json" where
  "opt_bigint x = (case x of None \<Rightarrow> JNull | Some n \<Rightarrow> JBigint n)"

definition defined_members :: "(string \<times> json) list \<Rightarrow> js_members" where
  "defined_members kvs = map (\<lambda>(k, v). (k, Some v)) kvs"

definition UnitKind_string :: "UnitKind \<Rightarrow> string" where
  "UnitKind_string x = (case x of raw_usdc \<Rightarrow> ''raw_usdc'' | raw_vault_shares \<Rightarrow> ''raw_vault_shares''
     | decimal_usdc \<Rightarrow> ''decimal_usdc'' | decimal_vault_shares \<Rightarrow> ''decimal_vault_shares''
     | exchange_rate_scaled \<Rightarrow> ''exchange_rate_scaled'')"

definition provenanceObject :: "ProvenancedRawValue \<Rightarrow> json" where
  "provenanceObject v = JObject (defined_members
     ([(''sourceEndpoint'', JString (pv_sourceEndpoint v)), (''fieldPath'', JString (pv_fieldPath v)),
       (''rawValue'', JString (pv_rawValue v)), (''unitKind'', JString (UnitKind_string (pv_unitKind v))),
       (''normalizedRawUnits'', JBigint (pv_normalizedRawUnits v))]
      @ (case pv_observedAt v of None \<Rightarrow> [] | Some t \<Rightarrow> [(''observedAt'', JString (iso_text t))])
      @ (case pv_observedSlot v of None \<Rightarrow> [] | Some n \<Rightarrow> [(''observedSlot'', JNumber n)])))"

definition positionObject :: "WalletPosition \<Rightarrow> js_members" where
  "positionObject p = defined_members
     [(''wallet'', JString (pos_wallet p)), (''vault'', JString (pos_vault p)),
      (''signingPolicyId'', opt_string (pos_signingPolicyId p)),
      (''signingMode'', JString (SigningMode_string (pos_signingMode p))),
      (''signerValidationMode'', JString (SignerValidationMode_string (pos_signerValidationMode p))),
      (''signerProvider'', JString (pos_signerProvider p)),
      (''stakedSharesRaw'', JBigint (pos_stakedSharesRaw p)), (''unstakedSharesRaw'', JBigint (pos_unstakedSharesRaw p)),
      (''totalSharesRaw'', JBigint (pos_totalSharesRaw p)), (''exchangeRateScaled'', JBigint (pos_exchangeRateScaled p)),
      (''instantRedeemCapacityRawUsdc'', JBigint (pos_instantRedeemCapacityRawUsdc p)),
      (''principalBasisRawUsdc'', JBigint (pos_principalBasisRawUsdc p)),
      (''principalBasisSource'', JString (PrincipalBasisSource_string (pos_principalBasisSource p))),
      (''reservedRawUsdc'', JBigint (pos_reservedRawUsdc p)), (''feeDebtRawUsdc'', JBigint (pos_feeDebtRawUsdc p)),
      (''safetyBufferRawUsdc'', JBigint (pos_safetyBufferRawUsdc p)),
      (''kaminoPositionSnapshot'', JArray (map provenanceObject (pos_kaminoPositionSnapshot p))),
      (''kaminoPnlSnapshot'', JArray (map provenanceObject (pos_kaminoPnlSnapshot p))),
      (''lastSyncedSlot'', opt_number (pos_lastSyncedSlot p)), (''version'', JNumber (pos_version p)),
      (''status'', JString (WalletPositionStatus_string (pos_status p)))]"

definition depositObject :: "DepositIntent \<Rightarrow> js_members" where
  "depositObject d = defined_members
     [(''depositId'', JString (dep_depositId d)), (''wallet'', JString (dep_wallet d)), (''vault'', JString (dep_vault d)),
      (''amountRawUsdc'', JBigint (dep_amountRawUsdc d)), (''policySource'', opt_string (dep_policySource d)),
      (''mandateHash'', opt_string (dep_mandateHash d)), (''policyDecision'', opt_string (dep_policyDecision d)),
      (''approvalId'', opt_string (dep_approvalId d)), (''preparedMessageHash'', JString (dep_preparedMessageHash d)),
      (''recentBlockhash'', opt_string (dep_recentBlockhash d)), (''lastValidBlockHeight'', opt_number (dep_lastValidBlockHeight d)),
      (''serializedTransaction'', JString (dep_serializedTransaction d)), (''txSignature'', opt_string (dep_txSignature d)),
      (''submittedSerializedTransaction'', opt_string (dep_submittedSerializedTransaction d)),
      (''actualDepositRawUsdc'', opt_bigint (dep_actualDepositRawUsdc d)),
      (''sharesMintedRaw'', opt_bigint (dep_sharesMintedRaw d)),
      (''principalBasisBeforeRawUsdc'', JBigint (dep_principalBasisBeforeRawUsdc d)),
      (''principalBasisAfterRawUsdc'', opt_bigint (dep_principalBasisAfterRawUsdc d)),
      (''status'', JString (VaultFlowStatus_string (dep_status d))), (''expiresAt'', JString (iso_text (dep_expiresAt d))),
      (''submittedAt'', opt_iso (dep_submittedAt d)), (''terminalAt'', opt_iso (dep_terminalAt d)),
      (''errorCode'', opt_string (dep_errorCode d))]"

definition withdrawalObject :: "WithdrawalIntent \<Rightarrow> js_members" where
  "withdrawalObject w = defined_members
     [(''withdrawalId'', JString (wdr_withdrawalId w)), (''wallet'', JString (wdr_wallet w)), (''vault'', JString (wdr_vault w)),
      (''purpose'', JString (WithdrawalPurpose_string (wdr_purpose w))),
      (''paymentBinding'', paymentBindingJson (wdr_paymentBinding w)), (''policySource'', opt_string (wdr_policySource w)),
      (''mandateHash'', opt_string (wdr_mandateHash w)), (''policyDecision'', opt_string (wdr_policyDecision w)),
      (''approvalId'', opt_string (wdr_approvalId w)), (''paymentTxSignature'', opt_string (wdr_paymentTxSignature w)),
      (''paymentVerification'', case wdr_paymentVerification w of None \<Rightarrow> JNull
         | Some v \<Rightarrow> JString (PaymentVerification_string v)),
      (''requestedWithdrawRawUsdc'', JBigint (wdr_requestedWithdrawRawUsdc w)),
      (''requestedSharesRaw'', JBigint (wdr_requestedSharesRaw w)), (''maxSharesToRedeemRaw'', JBigint (wdr_maxSharesToRedeemRaw w)),
      (''destinationUsdcAta'', JString (wdr_destinationUsdcAta w)), (''preparedMessageHash'', JString (wdr_preparedMessageHash w)),
      (''recentBlockhash'', opt_string (wdr_recentBlockhash w)), (''lastValidBlockHeight'', opt_number (wdr_lastValidBlockHeight w)),
      (''serializedTransaction'', JString (wdr_serializedTransaction w)), (''txSignature'', opt_string (wdr_txSignature w)),
      (''submittedSerializedTransaction'', opt_string (wdr_submittedSerializedTransaction w)),
      (''actualSharesBurnedRaw'', opt_bigint (wdr_actualSharesBurnedRaw w)),
      (''actualWithdrawRawUsdc'', opt_bigint (wdr_actualWithdrawRawUsdc w)),
      (''principalBasisBeforeRawUsdc'', JBigint (wdr_principalBasisBeforeRawUsdc w)),
      (''principalBasisAfterRawUsdc'', opt_bigint (wdr_principalBasisAfterRawUsdc w)),
      (''status'', JString (VaultFlowStatus_string (wdr_status w))), (''expiresAt'', JString (iso_text (wdr_expiresAt w))),
      (''submittedAt'', opt_iso (wdr_submittedAt w)), (''terminalAt'', opt_iso (wdr_terminalAt w)),
      (''errorCode'', opt_string (wdr_errorCode w)), (''liquidityRejectionReason'', opt_string (wdr_liquidityRejectionReason w))]"

definition paymentObject :: "PaymentIntent \<Rightarrow> js_members" where
  "paymentObject p = defined_members
     [(''paymentId'', JString (pay_paymentId p)), (''wallet'', JString (pay_wallet p)), (''vault'', JString (pay_vault p)),
      (''seller'', JString (pay_seller p)), (''sellerRequestId'', JString (pay_sellerRequestId p)),
      (''httpMethod'', JString (pay_httpMethod p)), (''canonicalResourceUrl'', JString (pay_canonicalResourceUrl p)),
      (''requestBodyHash'', JString (pay_requestBodyHash p)), (''requestBindingHash'', JString (pay_requestBindingHash p)),
      (''asset'', JString (pay_asset p)), (''amountRawUsdc'', JBigint (pay_amountRawUsdc p)), (''payTo'', JString (pay_payTo p)),
      (''sellerUsdcAta'', JString (pay_sellerUsdcAta p)), (''dustRecipientUsdcAta'', JString (pay_dustRecipientUsdcAta p)),
      (''signingPolicyId'', JString (pay_signingPolicyId p)), (''preparedMessageHash'', JString (pay_preparedMessageHash p)),
      (''recentBlockhash'', opt_string (pay_recentBlockhash p)), (''lastValidBlockHeight'', opt_number (pay_lastValidBlockHeight p)),
      (''temporarySettlementTokenAccount'', JString (pay_temporarySettlementTokenAccount p)),
      (''temporarySettlementSignature'', JString (pay_temporarySettlementSignature p)),
      (''sharesToRedeemRaw'', JBigint (pay_sharesToRedeemRaw p)), (''requiredWithdrawRawUsdc'', JBigint (pay_requiredWithdrawRawUsdc p)),
      (''estimatedFeeLamports'', JBigint (pay_estimatedFeeLamports p)),
      (''estimatedFeeDebtRawUsdc'', JBigint (pay_estimatedFeeDebtRawUsdc p)),
      (''principalBasisBeforeRawUsdc'', JBigint (pay_principalBasisBeforeRawUsdc p)),
      (''grossYieldBeforeRawUsdc'', JBigint (pay_grossYieldBeforeRawUsdc p)),
      (''spendableYieldBeforeRawUsdc'', JBigint (pay_spendableYieldBeforeRawUsdc p)),
      (''postPositionValueRawUsdc'', JBigint (pay_postPositionValueRawUsdc p)),
      (''reservationRawUsdc'', JBigint (pay_reservationRawUsdc p)), (''status'', JString (PaymentStatus_string (pay_status p))),
      (''expiresAt'', JString (iso_text (pay_expiresAt p))), (''submittedAt'', opt_iso (pay_submittedAt p)),
      (''terminalAt'', opt_iso (pay_terminalAt p)), (''txSignature'', opt_string (pay_txSignature p)),
      (''submittedSerializedTransaction'', opt_string (pay_submittedSerializedTransaction p)),
      (''settlementResponse'', opt_json (pay_settlementResponse p)), (''intentJson'', pay_intentJson p)]"

definition syncEventObject :: "SyncEvent \<Rightarrow> js_members" where
  "syncEventObject e = defined_members
     [(''eventId'', JString (ev_eventId e)), (''wallet'', JString (ev_wallet e)), (''vault'', JString (ev_vault e)),
      (''eventType'', JString (SyncEventType_string (ev_eventType e))), (''txSignature'', opt_string (ev_txSignature e)),
      (''deltaSharesRaw'', JBigint (ev_deltaSharesRaw e)), (''deltaPrincipalRawUsdc'', JBigint (ev_deltaPrincipalRawUsdc e)),
      (''classification'', JString (ev_classification e)), (''sourceEndpoint'', JString (ev_sourceEndpoint e)),
      (''rawSnapshot'', ev_rawSnapshot e), (''slot'', opt_number (ev_slot e)),
      (''observedAt'', JString (iso_text (ev_observedAt e)))]"

section \<open>Equality up to the order of members\<close>

inductive js_same :: "json \<Rightarrow> json \<Rightarrow> bool" where
  same_null: "js_same JNull JNull"
| same_bool: "js_same (JBool b) (JBool b)"
| same_number: "js_same (JNumber i) (JNumber i)"
| same_bigint: "js_same (JBigint i) (JBigint i)"
| same_string: "js_same (JString s) (JString s)"
| same_array: "list_all2 js_same xs ys \<Longrightarrow> js_same (JArray xs) (JArray ys)"
| same_object: "(\<And>k. rel_option js_same (js_field xs k) (js_field ys k)) \<Longrightarrow> js_same (JObject xs) (JObject ys)"

inductive_simps js_same_simps [simp]:
  "js_same v JNull" "js_same v (JBool b)" "js_same v (JNumber i)" "js_same v (JBigint i)" "js_same v (JString s)"
  "js_same v (JArray xs)" "js_same v (JObject members)"

definition members_same :: "js_members \<Rightarrow> js_members \<Rightarrow> bool" where
  "members_same xs ys \<longleftrightarrow> (\<forall>k. rel_option js_same (js_field xs k) (js_field ys k))"

lemma same_members: "js_same (JObject xs) (JObject ys) \<longleftrightarrow> members_same xs ys"
  by (auto simp: members_same_def)

lemma js_field_Cons: "js_field ((k, v) # members) k' = (if k' = k then v else js_field members k')"
  by (simp add: js_field_def)

lemma js_field_Nil [simp]: "js_field [] k = None"
  by (simp add: js_field_def)

lemma js_field_mem: "js_field members k = Some v \<Longrightarrow> (k, Some v) \<in> set members"
  by (auto simp: js_field_def bind_eq_Some_conv dest: map_of_SomeD)

lemma js_same_refl: "js_same v v"
proof (induction v)
  case (JArray xs)
  then show ?case by (simp add: list_all2_same)
next
  case (JObject members)
  have "rel_option js_same (js_field members k) (js_field members k)" for k
  proof (cases "js_field members k")
    case (Some v)
    then show ?thesis using JObject js_field_mem[OF Some] by fastforce
  qed simp
  then show ?case by simp
qed simp_all
end
