(* ===== verification/Pg_Roundtrip.thy ===== *)
theory Pg_Roundtrip
  imports Pg_Rows
begin

text \<open>
  Reading a row gives back the object that was written, whatever order PostgreSQL puts its members in.
\<close>

section \<open>BigInt of a printed integer\<close>

lemma base_digit_digit: "is_digit c \<Longrightarrow> base_digit c = Some (digit_value c) \<and> digit_value c < 10"
proof -
  assume "is_digit c"
  moreover have "(of_char c :: int) = int (of_char c)" by (simp add: of_nat_of_char)
  ultimately show ?thesis by (auto simp: base_digit_def digit_value_def is_digit_def Let_def)
qed

lemma base_digits_BigInt:
  "list_all is_digit s \<Longrightarrow> base_digits 10 s acc = Some (foldl (\<lambda>a c. 10 * a + digit_value c) acc s)"
  by (induction s arbitrary: acc) (auto simp: base_digit_digit mult.commute)

lemma digit_no_space: "is_digit c \<Longrightarrow> \<not> js_space c"
  by (auto simp: is_digit_def js_space_def)

lemma trim_unspaced: "list_all (\<lambda>c. \<not> js_space c) s \<Longrightarrow> js_trim s = s"
proof -
  have "dropWhile js_space t = t" if "list_all (\<lambda>c. \<not> js_space c) t" for t
    using that by (cases t) auto
  then show "list_all (\<lambda>c. \<not> js_space c) s \<Longrightarrow> js_trim s = s" by (simp add: js_trim_def)
qed

lemma digits_no_prefix: "list_all is_digit s \<Longrightarrow> take 2 s \<notin> {''0x'', ''0X'', ''0o'', ''0O'', ''0b'', ''0B''}"
  by (cases s; cases "tl s") (auto simp: is_digit_def)

lemma js_BigInt_toString [simp]: "js_BigInt (toString n) = Some n"
proof -
  let ?s = "nat_toString (nat \<bar>n\<bar>)"
  have d: "list_all is_digit ?s" "?s \<noteq> []" "BigInt ?s = \<bar>n\<bar>"
    using nat_toString[of "nat \<bar>n\<bar>"] nat_toString_digits by auto
  have unspaced: "list_all (\<lambda>c. \<not> js_space c) ?s"
    using d(1) digit_no_space by (auto simp: list_all_iff)
  have parsed: "nonempty_digits 10 ?s = Some \<bar>n\<bar>"
    using d by (simp add: nonempty_digits_def base_digits_BigInt BigInt_def)
  show ?thesis
  proof (cases "n < 0")
    case True
    have "\<not> js_space CHR ''-''" by (simp add: js_space_def)
    then show ?thesis
      using True unspaced parsed by (simp add: toString_def js_BigInt_def Let_def trim_unspaced)
  next
    case False
    obtain c cs where "?s = c # cs" "is_digit c" using d(1,2) by (cases ?s) auto
    then have "hd ?s \<noteq> CHR ''-''" "hd ?s \<noteq> CHR ''+''" by (auto simp: is_digit_def)
    then show ?thesis
      using False unspaced parsed d(2) digits_no_prefix[OF d(1)]
      by (simp add: toString_def js_BigInt_def Let_def trim_unspaced)
  qed
qed

section \<open>Values without big integers\<close>

lemma js_same_object: "js_same w (JObject members) \<longleftrightarrow> (\<exists>ns. w = JObject ns \<and> members_same ns members)"
  by (auto simp: members_same_def)

inductive plain_json :: "json \<Rightarrow> bool" where
  plain_null: "plain_json JNull"
| plain_bool: "plain_json (JBool b)"
| plain_number: "plain_json (JNumber i)"
| plain_string: "plain_json (JString s)"
| plain_array: "(\<And>x. x \<in> set xs \<Longrightarrow> plain_json x) \<Longrightarrow> plain_json (JArray xs)"
| plain_object: "distinct (map fst members) \<Longrightarrow> (\<And>k v. (k, Some v) \<in> set members \<Longrightarrow> plain_json v) \<Longrightarrow>
    plain_json (JObject members)"

inductive_simps plain_json_simps [simp]:
  "plain_json JNull" "plain_json (JBool b)" "plain_json (JNumber i)" "plain_json (JBigint i)" "plain_json (JString s)"
  "plain_json (JArray xs)" "plain_json (JObject members)"

lemma dehydrate_object: "dehydrate (JObject members) = JObject (dehydrated members)"
  by (simp add: dehydrated_def)

lemma map_of_None_absent: "k \<notin> fst ` set members \<Longrightarrow> map_of members k = None"
  by (simp add: map_of_eq_None_iff)

lemma field_dehydrated:
  "distinct (map fst members) \<Longrightarrow> js_field (dehydrated members) k = map_option dehydrate (js_field members k)"
proof (induction members)
  case (Cons m members)
  obtain k' v where m: "m = (k', v)" by (cases m)
  have "k' \<notin> fst ` set (dehydrated members)" using Cons.prems by (auto simp: m dehydrated_def image_iff)
  then have "js_field (dehydrated members) k' = None" by (simp add: js_field_def map_of_None_absent)
  then show ?case
    using Cons.IH Cons.prems by (cases v) (auto simp: m dehydrated_def js_field_Cons)
qed (simp add: dehydrated_def)

lemma same_dehydrated: "plain_json v \<Longrightarrow> js_same w (dehydrate v) \<Longrightarrow> js_same w v"
proof (induction v arbitrary: w rule: plain_json.induct)
  case (plain_array xs)
  from plain_array.prems obtain ys where w: "w = JArray ys" "list_all2 js_same ys (map dehydrate xs)" by auto
  then show ?case using plain_array.IH by (auto simp: list_all2_conv_all_nth)
next
  case (plain_object members)
  from plain_object.prems obtain ns where w: "w = JObject ns" "members_same ns (dehydrated members)"
    by (auto simp: members_same_def dehydrated_def)
  have "rel_option js_same (js_field ns k) (js_field members k)" for k
  proof -
    have "rel_option js_same (js_field ns k) (map_option dehydrate (js_field members k))"
      using w(2) plain_object.hyps(1) by (simp add: members_same_def field_dehydrated)
    then show ?thesis
      using plain_object.IH[OF js_field_mem] by (cases "js_field members k"; cases "js_field ns k") auto
  qed
  then show ?case by (simp add: w(1))
qed auto

section \<open>Hydration\<close>

definition stored :: "js_members \<Rightarrow> js_members \<Rightarrow> bool" where
  "stored data object \<longleftrightarrow> distinct (map fst object) \<and> members_same data (dehydrated object)"

lemma stored_field:
  "stored data object \<Longrightarrow> rel_option js_same (js_field data k) (map_option dehydrate (js_field object k))"
  unfolding stored_def members_same_def using field_dehydrated by metis

lemma stored_bigint: "stored data object \<Longrightarrow> js_field object k = Some (JBigint n) \<Longrightarrow>
    js_field data k = Some (JString (toString n))"
  using stored_field[of data object k] by (cases "js_field data k") auto

lemma stored_nullable: "stored data object \<Longrightarrow> js_field object k = Some (opt_bigint x) \<Longrightarrow>
    js_field data k = Some (case x of None \<Rightarrow> JNull | Some n \<Rightarrow> JString (toString n))"
  using stored_field[of data object k] by (cases "js_field data k"; cases x) (auto simp: opt_bigint_def)

lemma stored_plain: "stored data object \<Longrightarrow> (\<And>v. js_field object k = Some v \<Longrightarrow> plain_json v) \<Longrightarrow>
    rel_option js_same (js_field data k) (js_field object k)"
  using stored_field[of data object k] same_dehydrated
  by (cases "js_field data k"; cases "js_field object k") auto

lemma hydrateBigints_run:
  assumes "stored data object" "\<And>f. f \<in> set fs \<Longrightarrow> \<exists>n. js_field object f = Some (JBigint n)"
  shows "\<exists>res. hydrateBigints fs data m = Inr res \<and>
    (\<forall>k. js_field res k = (if k \<in> set fs then js_field object k else js_field m k))"
  using assms(2)
proof (induction fs arbitrary: m)
  case (Cons f fs)
  obtain n where n: "js_field object f = Some (JBigint n)" using Cons.prems[of f] by auto
  have "js_field data f = Some (JString (toString n))" by (rule stored_bigint[OF assms(1) n])
  then have "hydrateBigints (f # fs) data m = hydrateBigints fs data (js_put f (JBigint n) m)"
    by (simp add: js_StringO_def BigIntR_def bindR_def)
  with Cons.IH[of "js_put f (JBigint n) m"] Cons.prems n show ?case by auto
qed simp

lemma hydrateNullable_run:
  assumes "stored data object" "\<And>f. f \<in> set fs \<Longrightarrow> \<exists>x. js_field object f = Some (opt_bigint x)"
  shows "\<exists>res. hydrateNullable fs data m = Inr res \<and>
    (\<forall>k. js_field res k = (if k \<in> set fs then js_field object k else js_field m k))"
  using assms(2)
proof (induction fs arbitrary: m)
  case (Cons f fs)
  obtain x where x: "js_field object f = Some (opt_bigint x)" using Cons.prems[of f] by auto
  have "js_field data f = Some (case x of None \<Rightarrow> JNull | Some n \<Rightarrow> JString (toString n))"
    by (rule stored_nullable[OF assms(1) x])
  then have "hydrateNullable (f # fs) data m = hydrateNullable fs data (js_put f (opt_bigint x) m)"
    by (cases x) (simp_all add: js_StringO_def BigIntR_def bindR_def opt_bigint_def)
  with Cons.IH[of "js_put f (opt_bigint x) m"] Cons.prems x show ?case by auto
qed simp

lemma members_sameI:
  assumes "stored data object" "\<And>k. k \<notin> F \<Longrightarrow> js_field res k = js_field data k"
    and "\<And>k. k \<in> F \<Longrightarrow> rel_option js_same (js_field res k) (js_field object k)"
    and "\<And>k v. k \<notin> F \<Longrightarrow> js_field object k = Some v \<Longrightarrow> plain_json v"
  shows "members_same res object"
  unfolding members_same_def using stored_plain[OF assms(1)] assms(2-4) by metis

section \<open>The round trips\<close>

lemma plain_parts [simp]:
  "plain_json (opt_string x)" "plain_json (opt_number n)" "plain_json (opt_iso t)" "plain_json (paymentBindingJson b)"
  by (auto simp: opt_string_def opt_number_def opt_iso_def paymentBindingJson_def obj_def split: option.split)

lemma js_field_defined: "js_field (defined_members kvs) k = map_of kvs k"
proof -
  have "map_of (defined_members kvs) k = map_option Some (map_of kvs k)"
    by (induction kvs) (auto simp: defined_members_def)
  then show ?thesis by (cases "map_of kvs k") (simp_all add: js_field_def)
qed

lemma distinct_defined: "map fst (defined_members kvs) = map fst kvs"
  by (auto simp: defined_members_def)

lemma plain_defined: "js_field (defined_members kvs) k = Some v \<Longrightarrow> k \<notin> F \<Longrightarrow>
    list_all (\<lambda>(k, v). k \<in> F \<or> plain_json v) kvs \<Longrightarrow> plain_json v"
  by (auto simp: js_field_defined list_all_iff dest: map_of_SomeD)

lemma hydrateProvenance_run:
  assumes "js_same y (dehydrate (provenanceObject v))"
  shows "\<exists>z. hydrateProvenance y = Inr z \<and> js_same z (provenanceObject v)"
proof -
  define kvs where "kvs = [(''sourceEndpoint'', JString (pv_sourceEndpoint v)), (''fieldPath'', JString (pv_fieldPath v)),
       (''rawValue'', JString (pv_rawValue v)), (''unitKind'', JString (UnitKind_string (pv_unitKind v))),
       (''normalizedRawUnits'', JBigint (pv_normalizedRawUnits v))]
      @ (case pv_observedAt v of None \<Rightarrow> [] | Some t \<Rightarrow> [(''observedAt'', JString (iso_text t))])
      @ (case pv_observedSlot v of None \<Rightarrow> [] | Some n \<Rightarrow> [(''observedSlot'', JNumber n)])"
  have object: "provenanceObject v = JObject (defined_members kvs)"
    by (simp add: provenanceObject_def kvs_def)
  obtain data where y: "y = JObject data" "members_same data (dehydrated (defined_members kvs))"
    using assms unfolding object dehydrate_object js_same_object by blast
  have st: "stored data (defined_members kvs)"
    using y(2) by (auto simp: stored_def distinct_defined kvs_def split: option.split)
  have "js_field (defined_members kvs) ''normalizedRawUnits'' = Some (JBigint (pv_normalizedRawUnits v))"
    by (simp add: js_field_defined kvs_def)
  then obtain res where res: "hydrateBigints [''normalizedRawUnits''] data data = Inr res"
    "\<forall>k. js_field res k = (if k \<in> {''normalizedRawUnits''} then js_field (defined_members kvs) k else js_field data k)"
    using hydrateBigints_run[OF st, of "[''normalizedRawUnits'']" data] by auto
  have "members_same res (defined_members kvs)"
    by (rule members_sameI[OF st, of "{''normalizedRawUnits''}"])
      (use res(2) js_same_refl plain_defined[of kvs _ _ "{''normalizedRawUnits''}"] in
        \<open>auto simp: option.rel_refl kvs_def split: option.splits\<close>)
  then show ?thesis
    by (simp add: y(1) hydrateProvenance_def res(1) bindR_def object members_same_def del: hydrateBigints.simps)
qed

lemma hydrateProvenanceList_run:
  assumes "rel_option js_same x (Some (dehydrate (JArray (map provenanceObject vs))))"
  shows "\<exists>z. hydrateProvenanceList x = Inr z \<and> js_same z (JArray (map provenanceObject vs))"
proof -
  have "list_all2 js_same ys (map dehydrate (map provenanceObject vs)) \<Longrightarrow>
      \<exists>zs. hydrateEach ys = Inr zs \<and> list_all2 js_same zs (map provenanceObject vs)" for ys
  proof (induction vs arbitrary: ys)
    case (Cons v vs)
    then obtain y ys' where ys: "ys = y # ys'" "js_same y (dehydrate (provenanceObject v))"
      "list_all2 js_same ys' (map dehydrate (map provenanceObject vs))"
      by (auto simp: list_all2_Cons2)
    from hydrateProvenance_run[OF ys(2)] Cons.IH[OF ys(3)] show ?case
      by (auto simp: ys(1) bindR_def)
  qed simp
  then show ?thesis
    using assms by (cases x) (fastforce simp: hydrateProvenanceList_def bindR_def)+
qed

lemma same_refl_opt: "rel_option js_same x x"
  by (simp add: option.rel_refl js_same_refl)

lemma position_roundtrip:
  assumes "stored data (positionObject p)"
  shows "\<exists>members. hydrateWalletPosition data = Inr members \<and> members_same members (positionObject p)"
proof -
  let ?F = "set POSITION_BIGINT_FIELDS"
  let ?G = "{''signerValidationMode'', ''kaminoPositionSnapshot'', ''kaminoPnlSnapshot''} \<union> ?F"
  have "list_all (\<lambda>f. \<exists>n. js_field (positionObject p) f = Some (JBigint n)) POSITION_BIGINT_FIELDS"
    by (simp add: positionObject_def js_field_defined POSITION_BIGINT_FIELDS_def)
  then have fields: "\<exists>n. js_field (positionObject p) f = Some (JBigint n)" if "f \<in> ?F" for f
    using that by (simp add: list_all_iff)
  obtain res where res: "hydrateBigints POSITION_BIGINT_FIELDS data data = Inr res"
    "\<And>k. js_field res k = (if k \<in> ?F then js_field (positionObject p) k else js_field data k)"
    using hydrateBigints_run[OF assms fields, of POSITION_BIGINT_FIELDS data] by auto
  have snapshots: "js_field (positionObject p) ''kaminoPositionSnapshot'' = Some (JArray (map provenanceObject (pos_kaminoPositionSnapshot p)))"
    "js_field (positionObject p) ''kaminoPnlSnapshot'' = Some (JArray (map provenanceObject (pos_kaminoPnlSnapshot p)))"
    by (simp_all add: positionObject_def js_field_defined)
  obtain a b where lists: "hydrateProvenanceList (js_field data ''kaminoPositionSnapshot'') = Inr a"
      "js_same a (JArray (map provenanceObject (pos_kaminoPositionSnapshot p)))"
      "hydrateProvenanceList (js_field data ''kaminoPnlSnapshot'') = Inr b"
      "js_same b (JArray (map provenanceObject (pos_kaminoPnlSnapshot p)))"
    using hydrateProvenanceList_run stored_field[OF assms] snapshots by (metis option.map(2))
  have mode_field: "js_field (positionObject p) ''signerValidationMode''
      = Some (JString (SignerValidationMode_string (pos_signerValidationMode p)))"
    by (simp add: positionObject_def js_field_defined)
  have mode: "js_field data ''signerValidationMode'' = Some (JString (SignerValidationMode_string (pos_signerValidationMode p)))"
    using stored_field[OF assms, of "''signerValidationMode''"]
    by (cases "js_field data ''signerValidationMode''") (auto simp: mode_field)
  define m where "m = (if js_field data ''signerValidationMode'' = Some (JString ''structured_intent_transaction'')
    then ''structured_intent_transaction'' else ''unverified'')"
  have m: "m = SignerValidationMode_string (pos_signerValidationMode p)"
    using mode by (cases "pos_signerValidationMode p") (simp_all add: SignerValidationMode_string_def m_def)
  let ?res = "js_put ''kaminoPnlSnapshot'' b (js_put ''kaminoPositionSnapshot'' a (js_put ''signerValidationMode'' (JString m) res))"
  have "hydrateWalletPosition data = Inr ?res"
    by (simp add: hydrateWalletPosition_def bindR_def res(1) lists(1,3) m_def)
  moreover have "members_same ?res (positionObject p)"
  proof (rule members_sameI[OF assms, of ?G])
    show "plain_json v" if "k \<notin> ?G" "js_field (positionObject p) k = Some v" for k v
      using plain_defined[OF that(2)[unfolded positionObject_def] that(1)] by (simp add: POSITION_BIGINT_FIELDS_def)
    show "rel_option js_same (js_field ?res k) (js_field (positionObject p) k)" if "k \<in> ?G" for k
      using that res(2)[of k] lists(2,4) snapshots mode_field m same_refl_opt by auto
    show "js_field ?res k = js_field data k" if "k \<notin> ?G" for k
      using that res(2)[of k] by simp
  qed
  ultimately show ?thesis by blast
qed

lemma field_present: "stored data object \<Longrightarrow> js_field object f = Some v \<Longrightarrow> \<exists>w. js_field data f = Some w"
  using stored_field[of data object f] by (cases "js_field data f") auto

lemma js_field_orNull:
  "js_field data f \<noteq> None \<Longrightarrow> js_field (orNull f data m) k = (if k = f then js_field data k else js_field m k)"
  by (auto simp: orNull_def)

text \<open>Where only the big integers are rewritten, every other member being plain.\<close>

lemma read_back:
  assumes "stored data (defined_members kvs)" "list_all (\<lambda>(k, v). k \<in> F \<or> plain_json v) kvs"
    and "\<And>k. js_field res k = (if k \<in> F then js_field (defined_members kvs) k else js_field data k)"
  shows "members_same res (defined_members kvs)"
  by (rule members_sameI[OF assms(1), of F]) (use assms(2,3) plain_defined same_refl_opt in auto)

lemma sync_event_roundtrip:
  assumes "stored data (syncEventObject e)" "plain_json (ev_rawSnapshot e)"
  shows "\<exists>members. hydrateSyncEvent data = Inr members \<and> members_same members (syncEventObject e)"
proof -
  let ?fs = "[''deltaSharesRaw'', ''deltaPrincipalRawUsdc'']"
  have "list_all (\<lambda>f. \<exists>n. js_field (syncEventObject e) f = Some (JBigint n)) ?fs"
    by (simp add: syncEventObject_def js_field_defined)
  then obtain res where res: "hydrateSyncEvent data = Inr res"
    "\<And>k. js_field res k = (if k \<in> set ?fs then js_field (syncEventObject e) k else js_field data k)"
    using hydrateBigints_run[OF assms(1), of ?fs data] by (auto simp: hydrateSyncEvent_def list_all_iff simp del: hydrateBigints.simps)
  have "members_same res (syncEventObject e)"
    unfolding syncEventObject_def
    by (rule read_back[of data _ "set ?fs"])
      (use assms res(2) in \<open>simp_all add: syncEventObject_def\<close>)
  with res(1) show ?thesis by blast
qed

lemma payment_roundtrip:
  assumes "stored data (paymentObject i)" "plain_json (pay_intentJson i)" "plain_json (opt_json (pay_settlementResponse i))"
  shows "\<exists>members. hydratePaymentIntent data = Inr members \<and> members_same members (paymentObject i)"
proof -
  let ?F = "set PAYMENT_BIGINT_FIELDS"
  let ?sent = "''submittedSerializedTransaction''"
  have "list_all (\<lambda>f. \<exists>n. js_field (paymentObject i) f = Some (JBigint n)) PAYMENT_BIGINT_FIELDS"
    by (simp add: paymentObject_def js_field_defined PAYMENT_BIGINT_FIELDS_def)
  then obtain object where object: "hydrateBigints PAYMENT_BIGINT_FIELDS data data = Inr object"
    "\<And>k. js_field object k = (if k \<in> ?F then js_field (paymentObject i) k else js_field data k)"
    using hydrateBigints_run[OF assms(1), of PAYMENT_BIGINT_FIELDS data] by (auto simp: list_all_iff)
  have "js_field (paymentObject i) ?sent = Some (opt_string (pay_submittedSerializedTransaction i))"
    by (simp add: paymentObject_def js_field_defined)
  then have "js_field data ?sent = Some (opt_string (pay_submittedSerializedTransaction i))"
    using stored_field[OF assms(1), of ?sent]
    by (cases "js_field data ?sent"; cases "pay_submittedSerializedTransaction i") (auto simp: opt_string_def)
  then have sent: "(case js_field data ?sent of Some (JString s) \<Rightarrow> JString s | _ \<Rightarrow> JNull) = the (js_field data ?sent)"
    "js_field data ?sent \<noteq> None"
    by (auto simp: opt_string_def split: option.split)
  let ?res = "js_put ?sent (the (js_field data ?sent)) object"
  have "hydratePaymentIntent data = Inr ?res"
    by (simp add: hydratePaymentIntent_def bindR_def object(1) sent(1))
  moreover have "?sent \<notin> ?F" by (simp add: PAYMENT_BIGINT_FIELDS_def)
  then have "js_field ?res k = (if k \<in> ?F then js_field (paymentObject i) k else js_field data k)" for k
    using object(2)[of k] sent(2) by auto
  then have "members_same ?res (paymentObject i)"
    unfolding paymentObject_def
    by (intro read_back[of data _ ?F])
      (use assms in \<open>simp_all add: paymentObject_def PAYMENT_BIGINT_FIELDS_def\<close>)
  ultimately show ?thesis by blast
qed

lemma deposit_roundtrip:
  assumes "stored data (depositObject d)"
  shows "\<exists>members. hydrateDepositIntent data = Inr members \<and> members_same members (depositObject d)"
proof -
  let ?F = "set DEPOSIT_BIGINT_FIELDS" and ?N = "set DEPOSIT_NULLABLE_BIGINT_FIELDS"
  have "list_all (\<lambda>f. \<exists>n. js_field (depositObject d) f = Some (JBigint n)) DEPOSIT_BIGINT_FIELDS"
    by (simp add: depositObject_def js_field_defined DEPOSIT_BIGINT_FIELDS_def)
  then obtain object where object: "hydrateBigints DEPOSIT_BIGINT_FIELDS data data = Inr object"
    "\<And>k. js_field object k = (if k \<in> ?F then js_field (depositObject d) k else js_field data k)"
    using hydrateBigints_run[OF assms, of DEPOSIT_BIGINT_FIELDS data] by (auto simp: list_all_iff)
  have "list_all (\<lambda>f. \<exists>x. js_field (depositObject d) f = Some (opt_bigint x)) DEPOSIT_NULLABLE_BIGINT_FIELDS"
    by (simp add: depositObject_def js_field_defined DEPOSIT_NULLABLE_BIGINT_FIELDS_def) blast
  then obtain object' where object': "hydrateNullable DEPOSIT_NULLABLE_BIGINT_FIELDS data object = Inr object'"
    "\<And>k. js_field object' k = (if k \<in> ?N then js_field (depositObject d) k else js_field object k)"
    using hydrateNullable_run[OF assms, of DEPOSIT_NULLABLE_BIGINT_FIELDS object] by (auto simp: list_all_iff)
  let ?O = "[''policySource'', ''mandateHash'', ''policyDecision'', ''approvalId'']"
  have "list_all (\<lambda>f. js_field (depositObject d) f \<noteq> None) ?O"
    by (simp add: depositObject_def js_field_defined)
  then have present: "list_all (\<lambda>f. js_field data f \<noteq> None) ?O"
    using field_present[OF assms] unfolding list_all_iff by blast
  let ?res = "orNull ''approvalId'' data (orNull ''policyDecision'' data (orNull ''mandateHash'' data
       (orNull ''policySource'' data object')))"
  have "hydrateDepositIntent data = Inr ?res"
    by (simp add: hydrateDepositIntent_def bindR_def object(1) object'(1))
  moreover have fresh: "k \<notin> ?F \<and> k \<notin> ?N" if "k \<in> set ?O" for k
    using that by (auto simp: DEPOSIT_BIGINT_FIELDS_def DEPOSIT_NULLABLE_BIGINT_FIELDS_def)
  have "js_field ?res k = (if k \<in> set ?O then js_field data k else js_field object' k)" for k
    using present by (simp add: js_field_orNull)
  then have "js_field ?res k = (if k \<in> ?F \<union> ?N then js_field (depositObject d) k else js_field data k)" for k
    using object(2)[of k] object'(2)[of k] fresh[of k] by auto
  then have "members_same ?res (depositObject d)"
    unfolding depositObject_def
    by (intro read_back[of data _ "?F \<union> ?N"])
      (use assms in \<open>simp_all add: depositObject_def DEPOSIT_BIGINT_FIELDS_def DEPOSIT_NULLABLE_BIGINT_FIELDS_def\<close>)
  ultimately show ?thesis by blast
qed

lemma withdrawal_roundtrip:
  assumes "stored data (withdrawalObject w)"
  shows "\<exists>members. hydrateWithdrawalIntent data = Inr members \<and> members_same members (withdrawalObject w)"
proof -
  let ?F = "set WITHDRAWAL_BIGINT_FIELDS" and ?N = "set WITHDRAWAL_NULLABLE_BIGINT_FIELDS"
  have "list_all (\<lambda>f. \<exists>n. js_field (withdrawalObject w) f = Some (JBigint n)) WITHDRAWAL_BIGINT_FIELDS"
    by (simp add: withdrawalObject_def js_field_defined WITHDRAWAL_BIGINT_FIELDS_def)
  then obtain object where object: "hydrateBigints WITHDRAWAL_BIGINT_FIELDS data data = Inr object"
    "\<And>k. js_field object k = (if k \<in> ?F then js_field (withdrawalObject w) k else js_field data k)"
    using hydrateBigints_run[OF assms, of WITHDRAWAL_BIGINT_FIELDS data] by (auto simp: list_all_iff)
  have "list_all (\<lambda>f. \<exists>x. js_field (withdrawalObject w) f = Some (opt_bigint x)) WITHDRAWAL_NULLABLE_BIGINT_FIELDS"
    by (simp add: withdrawalObject_def js_field_defined WITHDRAWAL_NULLABLE_BIGINT_FIELDS_def) blast
  then obtain object' where object': "hydrateNullable WITHDRAWAL_NULLABLE_BIGINT_FIELDS data object = Inr object'"
    "\<And>k. js_field object' k = (if k \<in> ?N then js_field (withdrawalObject w) k else js_field object k)"
    using hydrateNullable_run[OF assms, of WITHDRAWAL_NULLABLE_BIGINT_FIELDS object] by (auto simp: list_all_iff)
  let ?O = "[''paymentBinding'', ''policySource'', ''mandateHash'', ''policyDecision'', ''approvalId'', ''paymentTxSignature'',
    ''paymentVerification'']"
  have "list_all (\<lambda>f. js_field (withdrawalObject w) f \<noteq> None) ?O"
    by (simp add: withdrawalObject_def js_field_defined)
  then have present: "list_all (\<lambda>f. js_field data f \<noteq> None) ?O"
    using field_present[OF assms] unfolding list_all_iff by blast
  have "js_field (withdrawalObject w) ''purpose'' = Some (JString (WithdrawalPurpose_string (wdr_purpose w)))"
    by (simp add: withdrawalObject_def js_field_defined)
  then have purpose: "js_field data ''purpose'' = Some (JString (WithdrawalPurpose_string (wdr_purpose w)))"
    using stored_field[OF assms, of "''purpose''"] by (cases "js_field data ''purpose''") auto
  define u where "u = (if js_field data ''purpose'' = Some (JString ''yield_realize'') then ''yield_realize'' else ''normal'')"
  have u: "js_field data ''purpose'' = Some (JString u)"
    using purpose by (cases "wdr_purpose w") (simp_all add: u_def WithdrawalPurpose_string_def)
  let ?res = "orNull ''paymentVerification'' data (orNull ''paymentTxSignature'' data
       (orNull ''approvalId'' data (orNull ''policyDecision'' data (orNull ''mandateHash'' data
       (orNull ''policySource'' data (orNull ''paymentBinding'' data (js_put ''purpose'' (JString u) object')))))))"
  have "hydrateWithdrawalIntent data = Inr ?res"
    by (simp add: hydrateWithdrawalIntent_def bindR_def object(1) object'(1) u_def)
  moreover have fresh: "k \<notin> ?F \<and> k \<notin> ?N" if "k = ''purpose'' \<or> k \<in> set ?O" for k
    using that by (auto simp: WITHDRAWAL_BIGINT_FIELDS_def WITHDRAWAL_NULLABLE_BIGINT_FIELDS_def)
  have "js_field ?res k = (if k = ''purpose'' \<or> k \<in> set ?O then js_field data k else js_field object' k)" for k
    using present by (simp add: js_field_orNull u)
  then have "js_field ?res k = (if k \<in> ?F \<union> ?N then js_field (withdrawalObject w) k else js_field data k)" for k
    using object(2)[of k] object'(2)[of k] fresh[of k] by auto
  then have "members_same ?res (withdrawalObject w)"
    unfolding withdrawalObject_def
    by (intro read_back[of data _ "?F \<union> ?N"])
      (use assms in \<open>simp_all add: withdrawalObject_def WITHDRAWAL_BIGINT_FIELDS_def WITHDRAWAL_NULLABLE_BIGINT_FIELDS_def
        split: option.split\<close>)
  ultimately show ?thesis by blast
qed

end
