(* ===== verification/Pg_Ledger.thy ===== *)
theory Pg_Ledger
  imports Pg_Rows Mandate_Sessions
begin

text \<open>
  The statements of \<open>PostgresLedger\<close> (\<open>src/src/domain/postgres-ledger.ts\<close>) over tables of rows. A row
  has its text columns, its \<open>data\<close> and the times of its creation and last update. What the
  database does on its own is in a record: \<open>pg_jsonb\<close> is the object as the column keeps it,
  \<open>pg_sort\<close> an \<open>order by\<close>, which leaves the order of equal keys open. The time \<open>now()\<close> of a statement
  is that of its transaction.
\<close>

section \<open>Tables\<close>

record pg_row =
  row_columns :: "(string \<times> string) list"
  row_data :: js_members
  row_createdAt :: int
  row_updatedAt :: int

record pg_env =
  pg_jsonb :: "js_members \<Rightarrow> js_members"
  pg_sort :: "(pg_row \<Rightarrow> int \<times> int) \<Rightarrow> pg_row list \<Rightarrow> pg_row list"

record pg_tables =
  tb_positions :: "pg_row list"
  tb_payments :: "pg_row list"
  tb_deposits :: "pg_row list"
  tb_withdrawals :: "pg_row list"
  tb_syncEvents :: "pg_row list"
  tb_mandates :: "pg_row list"
  tb_mandateEvents :: "pg_row list"
  tb_approvals :: "pg_row list"
  tb_sessions :: "pg_row list"

definition column :: "pg_row \<Rightarrow> string \<Rightarrow> string" where
  "column r c = (case map_of (row_columns r) c of None \<Rightarrow> [] | Some v \<Rightarrow> v)"

definition pg_where :: "(string \<times> string) list \<Rightarrow> pg_row \<Rightarrow> bool" where
  "pg_where conds r \<longleftrightarrow> list_all (\<lambda>(c, v). column r c = v) conds"

text \<open>\<open>insert ... on conflict (keys) do update set columns = excluded.columns, data, updated_at = now()\<close>.\<close>

definition excluded :: "string list \<Rightarrow> (string \<times> string) list \<Rightarrow> (string \<times> string) list \<Rightarrow> (string \<times> string) list" where
  "excluded updated new old = map (\<lambda>(c, v). (c, if c \<in> set updated then case map_of new c of None \<Rightarrow> v | Some v' \<Rightarrow> v' else v)) old"

definition same_key :: "string list \<Rightarrow> (string \<times> string) list \<Rightarrow> pg_row \<Rightarrow> bool" where
  "same_key keys columns r \<longleftrightarrow> pg_where (filter (\<lambda>(c, v). c \<in> set keys) columns) r"

definition upsert ::
  "pg_env \<Rightarrow> int \<Rightarrow> string list \<Rightarrow> string list \<Rightarrow> (string \<times> string) list \<Rightarrow> js_members \<Rightarrow> pg_row list \<Rightarrow> pg_row list" where
  "upsert G now keys updated columns object rows =
     (if list_ex (same_key keys columns) rows
      then map (\<lambda>r. if same_key keys columns r
        then r\<lparr>row_columns := excluded updated columns (row_columns r), row_data := pg_jsonb G object, row_updatedAt := now\<rparr>
        else r) rows
      else rows @ [\<lparr>row_columns = columns, row_data = pg_jsonb G object, row_createdAt = now, row_updatedAt = now\<rparr>])"

text \<open>\<open>on conflict do nothing\<close>: whether the row was inserted, and the table.\<close>

definition insertIgnore ::
  "pg_env \<Rightarrow> int \<Rightarrow> string list \<Rightarrow> (string \<times> string) list \<Rightarrow> js_members \<Rightarrow> pg_row list \<Rightarrow> bool \<times> pg_row list" where
  "insertIgnore G now keys columns object rows =
     (if list_ex (same_key keys columns) rows then (False, rows)
      else (True, rows @ [\<lparr>row_columns = columns, row_data = pg_jsonb G object, row_createdAt = now, row_updatedAt = now\<rparr>]))"

definition firstRow :: "(js_members \<Rightarrow> js_members result) \<Rightarrow> pg_row list \<Rightarrow> js_members option result" where
  "firstRow hydrate rows = (case rows of [] \<Rightarrow> Inr None
     | r # _ \<Rightarrow> bindR (hydrate (row_data r)) (\<lambda>object. Inr (Some object)))"

fun allRows :: "(js_members \<Rightarrow> js_members result) \<Rightarrow> pg_row list \<Rightarrow> js_members list result" where
  "allRows hydrate [] = Inr []"
| "allRows hydrate (r # rows) = bindR (hydrate (row_data r)) (\<lambda>x. bindR (allRows hydrate rows) (\<lambda>xs. Inr (x # xs)))"

definition by_created :: "pg_row \<Rightarrow> int \<times> int" where "by_created r = (row_createdAt r, 0)"
definition by_updated :: "pg_row \<Rightarrow> int \<times> int" where "by_updated r = (row_updatedAt r, 0)"

section \<open>Positions\<close>

definition positionColumns :: "WalletPosition \<Rightarrow> (string \<times> string) list" where
  "positionColumns p = [(''wallet'', pos_wallet p), (''vault'', pos_vault p)]"

definition pgGetPosition :: "string \<Rightarrow> string \<Rightarrow> (pg_tables, js_members option) action" where
  "pgGetPosition wallet vault = readA (\<lambda>T. firstRow hydrateWalletPosition
     (filter (pg_where [(''wallet'', wallet), (''vault'', vault)]) (tb_positions T)))"

text \<open>A save returns the object of the row it has written.\<close>

definition pgSavePosition :: "pg_env \<Rightarrow> int \<Rightarrow> WalletPosition \<Rightarrow> (pg_tables, js_members) action" where
  "pgSavePosition G now p =
     bindA (modifyA (\<lambda>T. T\<lparr>tb_positions := upsert G now [''wallet'', ''vault''] [] (positionColumns p)
       (dehydrated (positionObject p)) (tb_positions T)\<rparr>)) (\<lambda>_.
     liftR (hydrateWalletPosition (pg_jsonb G (dehydrated (positionObject p)))))"

section \<open>Payments\<close>

definition paymentColumns :: "PaymentIntent \<Rightarrow> (string \<times> string) list" where
  "paymentColumns i =
     [(''payment_id'', pay_paymentId i), (''wallet'', pay_wallet i), (''vault'', pay_vault i), (''seller'', pay_seller i),
      (''seller_request_id'', pay_sellerRequestId i), (''request_binding_hash'', pay_requestBindingHash i),
      (''status'', PaymentStatus_string (pay_status i))]"

definition LIVE_STATUS_TEXTS :: "string list" where
  "LIVE_STATUS_TEXTS = [''prepared'', ''submission_prepared'', ''submitted'', ''settled'']"

definition active_row :: "pg_row \<Rightarrow> bool" where
  "active_row r \<longleftrightarrow> column r ''status'' \<in> set LIVE_STATUS_TEXTS"

text \<open>The unique index on \<open>(seller, seller_request_id)\<close> over the active rows.\<close>

definition rival_rows :: "pg_row \<Rightarrow> pg_row \<Rightarrow> bool" where
  "rival_rows r r' \<longleftrightarrow> active_row r \<and> active_row r' \<and> column r ''seller'' = column r' ''seller''
     \<and> column r ''seller_request_id'' = column r' ''seller_request_id''"

fun index_violated :: "pg_row list \<Rightarrow> bool" where
  "index_violated [] = False"
| "index_violated (r # rows) \<longleftrightarrow> list_ex (rival_rows r) rows \<or> index_violated rows"

definition pgGetPayment :: "string \<Rightarrow> (pg_tables, js_members option) action" where
  "pgGetPayment paymentId = readA (\<lambda>T. firstRow hydratePaymentIntent
     (filter (pg_where [(''payment_id'', paymentId)]) (tb_payments T)))"

definition pgListPaymentsForPosition :: "pg_env \<Rightarrow> string \<Rightarrow> string \<Rightarrow> (pg_tables, js_members list) action" where
  "pgListPaymentsForPosition G wallet vault = readA (\<lambda>T. allRows hydratePaymentIntent
     (pg_sort G by_created (filter (pg_where [(''wallet'', wallet), (''vault'', vault)]) (tb_payments T))))"

definition pgListPaymentsByStatus ::
  "pg_env \<Rightarrow> PaymentStatus list \<Rightarrow> nat \<Rightarrow> string option \<Rightarrow> (pg_tables, js_members list) action" where
  "pgListPaymentsByStatus G statuses limit vault = readA (\<lambda>T. allRows hydratePaymentIntent
     (take limit (pg_sort G by_updated (filter (\<lambda>r. column r ''status'' \<in> set (map PaymentStatus_string statuses)
       \<and> (vault = None \<or> vault = Some (column r ''vault''))) (tb_payments T)))))"

definition by_liveness :: "pg_row \<Rightarrow> int \<times> int" where
  "by_liveness r = (if active_row r then 0 else 1, - row_updatedAt r)"

definition pgFindPaymentBySellerRequest :: "pg_env \<Rightarrow> string \<Rightarrow> string \<Rightarrow> (pg_tables, js_members option) action" where
  "pgFindPaymentBySellerRequest G seller sellerRequestId = readA (\<lambda>T. firstRow hydratePaymentIntent
     (take 1 (pg_sort G by_liveness (filter (pg_where [(''seller'', seller), (''seller_request_id'', sellerRequestId)])
       (tb_payments T)))))"

definition pgSavePayment :: "pg_env \<Rightarrow> int \<Rightarrow> PaymentIntent \<Rightarrow> (pg_tables, js_members) action" where
  "pgSavePayment G now i =
     bindA (getsA (\<lambda>T. upsert G now [''payment_id''] [''status''] (paymentColumns i) (dehydrated (paymentObject i))
       (tb_payments T))) (\<lambda>rows.
     bindA (assertA (\<not> index_violated rows) (JsError ''unique_violation'')) (\<lambda>_.
     bindA (modifyA (\<lambda>T. T\<lparr>tb_payments := rows\<rparr>)) (\<lambda>_.
     liftR (hydratePaymentIntent (pg_jsonb G (dehydrated (paymentObject i)))))))"

section \<open>Deposits and withdrawals\<close>

definition depositColumns :: "DepositIntent \<Rightarrow> (string \<times> string) list" where
  "depositColumns d = [(''deposit_id'', dep_depositId d), (''wallet'', dep_wallet d), (''vault'', dep_vault d),
     (''status'', VaultFlowStatus_string (dep_status d))]"

definition pgGetDeposit :: "string \<Rightarrow> (pg_tables, js_members option) action" where
  "pgGetDeposit depositId = readA (\<lambda>T. firstRow hydrateDepositIntent
     (filter (pg_where [(''deposit_id'', depositId)]) (tb_deposits T)))"

definition pgSaveDeposit :: "pg_env \<Rightarrow> int \<Rightarrow> DepositIntent \<Rightarrow> (pg_tables, js_members) action" where
  "pgSaveDeposit G now d =
     bindA (modifyA (\<lambda>T. T\<lparr>tb_deposits := upsert G now [''deposit_id''] [''status''] (depositColumns d)
       (dehydrated (depositObject d)) (tb_deposits T)\<rparr>)) (\<lambda>_.
     liftR (hydrateDepositIntent (pg_jsonb G (dehydrated (depositObject d)))))"

definition pgListDepositsForPosition :: "pg_env \<Rightarrow> string \<Rightarrow> string \<Rightarrow> (pg_tables, js_members list) action" where
  "pgListDepositsForPosition G wallet vault = readA (\<lambda>T. allRows hydrateDepositIntent
     (pg_sort G by_created (filter (pg_where [(''wallet'', wallet), (''vault'', vault)]) (tb_deposits T))))"

definition withdrawalColumns :: "WithdrawalIntent \<Rightarrow> (string \<times> string) list" where
  "withdrawalColumns w = [(''withdrawal_id'', wdr_withdrawalId w), (''wallet'', wdr_wallet w), (''vault'', wdr_vault w),
     (''status'', VaultFlowStatus_string (wdr_status w))]"

definition pgGetWithdrawal :: "string \<Rightarrow> (pg_tables, js_members option) action" where
  "pgGetWithdrawal withdrawalId = readA (\<lambda>T. firstRow hydrateWithdrawalIntent
     (filter (pg_where [(''withdrawal_id'', withdrawalId)]) (tb_withdrawals T)))"

definition pgSaveWithdrawal :: "pg_env \<Rightarrow> int \<Rightarrow> WithdrawalIntent \<Rightarrow> (pg_tables, js_members) action" where
  "pgSaveWithdrawal G now w =
     bindA (modifyA (\<lambda>T. T\<lparr>tb_withdrawals := upsert G now [''withdrawal_id''] [''status''] (withdrawalColumns w)
       (dehydrated (withdrawalObject w)) (tb_withdrawals T)\<rparr>)) (\<lambda>_.
     liftR (hydrateWithdrawalIntent (pg_jsonb G (dehydrated (withdrawalObject w)))))"

definition pgListWithdrawalsForPosition :: "pg_env \<Rightarrow> string \<Rightarrow> string \<Rightarrow> (pg_tables, js_members list) action" where
  "pgListWithdrawalsForPosition G wallet vault = readA (\<lambda>T. allRows hydrateWithdrawalIntent
     (pg_sort G by_created (filter (pg_where [(''wallet'', wallet), (''vault'', vault)]) (tb_withdrawals T))))"

section \<open>Sync events\<close>

definition syncEventColumns :: "SyncEvent \<Rightarrow> (string \<times> string) list" where
  "syncEventColumns e = [(''event_id'', ev_eventId e), (''wallet'', ev_wallet e), (''vault'', ev_vault e),
     (''event_type'', SyncEventType_string (ev_eventType e))]"

definition pgSaveSyncEvent :: "pg_env \<Rightarrow> int \<Rightarrow> SyncEvent \<Rightarrow> (pg_tables, js_members) action" where
  "pgSaveSyncEvent G now e =
     bindA (getsA (\<lambda>T. insertIgnore G now [''event_id''] (syncEventColumns e) (dehydrated (syncEventObject e))
       (tb_syncEvents T))) (\<lambda>(inserted, rows).
     bindA (modifyA (\<lambda>T. T\<lparr>tb_syncEvents := rows\<rparr>)) (\<lambda>_.
     if inserted then liftR (hydrateSyncEvent (pg_jsonb G (dehydrated (syncEventObject e))))
     else returnA (syncEventObject e)))"

definition by_recency :: "pg_row \<Rightarrow> int \<times> int" where "by_recency r = (- row_createdAt r, 0)"

definition pgListSyncEvents :: "pg_env \<Rightarrow> string \<Rightarrow> string \<Rightarrow> nat \<Rightarrow> (pg_tables, js_members list) action" where
  "pgListSyncEvents G wallet vault limit = readA (\<lambda>T. allRows hydrateSyncEvent
     (take limit (pg_sort G by_recency (filter (pg_where [(''wallet'', wallet), (''vault'', vault)]) (tb_syncEvents T)))))"

section \<open>Mandates, approvals and setup sessions\<close>

text \<open>These records hold no big integer and are returned as they are stored.\<close>

definition opt_member :: "string \<Rightarrow> json option \<Rightarrow> js_members" where
  "opt_member k v = (case v of None \<Rightarrow> [] | Some x \<Rightarrow> [(k, Some x)])"

definition mandateObject :: "SpendingMandateRecord \<Rightarrow> js_members" where
  "mandateObject r = defined_members
     [(''wallet'', JString (md_wallet r)), (''vault'', JString (md_vault r)), (''documentJson'', md_documentJson r),
      (''mandateHash'', JString (md_mandateHash r)), (''ownerAuth'', JString (OwnerAuth_string (md_ownerAuth r))),
      (''ownerCredential'', JObject (defined_members [(''publicKey'', JString (oc_publicKey (md_ownerCredential r)))]
         @ opt_member ''credentialId'' (map_option JString (oc_credentialId (md_ownerCredential r)))
         @ opt_member ''algorithm'' (map_option JNumber (oc_algorithm (md_ownerCredential r))))),
      (''enforcementMode'', JString (EnforcementMode_string (md_enforcementMode r))),
      (''issuedAtMs'', JNumber (md_issuedAtMs r)), (''expiresAtMs'', JNumber (md_expiresAtMs r)),
      (''status'', JString (SpendingMandateStatus_string (md_status r))),
      (''recoveryAtMs'', opt_number (md_recoveryAtMs r)), (''revokedAtMs'', opt_number (md_revokedAtMs r)),
      (''revokeJson'', opt_json (md_revokeJson r))]"

definition mandateColumns :: "SpendingMandateRecord \<Rightarrow> (string \<times> string) list" where
  "mandateColumns r = [(''wallet'', md_wallet r), (''vault'', md_vault r),
     (''status'', SpendingMandateStatus_string (md_status r)), (''mandate_hash'', md_mandateHash r)]"

definition pgGetSpendingMandate :: "string \<Rightarrow> string \<Rightarrow> (pg_tables, js_members option) action" where
  "pgGetSpendingMandate wallet vault = readA (\<lambda>T. firstRow Inr
     (filter (pg_where [(''wallet'', wallet), (''vault'', vault)]) (tb_mandates T)))"

definition pgGetSpendingMandateByHash :: "string \<Rightarrow> string \<Rightarrow> (pg_tables, js_members option) action" where
  "pgGetSpendingMandateByHash wallet h = readA (\<lambda>T. firstRow Inr
     (filter (pg_where [(''wallet'', wallet), (''mandate_hash'', h)]) (tb_mandates T)))"

definition pgSaveSpendingMandate :: "pg_env \<Rightarrow> int \<Rightarrow> SpendingMandateRecord \<Rightarrow> (pg_tables, js_members) action" where
  "pgSaveSpendingMandate G now r =
     bindA (modifyA (\<lambda>T. T\<lparr>tb_mandates := upsert G now [''wallet'', ''vault''] [''status'', ''mandate_hash'']
       (mandateColumns r) (dehydrated (mandateObject r)) (tb_mandates T)\<rparr>)) (\<lambda>_.
     returnA (pg_jsonb G (dehydrated (mandateObject r))))"

definition SpendingMandateEventType_string :: "SpendingMandateEventType \<Rightarrow> string" where
  "SpendingMandateEventType_string x = (case x of ev_registered \<Rightarrow> ''registered'' | ev_replaced \<Rightarrow> ''replaced''
     | ev_revoked \<Rightarrow> ''revoked'' | ev_recovery_scheduled \<Rightarrow> ''recovery_scheduled''
     | ev_recovery_cancelled \<Rightarrow> ''recovery_cancelled'')"

definition mandateEventObject :: "SpendingMandateEvent \<Rightarrow> js_members" where
  "mandateEventObject e = defined_members
     [(''eventId'', JString (mev_eventId e)), (''wallet'', JString (mev_wallet e)),
      (''eventType'', JString (SpendingMandateEventType_string (mev_eventType e))),
      (''mandateHash'', JString (mev_mandateHash e)), (''documentJson'', mev_documentJson e),
      (''createdAtMs'', JNumber (mev_createdAtMs e))]"

definition pgSaveSpendingMandateEvent :: "pg_env \<Rightarrow> int \<Rightarrow> SpendingMandateEvent \<Rightarrow> (pg_tables, js_members) action" where
  "pgSaveSpendingMandateEvent G now e =
     bindA (modifyA (\<lambda>T. T\<lparr>tb_mandateEvents := snd (insertIgnore G now [''event_id'']
       [(''event_id'', mev_eventId e), (''wallet'', mev_wallet e),
        (''event_type'', SpendingMandateEventType_string (mev_eventType e))]
       (dehydrated (mandateEventObject e)) (tb_mandateEvents T))\<rparr>)) (\<lambda>_. returnA (mandateEventObject e))"

definition approvalObject :: "SpendingApproval \<Rightarrow> js_members" where
  "approvalObject a = defined_members
     [(''approvalId'', JString (ap_approvalId a)), (''wallet'', JString (ap_wallet a)),
      (''bindingHash'', JString (ap_bindingHash a)), (''bindingJson'', ap_bindingJson a),
      (''mandateHash'', JString (ap_mandateHash a)), (''status'', JString (SpendingApprovalStatus_string (ap_status a))),
      (''decisionJson'', opt_json (ap_decisionJson a)), (''requestedAtMs'', JNumber (ap_requestedAtMs a)),
      (''expiresAtMs'', JNumber (ap_expiresAtMs a)), (''decidedAtMs'', opt_number (ap_decidedAtMs a)),
      (''consumedAtMs'', opt_number (ap_consumedAtMs a)),
      (''consumedByWithdrawalId'', opt_string (ap_consumedByWithdrawalId a))]"

definition approvalColumns :: "SpendingApproval \<Rightarrow> (string \<times> string) list" where
  "approvalColumns a = [(''approval_id'', ap_approvalId a), (''wallet'', ap_wallet a),
     (''status'', SpendingApprovalStatus_string (ap_status a)), (''binding_hash'', ap_bindingHash a)]"

definition pgGetSpendingApproval :: "string \<Rightarrow> (pg_tables, js_members option) action" where
  "pgGetSpendingApproval approvalId = readA (\<lambda>T. firstRow Inr
     (filter (pg_where [(''approval_id'', approvalId)]) (tb_approvals T)))"

definition pgSaveSpendingApproval :: "pg_env \<Rightarrow> int \<Rightarrow> SpendingApproval \<Rightarrow> (pg_tables, js_members) action" where
  "pgSaveSpendingApproval G now a =
     bindA (modifyA (\<lambda>T. T\<lparr>tb_approvals := upsert G now [''approval_id''] [''status''] (approvalColumns a)
       (dehydrated (approvalObject a)) (tb_approvals T)\<rparr>)) (\<lambda>_.
     returnA (pg_jsonb G (dehydrated (approvalObject a))))"

text \<open>\<open>(data->>'field')::bigint\<close>, which is null for an absent member; \<open>desc\<close> puts nulls first.\<close>

definition data_number :: "string \<Rightarrow> pg_row \<Rightarrow> int option" where
  "data_number f r = (case js_field (row_data r) f of Some (JNumber n) \<Rightarrow> Some n | _ \<Rightarrow> None)"

definition by_request :: "pg_row \<Rightarrow> int \<times> int" where
  "by_request r = (case data_number ''requestedAtMs'' r of None \<Rightarrow> (0, 0) | Some n \<Rightarrow> (1, - n))"

definition pgListSpendingApprovalsForWallet :: "pg_env \<Rightarrow> string \<Rightarrow> (pg_tables, js_members list) action" where
  "pgListSpendingApprovalsForWallet G wallet = readA (\<lambda>T. allRows Inr
     (pg_sort G by_request (filter (pg_where [(''wallet'', wallet)]) (tb_approvals T))))"

definition SEVEN_DAYS_MS :: int where "SEVEN_DAYS_MS = 7 * 86400000"

definition pg_prunable :: "int \<Rightarrow> string \<Rightarrow> int \<Rightarrow> pg_row \<Rightarrow> bool" where
  "pg_prunable now wallet beforeMs r \<longleftrightarrow> column r ''wallet'' = wallet \<and>
     ((case data_number ''expiresAtMs'' r of None \<Rightarrow> False | Some n \<Rightarrow> n < beforeMs) \<or>
      column r ''status'' \<in> {''consumed'', ''denied'', ''expired''} \<and> row_updatedAt r < now - SEVEN_DAYS_MS)"

definition pgPruneSpendingApprovals :: "int \<Rightarrow> string \<Rightarrow> int \<Rightarrow> (pg_tables, nat) action" where
  "pgPruneSpendingApprovals now wallet beforeMs =
     bindA (getsA (\<lambda>T. length (filter (pg_prunable now wallet beforeMs) (tb_approvals T)))) (\<lambda>n.
     bindA (modifyA (\<lambda>T. T\<lparr>tb_approvals := filter (\<lambda>r. \<not> pg_prunable now wallet beforeMs r) (tb_approvals T)\<rparr>)) (\<lambda>_.
     returnA n))"

definition sessionObject :: "SetupSession \<Rightarrow> js_members" where
  "sessionObject x = defined_members
     [(''sessionId'', JString (ss_sessionId x)), (''wallet'', JString (ss_wallet x)), (''vault'', JString (ss_vault x)),
      (''policyWire'', ss_policyWire x), (''enforcementMode'', JString (EnforcementMode_string (ss_enforcementMode x))),
      (''mandateExpiresAtMs'', JNumber (ss_mandateExpiresAtMs x)),
      (''initialDepositRawUsdc'', opt_string (ss_initialDepositRawUsdc x)),
      (''status'', JString (case ss_status x of setup_pending \<Rightarrow> ''pending'' | setup_completed \<Rightarrow> ''completed'')),
      (''createdAtMs'', JNumber (ss_createdAtMs x)), (''expiresAtMs'', JNumber (ss_expiresAtMs x)),
      (''completedAtMs'', opt_number (ss_completedAtMs x)), (''mandateHash'', opt_string (ss_mandateHash x)),
      (''initialDepositApprovalId'', opt_string (ss_initialDepositApprovalId x)), (''agentAuth'', ss_agentAuth x)]
     @ opt_member ''ownerManagement'' (map_option (\<lambda>m. JObject (defined_members
         [(''mandateHash'', JString (om_mandateHash m)), (''status'', JString (SpendingMandateStatus_string (om_status m))),
          (''recoveryAtMs'', opt_number (om_recoveryAtMs m)), (''revokedAtMs'', opt_number (om_revokedAtMs m))]))
         (ss_ownerManagement x))
     @ opt_member ''ownerAction'' (map_option (\<lambda>a. JString (OwnerAction_string a)) (ss_ownerAction x))"

definition sessionColumns :: "SetupSession \<Rightarrow> (string \<times> string) list" where
  "sessionColumns x = [(''session_id'', ss_sessionId x), (''wallet'', ss_wallet x),
     (''status'', case ss_status x of setup_pending \<Rightarrow> ''pending'' | setup_completed \<Rightarrow> ''completed'')]"

definition pgGetSetupSession :: "string \<Rightarrow> (pg_tables, js_members option) action" where
  "pgGetSetupSession sessionId = readA (\<lambda>T. firstRow Inr
     (filter (pg_where [(''session_id'', sessionId)]) (tb_sessions T)))"

definition pgSaveSetupSession :: "pg_env \<Rightarrow> int \<Rightarrow> SetupSession \<Rightarrow> (pg_tables, js_members) action" where
  "pgSaveSetupSession G now x =
     bindA (modifyA (\<lambda>T. T\<lparr>tb_sessions := upsert G now [''session_id''] [''status''] (sessionColumns x)
       (dehydrated (sessionObject x)) (tb_sessions T)\<rparr>)) (\<lambda>_.
     returnA (pg_jsonb G (dehydrated (sessionObject x))))"

end
