(* ===== verification/Pg_Refinement.thy ===== *)
theory Pg_Refinement
  imports Pg_Roundtrip Pg_Ledger
begin

text \<open>
  The PostgreSQL ledger implements the store of theory \<open>Ledger_Store\<close>: along every history of writes
  its tables represent that store, and a read of the tables is a read of the store.
\<close>

section \<open>Equality up to order is an equivalence on what is stored\<close>

lemma members_same_refl: "members_same m m"
  by (simp add: members_same_def same_refl_opt)

text \<open>A read of the tables gives an object, or a list of them in some order, up to the order of members.\<close>

definition reads_as :: "js_members option result \<Rightarrow> js_members option \<Rightarrow> bool" where
  "reads_as r x = (case x of None \<Rightarrow> r = Inr None | Some object \<Rightarrow> \<exists>m. r = Inr (Some m) \<and> members_same m object)"

definition lists_as :: "js_members list result \<Rightarrow> js_members list \<Rightarrow> bool" where
  "lists_as r objects \<longleftrightarrow> (\<exists>ms xs. r = Inr ms \<and> mset xs = mset objects \<and> list_all2 members_same ms xs)"

section \<open>What is relied on of the database\<close>

definition sorted_by :: "(pg_row \<Rightarrow> int \<times> int) \<Rightarrow> pg_row list \<Rightarrow> bool" where
  "sorted_by f rows \<longleftrightarrow> sorted_wrt (\<lambda>r r'. fst (f r) < fst (f r') \<or> fst (f r) = fst (f r') \<and> snd (f r) \<le> snd (f r')) rows"

definition database :: "pg_env \<Rightarrow> bool" where
  "database G \<longleftrightarrow> (\<forall>m. distinct (map fst m) \<longrightarrow> members_same (pg_jsonb G m) m)
     \<and> (\<forall>f rows. mset (pg_sort G f rows) = mset rows \<and> sorted_by f (pg_sort G f rows))"

lemma stored_jsonb: "database G \<Longrightarrow> distinct (map fst object) \<Longrightarrow> stored (pg_jsonb G (dehydrated object)) object"
proof -
  assume "database G" and d: "distinct (map fst object)"
  have "map fst (map (\<lambda>(k, v). (k, map_option dehydrate v)) object) = map fst object" by auto
  then have "distinct (map fst (dehydrated object))"
    unfolding dehydrated_def using d by (metis distinct_map_filter)
  with \<open>database G\<close> d show ?thesis by (simp add: stored_def database_def)
qed

lemma set_pg_sort: "database G \<Longrightarrow> set (pg_sort G f rows) = set rows"
  by (simp add: database_def) (metis set_mset_mset)

lemma at_most_one_distinct: "(\<And>k. length (filter (\<lambda>x. f x = k) xs) \<le> 1) \<Longrightarrow> distinct (map f xs)"
proof (induction xs)
  case (Cons x xs)
  have "filter (\<lambda>y. f y = f x) xs = []" using Cons.prems[of "f x"] by simp
  then have "f x \<notin> f ` set xs" by (auto simp: filter_empty_conv)
  moreover have "length (filter (\<lambda>y. f y = k) xs) \<le> 1" for k using Cons.prems[of k] by (simp split: if_splits)
  ultimately show ?case using Cons.IH by simp
qed simp

section \<open>A table\<close>

locale row_store =
  fixes keys updated names :: "string list"
    and columns :: "'v \<Rightarrow> (string \<times> string) list"
    and object :: "'v \<Rightarrow> js_members"
    and hydrate :: "js_members \<Rightarrow> js_members result"
    and good :: "'v \<Rightarrow> bool"
    and ok :: "string list \<Rightarrow> bool"
  assumes names: "map fst (columns v) = names" "distinct names" "set keys \<subseteq> set names" "set updated \<inter> set keys = {}"
    and distinct_object: "distinct (map fst (object v))"
    and reads: "good v \<Longrightarrow> stored data (object v) \<Longrightarrow> \<exists>m. hydrate data = Inr m \<and> members_same m (object v)"
begin

definition column_of :: "'v \<Rightarrow> string \<Rightarrow> string" where
  "column_of v c = (case map_of (columns v) c of None \<Rightarrow> [] | Some x \<Rightarrow> x)"

definition key_of :: "'v \<Rightarrow> string list" where
  "key_of v = map (column_of v) keys"

definition row_key :: "pg_row \<Rightarrow> string list" where
  "row_key r = map (column r) keys"

definition kept :: "'v \<Rightarrow> 'v \<Rightarrow> bool" where
  "kept w v \<longleftrightarrow> list_all (\<lambda>c. column_of w c = column_of v c) (filter (\<lambda>c. c \<notin> set updated \<and> c \<notin> set keys) names)"

definition row_of :: "'v \<Rightarrow> pg_row \<Rightarrow> bool" where
  "row_of v r \<longleftrightarrow> row_columns r = columns v \<and> stored (row_data r) (object v) \<and> good v"

definition represents :: "pg_row list \<Rightarrow> (string list \<Rightarrow> 'v option) \<Rightarrow> bool" where
  "represents rows get \<longleftrightarrow> (\<forall>k. ok k \<longrightarrow> (case get k of
       None \<Rightarrow> filter (\<lambda>r. row_key r = k) rows = []
     | Some v \<Rightarrow> \<exists>r. filter (\<lambda>r. row_key r = k) rows = [r] \<and> row_of v r))"

lemma row_column: "row_of v r \<Longrightarrow> column r c = column_of v c"
  by (simp add: row_of_def column_def column_of_def)

lemma row_key_of: "row_of v r \<Longrightarrow> row_key r = key_of v"
  by (simp add: row_key_def key_of_def row_column)

lemma columns_eq: "columns v = map (\<lambda>c. (c, column_of v c)) names"
proof -
  have "column_of v (fst x) = snd x" if "x \<in> set (columns v)" for x
  proof -
    have "map_of (columns v) (fst x) = Some (snd x)"
      by (rule map_of_is_SomeI) (use that names(1)[of v] names(2) in simp_all)
    then show ?thesis by (simp add: column_of_def)
  qed
  then have "columns v = map (\<lambda>x. (fst x, column_of v (fst x))) (columns v)"
    by (simp add: map_idI)
  then show ?thesis using names(1)[of v] by (metis (no_types, lifting) map_map comp_apply map_eq_conv)
qed

lemma map_of_columns: "c \<in> set names \<Longrightarrow> map_of (columns v) c = Some (column_of v c)"
  by (simp add: columns_eq map_of_map_restrict)

lemma same_key_iff: "same_key keys (columns v) r \<longleftrightarrow> row_key r = key_of v"
proof -
  have "same_key keys (columns v) r \<longleftrightarrow> (\<forall>c \<in> set keys. column r c = column_of v c)"
    using names(3) by (auto simp: same_key_def pg_where_def list_all_iff columns_eq)
  then show ?thesis by (simp add: row_key_def key_of_def)
qed

lemma excluded_columns:
  assumes "\<And>c. c \<in> set names - set updated \<Longrightarrow> column_of w c = column_of v c"
  shows "excluded updated (columns v) (columns w) = columns v"
proof -
  have "excluded updated (columns v) (map (\<lambda>c. (c, column_of w c)) names) = map (\<lambda>c. (c, column_of v c)) names"
    using assms by (simp add: excluded_def map_of_columns)
  then show ?thesis by (simp only: columns_eq)
qed

lemma represents_key:
  assumes "represents rows get" "ok k" "get k = Some v"
  shows "key_of v = k" "good v"
proof -
  have "case get k of None \<Rightarrow> filter (\<lambda>r. row_key r = k) rows = []
      | Some v \<Rightarrow> \<exists>r. filter (\<lambda>r. row_key r = k) rows = [r] \<and> row_of v r"
    using assms(1,2) by (simp add: represents_def)
  then obtain r where r: "filter (\<lambda>r. row_key r = k) rows = [r]" "row_of v r"
    using assms(3) by auto
  have "row_key r = k" using arg_cong[OF r(1), of set] by auto
  then show "key_of v = k" using row_key_of[OF r(2)] by simp
  show "good v" using r(2) by (simp add: row_of_def)
qed

lemma represents_upsert:
  assumes "database G" "represents rows get" "good v" "ok (key_of v)"
    and "\<And>w. get (key_of v) = Some w \<Longrightarrow> kept w v"
  shows "represents (upsert G now keys updated (columns v) (dehydrated (object v)) rows) (get(key_of v \<mapsto> v))"
proof -
  let ?rows = "upsert G now keys updated (columns v) (dehydrated (object v)) rows"
  let ?at = "\<lambda>k. filter (\<lambda>r. row_key r = k)"
  let ?new = "\<lambda>r. r\<lparr>row_columns := excluded updated (columns v) (row_columns r),
    row_data := pg_jsonb G (dehydrated (object v)), row_updatedAt := now\<rparr>"
  have st: "stored (pg_jsonb G (dehydrated (object v))) (object v)"
    by (rule stored_jsonb[OF assms(1) distinct_object])
  have rep: "case get k of None \<Rightarrow> ?at k rows = [] | Some w \<Rightarrow> \<exists>r. ?at k rows = [r] \<and> row_of w r" if "ok k" for k
    using assms(2) that by (simp add: represents_def)
  show ?thesis
  proof (cases "get (key_of v)")
    case None
    let ?row = "\<lparr>row_columns = columns v, row_data = pg_jsonb G (dehydrated (object v)), row_createdAt = now, row_updatedAt = now\<rparr>"
    have new: "row_of v ?row" using st assms(3) by (simp add: row_of_def)
    have rows: "?rows = rows @ [?row]"
      using rep[OF assms(4)] None by (auto simp: upsert_def same_key_iff list_ex_iff filter_empty_conv)
    have "?at (key_of v) rows = []" using rep[OF assms(4)] None by simp
    moreover have at: "?at k (rows @ [?row]) = (if k = key_of v then ?at k rows @ [?row] else ?at k rows)" for k
      using row_key_of[OF new] by simp
    ultimately show ?thesis
      unfolding represents_def rows at using rep new by simp
  next
    case (Some w)
    then obtain r where r: "?at (key_of v) rows = [r]" "row_of w r" using rep[OF assms(4)] by auto
    define f where "f r = (if same_key keys (columns v) r then ?new r else r)" for r
    have "\<forall>c \<in> set keys. column_of w c = column_of v c"
      using represents_key(1)[OF assms(2,4) Some] by (simp add: key_of_def)
    then have "excluded updated (columns v) (row_columns r) = columns v"
      using excluded_columns[of w v] assms(5)[OF Some] r(2) by (auto simp: row_of_def kept_def list_all_iff)
    then have new: "row_of v (?new r)" using st assms(3) by (simp add: row_of_def)
    have r_in: "r \<in> set rows" "row_key r = key_of v" "\<And>r'. r' \<in> set rows \<Longrightarrow> row_key r' = key_of v \<Longrightarrow> r' = r"
      using arg_cong[OF r(1), of set] by auto
    have rows: "?rows = map f rows"
      using r_in(1,2) by (auto simp: upsert_def f_def list_ex_iff same_key_iff)
    have same: "row_key (f r') = row_key r'" if "r' \<in> set rows" for r'
      using r_in(3)[OF that] row_key_of[OF new] by (auto simp: f_def same_key_iff)
    have "?at k (map f rows) = map f (?at k rows)" for k
      using same by (simp add: filter_map comp_def cong: filter_cong)
    moreover have "map f (?at k rows) = ?at k rows" if "k \<noteq> key_of v" for k
      using that by (auto simp: f_def same_key_iff intro!: map_idI)
    moreover have "f r = ?new r" using r_in(2) by (simp add: f_def same_key_iff)
    ultimately have at: "?at k (map f rows) = (if k = key_of v then [?new r] else ?at k rows)" for k
      using r(1) by simp
    show ?thesis
      unfolding represents_def rows at using rep new by simp
  qed
qed

lemma represents_first:
  assumes "represents rows get" "ok k" "\<And>r. cond r \<longleftrightarrow> row_key r = k"
  shows "reads_as (firstRow hydrate (filter cond rows)) (map_option object (get k))"
proof -
  have "cond = (\<lambda>r. row_key r = k)" using assms(3) by (intro ext) blast
  then have "filter cond rows = filter (\<lambda>r. row_key r = k) rows" by simp
  moreover have "\<exists>m. hydrate (row_data r) = Inr m \<and> members_same m (object v)" if "row_of v r" for v r
    using that reads by (auto simp: row_of_def)
  ultimately show ?thesis
    using assms(1,2) by (fastforce simp: represents_def firstRow_def bindR_def reads_as_def split: option.splits)
qed

text \<open>A selection is the values that meet it, each once.\<close>

definition holds :: "(pg_row \<Rightarrow> bool) \<Rightarrow> 'v \<Rightarrow> bool" where
  "holds cond v \<longleftrightarrow> cond \<lparr>row_columns = columns v, row_data = [], row_createdAt = 0, row_updatedAt = 0\<rparr>"

definition on_columns :: "(pg_row \<Rightarrow> bool) \<Rightarrow> bool" where
  "on_columns cond \<longleftrightarrow> (\<forall>r r'. row_columns r = row_columns r' \<longrightarrow> cond r = cond r')"

lemma all_rows_read:
  "list_all2 row_of vs rows \<Longrightarrow> \<exists>ms. allRows hydrate rows = Inr ms \<and> list_all2 (\<lambda>m v. members_same m (object v)) ms vs"
proof (induction rows arbitrary: vs)
  case (Cons r rows)
  then obtain v vs' where vs: "vs = v # vs'" "row_of v r" "list_all2 row_of vs' rows" by (auto simp: list_all2_Cons2)
  then obtain m where "hydrate (row_data r) = Inr m" "members_same m (object v)" using reads by (auto simp: row_of_def)
  with Cons.IH[OF vs(3)] show ?case by (auto simp: vs(1) bindR_def)
qed simp

text \<open>Where every key is one of the table's, each row is that of a value, and no two rows have a key in common.\<close>

lemma represents_at: "represents rows get \<Longrightarrow> ok k \<Longrightarrow> case get k of None \<Rightarrow> filter (\<lambda>r. row_key r = k) rows = []
    | Some v \<Rightarrow> \<exists>r. filter (\<lambda>r. row_key r = k) rows = [r] \<and> row_of v r"
  by (simp add: represents_def)

lemma represents_row:
  assumes "represents rows get" "ok (row_key r)" "r \<in> set rows"
  shows "\<exists>v. get (row_key r) = Some v \<and> row_of v r"
proof (cases "get (row_key r)")
  case None
  then show ?thesis using represents_at[OF assms(1,2)] assms(3) by (auto simp: filter_empty_conv)
next
  case (Some v)
  then obtain r' where r': "filter (\<lambda>x. row_key x = row_key r) rows = [r']" "row_of v r'"
    using represents_at[OF assms(1,2)] by auto
  have "r \<in> set (filter (\<lambda>x. row_key x = row_key r) rows)" using assms(3) by simp
  then have "r = r'" by (simp add: r'(1))
  then show ?thesis using r'(2) Some by simp
qed

lemma represents_distinct:
  assumes "represents rows get" "\<And>r. ok (row_key r)"
  shows "distinct (map row_key rows)"
proof (rule at_most_one_distinct)
  fix k
  show "length (filter (\<lambda>r. row_key r = k) rows) \<le> 1"
  proof (cases "\<exists>r. row_key r = k")
    case True
    then show ?thesis using represents_at[OF assms(1), of k] assms(2) by (cases "get k") auto
  qed (simp add: filter_False)
qed

lemma represents_select:
  assumes "database G" "represents rows get" "\<And>r. ok (row_key r)" "on_columns cond"
    and "distinct xs" "set xs = {v. \<exists>k. ok k \<and> get k = Some v \<and> holds cond v}"
  shows "lists_as (allRows hydrate (pg_sort G f (filter cond rows))) (map object xs)"
proof -
  let ?rs = "pg_sort G f (filter cond rows)"
  define val where "val r = the (get (row_key r))" for r
  have of_row: "row_of (val r) r" "get (row_key r) = Some (val r)" if "r \<in> set rows" for r
    using represents_row[OF assms(2) assms(3) that] by (auto simp: val_def)
  have in_rs: "set ?rs = {r \<in> set rows. cond r}" using set_pg_sort[OF assms(1)] by simp
  have "distinct (map row_key (filter cond rows))"
    by (rule distinct_map_filter[OF represents_distinct[OF assms(2,3)]])
  then have keys: "distinct (map row_key ?rs)"
    using assms(1) by (metis database_def mset_eq_imp_distinct_iff mset_map)
  have "list_all2 row_of (map val ?rs) ?rs"
    using of_row(1) in_rs by (simp add: list_all2_conv_all_nth) (metis (mono_tags, lifting) mem_Collect_eq nth_mem)
  from all_rows_read[OF this] obtain ms where ms: "allRows hydrate ?rs = Inr ms"
    "list_all2 (\<lambda>m v. members_same m (object v)) ms (map val ?rs)" by blast
  have "map key_of (map val ?rs) = map row_key ?rs"
    using row_key_of[OF of_row(1)] in_rs by auto
  then have distinct: "distinct (map val ?rs)" using keys by (metis distinct_map)
  have cond: "cond r \<longleftrightarrow> holds cond v" if "row_of v r" for v r
    using assms(4) that unfolding on_columns_def holds_def row_of_def by (metis pg_row.select_convs(1))
  have "set (map val ?rs) = set xs"
    unfolding assms(6)
  proof (intro set_eqI iffI)
    fix v assume "v \<in> set (map val ?rs)"
    then obtain r where "r \<in> set rows" "cond r" "v = val r" using in_rs by auto
    then show "v \<in> {v. \<exists>k. ok k \<and> get k = Some v \<and> holds cond v}"
      using of_row[of r] assms(3) cond by blast
  next
    fix v assume "v \<in> {v. \<exists>k. ok k \<and> get k = Some v \<and> holds cond v}"
    then obtain k where k: "ok k" "get k = Some v" "holds cond v" by blast
    then obtain r where r: "filter (\<lambda>r. row_key r = k) rows = [r]" "row_of v r"
      using represents_at[OF assms(2), of k] by auto
    have "r \<in> set rows \<and> row_key r = k" using arg_cong[OF r(1), of set] by auto
    then have "r \<in> set rows" "val r = v" using k(2) by (simp_all add: val_def)
    then show "v \<in> set (map val ?rs)" using cond[OF r(2)] k(3) in_rs by force
  qed
  then have "mset (map val ?rs) = mset xs" using distinct assms(5) set_eq_iff_mset_eq_distinct by blast
  then have "mset (map object (map val ?rs)) = mset (map object xs)" by (metis mset_map)
  moreover have "list_all2 members_same ms (map object (map val ?rs))" using ms(2) by (simp add: list_all2_map2)
  ultimately show ?thesis using ms(1) unfolding lists_as_def by blast
qed

end

section \<open>The tables of the ledger\<close>

definition position_ok :: "string list \<Rightarrow> bool" where
  "position_ok k \<longleftrightarrow> (\<exists>w v. k = [w, v] \<and> plain w)"

definition single :: "string list \<Rightarrow> bool" where
  "single k \<longleftrightarrow> length k = 1"

definition plain_payment :: "PaymentIntent \<Rightarrow> bool" where
  "plain_payment i \<longleftrightarrow> plain_json (pay_intentJson i) \<and> plain_json (opt_json (pay_settlementResponse i))"

lemma distinct_objects:
  "distinct (map fst (positionObject p))" "distinct (map fst (paymentObject i))"
  "distinct (map fst (depositObject d))" "distinct (map fst (withdrawalObject w))"
  by (simp_all add: distinct_defined positionObject_def paymentObject_def depositObject_def withdrawalObject_def)

interpretation position_rows: row_store "[''wallet'', ''vault'']" "[]" "[''wallet'', ''vault'']" positionColumns positionObject
    hydrateWalletPosition "\<lambda>_. True" position_ok
  by unfold_locales (simp_all add: positionColumns_def position_roundtrip distinct_objects)

interpretation payment_rows: row_store "[''payment_id'']" "[''status'']"
    "[''payment_id'', ''wallet'', ''vault'', ''seller'', ''seller_request_id'', ''request_binding_hash'', ''status'']"
    paymentColumns paymentObject hydratePaymentIntent plain_payment single
  by unfold_locales (simp_all add: paymentColumns_def payment_roundtrip plain_payment_def distinct_objects)

interpretation deposit_rows: row_store "[''deposit_id'']" "[''status'']" "[''deposit_id'', ''wallet'', ''vault'', ''status'']"
    depositColumns depositObject hydrateDepositIntent "\<lambda>_. True" single
  by unfold_locales (simp_all add: depositColumns_def deposit_roundtrip distinct_objects)

interpretation withdrawal_rows: row_store "[''withdrawal_id'']" "[''status'']" "[''withdrawal_id'', ''wallet'', ''vault'', ''status'']"
    withdrawalColumns withdrawalObject hydrateWithdrawalIntent "\<lambda>_. True" single
  by unfold_locales (simp_all add: withdrawalColumns_def withdrawal_roundtrip distinct_objects)

end
