(* ===== verification/Pg_History.thy ===== *)
theory Pg_History
  imports Pg_Refinement "HOL-Library.Product_Lexorder"
begin

text \<open>
  Histories of writes on the PostgreSQL ledger beside the same writes on the store of theory
  \<open>Ledger_Store\<close>, and the reads they agree on.
\<close>

section \<open>Writes\<close>

datatype ledger_write =
    WritePosition WalletPosition
  | WritePayment PaymentIntent
  | WriteDeposit DepositIntent
  | WriteWithdrawal WithdrawalIntent

fun in_memory :: "ledger_write \<Rightarrow> ledger \<Rightarrow> ledger" where
  "in_memory (WritePosition p) = savePosition p"
| "in_memory (WritePayment i) = savePayment i"
| "in_memory (WriteDeposit d) = saveDeposit d"
| "in_memory (WriteWithdrawal w) = saveWithdrawal w"

fun in_postgres :: "pg_env \<Rightarrow> int \<Rightarrow> ledger_write \<Rightarrow> (pg_tables, js_members) action" where
  "in_postgres G now (WritePosition p) = pgSavePosition G now p"
| "in_postgres G now (WritePayment i) = pgSavePayment G now i"
| "in_postgres G now (WriteDeposit d) = pgSaveDeposit G now d"
| "in_postgres G now (WriteWithdrawal w) = pgSaveWithdrawal G now w"

fun written_object :: "ledger_write \<Rightarrow> js_members" where
  "written_object (WritePosition p) = positionObject p"
| "written_object (WritePayment i) = paymentObject i"
| "written_object (WriteDeposit d) = depositObject d"
| "written_object (WriteWithdrawal w) = withdrawalObject w"

text \<open>
  What the services' writes keep: the columns an upsert does not rewrite never change for an
  identifier, and a seller request has one live payment (theory \<open>Payment_Outcomes\<close>).
\<close>

definition one_live_payment :: "ledger \<Rightarrow> bool" where
  "one_live_payment L \<longleftrightarrow> (\<forall>j k a b. getPayment L j = Some a \<and> getPayment L k = Some b
     \<and> pay_seller a = pay_seller b \<and> pay_sellerRequestId a = pay_sellerRequestId b
     \<and> pay_status a \<in> LIVE_OR_SETTLED_STATUSES \<and> pay_status b \<in> LIVE_OR_SETTLED_STATUSES \<longrightarrow> j = k)"

definition writable :: "ledger \<Rightarrow> ledger_write \<Rightarrow> bool" where
  "writable L x \<longleftrightarrow> (case x of
       WritePosition p \<Rightarrow> plain (pos_wallet p)
     | WritePayment i \<Rightarrow> plain_payment i \<and> one_live_payment (savePayment i L)
         \<and> (\<forall>old. getPayment L (pay_paymentId i) = Some old \<longrightarrow> pay_wallet old = pay_wallet i \<and> pay_vault old = pay_vault i
              \<and> pay_seller old = pay_seller i \<and> pay_sellerRequestId old = pay_sellerRequestId i
              \<and> pay_requestBindingHash old = pay_requestBindingHash i)
     | WriteDeposit d \<Rightarrow> (\<forall>old. getDeposit L (dep_depositId d) = Some old \<longrightarrow>
         dep_wallet old = dep_wallet d \<and> dep_vault old = dep_vault d)
     | WriteWithdrawal w \<Rightarrow> (\<forall>old. getWithdrawal L (wdr_withdrawalId w) = Some old \<longrightarrow>
         wdr_wallet old = wdr_wallet w \<and> wdr_vault old = wdr_vault w))"

definition empty_tables :: pg_tables where
  "empty_tables = \<lparr>tb_positions = [], tb_payments = [], tb_deposits = [], tb_withdrawals = [], tb_syncEvents = [],
     tb_mandates = [], tb_mandateEvents = [], tb_approvals = [], tb_sessions = []\<rparr>"

inductive pg_history :: "pg_env \<Rightarrow> pg_tables \<Rightarrow> ledger \<Rightarrow> bool" for G where
  history_start: "pg_history G empty_tables empty_ledger"
| history_write: "pg_history G T L \<Longrightarrow> writable L x \<Longrightarrow> pg_history G (snd (in_postgres G now x T)) (in_memory x L)"

section \<open>The tables represent the store\<close>

definition position_at :: "ledger \<Rightarrow> string list \<Rightarrow> WalletPosition option" where
  "position_at L k = (case k of [w, v] \<Rightarrow> getPosition L w v | _ \<Rightarrow> None)"

definition at_id :: "(string \<Rightarrow> 'v option) \<Rightarrow> string list \<Rightarrow> 'v option" where
  "at_id get k = (case k of [i] \<Rightarrow> get i | _ \<Rightarrow> None)"

definition pg_represents :: "pg_tables \<Rightarrow> ledger \<Rightarrow> bool" where
  "pg_represents T L \<longleftrightarrow> position_rows.represents (tb_positions T) (position_at L)
     \<and> payment_rows.represents (tb_payments T) (at_id (getPayment L))
     \<and> deposit_rows.represents (tb_deposits T) (at_id (getDeposit L))
     \<and> withdrawal_rows.represents (tb_withdrawals T) (at_id (getWithdrawal L))"

lemma at_id_save: "(\<And>k. get' k = (if k = i then Some v else get k)) \<Longrightarrow> at_id get' = (at_id get)([i] \<mapsto> v)"
  by (rule ext) (auto simp: at_id_def split: list.split)

lemma at_id_simp [simp]: "at_id get [i] = get i"
  by (simp add: at_id_def)

lemma keys_of [simp]:
  "position_rows.key_of p = [pos_wallet p, pos_vault p]" "payment_rows.key_of i = [pay_paymentId i]"
  "deposit_rows.key_of d = [dep_depositId d]" "withdrawal_rows.key_of w = [wdr_withdrawalId w]"
  by (simp_all add: position_rows.key_of_def position_rows.column_of_def positionColumns_def
      payment_rows.key_of_def payment_rows.column_of_def paymentColumns_def
      deposit_rows.key_of_def deposit_rows.column_of_def depositColumns_def
      withdrawal_rows.key_of_def withdrawal_rows.column_of_def withdrawalColumns_def)

lemma single_key [simp]: "single [i]"
  by (simp add: single_def)

lemma position_at_written:
  "plain (pos_wallet p) \<Longrightarrow> position_ok k \<Longrightarrow>
     position_at (savePosition p L) k = ((position_at L)([pos_wallet p, pos_vault p] \<mapsto> p)) k"
  unfolding position_ok_def position_at_def plain_def by (elim exE conjE) (simp add: positionKey_inj)

lemma represents_positions:
  assumes "database G" "position_rows.represents (tb_positions T) (position_at L)" "plain (pos_wallet p)"
  shows "position_rows.represents (upsert G now [''wallet'', ''vault''] [] (positionColumns p)
    (dehydrated (positionObject p)) (tb_positions T)) (position_at (savePosition p L))"
proof -
  have "position_rows.represents (upsert G now [''wallet'', ''vault''] [] (positionColumns p)
    (dehydrated (positionObject p)) (tb_positions T)) ((position_at L)(position_rows.key_of p \<mapsto> p))"
  proof (rule position_rows.represents_upsert[OF assms(1,2)])
    show "position_ok (position_rows.key_of p)" using assms(3) by (simp add: position_ok_def)
    show "position_rows.kept w p" for w by (simp add: position_rows.kept_def)
  qed simp_all
  then show ?thesis
    using position_at_written[OF assms(3)] by (simp add: position_rows.represents_def)
qed

lemma represents_payments:
  assumes "database G" "payment_rows.represents (tb_payments T) (at_id (getPayment L))" "writable L (WritePayment i)"
  shows "payment_rows.represents (upsert G now [''payment_id''] [''status''] (paymentColumns i)
    (dehydrated (paymentObject i)) (tb_payments T)) (at_id (getPayment (savePayment i L)))"
proof -
  have "payment_rows.represents (upsert G now [''payment_id''] [''status''] (paymentColumns i)
    (dehydrated (paymentObject i)) (tb_payments T)) ((at_id (getPayment L))(payment_rows.key_of i \<mapsto> i))"
  proof (rule payment_rows.represents_upsert[OF assms(1,2)])
    show "at_id (getPayment L) (payment_rows.key_of i) = Some w \<Longrightarrow> payment_rows.kept w i" for w
      using assms(3) by (simp add: writable_def payment_rows.kept_def payment_rows.column_of_def paymentColumns_def)
    show "plain_payment i" using assms(3) by (simp add: writable_def)
  qed simp_all
  moreover have "at_id (getPayment (savePayment i L)) = (at_id (getPayment L))([pay_paymentId i] \<mapsto> i)"
    by (rule at_id_save) simp
  ultimately show ?thesis by simp
qed

lemma represents_deposits:
  assumes "database G" "deposit_rows.represents (tb_deposits T) (at_id (getDeposit L))" "writable L (WriteDeposit d)"
  shows "deposit_rows.represents (upsert G now [''deposit_id''] [''status''] (depositColumns d)
    (dehydrated (depositObject d)) (tb_deposits T)) (at_id (getDeposit (saveDeposit d L)))"
proof -
  have "deposit_rows.represents (upsert G now [''deposit_id''] [''status''] (depositColumns d)
    (dehydrated (depositObject d)) (tb_deposits T)) ((at_id (getDeposit L))(deposit_rows.key_of d \<mapsto> d))"
  proof (rule deposit_rows.represents_upsert[OF assms(1,2)])
    show "at_id (getDeposit L) (deposit_rows.key_of d) = Some w \<Longrightarrow> deposit_rows.kept w d" for w
      using assms(3) by (simp add: writable_def deposit_rows.kept_def deposit_rows.column_of_def depositColumns_def)
  qed simp_all
  moreover have "at_id (getDeposit (saveDeposit d L)) = (at_id (getDeposit L))([dep_depositId d] \<mapsto> d)"
    by (rule at_id_save) simp
  ultimately show ?thesis by simp
qed

lemma represents_withdrawals:
  assumes "database G" "withdrawal_rows.represents (tb_withdrawals T) (at_id (getWithdrawal L))" "writable L (WriteWithdrawal x)"
  shows "withdrawal_rows.represents (upsert G now [''withdrawal_id''] [''status''] (withdrawalColumns x)
    (dehydrated (withdrawalObject x)) (tb_withdrawals T)) (at_id (getWithdrawal (saveWithdrawal x L)))"
proof -
  have "withdrawal_rows.represents (upsert G now [''withdrawal_id''] [''status''] (withdrawalColumns x)
    (dehydrated (withdrawalObject x)) (tb_withdrawals T)) ((at_id (getWithdrawal L))(withdrawal_rows.key_of x \<mapsto> x))"
  proof (rule withdrawal_rows.represents_upsert[OF assms(1,2)])
    show "at_id (getWithdrawal L) (withdrawal_rows.key_of x) = Some w \<Longrightarrow> withdrawal_rows.kept w x" for w
      using assms(3) by (simp add: writable_def withdrawal_rows.kept_def withdrawal_rows.column_of_def withdrawalColumns_def)
  qed simp_all
  moreover have "at_id (getWithdrawal (saveWithdrawal x L)) = (at_id (getWithdrawal L))([wdr_withdrawalId x] \<mapsto> x)"
    by (rule at_id_save) simp
  ultimately show ?thesis by simp
qed

section \<open>The index of live payments\<close>

lemma index_violated_pair:
  "index_violated rows \<Longrightarrow> distinct (map f rows) \<Longrightarrow>
     \<exists>r \<in> set rows. \<exists>r' \<in> set rows. rival_rows r r' \<and> f r \<noteq> f r'"
proof (induction rows)
  case (Cons r rows)
  then show ?case by (fastforce simp: list_ex_iff)
qed simp

lemma PaymentStatus_live: "PaymentStatus_string s \<in> set LIVE_STATUS_TEXTS \<longleftrightarrow> s \<in> LIVE_OR_SETTLED_STATUSES"
  by (cases s) (simp_all add: PaymentStatus_string_def LIVE_STATUS_TEXTS_def LIVE_OR_SETTLED_STATUSES_def)

lemma payment_columns:
  assumes "payment_rows.row_of i r"
  shows "column r ''seller'' = pay_seller i" "column r ''seller_request_id'' = pay_sellerRequestId i"
    "active_row r \<longleftrightarrow> pay_status i \<in> LIVE_OR_SETTLED_STATUSES" "payment_rows.row_key r = [pay_paymentId i]"
    "column r ''wallet'' = pay_wallet i" "column r ''vault'' = pay_vault i"
  using assms by (simp_all add: payment_rows.row_column payment_rows.column_of_def paymentColumns_def active_row_def
      PaymentStatus_live payment_rows.row_key_of)

lemma live_rows_apart:
  assumes "payment_rows.represents rows (at_id (getPayment L))" "one_live_payment L"
  shows "\<not> index_violated rows"
proof
  assume "index_violated rows"
  from index_violated_pair[OF this payment_rows.represents_distinct[OF assms(1)]]
  obtain r r' where r: "r \<in> set rows" "r' \<in> set rows" "rival_rows r r'" "payment_rows.row_key r \<noteq> payment_rows.row_key r'"
    by (auto simp: single_def payment_rows.row_key_def)
  obtain a where a: "at_id (getPayment L) (payment_rows.row_key r) = Some a" "payment_rows.row_of a r"
    using payment_rows.represents_row[OF assms(1) _ r(1)] by (auto simp: single_def payment_rows.row_key_def)
  obtain b where b: "at_id (getPayment L) (payment_rows.row_key r') = Some b" "payment_rows.row_of b r'"
    using payment_rows.represents_row[OF assms(1) _ r(2)] by (auto simp: single_def payment_rows.row_key_def)
  have ids: "payment_rows.row_key r = [pay_paymentId a]" "payment_rows.row_key r' = [pay_paymentId b]"
    by (rule payment_columns(4)[OF a(2)], rule payment_columns(4)[OF b(2)])
  then have "getPayment L (pay_paymentId a) = Some a" "getPayment L (pay_paymentId b) = Some b"
    using a(1) b(1) by simp_all
  moreover have "pay_seller a = pay_seller b" "pay_sellerRequestId a = pay_sellerRequestId b"
    "pay_status a \<in> LIVE_OR_SETTLED_STATUSES" "pay_status b \<in> LIVE_OR_SETTLED_STATUSES"
    using r(3) payment_columns[OF a(2)] payment_columns[OF b(2)] by (simp_all add: rival_rows_def)
  ultimately have "pay_paymentId a = pay_paymentId b"
    using assms(2) unfolding one_live_payment_def by blast
  then show False using r(4) ids by simp
qed

section \<open>Every history\<close>

definition faithful :: "pg_tables \<Rightarrow> ledger \<Rightarrow> bool" where
  "faithful T L \<longleftrightarrow> pg_represents T L \<and> ledger_ok L \<and> one_live_payment L"

lemma empty_reads [simp]:
  "getPosition empty_ledger w v = None" "getPayment empty_ledger k = None"
  "getDeposit empty_ledger k = None" "getWithdrawal empty_ledger k = None"
  by (simp_all add: empty_ledger_def getPosition_def getPayment_def getDeposit_def getWithdrawal_def map_get_def)

lemma empty_faithful: "faithful empty_tables empty_ledger"
proof -
  have "position_at empty_ledger k = None" "at_id (getPayment empty_ledger) k = None"
    "at_id (getDeposit empty_ledger) k = None" "at_id (getWithdrawal empty_ledger) k = None" for k
    by (simp_all add: position_at_def at_id_def split: list.split)
  then show ?thesis
    by (simp add: faithful_def pg_represents_def empty_tables_def position_rows.represents_def payment_rows.represents_def
        deposit_rows.represents_def withdrawal_rows.represents_def one_live_payment_def)
qed

text \<open>One write: it succeeds, returns what was written, and the tables still represent the store.\<close>

lemma frame_position_at [simp]:
  "position_at (savePayment i L) = position_at L" "position_at (saveDeposit d L) = position_at L"
  "position_at (saveWithdrawal w L) = position_at L"
  by (simp_all add: position_at_def[abs_def])

lemma one_live_frame [simp]:
  "one_live_payment (savePosition p L) = one_live_payment L" "one_live_payment (saveDeposit d L) = one_live_payment L"
  "one_live_payment (saveWithdrawal w L) = one_live_payment L"
  by (simp_all add: one_live_payment_def)

lemma in_postgres_write:
  assumes "database G" "faithful T L" "writable L x"
  shows "\<exists>m T'. in_postgres G now x T = (Inr m, T') \<and> members_same m (written_object x) \<and> faithful T' (in_memory x L)"
proof (cases x)
  case (WritePosition p)
  then have "plain (pos_wallet p)" using assms(3) by (simp add: writable_def)
  moreover obtain m where "hydrateWalletPosition (pg_jsonb G (dehydrated (positionObject p))) = Inr m"
    "members_same m (positionObject p)"
    using position_roundtrip[OF stored_jsonb[OF assms(1) distinct_objects(1)]] by blast
  ultimately show ?thesis
    using assms(2) represents_positions[OF assms(1), of T L p] WritePosition
    by (simp add: pgSavePosition_def bindA_def modifyA_def liftR_def faithful_def pg_represents_def)
next
  case (WritePayment i)
  let ?rows = "upsert G now [''payment_id''] [''status''] (paymentColumns i) (dehydrated (paymentObject i)) (tb_payments T)"
  have w: "plain_payment i" "one_live_payment (savePayment i L)" using assms(3) WritePayment by (simp_all add: writable_def)
  obtain m where m: "hydratePaymentIntent (pg_jsonb G (dehydrated (paymentObject i))) = Inr m" "members_same m (paymentObject i)"
    using payment_rows.reads[OF w(1) stored_jsonb[OF assms(1) distinct_objects(2)]] by blast
  have rep: "payment_rows.represents ?rows (at_id (getPayment (savePayment i L)))"
    using represents_payments[OF assms(1), of T L i] assms(2,3) WritePayment by (simp add: faithful_def pg_represents_def)
  then show ?thesis
    using live_rows_apart[OF rep w(2)] assms(2) w(2) m WritePayment
    by (simp add: pgSavePayment_def bindA_def getsA_def assertA_def returnA_def modifyA_def liftR_def faithful_def pg_represents_def)
next
  case (WriteDeposit d)
  moreover obtain m where "hydrateDepositIntent (pg_jsonb G (dehydrated (depositObject d))) = Inr m"
    "members_same m (depositObject d)"
    using deposit_roundtrip[OF stored_jsonb[OF assms(1) distinct_objects(3)]] by blast
  ultimately show ?thesis
    using assms(2,3) represents_deposits[OF assms(1), of T L d]
    by (simp add: pgSaveDeposit_def bindA_def modifyA_def liftR_def faithful_def pg_represents_def)
next
  case (WriteWithdrawal y)
  moreover obtain m where "hydrateWithdrawalIntent (pg_jsonb G (dehydrated (withdrawalObject y))) = Inr m"
    "members_same m (withdrawalObject y)"
    using withdrawal_roundtrip[OF stored_jsonb[OF assms(1) distinct_objects(4)]] by blast
  ultimately show ?thesis
    using assms(2,3) represents_withdrawals[OF assms(1), of T L y]
    by (simp add: pgSaveWithdrawal_def bindA_def modifyA_def liftR_def faithful_def pg_represents_def)
qed

lemma history_faithful: "pg_history G T L \<Longrightarrow> database G \<Longrightarrow> faithful T L"
proof (induction rule: pg_history.induct)
  case (history_write T L x now)
  then show ?case using in_postgres_write[of G T L x now] by auto
qed (rule empty_faithful)

section \<open>Reads\<close>

lemma on_columns_where: "payment_rows.on_columns (pg_where cs)" "deposit_rows.on_columns (pg_where cs)"
    "withdrawal_rows.on_columns (pg_where cs)"
  by (simp_all add: payment_rows.on_columns_def deposit_rows.on_columns_def withdrawal_rows.on_columns_def
      pg_where_def column_def list_all_iff)

lemma single_row_key [simp]: "single (payment_rows.row_key r)" "single (deposit_rows.row_key r)"
    "single (withdrawal_rows.row_key r)"
  by (simp_all add: single_def payment_rows.row_key_def deposit_rows.row_key_def withdrawal_rows.row_key_def)

lemma distinct_values: "keyed key m \<Longrightarrow> distinct (map_values m)"
proof -
  assume m: "keyed key m"
  then have "map (\<lambda>(k, v). key v) m = map fst m" by (auto simp: keyed_def)
  then have "map key (map_values m) = map fst m" by (simp add: map_values_def split_beta)
  then show ?thesis using m by (metis keyed_def map_ok_def distinct_map)
qed

lemma at_id_Some: "at_id get k = Some v \<longleftrightarrow> (\<exists>i. k = [i] \<and> get i = Some v)"
  by (cases k rule: remdups_adj.cases) (simp_all add: at_id_def)

lemma single_ids: "(\<exists>k. single k \<and> at_id get k = Some v \<and> P) \<longleftrightarrow> (\<exists>i. get i = Some v) \<and> P"
proof
  assume "(\<exists>i. get i = Some v) \<and> P"
  then obtain i where "at_id get [i] = Some v" P by auto
  moreover have "single [i]" by (simp add: single_def)
  ultimately show "\<exists>k. single k \<and> at_id get k = Some v \<and> P" by blast
qed (auto simp: at_id_Some)

lemma holds_payment: "payment_rows.holds (pg_where [(''wallet'', w), (''vault'', v)]) i \<longleftrightarrow> pay_wallet i = w \<and> pay_vault i = v"
  by (simp add: payment_rows.holds_def pg_where_def column_def paymentColumns_def)

lemma holds_deposit: "deposit_rows.holds (pg_where [(''wallet'', w), (''vault'', v)]) d \<longleftrightarrow> dep_wallet d = w \<and> dep_vault d = v"
  by (simp add: deposit_rows.holds_def pg_where_def column_def depositColumns_def)

lemma holds_withdrawal:
  "withdrawal_rows.holds (pg_where [(''wallet'', w), (''vault'', v)]) x \<longleftrightarrow> wdr_wallet x = w \<and> wdr_vault x = v"
  by (simp add: withdrawal_rows.holds_def pg_where_def column_def withdrawalColumns_def)

lemma lists_agree:
  assumes "database G" "faithful T L"
  shows "lists_as (fst (pgListPaymentsForPosition G w v T)) (map paymentObject (listPaymentsForPosition L w v))"
    and "lists_as (fst (pgListDepositsForPosition G w v T)) (map depositObject (listDepositsForPosition L w v))"
    and "lists_as (fst (pgListWithdrawalsForPosition G w v T)) (map withdrawalObject (listWithdrawalsForPosition L w v))"
proof -
  have ok: "keyed pay_paymentId (led_payments L)" "keyed dep_depositId (led_deposits L)"
    "keyed wdr_withdrawalId (led_withdrawals L)"
    using assms(2) by (simp_all add: faithful_def ledger_ok_def)
  show "lists_as (fst (pgListPaymentsForPosition G w v T)) (map paymentObject (listPaymentsForPosition L w v))"
    unfolding pgListPaymentsForPosition_def readA_def fst_conv
  proof (rule payment_rows.represents_select[OF assms(1) _ _ on_columns_where(1)])
    show "payment_rows.represents (tb_payments T) (at_id (getPayment L))"
      using assms(2) by (simp add: faithful_def pg_represents_def)
    show "distinct (listPaymentsForPosition L w v)" using distinct_values[OF ok(1)] by (simp add: listPaymentsForPosition_def)
    show "set (listPaymentsForPosition L w v) = {i. \<exists>k. single k \<and> at_id (getPayment L) k = Some i \<and>
        payment_rows.holds (pg_where [(''wallet'', w), (''vault'', v)]) i}"
      unfolding single_ids holds_payment using ok(1)
      by (auto simp: listPaymentsForPosition_def keyed_def in_map_values getPayment_def)
  qed simp
  show "lists_as (fst (pgListDepositsForPosition G w v T)) (map depositObject (listDepositsForPosition L w v))"
    unfolding pgListDepositsForPosition_def readA_def fst_conv
  proof (rule deposit_rows.represents_select[OF assms(1) _ _ on_columns_where(2)])
    show "deposit_rows.represents (tb_deposits T) (at_id (getDeposit L))"
      using assms(2) by (simp add: faithful_def pg_represents_def)
    show "distinct (listDepositsForPosition L w v)" using distinct_values[OF ok(2)] by (simp add: listDepositsForPosition_def)
    show "set (listDepositsForPosition L w v) = {i. \<exists>k. single k \<and> at_id (getDeposit L) k = Some i \<and>
        deposit_rows.holds (pg_where [(''wallet'', w), (''vault'', v)]) i}"
      unfolding single_ids holds_deposit using ok(2)
      by (auto simp: listDepositsForPosition_def keyed_def in_map_values getDeposit_def)
  qed simp
  show "lists_as (fst (pgListWithdrawalsForPosition G w v T)) (map withdrawalObject (listWithdrawalsForPosition L w v))"
    unfolding pgListWithdrawalsForPosition_def readA_def fst_conv
  proof (rule withdrawal_rows.represents_select[OF assms(1) _ _ on_columns_where(3)])
    show "withdrawal_rows.represents (tb_withdrawals T) (at_id (getWithdrawal L))"
      using assms(2) by (simp add: faithful_def pg_represents_def)
    show "distinct (listWithdrawalsForPosition L w v)"
      using distinct_values[OF ok(3)] by (simp add: listWithdrawalsForPosition_def)
    show "set (listWithdrawalsForPosition L w v) = {i. \<exists>k. single k \<and> at_id (getWithdrawal L) k = Some i \<and>
        withdrawal_rows.holds (pg_where [(''wallet'', w), (''vault'', v)]) i}"
      unfolding single_ids holds_withdrawal using ok(3)
      by (auto simp: listWithdrawalsForPosition_def keyed_def in_map_values getWithdrawal_def)
  qed simp
qed

lemma gets_agree:
  assumes "faithful T L"
  shows "plain w \<Longrightarrow> reads_as (fst (pgGetPosition w v T)) (map_option positionObject (getPosition L w v))"
    and "reads_as (fst (pgGetPayment k T)) (map_option paymentObject (getPayment L k))"
    and "reads_as (fst (pgGetDeposit k T)) (map_option depositObject (getDeposit L k))"
    and "reads_as (fst (pgGetWithdrawal k T)) (map_option withdrawalObject (getWithdrawal L k))"
proof -
  have rep: "position_rows.represents (tb_positions T) (position_at L)"
    "payment_rows.represents (tb_payments T) (at_id (getPayment L))"
    "deposit_rows.represents (tb_deposits T) (at_id (getDeposit L))"
    "withdrawal_rows.represents (tb_withdrawals T) (at_id (getWithdrawal L))"
    using assms by (simp_all add: faithful_def pg_represents_def)
  show "plain w \<Longrightarrow> reads_as (fst (pgGetPosition w v T)) (map_option positionObject (getPosition L w v))"
    using position_rows.represents_first[OF rep(1), of "[w, v]" "pg_where [(''wallet'', w), (''vault'', v)]"]
    by (simp add: pgGetPosition_def readA_def position_ok_def position_at_def pg_where_def position_rows.row_key_def)
  show "reads_as (fst (pgGetPayment k T)) (map_option paymentObject (getPayment L k))"
    using payment_rows.represents_first[OF rep(2), of "[k]" "pg_where [(''payment_id'', k)]"]
    by (simp add: pgGetPayment_def readA_def single_def pg_where_def payment_rows.row_key_def)
  show "reads_as (fst (pgGetDeposit k T)) (map_option depositObject (getDeposit L k))"
    using deposit_rows.represents_first[OF rep(3), of "[k]" "pg_where [(''deposit_id'', k)]"]
    by (simp add: pgGetDeposit_def readA_def single_def pg_where_def deposit_rows.row_key_def)
  show "reads_as (fst (pgGetWithdrawal k T)) (map_option withdrawalObject (getWithdrawal L k))"
    using withdrawal_rows.represents_first[OF rep(4), of "[k]" "pg_where [(''withdrawal_id'', k)]"]
    by (simp add: pgGetWithdrawal_def readA_def single_def pg_where_def withdrawal_rows.row_key_def)
qed

text \<open>The row found for a seller request is the live payment's when there is one.\<close>

lemma find_agrees:
  assumes "database G" "faithful T L" "findPaymentBySellerRequest L s q = Some p"
  shows "\<exists>p' \<in> seller_request_payments L s q. reads_as (fst (pgFindPaymentBySellerRequest G s q T)) (Some (paymentObject p'))
    \<and> (if pay_status p \<in> LIVE_OR_SETTLED_STATUSES then p' = p else pay_status p' \<notin> LIVE_OR_SETTLED_STATUSES)"
proof -
  have rep: "payment_rows.represents (tb_payments T) (at_id (getPayment L))" and ok: "ledger_ok L" "one_live_payment L"
    using assms(2) by (simp_all add: faithful_def pg_represents_def)
  let ?cond = "pg_where [(''seller'', s), (''seller_request_id'', q)]"
  let ?rs = "pg_sort G by_liveness (filter ?cond (tb_payments T))"
  have in_rs: "set ?rs = {r \<in> set (tb_payments T). ?cond r}" using set_pg_sort[OF assms(1)] by simp
  have p: "p \<in> seller_request_payments L s q" "pay_status p \<notin> LIVE_OR_SETTLED_STATUSES \<Longrightarrow>
      \<forall>x \<in> seller_request_payments L s q. pay_status x \<notin> LIVE_OR_SETTLED_STATUSES"
    using find_payment_cases[OF ok(1), of s q] assms(3) by auto
  then have get: "getPayment L (pay_paymentId p) = Some p" "pay_seller p = s" "pay_sellerRequestId p = q"
    by (simp_all add: seller_request_payments_def)
  obtain rp where rp: "filter (\<lambda>r. payment_rows.row_key r = [pay_paymentId p]) (tb_payments T) = [rp]" "payment_rows.row_of p rp"
    using payment_rows.represents_at[OF rep, of "[pay_paymentId p]"] get(1) by (auto simp: single_def)
  have rp_in: "rp \<in> set ?rs"
    unfolding in_rs using arg_cong[OF rp(1), of set] payment_columns[OF rp(2)] get(2,3) by (auto simp: pg_where_def)
  then obtain r rest where rs: "?rs = r # rest" by (cases ?rs) auto
  have r: "r \<in> set (tb_payments T)" "?cond r" using in_rs rs by auto
  obtain p' where p': "getPayment L (pay_paymentId p') = Some p'" "payment_rows.row_of p' r"
    using payment_rows.represents_row[OF rep _ r(1)] payment_columns(4)[of _ r] by auto
  have mem: "p' \<in> seller_request_payments L s q"
    using p'(1) r(2) payment_columns[OF p'(2)] by (simp add: seller_request_payments_def pg_where_def)
  have "\<exists>m. hydratePaymentIntent (row_data r) = Inr m \<and> members_same m (paymentObject p')"
    using p'(2) payment_rows.reads by (auto simp: payment_rows.row_of_def)
  then have read: "reads_as (fst (pgFindPaymentBySellerRequest G s q T)) (Some (paymentObject p'))"
    by (auto simp: pgFindPaymentBySellerRequest_def readA_def rs firstRow_def bindR_def reads_as_def)
  have "p' = p" if live: "pay_status p \<in> LIVE_OR_SETTLED_STATUSES"
  proof -
    have "sorted_by by_liveness (r # rest)" using assms(1) rs by (metis database_def)
    then have "fst (by_liveness r) \<le> fst (by_liveness rp)" using rp_in rs by (auto simp: sorted_by_def)
    then have "pay_status p' \<in> LIVE_OR_SETTLED_STATUSES"
      using payment_columns(3)[OF rp(2)] payment_columns(3)[OF p'(2)] live by (simp add: by_liveness_def split: if_splits)
    moreover have "pay_seller p' = pay_seller p" "pay_sellerRequestId p' = pay_sellerRequestId p"
      using mem get(2,3) by (simp_all add: seller_request_payments_def)
    ultimately have "pay_paymentId p' = pay_paymentId p"
      using ok(2) p'(1) get(1) live unfolding one_live_payment_def by blast
    then show ?thesis using p'(1) get(1) by (metis option.inject)
  qed
  moreover have "pay_status p' \<notin> LIVE_OR_SETTLED_STATUSES" if "pay_status p \<notin> LIVE_OR_SETTLED_STATUSES"
    using p(2)[OF that] mem by (rule bspec)
  ultimately show ?thesis using read by (intro bexI[OF _ mem]) simp
qed

lemma find_none:
  assumes "database G" "faithful T L" "findPaymentBySellerRequest L s q = None"
  shows "fst (pgFindPaymentBySellerRequest G s q T) = Inr None"
proof -
  have rep: "payment_rows.represents (tb_payments T) (at_id (getPayment L))" and ok: "ledger_ok L"
    using assms(2) by (simp_all add: faithful_def pg_represents_def)
  have "\<not> pg_where [(''seller'', s), (''seller_request_id'', q)] r" if r: "r \<in> set (tb_payments T)" for r
  proof
    assume c: "pg_where [(''seller'', s), (''seller_request_id'', q)] r"
    obtain p where p: "getPayment L (pay_paymentId p) = Some p" "payment_rows.row_of p r"
      using payment_rows.represents_row[OF rep _ r] payment_columns(4)[of _ r] by auto
    then have "p \<in> seller_request_payments L s q"
      using c payment_columns[OF p(2)] by (simp add: seller_request_payments_def pg_where_def)
    then show False using find_payment_none[OF ok assms(3)] by simp
  qed
  then have "filter (pg_where [(''seller'', s), (''seller_request_id'', q)]) (tb_payments T) = []"
    by (simp add: filter_empty_conv)
  moreover have "pg_sort G f [] = []" for f using set_pg_sort[OF assms(1), of f "[]"] by simp
  ultimately show ?thesis by (simp add: pgFindPaymentBySellerRequest_def readA_def firstRow_def)
qed

section \<open>The PostgreSQL ledger implements the store\<close>

text \<open>
  C16: along every history of writes, each write of a position, payment, deposit or withdrawal that keeps
  the rules of the services succeeds, never trips the unique index of live payments and returns what was
  written, and every read of the tables is the read of the in-memory store, objects being equal up to
  the order of their members and lists up to the order of their entries: the records by key, the lists
  of a position, and the payment of a seller request, which is the live one when there is one.
\<close>

theorem postgres_ledger_refines:
  assumes "database G" "pg_history G T L"
  shows "(writable L x \<longrightarrow> (\<exists>m T'. in_postgres G now x T = (Inr m, T') \<and> members_same m (written_object x)
        \<and> pg_history G T' (in_memory x L)))
    \<and> (plain w \<longrightarrow> reads_as (fst (pgGetPosition w v T)) (map_option positionObject (getPosition L w v)))
    \<and> reads_as (fst (pgGetPayment k T)) (map_option paymentObject (getPayment L k))
    \<and> reads_as (fst (pgGetDeposit k T)) (map_option depositObject (getDeposit L k))
    \<and> reads_as (fst (pgGetWithdrawal k T)) (map_option withdrawalObject (getWithdrawal L k))
    \<and> lists_as (fst (pgListPaymentsForPosition G w v T)) (map paymentObject (listPaymentsForPosition L w v))
    \<and> lists_as (fst (pgListDepositsForPosition G w v T)) (map depositObject (listDepositsForPosition L w v))
    \<and> lists_as (fst (pgListWithdrawalsForPosition G w v T)) (map withdrawalObject (listWithdrawalsForPosition L w v))
    \<and> (case findPaymentBySellerRequest L s q of
         None \<Rightarrow> fst (pgFindPaymentBySellerRequest G s q T) = Inr None
       | Some p \<Rightarrow> \<exists>p' \<in> seller_request_payments L s q.
           reads_as (fst (pgFindPaymentBySellerRequest G s q T)) (Some (paymentObject p'))
           \<and> (if pay_status p \<in> LIVE_OR_SETTLED_STATUSES then p' = p else pay_status p' \<notin> LIVE_OR_SETTLED_STATUSES))"
proof -
  have F: "faithful T L" by (rule history_faithful[OF assms(2,1)])
  have "\<exists>m T'. in_postgres G now x T = (Inr m, T') \<and> members_same m (written_object x) \<and> pg_history G T' (in_memory x L)"
    if x: "writable L x"
  proof -
    obtain m T' where "in_postgres G now x T = (Inr m, T')" "members_same m (written_object x)"
      using in_postgres_write[OF assms(1) F x] by blast
    then show ?thesis using history_write[OF assms(2) x, of now] by auto
  qed
  moreover have "case findPaymentBySellerRequest L s q of
         None \<Rightarrow> fst (pgFindPaymentBySellerRequest G s q T) = Inr None
       | Some p \<Rightarrow> \<exists>p' \<in> seller_request_payments L s q.
           reads_as (fst (pgFindPaymentBySellerRequest G s q T)) (Some (paymentObject p'))
           \<and> (if pay_status p \<in> LIVE_OR_SETTLED_STATUSES then p' = p else pay_status p' \<notin> LIVE_OR_SETTLED_STATUSES)"
    using find_none[OF assms(1) F] find_agrees[OF assms(1) F]
    by (cases "findPaymentBySellerRequest L s q") (simp_all only: option.case)
  ultimately show ?thesis using gets_agree[OF F] lists_agree[OF assms(1) F] by blast
qed

subsection \<open>On a concrete database\<close>

definition sample_pg :: pg_env where
  "sample_pg = \<lparr>pg_jsonb = (\<lambda>m. m), pg_sort = sort_key\<rparr>"

lemma sample_database: "database sample_pg"
proof -
  have "sorted_by f (sort_key f rows)" for f rows
  proof -
    have "sorted_wrt (\<lambda>r r'. f r \<le> f r') (sort_key f rows)"
      using sorted_sort_key[of f rows] by (simp add: sorted_map)
    then show ?thesis
      unfolding sorted_by_def by (rule sorted_wrt_mono_rel[rotated]) (auto simp: less_eq_prod_def)
  qed
  then show ?thesis by (simp add: database_def sample_pg_def members_same_refl)
qed

definition sample_store :: ledger where
  "sample_store = savePayment sample_payment (savePosition sample_position empty_ledger)"

definition sample_tables :: pg_tables where
  "sample_tables = snd (in_postgres sample_pg 2 (WritePayment sample_payment)
     (snd (in_postgres sample_pg 1 (WritePosition sample_position) empty_tables)))"

lemma sample_payment_writable:
  "getPayment L = (\<lambda>_. None) \<or> getPayment L = (\<lambda>k. if k = ''pay_1'' then Some sample_payment else None) \<Longrightarrow>
     writable L (WritePayment (sample_payment\<lparr>pay_status := s\<rparr>))"
  by (elim disjE) (simp_all add: writable_def plain_payment_def one_live_payment_def sample_payment_def opt_json_def)

lemma sample_gets: "getPayment (savePosition sample_position empty_ledger) = (\<lambda>_. None)"
    "getPayment sample_store = (\<lambda>k. if k = ''pay_1'' then Some sample_payment else None)"
  by (auto simp: sample_store_def sample_payment_def fun_eq_iff)

lemma sample_history: "pg_history sample_pg sample_tables sample_store"
proof -
  have "writable empty_ledger (WritePosition sample_position)"
    by (simp add: writable_def plain_def sample_position_def sample_address_defs)
  from history_write[OF history_start this, of sample_pg 1]
  have "pg_history sample_pg (snd (in_postgres sample_pg 1 (WritePosition sample_position) empty_tables))
    (savePosition sample_position empty_ledger)" by simp
  moreover have "writable (savePosition sample_position empty_ledger) (WritePayment sample_payment)"
    using sample_payment_writable[OF disjI1[OF sample_gets(1)], of pay_prepared] by (simp add: sample_payment_def)
  ultimately show ?thesis
    unfolding sample_tables_def sample_store_def by (metis history_write in_memory.simps(2))
qed

text \<open>A position and a payment are written, then the payment expires.\<close>

lemma postgres_ledger_refines_witness:
  "(\<exists>m T'. in_postgres sample_pg 3 (WritePayment (sample_payment\<lparr>pay_status := pay_expired\<rparr>)) sample_tables = (Inr m, T')
      \<and> members_same m (paymentObject (sample_payment\<lparr>pay_status := pay_expired\<rparr>)))
    \<and> reads_as (fst (pgGetPosition sample_wallet sample_vault sample_tables)) (Some (positionObject sample_position))
    \<and> reads_as (fst (pgGetPayment ''pay_1'' sample_tables)) (Some (paymentObject sample_payment))"
proof -
  have w: "writable sample_store (WritePayment (sample_payment\<lparr>pay_status := pay_expired\<rparr>))"
    by (rule sample_payment_writable[OF disjI2[OF sample_gets(2)]])
  have "plain sample_wallet" by (simp add: plain_def sample_address_defs)
  moreover have "getPosition sample_store sample_wallet sample_vault = Some sample_position"
    by (simp add: sample_store_def sample_position_def)
  moreover have "getPayment sample_store ''pay_1'' = Some sample_payment" by (simp add: sample_gets)
  ultimately show ?thesis
    using postgres_ledger_refines[OF sample_database sample_history, of "WritePayment (sample_payment\<lparr>pay_status := pay_expired\<rparr>)"
        3 sample_wallet sample_vault "''pay_1''"] w
    by (metis option.map(2) written_object.simps(2))
qed

end
