(* ===== verification/Position_Versions.thy ===== *)
theory Position_Versions
  imports System_Steps
begin

text \<open>
  The version of a position: every write of a position by the payment service and the vault flows
  raises it, so that along any interleaving of their sections a position whose version is unchanged
  is unchanged. The stale snapshot check of a sync relies on this.
\<close>

section \<open>Ledgers between which positions change only with their version\<close>

definition moved :: "WalletPosition \<Rightarrow> WalletPosition option \<Rightarrow> bool" where
  "moved p x \<longleftrightarrow> (\<exists>p'. x = Some p' \<and> (p' = p \<or> pos_version p < pos_version p'))"

definition versioned :: "ledger \<Rightarrow> ledger \<Rightarrow> bool" where
  "versioned L M \<longleftrightarrow> (\<forall>w v p. plain w \<longrightarrow> getPosition L w v = Some p \<longrightarrow> moved p (getPosition M w v))"

definition tracked :: "ledger \<Rightarrow> ledger \<Rightarrow> bool" where
  "tracked L M \<longleftrightarrow> reservations_balanced M \<and> versioned L M"

lemma versioned_refl [simp]: "versioned L L"
  by (simp add: versioned_def moved_def)

lemma versioned_same: "getPosition M = getPosition L \<Longrightarrow> versioned L M"
  by (simp add: versioned_def moved_def)

lemma moved_trans: "moved p (Some q) \<Longrightarrow> moved q x \<Longrightarrow> moved p x"
  by (auto simp: moved_def)

lemma versioned_trans: "versioned L M \<Longrightarrow> versioned M N \<Longrightarrow> versioned L N"
  unfolding versioned_def by (metis moved_def moved_trans)

lemma versioned_frame [simp]:
  "versioned L (savePayment i M) = versioned L M" "versioned L (saveDeposit d M) = versioned L M"
  "versioned L (saveWithdrawal x M) = versioned L M" "versioned L (saveLiquidityPolicy q M) = versioned L M"
  "versioned L (recordSyncEvent now uuid e M) = versioned L M"
  by (simp_all add: versioned_def)

lemma versioned_frames [simp]:
  "versioned L (fold (\<lambda>p. savePayment (f p)) xs M) = versioned L M"
  "versioned L (fold (\<lambda>d. saveDeposit (g d)) ds M) = versioned L M"
  "versioned L (fold (\<lambda>x. saveWithdrawal (h x)) ys M) = versioned L M"
  by ((induction xs arbitrary: M; simp), (induction ds arbitrary: M; simp), (induction ys arbitrary: M; simp))

text \<open>Writing back a position that was read, with a greater version.\<close>

lemma versioned_rewrite:
  assumes bal: "reservations_balanced M" and got: "getPosition M w v = Some p"
    and p': "pos_wallet p' = pos_wallet p" "pos_vault p' = pos_vault p" "pos_version p < pos_version p'"
    and N: "getPosition N = getPosition M"
  shows "versioned M (savePosition p' N)"
proof -
  note ok = store_ok_positions[OF balanced_store[OF bal]]
  have got': "map_get (led_positions M) (positionKey w v) = Some p" using got by (simp add: getPosition_def)
  have "positionKey w v = positionKey (pos_wallet p) (pos_vault p)"
    using positions.get_key[OF ok got'] by (simp add: position_key_def)
  moreover have "q = p" if "getPosition M w' v' = Some q" "positionKey w' v' = positionKey w v" for w' v' q
    using that got by (simp add: getPosition_def)
  ultimately show ?thesis using p' N by (auto simp: versioned_def moved_def)
qed

lemma versioned_new:
  assumes "getPosition M (pos_wallet p) (pos_vault p) = None"
  shows "versioned M (savePosition p M)"
proof -
  have "getPosition M w v = None" if "positionKey w v = positionKey (pos_wallet p) (pos_vault p)" for w v
    using assms that by (simp add: getPosition_def)
  then show ?thesis by (auto simp: versioned_def moved_def)
qed

abbreviation tracks :: "ledger \<Rightarrow> (ledger, 'a) action \<Rightarrow> ledger \<Rightarrow> bool" where
  "tracks L m M \<equiv> runs m M (\<lambda>_. versioned L) (\<lambda>_. versioned L)"

lemma tracks_lock: "versioned L M \<Longrightarrow> tracks L m M \<Longrightarrow> tracks L (withLock k m) M"
  by (rule lock.runs_lock_inv)

text \<open>It is enough to look from where an action starts.\<close>

lemma tracks_from: "versioned L M \<Longrightarrow> tracks M m M \<Longrightarrow> tracks L m M"
  by (rule runs_mono, assumption) (auto intro: versioned_trans)

section \<open>The payment service\<close>

lemma register_versions:
  assumes "reservations_balanced L"
  shows "tracks L (registerAgentWallet E x) L"
proof -
  have "versioned L (savePosition (updatedSignerPosition p x n) L)"
    if "getPosition L w v = Some p" for p n w v
    by (rule versioned_rewrite[OF assms that]) (simp_all add: updatedSignerPosition_def Let_def)
  moreover have "versioned L (savePosition (initialPosition E w x n) L)"
    if "getPosition L w (vc_address (pe_vault E)) = None" for w n
    by (rule versioned_new) (simp add: initialPosition_def Let_def that)
  ultimately show ?thesis
    by (auto simp: registerAgentWallet_def Let_def intro!: tracks_lock split: option.splits sum.splits)
qed

lemma synced_version [simp]: "pos_version (syncedPosition p x n r b) = pos_version p + 1"
  by (simp add: syncedPosition_def)

lemma sync_versions:
  assumes "reservations_balanced L"
  shows "tracks L (syncWalletPosition E now uuid x) L"
proof -
  have fold: "getPosition (fold (\<lambda>p. savePayment (f p)) xs L) = getPosition L" for f xs
    by (induction xs arbitrary: L) simp_all
  have "tracks L (syncLockedPosition now uuid w v x) L" for w v
    using assms by (auto simp: syncLockedPosition_def Let_def fold intro!: versioned_rewrite[OF assms]
        split: option.splits sum.splits)
  then show ?thesis by (auto simp: syncWalletPosition_def Let_def intro!: tracks_lock)
qed

lemma expire_versions:
  assumes "reservations_balanced L" "plain w"
  shows "runs (expirePreparedPaymentsForLockedPosition now w v) L (\<lambda>r M. r = getPosition M w v \<and> tracked L M) (\<lambda>_ _. False)"
proof (rule runs_mono[OF expire_outcome[OF assms, of now v]])
  fix r M
  assume *: "r = getPosition M w v \<and> reservations_balanced M \<and>
       (\<forall>w' v'. plain w' \<and> (w', v') \<noteq> (w, v) \<longrightarrow> getPosition M w' v' = getPosition L w' v') \<and>
       (case getPosition L w v of None \<Rightarrow> M = L
        | Some p \<Rightarrow> (\<forall>k. getPayment M k = map_option (afterExpiry now w v) (getPayment L k)) \<and>
            (let xs = expiredPreparedPayments now L w v
             in getPosition M w v = (if xs = [] then Some p
                  else Some (p\<lparr>pos_reservedRawUsdc := pos_reservedRawUsdc p - (\<Sum>x\<leftarrow>xs. pay_reservationRawUsdc x),
                               pos_version := pos_version p + 1\<rparr>))))"
  have "moved p (getPosition M w' v')" if "plain w'" "getPosition L w' v' = Some p" for w' v' p
    using * that by (cases "(w', v') = (w, v)") (auto simp: moved_def Let_def split: if_splits)
  then show "r = getPosition M w v \<and> tracked L M" using * by (simp add: tracked_def versioned_def)
qed

lemma budget_versions:
  assumes "reservations_balanced L"
  shows "tracks L (getBudget E now w vi) L"
proof -
  have "valid_address w \<Longrightarrow> runs (expirePreparedPaymentsForLockedPosition now w v) L Q (\<lambda>_. versioned L)"
    if "\<And>r t. versioned L t \<Longrightarrow> Q r t" for v Q
    by (rule runs_mono[OF expire_versions[OF assms valid_address_plain]]) (auto simp: tracked_def intro: that)
  then show ?thesis
    by (auto simp: getBudget_def Let_def intro!: tracks_lock split: option.splits sum.splits)
qed

lemma expirePrepared_versions: "reservations_balanced L \<Longrightarrow> tracks L (expirePreparedPayment now i) L"
  by (auto simp: expirePreparedPayment_def Let_def intro: versioned_rewrite split: option.splits)

lemma verify_versions: "reservations_balanced L \<Longrightarrow> tracks L (verifyExpiredSection E now k x) L"
  by (auto simp: verifyExpiredSection_def expirePrepared_versions split: option.splits)

lemma commit_versions:
  assumes "reservations_balanced L" "getPosition L (pr_wallet q) (pr_vault q) = Some p"
  shows "tracks L (commitPreparedPayment E now uuid q pol p s f e) L"
  by (auto simp: commitPreparedPayment_def Let_def intro!: versioned_rewrite[OF assms] split: sum.splits)

lemma quote_versions:
  assumes bal: "reservations_balanced L" and p: "getPosition L (pr_wallet q) (pr_vault q) = Some p" and w: "plain (pr_wallet q)"
  shows "runs (quoteWorkingPosition E now uuid q p) L
    (\<lambda>(p', s) M. tracked L M \<and> getPosition M (pr_wallet q) (pr_vault q) = Some p') (\<lambda>_. versioned L)"
proof -
  have quoted: "versioned L (savePosition (quotedPosition p s) L)" for s
    by (rule versioned_rewrite[OF bal p]) (simp_all add: quotedPosition_def)
  have flagged: "versioned L (savePosition (flagBaselineReset p) L)"
    by (rule versioned_rewrite[OF bal p]) (simp_all add: flagBaselineReset_def)
  have "runs (quoteWorkingPosition E now uuid q p) L (\<lambda>_. versioned L) (\<lambda>_. versioned L)"
    unfolding quoteWorkingPosition_def Let_def
    by (cases "pe_quote E") (simp_all add: quoted flagged split: sum.split)
  from runs_conj[OF quote_outcome[OF bal p w] this] show ?thesis
    by (rule runs_mono) (auto simp: tracked_def)
qed

lemma evaluate_versions:
  assumes bal: "reservations_balanced L" and p: "getPosition L (pr_wallet q) (pr_vault q) = Some p" and w: "plain (pr_wallet q)"
  shows "tracks L (evaluateAndCommit E now uuid evUuid q lp (p, pol)) L"
proof -
  have commit: "tracks L (commitPreparedPayment E now uuid q pol p' s f e) M"
    if "tracked L M" "getPosition M (pr_wallet q) (pr_vault q) = Some p'" for M p' s f e
    using that by (auto simp: tracked_def intro: tracks_from[OF _ commit_versions])
  show ?thesis
    unfolding evaluateAndCommit_def prod.case
  proof (rule runs_seq[OF quote_versions[OF bal p w]], goal_cases)
    case (1 ps M)
    then obtain p' s where ps: "ps = (p', s)" and t: "tracked L M" "getPosition M (pr_wallet q) (pr_vault q) = Some p'"
      by (cases ps) simp
    have "versioned L M" using t(1) by (simp add: tracked_def)
    then show ?case using commit[OF t] by (simp add: ps split: sum.split BudgetDecision.split)
  qed
qed

lemma prepare_versions:
  assumes bal: "reservations_balanced L"
  shows "tracks L (preparePayment E now uuid evUuid x) L"
proof -
  have "tracks L (prepareLockedPayment E now uuid evUuid q) L" if w: "plain (pr_wallet q)" for q
    unfolding prepareLockedPayment_def
  proof (rule runs_seq[OF expire_versions[OF bal w]])
    fix r M
    assume *: "r = getPosition M (pr_wallet q) (pr_vault q) \<and> tracked L M"
    then have "tracks L (evaluateAndCommit E now uuid evUuid q lp payable) M"
      if "requirePayablePosition E (getPosition M (pr_wallet q) (pr_vault q)) = Inr payable" for payable lp
      using that by (cases payable) (auto simp: requirePayable_iff tracked_def intro: tracks_from[OF _ evaluate_versions[OF _ _ w]])
    then show "tracks L (bindA (readA (\<lambda>L. existingPayment L q)) (\<lambda>existing. case existing of
        Some p \<Rightarrow> liftR (serializePaymentIntent p)
      | None \<Rightarrow> bindA (readA (\<lambda>L. requirePayablePosition E (getPosition L (pr_wallet q) (pr_vault q)))) (\<lambda>payable.
         bindA (readA (\<lambda>L. checkR (pendingVaultFlows now L (pr_wallet q) (pr_vault q) = 0)
           (conflict ''vault_flow_pending''))) (\<lambda>_.
         bindA (getsA (\<lambda>L. sellerLiquidityPolicy L (pr_seller q) (pr_vault q))) (\<lambda>liquidityPolicy.
         bindA (liftR (checkLiquidityPolicy E liquidityPolicy (pr_amountRawUsdc q))) (\<lambda>_.
         evaluateAndCommit E now uuid evUuid q liquidityPolicy payable)))))) M"
      using * by (auto simp: tracked_def split: sum.splits option.splits)
  qed auto
  then show ?thesis
    using checkPaymentRequest_wallet[of E x]
    by (auto simp: preparePayment_def valid_address_plain intro!: tracks_lock split: sum.splits)
qed

lemma applied_version:
  "applySettlementResultToPosition p i r = Inr p' \<Longrightarrow> pos_version p' = pos_version p + 1"
  by (auto simp: applySettlementResultToPosition_def Let_def bindR_Inr
      split: SettlementSubmissionResult.splits if_splits)

lemma finalize_versions:
  assumes "reservations_balanced L"
  shows "tracks L (finalizeSubmittedPayment E now uuid i r) L"
proof -
  have applied: "versioned L (savePosition p' L)"
    if "getPosition L w v = Some p" "applySettlementResultToPosition p i r = Inr p'" for p p' w v
    by (rule versioned_rewrite[OF assms that(1)])
      (use applied_version[OF that(2)] applySettlement_reserved[OF that(2)] in simp_all)
  have flagged: "versioned L (savePosition (flagBaselineReset p) L)" if "getPosition L w v = Some p" for p w v
    by (rule versioned_rewrite[OF assms that]) (simp_all add: flagBaselineReset_def)
  show ?thesis
    using applied flagged
    by (auto simp: finalizeSubmittedPayment_def rejectSettlementResult_def split: option.splits sum.splits)
qed

lemma section_versions:
  assumes "reservations_balanced L"
  shows "tracks L (finalizeSubmissionSection E now uuid k r) L" "tracks L (reconcileSection E now uuid k r) L"
    "tracks L (recordPendingSection now k t m) L" "tracks L (markPaymentSubmittedBeforeSend now k) L"
    "tracks L (settleSection E now y) L" "tracks L (upsertLiquidityPolicy E num z) L"
  using finalize_versions[OF assms] expirePrepared_versions[OF assms]
  by (auto simp: finalizeSubmissionSection_def reconcileSection_def recordPendingSection_def
      markPaymentSubmittedBeforeSend_def settleSection_def prepareSubmissionRecord_def upsertLiquidityPolicy_def Let_def
      split: option.splits sum.splits Verification.splits)

lemma payment_step_versions:
  assumes "payment_step E L L'" "reservations_balanced L"
  shows "versioned L L'"
  using assms
  by (induction rule: payment_step.induct)
    (simp_all add: register_versions sync_versions budget_versions verify_versions prepare_versions section_versions
      tracks_lock flip: runs_snd)

section \<open>The vault flows\<close>

abbreviation stays :: "ledger \<Rightarrow> (ledger, 'a) action \<Rightarrow> ledger \<Rightarrow> bool" where
  "stays L m M \<equiv> runs m M (\<lambda>_. tracked L) (\<lambda>e N. rolls_back PostgresLedger e \<or> tracked L N)"

lemma stays_seq:
  assumes "stays L m M" "\<And>x N. tracked L N \<Longrightarrow> stays L (f x) N"
  shows "stays L (bindA m f) M"
  by (rule runs_seq[OF assms(1)]) (use assms(2) in auto)

text \<open>An action that keeps the balance and moves positions with their version.\<close>

lemma stays_when:
  assumes "tracked L M" "flow_keeps m M"
    "runs m M (\<lambda>_. versioned M) (\<lambda>e N. rolls_back PostgresLedger e \<or> versioned M N)"
  shows "stays L m M"
  by (rule runs_mono[OF runs_conj[OF assms(2,3)]]) (use assms(1) versioned_trans in \<open>auto simp: tracked_def\<close>)

lemma fee_debt_versions: "reservations_balanced L \<Longrightarrow> tracks L (applyFlowFeeDebt E w v fee) L"
  by (auto simp: applyFlowFeeDebt_def intro: versioned_rewrite split: option.splits sum.splits)

lemma flag_versions: "reservations_balanced L \<Longrightarrow> tracks L (flagFlowBaselineReset now uuid w v) L"
  by (auto simp: flagFlowBaselineReset_def recordFlowEvent_def flagBaselineReset_def intro: versioned_rewrite
      split: option.splits)

lemma refreshed_version [simp]: "pos_version (refreshedPosition r b) = pos_version (rf_position r) + 1"
  by (simp add: refreshedPosition_def)

lemma gate_stays: "gates m M \<Longrightarrow> tracked L M \<Longrightarrow> stays L m M"
  by (rule gates_then) (auto simp: tracked_def versioned_def gated_frame(6) intro: balanced_gated)

lemma stays_read: "tracked L M \<Longrightarrow> stays L (readA f) M" "tracked L M \<Longrightarrow> stays L (liftR r) M"
  "tracked L M \<Longrightarrow> stays L (getsA g) M" "tracked L M \<Longrightarrow> stays L (assertA c e) M"
  "tracked L M \<Longrightarrow> stays L (returnA x) M"
  by (auto split: sum.splits)

lemma stays_store: "tracked L M \<Longrightarrow> stays L (storeDeposit d) M" "tracked L M \<Longrightarrow> stays L (storeWithdrawal z) M"
  by (simp_all add: storeDeposit_def storeWithdrawal_def tracked_def)

lemma stays_pending: "tracked L M \<Longrightarrow> stays L (assertNoPendingFlow now w v) M"
  "tracked L M \<Longrightarrow> stays L (assertNoLivePayments w v) M" "tracked L M \<Longrightarrow> stays L (expireStaleFlows now w v) M"
  by (auto simp: assertNoPendingFlow_def assertNoLivePayments_def expireStaleFlows_def split: sum.splits)
    (auto simp: tracked_def balanced_fold)

lemma stays_matching: "tracked L M \<Longrightarrow> stays L (requireMatchingShares now uuid p c u w v) M"
  by (auto simp: requireMatchingShares_def recordFlowEvent_def)

lemma stays_expire: "tracked L M \<Longrightarrow> plain w \<Longrightarrow> stays L (expirePreparedPaymentsForLockedPosition now w v) M"
  by (rule runs_mono[OF expire_versions]) (auto simp: tracked_def intro: versioned_trans)

lemmas section_stays = stays_read stays_store stays_pending stays_matching

lemma commit_stays:
  "tracked L M \<Longrightarrow> stays L (commitDeposit E now uuid w a auth p) M"
  "tracked L M \<Longrightarrow> stays L (commitWithdrawal E now uuid w a y auth p) M"
  unfolding commitDeposit_def commitWithdrawal_def storePreparedWithdrawal_def Let_def
  by ((intro stays_seq section_stays; assumption?)+)

context mandate_gate
begin

lemma prepare_stays:
  assumes E: "vf_mandates E = gate" and t: "tracked L M"
  shows "stays L (prepareDepositSection E now uuid w a i) M"
    and "plain w \<Longrightarrow> stays L (prepareWithdrawalSection E now uuid w a y) M"
  unfolding prepareDepositSection_def prepareWithdrawalSection_def Let_def
  by (intro stays_seq section_stays gate_stays[OF gates_deposit[OF E]] gate_stays[OF gates_withdrawal[OF E]]
      commit_stays stays_expire; (rule t | assumption)?)+

lemma submit_versions:
  assumes E: "vf_mandates E = gate"
  shows "tracks L (submitDepositSection E now k x) L" "tracks L (submitWithdrawalSection E now k x) L"
  by (auto simp: submitDepositSection_def submitWithdrawalSection_def storeDeposit_def storeWithdrawal_def
      intro!: gates_then[OF gates_assert(1)[OF E]] gates_then[OF gates_assert(2)[OF E]]
      dest: gated_frame(6) simp: versioned_same split: sum.splits)

lemma settle_stays:
  assumes E: "vf_mandates E = gate" and bal: "reservations_balanced L"
    and r: "\<And>x. r = Some x \<Longrightarrow> getPosition L w v = Some (rf_position x)"
  shows "runs (settleDepositOutcome E now uuid d latest c r n) L (\<lambda>_. tracked L) (\<lambda>_. tracked L)"
    and "runs (settleWithdrawalOutcome E now uuid z latest' c r n) L (\<lambda>_. tracked L) (\<lambda>_. tracked L)"
proof -
  have pos: "tracked L (savePosition (refreshedPosition x b) L)" if "r = Some x" for x b
    using balanced_rewrite[OF bal r[OF that]] versioned_rewrite[OF bal r[OF that]] by (simp add: tracked_def)
  have self: "tracked L L" using bal by (simp add: tracked_def)
  have fee: "runs (applyFlowFeeDebt E w' v' f) M Q Q'"
    if "tracked L M" "\<And>N. tracked L N \<Longrightarrow> Q () N" "\<And>e N. tracked L N \<Longrightarrow> Q' e N" for w' v' f M Q Q'
    by (rule runs_mono[OF runs_conj[OF keeps_fee_debt fee_debt_versions]])
      (use that versioned_trans in \<open>auto simp: tracked_def\<close>)
  have flag: "runs (flagFlowBaselineReset now uuid w' v') L Q Q'"
    if "\<And>N. tracked L N \<Longrightarrow> Q () N" "\<And>e N. tracked L N \<Longrightarrow> Q' e N" for w' v' Q Q'
    by (rule runs_mono[OF runs_conj[OF keeps_flag[OF bal] flag_versions[OF bal]]]) (use that in \<open>auto simp: tracked_def\<close>)
  have frames: "tracked L (saveDeposit y N)" "tracked L (saveWithdrawal y' N)" "tracked L (recordSyncEvent t u e N)"
    if "tracked L N" for y y' t u e N
    using that by (simp_all add: tracked_def)
  have consume: "runs (mo_consumeApproval m i j) M (\<lambda>_. tracked L) (\<lambda>_. tracked L)" if "gate = Some m" "tracked L M" for m i j M
    by (rule gates_then[OF gate_consume[OF that(1)]])
      (use that(2) in \<open>auto simp: tracked_def versioned_def gated_frame(6) intro: balanced_gated\<close>)
  show "runs (settleDepositOutcome E now uuid d latest c r n) L (\<lambda>_. tracked L) (\<lambda>_. tracked L)"
    using pos E by (auto simp: settleDepositOutcome_def storeDeposit_def recordFlowEvent_def Let_def frames
        intro!: fee flag consume split: option.splits)
  show "runs (settleWithdrawalOutcome E now uuid z latest' c r n) L (\<lambda>_. tracked L) (\<lambda>_. tracked L)"
    using pos E self by (auto simp: settleWithdrawalOutcome_def storeWithdrawal_def recordFlowEvent_def Let_def frames
        intro!: fee flag consume split: option.splits sum.splits)
qed

lemma finalize_flow_versions:
  assumes E: "vf_mandates E = gate" and bal: "reservations_balanced L"
  shows "tracks L (finalizeDepositSection E now uuid d c) L" "tracks L (finalizeWithdrawalSection E now uuid z c) L"
proof -
  have fee: "runs (applyFlowFeeDebt E w' v' f) L Q Q'"
    if "\<And>N. versioned L N \<Longrightarrow> Q () N" "\<And>e N. versioned L N \<Longrightarrow> Q' e N" for w' v' f Q Q'
    by (rule runs_mono[OF fee_debt_versions[OF bal]]) (use that in auto)
  have settle: "tracks L (settleDepositOutcome E now uuid d latest c r n) L"
    if "\<And>x. r = Some x \<Longrightarrow> getPosition L (dep_wallet d) (dep_vault d) = Some (rf_position x)" for latest r n
    by (rule runs_mono[OF settle_stays(1)[OF E bal that]]) (simp_all add: tracked_def)
  have settle': "tracks L (settleWithdrawalOutcome E now uuid z latest' c r n) L"
    if "\<And>x. r = Some x \<Longrightarrow> getPosition L (wdr_wallet z) (wdr_vault z) = Some (rf_position x)" for latest' r n
    by (rule runs_mono[OF settle_stays(2)[OF E bal that]]) (simp_all add: tracked_def)
  show "tracks L (finalizeDepositSection E now uuid d c) L" "tracks L (finalizeWithdrawalSection E now uuid z c) L"
    by (auto simp: finalizeDepositSection_def finalizeWithdrawalSection_def refreshPositionFromChain_def
        storeDeposit_def storeWithdrawal_def Let_def
        intro!: fee settle settle' split: option.splits sum.splits)
qed

end

section \<open>Steps\<close>

lemma stays_lock: "reservations_balanced L \<Longrightarrow> stays L m L \<Longrightarrow> tracks L (withLock PostgresLedger m) L"
  by (auto simp: runs_def withLock_def tracked_def split: prod.splits sum.splits)

lemma flow_step_versions:
  assumes "flow_step PostgresLedger now L L'" "reservations_balanced L"
  shows "versioned L L'"
  using assms
proof (induction rule: flow_step.induct)
  case (step_prepare_deposit E L uuid wi ai i)
  then obtain config nowMs uid where E: "vf_mandates E = map_option (\<lambda>M. mandateOps M nowMs uid) config"
    "vf_ledger E = PostgresLedger" by (auto simp: wired_def)
  have "tracks L (prepareDeposit E now uuid wi ai i) L"
    using step_prepare_deposit.prems
    by (auto simp: prepareDeposit_def E(2) tracked_def intro!: stays_lock guard.prepare_stays(1)[OF E(1)]
        split: sum.splits)
  then show ?case by (simp flip: runs_snd)
next
  case (step_prepare_withdrawal E L uuid y)
  then obtain config nowMs uid where E: "vf_mandates E = map_option (\<lambda>M. mandateOps M nowMs uid) config"
    "vf_ledger E = PostgresLedger" by (auto simp: wired_def)
  have "tracks L (prepareWithdrawal E now uuid y) L"
    using step_prepare_withdrawal.prems
    by (auto simp: prepareWithdrawal_def E(2) tracked_def intro!: stays_lock guard.prepare_stays(2)[OF E(1)]
        valid_address_plain split: sum.splits)
  then show ?case by (simp flip: runs_snd)
qed (auto simp: wired_def guard.submit_versions guard.finalize_flow_versions notSubmittedDepositSection_def
    notSubmittedWithdrawalSection_def expireDepositSection_def expireWithdrawalSection_def reportSection_def
    storeDeposit_def storeWithdrawal_def intro!: tracks_lock split: option.splits simp flip: runs_snd)

lemma system_step_versions:
  assumes "system_step E now L L'" "reservations_balanced L"
  shows "versioned L L'"
  using assms
proof cases
  case (system_prepare uuid evUuid x)
  then show ?thesis using prepare_versions[OF assms(2)] by (simp add: runs_snd)
qed (use assms(2) payment_step_versions flow_step_versions in auto)

end
