(* ===== verification/Chain_Sync.thy ===== *)
theory Chain_Sync
  imports Position_Versions Payment_Accounts
begin

text \<open>
  Syncing a position from the chain: \<open>src/src/domain/chain-wallet-sync.ts\<close> with the cost basis of
  \<open>src/src/kamino/api-client.ts\<close> and \<open>src/src/domain/kamino-normalization.ts\<close>. The context of the vault, the shares
  of a wallet and the answer of the Kamino API are parameters. The ledger may move between the
  first read of the position and the sync that ends the call.
\<close>

section \<open>The cost basis of the Kamino API\<close>

definition normalizeKaminoDecimalField ::
  "string \<Rightarrow> string \<Rightarrow> string \<Rightarrow> UnitKind \<Rightarrow> timestamp option \<Rightarrow> int option \<Rightarrow> ProvenancedRawValue result" where
  "normalizeKaminoDecimalField sourceEndpoint fieldPath rawValue unitKind observedAt observedSlot =
     (let decimals = (if unitKind = decimal_usdc then USDC_DECIMALS else SHARE_DECIMALS) in
      bindR (parseDecimalToRawUnits rawValue decimals fieldPath) (\<lambda>normalized.
      Inr \<lparr>pv_sourceEndpoint = sourceEndpoint, pv_fieldPath = fieldPath, pv_observedAt = observedAt,
           pv_observedSlot = observedSlot, pv_rawValue = rawValue, pv_unitKind = unitKind,
           pv_normalizedRawUnits = normalized\<rparr>))"

record KaminoPnlSnapshot =
  pn_costBasisRawUsdc :: "int option"
  pn_provenance :: "ProvenancedRawValue list"

text \<open>What the request brings: nothing (a timeout, a network failure or no JSON), an error status, or a body.\<close>

datatype pnl_response = PnlUnavailable | PnlNotOk | PnlBody json

text \<open>\<open>body[field]\<close> of a JSON value: a throw on null, and no member where there is no object.\<close>

definition body_field :: "json \<Rightarrow> string \<Rightarrow> json option result" where
  "body_field body field = (case body of
       JNull \<Rightarrow> Inl (JsError ''Cannot read properties of null'')
     | JObject members \<Rightarrow> Inr (Option.bind (map_of members field) (\<lambda>v. v))
     | _ \<Rightarrow> Inr None)"

fun find_string_field :: "json \<Rightarrow> string list \<Rightarrow> (string \<times> string) option result" where
  "find_string_field body [] = Inr None"
| "find_string_field body (field # rest) = bindR (body_field body field) (\<lambda>v. case v of
       Some (JString s) \<Rightarrow> Inr (Some (field, s))
     | _ \<Rightarrow> find_string_field body rest)"

definition COST_BASIS_FIELDS :: "string list" where
  "COST_BASIS_FIELDS = [''totalCostBasis'', ''costBasis'', ''netDeposits'']"

text \<open>\<open>baseUrl.replace(/\/$/, "")\<close>.\<close>

definition without_slash :: "string \<Rightarrow> string" where
  "without_slash s = (if s \<noteq> [] \<and> last s = CHR ''/'' then butlast s else s)"

definition pnlEndpoint :: "string \<Rightarrow> string \<Rightarrow> string \<Rightarrow> string" where
  "pnlEndpoint baseUrl wallet vault =
     without_slash baseUrl @ ''/kvaults/users/'' @ wallet @ ''/vaults/'' @ vault @ ''/pnl''"

definition getUserVaultPnl ::
  "string \<Rightarrow> (string \<Rightarrow> pnl_response) \<Rightarrow> int \<Rightarrow> string \<Rightarrow> string \<Rightarrow> KaminoPnlSnapshot option result" where
  "getUserVaultPnl baseUrl fetch now wallet vault =
     (let endpoint = pnlEndpoint baseUrl wallet vault;
          unknown = Some \<lparr>pn_costBasisRawUsdc = None, pn_provenance = []\<rparr>
      in case fetch endpoint of
           PnlUnavailable \<Rightarrow> Inr None
         | PnlNotOk \<Rightarrow> Inr None
         | PnlBody body \<Rightarrow> bindR (find_string_field body COST_BASIS_FIELDS) (\<lambda>f. case f of
               None \<Rightarrow> Inr unknown
             | Some (costBasisField, rawValue) \<Rightarrow>
                 (case parseDecimalToRawUnits rawValue USDC_DECIMALS costBasisField of
                    Inl _ \<Rightarrow> Inr unknown
                  | Inr _ \<Rightarrow> bindR (normalizeKaminoDecimalField endpoint costBasisField rawValue decimal_usdc
                      (Some (toISOString now)) None) (\<lambda>normalized.
                      Inr (Some \<lparr>pn_costBasisRawUsdc = Some (pv_normalizedRawUnits normalized),
                        pn_provenance = [normalized]\<rparr>)))))"

section \<open>The sync\<close>

record chain_sync =
  cs_vaultAddress :: string
  cs_loadContext :: "VaultContext result"
  cs_getUserSharesRaw :: "string \<Rightarrow> VaultContext \<Rightarrow> UserSharesRaw result"
  cs_apiClient :: "(string \<Rightarrow> string \<Rightarrow> KaminoPnlSnapshot option result) option"

record chain_basis =
  cb_principalBasisRawUsdc :: "int option"
  cb_principalBasisSource :: "PrincipalBasisSource option"
  cb_pnlSnapshot :: "ProvenancedRawValue list option"
  cb_forceConservativeReset :: bool

definition no_basis :: "bool \<Rightarrow> chain_basis" where
  "no_basis forced = \<lparr>cb_principalBasisRawUsdc = None, cb_principalBasisSource = None, cb_pnlSnapshot = None,
     cb_forceConservativeReset = forced\<rparr>"

definition chainBasis ::
  "chain_sync \<Rightarrow> string \<Rightarrow> bool \<Rightarrow> WalletPosition \<Rightarrow> VaultContext \<Rightarrow> UserSharesRaw \<Rightarrow> chain_basis result" where
  "chainBasis C wallet forced ledgerPosition context userShares =
     (if forced \<or> us_totalSharesRaw userShares = pos_totalSharesRaw ledgerPosition then Inr (no_basis forced)
      else if us_totalSharesRaw userShares < pos_totalSharesRaw ledgerPosition then Inr (no_basis True)
      else bindR (case cs_apiClient C of None \<Rightarrow> Inr None | Some pnlOf \<Rightarrow> pnlOf wallet (cs_vaultAddress C))
        (\<lambda>pnl. case Option.bind pnl (\<lambda>s. map_option (\<lambda>c. (s, c)) (pn_costBasisRawUsdc s)) of
           None \<Rightarrow> Inr (no_basis True)
         | Some (snapshot, costBasisRawUsdc) \<Rightarrow>
             bindR (mulDivCeil (us_totalSharesRaw userShares - pos_totalSharesRaw ledgerPosition)
               (vx_exchangeRateScaled context) RATE_SCALE) (\<lambda>added.
             Inr \<lparr>cb_principalBasisRawUsdc = Some (maxBigInt costBasisRawUsdc (pos_principalBasisRawUsdc ledgerPosition + added)),
               cb_principalBasisSource = Some kamino_pnl_current, cb_pnlSnapshot = Some (pn_provenance snapshot),
               cb_forceConservativeReset = False\<rparr>)))"

definition chainSyncInput :: "chain_sync \<Rightarrow> string \<Rightarrow> bool \<Rightarrow> WalletPosition \<Rightarrow> SyncWalletPositionInput result" where
  "chainSyncInput C wallet forced ledgerPosition =
     bindR (cs_loadContext C) (\<lambda>context.
     bindR (cs_getUserSharesRaw C wallet context) (\<lambda>userShares.
     bindR (chainBasis C wallet forced ledgerPosition context userShares) (\<lambda>basis.
     Inr \<lparr>sy_wallet = wallet, sy_vault = Some (cs_vaultAddress C),
          sy_expectedPositionVersion = Some (pos_version ledgerPosition),
          sy_stakedSharesRaw = Some (toString (us_stakedSharesRaw userShares)),
          sy_unstakedSharesRaw = Some (toString (us_unstakedSharesRaw userShares)),
          sy_totalSharesRaw = toString (us_totalSharesRaw userShares),
          sy_exchangeRateScaled = toString (vx_exchangeRateScaled context),
          sy_instantRedeemCapacityRawUsdc = toString (vx_instantRedeemCapacityRawUsdc context),
          sy_principalBasisRawUsdc = map_option toString (cb_principalBasisRawUsdc basis),
          sy_principalBasisSource = cb_principalBasisSource basis,
          sy_kaminoPnlSnapshot = cb_pnlSnapshot basis,
          sy_observedSlot = Some (vx_slot context),
          sy_sourceEndpoint = Some ''chain_rpc+kamino_pnl_api'',
          sy_forceConservativeReset = cb_forceConservativeReset basis\<rparr>)))"

text \<open>\<open>meanwhile\<close> is what other calls do to the ledger while this one reads the chain.\<close>

definition syncFromChain ::
  "chain_sync \<Rightarrow> payment_env \<Rightarrow> (ledger \<Rightarrow> ledger) \<Rightarrow> int \<Rightarrow> string \<Rightarrow> string \<Rightarrow> bool \<Rightarrow> (ledger, json) action" where
  "syncFromChain C E meanwhile now uuid wallet forced =
     bindA (getsA (\<lambda>L. getPosition L wallet (cs_vaultAddress C))) (\<lambda>found. case found of
       None \<Rightarrow> throwA (notFound ''wallet_not_registered'')
     | Some ledgerPosition \<Rightarrow>
         bindA (liftR (chainSyncInput C wallet forced ledgerPosition)) (\<lambda>x.
         bindA (modifyA meanwhile) (\<lambda>_.
         syncWalletPosition E now uuid x)))"

section \<open>What a sync leaves\<close>

inductive later :: "payment_env \<Rightarrow> int \<Rightarrow> ledger \<Rightarrow> int \<Rightarrow> ledger \<Rightarrow> bool" for E now L where
  later_same: "later E now L now L"
| later_step: "later E now L t M \<Longrightarrow> t \<le> t' \<Longrightarrow> system_step E t' M N \<Longrightarrow> later E now L t' N"

lemma later_tracked:
  "later E now L t M \<Longrightarrow> system_ok now L \<Longrightarrow> fees_nonneg E \<Longrightarrow> system_ok t M \<and> versioned L M"
proof (induction rule: later.induct)
  case (later_step t M t' N)
  then have "system_ok t' M" using exclusive_later by (auto simp: system_ok_def)
  then show ?case
    using system_step_ok[OF later_step.hyps(3) _ later_step.prems(2)] system_step_versions[OF later_step.hyps(3)]
      later_step.IH[OF later_step.prems] versioned_trans by (auto simp: system_ok_def)
qed simp

lemma parse_printed: "parseRawUnits (JsStr (toString n)) f = Inr m \<Longrightarrow> m = n \<and> 0 \<le> n"
proof -
  assume parsed: "parseRawUnits (JsStr (toString n)) f = Inr m"
  show ?thesis
  proof (cases "0 \<le> n")
    case True
    then show ?thesis using parsed BigInt_toString[OF True] by (auto simp: parseRawUnits_def split: if_splits)
  next
    case False
    then have "\<not> raw_integer (toString n)" by (simp add: toString_def is_digit_def)
    then show ?thesis using parsed by (simp add: parseRawUnits_def)
  qed
qed

text \<open>The section writes the synced position of the snapshot, which was taken of the current version.\<close>

lemma sync_locked_writes:
  assumes "reservations_balanced L" "plain w" "getPosition L w v = Some p"
  shows "runs (syncLockedPosition now uuid w v x) L
    (\<lambda>_ L'. \<exists>n f. parseSyncSnapshot p x = Inr n \<and> externalDepositFloorRawUsdc p n = Inr f \<and> \<not> staleSnapshot p x \<and>
       (let reset = runConservativeReset p (sy_forceConservativeReset x) n in
        getPosition L' w v = Some (syncedPosition p x n reset (nextPrincipalBasisRawUsdc p n reset f)))) (\<lambda>_ _. True)"
proof -
  have key: "pos_wallet p = w" "pos_vault p = v"
    using store_ok_position[OF balanced_store[OF assms(1)] assms(3,2)] by simp_all
  show ?thesis
    using assms(3) by (auto simp: syncLockedPosition_def Let_def key split: sum.splits)
qed

lemma chain_input:
  assumes "chainSyncInput C w forced p = Inr x"
  obtains ctx u b where "cs_loadContext C = Inr ctx" "cs_getUserSharesRaw C w ctx = Inr u"
    "chainBasis C w forced p ctx u = Inr b" "sy_forceConservativeReset x = cb_forceConservativeReset b"
    "sy_wallet x = w" "sy_vault x = Some (cs_vaultAddress C)" "sy_expectedPositionVersion x = Some (pos_version p)"
    "\<And>q n. parseSyncSnapshot q x = Inr n \<Longrightarrow> sn_totalSharesRaw n = us_totalSharesRaw u \<and>
       sn_exchangeRateScaled n = vx_exchangeRateScaled ctx \<and> sn_providedPrincipal n = cb_principalBasisRawUsdc b"
proof -
  obtain ctx u b where parts: "cs_loadContext C = Inr ctx" "cs_getUserSharesRaw C w ctx = Inr u"
    "chainBasis C w forced p ctx u = Inr b"
    and x: "x = \<lparr>sy_wallet = w, sy_vault = Some (cs_vaultAddress C),
          sy_expectedPositionVersion = Some (pos_version p),
          sy_stakedSharesRaw = Some (toString (us_stakedSharesRaw u)),
          sy_unstakedSharesRaw = Some (toString (us_unstakedSharesRaw u)),
          sy_totalSharesRaw = toString (us_totalSharesRaw u),
          sy_exchangeRateScaled = toString (vx_exchangeRateScaled ctx),
          sy_instantRedeemCapacityRawUsdc = toString (vx_instantRedeemCapacityRawUsdc ctx),
          sy_principalBasisRawUsdc = map_option toString (cb_principalBasisRawUsdc b),
          sy_principalBasisSource = cb_principalBasisSource b, sy_kaminoPnlSnapshot = cb_pnlSnapshot b,
          sy_observedSlot = Some (vx_slot ctx), sy_sourceEndpoint = Some ''chain_rpc+kamino_pnl_api'',
          sy_forceConservativeReset = cb_forceConservativeReset b\<rparr>"
    using assms by (auto simp: chainSyncInput_def bindR_Inr)
  have read: "sn_totalSharesRaw n = us_totalSharesRaw u \<and> sn_exchangeRateScaled n = vx_exchangeRateScaled ctx \<and>
      sn_providedPrincipal n = cb_principalBasisRawUsdc b" if "parseSyncSnapshot q x = Inr n" for q n
    using that unfolding parseSyncSnapshot_def x
    by (cases "cb_principalBasisRawUsdc b")
      (auto simp: bindR_Inr parsePositiveRawUnits_def checkR_def dest!: parse_printed split: if_splits)
  show ?thesis by (rule that[OF parts _ _ _ _ read]) (simp_all add: x)
qed

lemma value_of_more_shares:
  fixes total old rate added :: int
  assumes "(total - old) * rate \<le> added * RATE_SCALE"
  shows "total * rate div RATE_SCALE \<le> old * rate div RATE_SCALE + added"
proof -
  have "total * rate \<le> old * rate + added * RATE_SCALE" using assms by (simp add: algebra_simps)
  then have "total * rate div RATE_SCALE \<le> (old * rate + added * RATE_SCALE) div RATE_SCALE"
    by (rule zdiv_mono1) (simp add: RATE_SCALE_pos)
  then show ?thesis by (simp add: RATE_SCALE_def)
qed

lemma basis_covers:
  assumes b: "chainBasis C w forced p ctx u = Inr b"
    and n: "sn_totalSharesRaw n = us_totalSharesRaw u" "sn_exchangeRateScaled n = vx_exchangeRateScaled ctx"
      "sn_providedPrincipal n = cb_principalBasisRawUsdc b"
      "sn_currentPositionValueRawUsdc n = sn_totalSharesRaw n * sn_exchangeRateScaled n div RATE_SCALE"
  defines "reset \<equiv> runConservativeReset p (cb_forceConservativeReset b) n"
  shows "sn_currentPositionValueRawUsdc n - nextPrincipalBasisRawUsdc p n reset f
      \<le> max 0 (pos_totalSharesRaw p * sn_exchangeRateScaled n div RATE_SCALE - pos_principalBasisRawUsdc p)"
    and "forced \<or> us_totalSharesRaw u < pos_totalSharesRaw p \<Longrightarrow> reset"
proof -
  show *: "forced \<or> us_totalSharesRaw u < pos_totalSharesRaw p \<Longrightarrow> reset"
    using b by (auto simp: reset_def runConservativeReset_def chainBasis_def no_basis_def split: if_splits)
  show "sn_currentPositionValueRawUsdc n - nextPrincipalBasisRawUsdc p n reset f
      \<le> max 0 (pos_totalSharesRaw p * sn_exchangeRateScaled n div RATE_SCALE - pos_principalBasisRawUsdc p)"
  proof (cases reset)
    case True
    then show ?thesis by (simp add: nextPrincipalBasisRawUsdc_def)
  next
    case False
    have "\<not> forced" using * False by blast
    have "pos_totalSharesRaw p \<le> us_totalSharesRaw u" using * False by (meson not_less)
    show ?thesis
    proof (cases "us_totalSharesRaw u = pos_totalSharesRaw p")
      case True
      then have "sn_providedPrincipal n = None" using b \<open>\<not> forced\<close> by (auto simp: n(3) chainBasis_def no_basis_def)
      then show ?thesis using False True by (simp add: nextPrincipalBasisRawUsdc_def n)
    next
      case moved: False
      then obtain c added where added: "mulDivCeil (us_totalSharesRaw u - pos_totalSharesRaw p)
          (vx_exchangeRateScaled ctx) RATE_SCALE = Inr added"
        and provided: "sn_providedPrincipal n = Some (maxBigInt c (pos_principalBasisRawUsdc p + added))"
        using b \<open>\<not> forced\<close> \<open>pos_totalSharesRaw p \<le> us_totalSharesRaw u\<close> False
        by (auto simp: chainBasis_def bindR_Inr n(3) reset_def runConservativeReset_def no_basis_def split: option.splits)
      have "pos_principalBasisRawUsdc p + added \<le> nextPrincipalBasisRawUsdc p n reset f"
        using False provided by (auto simp: nextPrincipalBasisRawUsdc_def maxBigInt_def)
      moreover have "sn_currentPositionValueRawUsdc n
          \<le> pos_totalSharesRaw p * sn_exchangeRateScaled n div RATE_SCALE + added"
        using value_of_more_shares[OF mulDivCeil_bound[OF added]] by (simp add: n)
      ultimately show ?thesis by linarith
    qed
  qed
qed

text \<open>
  C11: a sync from the chain never creates yield. Whatever other calls of the payment service and
  the vault flows do to the ledger while the chain is read, a sync that returns has found the
  position as it was before the first read; afterwards the position shows the shares and the rate
  of the chain, and its value above the principal is at most what the shares it had before are worth above the
  old principal at the new rate, and nothing when shares have left or a reset is forced. So no
  deposit from outside and no reported cost basis turns into spendable yield.
\<close>

theorem chain_sync_creates_no_yield:
  assumes "reaches E t0 L" "fees_nonneg E" "later E t0 L t M"
    and sync: "syncFromChain C E (\<lambda>_. M) now uuid w forced L = (Inr j, L')"
  shows "\<exists>ctx u p p'. cs_loadContext C = Inr ctx \<and> cs_getUserSharesRaw C w ctx = Inr u
    \<and> getPosition L w (cs_vaultAddress C) = Some p \<and> getPosition M w (cs_vaultAddress C) = Some p
    \<and> getPosition L' w (cs_vaultAddress C) = Some p'
    \<and> pos_totalSharesRaw p' = us_totalSharesRaw u \<and> pos_exchangeRateScaled p' = vx_exchangeRateScaled ctx
    \<and> position_value p' - pos_principalBasisRawUsdc p'
        \<le> max 0 (pos_totalSharesRaw p * pos_exchangeRateScaled p' div RATE_SCALE - pos_principalBasisRawUsdc p)
    \<and> (forced \<or> us_totalSharesRaw u < pos_totalSharesRaw p \<longrightarrow> pos_principalBasisRawUsdc p' = position_value p')"
proof -
  let ?v = "cs_vaultAddress C"
  have M: "reservations_balanced M" "versioned L M"
    using later_tracked[OF assms(3) reaches_ok[OF assms(1,2)] assms(2)] by (simp_all add: system_ok_def)
  obtain p x where p: "getPosition L w ?v = Some p" and x: "chainSyncInput C w forced p = Inr x"
    and run: "syncWalletPosition E now uuid x M = (Inr j, L')"
    using sync by (auto simp: syncFromChain_def action_defs split: option.splits sum.splits)
  from x obtain ctx u b where parts: "cs_loadContext C = Inr ctx" "cs_getUserSharesRaw C w ctx = Inr u"
    "chainBasis C w forced p ctx u = Inr b" "sy_forceConservativeReset x = cb_forceConservativeReset b"
    "sy_wallet x = w" "sy_vault x = Some ?v" "sy_expectedPositionVersion x = Some (pos_version p)"
    and read: "\<And>q n. parseSyncSnapshot q x = Inr n \<Longrightarrow> sn_totalSharesRaw n = us_totalSharesRaw u \<and>
       sn_exchangeRateScaled n = vx_exchangeRateScaled ctx \<and> sn_providedPrincipal n = cb_principalBasisRawUsdc b"
    by (rule chain_input) blast
  have w: "valid_address w" and locked: "syncLockedPosition now uuid w ?v x M = (Inr j, L')"
    using run parts(5,6) by (auto simp: syncWalletPosition_def action_defs withLock_Inr Let_def split: if_splits)
  obtain q where q: "getPosition M w ?v = Some q"
    using locked by (auto simp: syncLockedPosition_def action_defs split: option.splits)
  obtain n f where n: "parseSyncSnapshot q x = Inr n" "\<not> staleSnapshot q x"
    and L': "let reset = runConservativeReset q (sy_forceConservativeReset x) n in
        getPosition L' w ?v = Some (syncedPosition q x n reset (nextPrincipalBasisRawUsdc q n reset f))"
    using runs_InrD[OF sync_locked_writes[OF M(1) valid_address_plain[OF w] q] locked] by blast
  have "pos_version q = pos_version p" using n(2) parts(7) by (simp add: staleSnapshot_def)
  then have same: "q = p" using M(2) p q valid_address_plain[OF w] by (force simp: versioned_def moved_def)
  note numbers = read[OF n(1)] snapshot_facts(2)[OF n(1)]
  define reset where "reset = runConservativeReset p (cb_forceConservativeReset b) n"
  let ?p' = "syncedPosition p x n reset (nextPrincipalBasisRawUsdc p n reset f)"
  have p': "getPosition L' w ?v = Some ?p'" using L' by (simp add: same parts(4) reset_def Let_def)
  have worth: "position_value ?p' = sn_currentPositionValueRawUsdc n"
    using numbers by (simp add: position_value_def syncedPosition_def)
  note covers = basis_covers(1)[OF parts(3), of n f, folded reset_def] basis_covers(2)[OF parts(3), of n, folded reset_def]
  have "position_value ?p' - pos_principalBasisRawUsdc ?p'
      \<le> max 0 (pos_totalSharesRaw p * pos_exchangeRateScaled ?p' div RATE_SCALE - pos_principalBasisRawUsdc p)"
    using covers(1) numbers worth by (simp add: syncedPosition_def)
  moreover have "forced \<or> us_totalSharesRaw u < pos_totalSharesRaw p \<longrightarrow> pos_principalBasisRawUsdc ?p' = position_value ?p'"
    using covers(2) numbers worth by (auto simp: syncedPosition_def nextPrincipalBasisRawUsdc_def)
  moreover have "pos_totalSharesRaw ?p' = us_totalSharesRaw u" "pos_exchangeRateScaled ?p' = vx_exchangeRateScaled ctx"
    using numbers by (simp_all add: syncedPosition_def)
  ultimately show ?thesis using parts(1,2) p q same p' by blast
qed

subsection \<open>On a concrete chain\<close>

definition chain_context :: VaultContext where
  "chain_context = \<lparr>vx_slot = 7, vx_exchangeRateScaled = 1000000000000, vx_tokenAvailableRaw = 5000000,
     vx_instantRedeemCapacityRawUsdc = 5000000, vx_singleInstructionRedeemCapacityRawUsdc = 5000000,
     vx_bestReserve = None, vx_reserveExecutableLiquidity = [], vx_withdrawalPenaltyBps = 0,
     vx_withdrawalPenaltyLamports = 0, vx_minWithdrawAmountRaw = 0, vx_minDepositAmountRaw = 0,
     vx_blockhash = ''hash'', vx_lastValidBlockHeight = 9\<rparr>"

definition chain_body :: json where
  "chain_body = JObject [(''netDeposits'', Some (JString ''1'')), (''costBasis'', Some (JString ''1.5''))]"

definition sample_chain :: chain_sync where
  "sample_chain = \<lparr>cs_vaultAddress = sample_vault, cs_loadContext = Inr chain_context,
     cs_getUserSharesRaw = (\<lambda>_ _. Inr \<lparr>us_stakedSharesRaw = 0, us_unstakedSharesRaw = 2000000, us_totalSharesRaw = 2000000\<rparr>),
     cs_apiClient = Some (getUserVaultPnl ''https://api.kamino.finance/'' (\<lambda>_. PnlBody chain_body) 0)\<rparr>"

lemma sample_cost: "parseDecimalToRawUnits ''1.5'' USDC_DECIMALS ''costBasis'' = Inr 1500000"
  by code_simp

lemma sample_pnl: "\<exists>s. getUserVaultPnl base (\<lambda>_. PnlBody chain_body) now w v = Inr (Some s)
    \<and> pn_costBasisRawUsdc s = Some 1500000"
  by (simp add: getUserVaultPnl_def chain_body_def COST_BASIS_FIELDS_def body_field_def Let_def
      normalizeKaminoDecimalField_def sample_cost)

lemma print_parsed [simp]: "0 \<le> n \<Longrightarrow> parseRawUnits (JsStr (toString n)) f = Inr n"
  using BigInt_toString[of n] by (simp add: parseRawUnits_def)

lemma registered_reachable: "reaches sample_env 0 (savePosition run_registered empty_ledger)"
proof -
  have "payment_step sample_env empty_ledger (savePosition run_registered empty_ledger)"
    using step_register[of sample_env empty_ledger run_registration] by (simp add: run_register)
  moreover have "progress empty_ledger (savePosition run_registered empty_ledger)" by (simp add: progress_same)
  ultimately show ?thesis
    using reaches_step[OF reaches_start[of sample_env 0], of 0] system_payment[of sample_env] by simp
qed

lemma chain_budget_json:
  assumes "sn_totalSharesRaw n = 2000000" "sn_stakedSharesRaw n = 0" "sn_unstakedSharesRaw n = 2000000"
    "sn_exchangeRateScaled n = 1000000000000" "sn_instantRedeemCapacityRawUsdc n = 5000000"
  shows "\<exists>j. serializeBudget (syncedPosition run_registered x n False 2000000) = Inr j"
proof -
  let ?p = "syncedPosition run_registered x n False 2000000"
  have "\<exists>j. serializeWalletPosition ?p = Inr j"
    by (simp add: serializeWalletPosition_def objR_def raw_Inr syncedPosition_def assms)
      (simp add: run_registered_def initialPosition_def run_registration_def raw_Inr)
  moreover have "pos_safetyBufferRawUsdc ?p = 0" "pos_feeDebtRawUsdc ?p = 0"
    by (simp_all add: syncedPosition_def run_registered_def initialPosition_def run_registration_def)
  moreover have "pos_totalSharesRaw ?p = 2000000" "pos_exchangeRateScaled ?p = 1000000000000"
    "pos_principalBasisRawUsdc ?p = 2000000" by (simp_all add: syncedPosition_def assms)
  ultimately show ?thesis
    by (auto simp: serializeBudget_def objR_def computeBudgetSnapshot_def computePositionValueRawUsdc_def
        mulDivFloor_def RATE_SCALE_def Let_def clampToZero_def raw_Inr)
qed

lemma sample_chain_sync:
  "\<exists>j L'. syncFromChain sample_chain sample_env (\<lambda>_. savePosition run_registered empty_ledger) 0 ''e1'' sample_wallet False
     (savePosition run_registered empty_ledger) = (Inr j, L')"
proof -
  obtain s where s: "getUserVaultPnl ''https://api.kamino.finance/'' (\<lambda>_. PnlBody chain_body) 0 sample_wallet sample_vault = Inr (Some s)"
    "pn_costBasisRawUsdc s = Some 1500000" using sample_pnl by blast
  show ?thesis
    by (auto simp: syncFromChain_def action_defs chainSyncInput_def sample_chain_def chain_context_def chainBasis_def s
        mulDivCeil_def ceilDiv_def RATE_SCALE_def maxBigInt_def
        syncWalletPosition_def syncLockedPosition_def Let_def staleSnapshot_def sample_vault_config_def
        parseSyncSnapshot_def parsePositiveRawUnits_def checkR_def computePositionValueRawUsdc_def mulDivFloor_def
        runConservativeReset_def hasEstablishedBaseline_def externalDepositFloorRawUsdc_def nextPrincipalBasisRawUsdc_def
        chain_budget_json split: sum.splits)
qed

text \<open>
  A first sync finds two USDC worth of shares and a reported cost of 1.5 USDC: all of it is principal.
\<close>

theorem chain_sync_creates_no_yield_witness:
  "\<exists>j L' p'. syncFromChain sample_chain sample_env (\<lambda>_. savePosition run_registered empty_ledger) 0 ''e1'' sample_wallet False
     (savePosition run_registered empty_ledger) = (Inr j, L')
   \<and> getPosition L' sample_wallet sample_vault = Some p' \<and> pos_totalSharesRaw p' = 2000000
   \<and> position_value p' \<le> pos_principalBasisRawUsdc p'"
proof -
  obtain j L' where run: "syncFromChain sample_chain sample_env (\<lambda>_. savePosition run_registered empty_ledger) 0 ''e1''
      sample_wallet False (savePosition run_registered empty_ledger) = (Inr j, L')"
    using sample_chain_sync by blast
  have v: "cs_vaultAddress sample_chain = sample_vault" by (simp add: sample_chain_def)
  have "getPosition (savePosition run_registered empty_ledger) sample_wallet sample_vault = Some run_registered" by simp
  with chain_sync_creates_no_yield[OF registered_reachable fees_sample later_same run]
  show ?thesis using run unfolding v by (auto simp: sample_chain_def)
qed

end
