(* ===== verification/Spec2Isabelle.thy ===== *)
theory Spec2Isabelle
  imports Payment_Accounts System_Safety Flow_Outcomes Mandate_Outcomes Intent_Outcomes X402_Payer_Outcomes
    Vault_Client_Outcomes Submission_Outcomes Payload_Verifier Wallet_Auth Fee_Oracle Rate_Limit X402_Client
    Paid_Fetch_Safety Settlement_Canonical Pg_History Chain_Sync
begin

text \<open>
  A verification development for the Subly payment relayer (\<open>src/src/\<close>): the service that
  lets an agent pay x402 sellers out of the yield of a Kamino vault position and never out of
  its principal, and the client an agent runs against it.

  \<^bold>\<open>The program.\<close> A relayer keeps a ledger of wallet positions, payments, deposits, withdrawals,
  mandates, approvals and sessions. Three services work on it: the payment service prepares a
  payment under a budget and settles it on chain, the vault flow service moves funds in and out
  of the vault, and the spending mandate service decides what an agent may realize without its
  owner. They share the ledger, the lock of a wallet and vault, and the position maintenance. The
  client half checks every transaction before it signs and pays standard x402 sellers with a
  durable record of each step.

  \<^bold>\<open>Foundations.\<close> \<open>Prelude\<close> has results, actions that may throw (state passing in which a throw
  keeps the writes made before it), the calculus \<open>runs\<close> for them, insertion-ordered maps and time.
  \<open>Raw_Units\<close> (\<open>lib/raw-units.ts\<close>), \<open>Canonical_Json\<close> (\<open>lib/hash.ts\<close>, \<open>lib/canonical-json.ts\<close>,
  \<open>domain/request-binding.ts\<close>), \<open>Solana_Address\<close> (\<open>lib/solana-address.ts\<close>) and
  \<open>Token_Accounts\<close> (\<open>lib/associated-token-account.ts\<close>) are the pure libraries; \<open>Models\<close> is
  \<open>domain/models.ts\<close>, record by record, and \<open>Samples\<close> holds the concrete records of the witnesses.
  Proved of them: exact parsing and printing, an unambiguous canonical text, a binding hash that
  pins the request, and a token account that is the greatest bump off the curve, the
  square-and-multiply test being the true powers modulo the prime.

  \<^bold>\<open>Ledger.\<close> \<open>Ledger_Store\<close> is \<open>domain/ledger.ts\<close>: the tables, the queries and the lock
  \<open>withLock\<close> under either ledger (the in-memory one keeps the writes of a section that throws, the
  PostgreSQL one rolls them back except for an approval request). Locale \<open>ledger_table\<close> states what the services
  rely on and is interpreted on every table; locale \<open>lock_discipline\<close> states what a section leaves.
  \<open>Position_Maintenance\<close> is \<open>domain/position-maintenance.ts\<close> with the balance of the reserved amount.
  \<open>Pg_Rows\<close> and \<open>Pg_Ledger\<close> are \<open>domain/postgres-ledger.ts\<close>: the JSON of a row, in which a big integer is a
  string, and each statement over tables of rows, with the unique index of live payments. \<open>Pg_Roundtrip\<close>
  proves that a stored record is read back; locale \<open>row_store\<close> in \<open>Pg_Refinement\<close> is what a table keeps
  under upserts, interpreted on positions, payments, deposits and withdrawals; \<open>Pg_History\<close>
  proves that along every history of writes the tables answer like the in-memory store. Relied on are a
  \<open>jsonb\<close> column that keeps an object up to the order of its members and an \<open>order by\<close> that sorts.

  \<^bold>\<open>Payments.\<close> \<open>Budget\<close> (\<open>domain/budget.ts\<close>), \<open>Views\<close>, \<open>Payment_Core\<close> and \<open>Payment_Service\<close> are
  \<open>domain/payment-service.ts\<close>: each handler is an action, what runs under the lock is one section,
  and the clock reading of a section and the random identifiers are arguments. \<open>Intent_Machine\<close> is
  the abstract store of intents (locales \<open>intent_rules\<close> and \<open>intent_machine\<close>); \<open>Payment_Machine\<close>,
  \<open>Payment_Safety\<close> and \<open>Payment_Balance\<close> show that every section is a step of it and keeps the
  reservations balanced, so that the same holds of every interleaving. \<open>Payment_Outcomes\<close> and
  \<open>Payment_Accounts\<close> hold the properties, \<open>Payment_Samples\<close> and \<open>Payment_Run\<close> the runs behind the
  witnesses.

  \<^bold>\<open>Vault flows.\<close> \<open>Vault_Math\<close> is the arithmetic of \<open>kamino/vault-adapter.ts\<close>, with the loop for the
  gross withdrawal proved to end at the least amount that nets the target. \<open>Vault_Core\<close>,
  \<open>Flow_Views\<close> and \<open>Flow_Service\<close> are \<open>domain/vault-flow-service.ts\<close>; \<open>Flow_Machine\<close>, \<open>Flow_Steps\<close>,
  \<open>Flow_Safety\<close> and \<open>Flow_Balance\<close> are its steps and invariants, \<open>Flow_Run\<close> and \<open>Flow_Outcomes\<close> its runs
  and properties. \<open>System_Steps\<close> and \<open>System_Safety\<close> put payments and flows on one ledger, with a
  clock that never runs backwards: they exclude each other on a position. \<open>Position_Versions\<close> proves that
  no section of either changes a position without raising its version, and \<open>Chain_Sync\<close>
  (\<open>domain/chain-wallet-sync.ts\<close>, \<open>kamino/api-client.ts\<close>, \<open>domain/kamino-normalization.ts\<close>) rests on it:
  a sync from the chain, other calls running while it reads, never creates yield.

  \<^bold>\<open>Mandates.\<close> \<open>WebAuthn_Owner\<close> (\<open>domain/webauthn-owner.ts\<close>), \<open>Mandate_Document\<close>
  (\<open>domain/spending-mandate.ts\<close>), \<open>Mandate_Service\<close>, \<open>Mandate_Enforcement\<close> and \<open>Mandate_Sessions\<close>
  (\<open>domain/spending-mandate-service.ts\<close>). \<open>Mandate_Machine\<close> says how a mandate, an approval and a session
  may change and whose signature that takes; \<open>Mandate_Steps\<close> and \<open>Mandate_Safety\<close> lift it to every
  reachable configuration, \<open>Mandate_Run\<close> and \<open>Mandate_Outcomes\<close> hold the runs and the properties. Locale
  \<open>mandate_gate\<close> is the contract the vault flows rely on, interpreted on the mandate service.

  \<^bold>\<open>Client.\<close> \<open>Intent_Wire\<close> and \<open>Intent_Validator\<close> are \<open>client/transaction-intent-validator.ts\<close>;
  \<open>Intent_Grammar\<close> gives the grammars of what the three validators accept and \<open>Intent_Outcomes\<close> proves
  them exact. \<open>X402_Challenge\<close> (\<open>x402/headers.ts\<close>, \<open>x402/standard-requirements.ts\<close>) and \<open>X402_Payer\<close>
  (\<open>client/standard-x402-payer.ts\<close>) are the buyer; \<open>X402_Payer_Safety\<close> and \<open>X402_Payer_Outcomes\<close> prove
  crash safety: a log lists the effects and the writes to disk in their order, and a crash leaves a
  prefix of it. \<open>Vault_Client\<close> is the client of the vault flows with the preview, the validate-then-sign
  boundary and the realizer of a payment (\<open>client/vault-flows.ts\<close>, \<open>withdrawal-preview.ts\<close>,
  \<open>agent-wallet-signer.ts\<close>, \<open>relayer-yield-realizer.ts\<close>); \<open>Vault_Client_Outcomes\<close> characterises when it
  submits and when a failure is safe to retry, which is what the payer relies on.

  \<^bold>\<open>Settlement.\<close> \<open>Settlement_Builder\<close> (\<open>domain/kamino-transaction-builder.ts\<close> and the withdraw
  instructions of \<open>kamino/vault-adapter.ts\<close>) assembles the canonical transaction, with the probe loop of
  at most four simulations; \<open>Settlement_Canonical\<close> proves that what it returns passes the checks of the
  agent's signer, for any answers of the node. \<open>Payload_Verifier\<close> (\<open>domain/payment-payload-verifier.ts\<close>) checks the signed payload,
  \<open>Fee_Oracle\<close> (\<open>domain/fee-estimator.ts\<close>, \<open>pyth-fee-estimator.ts\<close>) prices the fee, and \<open>Submission\<close>
  (\<open>solana/submission.ts\<close>, \<open>domain/kamino-settlement-submitter.ts\<close>) signs, sends, confirms and reconciles
  over a node of which every answer is an input. \<open>Submission_Outcomes\<close> composes it with the payment
  service: a submission reported as not submitted was refused before it was sent or can never land, the
  reconciliation misses exactly the landings between its two questions, a racing call can reopen a
  request whose transaction is broadcast, and what has landed is booked. \<open>Wallet_Auth\<close> (\<open>api/wallet-auth.ts\<close>,
  \<open>client/wallet-auth-headers.ts\<close>) authenticates a request by a signed line, \<open>Rate_Limit\<close>
  (\<open>x402/rate-limit.ts\<close>, \<open>domain/metrics.ts\<close>) bounds what a key is granted.

  \<^bold>\<open>The yield scheme.\<close> \<open>Subly_Header\<close> completes \<open>x402/headers.ts\<close> with the encoder and the schemas of
  the \<open>subly-yield-exact\<close> scheme, \<open>Seller_Gate\<close> is the seller's side (\<open>x402/seller.ts\<close>) and
  \<open>X402_Client\<close> the buyer's (\<open>x402/client.ts\<close>), with the theorem that an honest retry reaches the
  settlement. \<open>Paid_Fetch\<close> is \<open>client/paid-fetch.ts\<close>, and \<open>Paid_Fetch_Safety\<close> shows over calls, failing
  writes and crashes that a new payment of a URL waits until the answers of a call have closed
  every earlier one; its history keeps each call with its answers.

  \<^bold>\<open>Conventions.\<close> An error is its code and HTTP status. Amounts are unbounded integers, as \<open>bigint\<close> is;
  a byte is an 8-bit word and the signature count of a transaction a 32-bit word, with the sign bit
  of JavaScript's shifts. Hashes, signatures, base58, the JSON parser, the RPC node, the Kamino
  SDK and the transaction builders are fields of an environment record, and the laws used of them
  are hypotheses of the properties, with a witness at a concrete environment. No definition takes
  fuel: loops are structural or proved to terminate. A section reads the clock once, where the
  source may read it more than once. Only the limiter computes with fractions, exact rationals here
  and doubles in the source.

  \<^bold>\<open>Not modelled.\<close> The liquidity policies, the schema migration and the connections of
  \<open>domain/postgres-ledger.ts\<close>, HTTP routing, request schemas and pages (\<open>api/\<close>), the packages that
  encode instructions and compile transactions and the builders of deposits and withdrawals over them,
  custody signers, environment parsing, the command line and
  MCP front ends, and the demo and deployment scripts.
\<close>

end
